(* ===== verification/Prelude.thy ===== *)
theory Prelude
  imports Complex_Main "HOL-Library.Multiset" "HOL-Library.Char_ord" "HOL-Library.List_Lexorder"
    "HOL-Library.Code_Target_Numeral"
begin

text \<open>
  Shared vocabulary of the development: the part of Go's standard library that the modelled
  packages call (\<^verbatim>\<open>strings\<close>, \<^verbatim>\<open>sort\<close>, \<^verbatim>\<open>net.SplitHostPort\<close>, \<^verbatim>\<open>time\<close>), the generic lemmas on
  lists, and the two locales that every component reuses: the documented contract of
  \<^verbatim>\<open>sort.Slice\<close> and the invariant principle for transition systems.

  A Go string is a \<^typ>\<open>string\<close>, that is a list of bytes. The case mapping and the white-space
  set are those Go applies to ASCII text; bytes outside ASCII are left alone, so the model is
  exact for ASCII input. A \<^verbatim>\<open>time.Time\<close> and a \<^verbatim>\<open>time.Duration\<close> are integers (nanoseconds).
\<close>

type_synonym time = int
type_synonym duration = int

named_theorems go_string_defs "definitions of the string library, to be unfolded in evaluation"

text \<open>Two's complement wrap-around of \<^verbatim>\<open>int64\<close> arithmetic.\<close>

definition wrap64 :: "int \<Rightarrow> int" where
  "wrap64 x = (x + 2 ^ 63) mod 2 ^ 64 - 2 ^ 63"

definition second :: duration where
  "second = 10 ^ 9"

section \<open>Go's string library\<close>

definition lower_char :: "char \<Rightarrow> char" where
  "lower_char c = (if 65 \<le> (of_char c :: nat) \<and> (of_char c :: nat) \<le> 90
     then char_of ((of_char c :: nat) + 32) else c)"

definition to_lower :: "string \<Rightarrow> string" where
  "to_lower s = map lower_char s"

definition is_space :: "char \<Rightarrow> bool" where
  "is_space c = ((of_char c :: nat) = 32 \<or> (9 \<le> (of_char c :: nat) \<and> (of_char c :: nat) \<le> 13))"

definition trim_left :: "(char \<Rightarrow> bool) \<Rightarrow> string \<Rightarrow> string" where
  "trim_left P s = dropWhile P s"

definition trim_right :: "(char \<Rightarrow> bool) \<Rightarrow> string \<Rightarrow> string" where
  "trim_right P s = rev (dropWhile P (rev s))"

definition trim_space :: "string \<Rightarrow> string" where
  "trim_space s = trim_right is_space (trim_left is_space s)"

definition canon :: "string \<Rightarrow> string" where
  "canon s = to_lower (trim_space s)"

definition equal_fold :: "string \<Rightarrow> string \<Rightarrow> bool" where
  "equal_fold a b = (to_lower a = to_lower b)"

fun has_prefix :: "string \<Rightarrow> string \<Rightarrow> bool" where
  "has_prefix s [] = True"
| "has_prefix [] (p # ps) = False"
| "has_prefix (c # s) (p # ps) = (c = p \<and> has_prefix s ps)"

definition has_suffix :: "string \<Rightarrow> string \<Rightarrow> bool" where
  "has_suffix s p = has_prefix (rev s) (rev p)"

fun contains :: "string \<Rightarrow> string \<Rightarrow> bool" where
  "contains [] p = (p = [])"
| "contains (c # s) p = (has_prefix (c # s) p \<or> contains s p)"

definition trim_prefix :: "string \<Rightarrow> string \<Rightarrow> string" where
  "trim_prefix s p = (if has_prefix s p then drop (length p) s else s)"

definition trim_suffix :: "string \<Rightarrow> string \<Rightarrow> string" where
  "trim_suffix s p = (if has_suffix s p then take (length s - length p) s else s)"

fun split_on :: "char \<Rightarrow> string \<Rightarrow> string list" where
  "split_on x [] = [[]]"
| "split_on x (c # s) =
     (if c = x then [] # split_on x s
      else (case split_on x s of [] \<Rightarrow> [[c]] | w # ws \<Rightarrow> (c # w) # ws))"

fun join_with :: "string \<Rightarrow> string list \<Rightarrow> string" where
  "join_with sep [] = []"
| "join_with sep [w] = w"
| "join_with sep (w # v # ws) = w @ sep @ join_with sep (v # ws)"

fun index_of :: "char \<Rightarrow> string \<Rightarrow> nat option" where
  "index_of x [] = None"
| "index_of x (c # s) = (if c = x then Some 0 else map_option Suc (index_of x s))"

definition last_index_of :: "char \<Rightarrow> string \<Rightarrow> nat option" where
  "last_index_of x s = map_option (\<lambda>i. length s - 1 - i) (index_of x (rev s))"

definition replace_char :: "char \<Rightarrow> char \<Rightarrow> string \<Rightarrow> string" where
  "replace_char a b s = map (\<lambda>c. if c = a then b else c) s"

text \<open>Decimal rendering of a number (\<^verbatim>\<open>%d\<close>).\<close>

fun nat_str :: "nat \<Rightarrow> string" where
  "nat_str n = (if n < 10 then [char_of (48 + n)] else nat_str (n div 10) @ [char_of (48 + n mod 10)])"

declare nat_str.simps [simp del]

text \<open>\<^verbatim>\<open>strings.ReplaceAll\<close> for a non-empty pattern; \<open>k\<close> counts the characters of a match still to skip.\<close>

fun replace_all_from :: "nat \<Rightarrow> string \<Rightarrow> string \<Rightarrow> string \<Rightarrow> string" where
  "replace_all_from k old new [] = []"
| "replace_all_from (Suc k) old new (c # s) = replace_all_from k old new s"
| "replace_all_from 0 old new (c # s) =
    (if has_prefix (c # s) old then new @ replace_all_from (length old - 1) old new s
     else c # replace_all_from 0 old new s)"

definition replace_all :: "string \<Rightarrow> string \<Rightarrow> string \<Rightarrow> string" where
  "replace_all s old new = replace_all_from 0 old new s"

text \<open>
  \<^verbatim>\<open>net.SplitHostPort\<close>: \<^term>\<open>None\<close> is the error, whose text no modelled caller looks at.
\<close>

definition split_host_port :: "string \<Rightarrow> (string \<times> string) option" where
  "split_host_port hp =
    (case last_index_of (CHR '':'') hp of
       None \<Rightarrow> None
     | Some i \<Rightarrow>
        (if hp \<noteq> [] \<and> hd hp = CHR ''['' then
          (case index_of (CHR '']'') hp of
             None \<Rightarrow> None
           | Some e \<Rightarrow>
              if e + 1 \<noteq> i then None
              else if CHR ''['' \<in> set (drop 1 hp) \<or> CHR '']'' \<in> set (drop (e + 1) hp) then None
              else Some (take (e - 1) (drop 1 hp), drop (i + 1) hp))
         else if CHR '':'' \<in> set (take i hp) \<or> CHR ''['' \<in> set hp \<or> CHR '']'' \<in> set hp then None
         else Some (take i hp, drop (i + 1) hp)))"

text \<open>Collecting the keys of a \<^verbatim>\<open>map[string]struct{}\<close> and sorting them (\<^verbatim>\<open>sort.Strings\<close>).\<close>

definition sorted_keys :: "string list \<Rightarrow> string list" where
  "sorted_keys xs = sort (remdups xs)"

lemmas [go_string_defs] =
  lower_char_def to_lower_def is_space_def trim_left_def trim_right_def trim_space_def canon_def
  equal_fold_def has_suffix_def trim_prefix_def trim_suffix_def last_index_of_def
  replace_char_def split_host_port_def sorted_keys_def

section \<open>Lemmas on the string library\<close>

lemma lower_char_idem [simp]: "lower_char (lower_char c) = lower_char c"
  by (auto simp: lower_char_def)

lemma to_lower_idem [simp]: "to_lower (to_lower s) = to_lower s"
  by (simp add: to_lower_def)

lemma to_lower_Nil [simp]: "to_lower [] = []"
  by (simp add: to_lower_def)

lemma to_lower_Nil_iff [simp]: "to_lower s = [] \<longleftrightarrow> s = []"
  by (simp add: to_lower_def)

lemma to_lower_append [simp]: "to_lower (s @ t) = to_lower s @ to_lower t"
  by (simp add: to_lower_def)

lemma length_to_lower [simp]: "length (to_lower s) = length s"
  by (simp add: to_lower_def)

lemma is_space_lower [simp]: "is_space (lower_char c) = is_space c"
  by (auto simp: is_space_def lower_char_def)

lemma dropWhile_map_lower:
  "dropWhile is_space (map lower_char s) = map lower_char (dropWhile is_space s)"
  by (induction s) auto

lemma to_lower_trim_space: "to_lower (trim_space s) = trim_space (to_lower s)"
  by (simp add: trim_space_def trim_left_def trim_right_def to_lower_def dropWhile_map_lower
      rev_map)

lemma dropWhile_idem: "dropWhile P (dropWhile P xs) = dropWhile P xs"
  by (induction xs) auto

lemma dropWhile_append_last: "\<not> P x \<Longrightarrow> dropWhile P (xs @ [x]) = dropWhile P xs @ [x]"
  by (induction xs) auto

lemma trim_right_left: "trim_left P (trim_right P (trim_left P s)) = trim_right P (trim_left P s)"
proof (cases "dropWhile P s")
  case Nil
  then show ?thesis unfolding trim_left_def trim_right_def by (simp only: dropWhile.simps rev.simps)
next
  case (Cons c t)
  then have c: "\<not> P c" by (metis dropWhile_eq_Cons_conv)
  have "dropWhile P (rev t @ [c]) = dropWhile P (rev t) @ [c]"
    using c by (rule dropWhile_append_last)
  with Cons c show ?thesis by (simp add: trim_left_def trim_right_def)
qed

lemma trim_right_idem: "trim_right P (trim_right P s) = trim_right P s"
  by (simp add: trim_right_def dropWhile_idem)

lemma trim_space_idem [simp]: "trim_space (trim_space s) = trim_space s"
  unfolding trim_space_def by (metis trim_right_left trim_right_idem)

lemma trim_space_Nil [simp]: "trim_space [] = []"
  by (simp add: trim_space_def trim_left_def trim_right_def)

lemma trim_space_plain: "list_all (\<lambda>c. \<not> is_space c) s \<Longrightarrow> trim_space s = s"
proof -
  have "dropWhile is_space t = t" if "list_all (\<lambda>c. \<not> is_space c) t" for t
    using that by (cases t) auto
  then show "list_all (\<lambda>c. \<not> is_space c) s \<Longrightarrow> trim_space s = s"
    by (simp add: trim_space_def trim_left_def trim_right_def)
qed

lemma canon_idem [simp]: "canon (canon s) = canon s"
  by (simp add: canon_def to_lower_trim_space[symmetric])

lemma canon_Nil [simp]: "canon [] = []"
  by (simp add: canon_def to_lower_def)

lemma canon_Nil_iff: "canon s = [] \<longleftrightarrow> trim_space s = []"
  by (simp add: canon_def)

lemma length_trim_space: "length (trim_space s) \<le> length s"
  unfolding trim_space_def trim_right_def trim_left_def
  by (metis length_dropWhile_le length_rev order_trans)

lemma set_trim_space: "set (trim_space s) \<subseteq> set s"
  unfolding trim_space_def trim_right_def trim_left_def
  by (auto dest!: set_dropWhileD)

lemma has_prefix_iff: "has_prefix s p \<longleftrightarrow> (\<exists>t. s = p @ t)"
  by (induction s p rule: has_prefix.induct) auto

lemma has_suffix_iff: "has_suffix s p \<longleftrightarrow> (\<exists>t. s = t @ p)"
proof
  assume "has_suffix s p"
  then obtain t where "rev s = rev p @ t" by (auto simp: has_suffix_def has_prefix_iff)
  then have "s = rev t @ p" by (metis rev_append rev_rev_ident)
  then show "\<exists>t. s = t @ p" by blast
qed (auto simp: has_suffix_def has_prefix_iff)

lemma contains_iff: "contains s p \<longleftrightarrow> (\<exists>a b. s = a @ p @ b)"
proof (induction s p rule: contains.induct)
  case (2 c s p)
  show ?case
  proof
    assume "contains (c # s) p"
    then consider t where "c # s = p @ t" | a b where "s = a @ p @ b"
      using 2 by (auto simp: has_prefix_iff)
    then show "\<exists>a b. c # s = a @ p @ b"
    proof cases
      case 1
      then have "c # s = [] @ p @ t" by simp
      then show ?thesis by blast
    next
      case 2
      then have "c # s = (c # a) @ p @ b" by simp
      then show ?thesis by blast
    qed
  next
    assume "\<exists>a b. c # s = a @ p @ b"
    then obtain a b where ab: "c # s = a @ p @ b" by blast
    show "contains (c # s) p"
    proof (cases a)
      case Nil
      with ab have "has_prefix (c # s) p" by (auto simp: has_prefix_iff)
      then show ?thesis by simp
    next
      case (Cons d a')
      with ab have "s = a' @ p @ b" by simp
      with 2 show ?thesis by auto
    qed
  qed
qed auto

lemma contains_char: "contains s [c] \<longleftrightarrow> c \<in> set s"
  by (induction s) (auto simp: has_prefix_iff)

lemma equal_fold_refl [simp]: "equal_fold s s"
  by (simp add: equal_fold_def)

lemma equal_fold_sym: "equal_fold a b = equal_fold b a"
  by (auto simp: equal_fold_def)

lemma split_on_nonempty [simp]: "split_on x s \<noteq> []"
  by (induction s) (auto split: list.splits)

lemma join_split_on: "join_with [x] (split_on x s) = s"
proof (induction s)
  case (Cons c s)
  obtain w ws where w: "split_on x s = w # ws" using split_on_nonempty list.exhaust by blast
  show ?case using Cons w by (cases ws) auto
qed simp

lemma set_sorted_keys [simp]: "set (sorted_keys xs) = set xs"
  by (simp add: sorted_keys_def)

lemma sorted_sorted_keys [simp]: "sorted (sorted_keys xs)"
  by (simp add: sorted_keys_def)

lemma distinct_sorted_keys [simp]: "distinct (sorted_keys xs)"
  by (simp add: sorted_keys_def)

lemma sorted_keys_eqI: "set xs = set ys \<Longrightarrow> sorted_keys xs = sorted_keys ys"
  by (simp add: sorted_keys_def sorted_list_of_set_sort_remdups[symmetric])

lemma sorted_keys_id: "sorted xs \<Longrightarrow> distinct xs \<Longrightarrow> sorted_keys xs = xs"
  by (simp add: sorted_keys_def distinct_remdups_id sorted_sort_id)

section \<open>Lists\<close>

lemma if_mem: "x \<in> A \<Longrightarrow> y \<in> A \<Longrightarrow> (if b then x else y) \<in> A"
  by simp

lemma filter_eq_Cons_first:
  assumes "filter P xs = y # ys"
  shows "\<exists>us vs. xs = us @ y # vs \<and> (\<forall>u\<in>set us. \<not> P u) \<and> P y"
  using assms by (auto simp: filter_eq_Cons_iff)

lemma find_Some_split:
  "List.find P xs = Some y \<Longrightarrow> \<exists>us vs. xs = us @ y # vs \<and> (\<forall>u\<in>set us. \<not> P u) \<and> P y"
proof (induction xs)
  case (Cons x xs)
  show ?case
  proof (cases "P x")
    case True
    with Cons.prems have "x # xs = [] @ y # xs \<and> (\<forall>u\<in>set []. \<not> P u) \<and> P y" by simp
    then show ?thesis by blast
  next
    case False
    with Cons obtain us vs where "xs = us @ y # vs" "\<forall>u\<in>set us. \<not> P u" "P y" by auto
    with False have "x # xs = (x # us) @ y # vs \<and> (\<forall>u\<in>set (x # us). \<not> P u) \<and> P y" by simp
    then show ?thesis by blast
  qed
qed simp

section \<open>The contract of sort.Slice\<close>

text \<open>
  \<^verbatim>\<open>sort.Slice\<close> promises a permutation that is sorted by the given key and, since it is not
  stable, nothing more about elements with equal keys. Whatever a component proves about the
  sorted slice it proves from this contract; insertion sort (what the library runs on short
  slices) is one instance.
\<close>

locale slice_sort =
  fixes key :: "'a \<Rightarrow> 'k::linorder"
    and sorter :: "'a list \<Rightarrow> 'a list"
  assumes sorter_perm: "mset (sorter xs) = mset xs"
    and sorter_sorted: "sorted (map key (sorter xs))"
begin

lemma set_sorter [simp]: "set (sorter xs) = set xs"
  by (metis sorter_perm set_mset_mset)

lemma length_sorter [simp]: "length (sorter xs) = length xs"
  by (metis sorter_perm size_mset)

lemma sorter_before:
  assumes "sorter xs = us @ x # vs" and "y \<in> set xs" and "key y < key x"
  shows "y \<in> set us"
proof -
  have "sorted (map key us @ key x # map key vs)"
    using sorter_sorted[of xs] assms(1) by simp
  then have "\<forall>v\<in>set vs. key x \<le> key v" by (auto simp: sorted_append)
  moreover have "y \<in> set us \<or> y = x \<or> y \<in> set vs"
    using assms(1,2) set_sorter[of xs] by (metis Un_iff set_ConsD set_append)
  ultimately show ?thesis using assms(3) by (auto simp: not_less[symmetric])
qed

lemma sorter_distinct: "distinct (map f xs) \<Longrightarrow> distinct (map f (sorter xs))"
  by (metis distinct_count_atmost_1 mset_map sorter_perm set_mset_mset set_map image_set)

lemma take_sorter_le:
  assumes "x \<in> set (take n (sorter xs))" and "y \<in> set (drop n (sorter xs))"
  shows "key x \<le> key y"
proof -
  have "sorted (map key (take n (sorter xs)) @ map key (drop n (sorter xs)))"
    using sorter_sorted[of xs] by (metis append_take_drop_id map_append)
  with assms show ?thesis by (auto simp: sorted_append)
qed

end

interpretation insertion: slice_sort key "sort_key key" for key :: "'a \<Rightarrow> 'k::linorder"
  by unfold_locales simp_all

section \<open>Invariants of transition systems\<close>

text \<open>
  A component whose operations may be interleaved in any order is a transition relation. An
  invariant of the initial state that every step keeps holds in every reachable state.
\<close>

locale invariant_system =
  fixes start :: "'s"
    and step :: "'s \<Rightarrow> 's \<Rightarrow> bool"
    and inv :: "'s \<Rightarrow> bool"
  assumes inv_start: "inv start"
    and inv_step: "inv s \<Longrightarrow> step s t \<Longrightarrow> inv t"
begin

lemma inv_steps: "step\<^sup>*\<^sup>* s t \<Longrightarrow> inv s \<Longrightarrow> inv t"
  by (induction rule: rtranclp_induct) (auto intro: inv_step)

lemma reachable_inv: "step\<^sup>*\<^sup>* start t \<Longrightarrow> inv t"
  using inv_steps inv_start by blast

end

end
