(* ===== verification/Domain_Types.thy ===== *)
theory Domain_Types
  imports Prelude
begin

text \<open>
  The shared types of the agent (\<^verbatim>\<open>src/core/domain/types.go\<close>): configuration, policy, request
  context, DLP result, prompt-capture messages and the routing decision with its JSON form.

  Go's string-typed enums (\<^verbatim>\<open>CaptureSurface\<close>, \<^verbatim>\<open>CaptureOutcome\<close>) arrive from JSON with arbitrary
  contents and are checked by \<^verbatim>\<open>Valid()\<close>, so they stay strings here. \<^verbatim>\<open>Decision\<close> is an \<^verbatim>\<open>iota\<close>
  enum; its decoder maps every input to one of the four constants, so it is a datatype.
  \<^verbatim>\<open>float64\<close> fields that are only compared are reals.
\<close>

section \<open>Dynamically typed values\<close>

text \<open>\<^verbatim>\<open>interface{}\<close> values: telemetry payload data and decoded JSON documents.\<close>

datatype goval =
    VNil
  | VString string
  | VBool bool
  | VInt int
  | VFloat real
  | VTime time
  | VList "goval list"
  | VMap "(string \<times> goval) list"

type_synonym godata = "(string \<times> goval) list"

definition opt_field :: "string \<Rightarrow> string \<Rightarrow> godata" where
  "opt_field k v = (if v \<noteq> [] then [(k, VString v)] else [])"

record event_payload =
  ep_AgentID :: string
  ep_Timestamp :: time
  ep_Data :: godata

section \<open>Decisions\<close>

datatype decision = DecisionForward | DecisionBypass | DecisionBlock | DecisionAlert

fun decision_String :: "decision \<Rightarrow> string" where
  "decision_String DecisionForward = ''forward''"
| "decision_String DecisionBypass = ''bypass''"
| "decision_String DecisionBlock = ''block''"
| "decision_String DecisionAlert = ''alert''"

definition quote_char :: char where
  "quote_char = CHR 0x22"

definition decision_MarshalJSON :: "decision \<Rightarrow> string" where
  "decision_MarshalJSON d = [quote_char] @ decision_String d @ [quote_char]"

definition decision_UnmarshalJSON :: "string \<Rightarrow> decision" where
  "decision_UnmarshalJSON b =
    (let s = trim_right (\<lambda>c. c = quote_char) (trim_left (\<lambda>c. c = quote_char) b) in
     if s = ''forward'' \<or> s = ''allow'' then DecisionForward
     else if s = ''bypass'' \<or> s = ''log_only'' then DecisionBypass
     else if s = ''block'' then DecisionBlock
     else if s = ''alert'' then DecisionAlert
     else DecisionForward)"

text \<open>
  The order used to state that one stage of the agent never weakens the decision of an earlier
  one: the more a decision interferes with the request, the larger it is.
\<close>

fun decision_strength :: "decision \<Rightarrow> nat" where
  "decision_strength DecisionForward = 0"
| "decision_strength DecisionBypass = 1"
| "decision_strength DecisionAlert = 2"
| "decision_strength DecisionBlock = 3"

lemma decision_strength_inj: "decision_strength a = decision_strength b \<Longrightarrow> a = b"
  by (cases a; cases b) simp_all

instantiation decision :: linorder
begin

definition less_eq_decision :: "decision \<Rightarrow> decision \<Rightarrow> bool" where
  "less_eq_decision a b = (decision_strength a \<le> decision_strength b)"

definition less_decision :: "decision \<Rightarrow> decision \<Rightarrow> bool" where
  "less_decision a b = (decision_strength a < decision_strength b)"

instance
  by standard (auto simp: less_eq_decision_def less_decision_def intro: decision_strength_inj)

end

lemma decision_le_block [simp]: "d \<le> DecisionBlock"
  by (cases d) (simp_all add: less_eq_decision_def)

lemma decision_block_le_iff [simp]: "DecisionBlock \<le> d \<longleftrightarrow> d = DecisionBlock"
  by (cases d) (simp_all add: less_eq_decision_def)

lemma decision_le_alert_iff: "d \<le> DecisionAlert \<longleftrightarrow> d \<noteq> DecisionBlock"
  by (cases d) (simp_all add: less_eq_decision_def)

section \<open>Policy\<close>

record rule_condition =
  rc_Field :: string
  rc_Operator :: string
  rc_Value :: string
  rc_Negate :: bool

record policy_rule =
  pr_ID :: string
  pr_Priority :: int
  pr_Decision :: decision
  pr_Conditions :: "rule_condition list"
  pr_BlockReason :: string

record policy_interception =
  pi_Enabled :: bool
  pi_Domains :: "string list"
  pi_Protocols :: "string list"
  pi_FailMode :: string
  pi_CaptureMode :: string
  pi_Scope :: string

record ai_product_catalog_entry =
  ap_VendorKey :: string
  ap_ProductKey :: string
  ap_DisplayName :: string
  ap_FunctionalCategory :: string
  ap_Domains :: "string list"
  ap_ProcessNames :: "string list"
  ap_BundleIDs :: "string list"
  ap_Surfaces :: "string list"
  ap_MCPConfigKeys :: "string list"
  ap_APIOnly :: bool

record policy_payload =
  pp_Version :: string
  pp_Rules :: "policy_rule list"
  pp_Interception :: policy_interception
  pp_AIProducts :: "ai_product_catalog_entry list"
  pp_PromptEnforcementOverride :: string

abbreviation HTTPSInterceptFailOpen :: string where "HTTPSInterceptFailOpen \<equiv> ''fail_open''"
abbreviation HTTPSInterceptFailClosed :: string where "HTTPSInterceptFailClosed \<equiv> ''fail_closed''"
abbreviation InterceptProtocolHTTP :: string where "InterceptProtocolHTTP \<equiv> ''http''"
abbreviation InterceptProtocolWebSocket :: string where "InterceptProtocolWebSocket \<equiv> ''websocket''"
abbreviation InterceptProtocolGRPC :: string where "InterceptProtocolGRPC \<equiv> ''grpc''"
abbreviation InterceptCaptureModeEncryptedFullBody :: string where
  "InterceptCaptureModeEncryptedFullBody \<equiv> ''encrypted_full_body''"
abbreviation InterceptScopeHybridAllowlist :: string where
  "InterceptScopeHybridAllowlist \<equiv> ''hybrid_allowlist''"
abbreviation InterceptScopeAPIOnly :: string where "InterceptScopeAPIOnly \<equiv> ''api_only''"
abbreviation InspectionQualityFull :: string where "InspectionQualityFull \<equiv> ''full''"
abbreviation InspectionQualitySkipped :: string where "InspectionQualitySkipped \<equiv> ''skipped''"
abbreviation TrafficDirectionOutbound :: string where "TrafficDirectionOutbound \<equiv> ''outbound''"

section \<open>DLP results\<close>

datatype dlp_match_type = DLPMatchPII | DLPMatchCredentials | DLPMatchSourceCode | DLPMatchKeyword

fun dlp_match_type_string :: "dlp_match_type \<Rightarrow> string" where
  "dlp_match_type_string DLPMatchPII = ''pii''"
| "dlp_match_type_string DLPMatchCredentials = ''credentials''"
| "dlp_match_type_string DLPMatchSourceCode = ''source_code''"
| "dlp_match_type_string DLPMatchKeyword = ''keyword''"

record dlp_match =
  dm_Type :: dlp_match_type
  dm_Pattern :: string
  dm_Excerpt :: string

record dlp_info =
  di_Scanned :: bool
  di_ContainsPII :: bool
  di_ContainsCredentials :: bool
  di_ContainsSourceCode :: bool
  di_Matches :: "dlp_match list"
  di_MatchedFields :: "string list"
  di_Severity :: string
  di_ClassificationReason :: string
  di_ContentType :: string
  di_FileCount :: nat
  di_BodySample :: string
  di_BodyTruncated :: bool

definition empty_dlp_info :: dlp_info where
  "empty_dlp_info = \<lparr>di_Scanned = False, di_ContainsPII = False, di_ContainsCredentials = False,
     di_ContainsSourceCode = False, di_Matches = [], di_MatchedFields = [], di_Severity = [],
     di_ClassificationReason = [], di_ContentType = [], di_FileCount = 0, di_BodySample = [],
     di_BodyTruncated = False\<rparr>"

section \<open>Requests\<close>

record process_info =
  ps_PID :: int
  ps_Path :: string
  ps_Name :: string
  ps_User :: string
  ps_BundleID :: string
  ps_Signed :: bool
  ps_SignerID :: string
  ps_ParentPID :: int

definition empty_process_info :: process_info where
  "empty_process_info = \<lparr>ps_PID = 0, ps_Path = [], ps_Name = [], ps_User = [], ps_BundleID = [],
     ps_Signed = False, ps_SignerID = [], ps_ParentPID = 0\<rparr>"

record request_context =
  cx_RequestID :: string
  cx_Host :: string
  cx_Port :: nat
  cx_Path :: string
  cx_Method :: string
  cx_Scheme :: string
  cx_Protocol :: string
  cx_Direction :: string
  cx_InterceptedHTTPS :: bool
  cx_InspectionQuality :: string
  cx_InspectionSkipReason :: string
  cx_Process :: process_info
  cx_ServiceCategory :: string
  cx_AIVendor :: string
  cx_AIProduct :: string
  cx_CaptureSurface :: string
  cx_DLP :: dlp_info

section \<open>Agent configuration\<close>

record agent_config =
  cf_AgentID :: string
  cf_GatewayURL :: string
  cf_ListenAddr :: string
  cf_PromptCaptureListenAddr :: string
  cf_HTTPSInterceptEnabled :: bool
  cf_HTTPSInterceptDomains :: "string list"
  cf_HTTPSInterceptFailMode :: string
  cf_HTTPSInterceptProtocols :: "string list"
  cf_HTTPSInterceptCaptureMode :: string
  cf_PolicySyncInterval :: duration
  cf_TelemetryFlushInterval :: duration
  cf_MaxConcurrentConns :: int
  cf_ShutdownTimeout :: duration
  cf_DefaultDecision :: decision
  cf_BlockPageBody :: string
  cf_LogURLPaths :: bool
  cf_AutoReregister :: bool
  cf_CertPath :: string
  cf_KeyPath :: string
  cf_CAPath :: string
  cf_InitialBackoff :: duration
  cf_MaxBackoff :: duration
  cf_BackoffMultiplier :: real
  cf_JitterFraction :: real
  cf_MaxRetries :: int
  cf_CircuitBreakerThreshold :: int
  cf_CircuitBreakerCooldown :: duration
  cf_HealthCheckInterval :: duration
  cf_IntegrityCheckInterval :: duration
  cf_PromptSemanticsEnabled :: bool
  cf_PromptSemanticsPolicy :: string
  cf_PromptSemanticsLocalURL :: string
  cf_PromptSemanticsGatewayEnabled :: bool
  cf_PromptSemanticsLocalTimeout :: duration
  cf_PromptSemanticsGatewayTimeout :: duration
  cf_PromptSemanticsBlockThreshold :: real
  cf_PromptSemanticsAlertThreshold :: real
  cf_PromptSemanticsAmbiguousThreshold :: real
  cf_PromptEnforcementMode :: string
  cf_PromptFailClosedSurfaces :: "string list"
  cf_PromptEnforcementOverride :: string

section \<open>Prompt capture messages\<close>

abbreviation CaptureSurfaceBrowserChromium :: string where
  "CaptureSurfaceBrowserChromium \<equiv> ''browser_chromium''"
abbreviation CaptureSurfaceBrowserFirefox :: string where
  "CaptureSurfaceBrowserFirefox \<equiv> ''browser_firefox''"
abbreviation CaptureSurfaceBrowserSafari :: string where
  "CaptureSurfaceBrowserSafari \<equiv> ''browser_safari''"
abbreviation CaptureSurfaceDesktop :: string where "CaptureSurfaceDesktop \<equiv> ''desktop''"
abbreviation CaptureSurfaceClaudeCode :: string where "CaptureSurfaceClaudeCode \<equiv> ''claude_code''"
abbreviation CaptureSurfaceCursor :: string where "CaptureSurfaceCursor \<equiv> ''cursor''"
abbreviation CaptureSurfaceWindsurf :: string where "CaptureSurfaceWindsurf \<equiv> ''windsurf''"
abbreviation CaptureSurfaceGitHubCopilot :: string where
  "CaptureSurfaceGitHubCopilot \<equiv> ''github_copilot''"

abbreviation PromptEnforcementModeMonitor :: string where
  "PromptEnforcementModeMonitor \<equiv> ''monitor''"
abbreviation PromptEnforcementModeAlert :: string where "PromptEnforcementModeAlert \<equiv> ''alert''"
abbreviation PromptEnforcementModeEnforce :: string where
  "PromptEnforcementModeEnforce \<equiv> ''enforce''"

abbreviation SurfaceEnforcementHardBlock :: string where
  "SurfaceEnforcementHardBlock \<equiv> ''hard_block''"
abbreviation SurfaceEnforcementAlertOnly :: string where
  "SurfaceEnforcementAlertOnly \<equiv> ''alert_only''"
abbreviation SurfaceEnforcementWouldBlock :: string where
  "SurfaceEnforcementWouldBlock \<equiv> ''would_block''"
abbreviation SurfaceEnforcementMonitor :: string where
  "SurfaceEnforcementMonitor \<equiv> ''monitor_only''"
abbreviation SurfaceEnforcementUnprotected :: string where
  "SurfaceEnforcementUnprotected \<equiv> ''unprotected''"
abbreviation SurfaceEnforcementUnknown :: string where "SurfaceEnforcementUnknown \<equiv> ''unknown''"

definition capture_surfaces :: "string list" where
  "capture_surfaces = [CaptureSurfaceBrowserChromium, CaptureSurfaceBrowserFirefox,
     CaptureSurfaceBrowserSafari, CaptureSurfaceDesktop, CaptureSurfaceClaudeCode,
     CaptureSurfaceCursor, CaptureSurfaceWindsurf, CaptureSurfaceGitHubCopilot]"

definition capture_surface_Valid :: "string \<Rightarrow> bool" where
  "capture_surface_Valid s = (s \<in> set capture_surfaces)"

abbreviation CaptureOutcomeBlocked :: string where "CaptureOutcomeBlocked \<equiv> ''blocked''"
abbreviation CaptureOutcomeAllowed :: string where "CaptureOutcomeAllowed \<equiv> ''allowed''"
abbreviation CaptureOutcomeWouldBlock :: string where "CaptureOutcomeWouldBlock \<equiv> ''would_block''"
abbreviation CaptureOutcomeDegradedFailOpen :: string where
  "CaptureOutcomeDegradedFailOpen \<equiv> ''degraded_fail_open''"

definition capture_outcome_Valid :: "string \<Rightarrow> bool" where
  "capture_outcome_Valid o' = (o' \<in> set [CaptureOutcomeBlocked, CaptureOutcomeAllowed,
     CaptureOutcomeWouldBlock, CaptureOutcomeDegradedFailOpen])"

record prompt_semantic_result =
  sr_Decision :: decision
  sr_Confidence :: real
  sr_Reason :: string
  sr_Category :: string
  sr_Source :: string
  sr_Ambiguous :: bool
  sr_LatencyMs :: int

record prompt_evaluation_request =
  rq_PromptText :: string
  rq_Surface :: string
  rq_AppName :: string
  rq_AppID :: string
  rq_AppPath :: string
  rq_DestinationURL :: string
  rq_DestinationHost :: string
  rq_DestinationPath :: string
  rq_Vendor :: string
  rq_ServiceCategory :: string
  rq_Protocol :: string
  rq_RequestID :: string
  rq_AdapterVersion :: string
  rq_Metadata :: "(string \<times> string) list"

record prompt_evaluation_response =
  rs_EvaluationID :: string
  rs_Decision :: decision
  rs_PolicyRuleID :: string
  rs_ReasonCode :: string
  rs_Reason :: string
  rs_Message :: string
  rs_Outcome :: string
  rs_MatchCount :: nat
  rs_MatchTypes :: "string list"
  rs_Severity :: string
  rs_Degraded :: bool
  rs_DegradedCause :: string
  rs_Semantic :: "prompt_semantic_result option"
  rs_EnforcementMode :: string
  rs_EffectiveEnforcementMode :: string
  rs_SurfaceEnforcement :: string

record prompt_outcome_request =
  oq_EvaluationID :: string
  oq_Surface :: string
  oq_Outcome :: string
  oq_DestinationHost :: string
  oq_DestinationPath :: string
  oq_Vendor :: string
  oq_ServiceCategory :: string
  oq_AppName :: string
  oq_AdapterVersion :: string
  oq_UserMessageShown :: bool
  oq_Error :: string

section \<open>Properties\<close>

lemma unquote_label:
  assumes "quote_char \<notin> set s" and "s \<noteq> []"
  shows "trim_right (\<lambda>c. c = quote_char) (trim_left (\<lambda>c. c = quote_char)
           ([quote_char] @ s @ [quote_char])) = s"
proof -
  from assms obtain c t where s: "s = c # t" by (cases s) auto
  from assms obtain u d where r: "s = u @ [d]" by (metis append_butlast_last_id)
  from s have "c \<in> set s" by simp
  moreover from r have "d \<in> set s" by simp
  ultimately have "c \<noteq> quote_char" "d \<noteq> quote_char" using assms(1) by auto
  then have "trim_left (\<lambda>c. c = quote_char) ([quote_char] @ s @ [quote_char]) = s @ [quote_char]"
    using s by (simp add: trim_left_def)
  moreover have "trim_right (\<lambda>c. c = quote_char) (s @ [quote_char]) = s"
    using r \<open>d \<noteq> quote_char\<close> by (simp add: trim_right_def)
  ultimately show ?thesis by simp
qed

text \<open>
  A decision survives the trip through its JSON label, and a label that is none of the six
  known spellings decodes to \<^const>\<open>DecisionForward\<close> without an error.
\<close>

theorem decision_json_roundtrip:
  "decision_UnmarshalJSON (decision_MarshalJSON d) = d \<and>
   (\<forall>s. trim_right (\<lambda>c. c = quote_char) (trim_left (\<lambda>c. c = quote_char) s)
          \<notin> {''forward'', ''allow'', ''bypass'', ''log_only'', ''block'', ''alert''}
        \<longrightarrow> decision_UnmarshalJSON s = DecisionForward)"
proof -
  have "quote_char \<notin> set (decision_String d)" "decision_String d \<noteq> []"
    by (cases d; simp add: quote_char_def)+
  from unquote_label[OF this] have "decision_UnmarshalJSON (decision_MarshalJSON d) = d"
    unfolding decision_UnmarshalJSON_def decision_MarshalJSON_def Let_def
    by (cases d) simp_all
  then show ?thesis by (auto simp: decision_UnmarshalJSON_def Let_def)
qed

theorem decision_json_roundtrip_witness:
  "decision_UnmarshalJSON (decision_MarshalJSON DecisionAlert) = DecisionAlert \<and>
   decision_UnmarshalJSON ''deny'' = DecisionForward"
proof -
  have "trim_right (\<lambda>c. c = quote_char) (trim_left (\<lambda>c. c = quote_char) ''deny'')
          \<notin> {''forward'', ''allow'', ''bypass'', ''log_only'', ''block'', ''alert''}"
    by (simp add: trim_right_def trim_left_def quote_char_def)
  then show ?thesis using decision_json_roundtrip[of DecisionAlert] by blast
qed

end
