(* ===== verification/Go_Stdlib.thy ===== *)
theory Go_Stdlib
  imports Prelude
begin

text \<open>
  Two larger pieces of Go's standard library that the agent's host normalisation and policy
  matching call: \<^verbatim>\<open>url.Parse\<close> (with \<^verbatim>\<open>URL.Hostname\<close>), in the version of the toolchain that
  \<^verbatim>\<open>src/go.mod\<close> names, and \<^verbatim>\<open>filepath.Match\<close> on a Unix host. Errors are \<^term>\<open>None\<close>; no modelled
  caller looks at their text.
\<close>

section \<open>Character classes\<close>

definition is_digit :: "char \<Rightarrow> bool" where
  "is_digit c = (48 \<le> (of_char c :: nat) \<and> (of_char c :: nat) \<le> 57)"

definition is_lower :: "char \<Rightarrow> bool" where
  "is_lower c = (97 \<le> (of_char c :: nat) \<and> (of_char c :: nat) \<le> 122)"

definition is_alpha :: "char \<Rightarrow> bool" where
  "is_alpha c = (is_lower c \<or> (65 \<le> (of_char c :: nat) \<and> (of_char c :: nat) \<le> 90))"

definition hex_value :: "char \<Rightarrow> nat option" where
  "hex_value c =
    (if is_digit c then Some (of_char c - 48)
     else if 97 \<le> (of_char c :: nat) \<and> (of_char c :: nat) \<le> 102 then Some (of_char c - 87)
     else if 65 \<le> (of_char c :: nat) \<and> (of_char c :: nat) \<le> 70 then Some (of_char c - 55)
     else None)"

definition is_ctl :: "char \<Rightarrow> bool" where
  "is_ctl c = ((of_char c :: nat) < 32 \<or> (of_char c :: nat) = 127)"

text \<open>\<^verbatim>\<open>strings.Cut\<close> around one character.\<close>

definition cut_at :: "char \<Rightarrow> string \<Rightarrow> string \<times> string" where
  "cut_at x s = (case index_of x s of None \<Rightarrow> (s, []) | Some i \<Rightarrow> (take i s, drop (i + 1) s))"

definition count_char :: "char \<Rightarrow> string \<Rightarrow> nat" where
  "count_char x s = length (filter (\<lambda>c. c = x) s)"

section \<open>strconv.Atoi\<close>

definition digits_value :: "string \<Rightarrow> int" where
  "digits_value ds = foldl (\<lambda>n d. 10 * n + (int (of_char d) - 48)) 0 ds"

definition atoi :: "string \<Rightarrow> int option" where
  "atoi s =
    (let neg = (s \<noteq> [] \<and> hd s = CHR ''-'');
         ds = (if s \<noteq> [] \<and> (hd s = CHR ''-'' \<or> hd s = CHR ''+'') then tl s else s);
         n = (if neg then - digits_value ds else digits_value ds) in
     if ds \<noteq> [] \<and> list_all is_digit ds \<and> - (2 ^ 63) \<le> n \<and> n < 2 ^ 63 then Some n else None)"

section \<open>url.Parse\<close>

record go_url =
  ur_Scheme :: string
  ur_Opaque :: string
  ur_Host :: string
  ur_Path :: string
  ur_RawQuery :: string

datatype url_mode = EncodeHost | EncodeZone | EncodeOther

definition host_char_ok :: "char \<Rightarrow> bool" where
  "host_char_ok c = (is_alpha c \<or> is_digit c \<or>
     c \<in> set (''!$&()*+,;=:[]<>-_.~'' @ [CHR 0x22, CHR 0x27]) \<or> 128 \<le> (of_char c :: nat))"

fun url_unescape :: "url_mode \<Rightarrow> string \<Rightarrow> string option" where
  "url_unescape m [] = Some []"
| "url_unescape m (c # s) =
    (if c = CHR ''%'' then
       (case s of
          h # l # t \<Rightarrow>
            (case (hex_value h, hex_value l) of
               (Some a, Some b) \<Rightarrow>
                 (let v = char_of (16 * a + b); lit = (h = CHR ''2'' \<and> l = CHR ''5'') in
                  if m = EncodeHost \<and> a < 8 \<and> \<not> lit then None
                  else if m = EncodeZone \<and> \<not> lit \<and> v \<noteq> CHR '' '' \<and> \<not> host_char_ok v then None
                  else map_option (Cons v) (url_unescape m t))
             | _ \<Rightarrow> None)
        | _ \<Rightarrow> None)
     else if m \<noteq> EncodeOther \<and> \<not> host_char_ok c then None
     else map_option (Cons c) (url_unescape m s))"

definition valid_optional_port :: "string \<Rightarrow> bool" where
  "valid_optional_port p =
    (case p of [] \<Rightarrow> True | c # ds \<Rightarrow> c = CHR '':'' \<and> list_all is_digit ds)"

text \<open>The position of the first occurrence of a substring (\<^verbatim>\<open>strings.Index\<close>).\<close>

fun index_sub :: "string \<Rightarrow> string \<Rightarrow> nat option" where
  "index_sub [] p = (if p = [] then Some 0 else None)"
| "index_sub (c # s) p =
     (if has_prefix (c # s) p then Some 0 else map_option Suc (index_sub s p))"

definition url_parse_host :: "string \<Rightarrow> string option" where
  "url_parse_host h =
    (if has_prefix h ''['' then
       (case last_index_of (CHR '']'') h of
          None \<Rightarrow> None
        | Some i \<Rightarrow>
           if \<not> valid_optional_port (drop (i + 1) h) then None
           else (case index_sub (take i h) ''%25'' of
                   Some z \<Rightarrow>
                     (case (url_unescape EncodeHost (take z h),
                            url_unescape EncodeZone (take (i - z) (drop z h)),
                            url_unescape EncodeHost (drop i h)) of
                        (Some a, Some b, Some c) \<Rightarrow> Some (a @ b @ c)
                      | _ \<Rightarrow> None)
                 | None \<Rightarrow> url_unescape EncodeHost h))
     else (case last_index_of (CHR '':'') h of
             Some i \<Rightarrow> if valid_optional_port (drop i h) then url_unescape EncodeHost h else None
           | None \<Rightarrow> url_unescape EncodeHost h))"

definition userinfo_char_ok :: "char \<Rightarrow> bool" where
  "userinfo_char_ok c = (is_alpha c \<or> is_digit c \<or> c \<in> set (''-._:~!$&()*+,;=%@'' @ [CHR 0x27]))"

definition url_parse_authority :: "string \<Rightarrow> string option" where
  "url_parse_authority a =
    (case last_index_of (CHR ''@'') a of
       None \<Rightarrow> url_parse_host a
     | Some i \<Rightarrow>
        (case url_parse_host (drop (i + 1) a) of
           None \<Rightarrow> None
         | Some h \<Rightarrow>
            if list_all userinfo_char_ok (take i a) \<and>
               url_unescape EncodeOther (fst (cut_at (CHR '':'') (take i a))) \<noteq> None \<and>
               url_unescape EncodeOther (snd (cut_at (CHR '':'') (take i a))) \<noteq> None
            then Some h else None))"

text \<open>\<^verbatim>\<open>getScheme\<close>: the loop carries whether it is still at index 0.\<close>

fun scheme_loop :: "bool \<Rightarrow> string \<Rightarrow> (string \<times> string) option option" where
  "scheme_loop first [] = Some None"
| "scheme_loop first (c # s) =
    (if is_alpha c \<or> (\<not> first \<and> (is_digit c \<or> c \<in> set ''+-.'')) then
       (case scheme_loop False s of
          Some (Some (sch, rest)) \<Rightarrow> Some (Some (c # sch, rest))
        | r \<Rightarrow> r)
     else if c = CHR '':'' then (if first then None else Some (Some ([], s)))
     else Some None)"

definition get_scheme :: "string \<Rightarrow> (string \<times> string) option" where
  "get_scheme raw =
    (case scheme_loop True raw of
       None \<Rightarrow> None
     | Some None \<Rightarrow> Some ([], raw)
     | Some (Some r) \<Rightarrow> Some r)"

definition url_split_query :: "string \<Rightarrow> string \<times> string" where
  "url_split_query rest =
    (if has_suffix rest ''?'' \<and> count_char (CHR ''?'') rest = 1 then (butlast rest, [])
     else cut_at (CHR ''?'') rest)"

definition url_parse_nofrag :: "string \<Rightarrow> go_url option" where
  "url_parse_nofrag raw =
    (if list_ex is_ctl raw then None
     else if raw = ''*'' then
       Some \<lparr>ur_Scheme = [], ur_Opaque = [], ur_Host = [], ur_Path = ''*'', ur_RawQuery = []\<rparr>
     else (case get_scheme raw of
       None \<Rightarrow> None
     | Some (sch, rest0) \<Rightarrow>
        (let scheme = to_lower sch; (rest, query) = url_split_query rest0 in
         if \<not> has_prefix rest ''/'' \<and> scheme \<noteq> [] then
           Some \<lparr>ur_Scheme = scheme, ur_Opaque = rest, ur_Host = [], ur_Path = [], ur_RawQuery = query\<rparr>
         else if \<not> has_prefix rest ''/'' \<and> contains (fst (cut_at (CHR ''/'') rest)) '':'' then None
         else if has_prefix rest ''//'' \<and> (scheme \<noteq> [] \<or> \<not> has_prefix rest ''///'') then
           (let auth = drop 2 rest;
                (a, p) = (case index_of (CHR ''/'') auth of
                            None \<Rightarrow> (auth, []) | Some i \<Rightarrow> (take i auth, drop i auth)) in
            (case (url_parse_authority a, url_unescape EncodeOther p) of
               (Some h, Some path) \<Rightarrow>
                 Some \<lparr>ur_Scheme = scheme, ur_Opaque = [], ur_Host = h, ur_Path = path, ur_RawQuery = query\<rparr>
             | _ \<Rightarrow> None))
         else (case url_unescape EncodeOther rest of
                 None \<Rightarrow> None
               | Some path \<Rightarrow>
                 Some \<lparr>ur_Scheme = scheme, ur_Opaque = [], ur_Host = [], ur_Path = path, ur_RawQuery = query\<rparr>))))"

definition url_parse :: "string \<Rightarrow> go_url option" where
  "url_parse raw =
    (let (u, frag) = cut_at (CHR ''#'') raw in
     case url_parse_nofrag u of
       None \<Rightarrow> None
     | Some r \<Rightarrow> if frag = [] \<or> url_unescape EncodeOther frag \<noteq> None then Some r else None)"

definition url_Hostname :: "go_url \<Rightarrow> string" where
  "url_Hostname u =
    (let hp = ur_Host u;
         h = (case last_index_of (CHR '':'') hp of
                Some i \<Rightarrow> if valid_optional_port (drop i hp) then take i hp else hp
              | None \<Rightarrow> hp) in
     if has_prefix h ''['' \<and> has_suffix h '']'' then butlast (tl h) else h)"

section \<open>net.ParseIP\<close>

text \<open>An address is its bytes: four for dotted decimal, sixteen for the colon form.\<close>

definition parse_ipv4 :: "string \<Rightarrow> nat list option" where
  "parse_ipv4 s =
    (let ps = split_on (CHR ''.'') s in
     if length ps = 4 \<and> list_all (\<lambda>p. p \<noteq> [] \<and> list_all is_digit p \<and> length p \<le> 3 \<and>
          (hd p = CHR ''0'' \<longrightarrow> length p = 1) \<and> digits_value p \<le> 255) ps
     then Some (map (\<lambda>p. nat (digits_value p)) ps) else None)"

definition hex_group :: "string \<Rightarrow> nat" where
  "hex_group s = foldl (\<lambda>n c. 16 * n + the (hex_value c)) 0 s"

text \<open>
  The loop of \<^verbatim>\<open>parseIPv6\<close>: the bytes so far, the position of the ellipsis, and the rest of the
  text; the counter is the number of 16-bit groups still allowed.
\<close>

fun ipv6_loop :: "nat \<Rightarrow> nat list \<Rightarrow> nat option \<Rightarrow> string \<Rightarrow> (nat list \<times> nat option) option" where
  "ipv6_loop 0 bs ell s = (if s = [] then Some (bs, ell) else None)"
| "ipv6_loop (Suc n) bs ell s =
    (let g = takeWhile (\<lambda>c. hex_value c \<noteq> None) s; r = dropWhile (\<lambda>c. hex_value c \<noteq> None) s in
     if g = [] \<or> 4 < length g then None
     else if r \<noteq> [] \<and> hd r = CHR ''.'' then
       (if (ell = None \<and> length bs \<noteq> 12) \<or> 16 < length bs + 4 then None
        else map_option (\<lambda>v. (bs @ v, ell)) (parse_ipv4 s))
     else
       let v = hex_group g; bs' = bs @ [v div 256, v mod 256] in
       (case r of
          [] \<Rightarrow> Some (bs', ell)
        | c # r1 \<Rightarrow>
           if c \<noteq> CHR '':'' \<or> r1 = [] then None
           else if hd r1 = CHR '':'' then
             (if ell \<noteq> None then None
              else if tl r1 = [] then Some (bs', Some (length bs'))
              else ipv6_loop n bs' (Some (length bs')) (tl r1))
           else ipv6_loop n bs' ell r1))"

definition parse_ipv6 :: "string \<Rightarrow> nat list option" where
  "parse_ipv6 s =
    (if has_prefix s ''::'' \<and> drop 2 s = [] then Some (replicate 16 0)
     else (case (if has_prefix s ''::'' then ipv6_loop 8 [] (Some 0) (drop 2 s) else ipv6_loop 8 [] None s) of
             None \<Rightarrow> None
           | Some (bs, ell) \<Rightarrow>
              if length bs < 16 then
                (case ell of None \<Rightarrow> None
                 | Some e \<Rightarrow> Some (take e bs @ replicate (16 - length bs) 0 @ drop e bs))
              else if ell \<noteq> None then None else Some bs))"

definition parse_ip :: "string \<Rightarrow> nat list option" where
  "parse_ip s =
    (case List.find (\<lambda>c. c = CHR ''.'' \<or> c = CHR '':'' \<or> c = CHR ''%'') s of
       Some c \<Rightarrow> if c = CHR ''.'' then parse_ipv4 s
                 else if c = CHR '':'' \<and> CHR ''%'' \<notin> set s then parse_ipv6 s else None
     | None \<Rightarrow> None)"

definition ip_is_loopback :: "nat list \<Rightarrow> bool" where
  "ip_is_loopback ip =
    ((length ip = 4 \<and> hd ip = 127) \<or>
     (length ip = 16 \<and> take 12 ip = replicate 10 0 @ [255, 255] \<and> ip ! 12 = 127) \<or>
     ip = replicate 15 0 @ [1])"

section \<open>url.ParseQuery\<close>

text \<open>
  \<^verbatim>\<open>url.ParseQuery\<close> keeps decoding after a bad pair but then returns an error, which is all its
  caller looks at. The result lists every key once, with its values in order of appearance; the
  order of the keys is that of a Go map and is chosen by the caller's model.
\<close>

fun query_unescape :: "string \<Rightarrow> string option" where
  "query_unescape [] = Some []"
| "query_unescape (c # s) =
    (if c = CHR ''%'' then
       (case s of
          h # l # t \<Rightarrow>
            (case (hex_value h, hex_value l) of
               (Some a, Some b) \<Rightarrow> map_option (Cons (char_of (16 * a + b))) (query_unescape t)
             | _ \<Rightarrow> None)
        | _ \<Rightarrow> None)
     else map_option (Cons (if c = CHR ''+'' then CHR '' '' else c)) (query_unescape s))"

fun query_pairs :: "string list \<Rightarrow> (string \<times> string) list option" where
  "query_pairs [] = Some []"
| "query_pairs (kv # kvs) =
    (if CHR '';'' \<in> set kv then None
     else if kv = [] then query_pairs kvs
     else (let (k, v) = cut_at (CHR ''='') kv in
           case (query_unescape k, query_unescape v, query_pairs kvs) of
             (Some k', Some v', Some rest) \<Rightarrow> Some ((k', v') # rest)
           | _ \<Rightarrow> None))"

definition parse_query :: "string \<Rightarrow> (string \<times> string list) list option" where
  "parse_query q =
    map_option (\<lambda>ps. map (\<lambda>k. (k, map snd (filter (\<lambda>p. fst p = k) ps))) (remdups (map fst ps)))
      (query_pairs (split_on (CHR ''&'') q))"

text \<open>\<^verbatim>\<open>filepath.Ext\<close>: the suffix from the last dot of the last path element.\<close>

definition filepath_ext :: "string \<Rightarrow> string" where
  "filepath_ext p =
    (let base = last (split_on (CHR ''/'') p) in
     case last_index_of (CHR ''.'') base of None \<Rightarrow> [] | Some i \<Rightarrow> drop i base)"

section \<open>filepath.Match\<close>

text \<open>
  \<^verbatim>\<open>filepath.Match\<close> returns false both for a mismatch and for a malformed pattern, and the policy
  engine ignores the error, so one \<^term>\<open>None\<close> stands for both.
\<close>

definition backslash :: char where "backslash = CHR 0x5C"

fun scan_chunk_end :: "bool \<Rightarrow> string \<Rightarrow> nat" where
  "scan_chunk_end inrange [] = 0"
| "scan_chunk_end inrange (c # s) =
    (if c = backslash then (case s of [] \<Rightarrow> 1 | d # t \<Rightarrow> 2 + scan_chunk_end inrange t)
     else if c = CHR ''['' then 1 + scan_chunk_end True s
     else if c = CHR '']'' then 1 + scan_chunk_end False s
     else if c = CHR ''*'' \<and> \<not> inrange then 0
     else 1 + scan_chunk_end inrange s)"

definition scan_chunk :: "string \<Rightarrow> bool \<times> string \<times> string" where
  "scan_chunk p =
    (let q = dropWhile (\<lambda>c. c = CHR ''*'') p; i = scan_chunk_end False q in
     (length q < length p, take i q, drop i q))"

definition get_esc :: "string \<Rightarrow> (char \<times> string) option" where
  "get_esc chunk =
    (case chunk of
       [] \<Rightarrow> None
     | c # s \<Rightarrow>
        if c = CHR ''-'' \<or> c = CHR '']'' then None
        else if c = backslash then
          (case s of d # e # t \<Rightarrow> Some (d, e # t) | _ \<Rightarrow> None)
        else (case s of [] \<Rightarrow> None | e # t \<Rightarrow> Some (c, e # t)))"

lemma get_esc_length: "get_esc s = Some (c, t) \<Longrightarrow> length t < length s \<and> t \<noteq> []"
  by (auto simp: get_esc_def split: list.splits if_splits)

function match_class :: "char \<Rightarrow> bool \<Rightarrow> bool \<Rightarrow> string \<Rightarrow> (bool \<times> string) option" where
  "match_class r some_range m chunk =
    (if chunk \<noteq> [] \<and> hd chunk = CHR '']'' \<and> some_range then Some (m, tl chunk)
     else (case get_esc chunk of
             None \<Rightarrow> None
           | Some (lo, c1) \<Rightarrow>
              (if hd c1 = CHR ''-'' then
                 (case get_esc (tl c1) of
                    None \<Rightarrow> None
                  | Some (hi, c2) \<Rightarrow> match_class r True (m \<or> lo \<le> r \<and> r \<le> hi) c2)
               else match_class r True (m \<or> lo = r) c1)))"
  by pat_completeness auto
termination
proof (relation "measure (\<lambda>(_, _, _, c). length c)", goal_cases)
  case (2 r sr m chunk x2 lo c1 x3 hi c2)
  then have "length c1 < length chunk" "length c2 < length (tl c1)"
    by (auto dest: get_esc_length)
  then show ?case by simp
qed (auto dest: get_esc_length)

declare match_class.simps [simp del]

lemma match_class_length: "match_class r b m chunk = Some (x, t) \<Longrightarrow> length t < length chunk"
proof (induction r b m chunk arbitrary: x t rule: match_class.induct)
  case (1 r b m chunk)
  show ?case
  proof (cases "chunk \<noteq> [] \<and> hd chunk = CHR '']'' \<and> b")
    case True
    with "1.prems" have "t = tl chunk" "chunk \<noteq> []" by (simp_all add: match_class.simps)
    then show ?thesis by simp
  next
    case False
    with "1.prems" obtain lo c1 where e: "get_esc chunk = Some (lo, c1)"
      by (auto simp: match_class.simps[of r b m chunk] split: option.splits)
    then have l: "length c1 < length chunk" by (auto dest: get_esc_length)
    show ?thesis
    proof (cases "hd c1 = CHR ''-''")
      case True
      with False e "1.prems" obtain hi c2 where f: "get_esc (tl c1) = Some (hi, c2)"
        by (auto simp: match_class.simps[of r b m chunk] split: option.splits)
      have "match_class r b m chunk = match_class r True (m \<or> lo \<le> r \<and> r \<le> hi) c2"
        by (subst match_class.simps) (simp only: False e True f option.case prod.case refl if_True if_False)
      with "1.IH"(1)[OF False e refl True f refl] "1.prems" have "length t < length c2" by simp
      moreover have "length c2 < length c1" using f by (auto dest: get_esc_length)
      ultimately show ?thesis using l by simp
    next
      case nodash: False
      have "match_class r b m chunk = match_class r True (m \<or> lo = r) c1"
        by (subst match_class.simps) (simp only: False e nodash option.case prod.case if_False)
      with "1.IH"(2)[OF False e refl nodash] "1.prems" have "length t < length c1" by simp
      then show ?thesis using l by simp
    qed
  qed
qed

function match_chunk :: "string \<Rightarrow> string \<Rightarrow> string option" where
  "match_chunk [] s = Some s"
| "match_chunk (c # cs) [] = None"
| "match_chunk (c # cs) (x # s) =
    (if c = CHR ''['' then
       (let neg = (cs \<noteq> [] \<and> hd cs = CHR ''^''); body = (if neg then tl cs else cs) in
        case match_class x False False body of
          None \<Rightarrow> None
        | Some (m, rest) \<Rightarrow> if m = neg then None else match_chunk rest s)
     else if c = CHR ''?'' then (if x = CHR ''/'' then None else match_chunk cs s)
     else if c = backslash then
       (case cs of [] \<Rightarrow> None | d # ds \<Rightarrow> if d = x then match_chunk ds s else None)
     else if c = x then match_chunk cs s else None)"
  by pat_completeness auto
termination
  by (relation "measure (\<lambda>(c, _). length c)")
     (auto dest!: match_class_length split: if_splits)

fun match_star :: "string \<Rightarrow> bool \<Rightarrow> string \<Rightarrow> string option" where
  "match_star chunk final [] = None"
| "match_star chunk final (x # s) =
    (if x = CHR ''/'' then None
     else (case match_chunk chunk s of
             Some t \<Rightarrow> if final \<and> t \<noteq> [] then match_star chunk final s else Some t
           | None \<Rightarrow> match_star chunk final s))"

lemma scan_chunk_shrinks:
  assumes "p \<noteq> []"
  shows "length (snd (snd (scan_chunk p))) < length p"
proof -
  define q where "q = dropWhile (\<lambda>c. c = CHR ''*'') p"
  have le: "length q \<le> length p" by (simp add: q_def length_dropWhile_le)
  have pos: "0 < scan_chunk_end False q" if "length q = length p"
  proof -
    from that assms obtain c s where q: "q = c # s" by (cases q) auto
    then have "c \<noteq> CHR ''*''" using hd_dropWhile[of "\<lambda>c. c = CHR ''*''" p] by (simp add: q_def)
    with q show ?thesis by (auto split: list.splits)
  qed
  show ?thesis
  proof (cases "length q = length p")
    case True
    with pos assms have "length q - scan_chunk_end False q < length p" by (cases p) auto
    then show ?thesis by (simp add: scan_chunk_def q_def[symmetric] Let_def)
  next
    case False
    with le have "length q - scan_chunk_end False q < length p" by simp
    then show ?thesis by (simp add: scan_chunk_def q_def[symmetric] Let_def)
  qed
qed

function filepath_match :: "string \<Rightarrow> string \<Rightarrow> bool" where
  "filepath_match p name =
    (if p = [] then name = []
     else (case scan_chunk p of
       (star, chunk, rest) \<Rightarrow>
        if star \<and> chunk = [] then CHR ''/'' \<notin> set name
        else (case match_chunk chunk name of
                Some t \<Rightarrow>
                  if t = [] \<or> rest \<noteq> [] then filepath_match rest t
                  else if star then
                    (case match_star chunk (rest = []) name of
                       Some t' \<Rightarrow> filepath_match rest t' | None \<Rightarrow> False)
                  else False
              | None \<Rightarrow>
                  if star then
                    (case match_star chunk (rest = []) name of
                       Some t' \<Rightarrow> filepath_match rest t' | None \<Rightarrow> False)
                  else False)))"
  by pat_completeness auto
termination
  by (relation "measure (\<lambda>(p, _). length p)")
     (simp_all, (metis scan_chunk_shrinks snd_conv)+)

declare filepath_match.simps [simp del]

section \<open>net/http: header maps and request construction\<close>

text \<open>
  \<^verbatim>\<open>http.Header\<close> is a map from canonical keys to value lists, here an association list with at most
  one entry per key. \<^verbatim>\<open>textproto.CanonicalMIMEHeaderKey\<close> leaves a key with an invalid byte as it is.
\<close>

definition upper_char :: "char \<Rightarrow> char" where
  "upper_char c = (if is_lower c then char_of ((of_char c :: nat) - 32) else c)"

definition is_token_char :: "char \<Rightarrow> bool" where
  "is_token_char c = (is_alpha c \<or> is_digit c \<or> c \<in> set (''!#$%&*+-.^_|~'' @ [CHR 0x27, CHR 0x60]))"

fun canonical_loop :: "bool \<Rightarrow> string \<Rightarrow> string" where
  "canonical_loop up [] = []"
| "canonical_loop up (c # s) =
    (let d = (if up then upper_char c else lower_char c) in d # canonical_loop (d = CHR ''-'') s)"

definition canonical_key :: "string \<Rightarrow> string" where
  "canonical_key k = (if list_all is_token_char k then canonical_loop True k else k)"

type_synonym header = "(string \<times> string list) list"

definition header_values :: "string \<Rightarrow> header \<Rightarrow> string list" where
  "header_values k h = (case map_of h (canonical_key k) of Some vs \<Rightarrow> vs | None \<Rightarrow> [])"

definition header_Del :: "string \<Rightarrow> header \<Rightarrow> header" where
  "header_Del k h = filter (\<lambda>(k', _). k' \<noteq> canonical_key k) h"

definition header_Set :: "string \<Rightarrow> string \<Rightarrow> header \<Rightarrow> header" where
  "header_Set k v h = header_Del k h @ [(canonical_key k, [v])]"

definition header_Add :: "string \<Rightarrow> string \<Rightarrow> header \<Rightarrow> header" where
  "header_Add k v h = header_Del k h @ [(canonical_key k, header_values k h @ [v])]"

definition header_Get :: "string \<Rightarrow> header \<Rightarrow> string" where
  "header_Get k h = (case header_values k h of [] \<Rightarrow> [] | v # _ \<Rightarrow> v)"

lemma header_values_Set: "header_values k (header_Set k' v h) =
    (if canonical_key k = canonical_key k' then [v] else header_values k h)"
proof -
  have "map_of (filter (\<lambda>(a, _). a \<noteq> x) l) y = (if y = x then None else map_of l y)" for x y and l :: header
    by (induction l) auto
  then show ?thesis
    by (auto simp: header_values_def header_Set_def header_Del_def map_add_def split: option.splits)
qed

text \<open>\<^verbatim>\<open>http.NewRequest\<close> rejects a method that is not a token and a URL that does not parse.\<close>

definition new_request_ok :: "string \<Rightarrow> string \<Rightarrow> bool" where
  "new_request_ok method url = (list_all is_token_char method \<and> url_parse url \<noteq> None)"

lemmas [go_string_defs] =
  is_digit_def is_lower_def is_alpha_def hex_value_def is_ctl_def cut_at_def count_char_def
  url_parse_def url_parse_nofrag_def url_Hostname_def

section \<open>Trimming, splitting and decimals\<close>

lemma trim_edges: "s \<noteq> [] \<Longrightarrow> \<not> is_space (hd s) \<Longrightarrow> \<not> is_space (last s) \<Longrightarrow> trim_space s = s"
proof -
  assume a: "s \<noteq> []" "\<not> is_space (hd s)" "\<not> is_space (last s)"
  have "dropWhile is_space s = s" using a(1,2) by (cases s) simp_all
  moreover have "dropWhile is_space (rev s) = rev s" using a(1,3) by (cases s rule: rev_cases) simp_all
  ultimately show ?thesis by (simp add: trim_space_def trim_left_def trim_right_def)
qed

lemma trimmed_edges:
  assumes "trim_space s = s" "s \<noteq> []"
  shows "\<not> is_space (hd s)" "\<not> is_space (last s)"
proof -
  have le: "length (trim_space s) \<le> length (dropWhile is_space s)"
    unfolding trim_space_def trim_right_def trim_left_def by (simp add: length_dropWhile_le[of is_space "rev (dropWhile is_space s)", simplified])
  show h: "\<not> is_space (hd s)"
  proof
    assume "is_space (hd s)"
    then have "length (dropWhile is_space s) < length s" using assms(2) by (cases s) (simp_all add: length_dropWhile_le le_imp_less_Suc)
    then show False using le assms(1) by simp
  qed
  then have d: "dropWhile is_space s = s" using assms(2) by (cases s) simp_all
  show "\<not> is_space (last s)"
  proof
    assume "is_space (last s)"
    then have "length (dropWhile is_space (rev s)) < length (rev s)" using assms(2)
      using length_dropWhile_le[of is_space "rev (butlast s)"] by (cases s rule: rev_cases) simp_all
    then have "length (trim_space s) < length s" by (simp add: trim_space_def trim_left_def trim_right_def d)
    then show False using assms(1) by simp
  qed
qed

lemma split_on_append: "split_on x (a @ x # b) = split_on x a @ split_on x b"
proof (induction a)
  case (Cons c a)
  obtain w ws where "split_on x a = w # ws" using split_on_nonempty list.exhaust by blast
  then show ?case using Cons by auto
qed simp

lemma split_on_free: "x \<notin> set w \<Longrightarrow> split_on x w = [w]"
  by (induction w) auto

lemma split_join: "ws \<noteq> [] \<Longrightarrow> \<forall>w\<in>set ws. x \<notin> set w \<Longrightarrow> split_on x (join_with [x] ws) = ws"
  by (induction "[x]" ws rule: join_with.induct) (simp_all add: split_on_free split_on_append)

lemma digit_chars: "c \<in> set (nat_str n) \<Longrightarrow> is_digit c"
proof (induction n rule: nat_str.induct)
  case (1 n)
  then show ?case by (subst (asm) (2) nat_str.simps) (auto simp: is_digit_def split: if_splits)
qed

lemma nat_str_nonempty: "nat_str n \<noteq> []"
  by (subst nat_str.simps) simp

lemma nat_str_value: "digits_value (nat_str n) = int n"
proof (induction n rule: nat_str.induct)
  case (1 n)
  show ?case
  proof (cases "n < 10")
    case True
    then show ?thesis by (subst nat_str.simps) (simp add: digits_value_def)
  next
    case False
    then show ?thesis using 1 by (subst nat_str.simps) (simp add: digits_value_def zdiv_int zmod_int)
  qed
qed

end
