(* ===== verification/AI_Catalog.thy ===== *)
theory AI_Catalog
  imports Domain_Types Go_Stdlib
begin

text \<open>
  The AI product catalog (\<^verbatim>\<open>src/core/domain/ai_services.go\<close>): normalisation of host names and
  catalog entries, the merge of policy-delivered products into the built-in ones, and the lookup
  that names the product behind a host or a process. The built-in entries are the records of
  \<^verbatim>\<open>src/core/domain/ai_products.json\<close>, which the agent embeds.

  The lemmas show what a lookup result is evidence of, that an exact domain match is never lost
  to a suffix or process match, and that a policy cannot rewrite a product key of the base.
\<close>

section \<open>Normalisation\<close>

definition normalizeCatalogValue :: "string \<Rightarrow> string" where
  "normalizeCatalogValue v = to_lower (trim_space v)"

definition containsCatalogValue :: "string list \<Rightarrow> string \<Rightarrow> bool" where
  "containsCatalogValue values target =
    (target \<noteq> [] \<and> list_ex (\<lambda>v. normalizeCatalogValue v = target) values)"

definition trim_brackets :: "string \<Rightarrow> string" where
  "trim_brackets s = trim_right (\<lambda>c. c \<in> set ''[]'') (trim_left (\<lambda>c. c \<in> set ''[]'') s)"

definition NormalizeHost :: "string \<Rightarrow> string" where
  "NormalizeHost raw0 =
    (let raw = trim_space (to_lower raw0) in
     if raw = [] then []
     else
       let raw1 = (if contains raw ''://'' then
                     (case url_parse raw of
                        Some u \<Rightarrow> if ur_Host u \<noteq> [] then ur_Host u else raw
                      | None \<Rightarrow> raw)
                   else raw);
           raw2 = (case split_host_port raw1 of
                     Some (host, port) \<Rightarrow> if port \<noteq> [] then host else raw1
                   | None \<Rightarrow> raw1)
       in trim_suffix (trim_brackets raw2) ''.'')"

definition normalizeCatalogValues :: "string list \<Rightarrow> bool \<Rightarrow> string list" where
  "normalizeCatalogValues values host =
    sorted_keys (filter (\<lambda>v. v \<noteq> [])
      (map (\<lambda>v. if host then NormalizeHost v else normalizeCatalogValue v) values))"

definition normalizeEntry :: "ai_product_catalog_entry \<Rightarrow> ai_product_catalog_entry option" where
  "normalizeEntry e =
    (let vendor = normalizeCatalogValue (ap_VendorKey e);
         product = normalizeCatalogValue (ap_ProductKey e);
         category = normalizeCatalogValue (ap_FunctionalCategory e);
         display = trim_space (ap_DisplayName e) in
     if vendor = [] \<or> product = [] \<or> display = [] then None
     else Some (e\<lparr>ap_VendorKey := vendor, ap_ProductKey := product, ap_DisplayName := display,
            ap_FunctionalCategory := (if category = [] then ''unknown'' else category),
            ap_Domains := normalizeCatalogValues (ap_Domains e) True,
            ap_ProcessNames := normalizeCatalogValues (ap_ProcessNames e) False,
            ap_BundleIDs := normalizeCatalogValues (ap_BundleIDs e) False,
            ap_Surfaces := normalizeCatalogValues (ap_Surfaces e) False,
            ap_MCPConfigKeys := normalizeCatalogValues (ap_MCPConfigKeys e) False\<rparr>))"

definition normalizeAIProductCatalog ::
  "ai_product_catalog_entry list \<Rightarrow> ai_product_catalog_entry list" where
  "normalizeAIProductCatalog entries = List.map_filter normalizeEntry entries"

section \<open>The built-in catalog\<close>

definition aiEntry :: "string \<Rightarrow> string \<Rightarrow> string \<Rightarrow> string \<Rightarrow> string list \<Rightarrow> string list \<Rightarrow>
    string list \<Rightarrow> string list \<Rightarrow> string list \<Rightarrow> bool \<Rightarrow> ai_product_catalog_entry" where
  "aiEntry vendor product display category domains processes bundles surfaces mcp api_only =
    \<lparr>ap_VendorKey = vendor, ap_ProductKey = product, ap_DisplayName = display,
     ap_FunctionalCategory = category, ap_Domains = domains, ap_ProcessNames = processes,
     ap_BundleIDs = bundles, ap_Surfaces = surfaces, ap_MCPConfigKeys = mcp,
     ap_APIOnly = api_only\<rparr>"

definition builtInAIProductsJSON :: "ai_product_catalog_entry list" where
  "builtInAIProductsJSON = [
    aiEntry ''openai'' ''chatgpt'' ''ChatGPT'' ''general_assistant''
      [''chatgpt.com'', ''chat.openai.com''] [''chatgpt'']
      [''com.openai.chat''] [''browser_chromium'', ''browser_safari'', ''desktop'']
      [] False,
    aiEntry ''openai'' ''openai_api'' ''OpenAI API'' ''model_api''
      [''api.openai.com'', ''platform.openai.com''] []
      [] [''native_https'', ''api'']
      [] True,
    aiEntry ''anthropic'' ''claude'' ''Claude'' ''general_assistant''
      [''claude.ai''] [''claude'']
      [''com.anthropic.claudefordesktop''] [''browser_chromium'', ''browser_safari'', ''desktop'']
      [''claude_desktop''] False,
    aiEntry ''anthropic'' ''claude_api'' ''Claude API'' ''model_api''
      [''api.anthropic.com''] []
      [] [''native_https'', ''api'']
      [] True,
    aiEntry ''anthropic'' ''claude_code'' ''Claude Code'' ''coding_agent''
      [] [''claude'']
      [] [''claude_code'', ''terminal'']
      [''claude_code''] False,
    aiEntry ''google'' ''gemini'' ''Gemini'' ''general_assistant''
      [''gemini.google.com'', ''clients6.google.com'', ''bard.google.com''] []
      [] [''browser_chromium'', ''browser_safari'']
      [] False,
    aiEntry ''google'' ''gemini_api'' ''Gemini API'' ''model_api''
      [''generativelanguage.googleapis.com'', ''content-gemini.googleapis.com'', ''aistudio.google.com''] []
      [] [''native_https'', ''api'']
      [] True,
    aiEntry ''google'' ''antigravity'' ''Antigravity'' ''coding_agent''
      [] [''antigravity'']
      [''com.google.antigravity''] [''desktop'', ''coding_agent'']
      [] False,
    aiEntry ''cursor'' ''cursor'' ''Cursor'' ''coding_agent''
      [''cursor.sh'', ''api2.cursor.sh'', ''aicursor.com''] [''cursor'']
      [''com.todesktop.230313mzl4w4u92''] [''cursor'', ''desktop'', ''native_https'']
      [''cursor''] False,
    aiEntry ''github'' ''github_copilot'' ''GitHub Copilot'' ''coding_agent''
      [''api.githubcopilot.com'', ''copilot-proxy.githubusercontent.com''] [''github copilot'']
      [] [''github_copilot'', ''coding_agent'', ''native_https'']
      [] False,
    aiEntry ''windsurf'' ''windsurf'' ''Windsurf'' ''coding_agent''
      [''windsurf.ai'', ''api.codeium.com''] [''windsurf'']
      [''com.exafunction.windsurf''] [''windsurf'', ''desktop'', ''native_https'']
      [''windsurf''] False,
    aiEntry ''ollama'' ''ollama'' ''Ollama'' ''local_model_runtime''
      [''ollama.com''] [''ollama'']
      [''com.electron.ollama''] [''local_model'', ''desktop'']
      [] False,
    aiEntry ''lm_studio'' ''lm_studio'' ''LM Studio'' ''local_model_runtime''
      [] [''lm studio'', ''lm-studio'']
      [''ai.elementlabs.lmstudio''] [''local_model'', ''desktop'']
      [] False,
    aiEntry ''microsoft'' ''copilot'' ''Microsoft Copilot'' ''general_assistant''
      [''copilot.microsoft.com''] []
      [] [''browser_chromium'', ''browser_safari'']
      [] False,
    aiEntry ''microsoft'' ''vscode_mcp'' ''VS Code MCP'' ''mcp_client''
      [] [''code'']
      [''com.microsoft.vscode''] [''coding_agent'', ''desktop'']
      [''vscode''] False,
    aiEntry ''perplexity'' ''perplexity'' ''Perplexity'' ''ai_search''
      [''perplexity.ai'', ''api.perplexity.ai''] []
      [] [''browser_chromium'', ''browser_safari'', ''native_https'']
      [] False,
    aiEntry ''huggingface'' ''hugging_face'' ''Hugging Face'' ''model_platform''
      [''huggingface.co'', ''api-inference.huggingface.co''] []
      [] [''browser_chromium'', ''browser_safari'', ''native_https'']
      [] False,
    aiEntry ''cohere'' ''cohere_api'' ''Cohere API'' ''model_api''
      [''api.cohere.ai'', ''api.cohere.com''] []
      [] [''native_https'']
      [] True,
    aiEntry ''mistral'' ''mistral_api'' ''Mistral API'' ''model_api''
      [''api.mistral.ai''] []
      [] [''native_https'']
      [] True,
    aiEntry ''together'' ''together_api'' ''Together AI'' ''model_api''
      [''api.together.ai''] []
      [] [''native_https'']
      [] True,
    aiEntry ''stability'' ''stability_api'' ''Stability AI'' ''image_generation''
      [''api.stability.ai''] []
      [] [''native_https'']
      [] True,
    aiEntry ''midjourney'' ''midjourney'' ''Midjourney'' ''image_generation''
      [''midjourney.com''] []
      [] [''browser_chromium'', ''browser_safari'']
      [] False,
    aiEntry ''quora'' ''poe'' ''Poe'' ''general_assistant''
      [''poe.com''] []
      [] [''browser_chromium'', ''browser_safari'']
      [] False,
    aiEntry ''replicate'' ''replicate'' ''Replicate'' ''model_platform''
      [''replicate.com'', ''api.replicate.com''] []
      [] [''browser_chromium'', ''browser_safari'', ''native_https'']
      [] False,
    aiEntry ''groq'' ''groq'' ''Groq'' ''model_platform''
      [''api.groq.com'', ''console.groq.com''] []
      [] [''browser_chromium'', ''browser_safari'', ''native_https'']
      [] False,
    aiEntry ''xai'' ''grok_api'' ''Grok API'' ''model_api''
      [''api.x.ai''] []
      [] [''native_https'']
      [] True]"

definition builtInAIProducts :: "ai_product_catalog_entry list" where
  "builtInAIProducts = normalizeAIProductCatalog builtInAIProductsJSON"

definition empty_entry :: ai_product_catalog_entry where
  "empty_entry = aiEntry [] [] [] [] [] [] [] [] [] False"

text \<open>
  \<^verbatim>\<open>cloneAIProductCatalog\<close> copies every slice so that a caller cannot write through; values have
  no identity here, so the clone is the value itself.
\<close>

definition BuiltInAIProductCatalog :: "ai_product_catalog_entry list" where
  "BuiltInAIProductCatalog = builtInAIProducts"

section \<open>Merge\<close>

definition catalog_key :: "ai_product_catalog_entry \<Rightarrow> string" where
  "catalog_key e = ap_VendorKey e @ ''/'' @ ap_ProductKey e"

fun merge_loop :: "string set \<Rightarrow> ai_product_catalog_entry list \<Rightarrow> ai_product_catalog_entry list" where
  "merge_loop seen [] = []"
| "merge_loop seen (e # es) =
    (if catalog_key e \<in> seen then merge_loop seen es
     else e # merge_loop (insert (catalog_key e) seen) es)"

definition MergeAIProductCatalog :: "ai_product_catalog_entry list \<Rightarrow>
    ai_product_catalog_entry list \<Rightarrow> ai_product_catalog_entry list" where
  "MergeAIProductCatalog base additions =
    (let out = normalizeAIProductCatalog base in
     out @ merge_loop (set (map catalog_key out)) (normalizeAIProductCatalog additions))"

section \<open>Lookup\<close>

definition entry_exact :: "string \<Rightarrow> ai_product_catalog_entry \<Rightarrow> bool" where
  "entry_exact host e = list_ex (\<lambda>d. host \<noteq> [] \<and> host = NormalizeHost d) (ap_Domains e)"

definition entry_suffix :: "string \<Rightarrow> ai_product_catalog_entry \<Rightarrow> bool" where
  "entry_suffix host e = list_ex (\<lambda>d. let d' = NormalizeHost d in
     host \<noteq> [] \<and> d' \<noteq> [] \<and> has_suffix host (''.'' @ d')) (ap_Domains e)"

definition LookupAIProduct :: "ai_product_catalog_entry list \<Rightarrow> string \<Rightarrow> process_info \<Rightarrow>
    ai_product_catalog_entry option" where
  "LookupAIProduct catalog host0 process =
    (let host = NormalizeHost host0;
         processName = normalizeCatalogValue (ps_Name process);
         bundleID = normalizeCatalogValue (ps_BundleID process) in
     case List.find (entry_exact host) catalog of Some e \<Rightarrow> Some e | None \<Rightarrow>
     (case List.find (\<lambda>e. entry_suffix host e \<or> containsCatalogValue (ap_BundleIDs e) bundleID)
             catalog of Some e \<Rightarrow> Some e | None \<Rightarrow>
     (case List.find (\<lambda>e. ap_BundleIDs e = [] \<and> containsCatalogValue (ap_ProcessNames e) processName)
             catalog of Some e \<Rightarrow> Some e | None \<Rightarrow>
      List.find (\<lambda>e. containsCatalogValue (ap_ProcessNames e) processName) catalog)))"

definition LookupAIProductByKey :: "ai_product_catalog_entry list \<Rightarrow> string \<Rightarrow>
    ai_product_catalog_entry option" where
  "LookupAIProductByKey catalog productKey =
    List.find (\<lambda>e. normalizeCatalogValue (ap_ProductKey e) = normalizeCatalogValue productKey) catalog"

section \<open>The routing view\<close>

record ai_service_info =
  si_Vendor :: string
  si_Product :: string
  si_Name :: string
  si_Category :: string
  si_RiskTier :: string
  si_Sanctioned :: bool
  si_Surfaces :: "string list"

definition legacyServiceCategory :: "string \<Rightarrow> string" where
  "legacyServiceCategory c =
    (if c = ''coding_agent'' then ''ai_code''
     else if c = ''image_generation'' then ''ai_image'' else ''ai_llm'')"

definition serviceInfo :: "ai_product_catalog_entry \<Rightarrow> ai_service_info" where
  "serviceInfo e = \<lparr>si_Vendor = ap_VendorKey e, si_Product = ap_ProductKey e,
     si_Name = ap_DisplayName e, si_Category = legacyServiceCategory (ap_FunctionalCategory e),
     si_RiskTier = [], si_Sanctioned = False, si_Surfaces = ap_Surfaces e\<rparr>"

definition registrableDomainFamily :: "string \<Rightarrow> string" where
  "registrableDomainFamily host =
    (let parts = split_on (CHR ''.'') (NormalizeHost host) in
     if length parts < 2 then NormalizeHost host
     else join_with ''.'' (drop (length parts - 2) parts))"

definition catalogEntryOwnsHost :: "ai_product_catalog_entry \<Rightarrow> string \<Rightarrow> bool" where
  "catalogEntryOwnsHost e host0 =
    (let host = NormalizeHost host0 in
     list_ex (\<lambda>d. registrableDomainFamily host = registrableDomainFamily (NormalizeHost d))
       (ap_Domains e))"

definition LookupAIService :: "string \<Rightarrow> ai_service_info option" where
  "LookupAIService host =
    map_option serviceInfo (LookupAIProduct builtInAIProducts host empty_process_info)"

fun infer_signals :: "string \<Rightarrow> string list \<Rightarrow> ai_service_info option" where
  "infer_signals host [] = None"
| "infer_signals host (signal # signals) =
    (case LookupAIProduct builtInAIProducts (NormalizeHost signal) empty_process_info of
       Some e \<Rightarrow> if catalogEntryOwnsHost e host then Some (serviceInfo e)
                 else infer_signals host signals
     | None \<Rightarrow> infer_signals host signals)"

definition InferAIService :: "string \<Rightarrow> string list \<Rightarrow> ai_service_info option" where
  "InferAIService host0 signals =
    (case LookupAIService host0 of
       Some info \<Rightarrow> Some info
     | None \<Rightarrow>
        (let host = NormalizeHost host0 in
         if host = [] then None else infer_signals host signals))"

text \<open>What a successful lookup is evidence of.\<close>

definition lookup_evidence :: "string \<Rightarrow> process_info \<Rightarrow> ai_product_catalog_entry \<Rightarrow> bool" where
  "lookup_evidence host process e =
    (entry_exact (NormalizeHost host) e \<or> entry_suffix (NormalizeHost host) e \<or>
     containsCatalogValue (ap_BundleIDs e) (normalizeCatalogValue (ps_BundleID process)) \<or>
     containsCatalogValue (ap_ProcessNames e) (normalizeCatalogValue (ps_Name process)))"

section \<open>Lemmas\<close>

lemma normalizeCatalogValue_canon: "normalizeCatalogValue = canon"
  by (rule ext) (simp add: normalizeCatalogValue_def canon_def)

lemma normalizeCatalogValue_idem [simp]:
  "normalizeCatalogValue (normalizeCatalogValue v) = normalizeCatalogValue v"
  by (simp add: normalizeCatalogValue_canon)

lemma normalizeEntry_keys:
  assumes "normalizeEntry e = Some n"
  shows "ap_VendorKey n = normalizeCatalogValue (ap_VendorKey e)"
    "ap_ProductKey n = normalizeCatalogValue (ap_ProductKey e)"
    "ap_VendorKey n \<noteq> []" "ap_ProductKey n \<noteq> []" "ap_DisplayName n \<noteq> []"
    "ap_FunctionalCategory n \<noteq> []"
  using assms by (auto simp: normalizeEntry_def Let_def split: if_splits)

lemma merge_loop_subset: "set (merge_loop seen es) \<subseteq> set es"
  by (induction es arbitrary: seen) auto

lemma merge_loop_fresh: "e \<in> set (merge_loop seen es) \<Longrightarrow> catalog_key e \<notin> seen"
  by (induction es arbitrary: seen) (auto split: if_splits)

lemma merge_loop_distinct: "distinct (map catalog_key (merge_loop seen es))"
proof (induction es arbitrary: seen)
  case (Cons e es)
  have "catalog_key e \<notin> catalog_key ` set (merge_loop (insert (catalog_key e) seen) es)"
    using merge_loop_fresh by fastforce
  with Cons show ?case by simp
qed simp

lemma merge_loop_covers:
  "e \<in> set es \<Longrightarrow> catalog_key e \<in> seen \<union> catalog_key ` set (merge_loop seen es)"
proof (induction es arbitrary: seen)
  case (Cons a es)
  show ?case
  proof (cases "catalog_key a \<in> seen")
    case True
    with Cons show ?thesis by auto
  next
    case False
    with Cons.IH[of "insert (catalog_key a) seen"] Cons.prems show ?thesis by auto
  qed
qed simp

lemma merge_loop_id:
  "distinct (map catalog_key es) \<Longrightarrow> catalog_key ` set es \<inter> seen = {} \<Longrightarrow> merge_loop seen es = es"
  by (induction es arbitrary: seen) auto

lemma find_in_set: "List.find P xs = Some x \<Longrightarrow> x \<in> set xs \<and> P x"
  by (auto simp: find_Some_iff)

lemma find_None_all: "List.find P xs = None \<Longrightarrow> \<forall>x\<in>set xs. \<not> P x"
  by (simp add: find_None_iff)

section \<open>Properties\<close>

text \<open>
  Merging policy-delivered products appends to the normalised base catalog: no base entry
  is dropped, moved or changed, no appended entry reuses a vendor/product key of the base or of
  another appended entry, and every valid addition's key is present in the result.
\<close>

theorem merge_base_authoritative:
  "\<exists>new. MergeAIProductCatalog base additions = normalizeAIProductCatalog base @ new \<and>
     set new \<subseteq> set (normalizeAIProductCatalog additions) \<and>
     distinct (map catalog_key new) \<and>
     catalog_key ` set new \<inter> catalog_key ` set (normalizeAIProductCatalog base) = {} \<and>
     catalog_key ` set (normalizeAIProductCatalog additions)
       \<subseteq> catalog_key ` set (MergeAIProductCatalog base additions)"
proof -
  let ?b = "normalizeAIProductCatalog base" and ?a = "normalizeAIProductCatalog additions"
  let ?new = "merge_loop (set (map catalog_key ?b)) ?a"
  have eq: "MergeAIProductCatalog base additions = ?b @ ?new"
    by (simp add: MergeAIProductCatalog_def Let_def)
  moreover have "catalog_key ` set ?new \<inter> catalog_key ` set ?b = {}"
    using merge_loop_fresh[of _ "set (map catalog_key ?b)" ?a] by auto
  moreover have "catalog_key ` set ?a \<subseteq> catalog_key ` set (?b @ ?new)"
    using merge_loop_covers[of _ ?a "set (map catalog_key ?b)"] by auto
  ultimately show ?thesis
    using merge_loop_subset merge_loop_distinct by (intro exI[of _ ?new]) auto
qed

text \<open>
  A catalog lookup that succeeds returns an entry of the catalog that the host (exactly or
  as a subdomain), the bundle identifier or the process name is evidence for; if any entry
  lists the host exactly, the returned one does. A lookup that fails had no evidence for any
  entry.
\<close>

theorem lookup_evidence_complete:
  "case LookupAIProduct catalog host process of
     Some e \<Rightarrow> e \<in> set catalog \<and> lookup_evidence host process e \<and>
       ((\<exists>x\<in>set catalog. entry_exact (NormalizeHost host) x) \<longrightarrow> entry_exact (NormalizeHost host) e)
   | None \<Rightarrow> (\<forall>e\<in>set catalog. \<not> lookup_evidence host process e)"
  unfolding LookupAIProduct_def lookup_evidence_def Let_def
  by (auto split: option.splits dest!: find_in_set find_None_all)

theorem lookup_evidence_complete_witness:
  "lookup_evidence ''eu.api.openai.com:443'' empty_process_info
     (the (LookupAIProduct [aiEntry ''openai'' ''chatgpt'' ''ChatGPT'' ''general_assistant''
         [''openai.com''] [] [] [] [] False] ''eu.api.openai.com:443'' empty_process_info))"
proof -
  let ?cat = "[aiEntry ''openai'' ''chatgpt'' ''ChatGPT'' ''general_assistant''
         [''openai.com''] [] [] [] [] False]"
  have "LookupAIProduct ?cat ''eu.api.openai.com:443'' empty_process_info \<noteq> None" by code_simp
  then show ?thesis
    using lookup_evidence_complete[of ?cat "''eu.api.openai.com:443''" empty_process_info]
    by (auto split: option.splits)
qed

end
