(* ===== verification/Policy_Engine.thy ===== *)
theory Policy_Engine
  imports AI_Catalog
begin

text \<open>
  The agent's policy engine (\<^verbatim>\<open>src/core/policy/engine.go\<close>): compilation of the rules, first-match
  evaluation in priority order, the atomic replacement of the rule set and the normalisation of
  the interception settings that a policy carries.

  Two things the engine calls are parameters: \<^verbatim>\<open>regexp.Compile\<close> (\<open>rc\<close>, which yields the compiled
  expression as a predicate or fails) and \<^verbatim>\<open>sort.Slice\<close> (\<open>sorter\<close>, under the contract
  \<open>slice_sort\<close>). The mutex makes every operation atomic, so an operation is a function on the
  engine state.
\<close>

section \<open>State\<close>

type_synonym regexp = "string \<Rightarrow> bool"

record conditionMatcher =
  cm_cond :: rule_condition
  cm_regex :: "regexp option"

record compiledRule =
  cr_rule :: policy_rule
  cr_matchers :: "conditionMatcher list"

record engine =
  en_rules :: "policy_rule list"
  en_version :: string
  en_interception :: policy_interception
  en_aiProducts :: "ai_product_catalog_entry list"
  en_promptEnforcementOverride :: string
  en_defaultDecision :: decision
  en_compiled :: "compiledRule list"

datatype policy_error =
    NilPayload
  | BadRegex string nat string

definition zero_interception :: policy_interception where
  "zero_interception = \<lparr>pi_Enabled = False, pi_Domains = [], pi_Protocols = [], pi_FailMode = [],
     pi_CaptureMode = [], pi_Scope = []\<rparr>"

definition NewEngine :: "decision \<Rightarrow> engine" where
  "NewEngine d = \<lparr>en_rules = [], en_version = [], en_interception = zero_interception,
     en_aiProducts = BuiltInAIProductCatalog, en_promptEnforcementOverride = [],
     en_defaultDecision = d, en_compiled = []\<rparr>"

section \<open>Matching\<close>

definition bool_field :: "bool \<Rightarrow> string" where
  "bool_field b = (if b then ''true'' else ''false'')"

definition resolveField :: "string \<Rightarrow> request_context \<Rightarrow> string" where
  "resolveField f ctx =
    (if f = ''host'' then cx_Host ctx
     else if f = ''path'' then cx_Path ctx
     else if f = ''method'' then cx_Method ctx
     else if f = ''scheme'' then cx_Scheme ctx
     else if f = ''process_name'' then ps_Name (cx_Process ctx)
     else if f = ''process_path'' then ps_Path (cx_Process ctx)
     else if f = ''process_user'' then ps_User (cx_Process ctx)
     else if f = ''process_bundle'' then ps_BundleID (cx_Process ctx)
     else if f = ''process_signer'' then ps_SignerID (cx_Process ctx)
     else if f = ''process_signed'' then bool_field (ps_Signed (cx_Process ctx))
     else if f = ''service_category'' then cx_ServiceCategory ctx
     else if f = ''ai_vendor'' then cx_AIVendor ctx
     else if f = ''capture_surface'' then cx_CaptureSurface ctx
     else if f = ''body_contains_pii'' then bool_field (di_ContainsPII (cx_DLP ctx))
     else if f = ''body_contains_credentials'' then bool_field (di_ContainsCredentials (cx_DLP ctx))
     else if f = ''body_contains_source_code'' then bool_field (di_ContainsSourceCode (cx_DLP ctx))
     else if f = ''body_has_dlp_match'' then bool_field (di_Matches (cx_DLP ctx) \<noteq> [])
     else [])"

definition evalOperator :: "string \<Rightarrow> string \<Rightarrow> string \<Rightarrow> regexp option \<Rightarrow> bool" where
  "evalOperator oper fieldVal pattern re =
    (if oper = ''eq'' then equal_fold fieldVal pattern
     else if oper = ''contains'' then contains (to_lower fieldVal) (to_lower pattern)
     else if oper = ''prefix'' then has_prefix (to_lower fieldVal) (to_lower pattern)
     else if oper = ''suffix'' then has_suffix (to_lower fieldVal) (to_lower pattern)
     else if oper = ''regex'' then (case re of Some r \<Rightarrow> r fieldVal | None \<Rightarrow> False)
     else if oper = ''glob'' then filepath_match (to_lower pattern) (to_lower fieldVal)
     else False)"

definition matchCondition :: "conditionMatcher \<Rightarrow> request_context \<Rightarrow> bool" where
  "matchCondition m ctx =
    (let fieldVal = resolveField (rc_Field (cm_cond m)) ctx;
         result = evalOperator (rc_Operator (cm_cond m)) fieldVal (rc_Value (cm_cond m)) (cm_regex m)
     in if rc_Negate (cm_cond m) then \<not> result else result)"

definition matchAll :: "compiledRule \<Rightarrow> request_context \<Rightarrow> bool" where
  "matchAll cr ctx = list_all (\<lambda>m. matchCondition m ctx) (cr_matchers cr)"

fun apply_loop :: "compiledRule list \<Rightarrow> request_context \<Rightarrow> (decision \<times> string) option" where
  "apply_loop [] ctx = None"
| "apply_loop (cr # crs) ctx =
    (if matchAll cr ctx then Some (pr_Decision (cr_rule cr), pr_ID (cr_rule cr))
     else apply_loop crs ctx)"

definition engine_Apply :: "engine \<Rightarrow> request_context \<Rightarrow> decision \<times> string" where
  "engine_Apply e ctx =
    (case apply_loop (en_compiled e) ctx of Some r \<Rightarrow> r | None \<Rightarrow> (en_defaultDecision e, []))"

definition RuleByID :: "engine \<Rightarrow> string \<Rightarrow> policy_rule option" where
  "RuleByID e rid = List.find (\<lambda>r. pr_ID r = rid) (en_rules e)"

section \<open>Compilation\<close>

fun compile_conditions :: "(string \<Rightarrow> regexp option) \<Rightarrow> string \<Rightarrow> nat \<Rightarrow> rule_condition list \<Rightarrow>
    policy_error + conditionMatcher list" where
  "compile_conditions rc rid j [] = Inr []"
| "compile_conditions rc rid j (c # cs) =
    (if rc_Operator c = ''regex'' then
       (case rc (rc_Value c) of
          None \<Rightarrow> Inl (BadRegex rid j (rc_Value c))
        | Some re \<Rightarrow>
           (case compile_conditions rc rid (j + 1) cs of
              Inl err \<Rightarrow> Inl err
            | Inr ms \<Rightarrow> Inr (\<lparr>cm_cond = c, cm_regex = Some re\<rparr> # ms)))
     else
       (case compile_conditions rc rid (j + 1) cs of
          Inl err \<Rightarrow> Inl err
        | Inr ms \<Rightarrow> Inr (\<lparr>cm_cond = c, cm_regex = None\<rparr> # ms)))"

fun compileRules :: "(string \<Rightarrow> regexp option) \<Rightarrow> policy_rule list \<Rightarrow>
    policy_error + compiledRule list" where
  "compileRules rc [] = Inr []"
| "compileRules rc (r # rs) =
    (case compile_conditions rc (pr_ID r) 0 (pr_Conditions r) of
       Inl err \<Rightarrow> Inl err
     | Inr ms \<Rightarrow>
        (case compileRules rc rs of
           Inl err \<Rightarrow> Inl err
         | Inr crs \<Rightarrow> Inr (\<lparr>cr_rule = r, cr_matchers = ms\<rparr> # crs)))"

section \<open>Interception settings\<close>

definition domain_char_ok :: "char \<Rightarrow> bool" where
  "domain_char_ok c = (is_lower c \<or> is_digit c \<or> c = CHR ''.'' \<or> c = CHR ''-'')"

definition interceptDomainCandidate :: "string \<Rightarrow> string" where
  "interceptDomainCandidate v =
    (let v1 = trim_prefix v ''*.'';
         v2 = (if contains v1 ''://'' then
                 (case url_parse v1 of Some u \<Rightarrow> ur_Host u | None \<Rightarrow> v1) else v1);
         v3 = (if contains v2 ''/'' then hd (split_on (CHR ''/'') v2) else v2);
         v4 = (case split_host_port v3 of Some (h, _) \<Rightarrow> h | None \<Rightarrow> v3)
     in trim_prefix (trim_suffix v4 ''.'') ''.'')"

definition normalizeInterceptDomain :: "string \<Rightarrow> string" where
  "normalizeInterceptDomain raw =
    (let v = trim_space (to_lower raw) in
     if v = [] then []
     else
       let w = interceptDomainCandidate v in
       if w = [] \<or> \<not> contains w ''.'' then []
       else if list_all domain_char_ok w then w else [])"

definition vendorAliasesForDomain :: "string \<Rightarrow> string list" where
  "vendorAliasesForDomain d =
    (if d = ''api.openai.com'' then [''api.openai.com'']
     else if d = ''openai.com'' \<or> d = ''chat.openai.com'' \<or> d = ''chatgpt.com'' then [''api.openai.com'']
     else if has_suffix d ''anthropic.com'' \<or> d = ''claude.ai'' then [''api.anthropic.com'']
     else if has_suffix d ''google.com'' \<or> has_suffix d ''googleapis.com'' \<or> contains d ''gemini''
       then [''generativelanguage.googleapis.com'', ''content-gemini.googleapis.com'']
     else if has_suffix d ''githubcopilot.com'' \<or> has_suffix d ''githubusercontent.com''
       then [''api.githubcopilot.com'', ''copilot-proxy.githubusercontent.com'']
     else if contains d ''cursor'' then [''api2.cursor.sh'']
     else [])"

definition alias_domains :: "string \<Rightarrow> string list" where
  "alias_domains d = filter (\<lambda>n. n \<noteq> []) (map normalizeInterceptDomain (vendorAliasesForDomain d))"

text \<open>
  The alias loop inserts into the map it ranges over. Go visits every key that was there before
  the loop and may or may not visit a key inserted during it, in an unspecified order: each step
  takes any key not yet visited, and the loop may stop once the original keys are done. The
  executable definition visits the original keys only; the step relation is the full behaviour.
\<close>

inductive alias_step :: "string set \<times> string set \<Rightarrow> string set \<times> string set \<Rightarrow> bool" where
  visit: "d \<in> S \<Longrightarrow> d \<notin> V \<Longrightarrow> alias_step (S, V) (S \<union> set (alias_domains d), insert d V)"

inductive_cases alias_stepE: "alias_step s t"

definition interceptDomains :: "string list \<Rightarrow> string list" where
  "interceptDomains raw =
    (let ds = filter (\<lambda>n. n \<noteq> []) (map normalizeInterceptDomain raw) in
     sorted_keys (ds @ concat (map alias_domains ds)))"

definition interceptProtocols :: "string list \<Rightarrow> string list" where
  "interceptProtocols raw =
    (let ps = filter (\<lambda>v. v \<in> set [InterceptProtocolHTTP, InterceptProtocolWebSocket,
                InterceptProtocolGRPC]) (map (\<lambda>p. to_lower (trim_space p)) raw) in
     if ps = [] then [InterceptProtocolHTTP] else sorted_keys ps)"

definition normalizePolicyInterception :: "policy_interception \<Rightarrow> policy_interception" where
  "normalizePolicyInterception raw =
    (let fm = to_lower (trim_space (pi_FailMode raw));
         cm = to_lower (trim_space (pi_CaptureMode raw));
         sc = to_lower (trim_space (pi_Scope raw)) in
     \<lparr>pi_Enabled = pi_Enabled raw,
      pi_Domains = interceptDomains (pi_Domains raw),
      pi_Protocols = interceptProtocols (pi_Protocols raw),
      pi_FailMode = (if fm = [] then HTTPSInterceptFailOpen else fm),
      pi_CaptureMode = (if cm = [] then InterceptCaptureModeEncryptedFullBody else cm),
      pi_Scope = (if sc = InterceptScopeAPIOnly \<or> sc = InterceptScopeHybridAllowlist then sc
                  else InterceptScopeAPIOnly)\<rparr>)"

definition normalizePromptEnforcementOverride :: "string \<Rightarrow> string" where
  "normalizePromptEnforcementOverride raw =
    (let v = to_lower (trim_space raw) in
     if v = PromptEnforcementModeMonitor then PromptEnforcementModeMonitor
     else if v = PromptEnforcementModeAlert then PromptEnforcementModeAlert
     else if v = PromptEnforcementModeEnforce then PromptEnforcementModeEnforce
     else [])"

section \<open>Update and the accessors\<close>

definition engine_Update :: "(string \<Rightarrow> regexp option) \<Rightarrow> (policy_rule list \<Rightarrow> policy_rule list) \<Rightarrow>
    policy_payload option \<Rightarrow> engine \<Rightarrow> policy_error option \<times> engine" where
  "engine_Update rc sorter payload e =
    (case payload of
       None \<Rightarrow> (Some NilPayload, e)
     | Some p \<Rightarrow>
        (let sorted_rules = sorter (pp_Rules p) in
         case compileRules rc sorted_rules of
           Inl err \<Rightarrow> (Some err, e)
         | Inr compiled \<Rightarrow>
            (None, e\<lparr>en_rules := sorted_rules, en_compiled := compiled, en_version := pp_Version p,
               en_interception := normalizePolicyInterception (pp_Interception p),
               en_aiProducts := MergeAIProductCatalog BuiltInAIProductCatalog (pp_AIProducts p),
               en_promptEnforcementOverride :=
                 normalizePromptEnforcementOverride (pp_PromptEnforcementOverride p)\<rparr>)))"

definition engine_AIProducts :: "engine \<Rightarrow> ai_product_catalog_entry list" where
  "engine_AIProducts e = MergeAIProductCatalog [] (en_aiProducts e)"

definition engine_Version :: "engine \<Rightarrow> string" where
  "engine_Version e = en_version e"

definition engine_Interception :: "engine \<Rightarrow> policy_interception" where
  "engine_Interception e = en_interception e"

definition engine_PromptEnforcementOverride :: "engine \<Rightarrow> string" where
  "engine_PromptEnforcementOverride e = en_promptEnforcementOverride e"

section \<open>Reference semantics of a rule set\<close>

text \<open>
  What a rule says, with no compilation step: a condition reads its field from the request and
  applies its operator; a rule matches when all its conditions hold.
\<close>

definition condition_holds :: "(string \<Rightarrow> regexp option) \<Rightarrow> request_context \<Rightarrow> rule_condition \<Rightarrow> bool" where
  "condition_holds rc ctx c =
    (evalOperator (rc_Operator c) (resolveField (rc_Field c) ctx) (rc_Value c) (rc (rc_Value c))
       \<noteq> rc_Negate c)"

definition rule_matches :: "(string \<Rightarrow> regexp option) \<Rightarrow> request_context \<Rightarrow> policy_rule \<Rightarrow> bool" where
  "rule_matches rc ctx r = (\<forall>c\<in>set (pr_Conditions r). condition_holds rc ctx c)"

definition regexes_ok :: "(string \<Rightarrow> regexp option) \<Rightarrow> policy_rule list \<Rightarrow> bool" where
  "regexes_ok rc rs = (\<forall>r\<in>set rs. \<forall>c\<in>set (pr_Conditions r).
     rc_Operator c = ''regex'' \<longrightarrow> rc (rc_Value c) \<noteq> None)"

definition engine_inv :: "engine \<Rightarrow> bool" where
  "engine_inv e = (map cr_rule (en_compiled e) = en_rules e \<and>
     sorted (map pr_Priority (en_rules e)))"

section \<open>Lemmas: compilation\<close>

lemma evalOperator_regex_irrelevant:
  "oper \<noteq> ''regex'' \<Longrightarrow> evalOperator oper f p re = evalOperator oper f p re'"
  by (simp add: evalOperator_def)

lemma compile_conditions_ok:
  "compile_conditions rc rid j cs = Inr ms \<Longrightarrow>
     list_all (\<lambda>m. matchCondition m ctx) ms = (\<forall>c\<in>set cs. condition_holds rc ctx c) \<and>
     (\<forall>c\<in>set cs. rc_Operator c = ''regex'' \<longrightarrow> rc (rc_Value c) \<noteq> None)"
proof (induction cs arbitrary: j ms)
  case (Cons c cs)
  have head: "matchCondition \<lparr>cm_cond = c, cm_regex = re\<rparr> ctx = condition_holds rc ctx c"
    if "rc_Operator c = ''regex'' \<Longrightarrow> re = rc (rc_Value c)" for re
    using that evalOperator_regex_irrelevant[of "rc_Operator c" _ _ re "rc (rc_Value c)"]
    by (cases "rc_Operator c = ''regex''") (auto simp: matchCondition_def condition_holds_def Let_def)
  from Cons.prems obtain re ms' where r: "ms = \<lparr>cm_cond = c, cm_regex = re\<rparr> # ms'"
    and m: "compile_conditions rc rid (j + 1) cs = Inr ms'"
    and re: "rc_Operator c = ''regex'' \<Longrightarrow> re = rc (rc_Value c) \<and> re \<noteq> None"
    by (auto split: if_splits option.splits sum.splits)
  show ?case using Cons.IH[OF m] head[of re] re r by auto
qed simp

lemma compile_conditions_err:
  "compile_conditions rc rid j cs = Inl err \<Longrightarrow>
     \<exists>c\<in>set cs. rc_Operator c = ''regex'' \<and> rc (rc_Value c) = None"
  by (induction cs arbitrary: j) (fastforce split: if_splits option.splits sum.splits)+

lemma compileRules_ok:
  "compileRules rc rs = Inr crs \<Longrightarrow> map cr_rule crs = rs \<and> regexes_ok rc rs \<and>
     (\<forall>cr\<in>set crs. matchAll cr ctx = rule_matches rc ctx (cr_rule cr))"
proof (induction rs arbitrary: crs)
  case (Cons r rs)
  from Cons.prems obtain ms crs' where c: "compile_conditions rc (pr_ID r) 0 (pr_Conditions r) = Inr ms"
    and rest: "compileRules rc rs = Inr crs'"
    and crs: "crs = \<lparr>cr_rule = r, cr_matchers = ms\<rparr> # crs'"
    by (auto split: sum.splits)
  show ?case using Cons.IH[OF rest] compile_conditions_ok[OF c, of ctx] crs
    by (auto simp: regexes_ok_def matchAll_def rule_matches_def)
qed (simp add: regexes_ok_def)

lemma compileRules_err: "compileRules rc rs = Inl err \<Longrightarrow> \<not> regexes_ok rc rs"
proof (induction rs)
  case (Cons r rs)
  then consider "compile_conditions rc (pr_ID r) 0 (pr_Conditions r) = Inl err"
    | "compileRules rc rs = Inl err" by (auto split: sum.splits)
  then show ?case
    using Cons.IH by cases (auto simp: regexes_ok_def dest!: compile_conditions_err)
qed simp

lemma compileRules_total: "regexes_ok rc rs \<longleftrightarrow> (\<exists>crs. compileRules rc rs = Inr crs)"
  using compileRules_ok compileRules_err by (metis sum.exhaust)

lemma regexes_ok_set: "set rs = set rs' \<Longrightarrow> regexes_ok rc rs = regexes_ok rc rs'"
  by (simp add: regexes_ok_def)

lemma apply_loop_find:
  "apply_loop crs ctx = map_option (\<lambda>cr. (pr_Decision (cr_rule cr), pr_ID (cr_rule cr)))
     (List.find (\<lambda>cr. matchAll cr ctx) crs)"
  by (induction crs) auto

section \<open>The contract of a rule engine\<close>

text \<open>
  What the router and the prompt service rely on: evaluation returns the default with no rule
  identifier, or the decision of a loaded rule that matches the request and that no matching
  rule precedes in priority; the identifier it returns can be looked up.
\<close>

locale rule_engine =
  fixes eval :: "'e \<Rightarrow> 'c \<Rightarrow> decision \<times> string"
    and lookup :: "'e \<Rightarrow> string \<Rightarrow> policy_rule option"
    and rules :: "'e \<Rightarrow> policy_rule list"
    and fallback :: "'e \<Rightarrow> decision"
    and matches :: "'e \<Rightarrow> 'c \<Rightarrow> policy_rule \<Rightarrow> bool"
    and inv :: "'e \<Rightarrow> bool"
  assumes eval_default: "inv e \<Longrightarrow> \<forall>r\<in>set (rules e). \<not> matches e c r \<Longrightarrow> eval e c = (fallback e, [])"
    and eval_first: "inv e \<Longrightarrow> r \<in> set (rules e) \<Longrightarrow> matches e c r \<Longrightarrow>
          \<exists>r'\<in>set (rules e). matches e c r' \<and> eval e c = (pr_Decision r', pr_ID r') \<and>
            (\<forall>x\<in>set (rules e). matches e c x \<longrightarrow> pr_Priority r' \<le> pr_Priority x)"
    and lookup_loaded: "inv e \<Longrightarrow> r \<in> set (rules e) \<Longrightarrow>
          \<exists>r'\<in>set (rules e). lookup e (pr_ID r) = Some r' \<and> pr_ID r' = pr_ID r"
begin

lemma eval_cases:
  assumes "inv e"
  obtains (none) "eval e c = (fallback e, [])" "\<forall>r\<in>set (rules e). \<not> matches e c r"
  | (rule) r where "r \<in> set (rules e)" "matches e c r" "eval e c = (pr_Decision r, pr_ID r)"
      "\<forall>x\<in>set (rules e). matches e c x \<longrightarrow> pr_Priority r \<le> pr_Priority x"
  using assms eval_default eval_first by (cases "\<exists>r\<in>set (rules e). matches e c r") blast+

lemma eval_id_found:
  assumes "inv e" and "eval e c = (d, i)" and "i \<noteq> []"
  shows "\<exists>r. lookup e i = Some r \<and> pr_ID r = i"
  using assms(1)
  by (cases rule: eval_cases[where c = c]) (use assms lookup_loaded in \<open>force+\<close>)

lemma eval_block_has_rule:
  assumes "inv e" and "fst (eval e c) \<noteq> fallback e"
  shows "\<exists>r\<in>set (rules e). matches e c r \<and> pr_Decision r = fst (eval e c)"
  using assms(1) by (cases rule: eval_cases[where c = c]) (use assms in \<open>force+\<close>)

lemma unique_best_rule:
  assumes "inv e" and "r \<in> set (rules e)" and "matches e c r"
    and "\<forall>x\<in>set (rules e). matches e c x \<longrightarrow> x \<noteq> r \<longrightarrow> pr_Priority r < pr_Priority x"
  shows "eval e c = (pr_Decision r, pr_ID r)"
  using assms(1)
  by (cases rule: eval_cases[where c = c]) (use assms in \<open>fastforce+\<close>)

end

text \<open>The rules as the engine compiled them are the matching relation of the instance.\<close>

definition engine_matches :: "engine \<Rightarrow> request_context \<Rightarrow> policy_rule \<Rightarrow> bool" where
  "engine_matches e ctx r = (\<exists>cr\<in>set (en_compiled e). cr_rule cr = r \<and> matchAll cr ctx)"

lemma engine_inv_rules: "engine_inv e \<Longrightarrow> en_rules e = map cr_rule (en_compiled e)"
  by (simp add: engine_inv_def)

lemma engine_eval_first:
  assumes "engine_inv e" and "List.find (\<lambda>cr. matchAll cr ctx) (en_compiled e) = Some cr"
  shows "cr_rule cr \<in> set (en_rules e)" "engine_matches e ctx (cr_rule cr)"
    "engine_matches e ctx x \<Longrightarrow> pr_Priority (cr_rule cr) \<le> pr_Priority x"
proof -
  from find_Some_split[OF assms(2)] obtain us vs where c: "en_compiled e = us @ cr # vs"
    and us: "\<forall>u\<in>set us. \<not> matchAll u ctx" and m: "matchAll cr ctx" by blast
  from assms(1) have r: "en_rules e = map cr_rule us @ cr_rule cr # map cr_rule vs"
    using engine_inv_rules c by simp
  then show "cr_rule cr \<in> set (en_rules e)" by simp
  show "engine_matches e ctx (cr_rule cr)" using c m by (auto simp: engine_matches_def)
  have "\<forall>v\<in>set vs. pr_Priority (cr_rule cr) \<le> pr_Priority (cr_rule v)"
    using assms(1) r by (auto simp: engine_inv_def sorted_append)
  then show "pr_Priority (cr_rule cr) \<le> pr_Priority x" if "engine_matches e ctx x"
    using that us c by (auto simp: engine_matches_def)
qed

interpretation core_engine: rule_engine engine_Apply RuleByID en_rules en_defaultDecision
    engine_matches engine_inv
proof
  fix e and ctx :: request_context and r :: policy_rule
  assume inv: "engine_inv e"
  show "engine_Apply e ctx = (en_defaultDecision e, [])"
    if "\<forall>r\<in>set (en_rules e). \<not> engine_matches e ctx r"
  proof -
    have "\<forall>cr\<in>set (en_compiled e). \<not> matchAll cr ctx"
      using that engine_inv_rules[OF inv] by (auto simp: engine_matches_def)
    then have "List.find (\<lambda>cr. matchAll cr ctx) (en_compiled e) = None" by (simp add: find_None_iff)
    then show ?thesis by (simp add: engine_Apply_def apply_loop_find)
  qed
  show "\<exists>r'\<in>set (en_rules e). engine_matches e ctx r' \<and>
      engine_Apply e ctx = (pr_Decision r', pr_ID r') \<and>
      (\<forall>x\<in>set (en_rules e). engine_matches e ctx x \<longrightarrow> pr_Priority r' \<le> pr_Priority x)"
    if m: "engine_matches e ctx r"
  proof -
    obtain cr where f: "List.find (\<lambda>cr. matchAll cr ctx) (en_compiled e) = Some cr"
      using m unfolding engine_matches_def
      by (cases "List.find (\<lambda>cr. matchAll cr ctx) (en_compiled e)") (auto simp: find_None_iff)
    from engine_eval_first[OF inv f] f show ?thesis
      by (intro bexI[of _ "cr_rule cr"]) (auto simp: engine_Apply_def apply_loop_find)
  qed
  show "\<exists>r'\<in>set (en_rules e). RuleByID e (pr_ID r) = Some r' \<and> pr_ID r' = pr_ID r"
    if "r \<in> set (en_rules e)"
  proof (cases "RuleByID e (pr_ID r)")
    case None
    with that show ?thesis by (auto simp: RuleByID_def find_None_iff)
  next
    case (Some r')
    then show ?thesis using find_in_set unfolding RuleByID_def by fastforce
  qed
qed

section \<open>Lemmas: update\<close>

lemma engine_inv_New [simp]: "engine_inv (NewEngine d)"
  by (simp add: engine_inv_def NewEngine_def)

lemma engine_Update_inv:
  assumes "slice_sort pr_Priority sorter" and "engine_inv e"
  shows "engine_inv (snd (engine_Update rc sorter payload e))"
proof (cases payload)
  case (Some p)
  show ?thesis
  proof (cases "compileRules rc (sorter (pp_Rules p))")
    case (Inr crs)
    with Some compileRules_ok[OF Inr] slice_sort.sorter_sorted[OF assms(1)] show ?thesis
      by (simp add: engine_Update_def Let_def engine_inv_def)
  qed (use Some assms in \<open>simp add: engine_Update_def Let_def\<close>)
qed (use assms in \<open>simp add: engine_Update_def\<close>)

lemma engine_Update_matches:
  assumes "slice_sort pr_Priority sorter" and "engine_Update rc sorter (Some p) e = (None, e')"
  shows "set (en_rules e') = set (pp_Rules p)" "en_defaultDecision e' = en_defaultDecision e"
    "engine_matches e' ctx r \<longleftrightarrow> r \<in> set (pp_Rules p) \<and> rule_matches rc ctx r"
    "engine_inv e'"
proof -
  from assms(2) obtain crs where c: "compileRules rc (sorter (pp_Rules p)) = Inr crs"
    and e': "en_rules e' = sorter (pp_Rules p)" "en_compiled e' = crs"
      "en_defaultDecision e' = en_defaultDecision e"
    by (auto simp: engine_Update_def Let_def split: sum.splits)
  note ok = compileRules_ok[OF c, of ctx]
  show s: "set (en_rules e') = set (pp_Rules p)"
    using e' slice_sort.set_sorter[OF assms(1)] by simp
  show "en_defaultDecision e' = en_defaultDecision e" by (fact e')
  have "set (en_rules e') = cr_rule ` set crs" using ok e'(1) by (simp flip: set_map)
  then have "r \<in> set (pp_Rules p) \<longleftrightarrow> (\<exists>cr\<in>set crs. cr_rule cr = r)" using s by auto
  then show "engine_matches e' ctx r \<longleftrightarrow> r \<in> set (pp_Rules p) \<and> rule_matches rc ctx r"
    unfolding engine_matches_def e'(2) using ok by blast
  show "engine_inv e'"
    using ok slice_sort.sorter_sorted[OF assms(1), of "pp_Rules p"]
    unfolding engine_inv_def e' by blast
qed

section \<open>Lemmas: interception settings\<close>

lemma normalizeInterceptDomain_chars:
  "normalizeInterceptDomain d \<noteq> [] \<Longrightarrow> list_all domain_char_ok (normalizeInterceptDomain d) \<and>
     CHR ''.'' \<in> set (normalizeInterceptDomain d)"
  unfolding normalizeInterceptDomain_def Let_def
  by (cases "interceptDomainCandidate (trim_space (to_lower d))")
     (auto simp: contains_char split: if_splits)

lemma vendor_alias_normal:
  "list_all (\<lambda>a. normalizeInterceptDomain a = a)
    [''api.openai.com'', ''api.anthropic.com'',
     ''generativelanguage.googleapis.com'', ''content-gemini.googleapis.com'',
     ''api.githubcopilot.com'', ''copilot-proxy.githubusercontent.com'', ''api2.cursor.sh'']"
  by code_simp

lemma alias_domains_eq: "alias_domains d = vendorAliasesForDomain d"
  using vendor_alias_normal unfolding alias_domains_def vendorAliasesForDomain_def by simp

definition vendor_alias_groups :: "string list list" where
  "vendor_alias_groups = [[], [''api.openai.com''], [''api.anthropic.com''],
     [''generativelanguage.googleapis.com'', ''content-gemini.googleapis.com''],
     [''api.githubcopilot.com'', ''copilot-proxy.githubusercontent.com''], [''api2.cursor.sh'']]"

lemma vendor_alias_group: "vendorAliasesForDomain d \<in> set vendor_alias_groups"
  unfolding vendorAliasesForDomain_def
  by (intro if_mem) (simp_all only: vendor_alias_groups_def list.set insert_iff simp_thms)

lemma vendor_alias_groups_closed:
  "list_all (\<lambda>g. list_all (\<lambda>a. vendorAliasesForDomain a = g) g) vendor_alias_groups"
  by code_simp

lemma alias_closed: "a \<in> set (alias_domains d) \<Longrightarrow> alias_domains a = alias_domains d"
  using vendor_alias_group[of d] vendor_alias_groups_closed
  unfolding alias_domains_eq list_all_iff by blast

definition alias_inv :: "string set \<Rightarrow> string set \<times> string set \<Rightarrow> bool" where
  "alias_inv S0 st = (S0 \<subseteq> fst st \<and> fst st \<subseteq> S0 \<union> (\<Union>d\<in>S0. set (alias_domains d)) \<and>
     (\<Union>d\<in>snd st. set (alias_domains d)) \<subseteq> fst st)"

interpretation alias_loop: invariant_system "(S0, {})" alias_step "alias_inv S0" for S0
proof
  fix s t assume inv: "alias_inv S0 s" and step: "alias_step s t"
  from step obtain d S V where s: "s = (S, V)" "d \<in> S" and t: "t = (S \<union> set (alias_domains d), insert d V)"
    by (auto elim: alias_stepE)
  from inv s have "d \<in> S0 \<or> (\<exists>x\<in>S0. d \<in> set (alias_domains x))" by (auto simp: alias_inv_def)
  then have "set (alias_domains d) \<subseteq> (\<Union>x\<in>S0. set (alias_domains x))"
  proof
    assume "\<exists>x\<in>S0. d \<in> set (alias_domains x)"
    then obtain x where "x \<in> S0" "alias_domains d = alias_domains x" using alias_closed[of d] by auto
    then show ?thesis by auto
  qed auto
  then show "alias_inv S0 t" using inv s t by (auto simp: alias_inv_def)
qed (simp add: alias_inv_def)

lemma set_interceptDomains:
  fixes raw
  defines "S0 \<equiv> set (filter (\<lambda>n. n \<noteq> []) (map normalizeInterceptDomain raw))"
  shows "set (interceptDomains raw) = S0 \<union> (\<Union>d\<in>S0. set (alias_domains d))"
  unfolding interceptDomains_def S0_def Let_def by simp

lemma interceptDomains_valid:
  assumes "d \<in> set (interceptDomains raw)"
  shows "d \<noteq> [] \<and> list_all domain_char_ok d \<and> CHR ''.'' \<in> set d"
proof -
  from assms obtain x where "d = normalizeInterceptDomain x" "d \<noteq> []"
    by (auto simp: set_interceptDomains alias_domains_def)
  then show ?thesis using normalizeInterceptDomain_chars[of x] by simp
qed

lemma interceptProtocols_wf:
  "interceptProtocols raw \<noteq> [] \<and> sorted (interceptProtocols raw) \<and> distinct (interceptProtocols raw) \<and>
   set (interceptProtocols raw) \<subseteq> {InterceptProtocolHTTP, InterceptProtocolWebSocket, InterceptProtocolGRPC}"
proof -
  define ps where "ps = filter (\<lambda>v. v \<in> set [InterceptProtocolHTTP, InterceptProtocolWebSocket,
    InterceptProtocolGRPC]) (map (\<lambda>p. to_lower (trim_space p)) raw)"
  have sub: "set ps \<subseteq> {InterceptProtocolHTTP, InterceptProtocolWebSocket, InterceptProtocolGRPC}"
    by (auto simp: ps_def)
  have eq: "interceptProtocols raw = (if ps = [] then [InterceptProtocolHTTP] else sorted_keys ps)"
    by (simp add: interceptProtocols_def ps_def)
  show ?thesis
  proof (cases "ps = []")
    case False
    then have "sorted_keys ps \<noteq> []" using set_sorted_keys[of ps] by (metis set_empty)
    with False sub show ?thesis by (simp add: eq)
  qed (simp add: eq)
qed

section \<open>Properties\<close>

text \<open>
  C7. After a successful update with a rule set, whatever permutation the unstable sort leaves
  among equal priorities, evaluating a request returns the decision and identifier of a rule of
  that set that matches the request, with the smallest priority of all matching rules; if no
  rule matches, it returns the engine's default decision and no identifier.
\<close>

theorem apply_first_match:
  assumes "slice_sort pr_Priority sorter"
    and "engine_Update rc sorter (Some p) e = (None, e')"
  shows "(\<exists>r\<in>set (pp_Rules p). rule_matches rc ctx r \<and>
            engine_Apply e' ctx = (pr_Decision r, pr_ID r) \<and>
            (\<forall>x\<in>set (pp_Rules p). rule_matches rc ctx x \<longrightarrow> pr_Priority r \<le> pr_Priority x)) \<or>
         ((\<forall>r\<in>set (pp_Rules p). \<not> rule_matches rc ctx r) \<and>
            engine_Apply e' ctx = (en_defaultDecision e, []))"
proof -
  note u = engine_Update_matches[OF assms]
  show ?thesis
    using u(4) by (cases rule: core_engine.eval_cases[where c = ctx]) (auto simp: u(1-3))
qed

text \<open>
  Inputs of the witnesses: a regular-expression compiler for the expressions without
  metacharacters (an unbalanced parenthesis is an error), a policy of two rules, a request.
\<close>

definition literal_regexp :: "string \<Rightarrow> regexp option" where
  "literal_regexp p = (if CHR ''('' \<in> set p then None else Some (\<lambda>s. contains s p))"

definition sample_rule :: "string \<Rightarrow> int \<Rightarrow> decision \<Rightarrow> string \<Rightarrow> string \<Rightarrow> string \<Rightarrow> policy_rule" where
  "sample_rule i prio d f oper v = \<lparr>pr_ID = i, pr_Priority = prio, pr_Decision = d,
     pr_Conditions = [\<lparr>rc_Field = f, rc_Operator = oper, rc_Value = v, rc_Negate = False\<rparr>],
     pr_BlockReason = []\<rparr>"

definition sample_payload :: "policy_rule list \<Rightarrow> policy_payload" where
  "sample_payload rs = \<lparr>pp_Version = ''v2'', pp_Rules = rs, pp_Interception = zero_interception,
     pp_AIProducts = [], pp_PromptEnforcementOverride = ''Enforce''\<rparr>"

definition sample_context :: "string \<Rightarrow> request_context" where
  "sample_context host = \<lparr>cx_RequestID = ''r1'', cx_Host = host, cx_Port = 443, cx_Path = ''/v1/chat'',
     cx_Method = ''POST'', cx_Scheme = ''https'', cx_Protocol = ''http'', cx_Direction = ''outbound'',
     cx_InterceptedHTTPS = True, cx_InspectionQuality = ''full'', cx_InspectionSkipReason = [],
     cx_Process = empty_process_info, cx_ServiceCategory = ''ai_llm'', cx_AIVendor = ''openai'',
     cx_AIProduct = [], cx_CaptureSurface = [], cx_DLP = empty_dlp_info\<rparr>"

definition sample_rules :: "policy_rule list" where
  "sample_rules = [sample_rule ''log'' 50 DecisionBypass ''method'' ''eq'' ''post'',
     sample_rule ''deny'' 10 DecisionBlock ''host'' ''suffix'' ''OpenAI.com'']"

definition sample_compiled_rules :: "compiledRule list" where
  "sample_compiled_rules = map (\<lambda>r. \<lparr>cr_rule = r,
     cr_matchers = map (\<lambda>c. \<lparr>cm_cond = c, cm_regex = None\<rparr>) (pr_Conditions r)\<rparr>)
     [sample_rule ''deny'' 10 DecisionBlock ''host'' ''suffix'' ''OpenAI.com'',
      sample_rule ''log'' 50 DecisionBypass ''method'' ''eq'' ''post'']"

lemma sample_compiled:
  "en_compiled (snd (engine_Update rc (sort_key pr_Priority) (Some (sample_payload sample_rules)) e))
     = sample_compiled_rules"
  by (simp add: engine_Update_def sample_payload_def sample_rules_def sample_rule_def Let_def
      sample_compiled_rules_def)

lemma sample_apply:
  "apply_loop sample_compiled_rules (sample_context ''api.openai.com'') = Some (DecisionBlock, ''deny'')"
  by code_simp

lemma sample_update:
  "fst (engine_Update rc (sort_key pr_Priority) (Some (sample_payload sample_rules)) e) = None"
  by (simp add: engine_Update_def sample_payload_def sample_rules_def sample_rule_def Let_def)

theorem apply_first_match_witness:
  "engine_Apply (snd (engine_Update literal_regexp (sort_key pr_Priority)
      (Some (sample_payload sample_rules)) (NewEngine DecisionForward))) (sample_context ''api.openai.com'')
   = (DecisionBlock, ''deny'')"
proof -
  let ?u = "engine_Update literal_regexp (sort_key pr_Priority) (Some (sample_payload sample_rules))
     (NewEngine DecisionForward)"
  let ?c = "sample_context ''api.openai.com''"
  have "?u = (None, snd ?u)" using sample_update by (metis prod.collapse)
  from apply_first_match[OF insertion.slice_sort_axioms this, of ?c]
  have "(\<exists>r\<in>set sample_rules. rule_matches literal_regexp ?c r \<and>
            engine_Apply (snd ?u) ?c = (pr_Decision r, pr_ID r) \<and>
            (\<forall>x\<in>set sample_rules. rule_matches literal_regexp ?c x \<longrightarrow> pr_Priority r \<le> pr_Priority x)) \<or>
         (\<forall>r\<in>set sample_rules. \<not> rule_matches literal_regexp ?c r)"
    by (auto simp: sample_payload_def)
  moreover have "rule_matches literal_regexp ?c (sample_rule ''deny'' 10 DecisionBlock ''host'' ''suffix'' ''OpenAI.com'')"
    by code_simp
  ultimately show ?thesis by (auto simp: sample_rules_def sample_rule_def)
qed

text \<open>
  Replacing the policy is atomic: the update fails exactly when there is no payload or some
  regular expression of a rule does not compile, and then the engine is unchanged; otherwise
  all parts of the engine come from the new payload, and only the default decision is kept.
\<close>

theorem update_atomic:
  assumes "slice_sort pr_Priority sorter"
  shows "case engine_Update rc sorter payload e of
     (Some err, e') \<Rightarrow> e' = e \<and> (payload = None \<or> (\<exists>p. payload = Some p \<and> \<not> regexes_ok rc (pp_Rules p)))
   | (None, e') \<Rightarrow> (\<exists>p. payload = Some p \<and> regexes_ok rc (pp_Rules p) \<and>
        mset (en_rules e') = mset (pp_Rules p) \<and> map cr_rule (en_compiled e') = en_rules e' \<and>
        en_version e' = pp_Version p \<and>
        en_interception e' = normalizePolicyInterception (pp_Interception p) \<and>
        en_aiProducts e' = MergeAIProductCatalog BuiltInAIProductCatalog (pp_AIProducts p) \<and>
        en_promptEnforcementOverride e' =
          normalizePromptEnforcementOverride (pp_PromptEnforcementOverride p) \<and>
        en_defaultDecision e' = en_defaultDecision e)"
proof (cases payload)
  case (Some p)
  have r: "regexes_ok rc (sorter (pp_Rules p)) = regexes_ok rc (pp_Rules p)"
    using slice_sort.set_sorter[OF assms] by (rule regexes_ok_set)
  show ?thesis
  proof (cases "compileRules rc (sorter (pp_Rules p))")
    case (Inl err)
    then show ?thesis using Some compileRules_err[OF Inl] r by (simp add: engine_Update_def Let_def)
  next
    case (Inr crs)
    then show ?thesis
      using Some compileRules_ok[OF Inr] r slice_sort.sorter_perm[OF assms]
      by (simp add: engine_Update_def Let_def)
  qed
qed (simp add: engine_Update_def)

theorem update_atomic_witness:
  "engine_Update literal_regexp (sort_key pr_Priority)
     (Some (sample_payload [sample_rule ''x'' 1 DecisionBlock ''host'' ''regex'' ''('']))
     (NewEngine DecisionForward)
   = (Some (BadRegex ''x'' 0 ''(''), NewEngine DecisionForward)"
proof -
  let ?u = "engine_Update literal_regexp (sort_key pr_Priority)
     (Some (sample_payload [sample_rule ''x'' 1 DecisionBlock ''host'' ''regex'' ''('']))
     (NewEngine DecisionForward)"
  have "fst ?u = Some (BadRegex ''x'' 0 ''('')"
    by (simp add: engine_Update_def sample_payload_def sample_rule_def literal_regexp_def Let_def)
  then show ?thesis
    using update_atomic[OF insertion.slice_sort_axioms, where rc = literal_regexp and payload =
      "Some (sample_payload [sample_rule ''x'' 1 DecisionBlock ''host'' ''regex'' ''(''])"
      and e = "NewEngine DecisionForward"]
    by (cases ?u) simp
qed

text \<open>
  The alias expansion of the interception domains inserts into the map it ranges over.
  Whatever order the runtime visits the keys in, and whichever inserted keys it also visits, the
  loop ends with the same set of domains, the one the model computes.
\<close>

theorem alias_expansion_deterministic:
  assumes "S0 = set (filter (\<lambda>n. n \<noteq> []) (map normalizeInterceptDomain raw))"
    and "alias_step\<^sup>*\<^sup>* (S0, {}) (S, V)" and "S0 \<subseteq> V"
  shows "S = set (interceptDomains raw)"
proof -
  from alias_loop.reachable_inv[OF assms(2)] assms(3) have "S = S0 \<union> (\<Union>d\<in>S0. set (alias_domains d))"
    unfolding alias_inv_def fst_conv snd_conv by blast
  then show ?thesis by (simp only: assms(1) set_interceptDomains)
qed

theorem alias_expansion_deterministic_witness:
  "set (interceptDomains [''*.Claude.ai'']) = {''claude.ai'', ''api.anthropic.com''}"
proof -
  let ?S = "set (filter (\<lambda>n. n \<noteq> []) (map normalizeInterceptDomain [''*.Claude.ai'']))"
  have S: "?S = {''claude.ai''}" by code_simp
  have al: "alias_domains ''claude.ai'' = [''api.anthropic.com'']" by code_simp
  have "alias_step ({''claude.ai''}, {}) ({''claude.ai''} \<union> set (alias_domains ''claude.ai''), {''claude.ai''})"
    by (rule alias_step.visit) simp_all
  then have "alias_step\<^sup>*\<^sup>* (?S, {}) ({''claude.ai'', ''api.anthropic.com''}, {''claude.ai''})"
    unfolding S al by (simp add: insert_commute r_into_rtranclp)
  from alias_expansion_deterministic[OF refl this] show ?thesis unfolding S by simp
qed

text \<open>
  The interception settings the engine publishes are well formed for every policy payload: a
  known scope, a fail mode and a capture mode, a non-empty sorted duplicate-free list of known
  protocols, and a sorted duplicate-free list of domains that contain a dot and consist of
  lower-case letters, digits, dots and dashes only.
\<close>

theorem interception_well_formed:
  "let i = normalizePolicyInterception raw in
     pi_Scope i \<in> {InterceptScopeAPIOnly, InterceptScopeHybridAllowlist} \<and>
     pi_FailMode i \<noteq> [] \<and> pi_CaptureMode i \<noteq> [] \<and>
     pi_Protocols i \<noteq> [] \<and> sorted (pi_Protocols i) \<and> distinct (pi_Protocols i) \<and>
     set (pi_Protocols i) \<subseteq> {InterceptProtocolHTTP, InterceptProtocolWebSocket, InterceptProtocolGRPC} \<and>
     sorted (pi_Domains i) \<and> distinct (pi_Domains i) \<and>
     set (pi_Domains i) \<subseteq> {d. list_all domain_char_ok d \<and> CHR ''.'' \<in> set d}"
proof -
  have "sorted (interceptDomains (pi_Domains raw))" "distinct (interceptDomains (pi_Domains raw))"
    by (simp_all add: interceptDomains_def Let_def)
  then show ?thesis
    using interceptProtocols_wf[of "pi_Protocols raw"] interceptDomains_valid
    by (auto simp: normalizePolicyInterception_def Let_def)
qed

end
