(* ===== verification/Telemetry_Ring.thy ===== *)
theory Telemetry_Ring
  imports Domain_Types
begin

text \<open>
  The agent's telemetry buffer and its flush (\<^verbatim>\<open>src/core/telemetry/collector.go\<close>,
  \<^verbatim>\<open>src/core/telemetry/emitter.go\<close>). The collector is a ring of fixed capacity; the lemmas show
  that it refines a bounded log that keeps the newest entries in insertion order. The contract of
  that log is the locale \<open>bounded_log\<close>, which the emitter's lemmas rest on.

  The mutex makes every operation atomic. The gateway client and \<^verbatim>\<open>json.Marshal\<close> are parameters
  of the emitter.
\<close>

section \<open>Messages of the control plane\<close>

record http_request =
  hq_Method :: string
  hq_URL :: string
  hq_Headers :: "(string \<times> string list) list"
  hq_Body :: string

record http_response =
  hr_StatusCode :: int
  hr_Headers :: "(string \<times> string list) list"
  hr_Body :: string

section \<open>The ring\<close>

datatype entryKind = kindCounter | kindGauge | kindHistogram | kindEvent

record entry =
  et_Kind :: entryKind
  et_Name :: string
  et_IValue :: int
  et_FValue :: real
  et_Labels :: "(string \<times> string) list"
  et_Payload :: "event_payload option"
  et_Timestamp :: time

definition zero_entry :: entry where
  "zero_entry = \<lparr>et_Kind = kindCounter, et_Name = [], et_IValue = 0, et_FValue = 0, et_Labels = [],
     et_Payload = None, et_Timestamp = 0\<rparr>"

record collector =
  co_buf :: "entry list"
  co_cap :: nat
  co_head :: nat
  co_size :: nat

definition NewCollector :: "int \<Rightarrow> collector" where
  "NewCollector capacity =
    (let n = (if capacity \<le> 0 then 10000 else nat capacity) in
     \<lparr>co_buf = replicate n zero_entry, co_cap = n, co_head = 0, co_size = 0\<rparr>)"

definition collector_push :: "entry \<Rightarrow> collector \<Rightarrow> collector" where
  "collector_push e c =
    (let c1 = c\<lparr>co_buf := (co_buf c)[co_head c := e], co_head := (co_head c + 1) mod co_cap c\<rparr> in
     if co_size c < co_cap c then c1\<lparr>co_size := co_size c + 1\<rparr> else c1)"

definition collector_Counter :: "time \<Rightarrow> string \<Rightarrow> int \<Rightarrow> (string \<times> string) list \<Rightarrow> collector \<Rightarrow> collector" where
  "collector_Counter now name v labels =
     collector_push (zero_entry\<lparr>et_Kind := kindCounter, et_Name := name, et_IValue := v,
       et_Labels := labels, et_Timestamp := now\<rparr>)"

definition collector_Gauge :: "time \<Rightarrow> string \<Rightarrow> real \<Rightarrow> (string \<times> string) list \<Rightarrow> collector \<Rightarrow> collector" where
  "collector_Gauge now name v labels =
     collector_push (zero_entry\<lparr>et_Kind := kindGauge, et_Name := name, et_FValue := v,
       et_Labels := labels, et_Timestamp := now\<rparr>)"

definition collector_Histogram :: "time \<Rightarrow> string \<Rightarrow> real \<Rightarrow> (string \<times> string) list \<Rightarrow> collector \<Rightarrow> collector" where
  "collector_Histogram now name v labels =
     collector_push (zero_entry\<lparr>et_Kind := kindHistogram, et_Name := name, et_FValue := v,
       et_Labels := labels, et_Timestamp := now\<rparr>)"

definition collector_Emit :: "time \<Rightarrow> string \<Rightarrow> event_payload \<Rightarrow> collector \<Rightarrow> collector" where
  "collector_Emit now event payload =
     collector_push (zero_entry\<lparr>et_Kind := kindEvent, et_Name := event, et_Payload := Some payload,
       et_Timestamp := now\<rparr>)"

text \<open>
  The \<open>n\<close> most recent entries. The code's \<^verbatim>\<open>(head - n + cap) % cap\<close> is written with the addition
  first, so that no intermediate value is negative.
\<close>

definition ring_read :: "collector \<Rightarrow> nat \<Rightarrow> entry list" where
  "ring_read c n =
    (let start = (co_head c + co_cap c - n) mod co_cap c in
     map (\<lambda>i. co_buf c ! ((start + i) mod co_cap c)) [0..<n])"

definition collector_Drain :: "collector \<Rightarrow> entry list \<times> collector" where
  "collector_Drain c =
    (if co_size c = 0 then ([], c)
     else (ring_read c (co_size c), c\<lparr>co_size := 0, co_head := 0\<rparr>))"

definition collector_Size :: "collector \<Rightarrow> nat" where
  "collector_Size c = co_size c"

definition collector_Peek :: "int \<Rightarrow> collector \<Rightarrow> entry list" where
  "collector_Peek limit c =
    (if co_size c = 0 then []
     else ring_read c (if 0 < limit \<and> limit < int (co_size c) then nat limit else co_size c))"

section \<open>The emitter\<close>

record metricEntry =
  me_Kind :: string
  me_Name :: string
  me_Value :: real
  me_Labels :: "(string \<times> string) list"
  me_Timestamp :: time

record eventEntry =
  ee_Name :: string
  ee_Payload :: "event_payload option"
  ee_Timestamp :: time

record telemetryBatch =
  tb_Metrics :: "metricEntry list"
  tb_Events :: "eventEntry list"

definition to_event :: "entry \<Rightarrow> eventEntry" where
  "to_event e = \<lparr>ee_Name = et_Name e, ee_Payload = et_Payload e, ee_Timestamp = et_Timestamp e\<rparr>"

definition to_metric :: "entry \<Rightarrow> metricEntry" where
  "to_metric e =
    (let (kind, v) = (case et_Kind e of
           kindGauge \<Rightarrow> (''gauge'', et_FValue e)
         | kindHistogram \<Rightarrow> (''histogram'', et_FValue e)
         | _ \<Rightarrow> (''counter'', of_int (et_IValue e))) in
     \<lparr>me_Kind = kind, me_Name = et_Name e, me_Value = v, me_Labels = et_Labels e,
      me_Timestamp = et_Timestamp e\<rparr>)"

fun build_batch :: "entry list \<Rightarrow> telemetryBatch \<Rightarrow> telemetryBatch" where
  "build_batch [] b = b"
| "build_batch (e # es) b =
    build_batch es
      (case et_Kind e of
         kindEvent \<Rightarrow> b\<lparr>tb_Events := tb_Events b @ [to_event e]\<rparr>
       | _ \<Rightarrow> b\<lparr>tb_Metrics := tb_Metrics b @ [to_metric e]\<rparr>)"

datatype send_result = SendMarshalError | SendClientError | SendStatus int | SendOK

record emitter =
  em_collector :: collector
  em_gatewayURL :: string
  em_interval :: duration

definition emitter_send :: "(telemetryBatch \<Rightarrow> string option) \<Rightarrow>
    (http_request \<Rightarrow> http_response option) \<Rightarrow> emitter \<Rightarrow> entry list \<Rightarrow> send_result" where
  "emitter_send marshal client em entries =
    (case marshal (build_batch entries \<lparr>tb_Metrics = [], tb_Events = []\<rparr>) of
       None \<Rightarrow> SendMarshalError
     | Some body \<Rightarrow>
        (case client \<lparr>hq_Method = ''POST'', hq_URL = em_gatewayURL em @ ''/telemetry'',
                hq_Headers = [(''Content-Type'', [''application/json''])], hq_Body = body\<rparr> of
           None \<Rightarrow> SendClientError
         | Some resp \<Rightarrow> if 400 \<le> hr_StatusCode resp then SendStatus (hr_StatusCode resp) else SendOK))"

definition emitter_flush :: "(telemetryBatch \<Rightarrow> string option) \<Rightarrow>
    (http_request \<Rightarrow> http_response option) \<Rightarrow> emitter \<Rightarrow> send_result option \<times> emitter" where
  "emitter_flush marshal client em =
    (let (entries, c) = collector_Drain (em_collector em); em' = em\<lparr>em_collector := c\<rparr> in
     if entries = [] then (None, em') else (Some (emitter_send marshal client em' entries), em'))"

definition FlushNow :: "(telemetryBatch \<Rightarrow> string option) \<Rightarrow>
    (http_request \<Rightarrow> http_response option) \<Rightarrow> emitter \<Rightarrow> send_result option \<times> emitter" where
  "FlushNow marshal client em = emitter_flush marshal client em"

section \<open>The contract of a bounded log\<close>

definition lastn :: "nat \<Rightarrow> 'a list \<Rightarrow> 'a list" where
  "lastn n xs = drop (length xs - n) xs"

lemma length_lastn [simp]: "length (lastn n xs) = min n (length xs)"
  by (simp add: lastn_def)

lemma lastn_Nil [simp]: "lastn n [] = []"
  by (simp add: lastn_def)

lemma lastn_all: "length xs \<le> n \<Longrightarrow> lastn n xs = xs"
  by (simp add: lastn_def)

lemma lastn_lastn_append: "lastn n (lastn n xs @ ys) = lastn n (xs @ ys)"
proof (cases "length xs \<le> n")
  case False
  then have "length (drop (length xs - n) xs @ ys) - n = length ys" by simp
  with False show ?thesis by (simp add: lastn_def add.commute)
qed (simp add: lastn_all)

text \<open>
  What the emitter and the components that record telemetry rely on: a push appends and keeps
  the newest entries up to the capacity, a drain returns everything once.
\<close>

locale bounded_log =
  fixes push :: "'a \<Rightarrow> 's \<Rightarrow> 's"
    and drain :: "'s \<Rightarrow> 'a list \<times> 's"
    and contents :: "'s \<Rightarrow> 'a list"
    and capacity :: "'s \<Rightarrow> nat"
    and inv :: "'s \<Rightarrow> bool"
  assumes push_inv: "inv s \<Longrightarrow> inv (push e s)"
    and push_capacity: "inv s \<Longrightarrow> capacity (push e s) = capacity s"
    and push_contents: "inv s \<Longrightarrow> contents (push e s) = lastn (capacity s) (contents s @ [e])"
    and drain_inv: "inv s \<Longrightarrow> inv (snd (drain s))"
    and drain_capacity: "inv s \<Longrightarrow> capacity (snd (drain s)) = capacity s"
    and drain_returns: "inv s \<Longrightarrow> fst (drain s) = contents s"
    and drain_empties: "inv s \<Longrightarrow> contents (snd (drain s)) = []"
    and contents_bound: "inv s \<Longrightarrow> length (contents s) \<le> capacity s"
begin

lemma pushes:
  "inv s \<Longrightarrow> inv (fold push es s) \<and> capacity (fold push es s) = capacity s \<and>
     contents (fold push es s) = lastn (capacity s) (contents s @ es)"
proof (induction es arbitrary: s)
  case (Cons e es)
  have "contents (fold push es (push e s)) =
      lastn (capacity s) (lastn (capacity s) (contents s @ [e]) @ es)"
    using Cons push_inv push_capacity push_contents by simp
  then show ?case using Cons push_inv push_capacity by (simp add: lastn_lastn_append)
qed (simp add: lastn_all contents_bound)

lemma drain_after_pushes:
  "inv s \<Longrightarrow> fst (drain (fold push es (snd (drain s)))) = lastn (capacity s) es"
  using pushes[of "snd (drain s)" es] drain_inv drain_returns drain_empties drain_capacity by simp

lemma no_loss: "inv s \<Longrightarrow> contents s = [] \<Longrightarrow> length es \<le> capacity s \<Longrightarrow> fst (drain (fold push es s)) = es"
  using pushes[of s es] drain_returns by (simp add: lastn_all)

end

section \<open>The ring is a bounded log\<close>

definition co_inv :: "collector \<Rightarrow> bool" where
  "co_inv c = (0 < co_cap c \<and> length (co_buf c) = co_cap c \<and> co_head c < co_cap c \<and>
     co_size c \<le> co_cap c)"

definition co_list :: "collector \<Rightarrow> entry list" where
  "co_list c = ring_read c (co_size c)"

lemma ring_read_eq:
  assumes "n \<le> co_cap c"
  shows "ring_read c n = map (\<lambda>i. co_buf c ! ((co_head c + (co_cap c - n) + i) mod co_cap c)) [0..<n]"
  using assms by (simp add: ring_read_def Let_def mod_add_left_eq)

lemma mod_shift_neq: "h < (k::nat) \<Longrightarrow> 0 < d \<Longrightarrow> d < k \<Longrightarrow> (h + d) mod k \<noteq> h"
  by (cases "h + d < k") (auto simp: mod_if)

lemma co_inv_New: "co_inv (NewCollector n)"
  by (simp add: co_inv_def NewCollector_def Let_def)

lemma co_cap_New: "co_cap (NewCollector n) = (if n \<le> 0 then 10000 else nat n)"
  by (simp add: NewCollector_def Let_def)

lemma push_sels [simp]:
  "co_buf (collector_push e c) = (co_buf c)[co_head c := e]"
  "co_cap (collector_push e c) = co_cap c"
  "co_head (collector_push e c) = (co_head c + 1) mod co_cap c"
  "co_size (collector_push e c) = (if co_size c < co_cap c then co_size c + 1 else co_size c)"
  by (simp_all add: collector_push_def Let_def)

lemma co_inv_push: "co_inv c \<Longrightarrow> co_inv (collector_push e c)"
  by (auto simp: co_inv_def)

lemma push_read:
  assumes "co_inv c" and "n < co_cap c"
  shows "ring_read (collector_push e c) (Suc n) = ring_read c n @ [e]"
proof -
  let ?k = "co_cap c" and ?h = "co_head c"
  from assms have k: "?h < ?k" "length (co_buf c) = ?k" by (auto simp: co_inv_def)
  have eq: "ring_read (collector_push e c) (Suc n) =
      map (\<lambda>i. (co_buf c)[?h := e] ! ((?h + (?k - n) + i) mod ?k)) [0..<Suc n]"
  proof -
    have "((?h + 1) mod ?k + (?k - Suc n) + i) mod ?k = (?h + (?k - n) + i) mod ?k" for i
    proof -
      have "((?h + 1) mod ?k + (?k - Suc n) + i) mod ?k = (?h + 1 + (?k - Suc n) + i) mod ?k"
        by (metis add.assoc mod_add_left_eq)
      also have "?h + 1 + (?k - Suc n) + i = ?h + (?k - n) + i" using assms(2) by simp
      finally show ?thesis .
    qed
    moreover have "Suc n \<le> co_cap (collector_push e c)" using assms(2) by simp
    ultimately show ?thesis by (simp only: ring_read_eq push_sels)
  qed
  have last: "(?h + (?k - n) + n) mod ?k = ?h" using assms(2) k by simp
  have old: "(co_buf c)[?h := e] ! ((?h + (?k - n) + i) mod ?k) = co_buf c ! ((?h + (?k - n) + i) mod ?k)"
    if "i < n" for i
  proof -
    have "(?h + (?k - n + i)) mod ?k \<noteq> ?h" using that assms(2) k by (intro mod_shift_neq) auto
    then have "?h \<noteq> (?h + (?k - n) + i) mod ?k" by (simp add: add.assoc)
    then show ?thesis by simp
  qed
  have "(co_buf c)[?h := e] ! ((?h + (?k - n) + n) mod ?k) = e"
    unfolding last using k by simp
  moreover have "map (\<lambda>i. (co_buf c)[?h := e] ! ((?h + (?k - n) + i) mod ?k)) [0..<n] = ring_read c n"
    using old assms(2) by (simp add: ring_read_eq)
  ultimately show ?thesis unfolding eq by simp
qed

lemma ring_read_lastn:
  assumes "co_inv c" and "m \<le> n" and "n \<le> co_cap c"
  shows "ring_read c m = lastn m (ring_read c n)"
proof (rule nth_equalityI)
  show "length (ring_read c m) = length (lastn m (ring_read c n))"
    using assms by (simp add: ring_read_def Let_def)
  fix i assume "i < length (ring_read c m)"
  then have i: "i < m" by (simp add: ring_read_def Let_def)
  have "co_head c + (co_cap c - n) + (n - m + i) = co_head c + (co_cap c - m) + i"
    using assms by simp
  then show "ring_read c m ! i = lastn m (ring_read c n) ! i"
    using i assms by (simp add: ring_read_eq lastn_def)
qed

lemma co_list_push:
  assumes "co_inv c"
  shows "co_list (collector_push e c) = lastn (co_cap c) (co_list c @ [e])"
proof (cases "co_size c < co_cap c")
  case True
  then have "co_list (collector_push e c) = co_list c @ [e]"
    using push_read[OF assms True, of e] by (simp add: co_list_def)
  with True show ?thesis by (simp add: lastn_all co_list_def ring_read_def Let_def)
next
  case False
  with assms obtain k where full: "co_size c = co_cap c" "co_cap c = Suc k"
    by (cases "co_cap c") (auto simp: co_inv_def)
  have sz: "co_size (collector_push e c) = Suc k"
    using full by simp
  have "co_list (collector_push e c) = ring_read c k @ [e]"
    using push_read[OF assms, of k e] full by (simp only: co_list_def sz lessI)
  also have "ring_read c k = lastn k (co_list c)"
    using ring_read_lastn[OF assms, of k "co_cap c"] full by (simp add: co_list_def)
  also have "lastn k (co_list c) @ [e] = lastn (co_cap c) (co_list c @ [e])"
  proof -
    have "length (co_list c) = Suc k" using full by (simp add: co_list_def ring_read_def Let_def)
    then show ?thesis using full by (simp add: lastn_def)
  qed
  finally show ?thesis .
qed

interpretation ring: bounded_log collector_push collector_Drain co_list co_cap co_inv
proof
  fix c e assume inv: "co_inv c"
  show "co_inv (collector_push e c)" by (rule co_inv_push[OF inv])
  show "co_cap (collector_push e c) = co_cap c" by simp
  show "co_list (collector_push e c) = lastn (co_cap c) (co_list c @ [e])"
    by (rule co_list_push[OF inv])
  show "co_inv (snd (collector_Drain c))" using inv by (auto simp: collector_Drain_def co_inv_def)
  show "co_cap (snd (collector_Drain c)) = co_cap c" by (simp add: collector_Drain_def)
  show "fst (collector_Drain c) = co_list c"
    by (simp add: collector_Drain_def co_list_def ring_read_def Let_def)
  show "co_list (snd (collector_Drain c)) = []"
    by (simp add: collector_Drain_def co_list_def ring_read_def Let_def)
  show "length (co_list c) \<le> co_cap c"
    using inv by (simp add: co_list_def ring_read_def Let_def co_inv_def)
qed

lemma collector_Peek_eq:
  assumes "co_inv c"
  shows "collector_Peek limit c = lastn (if 0 < limit then nat limit else co_cap c) (co_list c)"
proof -
  have len: "length (co_list c) = co_size c" by (simp add: co_list_def ring_read_def Let_def)
  have cap: "co_size c \<le> co_cap c" using assms by (simp add: co_inv_def)
  show ?thesis
  proof (cases "0 < limit \<and> limit < int (co_size c)")
    case True
    then show ?thesis using ring_read_lastn[OF assms, of "nat limit" "co_size c"] cap
      by (auto simp: collector_Peek_def co_list_def)
  next
    case False
    then have "lastn (if 0 < limit then nat limit else co_cap c) (co_list c) = co_list c"
      using len cap by (intro lastn_all) auto
    then show ?thesis using False len by (auto simp: collector_Peek_def co_list_def ring_read_def)
  qed
qed

lemma build_batch_split:
  "build_batch es b = b\<lparr>tb_Metrics := tb_Metrics b @ map to_metric (filter (\<lambda>e. et_Kind e \<noteq> kindEvent) es),
     tb_Events := tb_Events b @ map to_event (filter (\<lambda>e. et_Kind e = kindEvent) es)\<rparr>"
  by (induction es b rule: build_batch.induct) (auto split: entryKind.splits)

section \<open>Properties\<close>

text \<open>
  C24. The ring buffer refines a bounded log: after any sequence of pushes into a new collector,
  the size is the number of retained entries, \<^const>\<open>collector_Peek\<close> shows the newest ones, and
  \<^const>\<open>collector_Drain\<close> returns exactly the newest entries up to the capacity, oldest first, and
  leaves the collector as a new one in behaviour (a second round of pushes is again drained
  completely).
\<close>

theorem ring_refines_bounded_log:
  fixes n :: int and es es' :: "entry list" and limit :: int
  defines "cap \<equiv> (if n \<le> 0 then 10000 else nat n)"
    and "c \<equiv> fold collector_push es (NewCollector n)"
  shows "fst (collector_Drain c) = lastn cap es \<and>
    collector_Size c = min cap (length es) \<and>
    collector_Peek limit c = lastn (if 0 < limit then nat limit else cap) (lastn cap es) \<and>
    fst (collector_Drain (fold collector_push es' (snd (collector_Drain c)))) = lastn cap es'"
proof -
  note inv = co_inv_New[of n]
  have new: "co_list (NewCollector n) = []"
    by (simp add: co_list_def NewCollector_def ring_read_def Let_def)
  have c: "co_inv c" "co_cap c = cap" "co_list c = lastn cap es"
    using ring.pushes[OF inv, of es] new by (simp_all add: c_def cap_def co_cap_New)
  have "length (co_list c) = co_size c" by (simp add: co_list_def ring_read_def Let_def)
  with c(3) have "collector_Size c = min cap (length es)" by (simp add: collector_Size_def)
  then show ?thesis
    using ring.drain_returns[OF c(1)] collector_Peek_eq[OF c(1), of limit]
      ring.drain_after_pushes[OF c(1), of es'] c by simp
qed

text \<open>
  A flush sends every buffered entry in one batch, metrics and events each in insertion
  order, and empties the buffer before it knows whether the gateway accepted the batch: after a
  failed send the drained entries are in neither place.
\<close>

theorem flush_drains_before_send:
  assumes "co_inv (em_collector em)" and "co_list (em_collector em) \<noteq> []"
  shows "\<exists>em'. co_list (em_collector em') = [] \<and>
      emitter_flush marshal client em =
        (Some (case marshal \<lparr>tb_Metrics = map to_metric
                  (filter (\<lambda>e. et_Kind e \<noteq> kindEvent) (co_list (em_collector em))),
                tb_Events = map to_event
                  (filter (\<lambda>e. et_Kind e = kindEvent) (co_list (em_collector em)))\<rparr> of
           None \<Rightarrow> SendMarshalError
         | Some body \<Rightarrow>
            (case client \<lparr>hq_Method = ''POST'', hq_URL = em_gatewayURL em @ ''/telemetry'',
                   hq_Headers = [(''Content-Type'', [''application/json''])], hq_Body = body\<rparr> of
               None \<Rightarrow> SendClientError
             | Some resp \<Rightarrow>
                if 400 \<le> hr_StatusCode resp then SendStatus (hr_StatusCode resp) else SendOK)), em')"
proof -
  obtain es c where d: "collector_Drain (em_collector em) = (es, c)" by fastforce
  with ring.drain_returns[OF assms(1)] ring.drain_empties[OF assms(1)]
  have es: "es = co_list (em_collector em)" and c: "co_list c = []" by simp_all
  show ?thesis
    using assms(2) es c
    by (intro exI[of _ "em\<lparr>em_collector := c\<rparr>"])
       (simp add: emitter_flush_def Let_def d emitter_send_def build_batch_split cong: option.case_cong)
qed

theorem flush_drains_before_send_witness:
  "let em = \<lparr>em_collector = collector_Counter 1 ''requests'' 3 [] (NewCollector 4),
             em_gatewayURL = ''https://gw'', em_interval = 10\<rparr>;
       r = emitter_flush (\<lambda>_. Some ''{}'') (\<lambda>_. None) em in
   co_list (em_collector em) \<noteq> [] \<and> fst r = Some SendClientError \<and> co_list (em_collector (snd r)) = []"
proof -
  let ?em = "\<lparr>em_collector = collector_Counter 1 ''requests'' 3 [] (NewCollector 4),
             em_gatewayURL = ''https://gw'', em_interval = 10\<rparr>"
  have inv: "co_inv (em_collector ?em)"
    using co_inv_push[OF co_inv_New] by (simp add: collector_Counter_def)
  have ne: "co_list (em_collector ?em) \<noteq> []"
    using ring.push_contents[OF co_inv_New, of _ 4]
    by (simp add: collector_Counter_def lastn_def co_list_def NewCollector_def ring_read_def)
  show ?thesis
    using flush_drains_before_send[OF inv ne, of "\<lambda>_. Some ''{}''" "\<lambda>_. None"] ne
    by (auto simp: Let_def)
qed

end
