(* ===== verification/Policy_Sync.thy ===== *)
theory Policy_Sync
  imports Policy_Engine Telemetry_Ring
begin

text \<open>
  How policy reaches the engine and how requests are routed with it: the conditional fetch
  (\<^verbatim>\<open>src/core/policy/fetcher.go\<close>), the sync loop (\<^verbatim>\<open>src/core/policy/sync.go\<close>) and the router
  (\<^verbatim>\<open>src/core/routing/router.go\<close>).

  The gateway client is the interface the code has (\<^verbatim>\<open>gatewayDoer\<close>): a function from a request to
  a response or an error text. \<^verbatim>\<open>json.Unmarshal\<close> of a payload and the text of an update error are
  parameters.
\<close>

section \<open>Fetcher\<close>

record fetcher =
  fe_gatewayURL :: string
  fe_pollInterval :: duration
  fe_lastVersion :: string

definition NewFetcher :: "string \<Rightarrow> duration \<Rightarrow> fetcher" where
  "NewFetcher url interval = \<lparr>fe_gatewayURL = url, fe_pollInterval = interval, fe_lastVersion = []\<rparr>"

datatype fetch_error = FetchDo string | FetchStatus int | FetchDecode string

abbreviation ProtocolVersion :: string where "ProtocolVersion \<equiv> ''2026.01''"

definition fetch_request :: "fetcher \<Rightarrow> http_request" where
  "fetch_request f =
    \<lparr>hq_Method = ''GET'', hq_URL = fe_gatewayURL f @ ''/policy'',
     hq_Headers = [(''Accept'', [''application/json'']),
       (''X-Themisto-Protocol-Version'', [ProtocolVersion])] @
       (if fe_lastVersion f \<noteq> [] then [(''X-Themisto-Policy-Version'', [fe_lastVersion f]),
          (''If-None-Match'', [fe_lastVersion f])] else []),
     hq_Body = []\<rparr>"

definition poll_override :: "http_response \<Rightarrow> duration option" where
  "poll_override resp =
    (case map_of (hr_Headers resp) ''X-Themisto-Poll-Interval'' of
       Some (v # _) \<Rightarrow>
        (case atoi v of
           Some secs \<Rightarrow> if 0 < secs then Some (wrap64 (secs * second)) else None
         | None \<Rightarrow> None)
     | _ \<Rightarrow> None)"

text \<open>The payload is \<^term>\<open>None\<close> when the gateway answers that nothing changed.\<close>

definition fetcher_Fetch :: "(http_request \<Rightarrow> string + http_response) \<Rightarrow>
    (string \<Rightarrow> string + policy_payload) \<Rightarrow> fetcher \<Rightarrow>
    (fetch_error + (policy_payload option \<times> string)) \<times> fetcher" where
  "fetcher_Fetch client decode f =
    (case client (fetch_request f) of
       Inl err \<Rightarrow> (Inl (FetchDo err), f)
     | Inr resp \<Rightarrow>
        if hr_StatusCode resp = 304 then (Inr (None, fe_lastVersion f), f)
        else if 400 \<le> hr_StatusCode resp then (Inl (FetchStatus (hr_StatusCode resp)), f)
        else (case decode (hr_Body resp) of
                Inl err \<Rightarrow> (Inl (FetchDecode err), f)
              | Inr payload \<Rightarrow>
                 (let f1 = f\<lparr>fe_lastVersion := pp_Version payload\<rparr>;
                      f2 = (case poll_override resp of
                              Some d \<Rightarrow> f1\<lparr>fe_pollInterval := d\<rparr> | None \<Rightarrow> f1) in
                  (Inr (Some payload, pp_Version payload), f2))))"

definition fetcher_PollInterval :: "fetcher \<Rightarrow> duration" where
  "fetcher_PollInterval f = fe_pollInterval f"

section \<open>Sync loop\<close>

record sync_loop =
  sl_fetcher :: fetcher
  sl_engine :: engine
  sl_collector :: collector

datatype sync_error = FetchFailed fetch_error | UpdateFailed policy_error

definition sync_event :: "time \<Rightarrow> string \<Rightarrow> godata \<Rightarrow> collector \<Rightarrow> collector" where
  "sync_event now name dat =
     collector_Emit now name \<lparr>ep_AgentID = [], ep_Timestamp = now, ep_Data = dat\<rparr>"

definition syncOnce :: "(string \<Rightarrow> regexp option) \<Rightarrow> (policy_rule list \<Rightarrow> policy_rule list) \<Rightarrow>
    (sync_error \<Rightarrow> string) \<Rightarrow> (http_request \<Rightarrow> string + http_response) \<Rightarrow>
    (string \<Rightarrow> string + policy_payload) \<Rightarrow> time \<Rightarrow> sync_loop \<Rightarrow> sync_loop" where
  "syncOnce rc sorter err_text client decode now s =
    (case fetcher_Fetch client decode (sl_fetcher s) of
       (Inl err, f) \<Rightarrow>
         s\<lparr>sl_fetcher := f, sl_collector := sync_event now ''policy.sync_failed''
              [(''error'', VString (err_text (FetchFailed err)))] (sl_collector s)\<rparr>
     | (Inr (None, version), f) \<Rightarrow> s\<lparr>sl_fetcher := f\<rparr>
     | (Inr (Some payload, version), f) \<Rightarrow>
        (case engine_Update rc sorter (Some payload) (sl_engine s) of
           (Some err, e) \<Rightarrow>
             s\<lparr>sl_fetcher := f, sl_engine := e, sl_collector := sync_event now ''policy.sync_failed''
                 [(''error'', VString (err_text (UpdateFailed err))), (''version'', VString version)]
                 (sl_collector s)\<rparr>
         | (None, e) \<Rightarrow>
             s\<lparr>sl_fetcher := f, sl_engine := e, sl_collector := sync_event now ''policy.updated''
                 [(''version'', VString version), (''rule_count'', VInt (int (length (pp_Rules payload))))]
                 (sl_collector s)\<rparr>))"

text \<open>
  One round of \<^verbatim>\<open>Run\<close>: the tick, then \<^verbatim>\<open>ticker.Reset\<close> with the interval the fetcher now reports.
  \<^verbatim>\<open>time.Ticker.Reset\<close> panics on an interval that is not positive: \<^term>\<open>None\<close>.
\<close>

definition sync_round :: "(string \<Rightarrow> regexp option) \<Rightarrow> (policy_rule list \<Rightarrow> policy_rule list) \<Rightarrow>
    (sync_error \<Rightarrow> string) \<Rightarrow> (http_request \<Rightarrow> string + http_response) \<Rightarrow>
    (string \<Rightarrow> string + policy_payload) \<Rightarrow> time \<Rightarrow> sync_loop \<Rightarrow> sync_loop option" where
  "sync_round rc sorter err_text client decode now s =
    (let s' = syncOnce rc sorter err_text client decode now s in
     if fetcher_PollInterval (sl_fetcher s') \<le> 0 then None else Some s')"

fun sync_rounds :: "(string \<Rightarrow> regexp option) \<Rightarrow> (policy_rule list \<Rightarrow> policy_rule list) \<Rightarrow>
    (sync_error \<Rightarrow> string) \<Rightarrow> (http_request \<Rightarrow> string + http_response) \<Rightarrow>
    (string \<Rightarrow> string + policy_payload) \<Rightarrow> time list \<Rightarrow> sync_loop \<Rightarrow> sync_loop option" where
  "sync_rounds rc sorter err_text client decode [] s = Some s"
| "sync_rounds rc sorter err_text client decode (t # ts) s =
    (case sync_round rc sorter err_text client decode t s of
       None \<Rightarrow> None
     | Some s' \<Rightarrow> sync_rounds rc sorter err_text client decode ts s')"

section \<open>Router\<close>

text \<open>
  The router sees the engine through an interface value. The optional methods are found by type
  assertion, so each is an option here.
\<close>

record engine_iface =
  ei_Apply :: "request_context \<Rightarrow> string + (decision \<times> string)"
  ei_RuleByID :: "(string \<Rightarrow> policy_rule option) option"
  ei_PromptEnforcementOverride :: "string option"
  ei_Version :: "string option"

definition core_iface :: "engine \<Rightarrow> engine_iface" where
  "core_iface e = \<lparr>ei_Apply = (\<lambda>ctx. Inr (engine_Apply e ctx)), ei_RuleByID = Some (RuleByID e),
     ei_PromptEnforcementOverride = Some (engine_PromptEnforcementOverride e),
     ei_Version = Some (engine_Version e)\<rparr>"

record router =
  ro_engine :: engine_iface
  ro_defaultDecision :: decision

definition Route :: "router \<Rightarrow> request_context \<Rightarrow> decision \<times> string" where
  "Route r ctx = (case ei_Apply (ro_engine r) ctx of Inl err \<Rightarrow> (ro_defaultDecision r, []) | Inr d \<Rightarrow> d)"

definition LookupRule :: "router \<Rightarrow> string \<Rightarrow> policy_rule option" where
  "LookupRule r i =
    (if i = [] then None
     else (case ei_RuleByID (ro_engine r) of None \<Rightarrow> None | Some lookup \<Rightarrow> lookup i))"

definition router_PromptEnforcementOverride :: "router \<Rightarrow> string" where
  "router_PromptEnforcementOverride r =
    (case ei_PromptEnforcementOverride (ro_engine r) of None \<Rightarrow> [] | Some v \<Rightarrow> v)"

definition router_PolicyVersion :: "router \<Rightarrow> string" where
  "router_PolicyVersion r = (case ei_Version (ro_engine r) of None \<Rightarrow> [] | Some v \<Rightarrow> v)"

text \<open>The router interface; the optional methods are found by type assertion.\<close>

record router_iface =
  ri_Route :: "request_context \<Rightarrow> string + (decision \<times> string)"
  ri_LookupRule :: "(string \<Rightarrow> policy_rule option) option"
  ri_PromptEnforcementOverride :: "string option"
  ri_PolicyVersion :: "string option"

definition default_router :: "router \<Rightarrow> router_iface" where
  "default_router r = \<lparr>ri_Route = (\<lambda>ctx. Inr (Route r ctx)), ri_LookupRule = Some (LookupRule r),
     ri_PromptEnforcementOverride = Some (router_PromptEnforcementOverride r),
     ri_PolicyVersion = Some (router_PolicyVersion r)\<rparr>"

section \<open>Lemmas\<close>

lemma fetch_request_conditional:
  "fe_lastVersion f \<noteq> [] \<Longrightarrow> map_of (hq_Headers (fetch_request f)) ''If-None-Match'' = Some [fe_lastVersion f]"
  by (simp add: fetch_request_def)

lemma fetch_not_modified:
  "client (fetch_request f) = Inr resp \<Longrightarrow> hr_StatusCode resp = 304 \<Longrightarrow>
     fetcher_Fetch client decode f = (Inr (None, fe_lastVersion f), f)"
  by (simp add: fetcher_Fetch_def)

lemma syncOnce_not_modified:
  "client (fetch_request (sl_fetcher s)) = Inr resp \<Longrightarrow> hr_StatusCode resp = 304 \<Longrightarrow>
     syncOnce rc sorter et client decode now s = s"
  by (simp add: syncOnce_def fetch_not_modified)

section \<open>Properties\<close>

text \<open>
  The rule identifier that the router returns with a decision can be looked up: for an
  engine in a state that updates produce, routing never falls back because of an engine error,
  a non-empty identifier resolves to a loaded rule with that identifier, and when rule
  identifiers are unique that rule carries the decision returned.
\<close>

theorem route_rule_resolves:
  assumes "engine_inv e" and "Route \<lparr>ro_engine = core_iface e, ro_defaultDecision = dd\<rparr> ctx = (d, i)"
    and "i \<noteq> []"
  shows "(d, i) = engine_Apply e ctx \<and>
    (\<exists>r. LookupRule \<lparr>ro_engine = core_iface e, ro_defaultDecision = dd\<rparr> i = Some r \<and> pr_ID r = i \<and>
       r \<in> set (en_rules e) \<and> (distinct (map pr_ID (en_rules e)) \<longrightarrow> pr_Decision r = d))"
proof -
  from assms(2) have a: "engine_Apply e ctx = (d, i)" by (simp add: Route_def core_iface_def)
  from core_engine.eval_id_found[OF assms(1) a assms(3)] obtain r
    where r: "RuleByID e i = Some r" "pr_ID r = i" by blast
  then have mem: "r \<in> set (en_rules e)" using find_in_set unfolding RuleByID_def by fastforce
  have "pr_Decision r = d" if dist: "distinct (map pr_ID (en_rules e))"
    using assms(1)
  proof (cases rule: core_engine.eval_cases[where c = ctx])
    case (rule x)
    with a r mem dist have "x = r" by (auto simp: distinct_map inj_on_def)
    with rule a show ?thesis by simp
  qed (use a assms(3) in simp)
  then show ?thesis
    using a r mem assms(3) by (auto simp: LookupRule_def core_iface_def)
qed

lemma sample_engine_inv:
  "engine_inv (snd (engine_Update literal_regexp (sort_key pr_Priority)
      (Some (sample_payload sample_rules)) (NewEngine DecisionForward)))"
  by (rule engine_Update_inv[OF insertion.slice_sort_axioms engine_inv_New])

theorem route_rule_resolves_witness:
  "\<exists>r. LookupRule \<lparr>ro_engine = core_iface (snd (engine_Update literal_regexp (sort_key pr_Priority)
      (Some (sample_payload sample_rules)) (NewEngine DecisionForward))),
      ro_defaultDecision = DecisionForward\<rparr> ''deny'' = Some r \<and> pr_ID r = ''deny''"
proof -
  let ?e = "snd (engine_Update literal_regexp (sort_key pr_Priority)
      (Some (sample_payload sample_rules)) (NewEngine DecisionForward))"
  have "Route \<lparr>ro_engine = core_iface ?e, ro_defaultDecision = DecisionForward\<rparr>
      (sample_context ''api.openai.com'') = (DecisionBlock, ''deny'')"
    by (simp add: Route_def core_iface_def engine_Apply_def sample_compiled sample_apply)
  from route_rule_resolves[OF sample_engine_inv this] show ?thesis by auto
qed

text \<open>
  A policy whose rules do not compile is reported as held. The fetcher records its version
  before the engine accepts it, so a gateway that answers the conditional request with
  \<^verbatim>\<open>304 Not Modified\<close> never sends it again: after the first round, for any number of later
  rounds, the engine still runs the old rules while the fetcher announces the new version, and no
  further failure event is emitted.
\<close>

theorem sync_stuck_on_uncompilable_policy:
  assumes cond: "\<And>req. map_of (hq_Headers req) ''If-None-Match'' = Some [pp_Version p] \<Longrightarrow>
        client req = Inr \<lparr>hr_StatusCode = 304, hr_Headers = [], hr_Body = []\<rparr>"
    and first: "client (fetch_request (sl_fetcher s)) =
        Inr \<lparr>hr_StatusCode = 200, hr_Headers = [], hr_Body = body\<rparr>"
    and dec: "decode body = Inr p" and bad: "\<not> regexes_ok rc (pp_Rules p)"
    and sort: "slice_sort pr_Priority sorter"
    and ver: "pp_Version p \<noteq> []" and poll: "0 < fe_pollInterval (sl_fetcher s)"
  shows "\<exists>s'. sync_rounds rc sorter et client decode (t # ts) s = Some s' \<and>
    sl_engine s' = sl_engine s \<and> fe_lastVersion (sl_fetcher s') = pp_Version p \<and>
    sync_round rc sorter et client decode t s = Some s'"
proof -
  have "regexes_ok rc (sorter (pp_Rules p)) = regexes_ok rc (pp_Rules p)"
    using slice_sort.set_sorter[OF sort] by (rule regexes_ok_set)
  then obtain err where "compileRules rc (sorter (pp_Rules p)) = Inl err"
    using bad compileRules_total by (metis sum.exhaust)
  then have upd: "engine_Update rc sorter (Some p) e = (Some err, e)" for e
    by (simp add: engine_Update_def Let_def)
  have fetch: "fetcher_Fetch client decode (sl_fetcher s) =
      (Inr (Some p, pp_Version p), (sl_fetcher s)\<lparr>fe_lastVersion := pp_Version p\<rparr>)"
    by (simp add: fetcher_Fetch_def first dec poll_override_def)
  define s1 where "s1 = syncOnce rc sorter et client decode t s"
  have s1: "sl_engine s1 = sl_engine s" "fe_lastVersion (sl_fetcher s1) = pp_Version p"
      "0 < fe_pollInterval (sl_fetcher s1)"
    by (simp_all add: s1_def syncOnce_def fetch upd poll)
  have round1: "sync_round rc sorter et client decode t s = Some s1"
    using s1 by (simp add: sync_round_def s1_def[symmetric] fetcher_PollInterval_def)
  have "client (fetch_request (sl_fetcher s1)) = Inr \<lparr>hr_StatusCode = 304, hr_Headers = [], hr_Body = []\<rparr>"
    using cond fetch_request_conditional s1(2) ver by metis
  then have stay: "sync_round rc sorter et client decode t' s1 = Some s1" for t'
    using s1(3) by (simp add: sync_round_def syncOnce_not_modified fetcher_PollInterval_def)
  have "sync_rounds rc sorter et client decode ts s1 = Some s1"
    by (induction ts) (simp_all add: stay)
  then show ?thesis using round1 s1 by simp
qed

definition bad_payload :: policy_payload where
  "bad_payload = sample_payload [sample_rule ''x'' 1 DecisionBlock ''host'' ''regex'' ''('']"

definition versioned_gateway :: "http_request \<Rightarrow> string + http_response" where
  "versioned_gateway req =
    (if map_of (hq_Headers req) ''If-None-Match'' = Some [''v2'']
     then Inr \<lparr>hr_StatusCode = 304, hr_Headers = [], hr_Body = []\<rparr>
     else Inr \<lparr>hr_StatusCode = 200, hr_Headers = [], hr_Body = ''policy''\<rparr>)"

definition sample_loop :: sync_loop where
  "sample_loop = \<lparr>sl_fetcher = NewFetcher ''https://gw'' 60, sl_engine = NewEngine DecisionForward,
     sl_collector = NewCollector 8\<rparr>"

theorem sync_stuck_on_uncompilable_policy_witness:
  "\<exists>s'. sync_rounds literal_regexp (sort_key pr_Priority) (\<lambda>_. ''failed'') versioned_gateway
      (\<lambda>_. Inr bad_payload) [1, 2, 3] sample_loop = Some s' \<and>
    en_rules (sl_engine s') = [] \<and> fe_lastVersion (sl_fetcher s') = ''v2''"
proof -
  have v: "pp_Version bad_payload = ''v2''" by (simp add: bad_payload_def sample_payload_def)
  have cond: "versioned_gateway req = Inr \<lparr>hr_StatusCode = 304, hr_Headers = [], hr_Body = []\<rparr>"
    if "map_of (hq_Headers req) ''If-None-Match'' = Some [pp_Version bad_payload]" for req
    using that by (simp add: versioned_gateway_def v)
  have first: "versioned_gateway (fetch_request (sl_fetcher sample_loop)) =
      Inr \<lparr>hr_StatusCode = 200, hr_Headers = [], hr_Body = ''policy''\<rparr>"
    by (simp add: versioned_gateway_def fetch_request_def sample_loop_def NewFetcher_def)
  have bad: "\<not> regexes_ok literal_regexp (pp_Rules bad_payload)"
    by (simp add: regexes_ok_def bad_payload_def sample_payload_def sample_rule_def literal_regexp_def)
  have poll: "0 < fe_pollInterval (sl_fetcher sample_loop)" by (simp add: sample_loop_def NewFetcher_def)
  have ver: "pp_Version bad_payload \<noteq> []" by (simp add: v)
  from sync_stuck_on_uncompilable_policy[where client = versioned_gateway and decode = "\<lambda>_. Inr bad_payload"
      and et = "\<lambda>_. ''failed''" and t = 1 and ts = "[2, 3]",
      OF cond first refl bad insertion.slice_sort_axioms ver poll]
  show ?thesis by (auto simp: v sample_loop_def NewEngine_def)
qed

text \<open>
  A poll interval from the gateway is multiplied out in 64-bit nanoseconds without a check:
  a value that \<^verbatim>\<open>strconv.Atoi\<close> accepts but whose product overflows to a negative duration makes the
  sync loop panic when it resets its ticker; every value up to 9,223,372,036 seconds is safe.
\<close>

theorem poll_interval_overflow_panics:
  assumes "client (fetch_request (sl_fetcher s)) = Inr resp" and "hr_StatusCode resp = 200"
    and "decode (hr_Body resp) = Inr p"
    and "map_of (hr_Headers resp) ''X-Themisto-Poll-Interval'' = Some [v]" and "atoi v = Some secs"
    and "0 < secs"
  shows "(secs \<le> 9223372036 \<longrightarrow> sync_round rc sorter et client decode now s \<noteq> None) \<and>
    (9223372037 \<le> secs \<and> secs \<le> 18446744073 \<longrightarrow> sync_round rc sorter et client decode now s = None)"
proof -
  let ?s = "syncOnce rc sorter et client decode now s"
  have iv: "fe_pollInterval (sl_fetcher ?s) = wrap64 (secs * second)"
    using assms by (auto simp: syncOnce_def fetcher_Fetch_def poll_override_def Let_def
        split: prod.splits option.splits)
  have "wrap64 (secs * second) = secs * second" if "secs \<le> 9223372036"
    using that assms(6) by (simp add: wrap64_def second_def)
  moreover have "wrap64 (secs * second) < 0" if "9223372037 \<le> secs" "secs \<le> 18446744073"
  proof -
    have "(secs * 10 ^ 9 + 2 ^ 63) mod 2 ^ 64 = secs * 10 ^ 9 + 2 ^ 63 - 2 ^ 64"
      using that
      by (subst minus_mod_self2[symmetric]) (intro mod_pos_pos_trivial; simp)
    then show ?thesis using that by (simp add: wrap64_def second_def)
  qed
  moreover have "0 < secs * second" using assms(6) by (simp add: second_def)
  ultimately show ?thesis
    by (auto simp: sync_round_def fetcher_PollInterval_def iv Let_def)
qed

theorem poll_interval_overflow_panics_witness:
  "sync_round literal_regexp (sort_key pr_Priority) (\<lambda>_. ''failed'')
     (\<lambda>_. Inr \<lparr>hr_StatusCode = 200, hr_Headers = [(''X-Themisto-Poll-Interval'', [''9999999999''])], hr_Body = []\<rparr>)
     (\<lambda>_. Inr (sample_payload [])) 0 sample_loop = None"
proof -
  have a: "atoi ''9999999999'' = Some 9999999999" by code_simp
  show ?thesis
    by (rule poll_interval_overflow_panics[where secs = 9999999999 and v = "''9999999999''" and
          resp = "\<lparr>hr_StatusCode = 200, hr_Headers = [(''X-Themisto-Poll-Interval'', [''9999999999''])],
            hr_Body = []\<rparr>", THEN conjunct2, THEN mp, OF _ _ refl _ a]) simp_all
qed

end
