(* ===== verification/Regex.thy ===== *)
theory Regex
  imports Go_Stdlib
begin

text \<open>
  The part of Go's \<^verbatim>\<open>regexp\<close> package that the DLP patterns use: an abstract syntax and a matcher
  with the package's leftmost-first semantics. The matcher returns the end positions of a match
  in order of preference, so the first one is what \<^verbatim>\<open>FindIndex\<close> reports. It works on bytes and is
  exact for ASCII text.

  The contract the scanner needs of a pattern (a reported location lies within the text) is the
  locale \<open>pattern_finder\<close>; the matcher is an instance.
\<close>

section \<open>Syntax\<close>

datatype regex =
    RSet bool "(nat \<times> nat) list"
  | REps
  | RSeq regex regex
  | RAlt regex regex
  | RStar regex
  | RBegin
  | REnd
  | RLineBegin
  | RWordB

definition rchar :: "char \<Rightarrow> regex" where
  "rchar c = RSet True [(of_char c, of_char c)]"

fun rseq :: "regex list \<Rightarrow> regex" where
  "rseq [] = REps"
| "rseq [r] = r"
| "rseq (r # q # rs) = RSeq r (rseq (q # rs))"

fun ralt :: "regex list \<Rightarrow> regex" where
  "ralt [] = RSet True []"
| "ralt [r] = r"
| "ralt (r # q # rs) = RAlt r (ralt (q # rs))"

definition rstr :: "string \<Rightarrow> regex" where
  "rstr s = rseq (map rchar s)"

text \<open>Case-insensitive letters, the flag \<^verbatim>\<open>(?i)\<close>.\<close>

definition rchar_ci :: "char \<Rightarrow> regex" where
  "rchar_ci c = RSet True [(of_char (lower_char c), of_char (lower_char c)),
                           (of_char (upper_char (lower_char c)), of_char (upper_char (lower_char c)))]"

definition rstr_ci :: "string \<Rightarrow> regex" where
  "rstr_ci s = rseq (map rchar_ci s)"

definition ropt :: "regex \<Rightarrow> regex" where "ropt r = RAlt r REps"

definition rplus :: "regex \<Rightarrow> regex" where "rplus r = RSeq r (RStar r)"

fun rtimes :: "regex \<Rightarrow> nat \<Rightarrow> regex" where
  "rtimes r 0 = REps"
| "rtimes r (Suc n) = RSeq r (rtimes r n)"

fun rupto :: "regex \<Rightarrow> nat \<Rightarrow> regex" where
  "rupto r 0 = REps"
| "rupto r (Suc n) = RAlt (RSeq r (rupto r n)) REps"

definition ratleast :: "regex \<Rightarrow> nat \<Rightarrow> regex" where "ratleast r n = RSeq (rtimes r n) (RStar r)"

definition rbetween :: "regex \<Rightarrow> nat \<Rightarrow> nat \<Rightarrow> regex" where
  "rbetween r m n = RSeq (rtimes r m) (rupto r (n - m))"

text \<open>The ranges of the classes \<^verbatim>\<open>\d\<close>, \<^verbatim>\<open>[a-z]\<close>, \<^verbatim>\<open>[A-Z]\<close>, \<^verbatim>\<open>\s\<close> and single characters.\<close>

abbreviation dig :: "(nat \<times> nat) list" where "dig \<equiv> [(48, 57)]"
abbreviation lo :: "(nat \<times> nat) list" where "lo \<equiv> [(97, 122)]"
abbreviation up :: "(nat \<times> nat) list" where "up \<equiv> [(65, 90)]"
abbreviation alnum :: "(nat \<times> nat) list" where "alnum \<equiv> lo @ up @ dig"
abbreviation spc :: "(nat \<times> nat) list" where "spc \<equiv> [(9, 10), (12, 13), (32, 32)]"

definition chs :: "string \<Rightarrow> (nat \<times> nat) list" where
  "chs s = map (\<lambda>c. (of_char c, of_char c)) s"

abbreviation rcls :: "(nat \<times> nat) list \<Rightarrow> regex" where "rcls \<equiv> RSet True"
abbreviation rnot :: "(nat \<times> nat) list \<Rightarrow> regex" where "rnot \<equiv> RSet False"
abbreviation rdigit :: regex where "rdigit \<equiv> RSet True dig"
abbreviation rspace :: regex where "rspace \<equiv> RSet True spc"
abbreviation rword :: regex where "rword \<equiv> RSet True (alnum @ [(95, 95)])"

section \<open>Matching\<close>

definition in_ranges :: "nat \<Rightarrow> (nat \<times> nat) list \<Rightarrow> bool" where
  "in_ranges n rs = list_ex (\<lambda>(a, b). a \<le> n \<and> n \<le> b) rs"

definition is_word_char :: "char \<Rightarrow> bool" where
  "is_word_char c = (is_alpha c \<or> is_digit c \<or> c = CHR ''_'')"

definition word_at :: "string \<Rightarrow> nat \<Rightarrow> bool" where
  "word_at s i = (i < length s \<and> is_word_char (s ! i))"

fun star_ends :: "(nat \<Rightarrow> nat list) \<Rightarrow> nat \<Rightarrow> nat \<Rightarrow> nat list" where
  "star_ends f 0 i = [i]"
| "star_ends f (Suc n) i = concat (map (\<lambda>j. if i < j then star_ends f n j else []) (f i)) @ [i]"

fun ends :: "string \<Rightarrow> regex \<Rightarrow> nat \<Rightarrow> nat list" where
  "ends s (RSet pos rs) i =
    (if i < length s \<and> in_ranges (of_char (s ! i)) rs = pos then [i + 1] else [])"
| "ends s REps i = [i]"
| "ends s (RSeq r q) i = concat (map (ends s q) (ends s r i))"
| "ends s (RAlt r q) i = ends s r i @ ends s q i"
| "ends s (RStar r) i = star_ends (ends s r) (length s - i) i"
| "ends s RBegin i = (if i = 0 then [i] else [])"
| "ends s REnd i = (if i = length s then [i] else [])"
| "ends s RLineBegin i = (if i = 0 \<or> s ! (i - 1) = CHR 0x0A then [i] else [])"
| "ends s RWordB i =
    (if (0 < i \<and> word_at s (i - 1)) \<noteq> word_at s i then [i] else [])"

fun find_from :: "regex \<Rightarrow> string \<Rightarrow> nat \<Rightarrow> nat \<Rightarrow> (nat \<times> nat) option" where
  "find_from r s 0 i = None"
| "find_from r s (Suc n) i =
    (case ends s r i of e # _ \<Rightarrow> Some (i, e) | [] \<Rightarrow> find_from r s n (i + 1))"

definition FindIndex :: "regex \<Rightarrow> string \<Rightarrow> (nat \<times> nat) option" where
  "FindIndex r s = find_from r s (length s + 1) 0"

text \<open>Successive non-overlapping matches of an expression that never matches the empty string.\<close>

fun find_all :: "regex \<Rightarrow> string \<Rightarrow> nat \<Rightarrow> nat \<Rightarrow> (nat \<times> nat) list" where
  "find_all r s 0 i = []"
| "find_all r s (Suc limit) i =
    (case find_from r s (length s + 1 - i) i of
       Some (a, e) \<Rightarrow> (a, e) # find_all r s limit (max e (i + 1)) | None \<Rightarrow> [])"

section \<open>Lemmas\<close>

lemma star_ends_bounds:
  assumes "\<And>i j. j \<in> set (f i) \<Longrightarrow> i \<le> n \<Longrightarrow> i \<le> j \<and> j \<le> n"
  shows "j \<in> set (star_ends f k i) \<Longrightarrow> i \<le> n \<Longrightarrow> i \<le> j \<and> j \<le> n"
proof (induction k arbitrary: i)
  case (Suc k)
  show ?case
  proof (cases "j = i")
    case False
    with Suc.prems obtain j' where j': "j' \<in> set (f i)" "i < j'" "j \<in> set (star_ends f k j')"
      by (auto split: if_splits)
    with assms[OF j'(1)] Suc.prems have "j' \<le> n" by simp
    from Suc.IH[OF j'(3) this] j'(2) show ?thesis by simp
  qed (use Suc.prems in simp)
qed simp

lemma ends_bounds: "j \<in> set (ends s r i) \<Longrightarrow> i \<le> length s \<Longrightarrow> i \<le> j \<and> j \<le> length s"
proof (induction r arbitrary: i j)
  case (RSeq r q)
  then obtain k where k: "k \<in> set (ends s r i)" "j \<in> set (ends s q k)" by auto
  with RSeq.IH(1)[OF k(1) RSeq.prems(2)] RSeq.IH(2)[OF k(2)] show ?case by auto
next
  case (RStar r)
  show ?case
    using star_ends_bounds[of "ends s r" "length s" j "length s - i" i] RStar by auto
qed (auto split: if_splits)

lemma find_from_bounds:
  "find_from r s n i = Some (a, b) \<Longrightarrow> i + n \<le> length s + 1 \<Longrightarrow> i \<le> a \<and> a \<le> b \<and> b \<le> length s"
proof (induction n arbitrary: i)
  case (Suc n)
  show ?case
  proof (cases "ends s r i")
    case Nil
    with Suc.IH[of "i + 1"] Suc.prems show ?thesis by simp
  next
    case (Cons e es)
    then have "e \<in> set (ends s r i)" by simp
    with ends_bounds[OF this] Suc.prems Cons show ?thesis by auto
  qed
qed simp

lemma find_from_complete:
  "find_from r s n i = None \<longleftrightarrow> (\<forall>k. i \<le> k \<and> k < i + n \<longrightarrow> ends s r k = [])"
proof (induction n arbitrary: i)
  case (Suc n)
  have "(\<forall>k. i \<le> k \<and> k < i + Suc n \<longrightarrow> ends s r k = []) \<longleftrightarrow>
      ends s r i = [] \<and> (\<forall>k. i + 1 \<le> k \<and> k < i + 1 + n \<longrightarrow> ends s r k = [])"
    by (auto simp: le_Suc_eq less_Suc_eq_le) (metis Suc_leI le_neq_implies_less less_add_Suc1 add_Suc_right add_Suc)
  then show ?case using Suc[of "i + 1"] by (auto split: list.splits)
qed auto

section \<open>The contract of a pattern\<close>

locale pattern_finder =
  fixes find :: "string \<Rightarrow> (nat \<times> nat) option"
  assumes find_bounds: "find s = Some (a, b) \<Longrightarrow> a \<le> b \<and> b \<le> length s"
begin

lemma found_text_length: "find s = Some (a, b) \<Longrightarrow> length (take (b - a) (drop a s)) = b - a"
  using find_bounds[of s a b] by auto

end

interpretation re2: pattern_finder "FindIndex r" for r
proof
  fix s a b assume "FindIndex r s = Some (a, b)"
  from find_from_bounds[OF this[unfolded FindIndex_def]] show "a \<le> b \<and> b \<le> length s" by simp
qed

end
