(* ===== verification/DLP_Scanner.thy ===== *)
theory DLP_Scanner
  imports Domain_Types Regex
begin

text \<open>
  The DLP scanner (\<^verbatim>\<open>src/core/dlp/scanner.go\<close>, \<^verbatim>\<open>patterns.go\<close>): structure-aware extraction of text
  fields from a request body, the pattern, source-code and keyword checks on each field, and the
  classification of the findings. The default patterns are transcribed into the syntax of
  \<open>Regex\<close>.

  The decoders of the standard library whose formats are outside this development are fields of
  a record of parameters: \<^verbatim>\<open>json.Unmarshal\<close>, \<^verbatim>\<open>mime.ParseMediaType\<close>, the parts a multipart reader
  yields until it stops, and the iteration order of the Go map that \<^verbatim>\<open>url.ParseQuery\<close> returns.
\<close>

section \<open>Types and parameters\<close>

definition MaxBodySize :: nat where "MaxBodySize = 256 * 1024"
definition maxMatches :: nat where "maxMatches = 20"

record pattern =
  pt_name :: string
  pt_find :: "string \<Rightarrow> (nat \<times> nat) option"

record extractedField =
  ef_name :: string
  ef_text :: string

record scanner =
  sc_piiPatterns :: "pattern list"
  sc_credentialPatterns :: "pattern list"
  sc_codePatterns :: "pattern list"

record multipart_part =
  mp_FormName :: string
  mp_FileName :: string
  mp_ContentType :: string
  mp_Data :: string

record decoders =
  dc_json :: "string \<Rightarrow> goval option"
  dc_mime :: "string \<Rightarrow> (string \<times> (string \<times> string) list) option"
  dc_parts :: "string \<Rightarrow> string \<Rightarrow> multipart_part list"
  dc_order :: "(string \<times> string list) list \<Rightarrow> (string \<times> string list) list"

section \<open>Default patterns\<close>

definition notIdent :: regex where
  "notIdent = rnot (alnum @ chs ''_-'')"

definition pii_regexes :: "(string \<times> regex) list" where
  "pii_regexes =
   [(''ssn'', rseq [RAlt RBegin notIdent,
       RAlt (rseq [rtimes rdigit 3, rchar CHR ''-'', rtimes rdigit 2, rchar CHR ''-'', rtimes rdigit 4])
            (rtimes rdigit 9),
       RAlt REnd notIdent]),
    (''credit_card'', rseq [RWordB, ralt
       [rseq [rchar CHR ''4'', rtimes rdigit 12, ropt (rtimes rdigit 3)],
        rseq [rchar CHR ''5'', rcls [(49, 53)], rtimes rdigit 14],
        rseq [rchar CHR ''3'', rcls (chs ''47''), rtimes rdigit 13],
        rseq [rchar CHR ''6'', RAlt (rstr ''011'') (RSeq (rchar CHR ''5'') (rtimes rdigit 2)), rtimes rdigit 12],
        rseq [rchar CHR ''3'', RAlt (RSeq (rchar CHR ''0'') (rcls [(48, 53)])) (RSeq (rcls (chs ''68'')) rdigit),
              rtimes rdigit 11],
        rseq [ralt [rstr ''2131'', rstr ''1800'', RSeq (rstr ''35'') (rtimes rdigit 3)], rtimes rdigit 11]],
       RWordB]),
    (''email'', rseq [RWordB, rplus (rcls (alnum @ chs ''._%+-'')), rchar CHR ''@'',
       rplus (rcls (alnum @ chs ''.-'')), rchar CHR ''.'', ratleast (rcls (lo @ up)) 2, RWordB]),
    (''phone_us'', rseq [RWordB,
       ropt (rseq [ropt (rchar CHR ''+''), rchar CHR ''1'', ropt (rcls (chs ''-.'' @ spc))]),
       ropt (rchar CHR ''(''), rcls [(50, 57)], rtimes rdigit 2, ropt (rchar CHR '')''),
       ropt (rcls (chs ''-.'' @ spc)), rtimes rdigit 3, ropt (rcls (chs ''-.'' @ spc)), rtimes rdigit 4, RWordB]),
    (''uk_ni_number'', rseq [RWordB,
       rtimes (rcls ([(65, 67)] @ chs ''EGH'' @ [(74, 80), (82, 84), (87, 90)])) 2,
       rtimes rdigit 6, rcls [(65, 68)], RWordB]),
    (''passport'', rseq [RWordB, rbetween (rcls up) 1 2, rbetween rdigit 6 9, RWordB])]"

definition quotes :: regex where
  "quotes = ropt (rcls [(39, 39), (34, 34)])"

definition envs :: regex where
  "envs = ralt (map rstr [''live'', ''test'', ''prod'', ''production'', ''dev'', ''stage'', ''staging''])"

definition envs_ci :: regex where
  "envs_ci = ralt (map rstr_ci [''live'', ''test'', ''prod'', ''production'', ''dev'', ''stage'', ''staging''])"

definition usp :: regex where
  "usp = ropt (RAlt (rchar CHR ''_'') rspace)"

definition dus :: "(nat \<times> nat) list" where
  "dus = alnum @ chs ''-_''"

definition credential_regexes :: "(string \<times> regex) list" where
  "credential_regexes =
   [(''api_key_environment'', rseq [RWordB, rstr ''sk-'', envs, rchar CHR ''-'', ratleast (rcls dus) 8, RWordB]),
    (''api_key_openai'', rseq [RWordB, rstr ''sk-'', ropt (RSeq (rplus (rcls alnum)) (rchar CHR ''-'')),
       ratleast (rcls dus) 16, RWordB]),
    (''api_key_anthropic'', rseq [RWordB, rstr ''sk-ant-'', ratleast (rcls dus) 20, RWordB]),
    (''github_token'', rseq [RWordB, rstr ''ghp_'', ratleast (rcls alnum) 36, RWordB]),
    (''github_oauth_token'', rseq [RWordB, rstr ''gho_'', ratleast (rcls alnum) 36, RWordB]),
    (''github_app_token'', rseq [RWordB, rstr ''ghu_'', ratleast (rcls alnum) 36, RWordB]),
    (''aws_access_key'', rseq [RWordB, rstr ''AKIA'', rtimes (rcls (dig @ up)) 16, RWordB]),
    (''aws_secret_key'', rseq [rstr_ci ''aws'', usp, rstr_ci ''secret'', usp, rstr_ci ''access'', usp,
       rstr_ci ''key'', RStar rspace, rcls (chs '':=''), RStar rspace, quotes,
       rtimes (rcls (alnum @ chs ''+/='')) 40, quotes]),
    (''private_key_block'', rseq [rstr ''-----BEGIN '',
       ropt (ralt [rstr ''RSA '', rstr ''EC '', rstr ''DSA '', rstr ''OPENSSH '']), rstr ''PRIVATE KEY-----'']),
    (''google_api_key'', rseq [RWordB, rstr ''AIza'', rtimes (rcls dus) 35, RWordB]),
    (''slack_token'', rseq [RWordB, rstr ''xox'', rcls (chs ''baprs''), rchar CHR ''-'',
       ratleast (rcls (alnum @ chs ''-'')) 10, RWordB]),
    (''stripe_key'', rseq [RWordB, RAlt (rstr ''sk'') (rstr ''pk''), rchar CHR ''_'',
       RAlt (rstr ''live'') (rstr ''test''), rchar CHR ''_'', ratleast (rcls alnum) 24, RWordB]),
    (''jwt_token'', rseq [RWordB, rstr ''eyJ'', rplus (rcls dus), rstr ''.eyJ'', rplus (rcls dus),
       rchar CHR ''.'', rplus (rcls dus), RWordB]),
    (''generic_secret'', rseq [ralt [rstr_ci ''secret'', rstr_ci ''password'', rstr_ci ''passwd'', rstr_ci ''token'',
         rseq [rstr_ci ''api'', ropt (rcls (chs ''-_'')), rstr_ci ''key''], rstr_ci ''authorization''],
       RStar rspace, rcls (chs '':=''), RStar rspace, quotes,
       ratleast (rcls (alnum @ chs ''+/=-_'')) 16, quotes]),
    (''credential_context_token'', rseq [RWordB,
       ralt [rseq [rstr_ci ''api'', ropt (rcls (chs ''-_'' @ spc)), rstr_ci ''key''],
             rseq [rstr_ci ''secret'', ropt (rcls (chs ''-_'' @ spc)), rstr_ci ''key''],
             rseq [rstr_ci ''access'', ropt (rcls (chs ''-_'' @ spc)), rstr_ci ''token''],
             rseq [rstr_ci ''bearer'', ropt (rcls (chs ''-_'' @ spc)), rstr_ci ''token''],
             rstr_ci ''token'', rstr_ci ''credential''],
       RWordB, rupto (rnot [(13, 13), (10, 10)]) 40, RWordB,
       ralt [rseq [rstr_ci ''sk-'', envs_ci, rchar CHR ''-'', ratleast (rcls dus) 4],
             RSeq (rstr_ci ''sk-'') (ratleast (rcls dus) 6),
             rseq [rstr_ci ''gh'', ralt (map rchar_ci ''pousr''), rchar CHR ''_'', ratleast (rcls alnum) 6],
             rseq [rstr_ci ''xox'', ralt (map rchar_ci ''baprs''), rchar CHR ''-'', ratleast (rcls (alnum @ chs ''-'')) 6],
             RSeq (rstr_ci ''AKIA'') (ratleast (rcls alnum) 8)],
       RWordB])]"

definition quote1 :: regex where "quote1 = rcls [(39, 39), (34, 34)]"
definition nonquotes :: regex where "nonquotes = rplus (rnot [(39, 39), (34, 34)])"

definition code_regexes :: "(string \<times> regex) list" where
  "code_regexes =
   [(''python_import'', rseq [RLineBegin, RAlt (rstr ''import'') (rstr ''from''), rplus rspace,
       rcls (lo @ up @ chs ''_''), RStar (rcls (alnum @ chs ''_.''))]),
    (''go_import'', RSeq RLineBegin (RAlt (rseq [rstr ''package'', rplus rspace, rplus rword])
       (rseq [rstr ''import'', rplus rspace, rchar CHR ''('']))),
    (''js_require'', RAlt (rseq [rstr ''require('', quote1, nonquotes, quote1, rchar CHR '')''])
       (rseq [rstr ''import'', rplus rspace, rplus (rnot spc), rplus rspace, rstr ''from'', rplus rspace,
         quote1, nonquotes, quote1])),
    (''function_def'', rseq [ralt [rseq [rstr ''func'', rplus rspace, rplus rword],
         rseq [rstr ''def'', rplus rspace, rplus rword], rseq [rstr ''function'', rplus rspace, rplus rword],
         rseq [rstr ''const'', rplus rspace, rplus rword, RStar rspace, rchar CHR ''='', RStar rspace,
           ropt (RSeq (rstr ''async'') (rplus rspace)),
           RAlt (rseq [rchar CHR ''('', RStar (rnot (chs '')'')), rchar CHR '')'']) (rplus (rnot (chs ''=''))),
           RStar rspace, rstr ''=>'']], RStar rspace, rchar CHR ''('']),
    (''class_def'', RAlt (rseq [rstr ''class'', rplus rspace, rcls up, RStar (rcls (alnum @ chs ''_''))])
       (rseq [rstr ''struct'', rplus rspace, rcls up, RStar (rcls (alnum @ chs ''_''))])),
    (''sql_statement'', rseq [ralt
       [rseq [rstr_ci ''SELECT'', rplus rspace, rplus (rnot [(10, 10)]), rplus rspace, rstr_ci ''FROM''],
        rseq [rstr_ci ''INSERT'', rplus rspace, rstr_ci ''INTO''],
        rseq [rstr_ci ''UPDATE'', rplus rspace, rplus rword, rplus rspace, rstr_ci ''SET''],
        rseq [rstr_ci ''DELETE'', rplus rspace, rstr_ci ''FROM''],
        rseq [rstr_ci ''CREATE'', rplus rspace, rstr_ci ''TABLE'']], rplus rspace, rplus rword]),
    (''shebang'', rseq [RLineBegin, rstr ''#!'',
       ralt [RSeq (rstr ''/usr/bin/env'') (rplus rspace), rstr ''/usr/bin/'', rstr ''/bin/''],
       ralt (map rstr [''python'', ''node'', ''bash'', ''sh'', ''ruby'', ''perl'']), RWordB])]"

definition compile_patterns :: "(string \<times> regex) list \<Rightarrow> pattern list" where
  "compile_patterns rs = map (\<lambda>(n, r). \<lparr>pt_name = n, pt_find = FindIndex r\<rparr>) rs"

definition newDefaultScanner :: scanner where
  "newDefaultScanner = \<lparr>sc_piiPatterns = compile_patterns pii_regexes,
     sc_credentialPatterns = compile_patterns credential_regexes,
     sc_codePatterns = compile_patterns code_regexes\<rparr>"

definition RedactionPatterns :: "(string \<times> (string \<Rightarrow> (nat \<times> nat) option) \<times> string) list" where
  "RedactionPatterns =
    map (\<lambda>p. (pt_name p, pt_find p, ''pii'')) (sc_piiPatterns newDefaultScanner) @
    map (\<lambda>p. (pt_name p, pt_find p, ''credential'')) (sc_credentialPatterns newDefaultScanner)"

section \<open>Text extraction\<close>

definition suppressedPathTokens :: "string list" where
  "suppressedPathTokens = [''/telemetry'', ''/analytics'', ''/events'', ''/event'', ''/track'',
     ''/collect'', ''/metrics'']"

definition ShouldSuppressPath :: "string \<Rightarrow> bool" where
  "ShouldSuppressPath path =
    (let p = to_lower (trim_space path) in p \<noteq> [] \<and> list_ex (contains p) suppressedPathTokens)"

definition normalizeContentType :: "decoders \<Rightarrow> string \<Rightarrow> string" where
  "normalizeContentType dc contentType =
    (let ct = trim_space (to_lower contentType);
         fallback = (case index_of (CHR '';'') ct of
                       Some i \<Rightarrow> if 0 < i then trim_space (take i ct) else ct
                     | None \<Rightarrow> ct) in
     if ct = [] then ''text/plain''
     else (case dc_mime dc ct of
             Some (media, _) \<Rightarrow> if media \<noteq> [] then media else fallback
           | None \<Rightarrow> fallback))"

definition non_printable :: "char \<Rightarrow> bool" where
  "non_printable c = (((of_char c :: nat) < 32 \<or> 126 < (of_char c :: nat)) \<and>
     (of_char c :: nat) \<noteq> 10 \<and> (of_char c :: nat) \<noteq> 13 \<and> (of_char c :: nat) \<noteq> 9)"

text \<open>
  The ratio test compares \<^verbatim>\<open>float64\<close> values with 0.30; for bodies below \<open>2\<^sup>5\<^sup>0\<close> bytes that is the
  exact comparison of the fractions.
\<close>

definition normalizeExtractedText :: "string \<Rightarrow> string" where
  "normalizeExtractedText body =
    (if body = [] then []
     else if CHR 0x00 \<in> set body then []
     else if 10 * length (filter non_printable body) > 3 * length body then []
     else take (64 * 1024) (trim_space body))"

fun dedupe_loop :: "string set \<Rightarrow> extractedField list \<Rightarrow> extractedField list" where
  "dedupe_loop seen [] = []"
| "dedupe_loop seen (f # fs) =
    (let name = trim_space (ef_name f); text = trim_space (ef_text f); key = name @ [CHR 0x00] @ text in
     if text = [] then dedupe_loop seen fs
     else if key \<in> seen then dedupe_loop seen fs
     else \<lparr>ef_name = name, ef_text = text\<rparr> # dedupe_loop (insert key seen) fs)"

definition dedupeFields :: "extractedField list \<Rightarrow> extractedField list" where
  "dedupeFields fs = dedupe_loop {} fs"

text \<open>A decoded JSON object lists each key once; the code visits the keys in sorted order.\<close>

fun collectJSONStrings :: "goval \<Rightarrow> string \<Rightarrow> extractedField list"
and collectJSONMap :: "(string \<times> goval) list \<Rightarrow> string \<Rightarrow> (string \<times> extractedField list) list"
and collectJSONList :: "goval list \<Rightarrow> string \<Rightarrow> nat \<Rightarrow> extractedField list" where
  "collectJSONStrings (VMap kvs) path =
     concat (map snd (sort_key fst (collectJSONMap kvs path)))"
| "collectJSONStrings (VList vs) path = collectJSONList vs path 0"
| "collectJSONStrings (VString t) path =
    (let txt = trim_space t in
     if txt = [] then []
     else [\<lparr>ef_name = (if path = [] then ''json'' else path), ef_text = txt\<rparr>])"
| "collectJSONStrings _ path = []"
| "collectJSONMap [] path = []"
| "collectJSONMap ((k, v) # kvs) path =
    (k, collectJSONStrings v (if path = [] then k else path @ ''.'' @ k)) # collectJSONMap kvs path"
| "collectJSONList [] path i = []"
| "collectJSONList (v # vs) path i =
    collectJSONStrings v (path @ ''['' @ nat_str i @ '']'') @ collectJSONList vs path (i + 1)"

definition parseJSONFields :: "decoders \<Rightarrow> string \<Rightarrow> string \<Rightarrow> extractedField list" where
  "parseJSONFields dc body prefix =
    (case dc_json dc body of
       None \<Rightarrow> []
     | Some v \<Rightarrow> dedupeFields (collectJSONStrings v prefix))"

definition parseFormFields :: "decoders \<Rightarrow> string \<Rightarrow> extractedField list" where
  "parseFormFields dc body =
    (case parse_query body of
       None \<Rightarrow> []
     | Some kvs \<Rightarrow>
        dedupeFields (concat (map (\<lambda>(k, vs).
          map (\<lambda>v. \<lparr>ef_name = ''form.'' @ k, ef_text = v\<rparr>) (filter (\<lambda>v. v \<noteq> []) (map trim_space vs)))
          (dc_order dc kvs))))"

definition pdf_regex :: regex where
  "pdf_regex = rseq [rchar CHR ''('', rbetween (rnot (chs '')'')) 1 512, rchar CHR '')'', RStar rspace,
     rchar CHR ''T'', rcls (chs ''Jj'')]"

definition extractPDFTextLayer :: "string \<Rightarrow> string" where
  "extractPDFTextLayer body =
    (if body = [] then []
     else
       let ms = find_all pdf_regex body 200 0 in
       if ms \<noteq> [] then
         let texts = map (\<lambda>(a, e). trim_space (takeWhile (\<lambda>c. c \<noteq> CHR '')'') (drop (a + 1) (take e body)))) ms;
             parts = map (\<lambda>t. replace_all (replace_all t [backslash, backslash, CHR ''(''] ''('')
                        [backslash, backslash, CHR '')''] '')'') (filter (\<lambda>t. t \<noteq> []) texts)
         in trim_space (join_with '' '' parts)
       else normalizeExtractedText body)"

definition supportedExtensions :: "string list" where
  "supportedExtensions = [''.txt'', ''.json'', ''.csv'', ''.md'', ''.markdown'', ''.go'', ''.py'', ''.js'',
     ''.jsx'', ''.ts'', ''.tsx'', ''.java'', ''.rb'', ''.rs'', ''.c'', ''.cc'', ''.cpp'', ''.h'', ''.hpp'',
     ''.cs'', ''.php'', ''.swift'', ''.kt'', ''.kts'', ''.sql'', ''.xml'', ''.yaml'', ''.yml'', ''.pdf'',
     ''.sh'', ''.bash'', ''.zsh'']"

definition isSupportedTextFile :: "decoders \<Rightarrow> string \<Rightarrow> string \<Rightarrow> bool" where
  "isSupportedTextFile dc filename contentType =
    (to_lower (filepath_ext filename) \<in> set supportedExtensions \<or>
     (let ct = normalizeContentType dc contentType in
      has_prefix ct ''text/'' \<or> ct \<in> set [''application/json'', ''text/json'', ''application/xml'',
        ''text/xml'', ''application/pdf'', ''application/yaml'', ''application/x-yaml'', ''text/yaml'']))"

text \<open>The fields of one multipart part, and whether it counts as a file.\<close>

definition part_fields :: "decoders \<Rightarrow> multipart_part \<Rightarrow> extractedField list \<times> nat" where
  "part_fields dc part =
    (let dat = take (128 * 1024) (mp_Data part);
         name = (let n = trim_space (mp_FormName part) in if n = [] then ''multipart'' else n);
         filename = trim_space (mp_FileName part);
         plain = (\<lambda>fname text. if text \<noteq> [] then [\<lparr>ef_name = fname, ef_text = text\<rparr>] else []) in
     if filename = [] then (plain (''multipart.'' @ name) (normalizeExtractedText dat), 0)
     else if \<not> isSupportedTextFile dc filename (mp_ContentType part) then ([], 1)
     else
       let prefix = ''file:'' @ filename;
           ext = to_lower (filepath_ext filename);
           ct = normalizeContentType dc (mp_ContentType part) in
       if ext = ''.json'' \<or> ct = ''application/json'' \<or> ct = ''text/json''
         then (parseJSONFields dc dat prefix, 1)
       else if ext = ''.pdf'' \<or> ct = ''application/pdf'' then (plain prefix (extractPDFTextLayer dat), 1)
       else (plain prefix (normalizeExtractedText dat), 1))"

definition parseMultipartFields :: "decoders \<Rightarrow> string \<Rightarrow> string \<Rightarrow> extractedField list \<times> nat" where
  "parseMultipartFields dc contentType body =
    (case dc_mime dc contentType of
       None \<Rightarrow> ([], 0)
     | Some (_, params) \<Rightarrow>
        (case map_of params ''boundary'' of
           None \<Rightarrow> ([], 0)
         | Some boundary \<Rightarrow>
            if boundary = [] then ([], 0)
            else (let rs = map (part_fields dc) (take 64 (dc_parts dc boundary body)) in
                  (dedupeFields (concat (map fst rs)), sum_list (map snd rs)))))"

definition extractFieldsForInspection :: "decoders \<Rightarrow> string \<Rightarrow> string \<Rightarrow> extractedField list \<times> nat" where
  "extractFieldsForInspection dc contentType body =
    (let ct = normalizeContentType dc contentType;
         plain = (\<lambda>text n. if text = [] then ([], n) else ([\<lparr>ef_name = ''body'', ef_text = text\<rparr>], n)) in
     if ct = ''application/json'' \<or> ct = ''text/json'' then (parseJSONFields dc body ''json'', 0)
     else if ct = ''application/x-www-form-urlencoded'' then (parseFormFields dc body, 0)
     else if ct = ''multipart/form-data'' then parseMultipartFields dc contentType body
     else if ct = ''application/pdf'' then plain (extractPDFTextLayer body) 1
     else plain (normalizeExtractedText body) 0)"

definition sample_line :: "extractedField \<Rightarrow> string" where
  "sample_line f = (if ef_name f \<noteq> [] then ef_name f @ '': '' else []) @ take 1200 (trim_space (ef_text f))"

definition buildBodySample :: "extractedField list \<Rightarrow> string \<Rightarrow> string" where
  "buildBodySample fds fallback =
    (if fds = [] then normalizeExtractedText fallback
     else take (16 * 1024) (foldl (\<lambda>sb f. (if sb = [] then [] else sb @ [CHR 0x0A]) @ sample_line f)
            [] (take 3 fds)))"

section \<open>Scanning a field\<close>

definition safeExcerpt :: "string \<Rightarrow> nat \<times> nat \<Rightarrow> string" where
  "safeExcerpt body loc =
    (let s = fst loc; e = snd loc in
     if e - s > 8 then take 3 (drop s body) @ ''***'' @ take 3 (drop (e - 3) body) else ''***'')"

definition add_match :: "dlp_match_type \<Rightarrow> string \<Rightarrow> string \<Rightarrow> string \<Rightarrow> dlp_info \<Rightarrow> dlp_info" where
  "add_match ty name excerpt field info =
     info\<lparr>di_Matches := di_Matches info @ [\<lparr>dm_Type = ty, dm_Pattern = name, dm_Excerpt = excerpt\<rparr>],
          di_MatchedFields := di_MatchedFields info @ [field]\<rparr>"

text \<open>Each loop also reports whether it made the function return.\<close>

fun scan_pii :: "pattern list \<Rightarrow> string \<Rightarrow> string \<Rightarrow> dlp_info \<Rightarrow> dlp_info \<times> bool" where
  "scan_pii [] field body info = (info, False)"
| "scan_pii (p # ps) field body info =
    (case pt_find p body of
       None \<Rightarrow> scan_pii ps field body info
     | Some loc \<Rightarrow>
        (let info' = (add_match DLPMatchPII (pt_name p) (safeExcerpt body loc) field info)
                       \<lparr>di_ContainsPII := True\<rparr> in
         if maxMatches \<le> length (di_Matches info') then (info', True)
         else scan_pii ps field body info'))"

fun scan_credentials :: "pattern list \<Rightarrow> string \<Rightarrow> string \<Rightarrow> dlp_info \<Rightarrow> dlp_info \<times> bool" where
  "scan_credentials [] field body info = (info, False)"
| "scan_credentials (p # ps) field body info =
    (case pt_find p body of
       None \<Rightarrow> scan_credentials ps field body info
     | Some loc \<Rightarrow>
        (let info' = (add_match DLPMatchCredentials (pt_name p) ''[REDACTED]'' field info)
                       \<lparr>di_ContainsCredentials := True\<rparr> in
         if maxMatches \<le> length (di_Matches info') then (info', True)
         else scan_credentials ps field body info'))"

definition code_hits :: "pattern list \<Rightarrow> string \<Rightarrow> nat" where
  "code_hits ps body = length (filter (\<lambda>p. pt_find p body \<noteq> None) ps)"

definition scan_code :: "pattern list \<Rightarrow> string \<Rightarrow> string \<Rightarrow> dlp_info \<Rightarrow> dlp_info" where
  "scan_code ps field body info =
    (if code_hits ps body \<ge> 2 then
       (let info' = (if \<not> di_ContainsSourceCode info then
              info\<lparr>di_ContainsSourceCode := True, di_Matches := di_Matches info @
                 [\<lparr>dm_Type = DLPMatchSourceCode, dm_Pattern = ''source_code_heuristic'', dm_Excerpt = []\<rparr>]\<rparr>
              else info) in
        info'\<lparr>di_MatchedFields := di_MatchedFields info' @ [field]\<rparr>)
     else info)"

fun scan_keywords :: "string list \<Rightarrow> string \<Rightarrow> string \<Rightarrow> dlp_info \<Rightarrow> dlp_info" where
  "scan_keywords [] field body info = info"
| "scan_keywords (kw0 # kws) field body info =
    (let kw = trim_space kw0 in
     if kw \<noteq> [] \<and> contains (to_lower body) (to_lower kw) then
       (let info' = add_match DLPMatchKeyword (''keyword:'' @ kw) [] field info in
        if maxMatches \<le> length (di_Matches info') then info' else scan_keywords kws field body info')
     else scan_keywords kws field body info)"

definition scanField :: "scanner \<Rightarrow> string list \<Rightarrow> extractedField \<Rightarrow> dlp_info \<Rightarrow> dlp_info" where
  "scanField s kws f info =
    (if ef_text f = [] \<or> maxMatches \<le> length (di_Matches info) then info
     else (case scan_pii (sc_piiPatterns s) (ef_name f) (ef_text f) info of
             (i1, True) \<Rightarrow> i1
           | (i1, False) \<Rightarrow>
              (case scan_credentials (sc_credentialPatterns s) (ef_name f) (ef_text f) i1 of
                 (i2, True) \<Rightarrow> i2
               | (i2, False) \<Rightarrow>
                  scan_keywords kws (ef_name f) (ef_text f)
                    (scan_code (sc_codePatterns s) (ef_name f) (ef_text f) i2))))"

fun scan_fields :: "scanner \<Rightarrow> string list \<Rightarrow> extractedField list \<Rightarrow> dlp_info \<Rightarrow> dlp_info" where
  "scan_fields s kws [] info = info"
| "scan_fields s kws (f # fs) info =
    (let info' = scanField s kws f info in
     if maxMatches \<le> length (di_Matches info') then info' else scan_fields s kws fs info')"

section \<open>Classification\<close>

definition finalizeClassification :: "dlp_info \<Rightarrow> dlp_info" where
  "finalizeClassification info =
    (if di_Matches info = [] then
       info\<lparr>di_Severity := ''low'', di_ClassificationReason := ''no_match'', di_MatchedFields := []\<rparr>
     else
       let hasKeyword = list_ex (\<lambda>m. dm_Type m = DLPMatchKeyword) (di_Matches info);
           (sev, reason) =
             (if di_ContainsCredentials info then (''critical'', ''credentials_or_secrets_detected'')
              else if di_ContainsPII info \<and> di_ContainsSourceCode info
                then (''medium'', ''pii_and_source_code_detected'')
              else if di_ContainsPII info then (''medium'', ''pii_detected'')
              else if di_ContainsSourceCode info then (''medium'', ''source_code_detected'')
              else if hasKeyword then (''low'', ''keyword_policy_match'')
              else (''low'', ''dlp_match''));
           fds = sorted_keys (filter (\<lambda>f. f \<noteq> []) (map trim_space (di_MatchedFields info)))
       in info\<lparr>di_Severity := sev,
            di_ClassificationReason := reason @ '':'' @ dm_Pattern (hd (di_Matches info)),
            di_MatchedFields := fds\<rparr>)"

definition inspected_fields :: "decoders \<Rightarrow> string \<Rightarrow> string \<Rightarrow> extractedField list \<times> nat" where
  "inspected_fields dc contentType body =
    (let (fds, n) = extractFieldsForInspection dc contentType body in
     if fds = [] then
       (let text = normalizeExtractedText body in
        (if text \<noteq> [] then [\<lparr>ef_name = ''body'', ef_text = text\<rparr>] else [], n))
     else (fds, n))"

definition ScanRequest :: "decoders \<Rightarrow> scanner \<Rightarrow> string \<Rightarrow> string \<Rightarrow> string list \<Rightarrow> dlp_info" where
  "ScanRequest dc s contentType body0 kws =
    (let info = empty_dlp_info\<lparr>di_Scanned := True, di_Severity := ''low'',
                  di_ContentType := normalizeContentType dc contentType\<rparr> in
     if body0 = [] then info\<lparr>di_ClassificationReason := ''no_match''\<rparr>
     else
       let body = take MaxBodySize body0;
           (fds, n) = inspected_fields dc contentType body;
           info1 = scan_fields s kws fds (info\<lparr>di_FileCount := n\<rparr>)
       in finalizeClassification (info1\<lparr>di_BodySample := buildBodySample fds body\<rparr>))"

definition Scan :: "decoders \<Rightarrow> scanner \<Rightarrow> string \<Rightarrow> string list \<Rightarrow> dlp_info" where
  "Scan dc s body kws = ScanRequest dc s [] body kws"

section \<open>Reference semantics\<close>

text \<open>
  What the scanner should report for a field, with no loop, no order and no budget: one match per
  pattern that occurs in the text, one source-code match when two code patterns occur, one match
  per keyword that occurs.
\<close>

definition pii_evidence :: "pattern list \<Rightarrow> string \<Rightarrow> dlp_match set" where
  "pii_evidence ps text = {\<lparr>dm_Type = DLPMatchPII, dm_Pattern = pt_name p, dm_Excerpt = safeExcerpt text loc\<rparr> |
     p loc. p \<in> set ps \<and> pt_find p text = Some loc}"

definition credential_evidence :: "pattern list \<Rightarrow> string \<Rightarrow> dlp_match set" where
  "credential_evidence ps text = {\<lparr>dm_Type = DLPMatchCredentials, dm_Pattern = pt_name p, dm_Excerpt = ''[REDACTED]''\<rparr> |
     p. p \<in> set ps \<and> pt_find p text \<noteq> None}"

definition source_match :: dlp_match where
  "source_match = \<lparr>dm_Type = DLPMatchSourceCode, dm_Pattern = ''source_code_heuristic'', dm_Excerpt = []\<rparr>"

definition code_evidence :: "pattern list \<Rightarrow> string \<Rightarrow> dlp_match set" where
  "code_evidence ps text = (if 2 \<le> code_hits ps text then {source_match} else {})"

definition keyword_evidence :: "string list \<Rightarrow> string \<Rightarrow> dlp_match set" where
  "keyword_evidence kws text = {\<lparr>dm_Type = DLPMatchKeyword, dm_Pattern = ''keyword:'' @ trim_space kw, dm_Excerpt = []\<rparr> |
     kw. kw \<in> set kws \<and> trim_space kw \<noteq> [] \<and> contains (to_lower text) (to_lower (trim_space kw))}"

definition field_evidence :: "scanner \<Rightarrow> string list \<Rightarrow> extractedField \<Rightarrow> dlp_match set" where
  "field_evidence s kws f =
    (if ef_text f = [] then {}
     else pii_evidence (sc_piiPatterns s) (ef_text f) \<union> credential_evidence (sc_credentialPatterns s) (ef_text f)
        \<union> code_evidence (sc_codePatterns s) (ef_text f) \<union> keyword_evidence kws (ef_text f))"

definition has_type :: "dlp_match_type \<Rightarrow> dlp_info \<Rightarrow> bool" where
  "has_type ty i = (\<exists>m\<in>set (di_Matches i). dm_Type m = ty)"

definition flags_ok :: "dlp_info \<Rightarrow> bool" where
  "flags_ok i = ((di_ContainsPII i \<longleftrightarrow> has_type DLPMatchPII i) \<and>
     (di_ContainsCredentials i \<longleftrightarrow> has_type DLPMatchCredentials i) \<and>
     (di_ContainsSourceCode i \<longleftrightarrow> has_type DLPMatchSourceCode i) \<and>
     (di_ContainsSourceCode i \<longrightarrow> source_match \<in> set (di_Matches i)))"

section \<open>Lemmas: one field\<close>

lemma evidence_Nil [simp]:
  "pii_evidence [] t = {}" "credential_evidence [] t = {}" "keyword_evidence [] t = {}"
  by (simp_all add: pii_evidence_def credential_evidence_def keyword_evidence_def)

lemma pii_evidence_Cons: "pii_evidence (p # ps) t = (case pt_find p t of None \<Rightarrow> {} | Some loc \<Rightarrow>
    {\<lparr>dm_Type = DLPMatchPII, dm_Pattern = pt_name p, dm_Excerpt = safeExcerpt t loc\<rparr>}) \<union> pii_evidence ps t"
  by (auto simp: pii_evidence_def split: option.splits)

lemma credential_evidence_Cons: "credential_evidence (p # ps) t = (case pt_find p t of None \<Rightarrow> {} | Some loc \<Rightarrow>
    {\<lparr>dm_Type = DLPMatchCredentials, dm_Pattern = pt_name p, dm_Excerpt = ''[REDACTED]''\<rparr>}) \<union> credential_evidence ps t"
  by (auto simp: credential_evidence_def split: option.splits)

lemma keyword_evidence_Cons: "keyword_evidence (kw # kws) t =
    (if trim_space kw \<noteq> [] \<and> contains (to_lower t) (to_lower (trim_space kw))
     then {\<lparr>dm_Type = DLPMatchKeyword, dm_Pattern = ''keyword:'' @ trim_space kw, dm_Excerpt = []\<rparr>} else {})
    \<union> keyword_evidence kws t"
  by (auto simp: keyword_evidence_def)

lemma add_match_sels [simp]:
  "di_Matches (add_match ty n e f i) = di_Matches i @ [\<lparr>dm_Type = ty, dm_Pattern = n, dm_Excerpt = e\<rparr>]"
  "di_ContainsPII (add_match ty n e f i) = di_ContainsPII i"
  "di_ContainsCredentials (add_match ty n e f i) = di_ContainsCredentials i"
  "di_ContainsSourceCode (add_match ty n e f i) = di_ContainsSourceCode i"
  by (simp_all add: add_match_def)

text \<open>
  The outcome of a loop that adds evidence \<open>E\<close>: nothing else is added, everything is added unless
  the loop stopped at the budget, and it stops as soon as the budget is reached.
\<close>

definition adds :: "dlp_match set \<Rightarrow> dlp_info \<Rightarrow> dlp_info \<times> bool \<Rightarrow> bool" where
  "adds E i r = (set (di_Matches i) \<subseteq> set (di_Matches (fst r)) \<and>
     set (di_Matches (fst r)) \<subseteq> set (di_Matches i) \<union> E \<and>
     (snd r \<longrightarrow> length (di_Matches (fst r)) = maxMatches) \<and>
     (\<not> snd r \<longrightarrow> E \<subseteq> set (di_Matches (fst r)) \<and> length (di_Matches (fst r)) < maxMatches) \<and>
     (flags_ok i \<longrightarrow> flags_ok (fst r)))"

lemma scan_pii_adds:
  "length (di_Matches i) < maxMatches \<Longrightarrow> adds (pii_evidence ps t) i (scan_pii ps f t i)"
proof (induction ps arbitrary: i)
  case (Cons p ps)
  show ?case
  proof (cases "pt_find p t")
    case (Some loc)
    define i' where "i' = (add_match DLPMatchPII (pt_name p) (safeExcerpt t loc) f i)\<lparr>di_ContainsPII := True\<rparr>"
    have m: "di_Matches i' = di_Matches i @ [\<lparr>dm_Type = DLPMatchPII, dm_Pattern = pt_name p, dm_Excerpt = safeExcerpt t loc\<rparr>]"
      and fl: "flags_ok i \<longrightarrow> flags_ok i'"
      by (auto simp: i'_def flags_ok_def has_type_def source_match_def)
    show ?thesis
    proof (cases "maxMatches \<le> length (di_Matches i')")
      case True
      with Cons.prems m fl Some show ?thesis
        by (auto simp: adds_def pii_evidence_Cons Let_def i'_def[symmetric])
    next
      case False
      with Cons.IH[of i'] m fl Some show ?thesis
        by (auto simp: adds_def pii_evidence_Cons Let_def i'_def[symmetric])
    qed
  qed (use Cons in \<open>simp add: pii_evidence_Cons\<close>)
qed (simp add: adds_def)

lemma scan_credentials_adds:
  "length (di_Matches i) < maxMatches \<Longrightarrow> adds (credential_evidence ps t) i (scan_credentials ps f t i)"
proof (induction ps arbitrary: i)
  case (Cons p ps)
  show ?case
  proof (cases "pt_find p t")
    case (Some loc)
    define i' where "i' = (add_match DLPMatchCredentials (pt_name p) ''[REDACTED]'' f i)\<lparr>di_ContainsCredentials := True\<rparr>"
    have m: "di_Matches i' = di_Matches i @ [\<lparr>dm_Type = DLPMatchCredentials, dm_Pattern = pt_name p, dm_Excerpt = ''[REDACTED]''\<rparr>]"
      and fl: "flags_ok i \<longrightarrow> flags_ok i'"
      by (auto simp: i'_def flags_ok_def has_type_def source_match_def)
    show ?thesis
    proof (cases "maxMatches \<le> length (di_Matches i')")
      case True
      with Cons.prems m fl Some show ?thesis
        by (auto simp: adds_def credential_evidence_Cons Let_def i'_def[symmetric])
    next
      case False
      with Cons.IH[of i'] m fl Some show ?thesis
        by (auto simp: adds_def credential_evidence_Cons Let_def i'_def[symmetric])
    qed
  qed (use Cons in \<open>simp add: credential_evidence_Cons\<close>)
qed (simp add: adds_def)

lemma scan_code_spec:
  assumes "flags_ok i"
  shows "set (di_Matches (scan_code ps f t i)) = set (di_Matches i) \<union> code_evidence ps t"
    "flags_ok (scan_code ps f t i)"
    "length (di_Matches (scan_code ps f t i)) \<le> length (di_Matches i) + 1"
proof -
  have src: "source_match = \<lparr>dm_Type = DLPMatchSourceCode, dm_Pattern = ''source_code_heuristic'', dm_Excerpt = []\<rparr>"
    by (simp add: source_match_def)
  show "set (di_Matches (scan_code ps f t i)) = set (di_Matches i) \<union> code_evidence ps t"
    using assms by (auto simp: scan_code_def code_evidence_def Let_def flags_ok_def src)
  show "flags_ok (scan_code ps f t i)"
    using assms by (auto simp: scan_code_def Let_def flags_ok_def has_type_def src)
  show "length (di_Matches (scan_code ps f t i)) \<le> length (di_Matches i) + 1"
    by (simp add: scan_code_def Let_def)
qed

lemma scan_keywords_spec:
  "set (di_Matches i) \<subseteq> set (di_Matches (scan_keywords kws f t i)) \<and>
   set (di_Matches (scan_keywords kws f t i)) \<subseteq> set (di_Matches i) \<union> keyword_evidence kws t \<and>
   (length (di_Matches (scan_keywords kws f t i)) < maxMatches \<longrightarrow>
      keyword_evidence kws t \<subseteq> set (di_Matches (scan_keywords kws f t i))) \<and>
   length (di_Matches i) \<le> length (di_Matches (scan_keywords kws f t i)) \<and>
   length (di_Matches (scan_keywords kws f t i)) \<le> max maxMatches (length (di_Matches i) + 1) \<and>
   (flags_ok i \<longrightarrow> flags_ok (scan_keywords kws f t i))"
proof (induction kws arbitrary: i)
  case (Cons kw kws)
  let ?kw = "trim_space kw"
  show ?case
  proof (cases "?kw \<noteq> [] \<and> contains (to_lower t) (to_lower ?kw)")
    case hit: True
    define i' where "i' = add_match DLPMatchKeyword (''keyword:'' @ ?kw) [] f i"
    have m: "di_Matches i' = di_Matches i @ [\<lparr>dm_Type = DLPMatchKeyword, dm_Pattern = ''keyword:'' @ ?kw, dm_Excerpt = []\<rparr>]"
      and fl: "flags_ok i \<longrightarrow> flags_ok i'"
      by (auto simp: i'_def flags_ok_def has_type_def source_match_def)
    have eq: "scan_keywords (kw # kws) f t i =
        (if maxMatches \<le> length (di_Matches i') then i' else scan_keywords kws f t i')"
      using hit by (simp add: Let_def i'_def)
    have ev: "keyword_evidence (kw # kws) t = insert (last (di_Matches i')) (keyword_evidence kws t)"
      using hit by (simp add: keyword_evidence_Cons m)
    show ?thesis
    proof (cases "maxMatches \<le> length (di_Matches i')")
      case True
      with m fl show ?thesis unfolding eq ev by auto
    next
      case False
      with Cons.IH[of i'] m fl show ?thesis unfolding eq ev by auto
    qed
  next
    case False
    then have "scan_keywords (kw # kws) f t i = scan_keywords kws f t i"
      "keyword_evidence (kw # kws) t = keyword_evidence kws t"
      by (auto simp: Let_def keyword_evidence_Cons)
    then show ?thesis using Cons.IH[of i] by simp
  qed
qed simp

lemma scan_keywords_Nil [simp]: "scan_keywords [] f t i = i" by simp

lemma scanField_spec:
  fixes s :: scanner and kws :: "string list" and f :: extractedField and i :: dlp_info
  assumes "flags_ok i" and "length (di_Matches i) < maxMatches"
  defines "i' \<equiv> scanField s kws f i"
  shows "set (di_Matches i) \<subseteq> set (di_Matches i') \<and>
     set (di_Matches i') \<subseteq> set (di_Matches i) \<union> field_evidence s kws f \<and>
     (length (di_Matches i') < maxMatches \<longrightarrow> field_evidence s kws f \<subseteq> set (di_Matches i')) \<and>
     flags_ok i' \<and> length (di_Matches i') \<le> maxMatches + 1 \<and>
     (kws = [] \<longrightarrow> length (di_Matches i') \<le> maxMatches)"
proof (cases "ef_text f = []")
  case True
  then show ?thesis using assms by (simp add: scanField_def field_evidence_def)
next
  case False
  let ?t = "ef_text f" and ?n = "ef_name f"
  note E = field_evidence_def
  obtain i1 r1 where p: "scan_pii (sc_piiPatterns s) ?n ?t i = (i1, r1)" by fastforce
  have a1: "adds (pii_evidence (sc_piiPatterns s) ?t) i (i1, r1)"
    using scan_pii_adds[OF assms(2), of "sc_piiPatterns s" ?t ?n] p by simp
  show ?thesis
  proof (cases r1)
    case True
    then have "i' = i1" using assms(2) False p by (simp add: i'_def scanField_def)
    with a1 True assms(1) False show ?thesis by (auto simp: adds_def E)
  next
    case no1: False
    with a1 have l1: "length (di_Matches i1) < maxMatches" by (simp add: adds_def)
    obtain i2 r2 where c: "scan_credentials (sc_credentialPatterns s) ?n ?t i1 = (i2, r2)" by fastforce
    have a2: "adds (credential_evidence (sc_credentialPatterns s) ?t) i1 (i2, r2)"
      using scan_credentials_adds[OF l1, of "sc_credentialPatterns s" ?t ?n] c by simp
    show ?thesis
    proof (cases r2)
      case True
      then have "i' = i2" using assms(2) False p c no1 by (simp add: i'_def scanField_def)
      with a1 a2 True no1 assms(1) False show ?thesis by (auto simp: adds_def E)
    next
      case no2: False
      define i3 where "i3 = scan_code (sc_codePatterns s) ?n ?t i2"
      have i': "i' = scan_keywords kws ?n ?t i3"
        using assms(2) False p c no1 no2 by (simp add: i'_def scanField_def i3_def)
      have f2: "flags_ok i2" "length (di_Matches i2) < maxMatches"
        using a1 a2 no2 assms(1) by (auto simp: adds_def)
      note s3 = scan_code_spec[OF f2(1), of "sc_codePatterns s" ?n ?t, folded i3_def]
      note s4 = scan_keywords_spec[of i3 kws ?n ?t, folded i']
      have len: "length (di_Matches i3) \<le> maxMatches" using s3(3) f2(2) by simp
      show ?thesis
        using a1 a2 s3 s4 no1 no2 False len i' by (auto simp: adds_def E)
    qed
  qed
qed

lemma scan_fields_spec:
  assumes "flags_ok i" and "length (di_Matches i) < maxMatches"
  shows "set (di_Matches i) \<subseteq> set (di_Matches (scan_fields s kws fs i)) \<and>
     set (di_Matches (scan_fields s kws fs i)) \<subseteq> set (di_Matches i) \<union> (\<Union>f\<in>set fs. field_evidence s kws f) \<and>
     (length (di_Matches (scan_fields s kws fs i)) < maxMatches \<longrightarrow>
        (\<Union>f\<in>set fs. field_evidence s kws f) \<subseteq> set (di_Matches (scan_fields s kws fs i))) \<and>
     flags_ok (scan_fields s kws fs i) \<and> length (di_Matches (scan_fields s kws fs i)) \<le> maxMatches + 1 \<and>
     (kws = [] \<longrightarrow> length (di_Matches (scan_fields s kws fs i)) \<le> maxMatches)"
  using assms
proof (induction fs arbitrary: i)
  case (Cons f fs)
  define i' where "i' = scanField s kws f i"
  note sp = scanField_spec[OF Cons.prems, of s kws f, folded i'_def]
  show ?case
  proof (cases "maxMatches \<le> length (di_Matches i')")
    case True
    then have "scan_fields s kws (f # fs) i = i'" by (simp add: Let_def i'_def)
    then show ?thesis using sp True by auto
  next
    case False
    then have eq: "scan_fields s kws (f # fs) i = scan_fields s kws fs i'" by (simp add: Let_def i'_def)
    have "flags_ok i'" "length (di_Matches i') < maxMatches" using sp False by auto
    note ih = Cons.IH[OF this]
    then show ?thesis using sp False unfolding eq by auto
  qed
qed simp

lemma finalize_sels [simp]:
  "di_Matches (finalizeClassification i) = di_Matches i"
  "di_ContainsPII (finalizeClassification i) = di_ContainsPII i"
  "di_ContainsCredentials (finalizeClassification i) = di_ContainsCredentials i"
  "di_ContainsSourceCode (finalizeClassification i) = di_ContainsSourceCode i"
  "di_BodySample (finalizeClassification i) = di_BodySample i"
  by (simp_all add: finalizeClassification_def Let_def)

lemma ScanRequest_unfold:
  assumes "body \<noteq> []"
  obtains i n where "flags_ok i" "di_Matches i = []" "di_MatchedFields i = []"
    "ScanRequest dc s ct body kws = finalizeClassification
       ((scan_fields s kws (fst (inspected_fields dc ct (take MaxBodySize body))) i)\<lparr>di_BodySample :=
          buildBodySample (fst (inspected_fields dc ct (take MaxBodySize body))) (take MaxBodySize body)\<rparr>)"
proof -
  obtain fds n where f: "inspected_fields dc ct (take MaxBodySize body) = (fds, n)" by fastforce
  let ?i = "empty_dlp_info\<lparr>di_Scanned := True, di_Severity := ''low'',
       di_ContentType := normalizeContentType dc ct, di_FileCount := n\<rparr>"
  have "flags_ok ?i" "di_Matches ?i = []" "di_MatchedFields ?i = []"
    by (simp_all add: flags_ok_def has_type_def empty_dlp_info_def)
  then show ?thesis
    using that[of ?i] assms f by (simp add: ScanRequest_def Let_def)
qed

lemma ScanRequest_spec:
  fixes dc :: decoders and ct body :: string
  assumes "body \<noteq> []"
  defines "F \<equiv> fst (inspected_fields dc ct (take MaxBodySize body))"
  shows "set (di_Matches (ScanRequest dc s ct body kws)) \<subseteq> (\<Union>f\<in>set F. field_evidence s kws f)"
    "length (di_Matches (ScanRequest dc s ct body kws)) < maxMatches \<Longrightarrow>
       set (di_Matches (ScanRequest dc s ct body kws)) = (\<Union>f\<in>set F. field_evidence s kws f)"
    "flags_ok (ScanRequest dc s ct body kws)"
    "length (di_Matches (ScanRequest dc s ct body kws)) \<le> maxMatches + 1"
    "kws = [] \<Longrightarrow> length (di_Matches (ScanRequest dc s ct body kws)) \<le> maxMatches"
proof -
  obtain i where i: "flags_ok i" "di_Matches i = []"
    and r: "ScanRequest dc s ct body kws = finalizeClassification
       ((scan_fields s kws F i)\<lparr>di_BodySample := buildBodySample F (take MaxBodySize body)\<rparr>)"
    using ScanRequest_unfold[OF assms(1), of dc s ct kws] unfolding F_def by metis
  have m: "di_Matches (ScanRequest dc s ct body kws) = di_Matches (scan_fields s kws F i)" by (simp add: r)
  have "length (di_Matches i) < maxMatches" using i(2) by (simp add: maxMatches_def)
  note sp = scan_fields_spec[OF i(1) this, of s kws F]
  show "set (di_Matches (ScanRequest dc s ct body kws)) \<subseteq> (\<Union>f\<in>set F. field_evidence s kws f)"
    using sp i(2) unfolding m by auto
  show "set (di_Matches (ScanRequest dc s ct body kws)) = (\<Union>f\<in>set F. field_evidence s kws f)"
    if "length (di_Matches (ScanRequest dc s ct body kws)) < maxMatches"
    using sp i(2) that unfolding m by auto
  show "flags_ok (ScanRequest dc s ct body kws)"
    using sp by (simp add: r flags_ok_def has_type_def)
  show "length (di_Matches (ScanRequest dc s ct body kws)) \<le> maxMatches + 1"
    "kws = [] \<Longrightarrow> length (di_Matches (ScanRequest dc s ct body kws)) \<le> maxMatches"
    using sp unfolding m by auto
qed

lemma field_evidence_types:
  assumes "m \<in> field_evidence s kws f"
  shows "dm_Type m = DLPMatchCredentials \<longrightarrow> dm_Excerpt m = ''[REDACTED]''"
    "dm_Type m \<in> {DLPMatchSourceCode, DLPMatchKeyword} \<longrightarrow> dm_Excerpt m = []"
    "dm_Type m = DLPMatchPII \<longrightarrow> (\<exists>p\<in>set (sc_piiPatterns s). \<exists>loc. pt_find p (ef_text f) = Some loc \<and>
       dm_Excerpt m = safeExcerpt (ef_text f) loc)"
proof -
  note defs = field_evidence_def pii_evidence_def credential_evidence_def code_evidence_def
    keyword_evidence_def source_match_def
  show "dm_Type m = DLPMatchCredentials \<longrightarrow> dm_Excerpt m = ''[REDACTED]''"
    using assms by (auto simp: defs split: if_splits)
  show "dm_Type m \<in> {DLPMatchSourceCode, DLPMatchKeyword} \<longrightarrow> dm_Excerpt m = []"
    using assms by (auto simp: defs split: if_splits)
  show "dm_Type m = DLPMatchPII \<longrightarrow> (\<exists>p\<in>set (sc_piiPatterns s). \<exists>loc. pt_find p (ef_text f) = Some loc \<and>
       dm_Excerpt m = safeExcerpt (ef_text f) loc)"
    using assms by (fastforce simp: defs split: if_splits)
qed

lemma safeExcerpt_hides:
  assumes "a \<le> b" and "b \<le> length body"
  shows "safeExcerpt body (a, b) = ''***'' \<or>
    8 < b - a \<and> safeExcerpt body (a, b) = take 3 (take (b - a) (drop a body)) @ ''***'' @
      drop (b - a - 3) (take (b - a) (drop a body))"
proof (cases "8 < b - a")
  case True
  have "take 3 (drop (b - 3) body) = drop (b - a - 3) (take (b - a) (drop a body))"
    using True assms by (simp add: drop_take)
  with True show ?thesis by (simp add: safeExcerpt_def min_def)
qed (simp add: safeExcerpt_def)

lemma length_normalizeExtractedText: "length (normalizeExtractedText b) \<le> 65536"
  by (simp add: normalizeExtractedText_def)

lemma default_patterns_found:
  "p \<in> set (compile_patterns rs) \<Longrightarrow> pattern_finder (pt_find p)"
  by (auto simp: compile_patterns_def re2.pattern_finder_axioms)

section \<open>Properties\<close>

text \<open>
  C16. The scanner reports exactly what occurs. Every reported match is evidence found in some
  extracted field of the first 256 KiB of the body, and as long as the report stays below twenty
  matches it lists all of the evidence of all fields: no pattern or keyword that occurs is
  missed. The three flags say exactly which kinds of match the report lists.
\<close>

theorem dlp_scan_exact:
  assumes "body \<noteq> []"
  shows "let r = ScanRequest dc s ct body kws;
             E = (\<Union>f\<in>set (fst (inspected_fields dc ct (take MaxBodySize body))). field_evidence s kws f) in
    set (di_Matches r) \<subseteq> E \<and>
    (length (di_Matches r) < maxMatches \<longrightarrow> set (di_Matches r) = E) \<and>
    (di_ContainsPII r \<longleftrightarrow> (\<exists>m\<in>set (di_Matches r). dm_Type m = DLPMatchPII)) \<and>
    (di_ContainsCredentials r \<longleftrightarrow> (\<exists>m\<in>set (di_Matches r). dm_Type m = DLPMatchCredentials)) \<and>
    (di_ContainsSourceCode r \<longleftrightarrow> (\<exists>m\<in>set (di_Matches r). dm_Type m = DLPMatchSourceCode))"
  using ScanRequest_spec[OF assms, where dc = dc and s = s and ct = ct and kws = kws] by (simp add: Let_def flags_ok_def has_type_def)

definition plain_decoders :: decoders where
  "plain_decoders = \<lparr>dc_json = (\<lambda>_. None), dc_mime = (\<lambda>_. None), dc_parts = (\<lambda>_ _. []), dc_order = (\<lambda>x. x)\<rparr>"

definition ssn_scanner :: scanner where
  "ssn_scanner = \<lparr>sc_piiPatterns = compile_patterns (take 1 pii_regexes),
     sc_credentialPatterns = compile_patterns [(''github_token'', rseq [RWordB, rstr ''ghp_'', ratleast (rcls alnum) 4, RWordB])],
     sc_codePatterns = []\<rparr>"

theorem dlp_scan_exact_witness:
  "di_ContainsPII (ScanRequest plain_decoders ssn_scanner [] ''a 123-45-6789 b'' [])"
proof -
  have "list_ex (\<lambda>m. dm_Type m = DLPMatchPII)
      (di_Matches (ScanRequest plain_decoders ssn_scanner [] ''a 123-45-6789 b'' []))" by code_simp
  then show ?thesis
    using dlp_scan_exact[of "''a 123-45-6789 b''" plain_decoders ssn_scanner "[]" "[]"]
    by (simp add: Let_def list_ex_iff)
qed

text \<open>
  What a report reveals of a secret: a credential match never carries any of its text, source
  and keyword matches carry none either, and a PII match shows nothing or the first and last three
  bytes of a matched text longer than eight bytes.
\<close>

theorem dlp_excerpts_redacted:
  assumes "body \<noteq> []" and "\<forall>p\<in>set (sc_piiPatterns s). pattern_finder (pt_find p)"
    and "m \<in> set (di_Matches (ScanRequest dc s ct body kws))"
  shows "(dm_Type m = DLPMatchCredentials \<longrightarrow> dm_Excerpt m = ''[REDACTED]'') \<and>
    (dm_Type m \<in> {DLPMatchSourceCode, DLPMatchKeyword} \<longrightarrow> dm_Excerpt m = []) \<and>
    (dm_Type m = DLPMatchPII \<longrightarrow> dm_Excerpt m = ''***'' \<or>
       (\<exists>t. 8 < length t \<and> dm_Excerpt m = take 3 t @ ''***'' @ drop (length t - 3) t))"
proof -
  from ScanRequest_spec(1)[OF assms(1)] assms(3) obtain f where f: "m \<in> field_evidence s kws f" by blast
  note ty = field_evidence_types[OF f]
  have "dm_Excerpt m = ''***'' \<or> (\<exists>t. 8 < length t \<and> dm_Excerpt m = take 3 t @ ''***'' @ drop (length t - 3) t)"
    if pii: "dm_Type m = DLPMatchPII"
  proof -
    from ty(3) pii obtain p a b where p: "p \<in> set (sc_piiPatterns s)" "pt_find p (ef_text f) = Some (a, b)"
      "dm_Excerpt m = safeExcerpt (ef_text f) (a, b)" by force
    have pf: "pattern_finder (pt_find p)" using assms(2) p(1) by blast
    from pattern_finder.find_bounds[OF pf p(2)] have "a \<le> b" "b \<le> length (ef_text f)" by auto
    from safeExcerpt_hides[OF this] pattern_finder.found_text_length[OF pf p(2)] p(3) show ?thesis
      by (metis (no_types, lifting))
  qed
  with ty show ?thesis by blast
qed

theorem dlp_excerpts_redacted_witness:
  "let ms = di_Matches (ScanRequest plain_decoders ssn_scanner [] ''x ghp_12345'' []) in
   ms \<noteq> [] \<and> dm_Excerpt (hd ms) = ''[REDACTED]''"
proof -
  let ?ms = "di_Matches (ScanRequest plain_decoders ssn_scanner [] ''x ghp_12345'' [])"
  have "\<forall>p\<in>set (sc_piiPatterns ssn_scanner). pattern_finder (pt_find p)"
    using default_patterns_found by (auto simp: ssn_scanner_def)
  moreover have ms: "?ms \<noteq> [] \<and> dm_Type (hd ?ms) = DLPMatchCredentials" by code_simp
  ultimately have "dm_Excerpt (hd ?ms) = ''[REDACTED]''"
    using dlp_excerpts_redacted[of "''x ghp_12345''" ssn_scanner "hd ?ms" plain_decoders "[]" "[]"]
    by simp
  with ms show ?thesis by (simp add: Let_def)
qed

text \<open>
  The severity is the classification of the report: critical exactly when it lists a
  credential, medium exactly when it lists none but PII or source code, low otherwise; a report
  without matches says so, and the matched fields are sorted, distinct and non-empty names.
\<close>

theorem dlp_severity_classifies:
  assumes "body \<noteq> []"
  shows "let r = ScanRequest dc s ct body kws; has = (\<lambda>ty. \<exists>m\<in>set (di_Matches r). dm_Type m = ty) in
    di_Severity r = (if has DLPMatchCredentials then ''critical''
       else if has DLPMatchPII \<or> has DLPMatchSourceCode then ''medium'' else ''low'') \<and>
    (di_Matches r = [] \<longrightarrow> di_ClassificationReason r = ''no_match'' \<and> di_MatchedFields r = []) \<and>
    sorted (di_MatchedFields r) \<and> distinct (di_MatchedFields r) \<and> [] \<notin> set (di_MatchedFields r)"
proof -
  define r where "r = ScanRequest dc s ct body kws"
  obtain i where i: "r = finalizeClassification i"
    using ScanRequest_unfold[OF assms, of dc s ct kws] unfolding r_def by metis
  have fl: "flags_ok r" using ScanRequest_spec(3)[OF assms] by (simp add: r_def)
  then have fi: "flags_ok i" by (simp add: i flags_ok_def has_type_def)
  have "di_Severity r = (if has_type DLPMatchCredentials r then ''critical''
       else if has_type DLPMatchPII r \<or> has_type DLPMatchSourceCode r then ''medium'' else ''low'')"
  proof -
    have r: "has_type ty r = has_type ty i" for ty by (simp add: i has_type_def)
    have f: "di_ContainsPII i = has_type DLPMatchPII i" "di_ContainsCredentials i = has_type DLPMatchCredentials i"
      "di_ContainsSourceCode i = has_type DLPMatchSourceCode i" using fi by (simp_all add: flags_ok_def)
    show ?thesis
    proof (cases "di_Matches i = []")
      case True
      then have "\<not> has_type ty i" for ty by (simp add: has_type_def)
      with True show ?thesis unfolding r by (simp add: i finalizeClassification_def)
    next
      case False
      then show ?thesis unfolding r unfolding i by (simp add: finalizeClassification_def Let_def f)
    qed
  qed
  moreover have "di_Matches r = [] \<longrightarrow> di_ClassificationReason r = ''no_match'' \<and> di_MatchedFields r = []"
    by (simp add: i finalizeClassification_def Let_def)
  moreover have "sorted (di_MatchedFields r) \<and> distinct (di_MatchedFields r) \<and> [] \<notin> set (di_MatchedFields r)"
    by (simp add: i finalizeClassification_def Let_def)
  ultimately show ?thesis by (simp add: r_def[symmetric] Let_def has_type_def)
qed

theorem dlp_severity_classifies_witness:
  "di_Severity (ScanRequest plain_decoders ssn_scanner [] ''use ghp_abcd1234'' []) = ''critical''"
proof -
  have "list_ex (\<lambda>m. dm_Type m = DLPMatchCredentials)
      (di_Matches (ScanRequest plain_decoders ssn_scanner [] ''use ghp_abcd1234'' []))" by code_simp
  then show ?thesis
    using dlp_severity_classifies[of "''use ghp_abcd1234''" plain_decoders ssn_scanner "[]" "[]"]
    by (simp add: Let_def list_ex_iff)
qed

text \<open>
  Sizes are bounded for every input: at most twenty-one matches, one more than the declared
  limit, and at most twenty when no keywords are configured; the body sample has at most 16 KiB.
\<close>

theorem dlp_report_bounded:
  assumes "body \<noteq> []"
  shows "let r = ScanRequest dc s ct body kws in
    length (di_Matches r) \<le> 21 \<and> (kws = [] \<longrightarrow> length (di_Matches r) \<le> 20) \<and>
    length (di_BodySample r) \<le> 16384"
proof -
  let ?b = "take MaxBodySize body"
  let ?F = "fst (inspected_fields dc ct ?b)"
  obtain i where r: "ScanRequest dc s ct body kws = finalizeClassification
       ((scan_fields s kws ?F i)\<lparr>di_BodySample := buildBodySample ?F ?b\<rparr>)"
    using ScanRequest_unfold[OF assms, of dc s ct kws] by metis
  have "normalizeExtractedText ?b = []" if "?F = []"
    using that by (auto simp: inspected_fields_def Let_def split: prod.splits if_splits)
  then have "length (buildBodySample ?F ?b) \<le> 16384" by (simp add: buildBodySample_def)
  then have "length (di_BodySample (ScanRequest dc s ct body kws)) \<le> 16384" by (simp add: r)
  then show ?thesis
    using ScanRequest_spec(4,5)[OF assms, where dc = dc and s = s and ct = ct and kws = kws] by (simp add: Let_def maxMatches_def)
qed

definition always_scanner :: scanner where
  "always_scanner = \<lparr>sc_piiPatterns = replicate 19 \<lparr>pt_name = ''p'', pt_find = (\<lambda>_. Some (0, 1))\<rparr>,
     sc_credentialPatterns = [],
     sc_codePatterns = replicate 2 \<lparr>pt_name = ''c'', pt_find = (\<lambda>_. Some (0, 1))\<rparr>\<rparr>"

theorem dlp_report_bounded_witness:
  "length (di_Matches (ScanRequest plain_decoders always_scanner [] ''secret'' [''secret''])) = 21"
proof -
  have "20 < length (di_Matches (ScanRequest plain_decoders always_scanner [] ''secret'' [''secret'']))"
    by code_simp
  then show ?thesis
    using dlp_report_bounded[of "''secret''" plain_decoders always_scanner "[]" "[''secret'']"]
    by (simp add: Let_def)
qed

definition form_decoders :: "((string \<times> string list) list \<Rightarrow> (string \<times> string list) list) \<Rightarrow> decoders" where
  "form_decoders order = plain_decoders\<lparr>dc_mime := (\<lambda>ct. Some (ct, [])), dc_order := order\<rparr>"

text \<open>
  The report on a form body is not a function of the request: \<^const>\<open>parseFormFields\<close> ranges over
  a Go map, and two iteration orders of the same two fields give different body samples, for
  every scanner and keyword list.
\<close>

theorem form_scan_order_dependent:
  "di_BodySample (ScanRequest (form_decoders (\<lambda>x. x)) s ''application/x-www-form-urlencoded'' ''a=1&b=2'' kws) \<noteq>
   di_BodySample (ScanRequest (form_decoders rev) s ''application/x-www-form-urlencoded'' ''a=1&b=2'' kws)"
proof -
  let ?ct = "''application/x-www-form-urlencoded''" and ?b = "''a=1&b=2''"
  have sample: "di_BodySample (ScanRequest dc s ?ct ?b kws) =
      buildBodySample (fst (inspected_fields dc ?ct (take MaxBodySize ?b))) (take MaxBodySize ?b)" for dc
    by (rule ScanRequest_unfold[of ?b dc s ?ct kws]) simp_all
  have "buildBodySample (fst (inspected_fields (form_decoders (\<lambda>x. x)) ?ct (take MaxBodySize ?b))) (take MaxBodySize ?b)
      \<noteq> buildBodySample (fst (inspected_fields (form_decoders rev) ?ct (take MaxBodySize ?b))) (take MaxBodySize ?b)"
    by code_simp
  then show ?thesis by (simp only: sample not_False_eq_True)
qed

end
