(* ===== verification/Prompt_Capture.thy ===== *)
theory Prompt_Capture
  imports Policy_Sync DLP_Scanner
begin

text \<open>
  The pre-send prompt decision service (\<^verbatim>\<open>src/core/promptcapture/service.go\<close>) and the semantic
  classifier client it consults (\<^verbatim>\<open>src/core/promptsemantics/evaluator.go\<close>): the evaluation pipeline
  from DLP scan and routing over the local baseline and the semantic result to the enforcement
  mode, the degraded response, the store of recent evaluations, adapter heartbeats and the
  handlers with the telemetry they emit.

  Parameters, collected in a record: the decoders and patterns of the scanner, the clock, the
  elapsed time, fresh identifiers, the rendering of a confidence with two decimals and the sort of
  the stored evaluations. A handler returns what it writes, the new service state and the
  asynchronous actions it starts. The mutex serialises access to the two maps.
\<close>

section \<open>Parameters\<close>

record prompt_semantic_request =
  sq_PromptText :: string
  sq_Policy :: string
  sq_Surface :: string
  sq_AppName :: string
  sq_DestinationHost :: string
  sq_DestinationPath :: string
  sq_Vendor :: string
  sq_ServiceCategory :: string
  sq_DLP :: dlp_info
  sq_Metadata :: "(string \<times> string) list"

record prompt_env =
  pe_decoders :: decoders
  pe_scanner :: scanner
  pe_now :: time
  pe_elapsed_ms :: int
  pe_uid :: string
  pe_fmt2 :: "real \<Rightarrow> string"

section \<open>The semantic classifier\<close>

definition normalizeResult :: "prompt_semantic_result \<Rightarrow> prompt_semantic_result" where
  "normalizeResult r =
    (let c = sr_Confidence r; c1 = (if c < 0 then 0 else c); c2 = (if c1 > 1 then 1 else c1) in
     r\<lparr>sr_Confidence := c2,
       sr_Decision := (if sr_Decision r \<in> {DecisionBlock, DecisionAlert, DecisionForward}
                       then sr_Decision r else DecisionForward),
       sr_Reason := trim_space (sr_Reason r), sr_Category := trim_space (sr_Category r),
       sr_Source := trim_space (sr_Source r)\<rparr>)"

text \<open>\<open>post\<close> is the exchange with the local classifier; \<^term>\<open>None\<close> any failure of it.\<close>

definition evaluateLocal :: "(string \<Rightarrow> prompt_semantic_request \<Rightarrow> prompt_semantic_result option) \<Rightarrow>
    string \<Rightarrow> prompt_semantic_request \<Rightarrow> prompt_semantic_result option" where
  "evaluateLocal post localURL req =
    (if localURL = [] then None
     else (case post localURL req of
             None \<Rightarrow> None
           | Some r \<Rightarrow>
              Some (normalizeResult (if sr_Source r = [] then r\<lparr>sr_Source := ''local_deberta''\<rparr> else r))))"

definition CascadeEvaluate :: "(string \<Rightarrow> prompt_semantic_request \<Rightarrow> prompt_semantic_result option) \<Rightarrow>
    string \<Rightarrow> prompt_semantic_request \<Rightarrow> prompt_semantic_result option" where
  "CascadeEvaluate post optLocalURL req = evaluateLocal post (trim_space optLocalURL) req"

section \<open>Service state\<close>

definition maxEvaluateBodyBytes :: nat where "maxEvaluateBodyBytes = 2 ^ 20"
definition evalRetention :: duration where "evalRetention = 15 * 60 * second"
definition maxEvalEntries :: nat where "maxEvalEntries = 4096"

record stored_evaluation =
  ev_At :: time
  ev_Request :: prompt_evaluation_request
  ev_Response :: prompt_evaluation_response
  ev_RequestCtx :: request_context
  ev_DLP :: dlp_info
  ev_MatchedRule :: "policy_rule option"
  ev_Semantic :: "prompt_semantic_result option"
  ev_Decision :: decision
  ev_PolicyRuleID :: string

record adapter_heartbeat =
  hb_Surface :: string
  hb_State :: string
  hb_Version :: string
  hb_LastSeen :: time

record prompt_service =
  sv_cfg :: "agent_config option"
  sv_router :: router_iface
  sv_semantic :: "(prompt_semantic_request \<Rightarrow> prompt_semantic_result option) option"
  sv_metrics :: "collector option"
  sv_hasNotifier :: bool
  sv_hasCleanup :: bool
  sv_evaluations :: "(string \<times> stored_evaluation) list"
  sv_adapters :: "(string \<times> adapter_heartbeat) list"

definition ensureLoopbackAddr :: "string \<Rightarrow> bool" where
  "ensureLoopbackAddr addr =
    (case split_host_port addr of
       None \<Rightarrow> False
     | Some (host, _) \<Rightarrow> (case parse_ip host of None \<Rightarrow> False | Some ip \<Rightarrow> ip_is_loopback ip))"

section \<open>Enforcement modes and surfaces\<close>

definition normalizeEnforcementMode :: "string \<Rightarrow> string \<Rightarrow> string" where
  "normalizeEnforcementMode v fallback =
    (let m = to_lower (trim_space v) in
     if m = PromptEnforcementModeMonitor then PromptEnforcementModeMonitor
     else if m = PromptEnforcementModeAlert then PromptEnforcementModeAlert
     else if m = PromptEnforcementModeEnforce then PromptEnforcementModeEnforce
     else fallback)"

definition enforcementModes :: "prompt_service \<Rightarrow> string \<times> string" where
  "enforcementModes s =
    (let mode = (case sv_cfg s of
           Some c \<Rightarrow> if trim_space (cf_PromptEnforcementMode c) \<noteq> []
                     then normalizeEnforcementMode (cf_PromptEnforcementMode c) PromptEnforcementModeAlert
                     else PromptEnforcementModeAlert
         | None \<Rightarrow> PromptEnforcementModeAlert);
         e1 = (case sv_cfg s of
           Some c \<Rightarrow> (let o1 = normalizeEnforcementMode (cf_PromptEnforcementOverride c) [] in
                      if o1 \<noteq> [] then o1 else mode)
         | None \<Rightarrow> mode);
         e2 = (case ri_PromptEnforcementOverride (sv_router s) of
           Some v \<Rightarrow> (let o2 = normalizeEnforcementMode v [] in if o2 \<noteq> [] then o2 else e1)
         | None \<Rightarrow> e1)
     in (mode, e2))"

definition failClosedSurfaces :: "prompt_service \<Rightarrow> string list" where
  "failClosedSurfaces s =
    (case sv_cfg s of None \<Rightarrow> [] | Some c \<Rightarrow> filter capture_surface_Valid (cf_PromptFailClosedSurfaces c))"

definition surfaceFailsClosed :: "prompt_service \<Rightarrow> string \<Rightarrow> bool" where
  "surfaceFailsClosed s surface =
    (capture_surface_Valid surface \<and> surface \<in> set (failClosedSurfaces s))"

definition surfaceEnforcement :: "prompt_service \<Rightarrow> string \<Rightarrow> string" where
  "surfaceEnforcement s surface =
    (let effective = snd (enforcementModes s) in
     if surface = CaptureSurfaceWindsurf \<or> surface = CaptureSurfaceGitHubCopilot
       then SurfaceEnforcementWouldBlock
     else if surface = CaptureSurfaceDesktop then SurfaceEnforcementUnprotected
     else if effective = PromptEnforcementModeMonitor then SurfaceEnforcementMonitor
     else if effective = PromptEnforcementModeEnforce \<and> surfaceFailsClosed s surface
       then SurfaceEnforcementHardBlock
     else if capture_surface_Valid surface then SurfaceEnforcementAlertOnly
     else SurfaceEnforcementUnknown)"

definition sanitizeSurfaceState :: "string \<Rightarrow> string" where
  "sanitizeSurfaceState v =
    (let m = to_lower (trim_space v) in
     if m \<in> set [SurfaceEnforcementHardBlock, SurfaceEnforcementAlertOnly, SurfaceEnforcementWouldBlock,
            SurfaceEnforcementMonitor, SurfaceEnforcementUnprotected]
     then m else SurfaceEnforcementUnknown)"

text \<open>The states as a map: the defaults, overridden by recent heartbeats.\<close>

definition surfaceStates :: "time \<Rightarrow> prompt_service \<Rightarrow> string \<Rightarrow> string option" where
  "surfaceStates now s =
    map_of (map (\<lambda>x. (x, surfaceEnforcement s x)) capture_surfaces) ++
    map_of (map (\<lambda>(k, hb). (k, sanitizeSurfaceState (hb_State hb)))
      (filter (\<lambda>(k, hb). now - hb_LastSeen hb \<le> 5 * 60 * second) (sv_adapters s)))"

definition classifierRequired :: "prompt_service \<Rightarrow> bool" where
  "classifierRequired s = (case sv_cfg s of None \<Rightarrow> False | Some c \<Rightarrow> cf_PromptSemanticsEnabled c)"

definition classifierHealthy :: "prompt_service \<Rightarrow> bool" where
  "classifierHealthy s = (\<not> classifierRequired s \<or> sv_semantic s \<noteq> None)"

definition service_policyVersion :: "prompt_service \<Rightarrow> string" where
  "service_policyVersion s =
    (case ri_PolicyVersion (sv_router s) of None \<Rightarrow> [] | Some v \<Rightarrow> trim_space v)"

section \<open>Targets and messages\<close>

abbreviation unknown_target :: string where "unknown_target \<equiv> ''unknown.prompt.target''"

definition normalizePromptTarget :: "prompt_evaluation_request \<Rightarrow> string \<times> string" where
  "normalizePromptTarget req =
    (let host0 = NormalizeHost (rq_DestinationHost req);
         path0 = trim_space (rq_DestinationPath req);
         rawURL = trim_space (rq_DestinationURL req);
         parsed = (if rawURL \<noteq> [] then url_parse rawURL else None);
         host1 = (case parsed of Some u \<Rightarrow> if host0 = [] then NormalizeHost (ur_Host u) else host0
                  | None \<Rightarrow> host0);
         path1 = (case parsed of Some u \<Rightarrow> if path0 = [] then trim_space (ur_Path u) else path0
                  | None \<Rightarrow> path0);
         host2 = (if host1 = [] then unknown_target else host1);
         path2 = (if path1 = [] then ''/'' else path1)
     in (host2, if has_prefix path2 ''/'' then path2 else ''/'' @ path2))"

definition normalizePromptVendor :: "prompt_evaluation_request \<Rightarrow> string \<Rightarrow> string \<times> string" where
  "normalizePromptVendor req host =
    (let vendor = to_lower (trim_space (rq_Vendor req));
         category = to_lower (trim_space (rq_ServiceCategory req)) in
     case InferAIService host [rq_DestinationURL req] of
       Some info \<Rightarrow> (if vendor = [] then si_Vendor info else vendor,
                     if category = [] then si_Category info else category)
     | None \<Rightarrow> (vendor, category))"

definition promptTargetLabel :: "prompt_evaluation_request \<Rightarrow> string \<Rightarrow> string" where
  "promptTargetLabel req host0 =
    (let app = trim_space (rq_AppName req);
         host = trim_space host0;
         rest = (if host = [] \<or> host = unknown_target then ''this destination'' else host) in
     if app \<noteq> [] then app
     else (case InferAIService host0 [rq_DestinationURL req] of
             Some info \<Rightarrow> if trim_space (si_Name info) \<noteq> [] then trim_space (si_Name info) else rest
           | None \<Rightarrow> rest))"

definition rule_reason :: "policy_rule option \<Rightarrow> string" where
  "rule_reason rule = (case rule of None \<Rightarrow> [] | Some r \<Rightarrow> trim_space (pr_BlockReason r))"

definition promptMessage :: "decision \<Rightarrow> prompt_evaluation_request \<Rightarrow> string \<Rightarrow> policy_rule option \<Rightarrow>
    dlp_info \<Rightarrow> string" where
  "promptMessage d req host rule info =
    (let target = promptTargetLabel req host in
     case d of
       DecisionBlock \<Rightarrow>
        (let reason = (if rule_reason rule \<noteq> [] then rule_reason rule
                       else if di_Matches info \<noteq> [] then ''it appears to contain sensitive information''
                       else ''it violates active organization policy'') in
         if has_prefix (to_lower reason) ''it ''
         then ''This prompt was blocked in '' @ target @ '' because '' @ reason @ ''.''
         else ''This prompt was blocked in '' @ target @ '': '' @ reason)
     | DecisionAlert \<Rightarrow>
        (if di_Matches info \<noteq> []
         then ''This prompt in '' @ target @ '' may contain sensitive information. Sending is allowed, but Themisto will alert on it.''
         else ''This prompt in '' @ target @ '' matched an alert policy. Sending is allowed, but Themisto will alert on it.'')
     | _ \<Rightarrow> ''Prompt allowed by policy.'')"

definition semanticReason :: "(real \<Rightarrow> string) \<Rightarrow> prompt_semantic_result \<Rightarrow> string \<Rightarrow> string" where
  "semanticReason fmt2 r fallback =
    (let reason = (if trim_space (sr_Reason r) = [] then fallback else trim_space (sr_Reason r));
         category = trim_space (sr_Category r) in
     if category \<noteq> [] then reason @ '' ('' @ category @ '', confidence '' @ fmt2 (sr_Confidence r) @ '')''
     else reason @ '' (confidence '' @ fmt2 (sr_Confidence r) @ '')'')"

definition promptReasonForDecision :: "(real \<Rightarrow> string) \<Rightarrow> decision \<Rightarrow> policy_rule option \<Rightarrow> dlp_info \<Rightarrow>
    prompt_semantic_result option \<Rightarrow> string \<times> string" where
  "promptReasonForDecision fmt2 d rule info semantic =
    (case semantic of
       Some r \<Rightarrow>
        if d = DecisionBlock \<and> sr_Decision r = DecisionBlock then
          (''semantic_policy_block'', semanticReason fmt2 r ''Prompt matched semantic corporate DLP policy'')
        else if d = DecisionAlert \<and> (sr_Decision r = DecisionBlock \<or> sr_Decision r = DecisionAlert) then
          (''semantic_policy_alert'', semanticReason fmt2 r ''Prompt may match semantic corporate DLP policy'')
        else if d = DecisionBlock then
          (''policy_block'', if rule_reason rule \<noteq> [] then rule_reason rule else ''Blocked by organization policy'')
        else if d = DecisionAlert then
          (''policy_alert'', if rule_reason rule \<noteq> [] then rule_reason rule else ''Matched alert policy'')
        else if di_Matches info \<noteq> [] then (''dlp_match'', ''Sensitive content detected by DLP scanner'')
        else (''policy_allow'', ''Allowed by organization policy'')
     | None \<Rightarrow>
        if d = DecisionBlock then
          (''policy_block'', if rule_reason rule \<noteq> [] then rule_reason rule else ''Blocked by organization policy'')
        else if d = DecisionAlert then
          (''policy_alert'', if rule_reason rule \<noteq> [] then rule_reason rule else ''Matched alert policy'')
        else if di_Matches info \<noteq> [] then (''dlp_match'', ''Sensitive content detected by DLP scanner'')
        else (''policy_allow'', ''Allowed by organization policy''))"

definition uniqueMatchTypes :: "dlp_match list \<Rightarrow> string list" where
  "uniqueMatchTypes ms =
    rev (remdups (rev (filter (\<lambda>v. v \<noteq> []) (map (\<lambda>m. trim_space (dlp_match_type_string (dm_Type m))) ms))))"

section \<open>Evaluation\<close>

definition service_lookupRule :: "prompt_service \<Rightarrow> string \<Rightarrow> policy_rule option" where
  "service_lookupRule s i =
    (if i = [] then None
     else (case ri_LookupRule (sv_router s) of None \<Rightarrow> None | Some f \<Rightarrow> f i))"

definition isPromptAIContext :: "prompt_evaluation_request \<Rightarrow> request_context \<Rightarrow> bool" where
  "isPromptAIContext req ctx =
    (has_prefix (to_lower (trim_space (cx_ServiceCategory ctx))) ''ai_'' \<or>
     trim_space (cx_AIVendor ctx) \<noteq> [] \<or>
     (case InferAIService (cx_Host ctx) [rq_DestinationURL req] of
        Some info \<Rightarrow> trim_space (si_Category info) \<noteq> [] | None \<Rightarrow> False) \<or>
     rq_Surface req \<in> set [CaptureSurfaceClaudeCode, CaptureSurfaceCursor, CaptureSurfaceWindsurf,
       CaptureSurfaceGitHubCopilot])"

definition baseline_rule :: policy_rule where
  "baseline_rule = \<lparr>pr_ID = ''local-baseline:ai-credentials'', pr_Priority = 0, pr_Decision = DecisionBlock,
     pr_Conditions = [], pr_BlockReason = ''Sensitive credentials were detected in AI traffic.''\<rparr>"

type_synonym verdict = "decision \<times> string \<times> policy_rule option"

definition applyLocalDLPBaseline :: "verdict \<Rightarrow> prompt_evaluation_request \<Rightarrow> request_context \<Rightarrow> dlp_info \<Rightarrow> verdict" where
  "applyLocalDLPBaseline v req ctx info =
    (if fst v = DecisionBlock \<or> \<not> di_ContainsCredentials info \<or> \<not> isPromptAIContext req ctx then v
     else (DecisionBlock, pr_ID baseline_rule, Some baseline_rule))"

definition semanticRuleID :: "prompt_semantic_result \<Rightarrow> string" where
  "semanticRuleID r =
    (if trim_space (sr_Source r) = [] then ''semantic'' else ''semantic:'' @ trim_space (sr_Source r))"

definition applySemanticDecision :: "prompt_service \<Rightarrow> verdict \<Rightarrow> prompt_semantic_result option \<Rightarrow> verdict" where
  "applySemanticDecision s v semantic =
    (case (semantic, sv_cfg s) of
       (Some r, Some c) \<Rightarrow>
        if fst v = DecisionBlock then v
        else (case sr_Decision r of
                DecisionBlock \<Rightarrow>
                  if cf_PromptSemanticsBlockThreshold c \<le> sr_Confidence r
                    then (DecisionBlock, semanticRuleID r, None)
                  else if cf_PromptSemanticsAlertThreshold c \<le> sr_Confidence r
                    then (DecisionAlert, semanticRuleID r, None)
                  else v
              | DecisionAlert \<Rightarrow>
                  if cf_PromptSemanticsAlertThreshold c \<le> sr_Confidence r
                    then (DecisionAlert, semanticRuleID r, None) else v
              | _ \<Rightarrow> v)
     | _ \<Rightarrow> v)"

definition evaluateSemantics :: "prompt_env \<Rightarrow> prompt_service \<Rightarrow> prompt_evaluation_request \<Rightarrow>
    request_context \<Rightarrow> dlp_info \<Rightarrow> prompt_semantic_result option" where
  "evaluateSemantics env s req ctx info =
    (case (sv_semantic s, sv_cfg s) of
       (Some classify, Some c) \<Rightarrow>
        if \<not> cf_PromptSemanticsEnabled c then None
        else (case classify \<lparr>sq_PromptText = rq_PromptText req, sq_Policy = cf_PromptSemanticsPolicy c,
                  sq_Surface = rq_Surface req, sq_AppName = rq_AppName req, sq_DestinationHost = cx_Host ctx,
                  sq_DestinationPath = cx_Path ctx, sq_Vendor = cx_AIVendor ctx,
                  sq_ServiceCategory = cx_ServiceCategory ctx, sq_DLP = info, sq_Metadata = rq_Metadata req\<rparr> of
                None \<Rightarrow> None
              | Some r \<Rightarrow> Some (if sr_LatencyMs r = 0 then r\<lparr>sr_LatencyMs := pe_elapsed_ms env\<rparr> else r))
     | _ \<Rightarrow> None)"

definition prompt_context :: "prompt_evaluation_request \<Rightarrow> request_context" where
  "prompt_context req =
    (let (host, path) = normalizePromptTarget req;
         (vendor, category) = normalizePromptVendor req host;
         pname = (if trim_space (rq_AppName req) = [] then ''prompt_capture_adapter''
                  else trim_space (rq_AppName req)) in
     \<lparr>cx_RequestID = trim_space (rq_RequestID req), cx_Host = host, cx_Port = 0, cx_Path = path,
      cx_Method = ''PROMPT'', cx_Scheme = ''https'', cx_Protocol = InterceptProtocolHTTP,
      cx_Direction = TrafficDirectionOutbound, cx_InterceptedHTTPS = False,
      cx_InspectionQuality = InspectionQualityFull, cx_InspectionSkipReason = [],
      cx_Process = empty_process_info\<lparr>ps_Name := pname, ps_Path := trim_space (rq_AppPath req),
        ps_BundleID := trim_space (rq_AppID req)\<rparr>,
      cx_ServiceCategory = category, cx_AIVendor = vendor, cx_AIProduct = [],
      cx_CaptureSurface = rq_Surface req, cx_DLP = empty_dlp_info\<rparr>)"

definition prompt_scan :: "prompt_env \<Rightarrow> prompt_evaluation_request \<Rightarrow> dlp_info" where
  "prompt_scan env req =
    (let body = rq_PromptText req;
         truncated = length body > MaxBodySize;
         scanBody = (if truncated then take MaxBodySize body else body);
         info = ScanRequest (pe_decoders env) (pe_scanner env) ''text/plain'' scanBody [];
         info1 = (if di_BodySample info = [] then info\<lparr>di_BodySample := scanBody\<rparr> else info)
     in info1\<lparr>di_BodyTruncated := di_BodyTruncated info1 \<or> truncated\<rparr>)"

text \<open>The verdict of the pipeline before the enforcement mode is applied.\<close>

definition prompt_verdict :: "prompt_env \<Rightarrow> prompt_service \<Rightarrow> prompt_evaluation_request \<Rightarrow>
    decision \<Rightarrow> string \<Rightarrow> verdict" where
  "prompt_verdict env s req d ruleID =
    (let info = prompt_scan env req; ctx = (prompt_context req)\<lparr>cx_DLP := info\<rparr>;
         v1 = applyLocalDLPBaseline (d, ruleID, service_lookupRule s ruleID) req ctx info in
     applySemanticDecision s v1 (evaluateSemantics env s req ctx info))"

definition service_evaluate :: "prompt_env \<Rightarrow> prompt_service \<Rightarrow> prompt_evaluation_request \<Rightarrow>
    string + (prompt_evaluation_response \<times> stored_evaluation)" where
  "service_evaluate env s req =
    (let info = prompt_scan env req; ctx = (prompt_context req)\<lparr>cx_DLP := info\<rparr> in
     case ri_Route (sv_router s) ctx of
       Inl err \<Rightarrow> Inl err
     | Inr (d0, ruleID0) \<Rightarrow>
        (let semantic = evaluateSemantics env s req ctx info;
             (d, ruleID, rule) = prompt_verdict env s req d0 ruleID0;
             (reasonCode, reasonDetail) = promptReasonForDecision (pe_fmt2 env) d rule info semantic;
             (mode, effective) = enforcementModes s;
             downgrade = (effective = PromptEnforcementModeMonitor \<and> d = DecisionBlock);
             d' = (if downgrade then DecisionForward else d);
             outcome = (if downgrade then CaptureOutcomeWouldBlock
                        else if d = DecisionBlock then CaptureOutcomeBlocked else CaptureOutcomeAllowed);
             surfaceState = (if downgrade then SurfaceEnforcementMonitor
                             else surfaceEnforcement s (rq_Surface req));
             resp = \<lparr>rs_EvaluationID = pe_uid env, rs_Decision = d', rs_PolicyRuleID = ruleID,
               rs_ReasonCode = reasonCode, rs_Reason = reasonDetail,
               rs_Message = promptMessage d' req (cx_Host ctx) rule info, rs_Outcome = outcome,
               rs_MatchCount = length (di_Matches info), rs_MatchTypes = uniqueMatchTypes (di_Matches info),
               rs_Severity = di_Severity info, rs_Degraded = False, rs_DegradedCause = [],
               rs_Semantic = semantic, rs_EnforcementMode = mode, rs_EffectiveEnforcementMode = effective,
               rs_SurfaceEnforcement = surfaceState\<rparr>
         in Inr (resp, \<lparr>ev_At = pe_now env, ev_Request = req, ev_Response = resp, ev_RequestCtx = ctx,
               ev_DLP = info, ev_MatchedRule = rule, ev_Semantic = semantic, ev_Decision = d',
               ev_PolicyRuleID = ruleID\<rparr>)))"

definition fallbackEvaluationResponse :: "prompt_env \<Rightarrow> prompt_service \<Rightarrow> prompt_evaluation_request \<Rightarrow>
    string \<Rightarrow> string \<Rightarrow> prompt_evaluation_response" where
  "fallbackEvaluationResponse env s req cause reason =
    (let (mode, effective) = enforcementModes s;
         closed = (effective = PromptEnforcementModeEnforce \<and> surfaceFailsClosed s (rq_Surface req)) in
     \<lparr>rs_EvaluationID = pe_uid env,
      rs_Decision = (if closed then DecisionBlock else DecisionForward),
      rs_PolicyRuleID = [],
      rs_ReasonCode = (if closed then ''fail_closed_evaluator_unavailable'' else ''degraded_fail_open''),
      rs_Reason = reason,
      rs_Message = (if closed then ''Prompt blocked because Themisto enforcement is active and the local evaluator is unavailable.''
                    else ''Prompt evaluation unavailable. Proceeding in degraded fail-open mode.''),
      rs_Outcome = (if closed then CaptureOutcomeBlocked else CaptureOutcomeDegradedFailOpen),
      rs_MatchCount = 0, rs_MatchTypes = [], rs_Severity = [], rs_Degraded = True, rs_DegradedCause = cause,
      rs_Semantic = None, rs_EnforcementMode = mode, rs_EffectiveEnforcementMode = effective,
      rs_SurfaceEnforcement = surfaceEnforcement s (rq_Surface req)\<rparr>)"

section \<open>The store of evaluations\<close>

definition pruneEvaluations :: "((string \<times> stored_evaluation) list \<Rightarrow> (string \<times> stored_evaluation) list) \<Rightarrow>
    time \<Rightarrow> (string \<times> stored_evaluation) list \<Rightarrow> (string \<times> stored_evaluation) list" where
  "pruneEvaluations sorter now es =
    (let fresh = filter (\<lambda>(_, e). \<not> ev_At e < now - evalRetention) es in
     if length fresh \<le> maxEvalEntries then fresh
     else (let drop_ids = set (map fst (take (length fresh - maxEvalEntries) (sorter fresh))) in
           filter (\<lambda>(i, _). i \<notin> drop_ids) fresh))"

definition storeEvaluation :: "((string \<times> stored_evaluation) list \<Rightarrow> (string \<times> stored_evaluation) list) \<Rightarrow>
    time \<Rightarrow> stored_evaluation \<Rightarrow> prompt_service \<Rightarrow> prompt_service" where
  "storeEvaluation sorter now eval s =
    s\<lparr>sv_evaluations := pruneEvaluations sorter now
        ((rs_EvaluationID (ev_Response eval), eval) #
         filter (\<lambda>(i, _). i \<noteq> rs_EvaluationID (ev_Response eval)) (sv_evaluations s))\<rparr>"

definition loadEvaluation :: "time \<Rightarrow> string \<Rightarrow> prompt_service \<Rightarrow> stored_evaluation option \<times> prompt_service" where
  "loadEvaluation now id0 s =
    (let i = trim_space id0 in
     if i = [] then (None, s)
     else (case map_of (sv_evaluations s) i of
             None \<Rightarrow> (None, s)
           | Some e \<Rightarrow>
              if evalRetention < now - ev_At e
              then (None, s\<lparr>sv_evaluations := filter (\<lambda>(j, _). j \<noteq> i) (sv_evaluations s)\<rparr>)
              else (Some e, s)))"

section \<open>Telemetry\<close>

record promptTelemetryInput =
  ti_Stage :: string
  ti_Surface :: string
  ti_Outcome :: string
  ti_Decision :: decision
  ti_DestinationHost :: string
  ti_DestinationPath :: string
  ti_AppName :: string
  ti_Vendor :: string
  ti_ServiceCategory :: string
  ti_PolicyRuleID :: string
  ti_PromptChars :: nat
  ti_MatchCount :: nat
  ti_Error :: string
  ti_LatencyMs :: int
  ti_Status :: int

definition promptDecisionForTelemetry :: "decision \<Rightarrow> string" where
  "promptDecisionForTelemetry d =
    (case d of DecisionBlock \<Rightarrow> ''block'' | DecisionAlert \<Rightarrow> ''alert'' | _ \<Rightarrow> ''allow'')"

definition telemetry_data :: "promptTelemetryInput \<Rightarrow> godata" where
  "telemetry_data t =
    (let host = (if trim_space (ti_DestinationHost t) = [] then unknown_target else trim_space (ti_DestinationHost t)) in
     [(''method'', VString ''PROMPT''), (''host'', VString host),
      (''decision'', VString (promptDecisionForTelemetry (ti_Decision t))),
      (''latency_ms'', VInt (ti_LatencyMs t)), (''status'', VInt (ti_Status t)),
      (''protocol'', VString InterceptProtocolHTTP), (''direction'', VString TrafficDirectionOutbound),
      (''capture_stage'', VString (ti_Stage t)), (''capture_surface'', VString (ti_Surface t)),
      (''capture_outcome'', VString (ti_Outcome t))] @
     (if 0 < ti_PromptChars t then [(''prompt_chars'', VInt (int (ti_PromptChars t)))] else []) @
     (if 0 < ti_MatchCount t then [(''match_count'', VInt (int (ti_MatchCount t)))] else []) @
     opt_field ''rule_id'' (ti_PolicyRuleID t) @ opt_field ''source_app'' (trim_space (ti_AppName t)) @
     opt_field ''ai_vendor'' (trim_space (ti_Vendor t)) @
     opt_field ''service_category'' (trim_space (ti_ServiceCategory t)) @
     opt_field ''error'' (trim_space (ti_Error t)))"

definition emit :: "time \<Rightarrow> string \<Rightarrow> godata \<Rightarrow> prompt_service \<Rightarrow> prompt_service" where
  "emit now name dat s =
    (case (sv_metrics s, sv_cfg s) of
       (Some c, Some cfg) \<Rightarrow> s\<lparr>sv_metrics := Some (collector_Emit now name
          \<lparr>ep_AgentID = cf_AgentID cfg, ep_Timestamp = now, ep_Data = dat\<rparr> c)\<rparr>
     | _ \<Rightarrow> s)"

definition emitPromptTelemetry :: "time \<Rightarrow> promptTelemetryInput \<Rightarrow> prompt_service \<Rightarrow> prompt_service" where
  "emitPromptTelemetry now t s = emit now ''proxy.request'' (telemetry_data t) s"

definition dlp_event_data :: "stored_evaluation \<Rightarrow> string \<Rightarrow> string \<Rightarrow> godata" where
  "dlp_event_data ev action reasonCode =
    [(''host'', VString (cx_Host (ev_RequestCtx ev))), (''method'', VString ''PROMPT''),
     (''request_id'', VString (rs_EvaluationID (ev_Response ev))),
     (''match_types'', VList (map VString (uniqueMatchTypes (di_Matches (ev_DLP ev))))),
     (''match_count'', VInt (int (length (di_Matches (ev_DLP ev))))), (''action_taken'', VString action),
     (''severity'', VString (di_Severity (ev_DLP ev))),
     (''classification_reason'', VString (di_ClassificationReason (ev_DLP ev))),
     (''content_type'', VString ''text/plain''), (''file_count'', VInt 0),
     (''protocol'', VString InterceptProtocolHTTP), (''direction'', VString TrafficDirectionOutbound),
     (''inspection_quality'', VString InspectionQualityFull)] @
    opt_field ''policy_rule_id'' (ev_PolicyRuleID ev) @
    (case ev_Semantic ev of None \<Rightarrow> []
     | Some r \<Rightarrow> [(''semantic_source'', VString (sr_Source r)), (''semantic_category'', VString (sr_Category r)),
                  (''semantic_confidence'', VFloat (sr_Confidence r)),
                  (''semantic_ambiguous'', VBool (sr_Ambiguous r))]) @
    opt_field ''reason_code'' reasonCode @ opt_field ''ai_vendor'' (cx_AIVendor (ev_RequestCtx ev)) @
    opt_field ''service_category'' (cx_ServiceCategory (ev_RequestCtx ev)) @
    opt_field ''source_app'' (ps_Name (cx_Process (ev_RequestCtx ev)))"

definition emitPromptDLPEvent :: "time \<Rightarrow> stored_evaluation \<Rightarrow> string \<Rightarrow> string \<Rightarrow> prompt_service \<Rightarrow> prompt_service" where
  "emitPromptDLPEvent now ev action reasonCode s = emit now ''dlp.match'' (dlp_event_data ev action reasonCode) s"

definition statusForCaptureOutcome :: "string \<Rightarrow> decision \<Rightarrow> int" where
  "statusForCaptureOutcome outcome d =
    (if outcome = CaptureOutcomeBlocked then 403
     else if outcome = CaptureOutcomeWouldBlock then 202
     else if outcome = CaptureOutcomeDegradedFailOpen then 200
     else if d = DecisionAlert then 202 else 200)"

section \<open>Handlers\<close>

datatype async_action =
    NotifyUser string string
  | BlockCleanup prompt_evaluation_request

datatype reply =
    ReplyEvaluation prompt_evaluation_response
  | ReplyAccepted
  | ReplyError int string

definition notifyUser :: "string \<Rightarrow> decision \<Rightarrow> policy_rule option \<Rightarrow> async_action" where
  "notifyUser host0 d rule =
    (let host = trim_space host0 in
     if d = DecisionBlock then
       NotifyUser ''Themisto Blocked Prompt'' (''A prompt to '' @ host @ '' was blocked because '' @
         (if rule_reason rule \<noteq> [] then rule_reason rule else ''active policy''))
     else NotifyUser ''Themisto Prompt Warning'' (''Potentially sensitive prompt detected for '' @ host @ ''.''))"

text \<open>\<open>decoded\<close> is what reading and decoding the body yields.\<close>

definition decodePromptEvaluationRequest :: "string + prompt_evaluation_request \<Rightarrow> string + prompt_evaluation_request" where
  "decodePromptEvaluationRequest decoded =
    (case decoded of
       Inl err \<Rightarrow> Inl err
     | Inr req0 \<Rightarrow>
        (let req = req0\<lparr>rq_PromptText := trim_space (rq_PromptText req0)\<rparr> in
         if rq_PromptText req = [] then Inl ''prompt_text is required''
         else if \<not> capture_surface_Valid (rq_Surface req) then Inl ''surface must be one of browser_chromium, browser_firefox, browser_safari, desktop, claude_code, cursor, windsurf, github_copilot''
         else Inr req))"

definition decodePromptOutcomeRequest :: "string + prompt_outcome_request \<Rightarrow> string + prompt_outcome_request" where
  "decodePromptOutcomeRequest decoded =
    (case decoded of
       Inl err \<Rightarrow> Inl err
     | Inr req \<Rightarrow>
        if \<not> capture_surface_Valid (oq_Surface req) then Inl ''surface must be one of browser_chromium, browser_firefox, browser_safari, desktop, claude_code, cursor, windsurf, github_copilot''
        else if \<not> capture_outcome_Valid (oq_Outcome req) then Inl ''outcome must be blocked, allowed, would_block, or degraded_fail_open''
        else Inr req)"

definition handleEvaluate :: "prompt_env \<Rightarrow> ((string \<times> stored_evaluation) list \<Rightarrow> (string \<times> stored_evaluation) list) \<Rightarrow>
    string + prompt_evaluation_request \<Rightarrow> prompt_service \<Rightarrow> reply \<times> prompt_service \<times> async_action list" where
  "handleEvaluate env sorter decoded s =
    (case decodePromptEvaluationRequest decoded of
       Inl msg \<Rightarrow> (ReplyError 400 msg, s, [])
     | Inr req \<Rightarrow>
        (case service_evaluate env s req of
           Inl err \<Rightarrow>
            (let resp = fallbackEvaluationResponse env s req ''evaluate_error'' ''Prompt evaluator unavailable'';
                 t = \<lparr>ti_Stage = ''evaluate'', ti_Surface = rq_Surface req, ti_Outcome = rs_Outcome resp,
                      ti_Decision = rs_Decision resp, ti_DestinationHost = fst (normalizePromptTarget req),
                      ti_DestinationPath = snd (normalizePromptTarget req), ti_AppName = rq_AppName req,
                      ti_Vendor = rq_Vendor req, ti_ServiceCategory = rq_ServiceCategory req,
                      ti_PolicyRuleID = [], ti_PromptChars = length (rq_PromptText req), ti_MatchCount = 0,
                      ti_Error = err, ti_LatencyMs = pe_elapsed_ms env, ti_Status = 200\<rparr>
             in (ReplyEvaluation resp, emitPromptTelemetry (pe_now env) t s, []))
         | Inr (resp, eval) \<Rightarrow>
            (let t = \<lparr>ti_Stage = ''evaluate'', ti_Surface = rq_Surface req, ti_Outcome = rs_Outcome resp,
                      ti_Decision = rs_Decision resp, ti_DestinationHost = cx_Host (ev_RequestCtx eval),
                      ti_DestinationPath = cx_Path (ev_RequestCtx eval), ti_AppName = rq_AppName req,
                      ti_Vendor = cx_AIVendor (ev_RequestCtx eval),
                      ti_ServiceCategory = cx_ServiceCategory (ev_RequestCtx eval),
                      ti_PolicyRuleID = ev_PolicyRuleID eval, ti_PromptChars = length (rq_PromptText req),
                      ti_MatchCount = length (di_Matches (ev_DLP eval)), ti_Error = [],
                      ti_LatencyMs = pe_elapsed_ms env, ti_Status = 200\<rparr>;
                 notify = (if (rs_Decision resp = DecisionBlock \<or> rs_Decision resp = DecisionAlert) \<and> sv_hasNotifier s
                           then [notifyUser (cx_Host (ev_RequestCtx eval)) (rs_Decision resp) (ev_MatchedRule eval)] else []);
                 cleanup = (if rs_Decision resp = DecisionBlock \<and> sv_hasCleanup s
                            then [BlockCleanup (ev_Request eval)] else [])
             in (ReplyEvaluation resp,
                 emitPromptTelemetry (pe_now env) t (storeEvaluation sorter (pe_now env) eval s),
                 notify @ cleanup))))"

definition handleAdapterHeartbeat :: "time \<Rightarrow> (string \<times> string \<times> string) option \<Rightarrow> prompt_service \<Rightarrow>
    reply \<times> prompt_service" where
  "handleAdapterHeartbeat now decoded s =
    (case decoded of
       None \<Rightarrow> (ReplyError 400 ''invalid JSON body'', s)
     | Some (surface, state0, version) \<Rightarrow>
        if \<not> capture_surface_Valid surface then (ReplyError 400 ''invalid surface'', s)
        else (let state = (if trim_space state0 = [] then surfaceEnforcement s surface else trim_space state0) in
              (ReplyAccepted, s\<lparr>sv_adapters := (surface, \<lparr>hb_Surface = surface,
                  hb_State = sanitizeSurfaceState state, hb_Version = trim_space version, hb_LastSeen = now\<rparr>) #
                  filter (\<lambda>(k, _). k \<noteq> surface) (sv_adapters s)\<rparr>)))"

definition handleOutcome :: "time \<Rightarrow> string + prompt_outcome_request \<Rightarrow> prompt_service \<Rightarrow> reply \<times> prompt_service" where
  "handleOutcome now decoded s0 =
    (case decodePromptOutcomeRequest decoded of
       Inl msg \<Rightarrow> (ReplyError 400 msg, s0)
     | Inr req \<Rightarrow>
        (let (found, s) = loadEvaluation now (oq_EvaluationID req) s0;
             pick = (\<lambda>v sel. if v \<noteq> [] then v else (case found of Some e \<Rightarrow> sel e | None \<Rightarrow> v));
             host0 = (case found of
                        Some e \<Rightarrow> pick (trim_space (oq_DestinationHost req)) (\<lambda>e. cx_Host (ev_RequestCtx e))
                      | None \<Rightarrow> NormalizeHost (trim_space (oq_DestinationHost req)));
             path0 = pick (trim_space (oq_DestinationPath req)) (\<lambda>e. cx_Path (ev_RequestCtx e));
             d = (case found of Some e \<Rightarrow> ev_Decision e | None \<Rightarrow> DecisionForward);
             t = \<lparr>ti_Stage = ''outcome'', ti_Surface = oq_Surface req, ti_Outcome = oq_Outcome req,
                  ti_Decision = d, ti_DestinationHost = (if host0 = [] then unknown_target else host0),
                  ti_DestinationPath = (if path0 = [] then ''/'' else path0),
                  ti_AppName = pick (trim_space (oq_AppName req)) (\<lambda>e. ps_Name (cx_Process (ev_RequestCtx e))),
                  ti_Vendor = pick (trim_space (oq_Vendor req)) (\<lambda>e. cx_AIVendor (ev_RequestCtx e)),
                  ti_ServiceCategory = pick (trim_space (oq_ServiceCategory req)) (\<lambda>e. cx_ServiceCategory (ev_RequestCtx e)),
                  ti_PolicyRuleID = (case found of Some e \<Rightarrow> ev_PolicyRuleID e | None \<Rightarrow> []),
                  ti_PromptChars = 0,
                  ti_MatchCount = (case found of Some e \<Rightarrow> length (di_Matches (ev_DLP e)) | None \<Rightarrow> 0),
                  ti_Error = trim_space (oq_Error req), ti_LatencyMs = 0,
                  ti_Status = statusForCaptureOutcome (oq_Outcome req) d\<rparr>;
             s1 = emitPromptTelemetry now t s
         in case found of
              Some e \<Rightarrow>
               if di_Matches (ev_DLP e) \<noteq> [] \<or> ev_Decision e = DecisionAlert \<or> ev_Decision e = DecisionBlock then
                 (ReplyAccepted, emitPromptDLPEvent now e
                    (if oq_Outcome req = CaptureOutcomeBlocked then ''block'' else ''alert'')
                    (if oq_Outcome req = CaptureOutcomeWouldBlock then ''would_block''
                     else if oq_Outcome req = CaptureOutcomeDegradedFailOpen then ''degraded_fail_open''
                     else rs_ReasonCode (ev_Response e)) s1)
               else (ReplyAccepted, s1)
            | None \<Rightarrow> (ReplyAccepted, s1)))"

section \<open>Lemmas: decisions\<close>

lemma baseline_mono: "d \<le> fst (applyLocalDLPBaseline (d, i, r) req ctx info)"
  by (simp add: applyLocalDLPBaseline_def)

lemma semantic_mono: "fst v \<le> fst (applySemanticDecision s v sem)"
  by (cases "fst v")
     (auto simp: applySemanticDecision_def less_eq_decision_def split: option.splits decision.splits)

lemma semantic_block_kept: "fst v = DecisionBlock \<Longrightarrow> fst (applySemanticDecision s v sem) = DecisionBlock"
  using semantic_mono[of v s sem] by simp

lemma verdict_mono: "d \<le> fst (prompt_verdict env s req d i)"
  unfolding prompt_verdict_def Let_def
  by (rule order_trans[OF baseline_mono semantic_mono])

lemma verdict_baseline:
  assumes "di_ContainsCredentials (prompt_scan env req)"
    and "isPromptAIContext req ((prompt_context req)\<lparr>cx_DLP := prompt_scan env req\<rparr>)"
  shows "fst (prompt_verdict env s req d i) = DecisionBlock"
  unfolding prompt_verdict_def Let_def
  by (rule semantic_block_kept) (use assms in \<open>simp add: applyLocalDLPBaseline_def\<close>)

lemma normalizeEnforcementMode_range:
  "normalizeEnforcementMode v f \<in> {PromptEnforcementModeMonitor, PromptEnforcementModeAlert,
     PromptEnforcementModeEnforce, f}"
  unfolding normalizeEnforcementMode_def Let_def by (intro if_mem) simp_all

text \<open>The response of a successful evaluation in terms of the verdict.\<close>

lemma service_evaluate_cases:
  assumes "service_evaluate env s req = Inr (resp, ev)"
  obtains d0 i0 where
    "ri_Route (sv_router s) ((prompt_context req)\<lparr>cx_DLP := prompt_scan env req\<rparr>) = Inr (d0, i0)"
    "rs_Decision resp = (if snd (enforcementModes s) = PromptEnforcementModeMonitor \<and>
        fst (prompt_verdict env s req d0 i0) = DecisionBlock then DecisionForward
      else fst (prompt_verdict env s req d0 i0))"
    "rs_Outcome resp = (if fst (prompt_verdict env s req d0 i0) \<noteq> DecisionBlock then CaptureOutcomeAllowed
      else if snd (enforcementModes s) = PromptEnforcementModeMonitor then CaptureOutcomeWouldBlock
      else CaptureOutcomeBlocked)"
    "rs_SurfaceEnforcement resp = (if snd (enforcementModes s) = PromptEnforcementModeMonitor \<and>
        fst (prompt_verdict env s req d0 i0) = DecisionBlock then SurfaceEnforcementMonitor
      else surfaceEnforcement s (rq_Surface req))"
    "rs_EffectiveEnforcementMode resp = snd (enforcementModes s)"
    "rs_EvaluationID resp = pe_uid env" "ev_Response ev = resp" "ev_At ev = pe_now env"
    "ev_Decision ev = rs_Decision resp"
proof -
  let ?ctx = "(prompt_context req)\<lparr>cx_DLP := prompt_scan env req\<rparr>"
  obtain d0 i0 where r: "ri_Route (sv_router s) ?ctx = Inr (d0, i0)"
    using assms by (auto simp: service_evaluate_def Let_def split: sum.splits)
  obtain d i rule where v: "prompt_verdict env s req d0 i0 = (d, i, rule)" by (cases "prompt_verdict env s req d0 i0")
  obtain mode eff where m: "enforcementModes s = (mode, eff)" by fastforce
  obtain rc rd where rr: "promptReasonForDecision (pe_fmt2 env) d rule (prompt_scan env req)
      (evaluateSemantics env s req ?ctx (prompt_scan env req)) = (rc, rd)" by fastforce
  show thesis
    by (rule that[OF r]) (use assms in \<open>auto simp: service_evaluate_def r v m rr Let_def\<close>)
qed

section \<open>Lemmas: the evaluation store\<close>

text \<open>
  The store relies on nothing of \<^verbatim>\<open>sort.Slice\<close> but its contract, with the time of an evaluation as
  the key.
\<close>

locale evaluation_store = slice_sort "\<lambda>x. ev_At (snd x)" sorter
  for sorter :: "(string \<times> stored_evaluation) list \<Rightarrow> (string \<times> stored_evaluation) list"
begin

lemma prune_subset: "set (pruneEvaluations sorter now es) \<subseteq> set es"
  by (auto simp: pruneEvaluations_def Let_def)

lemma prune_fresh: "(i, e) \<in> set (pruneEvaluations sorter now es) \<Longrightarrow> now - evalRetention \<le> ev_At e"
  by (auto simp: pruneEvaluations_def Let_def split: if_splits)

lemma prune_length: "length (pruneEvaluations sorter now es) \<le> maxEvalEntries"
proof -
  define fresh where "fresh = filter (\<lambda>(_, e). \<not> ev_At e < now - evalRetention) es"
  define k where "k = length fresh - maxEvalEntries"
  define P where "P x = (fst x \<notin> set (map fst (take k (sorter fresh))))" for x :: "string \<times> stored_evaluation"
  have "length (filter P fresh) = size (filter_mset P (mset fresh))" by (metis mset_filter size_mset)
  also have "\<dots> = length (filter P (sorter fresh))" by (metis mset_filter size_mset sorter_perm)
  also have "filter P (sorter fresh) = filter P (take k (sorter fresh)) @ filter P (drop k (sorter fresh))"
    by (metis append_take_drop_id filter_append)
  also have "filter P (take k (sorter fresh)) = []" by (auto simp: P_def filter_empty_conv)
  finally have "length (filter P fresh) \<le> length (drop k (sorter fresh))"
    by (metis append_Nil length_filter_le)
  also have "\<dots> \<le> maxEvalEntries" by (simp add: k_def)
  finally have "length (filter P fresh) \<le> maxEvalEntries" .
  moreover have "P = (\<lambda>(j, _). j \<notin> set (map fst (take k (sorter fresh))))"
    by (auto simp: P_def fun_eq_iff)
  then have "pruneEvaluations sorter now es = (if length fresh \<le> maxEvalEntries then fresh else filter P fresh)"
    by (simp add: pruneEvaluations_def Let_def fresh_def[symmetric] k_def[symmetric])
  ultimately show ?thesis by simp
qed

lemma prune_keeps_newest:
  assumes "(i, e) \<in> set es" and "distinct (map fst es)" and "now - evalRetention \<le> ev_At e"
    and newest: "\<And>j f. (j, f) \<in> set es \<Longrightarrow> (j, f) \<noteq> (i, e) \<Longrightarrow> ev_At f < ev_At e"
  shows "(i, e) \<in> set (pruneEvaluations sorter now es)"
proof -
  define fresh where "fresh = filter (\<lambda>(_, e). \<not> ev_At e < now - evalRetention) es"
  define k where "k = length fresh - maxEvalEntries"
  have mem: "(i, e) \<in> set fresh" using assms(1,3) by (auto simp: fresh_def)
  have eq: "pruneEvaluations sorter now es = (if length fresh \<le> maxEvalEntries then fresh
      else filter (\<lambda>(j, _). j \<notin> set (map fst (take k (sorter fresh)))) fresh)"
    by (simp add: pruneEvaluations_def Let_def fresh_def[symmetric] k_def)
  have "i \<notin> set (map fst (take k (sorter fresh)))" if big: "\<not> length fresh \<le> maxEvalEntries"
  proof
    assume "i \<in> set (map fst (take k (sorter fresh)))"
    then obtain f where f: "(i, f) \<in> set (take k (sorter fresh))" by auto
    then have "(i, f) \<in> set es" using set_take_subset[of k "sorter fresh"] by (auto simp: fresh_def)
    then have fe: "f = e" using assms(1,2) by (meson eq_key_imp_eq_value)
    have "0 < length (drop k (sorter fresh))" using big by (simp add: k_def maxEvalEntries_def)
    then obtain x where x: "x \<in> set (drop k (sorter fresh))" by (metis length_greater_0_conv last_in_set)
    have "ev_At e \<le> ev_At (snd x)" using take_sorter_le[OF f x] fe by simp
    moreover have xs: "x \<in> set es" using x set_drop_subset[of k "sorter fresh"] by (auto simp: fresh_def)
    ultimately have "x = (i, e)" using newest[of "fst x" "snd x"] by fastforce
    moreover have "distinct (sorter fresh)"
      using sorter_distinct[of "\<lambda>x. x" fresh] assms(2) by (simp add: fresh_def distinct_map)
    ultimately show False
      using f fe x by (metis append_take_drop_id disjoint_iff distinct_append)
  qed
  then show ?thesis using mem by (auto simp: eq)
qed

end

interpretation eval_store: evaluation_store "sort_key (\<lambda>x. ev_At (snd x))"
  by unfold_locales

lemma distinct_upsert:
  "distinct (map fst es) \<Longrightarrow> distinct (map fst ((i, e) # filter (\<lambda>(j, _). j \<noteq> i) es))"
  by (auto simp: distinct_map inj_on_def distinct_filter)

section \<open>Properties\<close>

text \<open>
  C1. A prompt in which the scanner found credentials, sent to an AI service or from an AI coding
  surface, is never let through silently: whatever policy, rule set and classifier say, the
  answer is to block, unless the effective mode is monitor, where it is reported as would-block.
\<close>

theorem credentials_to_ai_blocked:
  assumes "service_evaluate env s req = Inr (resp, ev)"
    and "di_ContainsCredentials (prompt_scan env req)"
    and "isPromptAIContext req ((prompt_context req)\<lparr>cx_DLP := prompt_scan env req\<rparr>)"
  shows "if snd (enforcementModes s) = PromptEnforcementModeMonitor
    then rs_Decision resp = DecisionForward \<and> rs_Outcome resp = CaptureOutcomeWouldBlock
    else rs_Decision resp = DecisionBlock \<and> rs_Outcome resp = CaptureOutcomeBlocked"
  by (rule service_evaluate_cases[OF assms(1)]) (simp add: verdict_baseline[OF assms(2,3)])

text \<open>Inputs of the witnesses.\<close>

definition sample_prompt_config :: "string \<Rightarrow> agent_config" where
  "sample_prompt_config mode = \<lparr>cf_AgentID = ''agent-1'', cf_GatewayURL = ''https://gw'', cf_ListenAddr = [],
     cf_PromptCaptureListenAddr = [], cf_HTTPSInterceptEnabled = False, cf_HTTPSInterceptDomains = [],
     cf_HTTPSInterceptFailMode = [], cf_HTTPSInterceptProtocols = [], cf_HTTPSInterceptCaptureMode = [],
     cf_PolicySyncInterval = 0, cf_TelemetryFlushInterval = 0, cf_MaxConcurrentConns = 0,
     cf_ShutdownTimeout = 0, cf_DefaultDecision = DecisionForward, cf_BlockPageBody = [],
     cf_LogURLPaths = False, cf_AutoReregister = False, cf_CertPath = [], cf_KeyPath = [], cf_CAPath = [],
     cf_InitialBackoff = 0, cf_MaxBackoff = 0, cf_BackoffMultiplier = 1, cf_JitterFraction = 0,
     cf_MaxRetries = 0, cf_CircuitBreakerThreshold = 1, cf_CircuitBreakerCooldown = 0,
     cf_HealthCheckInterval = 0, cf_IntegrityCheckInterval = 0, cf_PromptSemanticsEnabled = False,
     cf_PromptSemanticsPolicy = [], cf_PromptSemanticsLocalURL = [], cf_PromptSemanticsGatewayEnabled = False,
     cf_PromptSemanticsLocalTimeout = 0, cf_PromptSemanticsGatewayTimeout = 0,
     cf_PromptSemanticsBlockThreshold = 9/10, cf_PromptSemanticsAlertThreshold = 1/2,
     cf_PromptSemanticsAmbiguousThreshold = 0, cf_PromptEnforcementMode = mode,
     cf_PromptFailClosedSurfaces = [CaptureSurfaceCursor], cf_PromptEnforcementOverride = []\<rparr>"

definition sample_service :: "string \<Rightarrow> (request_context \<Rightarrow> string + (decision \<times> string)) \<Rightarrow> prompt_service" where
  "sample_service mode route = \<lparr>sv_cfg = Some (sample_prompt_config mode),
     sv_router = \<lparr>ri_Route = route, ri_LookupRule = None, ri_PromptEnforcementOverride = None,
                  ri_PolicyVersion = None\<rparr>,
     sv_semantic = None, sv_metrics = None, sv_hasNotifier = True, sv_hasCleanup = True,
     sv_evaluations = [], sv_adapters = []\<rparr>"

definition sample_env :: prompt_env where
  "sample_env = \<lparr>pe_decoders = plain_decoders, pe_scanner = ssn_scanner, pe_now = 1000, pe_elapsed_ms = 3,
     pe_uid = ''ev-1'', pe_fmt2 = (\<lambda>_. ''0.00'')\<rparr>"

definition sample_prompt :: "string \<Rightarrow> prompt_evaluation_request" where
  "sample_prompt text = \<lparr>rq_PromptText = text, rq_Surface = CaptureSurfaceCursor, rq_AppName = [], rq_AppID = [],
     rq_AppPath = [], rq_DestinationURL = [], rq_DestinationHost = [], rq_DestinationPath = [],
     rq_Vendor = [], rq_ServiceCategory = [], rq_Protocol = [], rq_RequestID = [], rq_AdapterVersion = [],
     rq_Metadata = []\<rparr>"

lemma sample_evaluate_ok:
  "\<exists>resp ev. service_evaluate env (sample_service mode (\<lambda>_. Inr r)) req = Inr (resp, ev)"
  by (cases r) (auto simp: service_evaluate_def sample_service_def Let_def split: prod.splits)

lemma sample_modes:
  "enforcementModes (sample_service PromptEnforcementModeEnforce route) =
     (PromptEnforcementModeEnforce, PromptEnforcementModeEnforce)"
  "enforcementModes (sample_service PromptEnforcementModeAlert route) =
     (PromptEnforcementModeAlert, PromptEnforcementModeAlert)"
  "enforcementModes (sample_service PromptEnforcementModeMonitor route) =
     (PromptEnforcementModeMonitor, PromptEnforcementModeMonitor)"
proof -
  have n: "normalizeEnforcementMode PromptEnforcementModeEnforce f = PromptEnforcementModeEnforce"
    "normalizeEnforcementMode PromptEnforcementModeAlert f = PromptEnforcementModeAlert"
    "normalizeEnforcementMode PromptEnforcementModeMonitor f = PromptEnforcementModeMonitor"
    "normalizeEnforcementMode [] f = f" for f
    by (simp_all add: normalizeEnforcementMode_def go_string_defs)
  have t: "trim_space PromptEnforcementModeEnforce \<noteq> []" "trim_space PromptEnforcementModeAlert \<noteq> []"
    "trim_space PromptEnforcementModeMonitor \<noteq> []" by (simp_all add: go_string_defs)
  show "enforcementModes (sample_service PromptEnforcementModeEnforce route) =
     (PromptEnforcementModeEnforce, PromptEnforcementModeEnforce)"
   "enforcementModes (sample_service PromptEnforcementModeAlert route) =
     (PromptEnforcementModeAlert, PromptEnforcementModeAlert)"
   "enforcementModes (sample_service PromptEnforcementModeMonitor route) =
     (PromptEnforcementModeMonitor, PromptEnforcementModeMonitor)"
    by (simp_all add: enforcementModes_def sample_service_def sample_prompt_config_def n t Let_def)
qed

lemma sample_ai_context: "isPromptAIContext (sample_prompt text) ctx"
  by (simp add: isPromptAIContext_def sample_prompt_def)

lemma sample_credentials: "di_ContainsCredentials (prompt_scan sample_env (sample_prompt ''use ghp_abcd1234''))"
  by code_simp

theorem credentials_to_ai_blocked_witness:
  "\<exists>resp ev. service_evaluate sample_env
     (sample_service PromptEnforcementModeEnforce (\<lambda>_. Inr (DecisionForward, [])))
     (sample_prompt ''use ghp_abcd1234'') = Inr (resp, ev) \<and> rs_Decision resp = DecisionBlock"
proof -
  let ?s = "sample_service PromptEnforcementModeEnforce (\<lambda>_. Inr (DecisionForward, []))"
  obtain resp ev where r: "service_evaluate sample_env ?s (sample_prompt ''use ghp_abcd1234'') = Inr (resp, ev)"
    using sample_evaluate_ok by blast
  from credentials_to_ai_blocked[OF r sample_credentials sample_ai_context] r show ?thesis
    by (simp add: sample_modes)
qed

text \<open>
  C17. The stages after routing only tighten: outside monitor mode the decision returned is at
  least as strong as the one the router gave (forward, bypass, alert, block in this order), and
  the outcome is blocked exactly when the decision is to block.
\<close>

theorem prompt_stages_never_weaken:
  assumes "service_evaluate env s req = Inr (resp, ev)"
    and "ri_Route (sv_router s) ((prompt_context req)\<lparr>cx_DLP := prompt_scan env req\<rparr>) = Inr (d0, i0)"
    and "snd (enforcementModes s) \<noteq> PromptEnforcementModeMonitor"
  shows "d0 \<le> rs_Decision resp \<and> (rs_Outcome resp = CaptureOutcomeBlocked \<longleftrightarrow> rs_Decision resp = DecisionBlock)"
  by (rule service_evaluate_cases[OF assms(1)]) (use assms(2,3) verdict_mono[of d0 env s req i0] in simp)

theorem prompt_stages_never_weaken_witness:
  "\<exists>resp ev. service_evaluate sample_env
     (sample_service PromptEnforcementModeAlert (\<lambda>_. Inr (DecisionAlert, ''r'')))
     (sample_prompt ''hello'') = Inr (resp, ev) \<and> DecisionAlert \<le> rs_Decision resp"
proof -
  let ?s = "sample_service PromptEnforcementModeAlert (\<lambda>_. Inr (DecisionAlert, ''r''))"
  obtain resp ev where r: "service_evaluate sample_env ?s (sample_prompt ''hello'') = Inr (resp, ev)"
    using sample_evaluate_ok by blast
  have "ri_Route (sv_router ?s) ctx = Inr (DecisionAlert, ''r'')" for ctx by (simp add: sample_service_def)
  from prompt_stages_never_weaken[OF r this] r show ?thesis by (simp add: sample_modes)
qed

text \<open>
  In monitor mode no prompt is blocked, neither by an evaluation nor by the degraded answer
  after an evaluator failure; an evaluation that would have blocked says so.
\<close>

theorem monitor_mode_never_blocks:
  assumes "snd (enforcementModes s) = PromptEnforcementModeMonitor"
    and "handleEvaluate env sorter decoded s = (ReplyEvaluation resp, s', acts)"
  shows "rs_Decision resp \<noteq> DecisionBlock \<and> rs_Outcome resp \<noteq> CaptureOutcomeBlocked \<and>
    (\<forall>r. BlockCleanup r \<notin> set acts)"
proof -
  obtain req where req: "decodePromptEvaluationRequest decoded = Inr req"
    using assms(2) by (auto simp: handleEvaluate_def split: sum.splits)
  show ?thesis
  proof (cases "service_evaluate env s req")
    case (Inl err)
    with assms req show ?thesis
      by (auto simp: handleEvaluate_def Let_def fallbackEvaluationResponse_def split: prod.splits)
  next
    case (Inr p)
    obtain rp ev where p: "p = (rp, ev)" by fastforce
    have eq: "rp = resp" using assms(2) req Inr p by (simp add: handleEvaluate_def Let_def)
    note ev' = Inr[unfolded p eq]
    have nb: "rs_Decision resp \<noteq> DecisionBlock \<and> rs_Outcome resp \<noteq> CaptureOutcomeBlocked"
      by (rule service_evaluate_cases[OF ev']) (use assms(1) in \<open>auto split: if_splits\<close>)
    moreover have "BlockCleanup r \<notin> set acts" for r
      using assms(2) req ev' nb
      by (auto simp: handleEvaluate_def Let_def notifyUser_def split: if_splits)
    ultimately show ?thesis by blast
  qed
qed

theorem monitor_mode_never_blocks_witness:
  "\<exists>resp s' acts. handleEvaluate sample_env (\<lambda>x. x) (Inr (sample_prompt ''use ghp_abcd1234''))
     (sample_service PromptEnforcementModeMonitor (\<lambda>_. Inr (DecisionBlock, ''deny''))) =
       (ReplyEvaluation resp, s', acts) \<and> rs_Decision resp \<noteq> DecisionBlock"
proof -
  let ?s = "sample_service PromptEnforcementModeMonitor (\<lambda>_. Inr (DecisionBlock, ''deny''))"
  let ?d = "Inr (sample_prompt ''use ghp_abcd1234'') :: string + prompt_evaluation_request"
  have "decodePromptEvaluationRequest ?d = ?d" by code_simp
  moreover obtain rp ev where "service_evaluate sample_env ?s (sample_prompt ''use ghp_abcd1234'') = Inr (rp, ev)"
    using sample_evaluate_ok by blast
  ultimately obtain resp s' acts where h: "handleEvaluate sample_env (\<lambda>x. x) ?d ?s = (ReplyEvaluation resp, s', acts)"
    by (auto simp: handleEvaluate_def Let_def)
  have m: "snd (enforcementModes ?s) = PromptEnforcementModeMonitor" by (simp add: sample_modes)
  from monitor_mode_never_blocks[OF m h] h show ?thesis by blast
qed

text \<open>
  C31. When the evaluation itself fails, the handler still answers, and it blocks exactly when the
  effective mode is enforce and the request's surface is a configured fail-closed surface;
  otherwise the prompt proceeds and the answer is marked as degraded fail-open.
\<close>

theorem evaluator_failure_fail_closed_iff:
  assumes "decodePromptEvaluationRequest decoded = Inr req" and "service_evaluate env s req = Inl err"
  shows "\<exists>resp s'. handleEvaluate env sorter decoded s = (ReplyEvaluation resp, s', []) \<and> rs_Degraded resp \<and>
    (rs_Decision resp = DecisionBlock \<longleftrightarrow>
       snd (enforcementModes s) = PromptEnforcementModeEnforce \<and>
       (\<exists>c. sv_cfg s = Some c \<and> rq_Surface req \<in> set (cf_PromptFailClosedSurfaces c))) \<and>
    (rs_Decision resp \<noteq> DecisionBlock \<longrightarrow>
       rs_Decision resp = DecisionForward \<and> rs_Outcome resp = CaptureOutcomeDegradedFailOpen)"
proof -
  have "capture_surface_Valid (rq_Surface req)"
    using assms(1) by (auto simp: decodePromptEvaluationRequest_def Let_def split: sum.splits if_splits)
  then have "surfaceFailsClosed s (rq_Surface req) \<longleftrightarrow>
      (\<exists>c. sv_cfg s = Some c \<and> rq_Surface req \<in> set (cf_PromptFailClosedSurfaces c))"
    by (cases "sv_cfg s") (simp_all add: surfaceFailsClosed_def failClosedSurfaces_def)
  then show ?thesis
    using assms by (simp add: handleEvaluate_def Let_def fallbackEvaluationResponse_def split: prod.splits) blast
qed

theorem evaluator_failure_fail_closed_iff_witness:
  "\<exists>resp s'. handleEvaluate sample_env (\<lambda>x. x) (Inr (sample_prompt ''hello''))
     (sample_service PromptEnforcementModeEnforce (\<lambda>_. Inl ''engine down'')) = (ReplyEvaluation resp, s', []) \<and>
     rs_Decision resp = DecisionBlock"
proof -
  let ?s = "sample_service PromptEnforcementModeEnforce (\<lambda>_. Inl ''engine down'')"
  let ?d = "Inr (sample_prompt ''hello'') :: string + prompt_evaluation_request"
  have d: "decodePromptEvaluationRequest ?d = ?d" by code_simp
  have e: "service_evaluate sample_env ?s (sample_prompt ''hello'') = Inl ''engine down''"
    by (simp add: service_evaluate_def sample_service_def Let_def)
  have "rq_Surface (sample_prompt ''hello'') \<in> set (cf_PromptFailClosedSurfaces (the (sv_cfg ?s)))"
    by (simp add: sample_service_def sample_prompt_config_def sample_prompt_def)
  moreover have "sv_cfg ?s = Some (the (sv_cfg ?s))" by (simp add: sample_service_def)
  ultimately show ?thesis
    using evaluator_failure_fail_closed_iff[OF d e, of "\<lambda>x. x"] by (auto simp: sample_modes)
qed

text \<open>
  The store of evaluations is bounded and keeps what an outcome report needs: after storing
  an evaluation there are at most 4096 entries, none older than the retention, every entry kept
  was there before or is the new one, and the new evaluation is found under its identifier
  when every other stored evaluation is older.
\<close>

theorem evaluation_store_bounded_and_found:
  assumes "slice_sort (\<lambda>x. ev_At (snd x)) sorter" and "distinct (map fst (sv_evaluations s))"
    and "\<forall>(j, f)\<in>set (sv_evaluations s). ev_At f < ev_At eval" and "ev_At eval = now"
    and "rs_EvaluationID (ev_Response eval) = i" and "trim_space i = i" and "i \<noteq> []"
  shows "length (sv_evaluations (storeEvaluation sorter now eval s)) \<le> 4096 \<and>
    set (sv_evaluations (storeEvaluation sorter now eval s)) \<subseteq> insert (i, eval) (set (sv_evaluations s)) \<and>
    (\<forall>(j, f)\<in>set (sv_evaluations (storeEvaluation sorter now eval s)). now - evalRetention \<le> ev_At f) \<and>
    distinct (map fst (sv_evaluations (storeEvaluation sorter now eval s))) \<and>
    fst (loadEvaluation now i (storeEvaluation sorter now eval s)) = Some eval"
proof -
  have st: "evaluation_store sorter" using assms(1) by (simp add: evaluation_store_def)
  define es where "es = (i, eval) # filter (\<lambda>(j, _). j \<noteq> i) (sv_evaluations s)"
  have eq: "sv_evaluations (storeEvaluation sorter now eval s) = pruneEvaluations sorter now es"
    by (simp add: storeEvaluation_def es_def assms(5))
  have dist: "distinct (map fst es)" unfolding es_def by (rule distinct_upsert[OF assms(2)])
  have dp: "distinct (map fst (pruneEvaluations sorter now es))"
    using dist by (auto simp: pruneEvaluations_def Let_def distinct_map inj_on_def)
  have "(i, eval) \<in> set (pruneEvaluations sorter now es)"
    by (rule evaluation_store.prune_keeps_newest[OF st _ dist])
       (use assms(3,4) in \<open>auto simp: es_def evalRetention_def second_def\<close>)
  then have "map_of (pruneEvaluations sorter now es) i = Some eval" using dp by simp
  then have "fst (loadEvaluation now i (storeEvaluation sorter now eval s)) = Some eval"
    using assms(4,6,7) by (simp add: loadEvaluation_def eq Let_def evalRetention_def second_def)
  moreover have "set (pruneEvaluations sorter now es) \<subseteq> insert (i, eval) (set (sv_evaluations s))"
    using evaluation_store.prune_subset[OF st, of now es] by (auto simp: es_def)
  ultimately show ?thesis
    using evaluation_store.prune_length[OF st, of now es] evaluation_store.prune_fresh[OF st] dp
    unfolding eq maxEvalEntries_def by auto
qed

theorem evaluation_store_bounded_and_found_witness:
  "\<exists>ev. fst (loadEvaluation 1000 ''ev-1'' (storeEvaluation (sort_key (\<lambda>x. ev_At (snd x))) 1000 ev
      (sample_service PromptEnforcementModeAlert (\<lambda>_. Inr (DecisionForward, []))))) = Some ev"
proof -
  let ?s = "sample_service PromptEnforcementModeAlert (\<lambda>_. Inr (DecisionForward, []))"
  obtain resp ev where r: "service_evaluate sample_env ?s (sample_prompt ''hello'') = Inr (resp, ev)"
    using sample_evaluate_ok by blast
  have e: "ev_At ev = 1000" "rs_EvaluationID (ev_Response ev) = ''ev-1''"
    by (rule service_evaluate_cases[OF r], simp add: sample_env_def)+
  have t: "trim_space ''ev-1'' = ''ev-1''" by code_simp
  have "sv_evaluations ?s = []" by (simp add: sample_service_def)
  then show ?thesis
    using evaluation_store_bounded_and_found[OF insertion.slice_sort_axioms _ _ e t, of ?s] by auto
qed

text \<open>
  The effective enforcement mode is always one of the three modes, and the sources have a
  fixed precedence: a valid remote override wins over a valid local override, which wins over the
  configured mode; an invalid or empty value is ignored, and the default is alert.
\<close>

theorem effective_mode_precedence:
  fixes s :: prompt_service
  defines "remote \<equiv> (case ri_PromptEnforcementOverride (sv_router s) of Some v \<Rightarrow> to_lower (trim_space v) | None \<Rightarrow> [])"
    and "override \<equiv> (case sv_cfg s of Some c \<Rightarrow> to_lower (trim_space (cf_PromptEnforcementOverride c)) | None \<Rightarrow> [])"
    and "configured \<equiv> (case sv_cfg s of Some c \<Rightarrow> to_lower (trim_space (cf_PromptEnforcementMode c)) | None \<Rightarrow> [])"
    and "modes \<equiv> {PromptEnforcementModeMonitor, PromptEnforcementModeAlert, PromptEnforcementModeEnforce}"
  shows "snd (enforcementModes s) =
    (if remote \<in> modes then remote else if override \<in> modes then override
     else if configured \<in> modes then configured else PromptEnforcementModeAlert)"
proof -
  have n: "normalizeEnforcementMode v f = (if to_lower (trim_space v) \<in> modes then to_lower (trim_space v) else f)" for v f
    by (simp add: normalizeEnforcementMode_def Let_def modes_def)
  have e: "[] \<notin> modes" by (simp add: modes_def)
  show ?thesis
    using e by (cases "sv_cfg s"; cases "ri_PromptEnforcementOverride (sv_router s)")
      (auto simp: enforcementModes_def n remote_def override_def configured_def Let_def to_lower_trim_space[symmetric])
qed

text \<open>
  The enforcement label of a response does not describe the response: in alert mode a prompt
  on a browser or coding surface whose verdict is to block is answered with a block, while the
  label says alert only; on the surfaces labelled would-block (Windsurf, GitHub Copilot) the
  answer is also a block.
\<close>

theorem alert_mode_blocks_under_alert_label:
  assumes "service_evaluate env s req = Inr (resp, ev)"
    and "ri_Route (sv_router s) ((prompt_context req)\<lparr>cx_DLP := prompt_scan env req\<rparr>) = Inr (DecisionBlock, i0)"
    and "snd (enforcementModes s) = PromptEnforcementModeAlert" and "capture_surface_Valid (rq_Surface req)"
    and "rq_Surface req \<noteq> CaptureSurfaceDesktop"
  shows "rs_Decision resp = DecisionBlock \<and>
    rs_SurfaceEnforcement resp =
      (if rq_Surface req \<in> {CaptureSurfaceWindsurf, CaptureSurfaceGitHubCopilot}
       then SurfaceEnforcementWouldBlock else SurfaceEnforcementAlertOnly)"
  by (rule service_evaluate_cases[OF assms(1)])
     (use assms(2-5) verdict_mono[of DecisionBlock env s req i0] in \<open>auto simp: surfaceEnforcement_def Let_def\<close>)

theorem alert_mode_blocks_under_alert_label_witness:
  "\<exists>resp ev. service_evaluate sample_env
     (sample_service PromptEnforcementModeAlert (\<lambda>_. Inr (DecisionBlock, ''deny'')))
     (sample_prompt ''hello'') = Inr (resp, ev) \<and>
     rs_Decision resp = DecisionBlock \<and> rs_SurfaceEnforcement resp = SurfaceEnforcementAlertOnly"
proof -
  let ?s = "sample_service PromptEnforcementModeAlert (\<lambda>_. Inr (DecisionBlock, ''deny''))"
  obtain resp ev where r: "service_evaluate sample_env ?s (sample_prompt ''hello'') = Inr (resp, ev)"
    using sample_evaluate_ok by blast
  have rt: "ri_Route (sv_router ?s) ctx = Inr (DecisionBlock, ''deny'')" for ctx by (simp add: sample_service_def)
  have sf: "rq_Surface (sample_prompt ''hello'') = CaptureSurfaceCursor" by (simp add: sample_prompt_def)
  from alert_mode_blocks_under_alert_label[OF r rt] r show ?thesis
    by (simp add: sample_modes sf capture_surface_Valid_def capture_surfaces_def)
qed

end
