(* ===== verification/Agent_Config.thy ===== *)
theory Agent_Config
  imports Domain_Types Go_Stdlib
begin

text \<open>
  The agent's configuration (\<^verbatim>\<open>src/core/config\<close>): \<^verbatim>\<open>applyDefaults\<close>, \<^verbatim>\<open>validate\<close> with its in-place
  normalisation, and the manager that loads, stores, reloads and hands out the configuration.

  \<^verbatim>\<open>validate\<close> changes the configuration it checks, so the model returns the list of violations
  together with the changed configuration. Decoding the JSON document (\<^verbatim>\<open>json.Unmarshal\<close> into the
  mirror struct, whose fields \<^verbatim>\<open>toDomain\<close> copies one by one) is the parameter \<open>decode\<close>. Callbacks
  are identified by numbers, and calling one appends to the trace of the manager.
\<close>

section \<open>Errors\<close>

datatype config_error =
    GatewayURLInvalid
  | GatewayURLNotHTTPS
  | ListenAddrRequired
  | ListenAddrInvalid
  | ListenAddrNotLoopback
  | PromptListenAddrInvalid
  | PromptListenAddrNotLoopback
  | FailModeInvalid
  | CaptureModeInvalid
  | ProtocolInvalid string
  | ProtocolsEmpty
  | DomainNotHostOnly string
  | DomainHasPath string
  | DomainInvalid string
  | PolicySyncIntervalRange
  | TelemetryFlushIntervalRange
  | SemanticsPolicyRequired
  | SemanticsLocalTimeoutRange
  | SemanticsGatewayTimeoutRange
  | SemanticsBlockThresholdRange
  | SemanticsAlertThresholdRange
  | SemanticsAmbiguousThresholdRange
  | SemanticsAlertAboveBlock
  | SemanticsAmbiguousAboveAlert
  | SemanticsLocalURLInvalid
  | SemanticsLocalURLNotHTTP
  | SemanticsLocalURLNotLoopback
  | EnforcementModeInvalid
  | EnforcementOverrideInvalid
  | FailClosedSurfaceInvalid string
  | MaxConcurrentConnsRange
  | CredentialPathRequired string

datatype load_error =
    ReadConfig string
  | ParseConfig string
  | ValidateConfig string "config_error list"

section \<open>Defaults\<close>

definition millisecond :: duration where
  "millisecond = 10 ^ 6"

definition newline :: string where
  "newline = [CHR 0x0A]"

definition defaultBlockPage :: string where
  "defaultBlockPage = join_with newline
    [''<!DOCTYPE html>'',
     ''<html>'',
     ''<head><title>Request Blocked</title></head>'',
     ''<body>'',
     ''<h1>Request Blocked</h1>'',
     ''<p>This request has been blocked by your organisation'' @ [CHR 0x27] @
     ''s traffic governance policy.</p>'',
     ''</body>'',
     ''</html>'']"

definition defaultPromptSemanticsPolicy :: string where
  "defaultPromptSemanticsPolicy =
     ''Block unsafe corporate AI use, including prompts that expose credentials, secrets, source code, '' @
     ''customer data, employee data, regulated records, private keys, access tokens, production logs, '' @
     ''or attempts to use unsanctioned AI tools for sensitive work. Allow approved business assistance, '' @
     ''drafting, summarization, brainstorming, and debugging when sensitive data has been removed.''"

definition defaultFailClosedSurfaces :: "string list" where
  "defaultFailClosedSurfaces = [CaptureSurfaceBrowserChromium, CaptureSurfaceBrowserFirefox,
     CaptureSurfaceBrowserSafari, CaptureSurfaceClaudeCode, CaptureSurfaceCursor]"

abbreviation oldClassifyURL :: string where "oldClassifyURL \<equiv> ''http://127.0.0.1:17176/v1/classify''"
abbreviation classifyURL :: string where "classifyURL \<equiv> ''http://127.0.0.1:17177/v1/classify''"

text \<open>One assignment of \<^verbatim>\<open>applyDefaults\<close>: the field keeps its value unless it is the zero value.\<close>

definition or_default :: "'a \<Rightarrow> 'a \<Rightarrow> 'a \<Rightarrow> 'a" where
  "or_default zero d x = (if x = zero then d else x)"

definition applyDefaults :: "agent_config \<Rightarrow> agent_config" where
  "applyDefaults cfg = cfg
    \<lparr>cf_ListenAddr := or_default [] ''127.0.0.1:8080'' (cf_ListenAddr cfg),
     cf_HTTPSInterceptFailMode := or_default [] HTTPSInterceptFailOpen (cf_HTTPSInterceptFailMode cfg),
     cf_HTTPSInterceptProtocols := or_default [] [InterceptProtocolHTTP] (cf_HTTPSInterceptProtocols cfg),
     cf_HTTPSInterceptCaptureMode :=
       or_default [] InterceptCaptureModeEncryptedFullBody (cf_HTTPSInterceptCaptureMode cfg),
     cf_PolicySyncInterval := or_default 0 (60 * second) (cf_PolicySyncInterval cfg),
     cf_TelemetryFlushInterval := or_default 0 (30 * second) (cf_TelemetryFlushInterval cfg),
     cf_MaxConcurrentConns := or_default 0 1000 (cf_MaxConcurrentConns cfg),
     cf_ShutdownTimeout := or_default 0 (30 * second) (cf_ShutdownTimeout cfg),
     cf_BlockPageBody := or_default [] defaultBlockPage (cf_BlockPageBody cfg),
     cf_InitialBackoff := or_default 0 second (cf_InitialBackoff cfg),
     cf_MaxBackoff := or_default 0 (60 * second) (cf_MaxBackoff cfg),
     cf_BackoffMultiplier := or_default 0 2 (cf_BackoffMultiplier cfg),
     cf_JitterFraction := or_default 0 (2 / 10) (cf_JitterFraction cfg),
     cf_MaxRetries := or_default 0 5 (cf_MaxRetries cfg),
     cf_CircuitBreakerThreshold := or_default 0 10 (cf_CircuitBreakerThreshold cfg),
     cf_CircuitBreakerCooldown := or_default 0 (120 * second) (cf_CircuitBreakerCooldown cfg),
     cf_HealthCheckInterval := or_default 0 (30 * second) (cf_HealthCheckInterval cfg),
     cf_IntegrityCheckInterval := or_default 0 (30 * second) (cf_IntegrityCheckInterval cfg),
     cf_PromptSemanticsPolicy := or_default [] defaultPromptSemanticsPolicy (cf_PromptSemanticsPolicy cfg),
     cf_PromptSemanticsLocalURL :=
       (if cf_PromptSemanticsLocalURL cfg = [] \<or> cf_PromptSemanticsLocalURL cfg = oldClassifyURL
        then classifyURL else cf_PromptSemanticsLocalURL cfg),
     cf_PromptSemanticsLocalTimeout := or_default 0 (1500 * millisecond) (cf_PromptSemanticsLocalTimeout cfg),
     cf_PromptSemanticsGatewayTimeout := or_default 0 (900 * millisecond) (cf_PromptSemanticsGatewayTimeout cfg),
     cf_PromptSemanticsBlockThreshold := or_default 0 (68 / 100) (cf_PromptSemanticsBlockThreshold cfg),
     cf_PromptSemanticsAlertThreshold := or_default 0 (55 / 100) (cf_PromptSemanticsAlertThreshold cfg),
     cf_PromptSemanticsAmbiguousThreshold := or_default 0 (55 / 100) (cf_PromptSemanticsAmbiguousThreshold cfg),
     cf_PromptEnforcementMode := or_default [] PromptEnforcementModeAlert (cf_PromptEnforcementMode cfg),
     cf_PromptFailClosedSurfaces := or_default [] defaultFailClosedSurfaces (cf_PromptFailClosedSurfaces cfg)\<rparr>"

section \<open>Validation\<close>

definition err_if :: "bool \<Rightarrow> config_error \<Rightarrow> config_error list" where
  "err_if b e = (if b then [e] else [])"

text \<open>\<open>ip == nil || !ip.IsLoopback()\<close>, negated.\<close>

definition loopback_host :: "string \<Rightarrow> bool" where
  "loopback_host h = (case parse_ip h of None \<Rightarrow> False | Some ip \<Rightarrow> ip_is_loopback ip)"

definition gateway_url_errors :: "string \<Rightarrow> config_error list" where
  "gateway_url_errors s =
    (if s = [] then []
     else case url_parse s of
       None \<Rightarrow> [GatewayURLInvalid]
     | Some u \<Rightarrow> err_if (ur_Scheme u \<noteq> ''https'') GatewayURLNotHTTPS)"

definition listen_addr_errors :: "string \<Rightarrow> config_error list" where
  "listen_addr_errors s =
    (if s = [] then [ListenAddrRequired]
     else case split_host_port s of
       None \<Rightarrow> [ListenAddrInvalid]
     | Some (h, _) \<Rightarrow> err_if (\<not> loopback_host h) ListenAddrNotLoopback)"

definition prompt_addr_errors :: "string \<Rightarrow> config_error list" where
  "prompt_addr_errors s =
    (if s = [] then []
     else case split_host_port s of
       None \<Rightarrow> [PromptListenAddrInvalid]
     | Some (h, _) \<Rightarrow> err_if (\<not> loopback_host h) PromptListenAddrNotLoopback)"

text \<open>
  The three loops that rebuild a list: the violations and the kept entries, with the entries seen
  so far.
\<close>

definition interceptProtocolNames :: "string list" where
  "interceptProtocolNames = [InterceptProtocolHTTP, InterceptProtocolWebSocket, InterceptProtocolGRPC]"

fun protocol_loop :: "string list \<Rightarrow> string list \<Rightarrow> config_error list \<times> string list" where
  "protocol_loop seen [] = ([], [])"
| "protocol_loop seen (raw # rest) =
    (let p = canon raw in
     if p = [] then protocol_loop seen rest
     else if p \<notin> set interceptProtocolNames then
       (let (es, out) = protocol_loop seen rest in (ProtocolInvalid raw # es, out))
     else if p \<in> set seen then protocol_loop seen rest
     else (let (es, out) = protocol_loop (p # seen) rest in (es, p # out)))"

definition domain_check :: "string \<Rightarrow> string \<Rightarrow> config_error option" where
  "domain_check raw host =
    (if contains host ''://'' then Some (DomainNotHostOnly raw)
     else if contains host ''/'' then Some (DomainHasPath raw)
     else
       let parsedHost = (case split_host_port host of Some (h, _) \<Rightarrow> h | None \<Rightarrow> host) in
       if parsedHost = [] then Some (DomainInvalid raw)
       else if parse_ip parsedHost = None \<and> [] \<in> set (split_on (CHR ''.'') parsedHost)
       then Some (DomainInvalid raw)
       else None)"

fun domain_loop :: "string list \<Rightarrow> string list \<Rightarrow> config_error list \<times> string list" where
  "domain_loop seen [] = ([], [])"
| "domain_loop seen (raw # rest) =
    (let host = canon raw in
     if host = [] then domain_loop seen rest
     else case domain_check raw host of
       Some e \<Rightarrow> (let (es, out) = domain_loop seen rest in (e # es, out))
     | None \<Rightarrow>
        if host \<in> set seen then domain_loop seen rest
        else (let (es, out) = domain_loop (host # seen) rest in (es, host # out)))"

fun surface_loop :: "string list \<Rightarrow> string list \<Rightarrow> config_error list \<times> string list" where
  "surface_loop seen [] = ([], [])"
| "surface_loop seen (s # rest) =
    (if \<not> capture_surface_Valid s then
       (let (es, out) = surface_loop seen rest in (FailClosedSurfaceInvalid s # es, out))
     else if s \<in> set seen then surface_loop seen rest
     else (let (es, out) = surface_loop (s # seen) rest in (es, s # out)))"

definition outside :: "'a::linorder \<Rightarrow> 'a \<Rightarrow> 'a \<Rightarrow> bool" where
  "outside lo hi x = (x < lo \<or> hi < x)"

definition interval_errors :: "agent_config \<Rightarrow> config_error list" where
  "interval_errors cfg =
     err_if (cf_PolicySyncInterval cfg \<noteq> 0 \<and>
             outside (10 * second) (3600 * second) (cf_PolicySyncInterval cfg)) PolicySyncIntervalRange @
     err_if (cf_TelemetryFlushInterval cfg \<noteq> 0 \<and>
             outside (5 * second) (300 * second) (cf_TelemetryFlushInterval cfg)) TelemetryFlushIntervalRange"

definition bad_threshold :: "real \<Rightarrow> bool" where
  "bad_threshold t = (t \<le> 0 \<or> 1 < t)"

definition local_url_errors :: "string \<Rightarrow> config_error list" where
  "local_url_errors url =
    (let raw = trim_space url in
     if raw = [] then []
     else case url_parse raw of
       None \<Rightarrow> [SemanticsLocalURLInvalid]
     | Some u \<Rightarrow>
        if ur_Scheme u \<noteq> ''http'' then [SemanticsLocalURLNotHTTP]
        else err_if (\<not> loopback_host (url_Hostname u)) SemanticsLocalURLNotLoopback)"

definition semantics_errors :: "agent_config \<Rightarrow> config_error list" where
  "semantics_errors cfg =
    (if \<not> cf_PromptSemanticsEnabled cfg then []
     else
       err_if (trim_space (cf_PromptSemanticsPolicy cfg) = []) SemanticsPolicyRequired @
       err_if (outside (50 * millisecond) (2 * second) (cf_PromptSemanticsLocalTimeout cfg))
         SemanticsLocalTimeoutRange @
       err_if (outside (100 * millisecond) (30 * second) (cf_PromptSemanticsGatewayTimeout cfg))
         SemanticsGatewayTimeoutRange @
       err_if (bad_threshold (cf_PromptSemanticsBlockThreshold cfg)) SemanticsBlockThresholdRange @
       err_if (bad_threshold (cf_PromptSemanticsAlertThreshold cfg)) SemanticsAlertThresholdRange @
       err_if (bad_threshold (cf_PromptSemanticsAmbiguousThreshold cfg)) SemanticsAmbiguousThresholdRange @
       err_if (cf_PromptSemanticsBlockThreshold cfg < cf_PromptSemanticsAlertThreshold cfg)
         SemanticsAlertAboveBlock @
       err_if (cf_PromptSemanticsAlertThreshold cfg < cf_PromptSemanticsAmbiguousThreshold cfg)
         SemanticsAmbiguousAboveAlert @
       local_url_errors (cf_PromptSemanticsLocalURL cfg))"

definition enforcementModeNames :: "string list" where
  "enforcementModeNames =
     [PromptEnforcementModeMonitor, PromptEnforcementModeAlert, PromptEnforcementModeEnforce]"

definition credential_errors :: "agent_config \<Rightarrow> config_error list" where
  "credential_errors cfg =
    (if cf_CertPath cfg \<noteq> [] \<or> cf_KeyPath cfg \<noteq> [] \<or> cf_CAPath cfg \<noteq> [] then
       concat (map (\<lambda>(name, path). err_if (path = []) (CredentialPathRequired name))
         [(''cert_path'', cf_CertPath cfg), (''key_path'', cf_KeyPath cfg), (''ca_path'', cf_CAPath cfg)])
     else [])"

definition validate :: "agent_config \<Rightarrow> config_error list \<times> agent_config" where
  "validate cfg =
    (let failMode = canon (cf_HTTPSInterceptFailMode cfg);
         captureMode = canon (cf_HTTPSInterceptCaptureMode cfg);
         (protocolErrs, protocols) = protocol_loop [] (cf_HTTPSInterceptProtocols cfg);
         (domainErrs, domains) = domain_loop [] (cf_HTTPSInterceptDomains cfg);
         mode = canon (cf_PromptEnforcementMode cfg);
         override = canon (cf_PromptEnforcementOverride cfg);
         (surfaceErrs, surfaces) = surface_loop [] (cf_PromptFailClosedSurfaces cfg)
     in (gateway_url_errors (cf_GatewayURL cfg) @
         listen_addr_errors (cf_ListenAddr cfg) @
         prompt_addr_errors (cf_PromptCaptureListenAddr cfg) @
         err_if (failMode \<notin> {HTTPSInterceptFailOpen, HTTPSInterceptFailClosed}) FailModeInvalid @
         err_if (captureMode \<noteq> InterceptCaptureModeEncryptedFullBody) CaptureModeInvalid @
         protocolErrs @
         err_if (protocols = []) ProtocolsEmpty @
         domainErrs @
         interval_errors cfg @
         semantics_errors cfg @
         err_if (mode \<notin> set enforcementModeNames \<and> mode \<noteq> []) EnforcementModeInvalid @
         err_if (override \<notin> set enforcementModeNames \<and> override \<noteq> []) EnforcementOverrideInvalid @
         surfaceErrs @
         err_if (cf_MaxConcurrentConns cfg \<noteq> 0 \<and> outside 1 65535 (cf_MaxConcurrentConns cfg))
           MaxConcurrentConnsRange @
         credential_errors cfg,
         cfg\<lparr>cf_HTTPSInterceptFailMode := failMode, cf_HTTPSInterceptCaptureMode := captureMode,
             cf_HTTPSInterceptProtocols := protocols, cf_HTTPSInterceptDomains := domains,
             cf_PromptEnforcementMode := mode, cf_PromptEnforcementOverride := override,
             cf_PromptFailClosedSurfaces := surfaces\<rparr>))"

section \<open>Decoding a decision\<close>

text \<open>
  \<^verbatim>\<open>jsonDecision.UnmarshalJSON\<close> on a decoded JSON value: \<^verbatim>\<open>null\<close> leaves the string empty, any
  other value that is not a string is an error.
\<close>

definition jsonDecision_UnmarshalJSON :: "goval \<Rightarrow> decision option" where
  "jsonDecision_UnmarshalJSON v =
    (case (case v of VString s \<Rightarrow> Some s | VNil \<Rightarrow> Some [] | _ \<Rightarrow> None) of
       None \<Rightarrow> None
     | Some s \<Rightarrow>
        (let l = to_lower s in
         if l = ''forward'' then Some DecisionForward
         else if l = ''bypass'' then Some DecisionBypass
         else if l = ''block'' then Some DecisionBlock
         else None))"

section \<open>The manager\<close>

text \<open>A registered callback, by its identity.\<close>

type_synonym watcher = nat

record config_manager =
  mg_cfg :: "agent_config option"
  mg_watchers :: "watcher list"
  mg_calls :: "(watcher \<times> agent_config) list"

text \<open>What \<^verbatim>\<open>ConfigBytes\<close> returns: the origin label, and the bytes unless reading failed.\<close>

type_synonym config_read = "string \<times> string option"

definition notifyWatchers :: "agent_config \<Rightarrow> config_manager \<Rightarrow> config_manager" where
  "notifyWatchers cfg m = m\<lparr>mg_calls := mg_calls m @ map (\<lambda>w. (w, cfg)) (mg_watchers m)\<rparr>"

definition manager_load :: "(string \<Rightarrow> agent_config option) \<Rightarrow> config_read \<Rightarrow> config_manager
    \<Rightarrow> load_error option \<times> config_manager" where
  "manager_load decode read m =
    (case read of
       (origin, None) \<Rightarrow> (Some (ReadConfig origin), m)
     | (origin, Some raw) \<Rightarrow>
        (case decode raw of
           None \<Rightarrow> (Some (ParseConfig origin), m)
         | Some cfg0 \<Rightarrow>
            (let (errs, cfg) = validate (applyDefaults cfg0) in
             if errs \<noteq> [] then (Some (ValidateConfig origin errs), m)
             else (None, notifyWatchers cfg (m\<lparr>mg_cfg := Some cfg\<rparr>)))))"

definition unloaded_manager :: "config_manager" where
  "unloaded_manager = \<lparr>mg_cfg = None, mg_watchers = [], mg_calls = []\<rparr>"

definition NewManager :: "(string \<Rightarrow> agent_config option) \<Rightarrow> config_read
    \<Rightarrow> load_error + config_manager" where
  "NewManager decode read =
    (case manager_load decode read unloaded_manager of
       (Some e, _) \<Rightarrow> Inl e
     | (None, m) \<Rightarrow> Inr m)"

definition manager_Get :: "config_manager \<Rightarrow> agent_config option" where
  "manager_Get m = mg_cfg m"

definition manager_Watch :: "watcher \<Rightarrow> config_manager \<Rightarrow> config_manager" where
  "manager_Watch w m = m\<lparr>mg_watchers := mg_watchers m @ [w]\<rparr>"

definition manager_Reload :: "(string \<Rightarrow> agent_config option) \<Rightarrow> config_read \<Rightarrow> config_manager
    \<Rightarrow> load_error option \<times> config_manager" where
  "manager_Reload decode read m = manager_load decode read m"

text \<open>
  \<^verbatim>\<open>Validate\<close> runs \<^verbatim>\<open>validate\<close> on the stored pointer, so it writes the normalised fields into the
  configuration every reader shares. \<^verbatim>\<open>Get\<close> panics on a manager that was never loaded, which
  \<^verbatim>\<open>NewManager\<close> does not hand out; the model returns \<^term>\<open>None\<close> there.
\<close>

definition manager_Validate :: "config_manager \<Rightarrow> config_error list option \<times> config_manager" where
  "manager_Validate m =
    (case mg_cfg m of
       None \<Rightarrow> (None, m)
     | Some c \<Rightarrow> (let (errs, c') = validate c in (Some errs, m\<lparr>mg_cfg := Some c'\<rparr>)))"

datatype manager_op = OpWatch watcher | OpReload config_read | OpValidate

fun manager_exec :: "(string \<Rightarrow> agent_config option) \<Rightarrow> manager_op \<Rightarrow> config_manager
    \<Rightarrow> config_manager" where
  "manager_exec decode (OpWatch w) m = manager_Watch w m"
| "manager_exec decode (OpReload read) m = snd (manager_Reload decode read m)"
| "manager_exec decode OpValidate m = snd (manager_Validate m)"

section \<open>The normalising loops\<close>

text \<open>
  The three loops have one shape: normalise an entry, skip it, reject it, or keep its normal form
  unless that was kept before. What they promise is proved once: the kept entries are exactly the
  accepted normal forms, each once, and running the loop on its own output changes nothing.
\<close>

locale normalising_loop =
  fixes norm :: "string \<Rightarrow> string"
    and skip :: "string \<Rightarrow> bool"
    and check :: "string \<Rightarrow> string \<Rightarrow> config_error option"
    and loop :: "string list \<Rightarrow> string list \<Rightarrow> config_error list \<times> string list"
  assumes loop_Nil: "loop seen [] = ([], [])"
    and loop_Cons: "loop seen (raw # rest) =
      (let h = norm raw in
       if skip h then loop seen rest
       else case check raw h of
         Some e \<Rightarrow> (e # fst (loop seen rest), snd (loop seen rest))
       | None \<Rightarrow> if h \<in> set seen then loop seen rest
                 else (fst (loop (h # seen) rest), h # snd (loop (h # seen) rest)))"
    and norm_idem: "norm (norm x) = norm x"
    and check_raw: "check r h = None \<Longrightarrow> check r' h = None"
begin

definition accepted :: "string list \<Rightarrow> string set" where
  "accepted raws = {norm r | r. r \<in> set raws \<and> \<not> skip (norm r) \<and> check r (norm r) = None}"

lemma accepted_Cons: "accepted (r # rs) =
  (if \<not> skip (norm r) \<and> check r (norm r) = None then insert (norm r) (accepted rs) else accepted rs)"
  by (auto simp: accepted_def)

lemma loop_out: "distinct (snd (loop seen raws)) \<and> set (snd (loop seen raws)) = accepted raws - set seen"
proof (induction raws arbitrary: seen)
  case (Cons r rs)
  show ?case
    by (auto simp: loop_Cons Let_def accepted_Cons Cons split: option.split)
qed (simp add: loop_Nil accepted_def)

lemma accepted_normal: "x \<in> accepted raws \<Longrightarrow> norm x = x \<and> \<not> skip x \<and> check x x = None"
  by (auto simp: accepted_def norm_idem intro: check_raw)

lemma loop_normal:
  "distinct xs \<Longrightarrow> set xs \<inter> set seen = {} \<Longrightarrow>
   \<forall>x\<in>set xs. norm x = x \<and> \<not> skip x \<and> check x x = None \<Longrightarrow> loop seen xs = ([], xs)"
  by (induction xs arbitrary: seen) (simp_all add: loop_Nil loop_Cons)

lemma loop_idem: "loop [] (snd (loop [] raws)) = ([], snd (loop [] raws))"
  by (rule loop_normal) (use loop_out[of "[]" raws] accepted_normal in auto)

end

definition protocol_check :: "string \<Rightarrow> string \<Rightarrow> config_error option" where
  "protocol_check raw p = (if p \<notin> set interceptProtocolNames then Some (ProtocolInvalid raw) else None)"

definition surface_check :: "string \<Rightarrow> string \<Rightarrow> config_error option" where
  "surface_check raw s = (if \<not> capture_surface_Valid s then Some (FailClosedSurfaceInvalid raw) else None)"

lemma protocol_check_None: "protocol_check raw p = None \<longleftrightarrow> p \<in> set interceptProtocolNames"
  by (simp add: protocol_check_def)

lemma surface_check_None: "surface_check raw s = None \<longleftrightarrow> capture_surface_Valid s"
  by (simp add: surface_check_def)

interpretation protocols: normalising_loop canon "\<lambda>p. p = []" protocol_check protocol_loop
  by unfold_locales (auto simp: protocol_check_def Let_def case_prod_beta split: if_splits)

lemma domain_check_raw: "domain_check r h = None \<Longrightarrow> domain_check r' h = None"
  by (simp add: domain_check_def Let_def split: if_splits option.splits)

interpretation domains: normalising_loop canon "\<lambda>h. h = []" domain_check domain_loop
  by unfold_locales (auto simp: Let_def case_prod_beta intro: domain_check_raw split: option.split)

interpretation surfaces: normalising_loop "\<lambda>s. s" "\<lambda>_. False" surface_check surface_loop
  by unfold_locales (auto simp: surface_check_def case_prod_beta split: if_splits)

section \<open>Lemmas on defaults and validation\<close>

lemma or_default_idem [simp]: "or_default z d (or_default z d x) = or_default z d x"
  by (simp add: or_default_def)

lemma or_default_nonzero [simp]: "d \<noteq> z \<Longrightarrow> or_default z d x \<noteq> z"
  by (simp add: or_default_def)

lemma err_if_Nil [simp]: "err_if b e = [] \<longleftrightarrow> \<not> b"
  by (simp add: err_if_def)

lemma validate_fields:
  assumes "validate c = (errs, c')"
  shows "c' = c\<lparr>cf_HTTPSInterceptFailMode := canon (cf_HTTPSInterceptFailMode c),
      cf_HTTPSInterceptCaptureMode := canon (cf_HTTPSInterceptCaptureMode c),
      cf_HTTPSInterceptProtocols := snd (protocol_loop [] (cf_HTTPSInterceptProtocols c)),
      cf_HTTPSInterceptDomains := snd (domain_loop [] (cf_HTTPSInterceptDomains c)),
      cf_PromptEnforcementMode := canon (cf_PromptEnforcementMode c),
      cf_PromptEnforcementOverride := canon (cf_PromptEnforcementOverride c),
      cf_PromptFailClosedSurfaces := snd (surface_loop [] (cf_PromptFailClosedSurfaces c))\<rparr>"
  using assms by (auto simp: validate_def Let_def case_prod_beta)

text \<open>The accepted configurations, as a condition on the configuration before normalisation.\<close>

lemma validate_ok_iff:
  "fst (validate c) = [] \<longleftrightarrow>
     gateway_url_errors (cf_GatewayURL c) = [] \<and>
     listen_addr_errors (cf_ListenAddr c) = [] \<and>
     prompt_addr_errors (cf_PromptCaptureListenAddr c) = [] \<and>
     canon (cf_HTTPSInterceptFailMode c) \<in> {HTTPSInterceptFailOpen, HTTPSInterceptFailClosed} \<and>
     canon (cf_HTTPSInterceptCaptureMode c) = InterceptCaptureModeEncryptedFullBody \<and>
     fst (protocol_loop [] (cf_HTTPSInterceptProtocols c)) = [] \<and>
     snd (protocol_loop [] (cf_HTTPSInterceptProtocols c)) \<noteq> [] \<and>
     fst (domain_loop [] (cf_HTTPSInterceptDomains c)) = [] \<and>
     interval_errors c = [] \<and> semantics_errors c = [] \<and>
     (canon (cf_PromptEnforcementMode c) \<in> set enforcementModeNames \<or> canon (cf_PromptEnforcementMode c) = []) \<and>
     (canon (cf_PromptEnforcementOverride c) \<in> set enforcementModeNames \<or> canon (cf_PromptEnforcementOverride c) = []) \<and>
     fst (surface_loop [] (cf_PromptFailClosedSurfaces c)) = [] \<and>
     (cf_MaxConcurrentConns c = 0 \<or> \<not> outside 1 65535 (cf_MaxConcurrentConns c)) \<and>
     credential_errors c = []"
  unfolding validate_def Let_def case_prod_beta fst_conv append_is_Nil_conv err_if_Nil by argo

lemma validate_normal: "snd (validate (snd (validate c))) = snd (validate c)"
proof -
  define c' where "c' = snd (validate c)"
  have "validate c = (fst (validate c), c')" by (simp add: c'_def)
  note c' = validate_fields[OF this]
  have "validate c' = (fst (validate c'), snd (validate c'))" by simp
  from validate_fields[OF this] show ?thesis
    unfolding c'_def[symmetric]
    by (simp add: c' protocols.loop_idem domains.loop_idem surfaces.loop_idem)
qed

lemma validate_normal_ok:
  assumes "fst (validate c) = []"
  shows "fst (validate (snd (validate c))) = []"
proof -
  define c' where "c' = snd (validate c)"
  have "validate c = (fst (validate c), c')" by (simp add: c'_def)
  note c' = validate_fields[OF this]
  have "interval_errors c' = interval_errors c" "semantics_errors c' = semantics_errors c"
    "credential_errors c' = credential_errors c"
    by (simp_all add: c' interval_errors_def semantics_errors_def credential_errors_def)
  moreover have "canon InterceptCaptureModeEncryptedFullBody = InterceptCaptureModeEncryptedFullBody"
    by code_simp
  ultimately show ?thesis
    using assms unfolding c'_def[symmetric] validate_ok_iff
    by (simp add: c' protocols.loop_idem domains.loop_idem surfaces.loop_idem)
qed

text \<open>A configuration the manager can store: the outcome of a successful validation after defaults.\<close>

definition loaded_config :: "agent_config \<Rightarrow> bool" where
  "loaded_config c = (\<exists>c0. validate (applyDefaults c0) = ([], c))"

lemma loaded_fixpoint: "loaded_config c \<Longrightarrow> validate c = ([], c)"
proof -
  assume "loaded_config c"
  then obtain c0 where v: "validate (applyDefaults c0) = ([], c)" by (auto simp: loaded_config_def)
  then have "fst (validate c) = []" "snd (validate c) = c"
    using validate_normal_ok[of "applyDefaults c0"] validate_normal[of "applyDefaults c0"] by simp_all
  then show ?thesis by (metis prod.collapse)
qed

lemma loaded_nonzero:
  assumes "loaded_config c"
  shows "cf_PolicySyncInterval c \<noteq> 0" "cf_TelemetryFlushInterval c \<noteq> 0" "cf_MaxConcurrentConns c \<noteq> 0"
proof -
  from assms obtain c0 where v: "validate (applyDefaults c0) = ([], c)" by (auto simp: loaded_config_def)
  have "cf_PolicySyncInterval c = cf_PolicySyncInterval (applyDefaults c0)"
    "cf_TelemetryFlushInterval c = cf_TelemetryFlushInterval (applyDefaults c0)"
    "cf_MaxConcurrentConns c = cf_MaxConcurrentConns (applyDefaults c0)"
    using validate_fields[OF v] by simp_all
  then show "cf_PolicySyncInterval c \<noteq> 0" "cf_TelemetryFlushInterval c \<noteq> 0" "cf_MaxConcurrentConns c \<noteq> 0"
    by (simp_all add: applyDefaults_def second_def)
qed

text \<open>What the rest of the agent may rely on in a configuration it is handed.\<close>

definition config_sound :: "agent_config \<Rightarrow> bool" where
  "config_sound c \<longleftrightarrow>
     (\<exists>h p. split_host_port (cf_ListenAddr c) = Some (h, p) \<and> loopback_host h) \<and>
     (cf_PromptCaptureListenAddr c \<noteq> [] \<longrightarrow>
        (\<exists>h p. split_host_port (cf_PromptCaptureListenAddr c) = Some (h, p) \<and> loopback_host h)) \<and>
     (cf_GatewayURL c \<noteq> [] \<longrightarrow> (\<exists>u. url_parse (cf_GatewayURL c) = Some u \<and> ur_Scheme u = ''https'')) \<and>
     cf_HTTPSInterceptFailMode c \<in> {HTTPSInterceptFailOpen, HTTPSInterceptFailClosed} \<and>
     cf_HTTPSInterceptProtocols c \<noteq> [] \<and> distinct (cf_HTTPSInterceptProtocols c) \<and>
     set (cf_HTTPSInterceptProtocols c) \<subseteq> set interceptProtocolNames \<and>
     distinct (cf_HTTPSInterceptDomains c) \<and>
     (\<forall>d\<in>set (cf_HTTPSInterceptDomains c). d \<noteq> [] \<and> canon d = d \<and> CHR ''/'' \<notin> set d) \<and>
     cf_PolicySyncInterval c \<in> {10 * second .. 3600 * second} \<and>
     cf_TelemetryFlushInterval c \<in> {5 * second .. 300 * second} \<and>
     cf_MaxConcurrentConns c \<in> {1 .. 65535} \<and>
     cf_PromptEnforcementMode c \<in> {[], PromptEnforcementModeMonitor, PromptEnforcementModeAlert,
        PromptEnforcementModeEnforce} \<and>
     list_all capture_surface_Valid (cf_PromptFailClosedSurfaces c) \<and>
     (cf_PromptSemanticsEnabled c \<longrightarrow>
        0 < cf_PromptSemanticsAmbiguousThreshold c \<and>
        cf_PromptSemanticsAmbiguousThreshold c \<le> cf_PromptSemanticsAlertThreshold c \<and>
        cf_PromptSemanticsAlertThreshold c \<le> cf_PromptSemanticsBlockThreshold c \<and>
        cf_PromptSemanticsBlockThreshold c \<le> 1)"

lemma listen_ok: "listen_addr_errors s = [] \<Longrightarrow> \<exists>h p. split_host_port s = Some (h, p) \<and> loopback_host h"
  by (auto simp: listen_addr_errors_def split: if_splits option.splits)

lemma prompt_addr_ok: "prompt_addr_errors s = [] \<Longrightarrow> s \<noteq> [] \<Longrightarrow>
    \<exists>h p. split_host_port s = Some (h, p) \<and> loopback_host h"
  by (auto simp: prompt_addr_errors_def split: if_splits option.splits)

lemma gateway_url_ok: "gateway_url_errors s = [] \<Longrightarrow> s \<noteq> [] \<Longrightarrow>
    \<exists>u. url_parse s = Some u \<and> ur_Scheme u = ''https''"
  by (simp add: gateway_url_errors_def split: if_splits option.splits)

lemma semantics_ok: "semantics_errors c = [] \<Longrightarrow> cf_PromptSemanticsEnabled c \<Longrightarrow>
     0 < cf_PromptSemanticsAmbiguousThreshold c \<and>
     cf_PromptSemanticsAmbiguousThreshold c \<le> cf_PromptSemanticsAlertThreshold c \<and>
     cf_PromptSemanticsAlertThreshold c \<le> cf_PromptSemanticsBlockThreshold c \<and>
     cf_PromptSemanticsBlockThreshold c \<le> 1"
  by (simp add: semantics_errors_def bad_threshold_def)

lemma protocol_loop_sound:
  "distinct (snd (protocol_loop [] ps)) \<and> set (snd (protocol_loop [] ps)) \<subseteq> set interceptProtocolNames"
  using protocols.loop_out[of "[]" ps] protocols.accepted_normal[of _ ps]
  by (auto simp: protocol_check_None)

lemma domain_loop_sound:
  "distinct (snd (domain_loop [] ds)) \<and>
   (\<forall>d\<in>set (snd (domain_loop [] ds)). d \<noteq> [] \<and> canon d = d \<and> CHR ''/'' \<notin> set d)"
proof -
  have "CHR ''/'' \<notin> set d" if "domain_check d d = None" for d
    using that by (simp add: domain_check_def contains_char split: if_splits)
  then show ?thesis
    using domains.loop_out[of "[]" ds] domains.accepted_normal[of _ ds] by auto
qed

lemma surface_loop_sound: "list_all capture_surface_Valid (snd (surface_loop [] ss))"
  using surfaces.loop_out[of "[]" ss] surfaces.accepted_normal[of _ ss]
  by (auto simp: surface_check_None list_all_iff)

lemma loaded_config_sound:
  assumes "loaded_config c"
  shows "config_sound c"
proof -
  from loaded_fixpoint[OF assms] have ok: "fst (validate c) = []" and fx: "validate c = ([], c)" by simp_all
  note ok = ok[unfolded validate_ok_iff]
  note c = validate_fields[OF fx]
  have fields: "cf_HTTPSInterceptFailMode c = canon (cf_HTTPSInterceptFailMode c)"
    "cf_HTTPSInterceptProtocols c = snd (protocol_loop [] (cf_HTTPSInterceptProtocols c))"
    "cf_HTTPSInterceptDomains c = snd (domain_loop [] (cf_HTTPSInterceptDomains c))"
    "cf_PromptEnforcementMode c = canon (cf_PromptEnforcementMode c)"
    "cf_PromptFailClosedSurfaces c = snd (surface_loop [] (cf_PromptFailClosedSurfaces c))"
    by (subst c, simp)+
  have ranges: "cf_PolicySyncInterval c \<in> {10 * second .. 3600 * second}"
    "cf_TelemetryFlushInterval c \<in> {5 * second .. 300 * second}"
    "cf_MaxConcurrentConns c \<in> {1 .. 65535}"
    using ok loaded_nonzero[OF assms] by (simp_all add: interval_errors_def outside_def not_less)
  have mode: "cf_PromptEnforcementMode c \<in> {[], PromptEnforcementModeMonitor, PromptEnforcementModeAlert,
        PromptEnforcementModeEnforce}"
    using ok fields(4) unfolding enforcementModeNames_def list.set by (metis insert_iff)
  show ?thesis
    unfolding config_sound_def
    using ok ranges mode fields(1) listen_ok prompt_addr_ok gateway_url_ok semantics_ok
      protocol_loop_sound[of "cf_HTTPSInterceptProtocols c"] fields(2)
      domain_loop_sound[of "cf_HTTPSInterceptDomains c"] fields(3)
      surface_loop_sound[of "cf_PromptFailClosedSurfaces c"] fields(5)
    by metis
qed

section \<open>Histories of the manager\<close>

definition manager_inv :: "config_manager \<Rightarrow> bool" where
  "manager_inv m \<longleftrightarrow> (\<forall>c. mg_cfg m = Some c \<longrightarrow> loaded_config c) \<and> (\<forall>(w, c)\<in>set (mg_calls m). loaded_config c)"

inductive manager_step :: "(string \<Rightarrow> agent_config option) \<Rightarrow> config_manager \<Rightarrow> config_manager \<Rightarrow> bool"
  for decode where
  "manager_step decode m (manager_exec decode oper m)"

inductive_cases manager_stepE: "manager_step decode m m'"

lemma manager_load_cases:
  "manager_load decode read m = (Some e, m') \<Longrightarrow> m' = m"
  "manager_load decode read m = (None, m') \<Longrightarrow>
     \<exists>origin raw c0 c. read = (origin, Some raw) \<and> decode raw = Some c0 \<and>
       validate (applyDefaults c0) = ([], c) \<and> m' = notifyWatchers c (m\<lparr>mg_cfg := Some c\<rparr>)"
  by (auto simp: manager_load_def split: prod.splits option.splits if_splits)

lemma manager_load_inv: "manager_inv m \<Longrightarrow> manager_inv (snd (manager_load decode read m))"
proof (cases "manager_load decode read m")
  case (Pair e m')
  assume "manager_inv m"
  then show ?thesis
    using Pair manager_load_cases[of decode read m]
    by (cases e) (auto simp: manager_inv_def notifyWatchers_def loaded_config_def)
qed

lemma manager_Validate_id:
  assumes "manager_inv m"
  shows "snd (manager_Validate m) = m"
proof (cases "mg_cfg m")
  case (Some c)
  with assms have "loaded_config c" by (simp add: manager_inv_def)
  from loaded_fixpoint[OF this] Some show ?thesis by (simp add: manager_Validate_def)
qed (simp add: manager_Validate_def)

lemma manager_exec_inv: "manager_inv m \<Longrightarrow> manager_inv (manager_exec decode oper m)"
  by (cases oper) (auto simp: manager_Validate_id manager_Reload_def manager_load_inv,
      simp add: manager_inv_def manager_Watch_def)

interpretation manager_run: invariant_system unloaded_manager "manager_step decode" manager_inv for decode
proof
  show "manager_inv unloaded_manager" by (simp add: manager_inv_def unloaded_manager_def)
qed (auto elim!: manager_stepE intro: manager_exec_inv)

lemma manager_exec_steps: "(manager_step decode)\<^sup>*\<^sup>* m (fold (manager_exec decode) ops m)"
proof (induction ops arbitrary: m)
  case (Cons oper ops)
  have "manager_step decode m (manager_exec decode oper m)" by (rule manager_step.intros)
  with Cons[of "manager_exec decode oper m"] show ?case by (simp add: converse_rtranclp_into_rtranclp)
qed simp

lemma NewManager_run:
  "NewManager decode read = Inr m \<Longrightarrow>
   m = manager_exec decode (OpReload read) unloaded_manager \<and> mg_cfg m \<noteq> None"
  by (auto simp: NewManager_def manager_Reload_def notifyWatchers_def
      dest: manager_load_cases(2) split: prod.splits option.splits)

lemma manager_exec_loaded: "mg_cfg m \<noteq> None \<Longrightarrow> mg_cfg (manager_exec decode oper m) \<noteq> None"
  by (cases oper) (auto simp: manager_Watch_def manager_Reload_def manager_load_def notifyWatchers_def
      manager_Validate_def split: prod.splits option.splits)

lemma manager_fold_loaded: "mg_cfg m \<noteq> None \<Longrightarrow> mg_cfg (fold (manager_exec decode) ops m) \<noteq> None"
  by (induction ops arbitrary: m) (simp_all add: manager_exec_loaded del: not_None_eq)

section \<open>Properties\<close>


text \<open>
  A reload that fails, in reading, in decoding or in validation, leaves the manager as it was:
  the old configuration stays and no callback runs. A reload that succeeds stores the new
  configuration and calls every registered callback once, in the order of registration, with it.
\<close>

theorem reload_all_or_nothing:
  "(\<forall>e m'. manager_Reload decode read m = (Some e, m') \<longrightarrow> m' = m) \<and>
   (\<forall>m'. manager_Reload decode read m = (None, m') \<longrightarrow>
      (\<exists>c. mg_cfg m' = Some c \<and> config_sound c \<and> mg_watchers m' = mg_watchers m \<and>
           mg_calls m' = mg_calls m @ map (\<lambda>w. (w, c)) (mg_watchers m)))"
  using manager_load_cases[of decode read m] loaded_config_sound
  by (fastforce simp: manager_Reload_def notifyWatchers_def loaded_config_def)

text \<open>
  Filling in the defaults twice is the same as once, and a field that the document set is kept,
  with one exception: the retired classifier address is moved to the new one.
\<close>

theorem applyDefaults_idempotent:
  "applyDefaults (applyDefaults c) = applyDefaults c \<and>
   (cf_ListenAddr c \<noteq> [] \<longrightarrow> cf_ListenAddr (applyDefaults c) = cf_ListenAddr c) \<and>
   (cf_PolicySyncInterval c \<noteq> 0 \<longrightarrow> cf_PolicySyncInterval (applyDefaults c) = cf_PolicySyncInterval c) \<and>
   (cf_PromptEnforcementMode c \<noteq> [] \<longrightarrow>
      cf_PromptEnforcementMode (applyDefaults c) = cf_PromptEnforcementMode c) \<and>
   cf_PromptSemanticsLocalURL (applyDefaults c) =
     (if cf_PromptSemanticsLocalURL c \<in> {[], oldClassifyURL} then classifyURL
      else cf_PromptSemanticsLocalURL c)"
  by (simp add: applyDefaults_def) (simp add: or_default_def)

definition zero_config :: agent_config where
  "zero_config = \<lparr>cf_AgentID = [], cf_GatewayURL = [], cf_ListenAddr = [],
     cf_PromptCaptureListenAddr = [], cf_HTTPSInterceptEnabled = False, cf_HTTPSInterceptDomains = [],
     cf_HTTPSInterceptFailMode = [], cf_HTTPSInterceptProtocols = [], cf_HTTPSInterceptCaptureMode = [],
     cf_PolicySyncInterval = 0, cf_TelemetryFlushInterval = 0, cf_MaxConcurrentConns = 0,
     cf_ShutdownTimeout = 0, cf_DefaultDecision = DecisionForward, cf_BlockPageBody = [],
     cf_LogURLPaths = False, cf_AutoReregister = False, cf_CertPath = [], cf_KeyPath = [], cf_CAPath = [],
     cf_InitialBackoff = 0, cf_MaxBackoff = 0, cf_BackoffMultiplier = 0, cf_JitterFraction = 0,
     cf_MaxRetries = 0, cf_CircuitBreakerThreshold = 0, cf_CircuitBreakerCooldown = 0,
     cf_HealthCheckInterval = 0, cf_IntegrityCheckInterval = 0, cf_PromptSemanticsEnabled = False,
     cf_PromptSemanticsPolicy = [], cf_PromptSemanticsLocalURL = [], cf_PromptSemanticsGatewayEnabled = False,
     cf_PromptSemanticsLocalTimeout = 0, cf_PromptSemanticsGatewayTimeout = 0,
     cf_PromptSemanticsBlockThreshold = 0, cf_PromptSemanticsAlertThreshold = 0,
     cf_PromptSemanticsAmbiguousThreshold = 0, cf_PromptEnforcementMode = [],
     cf_PromptFailClosedSurfaces = [], cf_PromptEnforcementOverride = []\<rparr>"

text \<open>A decoder for the witnesses: the empty document, and one with a public listen address.\<close>

definition sample_decode :: "string \<Rightarrow> agent_config option" where
  "sample_decode raw =
    (if raw = ''{}'' then Some zero_config
     else if raw = ''public'' then Some (zero_config\<lparr>cf_ListenAddr := ''0.0.0.0:8080''\<rparr>)
     else None)"

definition sample_ops :: "manager_op list" where
  "sample_ops = [OpWatch 7, OpReload (''agent.json'', Some ''public''), OpReload (''agent.json'', Some ''{}''), OpValidate]"

definition sample_manager :: "config_manager" where
  "sample_manager = (case NewManager sample_decode (''agent.json'', Some ''{}'') of Inr m \<Rightarrow> m | Inl _ \<Rightarrow> unloaded_manager)"

lemma sample_manager_new: "NewManager sample_decode (''agent.json'', Some ''{}'') = Inr sample_manager"
proof -
  have "isl (NewManager sample_decode (''agent.json'', Some ''{}'') :: load_error + config_manager) = False"
    by code_simp
  then show ?thesis by (auto simp: sample_manager_def split: sum.splits)
qed


theorem reload_all_or_nothing_witness:
  "snd (manager_Reload sample_decode (''agent.json'', Some ''public'') sample_manager) = sample_manager \<and>
   fst (manager_Reload sample_decode (''agent.json'', Some ''public'') sample_manager) =
     Some (ValidateConfig ''agent.json'' [ListenAddrNotLoopback])"
proof -
  have e: "fst (manager_Reload sample_decode (''agent.json'', Some ''public'') sample_manager) =
     Some (ValidateConfig ''agent.json'' [ListenAddrNotLoopback])" by code_simp
  then show ?thesis
    using reload_all_or_nothing[of sample_decode "(''agent.json'', Some ''public'')" sample_manager]
    by (metis prod.collapse)
qed

theorem applyDefaults_idempotent_witness:
  "cf_PromptSemanticsLocalURL (applyDefaults (zero_config\<lparr>cf_PromptSemanticsLocalURL := oldClassifyURL\<rparr>)) =
     classifyURL \<and>
   cf_ListenAddr (applyDefaults (zero_config\<lparr>cf_ListenAddr := ''127.0.0.1:9''\<rparr>)) = ''127.0.0.1:9''"
  using applyDefaults_idempotent[of "zero_config\<lparr>cf_PromptSemanticsLocalURL := oldClassifyURL\<rparr>"]
    applyDefaults_idempotent[of "zero_config\<lparr>cf_ListenAddr := ''127.0.0.1:9''\<rparr>"]
  by simp

end
