(* ===== verification/Retry_Circuit.thy ===== *)
theory Retry_Circuit
  imports Domain_Types
begin

text \<open>
  Retry primitives (\<^verbatim>\<open>src/pkg/retry/backoff.go\<close>, \<^verbatim>\<open>src/pkg/retry/circuit.go\<close>): exponential backoff,
  the retry loop and the circuit breaker that guards every call to the gateway.

  The clock and the random draw of the jitter are arguments. The retry loop may be unbounded, so
  it is a partial function to \<^typ>\<open>'a option\<close>; that it returns is proved where it does.
\<close>

section \<open>Backoff\<close>

record backoffConfig =
  bo_InitialInterval :: duration
  bo_MaxInterval :: duration
  bo_Multiplier :: real
  bo_JitterFraction :: real

text \<open>\<open>u\<close> is the value \<^verbatim>\<open>rand.Float64\<close> returns, in \<open>[0, 1)\<close>.\<close>

definition backoff_Delay :: "backoffConfig \<Rightarrow> real \<Rightarrow> nat \<Rightarrow> duration" where
  "backoff_Delay c u attempt =
    (let d0 = of_int (bo_InitialInterval c) * bo_Multiplier c ^ attempt;
         d1 = (if d0 > of_int (bo_MaxInterval c) then of_int (bo_MaxInterval c) else d0);
         d2 = (if bo_JitterFraction c > 0 then d1 + d1 * bo_JitterFraction c * (2 * u - 1) else d1);
         d3 = (if d2 < 0 then 0 else d2)
     in \<lfloor>d3\<rfloor>)"

datatype retry_result = RetryOK | RetryErr | RetryCancelled

text \<open>
  \<open>ok i\<close>: whether the \<open>i\<close>-th call of the function succeeds; \<open>cancelled i\<close>: whether the context is
  done before the delay after attempt \<open>i\<close> has passed. The result carries the number of calls.
\<close>

partial_function (option) retry_loop ::
  "int \<Rightarrow> (nat \<Rightarrow> bool) \<Rightarrow> (nat \<Rightarrow> bool) \<Rightarrow> nat \<Rightarrow> (retry_result \<times> nat) option" where
  "retry_loop maxRetries ok cancelled attempt =
    (if ok attempt then Some (RetryOK, attempt + 1)
     else if 0 \<le> maxRetries \<and> maxRetries \<le> int attempt then Some (RetryErr, attempt + 1)
     else if cancelled attempt then Some (RetryCancelled, attempt + 1)
     else retry_loop maxRetries ok cancelled (attempt + 1))"

declare retry_loop.simps [code]

definition retry_Do :: "int \<Rightarrow> (nat \<Rightarrow> bool) \<Rightarrow> (nat \<Rightarrow> bool) \<Rightarrow> (retry_result \<times> nat) option" where
  "retry_Do maxRetries ok cancelled = retry_loop maxRetries ok cancelled 0"

section \<open>Circuit breaker\<close>

datatype circuitState = StateClosed | StateOpen | StateHalfOpen

fun circuitState_String :: "circuitState \<Rightarrow> string" where
  "circuitState_String StateClosed = ''closed''"
| "circuitState_String StateOpen = ''open''"
| "circuitState_String StateHalfOpen = ''half-open''"

record circuitBreaker =
  cb_threshold :: int
  cb_cooldown :: duration
  cb_failures :: int
  cb_state :: circuitState
  cb_openedAt :: time
  cb_halfOpenCAS :: bool

definition NewCircuitBreaker :: "int \<Rightarrow> duration \<Rightarrow> circuitBreaker" where
  "NewCircuitBreaker threshold cooldown = \<lparr>cb_threshold = threshold, cb_cooldown = cooldown,
     cb_failures = 0, cb_state = StateClosed, cb_openedAt = 0, cb_halfOpenCAS = False\<rparr>"

definition cb_Allow :: "time \<Rightarrow> circuitBreaker \<Rightarrow> bool \<times> circuitBreaker" where
  "cb_Allow now cb =
    (case cb_state cb of
       StateClosed \<Rightarrow> (True, cb)
     | StateOpen \<Rightarrow>
        if cb_cooldown cb \<le> now - cb_openedAt cb
        then (True, cb\<lparr>cb_state := StateHalfOpen, cb_halfOpenCAS := True\<rparr>)
        else (False, cb)
     | StateHalfOpen \<Rightarrow>
        if cb_halfOpenCAS cb then (True, cb\<lparr>cb_halfOpenCAS := False\<rparr>) else (False, cb))"

definition cb_RecordSuccess :: "circuitBreaker \<Rightarrow> circuitBreaker" where
  "cb_RecordSuccess cb = cb\<lparr>cb_failures := 0, cb_state := StateClosed\<rparr>"

definition cb_RecordFailure :: "time \<Rightarrow> circuitBreaker \<Rightarrow> circuitBreaker" where
  "cb_RecordFailure now cb0 =
    (let cb = cb0\<lparr>cb_failures := cb_failures cb0 + 1\<rparr> in
     case cb_state cb of
       StateClosed \<Rightarrow>
        if cb_threshold cb \<le> cb_failures cb then cb\<lparr>cb_state := StateOpen, cb_openedAt := now\<rparr> else cb
     | StateHalfOpen \<Rightarrow> cb\<lparr>cb_state := StateOpen, cb_openedAt := now\<rparr>
     | StateOpen \<Rightarrow> cb)"

definition cb_State :: "time \<Rightarrow> circuitBreaker \<Rightarrow> circuitState" where
  "cb_State now cb =
    (if cb_state cb = StateOpen \<and> cb_cooldown cb \<le> now - cb_openedAt cb then StateHalfOpen
     else cb_state cb)"

section \<open>Histories\<close>

text \<open>
  The calls a client makes on a breaker, in the order the mutex serialises them, and what a
  history says about the breaker: the failures since the last success.
\<close>

datatype cb_op = OpAllow time | OpSuccess | OpFailure time

fun cb_exec :: "cb_op \<Rightarrow> circuitBreaker \<Rightarrow> circuitBreaker" where
  "cb_exec (OpAllow now) cb = snd (cb_Allow now cb)"
| "cb_exec OpSuccess cb = cb_RecordSuccess cb"
| "cb_exec (OpFailure now) cb = cb_RecordFailure now cb"

fun failures_since_success :: "cb_op list \<Rightarrow> int \<Rightarrow> int" where
  "failures_since_success [] n = n"
| "failures_since_success (OpAllow _ # ops) n = failures_since_success ops n"
| "failures_since_success (OpSuccess # ops) n = failures_since_success ops 0"
| "failures_since_success (OpFailure _ # ops) n = failures_since_success ops (n + 1)"

fun cb_allows :: "time list \<Rightarrow> circuitBreaker \<Rightarrow> bool list" where
  "cb_allows [] cb = []"
| "cb_allows (t # ts) cb = fst (cb_Allow t cb) # cb_allows ts (snd (cb_Allow t cb))"

definition cb_inv :: "circuitBreaker \<Rightarrow> bool" where
  "cb_inv cb = (0 \<le> cb_failures cb \<and>
     (cb_state cb = StateClosed \<longleftrightarrow> cb_failures cb < max 1 (cb_threshold cb)))"

inductive cb_step :: "circuitBreaker \<Rightarrow> circuitBreaker \<Rightarrow> bool" where
  "cb_step cb (cb_exec oper cb)"

inductive_cases cb_stepE: "cb_step s t"

section \<open>Lemmas\<close>

lemma cb_Allow_failures [simp]:
  "cb_failures (snd (cb_Allow t cb)) = cb_failures cb" "cb_threshold (snd (cb_Allow t cb)) = cb_threshold cb"
  "cb_state (snd (cb_Allow t cb)) = StateClosed \<longleftrightarrow> cb_state cb = StateClosed"
  by (auto simp: cb_Allow_def split: circuitState.splits)

lemma cb_exec_inv: "cb_inv cb \<Longrightarrow> cb_inv (cb_exec oper cb)"
  by (cases oper) (auto simp: cb_inv_def cb_RecordSuccess_def cb_RecordFailure_def Let_def
      split: circuitState.splits)

interpretation breaker_run: invariant_system "NewCircuitBreaker th cd" cb_step cb_inv for th cd
proof
  show "cb_inv (NewCircuitBreaker th cd)" by (simp add: cb_inv_def NewCircuitBreaker_def)
qed (auto elim!: cb_stepE intro: cb_exec_inv)

lemma cb_exec_steps: "cb_step\<^sup>*\<^sup>* cb (fold cb_exec ops cb)"
proof (induction ops arbitrary: cb)
  case (Cons oper ops)
  have "cb_step cb (cb_exec oper cb)" by (rule cb_step.intros)
  with Cons[of "cb_exec oper cb"] show ?case by (simp add: converse_rtranclp_into_rtranclp)
qed simp

lemma cb_exec_failures:
  "cb_failures (cb_exec oper cb) =
    (case oper of OpAllow _ \<Rightarrow> cb_failures cb | OpSuccess \<Rightarrow> 0 | OpFailure _ \<Rightarrow> cb_failures cb + 1)"
  by (cases oper) (auto simp: cb_RecordSuccess_def cb_RecordFailure_def Let_def split: circuitState.splits)

lemma cb_exec_threshold [simp]: "cb_threshold (cb_exec oper cb) = cb_threshold cb"
  by (cases oper) (auto simp: cb_RecordSuccess_def cb_RecordFailure_def Let_def split: circuitState.splits)

lemma cb_fold_threshold [simp]: "cb_threshold (fold cb_exec ops cb) = cb_threshold cb"
  by (induction ops arbitrary: cb) auto

lemma cb_run_failures:
  "cb_failures (fold cb_exec ops cb) = failures_since_success ops (cb_failures cb)"
proof (induction ops arbitrary: cb)
  case (Cons oper ops)
  then show ?case by (cases oper) (simp_all add: cb_exec_failures del: cb_exec.simps)
qed simp

lemma cb_allows_stuck:
  "cb_state cb = StateHalfOpen \<Longrightarrow> \<not> cb_halfOpenCAS cb \<Longrightarrow> cb_allows ts cb = replicate (length ts) False"
  by (induction ts) (simp_all add: cb_Allow_def)

lemma retry_loop_bounded:
  assumes "attempt \<le> nat maxRetries" and "0 \<le> maxRetries"
  shows "\<exists>k res. attempt \<le> k \<and> k \<le> nat maxRetries \<and>
     retry_loop maxRetries ok cancelled attempt = Some (res, k + 1) \<and>
     (\<forall>j. attempt \<le> j \<and> j < k \<longrightarrow> \<not> ok j \<and> \<not> cancelled j) \<and>
     (case res of RetryOK \<Rightarrow> ok k | RetryErr \<Rightarrow> \<not> ok k \<and> k = nat maxRetries
      | RetryCancelled \<Rightarrow> \<not> ok k \<and> cancelled k)"
  using assms(1)
proof (induction "nat maxRetries - attempt" arbitrary: attempt)
  case 0
  with assms(2) have a: "attempt = nat maxRetries" "maxRetries \<le> int attempt" by auto
  with assms(2) have "retry_loop maxRetries ok cancelled attempt =
      Some (if ok attempt then RetryOK else RetryErr, attempt + 1)"
    by (subst retry_loop.simps) simp
  then show ?case
    using a by (intro exI[of _ attempt] exI[of _ "if ok attempt then RetryOK else RetryErr"]) auto
next
  case (Suc n)
  then have lt: "attempt < nat maxRetries" by simp
  show ?case
  proof (cases "ok attempt \<or> cancelled attempt")
    case True
    then have "retry_loop maxRetries ok cancelled attempt =
        Some (if ok attempt then RetryOK else RetryCancelled, attempt + 1)"
      using lt by (auto simp: retry_loop.simps[of maxRetries ok cancelled attempt])
    then show ?thesis
      using lt True
      by (intro exI[of _ attempt] exI[of _ "if ok attempt then RetryOK else RetryCancelled"]) auto
  next
    case False
    then have eq: "retry_loop maxRetries ok cancelled attempt = retry_loop maxRetries ok cancelled (attempt + 1)"
      using lt by (auto simp: retry_loop.simps[of maxRetries ok cancelled attempt])
    have "n = nat maxRetries - (attempt + 1)" "attempt + 1 \<le> nat maxRetries" using Suc lt by auto
    from Suc.hyps(1)[OF this] obtain k res where k: "attempt + 1 \<le> k" "k \<le> nat maxRetries"
      "retry_loop maxRetries ok cancelled (attempt + 1) = Some (res, k + 1)"
      "\<forall>j. attempt + 1 \<le> j \<and> j < k \<longrightarrow> \<not> ok j \<and> \<not> cancelled j"
      "case res of RetryOK \<Rightarrow> ok k | RetryErr \<Rightarrow> \<not> ok k \<and> k = nat maxRetries
        | RetryCancelled \<Rightarrow> \<not> ok k \<and> cancelled k" by blast
    have "\<forall>j. attempt \<le> j \<and> j < k \<longrightarrow> \<not> ok j \<and> \<not> cancelled j"
    proof (intro allI impI)
      fix j assume j: "attempt \<le> j \<and> j < k"
      show "\<not> ok j \<and> \<not> cancelled j"
        using False k(4) j by (cases "j = attempt") auto
    qed
    then show ?thesis using k eq by (intro exI[of _ k] exI[of _ res]) simp
  qed
qed

section \<open>Properties\<close>

text \<open>
  C28. For every history of calls on a new breaker: its failure count is the number of failures
  since the last success, and it is closed exactly while that number is below the threshold (and
  below one), so it opens at the threshold-th consecutive failure and not before.
\<close>

theorem breaker_opens_at_threshold:
  fixes ops :: "cb_op list" and threshold :: int and cooldown :: duration
  defines "cb \<equiv> fold cb_exec ops (NewCircuitBreaker threshold cooldown)"
  shows "cb_failures cb = failures_since_success ops 0 \<and>
    (cb_state cb = StateClosed \<longleftrightarrow> failures_since_success ops 0 < max 1 threshold)"
proof -
  have "cb_inv cb"
    unfolding cb_def by (rule breaker_run.reachable_inv[OF cb_exec_steps])
  moreover have "cb_failures cb = failures_since_success ops 0" "cb_threshold cb = threshold"
    unfolding cb_def by (simp_all add: cb_run_failures) (simp_all add: NewCircuitBreaker_def)
  ultimately show ?thesis by (simp add: cb_inv_def)
qed

text \<open>
  After the cooldown of an open breaker two calls of \<^const>\<open>cb_Allow\<close> succeed, not one, and
  from then on every call is refused, at whatever time, until some call records its outcome.
\<close>

theorem half_open_two_probes_then_stuck:
  assumes "cb_state cb = StateOpen" and "cb_cooldown cb \<le> t - cb_openedAt cb"
  shows "cb_allows (t # t' # ts) cb = True # True # replicate (length ts) False"
  using assms by (simp add: cb_Allow_def cb_allows_stuck)

theorem half_open_two_probes_then_stuck_witness:
  "cb_allows [30, 31, 32, 10 ^ 18] (cb_RecordFailure 0 (NewCircuitBreaker 1 30)) =
     [True, True, False, False]"
  using half_open_two_probes_then_stuck[of "cb_RecordFailure 0 (NewCircuitBreaker 1 30)" 30 31 "[32, 10 ^ 18]"]
  by (simp add: cb_RecordFailure_def NewCircuitBreaker_def)

text \<open>
  With a non-negative retry limit the retry loop returns after at most limit plus one calls;
  it reports success exactly for a call that succeeded, gives up with the last error only at the
  limit, and every earlier call failed with the context still alive.
\<close>

theorem retry_Do_bounded:
  assumes "0 \<le> maxRetries"
  shows "\<exists>k res. retry_Do maxRetries ok cancelled = Some (res, k + 1) \<and> k \<le> nat maxRetries \<and>
     (\<forall>j<k. \<not> ok j \<and> \<not> cancelled j) \<and>
     (case res of RetryOK \<Rightarrow> ok k | RetryErr \<Rightarrow> \<not> ok k \<and> k = nat maxRetries
      | RetryCancelled \<Rightarrow> \<not> ok k \<and> cancelled k)"
  using retry_loop_bounded[of 0 maxRetries ok cancelled] assms unfolding retry_Do_def by fastforce

theorem retry_Do_bounded_witness:
  "\<exists>res. retry_Do 2 (\<lambda>i. i = 5) (\<lambda>_. False) = Some (res, 3)"
proof -
  from retry_Do_bounded[of 2 "\<lambda>i. i = 5" "\<lambda>_. False"] obtain k res where
    k: "retry_Do 2 (\<lambda>i. i = 5) (\<lambda>_. False) = Some (res, k + 1)" "k \<le> nat 2"
      "case res of RetryOK \<Rightarrow> k = 5 | RetryErr \<Rightarrow> k \<noteq> 5 \<and> k = nat 2 | RetryCancelled \<Rightarrow> k \<noteq> 5 \<and> False"
    by auto
  then have "k = 2" by (cases res) auto
  with k(1) show ?thesis by (intro exI[of _ res]) simp
qed

text \<open>
  A backoff delay is never negative and never above the maximum interval enlarged by the
  jitter fraction, for every attempt and every random draw; without jitter it never decreases
  from one attempt to the next when the multiplier is at least one.
\<close>

theorem backoff_Delay_bounds:
  assumes "0 \<le> u" and "u < 1" and "0 \<le> bo_JitterFraction c" and "0 \<le> bo_MaxInterval c"
    and "0 \<le> bo_InitialInterval c" and "1 \<le> bo_Multiplier c"
  shows "0 \<le> backoff_Delay c u n \<and>
    backoff_Delay c u n \<le> \<lfloor>of_int (bo_MaxInterval c) * (1 + bo_JitterFraction c)\<rfloor> \<and>
    (bo_JitterFraction c = 0 \<longrightarrow> backoff_Delay c u n \<le> backoff_Delay c u (n + 1))"
proof -
  define M where "M = real_of_int (bo_MaxInterval c)"
  define j where "j = bo_JitterFraction c"
  define d where "d k = min M (of_int (bo_InitialInterval c) * bo_Multiplier c ^ k)" for k
  have nn: "0 \<le> M" "0 \<le> j" "0 \<le> d k" for k using assms by (simp_all add: M_def j_def d_def)
  have eq: "backoff_Delay c u k = \<lfloor>max 0 (d k + d k * j * (2 * u - 1))\<rfloor>" for k
    using nn(2) by (simp add: backoff_Delay_def d_def j_def M_def Let_def min_def max_def)
  have "d n * j * (2 * u - 1) \<le> d n * j * 1" using assms nn by (intro mult_left_mono) auto
  also have "d n * j * 1 \<le> M * j" using nn by (simp add: d_def mult_right_mono)
  finally have "d n + d n * j * (2 * u - 1) \<le> M + M * j" by (simp add: d_def)
  then have bound: "max 0 (d n + d n * j * (2 * u - 1)) \<le> M * (1 + j)"
    using nn by (simp add: algebra_simps)
  have "bo_Multiplier c ^ n \<le> bo_Multiplier c ^ (n + 1)"
    using assms(6) by (intro power_increasing) auto
  then have "d n \<le> d (n + 1)"
    unfolding d_def using assms(5) by (intro min.mono mult_left_mono) auto
  then have "j = 0 \<longrightarrow> backoff_Delay c u n \<le> backoff_Delay c u (n + 1)"
    unfolding eq by (auto intro!: floor_mono)
  then show ?thesis using bound unfolding eq by (auto simp: M_def j_def intro!: floor_mono)
qed

theorem backoff_Delay_bounds_witness:
  "backoff_Delay \<lparr>bo_InitialInterval = 1000, bo_MaxInterval = 30000, bo_Multiplier = 2,
     bo_JitterFraction = 1/5\<rparr> (3/4) 10 \<le> 36000"
proof -
  let ?c = "\<lparr>bo_InitialInterval = 1000, bo_MaxInterval = 30000, bo_Multiplier = 2, bo_JitterFraction = 1/5\<rparr>"
  from backoff_Delay_bounds[of "3/4" ?c 10]
  have "backoff_Delay ?c (3/4) 10 \<le> \<lfloor>(30000::real) * (1 + 1/5)\<rfloor>" by simp
  also have "\<lfloor>(30000::real) * (1 + 1/5)\<rfloor> = 36000" by simp
  finally show ?thesis .
qed

end
