(* ===== verification/Gateway_Client.thy ===== *)
theory Gateway_Client
  imports Retry_Circuit Telemetry_Ring Go_Stdlib
begin

text \<open>
  The agent's client of the gateway (\<^verbatim>\<open>src/core/transport/gateway.go\<close>): the relay of proxied
  requests, control-plane calls and the health check, each guarded by the circuit breaker, and
  the derivation of the dial address from the gateway URL.

  The network is a parameter: a function from the outgoing request to a response, or \<^term>\<open>None\<close>
  for a transport error. \<open>now\<close> is the time of the admission check and \<open>later\<close> the time at which a
  failure is recorded. TLS set-up and the raw tunnel dial are not modelled.
\<close>

section \<open>State and messages\<close>

record proxy_request =
  pq_Method :: string
  pq_URL :: string
  pq_Host :: string
  pq_Headers :: header
  pq_Body :: string

record out_request =
  or_Method :: string
  or_URL :: string
  or_Header :: header
  or_Body :: string

text \<open>A response from the network; \<^term>\<open>None\<close> as body: reading it fails.\<close>

record raw_response =
  rr_StatusCode :: int
  rr_Header :: header
  rr_Body :: "string option"

datatype gateway_error = CircuitOpen | BuildRequest | Transport | ReadResponse

record gateway_client =
  gc_gatewayURL :: string
  gc_cb :: circuitBreaker
  gc_healthy :: bool

definition NewGatewayClient :: "string \<Rightarrow> int \<Rightarrow> duration \<Rightarrow> gateway_client" where
  "NewGatewayClient url threshold cooldown = \<lparr>gc_gatewayURL = url,
     gc_cb = NewCircuitBreaker threshold cooldown, gc_healthy = False\<rparr>"

section \<open>Calls\<close>

definition add_headers :: "header \<Rightarrow> header \<Rightarrow> header" where
  "add_headers hs h = fold (\<lambda>(k, vs) acc. fold (header_Add k) vs acc) hs h"

definition relay_header :: "proxy_request \<Rightarrow> header" where
  "relay_header req =
     header_Set ''X-Themisto-Original-Method'' (pq_Method req)
       (header_Set ''X-Themisto-Original-Host'' (pq_Host req)
         (header_Set ''X-Themisto-Original-URL'' (pq_URL req) (add_headers (pq_Headers req) [])))"

definition gateway_Relay :: "(out_request \<Rightarrow> raw_response option) \<Rightarrow> time \<Rightarrow> time \<Rightarrow> proxy_request \<Rightarrow>
    gateway_client \<Rightarrow> (gateway_error + raw_response) \<times> out_request option \<times> gateway_client" where
  "gateway_Relay net now later req g =
    (let (ok, cb) = cb_Allow now (gc_cb g); g1 = g\<lparr>gc_cb := cb\<rparr>; url = gc_gatewayURL g @ ''/relay'' in
     if \<not> ok then (Inl CircuitOpen, None, g1)
     else if \<not> new_request_ok (pq_Method req) url then (Inl BuildRequest, None, g1)
     else
       let out = \<lparr>or_Method = pq_Method req, or_URL = url, or_Header = relay_header req,
                  or_Body = pq_Body req\<rparr> in
       case net out of
         None \<Rightarrow> (Inl Transport, Some out, g1\<lparr>gc_cb := cb_RecordFailure later cb\<rparr>)
       | Some resp \<Rightarrow> (Inr resp, Some out, g1\<lparr>gc_cb := cb_RecordSuccess cb\<rparr>))"

definition gateway_Do :: "(out_request \<Rightarrow> raw_response option) \<Rightarrow> time \<Rightarrow> time \<Rightarrow> http_request \<Rightarrow>
    gateway_client \<Rightarrow> (gateway_error + http_response) \<times> out_request option \<times> gateway_client" where
  "gateway_Do net now later req g =
    (let (ok, cb) = cb_Allow now (gc_cb g); g1 = g\<lparr>gc_cb := cb\<rparr> in
     if \<not> ok then (Inl CircuitOpen, None, g1)
     else if \<not> new_request_ok (hq_Method req) (hq_URL req) then (Inl BuildRequest, None, g1)
     else
       let out = \<lparr>or_Method = hq_Method req, or_URL = hq_URL req,
                  or_Header = add_headers (hq_Headers req) [], or_Body = hq_Body req\<rparr> in
       case net out of
         None \<Rightarrow> (Inl Transport, Some out, g1\<lparr>gc_cb := cb_RecordFailure later cb\<rparr>)
       | Some resp \<Rightarrow>
          (case rr_Body resp of
             None \<Rightarrow> (Inl ReadResponse, Some out, g1\<lparr>gc_cb := cb_RecordSuccess cb\<rparr>)
           | Some body \<Rightarrow>
              (Inr \<lparr>hr_StatusCode = rr_StatusCode resp, hr_Headers = rr_Header resp, hr_Body = body\<rparr>,
               Some out, g1\<lparr>gc_cb := cb_RecordSuccess cb\<rparr>)))"

definition gateway_healthCheck :: "(out_request \<Rightarrow> raw_response option) \<Rightarrow> time \<Rightarrow> time \<Rightarrow>
    gateway_client \<Rightarrow> bool \<times> gateway_client" where
  "gateway_healthCheck net now later g =
    (case gateway_Do net now later \<lparr>hq_Method = ''GET'', hq_URL = gc_gatewayURL g @ ''/healthz'',
             hq_Headers = [], hq_Body = []\<rparr> g of
       (Inl err, _, g1) \<Rightarrow> (False, g1\<lparr>gc_healthy := False\<rparr>)
     | (Inr resp, _, g1) \<Rightarrow>
        if 400 \<le> hr_StatusCode resp then (False, g1\<lparr>gc_healthy := False\<rparr>)
        else (True, g1\<lparr>gc_healthy := True\<rparr>))"

definition gateway_Healthy :: "gateway_client \<Rightarrow> bool" where
  "gateway_Healthy g = gc_healthy g"

section \<open>The dial address\<close>

definition strip_scheme :: "string \<Rightarrow> string" where
  "strip_scheme s =
    (if length s > length ''https://'' \<and> has_prefix s ''https://'' then drop (length ''https://'') s
     else if length s > length ''http://'' \<and> has_prefix s ''http://'' then drop (length ''http://'') s
     else s)"

definition strip_path :: "string \<Rightarrow> string" where
  "strip_path s = (case index_of (CHR ''/'') s of None \<Rightarrow> s | Some i \<Rightarrow> take i s)"

definition hostFromURL :: "string \<Rightarrow> string" where
  "hostFromURL rawURL =
    (let s = strip_path (strip_scheme rawURL) in
     if split_host_port s = None then s @ '':443'' else s)"

definition hostNameFromURL :: "string \<Rightarrow> string" where
  "hostNameFromURL rawURL =
    (let fallback = (let s = strip_path (strip_scheme rawURL) in
                     case split_host_port s of Some (h, _) \<Rightarrow> h | None \<Rightarrow> s) in
     case url_parse rawURL of
       Some u \<Rightarrow> if url_Hostname u \<noteq> [] then url_Hostname u else fallback
     | None \<Rightarrow> fallback)"

section \<open>The contract of a circuit breaker\<close>

text \<open>
  What the client needs of a breaker: a success makes it admit the next call, and a refused
  admission leaves it as it was. The client's lemmas are proved for any such breaker and any
  exchange that asks first and records the outcome of what it sends.
\<close>

locale call_guard =
  fixes allow :: "time \<Rightarrow> 'b \<Rightarrow> bool \<times> 'b"
    and success :: "'b \<Rightarrow> 'b"
    and failure :: "time \<Rightarrow> 'b \<Rightarrow> 'b"
  assumes refused_unchanged: "\<not> fst (allow t b) \<Longrightarrow> snd (allow t b) = b"
    and success_admits: "fst (allow t (success b))"
begin

definition guarded :: "(unit \<Rightarrow> 'r option) \<Rightarrow> time \<Rightarrow> time \<Rightarrow> 'b \<Rightarrow> 'r option \<times> bool \<times> 'b" where
  "guarded call now later b =
    (let (ok, b1) = allow now b in
     if \<not> ok then (None, False, b1)
     else (case call () of None \<Rightarrow> (None, True, failure later b1) | Some r \<Rightarrow> (Some r, True, success b1)))"

lemma guarded_refused: "\<not> fst (allow now b) \<Longrightarrow> guarded call now later b = (None, False, b)"
  using refused_unchanged[of now b] by (cases "allow now b") (simp add: guarded_def)

lemma guarded_success_keeps_open:
  "guarded call now later b = (Some r, sent, b') \<Longrightarrow> fst (allow t b')"
  using success_admits by (auto simp: guarded_def Let_def split: prod.splits if_splits option.splits)

end

interpretation breaker: call_guard cb_Allow cb_RecordSuccess cb_RecordFailure
  by unfold_locales
     (auto simp: cb_Allow_def cb_RecordSuccess_def split: circuitState.splits if_splits)

text \<open>A relay whose request can be built is a guarded call.\<close>

lemma gateway_Relay_guarded:
  fixes g :: gateway_client
  defines "out req \<equiv> \<lparr>or_Method = pq_Method req, or_URL = gc_gatewayURL g @ ''/relay'',
       or_Header = relay_header req, or_Body = pq_Body req\<rparr>"
  assumes "new_request_ok (pq_Method req) (gc_gatewayURL g @ ''/relay'')"
  shows "gateway_Relay net now later req g =
    (case breaker.guarded (\<lambda>_. net (out req)) now later (gc_cb g) of
       (res, sent, cb) \<Rightarrow>
         (case res of Some r \<Rightarrow> Inr r | None \<Rightarrow> Inl (if sent then Transport else CircuitOpen),
          if sent then Some (out req) else None, g\<lparr>gc_cb := cb\<rparr>))"
  using assms(2)
  by (cases "cb_Allow now (gc_cb g)")
     (simp add: gateway_Relay_def breaker.guarded_def Let_def out_def split: option.splits)

lemma cb_failure_refuses:
  assumes "fst (cb_Allow now cb)" and "cb_threshold cb \<le> cb_failures cb + 1" and "0 < cb_cooldown cb"
  shows "\<not> fst (cb_Allow later (cb_RecordFailure later (snd (cb_Allow now cb))))"
proof (cases "cb_state cb")
  case StateHalfOpen
  with assms show ?thesis
    by (cases "cb_halfOpenCAS cb") (simp_all add: cb_RecordFailure_def cb_Allow_def Let_def)
next
  case StateOpen
  with assms show ?thesis
    by (cases "cb_cooldown cb \<le> now - cb_openedAt cb")
       (simp_all add: cb_RecordFailure_def cb_Allow_def Let_def)
qed (use assms in \<open>simp add: cb_RecordFailure_def cb_Allow_def Let_def\<close>)

lemma canonical_original:
  "canonical_key ''X-Themisto-Original-URL'' = ''X-Themisto-Original-Url''"
  "canonical_key ''X-Themisto-Original-Host'' = ''X-Themisto-Original-Host''"
  "canonical_key ''X-Themisto-Original-Method'' = ''X-Themisto-Original-Method''"
  by code_simp+

section \<open>Properties\<close>

text \<open>
  What the relay tells the gateway about the original request is set by the agent: whatever
  headers the proxied request carries (also ones that spell the agent's own header names in any
  case), a request that leaves the agent has exactly one original-URL, original-host and
  original-method value, those of the proxied request.
\<close>

theorem relay_metadata_not_spoofable:
  assumes "gateway_Relay net now later req g = (res, Some out, g')"
  shows "header_values ''X-Themisto-Original-URL'' (or_Header out) = [pq_URL req] \<and>
    header_values ''X-Themisto-Original-Host'' (or_Header out) = [pq_Host req] \<and>
    header_values ''X-Themisto-Original-Method'' (or_Header out) = [pq_Method req]"
proof -
  have "or_Header out = relay_header req"
    using assms by (auto simp: gateway_Relay_def Let_def split: prod.splits if_splits option.splits)
  then show ?thesis by (simp add: relay_header_def header_values_Set canonical_original)
qed

definition sample_gateway :: gateway_client where
  "sample_gateway = NewGatewayClient ''https://gateway.example:8443'' 3 30"

theorem relay_metadata_not_spoofable_witness:
  "\<exists>res out g'. gateway_Relay (\<lambda>_. None) 0 1
       \<lparr>pq_Method = ''GET'', pq_URL = ''https://chatgpt.com/'', pq_Host = ''chatgpt.com'',
        pq_Headers = [(''x-themisto-original-host'', [''intranet''])], pq_Body = []\<rparr> sample_gateway
     = (res, Some out, g') \<and>
     header_values ''X-Themisto-Original-Host'' (or_Header out) = [''chatgpt.com'']"
proof -
  let ?req = "\<lparr>pq_Method = ''GET'', pq_URL = ''https://chatgpt.com/'', pq_Host = ''chatgpt.com'',
        pq_Headers = [(''x-themisto-original-host'', [''intranet''])], pq_Body = []\<rparr>"
  have "new_request_ok ''GET'' ''https://gateway.example:8443/relay''" by code_simp
  then obtain res out g' where r: "gateway_Relay (\<lambda>_. None) 0 1 ?req sample_gateway = (res, Some out, g')"
    by (simp add: gateway_Relay_def sample_gateway_def NewGatewayClient_def NewCircuitBreaker_def
        cb_Allow_def)
  from relay_metadata_not_spoofable[OF r] r show ?thesis by auto
qed

text \<open>
  While the breaker refuses, no request reaches the network and the client is unchanged; a
  relay that got a response leaves a breaker that admits the next call, at any time; a transport
  failure that reaches the threshold makes the very next call be refused.
\<close>

theorem relay_breaker_contract:
  assumes "new_request_ok (pq_Method req) (gc_gatewayURL g @ ''/relay'')"
  shows "(\<not> fst (cb_Allow now (gc_cb g)) \<longrightarrow>
            gateway_Relay net now later req g = (Inl CircuitOpen, None, g)) \<and>
    (\<forall>r sent g'. gateway_Relay net now later req g = (Inr r, sent, g') \<longrightarrow> fst (cb_Allow t (gc_cb g'))) \<and>
    (\<forall>sent g'. gateway_Relay net now later req g = (Inl Transport, sent, g') \<and>
        cb_threshold (gc_cb g) \<le> cb_failures (gc_cb g) + 1 \<and> 0 < cb_cooldown (gc_cb g) \<longrightarrow>
        \<not> fst (cb_Allow later (gc_cb g')))"
proof -
  note R = gateway_Relay_guarded[OF assms, of net now later]
  have a: "gateway_Relay net now later req g = (Inl CircuitOpen, None, g)"
    if "\<not> fst (cb_Allow now (gc_cb g))"
    using that by (simp add: R breaker.guarded_refused)
  have b: "fst (cb_Allow t (gc_cb g'))" if "gateway_Relay net now later req g = (Inr r, sent, g')" for r sent g'
    using that breaker.guarded_success_keeps_open[of _ now later "gc_cb g" r]
    by (auto simp: R split: prod.splits option.splits)
  have c: "\<not> fst (cb_Allow later (gc_cb g'))"
    if r: "gateway_Relay net now later req g = (Inl Transport, sent, g')"
      and th: "cb_threshold (gc_cb g) \<le> cb_failures (gc_cb g) + 1" "0 < cb_cooldown (gc_cb g)" for sent g'
  proof -
    from r have g': "gc_cb g' = cb_RecordFailure later (snd (cb_Allow now (gc_cb g)))"
      "fst (cb_Allow now (gc_cb g))"
      by (auto simp: gateway_Relay_def Let_def split: prod.splits if_splits option.splits)
    show ?thesis using g'(2) th unfolding g'(1) by (rule cb_failure_refuses)
  qed
  show ?thesis using a b c by blast
qed

theorem relay_breaker_contract_witness:
  "\<exists>r sent g'. gateway_Relay (\<lambda>_. Some \<lparr>rr_StatusCode = 200, rr_Header = [], rr_Body = Some []\<rparr>) 0 1
       \<lparr>pq_Method = ''GET'', pq_URL = [], pq_Host = [], pq_Headers = [], pq_Body = []\<rparr> sample_gateway
     = (Inr r, sent, g') \<and> fst (cb_Allow 2 (gc_cb g'))"
proof -
  let ?req = "\<lparr>pq_Method = ''GET'', pq_URL = [], pq_Host = [], pq_Headers = [], pq_Body = []\<rparr>"
  let ?net = "\<lambda>_. Some \<lparr>rr_StatusCode = 200, rr_Header = [], rr_Body = Some []\<rparr>"
  have u: "gc_gatewayURL sample_gateway @ ''/relay'' = ''https://gateway.example:8443/relay''"
    by (simp add: sample_gateway_def NewGatewayClient_def)
  have ok: "new_request_ok ''GET'' ''https://gateway.example:8443/relay''" by code_simp
  then have ok': "new_request_ok (pq_Method ?req) (gc_gatewayURL sample_gateway @ ''/relay'')"
    by (simp add: u)
  obtain r sent g' where r: "gateway_Relay ?net 0 1 ?req sample_gateway = (Inr r, sent, g')"
    using ok by (simp add: gateway_Relay_def u Let_def) (simp add: sample_gateway_def
        NewGatewayClient_def NewCircuitBreaker_def cb_Allow_def)
  with relay_breaker_contract[OF ok', of 0 ?net 1 2] have "fst (cb_Allow 2 (gc_cb g'))" by blast
  with r show ?thesis by blast
qed

end
