(* ===== verification/Interception.thy ===== *)
theory Interception
  imports Policy_Sync Gateway_Client DLP_Scanner "HOL-Library.Sublist"
begin

text \<open>
  The decisions of the forward proxy that involve no I/O (\<^verbatim>\<open>src/core/transport/proxy.go\<close>,
  \<^verbatim>\<open>src/core/transport/protocol.go\<close>): the metadata headers put on a forwarded request, the effective
  interception settings, which CONNECT targets are opened for inspection, how a request is
  attributed to an AI product and surface, and the reasons and categories shown to a user.

  The file has its own copies of \<^verbatim>\<open>normalizeInterceptDomain\<close> and \<^verbatim>\<open>vendorAliasesForDomain\<close>, which are
  the same functions as those of the policy engine; the model uses the latter. A set that the code
  collects in a map and reads back in an unspecified order is a sorted list here, of which only
  membership is used. \<^verbatim>\<open>runtime.GOOS\<close> is the argument \<open>goos\<close>.
\<close>

section \<open>Metadata headers\<close>

abbreviation ProtocolVersion :: string where "ProtocolVersion \<equiv> ''2026.01''"

definition setNonEmpty :: "string \<Rightarrow> string \<Rightarrow> (string \<times> string) list \<Rightarrow> (string \<times> string) list" where
  "setNonEmpty k v h = (if v \<noteq> [] then h @ [(k, v)] else h)"

definition int_str :: "int \<Rightarrow> string" where
  "int_str n = (if n < 0 then ''-'' @ nat_str (nat (- n)) else nat_str (nat n))"

definition BuildWrapperHeaders :: "string \<Rightarrow> string \<Rightarrow> process_info \<Rightarrow> string \<Rightarrow> bool \<Rightarrow> string \<Rightarrow> decision \<Rightarrow>
    string \<Rightarrow> string \<Rightarrow> string \<Rightarrow> string \<Rightarrow> (string \<times> string) list" where
  "BuildWrapperHeaders timestamp agentID proc primaryIface vpnActive policyVersion decision
     serviceCategory aiVendor ruleID requestID =
    (let h0 = [(''X-Themisto-Protocol-Version'', ProtocolVersion),
               (''X-Themisto-Agent-ID'', agentID),
               (''X-Themisto-Request-ID'', requestID),
               (''X-Themisto-Timestamp'', timestamp),
               (''X-Themisto-Decision'', decision_String decision)];
         h1 = setNonEmpty ''X-Themisto-Rule-ID'' ruleID h0;
         h2 = setNonEmpty ''X-Themisto-Policy-Version'' policyVersion h1;
         h3 = setNonEmpty ''X-Themisto-Service-Category'' serviceCategory h2;
         h4 = setNonEmpty ''X-Themisto-AI-Vendor'' aiVendor h3;
         h5 = (if ps_PID proc \<noteq> 0 then h4 @ [(''X-Themisto-Process-PID'', int_str (ps_PID proc))] else h4);
         h6 = setNonEmpty ''X-Themisto-Process-Name'' (ps_Name proc) h5;
         h7 = setNonEmpty ''X-Themisto-Process-Bundle'' (ps_BundleID proc) h6;
         h8 = setNonEmpty ''X-Themisto-Process-Signer'' (ps_SignerID proc) h7;
         h9 = (if ps_Signed proc then h8 @ [(''X-Themisto-Process-Signed'', ''true'')] else h8);
         h10 = setNonEmpty ''X-Themisto-Network-Interface'' primaryIface h9
     in if vpnActive then h10 @ [(''X-Themisto-VPN-Active'', ''true'')] else h10)"

definition cloneHeaders :: "header \<Rightarrow> header" where
  "cloneHeaders h = filter (\<lambda>(k, _). \<not> (equal_fold k ''Proxy-Connection'' \<or> equal_fold k ''Proxy-Authorization'')) h"

text \<open>The assignment to the header map, which does not canonicalise the key.\<close>

definition map_set :: "string \<Rightarrow> string list \<Rightarrow> header \<Rightarrow> header" where
  "map_set k vs h = filter (\<lambda>(k', _). k' \<noteq> k) h @ [(k, vs)]"

definition wrap_headers :: "(string \<times> string) list \<Rightarrow> header \<Rightarrow> header" where
  "wrap_headers ws h = fold (\<lambda>(k, v). map_set k [v]) ws (cloneHeaders h)"

section \<open>Protocols and platform switches\<close>

definition detectRequestProtocol :: "header \<Rightarrow> string" where
  "detectRequestProtocol h =
    (if contains (to_lower (header_Get ''Connection'' h)) ''upgrade'' \<and>
        equal_fold (trim_space (header_Get ''Upgrade'' h)) ''websocket''
     then InterceptProtocolWebSocket
     else if has_prefix (to_lower (trim_space (header_Get ''Content-Type'' h))) ''application/grpc''
     then InterceptProtocolGRPC
     else InterceptProtocolHTTP)"

definition shouldFallbackToDirectOnGatewayError :: "string \<Rightarrow> bool" where
  "shouldFallbackToDirectOnGatewayError goos = (goos = ''windows'')"

definition isSafeRetryHTTPMethod :: "string \<Rightarrow> bool" where
  "isSafeRetryHTTPMethod method = (method \<in> set [''GET'', ''HEAD'', ''OPTIONS''])"

definition infrastructureProcesses :: "string list" where
  "infrastructureProcesses = [''com.docker.backend'', ''com.docker.backend.exe'', ''docker desktop'',
     ''docker desktop.exe'', ''docker'', ''docker.exe'', ''dockerd'', ''dockerd.exe'', ''vpnkit'', ''vpnkit.exe'']"

definition shouldBypassInfrastructureProcess :: "string \<Rightarrow> string \<Rightarrow> bool" where
  "shouldBypassInfrastructureProcess goos processName =
    (if goos \<noteq> ''windows'' \<and> goos \<noteq> ''darwin'' then False
     else canon processName \<in> set infrastructureProcesses)"

definition shouldUseDirectConnectOnDesktop :: "string \<Rightarrow> bool" where
  "shouldUseDirectConnectOnDesktop goos = (goos = ''windows'' \<or> goos = ''darwin'')"

definition normalizeConnectTarget :: "string \<Rightarrow> string" where
  "normalizeConnectTarget hostport =
    (case split_host_port hostport of
       Some _ \<Rightarrow> hostport
     | None \<Rightarrow> if CHR '':'' \<in> set hostport then ''['' @ hostport @ '']:443'' else hostport @ '':443'')"

section \<open>Interception settings\<close>

record interceptionSettings =
  is_enabled :: bool
  is_domains :: "string list"
  is_protocols :: "string list"
  is_failMode :: string
  is_captureMode :: string
  is_scope :: string

definition non_empty_or :: "string \<Rightarrow> string \<Rightarrow> string" where
  "non_empty_or v d = (if v \<noteq> [] then v else d)"

definition local_settings :: "agent_config option \<Rightarrow> interceptionSettings" where
  "local_settings lcfg =
    (case lcfg of
       None \<Rightarrow> \<lparr>is_enabled = False, is_domains = [], is_protocols = [], is_failMode = HTTPSInterceptFailOpen,
          is_captureMode = InterceptCaptureModeEncryptedFullBody, is_scope = InterceptScopeAPIOnly\<rparr>
     | Some c \<Rightarrow> \<lparr>is_enabled = cf_HTTPSInterceptEnabled c, is_domains = cf_HTTPSInterceptDomains c,
          is_protocols = cf_HTTPSInterceptProtocols c,
          is_failMode = non_empty_or (canon (cf_HTTPSInterceptFailMode c)) HTTPSInterceptFailOpen,
          is_captureMode = non_empty_or (canon (cf_HTTPSInterceptCaptureMode c)) InterceptCaptureModeEncryptedFullBody,
          is_scope = InterceptScopeAPIOnly\<rparr>)"

definition managed_settings :: "policy_interception option \<Rightarrow> interceptionSettings \<Rightarrow> interceptionSettings" where
  "managed_settings managed c =
    (case managed of
       None \<Rightarrow> c
     | Some m \<Rightarrow> \<lparr>is_enabled = (is_enabled c \<or> pi_Enabled m), is_domains = is_domains c @ pi_Domains m,
          is_protocols = is_protocols c @ pi_Protocols m,
          is_failMode = non_empty_or (canon (pi_FailMode m)) (is_failMode c),
          is_captureMode = non_empty_or (canon (pi_CaptureMode m)) (is_captureMode c),
          is_scope = non_empty_or (canon (pi_Scope m)) (is_scope c)\<rparr>)"

definition effectiveInterceptionConfig :: "policy_interception option \<Rightarrow> agent_config option \<Rightarrow> interceptionSettings" where
  "effectiveInterceptionConfig managed lcfg =
    (let c = managed_settings managed (local_settings lcfg) in
     c\<lparr>is_domains := interceptDomains (is_domains c), is_protocols := interceptProtocols (is_protocols c)\<rparr>)"

definition isAPIOnlyScope :: "string \<Rightarrow> bool" where
  "isAPIOnlyScope scope = equal_fold (trim_space scope) InterceptScopeAPIOnly"

definition canonicalAIAPIHosts :: "string list" where
  "canonicalAIAPIHosts = [''api.openai.com'', ''api.anthropic.com'', ''generativelanguage.googleapis.com'',
     ''content-gemini.googleapis.com'', ''api.githubcopilot.com'', ''copilot-proxy.githubusercontent.com'',
     ''api2.cursor.sh'', ''api.cohere.ai'', ''api.cohere.com'', ''api.mistral.ai'', ''api.together.ai'',
     ''api.perplexity.ai'', ''api.replicate.com'', ''api-inference.huggingface.co'', ''api.stability.ai'',
     ''api.groq.com'', ''api.x.ai'']"

definition isCanonicalAIAPIHost :: "string \<Rightarrow> bool" where
  "isCanonicalAIAPIHost host = (normalizeInterceptDomain host \<in> set canonicalAIAPIHosts)"

definition frontendHosts :: "string list" where
  "frontendHosts = [''claude.ai'', ''chatgpt.com'', ''chat.openai.com'', ''gemini.google.com'',
     ''bard.google.com'', ''clients6.google.com'']"

definition host_or_subdomain :: "string \<Rightarrow> string \<Rightarrow> bool" where
  "host_or_subdomain host d = (host = d \<or> has_suffix host (''.'' @ d))"

definition isCloudflareProtectedFrontendHost :: "string \<Rightarrow> bool" where
  "isCloudflareProtectedFrontendHost host0 =
    (let host = normalizeInterceptDomain host0 in
     if host = [] then False else list_ex (host_or_subdomain host) frontendHosts)"

definition inheritsVendorSiblingInterception :: "string \<Rightarrow> ai_service_info \<Rightarrow> string \<Rightarrow> ai_service_info \<Rightarrow> bool" where
  "inheritsVendorSiblingInterception host hostInfo allowedDomain allowedInfo =
    (if si_Vendor hostInfo \<noteq> si_Vendor allowedInfo then False
     else if si_Vendor hostInfo = ''google'' \<and> has_suffix host ''.clients6.google.com''
     then contains allowedDomain ''gemini'' \<or> allowedDomain = ''generativelanguage.googleapis.com''
     else False)"

fun allowed_loop :: "string \<Rightarrow> ai_service_info option \<Rightarrow> string list \<Rightarrow> bool" where
  "allowed_loop host hostInfo [] = False"
| "allowed_loop host hostInfo (allowed # rest) =
    (let d = normalizeInterceptDomain allowed in
     if d = [] then allowed_loop host hostInfo rest
     else if host_or_subdomain host d then True
     else (case hostInfo of
             None \<Rightarrow> allowed_loop host hostInfo rest
           | Some hi \<Rightarrow>
              (case LookupAIService d of
                 None \<Rightarrow> allowed_loop host hostInfo rest
               | Some ai \<Rightarrow> if inheritsVendorSiblingInterception host hi d ai then True
                            else allowed_loop host hostInfo rest)))"

definition shouldInterceptHTTPS :: "string \<Rightarrow> interceptionSettings \<Rightarrow> bool" where
  "shouldInterceptHTTPS host0 cfg =
    (if \<not> is_enabled cfg then False
     else
       let host = normalizeInterceptDomain host0 in
       if host = [] then False
       else if isAPIOnlyScope (is_scope cfg) \<and> \<not> isCanonicalAIAPIHost host then False
       else if isCloudflareProtectedFrontendHost host then False
       else allowed_loop host (LookupAIService host) (is_domains cfg))"

definition isInterceptProtocolEnabled :: "interceptionSettings \<Rightarrow> string \<Rightarrow> bool" where
  "isInterceptProtocolEnabled cfg protocol =
    (if is_protocols cfg = [] then False else list_ex (\<lambda>p. p = canon protocol) (is_protocols cfg))"

definition shouldFailOpen :: "interceptionSettings \<Rightarrow> bool" where
  "shouldFailOpen cfg = equal_fold (trim_space (is_failMode cfg)) HTTPSInterceptFailOpen"

section \<open>Attribution\<close>

definition selectSupported :: "string list \<Rightarrow> string \<Rightarrow> string" where
  "selectSupported supported wanted =
    (case List.find (\<lambda>c. equal_fold c wanted) supported of Some c \<Rightarrow> to_lower c | None \<Rightarrow> [])"

fun first_nonempty :: "string list \<Rightarrow> string" where
  "first_nonempty [] = []"
| "first_nonempty (s # ss) = (if s \<noteq> [] then s else first_nonempty ss)"

definition browser_surface :: "string \<Rightarrow> string \<Rightarrow> string list \<Rightarrow> string" where
  "browser_surface name bundle supported =
    (if contains name ''safari'' \<or> bundle = ''com.apple.safari'' then selectSupported supported ''browser_safari''
     else if contains name ''chrome'' \<or> contains name ''chromium'' \<or> contains name ''brave'' \<or>
       contains name ''edge'' \<or> contains name ''arc''
     then selectSupported supported ''browser_chromium'' else [])"

definition token_surface :: "string \<Rightarrow> string \<Rightarrow> string list \<Rightarrow> string" where
  "token_surface name bundle supported =
    (case List.find (\<lambda>c. let token = replace_char (CHR ''_'') (CHR '' '') (to_lower c) in
             token \<noteq> [] \<and> (contains name token \<or> contains bundle (replace_char (CHR '' '') (CHR ''.'') token)))
           supported of
       Some c \<Rightarrow> to_lower c | None \<Rightarrow> [])"

definition inferCaptureSurface :: "process_info \<Rightarrow> string list \<Rightarrow> string" where
  "inferCaptureSurface process supported =
    (let name = canon (ps_Name process); bundle = canon (ps_BundleID process);
         found = first_nonempty ([browser_surface name bundle supported, token_surface name bundle supported] @
           map (selectSupported supported) [''local_model'', ''coding_agent'', ''desktop'', ''native_https'', ''api''])
     in if found \<noteq> [] then found else ''unknown'')"

definition classify_entry :: "ai_product_catalog_entry list \<Rightarrow> request_context \<Rightarrow> string list \<Rightarrow>
    ai_product_catalog_entry option" where
  "classify_entry catalog ctx signals =
    (case LookupAIProduct catalog (cx_Host ctx) (cx_Process ctx) of
       Some e \<Rightarrow> Some e
     | None \<Rightarrow>
        (case List.find (\<lambda>o'. o' \<noteq> None) (map (\<lambda>s. LookupAIProduct catalog s (cx_Process ctx)) signals) of
           Some o' \<Rightarrow> o' | None \<Rightarrow> None))"

definition classifyAIRequest :: "ai_product_catalog_entry list option \<Rightarrow> string list \<Rightarrow> request_context \<Rightarrow> request_context" where
  "classifyAIRequest managed signals ctx =
    (let catalog = (case managed of Some m \<Rightarrow> if m \<noteq> [] then m else BuiltInAIProductCatalog
                    | None \<Rightarrow> BuiltInAIProductCatalog) in
     case classify_entry catalog ctx signals of
       None \<Rightarrow> ctx
     | Some e \<Rightarrow> ctx\<lparr>cx_AIVendor := ap_VendorKey e, cx_AIProduct := ap_ProductKey e,
         cx_ServiceCategory := ap_FunctionalCategory e,
         cx_CaptureSurface := (if cx_CaptureSurface ctx = [] then inferCaptureSurface (cx_Process ctx) (ap_Surfaces e)
                               else cx_CaptureSurface ctx)\<rparr>)"

section \<open>Reasons and categories\<close>

definition telemetryDecision :: "decision \<Rightarrow> string" where
  "telemetryDecision d = (case d of DecisionBlock \<Rightarrow> ''block'' | DecisionBypass \<Rightarrow> ''bypass''
     | DecisionAlert \<Rightarrow> ''alert'' | _ \<Rightarrow> ''allow'')"

definition dlpActionForDecision :: "decision \<Rightarrow> string" where
  "dlpActionForDecision d = (if d = DecisionBlock then ''block'' else ''alert'')"

definition rule_block_reason :: "policy_rule option \<Rightarrow> string" where
  "rule_block_reason rule = (case rule of Some r \<Rightarrow> trim_space (pr_BlockReason r) | None \<Rightarrow> [])"

definition dlpReasonForDecision :: "decision \<Rightarrow> policy_rule option \<Rightarrow> string \<times> string" where
  "dlpReasonForDecision d rule =
    (if d = DecisionBlock then
       (''policy_block'', non_empty_or (rule_block_reason rule) ''Blocked by organization policy'')
     else if d = DecisionAlert then
       (''policy_alert'', non_empty_or (rule_block_reason rule) ''Matched alert policy'')
     else (''dlp_match'', ''Sensitive content detected by DLP scanner''))"

definition dlpCategory :: "dlp_info \<Rightarrow> string \<Rightarrow> string" where
  "dlpCategory info serviceCategory =
    (if di_ContainsCredentials info then ''credentials''
     else if di_ContainsPII info then ''pii''
     else if di_ContainsSourceCode info then ''source_code''
     else if di_Matches info \<noteq> [] then dlp_match_type_string (dm_Type (hd (di_Matches info)))
     else if trim_space serviceCategory \<noteq> [] then serviceCategory
     else ''policy'')"

definition blockReasonForRule :: "policy_rule option \<Rightarrow> string \<Rightarrow> string" where
  "blockReasonForRule rule category =
    (if rule_block_reason rule \<noteq> [] then rule_block_reason rule
     else if category = ''credentials'' then ''Credentials were detected in this request.''
     else if category = ''pii'' then ''Personal data was detected in this request.''
     else if category = ''source_code'' then ''Source code was detected in this request.''
     else ''Request blocked by active organization policy.'')"

section \<open>Lemmas\<close>


lemma index_of_None: "x \<notin> set s \<Longrightarrow> index_of x s = None"
  by (induction s) auto

lemma domain_char_plain:
  assumes "domain_char_ok c"
  shows "lower_char c = c" "\<not> is_space c"
  using assms by (auto simp: domain_char_ok_def is_lower_def is_digit_def lower_char_def is_space_def)

lemma domain_char_not: "\<not> domain_char_ok (CHR '':'')" "\<not> domain_char_ok (CHR ''/'')" "\<not> domain_char_ok (CHR ''*'')"
  by code_simp+

lemma normalize_plain:
  assumes "list_all domain_char_ok h" and "h \<noteq> []"
  shows "normalizeInterceptDomain h =
    (let w = trim_prefix (trim_suffix h ''.'') ''.'' in if w = [] \<or> \<not> contains w ''.'' then [] else w)"
proof -
  have low: "to_lower h = h"
    using assms(1) by (simp add: to_lower_def list_all_iff domain_char_plain(1) map_idI)
  have sp: "trim_space h = h"
    by (rule trim_space_plain) (use assms(1) domain_char_plain(2) in \<open>simp add: list_all_iff\<close>)
  have no: "CHR '':'' \<notin> set h" "CHR ''/'' \<notin> set h" "CHR ''*'' \<notin> set h"
    using assms(1) domain_char_not by (auto simp only: list_all_iff)
  have pre: "trim_prefix h ''*.'' = h"
    using no(3) by (auto simp: trim_prefix_def has_prefix_iff)
  have slash: "\<not> contains h ''/''" "\<not> contains h ''://''"
    using no(1,2) by (auto simp: contains_iff)
  have port: "split_host_port h = None"
    using no(1) index_of_None[of "CHR '':''" "rev h"] by (simp add: split_host_port_def last_index_of_def)
  have cand: "interceptDomainCandidate h = trim_prefix (trim_suffix h ''.'') ''.''"
    using pre slash port by (simp add: interceptDomainCandidate_def Let_def)
  have "list_all domain_char_ok (trim_prefix (trim_suffix h ''.'') ''.'')"
    using assms(1) by (auto simp: list_all_iff trim_prefix_def trim_suffix_def dest: in_set_dropD in_set_takeD)
  then show ?thesis
    using assms(2) by (simp add: normalizeInterceptDomain_def low sp cand Let_def)
qed


text \<open>
  The rule that lets a sibling host of an allowed vendor be intercepted never fires: it asks for a
  host below \<^verbatim>\<open>clients6.google.com\<close>, and those are excluded before the loop.
\<close>

lemma clients6_is_frontend:
  assumes "list_all domain_char_ok h" and "has_suffix h ''.clients6.google.com''"
  shows "isCloudflareProtectedFrontendHost h"
proof -
  let ?c = "''clients6.google.com''"
  from assms(2) obtain t where h: "h = t @ ''.'' @ ?c" by (auto simp: has_suffix_iff)
  have "trim_suffix h ''.'' = h" by (simp add: h trim_suffix_def has_suffix_def)
  moreover have "\<exists>u. trim_prefix h ''.'' = u @ ''.'' @ ?c \<or> trim_prefix h ''.'' = ?c"
  proof (cases t)
    case (Cons x xs)
    then show ?thesis by (cases "x = CHR ''.''") (auto simp: h trim_prefix_def)
  qed (simp add: h trim_prefix_def)
  ultimately obtain u where "normalizeInterceptDomain h = u @ ''.'' @ ?c \<or> normalizeInterceptDomain h = ?c"
    using normalize_plain[OF assms(1)] h by (auto simp: Let_def contains_char)
  then have "normalizeInterceptDomain h \<noteq> [] \<and> host_or_subdomain (normalizeInterceptDomain h) ?c"
    by (auto simp: host_or_subdomain_def has_suffix_iff)
  then show ?thesis by (simp add: isCloudflareProtectedFrontendHost_def Let_def frontendHosts_def)
qed

lemma allowed_loop_iff:
  assumes "\<not> has_suffix host ''.clients6.google.com''"
  shows "allowed_loop host hi ds \<longleftrightarrow>
    (\<exists>d\<in>set ds. normalizeInterceptDomain d \<noteq> [] \<and> host_or_subdomain host (normalizeInterceptDomain d))"
proof -
  have sib: "\<not> inheritsVendorSiblingInterception host a d b" for a d b
    using assms by (simp add: inheritsVendorSiblingInterception_def)
  show ?thesis by (induction ds) (auto simp: Let_def sib split: option.split)
qed

section \<open>Header maps\<close>

lemma header_values_Add: "header_values k (header_Add k' v h) =
    header_values k h @ (if canonical_key k = canonical_key k' then [v] else [])"
proof -
  have "map_of (filter (\<lambda>(a, _). a \<noteq> x) l) y = (if y = x then None else map_of l y)" for x y and l :: header
    by (induction l) auto
  then show ?thesis
    by (auto simp: header_values_def header_Add_def header_Del_def map_add_def split: option.splits)
qed

lemma header_values_fold_Add: "header_values k (fold (header_Add k') vs h) =
    header_values k h @ (if canonical_key k = canonical_key k' then vs else [])"
  by (induction vs arbitrary: h) (simp_all add: header_values_Add)

definition values_for :: "string \<Rightarrow> header \<Rightarrow> string list" where
  "values_for k h = concat (map snd (filter (\<lambda>(k', _). canonical_key k' = canonical_key k) h))"

lemma header_values_add_headers: "header_values k (add_headers hs h) = header_values k h @ values_for k hs"
proof (induction hs arbitrary: h)
  case (Cons e hs)
  then show ?case
    by (cases e) (auto simp: add_headers_def values_for_def header_values_fold_Add)
qed (simp add: add_headers_def values_for_def)

lemma values_for_mset: "mset hs = mset hs' \<Longrightarrow> mset (values_for k hs) = mset (values_for k hs')"
proof -
  have "mset (values_for k hs) = sum_mset (image_mset (\<lambda>(k', vs). mset vs)
      (filter_mset (\<lambda>(k', _). canonical_key k' = canonical_key k) (mset hs)))" for hs
    by (induction hs) (auto simp: values_for_def)
  then show "mset hs = mset hs' \<Longrightarrow> mset (values_for k hs) = mset (values_for k hs')" by simp
qed

text \<open>The keys the relay itself sets last.\<close>

definition original_keys :: "string list" where
  "original_keys = [''X-Themisto-Original-Method'', ''X-Themisto-Original-Host'', ''X-Themisto-Original-URL'']"

lemma relay_header_values:
  assumes "canonical_key k \<notin> set (map canonical_key original_keys)"
  shows "header_values k (relay_header req) = values_for k (pq_Headers req)"
  using assms unfolding original_keys_def
  by (simp add: relay_header_def header_values_Set header_values_add_headers header_values_def[of k "[]"])

lemma fold_map_set:
  "distinct (map fst ws) \<Longrightarrow> fold (\<lambda>(k, v). map_set k [v]) ws h =
     filter (\<lambda>(a, _). a \<notin> set (map fst ws)) h @ map (\<lambda>(k, v). (k, [v])) ws"
proof (induction ws arbitrary: h)
  case (Cons e ws)
  obtain k v where e: "e = (k, v)" by force
  have "k \<notin> set (map fst ws)" using Cons.prems e by simp
  then have "filter (\<lambda>(a, _). a \<notin> set (map fst ws)) (map_set k [v] h) =
      filter (\<lambda>(a, _). a \<notin> set (map fst (e # ws))) h @ [(k, [v])]"
    by (simp add: map_set_def e) (rule filter_cong, auto)
  then show ?case using Cons e by simp
qed simp

text \<open>All metadata keys; the ones a request carries are a subsequence.\<close>

definition wrapperKeys :: "string list" where
  "wrapperKeys = [''X-Themisto-Protocol-Version'', ''X-Themisto-Agent-ID'', ''X-Themisto-Request-ID'',
     ''X-Themisto-Timestamp'', ''X-Themisto-Decision'', ''X-Themisto-Rule-ID'', ''X-Themisto-Policy-Version'',
     ''X-Themisto-Service-Category'', ''X-Themisto-AI-Vendor'', ''X-Themisto-Process-PID'',
     ''X-Themisto-Process-Name'', ''X-Themisto-Process-Bundle'', ''X-Themisto-Process-Signer'',
     ''X-Themisto-Process-Signed'', ''X-Themisto-Network-Interface'', ''X-Themisto-VPN-Active'']"

lemma subseq_snoc_if: "subseq xs ys \<Longrightarrow> subseq (if b then xs @ [k] else xs) (ys @ [k])"
  by (simp add: subseq_append' list_emb_prefix)

lemma setNonEmpty_keys: "map fst (setNonEmpty k v h) = (if v \<noteq> [] then map fst h @ [k] else map fst h)"
  by (simp add: setNonEmpty_def)

lemma optional_header_keys: "map fst (if b then h @ [(k, v)] else h) = (if b then map fst h @ [k] else map fst h)"
  by simp

lemma wrapper_subseq:
  "subseq (map fst (BuildWrapperHeaders ts aid proc ifc vpn pv d cat vendor rid reqid)) wrapperKeys"
proof -
  have keys: "wrapperKeys = ((((((((((take 5 wrapperKeys @ [''X-Themisto-Rule-ID'']) @ [''X-Themisto-Policy-Version''])
      @ [''X-Themisto-Service-Category'']) @ [''X-Themisto-AI-Vendor'']) @ [''X-Themisto-Process-PID''])
      @ [''X-Themisto-Process-Name'']) @ [''X-Themisto-Process-Bundle'']) @ [''X-Themisto-Process-Signer''])
      @ [''X-Themisto-Process-Signed'']) @ [''X-Themisto-Network-Interface'']) @ [''X-Themisto-VPN-Active'']"
    by (simp add: wrapperKeys_def)
  show ?thesis
    unfolding BuildWrapperHeaders_def Let_def setNonEmpty_keys optional_header_keys
    by (subst keys, (rule subseq_snoc_if)+) (simp add: wrapperKeys_def)
qed

lemma wrapperKeys_distinct: "distinct (map canonical_key wrapperKeys)"
  by code_simp

lemma wrapperKeys_canonical:
  "list_all (\<lambda>k. canonical_key k \<noteq> k \<longrightarrow> canonical_key k \<notin> set wrapperKeys) wrapperKeys"
  by code_simp

lemma wrapperKeys_foreign:
  "list_all (\<lambda>k. canonical_key k \<notin> set (map canonical_key original_keys) \<and>
     \<not> equal_fold (canonical_key k) ''Proxy-Connection'' \<and>
     \<not> equal_fold (canonical_key k) ''Proxy-Authorization'') wrapperKeys"
  by code_simp

lemma values_for_distinct:
  "distinct (map fst h) \<Longrightarrow> \<forall>(k', _)\<in>set h. canonical_key k' = k' \<Longrightarrow> values_for k h = header_values k h"
proof (induction h)
  case (Cons e h)
  obtain k' vs where e: "e = (k', vs)" by force
  have "values_for k h = []" if "canonical_key k = k'"
  proof -
    have "canonical_key a \<noteq> canonical_key k" if "(a, b) \<in> set h" for a b
    proof -
      have "canonical_key a = a" using Cons.prems(2) that by auto
      moreover have "a \<noteq> k'" using Cons.prems(1) e that by force
      ultimately show ?thesis using \<open>canonical_key k = k'\<close> by simp
    qed
    then show ?thesis by (auto simp: values_for_def filter_empty_conv)
  qed
  then show ?case using Cons e by (auto simp: values_for_def header_values_def)
qed (simp add: values_for_def header_values_def)

lemma values_for_cloneHeaders:
  assumes "\<not> equal_fold (canonical_key k) ''Proxy-Connection''" "\<not> equal_fold (canonical_key k) ''Proxy-Authorization''"
    and "\<forall>(k', _)\<in>set h. canonical_key k' = k'"
  shows "values_for k (cloneHeaders h) = values_for k h"
proof -
  have "filter (\<lambda>(k', _). canonical_key k' = canonical_key k) (cloneHeaders h) =
      filter (\<lambda>(k', _). canonical_key k' = canonical_key k) h"
    unfolding cloneHeaders_def filter_filter
    by (rule filter_cong) (use assms in \<open>auto simp: case_prod_beta\<close>)
  then show ?thesis by (simp add: values_for_def)
qed

lemma values_for_own:
  "\<forall>(k', _)\<in>set g. canonical_key k' = k' \<Longrightarrow> canonical_key k = k \<Longrightarrow> k \<in> K \<Longrightarrow>
     values_for k (filter (\<lambda>(a, _). a \<notin> K) g) = []"
  by (induction g) (auto simp: values_for_def)

lemma values_for_other:
  "\<forall>(k', _)\<in>set g. canonical_key k' = k' \<Longrightarrow> canonical_key k \<notin> K \<Longrightarrow>
     values_for k (filter (\<lambda>(a, _). a \<notin> K) g) = values_for k g"
  by (induction g) (auto simp: values_for_def)

lemma single_value:
  "distinct (map (canonical_key \<circ> fst) ws) \<Longrightarrow> (k, v) \<in> set ws \<Longrightarrow>
     values_for k (map (\<lambda>(k, v). (k, [v])) ws) = [v]"
proof (induction ws)
  case (Cons e ws)
  have none: "values_for k' (map (\<lambda>(k, v). (k, [v])) ws) = []" if "canonical_key k' \<notin> (canonical_key \<circ> fst) ` set ws" for k'
    using that by (force simp: values_for_def filter_empty_conv)
  show ?case
  proof (cases "e = (k, v)")
    case True
    then show ?thesis using Cons.prems none[of k] by (simp add: values_for_def)
  next
    case False
    with Cons.prems have m: "(k, v) \<in> set ws" by auto
    then have "canonical_key (fst e) \<noteq> canonical_key k" using Cons.prems(1) by force
    moreover have "values_for k (map (\<lambda>(k, v). (k, [v])) ws) = [v]" using Cons.IH Cons.prems(1) m by simp
    ultimately show ?thesis by (cases e) (simp add: values_for_def)
  qed
qed simp

lemma relay_metadata_values:
  assumes "distinct (map fst h)" and "\<forall>(k', _)\<in>set h. canonical_key k' = k'"
    and "(k, v) \<in> set (BuildWrapperHeaders ts aid proc ifc vpn pv d cat vendor rid reqid)"
    and "mset (pq_Headers req) =
      mset (wrap_headers (BuildWrapperHeaders ts aid proc ifc vpn pv d cat vendor rid reqid) h)"
  shows "(canonical_key k = k \<longrightarrow> header_values k (relay_header req) = [v]) \<and>
    (canonical_key k \<noteq> k \<longrightarrow> mset (header_values k (relay_header req)) = add_mset v (mset (header_values k h)))"
proof -
  let ?ws = "BuildWrapperHeaders ts aid proc ifc vpn pv d cat vendor rid reqid"
  obtain N where N: "map fst ?ws = nths wrapperKeys N"
    using wrapper_subseq[of ts aid proc ifc vpn pv d cat vendor rid reqid] by (auto simp: subseq_conv_nths)
  then have "map (canonical_key \<circ> fst) ?ws = nths (map canonical_key wrapperKeys) N"
    by (simp flip: map_map add: nths_map)
  then have dist: "distinct (map (canonical_key \<circ> fst) ?ws)"
    using distinct_nthsI[OF wrapperKeys_distinct] by simp
  then have dist2: "distinct (map fst ?ws)" by (simp flip: map_map add: distinct_map)
  have "k \<in> set (map fst ?ws)" using assms(3) by force
  then have mem: "k \<in> set wrapperKeys" unfolding N by (rule in_set_nthsD)
  with wrapperKeys_foreign have foreign: "canonical_key k \<notin> set (map canonical_key original_keys)"
    "\<not> equal_fold (canonical_key k) ''Proxy-Connection''" "\<not> equal_fold (canonical_key k) ''Proxy-Authorization''"
    by (simp_all only: list_all_iff not_False_eq_True)
  let ?kept = "filter (\<lambda>(a, _). a \<notin> set (map fst ?ws)) (cloneHeaders h)"
  have "mset (header_values k (relay_header req)) = mset (values_for k (wrap_headers ?ws h))"
    using values_for_mset[OF assms(4)] relay_header_values[OF foreign(1)] by simp
  also have "\<dots> = mset (values_for k ?kept) + {#v#}"
    using single_value[OF dist assms(3)]
    by (simp add: wrap_headers_def fold_map_set[OF dist2]) (simp add: values_for_def)
  finally have vals: "mset (header_values k (relay_header req)) = mset (values_for k ?kept) + {#v#}" .
  have canon: "\<forall>(k', _)\<in>set (cloneHeaders h). canonical_key k' = k'"
    using assms(2) by (auto simp: cloneHeaders_def)
  show ?thesis
  proof (cases "canonical_key k = k")
    case True
    have "values_for k ?kept = []"
      by (rule values_for_own[OF canon True \<open>k \<in> set (map fst ?ws)\<close>])
    with vals True show ?thesis by (simp add: mset_single_iff_right)
  next
    case False
    have "canonical_key k \<notin> set (map fst ?ws)"
    proof
      assume "canonical_key k \<in> set (map fst ?ws)"
      then have "canonical_key k \<in> set wrapperKeys" unfolding N by (rule in_set_nthsD)
      with mem False show False using wrapperKeys_canonical by (auto simp: list_all_iff)
    qed
    then have "values_for k ?kept = values_for k (cloneHeaders h)"
      by (rule values_for_other[OF canon])
    then show ?thesis
      using vals False values_for_cloneHeaders[OF foreign(2,3) assms(2)] values_for_distinct[OF assms(1,2)] by simp
  qed
qed

section \<open>Properties\<close>

text \<open>
  Which CONNECT targets are opened: exactly those that the settings enable, whose normalised name
  is not empty, is a canonical API host when the scope is API only, is not one of the excluded web
  frontends, and equals an allowed domain or lies below one. The rule for hosts of the same vendor
  adds nothing to this.
\<close>

theorem shouldInterceptHTTPS_exact:
  "shouldInterceptHTTPS host0 cfg \<longleftrightarrow>
    (let host = normalizeInterceptDomain host0 in
     is_enabled cfg \<and> host \<noteq> [] \<and> (if isAPIOnlyScope (is_scope cfg) then isCanonicalAIAPIHost host else True) \<and>
     \<not> isCloudflareProtectedFrontendHost host \<and>
     (\<exists>d\<in>set (is_domains cfg). normalizeInterceptDomain d \<noteq> [] \<and>
        host_or_subdomain host (normalizeInterceptDomain d)))"
proof -
  let ?h = "normalizeInterceptDomain host0"
  have "\<not> has_suffix ?h ''.clients6.google.com''" if "?h \<noteq> []" "\<not> isCloudflareProtectedFrontendHost ?h"
    using that clients6_is_frontend normalizeInterceptDomain_chars by blast
  then show ?thesis
    by (auto simp: shouldInterceptHTTPS_def Let_def allowed_loop_iff)
qed

text \<open>
  The metadata of a relayed request. Whatever headers the client sent (a map with canonical
  keys), and in whatever order the two maps are read: a metadata key that is in canonical form
  carries the agent's value and nothing else, but the agent writes several keys in a form that is
  not canonical (the ones with \<^verbatim>\<open>ID\<close>, \<^verbatim>\<open>AI\<close>, \<^verbatim>\<open>PID\<close> and \<^verbatim>\<open>VPN\<close>), and for those the values the client sent
  under the same name travel along with the agent's.
\<close>

theorem relayed_metadata:
  assumes "distinct (map fst h)" and "\<forall>(k', _)\<in>set h. canonical_key k' = k'"
    and "(k, v) \<in> set (BuildWrapperHeaders ts aid proc ifc vpn pv d cat vendor rid reqid)"
    and "mset (pq_Headers req) =
      mset (wrap_headers (BuildWrapperHeaders ts aid proc ifc vpn pv d cat vendor rid reqid) h)"
  shows "(canonical_key k = k \<longrightarrow> header_values k (relay_header req) = [v]) \<and>
    (canonical_key k \<noteq> k \<longrightarrow> mset (header_values k (relay_header req)) = add_mset v (mset (header_values k h)))"
  using assms by (rule relay_metadata_values)

definition spoofed_headers :: header where
  "spoofed_headers = [(''X-Themisto-Agent-Id'', [''other-agent'']), (''X-Themisto-Decision'', [''bypass''])]"

definition sample_wrapper :: "(string \<times> string) list" where
  "sample_wrapper = BuildWrapperHeaders ''t'' ''agent-1'' empty_process_info [] False [] DecisionAlert [] [] [] ''r''"

definition spoofed_request :: proxy_request where
  "spoofed_request = \<lparr>pq_Method = ''GET'', pq_URL = ''http://a.b/'', pq_Host = ''a.b'',
     pq_Headers = wrap_headers sample_wrapper spoofed_headers, pq_Body = []\<rparr>"

theorem relayed_metadata_witness:
  "header_values ''X-Themisto-Decision'' (relay_header spoofed_request) = [''alert''] \<and>
   mset (header_values ''X-Themisto-Agent-ID'' (relay_header spoofed_request)) = {#''agent-1'', ''other-agent''#} \<and>
   header_Get ''X-Themisto-Agent-ID'' (relay_header spoofed_request) = ''other-agent''"
proof -
  have h: "distinct (map fst spoofed_headers) \<and> list_all (\<lambda>(k, _). canonical_key k = k) spoofed_headers" by code_simp
  then have h2: "\<forall>(k, _)\<in>set spoofed_headers. canonical_key k = k" unfolding list_all_iff by (rule conjunct2)
  have w: "(''X-Themisto-Decision'', ''alert'') \<in> set sample_wrapper \<and> (''X-Themisto-Agent-ID'', ''agent-1'') \<in> set sample_wrapper \<and>
      canonical_key ''X-Themisto-Decision'' = ''X-Themisto-Decision'' \<and> canonical_key ''X-Themisto-Agent-ID'' \<noteq> ''X-Themisto-Agent-ID'' \<and>
      header_values ''X-Themisto-Agent-ID'' spoofed_headers = [''other-agent'']" by code_simp
  have m: "mset (pq_Headers spoofed_request) = mset (wrap_headers sample_wrapper spoofed_headers)"
    by (simp add: spoofed_request_def)
  have "header_Get ''X-Themisto-Agent-ID'' (relay_header spoofed_request) = ''other-agent''" by code_simp
  moreover have "header_values ''X-Themisto-Decision'' (relay_header spoofed_request) = [''alert'']"
    using relayed_metadata[OF conjunct1[OF h] h2 conjunct1[OF w, unfolded sample_wrapper_def] m[unfolded sample_wrapper_def]] w
    by blast
  moreover have "mset (header_values ''X-Themisto-Agent-ID'' (relay_header spoofed_request)) =
      add_mset ''agent-1'' (mset (header_values ''X-Themisto-Agent-ID'' spoofed_headers))"
    using relayed_metadata[OF conjunct1[OF h] h2 conjunct1[OF conjunct2[OF w], unfolded sample_wrapper_def] m[unfolded sample_wrapper_def]] w
    by blast
  ultimately show ?thesis using w by (simp only: mset.simps)
qed

end
