(* ===== verification/AI_Activity.thy ===== *)
theory AI_Activity
  imports Domain_Types Go_Stdlib Sha256
begin

text \<open>
  The privacy boundary of endpoint AI observations (\<^verbatim>\<open>src/core/aiactivity/event.go\<close>): construction,
  validation and serialisation of an activity event.

  The request identifier leaves the endpoint only as its SHA-256 digest. The zero \<^verbatim>\<open>time.Time\<close> is
  \<^term>\<open>0::time\<close>.
\<close>

section \<open>Events\<close>

record activity_event =
  ae_VendorKey :: string
  ae_ProductKey :: string
  ae_Surface :: string
  ae_ActivityKind :: string
  ae_ObservedAt :: time
  ae_SourceApplication :: string
  ae_ModelIdentifier :: string
  ae_ProjectIdentifier :: string
  ae_OpaqueSessionHash :: string
  ae_Count :: int
  ae_OriginKind :: string
  ae_SourceEvidenceLevel :: string
  ae_ReconciliationStatus :: string
  ae_EvidenceLevel :: string
  ae_SourceIdentifier :: string
  ae_SourceKey :: string
  ae_FreshnessAt :: time
  ae_Scope :: string

abbreviation ActivityEventName :: string where "ActivityEventName \<equiv> ''ai.activity.v1''"

text \<open>The anchored expression \<^verbatim>\<open>safeIdentifier\<close>, as the predicate it denotes.\<close>

definition safeIdentifier :: "string \<Rightarrow> bool" where
  "safeIdentifier s =
    (s \<noteq> [] \<and> (is_alpha (hd s) \<or> is_digit (hd s)) \<and> length s \<le> 255 \<and>
     list_all (\<lambda>c. is_alpha c \<or> is_digit c \<or> c \<in> set ''._:@/-'') (tl s))"

definition has_separator :: "string \<Rightarrow> bool" where
  "has_separator s = (CHR ''/'' \<in> set s \<or> backslash \<in> set s)"

definition safeApplicationName :: "string \<Rightarrow> string" where
  "safeApplicationName v =
    (let t = trim_space v in if has_separator t \<or> 128 < length t then [] else t)"

definition OpaqueHash :: "string \<Rightarrow> string" where
  "OpaqueHash v = hex_encode (sha256 v)"

definition NewObservedEvent :: "time \<Rightarrow> string \<Rightarrow> string \<Rightarrow> string \<Rightarrow> string \<Rightarrow> string \<Rightarrow>
    string \<Rightarrow> string \<Rightarrow> time \<Rightarrow> activity_event" where
  "NewObservedEvent now vendorKey productKey surface kind app sourceIdentifier sourceSeed at0 =
    (let at1 = (if at0 = 0 then now else at0); h = OpaqueHash sourceSeed in
     \<lparr>ae_VendorKey = canon vendorKey, ae_ProductKey = canon productKey, ae_Surface = canon surface,
      ae_ActivityKind = canon kind, ae_ObservedAt = at1, ae_SourceApplication = safeApplicationName app,
      ae_ModelIdentifier = [], ae_ProjectIdentifier = [], ae_OpaqueSessionHash = h, ae_Count = 1,
      ae_OriginKind = ''endpoint'', ae_SourceEvidenceLevel = ''observed'',
      ae_ReconciliationStatus = ''not_applicable'', ae_EvidenceLevel = ''observed'',
      ae_SourceIdentifier = trim_space sourceIdentifier, ae_SourceKey = h, ae_FreshnessAt = at1,
      ae_Scope = ''device''\<rparr>)"

definition NewRequestEvent :: "time \<Rightarrow> string \<Rightarrow> string \<Rightarrow> string \<Rightarrow> string \<Rightarrow>
    string \<Rightarrow> string \<Rightarrow> time \<Rightarrow> activity_event" where
  "NewRequestEvent now vendorKey productKey surface app sourceIdentifier sourceSeed at0 =
     NewObservedEvent now vendorKey productKey surface ''request'' app sourceIdentifier sourceSeed at0"

section \<open>Validation and serialisation\<close>

datatype activity_error =
    RequiredIdentifier string
  | TimesRequired
  | CountNotPositive
  | ProvenanceNotObserved
  | ReconciliationInvalid
  | SourceApplicationPath
  | SessionHashInvalid
  | UnsafeIdentifier string

definition require_identifier :: "string \<Rightarrow> string \<Rightarrow> activity_error list" where
  "require_identifier name v = (if v = [] \<or> \<not> safeIdentifier v then [RequiredIdentifier name] else [])"

definition optional_identifier :: "string \<Rightarrow> string \<Rightarrow> activity_error list" where
  "optional_identifier name v = (if v \<noteq> [] \<and> \<not> safeIdentifier v then [UnsafeIdentifier name] else [])"

text \<open>
  The last check ranges over a map, so the order of its errors is unspecified; the model reports
  them in the order of the source text.
\<close>

definition activity_Validate :: "activity_event \<Rightarrow> activity_error list" where
  "activity_Validate e =
     require_identifier ''vendor_key'' (ae_VendorKey e) @
     require_identifier ''product_key'' (ae_ProductKey e) @
     require_identifier ''surface'' (ae_Surface e) @
     require_identifier ''activity_kind'' (ae_ActivityKind e) @
     (if ae_ObservedAt e = 0 \<or> ae_FreshnessAt e = 0 then [TimesRequired] else []) @
     (if ae_Count e < 1 then [CountNotPositive] else []) @
     (if ae_OriginKind e \<noteq> ''endpoint'' \<or> ae_SourceEvidenceLevel e \<noteq> ''observed'' \<or>
         ae_EvidenceLevel e \<noteq> ''observed'' then [ProvenanceNotObserved] else []) @
     (if ae_ReconciliationStatus e \<noteq> ''not_applicable'' then [ReconciliationInvalid] else []) @
     (if has_separator (ae_SourceApplication e) then [SourceApplicationPath] else []) @
     (if ae_OpaqueSessionHash e \<noteq> [] \<and> length (ae_OpaqueSessionHash e) \<noteq> 64 then [SessionHashInvalid] else []) @
     optional_identifier ''model_identifier'' (ae_ModelIdentifier e) @
     optional_identifier ''project_identifier'' (ae_ProjectIdentifier e) @
     optional_identifier ''source_identifier'' (ae_SourceIdentifier e) @
     optional_identifier ''source_key'' (ae_SourceKey e)"

definition activity_Data :: "activity_event \<Rightarrow> godata" where
  "activity_Data e =
    [(''vendor_key'', VString (ae_VendorKey e)), (''product_key'', VString (ae_ProductKey e)),
     (''surface'', VString (ae_Surface e)), (''activity_kind'', VString (ae_ActivityKind e)),
     (''observed_at'', VTime (ae_ObservedAt e)), (''count'', VInt (ae_Count e)),
     (''origin_kind'', VString (ae_OriginKind e)),
     (''source_evidence_level'', VString (ae_SourceEvidenceLevel e)),
     (''reconciliation_status'', VString (ae_ReconciliationStatus e)),
     (''evidence_level'', VString (ae_EvidenceLevel e)),
     (''source_identifier'', VString (ae_SourceIdentifier e)), (''source_key'', VString (ae_SourceKey e)),
     (''freshness_at'', VTime (ae_FreshnessAt e)), (''scope'', VString (ae_Scope e))] @
    opt_field ''source_application'' (ae_SourceApplication e) @
    opt_field ''model_identifier'' (ae_ModelIdentifier e) @
    opt_field ''project_identifier'' (ae_ProjectIdentifier e) @
    opt_field ''opaque_session_hash'' (ae_OpaqueSessionHash e)"

definition allowedPayloadFields :: "string list" where
  "allowedPayloadFields = [''vendor_key'', ''product_key'', ''surface'', ''activity_kind'', ''observed_at'',
     ''source_application'', ''model_identifier'', ''project_identifier'', ''opaque_session_hash'', ''count'',
     ''origin_kind'', ''source_evidence_level'', ''reconciliation_status'', ''evidence_level'',
     ''source_identifier'', ''source_key'', ''freshness_at'', ''scope'']"

definition ValidatePayloadKeys :: "godata \<Rightarrow> bool" where
  "ValidatePayloadKeys dat = list_all (\<lambda>(k, _). k \<in> set allowedPayloadFields) dat"

section \<open>Lemmas\<close>

lemma hex_digit_ok: "n < 16 \<Longrightarrow> is_alpha (hex_digit n) \<or> is_digit (hex_digit n)"
proof -
  have "list_all (\<lambda>n. is_alpha (hex_digit n) \<or> is_digit (hex_digit n)) [0..<16]" by code_simp
  then show "n < 16 \<Longrightarrow> is_alpha (hex_digit n) \<or> is_digit (hex_digit n)" by (simp only: list_all_iff) simp
qed

lemma hash_length: "length (OpaqueHash v) = 64"
  unfolding OpaqueHash_def by (rule sha256.hex_length)

lemma hash_safe: "safeIdentifier (OpaqueHash v)"
proof -
  have "list_all (\<lambda>c. is_alpha c \<or> is_digit c) (hex_encode bs)" for bs
    by (induction bs) (simp_all add: hex_encode_def hex_digit_ok)
  then have "list_all (\<lambda>c. is_alpha c \<or> is_digit c) (OpaqueHash v)" by (simp add: OpaqueHash_def)
  moreover obtain c cs where "OpaqueHash v = c # cs"
    using sha256.hex_nonempty[of v] by (cases "OpaqueHash v") (auto simp: OpaqueHash_def)
  ultimately show ?thesis
    using hash_length[of v] by (auto simp: safeIdentifier_def list_all_iff)
qed

text \<open>A request event is rejected exactly for its identifiers: everything else it sets is valid.\<close>

lemma request_event_validates:
  assumes "now \<noteq> 0"
  shows "activity_Validate (NewRequestEvent now v p s app sid seed at0) = [] \<longleftrightarrow>
    safeIdentifier (canon v) \<and> safeIdentifier (canon p) \<and> safeIdentifier (canon s) \<and>
    (trim_space sid = [] \<or> safeIdentifier (trim_space sid))"
proof -
  have kind: "safeIdentifier (canon ''request'')" by code_simp
  have app: "\<not> has_separator (safeApplicationName app)"
    by (simp add: safeApplicationName_def Let_def) (simp add: has_separator_def)
  have ne: "safeIdentifier x \<Longrightarrow> x \<noteq> []" for x by (simp add: safeIdentifier_def)
  show ?thesis
    using assms ne[of "canon v"] ne[of "canon p"] ne[of "canon s"] ne[OF kind] kind app
      hash_safe[of seed] hash_length[of seed]
    unfolding activity_Validate_def NewRequestEvent_def NewObservedEvent_def Let_def
    by (auto simp: require_identifier_def optional_identifier_def)
qed

lemma activity_Data_keys: "ValidatePayloadKeys (activity_Data e)"
  unfolding ValidatePayloadKeys_def activity_Data_def opt_field_def list_all_append allowedPayloadFields_def
  by (intro conjI) (simp_all only: list.set insert_iff list.pred_inject prod.case simp_thms split: if_split)

section \<open>Properties\<close>

text \<open>
  What leaves the endpoint about an AI request. The
  serialised event has only allowlisted keys, it is accepted exactly when the vendor, product and
  surface keys and a non-empty agent identifier are safe identifiers, its provenance is the observed
  endpoint one, its source application contains no path separator, and two requests that differ in
  the request identifier only give events that differ in nothing but the digest of it.
\<close>

theorem activity_event_private:
  fixes v p s app sid :: string and at0 :: time
  assumes "now \<noteq> 0"
  defines "ev \<equiv> (\<lambda>seed. NewRequestEvent now v p s app sid seed at0)"
  shows "ValidatePayloadKeys (activity_Data (ev seed)) \<and>
    (activity_Validate (ev seed) = [] \<longleftrightarrow>
       safeIdentifier (canon v) \<and> safeIdentifier (canon p) \<and> safeIdentifier (canon s) \<and>
       (trim_space sid = [] \<or> safeIdentifier (trim_space sid))) \<and>
    ae_OriginKind (ev seed) = ''endpoint'' \<and> ae_EvidenceLevel (ev seed) = ''observed'' \<and>
    \<not> has_separator (ae_SourceApplication (ev seed)) \<and>
    ev seed' = (ev seed)\<lparr>ae_OpaqueSessionHash := OpaqueHash seed', ae_SourceKey := OpaqueHash seed'\<rparr>"
proof -
  have "\<not> has_separator (safeApplicationName app)"
    by (simp add: safeApplicationName_def Let_def) (simp add: has_separator_def)
  then show ?thesis
    using request_event_validates[OF assms(1)] activity_Data_keys
    unfolding ev_def by (simp add: NewRequestEvent_def NewObservedEvent_def Let_def)
qed

theorem activity_event_private_witness:
  "activity_Validate (NewRequestEvent 5 ''OpenAI'' ''chatgpt'' ''browser_safari'' ''/Applications/Safari''
     ''agent-1'' ''request-1'' 0) = []"
proof -
  have "safeIdentifier (canon ''OpenAI'') \<and> safeIdentifier (canon ''chatgpt'') \<and>
    safeIdentifier (canon ''browser_safari'') \<and> safeIdentifier (trim_space ''agent-1'')" by code_simp
  moreover have "(5::time) \<noteq> 0" by simp
  note conjunct1[OF conjunct2[OF activity_event_private[OF this, where v = "''OpenAI''" and p = "''chatgpt''" and s = "''browser_safari''"
        and app = "''/Applications/Safari''" and sid = "''agent-1''" and ?at0.0 = 0 and seed = "''request-1''"]]]
  ultimately show ?thesis by (simp only: simp_thms)
qed

end
