(* ===== verification/Proxy.thy ===== *)
theory Proxy
  imports Interception AI_Activity Agent_Config
begin

text \<open>
  The forward proxy's handlers (\<^verbatim>\<open>src/core/transport/proxy.go\<close>): plain HTTP requests, CONNECT
  tunnels, and the request loop on an intercepted TLS connection, with the body inspection,
  telemetry and user notification they perform.

  A handler is a function of the environment, the client's request and the proxy state. What the
  proxy does to the outside world is recorded in order in the trace \<open>hp_trace\<close> of the state:
  requests relayed to the gateway, sent directly, tunnels opened, replies written on an intercepted
  connection, notifications shown. The environment holds what the handlers observe: the platform,
  the clock, the fresh identifier, the outcome of every network operation, and the requests that
  arrive on the intercepted connection. A raw tunnel (\<^verbatim>\<open>pipe\<close>) is one trace entry. Logging is left
  out. One reading of the clock stands for all those of a request, and the body of a request that is
  retried after a failed relay (GET, HEAD and OPTIONS only) is taken to be unread.
\<close>

section \<open>Requests, environment and state\<close>

text \<open>A body as a stream: its bytes, and whether reading fails after them instead of ending.\<close>

record body_stream =
  bs_bytes :: string
  bs_fails :: bool

record client_request =
  cq_Method :: string
  cq_URL :: string
  cq_RequestURI :: string
  cq_Path :: string
  cq_Host :: string
  cq_Header :: header
  cq_Body :: "body_stream option"
  cq_ContentLength :: int
  cq_RemoteAddr :: string
  cq_TLS :: bool
  cq_Close :: bool

datatype hijack = NotHijacker | HijackFails | ClientGone | ClientReady

text \<open>The gateway's side of a CONNECT: the dial fails, the exchange fails, or it answers a status.\<close>

datatype gateway_tunnel = DialFails | ExchangeFails | ConnectStatus int

record proxy_env =
  px_goos :: string
  px_decoders :: decoders
  px_scanner :: scanner
  px_now :: time
  px_later :: time
  px_latency_ms :: int
  px_uid :: string
  px_timestamp :: string
  px_resolver :: "(string \<Rightarrow> nat \<Rightarrow> string \<Rightarrow> nat \<Rightarrow> process_info option) option"
  px_primaryInterface :: string
  px_vpnActive :: bool
  px_gateway :: "bool \<Rightarrow> out_request \<Rightarrow> raw_response option"
  px_direct :: "bool \<Rightarrow> out_request \<Rightarrow> raw_response option"
  px_dial :: "string \<Rightarrow> bool"
  px_hijack :: hijack
  px_tunnel :: gateway_tunnel
  px_ca_ready :: bool
  px_leaf_ok :: "string \<Rightarrow> bool"
  px_handshake_ok :: bool
  px_negotiated :: string
  px_client_ok :: bool
  px_upstream :: "string \<Rightarrow> client_request \<Rightarrow> raw_response option"
  px_target_tls :: "string \<Rightarrow> bool"
  px_requests :: "client_request list"
  px_parse_error :: bool

datatype net_action =
    Relayed out_request
  | SentDirect out_request
  | TunnelDirect string
  | GatewayConnect string "(string \<times> string) list"
  | TunnelGateway string
  | PassedThrough string client_request
  | BlindTLS string
  | MITMReply int string
  | Notified string string

record http_proxy =
  hp_cfg :: agent_config
  hp_router :: router_iface
  hp_gateway :: gateway_client
  hp_notifier :: bool
  hp_metrics :: collector
  hp_policyVersion :: string
  hp_managed :: "policy_interception option"
  hp_catalog :: "ai_product_catalog_entry list option"
  hp_notifyLast :: "(string \<times> time) list"
  hp_trace :: "net_action list"

text \<open>What is written to the client; \<^term>\<open>None\<close> as body: copying it fails.\<close>

datatype proxy_reply = HTTPReply int header "string option" | NoReply

definition http_error :: "int \<Rightarrow> string \<Rightarrow> proxy_reply" where
  "http_error code msg = HTTPReply code
     [(''Content-Type'', [''text/plain; charset=utf-8'']), (''X-Content-Type-Options'', [''nosniff''])]
     (Some (msg @ [CHR 0x0A]))"

definition act :: "net_action \<Rightarrow> http_proxy \<Rightarrow> http_proxy" where
  "act a p = p\<lparr>hp_trace := hp_trace p @ [a]\<rparr>"

definition counter :: "proxy_env \<Rightarrow> string \<Rightarrow> http_proxy \<Rightarrow> http_proxy" where
  "counter env name p = p\<lparr>hp_metrics := collector_Counter (px_now env) name 1 [] (hp_metrics p)\<rparr>"

definition histogram :: "proxy_env \<Rightarrow> string \<Rightarrow> http_proxy \<Rightarrow> http_proxy" where
  "histogram env name p =
     p\<lparr>hp_metrics := collector_Histogram (px_now env) name (real_of_int (px_latency_ms env)) [] (hp_metrics p)\<rparr>"

definition proxy_emit :: "proxy_env \<Rightarrow> string \<Rightarrow> godata \<Rightarrow> http_proxy \<Rightarrow> http_proxy" where
  "proxy_emit env name dat p =
     p\<lparr>hp_metrics := collector_Emit (px_now env) name
        \<lparr>ep_AgentID = cf_AgentID (hp_cfg p), ep_Timestamp = px_now env, ep_Data = dat\<rparr> (hp_metrics p)\<rparr>"

section \<open>The request context\<close>

text \<open>\<^verbatim>\<open>strconv.ParseUint(s, 10, 16)\<close> with its error ignored: a value out of range yields the maximum.\<close>

fun parse_uint16_loop :: "nat \<Rightarrow> string \<Rightarrow> nat" where
  "parse_uint16_loop n [] = n"
| "parse_uint16_loop n (c # s) =
    (if \<not> is_digit c then 0
     else let n' = 10 * n + (of_char c - 48) in if 65535 < n' then 65535 else parse_uint16_loop n' s)"

definition split_or_empty :: "string \<Rightarrow> string \<times> string" where
  "split_or_empty hp = (case split_host_port hp of Some r \<Rightarrow> r | None \<Rightarrow> ([], []))"

definition resolveProcess :: "proxy_env \<Rightarrow> agent_config \<Rightarrow> client_request \<Rightarrow> process_info" where
  "resolveProcess env cfg r =
    (case px_resolver env of
       None \<Rightarrow> empty_process_info
     | Some resolve \<Rightarrow>
        (case split_host_port (cq_RemoteAddr r) of
           None \<Rightarrow> empty_process_info
         | Some (clientHost, clientPort) \<Rightarrow>
            (let (proxyHost, proxyPort) = split_or_empty (cf_ListenAddr cfg) in
             case resolve clientHost (parse_uint16_loop 0 clientPort) proxyHost (parse_uint16_loop 0 proxyPort) of
               Some info \<Rightarrow> info
             | None \<Rightarrow> empty_process_info)))"

definition buildRequestContext :: "proxy_env \<Rightarrow> agent_config \<Rightarrow> client_request \<Rightarrow> request_context" where
  "buildRequestContext env cfg r =
    (let (h, portStr) = split_or_empty (cq_Host r) in
     \<lparr>cx_RequestID = px_uid env, cx_Host = (if h = [] then cq_Host r else h),
      cx_Port = parse_uint16_loop 0 portStr, cx_Path = cq_Path r, cx_Method = cq_Method r,
      cx_Scheme = (if cq_Method r = ''CONNECT'' \<or> cq_TLS r then ''https'' else ''http''),
      cx_Protocol = InterceptProtocolHTTP, cx_Direction = TrafficDirectionOutbound,
      cx_InterceptedHTTPS = False, cx_InspectionQuality = InspectionQualityFull,
      cx_InspectionSkipReason = [], cx_Process = resolveProcess env cfg r, cx_ServiceCategory = [],
      cx_AIVendor = [], cx_AIProduct = [], cx_CaptureSurface = [], cx_DLP = empty_dlp_info\<rparr>)"

definition classify_request :: "http_proxy \<Rightarrow> client_request \<Rightarrow> request_context \<Rightarrow> request_context" where
  "classify_request p r ctx =
     classifyAIRequest (hp_catalog p) [header_Get ''Origin'' (cq_Header r), header_Get ''Referer'' (cq_Header r)] ctx"

section \<open>Body inspection\<close>

text \<open>
  The read is limited to one byte more than the scan limit. When it fails, the bytes read so far are
  gone from the request's body; otherwise the body is rebuilt from the prefix and the rest.
\<close>

definition inspectRequestBody :: "proxy_env \<Rightarrow> client_request \<Rightarrow> request_context \<Rightarrow> client_request \<times> request_context" where
  "inspectRequestBody env r ctx =
    (case cq_Body r of
       None \<Rightarrow> (r, ctx)
     | Some b \<Rightarrow>
        if cq_ContentLength r = 0 then (r, ctx)
        else
          let n = MaxBodySize + 1; prefetch = take n (bs_bytes b) in
          if bs_fails b \<and> length (bs_bytes b) < n
          then (r\<lparr>cq_Body := Some \<lparr>bs_bytes = [], bs_fails = True\<rparr>\<rparr>, ctx)
          else
            let truncated = MaxBodySize < length prefetch;
                scanBody = (if truncated then take MaxBodySize prefetch else prefetch);
                r' = r\<lparr>cq_Body := Some \<lparr>bs_bytes = prefetch @ drop n (bs_bytes b), bs_fails = bs_fails b\<rparr>\<rparr> in
            if ShouldSuppressPath (cx_Path ctx)
            then (r', ctx\<lparr>cx_InspectionQuality := InspectionQualitySkipped,
                          cx_InspectionSkipReason := ''suppressed_path''\<rparr>)
            else
              let info = ScanRequest (px_decoders env) (px_scanner env)
                           (trim_space (header_Get ''Content-Type'' (cq_Header r))) scanBody [];
                  info1 = (if di_BodySample info = [] then info\<lparr>di_BodySample := scanBody\<rparr> else info) in
              (r', ctx\<lparr>cx_DLP := info1\<lparr>di_BodyTruncated := truncated\<rparr>\<rparr>))"

section \<open>Telemetry and notification\<close>

definition context_data :: "request_context \<Rightarrow> godata" where
  "context_data ctx =
    opt_field ''protocol'' (cx_Protocol ctx) @ opt_field ''direction'' (cx_Direction ctx) @
    (if cx_InterceptedHTTPS ctx then [(''intercepted_https'', VBool True)] else []) @
    opt_field ''inspection_quality'' (cx_InspectionQuality ctx) @
    opt_field ''inspection_skip_reason'' (cx_InspectionSkipReason ctx)"

definition request_data :: "proxy_env \<Rightarrow> request_context \<Rightarrow> decision \<Rightarrow> string \<Rightarrow> int \<Rightarrow> godata" where
  "request_data env ctx d ruleID status =
    [(''method'', VString (cx_Method ctx)), (''host'', VString (cx_Host ctx)),
     (''decision'', VString (telemetryDecision d)), (''latency_ms'', VInt (px_latency_ms env))] @
    (if 0 < status then [(''status'', VInt status)] else []) @
    (if 0 < cx_Port ctx then [(''port'', VInt (int (cx_Port ctx)))] else []) @
    opt_field ''rule_id'' ruleID @ opt_field ''source_app'' (ps_Name (cx_Process ctx)) @
    opt_field ''service_category'' (cx_ServiceCategory ctx) @ opt_field ''ai_vendor'' (cx_AIVendor ctx) @
    opt_field ''capture_surface'' (cx_CaptureSurface ctx) @ context_data ctx"

definition emitRequestTelemetry :: "proxy_env \<Rightarrow> request_context \<Rightarrow> decision \<Rightarrow> string \<Rightarrow> int \<Rightarrow> http_proxy \<Rightarrow> http_proxy" where
  "emitRequestTelemetry env ctx d ruleID status p =
    (let p1 = proxy_emit env ''proxy.request'' (request_data env ctx d ruleID status) p in
     if cx_AIVendor ctx \<noteq> [] \<and> cx_AIProduct ctx \<noteq> [] then
       (let ev = NewRequestEvent (px_now env) (cx_AIVendor ctx) (cx_AIProduct ctx) (cx_CaptureSurface ctx)
                   (ps_Name (cx_Process ctx)) (cf_AgentID (hp_cfg p)) (cx_RequestID ctx) (px_now env) in
        if activity_Validate ev \<noteq> [] then p1
        else proxy_emit env ActivityEventName (activity_Data ev) p1)
     else p1)"

definition match_types :: "dlp_match list \<Rightarrow> string list" where
  "match_types ms = rev (remdups (rev (map (dlp_match_type_string \<circ> dm_Type) ms)))"

definition dlp_data :: "request_context \<Rightarrow> dlp_info \<Rightarrow> string \<Rightarrow> string \<Rightarrow> string \<Rightarrow> string \<Rightarrow> godata" where
  "dlp_data ctx info requestID action policyRuleID reasonCode =
    (let sev = (if canon (di_Severity info) = ''low'' \<and> equal_fold action ''block'' then ''medium'' else di_Severity info) in
     [(''host'', VString (cx_Host ctx)), (''method'', VString (cx_Method ctx)), (''request_id'', VString requestID),
      (''match_types'', VList (map VString (match_types (di_Matches info)))),
      (''match_count'', VInt (int (length (di_Matches info)))), (''action_taken'', VString action),
      (''severity'', VString sev), (''classification_reason'', VString (di_ClassificationReason info)),
      (''content_type'', VString (di_ContentType info)), (''file_count'', VInt (int (di_FileCount info)))] @
     opt_field ''policy_rule_id'' policyRuleID @ opt_field ''reason_code'' reasonCode @
     opt_field ''service_category'' (cx_ServiceCategory ctx) @ opt_field ''ai_vendor'' (cx_AIVendor ctx) @
     opt_field ''source_app'' (ps_Name (cx_Process ctx)) @ opt_field ''capture_surface'' (cx_CaptureSurface ctx) @
     context_data ctx)"

definition emitDLPTelemetry :: "proxy_env \<Rightarrow> request_context \<Rightarrow> dlp_info \<Rightarrow> string \<Rightarrow> string \<Rightarrow> string \<Rightarrow>
    http_proxy \<Rightarrow> http_proxy" where
  "emitDLPTelemetry env ctx info action policyRuleID reasonCode p =
     proxy_emit env ''dlp.match'' (dlp_data ctx info (px_uid env) action policyRuleID reasonCode) p"

definition notifyInterval :: duration where "notifyInterval = 30 * second"

definition notify_text :: "string \<Rightarrow> string \<Rightarrow> decision \<Rightarrow> policy_rule option \<Rightarrow> string \<times> string" where
  "notify_text host category d rule =
    (if d = DecisionBlock then
       (''Themisto Blocked Sensitive Content'',
        ''This request to '' @ host @ '' was blocked because '' @ trim_space (blockReasonForRule rule category))
     else
       (''Themisto Policy Warning'',
        ''Potentially '' @ category @ '' content detected for '' @ host @
        ''. Please review company policy before sending.''))"

definition notifyUserForDLP :: "proxy_env \<Rightarrow> string \<Rightarrow> string \<Rightarrow> decision \<Rightarrow> policy_rule option \<Rightarrow>
    http_proxy \<Rightarrow> http_proxy" where
  "notifyUserForDLP env host0 category0 d rule p =
    (if \<not> hp_notifier p then p
     else if d \<noteq> DecisionAlert \<and> d \<noteq> DecisionBlock then p
     else
       let host = normalizeInterceptDomain host0;
           category = non_empty_or (trim_space category0) ''sensitive'';
           key = decision_String d @ ''|'' @ host @ ''|'' @ category in
       case map_of (hp_notifyLast p) key of
         Some prev \<Rightarrow>
           if px_now env - prev < notifyInterval then p
           else act (case_prod Notified (notify_text host category d rule))
                  (p\<lparr>hp_notifyLast := (key, px_now env) # filter (\<lambda>(k, _). k \<noteq> key) (hp_notifyLast p)\<rparr>)
       | None \<Rightarrow> act (case_prod Notified (notify_text host category d rule))
                  (p\<lparr>hp_notifyLast := (key, px_now env) # hp_notifyLast p\<rparr>))"

section \<open>Plain HTTP\<close>

definition stream_bytes :: "body_stream option \<Rightarrow> string" where
  "stream_bytes b = (case b of Some s \<Rightarrow> bs_bytes s | None \<Rightarrow> [])"

definition stream_fails :: "body_stream option \<Rightarrow> bool" where
  "stream_fails b = (case b of Some s \<Rightarrow> bs_fails s | None \<Rightarrow> False)"

definition wrapper_headers :: "proxy_env \<Rightarrow> http_proxy \<Rightarrow> request_context \<Rightarrow> decision \<Rightarrow> string \<Rightarrow> (string \<times> string) list" where
  "wrapper_headers env p ctx d ruleID =
     BuildWrapperHeaders (px_timestamp env) (cf_AgentID (hp_cfg p)) (cx_Process ctx) (px_primaryInterface env)
       (px_vpnActive env) (hp_policyVersion p) d (cx_ServiceCategory ctx) (cx_AIVendor ctx) ruleID (px_uid env)"

definition write_response :: "raw_response \<Rightarrow> proxy_reply" where
  "write_response resp = HTTPReply (rr_StatusCode resp) (add_headers (rr_Header resp) []) (rr_Body resp)"

definition bypassHTTP :: "proxy_env \<Rightarrow> client_request \<Rightarrow> http_proxy \<Rightarrow> int \<times> proxy_reply \<times> http_proxy" where
  "bypassHTTP env r p =
    (if \<not> new_request_ok (cq_Method r) (cq_URL r) then (400, http_error 400 ''bad request'', p)
     else
       let out = \<lparr>or_Method = cq_Method r, or_URL = cq_URL r, or_Header = cloneHeaders (cq_Header r),
                  or_Body = stream_bytes (cq_Body r)\<rparr>;
           p1 = act (SentDirect out) p in
       case px_direct env (stream_fails (cq_Body r)) out of
         None \<Rightarrow> (502, http_error 502 ''bad gateway'', p1)
       | Some resp \<Rightarrow> (rr_StatusCode resp, write_response resp, p1))"

text \<open>A relay through the gateway client, with what was sent recorded in the trace.\<close>

definition relay_via_gateway :: "proxy_env \<Rightarrow> bool \<Rightarrow> proxy_request \<Rightarrow> http_proxy \<Rightarrow> (gateway_error + raw_response) \<times> http_proxy" where
  "relay_via_gateway env fails req p =
    (let (res, sent, g) = gateway_Relay (px_gateway env fails) (px_now env) (px_later env) req (hp_gateway p);
         p1 = p\<lparr>hp_gateway := g\<rparr> in
     (res, case sent of Some out \<Rightarrow> act (Relayed out) p1 | None \<Rightarrow> p1))"

definition forwardHTTP :: "proxy_env \<Rightarrow> client_request \<Rightarrow> request_context \<Rightarrow> decision \<Rightarrow> string \<Rightarrow> http_proxy \<Rightarrow>
    int \<times> proxy_reply \<times> http_proxy" where
  "forwardHTTP env r ctx d ruleID p =
    (let req = \<lparr>pq_Method = cq_Method r, pq_URL = cq_URL r, pq_Host = cq_Host r,
                pq_Headers = wrap_headers (wrapper_headers env p ctx d ruleID) (cq_Header r),
                pq_Body = stream_bytes (cq_Body r)\<rparr> in
     case relay_via_gateway env (stream_fails (cq_Body r)) req p of
       (Inl err, p1) \<Rightarrow>
         if shouldFallbackToDirectOnGatewayError (px_goos env) \<and> isSafeRetryHTTPMethod (cq_Method r)
         then bypassHTTP env r p1
         else (502, http_error 502 ''bad gateway'', p1)
     | (Inr resp, p1) \<Rightarrow>
         (rr_StatusCode resp, write_response resp, histogram env ''gateway.relay.latency.ms'' p1))"

definition oneline :: "string \<Rightarrow> string" where
  "oneline s = replace_char (CHR 0x0A) (CHR '' '') (replace_char (CHR 0x0D) (CHR '' '') s)"

definition block_message :: "string \<Rightarrow> string" where
  "block_message blockBody = non_empty_or (trim_space blockBody) ''Request blocked by security policy.''"

definition writeBlockedResponse :: "string \<Rightarrow> string \<Rightarrow> string \<Rightarrow> proxy_reply" where
  "writeBlockedResponse blockBody category reason =
     HTTPReply 403 [(''Content-Type'', [''text/plain; charset=utf-8''])]
       (Some (oneline (block_message blockBody) @ [CHR 0x0A] @ ''Category: '' @ oneline (trim_space category) @
              [CHR 0x0A] @ ''Reason: '' @ oneline (trim_space reason) @ [CHR 0x0A]))"

definition lookupMatchedRule :: "router_iface \<Rightarrow> string \<Rightarrow> policy_rule option" where
  "lookupMatchedRule router ruleID =
    (if ruleID = [] then None
     else case ri_LookupRule router of None \<Rightarrow> None | Some f \<Rightarrow> f ruleID)"

text \<open>
  Routing a request: an error of the router is ignored and leaves the zero decision; certain
  infrastructure processes are let through whatever the policy says.
\<close>

definition route_request :: "proxy_env \<Rightarrow> http_proxy \<Rightarrow> request_context \<Rightarrow> decision \<times> string" where
  "route_request env p ctx =
    (if shouldBypassInfrastructureProcess (px_goos env) (ps_Name (cx_Process ctx)) then (DecisionBypass, [])
     else case ri_Route (hp_router p) ctx of Inr r \<Rightarrow> r | Inl _ \<Rightarrow> (DecisionForward, []))"

definition block_category :: "request_context \<Rightarrow> string" where
  "block_category ctx = dlpCategory (cx_DLP ctx) (cx_ServiceCategory ctx)"

definition report_dlp :: "proxy_env \<Rightarrow> request_context \<Rightarrow> decision \<Rightarrow> string \<Rightarrow> policy_rule option \<Rightarrow> http_proxy \<Rightarrow> http_proxy" where
  "report_dlp env ctx d ruleID rule p =
    (if di_Matches (cx_DLP ctx) \<noteq> [] then
       emitDLPTelemetry env ctx (cx_DLP ctx) (dlpActionForDecision d) ruleID (fst (dlpReasonForDecision d rule)) p
     else p)"

definition report_and_notify :: "proxy_env \<Rightarrow> request_context \<Rightarrow> decision \<Rightarrow> string \<Rightarrow> policy_rule option \<Rightarrow> http_proxy \<Rightarrow> http_proxy" where
  "report_and_notify env ctx d ruleID rule p =
    (let p1 = report_dlp env ctx d ruleID rule p in
     if di_Matches (cx_DLP ctx) \<noteq> [] then notifyUserForDLP env (cx_Host ctx) (block_category ctx) d rule p1 else p1)"

definition http_request_context :: "proxy_env \<Rightarrow> client_request \<Rightarrow> http_proxy \<Rightarrow> client_request \<times> request_context" where
  "http_request_context env r p =
    (let ctx0 = (buildRequestContext env (hp_cfg p) r)\<lparr>cx_Protocol := detectRequestProtocol (cq_Header r)\<rparr> in
     inspectRequestBody env r (classify_request p r ctx0))"

definition http_dispatch :: "proxy_env \<Rightarrow> client_request \<Rightarrow> request_context \<Rightarrow> decision \<Rightarrow> string \<Rightarrow> policy_rule option \<Rightarrow>
    http_proxy \<Rightarrow> int \<times> proxy_reply \<times> http_proxy" where
  "http_dispatch env r ctx d ruleID rule p =
    (case d of
       DecisionBlock \<Rightarrow>
         (403, writeBlockedResponse (cf_BlockPageBody (hp_cfg p)) (block_category ctx)
                 (blockReasonForRule rule (block_category ctx)),
          counter env ''proxy.requests.blocked'' p)
     | DecisionBypass \<Rightarrow> bypassHTTP env r (counter env ''proxy.requests.bypassed'' p)
     | DecisionForward \<Rightarrow> forwardHTTP env r ctx d ruleID (counter env ''proxy.requests.forwarded'' p)
     | DecisionAlert \<Rightarrow> forwardHTTP env r ctx d ruleID
         (counter env ''proxy.requests.alerted'' (counter env ''proxy.requests.forwarded'' p)))"

definition finish_request :: "proxy_env \<Rightarrow> request_context \<Rightarrow> decision \<Rightarrow> string \<Rightarrow> int \<Rightarrow> http_proxy \<Rightarrow> http_proxy" where
  "finish_request env ctx d ruleID status p =
     emitRequestTelemetry env ctx d ruleID status
       (histogram env ''proxy.latency.ms'' (counter env ''proxy.requests.total'' p))"

definition handleHTTP :: "proxy_env \<Rightarrow> client_request \<Rightarrow> http_proxy \<Rightarrow> proxy_reply \<times> http_proxy" where
  "handleHTTP env r p =
    (let (r1, ctx) = http_request_context env r p;
         (d, ruleID) = route_request env p ctx;
         rule = lookupMatchedRule (hp_router p) ruleID;
         (status, reply, p1) = http_dispatch env r1 ctx d ruleID rule (report_and_notify env ctx d ruleID rule p)
     in (reply, finish_request env ctx d ruleID status p1))"

section \<open>CONNECT\<close>

definition tunnelDirect :: "proxy_env \<Rightarrow> client_request \<Rightarrow> http_proxy \<Rightarrow> int \<times> proxy_reply \<times> http_proxy" where
  "tunnelDirect env r p =
    (if \<not> px_dial env (cq_Host r) then (502, http_error 502 ''bad gateway'', p)
     else case px_hijack env of
       NotHijacker \<Rightarrow> (500, http_error 500 ''hijack not supported'', p)
     | HijackFails \<Rightarrow> (500, NoReply, p)
     | ClientGone \<Rightarrow> (502, NoReply, p)
     | ClientReady \<Rightarrow> (200, NoReply, act (TunnelDirect (cq_Host r)) p))"

definition gateway_tunnel_failed :: "proxy_env \<Rightarrow> client_request \<Rightarrow> http_proxy \<Rightarrow> int \<times> proxy_reply \<times> http_proxy" where
  "gateway_tunnel_failed env r p =
    (if shouldFallbackToDirectOnGatewayError (px_goos env) then tunnelDirect env r p
     else (502, http_error 502 ''bad gateway'', p))"

definition tunnelViaGateway :: "proxy_env \<Rightarrow> client_request \<Rightarrow> request_context \<Rightarrow> decision \<Rightarrow> string \<Rightarrow> http_proxy \<Rightarrow>
    int \<times> proxy_reply \<times> http_proxy" where
  "tunnelViaGateway env r ctx d ruleID p =
    (let p1 = act (GatewayConnect (cq_Host r) (wrapper_headers env p ctx d ruleID)) p in
     case px_tunnel env of
       DialFails \<Rightarrow> gateway_tunnel_failed env r p
     | ExchangeFails \<Rightarrow> gateway_tunnel_failed env r p1
     | ConnectStatus status \<Rightarrow>
        if status \<noteq> 200 then gateway_tunnel_failed env r p1
        else (case px_hijack env of
                NotHijacker \<Rightarrow> (500, http_error 500 ''hijack not supported'', p1)
              | HijackFails \<Rightarrow> (500, NoReply, p1)
              | ClientGone \<Rightarrow> (502, NoReply, p1)
              | ClientReady \<Rightarrow> (200, NoReply, act (TunnelGateway (cq_Host r)) p1)))"

section \<open>The intercepted connection\<close>

text \<open>Writing a reply to the decrypted connection: 502 stands for a client that is gone.\<close>

definition writeSimpleMITMResponse :: "proxy_env \<Rightarrow> int \<Rightarrow> string \<Rightarrow> http_proxy \<Rightarrow> int \<times> http_proxy" where
  "writeSimpleMITMResponse env status body p =
    (if px_client_ok env then (status, act (MITMReply status body) p) else (502, p))"

definition writeBlockedMITMResponse :: "proxy_env \<Rightarrow> string \<Rightarrow> string \<Rightarrow> string \<Rightarrow> http_proxy \<Rightarrow> int \<times> http_proxy" where
  "writeBlockedMITMResponse env blockBody category reason p =
     writeSimpleMITMResponse env 403
       (block_message blockBody @ [CHR 0x0A] @ ''Category: '' @ trim_space category @ [CHR 0x0A] @
        ''Reason: '' @ trim_space reason @ [CHR 0x0A]) p"

definition tunnelDirectHijacked :: "proxy_env \<Rightarrow> string \<Rightarrow> http_proxy \<Rightarrow> int \<times> http_proxy" where
  "tunnelDirectHijacked env target p =
    (if px_dial env (normalizeConnectTarget target) then (200, act (TunnelDirect (normalizeConnectTarget target)) p)
     else (502, p))"

definition proxyTLSBlind :: "proxy_env \<Rightarrow> string \<Rightarrow> http_proxy \<Rightarrow> int \<times> http_proxy" where
  "proxyTLSBlind env target p =
    (if px_dial env (normalizeConnectTarget target) \<and> px_target_tls env target
     then (200, act (BlindTLS (normalizeConnectTarget target)) p) else (502, p))"

text \<open>
  Passing a decrypted request on to its target. The second component says that the connection was
  upgraded and piped; \<open>upgradable\<close> is whether the caller passed the client connection.
\<close>

definition passThroughInterceptedRequest :: "proxy_env \<Rightarrow> bool \<Rightarrow> client_request \<Rightarrow> string \<Rightarrow> http_proxy \<Rightarrow>
    (int \<times> bool) \<times> http_proxy" where
  "passThroughInterceptedRequest env upgradable req target p =
    (let failed = (\<lambda>p. let (s, p') = writeSimpleMITMResponse env 502 ''bad gateway'' p in ((s, False), p')) in
     if \<not> (px_dial env (normalizeConnectTarget target) \<and> px_target_tls env target) then failed p
     else
       let req1 = req\<lparr>cq_Host := non_empty_or (cq_Host req) target,
                      cq_Header := header_Del ''Proxy-Authorization'' (header_Del ''Proxy-Connection'' (cq_Header req))\<rparr>;
           p1 = act (PassedThrough target req1) p in
       case px_upstream env target req1 of
         None \<Rightarrow> failed p1
       | Some resp \<Rightarrow>
          if \<not> px_client_ok env then ((502, False), p1)
          else let p2 = act (MITMReply (rr_StatusCode resp) (case rr_Body resp of Some b \<Rightarrow> b | None \<Rightarrow> [])) p1 in
            ((rr_StatusCode resp, rr_StatusCode resp = 101 \<and> upgradable), p2))"

definition intercepted_url :: "string \<Rightarrow> client_request \<Rightarrow> string" where
  "intercepted_url target req =
     ''https://'' @ target @
     (if cq_RequestURI req = [] \<or> hd (cq_RequestURI req) \<noteq> CHR ''/'' then CHR ''/'' # cq_RequestURI req
      else cq_RequestURI req)"

definition forwardInterceptedViaGateway :: "proxy_env \<Rightarrow> client_request \<Rightarrow> request_context \<Rightarrow> decision \<Rightarrow> string \<Rightarrow>
    string \<Rightarrow> interceptionSettings \<Rightarrow> http_proxy \<Rightarrow> int \<times> http_proxy" where
  "forwardInterceptedViaGateway env req ctx d ruleID target icfg p =
    (let preq = \<lparr>pq_Method = cq_Method req, pq_URL = intercepted_url target req, pq_Host = target,
                 pq_Headers = wrap_headers (wrapper_headers env p ctx d ruleID) (cq_Header req),
                 pq_Body = stream_bytes (cq_Body req)\<rparr> in
     case relay_via_gateway env (stream_fails (cq_Body req)) preq p of
       (Inl err, p1) \<Rightarrow>
         if shouldFailOpen icfg \<and> isSafeRetryHTTPMethod (cq_Method req) then
           (let ((status, _), p2) = passThroughInterceptedRequest env False req target
                  (counter env ''proxy.https_intercept.fail_open'' p1) in (status, p2))
         else writeSimpleMITMResponse env 502 ''bad gateway'' p1
     | (Inr resp, p1) \<Rightarrow>
         if px_client_ok env then (rr_StatusCode resp,
             act (MITMReply (rr_StatusCode resp) (case rr_Body resp of Some b \<Rightarrow> b | None \<Rightarrow> [])) p1)
         else (502, p1))"

definition intercepted_context :: "client_request \<Rightarrow> request_context \<Rightarrow> request_context" where
  "intercepted_context req base =
    (let ctx = base\<lparr>cx_Host := non_empty_or (NormalizeHost (cq_Host req)) (cx_Host base), cx_Method := cq_Method req,
          cx_Path := cq_Path req, cx_Scheme := ''https'', cx_Protocol := detectRequestProtocol (cq_Header req),
          cx_Direction := TrafficDirectionOutbound, cx_InterceptedHTTPS := True,
          cx_InspectionQuality := InspectionQualityFull, cx_InspectionSkipReason := []\<rparr> in
     case InferAIService (cx_Host ctx) [header_Get ''Origin'' (cq_Header req), header_Get ''Referer'' (cq_Header req)] of
       Some ai \<Rightarrow> ctx\<lparr>cx_ServiceCategory := si_Category ai, cx_AIVendor := si_Vendor ai\<rparr>
     | None \<Rightarrow> ctx)"

definition skip_inspection :: "string \<Rightarrow> request_context \<Rightarrow> request_context" where
  "skip_inspection reason ctx = ctx\<lparr>cx_InspectionQuality := InspectionQualitySkipped, cx_InspectionSkipReason := reason\<rparr>"

definition intercepted_dispatch :: "proxy_env \<Rightarrow> client_request \<Rightarrow> request_context \<Rightarrow> decision \<Rightarrow> string \<Rightarrow> policy_rule option \<Rightarrow>
    string \<Rightarrow> interceptionSettings \<Rightarrow> http_proxy \<Rightarrow> int \<times> http_proxy" where
  "intercepted_dispatch env req ctx d ruleID rule target icfg p =
    (case d of
       DecisionBlock \<Rightarrow>
         writeBlockedMITMResponse env (cf_BlockPageBody (hp_cfg p)) (block_category ctx)
           (blockReasonForRule rule (block_category ctx)) (counter env ''proxy.requests.blocked'' p)
     | DecisionBypass \<Rightarrow>
         (let ((status, _), p') = passThroughInterceptedRequest env True req target
                (counter env ''proxy.requests.bypassed'' p) in (status, p'))
     | DecisionAlert \<Rightarrow>
         forwardInterceptedViaGateway env req ctx d ruleID target icfg
           (counter env ''proxy.requests.alerted'' (counter env ''proxy.requests.forwarded'' p))
     | DecisionForward \<Rightarrow>
         forwardInterceptedViaGateway env req ctx d ruleID target icfg (counter env ''proxy.requests.forwarded'' p))"

text \<open>
  One request of the loop: the status, whether the loop ends after it, and the new state. The
  decision of the CONNECT itself is used for the requests that are not inspected.
\<close>

definition intercept_one :: "proxy_env \<Rightarrow> string \<Rightarrow> request_context \<Rightarrow> decision \<Rightarrow> string \<Rightarrow> interceptionSettings \<Rightarrow>
    client_request \<Rightarrow> http_proxy \<Rightarrow> (int \<times> bool) \<times> http_proxy" where
  "intercept_one env target base d0 rule0 icfg req0 p =
    (let ctx = intercepted_context req0 base;
         req = req0\<lparr>cq_Host := non_empty_or (cq_Host req0) target\<rparr>;
         skipped = (\<lambda>reason.
           let ((status, upgraded), p1) = passThroughInterceptedRequest env True req target p in
           ((status, upgraded \<or> cq_Close req),
            emitRequestTelemetry env (skip_inspection reason ctx) d0 rule0 status p1)) in
     if \<not> isInterceptProtocolEnabled icfg (cx_Protocol ctx) then skipped ''protocol_not_enabled''
     else if cx_Protocol ctx \<noteq> InterceptProtocolHTTP then skipped ''protocol_not_implemented''
     else
       let (req1, ctx1) = inspectRequestBody env req ctx;
           (d, ruleID) = route_request env p ctx1;
           rule = lookupMatchedRule (hp_router p) ruleID;
           p1 = notifyUserForDLP env (cx_Host ctx1) (block_category ctx1) d rule (report_dlp env ctx1 d ruleID rule p);
           (status, p2) = intercepted_dispatch env req1 ctx1 d ruleID rule target icfg p1
       in ((status, cq_Close req \<or> status = 101), finish_request env ctx1 d ruleID status p2))"

fun intercept_loop :: "proxy_env \<Rightarrow> string \<Rightarrow> request_context \<Rightarrow> decision \<Rightarrow> string \<Rightarrow> interceptionSettings \<Rightarrow>
    client_request list \<Rightarrow> int \<Rightarrow> http_proxy \<Rightarrow> int \<times> http_proxy" where
  "intercept_loop env target base d0 rule0 icfg [] lastStatus p =
    (if px_parse_error env then 502 else lastStatus, p)"
| "intercept_loop env target base d0 rule0 icfg (req # reqs) lastStatus p =
    (let ((status, stop), p1) = intercept_one env target base d0 rule0 icfg req p in
     if stop then (status, p1)
     else intercept_loop env target base d0 rule0 icfg reqs status p1)"

definition interceptCONNECT :: "proxy_env \<Rightarrow> client_request \<Rightarrow> request_context \<Rightarrow> decision \<Rightarrow> string \<Rightarrow>
    interceptionSettings \<Rightarrow> http_proxy \<Rightarrow> int \<times> proxy_reply \<times> http_proxy" where
  "interceptCONNECT env r base d ruleID icfg p =
    (if \<not> px_ca_ready env then
       (let p1 = counter env ''proxy.https_intercept.failed'' p in
        if shouldFailOpen icfg then
          (let (status, reply, p2) = tunnelViaGateway env r base d ruleID (counter env ''proxy.https_intercept.fail_open'' p1) in
           (status, reply, emitRequestTelemetry env base d ruleID status p2))
        else (502, http_error 502 ''bad gateway'', emitRequestTelemetry env base d ruleID 502 p1))
     else case px_hijack env of
       NotHijacker \<Rightarrow> (500, http_error 500 ''hijack not supported'', p)
     | HijackFails \<Rightarrow> (500, NoReply, p)
     | ClientGone \<Rightarrow> (502, NoReply, p)
     | ClientReady \<Rightarrow>
        if \<not> px_leaf_ok env (cx_Host base) then
          (if shouldFailOpen icfg then
             (let (status, p1) = tunnelDirectHijacked env (cq_Host r) (counter env ''proxy.https_intercept.fail_open'' p) in
              (status, NoReply, p1))
           else (502, NoReply, p))
        else if \<not> px_handshake_ok env then
          (502, NoReply, if shouldFailOpen icfg then counter env ''proxy.https_intercept.fail_open'' p else p)
        else if trim_space (px_negotiated env) = ''h2'' then
          (let ctx = skip_inspection ''http2_passthrough''
                 (base\<lparr>cx_Protocol := InterceptProtocolHTTP, cx_InterceptedHTTPS := True\<rparr>);
               (status, p1) = proxyTLSBlind env (cq_Host r) p in
           (status, NoReply, finish_request env ctx d ruleID status p1))
        else
          (let (status, p1) = intercept_loop env (cq_Host r) base d ruleID icfg (px_requests env) 200 p in
           (status, NoReply,
            if px_requests env = []
            then histogram env ''proxy.latency.ms'' (counter env ''proxy.requests.total'' p1) else p1)))"

definition connect_forward :: "proxy_env \<Rightarrow> client_request \<Rightarrow> request_context \<Rightarrow> decision \<Rightarrow> string \<Rightarrow> http_proxy \<Rightarrow>
    proxy_reply \<times> http_proxy" where
  "connect_forward env r ctx d ruleID p =
    (let icfg = effectiveInterceptionConfig (hp_managed p) (Some (hp_cfg p)) in
     if shouldInterceptHTTPS (cx_Host ctx) icfg then
       (let (_, reply, p1) = interceptCONNECT env r ctx d ruleID icfg (counter env ''proxy.requests.intercepted_https'' p) in
        (reply, p1))
     else
       (let (status, reply, p1) =
          (if shouldUseDirectConnectOnDesktop (px_goos env) then tunnelDirect env r p
           else tunnelViaGateway env r ctx d ruleID p)
        in (reply, finish_request env ctx d ruleID status p1)))"

definition connect_context :: "proxy_env \<Rightarrow> client_request \<Rightarrow> http_proxy \<Rightarrow> request_context" where
  "connect_context env r p = classify_request p r (buildRequestContext env (hp_cfg p) r)"

definition handleConnect :: "proxy_env \<Rightarrow> client_request \<Rightarrow> http_proxy \<Rightarrow> proxy_reply \<times> http_proxy" where
  "handleConnect env r p =
    (let ctx = connect_context env r p;
         (d, ruleID) = route_request env p ctx;
         rule = lookupMatchedRule (hp_router p) ruleID in
     case d of
       DecisionBlock \<Rightarrow>
         (http_error 403 (''blocked by policy ('' @ block_category ctx @ ''): '' @ blockReasonForRule rule (block_category ctx)),
          finish_request env ctx d ruleID 403 (counter env ''proxy.requests.blocked'' p))
     | DecisionBypass \<Rightarrow>
         (let (status, reply, p1) = tunnelDirect env r (counter env ''proxy.requests.bypassed'' p)
          in (reply, finish_request env ctx d ruleID status p1))
     | DecisionForward \<Rightarrow> connect_forward env r ctx d ruleID (counter env ''proxy.requests.forwarded'' p)
     | DecisionAlert \<Rightarrow> connect_forward env r ctx d ruleID
         (counter env ''proxy.requests.alerted'' (counter env ''proxy.requests.forwarded'' p)))"

text \<open>The concurrency limiter: \<open>inflight\<close> requests hold a slot of the channel of capacity \<open>slots\<close>.\<close>

definition ServeHTTP :: "proxy_env \<Rightarrow> nat \<Rightarrow> nat \<Rightarrow> client_request \<Rightarrow> http_proxy \<Rightarrow> proxy_reply \<times> http_proxy" where
  "ServeHTTP env slots inflight r p =
    (if slots \<le> inflight then (http_error 503 ''service unavailable'', p)
     else if cq_Method r = ''CONNECT'' then handleConnect env r p
     else handleHTTP env r p)"

section \<open>Lemmas: what does not touch the network\<close>

named_theorems proxy_frame "parts of the proxy state an operation leaves alone"

lemma counter_frame [proxy_frame]:
  "hp_trace (counter env n p) = hp_trace p" "hp_gateway (counter env n p) = hp_gateway p"
  "hp_cfg (counter env n p) = hp_cfg p" "hp_router (counter env n p) = hp_router p"
  "hp_policyVersion (counter env n p) = hp_policyVersion p"
  by (simp_all add: counter_def)

lemma histogram_frame [proxy_frame]:
  "hp_trace (histogram env n p) = hp_trace p" "hp_gateway (histogram env n p) = hp_gateway p"
  "hp_cfg (histogram env n p) = hp_cfg p" "hp_router (histogram env n p) = hp_router p"
  by (simp_all add: histogram_def)

lemma proxy_emit_frame [proxy_frame]:
  "hp_trace (proxy_emit env n d p) = hp_trace p" "hp_gateway (proxy_emit env n d p) = hp_gateway p"
  "hp_cfg (proxy_emit env n d p) = hp_cfg p" "hp_router (proxy_emit env n d p) = hp_router p"
  "hp_policyVersion (proxy_emit env n d p) = hp_policyVersion p"
  by (simp_all add: proxy_emit_def)

lemma emitRequestTelemetry_frame [proxy_frame]:
  "hp_trace (emitRequestTelemetry env ctx d rid st p) = hp_trace p"
  "hp_gateway (emitRequestTelemetry env ctx d rid st p) = hp_gateway p"
  by (simp_all add: emitRequestTelemetry_def Let_def proxy_frame)

lemma report_dlp_frame [proxy_frame]:
  "hp_trace (report_dlp env ctx d rid rule p) = hp_trace p" "hp_gateway (report_dlp env ctx d rid rule p) = hp_gateway p"
  "hp_cfg (report_dlp env ctx d rid rule p) = hp_cfg p" "hp_router (report_dlp env ctx d rid rule p) = hp_router p"
  "hp_policyVersion (report_dlp env ctx d rid rule p) = hp_policyVersion p"
  by (simp_all add: report_dlp_def emitDLPTelemetry_def proxy_frame)

lemma finish_request_frame [proxy_frame]:
  "hp_trace (finish_request env ctx d rid st p) = hp_trace p" "hp_gateway (finish_request env ctx d rid st p) = hp_gateway p"
  by (simp_all add: finish_request_def proxy_frame)

lemma act_frame [proxy_frame]:
  "hp_trace (act a p) = hp_trace p @ [a]" "hp_gateway (act a p) = hp_gateway p" "hp_cfg (act a p) = hp_cfg p"
  "hp_policyVersion (act a p) = hp_policyVersion p"
  by (simp_all add: act_def)

text \<open>An action that carries something of the request out of the machine.\<close>

fun leaves :: "net_action \<Rightarrow> bool" where
  "leaves (Notified _ _) = False"
| "leaves (MITMReply _ _) = False"
| "leaves _ = True"

fun is_reply :: "net_action \<Rightarrow> bool" where
  "is_reply (MITMReply _ _) = True"
| "is_reply _ = False"

definition sent :: "http_proxy \<Rightarrow> net_action list" where
  "sent p = filter leaves (hp_trace p)"

definition replies :: "http_proxy \<Rightarrow> net_action list" where
  "replies p = filter is_reply (hp_trace p)"

lemma notify_frame [proxy_frame]:
  "hp_gateway (notifyUserForDLP env h c d rule p) = hp_gateway p"
  "hp_cfg (notifyUserForDLP env h c d rule p) = hp_cfg p"
  "hp_policyVersion (notifyUserForDLP env h c d rule p) = hp_policyVersion p"
  "sent (notifyUserForDLP env h c d rule p) = sent p"
  "replies (notifyUserForDLP env h c d rule p) = replies p"
  by (auto simp: notifyUserForDLP_def Let_def act_def sent_def replies_def split: option.splits prod.splits)

lemma sent_frame [proxy_frame]:
  "sent (counter env n p) = sent p" "sent (histogram env n p) = sent p" "sent (proxy_emit env n dat p) = sent p"
  "sent (finish_request env ctx d rid st p) = sent p" "sent (report_dlp env ctx d rid rule p) = sent p"
  "sent (emitRequestTelemetry env ctx d rid st p) = sent p"
  "sent (act a p) = (if leaves a then sent p @ [a] else sent p)"
  by (simp_all add: sent_def proxy_frame)

lemma replies_frame [proxy_frame]:
  "replies (counter env n p) = replies p" "replies (histogram env n p) = replies p"
  "replies (finish_request env ctx d rid st p) = replies p" "replies (report_dlp env ctx d rid rule p) = replies p"
  "replies (emitRequestTelemetry env ctx d rid st p) = replies p"
  "replies (act a p) = (if is_reply a then replies p @ [a] else replies p)"
  by (simp_all add: replies_def proxy_frame)

lemma report_and_notify_frame [proxy_frame]:
  "sent (report_and_notify env ctx d rid rule p) = sent p"
  "hp_gateway (report_and_notify env ctx d rid rule p) = hp_gateway p"
  "hp_cfg (report_and_notify env ctx d rid rule p) = hp_cfg p"
  by (simp_all add: report_and_notify_def Let_def proxy_frame)

lemma handleHTTP_unfold:
  assumes "http_request_context env r p = (r1, ctx)" and "route_request env p ctx = (d, rid)"
    and "http_dispatch env r1 ctx d rid (lookupMatchedRule (hp_router p) rid)
      (report_and_notify env ctx d rid (lookupMatchedRule (hp_router p) rid) p) = (st, reply, p1)"
  shows "handleHTTP env r p = (reply, finish_request env ctx d rid st p1)"
  using assms by (simp add: handleHTTP_def)

section \<open>Lemmas: relays\<close>

lemma relay_via_gateway_cases:
  assumes "relay_via_gateway env fails req p = (res, p1)"
  shows "(sent p1 = sent p \<and> isl res) \<or>
     (\<exists>out. sent p1 = sent p @ [Relayed out] \<and> or_Header out = relay_header req \<and> or_Body out = pq_Body req \<and>
            or_Method out = pq_Method req)"
    and "replies p1 = replies p" and "hp_cfg p1 = hp_cfg p"
  using assms
  by (auto simp: relay_via_gateway_def gateway_Relay_def Let_def sent_def replies_def act_def
      split: prod.splits if_splits option.splits)

lemma inspect_header: "cq_Header (fst (inspectRequestBody env r ctx)) = cq_Header r"
  "cq_Method (fst (inspectRequestBody env r ctx)) = cq_Method r"
  by (simp_all add: inspectRequestBody_def Let_def split: option.splits)

lemma http_context_header: "http_request_context env r p = (r1, ctx) \<Longrightarrow> cq_Header r1 = cq_Header r \<and> cq_Method r1 = cq_Method r"
  by (simp add: http_request_context_def Let_def) (metis fst_conv inspect_header)

lemma setNonEmpty_mono: "e \<in> set h \<Longrightarrow> e \<in> set (setNonEmpty k v h)"
  by (simp add: setNonEmpty_def)

lemma if_snoc_mono: "e \<in> set h \<Longrightarrow> e \<in> set (if b then h @ [x] else h)"
  by simp

lemma decision_in_wrapper:
  "(''X-Themisto-Decision'', decision_String d) \<in> set (wrapper_headers env p ctx d rid)"
  unfolding wrapper_headers_def BuildWrapperHeaders_def Let_def
  by (intro setNonEmpty_mono if_snoc_mono) simp

lemma decision_header:
  assumes "distinct (map fst h)" and "\<forall>(k', _)\<in>set h. canonical_key k' = k'"
    and "pq_Headers req = wrap_headers (wrapper_headers env p ctx d rid) h"
  shows "header_values ''X-Themisto-Decision'' (relay_header req) = [decision_String d]"
proof -
  have "canonical_key ''X-Themisto-Decision'' = ''X-Themisto-Decision''" by code_simp
  moreover have "mset (pq_Headers req) = mset (wrap_headers (wrapper_headers env p ctx d rid) h)"
    by (simp add: assms(3))
  ultimately show ?thesis
    using relay_metadata_values[OF assms(1,2) decision_in_wrapper[of d env p ctx rid, unfolded wrapper_headers_def],
        folded wrapper_headers_def] by blast
qed

section \<open>Lemmas: the intercepted connection\<close>

lemma simple_reply:
  "px_client_ok env \<Longrightarrow> writeSimpleMITMResponse env st b p = (st', p') \<Longrightarrow>
     st' = st \<and> replies p' = replies p @ [MITMReply st b] \<and> sent p' = sent p"
  by (auto simp: writeSimpleMITMResponse_def proxy_frame)

lemma passThrough_reply:
  assumes "px_client_ok env" and "passThroughInterceptedRequest env u req target p = ((st, upg), p')"
  shows "length (replies p') = Suc (length (replies p))" and "upg \<Longrightarrow> st = 101"
  using assms
  by (auto simp: passThroughInterceptedRequest_def writeSimpleMITMResponse_def Let_def proxy_frame
      split: if_splits option.splits)

lemma forwardIntercepted_reply:
  assumes "px_client_ok env" and "forwardInterceptedViaGateway env req ctx d rid target icfg p = (st, p')"
  shows "length (replies p') = Suc (length (replies p))"
proof -
  obtain res p1 where r: "relay_via_gateway env (stream_fails (cq_Body req))
      \<lparr>pq_Method = cq_Method req, pq_URL = intercepted_url target req, pq_Host = target,
       pq_Headers = wrap_headers (wrapper_headers env p ctx d rid) (cq_Header req),
       pq_Body = stream_bytes (cq_Body req)\<rparr> p = (res, p1)" by fastforce
  note rep = relay_via_gateway_cases(2)[OF r]
  show ?thesis
    using assms r rep passThrough_reply(1)[OF assms(1), of False req target "counter env ''proxy.https_intercept.fail_open'' p1"]
    by (auto simp: forwardInterceptedViaGateway_def writeSimpleMITMResponse_def Let_def proxy_frame
        split: sum.splits if_splits prod.splits)
qed

lemma dispatch_reply:
  assumes "px_client_ok env" and "intercepted_dispatch env req ctx d rid rule target icfg p = (st, p')"
  shows "length (replies p') = Suc (length (replies p))"
proof (cases d)
  case DecisionBlock
  with assms show ?thesis
    by (simp add: intercepted_dispatch_def writeBlockedMITMResponse_def)
      (drule (1) simple_reply, simp add: proxy_frame)
next
  case DecisionBypass
  with assms passThrough_reply(1)[OF assms(1), of True req target "counter env ''proxy.requests.bypassed'' p"]
  show ?thesis by (auto simp: intercepted_dispatch_def proxy_frame split: prod.splits)
next
  case DecisionAlert
  with assms(2) show ?thesis
    by (simp add: intercepted_dispatch_def) (drule forwardIntercepted_reply[OF assms(1)], simp add: proxy_frame)
next
  case DecisionForward
  with assms(2) show ?thesis
    by (simp add: intercepted_dispatch_def) (drule forwardIntercepted_reply[OF assms(1)], simp add: proxy_frame)
qed

text \<open>The two ways through the loop body.\<close>

definition intercepted_request :: "string \<Rightarrow> client_request \<Rightarrow> client_request" where
  "intercepted_request target req = req\<lparr>cq_Host := non_empty_or (cq_Host req) target\<rparr>"

definition inspected :: "interceptionSettings \<Rightarrow> request_context \<Rightarrow> bool" where
  "inspected icfg ctx \<longleftrightarrow> isInterceptProtocolEnabled icfg (cx_Protocol ctx) \<and> cx_Protocol ctx = InterceptProtocolHTTP"

lemma intercept_one_skipped:
  assumes "\<not> inspected icfg (intercepted_context req base)"
    and "passThroughInterceptedRequest env True (intercepted_request target req) target p = ((st, upg), p1)"
  shows "\<exists>ctx. intercept_one env target base d0 rule0 icfg req p =
    ((st, upg \<or> cq_Close req), emitRequestTelemetry env ctx d0 rule0 st p1)"
  using assms unfolding intercept_one_def Let_def intercepted_request_def inspected_def by auto

lemma intercept_one_inspected:
  assumes "inspected icfg (intercepted_context req base)"
    and "inspectRequestBody env (intercepted_request target req) (intercepted_context req base) = (req1, ctx1)"
    and "route_request env p ctx1 = (d, rid)" and "rule = lookupMatchedRule (hp_router p) rid"
    and "intercepted_dispatch env req1 ctx1 d rid rule target icfg
      (notifyUserForDLP env (cx_Host ctx1) (block_category ctx1) d rule (report_dlp env ctx1 d rid rule p)) = (st, p2)"
  shows "intercept_one env target base d0 rule0 icfg req p =
    ((st, cq_Close req \<or> st = 101), finish_request env ctx1 d rid st p2)"
proof -
  from assms(1) have http: "cx_Protocol (intercepted_context req base) = InterceptProtocolHTTP"
    and enabled: "isInterceptProtocolEnabled icfg InterceptProtocolHTTP" by (auto simp: inspected_def)
  show ?thesis
    using assms(2-) unfolding intercept_one_def Let_def intercepted_request_def by (simp add: http enabled)
qed

lemma intercept_one_reply:
  assumes "px_client_ok env" and "intercept_one env target base d0 rule0 icfg req p = ((st, stop), p')"
  shows "length (replies p') = Suc (length (replies p)) \<and> (stop \<longrightarrow> cq_Close req \<or> st = 101)"
proof (cases "inspected icfg (intercepted_context req base)")
  case False
  obtain s u p1 where pt: "passThroughInterceptedRequest env True (intercepted_request target req) target p = ((s, u), p1)"
    by (metis surj_pair)
  from intercept_one_skipped[OF False pt, of d0 rule0] assms(2) passThrough_reply[OF assms(1) pt]
  show ?thesis by (auto simp: proxy_frame)
next
  case True
  obtain req1 ctx1 where i: "inspectRequestBody env (intercepted_request target req) (intercepted_context req base) = (req1, ctx1)"
    by fastforce
  obtain d rid where r: "route_request env p ctx1 = (d, rid)" by fastforce
  obtain s p2 where dp: "intercepted_dispatch env req1 ctx1 d rid (lookupMatchedRule (hp_router p) rid) target icfg
      (notifyUserForDLP env (cx_Host ctx1) (block_category ctx1) d (lookupMatchedRule (hp_router p) rid)
        (report_dlp env ctx1 d rid (lookupMatchedRule (hp_router p) rid) p)) = (s, p2)" by fastforce
  from intercept_one_inspected[OF True i r refl dp] assms(2) dispatch_reply[OF assms(1) dp]
  show ?thesis by (auto simp: proxy_frame)
qed

section \<open>Properties\<close>

text \<open>
  C2. A decision to block is enforced on every path through the proxy. A plain request is answered
  with 403, nothing of it leaves the machine and the gateway client is not touched; a CONNECT is
  answered with 403 and no tunnel is opened; an inspected request on an intercepted connection is
  not sent anywhere, and the client is answered with 403.
\<close>

theorem block_enforced_on_every_path:
  "(route_request env p (snd (http_request_context env r p)) = (DecisionBlock, rid) \<longrightarrow>
      (\<exists>hs b. fst (handleHTTP env r p) = HTTPReply 403 hs b) \<and>
      sent (snd (handleHTTP env r p)) = sent p \<and> hp_gateway (snd (handleHTTP env r p)) = hp_gateway p) \<and>
   (route_request env p (connect_context env r p) = (DecisionBlock, rid) \<longrightarrow>
      (\<exists>hs b. fst (handleConnect env r p) = HTTPReply 403 hs b) \<and> hp_trace (snd (handleConnect env r p)) = hp_trace p) \<and>
   (inspected icfg (intercepted_context req base) \<and>
    route_request env p (snd (inspectRequestBody env (intercepted_request target req) (intercepted_context req base)))
      = (DecisionBlock, rid) \<longrightarrow>
      sent (snd (intercept_one env target base d0 rule0 icfg req p)) = sent p \<and>
      (px_client_ok env \<longrightarrow> (\<exists>b. replies (snd (intercept_one env target base d0 rule0 icfg req p)) =
          replies p @ [MITMReply 403 b])))"
proof (intro conjI impI)
  assume a: "route_request env p (snd (http_request_context env r p)) = (DecisionBlock, rid)"
  obtain r1 ctx where c: "http_request_context env r p = (r1, ctx)" by fastforce
  have h: "handleHTTP env r p = (writeBlockedResponse (cf_BlockPageBody (hp_cfg p)) (block_category ctx)
      (blockReasonForRule (lookupMatchedRule (hp_router p) rid) (block_category ctx)), snd (handleHTTP env r p))"
    using a c by (simp add: handleHTTP_def http_dispatch_def Let_def proxy_frame)
  then show "\<exists>hs b. fst (handleHTTP env r p) = HTTPReply 403 hs b"
    by (metis fst_conv writeBlockedResponse_def)
  show "sent (snd (handleHTTP env r p)) = sent p"
    using a c by (simp add: handleHTTP_def http_dispatch_def Let_def proxy_frame)
  show "hp_gateway (snd (handleHTTP env r p)) = hp_gateway p"
    using a c by (simp add: handleHTTP_def http_dispatch_def Let_def proxy_frame)
next
  assume a: "route_request env p (connect_context env r p) = (DecisionBlock, rid)"
  then show "\<exists>hs b. fst (handleConnect env r p) = HTTPReply 403 hs b"
    by (simp add: handleConnect_def Let_def http_error_def)
  show "hp_trace (snd (handleConnect env r p)) = hp_trace p"
    using a by (simp add: handleConnect_def Let_def proxy_frame)
next
  assume a: "inspected icfg (intercepted_context req base) \<and>
    route_request env p (snd (inspectRequestBody env (intercepted_request target req) (intercepted_context req base)))
      = (DecisionBlock, rid)"
  obtain req1 ctx1 where i: "inspectRequestBody env (intercepted_request target req) (intercepted_context req base) = (req1, ctx1)"
    by fastforce
  have rt: "route_request env p ctx1 = (DecisionBlock, rid)" using a i by simp
  obtain s p2 where dp: "intercepted_dispatch env req1 ctx1 DecisionBlock rid (lookupMatchedRule (hp_router p) rid) target icfg
      (notifyUserForDLP env (cx_Host ctx1) (block_category ctx1) DecisionBlock (lookupMatchedRule (hp_router p) rid)
        (report_dlp env ctx1 DecisionBlock rid (lookupMatchedRule (hp_router p) rid) p)) = (s, p2)" by fastforce
  note one = intercept_one_inspected[OF conjunct1[OF a] i rt refl dp]
  from dp have "sent p2 = sent p"
    by (auto simp: intercepted_dispatch_def writeBlockedMITMResponse_def writeSimpleMITMResponse_def proxy_frame
        split: if_splits)
  then show "sent (snd (intercept_one env target base d0 rule0 icfg req p)) = sent p" by (simp add: one proxy_frame)
  assume ok: "px_client_ok env"
  with dp have "\<exists>b. replies p2 = replies p @ [MITMReply 403 b]"
    by (auto simp: intercepted_dispatch_def writeBlockedMITMResponse_def writeSimpleMITMResponse_def proxy_frame)
  then show "\<exists>b. replies (snd (intercept_one env target base d0 rule0 icfg req p)) = replies p @ [MITMReply 403 b]"
    by (simp add: one proxy_frame)
qed



text \<open>
  Inspecting a body is transparent: the request goes on unchanged, with the report of the first
  256 KB attached, unless reading the body fails within that prefix. Then the request goes on with
  the bytes read so far missing from its body and without any report, as if nothing had been found.
\<close>

theorem body_inspection_transparent:
  "let (r', ctx') = inspectRequestBody env r ctx;
       broken = (\<exists>b. cq_Body r = Some b \<and> cq_ContentLength r \<noteq> 0 \<and> bs_fails b \<and> length (bs_bytes b) \<le> MaxBodySize) in
   (\<not> broken \<longrightarrow> r' = r) \<and>
   (broken \<longrightarrow> ctx' = ctx \<and> stream_bytes (cq_Body r') = []) \<and>
   (\<forall>b. \<not> broken \<and> cq_Body r = Some b \<and> cq_ContentLength r \<noteq> 0 \<and> \<not> ShouldSuppressPath (cx_Path ctx) \<longrightarrow>
      di_Matches (cx_DLP ctx') = di_Matches (ScanRequest (px_decoders env) (px_scanner env)
        (trim_space (header_Get ''Content-Type'' (cq_Header r))) (take MaxBodySize (bs_bytes b)) []) \<and>
      (di_BodyTruncated (cx_DLP ctx') \<longleftrightarrow> MaxBodySize < length (bs_bytes b)))"
proof (cases "cq_Body r")
  case (Some b)
  have take_min: "(if MaxBodySize < length (take (MaxBodySize + 1) (bs_bytes b))
      then take MaxBodySize (take (MaxBodySize + 1) (bs_bytes b)) else take (MaxBodySize + 1) (bs_bytes b)) =
      take MaxBodySize (bs_bytes b)" by (simp add: min_def)
  have len: "MaxBodySize < length (take (MaxBodySize + 1) (bs_bytes b)) \<longleftrightarrow> MaxBodySize < length (bs_bytes b)"
    by auto
  have same: "r\<lparr>cq_Body := Some \<lparr>bs_bytes = take (MaxBodySize + 1) (bs_bytes b) @ drop (MaxBodySize + 1) (bs_bytes b),
      bs_fails = bs_fails b\<rparr>\<rparr> = r" using Some by simp
  show ?thesis
    using Some unfolding inspectRequestBody_def Let_def take_min len
    by (auto simp only: option.case same split: if_split) (auto simp: same stream_bytes_def less_Suc_eq_le)
qed (simp add: inspectRequestBody_def)

section \<open>Witnesses\<close>

definition sample_proxy :: "decision \<Rightarrow> http_proxy" where
  "sample_proxy d = \<lparr>hp_cfg = zero_config,
     hp_router = \<lparr>ri_Route = (\<lambda>_. Inr (d, ''r1'')), ri_LookupRule = None, ri_PromptEnforcementOverride = None,
       ri_PolicyVersion = None\<rparr>,
     hp_gateway = NewGatewayClient ''https://gw'' 3 10, hp_notifier = False, hp_metrics = NewCollector 4,
     hp_policyVersion = [], hp_managed = None, hp_catalog = None, hp_notifyLast = [], hp_trace = []\<rparr>"

definition sample_proxy_env :: proxy_env where
  "sample_proxy_env = \<lparr>px_goos = ''linux'', px_decoders = plain_decoders, px_scanner = ssn_scanner, px_now = 1,
     px_later = 2, px_latency_ms = 0, px_uid = ''u'', px_timestamp = ''t'', px_resolver = None,
     px_primaryInterface = [], px_vpnActive = False, px_gateway = (\<lambda>_ _. None), px_direct = (\<lambda>_ _. None),
     px_dial = (\<lambda>_. True), px_hijack = ClientReady, px_tunnel = DialFails, px_ca_ready = True,
     px_leaf_ok = (\<lambda>_. True), px_handshake_ok = True, px_negotiated = [], px_client_ok = True,
     px_upstream = (\<lambda>_ _. None), px_target_tls = (\<lambda>_. True), px_requests = [], px_parse_error = False\<rparr>"

definition sample_request :: client_request where
  "sample_request = \<lparr>cq_Method = ''GET'', cq_URL = ''http://a.b/'', cq_RequestURI = ''/'', cq_Path = ''/'',
     cq_Host = ''a.b'', cq_Header = [], cq_Body = None, cq_ContentLength = 0, cq_RemoteAddr = [], cq_TLS = False,
     cq_Close = True\<rparr>"

lemma sample_route: "route_request sample_proxy_env (sample_proxy d) ctx = (d, ''r1'')"
  by (simp add: route_request_def sample_proxy_env_def sample_proxy_def shouldBypassInfrastructureProcess_def)

theorem block_enforced_on_every_path_witness:
  "(\<exists>hs b. fst (handleHTTP sample_proxy_env sample_request (sample_proxy DecisionBlock)) = HTTPReply 403 hs b) \<and>
   (\<exists>hs b. fst (handleConnect sample_proxy_env sample_request (sample_proxy DecisionBlock)) = HTTPReply 403 hs b)"
  using block_enforced_on_every_path[of sample_proxy_env "sample_proxy DecisionBlock" sample_request "''r1''"]
  by (simp only: sample_route simp_thms)

definition sample_served :: "int \<times> http_proxy" where
  "sample_served = intercept_loop sample_proxy_env ''a.b'' (sample_context ''a.b'') DecisionForward [] (local_settings None)
     [sample_request, sample_request] 200 (sample_proxy DecisionForward)"



definition broken_request :: client_request where
  "broken_request = sample_request\<lparr>cq_Body := Some \<lparr>bs_bytes = ''ghp_1234'', bs_fails = True\<rparr>, cq_ContentLength := 8\<rparr>"

theorem body_inspection_transparent_witness:
  "stream_bytes (cq_Body (fst (inspectRequestBody sample_proxy_env broken_request (sample_context ''a.b'')))) = [] \<and>
   fst (inspectRequestBody sample_proxy_env sample_request (sample_context ''a.b'')) = sample_request"
proof -
  have "\<exists>b. cq_Body broken_request = Some b \<and> cq_ContentLength broken_request \<noteq> 0 \<and> bs_fails b \<and>
      length (bs_bytes b) \<le> MaxBodySize"
    by (simp add: broken_request_def MaxBodySize_def)
  moreover have "cq_Body sample_request = None" by (simp add: sample_request_def)
  ultimately show ?thesis
    using body_inspection_transparent[of sample_proxy_env broken_request "sample_context ''a.b''"]
      body_inspection_transparent[of sample_proxy_env sample_request "sample_context ''a.b''"]
    by (simp add: Let_def split_beta)
qed

end
