(* ===== verification/Cert_Verifier.thy ===== *)
theory Cert_Verifier
  imports Go_Stdlib
begin

text \<open>
  The gateway's check of client certificates (\<^verbatim>\<open>src/gateway/internal/mtls/cert_verifier.go\<close>,
  \<^verbatim>\<open>src/gateway/internal/mtls/client_info.go\<close>): revocation status from the backend, enforcement status
  from the control plane, and the cache of both.

  The HTTP exchanges with the two services, including the decoding of their JSON replies, are
  parameters: functions from URL and token to what came back. One reading of the clock stands for
  all those of a call. The cache is an association list with one entry per serial; where the code
  ranges over the map, ties are resolved in list order.
\<close>

section \<open>State\<close>

record cacheEntry =
  ce_status :: string
  ce_deviceID :: string
  ce_orgID :: string
  ce_deviceStatus :: string
  ce_orgStatus :: string
  ce_expiresAt :: time

record certStatusResponse =
  cs_Serial :: string
  cs_Status :: string
  cs_DeviceID :: string
  cs_OrgID :: string

record deviceStatusResponse =
  ds_Status :: string
  ds_OrganizationStatus :: string

record certVerifier =
  cv_backendURL :: string
  cv_failMode :: string
  cv_internalToken :: string
  cv_controlURL :: string
  cv_controlToken :: string
  cv_controlFail :: string
  cv_cache :: "(string \<times> cacheEntry) list"
  cv_maxSize :: int
  cv_cacheTTL :: duration
  cv_controlTTL :: duration

text \<open>The outcome of a GET: no response, a status other than 200, an undecodable or a decoded body.\<close>

datatype 'a fetched = NoReply | ReplyStatus int | BadBody | Fetched 'a

record verifier_env =
  ve_cert :: "string \<Rightarrow> string \<Rightarrow> certStatusResponse fetched"
  ve_org :: "string \<Rightarrow> string \<Rightarrow> string fetched"
  ve_device :: "string \<Rightarrow> string \<Rightarrow> deviceStatusResponse fetched"

datatype verify_error = InvalidSerial | BuildCertRequest | BackendUnreachable

definition NewCertVerifier :: "string \<Rightarrow> string \<Rightarrow> string \<Rightarrow> string \<Rightarrow> string \<Rightarrow> string \<Rightarrow> duration \<Rightarrow> duration \<Rightarrow> int \<Rightarrow> certVerifier" where
  "NewCertVerifier backendURL failMode internalToken controlURL controlToken controlFail controlTTL cacheTTL maxSize =
     \<lparr>cv_backendURL = backendURL, cv_failMode = failMode, cv_internalToken = internalToken,
      cv_controlURL = trim_right (\<lambda>c. c = CHR ''/'') (trim_space controlURL), cv_controlToken = controlToken,
      cv_controlFail = (if trim_space controlFail = [] then failMode else controlFail),
      cv_cache = [], cv_maxSize = maxSize, cv_cacheTTL = cacheTTL, cv_controlTTL = controlTTL\<rparr>"

definition normalizeHexSerial :: "string \<Rightarrow> string option" where
  "normalizeHexSerial s0 =
    (let s = to_lower (trim_space (trim_prefix s0 ''0x'')) in
     if s = [] \<or> 128 < length s then None
     else let s1 = (if odd (length s) then CHR ''0'' # s else s) in
       if list_all (\<lambda>c. hex_value c \<noteq> None) s1 then Some s1 else None)"

section \<open>The cache\<close>

definition hour :: duration where "hour = 3600 * second"

text \<open>The entry that expires first, among those that expire within the hour.\<close>

fun oldest_entry :: "string option \<Rightarrow> time \<Rightarrow> (string \<times> cacheEntry) list \<Rightarrow> string option" where
  "oldest_entry best t [] = best"
| "oldest_entry best t ((k, e) # es) =
    (if ce_expiresAt e < t then oldest_entry (Some k) (ce_expiresAt e) es else oldest_entry best t es)"

definition entry_ttl :: "certVerifier \<Rightarrow> duration" where
  "entry_ttl v =
    (let ttl = (if cv_controlURL v \<noteq> [] \<and> 0 < cv_controlTTL v \<and> (cv_cacheTTL v \<le> 0 \<or> cv_controlTTL v < cv_cacheTTL v)
                then cv_controlTTL v else cv_cacheTTL v) in
     if ttl \<le> 0 then 30 * second else ttl)"

definition evict :: "time \<Rightarrow> certVerifier \<Rightarrow> (string \<times> cacheEntry) list" where
  "evict now v =
    (if cv_maxSize v \<le> int (length (cv_cache v)) then
       (case oldest_entry None (now + hour) (cv_cache v) of
          None \<Rightarrow> cv_cache v
        | Some k \<Rightarrow> filter (\<lambda>(k', _). k' \<noteq> k) (cv_cache v))
     else cv_cache v)"

definition cacheStatus :: "time \<Rightarrow> string \<Rightarrow> string \<Rightarrow> string \<Rightarrow> string \<Rightarrow> string \<Rightarrow> string \<Rightarrow> certVerifier \<Rightarrow> certVerifier" where
  "cacheStatus now serial status deviceID orgID deviceStatus orgStatus v =
     v\<lparr>cv_cache := (serial, \<lparr>ce_status = status, ce_deviceID = deviceID, ce_orgID = orgID,
         ce_deviceStatus = deviceStatus, ce_orgStatus = orgStatus, ce_expiresAt = now + entry_ttl v\<rparr>)
         # filter (\<lambda>(k, _). k \<noteq> serial) (evict now v)\<rparr>"

definition LookupIdentity :: "time \<Rightarrow> string \<Rightarrow> certVerifier \<Rightarrow> (string \<times> string) option" where
  "LookupIdentity now serial0 v =
    (case normalizeHexSerial serial0 of
       None \<Rightarrow> None
     | Some serial \<Rightarrow>
        (case map_of (cv_cache v) serial of
           None \<Rightarrow> None
         | Some e \<Rightarrow>
            if ce_expiresAt e < now then None
            else if ce_deviceID e = [] \<or> ce_orgID e = [] then None
            else Some (ce_deviceID e, ce_orgID e)))"

section \<open>Verification\<close>

text \<open>The control plane's verdict: \<^term>\<open>None\<close> is an error, otherwise whether both are active.\<close>

definition or_unknown :: "string \<Rightarrow> string" where
  "or_unknown s = (if s = [] then ''unknown'' else s)"

definition checkControlPlane :: "verifier_env \<Rightarrow> certVerifier \<Rightarrow> string \<Rightarrow> string \<Rightarrow> (bool \<times> string \<times> string) option" where
  "checkControlPlane env v deviceID orgID =
    (let orgURL = cv_controlURL v @ ''/api/v1/enforcement/org-status/'' @ orgID;
         deviceURL = cv_controlURL v @ ''/api/v1/enforcement/device-status/'' @ deviceID in
     if \<not> new_request_ok ''GET'' orgURL \<or> \<not> new_request_ok ''GET'' deviceURL then None
     else case ve_org env orgURL (cv_controlToken v) of
       NoReply \<Rightarrow> None
     | BadBody \<Rightarrow> None
     | ReplyStatus c \<Rightarrow> if c = 404 then Some (False, ''unknown'', ''unknown'') else None
     | Fetched org \<Rightarrow>
        (case ve_device env deviceURL (cv_controlToken v) of
           NoReply \<Rightarrow> None
         | BadBody \<Rightarrow> None
         | ReplyStatus c \<Rightarrow> if c = 404 then Some (False, ''unknown'', canon org) else None
         | Fetched d \<Rightarrow>
            (let orgStatus = or_unknown (if canon org = [] then canon (ds_OrganizationStatus d) else canon org);
                 deviceStatus = or_unknown (canon (ds_Status d)) in
             Some (orgStatus = ''active'' \<and> deviceStatus = ''active'', deviceStatus, orgStatus))))"

text \<open>What the control plane makes of a certificate the backend knows: revoked, device and org status.\<close>

definition enforced :: "verifier_env \<Rightarrow> certVerifier \<Rightarrow> certStatusResponse \<Rightarrow> bool \<times> string \<times> string" where
  "enforced env v status =
    (let revoked = (cs_Status status = ''revoked'') in
     if \<not> revoked \<and> cv_controlURL v \<noteq> [] \<and> cs_DeviceID status \<noteq> [] \<and> cs_OrgID status \<noteq> [] then
       (case checkControlPlane env v (cs_DeviceID status) (cs_OrgID status) of
          None \<Rightarrow> if canon (cv_controlFail v) = ''closed'' then (True, ''unknown'', ''unknown'')
                   else (revoked, ''active'', ''active'')
        | Some (allowed, deviceStatus, orgStatus) \<Rightarrow> (\<not> allowed, deviceStatus, orgStatus))
     else (revoked, ''active'', ''active''))"

definition fail_closed :: "certVerifier \<Rightarrow> bool" where
  "fail_closed v = (cv_failMode v = ''closed'')"

definition cert_status_url :: "certVerifier \<Rightarrow> string \<Rightarrow> string" where
  "cert_status_url v serial = cv_backendURL v @ ''/internal/cert-status/'' @ serial"

definition fetch_and_cache :: "verifier_env \<Rightarrow> time \<Rightarrow> string \<Rightarrow> certVerifier \<Rightarrow> (bool \<times> verify_error option) \<times> certVerifier" where
  "fetch_and_cache env now serial v =
    (let url = cert_status_url v serial in
     if \<not> new_request_ok ''GET'' url then ((fail_closed v, Some BuildCertRequest), v)
     else case ve_cert env url (cv_internalToken v) of
       NoReply \<Rightarrow> ((fail_closed v, Some BackendUnreachable), v)
     | ReplyStatus c \<Rightarrow>
        if c = 404 then ((True, None), cacheStatus now serial ''unknown'' [] [] ''unknown'' ''unknown'' v)
        else ((fail_closed v, None), v)
     | BadBody \<Rightarrow> ((fail_closed v, None), v)
     | Fetched status \<Rightarrow>
        (let (revoked, deviceStatus, orgStatus) = enforced env v status in
         ((revoked, None),
          cacheStatus now serial (if revoked then ''revoked'' else cs_Status status)
            (cs_DeviceID status) (cs_OrgID status) deviceStatus orgStatus v)))"

definition IsRevoked :: "verifier_env \<Rightarrow> time \<Rightarrow> string \<Rightarrow> certVerifier \<Rightarrow> (bool \<times> verify_error option) \<times> certVerifier" where
  "IsRevoked env now serial0 v =
    (case normalizeHexSerial serial0 of
       None \<Rightarrow> ((True, Some InvalidSerial), v)
     | Some serial \<Rightarrow>
        (case map_of (cv_cache v) serial of
           Some e \<Rightarrow> if now < ce_expiresAt e then ((ce_status e = ''revoked'', None), v)
                      else fetch_and_cache env now serial v
         | None \<Rightarrow> fetch_and_cache env now serial v))"

section \<open>Client identity\<close>

definition isUUID :: "string \<Rightarrow> bool" where
  "isUUID raw = (map length (split_on (CHR ''-'') raw) = [8, 4, 4, 4, 12] \<and>
     list_all (list_all (\<lambda>c. hex_value c \<noteq> None)) (split_on (CHR ''-'') raw))"

record client_cert =
  cc_CommonName :: string
  cc_Organization :: "string list"
  cc_Serial :: string

text \<open>The request context's identity values: device, organisation.\<close>

definition ContextWithClientInfo :: "client_cert \<Rightarrow> string \<times> string" where
  "ContextWithClientInfo cert =
    (cc_CommonName cert,
     case cc_Organization cert of
       [] \<Rightarrow> []
     | o' # _ \<Rightarrow> if isUUID (trim_space o') then trim_space o' else [])"

definition ContextWithVerifiedIdentity :: "string \<times> string \<Rightarrow> string \<Rightarrow> string \<Rightarrow> string \<times> string" where
  "ContextWithVerifiedIdentity ids deviceID orgID =
    (if deviceID \<noteq> [] then deviceID else fst ids, if orgID \<noteq> [] then orgID else snd ids)"

section \<open>Lemmas\<close>

lemma fresh_cache [simp]:
  "cv_cache (NewCertVerifier b f tok cu ct cf cttl ttl n) = []"
  "cv_maxSize (NewCertVerifier b f tok cu ct cf cttl ttl n) = n"
  by (simp_all add: NewCertVerifier_def)

lemma cached_lookup: "map_of (cv_cache (cacheStatus now s st dev org ds os v)) s =
    Some \<lparr>ce_status = st, ce_deviceID = dev, ce_orgID = org, ce_deviceStatus = ds, ce_orgStatus = os,
          ce_expiresAt = now + entry_ttl v\<rparr>"
  by (simp add: cacheStatus_def)

lemma entry_ttl_pos: "0 < entry_ttl v"
  by (simp add: entry_ttl_def Let_def second_def)

lemma cached_verdict:
  assumes "normalizeHexSerial serial = Some s" and "now' < now + entry_ttl v"
  shows "IsRevoked env' now' serial (cacheStatus now s st dev org ds os v) =
    ((st = ''revoked'', None), cacheStatus now s st dev org ds os v)"
  using assms cached_lookup[of now s st dev org ds os v] by (simp add: IsRevoked_def)

lemma oldest_entry_mem:
  "oldest_entry best t es = Some k \<Longrightarrow> best = Some k \<or> k \<in> fst ` set es"
  by (induction best t es rule: oldest_entry.induct) (auto split: if_splits)

lemma oldest_entry_Some:
  "\<exists>(k, e)\<in>set es. ce_expiresAt e < t \<Longrightarrow> oldest_entry best t es \<noteq> None"
proof (induction best t es rule: oldest_entry.induct)
  case (2 best t k e es)
  have keep: "oldest_entry (Some x) t' es \<noteq> None" for x t'
    by (induction "Some x" t' es arbitrary: x rule: oldest_entry.induct) auto
  show ?case using 2 keep by (auto split: if_splits)
qed simp

text \<open>The cache's invariant at a time: one entry per serial, and none expires later than it can.\<close>

definition cache_inv :: "time \<Rightarrow> certVerifier \<Rightarrow> bool" where
  "cache_inv now v \<longleftrightarrow> distinct (map fst (cv_cache v)) \<and> int (length (cv_cache v)) \<le> max 1 (cv_maxSize v) \<and>
     (\<forall>(k, e)\<in>set (cv_cache v). ce_expiresAt e \<le> now + entry_ttl v)"

lemma filter_key_shrinks:
  "distinct (map fst es) \<Longrightarrow> k \<in> fst ` set es \<Longrightarrow> Suc (length (filter (\<lambda>(k', _). k' \<noteq> k) es)) = length es"
proof (induction es)
  case (Cons e es)
  show ?case
  proof (cases "fst e = k")
    case True
    then have "filter (\<lambda>(k', _). k' \<noteq> k) es = es"
      using Cons.prems by (intro filter_True ballI) (auto simp: case_prod_beta image_iff)
    then show ?thesis using True by (cases e) simp
  next
    case False
    then have "k \<in> fst ` set es" using Cons.prems by auto
    then show ?thesis using Cons False by (cases e) simp
  qed
qed simp

lemma evict_subset: "set (evict now v) \<subseteq> set (cv_cache v)"
  by (auto simp: evict_def split: option.splits)

lemma evict_distinct: "distinct (map fst (cv_cache v)) \<Longrightarrow> distinct (map fst (evict now v))"
  by (auto simp: evict_def distinct_map_filter split: option.splits)

lemma evict_makes_room:
  assumes inv: "cache_inv now v" and ttl: "entry_ttl v < hour"
  shows "int (length (evict now v)) < max 1 (cv_maxSize v)"
proof (cases "cv_maxSize v \<le> int (length (cv_cache v)) \<and> cv_cache v \<noteq> []")
  case True
  then obtain k e where "(k, e) \<in> set (cv_cache v)" by (cases "cv_cache v") auto
  then have "oldest_entry None (now + hour) (cv_cache v) \<noteq> None"
    using inv ttl by (intro oldest_entry_Some bexI[of _ "(k, e)"]) (auto simp: cache_inv_def)
  then obtain k' where old: "oldest_entry None (now + hour) (cv_cache v) = Some k'" by blast
  then have "k' \<in> fst ` set (cv_cache v)" using oldest_entry_mem by blast
  then have "Suc (length (evict now v)) = length (cv_cache v)"
    using inv True old filter_key_shrinks[of "cv_cache v" k'] by (simp add: evict_def cache_inv_def)
  then show ?thesis using inv by (simp add: cache_inv_def)
next
  case False
  then show ?thesis by (auto simp: evict_def split: option.splits)
qed

lemma entry_ttl_update [simp]: "entry_ttl (v\<lparr>cv_cache := c\<rparr>) = entry_ttl v"
  by (cases v) (simp only: entry_ttl_def certVerifier.simps)

lemma cacheStatus_ttl [simp]: "entry_ttl (cacheStatus now s st dev org ds os v) = entry_ttl v"
  by (simp add: cacheStatus_def)

lemma cacheStatus_maxSize [simp]: "cv_maxSize (cacheStatus now s st dev org ds os v) = cv_maxSize v"
  by (simp add: cacheStatus_def)

lemma cacheStatus_inv:
  assumes inv: "cache_inv now v" and ttl: "entry_ttl v < hour"
  shows "cache_inv now (cacheStatus now s st dev org ds os v)"
proof -
  let ?es = "filter (\<lambda>(k, _). k \<noteq> s) (evict now v)"
  have len: "int (length ?es) < max 1 (cv_maxSize v)"
    using evict_makes_room[OF inv ttl] length_filter_le[of "\<lambda>(k, _). k \<noteq> s" "evict now v"] by linarith
  have "distinct (map fst ?es)"
    using evict_distinct[of v now] inv by (simp add: cache_inv_def distinct_map_filter)
  moreover have "s \<notin> fst ` set ?es" by auto
  moreover have "\<forall>(k, e)\<in>set ?es. ce_expiresAt e \<le> now + entry_ttl v"
    using inv evict_subset[of now v] by (force simp: cache_inv_def)
  moreover have "cv_cache (cacheStatus now s st dev org ds os v) =
      (s, \<lparr>ce_status = st, ce_deviceID = dev, ce_orgID = org, ce_deviceStatus = ds, ce_orgStatus = os,
        ce_expiresAt = now + entry_ttl v\<rparr>) # ?es"
    by (simp add: cacheStatus_def)
  ultimately show ?thesis
    using len unfolding cache_inv_def cacheStatus_ttl cacheStatus_maxSize by (simp del: filter.simps)
qed

text \<open>A check either leaves the verifier alone or stores one status; which it is decides the verdict.\<close>

lemma fetch_and_cache_state:
  "snd (fetch_and_cache env now s v) = v \<or>
   (\<exists>st dev org ds os. snd (fetch_and_cache env now s v) = cacheStatus now s st dev org ds os v)"
  by (cases "ve_cert env (cert_status_url v s) (cv_internalToken v)")
    (simp_all add: fetch_and_cache_def Let_def case_prod_beta, metis+)

lemma IsRevoked_state:
  "snd (IsRevoked env now serial v) = v \<or>
   (\<exists>s st dev org ds os. snd (IsRevoked env now serial v) = cacheStatus now s st dev org ds os v)"
proof (cases "normalizeHexSerial serial")
  case (Some s)
  then have "snd (IsRevoked env now serial v) = v \<or> snd (IsRevoked env now serial v) = snd (fetch_and_cache env now s v)"
    by (cases "map_of (cv_cache v) s") (auto simp: IsRevoked_def)
  then show ?thesis using fetch_and_cache_state[of env now s v] by metis
qed (simp add: IsRevoked_def)

section \<open>The verifier's run\<close>

text \<open>Calls arrive in the order of the clock.\<close>

inductive verifier_step :: "time \<times> certVerifier \<Rightarrow> time \<times> certVerifier \<Rightarrow> bool" where
  check: "now \<le> now' \<Longrightarrow> verifier_step (now, v) (now', snd (IsRevoked env now' serial v))"

inductive_cases verifier_stepE: "verifier_step (now, v) t"

definition bounded_cache :: "certVerifier \<Rightarrow> time \<times> certVerifier \<Rightarrow> bool" where
  "bounded_cache v0 s \<longleftrightarrow> cache_inv (fst s) (snd s) \<and> entry_ttl (snd s) = entry_ttl v0 \<and> cv_maxSize (snd s) = cv_maxSize v0"

lemma cache_inv_later: "cache_inv now v \<Longrightarrow> now \<le> now' \<Longrightarrow> cache_inv now' v"
  by (fastforce simp: cache_inv_def)

lemma bounded_cache_step:
  assumes "entry_ttl v0 < hour" and "bounded_cache v0 s" and "verifier_step s t"
  shows "bounded_cache v0 t"
proof -
  obtain now v where s: "s = (now, v)" by (cases s)
  from assms(3)[unfolded s] obtain now' env serial
    where t: "t = (now', snd (IsRevoked env now' serial v))" and "now \<le> now'"
    by (rule verifier_stepE)
  then have inv: "cache_inv now' v" and ttl: "entry_ttl v = entry_ttl v0" and size: "cv_maxSize v = cv_maxSize v0"
    using assms(2) s cache_inv_later by (auto simp: bounded_cache_def)
  show ?thesis
    using IsRevoked_state[of env now' serial v] inv ttl size cacheStatus_inv[OF inv] assms(1)
    by (auto simp: bounded_cache_def t)
qed

interpretation verifier_run: invariant_system
  "(t0, NewCertVerifier b f tok cu ct cf cttl ttl n)" verifier_step
  "\<lambda>s. entry_ttl (NewCertVerifier b f tok cu ct cf cttl ttl n) < hour \<longrightarrow>
     bounded_cache (NewCertVerifier b f tok cu ct cf cttl ttl n) s" for t0 b f tok cu ct cf cttl ttl n
proof unfold_locales
  show "entry_ttl (NewCertVerifier b f tok cu ct cf cttl ttl n) < hour \<longrightarrow>
      bounded_cache (NewCertVerifier b f tok cu ct cf cttl ttl n) (t0, NewCertVerifier b f tok cu ct cf cttl ttl n)"
    by (simp add: bounded_cache_def cache_inv_def max_def)
qed (blast intro: bounded_cache_step)

section \<open>Properties\<close>

text \<open>
  The memory the verifier spends on certificates is bounded: as long as the effective time to live
  of an entry is below the hour that eviction looks ahead, then after any sequence of checks, of any
  serials and whatever the backend and the control plane answer, the cache holds one entry per serial
  and at most the configured number of entries (one entry when the configured number is not positive).
\<close>

theorem verifier_cache_bounded:
  assumes "entry_ttl (NewCertVerifier b f tok cu ct cf cttl ttl n) < hour"
    and "verifier_step\<^sup>*\<^sup>* (t0, NewCertVerifier b f tok cu ct cf cttl ttl n) (t, v)"
  shows "distinct (map fst (cv_cache v)) \<and> int (length (cv_cache v)) \<le> max 1 n"
  using verifier_run.reachable_inv[OF assms(2)] assms(1)
  by (auto simp: bounded_cache_def cache_inv_def)

text \<open>
  A verdict lasts. When no live entry answers a check and the backend's reply is decoded, the
  verdict is a refusal if the backend says revoked or the control plane does not clear the device and
  the organisation, and every later check of the same certificate, in any spelling of its serial
  (prefix, case, surrounding space, leading zero), within the time to live gives the same verdict
  without asking, whatever the services would say by then.
\<close>

theorem verdict_lasts:
  assumes "normalizeHexSerial serial = Some s"
    and "normalizeHexSerial serial' = Some s"
    and "\<And>e. map_of (cv_cache v) s = Some e \<Longrightarrow> ce_expiresAt e \<le> now"
    and "new_request_ok ''GET'' (cert_status_url v s)"
    and "ve_cert env (cert_status_url v s) (cv_internalToken v) = Fetched status"
    and "now' < now + entry_ttl v"
  shows "\<exists>v'. IsRevoked env now serial v = ((fst (enforced env v status), None), v') \<and>
     IsRevoked env' now' serial' v' = ((fst (enforced env v status), None), v')"
proof -
  obtain r ds os where enf: "enforced env v status = (r, ds, os)" by (cases "enforced env v status")
  have r: "cs_Status status = ''revoked'' \<Longrightarrow> r" using enf by (simp add: enforced_def Let_def)
  let ?v = "cacheStatus now s (if r then ''revoked'' else cs_Status status) (cs_DeviceID status) (cs_OrgID status) ds os v"
  have "IsRevoked env now serial v = ((r, None), ?v)"
    using assms(1,3-5) enf by (cases "map_of (cv_cache v) s") (auto simp: IsRevoked_def fetch_and_cache_def Let_def not_less)
  moreover have "IsRevoked env' now' serial' ?v = ((r, None), ?v)"
    using cached_verdict[OF assms(2,6)] r by auto
  ultimately show ?thesis using enf by auto
qed

text \<open>
  A certificate the backend does not know is refused once and then let in. The check that finds
  the status missing (404) answers revoked, but stores the status unknown, and every check of the
  serial within the time to live answers not revoked, in either fail mode.
\<close>

theorem unknown_certificate_accepted_from_cache:
  assumes "normalizeHexSerial serial = Some s"
    and "map_of (cv_cache v) s = None"
    and "new_request_ok ''GET'' (cert_status_url v s)"
    and "ve_cert env (cert_status_url v s) (cv_internalToken v) = ReplyStatus 404"
    and "now' < now + entry_ttl v"
  shows "fst (IsRevoked env now serial v) = (True, None) \<and>
     fst (IsRevoked env' now' serial (snd (IsRevoked env now serial v))) = (False, None)"
proof -
  have "IsRevoked env now serial v = ((True, None), cacheStatus now s ''unknown'' [] [] ''unknown'' ''unknown'' v)"
    using assms(1-4) by (simp add: IsRevoked_def fetch_and_cache_def Let_def)
  then show ?thesis using cached_verdict[OF assms(1,5)] by simp
qed

text \<open>
  An outage decides nothing for later. When the backend cannot be reached, answers with a status
  other than 200 and 404, or sends a body that does not decode, the verdict is a refusal exactly in
  fail mode closed, and nothing is stored: the next check asks again.
\<close>

theorem outage_follows_fail_mode:
  assumes "normalizeHexSerial serial = Some s"
    and "\<And>e. map_of (cv_cache v) s = Some e \<Longrightarrow> ce_expiresAt e \<le> now"
    and "ve_cert env (cert_status_url v s) (cv_internalToken v) = reply"
    and "reply = NoReply \<or> reply = BadBody \<or> reply = ReplyStatus c \<and> c \<noteq> 404"
  shows "fst (fst (IsRevoked env now serial v)) = (cv_failMode v = ''closed'') \<and> snd (IsRevoked env now serial v) = v"
  using assms
  by (cases "map_of (cv_cache v) s") (auto simp: IsRevoked_def fetch_and_cache_def fail_closed_def Let_def not_less)

section \<open>Concrete runs\<close>

definition sample_verifier :: certVerifier where
  "sample_verifier = NewCertVerifier ''https://backend'' ''closed'' [] ''https://control/'' [] [] 0 (60 * second) 2"

definition sample_replies :: verifier_env where
  "sample_replies = \<lparr>
     ve_cert = (\<lambda>url tok. if has_suffix url ''ab'' then Fetched \<lparr>cs_Serial = ''ab'', cs_Status = ''active'', cs_DeviceID = ''d1'', cs_OrgID = ''o1''\<rparr>
       else if has_suffix url ''cd'' then ReplyStatus 404 else NoReply),
     ve_org = (\<lambda>url tok. Fetched ''Active ''),
     ve_device = (\<lambda>url tok. Fetched \<lparr>ds_Status = ''suspended'', ds_OrganizationStatus = []\<rparr>)\<rparr>"

lemma verdict_lasts_witness:
  "\<exists>v'. IsRevoked sample_replies 0 ''0xAB'' sample_verifier = ((True, None), v') \<and>
     IsRevoked (sample_replies\<lparr>ve_org := (\<lambda>url tok. NoReply)\<rparr>) (59 * second) '' ab '' v' = ((True, None), v')"
proof -
  have enf: "fst (enforced sample_replies sample_verifier \<lparr>cs_Serial = ''ab'', cs_Status = ''active'', cs_DeviceID = ''d1'', cs_OrgID = ''o1''\<rparr>) = True"
    by code_simp
  show ?thesis
    by (rule verdict_lasts[where s = "''ab''" and env = sample_replies and v = sample_verifier and now = 0
        and status = "\<lparr>cs_Serial = ''ab'', cs_Status = ''active'', cs_DeviceID = ''d1'', cs_OrgID = ''o1''\<rparr>", unfolded enf]) code_simp+
qed

definition missing_twice :: "(bool \<times> verify_error option) list" where
  "missing_twice = [fst (IsRevoked sample_replies 0 ''cd'' sample_verifier),
     fst (IsRevoked sample_replies second ''cd'' (snd (IsRevoked sample_replies 0 ''cd'' sample_verifier)))]"

lemma unknown_certificate_accepted_from_cache_witness: "missing_twice = [(True, None), (False, None)]"
  unfolding missing_twice_def
  using unknown_certificate_accepted_from_cache[of "''cd''" "''cd''" sample_verifier sample_replies second 0 sample_replies]
  by (simp add: list.inject) code_simp

lemma outage_follows_fail_mode_witness:
  "fst (fst (IsRevoked sample_replies 0 ''e'' sample_verifier)) \<and>
   snd (IsRevoked sample_replies 0 ''e'' sample_verifier) = sample_verifier"
proof -
  have "fst (fst (IsRevoked sample_replies 0 ''e'' sample_verifier)) = (cv_failMode sample_verifier = ''closed'') \<and>
      snd (IsRevoked sample_replies 0 ''e'' sample_verifier) = sample_verifier"
    by (rule outage_follows_fail_mode[where s = "''0e''" and reply = NoReply]) code_simp+
  moreover have "cv_failMode sample_verifier = ''closed''" by code_simp
  ultimately show ?thesis by simp
qed

text \<open>Three certificates through a cache of two: the third check evicts the entry that expires first.\<close>

lemma verifier_cache_bounded_witness:
  "\<exists>v. verifier_step\<^sup>*\<^sup>* (0, sample_verifier) (2, v) \<and> distinct (map fst (cv_cache v)) \<and>
     int (length (cv_cache v)) \<le> max 1 2 \<and> map fst (cv_cache v) = [''e1cd'', ''e2cd'']"
proof -
  let ?check = "\<lambda>t s v. snd (IsRevoked sample_replies t s v)"
  let ?v = "?check 2 ''e1cd'' (?check 1 ''e2cd'' (?check 0 ''cd'' sample_verifier))"
  have step: "verifier_step (t, w) (t', ?check t' s w)" if "t \<le> t'" for t t' s w
    using that by (rule verifier_step.check)
  have run: "verifier_step\<^sup>*\<^sup>* (0, sample_verifier) (2, ?v)"
    by (rule rtranclp.rtrancl_into_rtrancl[OF rtranclp.rtrancl_into_rtrancl[OF r_into_rtranclp]];
        rule step; simp)
  from this have bound: "distinct (map fst (cv_cache ?v)) \<and> int (length (cv_cache ?v)) \<le> max 1 2"
    unfolding sample_verifier_def by (rule verifier_cache_bounded[rotated]) code_simp
  have keys: "map fst (cv_cache ?v) = [''e1cd'', ''e2cd'']" by code_simp
  show ?thesis
    by (rule exI[of _ ?v]) (intro conjI run keys bound[THEN conjunct1] bound[THEN conjunct2])
qed

end
