(* ===== verification/Gateway_Policy.thy ===== *)
theory Gateway_Policy
  imports Policy_Sync Cert_Verifier Sha256
begin

text \<open>
  Policy on the gateway: the safety-net engine that evaluates every relayed request
  (\<^verbatim>\<open>src/gateway/internal/policy/engine.go\<close>) and the endpoint that hands an organisation's rules to
  its agents (\<^verbatim>\<open>src/gateway/internal/handler/policy.go\<close>).

  The database is a parameter: what a query returned, or \<^term>\<open>None\<close> for an error. So are
  \<^verbatim>\<open>regexp.Compile\<close>, as in \<open>Policy_Engine\<close>, and \<^verbatim>\<open>json.Marshal\<close> of a payload. A condition of a stored
  rule has the fields of the agent's \<open>rule_condition\<close>, which stands for both types.
\<close>

section \<open>The engine\<close>

record store_rule =
  sr_ID :: string
  sr_OrgID :: string
  sr_Priority :: int
  sr_Name :: string
  sr_MatchHost :: "string option"
  sr_MatchPath :: "string option"
  sr_MatchMethod :: "string option"
  sr_Decision :: string
  sr_Action :: string
  sr_Conditions :: "rule_condition list"
  sr_BlockReason :: "string option"

datatype gw_decision = Allow | Block | LogOnly

fun gw_decision_string :: "gw_decision \<Rightarrow> string" where
  "gw_decision_string Allow = ''allow''"
| "gw_decision_string Block = ''block''"
| "gw_decision_string LogOnly = ''log_only''"

record gw_engine =
  ge_rules :: "store_rule list"

definition gw_Reload :: "store_rule list option \<Rightarrow> gw_engine \<Rightarrow> gw_engine" where
  "gw_Reload rows e = (case rows of None \<Rightarrow> e | Some rules \<Rightarrow> e\<lparr>ge_rules := rules\<rparr>)"

definition gw_NewEngine :: "store_rule list option \<Rightarrow> gw_engine" where
  "gw_NewEngine rows = gw_Reload rows \<lparr>ge_rules = []\<rparr>"

text \<open>One tick of the reloader per query.\<close>

definition gw_StartReloader :: "store_rule list option list \<Rightarrow> gw_engine \<Rightarrow> gw_engine" where
  "gw_StartReloader ticks e = fold gw_Reload ticks e"

definition gw_Rules :: "gw_engine \<Rightarrow> store_rule list" where
  "gw_Rules e = ge_rules e"

definition same_org :: "string \<Rightarrow> store_rule \<Rightarrow> bool" where
  "same_org orgID r = equal_fold (trim_space (sr_OrgID r)) orgID"

definition RulesForOrg :: "gw_engine \<Rightarrow> string \<Rightarrow> store_rule list" where
  "RulesForOrg e orgID0 =
    (let orgID = trim_space orgID0 in
     if orgID = [] then [] else filter (same_org orgID) (ge_rules e))"

definition mapRuleDecision :: "string \<Rightarrow> string \<Rightarrow> gw_decision" where
  "mapRuleDecision action dec =
    (if canon action = ''allow'' then Allow
     else if canon action = ''block'' then Block
     else if canon action = ''alert'' then LogOnly
     else if canon dec = ''block'' then Block
     else if canon dec = ''log_only'' then LogOnly
     else Allow)"

definition gw_resolveField :: "string \<Rightarrow> string \<Rightarrow> string \<Rightarrow> string \<Rightarrow> string option" where
  "gw_resolveField field host path method =
    (if canon field = ''host'' then Some host
     else if canon field = ''path'' then Some path
     else if canon field = ''method'' then Some method
     else None)"

definition gw_evalOperator :: "(string \<Rightarrow> regexp option) \<Rightarrow> string \<Rightarrow> string \<Rightarrow> string \<Rightarrow> bool" where
  "gw_evalOperator rc oper actual expected =
    (if canon oper = ''eq'' then equal_fold actual expected
     else if canon oper = ''contains'' then contains (to_lower actual) (to_lower expected)
     else if canon oper = ''prefix'' then has_prefix (to_lower actual) (to_lower expected)
     else if canon oper = ''suffix'' then has_suffix (to_lower actual) (to_lower expected)
     else if canon oper = ''glob'' then filepath_match (to_lower expected) (to_lower actual)
     else if canon oper = ''regex'' then (case rc expected of None \<Rightarrow> False | Some re \<Rightarrow> re actual)
     else False)"

fun match_conditions :: "(string \<Rightarrow> regexp option) \<Rightarrow> rule_condition list \<Rightarrow> string \<Rightarrow> string \<Rightarrow> string \<Rightarrow> bool" where
  "match_conditions rc [] host path method = True"
| "match_conditions rc (c # cs) host path method =
    (case gw_resolveField (rc_Field c) host path method of
       None \<Rightarrow> False
     | Some v \<Rightarrow>
        (let matched = gw_evalOperator rc (rc_Operator c) v (rc_Value c);
             matched = (if rc_Negate c then \<not> matched else matched) in
         if \<not> matched then False else match_conditions rc cs host path method))"

definition given :: "string option \<Rightarrow> bool" where
  "given x = (x \<noteq> None \<and> x \<noteq> Some [])"

definition gw_matchRule :: "(string \<Rightarrow> regexp option) \<Rightarrow> store_rule \<Rightarrow> string \<Rightarrow> string \<Rightarrow> string \<Rightarrow> bool" where
  "gw_matchRule rc r host path method =
    (if sr_Conditions r \<noteq> [] then match_conditions rc (sr_Conditions r) host path method
     else if given (sr_MatchHost r) \<and> \<not> contains (to_lower host) (to_lower (the (sr_MatchHost r))) then False
     else if given (sr_MatchPath r) \<and> \<not> contains (to_lower path) (to_lower (the (sr_MatchPath r))) then False
     else if given (sr_MatchMethod r) \<and> \<not> equal_fold method (the (sr_MatchMethod r)) then False
     else True)"

fun evaluate_loop :: "(string \<Rightarrow> regexp option) \<Rightarrow> store_rule list \<Rightarrow> string \<Rightarrow> string \<Rightarrow> string \<Rightarrow> string \<Rightarrow>
    gw_decision \<times> string option" where
  "evaluate_loop rc [] orgID host path method = (Allow, None)"
| "evaluate_loop rc (r # rs) orgID host path method =
    (if \<not> same_org orgID r then evaluate_loop rc rs orgID host path method
     else if gw_matchRule rc r host path method then (mapRuleDecision (sr_Action r) (sr_Decision r), Some (sr_ID r))
     else evaluate_loop rc rs orgID host path method)"

definition gw_Evaluate :: "(string \<Rightarrow> regexp option) \<Rightarrow> gw_engine \<Rightarrow> string \<Rightarrow> string \<Rightarrow> string \<Rightarrow> string \<Rightarrow>
    gw_decision \<times> string option" where
  "gw_Evaluate rc e orgID0 host path method =
    (let orgID = trim_space orgID0 in
     if orgID = [] then (Allow, None) else evaluate_loop rc (ge_rules e) orgID host path method)"

section \<open>The policy endpoint\<close>

record policyRule =
  gr_ID :: string
  gr_Priority :: int
  gr_Decision :: string
  gr_Conditions :: "rule_condition list"
  gr_BlockReason :: string

record policyPayload =
  gp_Version :: string
  gp_Rules :: "policyRule list"
  gp_Interception :: policy_interception
  gp_PromptEnforcementOverride :: string

definition mapDecision :: "string \<Rightarrow> string \<Rightarrow> string" where
  "mapDecision action dec =
    (if canon action = ''allow'' then ''forward''
     else if canon action = ''block'' then ''block''
     else if canon action = ''alert'' then ''alert''
     else if canon dec = ''block'' then ''block''
     else if canon dec = ''log_only'' then ''alert''
     else ''forward'')"

definition condition :: "string \<Rightarrow> string \<Rightarrow> string \<Rightarrow> rule_condition" where
  "condition field oper v = \<lparr>rc_Field = field, rc_Operator = oper, rc_Value = v, rc_Negate = False\<rparr>"

definition opt_condition :: "string \<Rightarrow> string \<Rightarrow> string option \<Rightarrow> rule_condition list" where
  "opt_condition field oper x = (if given x then [condition field oper (the x)] else [])"

definition trim_condition :: "rule_condition \<Rightarrow> rule_condition" where
  "trim_condition c = \<lparr>rc_Field = trim_space (rc_Field c), rc_Operator = trim_space (rc_Operator c),
     rc_Value = trim_space (rc_Value c), rc_Negate = rc_Negate c\<rparr>"

definition converted_conditions :: "store_rule \<Rightarrow> rule_condition list" where
  "converted_conditions r =
    (if sr_Conditions r \<noteq> [] then map trim_condition (sr_Conditions r)
     else opt_condition ''host'' ''contains'' (sr_MatchHost r) @
          opt_condition ''path'' ''contains'' (sr_MatchPath r) @
          opt_condition ''method'' ''eq'' (sr_MatchMethod r))"

definition convert_rule :: "store_rule \<Rightarrow> policyRule" where
  "convert_rule r = \<lparr>gr_ID = sr_ID r, gr_Priority = sr_Priority r,
     gr_Decision = mapDecision (sr_Action r) (sr_Decision r), gr_Conditions = converted_conditions r,
     gr_BlockReason = (case sr_BlockReason r of None \<Rightarrow> [] | Some s \<Rightarrow> s)\<rparr>"

definition convertRules :: "store_rule list \<Rightarrow> policyPayload" where
  "convertRules dbRules = \<lparr>gp_Version = ''v'' @ nat_str (length dbRules), gp_Rules = map convert_rule dbRules,
     gp_Interception = zero_interception, gp_PromptEnforcementOverride = []\<rparr>"

definition defaultInterceptionConfig :: "string list \<Rightarrow> policy_interception" where
  "defaultInterceptionConfig domains = \<lparr>pi_Enabled = False, pi_Domains = domains,
     pi_Protocols = [''http'', ''websocket'', ''grpc''], pi_FailMode = ''fail_open'',
     pi_CaptureMode = ''encrypted_full_body'', pi_Scope = ''api_only''\<rparr>"

definition gw_normalizePromptEnforcementOverride :: "string \<Rightarrow> string" where
  "gw_normalizePromptEnforcementOverride mode =
    (if canon mode = ''monitor'' then ''monitor''
     else if canon mode = ''alert'' then ''alert''
     else if canon mode = ''enforce'' then ''enforce''
     else [])"

definition computeETag :: "(policyPayload \<Rightarrow> string) \<Rightarrow> policyPayload \<Rightarrow> string" where
  "computeETag marshal p = [quote_char] @ hex_encode (take 8 (sha256 (marshal p))) @ [quote_char]"

text \<open>The database of the endpoint: the stored override and the interception domains of an organisation.\<close>

record policy_store =
  st_override :: "string \<Rightarrow> string option"
  st_domains :: "string \<Rightarrow> string list option"

definition org_payload :: "policy_store \<Rightarrow> gw_engine \<Rightarrow> string \<Rightarrow> policyPayload" where
  "org_payload st e orgID =
    (let payload = convertRules (RulesForOrg e orgID);
         payload = (case st_override st orgID of
           None \<Rightarrow> payload
         | Some mode \<Rightarrow>
            (let override = gw_normalizePromptEnforcementOverride mode in
             if override \<noteq> [] then payload\<lparr>gp_PromptEnforcementOverride := override\<rparr> else payload)) in
     case st_domains st orgID of
       None \<Rightarrow> payload\<lparr>gp_Interception := defaultInterceptionConfig []\<rparr>
     | Some domains \<Rightarrow> payload\<lparr>gp_Interception := defaultInterceptionConfig domains\<rparr>)"

definition newline :: string where
  "newline = [CHR 0x0A]"

text \<open>\<^verbatim>\<open>http.Error\<close>: the message on a line of its own.\<close>

definition http_error :: "string \<Rightarrow> int \<Rightarrow> http_response" where
  "http_error msg code = \<lparr>hr_StatusCode = code,
     hr_Headers = [(''Content-Type'', [''text/plain; charset=utf-8'']), (''X-Content-Type-Options'', [''nosniff''])],
     hr_Body = msg @ newline\<rparr>"

definition serve_org_policy :: "(policyPayload \<Rightarrow> string) \<Rightarrow> policy_store \<Rightarrow> gw_engine \<Rightarrow> header \<Rightarrow> string \<Rightarrow> http_response" where
  "serve_org_policy marshal st e headers orgID =
    (let payload = org_payload st e orgID; etag = computeETag marshal payload in
     if header_Get ''If-None-Match'' headers = etag
     then \<lparr>hr_StatusCode = 304, hr_Headers = [], hr_Body = []\<rparr>
     else \<lparr>hr_StatusCode = 200,
       hr_Headers = [(''Content-Type'', [''application/json'']), (''Etag'', [etag]), (''X-Themisto-Poll-Interval'', [''30''])],
       hr_Body = marshal payload @ newline\<rparr>)"

definition policy_ServeHTTP :: "verifier_env \<Rightarrow> (policyPayload \<Rightarrow> string) \<Rightarrow> policy_store \<Rightarrow> gw_engine \<Rightarrow> time \<Rightarrow>
    client_cert option \<Rightarrow> header \<Rightarrow> certVerifier \<Rightarrow> http_response \<times> certVerifier" where
  "policy_ServeHTTP env marshal st e now peer headers v =
    (case peer of
       None \<Rightarrow> (http_error ''client certificate required'' 403, v)
     | Some cert \<Rightarrow>
        (case IsRevoked env now (cc_Serial cert) v of
           ((revoked, err), v') \<Rightarrow>
             if revoked then (http_error ''certificate revoked'' 403, v')
             else (case LookupIdentity now (cc_Serial cert) v' of
               None \<Rightarrow> (http_error ''device identity unavailable'' 403, v')
             | Some (deviceID, orgID) \<Rightarrow>
                 if trim_space orgID = [] then (http_error ''device identity unavailable'' 403, v')
                 else (serve_org_policy marshal st e headers orgID, v'))))"

section \<open>Lemmas\<close>

lemma evaluate_loop_find:
  "evaluate_loop rc rs org host path method =
    (case List.find (\<lambda>r. gw_matchRule rc r host path method) (filter (same_org org) rs) of
       None \<Rightarrow> (Allow, None)
     | Some r \<Rightarrow> (mapRuleDecision (sr_Action r) (sr_Decision r), Some (sr_ID r)))"
  by (induction rs) auto

text \<open>Evaluation and delivery read the same rules: those of the organisation, in the store's order.\<close>

lemma gw_Evaluate_find:
  "gw_Evaluate rc e org host path method =
    (case List.find (\<lambda>r. gw_matchRule rc r host path method) (RulesForOrg e org) of
       None \<Rightarrow> (Allow, None)
     | Some r \<Rightarrow> (mapRuleDecision (sr_Action r) (sr_Decision r), Some (sr_ID r)))"
  by (simp add: gw_Evaluate_def RulesForOrg_def Let_def evaluate_loop_find)

lemma match_conditions_all:
  "match_conditions rc cs host path method \<longleftrightarrow>
    (\<forall>c\<in>set cs. \<exists>v. gw_resolveField (rc_Field c) host path method = Some v \<and>
       gw_evalOperator rc (rc_Operator c) v (rc_Value c) \<noteq> rc_Negate c)"
  by (induction cs) (auto simp: Let_def split: option.splits)

lemma RulesForOrg_member:
  "r \<in> set (RulesForOrg e org) \<longleftrightarrow> trim_space org \<noteq> [] \<and> r \<in> set (ge_rules e) \<and> same_org (trim_space org) r"
  by (auto simp: RulesForOrg_def Let_def)

lemma gw_Reload_keeps: "gw_Reload None e = e"
  by (simp add: gw_Reload_def)

lemma reloader_last:
  "ge_rules (gw_StartReloader ticks e) =
    (case filter (\<lambda>t. t \<noteq> None) ticks of [] \<Rightarrow> ge_rules e | ts \<Rightarrow> the (last ts))"
  unfolding gw_StartReloader_def
  by (induction ticks rule: rev_induct) (auto simp: gw_Reload_def split: list.splits option.splits)

text \<open>The tag the endpoint computes is quoted; the version an agent sends back is not.\<close>

lemma computeETag_quoted: "hd (computeETag marshal p) = quote_char"
  by (simp add: computeETag_def)

lemma version_unquoted: "hd (gp_Version (org_payload st e org)) \<noteq> quote_char"
  by (simp add: org_payload_def convertRules_def Let_def quote_char_def split: option.splits)

lemma served_status: "hr_StatusCode (serve_org_policy marshal st e headers org) \<in> {200, 304}"
  by (simp add: serve_org_policy_def Let_def)

section \<open>Properties\<close>

text \<open>
  C18. Tenants are isolated. What the gateway decides on a request of an organisation, and the policy
  it delivers to that organisation's agents, depend on no rule of another organisation: two rule sets
  with the same rules for this one, in the same order, give the same decision with the same rule
  identifier and the same payload; a rule that decides, and every delivered rule, belongs to it; and
  a request without an organisation is matched by no rule.
\<close>

theorem gateway_tenant_isolation:
  assumes "filter (same_org (trim_space org)) (ge_rules e) = filter (same_org (trim_space org)) (ge_rules e')"
  shows "gw_Evaluate rc e org host path method = gw_Evaluate rc e' org host path method \<and>
     org_payload st e org = org_payload st e' org \<and>
     (case snd (gw_Evaluate rc e org host path method) of
        None \<Rightarrow> fst (gw_Evaluate rc e org host path method) = Allow
      | Some i \<Rightarrow> trim_space org \<noteq> [] \<and>
          (\<exists>r\<in>set (ge_rules e). sr_ID r = i \<and> same_org (trim_space org) r \<and> gw_matchRule rc r host path method)) \<and>
     gp_Rules (org_payload st e org) = map convert_rule (if trim_space org = [] then []
        else filter (same_org (trim_space org)) (ge_rules e))"
proof -
  have same: "RulesForOrg e org = RulesForOrg e' org" using assms by (simp add: RulesForOrg_def Let_def)
  have rules: "gp_Rules (org_payload st e org) = map convert_rule (RulesForOrg e org)"
    by (simp add: org_payload_def convertRules_def Let_def split: option.splits)
  have own: "trim_space org \<noteq> [] \<and>
      (\<exists>r\<in>set (ge_rules e). sr_ID r = sr_ID x \<and> same_org (trim_space org) r \<and> gw_matchRule rc r host path method)"
    if "List.find (\<lambda>r. gw_matchRule rc r host path method) (RulesForOrg e org) = Some x" for x
    using find_Some_split[OF that] RulesForOrg_member[of x e org] by auto
  show ?thesis
  proof (intro conjI)
    show "gw_Evaluate rc e org host path method = gw_Evaluate rc e' org host path method"
      by (simp only: gw_Evaluate_find same)
    show "org_payload st e org = org_payload st e' org" by (simp only: org_payload_def same)
    show "gp_Rules (org_payload st e org) = map convert_rule (if trim_space org = [] then []
        else filter (same_org (trim_space org)) (ge_rules e))"
      by (simp only: rules RulesForOrg_def Let_def)
  qed (use own in \<open>simp add: gw_Evaluate_find split: option.split\<close>)
qed

text \<open>
  Policy is served to enrolled devices only, and each gets its own organisation's. Any answer but
  403 means that the connection carried a certificate, that the check of its serial did not answer
  revoked, and that the verifier knows the device and a non-blank organisation for it; the answer is
  then the policy of that organisation, whatever the certificate's own fields and the request say.
\<close>

theorem policy_endpoint_requires_identity:
  assumes "policy_ServeHTTP env marshal st e now peer headers v = (resp, v')" and "hr_StatusCode resp \<noteq> 403"
  shows "\<exists>cert err deviceID orgID. peer = Some cert \<and>
     IsRevoked env now (cc_Serial cert) v = ((False, err), v') \<and>
     LookupIdentity now (cc_Serial cert) v' = Some (deviceID, orgID) \<and> trim_space orgID \<noteq> [] \<and>
     resp = serve_org_policy marshal st e headers orgID"
  using assms
  by (auto simp: policy_ServeHTTP_def http_error_def split: option.splits prod.splits if_splits)

section \<open>Concrete runs\<close>

definition sample_store_rules :: "store_rule list" where
  "sample_store_rules =
    [\<lparr>sr_ID = ''r1'', sr_OrgID = ''O1'', sr_Priority = 10, sr_Name = ''no uploads'', sr_MatchHost = Some ''openai'',
      sr_MatchPath = None, sr_MatchMethod = Some ''post'', sr_Decision = ''block'', sr_Action = [],
      sr_Conditions = [], sr_BlockReason = Some ''managed''\<rparr>,
     \<lparr>sr_ID = ''r2'', sr_OrgID = ''o2'', sr_Priority = 20, sr_Name = ''all'', sr_MatchHost = None,
      sr_MatchPath = None, sr_MatchMethod = None, sr_Decision = ''block'', sr_Action = ''block'',
      sr_Conditions = [], sr_BlockReason = None\<rparr>,
     \<lparr>sr_ID = ''r3'', sr_OrgID = ''o1'', sr_Priority = 30, sr_Name = ''watch'', sr_MatchHost = None,
      sr_MatchPath = None, sr_MatchMethod = None, sr_Decision = ''log_only'', sr_Action = [],
      sr_Conditions = [condition ''host'' ''suffix'' ''.ai''], sr_BlockReason = None\<rparr>]"

definition no_regex :: "string \<Rightarrow> regexp option" where
  "no_regex s = None"

lemma gateway_tenant_isolation_witness:
  "gw_Evaluate no_regex \<lparr>ge_rules = sample_store_rules\<rparr> ''o1'' ''claude.ai'' ''/'' ''GET'' =
     gw_Evaluate no_regex \<lparr>ge_rules = [sample_store_rules ! 0, sample_store_rules ! 2]\<rparr> ''o1'' ''claude.ai'' ''/'' ''GET'' \<and>
   gw_Evaluate no_regex \<lparr>ge_rules = sample_store_rules\<rparr> ''o1'' ''claude.ai'' ''/'' ''GET'' = (LogOnly, Some ''r3'')"
proof
  have "filter (same_org (trim_space ''o1'')) (ge_rules \<lparr>ge_rules = sample_store_rules\<rparr>) =
      filter (same_org (trim_space ''o1'')) (ge_rules \<lparr>ge_rules = [sample_store_rules ! 0, sample_store_rules ! 2]\<rparr>)"
    by code_simp
  from gateway_tenant_isolation[OF this]
  show "gw_Evaluate no_regex \<lparr>ge_rules = sample_store_rules\<rparr> ''o1'' ''claude.ai'' ''/'' ''GET'' =
      gw_Evaluate no_regex \<lparr>ge_rules = [sample_store_rules ! 0, sample_store_rules ! 2]\<rparr> ''o1'' ''claude.ai'' ''/'' ''GET''"
    by (rule conjunct1)
  show "gw_Evaluate no_regex \<lparr>ge_rules = sample_store_rules\<rparr> ''o1'' ''claude.ai'' ''/'' ''GET'' = (LogOnly, Some ''r3'')"
    by code_simp
qed

definition cleared_replies :: verifier_env where
  "cleared_replies = sample_replies\<lparr>ve_device := (\<lambda>url tok. Fetched \<lparr>ds_Status = ''active'', ds_OrganizationStatus = []\<rparr>)\<rparr>"

definition sample_cert :: client_cert where
  "sample_cert = \<lparr>cc_CommonName = ''device'', cc_Organization = [''other''], cc_Serial = ''ab''\<rparr>"

lemma policy_endpoint_requires_identity_witness:
  "\<exists>cert err deviceID orgID. Some sample_cert = Some cert \<and>
     IsRevoked cleared_replies 0 (cc_Serial cert) sample_verifier =
       ((False, err), snd (policy_ServeHTTP cleared_replies (\<lambda>p. gp_Version p)
          \<lparr>st_override = Map.empty, st_domains = Map.empty\<rparr> \<lparr>ge_rules = sample_store_rules\<rparr> 0 (Some sample_cert) [] sample_verifier)) \<and>
     trim_space orgID \<noteq> [] \<and>
     fst (policy_ServeHTTP cleared_replies (\<lambda>p. gp_Version p)
          \<lparr>st_override = Map.empty, st_domains = Map.empty\<rparr> \<lparr>ge_rules = sample_store_rules\<rparr> 0 (Some sample_cert) [] sample_verifier) =
       serve_org_policy (\<lambda>p. gp_Version p) \<lparr>st_override = Map.empty, st_domains = Map.empty\<rparr>
         \<lparr>ge_rules = sample_store_rules\<rparr> [] orgID"
proof -
  let ?r = "policy_ServeHTTP cleared_replies (\<lambda>p. gp_Version p)
     \<lparr>st_override = Map.empty, st_domains = Map.empty\<rparr> \<lparr>ge_rules = sample_store_rules\<rparr> 0 (Some sample_cert) [] sample_verifier"
  let ?i = "IsRevoked cleared_replies 0 (cc_Serial sample_cert) sample_verifier"
  have "fst ?i = (False, None)" and "LookupIdentity 0 (cc_Serial sample_cert) (snd ?i) = Some (''d1'', ''o1'')"
    by code_simp+
  then have "hr_StatusCode (fst ?r) \<noteq> 403"
    by (cases ?i) (simp add: policy_ServeHTTP_def serve_org_policy_def Let_def trim_space_def trim_left_def trim_right_def is_space_def)
  from policy_endpoint_requires_identity[OF prod.collapse[symmetric] this] show ?thesis
    by (elim exE conjE) (intro exI conjI; assumption)
qed

end
