(* ===== verification/Policy_Delivery.thy ===== *)
theory Policy_Delivery
  imports Gateway_Policy
begin

text \<open>
  From the gateway's rules to the agent's engine: the two engines of the system are meant to enforce
  one policy. This theory composes the policy endpoint of \<open>Gateway_Policy\<close> with the fetcher, the sync
  loop and the engine of \<open>Policy_Sync\<close> and compares the decisions.

  What \<^verbatim>\<open>encoding/json\<close> does between them is stated by \<open>agent_payload\<close>: the structs on both sides carry
  the same field names, a condition travels unchanged, and the decision goes through the agent's
  \<^verbatim>\<open>UnmarshalJSON\<close>. That the decoder inverts the encoder in this sense is a hypothesis of the
  theorems that go over the wire.
\<close>

section \<open>The wire\<close>

definition agent_rule :: "policyRule \<Rightarrow> policy_rule" where
  "agent_rule g = \<lparr>pr_ID = gr_ID g, pr_Priority = gr_Priority g,
     pr_Decision = decision_UnmarshalJSON ([quote_char] @ gr_Decision g @ [quote_char]),
     pr_Conditions = gr_Conditions g, pr_BlockReason = gr_BlockReason g\<rparr>"

definition agent_payload :: "policyPayload \<Rightarrow> policy_payload" where
  "agent_payload g = \<lparr>pp_Version = gp_Version g, pp_Rules = map agent_rule (gp_Rules g),
     pp_Interception = gp_Interception g, pp_AIProducts = [],
     pp_PromptEnforcementOverride = gp_PromptEnforcementOverride g\<rparr>"

text \<open>The agent's client, connected to the gateway under its certificate.\<close>

definition gateway_endpoint :: "verifier_env \<Rightarrow> (policyPayload \<Rightarrow> string) \<Rightarrow> policy_store \<Rightarrow> gw_engine \<Rightarrow> time \<Rightarrow>
    client_cert \<Rightarrow> certVerifier \<Rightarrow> http_request \<Rightarrow> string + http_response" where
  "gateway_endpoint env marshal st e now cert v req =
     Inr (fst (policy_ServeHTTP env marshal st e now (Some cert) (hq_Headers req) v))"

section \<open>Two readings of a rule\<close>

fun agent_decision :: "gw_decision \<Rightarrow> decision" where
  "agent_decision Allow = DecisionForward"
| "agent_decision Block = DecisionBlock"
| "agent_decision LogOnly = DecisionAlert"

text \<open>
  The conditions both engines read alike: over host, path or method, with a known operator, both
  in lower case and untrimmed, and a value with no surrounding space.
\<close>

definition shared_fields :: "string list" where
  "shared_fields = [''host'', ''path'', ''method'']"

definition shared_operators :: "string list" where
  "shared_operators = [''eq'', ''contains'', ''prefix'', ''suffix'', ''glob'', ''regex'']"

definition shared_condition :: "rule_condition \<Rightarrow> bool" where
  "shared_condition c \<longleftrightarrow> rc_Field c \<in> set shared_fields \<and> rc_Operator c \<in> set shared_operators \<and>
     trim_space (rc_Value c) = rc_Value c"

definition shared_rule :: "store_rule \<Rightarrow> bool" where
  "shared_rule r \<longleftrightarrow> list_all shared_condition (sr_Conditions r)"

lemma canon_names:
  "canon ''host'' = ''host''" "canon ''path'' = ''path''" "canon ''method'' = ''method''"
  "canon ''eq'' = ''eq''" "canon ''contains'' = ''contains''" "canon ''prefix'' = ''prefix''"
  "canon ''suffix'' = ''suffix''" "canon ''glob'' = ''glob''" "canon ''regex'' = ''regex''"
  by code_simp+

lemma shared_names_trimmed: "list_all (\<lambda>x. trim_space x = x) (shared_fields @ shared_operators)"
  by code_simp

lemma shared_trim: "shared_condition c \<Longrightarrow> trim_condition c = c"
  using shared_names_trimmed
  by (simp only: shared_condition_def trim_condition_def list_all_iff set_append ball_Un rule_condition.surjective[of c, symmetric])
    simp

lemma shared_field_read:
  assumes "f \<in> set shared_fields"
  shows "gw_resolveField f (cx_Host ctx) (cx_Path ctx) (cx_Method ctx) = Some (resolveField f ctx)"
proof -
  consider "f = ''host''" | "f = ''path''" | "f = ''method''"
    using assms by (simp only: shared_fields_def list.set insert_iff empty_iff) meson
  then show ?thesis by cases (simp_all add: gw_resolveField_def resolveField_def canon_names)
qed

lemma shared_operator_eval:
  assumes "oper \<in> set shared_operators"
  shows "gw_evalOperator rc oper x y = evalOperator oper x y (rc y)"
proof -
  consider "oper = ''eq''" | "oper = ''contains''" | "oper = ''prefix''" | "oper = ''suffix''"
    | "oper = ''glob''" | "oper = ''regex''"
    using assms by (simp only: shared_operators_def list.set insert_iff empty_iff) meson
  then show ?thesis by cases (simp_all add: gw_evalOperator_def evalOperator_def canon_names)
qed

lemma shared_conditions_agree:
  assumes "list_all shared_condition cs"
  shows "match_conditions rc cs (cx_Host ctx) (cx_Path ctx) (cx_Method ctx) =
    (\<forall>c\<in>set (map trim_condition cs). condition_holds rc ctx c)"
proof -
  have "condition_holds rc ctx (trim_condition c) \<longleftrightarrow>
      (\<exists>v. gw_resolveField (rc_Field c) (cx_Host ctx) (cx_Path ctx) (cx_Method ctx) = Some v \<and>
         gw_evalOperator rc (rc_Operator c) v (rc_Value c) \<noteq> rc_Negate c)" if "shared_condition c" for c
    using that shared_field_read shared_operator_eval
    by (simp add: shared_trim condition_holds_def) (simp add: shared_condition_def)
  then show ?thesis using assms by (auto simp: match_conditions_all list_all_iff)
qed

lemma opt_condition_holds:
  "(\<forall>c\<in>set (opt_condition f oper x). P c) \<longleftrightarrow> (given x \<longrightarrow> P (condition f oper (the x)))"
  by (simp add: opt_condition_def)

lemma legacy_condition_holds:
  "condition_holds rc ctx (condition ''host'' ''contains'' v) = contains (to_lower (cx_Host ctx)) (to_lower v)"
  "condition_holds rc ctx (condition ''path'' ''contains'' v) = contains (to_lower (cx_Path ctx)) (to_lower v)"
  "condition_holds rc ctx (condition ''method'' ''eq'' v) = equal_fold (cx_Method ctx) v"
  by (simp_all add: condition_holds_def condition_def evalOperator_def resolveField_def)

lemma legacy_conditions_agree:
  assumes "sr_Conditions r = []"
  shows "gw_matchRule rc r (cx_Host ctx) (cx_Path ctx) (cx_Method ctx) =
    (\<forall>c\<in>set (converted_conditions r). condition_holds rc ctx c)"
  unfolding converted_conditions_def gw_matchRule_def assms set_append ball_Un opt_condition_holds
    legacy_condition_holds if_False simp_thms not_not
  by (simp add: assms opt_condition_holds ball_Un legacy_condition_holds)

lemma rules_agree:
  assumes "shared_rule r"
  shows "rule_matches rc ctx (agent_rule (convert_rule r)) =
    gw_matchRule rc r (cx_Host ctx) (cx_Path ctx) (cx_Method ctx)"
proof (cases "sr_Conditions r = []")
  case True
  then show ?thesis using legacy_conditions_agree by (simp add: rule_matches_def agent_rule_def convert_rule_def)
next
  case False
  then show ?thesis using assms shared_conditions_agree[of "sr_Conditions r" rc ctx]
    by (simp add: rule_matches_def agent_rule_def convert_rule_def converted_conditions_def gw_matchRule_def shared_rule_def)
qed

lemma delivered_decision:
  "pr_Decision (agent_rule (convert_rule r)) = agent_decision (mapRuleDecision (sr_Action r) (sr_Decision r))"
proof -
  have "list_all (\<lambda>d. decision_UnmarshalJSON ([quote_char] @ fst d @ [quote_char]) = agent_decision (snd d))
      [(''forward'', Allow), (''block'', Block), (''alert'', LogOnly)]" by code_simp
  then show ?thesis
    by (simp add: agent_rule_def convert_rule_def mapDecision_def mapRuleDecision_def)
qed

text \<open>First match in the store's order is the best match by priority, when no two rules share one.\<close>

lemma delivered_rules_decide:
  assumes sort: "slice_sort pr_Priority sorter"
    and upd: "engine_Update rc sorter (Some p) ag = (None, ag')"
    and rules: "pp_Rules p = map (\<lambda>r. agent_rule (convert_rule r)) rs"
    and shared: "list_all shared_rule rs"
    and order: "sorted (map sr_Priority rs)" "distinct (map sr_Priority rs)"
  shows "engine_Apply ag' ctx =
    (case List.find (\<lambda>r. gw_matchRule rc r (cx_Host ctx) (cx_Path ctx) (cx_Method ctx)) rs of
       None \<Rightarrow> (en_defaultDecision ag, [])
     | Some r \<Rightarrow> (agent_decision (mapRuleDecision (sr_Action r) (sr_Decision r)), sr_ID r))"
proof -
  let ?M = "\<lambda>r. gw_matchRule rc r (cx_Host ctx) (cx_Path ctx) (cx_Method ctx)"
  let ?A = "\<lambda>r. agent_rule (convert_rule r)"
  note u = engine_Update_matches[OF sort upd]
  have loaded: "set (en_rules ag') = ?A ` set rs" using u(1) rules by simp
  have match: "engine_matches ag' ctx (?A r) = ?M r" if "r \<in> set rs" for r
    using u(3)[of ctx "?A r"] that shared rules rules_agree by (auto simp: list_all_iff)
  have prio: "pr_Priority (?A r) = sr_Priority r" for r by (simp add: agent_rule_def convert_rule_def)
  show ?thesis
  proof (cases "List.find ?M rs")
    case None
    then have "\<forall>r\<in>set (en_rules ag'). \<not> engine_matches ag' ctx r"
      using loaded match by (auto simp: find_None_iff)
    then have "engine_Apply ag' ctx = (en_defaultDecision ag, [])"
      using core_engine.eval_default[OF u(4)] u(2) by metis
    then show ?thesis using None by simp
  next
    case (Some r)
    then obtain us vs where rs: "rs = us @ r # vs" and us: "\<forall>y\<in>set us. \<not> ?M y" and r: "?M r"
      using find_Some_split by metis
    have later: "sr_Priority r < sr_Priority y" if "y \<in> set vs" for y
      using order that unfolding rs by (force simp: sorted_append less_le)
    have "engine_Apply ag' ctx = (pr_Decision (?A r), pr_ID (?A r))"
    proof (rule core_engine.unique_best_rule[OF u(4)])
      show "?A r \<in> set (en_rules ag')" using loaded rs by auto
      show "engine_matches ag' ctx (?A r)" using match r rs by simp
      show "\<forall>x\<in>set (en_rules ag'). engine_matches ag' ctx x \<longrightarrow> x \<noteq> ?A r \<longrightarrow> pr_Priority (?A r) < pr_Priority x"
        unfolding loaded using match us later rs prio by auto
    qed
    then show ?thesis using Some by (simp add: delivered_decision) (simp add: agent_rule_def convert_rule_def)
  qed
qed

section \<open>The conditional fetch\<close>

lemma payload_rules: "gp_Rules (org_payload st e org) = map convert_rule (RulesForOrg e org)"
  by (simp add: org_payload_def convertRules_def Let_def split: option.splits)

lemma fetch_condition: "header_Get ''If-None-Match'' (hq_Headers (fetch_request f)) = fe_lastVersion f"
proof -
  have "canonical_key ''If-None-Match'' = ''If-None-Match''" by code_simp
  then show ?thesis by (simp add: header_Get_def header_values_def fetch_request_def)
qed

text \<open>A version this gateway has handed out: none yet, or that of a payload of an earlier state.\<close>

definition gateway_version :: "string \<Rightarrow> bool" where
  "gateway_version v \<longleftrightarrow> v = [] \<or> (\<exists>st e org. v = gp_Version (org_payload st e org))"

lemma version_not_tag: "gateway_version v \<Longrightarrow> v \<noteq> computeETag marshal p"
  using version_unquoted computeETag_quoted unfolding gateway_version_def by (metis computeETag_def append_Cons list.distinct(1))

lemma fetch_served:
  assumes "gateway_version (fe_lastVersion f)"
  shows "serve_org_policy marshal st e (hq_Headers (fetch_request f)) org =
    \<lparr>hr_StatusCode = 200,
     hr_Headers = [(''Content-Type'', [''application/json'']), (''Etag'', [computeETag marshal (org_payload st e org)]),
       (''X-Themisto-Poll-Interval'', [''30''])],
     hr_Body = marshal (org_payload st e org) @ newline\<rparr>"
  using version_not_tag[OF assms] by (simp add: serve_org_policy_def Let_def fetch_condition)

lemma endpoint_served:
  assumes "IsRevoked env now (cc_Serial cert) v = ((False, err), v')"
    and "LookupIdentity now (cc_Serial cert) v' = Some (deviceID, org)" and "trim_space org \<noteq> []"
  shows "gateway_endpoint env marshal st e now cert v req = Inr (serve_org_policy marshal st e (hq_Headers req) org)"
  using assms by (simp add: gateway_endpoint_def policy_ServeHTTP_def)

text \<open>With every regular expression valid, the engine takes what the gateway sends.\<close>

lemma delivered_update:
  assumes "slice_sort pr_Priority sorter" and "regexes_ok rc (pp_Rules p)"
  shows "\<exists>ag'. engine_Update rc sorter (Some p) ag = (None, ag')"
proof -
  have "regexes_ok rc (sorter (pp_Rules p))"
    using assms regexes_ok_set[of "sorter (pp_Rules p)" "pp_Rules p"] slice_sort.set_sorter[OF assms(1)] by simp
  then obtain crs where "compileRules rc (sorter (pp_Rules p)) = Inr crs" using compileRules_total by blast
  then show ?thesis by (simp add: engine_Update_def Let_def)
qed

section \<open>Properties\<close>



text \<open>
  The conditional fetch saves nothing. The agent sends the version of its last payload as the tag
  it holds, the gateway compares it with a hash of the payload in quotes: for an agent that holds any
  version this gateway has handed out, the current one included, the answer is never
  \<^verbatim>\<open>304 Not Modified\<close> but the whole policy.
\<close>

theorem conditional_fetch_never_saves:
  assumes "gateway_version (fe_lastVersion f)"
  shows "hr_StatusCode (serve_org_policy marshal st e (hq_Headers (fetch_request f)) org) = 200 \<and>
    hr_Body (serve_org_policy marshal st e (hq_Headers (fetch_request f)) org) = marshal (org_payload st e org) @ newline"
  by (simp add: fetch_served[OF assms])

section \<open>Concrete runs\<close>

definition sample_gw :: gw_engine where
  "sample_gw = \<lparr>ge_rules = sample_store_rules\<rparr>"

definition sample_store :: policy_store where
  "sample_store = \<lparr>st_override = Map.empty, st_domains = Map.empty\<rparr>"

lemma sample_org_rules:
  "list_all shared_rule (RulesForOrg sample_gw ''o1'')"
  "sorted (map sr_Priority (RulesForOrg sample_gw ''o1''))"
  "distinct (map sr_Priority (RulesForOrg sample_gw ''o1''))"
  by code_simp+

lemma sample_org_regexes:
  "regexes_ok no_regex (pp_Rules (agent_payload (org_payload sample_store sample_gw ''o1'')))"
proof -
  have "list_all (\<lambda>r. list_all (\<lambda>c. rc_Operator c \<noteq> ''regex'') (pr_Conditions r))
      (pp_Rules (agent_payload (org_payload sample_store sample_gw ''o1'')))" by code_simp
  then show ?thesis by (simp only: regexes_ok_def list_all_iff simp_thms ball_simps) simp
qed

lemma sample_verdict:
  "gw_Evaluate no_regex sample_gw ''o1'' (cx_Host (sample_context ''api.openai.com''))
     (cx_Path (sample_context ''api.openai.com'')) (cx_Method (sample_context ''api.openai.com'')) = (Block, Some ''r1'')"
  by code_simp


lemma sample_accepted:
  "fst (IsRevoked cleared_replies 0 (cc_Serial sample_cert) sample_verifier) = (False, None)"
  "LookupIdentity 0 (cc_Serial sample_cert) (snd (IsRevoked cleared_replies 0 (cc_Serial sample_cert) sample_verifier)) =
     Some (''d1'', ''o1'')"
  "trim_space ''o1'' \<noteq> []"
  by code_simp+


lemma conditional_fetch_never_saves_witness:
  "hr_StatusCode (serve_org_policy gp_Version sample_store sample_gw
     (hq_Headers (fetch_request \<lparr>fe_gatewayURL = ''https://gw'', fe_pollInterval = 30,
        fe_lastVersion = gp_Version (org_payload sample_store sample_gw ''o1'')\<rparr>)) ''o1'') = 200"
  using conditional_fetch_never_saves[of "\<lparr>fe_gatewayURL = ''https://gw'', fe_pollInterval = 30,
        fe_lastVersion = gp_Version (org_payload sample_store sample_gw ''o1'')\<rparr>" gp_Version sample_store sample_gw "''o1''"]
  unfolding gateway_version_def fetcher.select_convs by blast

end
