(* ===== verification/Gateway_Buffer.thy ===== *)
theory Gateway_Buffer
  imports Cert_Verifier Domain_Types "HOL-Library.Sublist"
begin

text \<open>
  The gateway's telemetry buffer (\<^verbatim>\<open>src/gateway/internal/telemetry/buffer.go\<close>, with the event types of
  \<^verbatim>\<open>types.go\<close>): four bounded channels, the goroutine that gathers batches from them, and the shutdown
  sequence of \<^verbatim>\<open>src/gateway/cmd/gateway/main.go\<close>.

  The goroutine's \<^verbatim>\<open>select\<close> takes any ready case, so an execution is a sequence of operations in any
  order: emissions by the handlers, choices of the \<^verbatim>\<open>select\<close>, the cancellation of the context and
  \<^verbatim>\<open>Stop\<close>. \<^term>\<open>None\<close> is an operation that cannot happen in a state or that panics (a send on a closed
  channel). The database is a predicate that says which inserts it would take; \<^verbatim>\<open>ExecContext\<close> with a
  cancelled context fails without reaching it. Every insert attempted is logged with its success.
  A channel size of zero (a send then needs a waiting receiver) is outside the model.
\<close>

section \<open>Events\<close>

record gw_event =
  te_Timestamp :: time
  te_DeviceID :: string
  te_OrgID :: string
  te_RequestMethod :: string
  te_RequestHost :: string
  te_RequestPath :: string
  te_RequestPort :: int
  te_ResponseStatus :: int
  te_LatencyMs :: int
  te_BytesSent :: int
  te_BytesReceived :: int
  te_PolicyDecision :: string
  te_MatchedRuleID :: "string option"
  te_PolicyVersion :: "string option"
  te_AgentVersion :: "string option"
  te_ProtocolVersion :: "string option"
  te_SourceApp :: "string option"
  te_OS :: "string option"
  te_ServiceCategory :: "string option"
  te_AIVendor :: "string option"
  te_CaptureSurface :: "string option"

record dlp_event =
  dv_Timestamp :: time
  dv_DeviceID :: string
  dv_OrgID :: string
  dv_RequestID :: string
  dv_RequestHost :: string
  dv_RequestPath :: string
  dv_RequestMethod :: string
  dv_SourceApp :: string
  dv_ServiceCategory :: string
  dv_AIVendor :: string
  dv_MatchTypes :: "string list"
  dv_MatchedPatterns :: "string list"
  dv_MatchedFields :: "string list"
  dv_MatchCount :: int
  dv_Severity :: string
  dv_ClassificationReason :: string
  dv_ContentType :: string
  dv_FileCount :: int
  dv_ActionTaken :: string
  dv_PolicyRuleID :: string
  dv_ReasonCode :: string
  dv_ReasonDetail :: string
  dv_SemanticSource :: string
  dv_SemanticCategory :: string
  dv_SemanticConfidence :: real
  dv_SemanticAmbiguous :: bool
  dv_SemanticReason :: string
  dv_Protocol :: string
  dv_InterceptedHTTPS :: bool
  dv_InspectionQuality :: string
  dv_InspectionSkipReason :: string
  dv_Direction :: string
  dv_RequestBody :: string
  dv_RequestBodyTruncated :: bool

record agent_status_event =
  sv_Timestamp :: time
  sv_DeviceID :: string
  sv_OrgID :: string
  sv_EventType :: string
  sv_Severity :: string
  sv_Data :: godata

record ai_activity_event =
  av_Timestamp :: time
  av_DeviceID :: string
  av_OrgID :: string
  av_VendorKey :: string
  av_ProductKey :: string
  av_Surface :: string
  av_ActivityKind :: string
  av_SourceApplication :: string
  av_ModelIdentifier :: string
  av_ProjectIdentifier :: string
  av_OpaqueSessionHash :: string
  av_Count :: int
  av_SourceKey :: string
  av_FreshnessAt :: time

record audit_entry =
  ad_Timestamp :: time
  ad_ActorType :: string
  ad_ActorID :: string
  ad_OrgID :: "string option"
  ad_Action :: string
  ad_ResourceType :: string
  ad_ResourceID :: string
  ad_Details :: godata

section \<open>State\<close>

text \<open>The rows of a batch have the fields of the events, one for one.\<close>

datatype store_call =
    InsertTelemetryBatch "gw_event list"
  | InsertAuditBatch "audit_entry list"
  | InsertDLPBatch "dlp_event list"
  | InsertAgentStatusBatch "agent_status_event list"
  | InsertAIActivityBatch "ai_activity_event list"

text \<open>A channel with the slice that gathers what was received from it.\<close>

record 'a lane =
  ln_queue :: "'a list"
  ln_pending :: "'a list"

record buffer =
  bf_size :: nat
  bf_batch :: int
  bf_ch :: "gw_event lane"
  bf_dlpCh :: "dlp_event lane"
  bf_statusCh :: "agent_status_event lane"
  bf_activityCh :: "ai_activity_event lane"
  bf_dropped :: nat
  bf_closed :: bool
  bf_cancelled :: bool
  bf_done :: bool
  bf_calls :: "(store_call \<times> bool) list"

definition empty_lane :: "'a lane" where
  "empty_lane = \<lparr>ln_queue = [], ln_pending = []\<rparr>"

definition NewBuffer :: "nat \<Rightarrow> int \<Rightarrow> buffer" where
  "NewBuffer bufferSize batchSize = \<lparr>bf_size = bufferSize, bf_batch = batchSize, bf_ch = empty_lane,
     bf_dlpCh = empty_lane, bf_statusCh = empty_lane, bf_activityCh = empty_lane, bf_dropped = 0,
     bf_closed = False, bf_cancelled = False, bf_done = False, bf_calls = []\<rparr>"

section \<open>Emission\<close>

definition has_room :: "buffer \<Rightarrow> 'a lane \<Rightarrow> bool" where
  "has_room b l = (length (ln_queue l) < bf_size b)"

definition enqueue :: "'a \<Rightarrow> 'a lane \<Rightarrow> 'a lane" where
  "enqueue e l = l\<lparr>ln_queue := ln_queue l @ [e]\<rparr>"

definition drop_one :: "buffer \<Rightarrow> buffer" where
  "drop_one b = b\<lparr>bf_dropped := bf_dropped b + 1\<rparr>"

definition Emit :: "gw_event \<Rightarrow> buffer \<Rightarrow> buffer option" where
  "Emit e b = (if bf_closed b then None
     else Some (if has_room b (bf_ch b) then b\<lparr>bf_ch := enqueue e (bf_ch b)\<rparr> else drop_one b))"

definition EmitDLP :: "dlp_event \<Rightarrow> buffer \<Rightarrow> buffer option" where
  "EmitDLP e b = (if bf_closed b then None
     else Some (if has_room b (bf_dlpCh b) then b\<lparr>bf_dlpCh := enqueue e (bf_dlpCh b)\<rparr> else drop_one b))"

definition EmitAgentStatus :: "agent_status_event \<Rightarrow> buffer \<Rightarrow> buffer option" where
  "EmitAgentStatus e b = (if bf_closed b then None
     else Some (if has_room b (bf_statusCh b) then b\<lparr>bf_statusCh := enqueue e (bf_statusCh b)\<rparr> else drop_one b))"

definition EmitAIActivity :: "ai_activity_event \<Rightarrow> buffer \<Rightarrow> buffer option" where
  "EmitAIActivity e b = (if bf_closed b then None
     else Some (if has_room b (bf_activityCh b) then b\<lparr>bf_activityCh := enqueue e (bf_activityCh b)\<rparr> else drop_one b))"

section \<open>Flushing\<close>

definition normalizedAuditOrgID :: "string \<Rightarrow> string option" where
  "normalizedAuditOrgID raw0 =
    (let raw = trim_space raw0 in if raw = [] then None else if isUUID raw then Some raw else None)"

definition audit_of :: "gw_event \<Rightarrow> audit_entry" where
  "audit_of e =
    (let orgID = normalizedAuditOrgID (te_OrgID e) in
     \<lparr>ad_Timestamp = te_Timestamp e, ad_ActorType = ''gateway'', ad_ActorID = ''gateway'', ad_OrgID = orgID,
      ad_Action = ''policy.blocked'', ad_ResourceType = ''request'', ad_ResourceID = te_RequestHost e,
      ad_Details = [(''device_id'', VString (te_DeviceID e)), (''request_method'', VString (te_RequestMethod e)),
        (''request_host'', VString (te_RequestHost e)), (''response_status'', VInt (te_ResponseStatus e)),
        (''latency_ms'', VInt (te_LatencyMs e)), (''policy_decision'', VString (te_PolicyDecision e))] @
        (case te_MatchedRuleID e of Some i \<Rightarrow> opt_field ''matched_rule_id'' i | None \<Rightarrow> []) @
        (if orgID = None then opt_field ''org_id_raw'' (te_OrgID e) else [])\<rparr>)"

definition audit_entries :: "gw_event list \<Rightarrow> audit_entry list" where
  "audit_entries es = map audit_of (filter (\<lambda>e. to_lower (te_PolicyDecision e) = ''block'') es)"

definition call_ok :: "(store_call \<Rightarrow> bool) \<Rightarrow> store_call \<Rightarrow> buffer \<Rightarrow> bool" where
  "call_ok db c b = (\<not> bf_cancelled b \<and> db c)"

definition insert_batch :: "(store_call \<Rightarrow> bool) \<Rightarrow> store_call \<Rightarrow> buffer \<Rightarrow> buffer" where
  "insert_batch db c b = b\<lparr>bf_calls := bf_calls b @ [(c, call_ok db c b)]\<rparr>"

definition flush :: "(store_call \<Rightarrow> bool) \<Rightarrow> gw_event list \<Rightarrow> buffer \<Rightarrow> buffer" where
  "flush db es b =
    (if es = [] then b
     else let b1 = insert_batch db (InsertTelemetryBatch es) b in
       if call_ok db (InsertTelemetryBatch es) b \<and> audit_entries es \<noteq> []
       then insert_batch db (InsertAuditBatch (audit_entries es)) b1 else b1)"

definition flushDLP :: "(store_call \<Rightarrow> bool) \<Rightarrow> dlp_event list \<Rightarrow> buffer \<Rightarrow> buffer" where
  "flushDLP db es b = (if es = [] then b else insert_batch db (InsertDLPBatch es) b)"

definition flushAgentStatus :: "(store_call \<Rightarrow> bool) \<Rightarrow> agent_status_event list \<Rightarrow> buffer \<Rightarrow> buffer" where
  "flushAgentStatus db es b = (if es = [] then b else insert_batch db (InsertAgentStatusBatch es) b)"

definition flushAIActivity :: "(store_call \<Rightarrow> bool) \<Rightarrow> ai_activity_event list \<Rightarrow> buffer \<Rightarrow> buffer" where
  "flushAIActivity db es b = (if es = [] then b else insert_batch db (InsertAIActivityBatch es) b)"

section \<open>The goroutine\<close>

definition clear :: "'a lane \<Rightarrow> 'a lane" where
  "clear l = l\<lparr>ln_pending := []\<rparr>"

text \<open>Everything pending goes out, in the order of the code: on a tick and when the request channel is closed.\<close>

definition flush_all :: "(store_call \<Rightarrow> bool) \<Rightarrow> buffer \<Rightarrow> buffer" where
  "flush_all db b0 =
    (let b1 = (flush db (ln_pending (bf_ch b0)) b0)\<lparr>bf_ch := clear (bf_ch b0)\<rparr>;
         b2 = (flushDLP db (ln_pending (bf_dlpCh b1)) b1)\<lparr>bf_dlpCh := clear (bf_dlpCh b1)\<rparr>;
         b3 = (flushAgentStatus db (ln_pending (bf_statusCh b2)) b2)\<lparr>bf_statusCh := clear (bf_statusCh b2)\<rparr>
     in (flushAIActivity db (ln_pending (bf_activityCh b3)) b3)\<lparr>bf_activityCh := clear (bf_activityCh b3)\<rparr>)"

definition full_batch :: "buffer \<Rightarrow> 'a list \<Rightarrow> bool" where
  "full_batch b pending = (bf_batch b \<le> int (length pending))"

text \<open>A received event joins the pending ones; a full batch is flushed at once.\<close>

definition gather :: "('a list \<Rightarrow> buffer \<Rightarrow> buffer) \<Rightarrow> ('a lane \<Rightarrow> buffer \<Rightarrow> buffer) \<Rightarrow> 'a \<Rightarrow> 'a list \<Rightarrow> 'a list \<Rightarrow> buffer \<Rightarrow> buffer" where
  "gather flusher put e rest pending0 b =
    (let pending = pending0 @ [e] in
     if full_batch b pending then put \<lparr>ln_queue = rest, ln_pending = []\<rparr> (flusher pending b)
     else put \<lparr>ln_queue = rest, ln_pending = pending\<rparr> b)"

datatype select_case = RecvEvent | RecvDLP | RecvStatus | RecvActivity | Tick

fun select_step :: "(store_call \<Rightarrow> bool) \<Rightarrow> select_case \<Rightarrow> buffer \<Rightarrow> buffer option" where
  "select_step db RecvEvent b =
    (case ln_queue (bf_ch b) of
       e # rest \<Rightarrow> Some (gather (flush db) (\<lambda>l b. b\<lparr>bf_ch := l\<rparr>) e rest (ln_pending (bf_ch b)) b)
     | [] \<Rightarrow> if bf_closed b then Some ((flush_all db b)\<lparr>bf_done := True\<rparr>) else None)"
| "select_step db RecvDLP b =
    (case ln_queue (bf_dlpCh b) of
       e # rest \<Rightarrow> Some (gather (flushDLP db) (\<lambda>l b. b\<lparr>bf_dlpCh := l\<rparr>) e rest (ln_pending (bf_dlpCh b)) b)
     | [] \<Rightarrow> if bf_closed b then Some b else None)"
| "select_step db RecvStatus b =
    (case ln_queue (bf_statusCh b) of
       e # rest \<Rightarrow> Some (gather (flushAgentStatus db) (\<lambda>l b. b\<lparr>bf_statusCh := l\<rparr>) e rest (ln_pending (bf_statusCh b)) b)
     | [] \<Rightarrow> if bf_closed b then Some b else None)"
| "select_step db RecvActivity b =
    (case ln_queue (bf_activityCh b) of
       e # rest \<Rightarrow> Some (gather (flushAIActivity db) (\<lambda>l b. b\<lparr>bf_activityCh := l\<rparr>) e rest (ln_pending (bf_activityCh b)) b)
     | [] \<Rightarrow> if bf_closed b then Some b else None)"
| "select_step db Tick b = Some (flush_all db b)"

definition Stop :: "buffer \<Rightarrow> buffer option" where
  "Stop b = (if bf_closed b then None else Some (b\<lparr>bf_closed := True\<rparr>))"

section \<open>Executions\<close>

datatype buffer_op =
    OpEmit gw_event
  | OpEmitDLP dlp_event
  | OpEmitStatus agent_status_event
  | OpEmitActivity ai_activity_event
  | OpSelect select_case
  | OpCancel
  | OpStop

fun exec_op :: "(store_call \<Rightarrow> bool) \<Rightarrow> buffer_op \<Rightarrow> buffer \<Rightarrow> buffer option" where
  "exec_op db (OpEmit e) b = Emit e b"
| "exec_op db (OpEmitDLP e) b = EmitDLP e b"
| "exec_op db (OpEmitStatus e) b = EmitAgentStatus e b"
| "exec_op db (OpEmitActivity e) b = EmitAIActivity e b"
| "exec_op db (OpSelect c) b = (if bf_done b then None else select_step db c b)"
| "exec_op db OpCancel b = Some (b\<lparr>bf_cancelled := True\<rparr>)"
| "exec_op db OpStop b = Stop b"

fun run_ops :: "(store_call \<Rightarrow> bool) \<Rightarrow> buffer_op list \<Rightarrow> buffer \<Rightarrow> buffer option" where
  "run_ops db [] b = Some b"
| "run_ops db (op # ops) b = (case exec_op db op b of None \<Rightarrow> None | Some b' \<Rightarrow> run_ops db ops b')"

section \<open>Lemmas: what a step does to a lane\<close>

text \<open>A flush only appends to the log; the log's part for the lane is the batch.\<close>

fun requests_in :: "store_call \<Rightarrow> gw_event list" where
  "requests_in (InsertTelemetryBatch es) = es" | "requests_in _ = []"

fun dlp_in :: "store_call \<Rightarrow> dlp_event list" where
  "dlp_in (InsertDLPBatch es) = es" | "dlp_in _ = []"

fun status_in :: "store_call \<Rightarrow> agent_status_event list" where
  "status_in (InsertAgentStatusBatch es) = es" | "status_in _ = []"

fun activity_in :: "store_call \<Rightarrow> ai_activity_event list" where
  "activity_in (InsertAIActivityBatch es) = es" | "activity_in _ = []"

fun emitted_request :: "buffer_op \<Rightarrow> gw_event option" where
  "emitted_request (OpEmit e) = Some e" | "emitted_request _ = None"

fun emitted_dlp :: "buffer_op \<Rightarrow> dlp_event option" where
  "emitted_dlp (OpEmitDLP e) = Some e" | "emitted_dlp _ = None"

fun emitted_status :: "buffer_op \<Rightarrow> agent_status_event option" where
  "emitted_status (OpEmitStatus e) = Some e" | "emitted_status _ = None"

fun emitted_activity :: "buffer_op \<Rightarrow> ai_activity_event option" where
  "emitted_activity (OpEmitActivity e) = Some e" | "emitted_activity _ = None"

definition sent_events :: "(store_call \<Rightarrow> 'a list) \<Rightarrow> buffer \<Rightarrow> 'a list" where
  "sent_events sel b = concat (map (\<lambda>(c, _). sel c) (bf_calls b))"

definition lane_total :: "(buffer \<Rightarrow> 'a lane) \<Rightarrow> (store_call \<Rightarrow> 'a list) \<Rightarrow> buffer \<Rightarrow> 'a list" where
  "lane_total lane sel b = sent_events sel b @ ln_pending (lane b) @ ln_queue (lane b)"

definition flush_calls :: "(store_call \<Rightarrow> bool) \<Rightarrow> gw_event list \<Rightarrow> buffer \<Rightarrow> (store_call \<times> bool) list" where
  "flush_calls db es b = bf_calls (flush db es (b\<lparr>bf_calls := []\<rparr>))"

lemma flush_log: "flush db es b = b\<lparr>bf_calls := bf_calls b @ flush_calls db es b\<rparr>"
  by (simp add: flush_calls_def flush_def insert_batch_def call_ok_def Let_def)

lemma flush_calls_sel:
  "concat (map (\<lambda>(c, _). requests_in c) (flush_calls db es b)) = es"
  "concat (map (\<lambda>(c, _). dlp_in c) (flush_calls db es b)) = []"
  "concat (map (\<lambda>(c, _). status_in c) (flush_calls db es b)) = []"
  "concat (map (\<lambda>(c, _). activity_in c) (flush_calls db es b)) = []"
  by (simp_all add: flush_calls_def flush_def insert_batch_def Let_def)

lemma other_flush_log:
  "flushDLP db ds b = b\<lparr>bf_calls := bf_calls b @ (if ds = [] then [] else [(InsertDLPBatch ds, call_ok db (InsertDLPBatch ds) b)])\<rparr>"
  "flushAgentStatus db ss b = b\<lparr>bf_calls := bf_calls b @ (if ss = [] then [] else [(InsertAgentStatusBatch ss, call_ok db (InsertAgentStatusBatch ss) b)])\<rparr>"
  "flushAIActivity db xs b = b\<lparr>bf_calls := bf_calls b @ (if xs = [] then [] else [(InsertAIActivityBatch xs, call_ok db (InsertAIActivityBatch xs) b)])\<rparr>"
  by (simp_all add: flushDLP_def flushAgentStatus_def flushAIActivity_def insert_batch_def)

lemmas lane_simps = lane_total_def sent_events_def flush_log flush_calls_sel other_flush_log
  enqueue_def clear_def drop_one_def Emit_def EmitDLP_def EmitAgentStatus_def EmitAIActivity_def Stop_def

lemma flush_all_total:
  "lane_total bf_ch requests_in (flush_all db b) = lane_total bf_ch requests_in b"
  "lane_total bf_dlpCh dlp_in (flush_all db b) = lane_total bf_dlpCh dlp_in b"
  "lane_total bf_statusCh status_in (flush_all db b) = lane_total bf_statusCh status_in b"
  "lane_total bf_activityCh activity_in (flush_all db b) = lane_total bf_activityCh activity_in b"
  by (simp_all add: flush_all_def Let_def lane_simps)

lemma done_total: "lane_total bf_ch sel (b\<lparr>bf_done := d\<rparr>) = lane_total bf_ch sel b"
  "lane_total bf_dlpCh sel' (b\<lparr>bf_done := d\<rparr>) = lane_total bf_dlpCh sel' b"
  "lane_total bf_statusCh sel'' (b\<lparr>bf_done := d\<rparr>) = lane_total bf_statusCh sel'' b"
  "lane_total bf_activityCh sel3 (b\<lparr>bf_done := d\<rparr>) = lane_total bf_activityCh sel3 b"
  by (simp_all add: lane_total_def sent_events_def)

lemma select_total:
  assumes "select_step db c b = Some b'"
  shows "lane_total bf_ch requests_in b' = lane_total bf_ch requests_in b"
    and "lane_total bf_dlpCh dlp_in b' = lane_total bf_dlpCh dlp_in b"
    and "lane_total bf_statusCh status_in b' = lane_total bf_statusCh status_in b"
    and "lane_total bf_activityCh activity_in b' = lane_total bf_activityCh activity_in b"
  using assms
  by (cases c; auto simp: gather_def Let_def lane_simps flush_all_total[unfolded lane_total_def sent_events_def]
      split: list.splits if_splits)+

section \<open>The contract of a lane\<close>

text \<open>
  What each of the four kinds of event relies on: an emission enters at the end of its lane or is
  dropped because the channel is full, and nothing else changes what the lane has sent, holds
  pending and holds queued, read in this order.
\<close>

locale buffer_lane =
  fixes lane :: "buffer \<Rightarrow> 'a lane"
    and sel :: "store_call \<Rightarrow> 'a list"
    and emitted :: "buffer_op \<Rightarrow> 'a option"
  assumes emit_total: "emitted op = Some e \<Longrightarrow> exec_op db op b = Some b' \<Longrightarrow>
        lane_total lane sel b' = lane_total lane sel b @ (if has_room b (lane b) then [e] else [])"
    and other_total: "emitted op = None \<Longrightarrow> exec_op db op b = Some b' \<Longrightarrow>
        lane_total lane sel b' = lane_total lane sel b"
begin

lemma step_total:
  assumes "exec_op db op b = Some b'"
  shows "\<exists>acc. subseq acc (List.map_filter emitted [op]) \<and> lane_total lane sel b' = lane_total lane sel b @ acc"
proof (cases "emitted op")
  case None
  then show ?thesis using other_total[OF None assms] by (intro exI[of _ "[]"]) simp
next
  case (Some e)
  then show ?thesis
    using emit_total[OF Some assms]
    by (intro exI[of _ "if has_room b (lane b) then [e] else []"]) (simp add: List.map_filter_simps)
qed

lemma run_total:
  "run_ops db ops b = Some b' \<Longrightarrow>
     \<exists>acc. subseq acc (List.map_filter emitted ops) \<and> lane_total lane sel b' = lane_total lane sel b @ acc"
proof (induction ops arbitrary: b)
  case Nil
  then show ?case by (simp add: List.map_filter_simps)
next
  case (Cons op ops)
  from Cons.prems obtain b1 where b1: "exec_op db op b = Some b1" and run: "run_ops db ops b1 = Some b'"
    by (auto split: option.splits)
  from step_total[OF b1] Cons.IH[OF run] obtain a1 a2
    where "subseq a1 (List.map_filter emitted [op])" "lane_total lane sel b1 = lane_total lane sel b @ a1"
      and "subseq a2 (List.map_filter emitted ops)" "lane_total lane sel b' = lane_total lane sel b1 @ a2" by blast
  moreover have "List.map_filter emitted (op # ops) = List.map_filter emitted [op] @ List.map_filter emitted ops"
    by (simp add: List.map_filter_simps split: option.split)
  ultimately show ?case by (intro exI[of _ "a1 @ a2"]) (simp add: list_emb_append_mono)
qed

lemma fresh_total:
  "run_ops db ops (NewBuffer n k) = Some b' \<Longrightarrow> lane_total lane sel (NewBuffer n k) = [] \<Longrightarrow>
     subseq (sent_events sel b' @ ln_pending (lane b') @ ln_queue (lane b')) (List.map_filter emitted ops)"
  using run_total by (fastforce simp: lane_total_def)

end

interpretation request_lane: buffer_lane bf_ch requests_in emitted_request
proof
  fix op e db b b'
  assume "emitted_request op = Some e" and "exec_op db op b = Some b'"
  then show "lane_total bf_ch requests_in b' = lane_total bf_ch requests_in b @ (if has_room b (bf_ch b) then [e] else [])"
    by (cases op) (auto simp: lane_simps split: if_splits)
next
  fix op db b b'
  assume "emitted_request op = None" and "exec_op db op b = Some b'"
  then show "lane_total bf_ch requests_in b' = lane_total bf_ch requests_in b"
    by (cases op) (auto simp: lane_simps select_total(1)[unfolded lane_total_def sent_events_def] split: if_splits)
qed

interpretation dlp_lane: buffer_lane bf_dlpCh dlp_in emitted_dlp
proof
  fix op e db b b'
  assume "emitted_dlp op = Some e" and "exec_op db op b = Some b'"
  then show "lane_total bf_dlpCh dlp_in b' = lane_total bf_dlpCh dlp_in b @ (if has_room b (bf_dlpCh b) then [e] else [])"
    by (cases op) (auto simp: lane_simps split: if_splits)
next
  fix op db b b'
  assume "emitted_dlp op = None" and "exec_op db op b = Some b'"
  then show "lane_total bf_dlpCh dlp_in b' = lane_total bf_dlpCh dlp_in b"
    by (cases op) (auto simp: lane_simps select_total(2)[unfolded lane_total_def sent_events_def] split: if_splits)
qed

interpretation status_lane: buffer_lane bf_statusCh status_in emitted_status
proof
  fix op e db b b'
  assume "emitted_status op = Some e" and "exec_op db op b = Some b'"
  then show "lane_total bf_statusCh status_in b' = lane_total bf_statusCh status_in b @ (if has_room b (bf_statusCh b) then [e] else [])"
    by (cases op) (auto simp: lane_simps split: if_splits)
next
  fix op db b b'
  assume "emitted_status op = None" and "exec_op db op b = Some b'"
  then show "lane_total bf_statusCh status_in b' = lane_total bf_statusCh status_in b"
    by (cases op) (auto simp: lane_simps select_total(3)[unfolded lane_total_def sent_events_def] split: if_splits)
qed

interpretation activity_lane: buffer_lane bf_activityCh activity_in emitted_activity
proof
  fix op e db b b'
  assume "emitted_activity op = Some e" and "exec_op db op b = Some b'"
  then show "lane_total bf_activityCh activity_in b' = lane_total bf_activityCh activity_in b @ (if has_room b (bf_activityCh b) then [e] else [])"
    by (cases op) (auto simp: lane_simps split: if_splits)
next
  fix op db b b'
  assume "emitted_activity op = None" and "exec_op db op b = Some b'"
  then show "lane_total bf_activityCh activity_in b' = lane_total bf_activityCh activity_in b"
    by (cases op) (auto simp: lane_simps select_total(4)[unfolded lane_total_def sent_events_def] split: if_splits)
qed

section \<open>Counting and bounds\<close>

definition held :: "buffer \<Rightarrow> nat" where
  "held b = length (lane_total bf_ch requests_in b) + length (lane_total bf_dlpCh dlp_in b) +
     length (lane_total bf_statusCh status_in b) + length (lane_total bf_activityCh activity_in b)"

fun is_emit :: "buffer_op \<Rightarrow> bool" where
  "is_emit (OpSelect c) = False" | "is_emit OpCancel = False" | "is_emit OpStop = False" | "is_emit _ = True"

lemma flush_all_frame:
  "bf_dropped (flush_all db b) = bf_dropped b" "bf_size (flush_all db b) = bf_size b" "bf_batch (flush_all db b) = bf_batch b"
  "bf_closed (flush_all db b) = bf_closed b" "bf_cancelled (flush_all db b) = bf_cancelled b"
  by (simp_all add: flush_all_def Let_def flush_log other_flush_log)

lemma select_frame:
  assumes "select_step db c b = Some b'"
  shows "bf_dropped b' = bf_dropped b" "bf_size b' = bf_size b" "bf_batch b' = bf_batch b"
    "bf_closed b' = bf_closed b" "bf_cancelled b' = bf_cancelled b"
  using assms by (cases c; auto simp: gather_def Let_def flush_log other_flush_log flush_all_frame split: list.splits if_splits)+

lemma held_select: "select_step db c b = Some b' \<Longrightarrow> held b' = held b"
  using select_total[of db c b b'] by (simp add: held_def)

lemma held_step:
  assumes "exec_op db op b = Some b'"
  shows "held b' + bf_dropped b' = held b + bf_dropped b + (if is_emit op then 1 else 0)"
proof (cases op)
  case (OpSelect c)
  then show ?thesis using assms held_select select_frame(1) by (auto split: if_splits)
qed (use assms in \<open>auto simp: held_def lane_simps split: if_splits\<close>)

lemma held_run:
  "run_ops db ops b = Some b' \<Longrightarrow> held b' + bf_dropped b' = held b + bf_dropped b + length (filter is_emit ops)"
proof (induction ops arbitrary: b)
  case (Cons op ops)
  from Cons.prems obtain b1 where b1: "exec_op db op b = Some b1" and run: "run_ops db ops b1 = Some b'"
    by (auto split: option.splits)
  show ?case using Cons.IH[OF run] held_step[OF b1] by auto
qed simp

definition lane_bounded :: "buffer \<Rightarrow> 'a lane \<Rightarrow> bool" where
  "lane_bounded b l \<longleftrightarrow> length (ln_queue l) \<le> bf_size b \<and> int (length (ln_pending l)) \<le> max 0 (bf_batch b - 1)"

fun batch_size :: "store_call \<Rightarrow> nat" where
  "batch_size (InsertTelemetryBatch es) = length es"
| "batch_size (InsertAuditBatch es) = length es"
| "batch_size (InsertDLPBatch es) = length es"
| "batch_size (InsertAgentStatusBatch es) = length es"
| "batch_size (InsertAIActivityBatch es) = length es"

definition calls_bounded :: "int \<Rightarrow> (store_call \<times> bool) list \<Rightarrow> bool" where
  "calls_bounded k cs \<longleftrightarrow> (\<forall>(c, ok)\<in>set cs. 0 < batch_size c \<and> int (batch_size c) \<le> max 1 k)"

definition buffer_inv :: "buffer \<Rightarrow> bool" where
  "buffer_inv b \<longleftrightarrow> lane_bounded b (bf_ch b) \<and> lane_bounded b (bf_dlpCh b) \<and> lane_bounded b (bf_statusCh b) \<and>
     lane_bounded b (bf_activityCh b) \<and> calls_bounded (bf_batch b) (bf_calls b)"

lemma audit_entries_length: "length (audit_entries es) \<le> length es"
  by (simp add: audit_entries_def)

lemma flush_calls_bounded:
  assumes "int (length es) \<le> max 1 k"
  shows "calls_bounded k (flush_calls db es b)"
  using assms audit_entries_length[of es]
  by (auto simp: calls_bounded_def flush_calls_def flush_def insert_batch_def Let_def)

lemma calls_bounded_append: "calls_bounded k (a @ c) \<longleftrightarrow> calls_bounded k a \<and> calls_bounded k c"
  by (auto simp: calls_bounded_def)

lemma calls_bounded_single: "calls_bounded k [(c, ok)] \<longleftrightarrow> 0 < batch_size c \<and> int (batch_size c) \<le> max 1 k"
  "calls_bounded k []"
  by (auto simp: calls_bounded_def)

lemmas bounded_simps = calls_bounded_append calls_bounded_single flush_calls_bounded

lemma flush_all_inv:
  assumes "buffer_inv b"
  shows "buffer_inv (flush_all db b)"
  using assms unfolding buffer_inv_def
  by (auto simp: flush_all_def Let_def flush_log other_flush_log lane_bounded_def clear_def bounded_simps)

lemma gather_bounded:
  assumes "lane_bounded b l" and "ln_queue l = e # rest"
  shows "full_batch b (ln_pending l @ [e]) \<Longrightarrow> int (length (ln_pending l @ [e])) \<le> max 1 (bf_batch b)"
    and "lane_bounded b \<lparr>ln_queue = rest, ln_pending = []\<rparr>"
    and "\<not> full_batch b (ln_pending l @ [e]) \<Longrightarrow> lane_bounded b \<lparr>ln_queue = rest, ln_pending = ln_pending l @ [e]\<rparr>"
  using assms by (auto simp: lane_bounded_def full_batch_def)

lemma lane_bounded_frame:
  "bf_size b' = bf_size b \<Longrightarrow> bf_batch b' = bf_batch b \<Longrightarrow> lane_bounded b' l = lane_bounded b l"
  by (simp add: lane_bounded_def)

lemma select_inv:
  assumes inv: "buffer_inv b" and step: "select_step db c b = Some b'"
  shows "buffer_inv b'"
proof -
  show ?thesis
  proof (cases c)
    case Tick
    then show ?thesis using step flush_all_inv[OF inv] by auto
  next
    case RecvEvent
    show ?thesis
    proof (cases "ln_queue (bf_ch b)")
      case Nil
      then show ?thesis using step RecvEvent flush_all_inv[OF inv]
        by (auto simp: buffer_inv_def lane_bounded_def split: if_splits)
    next
      case (Cons e rest)
      with inv have "lane_bounded b (bf_ch b)" by (simp add: buffer_inv_def)
      note g = gather_bounded[OF this Cons]
      show ?thesis using step RecvEvent Cons inv g
        by (auto simp: buffer_inv_def gather_def Let_def flush_log bounded_simps lane_bounded_def)
    qed
  qed (use step inv in \<open>auto simp: buffer_inv_def gather_def Let_def other_flush_log bounded_simps lane_bounded_def
      full_batch_def split: list.splits if_splits\<close>)
qed

lemma exec_inv:
  assumes "buffer_inv b" and "exec_op db op b = Some b'"
  shows "buffer_inv b' \<and> bf_size b' = bf_size b \<and> bf_batch b' = bf_batch b"
proof (cases op)
  case (OpSelect c)
  then show ?thesis using assms select_inv select_frame by (auto split: if_splits)
qed (use assms in \<open>auto simp: buffer_inv_def lane_simps has_room_def lane_bounded_def split: if_splits\<close>)

inductive buffer_step :: "(store_call \<Rightarrow> bool) \<Rightarrow> buffer \<Rightarrow> buffer \<Rightarrow> bool" for db where
  op: "exec_op db oper b = Some b' \<Longrightarrow> buffer_step db b b'"

lemma run_steps: "run_ops db ops b = Some b' \<Longrightarrow> (buffer_step db)\<^sup>*\<^sup>* b b'"
proof (induction ops arbitrary: b)
  case (Cons oper ops)
  then show ?case
    by (auto split: option.splits intro: converse_rtranclp_into_rtranclp buffer_step.op)
qed simp

interpretation buffer_run: invariant_system "NewBuffer n k" "buffer_step db"
  "\<lambda>b. buffer_inv b \<and> bf_size b = n \<and> bf_batch b = k" for n k db
proof unfold_locales
  show "buffer_inv (NewBuffer n k) \<and> bf_size (NewBuffer n k) = n \<and> bf_batch (NewBuffer n k) = k"
    by (simp add: NewBuffer_def buffer_inv_def lane_bounded_def empty_lane_def calls_bounded_def)
qed (auto elim!: buffer_step.cases dest: exec_inv)

section \<open>Audit\<close>

text \<open>A stored batch of requests is followed by the audit entries of the blocked ones among them.\<close>

fun audited :: "(store_call \<times> bool) list \<Rightarrow> bool" where
  "audited [] = True"
| "audited ((c, ok) # rest) \<longleftrightarrow>
     (case c of
        InsertTelemetryBatch es \<Rightarrow> ok \<longrightarrow> audit_entries es \<noteq> [] \<longrightarrow>
          rest \<noteq> [] \<and> fst (hd rest) = InsertAuditBatch (audit_entries es)
      | _ \<Rightarrow> True) \<and> audited rest"

lemma audited_append: "audited a \<Longrightarrow> audited b \<Longrightarrow> audited (a @ b)"
proof (induction a rule: audited.induct)
  case (2 c ok rest)
  then show ?case by (cases c) (auto simp: hd_append)
qed simp

lemma flush_calls_audited: "audited (flush_calls db es b)"
  by (auto simp: flush_calls_def flush_def insert_batch_def call_ok_def Let_def)

lemma flush_all_audited: "audited (bf_calls b) \<Longrightarrow> audited (bf_calls (flush_all db b))"
  by (simp add: flush_all_def Let_def flush_log other_flush_log audited_append flush_calls_audited)

lemma exec_audited:
  assumes "audited (bf_calls b)" and "exec_op db op b = Some b'"
  shows "audited (bf_calls b')"
proof (cases op)
  case (OpSelect c)
  then have "select_step db c b = Some b'" using assms(2) by (simp split: if_splits)
  then show ?thesis using assms(1)
    by (cases c) (auto simp: gather_def Let_def flush_log other_flush_log audited_append flush_calls_audited flush_all_audited
        split: list.splits if_splits)
qed (use assms in \<open>auto simp: lane_simps split: if_splits\<close>)

interpretation audit_run: invariant_system "NewBuffer n k" "buffer_step db" "\<lambda>b. audited (bf_calls b)" for n k db
  by unfold_locales (auto simp: NewBuffer_def elim!: buffer_step.cases dest: exec_audited)

section \<open>Shutdown\<close>

lemma cancelled_flush: "bf_cancelled b \<Longrightarrow> \<forall>c\<in>set (flush_calls db es b). \<not> snd c"
  by (simp add: flush_calls_def flush_def insert_batch_def call_ok_def Let_def)

lemma cancelled_flush_all:
  "bf_cancelled b \<Longrightarrow> \<exists>cs. bf_calls (flush_all db b) = bf_calls b @ cs \<and> (\<forall>c\<in>set cs. \<not> snd c)"
  using cancelled_flush by (auto simp: flush_all_def Let_def flush_log other_flush_log call_ok_def)

lemma cancelled_step:
  assumes "bf_cancelled b" and "exec_op db op b = Some b'"
  shows "bf_cancelled b' \<and> (\<exists>cs. bf_calls b' = bf_calls b @ cs \<and> (\<forall>c\<in>set cs. \<not> snd c))"
proof (cases op)
  case (OpSelect c)
  then have step: "select_step db c b = Some b'" using assms(2) by (simp split: if_splits)
  moreover have "\<exists>cs. bf_calls b' = bf_calls b @ cs \<and> (\<forall>c\<in>set cs. \<not> snd c)"
    using step assms(1) cancelled_flush[OF assms(1)] cancelled_flush_all[OF assms(1)]
    by (cases c) (auto simp: gather_def Let_def flush_log other_flush_log call_ok_def split: list.splits if_splits)
  ultimately show ?thesis using select_frame(5) assms(1) by simp
qed (use assms in \<open>auto simp: lane_simps split: if_splits\<close>)

lemma cancelled_run:
  "run_ops db ops b = Some b' \<Longrightarrow> bf_cancelled b \<Longrightarrow> \<exists>cs. bf_calls b' = bf_calls b @ cs \<and> (\<forall>c\<in>set cs. \<not> snd c)"
proof (induction ops arbitrary: b)
  case (Cons op ops)
  from Cons.prems obtain b1 where b1: "exec_op db op b = Some b1" and run: "run_ops db ops b1 = Some b'"
    by (auto split: option.splits)
  from cancelled_step[OF Cons.prems(2) b1] obtain cs1 where "bf_cancelled b1" and
    cs1: "bf_calls b1 = bf_calls b @ cs1" "\<forall>c\<in>set cs1. \<not> snd c" by blast
  from Cons.IH[OF run this(1)] obtain cs2 where "bf_calls b' = bf_calls b1 @ cs2" "\<forall>c\<in>set cs2. \<not> snd c" by blast
  with cs1 show ?case by (intro exI[of _ "cs1 @ cs2"]) auto
qed simp

text \<open>Receiving from the closed request channel: what is queued goes through, then the goroutine ends.\<close>

definition others_queued :: "buffer \<Rightarrow> dlp_event list \<times> agent_status_event list \<times> ai_activity_event list" where
  "others_queued b = (ln_queue (bf_dlpCh b), ln_queue (bf_statusCh b), ln_queue (bf_activityCh b))"

lemma drain_ends:
  assumes "bf_closed b" and "\<not> bf_done b"
  shows "\<exists>b'. run_ops db (replicate (Suc (length (ln_queue (bf_ch b)))) (OpSelect RecvEvent)) b = Some b' \<and>
     bf_done b' \<and> ln_queue (bf_ch b') = [] \<and> ln_pending (bf_ch b') = [] \<and> others_queued b' = others_queued b"
  using assms
proof (induction "ln_queue (bf_ch b)" arbitrary: b)
  case Nil
  then show ?case
    by (simp add: Nil.hyps[symmetric] flush_all_def Let_def flush_log other_flush_log clear_def others_queued_def)
next
  case (Cons e rest)
  define b1 where "b1 = gather (flush db) (\<lambda>l b. b\<lparr>bf_ch := l\<rparr>) e rest (ln_pending (bf_ch b)) b"
  have step: "exec_op db (OpSelect RecvEvent) b = Some b1"
    using Cons.prems Cons.hyps(2) by (simp add: b1_def Cons.hyps(2)[symmetric])
  have b1: "ln_queue (bf_ch b1) = rest" "bf_closed b1" "\<not> bf_done b1" "others_queued b1 = others_queued b"
    using Cons.prems by (simp_all add: b1_def gather_def Let_def flush_log others_queued_def)
  from Cons.hyps(1)[OF b1(1)[symmetric] b1(2,3)] step show ?case
    by (simp add: Cons.hyps(2)[symmetric] b1)
qed

section \<open>Properties\<close>


text \<open>
  The buffer's memory and its inserts are bounded: in every reachable state each channel holds at
  most the configured number of events, fewer than a batch are pending, and every insert that was
  attempted carried at least one row and at most a batch (one, for a batch size below one).
\<close>

theorem telemetry_buffer_bounded:
  assumes "run_ops db ops (NewBuffer n k) = Some b"
  shows "length (ln_queue (bf_ch b)) \<le> n \<and> length (ln_queue (bf_dlpCh b)) \<le> n \<and>
    length (ln_queue (bf_statusCh b)) \<le> n \<and> length (ln_queue (bf_activityCh b)) \<le> n \<and>
    int (length (ln_pending (bf_ch b))) \<le> max 0 (k - 1) \<and> int (length (ln_pending (bf_dlpCh b))) \<le> max 0 (k - 1) \<and>
    int (length (ln_pending (bf_statusCh b))) \<le> max 0 (k - 1) \<and> int (length (ln_pending (bf_activityCh b))) \<le> max 0 (k - 1) \<and>
    list_all (\<lambda>(c, ok). 0 < batch_size c \<and> int (batch_size c) \<le> max 1 k) (bf_calls b)"
  using buffer_run.reachable_inv[OF run_steps[OF assms]]
  by (auto simp: buffer_inv_def lane_bounded_def calls_bounded_def list_all_iff)

text \<open>
  A blocked request leaves an audit record. In every reachable state, each batch of requests the
  database took is followed in the log of inserts by one of exactly the audit entries of the requests
  in it that were blocked, in their order.
\<close>

theorem blocked_requests_audited:
  assumes "run_ops db ops (NewBuffer n k) = Some b"
    and "bf_calls b = before @ (InsertTelemetryBatch es, True) # after"
    and "\<exists>e\<in>set es. to_lower (te_PolicyDecision e) = ''block''"
  shows "\<exists>ok rest. after = (InsertAuditBatch (map audit_of (filter (\<lambda>e. to_lower (te_PolicyDecision e) = ''block'') es)), ok) # rest"
proof -
  have split: "audited (a @ c) \<Longrightarrow> audited c" for a c by (induction a rule: audited.induct) auto
  have "audited (bf_calls b)" using audit_run.reachable_inv[OF run_steps[OF assms(1)]] .
  then have "audited ((InsertTelemetryBatch es, True) # after)" using split assms(2) by metis
  moreover have "audit_entries es \<noteq> []"
    using assms(3) by (simp only: audit_entries_def map_is_Nil_conv filter_empty_conv) blast
  ultimately have "after \<noteq> [] \<and> fst (hd after) = InsertAuditBatch (audit_entries es)" by simp
  then show ?thesis by (cases after) (auto simp: audit_entries_def)
qed

text \<open>
  The shutdown saves nothing. The gateway cancels the context before it stops the buffer, so
  whatever the goroutine still does after that, with any database, every insert it attempts fails;
  in particular everything queued or pending at that moment is lost.
\<close>

theorem shutdown_saves_nothing:
  assumes "run_ops db (OpCancel # OpStop # ops) b = Some b'"
  shows "\<exists>cs. bf_calls b' = bf_calls b @ cs \<and> list_all (\<lambda>c. \<not> snd c) cs"
proof -
  have "run_ops db (OpStop # ops) (b\<lparr>bf_cancelled := True\<rparr>) = Some b'" using assms by simp
  from cancelled_run[OF this] show ?thesis by (simp add: list_all_iff)
qed

text \<open>
  Stopping ends, and drains the requests only. From any stopped state the goroutine can end after
  as many receptions as there are queued requests and one more, with no request left queued or
  pending; but it ends without looking at the other three channels, whose queued events are
  abandoned.
\<close>

theorem stop_drains_requests_only:
  assumes "bf_closed b" and "\<not> bf_done b"
  shows "\<exists>b'. run_ops db (replicate (Suc (length (ln_queue (bf_ch b)))) (OpSelect RecvEvent)) b = Some b' \<and>
     bf_done b' \<and> ln_queue (bf_ch b') = [] \<and> ln_pending (bf_ch b') = [] \<and>
     ln_queue (bf_dlpCh b') = ln_queue (bf_dlpCh b) \<and> ln_queue (bf_statusCh b') = ln_queue (bf_statusCh b) \<and>
     ln_queue (bf_activityCh b') = ln_queue (bf_activityCh b) \<and> (\<forall>c. exec_op db (OpSelect c) b' = None)"
proof -
  from drain_ends[OF assms, of db] obtain b' where
    b': "run_ops db (replicate (Suc (length (ln_queue (bf_ch b)))) (OpSelect RecvEvent)) b = Some b'"
      "bf_done b'" "ln_queue (bf_ch b') = []" "ln_pending (bf_ch b') = []" "others_queued b' = others_queued b" by blast
  then show ?thesis by (intro exI[of _ b']) (simp add: others_queued_def del: run_ops.simps replicate.simps)
qed

section \<open>Concrete runs\<close>

definition sample_event :: "string \<Rightarrow> gw_event" where
  "sample_event dec = \<lparr>te_Timestamp = 1, te_DeviceID = ''d1'', te_OrgID = ''o1'', te_RequestMethod = ''POST'',
     te_RequestHost = ''api.openai.com'', te_RequestPath = [], te_RequestPort = 443, te_ResponseStatus = 403,
     te_LatencyMs = 2, te_BytesSent = 0, te_BytesReceived = 10, te_PolicyDecision = dec, te_MatchedRuleID = None,
     te_PolicyVersion = None, te_AgentVersion = None, te_ProtocolVersion = None, te_SourceApp = None, te_OS = None,
     te_ServiceCategory = None, te_AIVendor = None, te_CaptureSurface = None\<rparr>"

definition sample_status :: agent_status_event where
  "sample_status = \<lparr>sv_Timestamp = 1, sv_DeviceID = ''d1'', sv_OrgID = ''o1'', sv_EventType = ''agent.started'',
     sv_Severity = ''info'', sv_Data = []\<rparr>"

text \<open>Two requests make a batch; the third finds the channel of size two full again; a status event waits.\<close>

definition sample_ops :: "buffer_op list" where
  "sample_ops = [OpEmit (sample_event ''allow''), OpEmit (sample_event ''Block''), OpEmit (sample_event ''allow''),
     OpSelect RecvEvent, OpEmitStatus sample_status, OpSelect RecvEvent]"

definition sample_run :: buffer where
  "sample_run = the (run_ops (\<lambda>c. True) sample_ops (NewBuffer 2 2))"

lemma sample_run_ok: "run_ops (\<lambda>c. True) sample_ops (NewBuffer 2 2) = Some sample_run"
  and sample_run_calls: "bf_calls sample_run =
    [(InsertTelemetryBatch [sample_event ''allow'', sample_event ''Block''], True),
     (InsertAuditBatch [audit_of (sample_event ''Block'')], True)]"
  and sample_run_queues: "bf_dropped sample_run = 1" "ln_queue (bf_statusCh sample_run) = [sample_status]"
  unfolding sample_run_def by code_simp+


lemma telemetry_buffer_bounded_witness:
  "length (ln_queue (bf_ch sample_run)) \<le> 2 \<and> length (ln_queue (bf_statusCh sample_run)) \<le> 2"
  using telemetry_buffer_bounded[OF sample_run_ok] by simp

lemma blocked_requests_audited_witness:
  "\<exists>ok rest. [(InsertAuditBatch [audit_of (sample_event ''Block'')], True)] =
     (InsertAuditBatch (map audit_of (filter (\<lambda>e. to_lower (te_PolicyDecision e) = ''block'')
        [sample_event ''allow'', sample_event ''Block''])), ok) # rest"
proof (rule blocked_requests_audited[OF sample_run_ok])
  show "bf_calls sample_run = [] @ (InsertTelemetryBatch [sample_event ''allow'', sample_event ''Block''], True) #
      [(InsertAuditBatch [audit_of (sample_event ''Block'')], True)]"
    by (simp only: sample_run_calls append_Nil)
  show "\<exists>e\<in>set [sample_event ''allow'', sample_event ''Block'']. to_lower (te_PolicyDecision e) = ''block''"
    by code_simp
qed

definition shutdown_ops :: "buffer_op list" where
  "shutdown_ops = [OpCancel, OpStop, OpSelect RecvEvent]"

lemma shutdown_saves_nothing_witness:
  "\<exists>cs. bf_calls (the (run_ops (\<lambda>c. True) shutdown_ops (the (Emit (sample_event ''allow'') (NewBuffer 1 1))))) =
      bf_calls (the (Emit (sample_event ''allow'') (NewBuffer 1 1))) @ cs \<and> list_all (\<lambda>c. \<not> snd c) cs"
proof (rule shutdown_saves_nothing)
  show "run_ops (\<lambda>c. True) (OpCancel # OpStop # [OpSelect RecvEvent]) (the (Emit (sample_event ''allow'') (NewBuffer 1 1))) =
     Some (the (run_ops (\<lambda>c. True) shutdown_ops (the (Emit (sample_event ''allow'') (NewBuffer 1 1)))))"
    by code_simp
qed

lemma stop_drains_requests_only_witness:
  "\<exists>b'. run_ops (\<lambda>c. True) (replicate (Suc (length (ln_queue (bf_ch (the (Stop sample_run)))))) (OpSelect RecvEvent))
      (the (Stop sample_run)) = Some b' \<and> bf_done b' \<and> ln_queue (bf_statusCh b') = [sample_status]"
proof -
  have closed: "bf_closed (the (Stop sample_run))" "\<not> bf_done (the (Stop sample_run))"
    and queue: "ln_queue (bf_statusCh (the (Stop sample_run))) = [sample_status]"
    unfolding sample_run_def by code_simp+
  from stop_drains_requests_only[OF closed, of "\<lambda>c. True"] show ?thesis
    unfolding queue by (elim exE conjE) (intro exI conjI; assumption)
qed

end
