(* ===== verification/Gateway_Handler.thy ===== *)
theory Gateway_Handler
  imports Gateway_Policy Gateway_Buffer AI_Activity
begin

text \<open>
  The gateway's request handler (\<^verbatim>\<open>src/gateway/internal/handler/proxy.go\<close>) and its decoder of endpoint
  AI activity (\<^verbatim>\<open>src/gateway/internal/handler/ai_activity.go\<close>).

  A handler's effects are values: the emissions it makes into the telemetry buffer, in order, as
  operations of \<open>Gateway_Buffer\<close>, and the actions it takes on the connection. The decoded body of a
  telemetry post, the forwarder's outcome and \<^verbatim>\<open>time.Parse\<close> are parameters. A JSON object is an
  association list; the counters of \<^verbatim>\<open>metrics\<close> and the log are left out.
\<close>

section \<open>Reading dynamically typed values\<close>

definition field :: "godata \<Rightarrow> string \<Rightarrow> goval" where
  "field dat k = (case map_of dat k of None \<Rightarrow> VNil | Some v \<Rightarrow> v)"

fun asString :: "goval \<Rightarrow> string option" where
  "asString (VString s) = Some s" | "asString _ = None"

fun asBool :: "goval \<Rightarrow> bool option" where
  "asBool (VBool b) = Some b" | "asBool _ = None"

text \<open>A float becomes an integer by cutting off the fraction.\<close>

definition truncate_real :: "real \<Rightarrow> int" where
  "truncate_real x = (if 0 \<le> x then \<lfloor>x\<rfloor> else \<lceil>x\<rceil>)"

fun asInt :: "goval \<Rightarrow> int option" where
  "asInt (VFloat x) = Some (truncate_real x)" | "asInt (VInt n) = Some n" | "asInt _ = None"

fun asInt64 :: "goval \<Rightarrow> int option" where
  "asInt64 (VFloat x) = Some (truncate_real x)" | "asInt64 (VInt n) = Some n" | "asInt64 _ = None"

fun asFloat64 :: "goval \<Rightarrow> real option" where
  "asFloat64 (VFloat x) = Some x" | "asFloat64 (VInt n) = Some (of_int n)" | "asFloat64 _ = None"

fun asMap :: "goval \<Rightarrow> godata option" where
  "asMap (VMap m) = Some m" | "asMap _ = None"

fun string_items :: "goval \<Rightarrow> string list" where
  "string_items (VList xs) = List.map_filter asString xs" | "string_items _ = []"

text \<open>\<^verbatim>\<open>if v, ok := asString(data[key]); ok { ... = f(v) }\<close>, from the zero value.\<close>

definition str_field :: "godata \<Rightarrow> string \<Rightarrow> string" where
  "str_field dat k = (case asString (field dat k) of Some s \<Rightarrow> s | None \<Rightarrow> [])"

definition int_field :: "godata \<Rightarrow> string \<Rightarrow> int" where
  "int_field dat k = (case asInt (field dat k) of Some n \<Rightarrow> n | None \<Rightarrow> 0)"

definition ptr_field :: "godata \<Rightarrow> string \<Rightarrow> string option" where
  "ptr_field dat k = (if str_field dat k \<noteq> [] then Some (str_field dat k) else None)"

section \<open>Relayed requests\<close>

record gw_request =
  gq_Method :: string
  gq_URL :: go_url
  gq_Host :: string
  gq_Header :: header
  gq_ContentLength :: int

definition rewriteRelayURL :: "gw_request \<Rightarrow> gw_request option" where
  "rewriteRelayURL r =
    (let originalURL = trim_space (header_Get ''X-Themisto-Original-URL'' (gq_Header r)) in
     if originalURL = [] then Some r
     else case url_parse originalURL of
       None \<Rightarrow> None
     | Some parsed \<Rightarrow>
        (let originalHost = trim_space (header_Get ''X-Themisto-Original-Host'' (gq_Header r)) in
         if ur_Host parsed = [] \<and> originalHost = [] then None
         else
           let u1 = (if ur_Host parsed = [] then parsed\<lparr>ur_Host := originalHost\<rparr> else parsed);
               u2 = (if ur_Scheme u1 = [] then u1\<lparr>ur_Scheme := ''http''\<rparr> else u1);
               u3 = (if ur_Path u2 = [] then u2\<lparr>ur_Path := ''/''\<rparr> else u2)
           in Some (r\<lparr>gq_URL := u3, gq_Host := ur_Host u3\<rparr>)))"

definition port_of :: "string \<Rightarrow> int option" where
  "port_of host = (let p = snd (cut_at (CHR '':'') host) in if p \<noteq> [] then atoi p else None)"

definition extractPort :: "gw_request \<Rightarrow> int" where
  "extractPort r =
    (let host = (if gq_Host r = [] then ur_Host (gq_URL r) else gq_Host r) in
     case port_of host of
       Some p \<Rightarrow> p
     | None \<Rightarrow> if gq_Method r = ''CONNECT'' then 443
               else if ur_Scheme (gq_URL r) = ''https'' then 443 else 80)"

definition extractURLPort :: "go_url \<Rightarrow> int" where
  "extractURLPort u =
    (case port_of (ur_Host u) of
       Some p \<Rightarrow> p | None \<Rightarrow> if ur_Scheme u = ''https'' then 443 else 80)"

definition canonicalHost :: "string \<Rightarrow> string" where
  "canonicalHost raw0 =
    (let raw = trim_space raw0 in
     if raw = [] then raw
     else case split_host_port raw of
       Some (host, _) \<Rightarrow> host
     | None \<Rightarrow>
        if 1 < count_char (CHR '':'') raw
        then trim_right (\<lambda>c. c \<in> set ''[]'') (trim_left (\<lambda>c. c \<in> set ''[]'') raw) else raw)"

definition normalizePolicyDecision :: "string \<Rightarrow> string option" where
  "normalizePolicyDecision raw =
    (if canon raw \<in> {''allow'', ''forward'', ''bypass''} then Some ''allow''
     else if canon raw \<in> {''block'', ''deny''} then Some ''block''
     else if canon raw \<in> {''log_only'', ''log-only'', ''logonly'', ''alert''} then Some ''log_only''
     else None)"

definition sanitizedRuleID :: "string \<Rightarrow> string option" where
  "sanitizedRuleID raw = (let r = trim_space raw in if r = [] \<or> \<not> isUUID r then None else Some r)"

definition sanitizedRuleIDPtr :: "string option \<Rightarrow> string option" where
  "sanitizedRuleIDPtr ruleID = (case ruleID of None \<Rightarrow> None | Some i \<Rightarrow> sanitizedRuleID i)"

definition trimmed_header :: "string \<Rightarrow> gw_request \<Rightarrow> string option" where
  "trimmed_header k r = (let v = trim_space (header_Get k (gq_Header r)) in if v \<noteq> [] then Some v else None)"

definition emitEvent :: "time \<Rightarrow> string \<Rightarrow> string \<Rightarrow> gw_request \<Rightarrow> int \<Rightarrow> duration \<Rightarrow> int \<Rightarrow> string \<Rightarrow> string option \<Rightarrow> buffer_op" where
  "emitEvent now deviceID orgID r status latency bytesSent dec ruleID = OpEmit
    \<lparr>te_Timestamp = now, te_DeviceID = deviceID, te_OrgID = orgID, te_RequestMethod = gq_Method r,
     te_RequestHost = canonicalHost (gq_Host r), te_RequestPath = [], te_RequestPort = extractPort r,
     te_ResponseStatus = status, te_LatencyMs = latency div 1000000, te_BytesSent = bytesSent,
     te_BytesReceived = gq_ContentLength r, te_PolicyDecision = dec, te_MatchedRuleID = sanitizedRuleIDPtr ruleID,
     te_PolicyVersion = None, te_AgentVersion = None, te_ProtocolVersion = None,
     te_SourceApp = trimmed_header ''X-Themisto-Process-Name'' r, te_OS = None,
     te_ServiceCategory = trimmed_header ''X-Themisto-Service-Category'' r,
     te_AIVendor = trimmed_header ''X-Themisto-AI-Vendor'' r, te_CaptureSurface = None\<rparr>"

section \<open>Agent status events\<close>

definition agent_status_names :: "string list" where
  "agent_status_names = [''agent.started'', ''agent.stopped'', ''agent.heartbeat'', ''agent.integrity_error'',
     ''proxy.tamper_detected'', ''proxy.listener_unreachable'', ''proxy.remediated'']"

definition isAgentStatusEvent :: "string \<Rightarrow> bool" where
  "isAgentStatusEvent name = (name \<in> set agent_status_names)"

definition agentStatusSeverity :: "string \<Rightarrow> godata \<Rightarrow> string" where
  "agentStatusSeverity name dat =
    (if name = ''proxy.tamper_detected'' \<or> name = ''proxy.listener_unreachable'' then ''critical''
     else if name = ''agent.integrity_error'' then ''warning''
     else if name = ''agent.heartbeat'' \<and> asBool (field dat ''gateway_connected'') = Some False then ''warning''
     else if name = ''agent.heartbeat'' \<and> asString (field dat ''proxy_integrity'') \<notin> {None, Some ''ok''} then ''warning''
     else ''info'')"

definition allowedSurfaceStateKey :: "string \<Rightarrow> bool" where
  "allowedSurfaceStateKey s = (s \<in> set [''browser_chromium'', ''browser_firefox'', ''browser_safari'', ''desktop'',
     ''claude_code'', ''cursor'', ''windsurf'', ''github_copilot''])"

definition allowedSurfaceStateValue :: "string \<Rightarrow> bool" where
  "allowedSurfaceStateValue s = (s \<in> set [''hard_block'', ''alert_only'', ''would_block'', ''monitor_only'', ''unprotected'', ''unknown''])"

text \<open>A decoded body never holds a typed map of strings, so that case of the switch does not arise.\<close>

definition sanitizeSurfaceStates :: "goval \<Rightarrow> godata option" where
  "sanitizeSurfaceStates raw =
    (case raw of
       VMap m \<Rightarrow>
        (let out = filter (\<lambda>(k, v). allowedSurfaceStateKey k \<and>
               (case asString v of Some s \<Rightarrow> allowedSurfaceStateValue s | None \<Rightarrow> False)) m in
         if out \<noteq> [] then Some out else None)
     | _ \<Rightarrow> None)"

definition allowed_status_keys :: "string list" where
  "allowed_status_keys = [''agent_version'', ''protocol_version'', ''policy_version'', ''uptime_seconds'',
     ''gateway_connected'', ''proxy_listener_alive'', ''proxy_integrity'', ''prompt_capture'', ''semantic_classifier'',
     ''browser_protection'', ''service_status'', ''auto_reregister'', ''hostname'', ''host'', ''port'', ''remediation'',
     ''policy_fresh'', ''classifier_required'', ''classifier_healthy'', ''prompt_enforcement_mode'',
     ''effective_prompt_enforcement_mode'', ''protection_state'']"

definition sanitize_status_field :: "string \<times> goval \<Rightarrow> (string \<times> goval) option" where
  "sanitize_status_field kv =
    (if fst kv = ''surface_states'' then
       (case sanitizeSurfaceStates (snd kv) of Some m \<Rightarrow> Some (fst kv, VMap m) | None \<Rightarrow> None)
     else if fst kv \<in> set allowed_status_keys then Some kv else None)"

definition sanitizedAgentStatusData :: "godata option \<Rightarrow> godata" where
  "sanitizedAgentStatusData dat = (case dat of None \<Rightarrow> [] | Some kvs \<Rightarrow> List.map_filter sanitize_status_field kvs)"

section \<open>Content-bearing fields\<close>

definition forbiddenCentralTelemetryKeys :: "string list" where
  "forbiddenCentralTelemetryKeys = [''path'', ''prompt'', ''prompt_text'', ''request_body'', ''response_body'', ''file'',
     ''files'', ''file_path'', ''local_path'', ''matched_patterns'', ''matched_fields'', ''matched_excerpts'',
     ''mcp_payload'', ''mcp_arguments'', ''credentials'', ''api_key'', ''access_token'', ''command_arguments'',
     ''repository_contents'', ''reason_detail'', ''semantic_reason'']"

definition forbidden_key :: "string \<Rightarrow> bool" where
  "forbidden_key k = (canon k \<in> set forbiddenCentralTelemetryKeys)"

text \<open>
  The nested inspection: objects below an object, and objects in a list below an object. Which
  forbidden key is reported depends on the order of the map; only that there is one matters.
\<close>

fun inspect_object :: "goval \<Rightarrow> bool" and inspect_field :: "goval \<Rightarrow> bool" where
  "inspect_object (VMap kvs) = list_ex (\<lambda>(k, v). forbidden_key k \<or> inspect_field v) kvs"
| "inspect_object _ = False"
| "inspect_field (VMap kvs) = inspect_object (VMap kvs)"
| "inspect_field (VList xs) = list_ex inspect_object xs"
| "inspect_field _ = False"

definition forbiddenCentralTelemetryField :: "godata \<Rightarrow> bool" where
  "forbiddenCentralTelemetryField dat = inspect_object (VMap dat)"

section \<open>Endpoint AI activity\<close>

datatype decode_error = FieldNotPermitted | FieldInvalid string | OriginNotEndpoint | EvidenceNotObserved
  | ReconciliationNotApplicable | CountInvalid | ApplicationInvalid | IdentifierUnsafe

text \<open>The two allowlists of activity fields, on the agent and here, have the same entries.\<close>

definition aiActivityAllowedFields :: "string list" where
  "aiActivityAllowedFields = [''vendor_key'', ''product_key'', ''surface'', ''activity_kind'', ''observed_at'',
     ''source_application'', ''model_identifier'', ''project_identifier'', ''opaque_session_hash'', ''count'',
     ''origin_kind'', ''source_evidence_level'', ''reconciliation_status'', ''evidence_level'',
     ''source_identifier'', ''source_key'', ''freshness_at'', ''scope'']"

definition aiActivitySafeIdentifier :: "string \<Rightarrow> bool" where
  "aiActivitySafeIdentifier s =
    (s \<noteq> [] \<and> (is_alpha (hd s) \<or> is_digit (hd s)) \<and> length s \<le> 255 \<and>
     list_all (\<lambda>c. is_alpha c \<or> is_digit c \<or> c \<in> set ''._:@/-'') (tl s))"

definition required :: "godata \<Rightarrow> string \<Rightarrow> decode_error + string" where
  "required dat key =
    (case asString (field dat key) of
       None \<Rightarrow> Inl (FieldInvalid key)
     | Some raw \<Rightarrow>
        (let v = trim_space raw in
         if v = [] \<or> \<not> aiActivitySafeIdentifier v then Inl (FieldInvalid key) else Inr v))"

definition parseActivityTime :: "(string \<Rightarrow> time option) \<Rightarrow> time \<Rightarrow> goval \<Rightarrow> time \<Rightarrow> time" where
  "parseActivityTime parse now raw fallback =
    (case parse (case asString raw of Some s \<Rightarrow> s | None \<Rightarrow> []) of
       Some t \<Rightarrow> t
     | None \<Rightarrow> if fallback = 0 then now else fallback)"

definition check :: "bool \<Rightarrow> 'e \<Rightarrow> 'e + unit" where
  "check ok err = (if ok then Inr () else Inl err)"

definition bind_sum :: "'e + 'a \<Rightarrow> ('a \<Rightarrow> 'e + 'b) \<Rightarrow> 'e + 'b" where
  "bind_sum m f = (case m of Inl e \<Rightarrow> Inl e | Inr x \<Rightarrow> f x)"

definition decodeAIActivity :: "(string \<Rightarrow> time option) \<Rightarrow> time \<Rightarrow> godata \<Rightarrow> time \<Rightarrow> string \<Rightarrow> string \<Rightarrow>
    decode_error + ai_activity_event" where
  "decodeAIActivity parse now dat envelopeTime deviceID orgID =
    bind_sum (check (list_all (\<lambda>(k, _). k \<in> set aiActivityAllowedFields) dat) FieldNotPermitted) (\<lambda>_.
    bind_sum (required dat ''vendor_key'') (\<lambda>vendor.
    bind_sum (required dat ''product_key'') (\<lambda>product.
    bind_sum (required dat ''surface'') (\<lambda>surface.
    bind_sum (required dat ''activity_kind'') (\<lambda>kind.
    bind_sum (required dat ''source_key'') (\<lambda>sourceKey.
    bind_sum (check (str_field dat ''origin_kind'' = ''endpoint'') OriginNotEndpoint) (\<lambda>_.
    bind_sum (check (str_field dat ''source_evidence_level'' = ''observed'') EvidenceNotObserved) (\<lambda>_.
    bind_sum (check (str_field dat ''evidence_level'' = ''observed'') EvidenceNotObserved) (\<lambda>_.
    bind_sum (check (str_field dat ''reconciliation_status'' = ''not_applicable'') ReconciliationNotApplicable) (\<lambda>_.
    bind_sum (case asInt64 (field dat ''count'') of
        Some n \<Rightarrow> if n < 1 \<or> 1000000 < n then Inl CountInvalid else Inr n
      | None \<Rightarrow> Inl CountInvalid) (\<lambda>cnt.
    let observedAt = parseActivityTime parse now (field dat ''observed_at'') envelopeTime;
        freshnessAt = parseActivityTime parse now (field dat ''freshness_at'') observedAt;
        app = str_field dat ''source_application'';
        model = str_field dat ''model_identifier'';
        project = str_field dat ''project_identifier'';
        sessionHash = str_field dat ''opaque_session_hash'' in
    bind_sum (check (\<not> has_separator app \<and> length app \<le> 128) ApplicationInvalid) (\<lambda>_.
    bind_sum (check (list_all (\<lambda>v. v = [] \<or> aiActivitySafeIdentifier v) [model, project, sessionHash]) IdentifierUnsafe) (\<lambda>_.
    Inr \<lparr>av_Timestamp = observedAt, av_DeviceID = deviceID, av_OrgID = orgID, av_VendorKey = to_lower vendor,
      av_ProductKey = to_lower product, av_Surface = to_lower surface, av_ActivityKind = to_lower kind,
      av_SourceApplication = app, av_ModelIdentifier = model, av_ProjectIdentifier = project,
      av_OpaqueSessionHash = sessionHash, av_Count = cnt, av_SourceKey = sourceKey, av_FreshnessAt = freshnessAt\<rparr>)))))))))))))"

section \<open>Telemetry posts\<close>

record posted_event =
  po_Name :: string
  po_Data :: "godata option"
  po_Timestamp :: time

definition or_now :: "time \<Rightarrow> time \<Rightarrow> time" where
  "or_now now t = (if t = 0 then now else t)"

definition or_else :: "string \<Rightarrow> string \<Rightarrow> string" where
  "or_else s d = (if trim_space s = [] then d else s)"

definition action_taken :: "godata \<Rightarrow> string" where
  "action_taken dat =
    (case asString (field dat ''action_taken'') of
       Some v \<Rightarrow> if to_lower v \<in> set [''alert'', ''block'', ''redact''] then to_lower v else ''alert''
     | None \<Rightarrow> ''alert'')"

definition dlp_op :: "time \<Rightarrow> string \<Rightarrow> string \<Rightarrow> time \<Rightarrow> godata \<Rightarrow> buffer_op option" where
  "dlp_op now deviceID orgID ts dat =
    (if forbiddenCentralTelemetryField dat then None
     else if str_field dat ''host'' = [] \<or> str_field dat ''method'' = [] then None
     else Some (OpEmitDLP
       \<lparr>dv_Timestamp = or_now now ts, dv_DeviceID = deviceID, dv_OrgID = orgID,
        dv_RequestID = str_field dat ''request_id'', dv_RequestHost = str_field dat ''host'', dv_RequestPath = [],
        dv_RequestMethod = str_field dat ''method'', dv_SourceApp = str_field dat ''source_app'',
        dv_ServiceCategory = str_field dat ''service_category'', dv_AIVendor = str_field dat ''ai_vendor'',
        dv_MatchTypes = string_items (field dat ''match_types''), dv_MatchedPatterns = [], dv_MatchedFields = [],
        dv_MatchCount = int_field dat ''match_count'',
        dv_Severity = (let s = canon (str_field dat ''severity'') in
          if s \<in> set [''critical'', ''high'', ''medium'', ''low''] then s else ''low''),
        dv_ClassificationReason = trim_space (str_field dat ''classification_reason''),
        dv_ContentType = trim_space (str_field dat ''content_type''), dv_FileCount = int_field dat ''file_count'',
        dv_ActionTaken = action_taken dat, dv_PolicyRuleID = str_field dat ''policy_rule_id'',
        dv_ReasonCode = str_field dat ''reason_code'', dv_ReasonDetail = [],
        dv_SemanticSource = trim_space (str_field dat ''semantic_source''),
        dv_SemanticCategory = trim_space (str_field dat ''semantic_category''),
        dv_SemanticConfidence = (case asFloat64 (field dat ''semantic_confidence'') of Some x \<Rightarrow> x | None \<Rightarrow> 0),
        dv_SemanticAmbiguous = (asBool (field dat ''semantic_ambiguous'') = Some True), dv_SemanticReason = [],
        dv_Protocol = or_else (canon (str_field dat ''protocol'')) ''http'',
        dv_InterceptedHTTPS = (asBool (field dat ''intercepted_https'') = Some True),
        dv_InspectionQuality = or_else (canon (str_field dat ''inspection_quality'')) ''full'',
        dv_InspectionSkipReason = trim_space (str_field dat ''inspection_skip_reason''),
        dv_Direction = or_else (canon (str_field dat ''direction'')) ''outbound'',
        dv_RequestBody = [], dv_RequestBodyTruncated = False\<rparr>))"

definition request_op :: "time \<Rightarrow> string \<Rightarrow> string \<Rightarrow> time \<Rightarrow> godata \<Rightarrow> buffer_op option" where
  "request_op now deviceID orgID ts dat =
    (if forbiddenCentralTelemetryField dat then None
     else if str_field dat ''method'' = [] \<or> str_field dat ''host'' = [] then None
     else case asString (field dat ''decision'') of
       None \<Rightarrow> None
     | Some raw \<Rightarrow>
        (case normalizePolicyDecision raw of
           None \<Rightarrow> None
         | Some dec \<Rightarrow> Some (OpEmit
            \<lparr>te_Timestamp = or_now now ts, te_DeviceID = deviceID, te_OrgID = orgID,
             te_RequestMethod = str_field dat ''method'', te_RequestHost = str_field dat ''host'', te_RequestPath = [],
             te_RequestPort = int_field dat ''port'', te_ResponseStatus = int_field dat ''status'',
             te_LatencyMs = int_field dat ''latency_ms'',
             te_BytesSent = (case asInt64 (field dat ''bytes_sent'') of Some n \<Rightarrow> n | None \<Rightarrow> 0),
             te_BytesReceived = (case asInt64 (field dat ''bytes_received'') of Some n \<Rightarrow> n | None \<Rightarrow> 0),
             te_PolicyDecision = dec,
             te_MatchedRuleID = (if str_field dat ''rule_id'' \<noteq> [] then sanitizedRuleID (str_field dat ''rule_id'') else None),
             te_PolicyVersion = ptr_field dat ''policy_version'', te_AgentVersion = ptr_field dat ''agent_version'',
             te_ProtocolVersion = ptr_field dat ''protocol_version'', te_SourceApp = ptr_field dat ''source_app'',
             te_OS = ptr_field dat ''os'', te_ServiceCategory = ptr_field dat ''service_category'',
             te_AIVendor = ptr_field dat ''ai_vendor'', te_CaptureSurface = ptr_field dat ''capture_surface''\<rparr>)))"

definition event_op :: "(string \<Rightarrow> time option) \<Rightarrow> time \<Rightarrow> string \<Rightarrow> string \<Rightarrow> posted_event \<Rightarrow> buffer_op option" where
  "event_op parse now deviceID orgID e =
    (let dat = (case po_Data e of Some d \<Rightarrow> d | None \<Rightarrow> []) in
     if isAgentStatusEvent (po_Name e) then Some (OpEmitStatus
       \<lparr>sv_Timestamp = or_now now (po_Timestamp e), sv_DeviceID = deviceID, sv_OrgID = orgID, sv_EventType = po_Name e,
        sv_Severity = agentStatusSeverity (po_Name e) dat, sv_Data = sanitizedAgentStatusData (po_Data e)\<rparr>)
     else if po_Name e = ''ai.activity.v1'' then
       (case decodeAIActivity parse now dat (po_Timestamp e) deviceID orgID of
          Inl err \<Rightarrow> None | Inr a \<Rightarrow> Some (OpEmitActivity a))
     else if po_Name e \<noteq> ''proxy.request'' \<and> po_Name e \<noteq> ''dlp.match'' then None
     else if po_Data e = None then None
     else if po_Name e = ''dlp.match'' then dlp_op now deviceID orgID (po_Timestamp e) dat
     else request_op now deviceID orgID (po_Timestamp e) dat)"

text \<open>The batch is \<^term>\<open>None\<close> when the body does not decode.\<close>

definition handleTelemetry :: "(string \<Rightarrow> time option) \<Rightarrow> time \<Rightarrow> string \<Rightarrow> string \<Rightarrow> posted_event list option \<Rightarrow>
    http_response \<times> buffer_op list" where
  "handleTelemetry parse now deviceID orgID batch =
    (case batch of
       None \<Rightarrow> (http_error ''invalid batch'' 400, [])
     | Some events \<Rightarrow>
        (\<lparr>hr_StatusCode = 202, hr_Headers = [], hr_Body = []\<rparr>,
         List.map_filter (event_op parse now deviceID orgID) events))"

section \<open>The handler\<close>

text \<open>
  What the handler does on the connection, in order: it answers, or it hands the request to the
  forwarder, as a tunnel or as a request. The forwarder reports the status, the bytes sent and
  whether it failed. \<^verbatim>\<open>headersSent\<close> looks for a method that the server's writer does not have.
\<close>

datatype gw_action =
    Answered http_response
  | Tunnelled gw_request
  | Forwarded gw_request

record forwarder =
  fw_Tunnel :: "gw_request \<Rightarrow> int \<times> int \<times> bool"
  fw_Forward :: "gw_request \<Rightarrow> int \<times> int \<times> bool"

definition headersSent :: bool where
  "headersSent = False"

record gw_env =
  gv_verifier :: verifier_env
  gv_regexp :: "string \<Rightarrow> regexp option"
  gv_forwarder :: forwarder
  gv_parse :: "string \<Rightarrow> time option"
  gv_batch :: "posted_event list option"
  gv_now :: time
  gv_elapsed :: duration

definition client_identity :: "time \<Rightarrow> client_cert \<Rightarrow> certVerifier \<Rightarrow> string \<times> string" where
  "client_identity now cert v =
    (case LookupIdentity now (cc_Serial cert) v of
       Some (deviceID, orgID) \<Rightarrow> ContextWithVerifiedIdentity (ContextWithClientInfo cert) deviceID orgID
     | None \<Rightarrow> ContextWithClientInfo cert)"

definition serve_tunnel :: "gw_env \<Rightarrow> string \<Rightarrow> string \<Rightarrow> gw_decision \<Rightarrow> string option \<Rightarrow> gw_request \<Rightarrow> gw_action list \<times> buffer_op list" where
  "serve_tunnel env deviceID orgID dec ruleID r =
    (let (status0, bytesSent, failed) = fw_Tunnel (gv_forwarder env) r;
         status = (if failed \<and> status0 = 0 then 502 else status0) in
     (Tunnelled r # (if failed \<and> \<not> headersSent then [Answered (http_error ''upstream error'' status)] else []),
      [emitEvent (gv_now env) deviceID orgID r status (gv_elapsed env) bytesSent (gw_decision_string dec) ruleID]))"

definition with_target :: "gw_request \<Rightarrow> gw_request" where
  "with_target r =
    (let u1 = (if ur_Scheme (gq_URL r) = [] then (gq_URL r)\<lparr>ur_Scheme := ''https''\<rparr> else gq_URL r);
         u2 = (if ur_Host u1 = [] then u1\<lparr>ur_Host := gq_Host r\<rparr> else u1) in r\<lparr>gq_URL := u2\<rparr>)"

definition serve_forward :: "gw_env \<Rightarrow> string \<Rightarrow> string \<Rightarrow> gw_decision \<Rightarrow> string option \<Rightarrow> gw_request \<Rightarrow> gw_action list \<times> buffer_op list" where
  "serve_forward env deviceID orgID dec ruleID r0 =
    (let r = with_target r0;
         (status0, bytesSent, failed) = fw_Forward (gv_forwarder env) r;
         status = (if failed \<and> \<not> headersSent then 502 else status0) in
     (Forwarded r # (if failed \<and> \<not> headersSent then [Answered (http_error ''upstream error'' 502)] else []),
      [emitEvent (gv_now env) deviceID orgID r status (gv_elapsed env) bytesSent (gw_decision_string dec) ruleID]))"

definition serve_identified :: "gw_env \<Rightarrow> gw_engine \<Rightarrow> string \<Rightarrow> string \<Rightarrow> gw_request \<Rightarrow> gw_action list \<times> buffer_op list" where
  "serve_identified env e deviceID orgID r0 =
    (if ur_Path (gq_URL r0) = ''/telemetry'' \<and> gq_Method r0 = ''POST'' then
       (let (resp, ops) = handleTelemetry (gv_parse env) (gv_now env) deviceID orgID (gv_batch env) in ([Answered resp], ops))
     else case rewriteRelayURL r0 of
       None \<Rightarrow> ([Answered (http_error ''invalid relay target'' 400)], [])
     | Some r \<Rightarrow>
        (case gw_Evaluate (gv_regexp env) e orgID (gq_Host r) (ur_Path (gq_URL r)) (gq_Method r) of
           (dec, ruleID) \<Rightarrow>
             if dec = Block then
               ([Answered (http_error ''blocked by policy'' 403)],
                [emitEvent (gv_now env) deviceID orgID r 403 (gv_elapsed env) 0 (gw_decision_string dec) ruleID])
             else if gq_Method r = ''CONNECT'' then serve_tunnel env deviceID orgID dec ruleID r
             else serve_forward env deviceID orgID dec ruleID r))"

definition proxy_ServeHTTP :: "gw_env \<Rightarrow> gw_engine \<Rightarrow> client_cert option \<Rightarrow> gw_request \<Rightarrow> certVerifier \<Rightarrow>
    (gw_action list \<times> buffer_op list) \<times> certVerifier" where
  "proxy_ServeHTTP env e peer r v =
    (case peer of
       None \<Rightarrow> (([Answered (http_error ''client certificate required'' 403)], []), v)
     | Some cert \<Rightarrow>
        (case IsRevoked (gv_verifier env) (gv_now env) (cc_Serial cert) v of
           ((revoked, err), v') \<Rightarrow>
             if revoked then (([Answered (http_error ''certificate revoked'' 403)], []), v')
             else (case client_identity (gv_now env) cert v' of
               (deviceID, orgID) \<Rightarrow> (serve_identified env e deviceID orgID r, v'))))"

section \<open>Lemmas: content-bearing fields\<close>

text \<open>The keys the inspection is meant to reach, and that it reaches them.\<close>

inductive key_occurs :: "goval \<Rightarrow> string \<Rightarrow> bool" where
  here: "(k, v) \<in> set kvs \<Longrightarrow> key_occurs (VMap kvs) k"
| below: "(k, VMap m) \<in> set kvs \<Longrightarrow> key_occurs (VMap m) k' \<Longrightarrow> key_occurs (VMap kvs) k'"
| listed: "(k, VList xs) \<in> set kvs \<Longrightarrow> x \<in> set xs \<Longrightarrow> key_occurs x k' \<Longrightarrow> key_occurs (VMap kvs) k'"

definition forbidden_below :: "goval \<Rightarrow> bool" where
  "forbidden_below v \<longleftrightarrow> (\<exists>k. key_occurs v k \<and> forbidden_key k)"

lemma key_occurs_object: "key_occurs v k \<Longrightarrow> \<exists>m. v = VMap m"
  by (erule key_occurs.cases) auto

lemma inspect_objectI: "(k, v) \<in> set kvs \<Longrightarrow> forbidden_key k \<or> inspect_field v \<Longrightarrow> inspect_object (VMap kvs)"
  by (auto simp: list_ex_iff)

lemma inspect_finds:
  "inspect_object v \<Longrightarrow> forbidden_below v"
  "inspect_field v \<Longrightarrow> forbidden_below v \<or> (\<exists>xs x. v = VList xs \<and> x \<in> set xs \<and> forbidden_below x)"
proof (induction v and v rule: inspect_object_inspect_field.induct)
  case (1 kvs)
  then obtain k v where kv: "(k, v) \<in> set kvs" "forbidden_key k \<or> inspect_field v"
    by (auto simp: list_ex_iff)
  show ?case
  proof (cases "forbidden_key k")
    case True
    then show ?thesis using kv(1) key_occurs.here by (auto simp: forbidden_below_def)
  next
    case False
    with kv consider "forbidden_below v" | xs x where "v = VList xs" "x \<in> set xs" "forbidden_below x"
      using 1 by blast
    then show ?thesis
      by cases (use kv(1) key_occurs_object key_occurs.below key_occurs.listed in \<open>unfold forbidden_below_def, blast+\<close>)
  qed
qed (auto simp: list_ex_iff)

lemma inspect_complete: "key_occurs v k \<Longrightarrow> forbidden_key k \<Longrightarrow> inspect_object v"
proof (induction rule: key_occurs.induct)
  case (here k v kvs)
  then show ?case by (blast intro: inspect_objectI)
next
  case (below k m kvs k')
  then have "inspect_field (VMap m)" by (simp only: inspect_field.simps)
  then show ?case using below.hyps(1) by (blast intro: inspect_objectI)
next
  case (listed k xs kvs x k')
  then have "inspect_field (VList xs)" by (auto simp: list_ex_iff)
  then show ?case using listed.hyps(1) by (blast intro: inspect_objectI)
qed

lemma forbidden_field_iff: "forbiddenCentralTelemetryField dat \<longleftrightarrow> (\<exists>k. key_occurs (VMap dat) k \<and> forbidden_key k)"
  using inspect_finds(1)[of "VMap dat"] inspect_complete[of "VMap dat"]
  unfolding forbiddenCentralTelemetryField_def forbidden_below_def by blast

lemma sanitized_keys:
  "(k, v) \<in> set (sanitizedAgentStatusData dat) \<Longrightarrow> k \<in> insert ''surface_states'' (set allowed_status_keys)"
  by (auto simp: sanitizedAgentStatusData_def sanitize_status_field_def List.map_filter_def split: option.splits if_splits)

section \<open>Lemmas: what is stored\<close>

text \<open>What the database is allowed to hold about a device, whatever the device posts.\<close>

fun content_free :: "string \<Rightarrow> string \<Rightarrow> buffer_op \<Rightarrow> bool" where
  "content_free dev org (OpEmit e) \<longleftrightarrow> te_DeviceID e = dev \<and> te_OrgID e = org \<and> te_RequestPath e = [] \<and>
     te_PolicyDecision e \<in> {''allow'', ''block'', ''log_only''} \<and>
     (case te_MatchedRuleID e of None \<Rightarrow> True | Some i \<Rightarrow> isUUID i)"
| "content_free dev org (OpEmitDLP e) \<longleftrightarrow> dv_DeviceID e = dev \<and> dv_OrgID e = org \<and> dv_RequestPath e = [] \<and>
     dv_RequestBody e = [] \<and> dv_MatchedPatterns e = [] \<and> dv_MatchedFields e = [] \<and> dv_ReasonDetail e = [] \<and>
     dv_SemanticReason e = [] \<and> dv_Severity e \<in> {''critical'', ''high'', ''medium'', ''low''} \<and>
     dv_ActionTaken e \<in> {''alert'', ''block'', ''redact''}"
| "content_free dev org (OpEmitStatus e) \<longleftrightarrow> sv_DeviceID e = dev \<and> sv_OrgID e = org \<and>
     list_all (\<lambda>(k, _). k = ''surface_states'' \<or> k \<in> set allowed_status_keys) (sv_Data e)"
| "content_free dev org (OpEmitActivity e) \<longleftrightarrow> av_DeviceID e = dev \<and> av_OrgID e = org \<and>
     1 \<le> av_Count e \<and> av_Count e \<le> 1000000 \<and> \<not> has_separator (av_SourceApplication e) \<and>
     length (av_SourceApplication e) \<le> 128"
| "content_free dev org _ \<longleftrightarrow> False"

lemma sanitizedRuleID_uuid: "sanitizedRuleID raw = Some i \<Longrightarrow> isUUID i"
  by (auto simp: sanitizedRuleID_def Let_def split: if_splits)

lemma normalized_decision: "normalizePolicyDecision raw = Some d \<Longrightarrow> d \<in> {''allow'', ''block'', ''log_only''}"
  unfolding normalizePolicyDecision_def by (simp only: option.inject if_split_eq1 split: if_splits) auto

lemma request_op_content_free: "request_op now dev org ts dat = Some oper \<Longrightarrow> content_free dev org oper"
  using sanitizedRuleID_uuid normalized_decision
  by (auto simp: request_op_def split: option.splits if_splits)

lemma action_taken_range: "action_taken dat \<in> {''alert'', ''block'', ''redact''}"
  unfolding action_taken_def by (simp add: if_mem split: option.split)

lemma dlp_op_content_free: "dlp_op now dev org ts dat = Some oper \<Longrightarrow> content_free dev org oper"
  using action_taken_range[of dat]
  by (simp only: dlp_op_def option.inject Let_def split: if_splits) auto

lemma bind_sum_Inr: "bind_sum m f = Inr y \<longleftrightarrow> (\<exists>x. m = Inr x \<and> f x = Inr y)"
  by (cases m) (simp_all add: bind_sum_def)

lemma check_Inr: "check ok err = Inr u \<longleftrightarrow> ok"
  by (simp add: check_def)

lemma count_Inr:
  "(case c of Some n \<Rightarrow> if n < 1 \<or> 1000000 < n then Inl e else Inr n | None \<Rightarrow> Inl e) = Inr m \<longleftrightarrow>
     c = Some m \<and> 1 \<le> m \<and> m \<le> (1000000::int)"
  by (cases c) auto

lemma decode_bounds:
  assumes "decodeAIActivity parse now dat t dev org = Inr a"
  shows "content_free dev org (OpEmitActivity a)"
  using assms unfolding decodeAIActivity_def Let_def bind_sum_Inr check_Inr count_Inr
  by (elim exE conjE) (simp add: eq_commute[of _ a])

lemma event_op_content_free:
  assumes "event_op parse now dev org e = Some oper"
  shows "content_free dev org oper"
proof -
  have status: "list_all (\<lambda>(k, _). k = ''surface_states'' \<or> k \<in> set allowed_status_keys) (sanitizedAgentStatusData dat)" for dat
    unfolding list_all_iff using sanitized_keys[of _ _ dat] by blast
  show ?thesis
    using assms status[of "po_Data e"] decode_bounds request_op_content_free dlp_op_content_free
    unfolding event_op_def Let_def
    by (simp only: split: if_splits sum.splits) (auto simp only: option.inject content_free.simps agent_status_event.simps simp_thms)
qed

section \<open>Lemmas: activity over the wire\<close>

text \<open>\<^verbatim>\<open>encoding/json\<close> between agent and gateway: times travel as text, numbers arrive as floats.\<close>

fun wire_value :: "(time \<Rightarrow> string) \<Rightarrow> goval \<Rightarrow> goval" where
  "wire_value fmt (VTime t) = VString (fmt t)"
| "wire_value fmt (VInt n) = VFloat (of_int n)"
| "wire_value fmt v = v"

definition wire_data :: "(time \<Rightarrow> string) \<Rightarrow> godata \<Rightarrow> godata" where
  "wire_data fmt dat = map (\<lambda>(k, v). (k, wire_value fmt v)) dat"

lemma wire_opt_field: "wire_data fmt (opt_field k v) = opt_field k v"
  by (simp add: wire_data_def opt_field_def)

lemma safe_same: "aiActivitySafeIdentifier = safeIdentifier"
  by (simp add: fun_eq_iff aiActivitySafeIdentifier_def safeIdentifier_def)

lemma safe_trim:
  assumes "safeIdentifier s"
  shows "trim_space s = s"
proof (rule trim_space_plain)
  have not_space: "\<not> is_space c" if "is_alpha c \<or> is_digit c \<or> c \<in> set ''._:@/-''" for c
    using that by (auto simp: is_space_def is_alpha_def is_digit_def is_lower_def)
  then show "list_all (\<lambda>c. \<not> is_space c) s"
    using assms by (cases s) (auto simp: safeIdentifier_def list_all_iff)
qed

lemma required_safe: "field dat k = VString v \<Longrightarrow> safeIdentifier v \<Longrightarrow> required dat k = Inr v"
  by (simp add: required_def safe_same safe_trim Let_def) (auto simp: safeIdentifier_def)

lemma wire_fields:
  defines "w \<equiv> (\<lambda>fmt e. wire_data fmt (activity_Data e))"
  shows "field (w fmt e) ''vendor_key'' = VString (ae_VendorKey e)"
    "field (w fmt e) ''product_key'' = VString (ae_ProductKey e)"
    "field (w fmt e) ''surface'' = VString (ae_Surface e)"
    "field (w fmt e) ''activity_kind'' = VString (ae_ActivityKind e)"
    "field (w fmt e) ''source_key'' = VString (ae_SourceKey e)"
    "field (w fmt e) ''observed_at'' = VString (fmt (ae_ObservedAt e))"
    "field (w fmt e) ''freshness_at'' = VString (fmt (ae_FreshnessAt e))"
    "field (w fmt e) ''count'' = VFloat (of_int (ae_Count e))"
    "str_field (w fmt e) ''origin_kind'' = ae_OriginKind e"
    "str_field (w fmt e) ''source_evidence_level'' = ae_SourceEvidenceLevel e"
    "str_field (w fmt e) ''evidence_level'' = ae_EvidenceLevel e"
    "str_field (w fmt e) ''reconciliation_status'' = ae_ReconciliationStatus e"
    "str_field (w fmt e) ''source_application'' = ae_SourceApplication e"
    "str_field (w fmt e) ''model_identifier'' = ae_ModelIdentifier e"
    "str_field (w fmt e) ''project_identifier'' = ae_ProjectIdentifier e"
    "str_field (w fmt e) ''opaque_session_hash'' = ae_OpaqueSessionHash e"
  by (simp_all add: w_def wire_data_def activity_Data_def field_def str_field_def opt_field_def)

lemma wire_keys: "list_all (\<lambda>(k, _). k \<in> set aiActivityAllowedFields) (wire_data fmt (activity_Data e))"
proof -
  have "aiActivityAllowedFields = allowedPayloadFields"
    by (simp only: aiActivityAllowedFields_def allowedPayloadFields_def)
  then show ?thesis
    using activity_Data_keys[of e] by (auto simp: ValidatePayloadKeys_def wire_data_def list_all_iff)
qed

section \<open>Lemmas: the handler\<close>

definition leaves :: "gw_action \<Rightarrow> bool" where
  "leaves a \<longleftrightarrow> (\<exists>r. a = Tunnelled r \<or> a = Forwarded r)"

lemma leaves_simps [simp]: "\<not> leaves (Answered resp)" "leaves (Tunnelled r)" "leaves (Forwarded r)"
  by (simp_all add: leaves_def)

lemma relay_host:
  "rewriteRelayURL r = Some r' \<Longrightarrow> gq_Method r' = gq_Method r \<and> (r' = r \<or> gq_Host r' = ur_Host (gq_URL r') \<and> gq_Host r' \<noteq> [])"
  by (auto simp: rewriteRelayURL_def Let_def split: option.splits if_splits)

text \<open>A request the server has read: its host is the one of its URL, or the URL has none.\<close>

definition well_addressed :: "gw_request \<Rightarrow> bool" where
  "well_addressed r \<longleftrightarrow> ur_Host (gq_URL r) = [] \<or> ur_Host (gq_URL r) = gq_Host r"

lemma relay_well_addressed: "rewriteRelayURL r = Some r' \<Longrightarrow> well_addressed r \<Longrightarrow> well_addressed r'"
  using relay_host[of r r'] by (auto simp: well_addressed_def)

lemma target_addressed: "well_addressed r \<Longrightarrow> ur_Host (gq_URL (with_target r)) = gq_Host r \<and>
    gq_Host (with_target r) = gq_Host r \<and> ur_Path (gq_URL (with_target r)) = ur_Path (gq_URL r) \<and>
    gq_Method (with_target r) = gq_Method r"
  by (auto simp: with_target_def well_addressed_def Let_def)

lemma serve_tunnel_leaves: "filter leaves (fst (serve_tunnel env dev org dec i r)) = [Tunnelled r]"
  by (auto simp: serve_tunnel_def Let_def split: prod.splits)

lemma serve_forward_leaves: "filter leaves (fst (serve_forward env dev org dec i r)) = [Forwarded (with_target r)]"
  by (auto simp: serve_forward_def Let_def split: prod.splits)

text \<open>The one place a request leaves the gateway, with what was decided before.\<close>

lemma identified_leaves:
  assumes "a \<in> set (fst (serve_identified env e dev org r0))" and "leaves a"
  obtains r where "rewriteRelayURL r0 = Some r"
    and "fst (gw_Evaluate (gv_regexp env) e org (gq_Host r) (ur_Path (gq_URL r)) (gq_Method r)) \<noteq> Block"
    and "a = (if gq_Method r = ''CONNECT'' then Tunnelled r else Forwarded (with_target r))"
proof (cases "ur_Path (gq_URL r0) = ''/telemetry'' \<and> gq_Method r0 = ''POST''")
  case True
  then have "fst (serve_identified env e dev org r0) =
      [Answered (fst (handleTelemetry (gv_parse env) (gv_now env) dev org (gv_batch env)))]"
    by (simp add: serve_identified_def case_prod_beta)
  then show ?thesis using assms by simp
next
  case False
  show ?thesis
  proof (cases "rewriteRelayURL r0")
    case None
    then show ?thesis using assms False unfolding serve_identified_def by (simp only: if_False option.case fst_conv) simp
  next
    case (Some r)
    obtain dec i where ev: "gw_Evaluate (gv_regexp env) e org (gq_Host r) (ur_Path (gq_URL r)) (gq_Method r) = (dec, i)"
      by (cases "gw_Evaluate (gv_regexp env) e org (gq_Host r) (ur_Path (gq_URL r)) (gq_Method r)")
    have served: "serve_identified env e dev org r0 =
        (if dec = Block then
           ([Answered (http_error ''blocked by policy'' 403)],
            [emitEvent (gv_now env) dev org r 403 (gv_elapsed env) 0 (gw_decision_string dec) i])
         else if gq_Method r = ''CONNECT'' then serve_tunnel env dev org dec i r
         else serve_forward env dev org dec i r)"
      using False by (simp only: serve_identified_def if_False Some option.case ev prod.case)
    have "dec \<noteq> Block" using assms served by (auto split: if_splits)
    moreover have "a \<in> set (filter leaves (fst (serve_identified env e dev org r0)))" using assms by simp
    then have "a = (if gq_Method r = ''CONNECT'' then Tunnelled r else Forwarded (with_target r))"
      unfolding served using \<open>dec \<noteq> Block\<close>
      by (cases "gq_Method r = ''CONNECT''") (simp_all add: serve_tunnel_leaves serve_forward_leaves)
    ultimately show ?thesis using that Some ev by simp
  qed
qed

section \<open>Properties\<close>


text \<open>
  C22. A posted request or DLP event in which a content-bearing field name occurs, in any case and with
  any surrounding space, at the top, in an object below, or in an object of a list below, to any
  depth, is not stored at all.
\<close>

theorem content_bearing_telemetry_rejected:
  assumes "po_Name e = ''proxy.request'' \<or> po_Name e = ''dlp.match''"
    and "po_Data e = Some dat" and "key_occurs (VMap dat) k" and "canon k \<in> set forbiddenCentralTelemetryKeys"
  shows "event_op parse now deviceID orgID e = None"
proof -
  have "forbiddenCentralTelemetryField dat"
    using assms(3,4) unfolding forbidden_field_iff forbidden_key_def by blast
  then have none: "dlp_op now deviceID orgID ts dat = None" "request_op now deviceID orgID ts dat = None" for ts
    by (simp_all add: dlp_op_def request_op_def)
  have names: "\<not> isAgentStatusEvent ''proxy.request''" "\<not> isAgentStatusEvent ''dlp.match''"
    by (simp_all add: isAgentStatusEvent_def agent_status_names_def)
  from assms(1) show ?thesis
    by (elim disjE) (simp_all add: event_op_def names assms(2) none)
qed

text \<open>
  Endpoint activity survives the trip. An event that the agent builds for a request and accepts by
  its own validation is accepted by the gateway, after the JSON of the one and the decoding of the
  other, with the same keys, times, application, hash and count, under the authenticated identity.
\<close>

theorem agent_activity_accepted:
  fixes e :: activity_event
  assumes "e = NewRequestEvent now vendor product surface app sid seed at0"
    and "activity_Validate e = []" and "now \<noteq> 0"
    and "\<And>t. parse (fmt t) = Some t"
  shows "decodeAIActivity parse gnow (wire_data fmt (activity_Data e)) ts deviceID orgID = Inr
    \<lparr>av_Timestamp = ae_ObservedAt e, av_DeviceID = deviceID, av_OrgID = orgID, av_VendorKey = ae_VendorKey e,
     av_ProductKey = ae_ProductKey e, av_Surface = ae_Surface e, av_ActivityKind = ae_ActivityKind e,
     av_SourceApplication = ae_SourceApplication e, av_ModelIdentifier = [], av_ProjectIdentifier = [],
     av_OpaqueSessionHash = ae_OpaqueSessionHash e, av_Count = 1, av_SourceKey = ae_SourceKey e,
     av_FreshnessAt = ae_FreshnessAt e\<rparr>"
proof -
  have valid: "safeIdentifier (canon vendor) \<and> safeIdentifier (canon product) \<and> safeIdentifier (canon surface)"
    using request_event_validates[OF assms(3)] assms(1,2) by blast
  have kind: "safeIdentifier (canon ''request'')" by code_simp
  have e: "ae_VendorKey e = canon vendor" "ae_ProductKey e = canon product" "ae_Surface e = canon surface"
    "ae_ActivityKind e = canon ''request''" "ae_SourceKey e = OpaqueHash seed" "ae_OpaqueSessionHash e = OpaqueHash seed"
    "ae_SourceApplication e = safeApplicationName app" "ae_ModelIdentifier e = []" "ae_ProjectIdentifier e = []"
    "ae_Count e = 1" "ae_OriginKind e = ''endpoint''" "ae_SourceEvidenceLevel e = ''observed''"
    "ae_EvidenceLevel e = ''observed''" "ae_ReconciliationStatus e = ''not_applicable''"
    unfolding assms(1) NewRequestEvent_def NewObservedEvent_def Let_def by simp_all
  have app: "\<not> has_separator (safeApplicationName app) \<and> length (safeApplicationName app) \<le> 128"
    by (simp add: safeApplicationName_def Let_def) (simp add: has_separator_def)
  have lower: "to_lower (canon x) = canon x" for x by (simp add: canon_def to_lower_trim_space)
  note req = required_safe[OF wire_fields(1)[of fmt e]] required_safe[OF wire_fields(2)[of fmt e]]
    required_safe[OF wire_fields(3)[of fmt e]] required_safe[OF wire_fields(4)[of fmt e]] required_safe[OF wire_fields(5)[of fmt e]]
  show ?thesis
    unfolding decodeAIActivity_def
    using valid kind app hash_safe[of seed] wire_keys[of fmt e]
    by (simp add: req e check_def bind_sum_def wire_fields parseActivityTime_def assms(4) Let_def lower safe_same truncate_real_def)
qed


text \<open>
  A certificate the backend does not know reaches upstream on its second request. The first is
  refused and leaves the status unknown in the cache; while that entry lives, a request that relays
  nothing, and is neither a telemetry post nor a tunnel, passes the check, is judged by the policy of the
  organisation named in the certificate itself, and is forwarded when that does not block.
\<close>

theorem unknown_certificate_reaches_upstream:
  assumes "normalizeHexSerial (cc_Serial cert) = Some s" and "map_of (cv_cache v) s = None"
    and "new_request_ok ''GET'' (cert_status_url v s)"
    and "ve_cert (gv_verifier env) (cert_status_url v s) (cv_internalToken v) = ReplyStatus 404"
    and "gv_now env \<le> gv_now env'" and "gv_now env' < gv_now env + entry_ttl v"
    and "header_Get ''X-Themisto-Original-URL'' (gq_Header r) = []"
    and "gq_Method r \<noteq> ''CONNECT''" and "gq_Method r \<noteq> ''POST''"
    and "fst (gw_Evaluate (gv_regexp env') e (snd (ContextWithClientInfo cert)) (gq_Host r) (ur_Path (gq_URL r)) (gq_Method r)) \<noteq> Block"
    and "proxy_ServeHTTP env e (Some cert) r v = ((acts, ops), v')"
  shows "acts = [Answered (http_error ''certificate revoked'' 403)] \<and> ops = [] \<and>
    Forwarded (with_target r) \<in> set (fst (fst (proxy_ServeHTTP env' e (Some cert) r v')))"
proof -
  let ?v = "cacheStatus (gv_now env) s ''unknown'' [] [] ''unknown'' ''unknown'' v"
  have first: "IsRevoked (gv_verifier env) (gv_now env) (cc_Serial cert) v = ((True, None), ?v)"
    using assms(1-4) by (simp add: IsRevoked_def fetch_and_cache_def Let_def)
  then have v': "acts = [Answered (http_error ''certificate revoked'' 403)]" "ops = []" "v' = ?v"
    using assms(11) by (simp_all add: proxy_ServeHTTP_def)
  have "IsRevoked (gv_verifier env') (gv_now env') (cc_Serial cert) ?v = ((False, None), ?v)"
    using cached_verdict[OF assms(1,6)] by simp
  moreover have "LookupIdentity (gv_now env') (cc_Serial cert) ?v = None"
    using assms(1) cached_lookup[of "gv_now env" s] by (simp add: LookupIdentity_def)
  then have "client_identity (gv_now env') cert ?v = ContextWithClientInfo cert" by (simp add: client_identity_def)
  moreover have "rewriteRelayURL r = Some r" using assms(7) by (simp add: rewriteRelayURL_def)
  moreover have "Forwarded (with_target r) \<in> set (fst (serve_forward env' d o' dec i r))" for d o' dec i
    by (simp add: serve_forward_def Let_def split: prod.split)
  ultimately show ?thesis
    using v' assms(8-10) by (auto simp: proxy_ServeHTTP_def serve_identified_def split: prod.splits)
qed

section \<open>Concrete runs\<close>

definition sample_url :: "string \<Rightarrow> go_url" where
  "sample_url path = \<lparr>ur_Scheme = [], ur_Opaque = [], ur_Host = [], ur_Path = path, ur_RawQuery = []\<rparr>"

definition sample_relay :: gw_request where
  "sample_relay = \<lparr>gq_Method = ''GET'', gq_URL = sample_url ''/models'', gq_Host = ''claude.ai'', gq_Header = [], gq_ContentLength = 0\<rparr>"

definition sample_env :: "verifier_env \<Rightarrow> time \<Rightarrow> gw_env" where
  "sample_env replies now = \<lparr>gv_verifier = replies, gv_regexp = no_regex,
     gv_forwarder = \<lparr>fw_Tunnel = (\<lambda>r. (200, 0, False)), fw_Forward = (\<lambda>r. (200, 12, False))\<rparr>,
     gv_parse = (\<lambda>s. None), gv_batch = None, gv_now = now, gv_elapsed = 0\<rparr>"

lemma content_bearing_telemetry_rejected_witness:
  "event_op (\<lambda>s. None) 7 ''d1'' ''o1'' \<lparr>po_Name = ''dlp.match'',
     po_Data = Some [(''host'', VString ''claude.ai''), (''method'', VString ''POST''),
       (''detail'', VList [VMap [('' Prompt '', VString ''secret'')]])], po_Timestamp = 5\<rparr> = None"
proof (rule content_bearing_telemetry_rejected[where k = "'' Prompt ''"])
  show "canon '' Prompt '' \<in> set forbiddenCentralTelemetryKeys" by code_simp
  show "key_occurs (VMap [(''host'', VString ''claude.ai''), (''method'', VString ''POST''),
       (''detail'', VList [VMap [('' Prompt '', VString ''secret'')]])]) '' Prompt ''"
    by (rule key_occurs.listed[where k = "''detail''" and xs = "[VMap [('' Prompt '', VString ''secret'')]]"])
      (auto intro: key_occurs.here)
qed simp_all

definition sample_activity :: activity_event where
  "sample_activity = NewRequestEvent 5 ''OpenAI'' ''chatgpt'' ''desktop'' ''Cursor'' ''agent-1'' ''req-1'' 9"

text \<open>A format of times that can be read back.\<close>

definition unary_time :: "time \<Rightarrow> string" where
  "unary_time t = (if t < 0 then CHR ''-'' else CHR ''+'') # replicate (nat \<bar>t\<bar>) (CHR ''x'')"

definition parse_unary :: "string \<Rightarrow> time option" where
  "parse_unary s = Some (if s \<noteq> [] \<and> hd s = CHR ''-'' then - int (length (tl s)) else int (length (tl s)))"

lemma unary_roundtrip: "parse_unary (unary_time t) = Some t"
  by (simp add: parse_unary_def unary_time_def)

lemma agent_activity_accepted_witness:
  "\<exists>a. decodeAIActivity parse_unary 0 (wire_data unary_time (activity_Data sample_activity)) 0 ''d1'' ''o1'' = Inr a \<and>
     av_VendorKey a = ''openai'' \<and> av_Timestamp a = 9 \<and> av_OrgID a = ''o1''"
proof -
  have "safeIdentifier (canon ''OpenAI'') \<and> safeIdentifier (canon ''chatgpt'') \<and> safeIdentifier (canon ''desktop'') \<and>
      safeIdentifier (trim_space ''agent-1'')" by code_simp
  then have valid: "activity_Validate sample_activity = []"
    unfolding sample_activity_def by (subst request_event_validates) simp_all
  have "ae_VendorKey sample_activity = canon ''OpenAI''" "ae_ObservedAt sample_activity = 9"
    unfolding sample_activity_def NewRequestEvent_def NewObservedEvent_def Let_def by simp_all
  moreover have "canon ''OpenAI'' = ''openai''" by code_simp
  moreover have "(5::time) \<noteq> 0" by simp
  note agent_activity_accepted[OF sample_activity_def valid this unary_roundtrip, of 0 0 "''d1''" "''o1''"]
  ultimately show ?thesis by simp
qed


definition unknown_cert :: client_cert where
  "unknown_cert = \<lparr>cc_CommonName = ''anyone'', cc_Organization = [], cc_Serial = ''cd''\<rparr>"

lemma unknown_certificate_reaches_upstream_witness:
  "\<exists>acts ops v'. proxy_ServeHTTP (sample_env sample_replies 0) \<lparr>ge_rules = sample_store_rules\<rparr> (Some unknown_cert) sample_relay sample_verifier
       = ((acts, ops), v') \<and>
     acts = [Answered (http_error ''certificate revoked'' 403)] \<and>
     Forwarded (with_target sample_relay) \<in> set (fst (fst (proxy_ServeHTTP (sample_env sample_replies 1)
       \<lparr>ge_rules = sample_store_rules\<rparr> (Some unknown_cert) sample_relay v')))"
proof -
  obtain acts ops v' where first: "proxy_ServeHTTP (sample_env sample_replies 0) \<lparr>ge_rules = sample_store_rules\<rparr>
      (Some unknown_cert) sample_relay sample_verifier = ((acts, ops), v')" by (metis prod.collapse)
  have pre: "normalizeHexSerial (cc_Serial unknown_cert) = Some ''cd''" "map_of (cv_cache sample_verifier) ''cd'' = None"
    "new_request_ok ''GET'' (cert_status_url sample_verifier ''cd'')"
    "ve_cert (gv_verifier (sample_env sample_replies 0)) (cert_status_url sample_verifier ''cd'') (cv_internalToken sample_verifier) = ReplyStatus 404"
    "gv_now (sample_env sample_replies 0) \<le> gv_now (sample_env sample_replies 1)"
    "gv_now (sample_env sample_replies 1) < gv_now (sample_env sample_replies 0) + entry_ttl sample_verifier"
    "header_Get ''X-Themisto-Original-URL'' (gq_Header sample_relay) = []"
    "gq_Method sample_relay \<noteq> ''CONNECT''" "gq_Method sample_relay \<noteq> ''POST''"
    "fst (gw_Evaluate (gv_regexp (sample_env sample_replies 1)) \<lparr>ge_rules = sample_store_rules\<rparr> (snd (ContextWithClientInfo unknown_cert))
       (gq_Host sample_relay) (ur_Path (gq_URL sample_relay)) (gq_Method sample_relay)) \<noteq> Block"
    by code_simp+
  from unknown_certificate_reaches_upstream[OF pre first] first show ?thesis
    by (elim conjE) (intro exI conjI; assumption)
qed

end
