(* ===== verification/Relay_Path.thy ===== *)
theory Relay_Path
  imports Gateway_Client Gateway_Handler
begin

text \<open>
  The relay from end to end: what the agent's client puts on the wire for a proxied request
  (\<open>Gateway_Client\<close>) and what the gateway's handler makes of it (\<open>Gateway_Handler\<close>).
\<close>

section \<open>Lemmas\<close>

lemma relayed_out:
  assumes "gateway_Relay net now later req g = (res, Some out, g')"
  shows "or_Header out = relay_header req" "or_Method out = pq_Method req"
  using assms by (auto simp: gateway_Relay_def Let_def split: prod.splits if_splits option.splits)

lemma relayed_headers:
  "header_Get ''X-Themisto-Original-URL'' (relay_header req) = pq_URL req"
  "header_Get ''X-Themisto-Original-Host'' (relay_header req) = pq_Host req"
  by (simp_all add: header_Get_def relay_header_def header_values_Set canonical_original)

text \<open>The target as the gateway completes it.\<close>

definition relay_target :: "go_url \<Rightarrow> go_url" where
  "relay_target u = u\<lparr>ur_Scheme := (if ur_Scheme u = [] then ''http'' else ur_Scheme u),
     ur_Path := (if ur_Path u = [] then ''/'' else ur_Path u)\<rparr>"

lemma relay_rewritten:
  assumes "gq_Header r = relay_header req" and "trim_space (pq_URL req) = pq_URL req" and "pq_URL req \<noteq> []"
    and "url_parse (pq_URL req) = Some u" and "ur_Host u \<noteq> []"
  shows "rewriteRelayURL r = Some (r\<lparr>gq_URL := relay_target u, gq_Host := ur_Host u\<rparr>)"
  using assms by (simp add: rewriteRelayURL_def relayed_headers Let_def relay_target_def)

lemma complete_target: "ur_Scheme (gq_URL r) \<noteq> [] \<Longrightarrow> ur_Host (gq_URL r) \<noteq> [] \<Longrightarrow> with_target r = r"
  by (simp add: with_target_def)

section \<open>Properties\<close>

text \<open>
  C8. The gateway judges and contacts what the agent relayed. Take a request for an absolute URL that
  the agent's client sends to the relay endpoint, with any headers the application put in. The
  gateway evaluates its organisation's policy on the URL's host and path and the request's method,
  lets nothing out when the answer is block, and otherwise passes on exactly one request, to exactly
  that host and path with that method: no header of the application changes the target.
\<close>

theorem relay_judged_as_sent:
  assumes "gateway_Relay net now later req g = (res, Some out, g')"
    and "gq_Header r = or_Header out" and "gq_Method r = or_Method out" and "ur_Path (gq_URL r) = ''/relay''"
    and "trim_space (pq_URL req) = pq_URL req" and "pq_URL req \<noteq> []"
    and "url_parse (pq_URL req) = Some u" and "ur_Host u \<noteq> []"
  shows "\<exists>r'. gq_Host r' = ur_Host u \<and> gq_URL r' = relay_target u \<and> gq_Method r' = pq_Method req \<and>
    filter leaves (fst (serve_identified env e deviceID orgID r)) =
      (if fst (gw_Evaluate (gv_regexp env) e orgID (ur_Host u) (ur_Path (relay_target u)) (pq_Method req)) = Block then []
       else if pq_Method req = ''CONNECT'' then [Tunnelled r'] else [Forwarded r'])"
proof -
  let ?r = "r\<lparr>gq_URL := relay_target u, gq_Host := ur_Host u\<rparr>"
  note out = relayed_out[OF assms(1)]
  have rw: "rewriteRelayURL r = Some ?r"
    by (rule relay_rewritten) (use assms out in simp_all)
  have whole: "with_target ?r = ?r" by (rule complete_target) (use assms(8) in \<open>simp_all add: relay_target_def\<close>)
  have meth: "gq_Method r = pq_Method req" using assms(3) out by simp
  have here: "ur_Path (gq_URL r) \<noteq> ''/telemetry''" using assms(4) by simp
  obtain dec i where ev: "gw_Evaluate (gv_regexp env) e orgID (ur_Host u) (ur_Path (relay_target u)) (pq_Method req) = (dec, i)"
    by (metis prod.collapse)
  have "serve_identified env e deviceID orgID r =
      (if dec = Block then
         ([Answered (http_error ''blocked by policy'' 403)],
          [emitEvent (gv_now env) deviceID orgID ?r 403 (gv_elapsed env) 0 (gw_decision_string dec) i])
       else if pq_Method req = ''CONNECT'' then serve_tunnel env deviceID orgID dec i ?r
       else serve_forward env deviceID orgID dec i ?r)"
    using here by (simp add: serve_identified_def rw ev meth)
  then show ?thesis
    using whole ev meth by (intro exI[of _ ?r]) (simp add: serve_tunnel_leaves serve_forward_leaves)
qed

section \<open>Concrete runs\<close>

definition spoofing_request :: proxy_request where
  "spoofing_request = \<lparr>pq_Method = ''POST'', pq_URL = ''https://api.openai.com/v1/files'', pq_Host = ''api.openai.com'',
     pq_Headers = [(''x-themisto-original-url'', [''https://intranet.example/''])], pq_Body = []\<rparr>"

lemma relay_judged_as_sent_witness:
  "\<exists>out g' res. gateway_Relay (\<lambda>_. None) 0 1 spoofing_request sample_gateway = (res, Some out, g') \<and>
     filter leaves (fst (serve_identified (sample_env cleared_replies 0) \<lparr>ge_rules = sample_store_rules\<rparr> ''d1'' ''o1''
       \<lparr>gq_Method = or_Method out, gq_URL = sample_url ''/relay'', gq_Host = ''gateway.example'', gq_Header = or_Header out,
        gq_ContentLength = 0\<rparr>)) = []"
proof -
  have ok: "new_request_ok ''POST'' ''https://gateway.example:8443/relay''" by code_simp
  then obtain res out g' where r: "gateway_Relay (\<lambda>_. None) 0 1 spoofing_request sample_gateway = (res, Some out, g')"
    by (simp add: gateway_Relay_def sample_gateway_def NewGatewayClient_def NewCircuitBreaker_def cb_Allow_def spoofing_request_def)
  let ?r = "\<lparr>gq_Method = or_Method out, gq_URL = sample_url ''/relay'', gq_Host = ''gateway.example'', gq_Header = or_Header out,
        gq_ContentLength = 0\<rparr>"
  let ?u = "\<lparr>ur_Scheme = ''https'', ur_Opaque = [], ur_Host = ''api.openai.com'', ur_Path = ''/v1/files'', ur_RawQuery = []\<rparr>"
  have blocked: "fst (gw_Evaluate (gv_regexp (sample_env cleared_replies 0)) \<lparr>ge_rules = sample_store_rules\<rparr> ''o1''
      (ur_Host ?u) (ur_Path (relay_target ?u)) (pq_Method spoofing_request)) = Block" by code_simp
  have "\<exists>r'. gq_Host r' = ur_Host ?u \<and> gq_URL r' = relay_target ?u \<and> gq_Method r' = pq_Method spoofing_request \<and>
      filter leaves (fst (serve_identified (sample_env cleared_replies 0) \<lparr>ge_rules = sample_store_rules\<rparr> ''d1'' ''o1'' ?r)) =
      (if fst (gw_Evaluate (gv_regexp (sample_env cleared_replies 0)) \<lparr>ge_rules = sample_store_rules\<rparr> ''o1''
          (ur_Host ?u) (ur_Path (relay_target ?u)) (pq_Method spoofing_request)) = Block then []
       else if pq_Method spoofing_request = ''CONNECT'' then [Tunnelled r'] else [Forwarded r'])"
  proof (rule relay_judged_as_sent[OF r])
    show "trim_space (pq_URL spoofing_request) = pq_URL spoofing_request" "pq_URL spoofing_request \<noteq> []"
      "url_parse (pq_URL spoofing_request) = Some ?u" "ur_Host ?u \<noteq> []" by code_simp+
  qed (simp_all add: sample_url_def)
  then have "filter leaves (fst (serve_identified (sample_env cleared_replies 0) \<lparr>ge_rules = sample_store_rules\<rparr> ''d1'' ''o1'' ?r)) = []"
    by (elim exE conjE) (simp only: blocked refl if_True)
  with r show ?thesis by (intro exI conjI)
qed

end
