(* ===== verification/Rate_Limiter.thy ===== *)
theory Rate_Limiter
  imports Go_Stdlib
begin

text \<open>
  The backend's limiter of unauthenticated requests (\<^verbatim>\<open>src/backend/internal/api/ratelimit.go\<close>): a
  counter per client address and window, and the address it takes a request to come from.
  The mutex makes every operation atomic. The map of buckets is a finite map of HOL.
\<close>

section \<open>State and operations\<close>

record bucket =
  bk_tokens :: int
  bk_lastReset :: time

record rateLimiter =
  rl_buckets :: "string \<rightharpoonup> bucket"
  rl_rate :: int
  rl_window :: duration

definition newRateLimiter :: "int \<Rightarrow> duration \<Rightarrow> rateLimiter" where
  "newRateLimiter rate window = \<lparr>rl_buckets = Map.empty, rl_rate = rate, rl_window = window\<rparr>"

definition put_bucket :: "string \<Rightarrow> bucket \<Rightarrow> rateLimiter \<Rightarrow> rateLimiter" where
  "put_bucket key b rl = rl\<lparr>rl_buckets := (rl_buckets rl)(key \<mapsto> b)\<rparr>"

definition allow :: "time \<Rightarrow> string \<Rightarrow> rateLimiter \<Rightarrow> bool \<times> rateLimiter" where
  "allow now key rl =
    (let fresh = put_bucket key \<lparr>bk_tokens = rl_rate rl - 1, bk_lastReset = now\<rparr> rl in
     case rl_buckets rl key of
       None \<Rightarrow> (True, fresh)
     | Some b \<Rightarrow>
        if rl_window rl \<le> now - bk_lastReset b then (True, fresh)
        else if bk_tokens b \<le> 0 then (False, rl)
        else (True, put_bucket key (b\<lparr>bk_tokens := bk_tokens b - 1\<rparr>) rl))"

definition retryAfter :: "time \<Rightarrow> string \<Rightarrow> rateLimiter \<Rightarrow> int" where
  "retryAfter now key rl =
    (case rl_buckets rl key of
       None \<Rightarrow> 0
     | Some b \<Rightarrow>
        (let remaining = rl_window rl - (now - bk_lastReset b) in
         if remaining \<le> 0 then 0 else remaining div second + 1))"

definition extractClientIP :: "header \<Rightarrow> string \<Rightarrow> string" where
  "extractClientIP headers remoteAddr =
    (let xff = header_Get ''X-Forwarded-For'' headers;
         ip = trim_space (hd (split_on (CHR '','') xff)) in
     if xff \<noteq> [] \<and> ip \<noteq> [] then ip
     else case split_host_port remoteAddr of None \<Rightarrow> remoteAddr | Some (host, _) \<Rightarrow> host)"

text \<open>What the wrapper does with a request: pass it on, or answer 429 with the seconds to wait.\<close>

datatype limited = PassedOn | TooManyRequests int

definition withRateLimit :: "time \<Rightarrow> header \<Rightarrow> string \<Rightarrow> rateLimiter \<Rightarrow> limited \<times> rateLimiter" where
  "withRateLimit now headers remoteAddr rl =
    (let ip = extractClientIP headers remoteAddr in
     case allow now ip rl of
       (True, rl') \<Rightarrow> (PassedOn, rl')
     | (False, rl') \<Rightarrow> (TooManyRequests (retryAfter now ip rl'), rl'))"

section \<open>Runs\<close>

text \<open>How many of a sequence of calls are allowed for a key.\<close>

fun allowed_count :: "string \<Rightarrow> (time \<times> string) list \<Rightarrow> rateLimiter \<Rightarrow> nat" where
  "allowed_count key [] rl = 0"
| "allowed_count key ((now, k) # calls) rl =
    (case allow now k rl of (ok, rl') \<Rightarrow> (if ok \<and> k = key then 1 else 0) + allowed_count key calls rl')"

definition tokens_left :: "string \<Rightarrow> rateLimiter \<Rightarrow> int" where
  "tokens_left key rl = (case rl_buckets rl key of None \<Rightarrow> 0 | Some b \<Rightarrow> max 0 (bk_tokens b))"

lemma allow_config: "allow now k rl = (ok, rl') \<Longrightarrow> rl_rate rl' = rl_rate rl \<and> rl_window rl' = rl_window rl"
  by (auto simp: allow_def put_bucket_def Let_def split: option.splits if_splits)

lemma allow_other: "allow now k rl = (ok, rl') \<Longrightarrow> k \<noteq> key \<Longrightarrow> rl_buckets rl' key = rl_buckets rl key"
  by (auto simp: allow_def put_bucket_def Let_def split: option.splits if_splits)

lemma allow_same:
  assumes "allow now key rl = (ok, rl')"
  shows "(rl_buckets rl key = None \<or> (\<exists>b. rl_buckets rl key = Some b \<and> rl_window rl \<le> now - bk_lastReset b)) \<and> ok \<and>
      rl_buckets rl' key = Some \<lparr>bk_tokens = rl_rate rl - 1, bk_lastReset = now\<rparr> \<or>
    (\<exists>b. rl_buckets rl key = Some b \<and> now - bk_lastReset b < rl_window rl \<and>
      (ok \<longleftrightarrow> 0 < bk_tokens b) \<and> rl_buckets rl' key = Some (if ok then b\<lparr>bk_tokens := bk_tokens b - 1\<rparr> else b))"
  using assms by (auto simp: allow_def put_bucket_def Let_def split: option.splits if_splits)

text \<open>Inside the window of its bucket a key gets no more than the tokens left.\<close>

lemma count_in_window:
  assumes "rl_buckets rl key = Some b" and "\<forall>(t, k)\<in>set calls. t < bk_lastReset b + rl_window rl"
  shows "int (allowed_count key calls rl) \<le> max 0 (bk_tokens b)"
  using assms
proof (induction calls arbitrary: rl b)
  case (Cons c calls)
  obtain now k where c: "c = (now, k)" by (cases c)
  obtain ok rl' where al: "allow now k rl = (ok, rl')" by (cases "allow now k rl")
  have cfg: "rl_window rl' = rl_window rl" using allow_config[OF al] by simp
  show ?case
  proof (cases "k = key")
    case False
    then show ?thesis
      using Cons.IH[of rl' b] Cons.prems allow_other[OF al] al cfg by (auto simp: c)
  next
    case True
    then have "now < bk_lastReset b + rl_window rl" using Cons.prems(2) by (simp add: c)
    then have b': "ok \<longleftrightarrow> 0 < bk_tokens b" "rl_buckets rl' key = Some (if ok then b\<lparr>bk_tokens := bk_tokens b - 1\<rparr> else b)"
      using allow_same[OF al[unfolded True]] Cons.prems(1) by auto
    show ?thesis
      using Cons.IH[OF b'(2)] Cons.prems(2) al cfg True b'(1) by (auto simp: c split: if_splits)
  qed
qed simp

text \<open>In an interval no longer than the window a key's bucket is renewed at most once.\<close>

lemma count_in_interval:
  assumes "\<forall>(t, k)\<in>set calls. a \<le> t \<and> t < a + rl_window rl"
  shows "int (allowed_count key calls rl) \<le> tokens_left key rl + max 1 (rl_rate rl)"
  using assms
proof (induction calls arbitrary: rl)
  case (Cons c calls)
  obtain now k where c: "c = (now, k)" by (cases c)
  obtain ok rl' where al: "allow now k rl = (ok, rl')" by (cases "allow now k rl")
  have cfg: "rl_window rl' = rl_window rl" "rl_rate rl' = rl_rate rl" using allow_config[OF al] by simp_all
  have IH: "int (allowed_count key calls rl') \<le> tokens_left key rl' + max 1 (rl_rate rl)"
    using Cons.IH[of rl'] Cons.prems cfg by (auto simp: c)
  show ?case
  proof (cases "k = key")
    case False
    then show ?thesis using IH allow_other[OF al False] al by (simp add: c tokens_left_def)
  next
    case True
    consider (fresh) "ok" "rl_buckets rl' key = Some \<lparr>bk_tokens = rl_rate rl - 1, bk_lastReset = now\<rparr>"
      | (kept) b where "rl_buckets rl key = Some b" "ok \<longleftrightarrow> 0 < bk_tokens b"
          "rl_buckets rl' key = Some (if ok then b\<lparr>bk_tokens := bk_tokens b - 1\<rparr> else b)"
      using allow_same[OF al[unfolded True]] by blast
    then show ?thesis
    proof cases
      case fresh
      have "int (allowed_count key calls rl') \<le> max 0 (rl_rate rl - 1)"
        using count_in_window[OF fresh(2), of calls] Cons.prems cfg by (fastforce simp: c)
      moreover have "0 \<le> tokens_left key rl" by (simp add: tokens_left_def split: option.split)
      ultimately show ?thesis using al True fresh(1) by (simp add: c)
    next
      case kept
      then show ?thesis using IH al True by (auto simp: c tokens_left_def split: if_splits)
    qed
  qed
qed (simp add: tokens_left_def split: option.split)

definition after :: "(time \<times> string) list \<Rightarrow> rateLimiter \<Rightarrow> rateLimiter" where
  "after calls rl = fold (\<lambda>(now, k) rl. snd (allow now k rl)) calls rl"

inductive limiter_step :: "rateLimiter \<Rightarrow> rateLimiter \<Rightarrow> bool" where
  call: "limiter_step rl (snd (allow now k rl))"

definition limiter_inv :: "int \<Rightarrow> duration \<Rightarrow> rateLimiter \<Rightarrow> bool" where
  "limiter_inv rate window rl \<longleftrightarrow> rl_rate rl = rate \<and> rl_window rl = window \<and>
     (\<forall>k b. rl_buckets rl k = Some b \<longrightarrow> bk_tokens b \<le> rate - 1)"

interpretation limiter_run: invariant_system "newRateLimiter rate window" limiter_step "limiter_inv rate window"
  for rate window
proof unfold_locales
  fix rl rl' assume inv: "limiter_inv rate window rl" and "limiter_step rl rl'"
  then obtain now k ok where al: "allow now k rl = (ok, rl')" by (metis limiter_step.cases prod.collapse)
  have "bk_tokens b \<le> rate - 1" if "rl_buckets rl' key = Some b" for key b
  proof (cases "k = key")
    case True
    with allow_same[OF al[unfolded True]] inv that show ?thesis
      by (fastforce simp: limiter_inv_def split: if_splits)
  qed (use allow_other[OF al] inv that in \<open>auto simp: limiter_inv_def\<close>)
  then show "limiter_inv rate window rl'" using inv allow_config[OF al] by (simp add: limiter_inv_def)
qed (simp add: limiter_inv_def newRateLimiter_def)

lemma after_steps: "limiter_step\<^sup>*\<^sup>* rl (after calls rl)"
  unfolding after_def
  by (induction calls arbitrary: rl) (auto intro: converse_rtranclp_into_rtranclp limiter_step.call)

section \<open>Properties\<close>

text \<open>
  C38. The limit holds, up to the window's edge. After any history, the calls for one key that fall
  into any interval as long as the window are allowed at most \<open>rate + (rate - 1)\<close> times (once, when
  the rate is not positive): the bucket is renewed at most once in it.
\<close>

theorem rate_limit_enforced:
  assumes "list_all (\<lambda>(t, k). a \<le> t \<and> t < a + window) calls"
  shows "int (allowed_count key calls (after earlier (newRateLimiter rate window))) \<le> max 1 rate + max 0 (rate - 1)"
proof -
  let ?rl = "after earlier (newRateLimiter rate window)"
  have inv: "limiter_inv rate window ?rl" using limiter_run.reachable_inv[OF after_steps] .
  then have "tokens_left key ?rl \<le> max 0 (rate - 1)"
    by (fastforce simp: limiter_inv_def tokens_left_def split: option.split)
  then show ?thesis
    using count_in_interval[of calls a ?rl key] assms inv by (force simp: limiter_inv_def list_all_iff)
qed

text \<open>
  The limit binds only clients that want it. The key is the first entry of a header the client
  writes, so any number of requests from one address, at any times, with a new value in the header
  each, all pass, whatever the rate.
\<close>

fun serve_forwarded :: "(time \<times> string) list \<Rightarrow> string \<Rightarrow> rateLimiter \<Rightarrow> limited list" where
  "serve_forwarded [] addr rl = []"
| "serve_forwarded ((now, ip) # reqs) addr rl =
    (case withRateLimit now [(''X-Forwarded-For'', [ip])] addr rl of
       (res, rl') \<Rightarrow> res # serve_forwarded reqs addr rl')"

lemma split_on_absent: "c \<notin> set s \<Longrightarrow> split_on c s = [s]"
  by (induction s) auto

lemma forwarded_key:
  assumes "ip \<noteq> []" and "list_all (\<lambda>c. \<not> is_space c \<and> c \<noteq> CHR '','') ip"
  shows "extractClientIP [(''X-Forwarded-For'', [ip])] addr = ip"
proof -
  have "canonical_key ''X-Forwarded-For'' = ''X-Forwarded-For''" by code_simp
  moreover have "CHR '','' \<notin> set ip" "list_all (\<lambda>c. \<not> is_space c) ip" using assms(2) by (auto simp: list_all_iff)
  ultimately show ?thesis
    using assms(1) by (simp add: extractClientIP_def header_Get_def header_values_def split_on_absent trim_space_plain)
qed

theorem forwarded_header_escapes_limit:
  assumes "distinct (map snd reqs)"
    and "list_all (\<lambda>(now, ip). ip \<noteq> [] \<and> list_all (\<lambda>c. \<not> is_space c \<and> c \<noteq> CHR '','') ip \<and> rl_buckets rl ip = None) reqs"
  shows "serve_forwarded reqs addr rl = replicate (length reqs) PassedOn"
  using assms
proof (induction reqs arbitrary: rl)
  case (Cons r reqs)
  obtain now ip where r: "r = (now, ip)" by (cases r)
  define rl' where "rl' = put_bucket ip \<lparr>bk_tokens = rl_rate rl - 1, bk_lastReset = now\<rparr> rl"
  have key: "extractClientIP [(''X-Forwarded-For'', [ip])] addr = ip"
    by (rule forwarded_key) (use Cons.prems(2) in \<open>simp_all add: r\<close>)
  have "withRateLimit now [(''X-Forwarded-For'', [ip])] addr rl = (PassedOn, rl')"
    using Cons.prems(2) by (simp add: withRateLimit_def key allow_def r rl'_def Let_def)
  moreover have "serve_forwarded reqs addr rl' = replicate (length reqs) PassedOn"
  proof (rule Cons.IH)
    show "list_all (\<lambda>(now, ip). ip \<noteq> [] \<and> list_all (\<lambda>c. \<not> is_space c \<and> c \<noteq> CHR '','') ip \<and> rl_buckets rl' ip = None) reqs"
      using Cons.prems by (force simp: list_all_iff r rl'_def put_bucket_def image_iff)
  qed (use Cons.prems(1) in simp)
  ultimately show ?case by (simp add: r)
qed simp

section \<open>Concrete runs\<close>

text \<open>A rate of two per ten units: three calls in ten units are allowed across the edge of the window.\<close>

lemma rate_limit_enforced_witness:
  "int (allowed_count ''k'' [(9, ''k''), (10, ''k''), (11, ''k''), (11, ''k'')] (after [(0, ''k'')] (newRateLimiter 2 10))) \<le> max 1 2 + max 0 (2 - 1)
   \<and> allowed_count ''k'' [(9, ''k''), (10, ''k''), (11, ''k''), (11, ''k'')] (after [(0, ''k'')] (newRateLimiter 2 10)) = 3"
proof
  show "int (allowed_count ''k'' [(9, ''k''), (10, ''k''), (11, ''k''), (11, ''k'')] (after [(0, ''k'')] (newRateLimiter 2 10))) \<le> max 1 2 + max 0 (2 - 1)"
    by (rule rate_limit_enforced[where a = 3]) simp
  show "allowed_count ''k'' [(9, ''k''), (10, ''k''), (11, ''k''), (11, ''k'')] (after [(0, ''k'')] (newRateLimiter 2 10)) = 3"
    by (simp add: after_def newRateLimiter_def allow_def put_bucket_def)
qed

lemma forwarded_header_escapes_limit_witness:
  "serve_forwarded [(0, ''10.0.0.1''), (0, ''10.0.0.2''), (0, ''10.0.0.3'')] ''192.0.2.7:5000'' (newRateLimiter 1 10) =
     replicate (length [(0::time, ''10.0.0.1''), (0, ''10.0.0.2''), (0, ''10.0.0.3'')]) PassedOn"
  by (rule forwarded_header_escapes_limit) code_simp+

end
