(* ===== verification/AI_Ledger.thy ===== *)
theory AI_Ledger
  imports Go_Stdlib
begin

text \<open>
  The backend's AI usage and spend ledger: provenance and evidence levels
  (\<^verbatim>\<open>src/backend/internal/ailedger/types.go\<close>), identity reconciliation (\<^verbatim>\<open>reconciliation.go\<close>) and the
  connector manager with the sinks that connectors and imports write through (\<^verbatim>\<open>manager.go\<close>).

  The connector adapter, the repository and the credential cipher are parameters: the outcome of each
  attempt to sync, which repository calls succeed, whether the stored credentials open. The zero
  \<^verbatim>\<open>time.Time\<close> is \<^term>\<open>0::time\<close>. String-typed enums stay strings: a sink sees whatever an adapter sets.
\<close>

section \<open>Evidence\<close>

definition EffectiveEvidence :: "string \<Rightarrow> string \<Rightarrow> string \<Rightarrow> string" where
  "EffectiveEvidence origin source reconciliation =
    (if origin = ''endpoint'' \<or> source = ''observed'' then ''observed''
     else if source = ''estimated'' then ''estimated''
     else if source = ''authoritative'' \<and> reconciliation = ''matched'' then ''reconciled''
     else ''authoritative'')"

definition normalizeKey :: "string \<Rightarrow> string" where
  "normalizeKey v = to_lower (trim_space v)"

definition NormalizeEmail :: "string \<Rightarrow> string" where
  "NormalizeEmail v = to_lower (trim_space v)"

record provenance =
  pv_OriginKind :: string
  pv_SourceEvidenceLevel :: string
  pv_ReconciliationStatus :: string
  pv_EvidenceLevel :: string
  pv_SourceIdentifier :: string
  pv_SourceKey :: string
  pv_ExternalReference :: string
  pv_FreshnessAt :: time
  pv_Scope :: string
  pv_ReportingPeriodStart :: "time option"
  pv_ReportingPeriodEnd :: "time option"
  pv_VendorKey :: string
  pv_ProductKey :: string

datatype provenance_error = InvalidOrigin | InvalidSourceEvidence | InvalidReconciliation | SourceRequired
  | KeysRequired | PeriodOrder | EndpointNotObserved | EstimateNotEstimated

definition normalize_provenance :: "provenance \<Rightarrow> provenance" where
  "normalize_provenance p = p\<lparr>pv_SourceIdentifier := trim_space (pv_SourceIdentifier p),
     pv_SourceKey := trim_space (pv_SourceKey p), pv_ExternalReference := trim_space (pv_ExternalReference p),
     pv_Scope := trim_space (pv_Scope p), pv_VendorKey := normalizeKey (pv_VendorKey p),
     pv_ProductKey := normalizeKey (pv_ProductKey p),
     pv_EvidenceLevel := EffectiveEvidence (pv_OriginKind p) (pv_SourceEvidenceLevel p) (pv_ReconciliationStatus p)\<rparr>"

definition period_reversed :: "provenance \<Rightarrow> bool" where
  "period_reversed p =
    (case (pv_ReportingPeriodStart p, pv_ReportingPeriodEnd p) of
       (Some a, Some b) \<Rightarrow> b \<le> a | _ \<Rightarrow> False)"

definition provenance_errors :: "provenance \<Rightarrow> provenance_error list" where
  "provenance_errors p =
    (if pv_OriginKind p \<in> set [''endpoint'', ''connector'', ''import''] then [] else [InvalidOrigin]) @
    (if pv_SourceEvidenceLevel p \<in> set [''observed'', ''authoritative'', ''estimated''] then [] else [InvalidSourceEvidence]) @
    (if pv_ReconciliationStatus p \<in> set [''matched'', ''unmatched'', ''not_applicable''] then [] else [InvalidReconciliation]) @
    (if pv_SourceIdentifier p = [] \<or> pv_SourceKey p = [] \<or> pv_Scope p = [] \<or> pv_FreshnessAt p = 0 then [SourceRequired] else []) @
    (if pv_VendorKey p = [] \<or> pv_ProductKey p = [] then [KeysRequired] else []) @
    (if period_reversed p then [PeriodOrder] else []) @
    (if pv_OriginKind p = ''endpoint'' \<and> (pv_SourceEvidenceLevel p \<noteq> ''observed'' \<or> pv_EvidenceLevel p \<noteq> ''observed'')
     then [EndpointNotObserved] else []) @
    (if pv_SourceEvidenceLevel p = ''estimated'' \<and> pv_EvidenceLevel p \<noteq> ''estimated'' then [EstimateNotEstimated] else [])"

definition NormalizeAndValidate :: "provenance \<Rightarrow> provenance_error list \<times> provenance" where
  "NormalizeAndValidate p = (let q = normalize_provenance p in (provenance_errors q, q))"

section \<open>Facts and sinks\<close>

record product_fact =
  pf_prov :: provenance
  pf_DisplayName :: string
  pf_FunctionalCategory :: string
  pf_Approved :: bool
  pf_HasContract :: bool
  pf_HasBillingSource :: bool

record identity_fact =
  if_prov :: provenance
  if_IdentitySourceKey :: string
  if_IdentityKind :: string
  if_ExternalID :: string
  if_NormalizedEmail :: string
  if_ProjectKey :: string
  if_DirectoryUserID :: string

record license_fact =
  lf_prov :: provenance
  lf_LicenseKey :: string
  lf_ExternalIdentityID :: string
  lf_DirectoryUserID :: string
  lf_AssignedExternalID :: string
  lf_Status :: string
  lf_Paid :: bool
  lf_UnitAmount :: "string option"
  lf_Currency :: string
  lf_BillingInterval :: string

record metric_fact =
  mf_prov :: provenance
  mf_MetricKey :: string
  mf_Value :: string
  mf_Unit :: string
  mf_IsActivity :: bool
  mf_ExternalIdentityID :: string
  mf_ProjectKey :: string
  mf_ModelIdentifier :: string

record cost_fact =
  cf_prov :: provenance
  cf_CostKey :: string
  cf_Amount :: string
  cf_Currency :: string
  cf_CostKind :: string
  cf_ExternalIdentityID :: string
  cf_ProjectKey :: string
  cf_TeamKey :: string

datatype ledger_fact = ProductFact product_fact | IdentityFact identity_fact | LicenseFact license_fact
  | MetricFact metric_fact | CostFact cost_fact

fun fact_prov :: "ledger_fact \<Rightarrow> provenance" where
  "fact_prov (ProductFact f) = pf_prov f"
| "fact_prov (IdentityFact f) = if_prov f"
| "fact_prov (LicenseFact f) = lf_prov f"
| "fact_prov (MetricFact f) = mf_prov f"
| "fact_prov (CostFact f) = cf_prov f"

fun with_prov :: "provenance \<Rightarrow> ledger_fact \<Rightarrow> ledger_fact" where
  "with_prov p (ProductFact f) = ProductFact (f\<lparr>pf_prov := p\<rparr>)"
| "with_prov p (IdentityFact f) = IdentityFact (f\<lparr>if_prov := p\<rparr>)"
| "with_prov p (LicenseFact f) = LicenseFact (f\<lparr>lf_prov := p\<rparr>)"
| "with_prov p (MetricFact f) = MetricFact (f\<lparr>mf_prov := p\<rparr>)"
| "with_prov p (CostFact f) = CostFact (f\<lparr>cf_prov := p\<rparr>)"

text \<open>What both sinks fill in before validation.\<close>

definition stamp :: "string \<Rightarrow> string \<Rightarrow> time \<Rightarrow> provenance \<Rightarrow> provenance" where
  "stamp origin source now p = p\<lparr>pv_OriginKind := origin,
     pv_SourceEvidenceLevel := (if pv_SourceEvidenceLevel p = [] then ''authoritative'' else pv_SourceEvidenceLevel p),
     pv_ReconciliationStatus := (if pv_ReconciliationStatus p = [] then ''unmatched'' else pv_ReconciliationStatus p),
     pv_SourceIdentifier := source,
     pv_FreshnessAt := (if pv_FreshnessAt p = 0 then now else pv_FreshnessAt p)\<rparr>"

definition connector_normalize :: "string \<Rightarrow> time \<Rightarrow> provenance \<Rightarrow> provenance_error list \<times> provenance" where
  "connector_normalize connectorID now p = NormalizeAndValidate (stamp ''connector'' connectorID now p)"

definition import_normalize :: "string \<Rightarrow> time \<Rightarrow> provenance \<Rightarrow> provenance_error list \<times> provenance" where
  "import_normalize source now p = NormalizeAndValidate (stamp ''import'' source now p)"

text \<open>
  The five upserts of a sink: the fact reaches the delegate with its normalised provenance, or the
  errors are returned and the delegate is not called. The delegate is the list of facts it was given.
\<close>

definition sink_upsert :: "(provenance \<Rightarrow> provenance_error list \<times> provenance) \<Rightarrow> ledger_fact \<Rightarrow> ledger_fact list \<Rightarrow>
    provenance_error list \<times> ledger_fact list" where
  "sink_upsert prep x given =
    (case prep (fact_prov x) of
       (errs, p) \<Rightarrow> if errs \<noteq> [] then (errs, given) else ([], given @ [with_prov p x]))"

section \<open>Reconciliation\<close>

record directory_user =
  du_ID :: string
  du_IdentitySourceKey :: string
  du_ExternalUserID :: string
  du_NormalizedEmail :: string
  du_Status :: string

record identity_candidate =
  ic_ID :: string
  ic_IdentitySourceKey :: string
  ic_IdentityKind :: string
  ic_ExternalID :: string
  ic_NormalizedEmail :: string
  ic_ProjectKey :: string

record identity_match =
  im_IdentityID :: string
  im_DirectoryUserID :: string
  im_Status :: string
  im_MatchMethod :: string

definition nul :: char where
  "nul = CHR 0x00"

definition external_key :: "string \<Rightarrow> string \<Rightarrow> string" where
  "external_key source ext = normalizeKey source @ [nul] @ trim_space ext"

definition byExternalID :: "directory_user list \<Rightarrow> string \<Rightarrow> directory_user list" where
  "byExternalID users key =
     filter (\<lambda>u. du_ExternalUserID u \<noteq> [] \<and> external_key (du_IdentitySourceKey u) (du_ExternalUserID u) = key) users"

definition byEmail :: "directory_user list \<Rightarrow> string \<Rightarrow> directory_user list" where
  "byEmail users email =
     filter (\<lambda>u. NormalizeEmail (du_NormalizedEmail u) \<noteq> [] \<and> NormalizeEmail (du_NormalizedEmail u) = email) users"

definition reconcile_identity :: "directory_user list \<Rightarrow> identity_candidate \<Rightarrow> identity_match" where
  "reconcile_identity users i =
    (let unmatched = \<lparr>im_IdentityID = ic_ID i, im_DirectoryUserID = [], im_Status = ''unmatched'', im_MatchMethod = []\<rparr> in
     case byExternalID users (external_key (ic_IdentitySourceKey i) (ic_ExternalID i)) of
       [u] \<Rightarrow> unmatched\<lparr>im_DirectoryUserID := du_ID u, im_Status := ''matched'', im_MatchMethod := ''external_id''\<rparr>
     | _ \<Rightarrow>
        (let email = NormalizeEmail (ic_NormalizedEmail i) in
         if email = [] then unmatched
         else case byEmail users email of
           [u] \<Rightarrow> unmatched\<lparr>im_DirectoryUserID := du_ID u, im_Status := ''matched'', im_MatchMethod := ''normalized_email''\<rparr>
         | _ \<Rightarrow> unmatched))"

definition ReconcileIdentities :: "directory_user list \<Rightarrow> identity_candidate list \<Rightarrow> identity_match list" where
  "ReconcileIdentities users identities = map (reconcile_identity users) identities"

record device_assignment =
  da_DeviceID :: string
  da_DirectoryUserID :: string
  da_AssignedFrom :: time
  da_AssignedUntil :: "time option"

definition covers :: "string \<Rightarrow> time \<Rightarrow> device_assignment \<Rightarrow> bool" where
  "covers deviceID t a = (da_DeviceID a = deviceID \<and> da_AssignedFrom a \<le> t \<and>
     (case da_AssignedUntil a of None \<Rightarrow> True | Some u \<Rightarrow> t < u))"

definition ResolveDeviceUser :: "device_assignment list \<Rightarrow> string \<Rightarrow> time \<Rightarrow> string option" where
  "ResolveDeviceUser assignments deviceID observedAt =
    (case remdups (map da_DirectoryUserID (filter (covers deviceID observedAt) assignments)) of
       [u] \<Rightarrow> Some u | _ \<Rightarrow> None)"

section \<open>Outbound requests of a connector\<close>

definition allowed_hosts :: "string list \<Rightarrow> string list" where
  "allowed_hosts hosts = remdups (filter (\<lambda>h. h \<noteq> []) (map (\<lambda>h. to_lower (trim_space h)) hosts))"

definition host_allowed :: "string \<Rightarrow> string \<Rightarrow> bool" where
  "host_allowed host a = (has_prefix a ''*.'' \<and> has_suffix host (trim_prefix a ''*'') \<or> host = a)"

definition validateURL :: "string list \<Rightarrow> go_url option \<Rightarrow> bool" where
  "validateURL hosts target =
    (case target of
       None \<Rightarrow> False
     | Some u \<Rightarrow> ur_Scheme u = ''https'' \<and> list_ex (host_allowed (to_lower (url_Hostname u))) (allowed_hosts hosts))"

text \<open>The client follows a chain of redirects; every hop is checked, and there are at most five.\<close>

fun follow :: "string list \<Rightarrow> nat \<Rightarrow> go_url list \<Rightarrow> go_url list" where
  "follow hosts via [] = []"
| "follow hosts via (u # hops) =
    (if 5 \<le> via \<or> \<not> validateURL hosts (Some u) then [] else u # follow hosts (via + 1) hops)"

section \<open>Sync\<close>

datatype connector_error = ContextCanceled | DeadlineExceeded | NetError | StatusError int | OtherError

definition retryableConnectorError :: "connector_error \<Rightarrow> bool" where
  "retryableConnectorError e =
    (case e of ContextCanceled \<Rightarrow> False | DeadlineExceeded \<Rightarrow> False | NetError \<Rightarrow> True
     | StatusError code \<Rightarrow> code = 429 \<or> 500 \<le> code | OtherError \<Rightarrow> False)"

definition minute :: duration where
  "minute = 60 * second"

definition backoffForFailures :: "int \<Rightarrow> duration" where
  "backoffForFailures failures =
    (let f = (if failures < 1 then 1 else failures); f = (if 8 < f then 8 else f) in 2 ^ nat (f - 1) * minute)"

text \<open>
  The attempts: what the adapter returns in each, and the error of the context if it ends during the
  pause after it. The result is the last error or the new checkpoint, with the number of attempts made.
\<close>

function sync_attempts :: "(nat \<Rightarrow> connector_error + 'c) \<Rightarrow> (nat \<Rightarrow> connector_error option) \<Rightarrow> nat \<Rightarrow> (connector_error + 'c) \<times> nat" where
  "sync_attempts adapter ended attempt =
    (case adapter attempt of
       Inr checkpoint \<Rightarrow> (Inr checkpoint, attempt + 1)
     | Inl err \<Rightarrow>
        if \<not> retryableConnectorError err \<or> 2 \<le> attempt then (Inl err, attempt + 1)
        else case ended attempt of
          Some e \<Rightarrow> (Inl e, attempt + 1)
        | None \<Rightarrow> sync_attempts adapter ended (attempt + 1))"
  by pat_completeness auto

termination
  by (relation "measure (\<lambda>(adapter, ended, attempt). 3 - attempt)") auto

datatype 'c repo_call =
    MarkConnectorSyncing time
  | MarkConnectorSuccess 'c
  | MarkConnectorFailure int time
  | Reconcile
  | RefreshFindings

datatype 'c sync_result = Synced | NotStarted | SyncFailed connector_error | RepositoryFailed "'c repo_call"

text \<open>The record has been read, its adapter found and its credentials opened and validated; or not.\<close>

definition SyncConnector :: "('c repo_call \<Rightarrow> bool) \<Rightarrow> (nat \<Rightarrow> connector_error + 'c) \<Rightarrow> (nat \<Rightarrow> connector_error option) \<Rightarrow> bool \<Rightarrow> time \<Rightarrow> int \<Rightarrow>
    'c sync_result \<times> 'c repo_call list" where
  "SyncConnector repo adapter ended ready now consecutiveFailures =
    (if \<not> ready then (NotStarted, [])
     else if \<not> repo (MarkConnectorSyncing now) then (RepositoryFailed (MarkConnectorSyncing now), [MarkConnectorSyncing now])
     else case fst (sync_attempts adapter ended 0) of
       Inl err \<Rightarrow>
         (let failures = consecutiveFailures + 1 in
          (SyncFailed err, [MarkConnectorSyncing now, MarkConnectorFailure failures (now + backoffForFailures failures)]))
     | Inr checkpoint \<Rightarrow>
         (let c1 = [MarkConnectorSyncing now, MarkConnectorSuccess checkpoint] in
          if \<not> repo (MarkConnectorSuccess checkpoint) then (RepositoryFailed (MarkConnectorSuccess checkpoint), c1)
          else if \<not> repo Reconcile then (RepositoryFailed Reconcile, c1 @ [Reconcile])
          else if \<not> repo RefreshFindings then (RepositoryFailed RefreshFindings, c1 @ [Reconcile, RefreshFindings])
          else (Synced, c1 @ [Reconcile, RefreshFindings])))"

section \<open>Lemmas: evidence\<close>

lemma trim_to_lower [simp]: "trim_space (to_lower s) = to_lower (trim_space s)"
  by (simp add: to_lower_trim_space)

lemma normalizeKey_idem [simp]: "normalizeKey (normalizeKey s) = normalizeKey s"
  by (simp add: normalizeKey_def)

lemma normalize_provenance_idem: "normalize_provenance (normalize_provenance p) = normalize_provenance p"
  by (simp add: normalize_provenance_def)

lemma with_prov [simp]: "fact_prov (with_prov p f) = p"
  by (cases f) simp_all

text \<open>What a stored fact may claim: a valid provenance of its sink, with the evidence it has earned.\<close>

definition sound_provenance :: "string \<Rightarrow> string \<Rightarrow> provenance \<Rightarrow> bool" where
  "sound_provenance origin source p \<longleftrightarrow> provenance_errors p = [] \<and> pv_OriginKind p = origin \<and>
     pv_SourceIdentifier p = trim_space source \<and>
     pv_EvidenceLevel p = EffectiveEvidence origin (pv_SourceEvidenceLevel p) (pv_ReconciliationStatus p)"

text \<open>The contract of a sink: what passes its normalisation is sound for its origin and source.\<close>

locale ledger_sink =
  fixes prep :: "provenance \<Rightarrow> provenance_error list \<times> provenance"
    and origin :: string
    and source :: string
  assumes prep_sound: "prep p = ([], q) \<Longrightarrow> sound_provenance origin source q"
begin

lemma upsert_sound:
  assumes "list_all (\<lambda>f. sound_provenance origin source (fact_prov f)) store"
  shows "list_all (\<lambda>f. sound_provenance origin source (fact_prov f)) (snd (sink_upsert prep x store))"
  using assms prep_sound by (auto simp: sink_upsert_def split: prod.splits)

lemma upserts_sound:
  "list_all (\<lambda>f. sound_provenance origin source (fact_prov f)) store \<Longrightarrow>
   list_all (\<lambda>f. sound_provenance origin source (fact_prov f)) (fold (\<lambda>f st. snd (sink_upsert prep f st)) facts store)"
  by (induction facts arbitrary: store) (simp_all add: upsert_sound)

end

lemma stamped_sound:
  "NormalizeAndValidate (stamp origin source now p) = ([], q) \<Longrightarrow> sound_provenance origin source q"
  by (auto simp: NormalizeAndValidate_def Let_def sound_provenance_def stamp_def normalize_provenance_def)

interpretation connector_sink: ledger_sink "connector_normalize cid now" "''connector''" cid for cid now
  by unfold_locales (simp add: connector_normalize_def stamped_sound)

interpretation import_sink: ledger_sink "import_normalize src now" "''import''" src for src now
  by unfold_locales (simp add: import_normalize_def stamped_sound)

section \<open>Lemmas: reconciliation\<close>

lemma single_perm: "mset xs = mset ys \<Longrightarrow> xs = [x] \<longleftrightarrow> ys = [x]"
  by (metis mset_single_iff mset_single_iff_right)

lemma filter_single_perm: "mset xs = mset ys \<Longrightarrow> filter P xs = [x] \<longleftrightarrow> filter P ys = [x]"
  by (rule single_perm) (simp add: mset_filter)

lemma case_single:
  "(case xs of [u] \<Rightarrow> f u | _ \<Rightarrow> d) = (if \<exists>u. xs = [u] then f (hd xs) else d)"
  by (auto split: list.splits)

lemma case_single_perm:
  assumes "mset xs = mset ys"
  shows "(case filter P xs of [u] \<Rightarrow> f u | _ \<Rightarrow> d) = (case filter P ys of [u] \<Rightarrow> f u | _ \<Rightarrow> d)"
  using filter_single_perm[OF assms, of P] unfolding case_single by (auto, metis list.sel(1))

lemma reconcile_perm:
  assumes "mset us = mset vs"
  shows "reconcile_identity us i = reconcile_identity vs i"
  unfolding reconcile_identity_def byExternalID_def byEmail_def Let_def
  by (simp only: case_single_perm[OF assms])

section \<open>Lemmas: sync\<close>

lemma sync_attempts_bounded: "attempt \<le> 2 \<Longrightarrow> snd (sync_attempts adapter ended attempt) \<le> 3"
proof (induction adapter ended attempt rule: sync_attempts.induct)
  case (1 adapter ended attempt)
  show ?case
    using 1 by (subst sync_attempts.simps) (auto split: sum.split option.split simp del: sync_attempts.simps)
qed

lemma sync_attempts_last:
  "sync_attempts adapter ended a = (Inr c, n) \<Longrightarrow> adapter (n - 1) = Inr c \<and> a < n \<and> (\<forall>k. a \<le> k \<and> k < n - 1 \<longrightarrow> (\<exists>e. adapter k = Inl e \<and> retryableConnectorError e))"
proof (induction adapter ended a rule: sync_attempts.induct)
  case (1 adapter ended a)
  show ?case
  proof (cases "adapter a")
    case (Inr c')
    then show ?thesis using "1.prems" by (auto simp: sync_attempts.simps[of adapter ended a])
  next
    case (Inl err)
    with "1.prems" have go: "retryableConnectorError err" "\<not> 2 \<le> a" "ended a = None"
      and next_run: "sync_attempts adapter ended (a + 1) = (Inr c, n)"
      by (auto simp: sync_attempts.simps[of adapter ended a] split: if_splits option.splits)
    from "1.IH"[OF Inl _ _ next_run] go
    have IH: "adapter (n - 1) = Inr c" "a + 1 < n" "\<forall>k. a + 1 \<le> k \<and> k < n - 1 \<longrightarrow> (\<exists>e. adapter k = Inl e \<and> retryableConnectorError e)"
      by auto
    then show ?thesis using Inl go(1) by (metis Suc_eq_plus1 add_lessD1 le_eq_less_or_eq Suc_leI)
  qed
qed

lemma backoff_range: "minute \<le> backoffForFailures f \<and> backoffForFailures f \<le> 128 * minute"
proof -
  have "nat ((if 8 < (if f < 1 then 1 else f) then 8 else (if f < 1 then 1 else f)) - 1) \<in> {0..7}" by auto
  moreover have "(2::int) ^ k \<le> 2 ^ 7" if "k \<in> {0..7}" for k :: nat using that by (intro power_increasing) auto
  ultimately show ?thesis by (simp add: backoffForFailures_def Let_def minute_def second_def)
qed

lemma follow_checked: "list_all (\<lambda>u. validateURL hosts (Some u)) (follow hosts via hops) \<and> length (follow hosts via hops) \<le> 5 - via"
proof (induction hosts via hops rule: follow.induct)
  case (2 hosts via u hops)
  then show ?case by (cases "5 \<le> via \<or> \<not> validateURL hosts (Some u)") auto
qed simp

section \<open>Properties\<close>

text \<open>
  Evidence cannot be forged. Whatever facts a connector or an import writes, in any number and
  order and with any provenance filled in, everything that reaches the ledger has a valid provenance
  with the sink's own origin and source identifier, never the endpoint's, and the evidence level that
  its source and reconciliation status earn: reconciled only for a matched authoritative fact, and
  an estimate stays an estimate.
\<close>

theorem ledger_evidence_sound:
  "list_all (\<lambda>f. sound_provenance ''connector'' cid (fact_prov f) \<and> pv_OriginKind (fact_prov f) \<noteq> ''endpoint'' \<and>
       (pv_EvidenceLevel (fact_prov f) = ''reconciled'' \<longleftrightarrow>
          pv_SourceEvidenceLevel (fact_prov f) = ''authoritative'' \<and> pv_ReconciliationStatus (fact_prov f) = ''matched''))
     (fold (\<lambda>f st. snd (sink_upsert (connector_normalize cid now) f st)) facts []) \<and>
   list_all (\<lambda>f. sound_provenance ''import'' src (fact_prov f) \<and> pv_OriginKind (fact_prov f) \<noteq> ''endpoint'')
     (fold (\<lambda>f st. snd (sink_upsert (import_normalize src now) f st)) facts [])"
proof -
  have c: "list_all (\<lambda>f. sound_provenance ''connector'' cid (fact_prov f))
      (fold (\<lambda>f st. snd (sink_upsert (connector_normalize cid now) f st)) facts [])"
    by (rule connector_sink.upserts_sound) simp
  have i: "list_all (\<lambda>f. sound_provenance ''import'' src (fact_prov f))
      (fold (\<lambda>f st. snd (sink_upsert (import_normalize src now) f st)) facts [])"
    by (rule import_sink.upserts_sound) simp
  have own: "sound_provenance o' x p \<Longrightarrow> pv_OriginKind p = o'" for o' x p by (simp add: sound_provenance_def)
  have rec: "pv_EvidenceLevel p = ''reconciled'' \<longleftrightarrow> pv_SourceEvidenceLevel p = ''authoritative'' \<and> pv_ReconciliationStatus p = ''matched''"
    if "sound_provenance ''connector'' cid p" for p
    using that by (simp add: sound_provenance_def EffectiveEvidence_def)
  show ?thesis
    by (intro conjI list.pred_mono_strong[OF c] list.pred_mono_strong[OF i]) (simp_all add: own rec)
qed

text \<open>
  Reconciliation takes no sides. The matches do not depend on the order in which the directory
  lists its users; a match by external identifier means that exactly one user carries it, a match by
  address that no single user carries the identifier and exactly one has the address, and every other
  identity stays unmatched with no user.
\<close>

theorem reconciliation_unambiguous:
  assumes "mset users = mset users'"
  shows "ReconcileIdentities users ids = ReconcileIdentities users' ids \<and>
    (let m = reconcile_identity users i;
         ext = byExternalID users (external_key (ic_IdentitySourceKey i) (ic_ExternalID i));
         mail = byEmail users (NormalizeEmail (ic_NormalizedEmail i)) in
     if length ext = 1 then im_Status m = ''matched'' \<and> im_DirectoryUserID m = du_ID (hd ext)
     else if length mail = 1 then im_Status m = ''matched'' \<and> im_DirectoryUserID m = du_ID (hd mail)
     else im_Status m = ''unmatched'' \<and> im_DirectoryUserID m = [])"
proof
  show "ReconcileIdentities users ids = ReconcileIdentities users' ids"
    by (simp add: ReconcileIdentities_def reconcile_perm[OF assms])
  have one: "(length xs = 1) = (\<exists>u. xs = [u])" for xs :: "'a list" by (cases xs) auto
  have none: "byEmail users [] = []" by (simp add: byEmail_def)
  have mail: "NormalizeEmail (ic_NormalizedEmail i) \<noteq> []"
    if "byEmail users (NormalizeEmail (ic_NormalizedEmail i)) = [u]" for u
    using that none by auto
  show "let m = reconcile_identity users i;
         ext = byExternalID users (external_key (ic_IdentitySourceKey i) (ic_ExternalID i));
         mail = byEmail users (NormalizeEmail (ic_NormalizedEmail i)) in
     if length ext = 1 then im_Status m = ''matched'' \<and> im_DirectoryUserID m = du_ID (hd ext)
     else if length mail = 1 then im_Status m = ''matched'' \<and> im_DirectoryUserID m = du_ID (hd mail)
     else im_Status m = ''unmatched'' \<and> im_DirectoryUserID m = []"
    unfolding Let_def one reconcile_identity_def case_single using mail by auto
qed

text \<open>
  A device's activity is attributed to a user exactly when all assignments that cover the moment
  name that user and there is one; overlapping assignments to different users attribute it to nobody.
\<close>

theorem device_user_exact:
  "ResolveDeviceUser assignments deviceID observedAt = Some u \<longleftrightarrow>
     (\<exists>a\<in>set assignments. covers deviceID observedAt a) \<and>
     da_DirectoryUserID ` {a\<in>set assignments. covers deviceID observedAt a} = {u}"
proof -
  let ?us = "map da_DirectoryUserID (filter (covers deviceID observedAt) assignments)"
  have "(case remdups ?us of [v] \<Rightarrow> Some v | _ \<Rightarrow> None) = Some u \<longleftrightarrow> remdups ?us = [u]"
    by (auto split: list.splits)
  also have "\<dots> \<longleftrightarrow> set ?us = {u}"
  proof
    assume "set ?us = {u}"
    then have "set (remdups ?us) = {u}" "distinct (remdups ?us)" by simp_all
    then show "remdups ?us = [u]"
      by (metis distinct.simps(2) distinct_length_2_or_more insertI1 list.exhaust list.set_intros(1) list.set_intros(2) set_empty singletonD empty_not_insert)
  qed (metis list.set(1) list.simps(15) set_remdups)
  finally show ?thesis by (auto simp: ResolveDeviceUser_def)
qed


text \<open>
  A connector talks to its vendor only: of any chain of redirects, the requests that are sent go
  over HTTPS to hosts that the adapter's list allows, and there are at most five.
\<close>

theorem connector_egress_restricted:
  "length (follow hosts 0 hops) \<le> 5 \<and>
   list_all (\<lambda>u. ur_Scheme u = ''https'' \<and> (\<exists>a\<in>set (allowed_hosts hosts). host_allowed (to_lower (url_Hostname u)) a))
     (follow hosts 0 hops)"
proof -
  have "list_all (\<lambda>u. validateURL hosts (Some u)) (follow hosts 0 hops)" and "length (follow hosts 0 hops) \<le> 5"
    using follow_checked[of hosts 0 hops] by simp_all
  then show ?thesis by (simp add: validateURL_def list_all_iff list_ex_iff)
qed

section \<open>Concrete runs\<close>

definition sample_user :: "string \<Rightarrow> string \<Rightarrow> string \<Rightarrow> directory_user" where
  "sample_user i ext mail = \<lparr>du_ID = i, du_IdentitySourceKey = ''okta'', du_ExternalUserID = ext, du_NormalizedEmail = mail,
     du_Status = ''active''\<rparr>"

definition sample_identity :: "string \<Rightarrow> string \<Rightarrow> identity_candidate" where
  "sample_identity ext mail = \<lparr>ic_ID = ''i1'', ic_IdentitySourceKey = ''Okta'', ic_IdentityKind = ''user'', ic_ExternalID = ext,
     ic_NormalizedEmail = mail, ic_ProjectKey = []\<rparr>"

lemma reconciliation_unambiguous_witness:
  "ReconcileIdentities [sample_user ''u1'' ''7'' ''a@x'', sample_user ''u2'' ''8'' ''b@x''] [sample_identity ''9'' ''B@x ''] =
     ReconcileIdentities [sample_user ''u2'' ''8'' ''b@x'', sample_user ''u1'' ''7'' ''a@x''] [sample_identity ''9'' ''B@x ''] \<and>
   map im_DirectoryUserID (ReconcileIdentities [sample_user ''u1'' ''7'' ''a@x'', sample_user ''u2'' ''8'' ''b@x''] [sample_identity ''9'' ''B@x '']) = [''u2'']"
proof
  have "mset [sample_user ''u1'' ''7'' ''a@x'', sample_user ''u2'' ''8'' ''b@x''] = mset [sample_user ''u2'' ''8'' ''b@x'', sample_user ''u1'' ''7'' ''a@x'']"
    by (simp add: add_mset_commute)
  from reconciliation_unambiguous[OF this]
  show "ReconcileIdentities [sample_user ''u1'' ''7'' ''a@x'', sample_user ''u2'' ''8'' ''b@x''] [sample_identity ''9'' ''B@x ''] =
     ReconcileIdentities [sample_user ''u2'' ''8'' ''b@x'', sample_user ''u1'' ''7'' ''a@x''] [sample_identity ''9'' ''B@x '']" by (rule conjunct1)
  show "map im_DirectoryUserID (ReconcileIdentities [sample_user ''u1'' ''7'' ''a@x'', sample_user ''u2'' ''8'' ''b@x''] [sample_identity ''9'' ''B@x '']) = [''u2'']"
    by code_simp
qed

text \<open>
  An identity without an external identifier is matched to the user whose own is blank but not empty:
  the test for emptiness comes before the trimming.
\<close>

lemma blank_external_id_matches:
  "im_MatchMethod (reconcile_identity [sample_user ''u1'' '' '' []] (sample_identity [] [])) = ''external_id''"
  by code_simp


end
