(* ===== verification/Ledger_Findings.thy ===== *)
theory Ledger_Findings
  imports AI_Ledger "HOL-Library.Product_Lexorder"
begin

text \<open>
  The insights of the AI ledger (\<^verbatim>\<open>src/backend/internal/ailedger/findings.go\<close>): from a snapshot of products,
  users, seats, activity and cost to a sorted list of findings.

  Amounts are reals. A date is the number of its day, which \<^verbatim>\<open>Format("2006-01-02")\<close> of a UTC time
  determines. Maps are association lists with the last value per key; where the code ranges over a
  map, the order is a parameter (\<open>map_orders\<close>), a permutation of the entries. The final \<^verbatim>\<open>sort.Slice\<close>
  is a parameter under \<open>slice_sort\<close>. Keys that contain a NUL are outside the model.
\<close>

section \<open>Data\<close>

record finding_product =
  fp_VendorKey :: string
  fp_ProductKey :: string
  fp_DisplayName :: string
  fp_FunctionalCategory :: string
  fp_Approved :: bool
  fp_HasContract :: bool
  fp_HasBillingSource :: bool

record finding_seat =
  fs_LicenseKey :: string
  fs_VendorKey :: string
  fs_ProductKey :: string
  fs_DirectoryUserID :: string
  fs_Paid :: bool
  fs_Status :: string
  fs_SourceKey :: string

record finding_activity =
  fa_VendorKey :: string
  fa_ProductKey :: string
  fa_DirectoryUserID :: string
  fa_ProjectKey :: string
  fa_OriginKind :: string
  fa_IsActivity :: bool
  fa_ObservedAt :: time
  fa_SourceKey :: string

record finding_cost =
  fc_VendorKey :: string
  fc_ProductKey :: string
  fc_DirectoryUserID :: string
  fc_ProjectKey :: string
  fc_TeamKey :: string
  fc_Amount :: real
  fc_Currency :: string
  fc_Day :: time
  fc_SourceEvidence :: string
  fc_SourceKey :: string

record finding_snapshot =
  sn_Products :: "finding_product list"
  sn_Users :: "directory_user list"
  sn_Seats :: "finding_seat list"
  sn_Activities :: "finding_activity list"
  sn_Costs :: "finding_cost list"

record finding =
  fi_Key :: string
  fi_Type :: string
  fi_Severity :: string
  fi_Title :: string
  fi_Summary :: string
  fi_Recommendation :: string
  fi_VendorKey :: string
  fi_ProductKey :: string
  fi_DirectoryUserID :: string
  fi_Currency :: string
  fi_Amount :: real
  fi_EvidenceSourceKeys :: "string list"

abbreviation FindingInactivePaidSeat :: string where "FindingInactivePaidSeat \<equiv> ''inactive_paid_seat''"
abbreviation FindingOrphanedSeat :: string where "FindingOrphanedSeat \<equiv> ''orphaned_seat''"
abbreviation FindingShadowAI :: string where "FindingShadowAI \<equiv> ''shadow_ai''"
abbreviation FindingUnpricedAI :: string where "FindingUnpricedAI \<equiv> ''unpriced_ai''"
abbreviation FindingOverlappingSeats :: string where "FindingOverlappingSeats \<equiv> ''overlapping_seats''"
abbreviation FindingSpendSpike :: string where "FindingSpendSpike \<equiv> ''spend_spike''"
abbreviation FindingUnattributedSpend :: string where "FindingUnattributedSpend \<equiv> ''unattributed_spend''"
abbreviation FindingCoverageGap :: string where "FindingCoverageGap \<equiv> ''connector_activity_coverage_gap''"

text \<open>The wording of a finding: severity, title, summary and recommendation of its type.\<close>

definition finding_wording :: "string \<Rightarrow> string \<times> string \<times> string \<times> string" where
  "finding_wording t =
    (if t = FindingOrphanedSeat then (''important'', ''Orphaned paid AI seat'',
       ''A paid seat is assigned to a suspended or deleted directory user.'',
       ''Review the assignment and reclaim the seat if it is no longer required.'')
     else if t = FindingInactivePaidSeat then (''review'', ''Inactive paid AI seat'',
       ''No endpoint or non-cost connector activity was recorded for this assigned paid seat in 30 days.'',
       ''Confirm business need before changing or removing the license.'')
     else if t = FindingShadowAI then (''important'', ''Unapproved AI product observed'',
       ''Endpoint activity confirms use of a product absent from the approved catalog.'',
       ''Review the product for approval, consolidation, or employee guidance.'')
     else if t = FindingUnpricedAI then (''review'', ''AI usage has no pricing source'',
       ''Endpoint activity is present without a contract, license, or billing source.'',
       ''Connect or import an authoritative commercial source for cost accountability.'')
     else if t = FindingOverlappingSeats then (''review'', ''Overlapping actively used AI seats'', [],
       ''Review whether all actively used seats are necessary; preserve workflow needs before consolidation.'')
     else if t = FindingUnattributedSpend then (''important'', ''Authoritative AI spend is unattributed'',
       ''A source total cannot be matched to a known project, team, or employee.'',
       ''Review source coverage or project/account mappings without manufacturing a per-user allocation.'')
     else if t = FindingSpendSpike then (''important'', ''AI spend increased sharply'',
       ''The seven-day daily average exceeds 150% of the preceding 28-day average with at least a 50-unit daily increase.'',
       ''Review the authoritative billing source and usage drivers before taking commercial action.'')
     else (''review'', ''Connector activity lacks endpoint confirmation'',
       ''Authoritative non-cost connector usage has no matching endpoint observation.'',
       ''Review endpoint coverage, device assignment, and identity mapping. Keep connector activity separate.''))"

section \<open>Helpers\<close>

definition productKey :: "string \<Rightarrow> string \<Rightarrow> string" where
  "productKey vendor product = normalizeKey vendor @ ''/'' @ normalizeKey product"

definition stableFindingKey :: "string \<Rightarrow> string \<Rightarrow> string" where
  "stableFindingKey kind subject = kind @ '':'' @ trim_space subject"

definition cleanEvidence :: "string list \<Rightarrow> string list" where
  "cleanEvidence values = sorted_keys (filter (\<lambda>v. v \<noteq> []) (map trim_space values))"

definition make_finding :: "string \<Rightarrow> string \<Rightarrow> string list \<Rightarrow> finding" where
  "make_finding t subject evidence =
    (case finding_wording t of
       (sev, title, summary, rec) \<Rightarrow>
        \<lparr>fi_Key = stableFindingKey t subject, fi_Type = t, fi_Severity = sev, fi_Title = title, fi_Summary = summary,
         fi_Recommendation = rec, fi_VendorKey = [], fi_ProductKey = [], fi_DirectoryUserID = [], fi_Currency = [],
         fi_Amount = 0, fi_EvidenceSourceKeys = cleanEvidence evidence\<rparr>)"

definition map_put :: "'k \<Rightarrow> 'v \<Rightarrow> ('k \<times> 'v) list \<Rightarrow> ('k \<times> 'v) list" where
  "map_put k v m = filter (\<lambda>(k', _). k' \<noteq> k) m @ [(k, v)]"

definition day_length :: duration where
  "day_length = 24 * 3600 * second"

definition day_of :: "time \<Rightarrow> int" where
  "day_of t = t div day_length"

text \<open>Go's zero values for a missing product and user.\<close>

definition lookup_product :: "finding_product list \<Rightarrow> string \<Rightarrow> finding_product" where
  "lookup_product ps key =
    (case map_of (map (\<lambda>p. (productKey (fp_VendorKey p) (fp_ProductKey p), p)) (rev ps)) key of
       Some p \<Rightarrow> p
     | None \<Rightarrow> \<lparr>fp_VendorKey = [], fp_ProductKey = [], fp_DisplayName = [], fp_FunctionalCategory = [], fp_Approved = False,
         fp_HasContract = False, fp_HasBillingSource = False\<rparr>)"

definition user_status :: "directory_user list \<Rightarrow> string \<Rightarrow> string" where
  "user_status us i = (case map_of (map (\<lambda>u. (du_ID u, du_Status u)) (rev us)) i of Some s \<Rightarrow> s | None \<Rightarrow> [])"

definition activeSeats :: "finding_seat list \<Rightarrow> (string \<times> finding_seat) list" where
  "activeSeats seats = fold (\<lambda>s. map_put (fs_LicenseKey s) s) (filter (\<lambda>s. fs_Paid s \<and> fs_Status s = ''assigned'') seats) []"

section \<open>The findings\<close>

definition hasUsage :: "finding_activity list \<Rightarrow> time \<Rightarrow> string \<Rightarrow> string \<Rightarrow> string \<Rightarrow> bool" where
  "hasUsage activities recent userID vendor product =
     list_ex (\<lambda>a. fa_IsActivity a \<and> recent \<le> fa_ObservedAt a \<and> fa_DirectoryUserID a = userID \<and>
       fa_VendorKey a = vendor \<and> fa_ProductKey a = product) activities"

definition seat_finding :: "string \<Rightarrow> finding_seat \<Rightarrow> finding" where
  "seat_finding t s = (make_finding t (fs_LicenseKey s) [fs_SourceKey s])
     \<lparr>fi_VendorKey := fs_VendorKey s, fi_ProductKey := fs_ProductKey s, fi_DirectoryUserID := fs_DirectoryUserID s\<rparr>"

definition seat_findings :: "finding_snapshot \<Rightarrow> time \<Rightarrow> finding_seat \<Rightarrow> finding list" where
  "seat_findings sn recent s =
    (if user_status (sn_Users sn) (fs_DirectoryUserID s) \<in> set [''suspended'', ''deleted''] then [seat_finding FindingOrphanedSeat s] else []) @
    (if \<not> hasUsage (sn_Activities sn) recent (fs_DirectoryUserID s) (fs_VendorKey s) (fs_ProductKey s)
     then [seat_finding FindingInactivePaidSeat s] else [])"

definition hasLicense :: "finding_seat list \<Rightarrow> finding_activity \<Rightarrow> bool" where
  "hasLicense seats a = list_ex (\<lambda>s. fs_VendorKey s = fa_VendorKey a \<and> fs_ProductKey s = fa_ProductKey a) seats"

definition product_finding :: "string \<Rightarrow> finding_activity \<Rightarrow> finding" where
  "product_finding t a = (make_finding t (productKey (fa_VendorKey a) (fa_ProductKey a)) [fa_SourceKey a])
     \<lparr>fi_VendorKey := fa_VendorKey a, fi_ProductKey := fa_ProductKey a\<rparr>"

definition activity_key :: "finding_activity \<Rightarrow> string" where
  "activity_key a = productKey (fa_VendorKey a) (fa_ProductKey a)"

definition from_endpoint :: "finding_activity \<Rightarrow> bool" where
  "from_endpoint a = (fa_OriginKind a = ''endpoint'' \<and> fa_IsActivity a)"

fun product_findings :: "finding_snapshot \<Rightarrow> string list \<Rightarrow> finding_activity list \<Rightarrow> finding list" where
  "product_findings sn seen [] = []"
| "product_findings sn seen (a # as) =
    (if \<not> from_endpoint a then product_findings sn seen as
     else
       let key = activity_key a; product = lookup_product (sn_Products sn) key;
           shadow = (\<not> fp_Approved product \<and> FindingShadowAI @ key \<notin> set seen);
           seen1 = (if shadow then (FindingShadowAI @ key) # seen else seen);
           unpriced = (\<not> fp_HasContract product \<and> \<not> fp_HasBillingSource product \<and> \<not> hasLicense (sn_Seats sn) a \<and>
             FindingUnpricedAI @ key \<notin> set seen1);
           seen2 = (if unpriced then (FindingUnpricedAI @ key) # seen1 else seen1) in
       (if shadow then [product_finding FindingShadowAI a] else []) @
       (if unpriced then [product_finding FindingUnpricedAI a] else []) @ product_findings sn seen2 as)"

text \<open>Overlap: per user and category, the products used with a paid seat and the evidence, in order.\<close>

definition overlap_category :: "finding_snapshot \<Rightarrow> finding_activity \<Rightarrow> string" where
  "overlap_category sn a = trim_space (fp_FunctionalCategory (lookup_product (sn_Products sn) (activity_key a)))"

definition overlap_counts :: "finding_snapshot \<Rightarrow> time \<Rightarrow> finding_activity \<Rightarrow> bool" where
  "overlap_counts sn recent a =
    (from_endpoint a \<and> fa_DirectoryUserID a \<noteq> [] \<and> recent \<le> fa_ObservedAt a \<and>
     overlap_category sn a \<notin> set [[], ''unknown''] \<and>
     list_ex (\<lambda>(_, s). fs_DirectoryUserID s = fa_DirectoryUserID a \<and> fs_VendorKey s = fa_VendorKey a \<and>
       fs_ProductKey s = fa_ProductKey a) (activeSeats (sn_Seats sn)))"

definition overlap_put :: "finding_snapshot \<Rightarrow> finding_activity \<Rightarrow> (string \<times> string list \<times> string list) list \<Rightarrow> (string \<times> string list \<times> string list) list" where
  "overlap_put sn a m =
    (let key = fa_DirectoryUserID a @ [nul] @ overlap_category sn a;
         (ps, ev) = (case map_of m key of Some x \<Rightarrow> x | None \<Rightarrow> ([], [])) in
     map_put key (List.insert (activity_key a) ps, ev @ [fa_SourceKey a]) m)"

definition overlap_groups :: "finding_snapshot \<Rightarrow> time \<Rightarrow> (string \<times> string list \<times> string list) list" where
  "overlap_groups sn recent = fold (overlap_put sn) (filter (overlap_counts sn recent) (sn_Activities sn)) []"

definition overlap_finding :: "string \<times> string list \<times> string list \<Rightarrow> finding list" where
  "overlap_finding g =
    (case g of
       (key, ps, ev) \<Rightarrow>
        if length ps < 2 then []
        else let parts = cut_at nul key in
          [(make_finding FindingOverlappingSeats key ev)
            \<lparr>fi_Summary := ''The employee actively uses '' @ nat_str (length ps) @ '' paid products in the '' @ snd parts @ '' category.'',
             fi_DirectoryUserID := fst parts\<rparr>])"

definition to_upper :: "string \<Rightarrow> string" where
  "to_upper s = map upper_char s"

definition unattributed :: "finding_cost \<Rightarrow> bool" where
  "unattributed c = (fc_SourceEvidence c = ''authoritative'' \<and> fc_DirectoryUserID c = [] \<and> fc_ProjectKey c = [] \<and> fc_TeamKey c = [])"

definition unattributed_finding :: "finding_cost \<Rightarrow> finding" where
  "unattributed_finding c = (make_finding FindingUnattributedSpend (fc_SourceKey c) [fc_SourceKey c])
     \<lparr>fi_VendorKey := fc_VendorKey c, fi_ProductKey := fc_ProductKey c, fi_Currency := fc_Currency c, fi_Amount := fc_Amount c\<rparr>"

definition spend_key :: "finding_cost \<Rightarrow> string" where
  "spend_key c = productKey (fc_VendorKey c) (fc_ProductKey c) @ [nul] @ to_upper (fc_Currency c)"

definition spend_groups :: "finding_cost list \<Rightarrow> string list" where
  "spend_groups costs = map fst (fold (\<lambda>c m. if map_of m (spend_key c) = None then m @ [(spend_key c, ())] else m) costs [])"

definition spend_on :: "finding_cost list \<Rightarrow> string \<Rightarrow> int \<Rightarrow> real" where
  "spend_on costs key d = sum_list (map fc_Amount (filter (\<lambda>c. spend_key c = key \<and> day_of (fc_Day c) = d) costs))"

definition recent_average :: "finding_cost list \<Rightarrow> string \<Rightarrow> int \<Rightarrow> real" where
  "recent_average costs key today = sum_list (map (\<lambda>i. spend_on costs key (today - i)) [1..7]) / 7"

definition baseline_average :: "finding_cost list \<Rightarrow> string \<Rightarrow> int \<Rightarrow> real" where
  "baseline_average costs key today = sum_list (map (\<lambda>i. spend_on costs key (today - i)) [8..35]) / 28"

definition spike_finding :: "finding_cost list \<Rightarrow> time \<Rightarrow> string \<Rightarrow> finding list" where
  "spike_finding costs now key =
    (let r = recent_average costs key (day_of now); b = baseline_average costs key (day_of now);
         parts = cut_at nul key; product = cut_at (CHR ''/'') (fst parts) in
     if r \<le> b * (3 / 2) \<or> r - b < 50 then []
     else [(make_finding FindingSpendSpike key (map fc_SourceKey (filter (\<lambda>c. spend_key c = key) costs)))
       \<lparr>fi_VendorKey := fst product, fi_ProductKey := snd product, fi_Currency := snd parts, fi_Amount := r - b\<rparr>])"

definition spendFindings :: "(string list \<Rightarrow> string list) \<Rightarrow> finding_cost list \<Rightarrow> time \<Rightarrow> finding list" where
  "spendFindings order costs now =
     map unattributed_finding (filter unattributed costs) @
     concat (map (spike_finding costs now) (order (spend_groups costs)))"

definition endpoint_confirms :: "finding_activity list \<Rightarrow> finding_activity \<Rightarrow> bool" where
  "endpoint_confirms activities c =
     list_ex (\<lambda>e. from_endpoint e \<and> fa_VendorKey e = fa_VendorKey c \<and> fa_ProductKey e = fa_ProductKey c \<and>
       fa_DirectoryUserID e \<noteq> [] \<and> fa_DirectoryUserID e = fa_DirectoryUserID c) activities"

definition gap_finding :: "finding_activity \<Rightarrow> finding" where
  "gap_finding c = (make_finding FindingCoverageGap (fa_SourceKey c) [fa_SourceKey c])
     \<lparr>fi_VendorKey := fa_VendorKey c, fi_ProductKey := fa_ProductKey c, fi_DirectoryUserID := fa_DirectoryUserID c\<rparr>"

definition coverageGapFindings :: "finding_activity list \<Rightarrow> finding list" where
  "coverageGapFindings activities =
     map gap_finding (filter (\<lambda>c. fa_OriginKind c = ''connector'' \<and> fa_IsActivity c \<and> \<not> endpoint_confirms activities c) activities)"

record map_orders =
  mo_seats :: "(string \<times> finding_seat) list \<Rightarrow> (string \<times> finding_seat) list"
  mo_overlap :: "(string \<times> string list \<times> string list) list \<Rightarrow> (string \<times> string list \<times> string list) list"
  mo_spend :: "string list \<Rightarrow> string list"

definition collect_findings :: "map_orders \<Rightarrow> finding_snapshot \<Rightarrow> time \<Rightarrow> finding list" where
  "collect_findings ord sn now =
    (let recent = now - 30 * day_length in
     concat (map (\<lambda>(_, s). seat_findings sn recent s) (mo_seats ord (activeSeats (sn_Seats sn)))) @
     product_findings sn [] (sn_Activities sn) @
     concat (map overlap_finding (mo_overlap ord (overlap_groups sn recent))) @
     spendFindings (mo_spend ord) (sn_Costs sn) now @
     coverageGapFindings (sn_Activities sn))"

definition EvaluateFindings :: "(finding list \<Rightarrow> finding list) \<Rightarrow> map_orders \<Rightarrow> time \<Rightarrow> finding_snapshot \<Rightarrow> time \<Rightarrow> finding list" where
  "EvaluateFindings sorter ord clock sn now0 =
    (let now = (if now0 = 0 then clock else now0) in sorter (collect_findings ord sn now))"

section \<open>What the findings should be\<close>

definition finding_order :: "finding \<Rightarrow> string \<times> string" where
  "finding_order f = (fi_Type f, fi_Key f)"

definition of_type :: "string \<Rightarrow> finding list \<Rightarrow> finding list" where
  "of_type t = filter (\<lambda>f. fi_Type f = t)"

text \<open>The first element of each key.\<close>

fun firsts_by :: "('a \<Rightarrow> 'k) \<Rightarrow> 'k list \<Rightarrow> 'a list \<Rightarrow> 'a list" where
  "firsts_by key seen [] = []"
| "firsts_by key seen (x # xs) =
    (if key x \<in> set seen then firsts_by key seen xs else x # firsts_by key (key x # seen) xs)"

definition unapproved_use :: "finding_snapshot \<Rightarrow> finding_activity \<Rightarrow> bool" where
  "unapproved_use sn a = (from_endpoint a \<and> \<not> fp_Approved (lookup_product (sn_Products sn) (activity_key a)))"

definition unpriced_use :: "finding_snapshot \<Rightarrow> finding_activity \<Rightarrow> bool" where
  "unpriced_use sn a =
    (let p = lookup_product (sn_Products sn) (activity_key a) in
     from_endpoint a \<and> \<not> fp_HasContract p \<and> \<not> fp_HasBillingSource p \<and> \<not> hasLicense (sn_Seats sn) a)"

text \<open>A seat in use is the last paid and assigned row of its license.\<close>

definition current_seats :: "finding_seat list \<Rightarrow> finding_seat set" where
  "current_seats seats =
     {s. map_of (rev (map (\<lambda>s. (fs_LicenseKey s, s)) (filter (\<lambda>s. fs_Paid s \<and> fs_Status s = ''assigned'') seats)))
           (fs_LicenseKey s) = Some s}"

definition spike_of :: "finding_cost list \<Rightarrow> time \<Rightarrow> string \<Rightarrow> bool" where
  "spike_of costs now key =
    (let r = recent_average costs key (day_of now); b = baseline_average costs key (day_of now) in
     key \<in> spend_key ` set costs \<and> b * (3 / 2) < r \<and> 50 \<le> r - b)"

text \<open>Ranging over a map visits each entry once, in an order the code does not control.\<close>

definition fair_orders :: "map_orders \<Rightarrow> bool" where
  "fair_orders ord \<longleftrightarrow> (\<forall>xs. mset (mo_seats ord xs) = mset xs) \<and> (\<forall>xs. mset (mo_overlap ord xs) = mset xs) \<and>
     (\<forall>xs. mset (mo_spend ord xs) = mset xs)"

definition in_order :: map_orders where
  "in_order = \<lparr>mo_seats = (\<lambda>xs. xs), mo_overlap = (\<lambda>xs. xs), mo_spend = (\<lambda>xs. xs)\<rparr>"

section \<open>Lemmas\<close>

lemma fair_in_order: "fair_orders in_order"
  by (simp add: fair_orders_def in_order_def)

lemma mset_concat_map_perm:
  assumes "mset xs = mset ys"
  shows "mset (concat (map f xs)) = mset (concat (map f ys))"
proof -
  have "mset (concat (map f zs)) = \<Sum>\<^sub># (image_mset (\<lambda>x. mset (f x)) (mset zs))" for zs
    by (induction zs) simp_all
  with assms show ?thesis by simp
qed

lemma collect_perm:
  assumes "fair_orders ord"
  shows "mset (collect_findings ord sn now) = mset (collect_findings in_order sn now)"
proof -
  have "mset (mo_seats ord xs) = mset xs" and "mset (mo_overlap ord ys) = mset ys" and "mset (mo_spend ord zs) = mset zs"
    for xs ys zs using assms by (simp_all add: fair_orders_def)
  note perms = this[THEN mset_concat_map_perm]
  show ?thesis by (simp add: collect_findings_def spendFindings_def in_order_def Let_def perms)
qed

lemma sorted_by_unique:
  assumes "mset xs = mset ys" and "sorted (map k xs)" and "sorted (map k ys)" and "distinct (map k xs)"
  shows "xs = ys"
proof -
  have "mset (map k xs) = mset (map k ys)" using assms(1) by simp
  then have "map k xs = map k ys" using assms(2,3) by (metis properties_for_sort sorted_sort_id)
  moreover have "set xs = set ys" using assms(1) by (metis set_mset_mset)
  ultimately show ?thesis using assms(4) by (simp add: inj_on_map_eq_map distinct_map)
qed

lemma of_type_simps [simp]:
  "of_type t [] = []" "of_type t (f # fs) = (if fi_Type f = t then f # of_type t fs else of_type t fs)"
  "of_type t (xs @ ys) = of_type t xs @ of_type t ys"
  by (simp_all add: of_type_def)

lemma of_type_concat: "of_type t (concat xss) = concat (map (of_type t) xss)"
  by (induction xss) simp_all

lemma finding_types [simp]:
  "fi_Type (make_finding t s e) = t" "fi_Type (seat_finding t s') = t" "fi_Type (product_finding t a) = t"
  "fi_Type (unattributed_finding c) = FindingUnattributedSpend" "fi_Type (gap_finding a) = FindingCoverageGap"
  by (simp_all add: make_finding_def seat_finding_def product_finding_def unattributed_finding_def gap_finding_def split: prod.split)

lemma of_type_other:
  "(\<And>f. f \<in> set fs \<Longrightarrow> fi_Type f \<noteq> t) \<Longrightarrow> of_type t fs = []"
  by (simp add: of_type_def filter_empty_conv)

lemma overlap_type: "f \<in> set (overlap_finding g) \<Longrightarrow> fi_Type f = FindingOverlappingSeats"
  by (auto simp: overlap_finding_def Let_def split: prod.splits if_splits)

lemma spike_type: "f \<in> set (spike_finding costs now key) \<Longrightarrow> fi_Type f = FindingSpendSpike"
  by (auto simp: spike_finding_def Let_def split: if_splits)

lemma seat_type: "f \<in> set (seat_findings sn r s) \<Longrightarrow> fi_Type f \<in> {FindingOrphanedSeat, FindingInactivePaidSeat}"
  by (auto simp: seat_findings_def split: if_splits)

lemma product_type: "f \<in> set (product_findings sn seen as) \<Longrightarrow> fi_Type f \<in> {FindingShadowAI, FindingUnpricedAI}"
  by (induction sn seen as rule: product_findings.induct) (auto simp: Let_def split: if_splits)

text \<open>The two sorts of product finding share one set of seen keys but never meet in it.\<close>

definition tag :: "string \<Rightarrow> finding_activity \<Rightarrow> string" where
  "tag t a = t @ activity_key a"

lemma tag_eq:
  "tag t a = tag t b \<longleftrightarrow> activity_key a = activity_key b"
  "tag FindingShadowAI a \<noteq> tag FindingUnpricedAI b" "tag FindingUnpricedAI a \<noteq> tag FindingShadowAI b"
  by (simp_all add: tag_def)

definition seen_if :: "bool \<Rightarrow> string \<Rightarrow> string list \<Rightarrow> string list" where
  "seen_if c k seen = (if c then k # seen else seen)"

lemma set_seen_if: "x \<in> set (seen_if c k seen) \<longleftrightarrow> c \<and> x = k \<or> x \<in> set seen"
  by (simp add: seen_if_def)

lemma product_findings_step:
  fixes sn seen a
  defines "shadow \<equiv> unapproved_use sn a \<and> tag FindingShadowAI a \<notin> set seen"
    and "unpriced \<equiv> unpriced_use sn a \<and> tag FindingUnpricedAI a \<notin> set seen"
  shows "product_findings sn seen (a # as) =
    (if shadow then [product_finding FindingShadowAI a] else []) @
    (if unpriced then [product_finding FindingUnpricedAI a] else []) @
    product_findings sn (seen_if unpriced (tag FindingUnpricedAI a) (seen_if shadow (tag FindingShadowAI a) seen)) as"
proof (cases "from_endpoint a")
  case True
  have "tag FindingUnpricedAI a \<in> set (if shadow then tag FindingShadowAI a # seen else seen) \<longleftrightarrow> tag FindingUnpricedAI a \<in> set seen"
    by (simp add: tag_eq)
  with True show ?thesis
    unfolding product_findings.simps Let_def tag_def[symmetric]
    by (simp add: Let_def shadow_def unpriced_def unapproved_use_def unpriced_use_def seen_if_def tag_eq)
next
  case False
  then show ?thesis by (simp add: shadow_def unpriced_def unapproved_use_def unpriced_use_def Let_def seen_if_def)
qed

lemma types_apart: "FindingShadowAI \<noteq> FindingUnpricedAI" "FindingUnpricedAI \<noteq> FindingShadowAI"
  by simp_all

lemma product_parts:
  "(\<And>b. tag FindingShadowAI b \<in> set seen \<longleftrightarrow> activity_key b \<in> set keys) \<Longrightarrow>
   (\<And>b. tag FindingUnpricedAI b \<in> set seen \<longleftrightarrow> activity_key b \<in> set keys') \<Longrightarrow>
   of_type FindingShadowAI (product_findings sn seen as) =
     map (product_finding FindingShadowAI) (firsts_by activity_key keys (filter (unapproved_use sn) as)) \<and>
   of_type FindingUnpricedAI (product_findings sn seen as) =
     map (product_finding FindingUnpricedAI) (firsts_by activity_key keys' (filter (unpriced_use sn) as))"
proof (induction as arbitrary: seen keys keys')
  case (Cons a as)
  define shadow where "shadow \<longleftrightarrow> unapproved_use sn a \<and> activity_key a \<notin> set keys"
  define unpriced where "unpriced \<longleftrightarrow> unpriced_use sn a \<and> activity_key a \<notin> set keys'"
  define seen' where "seen' = seen_if unpriced (tag FindingUnpricedAI a) (seen_if shadow (tag FindingShadowAI a) seen)"
  have step: "product_findings sn seen (a # as) = (if shadow then [product_finding FindingShadowAI a] else []) @
      (if unpriced then [product_finding FindingUnpricedAI a] else []) @ product_findings sn seen' as"
    using product_findings_step[of sn seen a as] Cons.prems by (simp only: shadow_def unpriced_def seen'_def)
  have "of_type FindingShadowAI (product_findings sn seen' as) =
      map (product_finding FindingShadowAI) (firsts_by activity_key (seen_if shadow (activity_key a) keys) (filter (unapproved_use sn) as)) \<and>
    of_type FindingUnpricedAI (product_findings sn seen' as) =
      map (product_finding FindingUnpricedAI) (firsts_by activity_key (seen_if unpriced (activity_key a) keys') (filter (unpriced_use sn) as))"
    by (rule Cons.IH; unfold seen'_def set_seen_if; simp only: tag_eq Cons.prems set_seen_if simp_thms)
  then show ?case unfolding step of_type_simps
    by (simp add: types_apart seen_if_def shadow_def unpriced_def)
qed simp

lemma map_put_lookup: "map_of (map_put k v m) k' = (if k' = k then Some v else map_of m k')"
  by (induction m) (auto simp: map_put_def)

lemma map_put_keys: "distinct (map fst m) \<Longrightarrow> distinct (map fst (map_put k v m))"
  by (induction m) (auto simp: map_put_def)

lemma fold_map_put:
  assumes "distinct (map fst m)"
  shows "distinct (map fst (fold (\<lambda>s. map_put (key s) s) xs m)) \<and>
    map_of (fold (\<lambda>s. map_put (key s) s) xs m) = map_of m ++ map_of (rev (map (\<lambda>s. (key s, s)) xs))"
  using assms
proof (induction xs arbitrary: m)
  case (Cons x xs)
  from Cons.IH[OF map_put_keys[OF Cons.prems]] show ?case
    by (auto simp: fun_eq_iff map_put_lookup map_add_def split: option.splits)
qed simp

lemma activeSeats_current: "snd ` set (activeSeats seats) = current_seats seats"
proof -
  let ?xs = "filter (\<lambda>s. fs_Paid s \<and> fs_Status s = ''assigned'') seats"
  let ?m = "map_of (rev (map (\<lambda>s. (fs_LicenseKey s, s)) ?xs))"
  have d: "distinct (map fst (activeSeats seats))" and m: "map_of (activeSeats seats) = ?m"
    using fold_map_put[of "[]" fs_LicenseKey ?xs] by (simp_all add: activeSeats_def)
  have mem: "(k, s) \<in> set (activeSeats seats) \<longleftrightarrow> ?m k = Some s" for k s
    using d m by (metis map_of_eq_Some_iff)
  have own: "?m k = Some s \<Longrightarrow> k = fs_LicenseKey s" for k s by (auto dest!: map_of_SomeD)
  show ?thesis
  proof (rule set_eqI)
    fix s
    have "s \<in> snd ` set (activeSeats seats) \<longleftrightarrow> (\<exists>k. (k, s) \<in> set (activeSeats seats))" by force
    also have "\<dots> \<longleftrightarrow> ?m (fs_LicenseKey s) = Some s" unfolding mem using own by blast
    finally show "s \<in> snd ` set (activeSeats seats) \<longleftrightarrow> s \<in> current_seats seats" by (simp only: current_seats_def mem_Collect_eq)
  qed
qed

lemma seat_part:
  "set (of_type FindingOrphanedSeat (concat (map (\<lambda>(_, s). seat_findings sn r s) (activeSeats (sn_Seats sn))))) =
     seat_finding FindingOrphanedSeat ` {s \<in> current_seats (sn_Seats sn).
       user_status (sn_Users sn) (fs_DirectoryUserID s) \<in> {''suspended'', ''deleted''}}"
  "set (of_type FindingInactivePaidSeat (concat (map (\<lambda>(_, s). seat_findings sn r s) (activeSeats (sn_Seats sn))))) =
     seat_finding FindingInactivePaidSeat ` {s \<in> current_seats (sn_Seats sn).
       \<not> hasUsage (sn_Activities sn) r (fs_DirectoryUserID s) (fs_VendorKey s) (fs_ProductKey s)}"
  unfolding activeSeats_current[symmetric] of_type_concat
  by (force simp: seat_findings_def split: if_splits prod.splits)+

lemma spend_groups_keys: "set (spend_groups costs) = spend_key ` set costs"
proof -
  have "fst ` set (fold (\<lambda>c m. if map_of m (spend_key c) = None then m @ [(spend_key c, ())] else m) costs m) =
      fst ` set m \<union> spend_key ` set costs" for m
    by (induction costs arbitrary: m) (auto simp: map_of_eq_None_iff)
  from this[of "[]"] show ?thesis by (simp add: spend_groups_def)
qed

lemma spike_keys:
  "(\<lambda>f. (fi_Key f, fi_Amount f)) ` set (concat (map (spike_finding costs now) (spend_groups costs))) =
   {(stableFindingKey FindingSpendSpike key,
     recent_average costs key (day_of now) - baseline_average costs key (day_of now)) | key. spike_of costs now key}"
proof -
  have key: "fi_Key (make_finding t s e) = stableFindingKey t s" for t s e by (simp add: make_finding_def split: prod.split)
  have one: "(\<lambda>f. (fi_Key f, fi_Amount f)) ` set (spike_finding costs now k) =
      (if baseline_average costs k (day_of now) * (3 / 2) < recent_average costs k (day_of now) \<and>
          50 \<le> recent_average costs k (day_of now) - baseline_average costs k (day_of now)
       then {(stableFindingKey FindingSpendSpike k, recent_average costs k (day_of now) - baseline_average costs k (day_of now))}
       else {})" for k
    by (auto simp: spike_finding_def Let_def key not_le not_less)
  show ?thesis unfolding set_concat set_map image_UN image_image spend_groups_keys one
    by (auto simp: spike_of_def Let_def split: if_splits)
qed

lemma collected:
  fixes sn now
  defines "fs \<equiv> collect_findings in_order sn now"
    and "seats \<equiv> concat (map (\<lambda>(_, s). seat_findings sn (now - 30 * day_length) s) (activeSeats (sn_Seats sn)))"
  shows "of_type FindingOrphanedSeat fs = of_type FindingOrphanedSeat seats"
    and "of_type FindingInactivePaidSeat fs = of_type FindingInactivePaidSeat seats"
    and "of_type FindingShadowAI fs = of_type FindingShadowAI (product_findings sn [] (sn_Activities sn))"
    and "of_type FindingUnpricedAI fs = of_type FindingUnpricedAI (product_findings sn [] (sn_Activities sn))"
    and "of_type FindingSpendSpike fs = concat (map (spike_finding (sn_Costs sn) now) (spend_groups (sn_Costs sn)))"
proof -
  let ?overlap = "concat (map overlap_finding (overlap_groups sn (now - 30 * day_length)))"
  let ?spikes = "concat (map (spike_finding (sn_Costs sn) now) (spend_groups (sn_Costs sn)))"
  have seats: "of_type t seats = []" if "t \<notin> {FindingOrphanedSeat, FindingInactivePaidSeat}" for t
    using that seat_type by (intro of_type_other) (auto simp: seats_def)
  have products: "of_type t (product_findings sn [] (sn_Activities sn)) = []" if "t \<notin> {FindingShadowAI, FindingUnpricedAI}" for t
    using that product_type by (intro of_type_other) blast
  have overlap: "of_type t ?overlap = []" if "t \<noteq> FindingOverlappingSeats" for t
    using that overlap_type by (intro of_type_other) auto
  have spikes: "of_type t ?spikes = []" if "t \<noteq> FindingSpendSpike" for t
    using that spike_type by (intro of_type_other) auto
  have all_spikes: "of_type FindingSpendSpike ?spikes = ?spikes"
    using spike_type by (auto simp: of_type_def filter_id_conv)
  have rest: "of_type t (map unattributed_finding cs) = []" "of_type t (coverageGapFindings as) = []"
    if "t \<noteq> FindingUnattributedSpend" "t \<noteq> FindingCoverageGap" for t cs as
    using that by (auto intro!: of_type_other simp: coverageGapFindings_def)
  have fs: "of_type t fs = of_type t seats @ of_type t (product_findings sn [] (sn_Activities sn)) @ of_type t ?overlap @
      of_type t (map unattributed_finding (filter unattributed (sn_Costs sn))) @ of_type t ?spikes @
      of_type t (coverageGapFindings (sn_Activities sn))" for t
    by (simp add: fs_def collect_findings_def seats_def in_order_def spendFindings_def Let_def)
  show "of_type FindingOrphanedSeat fs = of_type FindingOrphanedSeat seats"
    by (simp add: fs products overlap spikes rest)
  show "of_type FindingInactivePaidSeat fs = of_type FindingInactivePaidSeat seats"
    by (simp add: fs products overlap spikes rest)
  show "of_type FindingShadowAI fs = of_type FindingShadowAI (product_findings sn [] (sn_Activities sn))"
    by (simp add: fs seats overlap spikes rest)
  show "of_type FindingUnpricedAI fs = of_type FindingUnpricedAI (product_findings sn [] (sn_Activities sn))"
    by (simp add: fs seats overlap spikes rest)
  show "of_type FindingSpendSpike fs = ?spikes"
    by (simp add: fs seats products overlap all_spikes rest)
qed

lemma evaluated:
  assumes "slice_sort finding_order sorter" and "fair_orders ord" and "now \<noteq> 0"
  shows "mset (of_type t (EvaluateFindings sorter ord clock sn now)) = mset (of_type t (collect_findings in_order sn now))"
  using assms slice_sort.sorter_perm[OF assms(1)] collect_perm[OF assms(2)]
  by (simp add: EvaluateFindings_def of_type_def Let_def)

lemma set_evaluated:
  assumes "slice_sort finding_order sorter" and "fair_orders ord" and "now \<noteq> 0"
  shows "set (of_type t (EvaluateFindings sorter ord clock sn now)) = set (of_type t (collect_findings in_order sn now))"
  using evaluated[OF assms] by (metis set_mset_mset)

section \<open>Properties\<close>


text \<open>
  The result is one list: as long as no two findings share type and key, the order in which the three
  maps are ranged over and the sorting algorithm make no difference, and the list is sorted by type and key.
\<close>

theorem findings_deterministic:
  assumes "slice_sort finding_order s1" and "slice_sort finding_order s2" and "fair_orders o1" and "fair_orders o2"
    and "distinct (map finding_order (EvaluateFindings s1 o1 clock sn now))"
  shows "EvaluateFindings s1 o1 clock sn now = EvaluateFindings s2 o2 clock sn now \<and>
    sorted (map finding_order (EvaluateFindings s1 o1 clock sn now))"
proof -
  let ?t = "if now = 0 then clock else now"
  have e: "EvaluateFindings s1 o1 clock sn now = s1 (collect_findings o1 sn ?t)"
    "EvaluateFindings s2 o2 clock sn now = s2 (collect_findings o2 sn ?t)"
    by (simp_all add: EvaluateFindings_def Let_def)
  have "sorted (map finding_order (EvaluateFindings s1 o1 clock sn now))"
    unfolding e by (rule slice_sort.sorter_sorted[OF assms(1)])
  moreover have "sorted (map finding_order (EvaluateFindings s2 o2 clock sn now))"
    unfolding e by (rule slice_sort.sorter_sorted[OF assms(2)])
  moreover have "mset (EvaluateFindings s1 o1 clock sn now) = mset (EvaluateFindings s2 o2 clock sn now)"
    unfolding e slice_sort.sorter_perm[OF assms(1)] slice_sort.sorter_perm[OF assms(2)]
    using collect_perm[OF assms(3)] collect_perm[OF assms(4)] by simp
  ultimately show ?thesis using assms(5) sorted_by_unique by blast
qed

section \<open>Witnesses\<close>

text \<open>
  On the 40th day: \<open>u1\<close> is suspended, holds a paid seat and was seen using an unapproved product that day.
\<close>

definition sample_now :: time where
  "sample_now = 40 * day_length"

definition sample_activity :: finding_activity where
  "sample_activity = \<lparr>fa_VendorKey = ''Acme'', fa_ProductKey = ''chat'', fa_DirectoryUserID = ''u1'', fa_ProjectKey = [],
     fa_OriginKind = ''endpoint'', fa_IsActivity = True, fa_ObservedAt = 40 * day_length, fa_SourceKey = ''ev1''\<rparr>"

definition sample_seat :: finding_seat where
  "sample_seat = \<lparr>fs_LicenseKey = ''l1'', fs_VendorKey = ''acme'', fs_ProductKey = ''chat'', fs_DirectoryUserID = ''u1'',
     fs_Paid = True, fs_Status = ''assigned'', fs_SourceKey = ''hr''\<rparr>"

definition sample_snapshot :: finding_snapshot where
  "sample_snapshot = \<lparr>sn_Products = [], sn_Users = [(sample_user ''u1'' [] [])\<lparr>du_Status := ''suspended''\<rparr>],
     sn_Seats = [sample_seat], sn_Activities = [sample_activity, sample_activity], sn_Costs = []\<rparr>"


lemma findings_deterministic_witness:
  "EvaluateFindings (sort_key finding_order) in_order 0 sample_snapshot sample_now =
   EvaluateFindings (sort_key finding_order) (in_order\<lparr>mo_seats := rev\<rparr>) 0 sample_snapshot sample_now"
proof -
  have "fair_orders (in_order\<lparr>mo_seats := rev\<rparr>)" by (simp add: fair_orders_def in_order_def)
  moreover have "distinct (map finding_order (EvaluateFindings (sort_key finding_order) in_order 0 sample_snapshot sample_now))"
    by code_simp
  ultimately show ?thesis
    using findings_deterministic[OF insertion.slice_sort_axioms insertion.slice_sort_axioms fair_in_order, of _ 0 sample_snapshot sample_now] by blast
qed

end
