(* ===== verification/Agent_Monitor.thy ===== *)
theory Agent_Monitor
  imports Prompt_Capture Agent_Config Gateway_Handler
begin

text \<open>
  The agent's watch over itself (\<^verbatim>\<open>src/core/agent.go\<close>, from \<^verbatim>\<open>runIntegrityMonitor\<close> to
  \<^verbatim>\<open>splitListenAddr\<close>): one round of the integrity monitor, the heartbeat it emits and the
  protection state that the heartbeat reports.

  Probes and calls of the platform adapter are a record of outcomes (\<open>runtime_env\<close>). The system proxy
  of the machine is one boolean, whether it points at the agent; the adapter's contract on it
  (\<^verbatim>\<open>core/adapter/iface/system_proxy.go\<close>) is \<open>adapter_effect\<close>.
\<close>

section \<open>Probes\<close>

datatype probe = ProbeInvalid | ProbeFailed | ProbeStatus int

datatype service_status = ServiceUnknown | ServiceNotInstalled | ServiceStopped | ServiceRunning | ServiceDegraded

record runtime_env =
  rv_now :: time
  rv_start :: time
  rv_version :: string
  rv_hostname :: "string option"
  rv_http :: "string \<Rightarrow> probe"
  rv_dial :: "string \<Rightarrow> nat \<Rightarrow> bool"
  rv_integrity :: "bool option"
  rv_service :: "service_status option"
  rv_gateway :: bool
  rv_register :: bool
  rv_unregister :: bool

definition parse_port :: "string \<Rightarrow> nat option" where
  "parse_port s =
    (if s \<noteq> [] \<and> list_all is_digit s \<and> digits_value s < 2 ^ 16 then Some (nat (digits_value s)) else None)"

definition splitListenAddr :: "string \<Rightarrow> string \<times> nat" where
  "splitListenAddr addr =
    (case split_host_port addr of
       None \<Rightarrow> (''127.0.0.1'', 8080)
     | Some (host, portStr) \<Rightarrow> (case parse_port portStr of None \<Rightarrow> (host, 8080) | Some p \<Rightarrow> (host, p)))"

definition probeListenAddr :: "runtime_env \<Rightarrow> string \<Rightarrow> nat \<Rightarrow> bool" where
  "probeListenAddr env host port = rv_dial env (if host = [] then ''127.0.0.1'' else host) port"

definition probeHTTPHealth :: "runtime_env \<Rightarrow> string \<Rightarrow> string" where
  "probeHTTPHealth env url =
    (case rv_http env url of
       ProbeInvalid \<Rightarrow> ''unconfigured''
     | ProbeFailed \<Rightarrow> ''unreachable''
     | ProbeStatus c \<Rightarrow> if 200 \<le> c \<and> c < 300 then ''healthy'' else ''degraded'')"

definition probeLocalHealth :: "runtime_env \<Rightarrow> string \<Rightarrow> string \<Rightarrow> string" where
  "probeLocalHealth env addr path =
    (case splitListenAddr addr of
       (host, port) \<Rightarrow>
         if host = [] \<or> port = 0 then ''unconfigured''
         else probeHTTPHealth env (''http://'' @ host @ '':'' @ nat_str port @ path))"

definition semanticClassifierHealth :: "runtime_env \<Rightarrow> agent_config \<Rightarrow> string" where
  "semanticClassifierHealth env cfg =
    (if \<not> cf_PromptSemanticsEnabled cfg then ''disabled''
     else let base = trim_space (cf_PromptSemanticsLocalURL cfg) in
       if base = [] then ''unconfigured''
       else probeHTTPHealth env (trim_suffix base ''/v1/classify'' @ ''/healthz''))"

definition serviceStatus :: "runtime_env \<Rightarrow> string" where
  "serviceStatus env =
    (case rv_service env of
       Some ServiceNotInstalled \<Rightarrow> ''not_installed'' | Some ServiceStopped \<Rightarrow> ''stopped''
     | Some ServiceRunning \<Rightarrow> ''running'' | Some ServiceDegraded \<Rightarrow> ''degraded'' | _ \<Rightarrow> ''unknown'')"

definition agentHostname :: "runtime_env \<Rightarrow> string" where
  "agentHostname env = (case rv_hostname env of None \<Rightarrow> [] | Some h \<Rightarrow> trim_space h)"

definition browserProtectionState :: "string \<Rightarrow> string" where
  "browserProtectionState health =
    (if health = ''healthy'' then ''capture_service_healthy'' else if health = [] then ''not_reported'' else health)"

section \<open>Protection state\<close>

definition normalizePromptMode :: "string \<Rightarrow> string \<Rightarrow> string" where
  "normalizePromptMode v fallback =
    (let m = to_lower (trim_space v) in
     if m = PromptEnforcementModeMonitor then PromptEnforcementModeMonitor
     else if m = PromptEnforcementModeAlert then PromptEnforcementModeAlert
     else if m = PromptEnforcementModeEnforce then PromptEnforcementModeEnforce
     else fallback)"

definition effectivePromptEnforcementMode :: "agent_config \<Rightarrow> engine \<Rightarrow> string" where
  "effectivePromptEnforcementMode cfg e =
    (let m0 = normalizePromptMode (cf_PromptEnforcementMode cfg) PromptEnforcementModeAlert;
         o1 = normalizePromptMode (cf_PromptEnforcementOverride cfg) [];
         m1 = (if o1 \<noteq> [] then o1 else m0);
         o2 = normalizePromptMode (engine_PromptEnforcementOverride e) []
     in if o2 \<noteq> [] then o2 else m1)"

definition stateFor :: "agent_config \<Rightarrow> engine \<Rightarrow> string \<Rightarrow> string" where
  "stateFor cfg e surface =
    (if surface = CaptureSurfaceWindsurf \<or> surface = CaptureSurfaceGitHubCopilot then SurfaceEnforcementWouldBlock
     else if surface = CaptureSurfaceDesktop then SurfaceEnforcementUnprotected
     else if effectivePromptEnforcementMode cfg e = PromptEnforcementModeMonitor then SurfaceEnforcementMonitor
     else if effectivePromptEnforcementMode cfg e = PromptEnforcementModeEnforce \<and> surface \<in> set (cf_PromptFailClosedSurfaces cfg)
       then SurfaceEnforcementHardBlock
     else SurfaceEnforcementAlertOnly)"

definition reported_surfaces :: "string list" where
  "reported_surfaces = [CaptureSurfaceBrowserChromium, CaptureSurfaceBrowserFirefox, CaptureSurfaceBrowserSafari,
     CaptureSurfaceClaudeCode, CaptureSurfaceCursor, CaptureSurfaceWindsurf, CaptureSurfaceGitHubCopilot, CaptureSurfaceDesktop]"

definition promptSurfaceStates :: "agent_config \<Rightarrow> engine \<Rightarrow> (string \<times> string) list" where
  "promptSurfaceStates cfg e = map (\<lambda>s. (s, stateFor cfg e s)) reported_surfaces"

definition protectionState :: "agent_config \<Rightarrow> bool \<Rightarrow> string \<Rightarrow> string \<Rightarrow> string \<Rightarrow> bool \<Rightarrow> (string \<times> string) list \<Rightarrow> string \<Rightarrow> string" where
  "protectionState cfg listenerAlive integrityState captureHealth classifierStatus policyFresh states effectiveMode =
    (if integrityState \<noteq> ''ok'' then ''tampered''
     else if \<not> listenerAlive \<or> captureHealth \<noteq> ''healthy'' then ''unprotected''
     else if cf_PromptSemanticsEnabled cfg \<and> classifierStatus \<noteq> ''healthy'' then ''degraded''
     else if \<not> policyFresh then ''degraded''
     else if effectiveMode = PromptEnforcementModeMonitor then ''monitor_only''
     else if list_ex (\<lambda>(_, st). st = SurfaceEnforcementHardBlock) states then ''protected''
     else ''unprotected'')"

section \<open>Heartbeat\<close>

definition heartbeat_data :: "runtime_env \<Rightarrow> agent_config \<Rightarrow> engine \<Rightarrow> bool \<Rightarrow> string \<Rightarrow> godata" where
  "heartbeat_data env cfg e listenerAlive integrityState =
    (let capture = probeLocalHealth env (cf_PromptCaptureListenAddr cfg) ''/healthz'';
         classifier = semanticClassifierHealth env cfg;
         states = promptSurfaceStates cfg e;
         effective = effectivePromptEnforcementMode cfg e;
         fresh = (trim_space (engine_Version e) \<noteq> []) in
     [(''agent_version'', VString (rv_version env)),
      (''protocol_version'', VString ProtocolVersion),
      (''hostname'', VString (agentHostname env)),
      (''policy_version'', VString (engine_Version e)),
      (''policy_fresh'', VBool fresh),
      (''uptime_seconds'', VInt ((rv_now env - rv_start env) div second)),
      (''gateway_connected'', VBool (rv_gateway env)),
      (''proxy_listener_alive'', VBool listenerAlive),
      (''proxy_integrity'', VString integrityState),
      (''prompt_capture'', VString capture),
      (''browser_protection'', VString (browserProtectionState capture)),
      (''semantic_classifier'', VString classifier),
      (''classifier_required'', VBool (cf_PromptSemanticsEnabled cfg)),
      (''classifier_healthy'', VBool (classifier = ''healthy'' \<or> \<not> cf_PromptSemanticsEnabled cfg \<and> classifier = ''disabled'')),
      (''prompt_enforcement_mode'', VString (cf_PromptEnforcementMode cfg)),
      (''effective_prompt_enforcement_mode'', VString effective),
      (''surface_states'', VMap (map (\<lambda>(k, v). (k, VString v)) states)),
      (''protection_state'', VString (protectionState cfg listenerAlive integrityState capture classifier fresh states effective)),
      (''service_status'', VString (serviceStatus env)),
      (''auto_reregister'', VBool (cf_AutoReregister cfg))])"

definition address_data :: "string \<Rightarrow> nat \<Rightarrow> godata" where
  "address_data host port = [(''host'', VString host), (''port'', VInt (int port))]"

section \<open>Integrity monitor\<close>

datatype os_call = OsRegister string nat | OsUnregister

text \<open>One round: the events emitted and the calls made on the adapter, in order.\<close>

definition integrity_round :: "runtime_env \<Rightarrow> agent_config \<Rightarrow> engine \<Rightarrow> bool \<Rightarrow> (string \<times> godata) list \<times> os_call list" where
  "integrity_round env cfg e systemProxyRegistered =
    (case splitListenAddr (cf_ListenAddr cfg) of
       (host, port) \<Rightarrow>
        (let alive = probeListenAddr env host port in
         if \<not> systemProxyRegistered then ([(''agent.heartbeat'', heartbeat_data env cfg e alive ''unregistered'')], [])
         else case rv_integrity env of
           None \<Rightarrow>
             ([(''agent.heartbeat'', heartbeat_data env cfg e alive ''error''), (''agent.integrity_error'', [])], [])
         | Some intact \<Rightarrow>
            (let beat = (''agent.heartbeat'', heartbeat_data env cfg e alive (if intact then ''ok'' else ''tampered'')) in
             if intact \<and> \<not> alive then
               ([beat, (''proxy.listener_unreachable'', address_data host port)], [OsUnregister])
             else if \<not> intact then
               (if \<not> cf_AutoReregister cfg then ([beat, (''proxy.tamper_detected'', [])], [])
                else if \<not> alive then
                  ([beat, (''proxy.tamper_detected'', []), (''proxy.listener_unreachable'', address_data host port)], [])
                else
                  ([beat, (''proxy.tamper_detected'', [])] @
                   (if rv_register env then [(''proxy.remediated'', [(''remediation'', VString ''proxy_reregistered'')])] else []),
                   [OsRegister host port]))
             else ([beat], []))))"

definition emit_all :: "agent_config \<Rightarrow> time \<Rightarrow> (string \<times> godata) list \<Rightarrow> collector \<Rightarrow> collector" where
  "emit_all cfg now evs c =
     fold (\<lambda>(name, dat). collector_Emit now name \<lparr>ep_AgentID = cf_AgentID cfg, ep_Timestamp = now, ep_Data = dat\<rparr>) evs c"

definition runIntegrityMonitor :: "runtime_env \<Rightarrow> agent_config \<Rightarrow> engine \<Rightarrow> bool \<Rightarrow> collector \<Rightarrow> os_call list \<times> collector" where
  "runIntegrityMonitor env cfg e registered c =
    (case integrity_round env cfg e registered of (evs, calls) \<Rightarrow> (calls, emit_all cfg (rv_now env) evs c))"

section \<open>The machine's proxy setting\<close>

text \<open>What a call does to the setting: true when it points at the agent.\<close>

fun adapter_effect :: "runtime_env \<Rightarrow> os_call \<Rightarrow> bool \<Rightarrow> bool" where
  "adapter_effect env (OsRegister _ _) pointed = (if rv_register env then True else pointed)"
| "adapter_effect env OsUnregister pointed = (if rv_unregister env then False else pointed)"

definition monitored :: "runtime_env \<Rightarrow> agent_config \<Rightarrow> engine \<Rightarrow> bool \<Rightarrow> bool \<Rightarrow> bool" where
  "monitored env cfg e registered pointed = fold (adapter_effect env) (snd (integrity_round env cfg e registered)) pointed"

section \<open>Lemmas\<close>

text \<open>The prompt-capture service as the agent wires it up: the same configuration, and a router on the engine.\<close>

definition wired_service :: "agent_config \<Rightarrow> engine \<Rightarrow> prompt_service \<Rightarrow> prompt_service" where
  "wired_service cfg e s = s\<lparr>sv_cfg := Some cfg,
     sv_router := default_router \<lparr>ro_engine = core_iface e, ro_defaultDecision = cf_DefaultDecision cfg\<rparr>\<rparr>"

lemma mode_same: "normalizePromptMode = normalizeEnforcementMode"
  by (simp add: fun_eq_iff normalizePromptMode_def normalizeEnforcementMode_def)

lemma blank_mode: "trim_space v = [] \<Longrightarrow> normalizeEnforcementMode v f = f"
  by (simp add: normalizeEnforcementMode_def)

lemma wired_mode: "snd (enforcementModes (wired_service cfg e s)) = effectivePromptEnforcementMode cfg e"
  unfolding enforcementModes_def effectivePromptEnforcementMode_def wired_service_def mode_same
  by (simp add: default_router_def core_iface_def router_PromptEnforcementOverride_def Let_def blank_mode)

lemma wired_fail_closed:
  "surfaceFailsClosed (wired_service cfg e s) surface \<longleftrightarrow> capture_surface_Valid surface \<and> surface \<in> set (cf_PromptFailClosedSurfaces cfg)"
  by (auto simp: surfaceFailsClosed_def failClosedSurfaces_def wired_service_def)

lemma wired_surface:
  "capture_surface_Valid surface \<Longrightarrow> surfaceEnforcement (wired_service cfg e s) surface = stateFor cfg e surface"
  unfolding surfaceEnforcement_def stateFor_def Let_def wired_mode wired_fail_closed by simp

lemma reported_all: "set reported_surfaces = set capture_surfaces"
  unfolding reported_surfaces_def capture_surfaces_def by auto

lemma hard_block_iff:
  "capture_surface_Valid s \<Longrightarrow> stateFor cfg e s = SurfaceEnforcementHardBlock \<longleftrightarrow>
    s \<notin> {CaptureSurfaceWindsurf, CaptureSurfaceGitHubCopilot, CaptureSurfaceDesktop} \<and>
    effectivePromptEnforcementMode cfg e = PromptEnforcementModeEnforce \<and> s \<in> set (cf_PromptFailClosedSurfaces cfg)"
  by (simp add: stateFor_def)

text \<open>The fields of a heartbeat that the properties speak about.\<close>

lemma heartbeat_fields:
  fixes env cfg e alive integ
  defines "h \<equiv> heartbeat_data env cfg e alive integ"
  shows "field h ''effective_prompt_enforcement_mode'' = VString (effectivePromptEnforcementMode cfg e)"
    and "field h ''surface_states'' = VMap (map (\<lambda>(k, v). (k, VString v)) (promptSurfaceStates cfg e))"
    and "field h ''prompt_capture'' = VString (probeLocalHealth env (cf_PromptCaptureListenAddr cfg) ''/healthz'')"
    and "field h ''classifier_healthy'' = VBool (semanticClassifierHealth env cfg = ''healthy'' \<or>
      \<not> cf_PromptSemanticsEnabled cfg \<and> semanticClassifierHealth env cfg = ''disabled'')"
    and "field h ''policy_version'' = VString (engine_Version e)"
    and "field h ''protection_state'' = VString (protectionState cfg alive integ (probeLocalHealth env (cf_PromptCaptureListenAddr cfg) ''/healthz'')
      (semanticClassifierHealth env cfg) (trim_space (engine_Version e) \<noteq> []) (promptSurfaceStates cfg e) (effectivePromptEnforcementMode cfg e))"
  unfolding h_def heartbeat_data_def Let_def field_def by simp_all

lemma hard_block_reported:
  "list_ex (\<lambda>(_, st). st = SurfaceEnforcementHardBlock) (promptSurfaceStates cfg e) \<longleftrightarrow>
    (\<exists>sf. surfaceEnforcement (wired_service cfg e s) sf = SurfaceEnforcementHardBlock)"
proof -
  have "capture_surface_Valid sf" if "surfaceEnforcement (wired_service cfg e s) sf = SurfaceEnforcementHardBlock" for sf
    using that unfolding surfaceEnforcement_def Let_def wired_fail_closed by (simp split: if_splits)
  then have "(\<exists>sf. surfaceEnforcement (wired_service cfg e s) sf = SurfaceEnforcementHardBlock) \<longleftrightarrow>
      (\<exists>sf. capture_surface_Valid sf \<and> stateFor cfg e sf = SurfaceEnforcementHardBlock)"
    using wired_surface by metis
  then show ?thesis
    by (simp add: promptSurfaceStates_def list_ex_iff reported_all capture_surface_Valid_def Bex_def)
qed

lemma monitor_mode_no_hard_block:
  "effectivePromptEnforcementMode cfg e = PromptEnforcementModeMonitor \<Longrightarrow>
    \<not> list_ex (\<lambda>(_, st). st = SurfaceEnforcementHardBlock) (promptSurfaceStates cfg e)"
  by (auto simp: promptSurfaceStates_def list_ex_iff stateFor_def)

lemma classifier_disabled: "\<not> cf_PromptSemanticsEnabled cfg \<Longrightarrow> semanticClassifierHealth env cfg = ''disabled''"
  by (simp add: semanticClassifierHealth_def)

lemma protected_iff:
  "protectionState cfg alive integ capture (semanticClassifierHealth env cfg) fresh (promptSurfaceStates cfg e)
     (effectivePromptEnforcementMode cfg e) = ''protected'' \<longleftrightarrow>
   integ = ''ok'' \<and> alive \<and> capture = ''healthy'' \<and>
   (semanticClassifierHealth env cfg = ''healthy'' \<or> \<not> cf_PromptSemanticsEnabled cfg \<and> semanticClassifierHealth env cfg = ''disabled'') \<and>
   fresh \<and> list_ex (\<lambda>(_, st). st = SurfaceEnforcementHardBlock) (promptSurfaceStates cfg e)"
  using monitor_mode_no_hard_block[of cfg e] classifier_disabled[of cfg env] by (auto simp: protectionState_def)

text \<open>Every field of a heartbeat is one that the gateway keeps.\<close>

lemma sanitize_keeps:
  assumes "list_all (\<lambda>kv. sanitize_status_field kv = Some kv) dat"
  shows "sanitizedAgentStatusData (Some dat) = dat"
  using assms unfolding sanitizedAgentStatusData_def option.case
  by (induction dat) (simp_all add: List.map_filter_def)

lemma state_values: "allowedSurfaceStateValue (stateFor cfg e sf)"
  by (simp add: stateFor_def allowedSurfaceStateValue_def)

lemma surface_states_kept:
  "sanitizeSurfaceStates (VMap (map (\<lambda>(k, v). (k, VString v)) (promptSurfaceStates cfg e))) =
     Some (map (\<lambda>(k, v). (k, VString v)) (promptSurfaceStates cfg e))"
proof -
  have "allowedSurfaceStateKey sf" if "sf \<in> set reported_surfaces" for sf
    using that by (auto simp: reported_surfaces_def allowedSurfaceStateKey_def)
  then show ?thesis
    by (auto simp: sanitizeSurfaceStates_def Let_def promptSurfaceStates_def filter_id_conv state_values reported_surfaces_def)
qed

lemma heartbeat_kept:
  "sanitizedAgentStatusData (Some (wire_data fmt (heartbeat_data env cfg e alive integ))) = wire_data fmt (heartbeat_data env cfg e alive integ)"
proof (rule sanitize_keeps)
  show "list_all (\<lambda>kv. sanitize_status_field kv = Some kv) (wire_data fmt (heartbeat_data env cfg e alive integ))"
    unfolding heartbeat_data_def Let_def wire_data_def
    by (simp add: sanitize_status_field_def allowed_status_keys_def surface_states_kept)
qed

definition posted :: "(time \<Rightarrow> string) \<Rightarrow> time \<Rightarrow> string \<times> godata \<Rightarrow> posted_event" where
  "posted fmt ts ev = \<lparr>po_Name = fst ev, po_Data = (if snd ev = [] then None else Some (wire_data fmt (snd ev))), po_Timestamp = ts\<rparr>"

definition kept_row :: "string \<Rightarrow> string \<Rightarrow> string \<times> godata \<Rightarrow> buffer_op option \<Rightarrow> bool" where
  "kept_row dev org ev op =
    (case op of
       Some (OpEmitStatus row) \<Rightarrow> sv_EventType row = fst ev \<and> sv_DeviceID row = dev \<and> sv_OrgID row = org \<and> sv_Data row = snd ev
     | _ \<Rightarrow> False)"

lemma kept_rowI:
  assumes "isAgentStatusEvent (fst ev)"
    and "sanitizedAgentStatusData (if snd ev = [] then None else Some (wire_data fmt (snd ev))) = wire_data fmt (snd ev)"
  shows "kept_row dev org (fst ev, wire_data fmt (snd ev)) (event_op parse gnow dev org (posted fmt ts ev))"
  using assms by (simp add: event_op_def Let_def kept_row_def posted_def)

lemma heartbeat_nonempty: "heartbeat_data env cfg e alive integ \<noteq> []"
  by (simp add: heartbeat_data_def Let_def)

lemma monitor_event_kept:
  "kept_row dev org (''agent.heartbeat'', wire_data fmt (heartbeat_data env cfg e alive integ))
     (event_op parse gnow dev org (posted fmt ts (''agent.heartbeat'', heartbeat_data env cfg e alive integ)))"
  "kept_row dev org (''agent.integrity_error'', wire_data fmt []) (event_op parse gnow dev org (posted fmt ts (''agent.integrity_error'', [])))"
  "kept_row dev org (''proxy.tamper_detected'', wire_data fmt []) (event_op parse gnow dev org (posted fmt ts (''proxy.tamper_detected'', [])))"
  "kept_row dev org (''proxy.listener_unreachable'', wire_data fmt (address_data host port))
     (event_op parse gnow dev org (posted fmt ts (''proxy.listener_unreachable'', address_data host port)))"
  "kept_row dev org (''proxy.remediated'', wire_data fmt [(''remediation'', VString ''proxy_reregistered'')])
     (event_op parse gnow dev org (posted fmt ts (''proxy.remediated'', [(''remediation'', VString ''proxy_reregistered'')])))"
proof -
  note I = kept_rowI[of "(name, dat)" for name dat, unfolded fst_conv snd_conv]
  have small: "sanitizedAgentStatusData None = wire_data fmt []"
    "sanitizedAgentStatusData (Some (wire_data fmt (address_data host port))) = wire_data fmt (address_data host port)"
    "sanitizedAgentStatusData (Some (wire_data fmt [(''remediation'', VString ''proxy_reregistered'')])) =
       wire_data fmt [(''remediation'', VString ''proxy_reregistered'')]"
    by (simp_all add: sanitizedAgentStatusData_def wire_data_def address_data_def sanitize_status_field_def allowed_status_keys_def List.map_filter_def)
  have names: "isAgentStatusEvent ''agent.heartbeat''" "isAgentStatusEvent ''agent.integrity_error''"
    "isAgentStatusEvent ''proxy.listener_unreachable''" "isAgentStatusEvent ''proxy.tamper_detected''" "isAgentStatusEvent ''proxy.remediated''"
    by (simp_all add: isAgentStatusEvent_def agent_status_names_def)
  have addr: "address_data host port \<noteq> []" by (simp add: address_data_def)
  show "kept_row dev org (''agent.heartbeat'', wire_data fmt (heartbeat_data env cfg e alive integ))
     (event_op parse gnow dev org (posted fmt ts (''agent.heartbeat'', heartbeat_data env cfg e alive integ)))"
    by (rule I[OF names(1)]) (simp only: heartbeat_nonempty if_False heartbeat_kept)
  show "kept_row dev org (''agent.integrity_error'', wire_data fmt []) (event_op parse gnow dev org (posted fmt ts (''agent.integrity_error'', [])))"
    by (rule I[OF names(2)]) (simp only: refl if_True small)
  show "kept_row dev org (''proxy.tamper_detected'', wire_data fmt []) (event_op parse gnow dev org (posted fmt ts (''proxy.tamper_detected'', [])))"
    by (rule I[OF names(4)]) (simp only: refl if_True small)
  show "kept_row dev org (''proxy.listener_unreachable'', wire_data fmt (address_data host port))
     (event_op parse gnow dev org (posted fmt ts (''proxy.listener_unreachable'', address_data host port)))"
    by (rule I[OF names(3)]) (simp only: addr if_False small)
  show "kept_row dev org (''proxy.remediated'', wire_data fmt [(''remediation'', VString ''proxy_reregistered'')])
     (event_op parse gnow dev org (posted fmt ts (''proxy.remediated'', [(''remediation'', VString ''proxy_reregistered'')])))"
    by (rule I[OF names(5)]) (simp only: list.distinct if_False small)
qed

section \<open>Properties\<close>

text \<open>
  The machine's proxy never stays pointed at a dead listener. A registration is issued only for the
  configured address and only while something answers there. And when the adapter reads the setting
  correctly and its calls work, one round leaves the machine pointed at the agent exactly when the
  listener is alive and the setting was intact or automatic repair is on.
\<close>

theorem monitor_restores_safe_state:
  "list_all (\<lambda>c. c \<noteq> OsUnregister \<longrightarrow> c = OsRegister (fst (splitListenAddr (cf_ListenAddr cfg))) (snd (splitListenAddr (cf_ListenAddr cfg))) \<and>
      case_prod (probeListenAddr env) (splitListenAddr (cf_ListenAddr cfg)))
     (snd (integrity_round env cfg e registered)) \<and>
   (rv_integrity env = Some pointed \<and> rv_register env \<and> rv_unregister env \<longrightarrow>
    monitored env cfg e True pointed \<longleftrightarrow>
      case_prod (probeListenAddr env) (splitListenAddr (cf_ListenAddr cfg)) \<and> (pointed \<or> cf_AutoReregister cfg))"
  by (auto simp: monitored_def integrity_round_def Let_def split: prod.splits option.splits)

text \<open>
  The heartbeat tells the truth about prompt protection. Its effective mode and its state of every
  surface are those by which the prompt-capture service decides, and it reports the machine as
  protected exactly when the proxy setting is intact, the listener and the capture service answer,
  the classifier is healthy or not wanted, a policy is loaded, and some surface is in fact hard-blocking.
\<close>

theorem heartbeat_truthful:
  fixes env cfg e alive integ s
  defines "h \<equiv> heartbeat_data env cfg e alive integ"
    and "sv \<equiv> wired_service cfg e s"
  shows "field h ''effective_prompt_enforcement_mode'' = VString (snd (enforcementModes sv)) \<and>
    field h ''surface_states'' = VMap (map (\<lambda>sf. (sf, VString (surfaceEnforcement sv sf))) reported_surfaces) \<and>
    (field h ''protection_state'' = VString ''protected'' \<longleftrightarrow>
      integ = ''ok'' \<and> alive \<and> field h ''prompt_capture'' = VString ''healthy'' \<and> field h ''classifier_healthy'' = VBool True \<and>
      trim_space (engine_Version e) \<noteq> [] \<and> (\<exists>sf. surfaceEnforcement sv sf = SurfaceEnforcementHardBlock))"
proof -
  have "stateFor cfg e sf = surfaceEnforcement sv sf" if "sf \<in> set reported_surfaces" for sf
    using that wired_surface[of sf cfg e s] by (simp add: reported_all capture_surface_Valid_def sv_def)
  then have "map (\<lambda>(k, v). (k, VString v)) (promptSurfaceStates cfg e) =
      map (\<lambda>sf. (sf, VString (surfaceEnforcement sv sf))) reported_surfaces"
    by (simp add: promptSurfaceStates_def)
  then show ?thesis
    unfolding h_def heartbeat_fields goval.inject protected_iff hard_block_reported[of cfg e s]
    by (simp add: sv_def wired_mode)
qed

text \<open>
  Nothing of what the monitor reports is lost at the gateway. Every event of a round, sent as JSON and
  decoded, becomes a status row of the authenticated device with the same name and all of its data.
\<close>

theorem monitor_events_kept:
  "list_all (\<lambda>ev. kept_row dev org (fst ev, wire_data fmt (snd ev)) (event_op parse gnow dev org (posted fmt ts ev)))
    (fst (integrity_round env cfg e registered))"
  unfolding integrity_round_def Let_def by (simp add: monitor_event_kept split: prod.split option.split)

text \<open>An agent whose registration failed at start, with nothing else wrong, is reported as tampered with.\<close>

lemma unregistered_reported_as_tampered:
  "field (heartbeat_data env cfg e alive ''unregistered'') ''protection_state'' = VString ''tampered''"
  unfolding heartbeat_fields by (simp add: protectionState_def)

section \<open>Witness\<close>

text \<open>A machine whose proxy setting was cleared by something else, with the listener alive and repair on.\<close>

definition cleared_machine :: runtime_env where
  "cleared_machine = \<lparr>rv_now = 0, rv_start = 0, rv_version = ''1'', rv_hostname = None, rv_http = (\<lambda>_. ProbeFailed), rv_dial = (\<lambda>_ _. True),
     rv_integrity = Some False, rv_service = None, rv_gateway = False, rv_register = True, rv_unregister = True\<rparr>"

definition repairing_config :: agent_config where
  "repairing_config = zero_config\<lparr>cf_ListenAddr := ''127.0.0.1:8443'', cf_AutoReregister := True\<rparr>"

lemma monitor_restores_safe_state_witness:
  "monitored cleared_machine repairing_config (NewEngine DecisionForward) True False"
proof -
  have "rv_integrity cleared_machine = Some False \<and> rv_register cleared_machine \<and> rv_unregister cleared_machine"
    by (simp add: cleared_machine_def)
  moreover have "case_prod (probeListenAddr cleared_machine) (splitListenAddr (cf_ListenAddr repairing_config))"
    by (simp add: probeListenAddr_def cleared_machine_def split: prod.split)
  moreover have "cf_AutoReregister repairing_config" by (simp add: repairing_config_def)
  ultimately show ?thesis
    using monitor_restores_safe_state[of repairing_config cleared_machine "NewEngine DecisionForward" True False]
    by (simp only: simp_thms)
qed

end
