(* ===== verification/Agent_Identity.thy ===== *)
theory Agent_Identity
  imports Prelude
begin

text \<open>
  The agent's mTLS identity (\<^verbatim>\<open>src/core/identity/store.go\<close>, \<^verbatim>\<open>renewal.go\<close>, \<^verbatim>\<open>tls.go\<close>): credentials in memory,
  rotation through the trust store of the operating system, the check for renewal and the
  construction of the TLS configuration.

  \<^verbatim>\<open>crypto/x509\<close> and \<^verbatim>\<open>encoding/pem\<close> are parameters (\<open>x509\<close>), and so is the outcome of each call of the
  operating system's store. Byte slices are strings, where nil and empty coincide. The division of hours
  by 24, which the code does in floating point, is exact and rounds towards zero.
\<close>

section \<open>Data\<close>

record cert_info =
  ci_CommonName :: string
  ci_Serial :: string
  ci_NotAfter :: time

record x509 =
  x_cert :: "string \<Rightarrow> cert_info option"
  x_pkcs8 :: "string \<Rightarrow> bool"
  x_pkcs1 :: "string \<Rightarrow> bool"
  x_ec :: "string \<Rightarrow> bool"
  x_pool :: "string \<Rightarrow> bool"
  x_decode :: "string \<Rightarrow> string option"
  x_encode :: "string \<Rightarrow> string"

record credentials =
  cr_caID :: string
  cr_clientID :: string
  cr_certDER :: string
  cr_keyDER :: string
  cr_caDER :: string
  cr_caChainPEM :: string

record identity_store =
  is_creds :: "credentials option"

record tls_material =
  tm_CertDER :: string
  tm_KeyDER :: string
  tm_CADER :: string
  tm_CAChainPEM :: string

record renewal_check =
  rc_NeedsRenewal :: bool
  rc_ExpiresAt :: time
  rc_DaysLeft :: int

text \<open>Calls of the operating system's certificate store.\<close>

datatype store_op = InstallCA string string | RemoveCA string

datatype tls_error = NilTLSConfig | ClientCertError | PrivateKeyError | NoChainCertificates | CACertError | NoCA

datatype root_pool = ChainPEM string | SingleDER string

record built_tls =
  bt_Certificate :: string
  bt_Key :: string
  bt_Roots :: root_pool

section \<open>The store\<close>

definition NewIdentityStore :: identity_store where
  "NewIdentityStore = \<lparr>is_creds = None\<rparr>"

definition GetGatewayTLSConfig :: "identity_store \<Rightarrow> tls_material option" where
  "GetGatewayTLSConfig s =
    (case is_creds s of
       None \<Rightarrow> None
     | Some c \<Rightarrow> Some \<lparr>tm_CertDER = cr_certDER c, tm_KeyDER = cr_keyDER c, tm_CADER = cr_caDER c,
         tm_CAChainPEM = cr_caChainPEM c\<rparr>)"

definition derCertToPEM :: "x509 \<Rightarrow> string \<Rightarrow> string" where
  "derCertToPEM x der = (if x_cert x der = None then [] else x_encode x der)"

text \<open>Returned: success, the calls made on the certificate store, the new state.\<close>

definition RotateCredentials :: "x509 \<Rightarrow> (store_op \<Rightarrow> bool) \<Rightarrow> string \<Rightarrow> string \<Rightarrow> string \<Rightarrow> string \<Rightarrow> string \<Rightarrow>
    identity_store \<Rightarrow> bool \<times> store_op list \<times> identity_store" where
  "RotateCredentials x ok caID clientID certDER keyDER caDER s =
    (if \<not> ok (InstallCA caID caDER) then (False, [InstallCA caID caDER], s)
     else
       (let s' = s\<lparr>is_creds := Some \<lparr>cr_caID = caID, cr_clientID = clientID, cr_certDER = certDER, cr_keyDER = keyDER,
                    cr_caDER = caDER, cr_caChainPEM = derCertToPEM x caDER\<rparr>\<rparr> in
        case is_creds s of
          Some old \<Rightarrow> (True, InstallCA caID caDER # (if cr_caID old \<noteq> caID then [RemoveCA (cr_caID old)] else []), s')
        | None \<Rightarrow> (True, [InstallCA caID caDER], s')))"

definition identity_Clear :: "identity_store \<Rightarrow> store_op list \<times> identity_store" where
  "identity_Clear s =
    (case is_creds s of
       None \<Rightarrow> ([], s\<lparr>is_creds := None\<rparr>)
     | Some c \<Rightarrow> ([RemoveCA (cr_caID c)], s\<lparr>is_creds := None\<rparr>))"

definition Bootstrap :: "string \<Rightarrow> string \<Rightarrow> string \<Rightarrow> string \<Rightarrow> string \<Rightarrow> identity_store \<Rightarrow> identity_store" where
  "Bootstrap caID clientID certDER keyDER caChainPEM s =
     s\<lparr>is_creds := Some \<lparr>cr_caID = caID, cr_clientID = clientID, cr_certDER = certDER, cr_keyDER = keyDER,
       cr_caDER = [], cr_caChainPEM = caChainPEM\<rparr>\<rparr>"

datatype renewal_error = InvalidCertPEM | InvalidKeyPEM | ParseCert

definition BootstrapFromPEM :: "x509 \<Rightarrow> string \<Rightarrow> string \<Rightarrow> string \<Rightarrow> string \<Rightarrow> identity_store \<Rightarrow>
    (renewal_error + string) \<times> identity_store" where
  "BootstrapFromPEM x caID certPEM keyPEM caChainPEM s =
    (case x_decode x certPEM of
       None \<Rightarrow> (Inl InvalidCertPEM, s)
     | Some cert \<Rightarrow>
        (case x_decode x keyPEM of
           None \<Rightarrow> (Inl InvalidKeyPEM, s)
         | Some key \<Rightarrow>
            (case x_cert x cert of
               None \<Rightarrow> (Inl ParseCert, s)
             | Some c \<Rightarrow> (Inr (ci_Serial c), Bootstrap caID (ci_CommonName c) cert key caChainPEM s))))"

section \<open>Renewal\<close>

definition hours_per_day :: duration where
  "hours_per_day = 24 * 3600 * second"

text \<open>Go's conversion of a float to an int rounds towards zero.\<close>

definition days_left :: "duration \<Rightarrow> int" where
  "days_left d = (if 0 \<le> d then d div hours_per_day else - ((- d) div hours_per_day))"

definition current_cert :: "x509 \<Rightarrow> identity_store \<Rightarrow> cert_info option" where
  "current_cert x s =
    (case is_creds s of None \<Rightarrow> None | Some c \<Rightarrow> if cr_certDER c = [] then None else x_cert x (cr_certDER c))"

definition CheckRenewal :: "x509 \<Rightarrow> time \<Rightarrow> int \<Rightarrow> identity_store \<Rightarrow> renewal_check" where
  "CheckRenewal x now threshold0 s =
    (let threshold = (if threshold0 \<le> 0 then 14 else threshold0) in
     case current_cert x s of
       None \<Rightarrow> \<lparr>rc_NeedsRenewal = False, rc_ExpiresAt = 0, rc_DaysLeft = 0\<rparr>
     | Some c \<Rightarrow>
        (let d = days_left (ci_NotAfter c - now) in
         \<lparr>rc_NeedsRenewal = (d \<le> threshold), rc_ExpiresAt = ci_NotAfter c, rc_DaysLeft = d\<rparr>))"

definition GetCertExpiry :: "x509 \<Rightarrow> identity_store \<Rightarrow> time option" where
  "GetCertExpiry x s = map_option ci_NotAfter (current_cert x s)"

section \<open>TLS\<close>

definition root_certs :: "x509 \<Rightarrow> tls_material \<Rightarrow> tls_error + root_pool" where
  "root_certs x m =
    (if tm_CAChainPEM m \<noteq> [] then
       if x_pool x (tm_CAChainPEM m) then Inr (ChainPEM (tm_CAChainPEM m)) else Inl NoChainCertificates
     else if tm_CADER m \<noteq> [] then
       if x_cert x (tm_CADER m) = None then Inl CACertError else Inr (SingleDER (tm_CADER m))
     else Inl NoCA)"

definition BuildTLSConfig :: "x509 \<Rightarrow> tls_material option \<Rightarrow> tls_error + built_tls" where
  "BuildTLSConfig x cfg =
    (case cfg of
       None \<Rightarrow> Inl NilTLSConfig
     | Some m \<Rightarrow>
        if x_cert x (tm_CertDER m) = None then Inl ClientCertError
        else if \<not> x_pkcs8 x (tm_KeyDER m) \<and> \<not> x_pkcs1 x (tm_KeyDER m) \<and> \<not> x_ec x (tm_KeyDER m) then Inl PrivateKeyError
        else case root_certs x m of
          Inl e \<Rightarrow> Inl e
        | Inr r \<Rightarrow> Inr \<lparr>bt_Certificate = tm_CertDER m, bt_Key = tm_KeyDER m, bt_Roots = r\<rparr>)"

section \<open>Histories\<close>

text \<open>
  The operations in any order, with the set of certificate authorities that the agent has installed
  in the operating system and not removed. A failing removal leaves the authority installed.
\<close>

datatype identity_op =
    OpRotate string string string string string
  | OpClear
  | OpBootstrap string string string string string

definition trust_after :: "(store_op \<Rightarrow> bool) \<Rightarrow> store_op list \<Rightarrow> string set \<Rightarrow> string set" where
  "trust_after ok calls trust =
     fold (\<lambda>c t. if \<not> ok c then t else case c of InstallCA i _ \<Rightarrow> insert i t | RemoveCA i \<Rightarrow> t - {i}) calls trust"

fun identity_exec :: "x509 \<Rightarrow> (store_op \<Rightarrow> bool) \<Rightarrow> identity_op \<Rightarrow> string set \<times> identity_store \<Rightarrow> string set \<times> identity_store" where
  "identity_exec x ok (OpRotate ca client cert key der) (t, s) =
    (case RotateCredentials x ok ca client cert key der s of (_, calls, s') \<Rightarrow> (trust_after ok calls t, s'))"
| "identity_exec x ok OpClear (t, s) = (case identity_Clear s of (calls, s') \<Rightarrow> (trust_after ok calls t, s'))"
| "identity_exec x ok (OpBootstrap ca client cert key chain) (t, s) = (t, Bootstrap ca client cert key chain s)"

definition removes :: "(store_op \<Rightarrow> bool) \<Rightarrow> bool" where
  "removes ok \<longleftrightarrow> (\<forall>i. ok (RemoveCA i))"

fun not_bootstrap :: "identity_op \<Rightarrow> bool" where
  "not_bootstrap (OpBootstrap _ _ _ _ _) = False"
| "not_bootstrap _ = True"

definition trust_exact :: "string set \<times> identity_store \<Rightarrow> bool" where
  "trust_exact ts = (case is_creds (snd ts) of None \<Rightarrow> fst ts = {} | Some c \<Rightarrow> fst ts = {cr_caID c})"

section \<open>Lemmas\<close>

lemma trust_after_simps [simp]:
  "trust_after ok [] t = t"
  "trust_after ok (InstallCA i d # cs) t = trust_after ok cs (if ok (InstallCA i d) then insert i t else t)"
  "trust_after ok (RemoveCA i # cs) t = trust_after ok cs (if ok (RemoveCA i) then t - {i} else t)"
  by (simp_all add: trust_after_def)

lemma exec_trust_exact:
  assumes "removes ok" and "not_bootstrap op" and "trust_exact ts"
  shows "trust_exact (identity_exec x ok op ts)"
proof (cases ts)
  case (Pair t s)
  with assms show ?thesis
    by (cases op) (auto simp: trust_exact_def RotateCredentials_def identity_Clear_def removes_def Let_def split: option.splits)
qed

lemma run_trust_exact:
  assumes "removes ok" and "list_all not_bootstrap ops" and "trust_exact ts"
  shows "trust_exact (fold (identity_exec x ok) ops ts)"
  using assms(2,3) by (induction ops arbitrary: ts) (simp_all add: exec_trust_exact[OF assms(1)])

lemma int_div_pos_bound:
  fixes d k h :: int
  assumes "0 < h"
  shows "d div h < k \<longleftrightarrow> d < k * h"
proof
  assume "d div h < k"
  then have "(d div h + 1) * h \<le> k * h" using assms by simp
  moreover have "d < (d div h + 1) * h"
    unfolding distrib_right mult_1 using div_mult_mod_eq[of d h] pos_mod_bound[OF assms, of d] by linarith
  ultimately show "d < k * h" by linarith
next
  assume "d < k * h"
  moreover have "d div h * h \<le> d" using div_mult_mod_eq[of d h] pos_mod_sign[OF assms, of d] by linarith
  ultimately have "d div h * h < k * h" by linarith
  then show "d div h < k" using assms by simp
qed

lemma days_left_le: "0 < k \<Longrightarrow> days_left d \<le> k \<longleftrightarrow> d < (k + 1) * hours_per_day"
proof -
  assume "0 < k"
  have h: "0 < hours_per_day" by (simp add: hours_per_day_def second_def)
  show ?thesis
  proof (cases "0 \<le> d")
    case True
    have "d div hours_per_day < k + 1 \<longleftrightarrow> d < (k + 1) * hours_per_day"
      by (rule int_div_pos_bound[OF h])
    with True show ?thesis by (simp only: days_left_def if_True zle_add1_eq_le)
  next
    case False
    then have "0 \<le> (- d) div hours_per_day" using h by (simp add: pos_imp_zdiv_nonneg_iff)
    moreover have "0 < (k + 1) * hours_per_day" using h \<open>0 < k\<close> by simp
    ultimately show ?thesis using False \<open>0 < k\<close> by (simp add: days_left_def)
  qed
qed

section \<open>Properties\<close>

text \<open>
  Rotation is all or nothing and leaves no stale trust. When the new authority cannot be installed
  nothing changes and nothing else is called. Otherwise the material handed out is exactly the new one,
  the new authority is never removed, and the previous one is removed exactly when it is another. Over
  any history of rotations and clears, with a store whose removals work, the authorities the agent has
  installed are exactly that of its current credentials.
\<close>

theorem rotation_leaves_no_stale_trust:
  "(case RotateCredentials x ok ca client cert key der s of
      (success, calls, s') \<Rightarrow>
        success = ok (InstallCA ca der) \<and>
        (if success then
           map_option (\<lambda>m. (tm_CertDER m, tm_KeyDER m, tm_CADER m)) (GetGatewayTLSConfig s') = Some (cert, key, der) \<and>
           set calls = {InstallCA ca der} \<union> RemoveCA ` {i. i \<noteq> ca \<and> map_option cr_caID (is_creds s) = Some i}
         else s' = s \<and> calls = [InstallCA ca der])) \<and>
   (removes ok \<and> list_all not_bootstrap ops \<longrightarrow> trust_exact (fold (identity_exec x ok) ops ({}, NewIdentityStore)))"
proof -
  have "trust_exact ({}, NewIdentityStore)" by (simp add: trust_exact_def NewIdentityStore_def)
  then have "removes ok \<and> list_all not_bootstrap ops \<longrightarrow> trust_exact (fold (identity_exec x ok) ops ({}, NewIdentityStore))"
    using run_trust_exact by blast
  then show ?thesis
    by (auto simp: RotateCredentials_def GetGatewayTLSConfig_def Let_def split: option.splits)
qed

text \<open>
  The renewal check fires exactly when less than the threshold and one more day are left, fourteen
  days being the threshold when none is given, also after expiry; without a certificate that parses
  it never fires.
\<close>

theorem renewal_exact:
  "rc_NeedsRenewal (CheckRenewal x now threshold s) \<longleftrightarrow>
    (\<exists>t. GetCertExpiry x s = Some t \<and> t - now < ((if threshold \<le> 0 then 14 else threshold) + 1) * hours_per_day)"
  by (auto simp: CheckRenewal_def GetCertExpiry_def Let_def days_left_le split: option.splits)

text \<open>
  A rotation whose authority does not parse succeeds, but the material it leaves cannot be built into a
  TLS configuration: the agent is cut off from the gateway although the old credentials worked.
\<close>

lemma rotation_accepts_unusable_ca:
  assumes "x_cert x der = None" and "x_cert x cert \<noteq> None" and "x_pkcs8 x key" and "ok (InstallCA ca der)"
  shows "case RotateCredentials x ok ca client cert key der s of
    (success, _, s') \<Rightarrow> success \<and> BuildTLSConfig x (GetGatewayTLSConfig s') \<in> {Inl CACertError, Inl NoCA}"
  using assms by (auto simp: RotateCredentials_def GetGatewayTLSConfig_def BuildTLSConfig_def root_certs_def derCertToPEM_def Let_def
      split: option.splits)

text \<open>An authority installed by a rotation stays installed when a bootstrap replaces the credentials.\<close>

lemma bootstrap_orphans_ca:
  assumes "ok (InstallCA ca der)" and "ca \<noteq> ca'"
  shows "ca \<in> fst (identity_exec x ok OpClear (identity_exec x ok (OpBootstrap ca' cl' cert' key' chain)
     (identity_exec x ok (OpRotate ca cl cert key der) ({}, NewIdentityStore))))"
  using assms by (auto simp: RotateCredentials_def identity_Clear_def Bootstrap_def NewIdentityStore_def Let_def)

section \<open>Witness\<close>

definition plain_x509 :: x509 where
  "plain_x509 = \<lparr>x_cert = (\<lambda>d. if d = [] then None else Some \<lparr>ci_CommonName = d, ci_Serial = ''1'', ci_NotAfter = 0\<rparr>),
     x_pkcs8 = (\<lambda>_. True), x_pkcs1 = (\<lambda>_. False), x_ec = (\<lambda>_. False), x_pool = (\<lambda>_. True), x_decode = Some, x_encode = (\<lambda>d. d)\<rparr>"

lemma rotation_leaves_no_stale_trust_witness:
  "trust_exact (fold (identity_exec plain_x509 (\<lambda>_. True))
     [OpRotate ''ca1'' ''c'' ''cert'' ''key'' ''der'', OpRotate ''ca2'' ''c'' ''cert2'' ''key2'' ''der2''] ({}, NewIdentityStore))"
  by (rule conjunct2[OF rotation_leaves_no_stale_trust, THEN mp]) (simp add: removes_def)

end
