(* ===== verification/Agent_Lifecycle.thy ===== *)
theory Agent_Lifecycle
  imports Agent_Monitor AI_Activity Policy_Sync Agent_Identity
begin

text \<open>
  Start and shutdown of the agent (\<^verbatim>\<open>src/core/agent.go\<close>, \<^verbatim>\<open>src/core/lifecycle.go\<close>): the wait for enrolment,
  the phases in their order, the retried listener, the clean-up of a stale proxy setting, and the
  shutdown that waits for the background goroutines.

  A run is a function from the outcomes of the calls it makes (\<open>life_env\<close>) to its result and the list of
  what it did. The background goroutines (policy sync, emitter, discovery, monitor, health check)
  return only when their context is cancelled, so the wait for them ends exactly when there are none or
  the context is cancelled at some time (\<open>le_cancelled\<close>). What they do meanwhile is in the theories
  of their components. \<^verbatim>\<open>Blocked\<close> is a run that waits for ever, \<^verbatim>\<open>Waiting\<close> one not yet enrolled.
\<close>

section \<open>Data\<close>

datatype life_error = StatusUnavailable | ContextEnded | NoCredentials | ProxyStartFailed | ProxyExit

datatype start_result = Returned "life_error option" | Blocked | Waiting

datatype life_act =
    StatusStarted | GatewayInit | PolicyFetched | Spawn string | Emitted string godata | PromptStarted
  | ListenAttempt | ProxyReady | OsCall os_call | Flushed | StoppedProxy | StoppedPrompt | StoppedStatus
  | WaitedGoroutines | ClosedGateway

datatype wake = WakeDone | Wake agent_config bool

datatype run_end = ContextDone | ProxyExited bool

record proxy_state =
  px_Host :: string
  px_Port :: nat
  px_Active :: bool
  px_OwnedByAgent :: bool

record life_env =
  le_env :: runtime_env
  le_status_ok :: bool
  le_wakes :: "wake list"
  le_discoverer :: bool
  le_prompt_error :: "string option"
  le_listen :: "nat \<Rightarrow> bool"
  le_pause_ended :: "nat \<Rightarrow> bool"
  le_state :: "proxy_state option"
  le_stale_dial :: "nat \<Rightarrow> bool"
  le_end :: run_end
  le_cancelled :: bool

text \<open>Which parts exist when shutdown runs.\<close>

record life_parts =
  lp_emitter :: bool
  lp_proxy :: bool
  lp_prompt :: bool
  lp_gateway :: bool
  lp_tracked :: "string list"

section \<open>Enrolment\<close>

datatype prereq_error = MissingConfig "string list" | MissingCredentials

definition runtimePrereqError :: "agent_config \<Rightarrow> bool \<Rightarrow> prereq_error option" where
  "runtimePrereqError cfg creds =
    (let missing = (if trim_space (cf_AgentID cfg) = [] then [''agent_id''] else []) @
                   (if trim_space (cf_GatewayURL cfg) = [] then [''gateway_url''] else []) in
     if missing \<noteq> [] then Some (MissingConfig missing) else if \<not> creds then Some MissingCredentials else None)"

fun wait_loop :: "wake list \<Rightarrow> (life_error + (agent_config \<times> bool)) option" where
  "wait_loop [] = None"
| "wait_loop (WakeDone # ws) = Some (Inl ContextEnded)"
| "wait_loop (Wake cfg creds # ws) = (if runtimePrereqError cfg creds = None then Some (Inr (cfg, creds)) else wait_loop ws)"

definition waitForRuntimeReady :: "agent_config \<Rightarrow> bool \<Rightarrow> wake list \<Rightarrow> (life_error + (agent_config \<times> bool)) option" where
  "waitForRuntimeReady cfg creds ws = (if runtimePrereqError cfg creds = None then Some (Inr (cfg, creds)) else wait_loop ws)"

section \<open>Shutdown\<close>

definition shutdown :: "runtime_env \<Rightarrow> life_parts \<Rightarrow> bool \<Rightarrow> bool \<times> life_act list" where
  "shutdown env parts cancelled =
    (let acts = [Emitted ''agent.stopped'' [(''agent_version'', VString (rv_version env)),
                   (''uptime_seconds'', VInt ((rv_now env - rv_start env) div second))]] @
           (if lp_emitter parts then [Flushed] else []) @ [OsCall OsUnregister] @
           (if lp_proxy parts then [StoppedProxy] else []) @ (if lp_prompt parts then [StoppedPrompt] else []) @ [StoppedStatus] in
     if lp_tracked parts = [] \<or> cancelled
     then (True, acts @ [WaitedGoroutines] @ (if lp_gateway parts then [ClosedGateway] else []))
     else (False, acts))"

definition finish :: "runtime_env \<Rightarrow> life_parts \<Rightarrow> bool \<Rightarrow> life_error option \<Rightarrow> life_act list \<Rightarrow> start_result \<times> life_act list" where
  "finish env parts cancelled err done =
    (case shutdown env parts cancelled of (ended, acts) \<Rightarrow> (if ended then Returned err else Blocked, done @ acts))"

section \<open>The listener\<close>

text \<open>At most three attempts; \<open>Inl\<close> with the error, or \<open>Inr\<close>, with what was done.\<close>

function listen_attempts :: "life_env \<Rightarrow> nat \<Rightarrow> life_error option \<times> life_act list" where
  "listen_attempts env attempt =
    (if le_listen env attempt then (None, [ListenAttempt, ProxyReady])
     else if 3 \<le> attempt then (Some ProxyStartFailed, [ListenAttempt])
     else if le_pause_ended env attempt then (Some ContextEnded, [ListenAttempt])
     else case listen_attempts env (attempt + 1) of (r, acts) \<Rightarrow> (r, ListenAttempt # acts))"
  by pat_completeness auto

termination
  by (relation "measure (\<lambda>(env, attempt). 4 - attempt)") auto

declare listen_attempts.simps [simp del]

definition startProxyWithRetry :: "life_env \<Rightarrow> life_error option \<times> life_act list" where
  "startProxyWithRetry env = listen_attempts env 1"

definition cleanStaleProxy :: "life_env \<Rightarrow> life_act list" where
  "cleanStaleProxy env =
    (case le_state env of
       None \<Rightarrow> []
     | Some st \<Rightarrow>
        if \<not> px_Active st \<or> \<not> px_OwnedByAgent st then []
        else if list_ex (le_stale_dial env) [0..<3] then []
        else [Emitted ''proxy.stale_cleanup'' (address_data (px_Host st) (px_Port st)), OsCall OsUnregister])"

section \<open>Start\<close>

definition started_data :: "runtime_env \<Rightarrow> agent_config \<Rightarrow> godata" where
  "started_data env cfg = [(''protocol_version'', VString ProtocolVersion), (''agent_version'', VString (rv_version env)),
     (''listen_addr'', VString (cf_ListenAddr cfg))]"

definition prompt_failure_data :: "string \<Rightarrow> godata" where
  "prompt_failure_data err = [(''method'', VString ''PROMPT''), (''host'', VString ''local-agent''), (''decision'', VString ''allow''),
     (''status'', VInt 503), (''capture_stage'', VString ''service''), (''capture_surface'', VString CaptureSurfaceDesktop),
     (''capture_outcome'', VString CaptureOutcomeDegradedFailOpen), (''error'', VString err)]"

definition background :: "life_env \<Rightarrow> string list" where
  "background env = [''policy-sync'', ''telemetry-emitter''] @ (if le_discoverer env then [''endpoint-ai-discovery''] else [])"

definition run_to_end :: "life_env \<Rightarrow> agent_config \<Rightarrow> life_act list \<Rightarrow> start_result \<times> life_act list" where
  "run_to_end env cfg done =
    (let tracked = background env @ [''integrity-monitor'', ''health-check''];
         parts = \<lparr>lp_emitter = True, lp_proxy = True, lp_prompt = True, lp_gateway = True, lp_tracked = tracked\<rparr>;
         done2 = done @ cleanStaleProxy env @ [OsCall (case_prod OsRegister (splitListenAddr (cf_ListenAddr cfg))),
           Spawn ''integrity-monitor'', Spawn ''health-check''] in
     case le_end env of
       ContextDone \<Rightarrow> finish (le_env env) parts True None done2
     | ProxyExited failed \<Rightarrow> finish (le_env env) parts (le_cancelled env) (if failed then Some ProxyExit else None) done2)"

definition start_runtime :: "life_env \<Rightarrow> agent_config \<Rightarrow> life_act list \<Rightarrow> start_result \<times> life_act list" where
  "start_runtime env cfg done =
    (let done1 = done @ [GatewayInit, PolicyFetched] @ map Spawn (background env) @
           [Emitted ''agent.started'' (started_data (le_env env) cfg),
            (case le_prompt_error env of None \<Rightarrow> PromptStarted | Some err \<Rightarrow> Emitted ''proxy.request'' (prompt_failure_data err))] in
     case startProxyWithRetry env of
       (Some err, acts) \<Rightarrow>
         finish (le_env env) \<lparr>lp_emitter = True, lp_proxy = False, lp_prompt = True, lp_gateway = True, lp_tracked = background env\<rparr>
           (err = ContextEnded \<or> le_cancelled env) (Some err) (done1 @ acts)
     | (None, acts) \<Rightarrow> run_to_end env cfg (done1 @ acts))"

definition Start :: "life_env \<Rightarrow> agent_config \<Rightarrow> bool \<Rightarrow> start_result \<times> life_act list" where
  "Start env cfg0 creds0 =
    (if \<not> le_status_ok env \<and> runtimePrereqError cfg0 creds0 \<noteq> None then (Returned (Some StatusUnavailable), [])
     else
       (let done = (if le_status_ok env then [StatusStarted] else []) in
        case waitForRuntimeReady cfg0 creds0 (le_wakes env) of
          None \<Rightarrow> (Waiting, done)
        | Some (Inl err) \<Rightarrow>
            finish (le_env env) \<lparr>lp_emitter = False, lp_proxy = False, lp_prompt = False, lp_gateway = False, lp_tracked = []\<rparr>
              True (Some err) done
        | Some (Inr (cfg, creds)) \<Rightarrow>
            if \<not> creds then (Returned (Some NoCredentials), done) else start_runtime env cfg done))"

text \<open>The policy phase: what the engine decides by when the proxy opens.\<close>

definition initial_policy :: "(string \<Rightarrow> regexp option) \<Rightarrow> (policy_rule list \<Rightarrow> policy_rule list) \<Rightarrow>
    (http_request \<Rightarrow> string + http_response) \<Rightarrow> (string \<Rightarrow> string + policy_payload) \<Rightarrow> fetcher \<Rightarrow> engine \<Rightarrow> fetcher \<times> engine" where
  "initial_policy rc sorter client decode f e =
    (case fetcher_Fetch client decode f of
       (Inl err, f') \<Rightarrow> (f', e)
     | (Inr (None, _), f') \<Rightarrow> (f', e)
     | (Inr (Some payload, _), f') \<Rightarrow> (f', snd (engine_Update rc sorter (Some payload) e)))"

section \<open>Credentials\<close>

datatype bootstrap_error = ReadCert | NoCertBlock | ReadKey | NoKeyBlock | ReadCA | NoCABlock | ParseClientCert | ParseCACert

definition bootstrapFromPEM :: "x509 \<Rightarrow> (string \<Rightarrow> string option) \<Rightarrow> agent_config \<Rightarrow> identity_store \<Rightarrow>
    bootstrap_error option \<times> identity_store" where
  "bootstrapFromPEM x readFile cfg store =
    (case readFile (cf_CertPath cfg) of None \<Rightarrow> (Some ReadCert, store) | Some certPEM \<Rightarrow>
     (case x_decode x certPEM of None \<Rightarrow> (Some NoCertBlock, store) | Some certDER \<Rightarrow>
     (case readFile (cf_KeyPath cfg) of None \<Rightarrow> (Some ReadKey, store) | Some keyPEM \<Rightarrow>
     (case x_decode x keyPEM of None \<Rightarrow> (Some NoKeyBlock, store) | Some keyDER \<Rightarrow>
     (case readFile (cf_CAPath cfg) of None \<Rightarrow> (Some ReadCA, store) | Some caPEM \<Rightarrow>
     (case x_decode x caPEM of None \<Rightarrow> (Some NoCABlock, store) | Some caDER \<Rightarrow>
     (case x_cert x certDER of None \<Rightarrow> (Some ParseClientCert, store) | Some client \<Rightarrow>
     (case x_cert x caDER of None \<Rightarrow> (Some ParseCACert, store) | Some ca \<Rightarrow>
       (None, Bootstrap (ci_CommonName ca) (ci_CommonName client) certDER keyDER caPEM store)))))))))"

datatype enrol_error = ReloadFailed load_error | IncompletePaths | BootstrapFailed bootstrap_error

definition loadIdentityFromConfig :: "x509 \<Rightarrow> (string \<Rightarrow> string option) \<Rightarrow> agent_config \<Rightarrow> identity_store \<Rightarrow>
    enrol_error option \<times> identity_store" where
  "loadIdentityFromConfig x readFile cfg store =
    (if cf_CertPath cfg = [] \<or> cf_KeyPath cfg = [] \<or> cf_CAPath cfg = [] then (Some IncompletePaths, store)
     else case bootstrapFromPEM x readFile cfg store of
       (Some err, store') \<Rightarrow> (Some (BootstrapFailed err), store')
     | (None, store') \<Rightarrow> (None, store'))"

section \<open>Discovery\<close>

record ai_observation =
  ob_VendorKey :: string
  ob_ProductKey :: string
  ob_Surface :: string
  ob_ActivityKind :: string
  ob_SourceApplication :: string
  ob_Count :: int

definition discovery_event :: "(time \<Rightarrow> string) \<Rightarrow> string \<Rightarrow> time \<Rightarrow> ai_observation \<Rightarrow> activity_event" where
  "discovery_event bucket agentID now ob =
    (let ev = NewObservedEvent now (ob_VendorKey ob) (ob_ProductKey ob) (ob_Surface ob) (ob_ActivityKind ob) (ob_SourceApplication ob) agentID
           (agentID @ '':'' @ ob_ProductKey ob @ '':'' @ ob_Surface ob @ '':'' @ ob_ActivityKind ob @ '':'' @ bucket now) now in
     if 0 < ob_Count ob then ev\<lparr>ae_Count := ob_Count ob\<rparr> else ev)"

definition runEndpointAIDiscovery :: "(time \<Rightarrow> string) \<Rightarrow> string \<Rightarrow> time \<Rightarrow> ai_observation list option \<Rightarrow> collector \<Rightarrow> collector" where
  "runEndpointAIDiscovery bucket agentID now found c =
    (case found of
       None \<Rightarrow> c
     | Some obs \<Rightarrow>
        fold (\<lambda>ev. collector_Emit now ''ai.activity.v1'' \<lparr>ep_AgentID = agentID, ep_Timestamp = ae_ObservedAt ev, ep_Data = activity_Data ev\<rparr>)
          (filter (\<lambda>ev. activity_Validate ev = []) (map (discovery_event bucket agentID now) obs)) c)"

section \<open>Lemmas\<close>

definition os_calls :: "life_act list \<Rightarrow> os_call list" where
  "os_calls acts = List.map_filter (\<lambda>a. case a of OsCall c \<Rightarrow> Some c | _ \<Rightarrow> None) acts"

lemma os_calls_simps [simp]:
  "os_calls [] = []" "os_calls (xs @ ys) = os_calls xs @ os_calls ys"
  "os_calls (a # xs) = (case a of OsCall c \<Rightarrow> c # os_calls xs | _ \<Rightarrow> os_calls xs)"
  by (simp_all add: os_calls_def List.map_filter_def split: life_act.splits)

lemma os_calls_spawn [simp]: "os_calls (map Spawn xs) = []"
  by (induction xs) simp_all

lemma shutdown_calls: "os_calls (snd (shutdown env parts cancelled)) = [OsUnregister]"
  by (simp add: shutdown_def Let_def)

lemma finish_calls: "os_calls (snd (finish env parts cancelled err pre)) = os_calls pre @ [OsUnregister]"
  using shutdown_calls[of env parts cancelled] by (cases "shutdown env parts cancelled") (simp add: finish_def)

lemma finish_blocked: "fst (finish env parts cancelled err pre) = Blocked \<longleftrightarrow> lp_tracked parts \<noteq> [] \<and> \<not> cancelled"
  by (simp add: finish_def shutdown_def Let_def)

lemma finish_prefix: "\<exists>zs. snd (finish env parts cancelled err pre) = pre @ zs \<and> ProxyReady \<notin> set zs"
  by (simp add: finish_def shutdown_def Let_def split: prod.split)

lemma finish_not_waiting [simp]: "fst (finish env parts cancelled err pre) \<noteq> Waiting"
  by (simp add: finish_def split: prod.split)

lemma listen_calls: "os_calls (snd (listen_attempts env n)) = []"
proof (induction env n rule: listen_attempts.induct)
  case (1 env n)
  then show ?case by (subst listen_attempts.simps) (auto split: prod.split)
qed

lemma listen_ready: "fst (listen_attempts env n) = None \<Longrightarrow> ProxyReady \<in> set (snd (listen_attempts env n))"
proof (induction env n rule: listen_attempts.induct)
  case (1 env n)
  from 1(2) show ?case
    by (subst listen_attempts.simps, subst (asm) listen_attempts.simps)
       (use 1(1) in \<open>auto split: prod.splits if_splits\<close>)
qed

lemma background_nonempty [simp]: "background env \<noteq> []"
  by (simp add: background_def)

lemma wait_enrolled: "waitForRuntimeReady cfg creds ws = Some (Inr (cfg', creds')) \<Longrightarrow> runtimePrereqError cfg' creds' = None"
proof -
  have "wait_loop ws = Some (Inr (cfg', creds')) \<Longrightarrow> runtimePrereqError cfg' creds' = None"
    by (induction ws rule: wait_loop.induct) (auto split: if_splits)
  then show "waitForRuntimeReady cfg creds ws = Some (Inr (cfg', creds')) \<Longrightarrow> ?thesis"
    by (auto simp: waitForRuntimeReady_def split: if_splits)
qed

lemma enrolled_creds: "runtimePrereqError cfg creds = None \<Longrightarrow> creds"
  by (simp add: runtimePrereqError_def Let_def split: if_splits)

text \<open>What a run with a listener does: it registers once, after the listener is ready, and shuts down at the end.\<close>

abbreviation register_call :: "agent_config \<Rightarrow> life_act" where
  "register_call cfg \<equiv> OsCall (case_prod OsRegister (splitListenAddr (cf_ListenAddr cfg)))"

definition registers :: "life_act list \<Rightarrow> nat" where
  "registers acts = length (filter (\<lambda>c. c \<noteq> OsUnregister) (os_calls acts))"

lemma stale_calls: "set (os_calls (cleanStaleProxy env)) \<subseteq> {OsUnregister}"
  by (simp add: cleanStaleProxy_def split: option.split)

lemma run_to_end_acts:
  "\<exists>parts cancelled err. run_to_end env cfg pre = finish (le_env env) parts cancelled err
     (pre @ cleanStaleProxy env @ [register_call cfg, Spawn ''integrity-monitor'', Spawn ''health-check''])"
  by (cases "le_end env") (auto simp: run_to_end_def Let_def)

lemma runtime_before:
  "\<exists>pre. os_calls pre = [] \<and>
    (case startProxyWithRetry env of
       (Some err, acts) \<Rightarrow> \<exists>parts cancelled. start_runtime env cfg [] = finish (le_env env) parts cancelled (Some err) (pre @ acts)
     | (None, acts) \<Rightarrow> start_runtime env cfg [] = run_to_end env cfg (pre @ acts))"
proof -
  let ?pre = "[GatewayInit, PolicyFetched] @ map Spawn (background env) @
           [Emitted ''agent.started'' (started_data (le_env env) cfg),
            (case le_prompt_error env of None \<Rightarrow> PromptStarted | Some err \<Rightarrow> Emitted ''proxy.request'' (prompt_failure_data err))]"
  have "os_calls ?pre = []" by (simp split: option.split)
  then show ?thesis
    by (intro exI[of _ ?pre]) (auto simp: start_runtime_def Let_def split: prod.split option.split)
qed

lemma start_runtime_prefix:
  "start_runtime env cfg pre = (fst (start_runtime env cfg []), pre @ snd (start_runtime env cfg []))"
proof -
  have finish: "finish e parts c err (xs @ ys) = (fst (finish e parts c err ys), xs @ snd (finish e parts c err ys))" for e parts c err xs ys
    by (simp add: finish_def split: prod.split)
  have run: "run_to_end env cfg (xs @ ys) = (fst (run_to_end env cfg ys), xs @ snd (run_to_end env cfg ys))" for xs ys
    by (simp add: run_to_end_def Let_def finish split: run_end.split)
  show ?thesis
    unfolding start_runtime_def Let_def append_Nil by (simp only: append_assoc finish run split: prod.split option.split) simp
qed

text \<open>What a run may do to the machine's proxy setting.\<close>

definition safe_run :: "life_act list \<Rightarrow> bool" where
  "safe_run acts \<longleftrightarrow>
    (os_calls acts = [] \<or> last (os_calls acts) = OsUnregister) \<and> registers acts \<le> 1 \<and>
    (registers acts = 1 \<longrightarrow>
      (\<exists>cfg us vs. acts = us @ register_call cfg # vs \<and> ProxyReady \<in> set us \<and> runtimePrereqError cfg True = None))"

lemma registers_append: "registers (xs @ ys) = registers xs + registers ys"
  by (simp add: registers_def)

lemma no_registers: "set (os_calls acts) \<subseteq> {OsUnregister} \<Longrightarrow> registers acts = 0"
  by (auto simp: registers_def filter_empty_conv)

lemma safe_finish:
  assumes "registers pre = 0"
  shows "safe_run (snd (finish env parts cancelled err pre))"
proof -
  have "registers (snd (finish env parts cancelled err pre)) = registers pre"
    unfolding registers_def finish_calls by simp
  with assms show ?thesis by (simp add: safe_run_def finish_calls)
qed

lemma safe_run_to_end:
  assumes "os_calls pre = []" and "ProxyReady \<in> set pre" and "runtimePrereqError cfg True = None"
  shows "safe_run (snd (run_to_end env cfg pre))"
proof -
  obtain parts c err where run: "run_to_end env cfg pre = finish (le_env env) parts c err
      (pre @ cleanStaleProxy env @ [register_call cfg, Spawn ''integrity-monitor'', Spawn ''health-check''])"
    using run_to_end_acts by blast
  obtain zs where "snd (run_to_end env cfg pre) =
      (pre @ cleanStaleProxy env @ [register_call cfg, Spawn ''integrity-monitor'', Spawn ''health-check'']) @ zs"
    unfolding run using finish_prefix by blast
  then have acts: "snd (run_to_end env cfg pre) = (pre @ cleanStaleProxy env) @ register_call cfg #
      ([Spawn ''integrity-monitor'', Spawn ''health-check''] @ zs)" by simp
  have calls: "os_calls (snd (run_to_end env cfg pre)) = os_calls (cleanStaleProxy env) @
      [case_prod OsRegister (splitListenAddr (cf_ListenAddr cfg)), OsUnregister]"
    unfolding run finish_calls by (simp add: assms(1))
  have "registers (snd (run_to_end env cfg pre)) = 1"
    unfolding registers_def calls using stale_calls[of env] by (auto simp: filter_empty_conv split: prod.split)
  then show ?thesis
    unfolding safe_run_def calls using acts assms(2,3) by fastforce
qed

lemma safe_start_runtime:
  assumes "runtimePrereqError cfg True = None"
  shows "safe_run (snd (start_runtime env cfg []))"
proof -
  obtain pre where pre: "os_calls pre = []" and run: "case startProxyWithRetry env of
       (Some err, acts) \<Rightarrow> \<exists>parts cancelled. start_runtime env cfg [] = finish (le_env env) parts cancelled (Some err) (pre @ acts)
     | (None, acts) \<Rightarrow> start_runtime env cfg [] = run_to_end env cfg (pre @ acts)"
    using runtime_before[of env cfg] by (elim exE conjE) (rule that)
  obtain r acts where p: "startProxyWithRetry env = (r, acts)" by (cases "startProxyWithRetry env")
  have quiet: "os_calls (pre @ acts) = []" using pre listen_calls[of env 1] p by (simp add: startProxyWithRetry_def)
  show ?thesis
  proof (cases r)
    case (Some err)
    with run p obtain parts c where "start_runtime env cfg [] = finish (le_env env) parts c (Some err) (pre @ acts)" by auto
    moreover have "registers (pre @ acts) = 0" using quiet by (simp add: registers_def)
    ultimately show ?thesis by (simp only: safe_finish)
  next
    case None
    then have "ProxyReady \<in> set (pre @ acts)" using listen_ready[of env 1] p by (simp add: startProxyWithRetry_def)
    with None run p show ?thesis using safe_run_to_end[OF quiet _ assms] by simp
  qed
qed

lemma safe_prefix:
  assumes "safe_run acts" and "os_calls pre = []"
  shows "safe_run (pre @ acts)"
proof -
  have "registers (pre @ acts) = registers acts" using assms(2) by (simp add: registers_def)
  moreover have "\<exists>us'. pre @ us @ register_call cfg # vs = us' @ register_call cfg # vs \<and> (ProxyReady \<in> set us \<longrightarrow> ProxyReady \<in> set us')"
    for us vs cfg by (intro exI[of _ "pre @ us"]) simp
  ultimately show ?thesis using assms unfolding safe_run_def os_calls_simps by (metis append_Nil)
qed

section \<open>Properties\<close>


text \<open>
  When the listener dies, or never comes up, the run does not return. Shutdown waits for the background
  goroutines, which end only when the context is cancelled, and on these two paths nothing cancels it:
  a run of an enrolled agent hangs exactly when the proxy exited or could not be started and
  nobody else cancels the context. The gateway connection is then never closed.
\<close>

theorem proxy_exit_blocks_shutdown:
  "fst (Start env cfg creds) = Blocked \<longleftrightarrow>
     (le_status_ok env \<or> runtimePrereqError cfg creds = None) \<and>
     (\<exists>cfg'. waitForRuntimeReady cfg creds (le_wakes env) = Some (Inr (cfg', True))) \<and> \<not> le_cancelled env \<and>
     (case fst (startProxyWithRetry env) of Some err \<Rightarrow> err \<noteq> ContextEnded | None \<Rightarrow> le_end env \<noteq> ContextDone)"
proof -
  have runtime: "fst (start_runtime env cfg' pre) = Blocked \<longleftrightarrow> \<not> le_cancelled env \<and>
     (case fst (startProxyWithRetry env) of Some err \<Rightarrow> err \<noteq> ContextEnded | None \<Rightarrow> le_end env \<noteq> ContextDone)" for cfg' pre
    by (auto simp: start_runtime_def run_to_end_def Let_def finish_blocked split: prod.split option.split run_end.split)
  show ?thesis
  proof (cases "waitForRuntimeReady cfg creds (le_wakes env)")
    case (Some w)
    show ?thesis
    proof (cases w)
      case (Inl err)
      with Some show ?thesis by (simp add: Start_def Let_def finish_blocked)
    next
      case (Inr cc)
      with Some have "snd cc" using wait_enrolled[of cfg creds "le_wakes env" "fst cc" "snd cc"] enrolled_creds by simp
      with Some Inr show ?thesis by (cases cc) (auto simp: Start_def Let_def runtime)
    qed
  qed (simp add: Start_def Let_def)
qed


text \<open>
  Loading the credentials is all or nothing, and what an enrolment leaves behind is enough to go on:
  with an agent identifier and a gateway address the wait ends at its next wake-up.
\<close>

lemma enrolment_readies_runtime:
  "case loadIdentityFromConfig x readFile cfg store of
     (Some err, store') \<Rightarrow> store' = store
   | (None, store') \<Rightarrow> trim_space (cf_AgentID cfg) \<noteq> [] \<and> trim_space (cf_GatewayURL cfg) \<noteq> [] \<longrightarrow>
       wait_loop (Wake cfg (GetGatewayTLSConfig store' \<noteq> None) # ws) = Some (Inr (cfg, True))"
  by (auto simp: loadIdentityFromConfig_def bootstrapFromPEM_def Bootstrap_def GetGatewayTLSConfig_def runtimePrereqError_def Let_def
      split: option.splits)

text \<open>The gateway drops the report of a stale-proxy clean-up, and the listen address of a start.\<close>

lemma stale_cleanup_dropped:
  "event_op parse gnow dev org \<lparr>po_Name = ''proxy.stale_cleanup'', po_Data = dat, po_Timestamp = ts\<rparr> = None"
  by (simp add: event_op_def isAgentStatusEvent_def agent_status_names_def)

lemma started_listen_addr_dropped:
  "map_of (sanitizedAgentStatusData (Some (wire_data fmt (started_data env cfg)))) ''listen_addr'' = None"
  by (simp add: sanitizedAgentStatusData_def wire_data_def started_data_def sanitize_status_field_def allowed_status_keys_def List.map_filter_def)

end
