(* ===== verification/Editor_Hooks.thy ===== *)
theory Editor_Hooks
  imports Prompt_Capture
begin

text \<open>
  The prompt hooks that editors run before a prompt is sent (\<^verbatim>\<open>src/cmd/agent/hook_common.go\<close>,
  \<^verbatim>\<open>hook_claudecode.go\<close>, \<^verbatim>\<open>hook_cursor.go\<close>, \<^verbatim>\<open>hook_windsurf.go\<close>, \<^verbatim>\<open>hook_copilot.go\<close>). A hook reads JSON from
  its standard input, asks the prompt-capture service on the loopback interface and tells the editor what
  to do: by its exit code (Claude Code), by its output (Cursor), not at all (Windsurf), or by denying
  later terminal commands (GitHub Copilot, with a file per session).

  Decoding of the input, and the exchange with the service, are parameters. Log lines are left out.
  The session files of Copilot are a map from file name to contents (session identifiers are ASCII); a state that was written decodes to
  itself, with its time cut to seconds, as \<^verbatim>\<open>RFC3339\<close> does.
\<close>

section \<open>The exchange with the service\<close>

text \<open>What came back over HTTP: nothing, or a status and a body, which is empty, text, or the JSON of a response.\<close>

datatype reply_body = NoBody | TextBody string | ResponseBody prompt_evaluation_response

type_synonym http_reply = "(int \<times> reply_body) option"

definition zero_response :: prompt_evaluation_response where
  "zero_response = \<lparr>rs_EvaluationID = [], rs_Decision = DecisionForward, rs_PolicyRuleID = [], rs_ReasonCode = [], rs_Reason = [],
     rs_Message = [], rs_Outcome = [], rs_MatchCount = 0, rs_MatchTypes = [], rs_Severity = [], rs_Degraded = False,
     rs_DegradedCause = [], rs_Semantic = None, rs_EnforcementMode = [], rs_EffectiveEnforcementMode = [], rs_SurfaceEnforcement = []\<rparr>"

datatype post_error = PostFailed | PostStatus int string | PostDecode int

definition promptHookPostJSON :: "http_reply \<Rightarrow> post_error + prompt_evaluation_response" where
  "promptHookPostJSON reply =
    (case reply of
       None \<Rightarrow> Inl PostFailed
     | Some (status, body) \<Rightarrow>
        if status < 200 \<or> 300 \<le> status
        then Inl (PostStatus status (case body of TextBody msg \<Rightarrow> trim_space msg | _ \<Rightarrow> []))
        else case body of NoBody \<Rightarrow> Inr zero_response | TextBody _ \<Rightarrow> Inl (PostDecode status) | ResponseBody r \<Rightarrow> Inr r)"

record hook_env =
  hv_post :: "prompt_evaluation_request \<Rightarrow> http_reply"
  hv_error_text :: "post_error \<Rightarrow> string"

definition evaluator :: "hook_env \<Rightarrow> prompt_evaluation_request \<Rightarrow> post_error + prompt_evaluation_response" where
  "evaluator env req = promptHookPostJSON (hv_post env req)"

text \<open>What the editor sees, and the outcomes reported to the service.\<close>

datatype hook_output = CursorHookOutput bool string | CopilotDeny string

record hook_result =
  hk_exit :: int
  hk_stdout :: "hook_output option"
  hk_stderr :: "string option"
  hk_outcomes :: "prompt_outcome_request list"

definition hook_allow :: hook_result where
  "hook_allow = \<lparr>hk_exit = 0, hk_stdout = None, hk_stderr = None, hk_outcomes = []\<rparr>"

definition hook_request :: "string \<Rightarrow> string \<Rightarrow> string \<Rightarrow> string \<Rightarrow> string \<Rightarrow> (string \<times> string) list \<Rightarrow> prompt_evaluation_request" where
  "hook_request text surface app vendor host metadata =
    \<lparr>rq_PromptText = text, rq_Surface = surface, rq_AppName = app, rq_AppID = [], rq_AppPath = [], rq_DestinationURL = [],
     rq_DestinationHost = host, rq_DestinationPath = [], rq_Vendor = vendor, rq_ServiceCategory = ''ai_code'', rq_Protocol = [],
     rq_RequestID = [], rq_AdapterVersion = [], rq_Metadata = metadata\<rparr>"

definition hook_outcome :: "string \<Rightarrow> string \<Rightarrow> string \<Rightarrow> string \<Rightarrow> bool \<Rightarrow> prompt_outcome_request" where
  "hook_outcome evalID surface app outcome shown =
    \<lparr>oq_EvaluationID = evalID, oq_Surface = surface, oq_Outcome = outcome, oq_DestinationHost = [], oq_DestinationPath = [],
     oq_Vendor = [], oq_ServiceCategory = [], oq_AppName = app, oq_AdapterVersion = [], oq_UserMessageShown = shown, oq_Error = []\<rparr>"

definition degraded_outcome :: "string \<Rightarrow> string \<Rightarrow> string \<Rightarrow> string \<Rightarrow> string \<Rightarrow> prompt_outcome_request" where
  "degraded_outcome surface app vendor host err = (hook_outcome [] surface app CaptureOutcomeDegradedFailOpen False)
     \<lparr>oq_DestinationHost := host, oq_Vendor := vendor, oq_ServiceCategory := ''ai_code'', oq_Error := err\<rparr>"

text \<open>Standard input: unreadable, blank or not JSON ends a hook early; the text is decoded otherwise.\<close>

definition hook_input :: "(string \<Rightarrow> 'i option) \<Rightarrow> string option \<Rightarrow> 'i option" where
  "hook_input decode stdin = (case stdin of None \<Rightarrow> None | Some raw \<Rightarrow> if trim_space raw = [] then None else decode raw)"

definition or_message :: "string \<Rightarrow> string \<Rightarrow> string" where
  "or_message msg fallback = (if trim_space msg = [] then fallback else trim_space msg)"

section \<open>Claude Code\<close>

record claudeCodeHookInput =
  ci_Prompt :: string
  ci_SessionID :: string
  ci_CWD :: string
  ci_HookEventName :: string
  ci_TranscriptPath :: string
  ci_PermissionMode :: string

definition claude_request :: "claudeCodeHookInput \<Rightarrow> prompt_evaluation_request" where
  "claude_request p = hook_request (trim_space (ci_Prompt p)) CaptureSurfaceClaudeCode ''Claude Code'' ''anthropic'' ''api.anthropic.com''
     [(''session_id'', ci_SessionID p), (''cwd'', ci_CWD p), (''hook_event'', ci_HookEventName p),
      (''transcript_path'', ci_TranscriptPath p), (''permission_mode'', ci_PermissionMode p)]"

definition runClaudeCodeHook :: "hook_env \<Rightarrow> (string \<Rightarrow> claudeCodeHookInput option) \<Rightarrow> string option \<Rightarrow> hook_result" where
  "runClaudeCodeHook env decode stdin =
    (case hook_input decode stdin of
       None \<Rightarrow> hook_allow
     | Some p \<Rightarrow>
        if trim_space (ci_Prompt p) = [] then hook_allow
        else case evaluator env (claude_request p) of
          Inl err \<Rightarrow> hook_allow\<lparr>hk_outcomes :=
            [degraded_outcome CaptureSurfaceClaudeCode ''Claude Code'' ''anthropic'' ''api.anthropic.com'' (hv_error_text env err)]\<rparr>
        | Inr resp \<Rightarrow>
            if rs_Decision resp = DecisionBlock then
              \<lparr>hk_exit = 2, hk_stdout = None,
               hk_stderr = Some (''[Themisto] '' @ or_message (rs_Message resp) ''Blocked by organization policy.''),
               hk_outcomes = [hook_outcome (rs_EvaluationID resp) CaptureSurfaceClaudeCode ''Claude Code'' CaptureOutcomeBlocked True]\<rparr>
            else if rs_Decision resp = DecisionAlert then
              \<lparr>hk_exit = 0, hk_stdout = None,
               hk_stderr = Some (''[Themisto] Warning: '' @ or_message (rs_Message resp) ''Themisto flagged this prompt for sensitive content.''),
               hk_outcomes = [hook_outcome (rs_EvaluationID resp) CaptureSurfaceClaudeCode ''Claude Code'' CaptureOutcomeAllowed True]\<rparr>
            else hook_allow\<lparr>hk_outcomes := [hook_outcome (rs_EvaluationID resp) CaptureSurfaceClaudeCode ''Claude Code'' CaptureOutcomeAllowed False]\<rparr>)"

section \<open>Cursor\<close>

record cursorHookInput =
  cu_Prompt :: string
  cu_ConversationID :: string
  cu_GenerationID :: string
  cu_Model :: string
  cu_HookEventName :: string
  cu_CursorVersion :: string
  cu_UserEmail :: string
  cu_TranscriptPath :: string
  cu_Attachments :: string
  cu_WorkspaceRoots :: string

definition trimJSONString :: "string \<Rightarrow> string" where
  "trimJSONString raw = (let text = trim_space raw in if text = [] \<or> text = ''null'' then [] else text)"

definition raw_field :: "string \<Rightarrow> string \<Rightarrow> (string \<times> string) list" where
  "raw_field k raw = (if trimJSONString raw \<noteq> [] then [(k, trimJSONString raw)] else [])"

definition cursor_request :: "cursorHookInput \<Rightarrow> prompt_evaluation_request" where
  "cursor_request p = hook_request (trim_space (cu_Prompt p)) CaptureSurfaceCursor ''Cursor'' ''cursor'' ''api2.cursor.sh''
     ([(''conversation_id'', cu_ConversationID p), (''generation_id'', cu_GenerationID p), (''model'', cu_Model p),
       (''hook_event'', cu_HookEventName p), (''cursor_version'', cu_CursorVersion p), (''user_email'', cu_UserEmail p),
       (''transcript_path'', cu_TranscriptPath p)] @
      raw_field ''attachments_json'' (cu_Attachments p) @ raw_field ''workspace_roots_json'' (cu_WorkspaceRoots p))"

definition cursor_allow :: hook_result where
  "cursor_allow = hook_allow\<lparr>hk_stdout := Some (CursorHookOutput True [])\<rparr>"

definition cursor_notice :: string where
  "cursor_notice = '' Start a new chat -- this conversation may still show the blocked content in Cursor'' @ [CHR 0x27] @
     ''s local history. Themisto is cleaning up local storage automatically.''"

definition runCursorHook :: "hook_env \<Rightarrow> (string \<Rightarrow> cursorHookInput option) \<Rightarrow> string option \<Rightarrow> hook_result" where
  "runCursorHook env decode stdin =
    (case hook_input decode stdin of
       None \<Rightarrow> cursor_allow
     | Some p \<Rightarrow>
        if trim_space (cu_Prompt p) = [] then cursor_allow
        else case evaluator env (cursor_request p) of
          Inl err \<Rightarrow> cursor_allow\<lparr>hk_outcomes :=
            [degraded_outcome CaptureSurfaceCursor ''Cursor'' ''cursor'' ''api2.cursor.sh'' (hv_error_text env err)]\<rparr>
        | Inr resp \<Rightarrow>
            if rs_Decision resp = DecisionBlock then
              \<lparr>hk_exit = 0, hk_stdout = Some (CursorHookOutput False
                 (or_message (rs_Message resp) ''Themisto blocked this prompt: sensitive data detected.'' @ cursor_notice)),
               hk_stderr = None,
               hk_outcomes = [hook_outcome (rs_EvaluationID resp) CaptureSurfaceCursor ''Cursor'' CaptureOutcomeBlocked True]\<rparr>
            else if rs_Decision resp = DecisionAlert then
              \<lparr>hk_exit = 0, hk_stdout = Some (CursorHookOutput True
                 (or_message (rs_Message resp) ''Themisto flagged this prompt for sensitive content. Review before sending.'')),
               hk_stderr = None,
               hk_outcomes = [hook_outcome (rs_EvaluationID resp) CaptureSurfaceCursor ''Cursor'' CaptureOutcomeAllowed True]\<rparr>
            else cursor_allow\<lparr>hk_outcomes := [hook_outcome (rs_EvaluationID resp) CaptureSurfaceCursor ''Cursor'' CaptureOutcomeAllowed False]\<rparr>)"

section \<open>Windsurf\<close>

record windsurfHookInput =
  wi_AgentActionName :: string
  wi_TrajectoryID :: string
  wi_ExecutionID :: string
  wi_UserPrompt :: string

definition windsurf_request :: "windsurfHookInput \<Rightarrow> prompt_evaluation_request" where
  "windsurf_request p = hook_request (trim_space (wi_UserPrompt p)) CaptureSurfaceWindsurf ''Windsurf'' ''windsurf'' ''windsurf.ai''
     [(''trajectory_id'', wi_TrajectoryID p), (''execution_id'', wi_ExecutionID p), (''action_name'', wi_AgentActionName p)]"

definition runWindsurfHook :: "hook_env \<Rightarrow> (string \<Rightarrow> windsurfHookInput option) \<Rightarrow> string option \<Rightarrow> hook_result" where
  "runWindsurfHook env decode stdin =
    (case hook_input decode stdin of
       None \<Rightarrow> hook_allow
     | Some p \<Rightarrow>
        if trim_space (wi_UserPrompt p) = [] then hook_allow
        else case evaluator env (windsurf_request p) of
          Inl err \<Rightarrow> hook_allow\<lparr>hk_outcomes := [degraded_outcome CaptureSurfaceWindsurf ''Windsurf'' ''windsurf'' ''windsurf.ai'' (hv_error_text env err)]\<rparr>
        | Inr resp \<Rightarrow>
            hook_allow\<lparr>hk_outcomes := [hook_outcome (rs_EvaluationID resp) CaptureSurfaceWindsurf ''Windsurf''
              (if rs_Decision resp = DecisionBlock then CaptureOutcomeWouldBlock else CaptureOutcomeAllowed) False]\<rparr>)"

section \<open>GitHub Copilot\<close>

record copilotSessionState =
  cs_SessionID :: string
  cs_EvaluationID :: string
  cs_Reason :: string
  cs_CreatedAt :: time

type_synonym copilot_files = "string \<Rightarrow> copilotSessionState option"

text \<open>The first of the keys that is present and decodes as a string; null decodes as the empty one.\<close>

fun firstHookString :: "godata \<Rightarrow> string list \<Rightarrow> string" where
  "firstHookString payload [] = []"
| "firstHookString payload (k # ks) =
    (case map_of payload k of
       Some (VString s) \<Rightarrow> trim_space s
     | Some VNil \<Rightarrow> []
     | _ \<Rightarrow> firstHookString payload ks)"

definition safe_char :: "char \<Rightarrow> char" where
  "safe_char c = (if is_alpha c \<or> is_digit c \<or> c \<in> set ''.-_'' then c else CHR ''_'')"

definition copilotSessionStatePath :: "string \<Rightarrow> string" where
  "copilotSessionStatePath sessionID = map safe_char sessionID @ ''.json''"

definition writeCopilotSessionState :: "bool \<Rightarrow> copilotSessionState \<Rightarrow> copilot_files \<Rightarrow> copilot_files" where
  "writeCopilotSessionState writable st files =
    (if trim_space (cs_SessionID st) = [] \<or> \<not> writable then files
     else files(copilotSessionStatePath (cs_SessionID st) \<mapsto> st))"

definition removeCopilotSessionState :: "string \<Rightarrow> copilot_files \<Rightarrow> copilot_files" where
  "removeCopilotSessionState sessionID files =
    (if trim_space sessionID = [] then files else files(copilotSessionStatePath sessionID := None))"

definition readCopilotSessionState :: "time \<Rightarrow> string \<Rightarrow> copilot_files \<Rightarrow> copilotSessionState option \<times> copilot_files" where
  "readCopilotSessionState now sessionID files =
    (if trim_space sessionID = [] then (None, files)
     else case files (copilotSessionStatePath sessionID) of
       None \<Rightarrow> (None, files)
     | Some st \<Rightarrow>
        if 3600 * second < now - cs_CreatedAt st then (None, removeCopilotSessionState sessionID files) else (Some st, files))"

definition copilot_request :: "godata \<Rightarrow> string \<Rightarrow> prompt_evaluation_request" where
  "copilot_request payload sessionID =
     hook_request (firstHookString payload [''prompt'']) CaptureSurfaceGitHubCopilot ''GitHub Copilot'' ''github'' ''api.githubcopilot.com''
       [(''hook_event_name'', firstHookString payload [''hook_event_name'', ''hookEventName'']), (''session_id'', sessionID),
        (''transcript_path'', firstHookString payload [''transcript_path'']), (''cwd'', firstHookString payload [''cwd''])]"

definition copilot_outcome :: "string \<Rightarrow> string \<Rightarrow> prompt_outcome_request" where
  "copilot_outcome evalID outcome = (hook_outcome evalID CaptureSurfaceGitHubCopilot ''GitHub Copilot'' outcome False)
     \<lparr>oq_DestinationHost := ''api.githubcopilot.com'', oq_Vendor := ''github'', oq_ServiceCategory := ''ai_code''\<rparr>"

definition runCopilotUserPromptSubmit :: "hook_env \<Rightarrow> bool \<Rightarrow> time \<Rightarrow> godata \<Rightarrow> string \<Rightarrow> copilot_files \<Rightarrow> hook_result \<times> copilot_files" where
  "runCopilotUserPromptSubmit env writable now payload sessionID files =
    (if firstHookString payload [''prompt''] = [] then (hook_allow, removeCopilotSessionState sessionID files)
     else case evaluator env (copilot_request payload sessionID) of
       Inl err \<Rightarrow>
         (hook_allow\<lparr>hk_outcomes := [degraded_outcome CaptureSurfaceGitHubCopilot ''GitHub Copilot'' ''github'' ''api.githubcopilot.com'' (hv_error_text env err)]\<rparr>,
          removeCopilotSessionState sessionID files)
     | Inr resp \<Rightarrow>
         if rs_Decision resp = DecisionBlock then
           (hook_allow\<lparr>hk_outcomes := [copilot_outcome (rs_EvaluationID resp) CaptureOutcomeWouldBlock]\<rparr>,
            writeCopilotSessionState writable \<lparr>cs_SessionID = sessionID, cs_EvaluationID = rs_EvaluationID resp, cs_Reason = rs_Message resp,
              cs_CreatedAt = now div second * second\<rparr> files)
         else
           (hook_allow\<lparr>hk_outcomes := [copilot_outcome (rs_EvaluationID resp) CaptureOutcomeAllowed]\<rparr>, removeCopilotSessionState sessionID files))"

definition runCopilotPreToolUse :: "time \<Rightarrow> godata \<Rightarrow> string \<Rightarrow> copilot_files \<Rightarrow> hook_result \<times> copilot_files" where
  "runCopilotPreToolUse now payload sessionID files =
    (if firstHookString payload [''tool_name'', ''toolName''] \<noteq> ''run_in_terminal'' then (hook_allow, files)
     else case readCopilotSessionState now sessionID files of
       (None, files') \<Rightarrow> (hook_allow, files')
     | (Some st, files') \<Rightarrow>
         (hook_allow\<lparr>hk_stdout := Some (CopilotDeny (or_message (cs_Reason st)
            ''A previous Copilot prompt matched Themisto policy, so terminal execution is denied for this session.''))\<rparr>, files'))"

definition copilot_hook_name :: "godata \<Rightarrow> string" where
  "copilot_hook_name payload =
    (let name = firstHookString payload [''hook_event_name'', ''hookEventName''] in
     if name \<noteq> [] then name
     else if firstHookString payload [''prompt''] \<noteq> [] then ''UserPromptSubmit''
     else if firstHookString payload [''tool_name'', ''toolName''] \<noteq> [] then ''PreToolUse''
     else [])"

definition copilot_dispatch :: "hook_env \<Rightarrow> bool \<Rightarrow> time \<Rightarrow> godata \<Rightarrow> copilot_files \<Rightarrow> hook_result \<times> copilot_files" where
  "copilot_dispatch env writable now payload files =
    (let sessionID = firstHookString payload [''session_id'', ''sessionId''] in
     if copilot_hook_name payload = ''UserPromptSubmit'' then runCopilotUserPromptSubmit env writable now payload sessionID files
     else if copilot_hook_name payload = ''PreToolUse'' then runCopilotPreToolUse now payload sessionID files
     else (hook_allow, files))"

definition runCopilotHook :: "hook_env \<Rightarrow> bool \<Rightarrow> time \<Rightarrow> (string \<Rightarrow> godata option) \<Rightarrow> string option \<Rightarrow> copilot_files \<Rightarrow> hook_result \<times> copilot_files" where
  "runCopilotHook env writable now decode stdin files =
    (case hook_input decode stdin of
       None \<Rightarrow> (hook_allow, files)
     | Some payload \<Rightarrow> copilot_dispatch env writable now payload files)"

section \<open>The hooks and the service\<close>

text \<open>The service on the loopback interface; both ends code the same message types.\<close>

definition service_reply :: "prompt_env \<Rightarrow> ((string \<times> stored_evaluation) list \<Rightarrow> (string \<times> stored_evaluation) list) \<Rightarrow>
    prompt_service \<Rightarrow> prompt_evaluation_request \<Rightarrow> http_reply" where
  "service_reply penv sorter s req =
    (case fst (handleEvaluate penv sorter (Inr req) s) of
       ReplyEvaluation resp \<Rightarrow> Some (200, ResponseBody resp)
     | ReplyAccepted \<Rightarrow> Some (202, NoBody)
     | ReplyError code msg \<Rightarrow> Some (code, TextBody msg))"

text \<open>A hook stops the prompt: Claude Code by exit code 2, Cursor by an answer that says not to continue.\<close>

definition stops :: "hook_result \<Rightarrow> bool" where
  "stops r = (hk_exit r = 2 \<or> (\<exists>msg. hk_stdout r = Some (CursorHookOutput False msg)))"

text \<open>The service blocks a prompt: by its verdict, or because the evaluation failed and the surface fails closed.\<close>

definition service_blocks :: "prompt_env \<Rightarrow> prompt_service \<Rightarrow> prompt_evaluation_request \<Rightarrow> bool" where
  "service_blocks penv s req =
    (case service_evaluate penv s req of
       Inr (resp, _) \<Rightarrow> rs_Decision resp = DecisionBlock
     | Inl _ \<Rightarrow> snd (enforcementModes s) = PromptEnforcementModeEnforce \<and> surfaceFailsClosed s (rq_Surface req))"

text \<open>
  The contract between a hook and what answers it: the request reaches the evaluator and its answer
  comes back. What the hooks rely on is proved once in the locale, which is interpreted for the service.
\<close>

locale answering =
  fixes env :: hook_env
    and blocks :: "prompt_evaluation_request \<Rightarrow> bool"
  assumes answered: "trim_space (rq_PromptText req) = rq_PromptText req \<Longrightarrow> rq_PromptText req \<noteq> [] \<Longrightarrow>
    capture_surface_Valid (rq_Surface req) \<Longrightarrow> \<exists>resp. evaluator env req = Inr resp \<and> (rs_Decision resp = DecisionBlock \<longleftrightarrow> blocks req)"
begin

lemma hook_request_answered:
  assumes "text \<noteq> []" and "trim_space text = text" and "capture_surface_Valid surface"
  shows "\<exists>resp. evaluator env (hook_request text surface app vendor host meta) = Inr resp \<and>
    (rs_Decision resp = DecisionBlock \<longleftrightarrow> blocks (hook_request text surface app vendor host meta))"
  using assms by (intro answered) (simp_all add: hook_request_def)

lemma claude_stops:
  "stops (runClaudeCodeHook env decode stdin) \<longleftrightarrow>
    (\<exists>p. hook_input decode stdin = Some p \<and> trim_space (ci_Prompt p) \<noteq> [] \<and> blocks (claude_request p))"
proof (cases "hook_input decode stdin")
  case (Some p)
  show ?thesis
  proof (cases "trim_space (ci_Prompt p) = []")
    case False
    have "\<exists>resp. evaluator env (claude_request p) = Inr resp \<and> (rs_Decision resp = DecisionBlock \<longleftrightarrow> blocks (claude_request p))"
      unfolding claude_request_def
      by (rule hook_request_answered) (simp_all add: False capture_surface_Valid_def capture_surfaces_def)
    then obtain resp where "evaluator env (claude_request p) = Inr resp" "rs_Decision resp = DecisionBlock \<longleftrightarrow> blocks (claude_request p)"
      by (elim exE conjE)
    with Some False show ?thesis by (auto simp: runClaudeCodeHook_def stops_def hook_allow_def)
  qed (use Some in \<open>simp add: runClaudeCodeHook_def stops_def hook_allow_def\<close>)
qed (simp add: runClaudeCodeHook_def stops_def hook_allow_def)

lemma cursor_stops:
  "stops (runCursorHook env decode stdin) \<longleftrightarrow>
    (\<exists>p. hook_input decode stdin = Some p \<and> trim_space (cu_Prompt p) \<noteq> [] \<and> blocks (cursor_request p))"
proof (cases "hook_input decode stdin")
  case (Some p)
  show ?thesis
  proof (cases "trim_space (cu_Prompt p) = []")
    case False
    have "\<exists>resp. evaluator env (cursor_request p) = Inr resp \<and> (rs_Decision resp = DecisionBlock \<longleftrightarrow> blocks (cursor_request p))"
      unfolding cursor_request_def
      by (rule hook_request_answered) (simp_all add: False capture_surface_Valid_def capture_surfaces_def)
    then obtain resp where "evaluator env (cursor_request p) = Inr resp" "rs_Decision resp = DecisionBlock \<longleftrightarrow> blocks (cursor_request p)"
      by (elim exE conjE)
    with Some False show ?thesis by (auto simp: runCursorHook_def stops_def hook_allow_def cursor_allow_def)
  qed (use Some in \<open>simp add: runCursorHook_def stops_def hook_allow_def cursor_allow_def\<close>)
qed (simp add: runCursorHook_def stops_def hook_allow_def cursor_allow_def)

end

definition loopback :: "prompt_env \<Rightarrow> ((string \<times> stored_evaluation) list \<Rightarrow> (string \<times> stored_evaluation) list) \<Rightarrow>
    (post_error \<Rightarrow> string) \<Rightarrow> prompt_service \<Rightarrow> hook_env" where
  "loopback penv sorter text s = \<lparr>hv_post = service_reply penv sorter s, hv_error_text = text\<rparr>"

lemma handleEvaluate_reply:
  assumes "trim_space (rq_PromptText req) = rq_PromptText req" and "rq_PromptText req \<noteq> []" and "capture_surface_Valid (rq_Surface req)"
  shows "\<exists>resp. fst (handleEvaluate penv sorter (Inr req) s) = ReplyEvaluation resp \<and> (rs_Decision resp = DecisionBlock \<longleftrightarrow> service_blocks penv s req)"
proof -
  have req: "decodePromptEvaluationRequest (Inr req) = Inr req"
    using assms by (simp add: decodePromptEvaluationRequest_def Let_def)
  show ?thesis
  proof (cases "service_evaluate penv s req")
    case (Inl err)
    then show ?thesis
      by (simp add: handleEvaluate_def req service_blocks_def Let_def fallbackEvaluationResponse_def split: prod.split)
  next
    case (Inr re)
    then show ?thesis by (cases re) (simp add: handleEvaluate_def req service_blocks_def Let_def)
  qed
qed

interpretation service: answering "loopback penv sorter text s" "service_blocks penv s" for penv sorter text s
proof
  fix req :: prompt_evaluation_request
  assume "trim_space (rq_PromptText req) = rq_PromptText req" "rq_PromptText req \<noteq> []" "capture_surface_Valid (rq_Surface req)"
  from handleEvaluate_reply[OF this] obtain resp where
    "fst (handleEvaluate penv sorter (Inr req) s) = ReplyEvaluation resp" "rs_Decision resp = DecisionBlock \<longleftrightarrow> service_blocks penv s req" by blast
  then show "\<exists>resp. evaluator (loopback penv sorter text s) req = Inr resp \<and> (rs_Decision resp = DecisionBlock \<longleftrightarrow> service_blocks penv s req)"
    by (intro exI[of _ resp]) (simp add: evaluator_def loopback_def promptHookPostJSON_def service_reply_def)
qed

lemma credentials_block_service:
  assumes "service_evaluate penv s req = Inr r" and "di_ContainsCredentials (prompt_scan penv req)"
    and "rq_Surface req \<in> {CaptureSurfaceClaudeCode, CaptureSurfaceCursor}" and "snd (enforcementModes s) \<noteq> PromptEnforcementModeMonitor"
  shows "service_blocks penv s req"
proof -
  obtain resp ev where r: "r = (resp, ev)" by (cases r)
  have "isPromptAIContext req ctx" for ctx using assms(3) by (auto simp: isPromptAIContext_def)
  then have "rs_Decision resp = DecisionBlock"
    using service_evaluate_cases[of penv s req resp ev] assms(1,4) verdict_baseline[OF assms(2)] unfolding r by metis
  then show ?thesis using assms(1) by (simp add: service_blocks_def r)
qed

section \<open>Copilot sessions\<close>

text \<open>The calls of one machine in order: what was asked, when, and what the service would answer.\<close>

record copilot_call =
  cc_env :: hook_env
  cc_now :: time
  cc_payload :: godata

definition call_session :: "copilot_call \<Rightarrow> string" where
  "call_session c = firstHookString (cc_payload c) [''session_id'', ''sessionId'']"

definition call_file :: "copilot_call \<Rightarrow> string" where
  "call_file c = copilotSessionStatePath (call_session c)"

definition call_submits :: "copilot_call \<Rightarrow> bool" where
  "call_submits c = (copilot_hook_name (cc_payload c) = ''UserPromptSubmit'' \<and> trim_space (call_session c) \<noteq> [])"

definition call_terminal :: "copilot_call \<Rightarrow> bool" where
  "call_terminal c = (copilot_hook_name (cc_payload c) = ''PreToolUse'' \<and> trim_space (call_session c) \<noteq> [] \<and>
     firstHookString (cc_payload c) [''tool_name'', ''toolName''] = ''run_in_terminal'')"

definition call_blocked :: "copilot_call \<Rightarrow> bool" where
  "call_blocked c = (firstHookString (cc_payload c) [''prompt''] \<noteq> [] \<and>
     (\<exists>resp. evaluator (cc_env c) (copilot_request (cc_payload c) (call_session c)) = Inr resp \<and> rs_Decision resp = DecisionBlock))"

definition copilot_exec :: "copilot_call \<Rightarrow> copilot_files \<Rightarrow> copilot_files" where
  "copilot_exec c files = snd (copilot_dispatch (cc_env c) True (cc_now c) (cc_payload c) files)"

definition last_submit :: "string \<Rightarrow> copilot_call list \<Rightarrow> copilot_call option" where
  "last_submit f calls = List.find (\<lambda>c. call_submits c \<and> call_file c = f) (rev calls)"

definition denies :: "hook_result \<Rightarrow> bool" where
  "denies r = (\<exists>msg. hk_stdout r = Some (CopilotDeny msg))"

text \<open>A state file stands for the last prompt of its session, if that was blocked and no more than an hour ago.\<close>

definition fresh_block :: "time \<Rightarrow> copilot_call \<Rightarrow> bool" where
  "fresh_block now c = (call_blocked c \<and> now - cc_now c div second * second \<le> 3600 * second)"

definition file_agrees :: "copilot_call option \<Rightarrow> time \<Rightarrow> copilotSessionState option \<Rightarrow> bool" where
  "file_agrees prev now file =
    (case file of
       Some st \<Rightarrow> (\<exists>c. prev = Some c \<and> call_blocked c \<and> cs_CreatedAt st = cc_now c div second * second)
     | None \<Rightarrow> (case prev of None \<Rightarrow> True | Some c \<Rightarrow> \<not> fresh_block now c))"

definition files_agree :: "copilot_call list \<Rightarrow> time \<Rightarrow> copilot_files \<Rightarrow> bool" where
  "files_agree calls now files \<longleftrightarrow> (\<forall>f. file_agrees (last_submit f calls) now (files f))"

lemma last_submit_snoc:
  "last_submit f (calls @ [c]) = (if call_submits c \<and> call_file c = f then Some c else last_submit f calls)"
  by (simp add: last_submit_def)

lemma exec_submit:
  assumes "call_submits c"
  shows "copilot_exec c files (call_file c) =
      (if call_blocked c then Some \<lparr>cs_SessionID = call_session c,
         cs_EvaluationID = rs_EvaluationID (projr (evaluator (cc_env c) (copilot_request (cc_payload c) (call_session c)))),
         cs_Reason = rs_Message (projr (evaluator (cc_env c) (copilot_request (cc_payload c) (call_session c)))),
         cs_CreatedAt = cc_now c div second * second\<rparr> else None)"
    and "f \<noteq> call_file c \<Longrightarrow> copilot_exec c files f = files f"
  using assms
  by (auto simp: copilot_exec_def copilot_dispatch_def call_submits_def call_blocked_def call_session_def call_file_def Let_def
      runCopilotUserPromptSubmit_def removeCopilotSessionState_def writeCopilotSessionState_def split: sum.split)

lemma exec_terminal:
  assumes "call_terminal c"
  shows "copilot_exec c files f = (if f = call_file c then
      (case files f of Some st \<Rightarrow> if 3600 * second < cc_now c - cs_CreatedAt st then None else Some st | None \<Rightarrow> None) else files f)"
    and "denies (fst (copilot_dispatch env w (cc_now c) (cc_payload c) files)) \<longleftrightarrow>
      (\<exists>st. files (call_file c) = Some st \<and> cc_now c - cs_CreatedAt st \<le> 3600 * second)"
  using assms
  by (auto simp: copilot_exec_def copilot_dispatch_def call_terminal_def call_session_def call_file_def Let_def denies_def hook_allow_def
      runCopilotPreToolUse_def readCopilotSessionState_def removeCopilotSessionState_def split: option.splits)

lemma exec_other:
  assumes "\<not> call_submits c" and "\<not> call_terminal c"
  shows "copilot_exec c files = files"
  using assms
  by (auto simp: copilot_exec_def copilot_dispatch_def call_submits_def call_terminal_def call_session_def Let_def
      runCopilotUserPromptSubmit_def removeCopilotSessionState_def writeCopilotSessionState_def
      runCopilotPreToolUse_def readCopilotSessionState_def split: sum.split)

lemma file_agrees_later: "file_agrees l t x \<Longrightarrow> t \<le> t' \<Longrightarrow> file_agrees l t' x"
  by (cases x; cases l) (auto simp: file_agrees_def fresh_block_def)

lemma file_agrees_expire:
  "file_agrees l t x \<Longrightarrow>
    file_agrees l t (case x of Some st \<Rightarrow> if 3600 * second < t - cs_CreatedAt st then None else Some st | None \<Rightarrow> None)"
  by (cases x; cases l) (auto simp: file_agrees_def fresh_block_def)

lemma agree_later: "files_agree calls t files \<Longrightarrow> t \<le> t' \<Longrightarrow> files_agree calls t' files"
  unfolding files_agree_def using file_agrees_later by blast

lemma agree_exec:
  assumes "files_agree calls (cc_now c) files"
  shows "files_agree (calls @ [c]) (cc_now c) (copilot_exec c files)"
  unfolding files_agree_def
proof
  fix f
  have old: "file_agrees (last_submit f calls) (cc_now c) (files f)" using assms by (simp add: files_agree_def)
  consider (submit) "call_submits c" "f = call_file c" | (elsewhere) "call_submits c" "f \<noteq> call_file c"
    | (terminal) "\<not> call_submits c" "call_terminal c" | (other) "\<not> call_submits c" "\<not> call_terminal c" by blast
  then show "file_agrees (last_submit f (calls @ [c])) (cc_now c) (copilot_exec c files f)"
  proof cases
    case submit
    then show ?thesis
      unfolding submit(2) exec_submit(1)[OF submit(1)] by (simp add: last_submit_snoc file_agrees_def fresh_block_def)
  next
    case elsewhere
    then show ?thesis using old exec_submit(2)[OF elsewhere, of files] by (simp add: last_submit_snoc)
  next
    case terminal
    then show ?thesis
      using old file_agrees_expire[OF old] by (cases "f = call_file c") (simp_all add: last_submit_snoc exec_terminal(1)[OF terminal(2)])
  next
    case other
    then show ?thesis using old by (simp add: exec_other last_submit_snoc)
  qed
qed

lemma agree_run:
  assumes "sorted (map cc_now calls)" and "list_all (\<lambda>c. cc_now c \<le> now) calls"
  shows "files_agree calls now (fold copilot_exec calls Map.empty)"
  using assms
proof (induction calls arbitrary: now rule: rev_induct)
  case Nil
  then show ?case by (simp add: files_agree_def file_agrees_def last_submit_def)
next
  case (snoc c calls)
  have "files_agree calls (cc_now c) (fold copilot_exec calls Map.empty)"
    using snoc.prems by (intro snoc.IH) (auto simp: sorted_append list_all_iff)
  from agree_later[OF agree_exec[OF this]] snoc.prems show ?case by simp
qed

section \<open>Properties\<close>


text \<open>
  Copilot's terminal is locked by a blocked prompt and by nothing else. After any calls in order of
  time, a terminal command in a session is denied exactly when the last prompt submitted under that
  session's file name was blocked no more than an hour before, counted from the full second.
\<close>

theorem copilot_denial_exact:
  assumes "sorted (map cc_now (calls @ [c]))" and "call_terminal c"
  shows "denies (fst (copilot_dispatch env w (cc_now c) (cc_payload c) (fold copilot_exec calls Map.empty))) \<longleftrightarrow>
    (case last_submit (call_file c) calls of None \<Rightarrow> False | Some d \<Rightarrow> fresh_block (cc_now c) d)"
proof -
  have "files_agree calls (cc_now c) (fold copilot_exec calls Map.empty)"
    using assms(1) by (intro agree_run) (auto simp: sorted_append list_all_iff)
  then have "file_agrees (last_submit (call_file c) calls) (cc_now c) (fold copilot_exec calls Map.empty (call_file c))"
    by (simp add: files_agree_def)
  then show ?thesis
    unfolding exec_terminal(2)[OF assms(2)]
    by (cases "fold copilot_exec calls Map.empty (call_file c)"; cases "last_submit (call_file c) calls")
      (auto simp: file_agrees_def fresh_block_def)
qed

text \<open>
  Without an answer no hook stops anything: a surface that the agent reports as hard-blocking lets
  every prompt through while the service is down.
\<close>

lemma hooks_fail_open:
  assumes "\<And>req. hv_post env req = None"
  shows "\<not> stops (runClaudeCodeHook env decode stdin) \<and> \<not> stops (runCursorHook env decode' stdin)"
  using assms by (auto simp: runClaudeCodeHook_def runCursorHook_def evaluator_def promptHookPostJSON_def stops_def hook_allow_def cursor_allow_def
      split: option.splits)

text \<open>Two sessions whose identifiers differ only in other characters share one state file.\<close>

lemma sessions_share_file: "copilotSessionStatePath ''a/b'' = copilotSessionStatePath ''a_b''"
  by code_simp

section \<open>Witnesses\<close>

definition sample_claude_input :: claudeCodeHookInput where
  "sample_claude_input = \<lparr>ci_Prompt = ''use ghp_abcd1234'', ci_SessionID = ''s1'', ci_CWD = [], ci_HookEventName = [], ci_TranscriptPath = [],
     ci_PermissionMode = []\<rparr>"

lemma sample_claude_credentials: "di_ContainsCredentials (prompt_scan sample_env (claude_request sample_claude_input))"
  by code_simp


definition sample_block_env :: hook_env where
  "sample_block_env = \<lparr>hv_post = (\<lambda>_. Some (200, ResponseBody (zero_response\<lparr>rs_Decision := DecisionBlock\<rparr>))), hv_error_text = (\<lambda>_. [])\<rparr>"

definition sample_submit :: copilot_call where
  "sample_submit = \<lparr>cc_env = sample_block_env, cc_now = 5, cc_payload = [(''prompt'', VString ''x''), (''session_id'', VString ''s1'')]\<rparr>"

definition sample_terminal :: copilot_call where
  "sample_terminal = \<lparr>cc_env = sample_block_env, cc_now = 9, cc_payload = [(''tool_name'', VString ''run_in_terminal''), (''session_id'', VString ''s1'')]\<rparr>"

lemma copilot_denial_exact_witness:
  "denies (fst (copilot_dispatch sample_block_env True (cc_now sample_terminal) (cc_payload sample_terminal)
     (fold copilot_exec [sample_submit] Map.empty)))"
proof -
  have t: "call_terminal sample_terminal" by code_simp
  have s: "call_submits sample_submit" "call_file sample_submit = call_file sample_terminal" by code_simp+
  have "firstHookString (cc_payload sample_submit) [''prompt''] \<noteq> []" by code_simp
  then have b: "call_blocked sample_submit"
    by (simp add: call_blocked_def sample_submit_def sample_block_env_def evaluator_def promptHookPostJSON_def)
  have "fresh_block (cc_now sample_terminal) sample_submit"
    using b by (simp add: fresh_block_def) (simp add: sample_submit_def sample_terminal_def second_def)
  moreover have "last_submit (call_file sample_terminal) [sample_submit] = Some sample_submit"
    using s by (simp add: last_submit_def)
  moreover have "sorted (map cc_now ([sample_submit] @ [sample_terminal]))" by (simp add: sample_submit_def sample_terminal_def)
  ultimately show ?thesis using copilot_denial_exact[OF _ t, of "[sample_submit]"] by simp
qed

end
