(* ===== verification/Base64.thy ===== *)
theory Base64
  imports Go_Stdlib
begin

text \<open>
The URL-safe base64 codec of the Go library, as the backend uses it for tokens and operator sessions: the padded
and the raw encoding, and the raw decoding, which skips line ends and ignores the unused low bits of the last digit.
A sequence of bytes is a list of natural numbers below 256.
\<close>

definition b64_char :: "nat \<Rightarrow> char" where
  "b64_char n = (if n < 26 then char_of (65 + n) else if n < 52 then char_of (71 + n) else if n < 62 then char_of (n - 4)
     else if n = 62 then CHR ''-'' else CHR ''_'')"

definition b64_value :: "char \<Rightarrow> nat option" where
  "b64_value c = (let n = of_char c :: nat in
     if 65 \<le> n \<and> n \<le> 90 then Some (n - 65) else if 97 \<le> n \<and> n \<le> 122 then Some (n - 71)
     else if 48 \<le> n \<and> n \<le> 57 then Some (n + 4) else if n = 45 then Some 62 else if n = 95 then Some 63 else None)"

fun b64_digits :: "nat list \<Rightarrow> nat list" where
  "b64_digits [] = []"
| "b64_digits [a] = [a div 4, (a mod 4) * 16]"
| "b64_digits [a, b] = [a div 4, (a mod 4) * 16 + b div 16, (b mod 16) * 4]"
| "b64_digits (a # b # c # r) = a div 4 # ((a mod 4) * 16 + b div 16) # ((b mod 16) * 4 + c div 64) # (c mod 64) # b64_digits r"

definition rawurl_encode :: "nat list \<Rightarrow> string" where
  "rawurl_encode bs = map b64_char (b64_digits bs)"

definition url_encode :: "nat list \<Rightarrow> string" where
  "url_encode bs = rawurl_encode bs @ replicate ((4 - length (rawurl_encode bs) mod 4) mod 4) (CHR ''='')"

fun b64_bytes :: "nat list \<Rightarrow> nat list option" where
  "b64_bytes [] = Some []"
| "b64_bytes [p] = None"
| "b64_bytes [p, q] = Some [p * 4 + q div 16]"
| "b64_bytes [p, q, r] = Some [p * 4 + q div 16, (q mod 16) * 16 + r div 4]"
| "b64_bytes (p # q # r # s # t) = (case b64_bytes t of None \<Rightarrow> None
     | Some bs \<Rightarrow> Some ((p * 4 + q div 16) # ((q mod 16) * 16 + r div 4) # ((r mod 4) * 64 + s) # bs))"

definition rawurl_decode :: "string \<Rightarrow> nat list option" where
  "rawurl_decode s = (let cs = filter (\<lambda>c. of_char c \<noteq> (10::nat) \<and> of_char c \<noteq> (13::nat)) s in
     if \<forall>c\<in>set cs. b64_value c \<noteq> None then b64_bytes (map (the \<circ> b64_value) cs) else None)"

abbreviation is_bytes :: "nat list \<Rightarrow> bool" where
  "is_bytes bs \<equiv> \<forall>b\<in>set bs. b < 256"

lemma b64_digits_bound: "is_bytes bs \<Longrightarrow> \<forall>d\<in>set (b64_digits bs). d < 64"
  by (induction bs rule: b64_digits.induct) auto

lemma b64_bytes_digits: "is_bytes bs \<Longrightarrow> b64_bytes (b64_digits bs) = Some bs"
proof (induction bs rule: b64_digits.induct)
  case (2 a)
  then show ?case by auto
next
  case (3 a b)
  then show ?case by auto
next
  case (4 a b c r)
  then show ?case by auto
qed simp

lemma of_char_b64: "n < 64 \<Longrightarrow> (of_char (b64_char n) :: nat) =
    (if n < 26 then 65 + n else if n < 52 then 71 + n else if n < 62 then n - 4 else if n = 62 then 45 else 95)"
  by (simp add: b64_char_def)

lemma b64_value_char: "n < 64 \<Longrightarrow> b64_value (b64_char n) = Some n"
  by (auto simp: b64_value_def of_char_b64 Let_def)

lemma b64_char_plain: "n < 64 \<Longrightarrow> (of_char (b64_char n) :: nat) \<notin> {10, 13, 46, 61}"
  by (auto simp: of_char_b64)

lemma rawurl_chars: "is_bytes bs \<Longrightarrow> c \<in> set (rawurl_encode bs) \<Longrightarrow> (of_char c :: nat) \<notin> {10, 13, 46, 61}"
  using b64_digits_bound b64_char_plain by (fastforce simp: rawurl_encode_def)

lemma rawurl_no_dot: "is_bytes bs \<Longrightarrow> CHR ''.'' \<notin> set (rawurl_encode bs)"
  using rawurl_chars[of bs "CHR ''.''"] by auto

theorem rawurl_roundtrip: "is_bytes bs \<Longrightarrow> rawurl_decode (rawurl_encode bs) = Some bs"
proof -
  assume b: "is_bytes bs"
  have keep: "filter (\<lambda>c. of_char c \<noteq> (10::nat) \<and> of_char c \<noteq> (13::nat)) (rawurl_encode bs) = rawurl_encode bs"
    using rawurl_chars[OF b] by (auto intro!: filter_True)
  have vals: "map (the \<circ> b64_value) (rawurl_encode bs) = b64_digits bs"
    using b64_digits_bound[OF b] by (auto simp: rawurl_encode_def b64_value_char intro!: map_idI)
  have "\<forall>c\<in>set (rawurl_encode bs). b64_value c \<noteq> None"
    using b64_digits_bound[OF b] by (auto simp: rawurl_encode_def b64_value_char)
  then show ?thesis by (simp add: rawurl_decode_def keep vals b64_bytes_digits[OF b] del: comp_apply)
qed

end
