(* ===== verification/Backend_Store.thy ===== *)
theory Backend_Store
  imports Domain_Types Base64 Sha256
begin

text \<open>
The tables of the backend and the statements of backend/internal/store that its enrolment, operator and account
handlers run (device.go, enrollment.go, certificate.go, org.go, operator.go, user.go, session.go, audit.go), with the
constraints of db/migrations that these statements can violate.

A table is a list of rows in the order of insertion. A statement either fails, which is an input of the model, or
violates a constraint of its table, or takes effect; a transaction is the composition of its statements, and its
effect is kept only if it commits. Row identifiers come from the database and are inputs. The request reads one
clock, which is also the database's. Surrogate keys that no code reads are left out of the rows.
\<close>

section \<open>Rows\<close>

record organization =
  og_ID :: string
  og_Name :: string
  og_Slug :: string
  og_APIKeyHash :: string
  og_Status :: string
  og_PublicBackendURL :: string
  og_PublicGatewayURL :: string
  og_StatusReason :: string
  og_StatusUpdatedAt :: "time option"
  og_StatusUpdatedBy :: string
  og_PromptOverride :: string
  og_CreatedAt :: time
  og_UpdatedAt :: time

record device_row =
  dv_ID :: string
  dv_OrgID :: string
  dv_DeviceName :: string
  dv_OS :: string
  dv_AgentVersion :: string
  dv_Status :: string
  dv_EnrolledAt :: "time option"
  dv_RenewalTokenHash :: "string option"
  dv_CreatedAt :: time
  dv_UpdatedAt :: time

record enrollment_token =
  et_DeviceID :: string
  et_TokenHash :: string
  et_Used :: bool
  et_ExpiresAt :: time
  et_CreatedAt :: time

record certificate =
  crt_DeviceID :: string
  crt_OrgID :: string
  crt_Serial :: string
  crt_SubjectCN :: string
  crt_SubjectO :: string
  crt_IssuerCN :: string
  crt_KeyAlgorithm :: string
  crt_NotBefore :: time
  crt_NotAfter :: time
  crt_Status :: string
  crt_RevokedAt :: "time option"
  crt_RevocationReason :: "string option"
  crt_CSRPEM :: string
  crt_CertPEM :: string
  crt_CreatedAt :: time

record enrollmentAgentConfig =
  ec_AgentID :: string
  ec_GatewayURL :: string
  ec_ListenAddr :: string
  ec_DefaultDecision :: string
  ec_TelemetryFlushInterval :: string
  ec_PromptCaptureEnabled :: bool
  ec_PromptSemanticsEnabled :: bool
  ec_PromptEnforcementMode :: string
  ec_PromptFailClosed :: "string list"
  ec_BackendURL :: string
  ec_DeviceID :: string
  ec_EnrollmentToken :: string
  ec_OrgName :: string

record short_code =
  sh_Code :: string
  sh_DeviceID :: string
  sh_OrgID :: string
  sh_Config :: enrollmentAgentConfig
  sh_ExpiresAt :: time
  sh_CreatedAt :: time

record audit_row =
  au_ActorType :: string
  au_ActorID :: string
  au_OrgID :: "string option"
  au_Action :: string
  au_ResourceType :: string
  au_ResourceID :: string
  au_Details :: godata
  au_IPAddress :: "string option"

record admin_user =
  us_ID :: string
  us_OrgID :: string
  us_Email :: string
  us_Name :: string
  us_PasswordHash :: string
  us_Role :: string
  us_MustChangePassword :: bool
  us_TermsAcceptedAt :: "time option"
  us_CreatedAt :: time
  us_UpdatedAt :: time

record session_row =
  se_UserID :: string
  se_TokenHash :: string
  se_ExpiresAt :: time
  se_CreatedAt :: time

record database =
  db_organizations :: "organization list"
  db_devices :: "device_row list"
  db_tokens :: "enrollment_token list"
  db_codes :: "short_code list"
  db_certificates :: "certificate list"
  db_audit :: "audit_row list"
  db_users :: "admin_user list"
  db_sessions :: "session_row list"

section \<open>Statements\<close>

text \<open>What the database is asked for in a request: the time, the statements that fail, and the next identifier.\<close>

record db_env =
  dx_now :: time
  dx_fails :: "string \<Rightarrow> bool"
  dx_uuid :: string

datatype db_error = DBFailed | DuplicateKey | ConstraintViolated

definition run_statement :: "db_env \<Rightarrow> string \<Rightarrow> 'a \<Rightarrow> db_error + 'a" where
  "run_statement env call result = (if dx_fails env call then Inl DBFailed else Inr result)"

definition and_then :: "'e + 'a \<Rightarrow> ('a \<Rightarrow> 'e + 'b) \<Rightarrow> 'e + 'b" where
  "and_then r f = (case r of Inl e \<Rightarrow> Inl e | Inr x \<Rightarrow> f x)"

definition update_where :: "('r \<Rightarrow> bool) \<Rightarrow> ('r \<Rightarrow> 'r) \<Rightarrow> 'r list \<Rightarrow> 'r list" where
  "update_where P f rows = map (\<lambda>r. if P r then f r else r) rows"

lemma map_update_where: "(\<And>r. k (f r) = k r) \<Longrightarrow> map k (update_where P f rows) = map k rows"
  by (simp add: update_where_def)

subsection \<open>Organisations\<close>

definition GetOrganization :: "db_env \<Rightarrow> string \<Rightarrow> database \<Rightarrow> db_error + organization option" where
  "GetOrganization env i db = run_statement env ''GetOrganization'' (find (\<lambda>o'. og_ID o' = i) (db_organizations db))"

definition CreateOrganization :: "db_env \<Rightarrow> string \<Rightarrow> string \<Rightarrow> string \<Rightarrow> database \<Rightarrow> db_error + organization \<times> database" where
  "CreateOrganization env name slug apiKeyHash db =
    (if dx_fails env ''CreateOrganization'' then Inl DBFailed
     else if \<exists>o'\<in>set (db_organizations db). og_Slug o' = slug \<or> og_ID o' = dx_uuid env then Inl DuplicateKey
     else let row = \<lparr>og_ID = dx_uuid env, og_Name = name, og_Slug = slug, og_APIKeyHash = apiKeyHash, og_Status = ''active'',
            og_PublicBackendURL = [], og_PublicGatewayURL = [], og_StatusReason = [], og_StatusUpdatedAt = None, og_StatusUpdatedBy = [],
            og_PromptOverride = [], og_CreatedAt = dx_now env, og_UpdatedAt = dx_now env\<rparr>
          in Inr (row, db\<lparr>db_organizations := db_organizations db @ [row]\<rparr>))"

definition UpdateOrganizationProvisioning :: "db_env \<Rightarrow> string \<Rightarrow> string \<Rightarrow> string \<Rightarrow> database \<Rightarrow> db_error + database" where
  "UpdateOrganizationProvisioning env i backendURL gatewayURL db = run_statement env ''UpdateOrganizationProvisioning''
    (db\<lparr>db_organizations := update_where (\<lambda>o'. og_ID o' = i)
      (\<lambda>o'. o'\<lparr>og_PublicBackendURL := backendURL, og_PublicGatewayURL := gatewayURL, og_UpdatedAt := dx_now env\<rparr>) (db_organizations db)\<rparr>)"

definition UpdateOrganizationStatus :: "db_env \<Rightarrow> string \<Rightarrow> string \<Rightarrow> string \<Rightarrow> string \<Rightarrow> database \<Rightarrow> db_error + database" where
  "UpdateOrganizationStatus env i status reason actor db = run_statement env ''UpdateOrganizationStatus''
    (db\<lparr>db_organizations := update_where (\<lambda>o'. og_ID o' = i)
      (\<lambda>o'. o'\<lparr>og_Status := status, og_StatusReason := reason, og_StatusUpdatedAt := Some (dx_now env), og_StatusUpdatedBy := actor,
          og_UpdatedAt := dx_now env\<rparr>) (db_organizations db)\<rparr>)"

subsection \<open>Devices\<close>

definition CreateDevice :: "db_env \<Rightarrow> string \<Rightarrow> string \<Rightarrow> string \<Rightarrow> string \<Rightarrow> database \<Rightarrow> db_error + device_row \<times> database" where
  "CreateDevice env orgID name osType agentVersion db =
    (if dx_fails env ''CreateDevice'' then Inl DBFailed
     else if \<exists>d\<in>set (db_devices db). dv_OrgID d = orgID \<and> dv_DeviceName d = name \<or> dv_ID d = dx_uuid env then Inl DuplicateKey
     else if \<not> (\<exists>o'\<in>set (db_organizations db). og_ID o' = orgID) \<or> osType \<notin> set [''darwin'', ''windows'', ''linux''] then Inl ConstraintViolated
     else let row = \<lparr>dv_ID = dx_uuid env, dv_OrgID = orgID, dv_DeviceName = name, dv_OS = osType, dv_AgentVersion = agentVersion,
            dv_Status = ''pending'', dv_EnrolledAt = None, dv_RenewalTokenHash = None, dv_CreatedAt = dx_now env, dv_UpdatedAt = dx_now env\<rparr>
          in Inr (row, db\<lparr>db_devices := db_devices db @ [row]\<rparr>))"

definition GetDevice :: "db_env \<Rightarrow> string \<Rightarrow> database \<Rightarrow> db_error + device_row option" where
  "GetDevice env i db = run_statement env ''GetDevice'' (find (\<lambda>d. dv_ID d = i) (db_devices db))"

definition ActivateDevice :: "db_env \<Rightarrow> string \<Rightarrow> database \<Rightarrow> db_error + database" where
  "ActivateDevice env i db = run_statement env ''ActivateDevice''
    (db\<lparr>db_devices := update_where (\<lambda>d. dv_ID d = i)
      (\<lambda>d. d\<lparr>dv_Status := ''active'', dv_EnrolledAt := Some (dx_now env), dv_UpdatedAt := dx_now env\<rparr>) (db_devices db)\<rparr>)"

definition SetRenewalTokenHash :: "db_env \<Rightarrow> string \<Rightarrow> string \<Rightarrow> database \<Rightarrow> db_error + database" where
  "SetRenewalTokenHash env deviceID tokenHash db = run_statement env ''SetRenewalTokenHash''
    (db\<lparr>db_devices := update_where (\<lambda>d. dv_ID d = deviceID)
      (\<lambda>d. d\<lparr>dv_RenewalTokenHash := Some tokenHash, dv_UpdatedAt := dx_now env\<rparr>) (db_devices db)\<rparr>)"

definition GetRenewalTokenHash :: "db_env \<Rightarrow> string \<Rightarrow> database \<Rightarrow> db_error + string" where
  "GetRenewalTokenHash env deviceID db =
    (if dx_fails env ''GetRenewalTokenHash'' then Inl DBFailed
     else case find (\<lambda>d. dv_ID d = deviceID) (db_devices db) of
         None \<Rightarrow> Inl DBFailed
       | Some d \<Rightarrow> Inr (case dv_RenewalTokenHash d of None \<Rightarrow> [] | Some h \<Rightarrow> h))"

definition SetOrgDevicesStatus :: "db_env \<Rightarrow> string \<Rightarrow> string \<Rightarrow> database \<Rightarrow> db_error + nat \<times> database" where
  "SetOrgDevicesStatus env orgID status db = run_statement env ''SetOrgDevicesStatus''
    (length (filter (\<lambda>d. dv_OrgID d = orgID) (db_devices db)),
     db\<lparr>db_devices := update_where (\<lambda>d. dv_OrgID d = orgID) (\<lambda>d. d\<lparr>dv_Status := status, dv_UpdatedAt := dx_now env\<rparr>) (db_devices db)\<rparr>)"

subsection \<open>Enrolment tokens and short codes\<close>

definition CreateEnrollmentToken :: "db_env \<Rightarrow> string \<Rightarrow> string \<Rightarrow> time \<Rightarrow> database \<Rightarrow> db_error + database" where
  "CreateEnrollmentToken env deviceID tokenHash expiresAt db =
    (if dx_fails env ''CreateEnrollmentToken'' then Inl DBFailed
     else if \<exists>t\<in>set (db_tokens db). et_TokenHash t = tokenHash then Inl DuplicateKey
     else if \<not> (\<exists>d\<in>set (db_devices db). dv_ID d = deviceID) then Inl ConstraintViolated
     else Inr (db\<lparr>db_tokens := db_tokens db @ [\<lparr>et_DeviceID = deviceID, et_TokenHash = tokenHash, et_Used = False,
                     et_ExpiresAt = expiresAt, et_CreatedAt = dx_now env\<rparr>]\<rparr>))"

definition usable_token :: "db_env \<Rightarrow> string \<Rightarrow> enrollment_token \<Rightarrow> bool" where
  "usable_token env tokenHash t = (et_TokenHash t = tokenHash \<and> \<not> et_Used t \<and> dx_now env < et_ExpiresAt t)"

definition ValidateAndConsumeToken :: "db_env \<Rightarrow> string \<Rightarrow> database \<Rightarrow> db_error + enrollment_token option \<times> database" where
  "ValidateAndConsumeToken env tokenHash db = run_statement env ''ValidateAndConsumeToken''
    (map_option (\<lambda>t. t\<lparr>et_Used := True\<rparr>) (find (usable_token env tokenHash) (db_tokens db)),
     db\<lparr>db_tokens := update_where (usable_token env tokenHash) (\<lambda>t. t\<lparr>et_Used := True\<rparr>) (db_tokens db)\<rparr>)"

definition CreateEnrollmentShortCode :: "db_env \<Rightarrow> string \<Rightarrow> string \<Rightarrow> string \<Rightarrow> enrollmentAgentConfig \<Rightarrow> time \<Rightarrow> database \<Rightarrow> db_error + database" where
  "CreateEnrollmentShortCode env code deviceID orgID config expiresAt db =
    (if dx_fails env ''CreateEnrollmentShortCode'' then Inl DBFailed
     else if \<exists>c\<in>set (db_codes db). sh_Code c = code then Inl DuplicateKey
     else if \<not> (\<exists>d\<in>set (db_devices db). dv_ID d = deviceID) \<or> \<not> (\<exists>o'\<in>set (db_organizations db). og_ID o' = orgID) then Inl ConstraintViolated
     else Inr (db\<lparr>db_codes := db_codes db @ [\<lparr>sh_Code = code, sh_DeviceID = deviceID, sh_OrgID = orgID, sh_Config = config,
                     sh_ExpiresAt = expiresAt, sh_CreatedAt = dx_now env\<rparr>]\<rparr>))"

definition GetEnrollmentShortCode :: "db_env \<Rightarrow> string \<Rightarrow> database \<Rightarrow> db_error + short_code option" where
  "GetEnrollmentShortCode env code db = run_statement env ''GetEnrollmentShortCode''
    (find (\<lambda>c. sh_Code c = code \<and> dx_now env < sh_ExpiresAt c) (db_codes db))"

definition expiring_token :: "db_env \<Rightarrow> string \<Rightarrow> database \<Rightarrow> enrollment_token \<Rightarrow> bool" where
  "expiring_token env orgID db t = ((\<exists>d\<in>set (db_devices db). dv_ID d = et_DeviceID t \<and> dv_OrgID d = orgID) \<and>
     \<not> et_Used t \<and> dx_now env < et_ExpiresAt t)"

definition ExpireEnrollmentForOrg :: "db_env \<Rightarrow> string \<Rightarrow> database \<Rightarrow> db_error + (nat \<times> nat) \<times> database" where
  "ExpireEnrollmentForOrg env orgID db =
    (let code = (\<lambda>c. sh_OrgID c = orgID \<and> dx_now env < sh_ExpiresAt c) in
     if dx_fails env ''ExpireTokens'' \<or> dx_fails env ''ExpireShortCodes'' then Inl DBFailed
     else Inr ((length (filter (expiring_token env orgID db) (db_tokens db)), length (filter code (db_codes db))),
       db\<lparr>db_tokens := update_where (expiring_token env orgID db) (\<lambda>t. t\<lparr>et_ExpiresAt := dx_now env\<rparr>) (db_tokens db),
          db_codes := update_where code (\<lambda>c. c\<lparr>sh_ExpiresAt := dx_now env\<rparr>) (db_codes db)\<rparr>))"

subsection \<open>Certificates\<close>

definition SupersedeActiveCerts :: "db_env \<Rightarrow> string \<Rightarrow> database \<Rightarrow> db_error + database" where
  "SupersedeActiveCerts env deviceID db = run_statement env ''SupersedeActiveCerts''
    (db\<lparr>db_certificates := update_where (\<lambda>c. crt_DeviceID c = deviceID \<and> crt_Status c = ''active'') (\<lambda>c. c\<lparr>crt_Status := ''superseded''\<rparr>)
      (db_certificates db)\<rparr>)"

definition CreateCertificate :: "db_env \<Rightarrow> certificate \<Rightarrow> database \<Rightarrow> db_error + database" where
  "CreateCertificate env cert db =
    (if dx_fails env ''CreateCertificate'' then Inl DBFailed
     else if \<exists>c\<in>set (db_certificates db). crt_Serial c = crt_Serial cert then Inl DuplicateKey
     else if \<not> (\<exists>d\<in>set (db_devices db). dv_ID d = crt_DeviceID cert) \<or> \<not> (\<exists>o'\<in>set (db_organizations db). og_ID o' = crt_OrgID cert) then Inl ConstraintViolated
     else Inr (db\<lparr>db_certificates := db_certificates db @ [cert]\<rparr>))"

record cert_status =
  cst_Serial :: string
  cst_Status :: string
  cst_DeviceID :: string
  cst_OrgID :: string

definition cert_status_of :: "certificate \<Rightarrow> cert_status" where
  "cert_status_of c = \<lparr>cst_Serial = crt_Serial c, cst_Status = crt_Status c, cst_DeviceID = crt_DeviceID c, cst_OrgID = crt_OrgID c\<rparr>"

definition GetCertStatus :: "db_env \<Rightarrow> string \<Rightarrow> database \<Rightarrow> db_error + cert_status option" where
  "GetCertStatus env serial db = run_statement env ''GetCertStatus''
    (map_option cert_status_of (find (\<lambda>c. crt_Serial c = serial) (db_certificates db)))"

definition RevokeCertificate :: "db_env \<Rightarrow> string \<Rightarrow> string \<Rightarrow> database \<Rightarrow> db_error + database" where
  "RevokeCertificate env serial reason db = run_statement env ''RevokeCertificate''
    (db\<lparr>db_certificates := update_where (\<lambda>c. crt_Serial c = serial \<and> crt_Status c = ''active'')
      (\<lambda>c. c\<lparr>crt_Status := ''revoked'', crt_RevokedAt := Some (dx_now env), crt_RevocationReason := Some reason\<rparr>) (db_certificates db)\<rparr>)"

definition RevokeActiveCertificatesForOrg :: "db_env \<Rightarrow> string \<Rightarrow> string \<Rightarrow> database \<Rightarrow> db_error + nat \<times> database" where
  "RevokeActiveCertificatesForOrg env orgID reason db = run_statement env ''RevokeActiveCertificatesForOrg''
    (length (filter (\<lambda>c. crt_OrgID c = orgID \<and> crt_Status c = ''active'') (db_certificates db)),
     db\<lparr>db_certificates := update_where (\<lambda>c. crt_OrgID c = orgID \<and> crt_Status c = ''active'')
      (\<lambda>c. c\<lparr>crt_Status := ''revoked'', crt_RevokedAt := Some (dx_now env), crt_RevocationReason := Some reason\<rparr>) (db_certificates db)\<rparr>)"

text \<open>The active certificate of a device that was created last.\<close>

definition newest :: "certificate list \<Rightarrow> certificate option" where
  "newest cs = fold (\<lambda>c best. case best of None \<Rightarrow> Some c | Some b \<Rightarrow> if crt_CreatedAt b < crt_CreatedAt c then Some c else best) cs None"

definition GetActiveCertForDevice :: "db_env \<Rightarrow> string \<Rightarrow> database \<Rightarrow> db_error + certificate option" where
  "GetActiveCertForDevice env deviceID db = run_statement env ''GetActiveCertForDevice''
    (newest (filter (\<lambda>c. crt_DeviceID c = deviceID \<and> crt_Status c = ''active'') (db_certificates db)))"

subsection \<open>The audit log\<close>

text \<open>The column check of migration 005.\<close>

definition actor_types :: "string list" where
  "actor_types = [''admin'', ''device'', ''system'', ''gateway'']"

definition InsertAudit :: "db_env \<Rightarrow> audit_row \<Rightarrow> database \<Rightarrow> db_error + database" where
  "InsertAudit env entry db =
    (if dx_fails env ''InsertAudit'' then Inl DBFailed
     else if au_ActorType entry \<notin> set actor_types then Inl ConstraintViolated
     else if (case au_OrgID entry of None \<Rightarrow> False | Some o' \<Rightarrow> \<not> (\<exists>r\<in>set (db_organizations db). og_ID r = o')) then Inl ConstraintViolated
     else Inr (db\<lparr>db_audit := db_audit db @ [entry]\<rparr>))"

text \<open>Outside a transaction a failed audit entry is dropped; inside one the transaction can no longer commit.\<close>

definition audit_outside :: "db_env \<Rightarrow> audit_row \<Rightarrow> database \<Rightarrow> database" where
  "audit_outside env entry db = (case InsertAudit env entry db of Inl _ \<Rightarrow> db | Inr db' \<Rightarrow> db')"

definition audit_and_commit :: "db_env \<Rightarrow> audit_row \<Rightarrow> database \<Rightarrow> db_error + database" where
  "audit_and_commit env entry db = and_then (InsertAudit env entry db) (run_statement env ''Commit'')"

end
