(* ===== verification/Control_Plane.thy ===== *)
theory Control_Plane
  imports Prelude
begin

text \<open>
The backend's client of the control plane (backend/internal/controlplane/client.go): the two status lookups
with their caches, the fail mode, and the decisions the enrolment handlers ask for.

The HTTP exchange is a parameter: a reply is missing when the request could not be built or sent, and its
payload is missing when the body does not decode. A lookup reads the clock once.
\<close>

section \<open>The client\<close>

record orgCacheEntry =
  oe_status :: string
  oe_reason :: string
  oe_expiresAt :: time

record deviceCacheEntry =
  de_status :: string
  de_reason :: string
  de_organizationStatus :: string
  de_expiresAt :: time

record control_client =
  cp_baseURL :: string
  cp_token :: string
  cp_failMode :: string
  cp_cacheTTL :: duration
  cp_orgCache :: "string \<rightharpoonup> orgCacheEntry"
  cp_deviceCache :: "string \<rightharpoonup> deviceCacheEntry"

record orgStatusResponse =
  os_Status :: string
  os_Reason :: string

record deviceStatusReply =
  dr_Status :: string
  dr_StatusReason :: string
  dr_OrganizationStatus :: string

type_synonym org_reply = "(int \<times> orgStatusResponse option) option"
type_synonym device_reply = "(int \<times> deviceStatusReply option) option"

text \<open>The errors a caller can tell apart: ErrDenied, and everything else.\<close>

datatype control_error = ErrDenied | Unavailable

definition cp_NewClient :: "string \<Rightarrow> string \<Rightarrow> string \<Rightarrow> duration \<Rightarrow> control_client option" where
  "cp_NewClient baseURL token failMode cacheTTL =
    (let base = trim_right (\<lambda>c. c = CHR ''/'') (trim_space baseURL) in
     if base = [] then None
     else Some \<lparr>cp_baseURL = base, cp_token = token,
                cp_failMode = (if canon failMode \<noteq> ''open'' then ''closed'' else ''open''),
                cp_cacheTTL = (if cacheTTL \<le> 0 then 30 * second else cacheTTL),
                cp_orgCache = Map.empty, cp_deviceCache = Map.empty\<rparr>)"

definition fetch_org :: "time \<Rightarrow> string \<Rightarrow> org_reply \<Rightarrow> control_client \<Rightarrow> (control_error + orgCacheEntry) \<times> control_client" where
  "fetch_org now orgID reply c =
    (case reply of
       None \<Rightarrow> (Inl Unavailable, c)
     | Some (status, payload) \<Rightarrow>
        if status = 404 then (Inl ErrDenied, c)
        else if status \<noteq> 200 then (Inl Unavailable, c)
        else case payload of
            None \<Rightarrow> (Inl Unavailable, c)
          | Some p \<Rightarrow>
              (let e = \<lparr>oe_status = canon (os_Status p), oe_reason = trim_space (os_Reason p), oe_expiresAt = now + cp_cacheTTL c\<rparr>
               in (Inr e, c\<lparr>cp_orgCache := (cp_orgCache c)(orgID \<mapsto> e)\<rparr>)))"

definition lookupOrg :: "time \<Rightarrow> string \<Rightarrow> org_reply \<Rightarrow> control_client \<Rightarrow> (control_error + orgCacheEntry) \<times> control_client" where
  "lookupOrg now orgID reply c =
    (case cp_orgCache c orgID of
       Some e \<Rightarrow> if now < oe_expiresAt e then (Inr e, c) else fetch_org now orgID reply c
     | None \<Rightarrow> fetch_org now orgID reply c)"

definition fetch_device :: "time \<Rightarrow> string \<Rightarrow> device_reply \<Rightarrow> control_client \<Rightarrow> (control_error + deviceCacheEntry) \<times> control_client" where
  "fetch_device now deviceID reply c =
    (case reply of
       None \<Rightarrow> (Inl Unavailable, c)
     | Some (status, payload) \<Rightarrow>
        if status = 404 then (Inl ErrDenied, c)
        else if status \<noteq> 200 then (Inl Unavailable, c)
        else case payload of
            None \<Rightarrow> (Inl Unavailable, c)
          | Some p \<Rightarrow>
              (let e = \<lparr>de_status = canon (dr_Status p), de_reason = trim_space (dr_StatusReason p),
                        de_organizationStatus = canon (dr_OrganizationStatus p), de_expiresAt = now + cp_cacheTTL c\<rparr>
               in (Inr e, c\<lparr>cp_deviceCache := (cp_deviceCache c)(deviceID \<mapsto> e)\<rparr>)))"

definition lookupDevice :: "time \<Rightarrow> string \<Rightarrow> device_reply \<Rightarrow> control_client \<Rightarrow> (control_error + deviceCacheEntry) \<times> control_client" where
  "lookupDevice now deviceID reply c =
    (case cp_deviceCache c deviceID of
       Some e \<Rightarrow> if now < de_expiresAt e then (Inr e, c) else fetch_device now deviceID reply c
     | None \<Rightarrow> fetch_device now deviceID reply c)"

definition EnforceOrganizationActive :: "time \<Rightarrow> string \<Rightarrow> org_reply \<Rightarrow> control_client \<Rightarrow> control_error option \<times> control_client" where
  "EnforceOrganizationActive now orgID reply c =
    (if trim_space orgID = [] then (None, c)
     else case lookupOrg now orgID reply c of
         (Inl err, c') \<Rightarrow> (if cp_failMode c = ''open'' then None else Some err, c')
       | (Inr e, c') \<Rightarrow> (if oe_status e \<noteq> ''active'' then Some ErrDenied else None, c'))"

definition EnforceDeviceActive :: "time \<Rightarrow> string \<Rightarrow> device_reply \<Rightarrow> control_client \<Rightarrow> control_error option \<times> control_client" where
  "EnforceDeviceActive now deviceID reply c =
    (if trim_space deviceID = [] then (None, c)
     else case lookupDevice now deviceID reply c of
         (Inl err, c') \<Rightarrow> (if cp_failMode c = ''open'' then None else Some err, c')
       | (Inr e, c') \<Rightarrow>
           (if de_organizationStatus e \<noteq> [] \<and> de_organizationStatus e \<noteq> ''active'' then Some ErrDenied
            else if de_status e \<noteq> ''active'' then Some ErrDenied else None, c'))"

section \<open>Histories of lookups\<close>

datatype control_call = AskOrg time string org_reply | AskDevice time string device_reply

fun call_time :: "control_call \<Rightarrow> time" where
  "call_time (AskOrg t _ _) = t"
| "call_time (AskDevice t _ _) = t"

fun control_exec :: "control_call \<Rightarrow> control_client \<Rightarrow> control_client" where
  "control_exec (AskOrg t o' r) c = snd (EnforceOrganizationActive t o' r c)"
| "control_exec (AskDevice t d r) c = snd (EnforceDeviceActive t d r c)"

definition control_run :: "control_call list \<Rightarrow> control_client \<Rightarrow> control_client" where
  "control_run calls c = fold control_exec calls c"

text \<open>A call reaches the control plane when the cache has no entry that is still valid.\<close>

fun asks :: "control_client \<Rightarrow> control_call \<Rightarrow> bool" where
  "asks c (AskOrg t i r) = (trim_space i \<noteq> [] \<and> (case cp_orgCache c i of None \<Rightarrow> True | Some e \<Rightarrow> oe_expiresAt e \<le> t))"
| "asks c (AskDevice t i r) = (trim_space i \<noteq> [] \<and> (case cp_deviceCache c i of None \<Rightarrow> True | Some e \<Rightarrow> de_expiresAt e \<le> t))"

text \<open>The calls of a history that reached the control plane.\<close>

fun asked :: "control_call list \<Rightarrow> control_client \<Rightarrow> control_call list" where
  "asked [] c = []"
| "asked (call # calls) c = (if asks c call then [call] else []) @ asked calls (control_exec call c)"

text \<open>A usable answer: status 200 with a payload that decodes.\<close>

definition said_org :: "control_call \<Rightarrow> string \<Rightarrow> orgStatusResponse option" where
  "said_org call o' = (case call of AskOrg t i (Some (s, p)) \<Rightarrow> if i = o' \<and> s = 200 then p else None | _ \<Rightarrow> None)"

definition said_device :: "control_call \<Rightarrow> string \<Rightarrow> deviceStatusReply option" where
  "said_device call d = (case call of AskDevice t i (Some (s, p)) \<Rightarrow> if i = d \<and> s = 200 then p else None | _ \<Rightarrow> None)"

text \<open>The payload says that the organisation, or the device and its organisation, are active.\<close>

definition says_active :: "orgStatusResponse \<Rightarrow> bool" where
  "says_active p = (canon (os_Status p) = ''active'')"

definition device_says_active :: "deviceStatusReply \<Rightarrow> bool" where
  "device_says_active p = (canon (dr_Status p) = ''active'' \<and> canon (dr_OrganizationStatus p) \<in> {[], ''active''})"

text \<open>Some call said, less than a cache lifetime before \<open>now\<close>, a payload that satisfies \<open>P\<close>.\<close>

definition heard :: "(control_call \<Rightarrow> 'p option) \<Rightarrow> duration \<Rightarrow> control_call list \<Rightarrow> time \<Rightarrow> ('p \<Rightarrow> bool) \<Rightarrow> bool" where
  "heard said ttl calls now P = (\<exists>call\<in>set calls. \<exists>p. said call = Some p \<and> now < call_time call + ttl \<and> P p)"

definition org_entry :: "duration \<Rightarrow> time \<Rightarrow> orgStatusResponse \<Rightarrow> orgCacheEntry" where
  "org_entry ttl t p = \<lparr>oe_status = canon (os_Status p), oe_reason = trim_space (os_Reason p), oe_expiresAt = t + ttl\<rparr>"

definition device_entry :: "duration \<Rightarrow> time \<Rightarrow> deviceStatusReply \<Rightarrow> deviceCacheEntry" where
  "device_entry ttl t p = \<lparr>de_status = canon (dr_Status p), de_reason = trim_space (dr_StatusReason p),
     de_organizationStatus = canon (dr_OrganizationStatus p), de_expiresAt = t + ttl\<rparr>"

definition caches_heard :: "duration \<Rightarrow> control_call list \<Rightarrow> control_client \<Rightarrow> bool" where
  "caches_heard ttl calls c \<longleftrightarrow>
     (\<forall>o' e. cp_orgCache c o' = Some e \<longrightarrow> (\<exists>call\<in>set calls. \<exists>p. said_org call o' = Some p \<and> e = org_entry ttl (call_time call) p)) \<and>
     (\<forall>d e. cp_deviceCache c d = Some e \<longrightarrow> (\<exists>call\<in>set calls. \<exists>p. said_device call d = Some p \<and> e = device_entry ttl (call_time call) p))"

lemma fetch_org_cases:
  "fetch_org now i r c = (Inr e, c') \<Longrightarrow>
     \<exists>p. said_org (AskOrg now i r) i = Some p \<and> e = org_entry (cp_cacheTTL c) now p \<and> c' = c\<lparr>cp_orgCache := (cp_orgCache c)(i \<mapsto> e)\<rparr>"
  "fetch_org now i r c = (Inl x, c') \<Longrightarrow> c' = c \<and> said_org (AskOrg now i r) i = None \<and> (x = ErrDenied \<longleftrightarrow> (\<exists>p. r = Some (404, p)))"
  by (auto simp: fetch_org_def said_org_def org_entry_def Let_def split: option.splits prod.splits if_splits)

lemma fetch_device_cases:
  "fetch_device now i r c = (Inr e, c') \<Longrightarrow>
     \<exists>p. said_device (AskDevice now i r) i = Some p \<and> e = device_entry (cp_cacheTTL c) now p \<and> c' = c\<lparr>cp_deviceCache := (cp_deviceCache c)(i \<mapsto> e)\<rparr>"
  "fetch_device now i r c = (Inl x, c') \<Longrightarrow> c' = c \<and> said_device (AskDevice now i r) i = None \<and> (x = ErrDenied \<longleftrightarrow> (\<exists>p. r = Some (404, p)))"
  by (auto simp: fetch_device_def said_device_def device_entry_def Let_def split: option.splits prod.splits if_splits)

lemma exec_settings [simp]:
  "cp_cacheTTL (control_exec call c) = cp_cacheTTL c" "cp_failMode (control_exec call c) = cp_failMode c"
  by (cases call; auto simp: EnforceOrganizationActive_def EnforceDeviceActive_def lookupOrg_def lookupDevice_def
        fetch_org_def fetch_device_def Let_def split: option.splits prod.splits sum.splits if_splits)+

lemma asked_snoc: "asked (calls @ [call]) c = asked calls c @ (if asks (control_run calls c) call then [call] else [])"
  by (induction calls arbitrary: c) (auto simp: control_run_def)

lemma run_snoc: "control_run (calls @ [call]) c = control_exec call (control_run calls c)"
  by (simp add: control_run_def)

lemma run_settings [simp]: "cp_cacheTTL (control_run calls c) = cp_cacheTTL c" "cp_failMode (control_run calls c) = cp_failMode c"
  by (induction calls arbitrary: c) (auto simp: control_run_def)

lemma lookupOrg_cases:
  "lookupOrg now i r c = (if asks c (AskOrg now i r) \<or> trim_space i = [] \<and> (case cp_orgCache c i of None \<Rightarrow> True | Some e \<Rightarrow> oe_expiresAt e \<le> now)
     then fetch_org now i r c else (Inr (the (cp_orgCache c i)), c))"
  by (auto simp: lookupOrg_def split: option.splits)

lemma lookupDevice_cases:
  "lookupDevice now i r c = (if asks c (AskDevice now i r) \<or> trim_space i = [] \<and> (case cp_deviceCache c i of None \<Rightarrow> True | Some e \<Rightarrow> de_expiresAt e \<le> now)
     then fetch_device now i r c else (Inr (the (cp_deviceCache c i)), c))"
  by (auto simp: lookupDevice_def split: option.splits)

lemma exec_org:
  "control_exec (AskOrg t i r) c = (if asks c (AskOrg t i r) then snd (fetch_org t i r c) else c)"
  by (auto simp: EnforceOrganizationActive_def lookupOrg_cases simp del: asks.simps split: prod.splits sum.splits) (auto split: option.splits)

lemma exec_device:
  "control_exec (AskDevice t i r) c = (if asks c (AskDevice t i r) then snd (fetch_device t i r c) else c)"
  by (auto simp: EnforceDeviceActive_def lookupDevice_cases simp del: asks.simps split: prod.splits sum.splits) (auto split: option.splits)

lemma caches_heard_mono: "caches_heard ttl calls c \<Longrightarrow> set calls \<subseteq> set calls' \<Longrightarrow> caches_heard ttl calls' c"
  unfolding caches_heard_def by blast

lemma caches_heard_put:
  "caches_heard ttl seen c \<Longrightarrow> k \<in> set seen \<Longrightarrow> said_org k i = Some p \<Longrightarrow>
     caches_heard ttl seen (c\<lparr>cp_orgCache := (cp_orgCache c)(i \<mapsto> org_entry ttl (call_time k) p)\<rparr>)"
  "caches_heard ttl seen c \<Longrightarrow> k \<in> set seen \<Longrightarrow> said_device k i = Some q \<Longrightarrow>
     caches_heard ttl seen (c\<lparr>cp_deviceCache := (cp_deviceCache c)(i \<mapsto> device_entry ttl (call_time k) q)\<rparr>)"
  unfolding caches_heard_def by (simp, blast)+

lemma caches_heard_exec:
  assumes "caches_heard (cp_cacheTTL c) calls c"
  shows "caches_heard (cp_cacheTTL c) (calls @ (if asks c call then [call] else [])) (control_exec call c)"
proof (cases "asks c call")
  case False
  then show ?thesis using assms by (cases call) (simp_all add: exec_org exec_device del: control_exec.simps asks.simps)
next
  case True
  have old: "caches_heard (cp_cacheTTL c) (calls @ [call]) c" using caches_heard_mono[OF assms, of "calls @ [call]"] by auto
  show ?thesis
  proof (cases call)
    case (AskOrg t i r)
    obtain res c' where f: "fetch_org t i r c = (res, c')" by (cases "fetch_org t i r c")
    have "caches_heard (cp_cacheTTL c) (calls @ [call]) c'"
    proof (cases res)
      case (Inl x)
      then show ?thesis using fetch_org_cases(2)[of t i r c x c'] f old by simp
    next
      case (Inr e)
      then obtain p where "said_org call i = Some p" "c' = c\<lparr>cp_orgCache := (cp_orgCache c)(i \<mapsto> org_entry (cp_cacheTTL c) t p)\<rparr>"
        using fetch_org_cases(1)[of t i r c e c'] f AskOrg by auto
      then show ?thesis using caches_heard_put(1)[OF old, of call i p] AskOrg by simp
    qed
    then show ?thesis using True AskOrg f by (simp add: exec_org del: control_exec.simps asks.simps)
  next
    case (AskDevice t i r)
    obtain res c' where f: "fetch_device t i r c = (res, c')" by (cases "fetch_device t i r c")
    have "caches_heard (cp_cacheTTL c) (calls @ [call]) c'"
    proof (cases res)
      case (Inl x)
      then show ?thesis using fetch_device_cases(2)[of t i r c x c'] f old by simp
    next
      case (Inr e)
      then obtain p where "said_device call i = Some p" "c' = c\<lparr>cp_deviceCache := (cp_deviceCache c)(i \<mapsto> device_entry (cp_cacheTTL c) t p)\<rparr>"
        using fetch_device_cases(1)[of t i r c e c'] f AskDevice by auto
      then show ?thesis using caches_heard_put(2)[OF old, of call i p] AskDevice by simp
    qed
    then show ?thesis using True AskDevice f by (simp add: exec_device del: control_exec.simps asks.simps)
  qed
qed

lemma caches_heard_run:
  assumes "cp_orgCache c = Map.empty" "cp_deviceCache c = Map.empty"
  shows "caches_heard (cp_cacheTTL c) (asked calls c) (control_run calls c)"
proof (induction calls rule: rev_induct)
  case Nil
  then show ?case using assms by (simp add: caches_heard_def control_run_def)
next
  case (snoc call calls)
  then show ?case using caches_heard_exec[of "control_run calls c" "asked calls c" call]
    by (simp add: asked_snoc run_snoc del: control_exec.simps asks.simps)
qed

lemma NewClient_fresh:
  assumes "cp_NewClient base token mode ttl = Some c"
  shows "cp_orgCache c = Map.empty" "cp_deviceCache c = Map.empty" "cp_failMode c = ''open'' \<longleftrightarrow> canon mode = ''open''" "0 < cp_cacheTTL c"
  using assms by (auto simp: cp_NewClient_def Let_def second_def split: if_splits)

lemma lookupOrg_heard:
  assumes "caches_heard ttl seen c" "cp_cacheTTL c = ttl" "0 < ttl" "trim_space i \<noteq> []"
  shows "lookupOrg now i r c = (Inr e, c') \<Longrightarrow>
           \<exists>k\<in>set (seen @ (if asks c (AskOrg now i r) then [AskOrg now i r] else [])). \<exists>p. said_org k i = Some p \<and> now < call_time k + ttl \<and> oe_status e = canon (os_Status p)"
    and "lookupOrg now i r c = (Inl x, c') \<Longrightarrow> asks c (AskOrg now i r) \<and> said_org (AskOrg now i r) i = None \<and> (x = ErrDenied \<longleftrightarrow> (\<exists>p. r = Some (404, p)))"
proof -
  show "\<exists>k\<in>set (seen @ (if asks c (AskOrg now i r) then [AskOrg now i r] else [])). \<exists>p. said_org k i = Some p \<and> now < call_time k + ttl \<and> oe_status e = canon (os_Status p)"
    if "lookupOrg now i r c = (Inr e, c')"
  proof (cases "asks c (AskOrg now i r)")
    case True
    then show ?thesis using that fetch_org_cases(1)[of now i r c e c'] assms(2,3)
      by (auto simp: lookupOrg_cases org_entry_def simp del: asks.simps)
  next
    case False
    then obtain e' where "cp_orgCache c i = Some e'" "now < oe_expiresAt e'"
      using assms(4) by (auto simp: not_le split: option.splits)
    moreover have "e = e'" using that calculation by (simp add: lookupOrg_def)
    ultimately have e': "cp_orgCache c i = Some e'" "now < oe_expiresAt e'" "e = e'" by simp_all
    from this(1) obtain k p where "k \<in> set seen" "said_org k i = Some p" "e' = org_entry ttl (call_time k) p"
      using assms(1) unfolding caches_heard_def by blast
    then show ?thesis using e' by (auto simp: org_entry_def)
  qed
  show "asks c (AskOrg now i r) \<and> said_org (AskOrg now i r) i = None \<and> (x = ErrDenied \<longleftrightarrow> (\<exists>p. r = Some (404, p)))"
    if "lookupOrg now i r c = (Inl x, c')"
    using that assms(4) fetch_org_cases(2)[of now i r c x c'] by (auto simp: lookupOrg_cases split: if_splits)
qed

lemma lookupDevice_heard:
  assumes "caches_heard ttl seen c" "cp_cacheTTL c = ttl" "0 < ttl" "trim_space i \<noteq> []"
  shows "lookupDevice now i r c = (Inr e, c') \<Longrightarrow>
           \<exists>k\<in>set (seen @ (if asks c (AskDevice now i r) then [AskDevice now i r] else [])). \<exists>p. said_device k i = Some p \<and> now < call_time k + ttl \<and>
             de_status e = canon (dr_Status p) \<and> de_organizationStatus e = canon (dr_OrganizationStatus p)"
    and "lookupDevice now i r c = (Inl x, c') \<Longrightarrow> asks c (AskDevice now i r) \<and> said_device (AskDevice now i r) i = None \<and> (x = ErrDenied \<longleftrightarrow> (\<exists>p. r = Some (404, p)))"
proof -
  show "\<exists>k\<in>set (seen @ (if asks c (AskDevice now i r) then [AskDevice now i r] else [])). \<exists>p. said_device k i = Some p \<and> now < call_time k + ttl \<and>
             de_status e = canon (dr_Status p) \<and> de_organizationStatus e = canon (dr_OrganizationStatus p)"
    if "lookupDevice now i r c = (Inr e, c')"
  proof (cases "asks c (AskDevice now i r)")
    case True
    then show ?thesis using that fetch_device_cases(1)[of now i r c e c'] assms(2,3)
      by (auto simp: lookupDevice_cases device_entry_def simp del: asks.simps)
  next
    case False
    then obtain e' where "cp_deviceCache c i = Some e'" "now < de_expiresAt e'"
      using assms(4) by (auto simp: not_le split: option.splits)
    moreover have "e = e'" using that calculation by (simp add: lookupDevice_def)
    ultimately have e': "cp_deviceCache c i = Some e'" "now < de_expiresAt e'" "e = e'" by simp_all
    from this(1) obtain k p where "k \<in> set seen" "said_device k i = Some p" "e' = device_entry ttl (call_time k) p"
      using assms(1) unfolding caches_heard_def by blast
    then show ?thesis using e' by (auto simp: device_entry_def)
  qed
  show "asks c (AskDevice now i r) \<and> said_device (AskDevice now i r) i = None \<and> (x = ErrDenied \<longleftrightarrow> (\<exists>p. r = Some (404, p)))"
    if "lookupDevice now i r c = (Inl x, c')"
    using that assms(4) fetch_device_cases(2)[of now i r c x c'] by (auto simp: lookupDevice_cases split: if_splits)
qed

text \<open>What an answer of the enforcement means, given the calls that reached the control plane.\<close>

definition enforced_as :: "bool \<Rightarrow> bool \<Rightarrow> bool \<Rightarrow> (('p \<Rightarrow> bool) \<Rightarrow> bool) \<Rightarrow> ('p \<Rightarrow> bool) \<Rightarrow> control_error option \<Rightarrow> bool" where
  "enforced_as fail_open unusable not_found heard_now active answer =
    (case answer of
       None \<Rightarrow> heard_now active \<or> fail_open \<and> unusable
     | Some ErrDenied \<Rightarrow> heard_now (\<lambda>p. \<not> active p) \<or> \<not> fail_open \<and> not_found
     | Some Unavailable \<Rightarrow> \<not> fail_open \<and> unusable \<and> \<not> not_found)"

lemma org_enforced:
  assumes "caches_heard ttl seen c" "cp_cacheTTL c = ttl" "0 < ttl" "trim_space i \<noteq> []"
  shows "enforced_as (cp_failMode c = ''open'') (asks c (AskOrg now i r) \<and> said_org (AskOrg now i r) i = None) (\<exists>p. r = Some (404, p))
     (heard (\<lambda>k. said_org k i) ttl (seen @ (if asks c (AskOrg now i r) then [AskOrg now i r] else [])) now) says_active
     (fst (EnforceOrganizationActive now i r c))"
proof (cases "lookupOrg now i r c")
  case (Pair res c')
  show ?thesis
  proof (cases res)
    case (Inl x)
    then show ?thesis using lookupOrg_heard(2)[OF assms, of now r x c'] Pair assms(4)
      by (auto simp: enforced_as_def EnforceOrganizationActive_def simp del: asks.simps split: control_error.splits)
  next
    case (Inr e)
    then show ?thesis using lookupOrg_heard(1)[OF assms, of now r e c'] Pair assms(4)
      by (simp add: enforced_as_def EnforceOrganizationActive_def heard_def says_active_def del: asks.simps) metis
  qed
qed

lemma device_enforced:
  assumes "caches_heard ttl seen c" "cp_cacheTTL c = ttl" "0 < ttl" "trim_space i \<noteq> []"
  shows "enforced_as (cp_failMode c = ''open'') (asks c (AskDevice now i r) \<and> said_device (AskDevice now i r) i = None) (\<exists>p. r = Some (404, p))
     (heard (\<lambda>k. said_device k i) ttl (seen @ (if asks c (AskDevice now i r) then [AskDevice now i r] else [])) now) device_says_active
     (fst (EnforceDeviceActive now i r c))"
proof (cases "lookupDevice now i r c")
  case (Pair res c')
  show ?thesis
  proof (cases res)
    case (Inl x)
    then show ?thesis using lookupDevice_heard(2)[OF assms, of now r x c'] Pair assms(4)
      by (auto simp: enforced_as_def EnforceDeviceActive_def simp del: asks.simps split: control_error.splits)
  next
    case (Inr e)
    then show ?thesis using lookupDevice_heard(1)[OF assms, of now r e c'] Pair assms(4)
      by (simp add: enforced_as_def EnforceDeviceActive_def heard_def device_says_active_def del: asks.simps) metis
  qed
qed

section \<open>Properties\<close>

text \<open>
After any history of calls, the control-plane client lets an organisation or a device pass only on a
usable answer it received less than a cache lifetime ago and that said active, or because it fails open and
the control plane gave no usable answer now; it denies only on such an answer that said otherwise, or, when it
fails closed, on an answer that the organisation or device is unknown; and it reports the control plane as
unavailable only when it fails closed and got no usable answer now.
\<close>

theorem control_plane_decides:
  assumes "cp_NewClient base token mode ttl = Some c0" and "trim_space i \<noteq> []"
  shows "enforced_as (canon mode = ''open'')
           (asks (control_run calls c0) (AskOrg now i r) \<and> said_org (AskOrg now i r) i = None) (\<exists>p. r = Some (404, p))
           (heard (\<lambda>k. said_org k i) (cp_cacheTTL c0) (asked (calls @ [AskOrg now i r]) c0) now) says_active
           (fst (EnforceOrganizationActive now i r (control_run calls c0)))
       \<and> enforced_as (canon mode = ''open'')
           (asks (control_run calls c0) (AskDevice now i rd) \<and> said_device (AskDevice now i rd) i = None) (\<exists>p. rd = Some (404, p))
           (heard (\<lambda>k. said_device k i) (cp_cacheTTL c0) (asked (calls @ [AskDevice now i rd]) c0) now) device_says_active
           (fst (EnforceDeviceActive now i rd (control_run calls c0)))"
proof -
  note fresh = NewClient_fresh[OF assms(1)]
  have inv: "caches_heard (cp_cacheTTL c0) (asked calls c0) (control_run calls c0)" by (rule caches_heard_run[OF fresh(1,2)])
  show ?thesis
    using org_enforced[OF inv _ fresh(4) assms(2), of now r] device_enforced[OF inv _ fresh(4) assms(2), of now rd]
    by (simp add: asked_snoc fresh(3) del: asks.simps)
qed

text \<open>
Failing open turns even a definite refusal into a pass: an organisation the control plane says it does not
know is let through, although the client reports that answer as a denial.
\<close>

lemma fail_open_passes_unknown:
  "map_option (\<lambda>c. fst (EnforceOrganizationActive 0 ''org'' (Some (404, None)) c)) (cp_NewClient ''https://cp'' [] ''open'' 0) = Some None"
  by code_simp

definition sample_control_client :: control_client where
  "sample_control_client = \<lparr>cp_baseURL = ''https://cp'', cp_token = [], cp_failMode = ''closed'', cp_cacheTTL = 10,
     cp_orgCache = Map.empty, cp_deviceCache = Map.empty\<rparr>"

definition sample_active_reply :: org_reply where
  "sample_active_reply = Some (200, Some \<lparr>os_Status = '' Active'', os_Reason = []\<rparr>)"

text \<open>An organisation that was active is let pass on the cached answer, and no longer when the answer is too old.\<close>

lemma control_plane_decides_witness:
  "heard (\<lambda>k. said_org k ''org'') 10 (asked [AskOrg 0 ''org'' sample_active_reply, AskOrg 5 ''org'' None] sample_control_client) 5 says_active
   \<and> fst (EnforceOrganizationActive 10 ''org'' None (control_run [AskOrg 0 ''org'' sample_active_reply] sample_control_client)) = Some Unavailable"
proof -
  have new: "cp_NewClient ''https://cp/'' [] ''strict'' 10 = Some sample_control_client"
    unfolding cp_NewClient_def sample_control_client_def Let_def by (simp add: canon_def trim_space_def trim_left_def trim_right_def is_space_def to_lower_def lower_char_def)
  have org: "trim_space ''org'' \<noteq> []" and mode: "canon ''strict'' \<noteq> ''open''" by code_simp+
  have "fst (EnforceOrganizationActive 5 ''org'' None (control_run [AskOrg 0 ''org'' sample_active_reply] sample_control_client)) = None"
    and "fst (EnforceOrganizationActive 10 ''org'' None (control_run [AskOrg 0 ''org'' sample_active_reply] sample_control_client)) = Some Unavailable"
    by code_simp+
  then show ?thesis
    using control_plane_decides[OF new org, of "[AskOrg 0 ''org'' sample_active_reply]" 5 None None] mode
    by (simp add: enforced_as_def sample_control_client_def)
qed

end
