(* ===== verification/Backend_Enrollment.thy ===== *)
theory Backend_Enrollment
  imports Backend_Store Control_Plane
begin

text \<open>
Issuing and revoking device certificates in the backend: token generation (backend/internal/token), the checks on a
certificate request and the signer (backend/internal/signing), and the handlers that submit a request, revoke and
report a certificate (backend/internal/api/enrollment.go, revocation.go, cert_status.go).

PEM, PKCS #10 and X.509 are parameters, as are the random bytes. A handler runs its statements one after the other;
what another request may do between two of them is considered for renewals in a lemma of its own. Texts of error
messages, logging and counters are left out: a refusal is its status and code.
\<close>

section \<open>Tokens\<close>

definition token_Hash :: "string \<Rightarrow> string" where
  "token_Hash raw = url_encode (sha256 raw)"

definition token_Generate :: "nat list option \<Rightarrow> (string \<times> string) option" where
  "token_Generate random = map_option (\<lambda>b. (url_encode b, token_Hash (url_encode b))) random"

section \<open>Certificate requests\<close>

datatype curve = P256 | P384 | OtherCurve
datatype public_key = ECDSAKey curve string | OtherKey string

record csr_info =
  cr_CommonName :: string
  cr_Organization :: "string list"
  cr_PublicKey :: public_key
  cr_SignatureOK :: bool

record cert_template =
  tp_SerialNumber :: "nat list"
  tp_CommonName :: string
  tp_Organization :: "string list"
  tp_NotBefore :: time
  tp_NotAfter :: time
  tp_KeyUsage :: "string list"
  tp_ExtKeyUsage :: "string list"
  tp_BasicConstraintsValid :: bool

record x509_lib =
  xl_pem_decode :: "string \<Rightarrow> (string \<times> string) option"
  xl_parse_csr :: "string \<Rightarrow> csr_info option"
  xl_create :: "cert_template \<Rightarrow> public_key \<Rightarrow> string option"
  xl_pem_encode :: "string \<Rightarrow> string \<Rightarrow> string"

definition ValidateCSR :: "x509_lib \<Rightarrow> string \<Rightarrow> string \<Rightarrow> string \<Rightarrow> string + string" where
  "ValidateCSR lib csrPEM expectedCN expectedO =
    (case xl_pem_decode lib csrPEM of
       None \<Rightarrow> Inl ''CSR_INVALID''
     | Some (typ, bytes) \<Rightarrow>
        if typ \<noteq> ''CERTIFICATE REQUEST'' then Inl ''CSR_INVALID''
        else case xl_parse_csr lib bytes of
            None \<Rightarrow> Inl ''CSR_INVALID''
          | Some csr \<Rightarrow>
             if \<not> cr_SignatureOK csr then Inl ''CSR_INVALID''
             else if cr_CommonName csr \<noteq> expectedCN then Inl ''CSR_INVALID''
             else if cr_Organization csr = [] \<or> hd (cr_Organization csr) \<noteq> expectedO then Inl ''ORG_MISMATCH''
             else case cr_PublicKey csr of
                 OtherKey _ \<Rightarrow> Inl ''KEY_ALGORITHM_REJECTED''
               | ECDSAKey curve _ \<Rightarrow> if curve \<noteq> P256 \<and> curve \<noteq> P384 then Inl ''KEY_ALGORITHM_REJECTED'' else Inr bytes)"

record signer =
  sg_IssuerCN :: string
  sg_CAChainPEM :: string
  sg_ValidityDays :: int

record sign_result =
  sr_CertPEM :: string
  sr_ChainPEM :: string
  sr_Serial :: string
  sr_NotBefore :: time
  sr_NotAfter :: time

definition SignCSR :: "x509_lib \<Rightarrow> time \<Rightarrow> nat list option \<Rightarrow> signer \<Rightarrow> string \<Rightarrow> sign_result option" where
  "SignCSR lib now random s csrDER =
    (case xl_parse_csr lib csrDER of
       None \<Rightarrow> None
     | Some csr \<Rightarrow>
        if \<not> cr_SignatureOK csr then None
        else case random of
            None \<Rightarrow> None
          | Some serialBytes \<Rightarrow>
             (let notAfter = now + wrap64 (sg_ValidityDays s * 24 * (3600 * second));
                  template = \<lparr>tp_SerialNumber = serialBytes, tp_CommonName = cr_CommonName csr, tp_Organization = cr_Organization csr,
                     tp_NotBefore = now, tp_NotAfter = notAfter, tp_KeyUsage = [''DigitalSignature''], tp_ExtKeyUsage = [''ClientAuth''],
                     tp_BasicConstraintsValid = True\<rparr>
              in case xl_create lib template (cr_PublicKey csr) of
                  None \<Rightarrow> None
                | Some der \<Rightarrow> Some \<lparr>sr_CertPEM = xl_pem_encode lib ''CERTIFICATE'' der, sr_ChainPEM = sg_CAChainPEM s,
                     sr_Serial = hex_encode serialBytes, sr_NotBefore = now, sr_NotAfter = notAfter\<rparr>))"

definition key_algorithm :: "x509_lib \<Rightarrow> string \<Rightarrow> string" where
  "key_algorithm lib csrDER =
    (case xl_parse_csr lib csrDER of
       Some csr \<Rightarrow> (case cr_PublicKey csr of ECDSAKey P384 _ \<Rightarrow> ''ECDSA-P384'' | _ \<Rightarrow> ''ECDSA-P256'')
     | None \<Rightarrow> ''ECDSA-P256'')"

section \<open>The server\<close>

record backend_config =
  bc_apiKey :: string
  bc_operatorOrgID :: string
  bc_operatorMode :: string
  bc_tokenTTL :: duration
  bc_publicBackendURL :: string
  bc_publicGatewayURL :: string
  bc_signer :: signer

record backend_state =
  bk_db :: database
  bk_control :: "control_client option"

text \<open>What a request finds: the database, the random source, and the answers of the control plane.\<close>

record request_env =
  rx_db :: db_env
  rx_token :: "nat list option"
  rx_serial :: "nat list option"
  rx_code :: "string option"
  rx_org_reply :: org_reply
  rx_device_reply :: device_reply

type_synonym refusal = "int \<times> string"

datatype 'b answer = Refused refusal | Answered int 'b

definition internal_error :: refusal where
  "internal_error = (500, ''INTERNAL'')"

definition ensureOrganizationAllowed :: "request_env \<Rightarrow> string \<Rightarrow> control_client option \<Rightarrow> control_error option \<times> control_client option" where
  "ensureOrganizationAllowed env orgID control =
    (case control of None \<Rightarrow> (None, None)
     | Some c \<Rightarrow> apsnd Some (EnforceOrganizationActive (dx_now (rx_db env)) orgID (rx_org_reply env) c))"

definition ensureDeviceAllowed :: "request_env \<Rightarrow> string \<Rightarrow> control_client option \<Rightarrow> control_error option \<times> control_client option" where
  "ensureDeviceAllowed env deviceID control =
    (case control of None \<Rightarrow> (None, None)
     | Some c \<Rightarrow> apsnd Some (EnforceDeviceActive (dx_now (rx_db env)) deviceID (rx_device_reply env) c))"

fun handleControlPlaneError :: "control_error \<Rightarrow> refusal" where
  "handleControlPlaneError ErrDenied = (403, ''ORG_OR_DEVICE_SUSPENDED'')"
| "handleControlPlaneError Unavailable = (503, ''CONTROL_PLANE_UNAVAILABLE'')"

section \<open>Submitting a certificate request\<close>

text \<open>The token of the request, checked inside the transaction; an enrolment token is used up by the check.\<close>

definition check_renewal :: "db_env \<Rightarrow> string \<Rightarrow> string \<Rightarrow> database \<Rightarrow> refusal option" where
  "check_renewal env deviceID renewalToken db =
    (case GetRenewalTokenHash env deviceID db of
       Inl _ \<Rightarrow> Some internal_error
     | Inr storedHash \<Rightarrow>
        if storedHash = [] then Some (401, ''TOKEN_INVALID'')
        else if token_Hash renewalToken \<noteq> storedHash then Some (401, ''TOKEN_INVALID'')
        else None)"

definition consume_enrollment :: "db_env \<Rightarrow> string \<Rightarrow> string \<Rightarrow> database \<Rightarrow> refusal + database" where
  "consume_enrollment env deviceID enrollToken db =
    (case ValidateAndConsumeToken env (token_Hash enrollToken) db of
       Inl _ \<Rightarrow> Inl internal_error
     | Inr (None, _) \<Rightarrow> Inl (401, ''TOKEN_INVALID'')
     | Inr (Some et, db') \<Rightarrow> if et_DeviceID et \<noteq> deviceID then Inl (403, ''TOKEN_INVALID'') else Inr db')"

definition or_internal :: "'e + 'a \<Rightarrow> refusal + 'a" where
  "or_internal r = (case r of Inl _ \<Rightarrow> Inl internal_error | Inr x \<Rightarrow> Inr x)"

definition authorise_csr :: "db_env \<Rightarrow> string \<Rightarrow> string \<Rightarrow> string \<Rightarrow> database \<Rightarrow> refusal + database" where
  "authorise_csr env deviceID enrollToken renewalToken db =
    and_then
      (if renewalToken \<noteq> [] then (case check_renewal env deviceID renewalToken db of Some a \<Rightarrow> Inl a | None \<Rightarrow> Inr db)
       else consume_enrollment env deviceID enrollToken db)
      (\<lambda>db1. or_internal (SupersedeActiveCerts env deviceID db1))"

record csr_response =
  cp_certificate :: string
  cp_ca_chain :: string
  cp_not_before :: time
  cp_not_after :: time
  cp_serial :: string
  cp_renewal_token :: string

definition certificate_row :: "x509_lib \<Rightarrow> backend_config \<Rightarrow> db_env \<Rightarrow> device_row \<Rightarrow> organization \<Rightarrow> string \<Rightarrow> string \<Rightarrow> string \<Rightarrow> sign_result \<Rightarrow> certificate" where
  "certificate_row lib cfg env device org deviceID csrPEM csrDER result =
    \<lparr>crt_DeviceID = deviceID, crt_OrgID = dv_OrgID device, crt_Serial = sr_Serial result, crt_SubjectCN = deviceID, crt_SubjectO = og_Name org,
     crt_IssuerCN = sg_IssuerCN (bc_signer cfg), crt_KeyAlgorithm = key_algorithm lib csrDER, crt_NotBefore = sr_NotBefore result,
     crt_NotAfter = sr_NotAfter result, crt_Status = ''active'', crt_RevokedAt = None, crt_RevocationReason = None, crt_CSRPEM = csrPEM,
     crt_CertPEM = sr_CertPEM result, crt_CreatedAt = dx_now env\<rparr>"

definition issue_audit :: "device_row \<Rightarrow> string \<Rightarrow> bool \<Rightarrow> sign_result \<Rightarrow> audit_row" where
  "issue_audit device deviceID isRenewal result =
    \<lparr>au_ActorType = ''system'', au_ActorID = ''backend'', au_OrgID = Some (dv_OrgID device),
     au_Action = (if isRenewal then ''cert.renewed'' else ''cert.issued''), au_ResourceType = ''certificate'', au_ResourceID = sr_Serial result,
     au_Details = [(''device_id'', VString deviceID), (''serial'', VString (sr_Serial result)), (''not_after'', VTime (sr_NotAfter result)),
                   (''renewal'', VBool isRenewal)], au_IPAddress = None\<rparr>"

text \<open>From the signature to the commit.\<close>

definition issue_csr :: "x509_lib \<Rightarrow> backend_config \<Rightarrow> request_env \<Rightarrow> device_row \<Rightarrow> organization \<Rightarrow> string \<Rightarrow> bool \<Rightarrow> string \<Rightarrow> string \<Rightarrow> database \<Rightarrow>
    refusal + csr_response \<times> database" where
  "issue_csr lib cfg env device org deviceID isRenewal csrPEM csrDER db =
    (case SignCSR lib (dx_now (rx_db env)) (rx_serial env) (bc_signer cfg) csrDER of
       None \<Rightarrow> Inl internal_error
     | Some result \<Rightarrow>
        and_then (or_internal (CreateCertificate (rx_db env) (certificate_row lib cfg (rx_db env) device org deviceID csrPEM csrDER result) db)) (\<lambda>db1.
        and_then (or_internal (ActivateDevice (rx_db env) deviceID db1)) (\<lambda>db2.
        case token_Generate (rx_token env) of
          None \<Rightarrow> Inl internal_error
        | Some (rawRenewal, renewalHash) \<Rightarrow>
           and_then (or_internal (SetRenewalTokenHash (rx_db env) deviceID renewalHash db2)) (\<lambda>db3.
           and_then (or_internal (audit_and_commit (rx_db env) (issue_audit device deviceID isRenewal result) db3)) (\<lambda>db4.
           Inr (\<lparr>cp_certificate = sr_CertPEM result, cp_ca_chain = sr_ChainPEM result, cp_not_before = sr_NotBefore result,
                 cp_not_after = sr_NotAfter result, cp_serial = sr_Serial result, cp_renewal_token = rawRenewal\<rparr>, db4))))))"

record csr_request =
  sq_deviceID :: string
  sq_enrollToken :: string
  sq_renewalToken :: string
  sq_body :: "string option"

text \<open>The part of the handler before the transaction, ending with the request that is to be signed.\<close>

definition admit_csr :: "x509_lib \<Rightarrow> request_env \<Rightarrow> csr_request \<Rightarrow> backend_state \<Rightarrow>
    (refusal + device_row \<times> organization \<times> string \<times> string) \<times> control_client option" where
  "admit_csr lib env r st =
    (let deviceID = trim_space (sq_deviceID r); control = bk_control st in
     if trim_space (sq_enrollToken r) = [] \<and> trim_space (sq_renewalToken r) = [] then (Inl (401, ''TOKEN_INVALID''), control)
     else case GetDevice (rx_db env) deviceID (bk_db st) of
       Inl _ \<Rightarrow> (Inl internal_error, control)
     | Inr None \<Rightarrow> (Inl (404, ''DEVICE_NOT_FOUND''), control)
     | Inr (Some device) \<Rightarrow>
        (case GetOrganization (rx_db env) (dv_OrgID device) (bk_db st) of
           Inl _ \<Rightarrow> (Inl internal_error, control)
         | Inr None \<Rightarrow> (Inl internal_error, control)
         | Inr (Some org) \<Rightarrow>
            (case ensureOrganizationAllowed env (og_ID org) control of
               (Some err, control1) \<Rightarrow> (Inl (handleControlPlaneError err), control1)
             | (None, control1) \<Rightarrow>
                (case ensureDeviceAllowed env (dv_ID device) control1 of
                   (Some err, control2) \<Rightarrow> (Inl (handleControlPlaneError err), control2)
                 | (None, control2) \<Rightarrow>
                    (case sq_body r of
                       None \<Rightarrow> (Inl (400, ''CSR_INVALID''), control2)
                     | Some csrPEM \<Rightarrow>
                        (case ValidateCSR lib csrPEM deviceID (og_Name org) of
                           Inl code \<Rightarrow> (Inl (400, code), control2)
                         | Inr csrDER \<Rightarrow> (Inr (device, org, csrPEM, csrDER), control2)))))))"

definition csr_transaction :: "x509_lib \<Rightarrow> backend_config \<Rightarrow> request_env \<Rightarrow> csr_request \<Rightarrow> device_row \<Rightarrow> organization \<Rightarrow> string \<Rightarrow> string \<Rightarrow> database \<Rightarrow>
    refusal + csr_response \<times> database" where
  "csr_transaction lib cfg env r device org csrPEM csrDER db =
    (if dx_fails (rx_db env) ''BeginTx'' then Inl internal_error
     else and_then (authorise_csr (rx_db env) (trim_space (sq_deviceID r)) (trim_space (sq_enrollToken r)) (trim_space (sq_renewalToken r)) db)
       (issue_csr lib cfg env device org (trim_space (sq_deviceID r)) (trim_space (sq_renewalToken r) \<noteq> []) csrPEM csrDER))"

definition handleSubmitCSR :: "x509_lib \<Rightarrow> backend_config \<Rightarrow> request_env \<Rightarrow> csr_request \<Rightarrow> backend_state \<Rightarrow> csr_response answer \<times> backend_state" where
  "handleSubmitCSR lib cfg env r st =
    (case admit_csr lib env r st of
       (Inl a, control) \<Rightarrow> (Refused a, st\<lparr>bk_control := control\<rparr>)
     | (Inr (device, org, csrPEM, csrDER), control) \<Rightarrow>
        (case csr_transaction lib cfg env r device org csrPEM csrDER (bk_db st) of
           Inl a \<Rightarrow> (Refused a, st\<lparr>bk_control := control\<rparr>)
         | Inr (resp, db) \<Rightarrow> (Answered 200 resp, st\<lparr>bk_control := control, bk_db := db\<rparr>)))"

section \<open>Revocation and certificate status\<close>

definition valid_reasons :: "string list" where
  "valid_reasons = [''device_decommissioned'', ''key_compromise'', ''org_offboarded'', ''policy_violation'', ''superseded'', ''admin_action'']"

record revoke_request =
  rv_Reason :: string
  rv_Serial :: string

definition revoke_audit :: "device_row \<Rightarrow> string \<Rightarrow> string \<Rightarrow> string \<Rightarrow> audit_row" where
  "revoke_audit device deviceID serial reason =
    \<lparr>au_ActorType = ''admin'', au_ActorID = ''api-key'', au_OrgID = Some (dv_OrgID device), au_Action = ''cert.revoked'',
     au_ResourceType = ''certificate'', au_ResourceID = serial,
     au_Details = [(''device_id'', VString deviceID), (''serial'', VString serial), (''reason'', VString reason)], au_IPAddress = None\<rparr>"

text \<open>The certificate to revoke: the one named, or the active one of the device; it must be the device's and active.\<close>

definition revocable_serial :: "db_env \<Rightarrow> string \<Rightarrow> string \<Rightarrow> database \<Rightarrow> refusal + string" where
  "revocable_serial env deviceID named db =
    and_then
      (if named \<noteq> [] then Inr named
       else case GetActiveCertForDevice env deviceID db of
           Inl _ \<Rightarrow> Inl internal_error
         | Inr None \<Rightarrow> Inl (404, ''CERT_NOT_FOUND'')
         | Inr (Some cert) \<Rightarrow> Inr (crt_Serial cert))
      (\<lambda>serial. case GetCertStatus env serial db of
           Inl _ \<Rightarrow> Inl internal_error
         | Inr None \<Rightarrow> Inl (404, ''CERT_NOT_FOUND'')
         | Inr (Some cs) \<Rightarrow>
            if cst_DeviceID cs \<noteq> deviceID then Inl (403, ''FORBIDDEN'')
            else if cst_Status cs \<noteq> ''active'' then Inl (409, ''CERT_NOT_ACTIVE'')
            else Inr serial)"

definition handleRevoke :: "db_env \<Rightarrow> string \<Rightarrow> revoke_request option \<Rightarrow> database \<Rightarrow> string answer \<times> database" where
  "handleRevoke env deviceID body db =
    (case body of
       None \<Rightarrow> (Refused (400, ''INVALID_REQUEST''), db)
     | Some req \<Rightarrow>
        if rv_Reason req \<notin> set valid_reasons then (Refused (400, ''INVALID_REQUEST''), db)
        else case GetDevice env deviceID db of
            Inl _ \<Rightarrow> (Refused internal_error, db)
          | Inr None \<Rightarrow> (Refused (404, ''DEVICE_NOT_FOUND''), db)
          | Inr (Some device) \<Rightarrow>
             (case revocable_serial env deviceID (rv_Serial req) db of
                Inl a \<Rightarrow> (Refused a, db)
              | Inr serial \<Rightarrow>
                 if dx_fails env ''BeginTx'' then (Refused internal_error, db)
                 else case and_then (RevokeCertificate env serial (rv_Reason req) db) (audit_and_commit env (revoke_audit device deviceID serial (rv_Reason req))) of
                     Inl _ \<Rightarrow> (Refused internal_error, db)
                   | Inr db' \<Rightarrow> (Answered 200 serial, db')))"

definition handleCertStatus :: "db_env \<Rightarrow> string \<Rightarrow> database \<Rightarrow> cert_status answer" where
  "handleCertStatus env serial db =
    (case GetCertStatus env serial db of
       Inl _ \<Rightarrow> Refused internal_error
     | Inr None \<Rightarrow> Refused (404, ''CERT_NOT_FOUND'')
     | Inr (Some cs) \<Rightarrow> Answered 200 cs)"

section \<open>What the handlers do\<close>

lemma and_then_Inr [simp]: "and_then r f = Inr y \<longleftrightarrow> (\<exists>x. r = Inr x \<and> f x = Inr y)"
  by (auto simp: and_then_def split: sum.splits)

lemma or_internal_Inr [simp]: "or_internal r = Inr x \<longleftrightarrow> r = Inr x"
  by (auto simp: or_internal_def split: sum.splits)

lemma run_statement_Inr [simp]: "run_statement env call x = Inr y \<longleftrightarrow> \<not> dx_fails env call \<and> y = x"
  by (auto simp: run_statement_def)

lemma and_then_Inl: "and_then r f = Inl e \<longleftrightarrow> r = Inl e \<or> (\<exists>x. r = Inr x \<and> f x = Inl e)"
  by (auto simp: and_then_def split: sum.splits)

text \<open>The token of a request authorises it.\<close>

definition token_authorises :: "db_env \<Rightarrow> csr_request \<Rightarrow> database \<Rightarrow> bool" where
  "token_authorises env r db =
    (let i = trim_space (sq_deviceID r); renewal = trim_space (sq_renewalToken r) in
     if renewal \<noteq> [] then \<exists>d. find (\<lambda>d. dv_ID d = i) (db_devices db) = Some d \<and> dv_RenewalTokenHash d = Some (token_Hash renewal)
     else \<exists>t. find (usable_token env (token_Hash (trim_space (sq_enrollToken r)))) (db_tokens db) = Some t \<and> et_DeviceID t = i)"

definition spend_token :: "db_env \<Rightarrow> csr_request \<Rightarrow> enrollment_token list \<Rightarrow> enrollment_token list" where
  "spend_token env r = (if trim_space (sq_renewalToken r) \<noteq> [] then id
     else update_where (usable_token env (token_Hash (trim_space (sq_enrollToken r)))) (\<lambda>t. t\<lparr>et_Used := True\<rparr>))"

definition supersede :: "string \<Rightarrow> certificate list \<Rightarrow> certificate list" where
  "supersede i = update_where (\<lambda>c. crt_DeviceID c = i \<and> crt_Status c = ''active'') (\<lambda>c. c\<lparr>crt_Status := ''superseded''\<rparr>)"

definition enrol_device :: "time \<Rightarrow> string \<Rightarrow> string \<Rightarrow> device_row list \<Rightarrow> device_row list" where
  "enrol_device now i h = update_where (\<lambda>d. dv_ID d = i)
     (\<lambda>d. d\<lparr>dv_Status := ''active'', dv_EnrolledAt := Some now, dv_RenewalTokenHash := Some h, dv_UpdatedAt := now\<rparr>)"

lemma sha256_nonempty: "sha256 s \<noteq> []"
  by (simp add: sha256_def sha_output_def be_bytes_def split: prod.splits)

lemma rawurl_encode_Nil: "rawurl_encode bs = [] \<longleftrightarrow> bs = []"
  by (cases bs rule: b64_digits.cases) (simp_all add: rawurl_encode_def)

lemma token_Hash_nonempty [simp]: "token_Hash raw \<noteq> []"
  using sha256_nonempty[of raw] by (simp add: token_Hash_def url_encode_def rawurl_encode_Nil)

lemma CreateCertificate_Inr [simp]:
  "CreateCertificate env cert db = Inr db' \<longleftrightarrow> \<not> dx_fails env ''CreateCertificate'' \<and>
     (\<forall>c\<in>set (db_certificates db). crt_Serial c \<noteq> crt_Serial cert) \<and> (\<exists>d\<in>set (db_devices db). dv_ID d = crt_DeviceID cert) \<and>
     (\<exists>o'\<in>set (db_organizations db). og_ID o' = crt_OrgID cert) \<and> db' = db\<lparr>db_certificates := db_certificates db @ [cert]\<rparr>"
  by (auto simp: CreateCertificate_def)

lemma InsertAudit_Inr:
  "InsertAudit env entry db = Inr db' \<Longrightarrow> db' = db\<lparr>db_audit := db_audit db @ [entry]\<rparr>"
  by (auto simp: InsertAudit_def split: if_splits)

lemma audit_and_commit_Inr:
  "audit_and_commit env entry db = Inr db' \<Longrightarrow> db' = db\<lparr>db_audit := db_audit db @ [entry]\<rparr>"
  by (auto simp: audit_and_commit_def dest: InsertAudit_Inr)

lemma authorise_ok:
  "authorise_csr env (trim_space (sq_deviceID r)) (trim_space (sq_enrollToken r)) (trim_space (sq_renewalToken r)) db = Inr db' \<Longrightarrow>
     token_authorises env r db \<and> db' = db\<lparr>db_tokens := spend_token env r (db_tokens db), db_certificates := supersede (trim_space (sq_deviceID r)) (db_certificates db)\<rparr>"
  by (auto simp: authorise_csr_def check_renewal_def consume_enrollment_def GetRenewalTokenHash_def ValidateAndConsumeToken_def SupersedeActiveCerts_def
      token_authorises_def spend_token_def supersede_def Let_def split: sum.splits option.splits if_splits prod.splits)

lemma update_where_twice: "(\<And>r. P r \<Longrightarrow> P (f r)) \<Longrightarrow> update_where P g (update_where P f rows) = update_where P (g \<circ> f) rows"
  by (simp add: update_where_def)

lemma issue_ok:
  assumes "issue_csr lib cfg env device org i isRenewal csrPEM csrDER db = Inr (resp, db')"
  obtains result raw h where "SignCSR lib (dx_now (rx_db env)) (rx_serial env) (bc_signer cfg) csrDER = Some result"
    "token_Generate (rx_token env) = Some (raw, h)"
    "\<forall>c\<in>set (db_certificates db). crt_Serial c \<noteq> sr_Serial result"
    "resp = \<lparr>cp_certificate = sr_CertPEM result, cp_ca_chain = sr_ChainPEM result, cp_not_before = sr_NotBefore result,
       cp_not_after = sr_NotAfter result, cp_serial = sr_Serial result, cp_renewal_token = raw\<rparr>"
    "db' = db\<lparr>db_certificates := db_certificates db @ [certificate_row lib cfg (rx_db env) device org i csrPEM csrDER result],
       db_devices := enrol_device (dx_now (rx_db env)) i h (db_devices db), db_audit := db_audit db @ [issue_audit device i isRenewal result]\<rparr>"
proof -
  have twice: "update_where (\<lambda>d. dv_ID d = i) (\<lambda>d. d\<lparr>dv_RenewalTokenHash := Some h, dv_UpdatedAt := n\<rparr>)
      (update_where (\<lambda>d. dv_ID d = i) (\<lambda>d. d\<lparr>dv_Status := ''active'', dv_EnrolledAt := Some n, dv_UpdatedAt := n\<rparr>) rows) = enrol_device n i h rows" for h n rows
    by (simp add: enrol_device_def update_where_def)
  obtain result where sign: "SignCSR lib (dx_now (rx_db env)) (rx_serial env) (bc_signer cfg) csrDER = Some result"
    using assms by (auto simp: issue_csr_def split: option.splits)
  moreover obtain raw h where gen: "token_Generate (rx_token env) = Some (raw, h)"
    using assms sign by (cases "token_Generate (rx_token env)") (auto simp: issue_csr_def)
  ultimately show thesis
    using assms by (auto simp: issue_csr_def ActivateDevice_def SetRenewalTokenHash_def twice dest!: audit_and_commit_Inr intro!: that)
       (auto simp: certificate_row_def)
qed

text \<open>The request carries a certificate request that names the device and its organisation under an accepted key.\<close>

definition proper_csr :: "x509_lib \<Rightarrow> string \<Rightarrow> string \<Rightarrow> string option \<Rightarrow> bool" where
  "proper_csr lib i name body = (\<exists>pem der csr c k rest. body = Some pem \<and> xl_pem_decode lib pem = Some (''CERTIFICATE REQUEST'', der) \<and>
     xl_parse_csr lib der = Some csr \<and> cr_SignatureOK csr \<and> cr_CommonName csr = i \<and> cr_Organization csr = name # rest \<and>
     cr_PublicKey csr = ECDSAKey c k \<and> c \<noteq> OtherCurve)"

lemma ValidateCSR_ok: "ValidateCSR lib pem i name = Inr der \<Longrightarrow> proper_csr lib i name (Some pem)"
  by (auto simp: ValidateCSR_def proper_csr_def neq_Nil_conv split: option.splits if_splits prod.splits public_key.splits)

text \<open>The control plane, where one is configured, lets organisation and device pass.\<close>

definition control_permits :: "request_env \<Rightarrow> string \<Rightarrow> string \<Rightarrow> control_client option \<Rightarrow> bool" where
  "control_permits env orgID deviceID control =
    (fst (ensureOrganizationAllowed env orgID control) = None \<and>
     fst (ensureDeviceAllowed env deviceID (snd (ensureOrganizationAllowed env orgID control))) = None)"

lemma admit_ok:
  assumes "admit_csr lib env r st = (Inr (device, org, csrPEM, csrDER), control)"
  shows "find (\<lambda>d. dv_ID d = trim_space (sq_deviceID r)) (db_devices (bk_db st)) = Some device"
    "find (\<lambda>o'. og_ID o' = dv_OrgID device) (db_organizations (bk_db st)) = Some org"
    "control_permits env (og_ID org) (dv_ID device) (bk_control st)"
    "proper_csr lib (trim_space (sq_deviceID r)) (og_Name org) (sq_body r)"
    "sq_body r = Some csrPEM" "ValidateCSR lib csrPEM (trim_space (sq_deviceID r)) (og_Name org) = Inr csrDER"
  using assms
  by (auto simp: admit_csr_def Let_def GetDevice_def GetOrganization_def run_statement_def control_permits_def
      split: if_splits sum.splits option.splits prod.splits dest: ValidateCSR_ok)

lemma transaction_ok:
  assumes "csr_transaction lib cfg env r device org csrPEM csrDER db = Inr (resp, db')"
  obtains result raw h where "token_authorises (rx_db env) r db"
    "SignCSR lib (dx_now (rx_db env)) (rx_serial env) (bc_signer cfg) csrDER = Some result"
    "token_Generate (rx_token env) = Some (raw, h)"
    "\<forall>c\<in>set (db_certificates db). crt_Serial c \<noteq> sr_Serial result"
    "resp = \<lparr>cp_certificate = sr_CertPEM result, cp_ca_chain = sr_ChainPEM result, cp_not_before = sr_NotBefore result,
       cp_not_after = sr_NotAfter result, cp_serial = sr_Serial result, cp_renewal_token = raw\<rparr>"
    "db' = db\<lparr>db_tokens := spend_token (rx_db env) r (db_tokens db),
       db_certificates := supersede (trim_space (sq_deviceID r)) (db_certificates db) @
         [certificate_row lib cfg (rx_db env) device org (trim_space (sq_deviceID r)) csrPEM csrDER result],
       db_devices := enrol_device (dx_now (rx_db env)) (trim_space (sq_deviceID r)) h (db_devices db),
       db_audit := db_audit db @ [issue_audit device (trim_space (sq_deviceID r)) (trim_space (sq_renewalToken r) \<noteq> []) result]\<rparr>"
proof -
  obtain db1 where "authorise_csr (rx_db env) (trim_space (sq_deviceID r)) (trim_space (sq_enrollToken r)) (trim_space (sq_renewalToken r)) db = Inr db1"
    and issue: "issue_csr lib cfg env device org (trim_space (sq_deviceID r)) (trim_space (sq_renewalToken r) \<noteq> []) csrPEM csrDER db1 = Inr (resp, db')"
    using assms by (auto simp: csr_transaction_def split: if_splits)
  note auth = authorise_ok[OF this(1)]
  have serials: "crt_Serial ` set (supersede i cs) = crt_Serial ` set cs" for i cs
    unfolding supersede_def update_where_def set_map image_image by (rule image_cong) auto
  show thesis
  proof (rule issue_ok[OF issue])
    fix result raw h
    assume a: "SignCSR lib (dx_now (rx_db env)) (rx_serial env) (bc_signer cfg) csrDER = Some result" "token_Generate (rx_token env) = Some (raw, h)"
      "\<forall>c\<in>set (db_certificates db1). crt_Serial c \<noteq> sr_Serial result"
      "resp = \<lparr>cp_certificate = sr_CertPEM result, cp_ca_chain = sr_ChainPEM result, cp_not_before = sr_NotBefore result,
       cp_not_after = sr_NotAfter result, cp_serial = sr_Serial result, cp_renewal_token = raw\<rparr>"
      "db' = db1\<lparr>db_certificates := db_certificates db1 @ [certificate_row lib cfg (rx_db env) device org (trim_space (sq_deviceID r)) csrPEM csrDER result],
         db_devices := enrol_device (dx_now (rx_db env)) (trim_space (sq_deviceID r)) h (db_devices db1),
         db_audit := db_audit db1 @ [issue_audit device (trim_space (sq_deviceID r)) (trim_space (sq_renewalToken r) \<noteq> []) result]\<rparr>"
    have "sr_Serial result \<notin> crt_Serial ` set (db_certificates db)"
    proof -
      have "sr_Serial result \<notin> crt_Serial ` set (db_certificates db1)" using a(3) by (metis imageE)
      moreover have "db_certificates db1 = supersede (trim_space (sq_deviceID r)) (db_certificates db)" by (simp add: auth)
      ultimately show ?thesis by (simp only: serials not_False_eq_True)
    qed
    then have new: "\<forall>c\<in>set (db_certificates db). crt_Serial c \<noteq> sr_Serial result" by (metis imageI)
    show thesis by (rule that[OF _ a(1,2) new a(4)]) (simp_all add: a(5) auth)
  qed
qed

text \<open>The certificates of a device that are active.\<close>

definition active_of :: "string \<Rightarrow> database \<Rightarrow> certificate list" where
  "active_of i db = filter (\<lambda>c. crt_DeviceID c = i \<and> crt_Status c = ''active'') (db_certificates db)"

lemma supersede_none_active: "filter (\<lambda>c. crt_DeviceID c = i \<and> crt_Status c = ''active'') (supersede i cs) = []"
  by (induction cs) (simp_all add: supersede_def update_where_def)

lemma supersede_others: "filter (\<lambda>c. crt_DeviceID c \<noteq> i) (supersede i cs) = filter (\<lambda>c. crt_DeviceID c \<noteq> i) cs"
  by (induction cs) (simp_all add: supersede_def update_where_def)

lemma enrolled_row:
  "find (\<lambda>d. dv_ID d = i) rows = Some d \<Longrightarrow> find (\<lambda>d. dv_ID d = i) (enrol_device now i h rows) =
     Some (d\<lparr>dv_Status := ''active'', dv_EnrolledAt := Some now, dv_RenewalTokenHash := Some h, dv_UpdatedAt := now\<rparr>)"
  by (induction rows) (auto simp: enrol_device_def update_where_def)

lemma newest_in: "newest cs = Some c \<Longrightarrow> c \<in> set cs"
proof -
  have "fold (\<lambda>c best. case best of None \<Rightarrow> Some c | Some b \<Rightarrow> if crt_CreatedAt b < crt_CreatedAt c then Some c else best) cs x = Some c \<Longrightarrow>
      c \<in> set cs \<or> x = Some c" for x
    by (induction cs arbitrary: x) (fastforce split: option.splits if_splits)+
  from this[of None] show "newest cs = Some c \<Longrightarrow> c \<in> set cs" by (simp add: newest_def)
qed

definition revoke :: "time \<Rightarrow> string \<Rightarrow> certificate \<Rightarrow> certificate" where
  "revoke now reason c = c\<lparr>crt_Status := ''revoked'', crt_RevokedAt := Some now, crt_RevocationReason := Some reason\<rparr>"

lemma revocable_ok:
  "revocable_serial env i named db = Inr serial \<Longrightarrow>
     \<exists>c. find (\<lambda>c. crt_Serial c = serial) (db_certificates db) = Some c \<and> crt_DeviceID c = i \<and> crt_Status c = ''active''"
  by (auto simp: revocable_serial_def GetCertStatus_def cert_status_of_def run_statement_def split: if_splits sum.splits option.splits)

lemma handleRevoke_cases:
  "case handleRevoke env i body db of
     (Refused why, db') \<Rightarrow> db' = db
   | (Answered status serial, db') \<Rightarrow> \<exists>c reason entry. find (\<lambda>c. crt_Serial c = serial) (db_certificates db) = Some c \<and> crt_DeviceID c = i \<and>
       crt_Status c = ''active'' \<and> reason \<in> set valid_reasons \<and>
       db' = db\<lparr>db_certificates := update_where (\<lambda>c. crt_Serial c = serial \<and> crt_Status c = ''active'') (revoke (dx_now env) reason) (db_certificates db),
                db_audit := db_audit db @ [entry]\<rparr>"
proof (cases "handleRevoke env i body db")
  case (Pair a db')
  show ?thesis
  proof (cases a)
    case (Refused why)
    then show ?thesis using Pair
      by (auto simp: handleRevoke_def split: option.splits if_splits sum.splits)
  next
    case (Answered status serial)
    then obtain req device where b: "body = Some req" "rv_Reason req \<in> set valid_reasons" "revocable_serial env i (rv_Serial req) db = Inr serial"
      "and_then (RevokeCertificate env serial (rv_Reason req) db) (audit_and_commit env (revoke_audit device i serial (rv_Reason req))) = Inr db'"
      using Pair by (auto simp: handleRevoke_def split: option.splits if_splits sum.splits)
    have "db' = db\<lparr>db_certificates := update_where (\<lambda>c. crt_Serial c = serial \<and> crt_Status c = ''active'') (revoke (dx_now env) (rv_Reason req)) (db_certificates db),
                db_audit := db_audit db @ [revoke_audit device i serial (rv_Reason req)]\<rparr>"
      using b(4) by (auto simp: RevokeCertificate_def revoke_def[abs_def] dest!: audit_and_commit_Inr)
    then show ?thesis using Pair Answered b(2) revocable_ok[OF b(3)] by auto
  qed
qed

section \<open>Properties\<close>

text \<open>
C3. A device gets a certificate only if it exists, its organisation exists, the control plane (where configured) lets
both pass, the request names the device and its organisation under an ECDSA P-256 or P-384 key and is signed by it,
and the request's renewal token is the stored one or its enrolment token is unused, unexpired and the device's own.
Then the new certificate is the device's only active one, carries the device and organisation of the database, the
certificates of other devices are as they were, and the answer holds the certificate and the new renewal token. In
every other case the database is unchanged, so a refused request uses up no token.
\<close>

theorem certificate_needs_token:
  "case handleSubmitCSR lib cfg env r st of
     (Refused why, st') \<Rightarrow> bk_db st' = bk_db st
   | (Answered status resp, st') \<Rightarrow>
      (let i = trim_space (sq_deviceID r); db = bk_db st; db' = bk_db st' in
       \<exists>device org cert d'. find (\<lambda>d. dv_ID d = i) (db_devices db) = Some device \<and>
         find (\<lambda>o'. og_ID o' = dv_OrgID device) (db_organizations db) = Some org \<and>
         control_permits env (og_ID org) i (bk_control st) \<and> proper_csr lib i (og_Name org) (sq_body r) \<and> token_authorises (rx_db env) r db \<and>
         active_of i db' = [cert] \<and> crt_Serial cert = cp_serial resp \<and> crt_CertPEM cert = cp_certificate resp \<and> crt_SubjectCN cert = i \<and>
         crt_SubjectO cert = og_Name org \<and> crt_OrgID cert = dv_OrgID device \<and>
         (\<forall>c\<in>set (db_certificates db). crt_Serial c \<noteq> crt_Serial cert) \<and>
         filter (\<lambda>c. crt_DeviceID c \<noteq> i) (db_certificates db') = filter (\<lambda>c. crt_DeviceID c \<noteq> i) (db_certificates db) \<and>
         find (\<lambda>d. dv_ID d = i) (db_devices db') = Some d' \<and> dv_Status d' = ''active'' \<and>
         dv_RenewalTokenHash d' = Some (token_Hash (cp_renewal_token resp)))"
proof -
  obtain res control where adm: "admit_csr lib env r st = (res, control)" by (cases "admit_csr lib env r st")
  show ?thesis
  proof (cases res)
    case (Inl a)
    then show ?thesis using adm by (simp add: handleSubmitCSR_def)
  next
    case (Inr x)
    obtain device org csrPEM csrDER where x: "x = (device, org, csrPEM, csrDER)" by (cases x) auto
    note ok = admit_ok[OF adm[unfolded Inr x]]
    show ?thesis
    proof (cases "csr_transaction lib cfg env r device org csrPEM csrDER (bk_db st)")
      case (Inl a)
      then show ?thesis using adm Inr x by (simp add: handleSubmitCSR_def)
    next
      case tx: (Inr y)
      obtain resp db' where y: "y = (resp, db')" by (cases y)
      show ?thesis
      proof (rule transaction_ok[OF tx[unfolded y]])
        fix result raw h
        assume a: "token_authorises (rx_db env) r (bk_db st)" "token_Generate (rx_token env) = Some (raw, h)"
          "\<forall>c\<in>set (db_certificates (bk_db st)). crt_Serial c \<noteq> sr_Serial result"
          "resp = \<lparr>cp_certificate = sr_CertPEM result, cp_ca_chain = sr_ChainPEM result, cp_not_before = sr_NotBefore result,
             cp_not_after = sr_NotAfter result, cp_serial = sr_Serial result, cp_renewal_token = raw\<rparr>"
          "db' = (bk_db st)\<lparr>db_tokens := spend_token (rx_db env) r (db_tokens (bk_db st)),
             db_certificates := supersede (trim_space (sq_deviceID r)) (db_certificates (bk_db st)) @
               [certificate_row lib cfg (rx_db env) device org (trim_space (sq_deviceID r)) csrPEM csrDER result],
             db_devices := enrol_device (dx_now (rx_db env)) (trim_space (sq_deviceID r)) h (db_devices (bk_db st)),
             db_audit := db_audit (bk_db st) @ [issue_audit device (trim_space (sq_deviceID r)) (trim_space (sq_renewalToken r) \<noteq> []) result]\<rparr>"
        have h: "h = token_Hash raw" using a(2) by (auto simp: token_Generate_def)
        have i: "dv_ID device = trim_space (sq_deviceID r)" using ok(1) by (auto simp: find_Some_iff)
        show ?thesis
          using adm Inr x tx y ok(1-4) a(1,3) h i enrolled_row[OF ok(1), of "dx_now (rx_db env)" h]
          by (simp add: handleSubmitCSR_def Let_def a(4,5) active_of_def certificate_row_def supersede_none_active supersede_others)
      qed
    qed
  qed
qed


section \<open>Revocation does not end a device's access\<close>

definition sample_lib :: x509_lib where
  "sample_lib = \<lparr>xl_pem_decode = (\<lambda>s. Some (''CERTIFICATE REQUEST'', s)),
     xl_parse_csr = (\<lambda>s. Some \<lparr>cr_CommonName = ''dev'', cr_Organization = [''Acme''], cr_PublicKey = ECDSAKey P256 ''k'', cr_SignatureOK = True\<rparr>),
     xl_create = (\<lambda>t k. Some ''der''), xl_pem_encode = (\<lambda>t s. s)\<rparr>"

definition sample_config :: backend_config where
  "sample_config = \<lparr>bc_apiKey = ''key'', bc_operatorOrgID = [], bc_operatorMode = ''customer_ops'', bc_tokenTTL = 86400 * second,
     bc_publicBackendURL = ''https://b'', bc_publicGatewayURL = ''https://g'', bc_signer = \<lparr>sg_IssuerCN = ''CA'', sg_CAChainPEM = [], sg_ValidityDays = 90\<rparr>\<rparr>"

definition sample_request_env :: "time \<Rightarrow> nat \<Rightarrow> request_env" where
  "sample_request_env now n = \<lparr>rx_db = \<lparr>dx_now = now, dx_fails = (\<lambda>_. False), dx_uuid = ''id'' @ nat_str n\<rparr>, rx_token = Some [n],
     rx_serial = Some [n], rx_code = Some (nat_str n), rx_org_reply = None, rx_device_reply = None\<rparr>"

definition sample_org :: organization where
  "sample_org = \<lparr>og_ID = ''org'', og_Name = ''Acme'', og_Slug = ''acme'', og_APIKeyHash = [], og_Status = ''active'', og_PublicBackendURL = [],
     og_PublicGatewayURL = [], og_StatusReason = [], og_StatusUpdatedAt = None, og_StatusUpdatedBy = [], og_PromptOverride = [],
     og_CreatedAt = 0, og_UpdatedAt = 0\<rparr>"

definition sample_device :: device_row where
  "sample_device = \<lparr>dv_ID = ''dev'', dv_OrgID = ''org'', dv_DeviceName = ''laptop'', dv_OS = ''darwin'', dv_AgentVersion = ''1.0.0'', dv_Status = ''pending'',
     dv_EnrolledAt = None, dv_RenewalTokenHash = None, dv_CreatedAt = 0, dv_UpdatedAt = 0\<rparr>"

text \<open>A device that was registered and was handed the enrolment token whose bytes are those of the test.\<close>

definition sample_db :: database where
  "sample_db = \<lparr>db_organizations = [sample_org], db_devices = [sample_device],
     db_tokens = [\<lparr>et_DeviceID = ''dev'', et_TokenHash = token_Hash ''tok'', et_Used = False, et_ExpiresAt = 100, et_CreatedAt = 0\<rparr>],
     db_codes = [], db_certificates = [], db_audit = [], db_users = [], db_sessions = []\<rparr>"

definition sample_backend :: backend_state where
  "sample_backend = \<lparr>bk_db = sample_db, bk_control = None\<rparr>"

definition sample_submit_csr :: "string \<Rightarrow> string \<Rightarrow> csr_request" where
  "sample_submit_csr enrol renewal = \<lparr>sq_deviceID = ''dev'', sq_enrollToken = enrol, sq_renewalToken = renewal, sq_body = Some ''csr''\<rparr>"

lemmas handler_evals = handleSubmitCSR_def admit_csr_def csr_transaction_def authorise_csr_def check_renewal_def consume_enrollment_def issue_csr_def
  issue_audit_def certificate_row_def ValidateCSR_def SignCSR_def key_algorithm_def GetDevice_def GetOrganization_def GetRenewalTokenHash_def
  ValidateAndConsumeToken_def SupersedeActiveCerts_def CreateCertificate_def ActivateDevice_def SetRenewalTokenHash_def InsertAudit_def
  audit_and_commit_def run_statement_def and_then_def or_internal_def update_where_def usable_token_def ensureOrganizationAllowed_def
  ensureDeviceAllowed_def actor_types_def token_Generate_def

lemmas sample_evals = sample_lib_def sample_config_def sample_request_env_def sample_org_def sample_device_def sample_db_def sample_backend_def
  sample_submit_csr_def

definition sample_enrolled :: backend_state where
  "sample_enrolled = snd (handleSubmitCSR sample_lib sample_config (sample_request_env 1 1) (sample_submit_csr ''tok'' []) sample_backend)"

lemma sample_trims: "trim_space ''dev'' = ''dev''" "trim_space ''tok'' = ''tok''" "trim_space [] = []"
  by code_simp+

lemma sample_codes: "url_encode [1] = ''AQ==''" "url_encode [2] = ''Ag==''" "trim_space ''AQ=='' = ''AQ==''" "hex_encode [1] = ''01''" "hex_encode [2] = ''02''"
  "url_encode [Suc 0] = ''AQ==''" "hex_encode [Suc 0] = ''01''" "hex_encode [3] = ''03''"
  by code_simp+

definition sample_revocation :: revoke_request where
  "sample_revocation = \<lparr>rv_Reason = ''key_compromise'', rv_Serial = []\<rparr>"

definition sample_revoked :: backend_state where
  "sample_revoked = sample_enrolled\<lparr>bk_db := snd (handleRevoke (rx_db (sample_request_env 2 0)) ''dev'' (Some sample_revocation) (bk_db sample_enrolled))\<rparr>"

lemmas revoke_evals = handleRevoke_def revocable_serial_def GetActiveCertForDevice_def GetCertStatus_def RevokeCertificate_def cert_status_of_def
  newest_def revoke_audit_def valid_reasons_def

lemmas sample_steps = handler_evals sample_evals sample_trims sample_codes

lemma sample_revoked_status: "map crt_Status (db_certificates (bk_db sample_enrolled)) = [''active'']" "map crt_Status (db_certificates (bk_db sample_revoked)) = [''revoked'']"
  unfolding sample_revoked_def sample_enrolled_def sample_revocation_def by (simp_all add: sample_steps revoke_evals)

lemma sample_enrols:
  "\<exists>resp. handleSubmitCSR sample_lib sample_config (sample_request_env 1 1) (sample_submit_csr ''tok'' []) sample_backend = (Answered 200 resp, sample_enrolled)"
  unfolding sample_enrolled_def by (simp add: sample_steps)

theorem certificate_needs_token_witness: "\<exists>cert. active_of ''dev'' (bk_db sample_enrolled) = [cert] \<and> crt_SubjectO cert = ''Acme''"
proof -
  obtain resp where r: "handleSubmitCSR sample_lib sample_config (sample_request_env 1 1) (sample_submit_csr ''tok'' []) sample_backend
      = (Answered 200 resp, sample_enrolled)"
    using sample_enrols by blast
  have i: "trim_space (sq_deviceID (sample_submit_csr ''tok'' [])) = ''dev''" by (simp add: sample_submit_csr_def sample_trims)
  from certificate_needs_token[where lib = sample_lib and cfg = sample_config and env = "sample_request_env 1 1" and r = "sample_submit_csr ''tok'' []"
      and st = sample_backend]
  obtain device org cert where d: "find (\<lambda>d. dv_ID d = ''dev'') (db_devices (bk_db sample_backend)) = Some device"
    "find (\<lambda>o'. og_ID o' = dv_OrgID device) (db_organizations (bk_db sample_backend)) = Some org"
    "active_of ''dev'' (bk_db sample_enrolled) = [cert]" "crt_SubjectO cert = og_Name org"
    unfolding r i Let_def prod.case answer.case by blast
  from d(1,2) have "og_Name org = ''Acme''" by (auto simp: sample_evals split: if_splits)
  then show ?thesis using d(3,4) by simp
qed

text \<open>
A device whose certificate was revoked for a compromised key gets a new one with the renewal token it was handed with
the revoked certificate: neither revocation nor the status of the device is looked at.
\<close>

lemma revoked_device_renews:
  "\<exists>resp. fst (handleSubmitCSR sample_lib sample_config (sample_request_env 3 2) (sample_submit_csr [] ''AQ=='') sample_revoked) = Answered 200 resp"
  unfolding sample_revoked_def sample_enrolled_def sample_revocation_def by (simp add: sample_steps revoke_evals)

text \<open>
Two requests with the same renewal token both succeed when each reads the stored token before the other commits: the
stored token is read outside the transaction.
\<close>

lemma renewal_token_used_twice:
  fixes renew
  defines "renew env db \<equiv> and_then (or_internal (SupersedeActiveCerts (rx_db env) ''dev'' db))
     (issue_csr sample_lib sample_config env sample_device sample_org ''dev'' True ''csr'' ''csr'')"
  shows "\<exists>resp1 db1 resp2 db2. check_renewal (rx_db (sample_request_env 3 2)) ''dev'' ''AQ=='' (bk_db sample_enrolled) = None
     \<and> check_renewal (rx_db (sample_request_env 3 3)) ''dev'' ''AQ=='' (bk_db sample_enrolled) = None
     \<and> renew (sample_request_env 3 2) (bk_db sample_enrolled) = Inr (resp1, db1) \<and> renew (sample_request_env 3 3) db1 = Inr (resp2, db2)"
  unfolding renew_def sample_enrolled_def by (simp add: sample_steps)

end
