(* ===== verification/Backend_Devices.thy ===== *)
theory Backend_Devices
  imports Backend_Enrollment
begin

text \<open>
Registering devices and handing out enrolment tokens (backend/internal/api/device.go, bulk_enroll.go, enroll_link.go),
the operator's controls over an organisation (operator.go), and how the backend's state evolves under all handlers
that touch devices, tokens and certificates.

The user of a request is the one the session check puts into its context. The activation commands and install scripts
of an answer, and the health probes of a deployment package, are left out; the embedded agent configuration is kept.
A handler that recognises an error by its text recognises it here by its kind.
\<close>

section \<open>Creating a device\<close>

definition is_alnum :: "char \<Rightarrow> bool" where
  "is_alnum c = (is_alpha c \<or> is_digit c)"

definition device_name_ok :: "string \<Rightarrow> bool" where
  "device_name_ok s = (case s of [] \<Rightarrow> False | c # cs \<Rightarrow> is_alnum c \<and> length cs \<le> 127 \<and> list_all (\<lambda>c. is_alnum c \<or> c = CHR ''-'') cs)"

datatype creation_error = InvalidDeviceName | InvalidOSType | OrgNotFoundOrInactive | CreationDenied control_error | CreationFailed db_error | NoRandom

definition resolveTokenTTL :: "backend_config \<Rightarrow> int \<Rightarrow> duration" where
  "resolveTokenTTL cfg hours = (if hours \<le> 0 then bc_tokenTTL cfg else (if hours > 168 then 168 else hours) * (3600 * second))"

definition issueEnrollmentTokenWithTTL :: "request_env \<Rightarrow> string \<Rightarrow> duration \<Rightarrow> database \<Rightarrow> creation_error + (string \<times> time) \<times> database" where
  "issueEnrollmentTokenWithTTL env deviceID ttl db =
    (case token_Generate (rx_token env) of
       None \<Rightarrow> Inl NoRandom
     | Some (rawToken, tokenHash) \<Rightarrow>
        (case CreateEnrollmentToken (rx_db env) deviceID tokenHash (dx_now (rx_db env) + ttl) db of
           Inl e \<Rightarrow> Inl (CreationFailed e)
         | Inr db' \<Rightarrow> Inr ((rawToken, dx_now (rx_db env) + ttl), db')))"

definition register_audit :: "string \<Rightarrow> string \<Rightarrow> string \<Rightarrow> device_row \<Rightarrow> time \<Rightarrow> audit_row" where
  "register_audit actorType actorID orgID device expiresAt =
    \<lparr>au_ActorType = actorType, au_ActorID = actorID, au_OrgID = Some orgID, au_Action = ''device.registered'', au_ResourceType = ''device'',
     au_ResourceID = dv_ID device,
     au_Details = [(''device_name'', VString (dv_DeviceName device)), (''os'', VString (dv_OS device)), (''token_expires'', VTime expiresAt)],
     au_IPAddress = None\<rparr>"

text \<open>The device is inserted before its token; when the token cannot be stored the device stays.\<close>

definition create_device_rows :: "request_env \<Rightarrow> organization \<Rightarrow> string \<Rightarrow> string \<Rightarrow> string \<Rightarrow> string \<Rightarrow> string \<Rightarrow> string \<Rightarrow> duration \<Rightarrow> database \<Rightarrow>
    (creation_error + organization \<times> device_row \<times> string \<times> time) \<times> database" where
  "create_device_rows env org orgID name osType agentVersion actorType actorID ttl db =
    (case CreateDevice (rx_db env) orgID name osType agentVersion db of
       Inl e \<Rightarrow> (Inl (CreationFailed e), db)
     | Inr (device, db1) \<Rightarrow>
        (case issueEnrollmentTokenWithTTL env (dv_ID device) ttl db1 of
           Inl e \<Rightarrow> (Inl e, db1)
         | Inr ((rawToken, expiresAt), db2) \<Rightarrow>
            (Inr (org, device, rawToken, expiresAt), audit_outside (rx_db env) (register_audit actorType actorID orgID device expiresAt) db2)))"

definition createDeviceAndEnrollmentTokenWithTTL :: "request_env \<Rightarrow> string \<Rightarrow> string \<Rightarrow> string \<Rightarrow> string \<Rightarrow> string \<Rightarrow> string \<Rightarrow> duration \<Rightarrow> backend_state \<Rightarrow>
    (creation_error + organization \<times> device_row \<times> string \<times> time) \<times> backend_state" where
  "createDeviceAndEnrollmentTokenWithTTL env orgID deviceName osType agentVersion actorType actorID ttl st =
    (let name = trim_space deviceName; version = (if agentVersion = [] then ''1.0.0'' else agentVersion) in
     if \<not> device_name_ok name then (Inl InvalidDeviceName, st)
     else if osType \<notin> set [''darwin'', ''windows'', ''linux''] then (Inl InvalidOSType, st)
     else case GetOrganization (rx_db env) orgID (bk_db st) of
         Inl e \<Rightarrow> (Inl (CreationFailed e), st)
       | Inr None \<Rightarrow> (Inl OrgNotFoundOrInactive, st)
       | Inr (Some org) \<Rightarrow>
          if og_Status org \<noteq> ''active'' then (Inl OrgNotFoundOrInactive, st)
          else (case ensureOrganizationAllowed env orgID (bk_control st) of
              (Some err, control) \<Rightarrow> (Inl (CreationDenied err), st\<lparr>bk_control := control\<rparr>)
            | (None, control) \<Rightarrow>
               (case create_device_rows env org orgID name osType version actorType actorID ttl (bk_db st) of
                  (res, db) \<Rightarrow> (res, st\<lparr>bk_control := control, bk_db := db\<rparr>))))"

fun handleDeviceCreationError :: "creation_error \<Rightarrow> refusal" where
  "handleDeviceCreationError InvalidDeviceName = (400, ''INVALID_REQUEST'')"
| "handleDeviceCreationError InvalidOSType = (400, ''INVALID_REQUEST'')"
| "handleDeviceCreationError OrgNotFoundOrInactive = (404, ''ORG_NOT_FOUND'')"
| "handleDeviceCreationError (CreationFailed DuplicateKey) = (409, ''DEVICE_EXISTS'')"
| "handleDeviceCreationError _ = (500, ''INTERNAL'')"

section \<open>Enrolment packages\<close>

definition buildAgentConfig :: "string \<Rightarrow> string \<Rightarrow> string \<Rightarrow> string \<Rightarrow> string \<Rightarrow> enrollmentAgentConfig" where
  "buildAgentConfig backendURL gatewayURL deviceID orgName token =
    \<lparr>ec_AgentID = deviceID, ec_GatewayURL = gatewayURL, ec_ListenAddr = ''127.0.0.1:8080'', ec_DefaultDecision = ''bypass'',
     ec_TelemetryFlushInterval = ''5s'', ec_PromptCaptureEnabled = True, ec_PromptSemanticsEnabled = True, ec_PromptEnforcementMode = ''enforce'',
     ec_PromptFailClosed = [''browser_chromium'', ''browser_firefox'', ''browser_safari'', ''claude_code'', ''cursor''],
     ec_BackendURL = backendURL, ec_DeviceID = deviceID, ec_EnrollmentToken = token, ec_OrgName = orgName\<rparr>"

definition urlsForOrg :: "backend_config \<Rightarrow> organization \<Rightarrow> string \<times> string" where
  "urlsForOrg cfg org =
    ((if trim_space (og_PublicBackendURL org) \<noteq> [] then trim_space (og_PublicBackendURL org) else bc_publicBackendURL cfg),
     (if trim_space (og_PublicGatewayURL org) \<noteq> [] then trim_space (og_PublicGatewayURL org) else bc_publicGatewayURL cfg))"

definition storeEnrollmentShortCode :: "backend_config \<Rightarrow> request_env \<Rightarrow> string \<Rightarrow> string \<Rightarrow> enrollmentAgentConfig \<Rightarrow> time \<Rightarrow> database \<Rightarrow> string \<times> database" where
  "storeEnrollmentShortCode cfg env deviceID orgID config expiresAt db =
    (case rx_code env of
       None \<Rightarrow> ([], db)
     | Some code \<Rightarrow>
        (case CreateEnrollmentShortCode (rx_db env) code deviceID orgID config expiresAt db of
           Inl _ \<Rightarrow> ([], db)
         | Inr db' \<Rightarrow> (bc_publicBackendURL cfg @ ''/enroll/'' @ code, db')))"

record enrollment_package =
  pk_DeviceID :: string
  pk_DeviceName :: string
  pk_OS :: string
  pk_OrgName :: string
  pk_BackendURL :: string
  pk_GatewayURL :: string
  pk_EnrollmentToken :: string
  pk_EnrollmentURL :: string
  pk_TokenExpiresAt :: time
  pk_AgentConfig :: enrollmentAgentConfig

text \<open>The package of a device and its token, with the short code that serves the configuration.\<close>

definition enrollment_package_for :: "backend_config \<Rightarrow> request_env \<Rightarrow> organization \<Rightarrow> device_row \<Rightarrow> string \<Rightarrow> time \<Rightarrow> database \<Rightarrow> enrollment_package \<times> database" where
  "enrollment_package_for cfg env org device rawToken expiresAt db =
    (let (backendURL, gatewayURL) = urlsForOrg cfg org;
         agentConfig = buildAgentConfig backendURL gatewayURL (dv_ID device) (og_Name org) rawToken;
         (enrollmentURL, db') = storeEnrollmentShortCode cfg env (dv_ID device) (og_ID org) agentConfig expiresAt db
     in (\<lparr>pk_DeviceID = dv_ID device, pk_DeviceName = dv_DeviceName device, pk_OS = dv_OS device, pk_OrgName = og_Name org, pk_BackendURL = backendURL,
          pk_GatewayURL = gatewayURL, pk_EnrollmentToken = rawToken, pk_EnrollmentURL = enrollmentURL, pk_TokenExpiresAt = expiresAt,
          pk_AgentConfig = agentConfig\<rparr>, db'))"

record package_request =
  pq_DeviceName :: string
  pq_OS :: string
  pq_AgentVersion :: string
  pq_TokenTTLHours :: int

record register_request =
  rr_OrgID :: string
  rr_DeviceName :: string
  rr_OS :: string
  rr_AgentVersion :: string

definition handleRegisterDevice :: "backend_config \<Rightarrow> request_env \<Rightarrow> register_request option \<Rightarrow> backend_state \<Rightarrow> (string \<times> string \<times> time) answer \<times> backend_state" where
  "handleRegisterDevice cfg env body st =
    (case body of
       None \<Rightarrow> (Refused (400, ''INVALID_REQUEST''), st)
     | Some req \<Rightarrow>
        if rr_OrgID req = [] then (Refused (400, ''INVALID_REQUEST''), st)
        else (case createDeviceAndEnrollmentTokenWithTTL env (rr_OrgID req) (rr_DeviceName req) (rr_OS req) (rr_AgentVersion req) ''admin'' ''api-key''
               (bc_tokenTTL cfg) st of
            (Inl e, st') \<Rightarrow> (Refused (handleDeviceCreationError e), st')
          | (Inr (org, device, rawToken, expiresAt), st') \<Rightarrow> (Answered 201 (dv_ID device, rawToken, expiresAt), st')))"

definition handleCreateEnrollmentPackage :: "backend_config \<Rightarrow> request_env \<Rightarrow> admin_user option \<Rightarrow> package_request option \<Rightarrow> backend_state \<Rightarrow>
    enrollment_package answer \<times> backend_state" where
  "handleCreateEnrollmentPackage cfg env user body st =
    (case user of
       None \<Rightarrow> (Refused (401, ''UNAUTHORIZED''), st)
     | Some u \<Rightarrow>
        (case body of
           None \<Rightarrow> (Refused (400, ''INVALID_REQUEST''), st)
         | Some req \<Rightarrow>
            (case createDeviceAndEnrollmentTokenWithTTL env (us_OrgID u) (pq_DeviceName req) (pq_OS req) (pq_AgentVersion req) ''admin'' (us_ID u)
                    (resolveTokenTTL cfg (pq_TokenTTLHours req)) st of
               (Inl e, st') \<Rightarrow> (Refused (handleDeviceCreationError e), st')
             | (Inr (org, device, rawToken, expiresAt), st') \<Rightarrow>
                (case enrollment_package_for cfg env org device rawToken expiresAt (bk_db st') of
                   (package, db) \<Rightarrow> (Answered 201 package, st'\<lparr>bk_db := db\<rparr>)))))"

record bulk_device_entry =
  be_DeviceName :: string
  be_OS :: string
  be_AgentVersion :: string

record bulk_request =
  bq_Devices :: "bulk_device_entry list"
  bq_TokenTTLHours :: int

text \<open>Devices that cannot be created are skipped; each has its own random bytes and answers.\<close>

fun bulk_packages :: "backend_config \<Rightarrow> (nat \<Rightarrow> request_env) \<Rightarrow> admin_user \<Rightarrow> duration \<Rightarrow> nat \<Rightarrow> bulk_device_entry list \<Rightarrow> backend_state \<Rightarrow>
    enrollment_package list \<times> backend_state" where
  "bulk_packages cfg env u ttl n [] st = ([], st)"
| "bulk_packages cfg env u ttl n (d # ds) st =
    (case createDeviceAndEnrollmentTokenWithTTL (env n) (us_OrgID u) (be_DeviceName d) (be_OS d) (be_AgentVersion d) ''admin'' (us_ID u) ttl st of
       (Inl e, st') \<Rightarrow> bulk_packages cfg env u ttl (n + 1) ds st'
     | (Inr (org, device, rawToken, expiresAt), st') \<Rightarrow>
        (case enrollment_package_for cfg (env n) org device rawToken expiresAt (bk_db st') of
           (package, db) \<Rightarrow>
             (case bulk_packages cfg env u ttl (n + 1) ds (st'\<lparr>bk_db := db\<rparr>) of (packages, st'') \<Rightarrow> (package # packages, st''))))"

definition handleBulkEnrollmentPackage :: "backend_config \<Rightarrow> (nat \<Rightarrow> request_env) \<Rightarrow> admin_user option \<Rightarrow> bulk_request option \<Rightarrow> backend_state \<Rightarrow>
    enrollment_package list answer \<times> backend_state" where
  "handleBulkEnrollmentPackage cfg env user body st =
    (case user of
       None \<Rightarrow> (Refused (401, ''UNAUTHORIZED''), st)
     | Some u \<Rightarrow>
        (case body of
           None \<Rightarrow> (Refused (400, ''INVALID_REQUEST''), st)
         | Some req \<Rightarrow>
            if bq_Devices req = [] then (Refused (400, ''INVALID_REQUEST''), st)
            else if 50 < length (bq_Devices req) then (Refused (400, ''INVALID_REQUEST''), st)
            else case bulk_packages cfg env u (resolveTokenTTL cfg (bq_TokenTTLHours req)) 0 (bq_Devices req) st of
                (packages, st') \<Rightarrow> (Answered 201 packages, st')))"

definition reissue_audit :: "admin_user \<Rightarrow> device_row \<Rightarrow> string \<Rightarrow> time \<Rightarrow> audit_row" where
  "reissue_audit u device deviceID expiresAt =
    \<lparr>au_ActorType = ''admin'', au_ActorID = us_ID u, au_OrgID = Some (us_OrgID u), au_Action = ''device.enrollment_token.issued'',
     au_ResourceType = ''device'', au_ResourceID = deviceID,
     au_Details = [(''device_name'', VString (dv_DeviceName device)), (''token_expires'', VTime expiresAt), (''token_reissued'', VBool True)],
     au_IPAddress = None\<rparr>"

text \<open>The answer to a reissue has the device, token, link, expiry and configuration of the package.\<close>

definition handleReissueEnrollmentToken :: "backend_config \<Rightarrow> request_env \<Rightarrow> admin_user option \<Rightarrow> string \<Rightarrow> backend_state \<Rightarrow> enrollment_package answer \<times> backend_state" where
  "handleReissueEnrollmentToken cfg env user deviceID st =
    (case user of
       None \<Rightarrow> (Refused (401, ''UNAUTHORIZED''), st)
     | Some u \<Rightarrow>
        (case GetDevice (rx_db env) deviceID (bk_db st) of
           Inl _ \<Rightarrow> (Refused internal_error, st)
         | Inr None \<Rightarrow> (Refused (404, ''DEVICE_NOT_FOUND''), st)
         | Inr (Some device) \<Rightarrow>
            if dv_OrgID device \<noteq> us_OrgID u then (Refused (404, ''DEVICE_NOT_FOUND''), st)
            else (case GetOrganization (rx_db env) (us_OrgID u) (bk_db st) of
                Inl _ \<Rightarrow> (Refused internal_error, st)
              | Inr None \<Rightarrow> (Refused (404, ''ORG_NOT_FOUND''), st)
              | Inr (Some org) \<Rightarrow>
                 (case ensureOrganizationAllowed env (us_OrgID u) (bk_control st) of
                    (Some err, control) \<Rightarrow> (Refused (handleControlPlaneError err), st\<lparr>bk_control := control\<rparr>)
                  | (None, control) \<Rightarrow>
                     (case issueEnrollmentTokenWithTTL env deviceID (bc_tokenTTL cfg) (bk_db st) of
                        Inl _ \<Rightarrow> (Refused internal_error, st\<lparr>bk_control := control\<rparr>)
                      | Inr ((rawToken, expiresAt), db1) \<Rightarrow>
                         (case enrollment_package_for cfg env org device rawToken expiresAt
                                 (audit_outside (rx_db env) (reissue_audit u device deviceID expiresAt) db1) of
                            (package, db2) \<Rightarrow> (Answered 201 package, st\<lparr>bk_control := control, bk_db := db2\<rparr>)))))))"

definition handleEnrollLink :: "db_env \<Rightarrow> string \<Rightarrow> database \<Rightarrow> enrollmentAgentConfig answer" where
  "handleEnrollLink env code db =
    (if code = [] then Refused (410, [])
     else case GetEnrollmentShortCode env code db of
         Inl _ \<Rightarrow> Refused (410, [])
       | Inr None \<Rightarrow> Refused (410, [])
       | Inr (Some sc) \<Rightarrow> Answered 200 (sh_Config sc))"

section \<open>The operator's controls\<close>

datatype url_error = URLRequired | URLAbsolute | URLHTTPOnly

definition validatePublicURL :: "string \<Rightarrow> bool \<Rightarrow> url_error option" where
  "validatePublicURL raw required =
    (if raw = [] then (if required then Some URLRequired else None)
     else case url_parse raw of
         None \<Rightarrow> Some URLAbsolute
       | Some u \<Rightarrow>
          if ur_Scheme u = [] \<or> ur_Host u = [] then Some URLAbsolute
          else if ur_Scheme u \<noteq> ''https'' \<and> ur_Scheme u \<noteq> ''http'' then Some URLHTTPOnly
          else None)"

record provisioning_request =
  pv_PublicBackendURL :: string
  pv_PublicGatewayURL :: string

definition provisioning_audit :: "string \<Rightarrow> string \<Rightarrow> string \<Rightarrow> string \<Rightarrow> audit_row" where
  "provisioning_audit actor orgID backendURL gatewayURL =
    \<lparr>au_ActorType = ''system'', au_ActorID = actor, au_OrgID = Some orgID, au_Action = ''operator.org.provisioning.updated'',
     au_ResourceType = ''organization'', au_ResourceID = orgID,
     au_Details = [(''public_backend_url'', VString backendURL), (''public_gateway_url'', VString gatewayURL)], au_IPAddress = None\<rparr>"

definition handleOperatorUpdateProvisioning :: "db_env \<Rightarrow> string \<Rightarrow> string \<Rightarrow> provisioning_request option \<Rightarrow> database \<Rightarrow> unit answer \<times> database" where
  "handleOperatorUpdateProvisioning env actor rawOrgID body db =
    (let orgID = trim_space rawOrgID in
     case body of
       None \<Rightarrow> (Refused (400, ''INVALID_REQUEST''), db)
     | Some req \<Rightarrow>
        (let backendURL = trim_space (pv_PublicBackendURL req); gatewayURL = trim_space (pv_PublicGatewayURL req) in
         if validatePublicURL backendURL False \<noteq> None then (Refused (400, ''INVALID_BACKEND_URL''), db)
         else if validatePublicURL gatewayURL False \<noteq> None then (Refused (400, ''INVALID_GATEWAY_URL''), db)
         else case UpdateOrganizationProvisioning env orgID backendURL gatewayURL db of
             Inl _ \<Rightarrow> (Refused internal_error, db)
           | Inr db' \<Rightarrow> (Answered 200 (), audit_outside env (provisioning_audit actor orgID backendURL gatewayURL) db')))"

record deployment_request =
  dq_DeviceName :: string
  dq_OS :: string
  dq_AgentVersion :: string
  dq_TokenTTLHours :: int
  dq_PublicBackendURL :: string
  dq_PublicGatewayURL :: string

definition deployment_audit :: "string \<Rightarrow> string \<Rightarrow> device_row \<Rightarrow> string \<Rightarrow> string \<Rightarrow> time \<Rightarrow> audit_row" where
  "deployment_audit actor orgID device backendURL gatewayURL expiresAt =
    \<lparr>au_ActorType = ''system'', au_ActorID = actor, au_OrgID = Some orgID, au_Action = ''operator.deployment_package.created'',
     au_ResourceType = ''device'', au_ResourceID = dv_ID device,
     au_Details = [(''device_name'', VString (dv_DeviceName device)), (''os'', VString (dv_OS device)), (''public_backend_url'', VString backendURL),
                   (''public_gateway_url'', VString gatewayURL), (''token_expires'', VTime expiresAt)], au_IPAddress = None\<rparr>"

definition deploy_device :: "backend_config \<Rightarrow> request_env \<Rightarrow> string \<Rightarrow> string \<Rightarrow> string \<Rightarrow> string \<Rightarrow> string \<Rightarrow> duration \<Rightarrow> backend_state \<Rightarrow>
    enrollment_package answer \<times> backend_state" where
  "deploy_device cfg env actor orgID name osType version ttl st =
    (case createDeviceAndEnrollmentTokenWithTTL env orgID name osType version ''system'' actor ttl st of
       (Inl e, st') \<Rightarrow> (Refused (handleDeviceCreationError e), st')
     | (Inr (org, device, rawToken, expiresAt), st') \<Rightarrow>
        (case enrollment_package_for cfg env org device rawToken expiresAt (bk_db st') of
           (package, db) \<Rightarrow>
             (Answered 201 package,
              st'\<lparr>bk_db := audit_outside (rx_db env) (deployment_audit actor orgID device (pk_BackendURL package) (pk_GatewayURL package) expiresAt) db\<rparr>)))"

text \<open>A device without a name is named after the time, which the caller of the model formats.\<close>

definition handleOperatorCreateDeploymentPackage :: "backend_config \<Rightarrow> request_env \<Rightarrow> (time \<Rightarrow> string) \<Rightarrow> string \<Rightarrow> string \<Rightarrow> deployment_request option \<Rightarrow>
    backend_state \<Rightarrow> enrollment_package answer \<times> backend_state" where
  "handleOperatorCreateDeploymentPackage cfg env stamp actor rawOrgID body st =
    (let orgID = trim_space rawOrgID in
     case body of
       None \<Rightarrow> (Refused (400, ''INVALID_REQUEST''), st)
     | Some req \<Rightarrow>
        (let name = (if trim_space (dq_DeviceName req) = [] then ''deployment-'' @ stamp (dx_now (rx_db env)) else trim_space (dq_DeviceName req));
             osType = (if canon (dq_OS req) = [] then ''windows'' else canon (dq_OS req));
             version = (if trim_space (dq_AgentVersion req) = [] then ''1.0.0'' else trim_space (dq_AgentVersion req));
             backendURL = trim_right (\<lambda>c. c = CHR ''/'') (trim_space (dq_PublicBackendURL req));
             gatewayURL = trim_right (\<lambda>c. c = CHR ''/'') (trim_space (dq_PublicGatewayURL req)) in
         if validatePublicURL backendURL True \<noteq> None then (Refused (400, ''INVALID_BACKEND_URL''), st)
         else if validatePublicURL gatewayURL True \<noteq> None then (Refused (400, ''INVALID_GATEWAY_URL''), st)
         else case UpdateOrganizationProvisioning (rx_db env) orgID backendURL gatewayURL (bk_db st) of
             Inl _ \<Rightarrow> (Refused internal_error, st)
           | Inr db1 \<Rightarrow> deploy_device cfg env actor orgID name osType version (resolveTokenTTL cfg (dq_TokenTTLHours req)) (st\<lparr>bk_db := db1\<rparr>)))"

record status_request =
  st_Status :: string
  st_Reason :: string
  st_RevokeCerts :: bool

record status_counts =
  sn_revoked :: nat
  sn_tokens :: nat
  sn_codes :: nat
  sn_devices :: nat

definition status_audit :: "string \<Rightarrow> string \<Rightarrow> string \<Rightarrow> string \<Rightarrow> status_counts \<Rightarrow> audit_row" where
  "status_audit actor orgID status reason n =
    \<lparr>au_ActorType = ''system'', au_ActorID = actor, au_OrgID = Some orgID, au_Action = ''operator.org.status.updated'',
     au_ResourceType = ''organization'', au_ResourceID = orgID,
     au_Details = [(''status'', VString status), (''reason'', VString reason), (''revoked_certs'', VInt (int (sn_revoked n))),
                   (''expired_tokens'', VInt (int (sn_tokens n))), (''expired_short_codes'', VInt (int (sn_codes n))),
                   (''devices_updated'', VInt (int (sn_devices n)))], au_IPAddress = None\<rparr>"

text \<open>What follows from the new status, inside the transaction that sets it.\<close>

definition status_effects :: "db_env \<Rightarrow> string \<Rightarrow> string \<Rightarrow> bool \<Rightarrow> database \<Rightarrow> db_error + status_counts \<times> database" where
  "status_effects env orgID status revokeCerts db =
    (if status = ''suspended'' then
       and_then (ExpireEnrollmentForOrg env orgID db) (\<lambda>((t, c), db1).
       if revokeCerts then and_then (RevokeActiveCertificatesForOrg env orgID ''admin_action'' db1)
           (\<lambda>(n, db2). Inr (\<lparr>sn_revoked = n, sn_tokens = t, sn_codes = c, sn_devices = 0\<rparr>, db2))
       else Inr (\<lparr>sn_revoked = 0, sn_tokens = t, sn_codes = c, sn_devices = 0\<rparr>, db1))
     else if status = ''offboarded'' then
       and_then (RevokeActiveCertificatesForOrg env orgID ''org_offboarded'' db) (\<lambda>(n, db1).
       and_then (SetOrgDevicesStatus env orgID ''decommissioned'' db1) (\<lambda>(d, db2).
       and_then (ExpireEnrollmentForOrg env orgID db2) (\<lambda>((t, c), db3).
       Inr (\<lparr>sn_revoked = n, sn_tokens = t, sn_codes = c, sn_devices = d\<rparr>, db3))))
     else if revokeCerts then and_then (RevokeActiveCertificatesForOrg env orgID ''admin_action'' db)
         (\<lambda>(n, db1). Inr (\<lparr>sn_revoked = n, sn_tokens = 0, sn_codes = 0, sn_devices = 0\<rparr>, db1))
     else Inr (\<lparr>sn_revoked = 0, sn_tokens = 0, sn_codes = 0, sn_devices = 0\<rparr>, db))"

definition handleOperatorUpdateStatus :: "db_env \<Rightarrow> string \<Rightarrow> string \<Rightarrow> status_request option \<Rightarrow> database \<Rightarrow> status_counts answer \<times> database" where
  "handleOperatorUpdateStatus env actor rawOrgID body db =
    (let orgID = trim_space rawOrgID in
     case body of
       None \<Rightarrow> (Refused (400, ''INVALID_REQUEST''), db)
     | Some req \<Rightarrow>
        (let status = canon (st_Status req); reason = trim_space (st_Reason req) in
         if status \<noteq> ''active'' \<and> status \<noteq> ''suspended'' \<and> status \<noteq> ''offboarded'' then (Refused (400, ''INVALID_STATUS''), db)
         else if status \<noteq> ''active'' \<and> reason = [] then (Refused (400, ''INVALID_REASON''), db)
         else if dx_fails env ''BeginTx'' then (Refused internal_error, db)
         else case and_then (UpdateOrganizationStatus env orgID status reason actor db) (\<lambda>db1.
                   and_then (status_effects env orgID status (st_RevokeCerts req) db1) (\<lambda>(n, db2).
                   and_then (audit_and_commit env (status_audit actor orgID status reason n) db2) (\<lambda>db3. Inr (n, db3)))) of
             Inl _ \<Rightarrow> (Refused internal_error, db)
           | Inr (n, db') \<Rightarrow> (Answered 200 n, db')))"

definition revoke_org_audit :: "string \<Rightarrow> string \<Rightarrow> nat \<Rightarrow> audit_row" where
  "revoke_org_audit actor orgID n =
    \<lparr>au_ActorType = ''system'', au_ActorID = actor, au_OrgID = Some orgID, au_Action = ''operator.org.certs.revoked'', au_ResourceType = ''organization'',
     au_ResourceID = orgID, au_Details = [(''revoked_certs'', VInt (int n))], au_IPAddress = None\<rparr>"

definition handleOperatorRevokeOrgCerts :: "db_env \<Rightarrow> string \<Rightarrow> string \<Rightarrow> database \<Rightarrow> nat answer \<times> database" where
  "handleOperatorRevokeOrgCerts env actor rawOrgID db =
    (let orgID = trim_space rawOrgID in
     if dx_fails env ''BeginTx'' then (Refused internal_error, db)
     else case and_then (RevokeActiveCertificatesForOrg env orgID ''admin_action'' db) (\<lambda>(n, db1).
               and_then (audit_and_commit env (revoke_org_audit actor orgID n) db1) (\<lambda>db2. Inr (n, db2))) of
         Inl _ \<Rightarrow> (Refused internal_error, db)
       | Inr (n, db') \<Rightarrow> (Answered 200 n, db'))"

definition handleEnforcementOrgStatus :: "db_env \<Rightarrow> string \<Rightarrow> database \<Rightarrow> (string \<times> string \<times> string \<times> string) answer" where
  "handleEnforcementOrgStatus env rawOrgID db =
    (case GetOrganization env (trim_space rawOrgID) db of
       Inl _ \<Rightarrow> Refused internal_error
     | Inr None \<Rightarrow> Refused (404, ''ORG_NOT_FOUND'')
     | Inr (Some org) \<Rightarrow> Answered 200 (og_Status org, og_StatusReason org, og_PublicBackendURL org, og_PublicGatewayURL org))"

definition handleEnforcementDeviceStatus :: "db_env \<Rightarrow> string \<Rightarrow> database \<Rightarrow> deviceStatusReply answer" where
  "handleEnforcementDeviceStatus env rawDeviceID db =
    (case GetDevice env (trim_space rawDeviceID) db of
       Inl _ \<Rightarrow> Refused internal_error
     | Inr None \<Rightarrow> Refused (404, ''DEVICE_NOT_FOUND'')
     | Inr (Some device) \<Rightarrow>
        (case GetOrganization env (dv_OrgID device) db of
           Inl _ \<Rightarrow> Refused internal_error
         | Inr None \<Rightarrow> Answered 200 \<lparr>dr_Status = dv_Status device, dr_StatusReason = [], dr_OrganizationStatus = ''unknown''\<rparr>
         | Inr (Some org) \<Rightarrow> Answered 200 \<lparr>dr_Status = dv_Status device, dr_StatusReason = og_StatusReason org, dr_OrganizationStatus = og_Status org\<rparr>))"

section \<open>How the backend evolves\<close>

text \<open>
What no handler undoes: devices keep their organisation, a used token stays used and no token lives longer, and a
certificate that is no longer active is never changed again.
\<close>

definition same_device :: "device_row \<Rightarrow> device_row \<Rightarrow> bool" where
  "same_device d d' = (dv_ID d' = dv_ID d \<and> dv_OrgID d' = dv_OrgID d)"

definition token_ages :: "enrollment_token \<Rightarrow> enrollment_token \<Rightarrow> bool" where
  "token_ages t t' = (et_TokenHash t' = et_TokenHash t \<and> et_DeviceID t' = et_DeviceID t \<and> (et_Used t \<longrightarrow> et_Used t') \<and> et_ExpiresAt t' \<le> et_ExpiresAt t)"

definition cert_ages :: "certificate \<Rightarrow> certificate \<Rightarrow> bool" where
  "cert_ages c c' = (crt_Serial c' = crt_Serial c \<and> crt_DeviceID c' = crt_DeviceID c \<and> crt_OrgID c' = crt_OrgID c \<and> crt_SubjectCN c' = crt_SubjectCN c \<and>
     (crt_Status c = ''active'' \<or> c' = c))"

text \<open>Every row of one table has its successor in the other.\<close>

definition persist :: "('r \<Rightarrow> 'r \<Rightarrow> bool) \<Rightarrow> 'r list \<Rightarrow> 'r list \<Rightarrow> bool" where
  "persist R rows rows' = (\<forall>r\<in>set rows. \<exists>r'\<in>set rows'. R r r')"

definition evolves :: "database \<Rightarrow> database \<Rightarrow> bool" where
  "evolves db db' = (persist same_device (db_devices db) (db_devices db') \<and> persist token_ages (db_tokens db) (db_tokens db') \<and>
     persist cert_ages (db_certificates db) (db_certificates db'))"

text \<open>The keys are unique, every token and certificate belongs to a device, and a device has at most one active certificate.\<close>

definition tokens_owned :: "device_row list \<Rightarrow> enrollment_token list \<Rightarrow> bool" where
  "tokens_owned ds ts = (\<forall>t\<in>set ts. \<exists>d\<in>set ds. dv_ID d = et_DeviceID t)"

definition cert_owned :: "device_row list \<Rightarrow> certificate \<Rightarrow> bool" where
  "cert_owned ds c = (crt_SubjectCN c = crt_DeviceID c \<and> (\<exists>d\<in>set ds. dv_ID d = crt_DeviceID c \<and> dv_OrgID d = crt_OrgID c))"

definition single_active :: "certificate list \<Rightarrow> bool" where
  "single_active cs = (\<forall>i. length (filter (\<lambda>c. crt_DeviceID c = i \<and> crt_Status c = ''active'') cs) \<le> 1)"

definition sound :: "database \<Rightarrow> bool" where
  "sound db = (distinct (map dv_ID (db_devices db)) \<and> distinct (map et_TokenHash (db_tokens db)) \<and> distinct (map crt_Serial (db_certificates db)) \<and>
     tokens_owned (db_devices db) (db_tokens db) \<and> list_all (cert_owned (db_devices db)) (db_certificates db) \<and> single_active (db_certificates db))"

definition keeps :: "database \<Rightarrow> database \<Rightarrow> bool" where
  "keeps db db' = ((sound db \<longrightarrow> sound db') \<and> evolves db db')"

lemma ages_refl [simp]: "same_device d d" "token_ages t t" "cert_ages c c"
  by (simp_all add: same_device_def token_ages_def cert_ages_def)

lemma ages_trans:
  "same_device d d' \<Longrightarrow> same_device d' d'' \<Longrightarrow> same_device d d''"
  "token_ages t t' \<Longrightarrow> token_ages t' t'' \<Longrightarrow> token_ages t t''"
  "cert_ages c c' \<Longrightarrow> cert_ages c' c'' \<Longrightarrow> cert_ages c c''"
  by (auto simp: same_device_def token_ages_def cert_ages_def)

lemma persist_refl: "(\<And>r. R r r) \<Longrightarrow> persist R rows rows"
  by (auto simp: persist_def)

lemma persist_trans: "(\<And>a b c. R a b \<Longrightarrow> R b c \<Longrightarrow> R a c) \<Longrightarrow> persist R x y \<Longrightarrow> persist R y z \<Longrightarrow> persist R x z"
  unfolding persist_def by metis

lemma persist_same [simp]: "persist same_device ds ds" "persist token_ages ts ts" "persist cert_ages cs cs"
  by (simp_all add: persist_refl)

lemma persist_append: "(\<And>r. R r r) \<Longrightarrow> persist R rows (rows @ added)"
  by (auto simp: persist_def)

lemma persist_update: "(\<And>r. R r r) \<Longrightarrow> (\<And>r. P r \<Longrightarrow> R r (f r)) \<Longrightarrow> persist R rows (update_where P f rows)"
proof -
  assume R: "\<And>r. R r r" "\<And>r. P r \<Longrightarrow> R r (f r)"
  have "R r (if P r then f r else r)" for r using R by simp
  moreover have "(if P r then f r else r) \<in> set (update_where P f rows)" if "r \<in> set rows" for r
    using that by (auto simp: update_where_def)
  ultimately show ?thesis unfolding persist_def by metis
qed

lemma persists_trans:
  "persist same_device ds ds' \<Longrightarrow> persist same_device ds' ds'' \<Longrightarrow> persist same_device ds ds''"
  "persist token_ages ts ts' \<Longrightarrow> persist token_ages ts' ts'' \<Longrightarrow> persist token_ages ts ts''"
  "persist cert_ages cs cs' \<Longrightarrow> persist cert_ages cs' cs'' \<Longrightarrow> persist cert_ages cs cs''"
  using ages_trans by (blast intro: persist_trans)+

lemma evolves_trans: "evolves a b \<Longrightarrow> evolves b c \<Longrightarrow> evolves a c"
  unfolding evolves_def by (blast intro: persists_trans)

lemma keeps_refl [simp]: "keeps db db"
  by (simp add: keeps_def evolves_def)

lemma keeps_trans [trans]: "keeps a b \<Longrightarrow> keeps b c \<Longrightarrow> keeps a c"
  unfolding keeps_def using evolves_trans by metis

subsection \<open>Statements\<close>

lemma keeps_elsewhere [simp]:
  "keeps db (db\<lparr>db_organizations := os\<rparr>)" "keeps db (db\<lparr>db_codes := cs\<rparr>)" "keeps db (db\<lparr>db_audit := au\<rparr>)"
  "keeps db (db\<lparr>db_users := us\<rparr>)" "keeps db (db\<lparr>db_sessions := se\<rparr>)"
  by (simp_all add: keeps_def sound_def evolves_def)

lemma owned_persist:
  assumes "persist same_device ds ds'"
  shows "tokens_owned ds ts \<Longrightarrow> tokens_owned ds' ts" "cert_owned ds c \<Longrightarrow> cert_owned ds' c"
  using assms unfolding persist_def same_device_def tokens_owned_def cert_owned_def by metis+

lemma keeps_devices:
  assumes "persist same_device (db_devices db) ds" "distinct (map dv_ID (db_devices db)) \<Longrightarrow> distinct (map dv_ID ds)"
  shows "keeps db (db\<lparr>db_devices := ds\<rparr>)"
  using assms owned_persist[OF assms(1)] by (simp add: keeps_def sound_def evolves_def list_all_iff)

lemma keeps_update_devices:
  assumes "\<And>d. dv_ID (f d) = dv_ID d" "\<And>d. dv_OrgID (f d) = dv_OrgID d"
  shows "keeps db (db\<lparr>db_devices := update_where P f (db_devices db)\<rparr>)"
  using assms by (intro keeps_devices) (simp_all add: map_update_where persist_update same_device_def)

lemma keeps_tokens:
  assumes "persist token_ages (db_tokens db) ts" "distinct (map et_TokenHash (db_tokens db)) \<Longrightarrow> distinct (map et_TokenHash ts)"
    "tokens_owned (db_devices db) (db_tokens db) \<Longrightarrow> tokens_owned (db_devices db) ts"
  shows "keeps db (db\<lparr>db_tokens := ts\<rparr>)"
  using assms by (simp add: keeps_def sound_def evolves_def)

lemma keeps_update_tokens:
  assumes "\<And>t. P t \<Longrightarrow> token_ages t (f t)" "\<And>t. et_TokenHash (f t) = et_TokenHash t" "\<And>t. et_DeviceID (f t) = et_DeviceID t"
  shows "keeps db (db\<lparr>db_tokens := update_where P f (db_tokens db)\<rparr>)"
proof (rule keeps_tokens)
  show "tokens_owned (db_devices db) (db_tokens db) \<Longrightarrow> tokens_owned (db_devices db) (update_where P f (db_tokens db))"
    by (auto simp: tokens_owned_def update_where_def assms(3))
qed (use assms in \<open>simp_all add: map_update_where persist_update\<close>)

lemma filter_update_where: "(\<And>r. P r \<Longrightarrow> \<not> Q (f r)) \<Longrightarrow> length (filter Q (update_where P f rows)) \<le> length (filter Q rows)"
  by (induction rows) (auto simp: update_where_def)

lemma keeps_certs:
  assumes "persist cert_ages (db_certificates db) cs" "distinct (map crt_Serial (db_certificates db)) \<Longrightarrow> distinct (map crt_Serial cs)"
    "list_all (cert_owned (db_devices db)) (db_certificates db) \<Longrightarrow> list_all (cert_owned (db_devices db)) cs"
    "single_active (db_certificates db) \<Longrightarrow> single_active cs"
  shows "keeps db (db\<lparr>db_certificates := cs\<rparr>)"
  using assms by (simp add: keeps_def sound_def evolves_def)

lemma single_active_update:
  assumes "\<And>c. P c \<Longrightarrow> crt_Status (f c) \<noteq> ''active''" "single_active cs"
  shows "single_active (update_where P f cs)"
  unfolding single_active_def
proof
  fix i
  have "length (filter (\<lambda>c. crt_DeviceID c = i \<and> crt_Status c = ''active'') (update_where P f cs)) \<le>
      length (filter (\<lambda>c. crt_DeviceID c = i \<and> crt_Status c = ''active'') cs)"
    by (rule filter_update_where) (use assms(1) in blast)
  also have "\<dots> \<le> 1" using assms(2) by (simp add: single_active_def)
  finally show "length (filter (\<lambda>c. crt_DeviceID c = i \<and> crt_Status c = ''active'') (update_where P f cs)) \<le> 1" .
qed

lemma keeps_update_certs:
  assumes "\<And>c. P c \<Longrightarrow> cert_ages c (f c)" "\<And>c. crt_Serial (f c) = crt_Serial c" "\<And>c. P c \<Longrightarrow> crt_Status (f c) \<noteq> ''active''"
  shows "keeps db (db\<lparr>db_certificates := update_where P f (db_certificates db)\<rparr>)"
proof (rule keeps_certs)
  have "cert_owned ds (if P c then f c else c)" if "cert_owned ds c" for ds c
    using that assms(1)[of c] by (auto simp: cert_ages_def cert_owned_def)
  then show "list_all (cert_owned (db_devices db)) (db_certificates db) \<Longrightarrow> list_all (cert_owned (db_devices db)) (update_where P f (db_certificates db))"
    unfolding update_where_def list_all_iff set_map by blast
qed (use assms in \<open>simp_all add: map_update_where persist_update single_active_update\<close>)

lemma revoke_ages: "crt_Status c = ''active'' \<Longrightarrow> cert_ages c (revoke now reason c)" "crt_Serial (revoke now reason c) = crt_Serial c"
  "crt_Status (revoke now reason c) \<noteq> ''active''"
  by (simp_all add: cert_ages_def revoke_def)

lemma keeps_revoke:
  "keeps db (db\<lparr>db_certificates := update_where (\<lambda>c. Q c \<and> crt_Status c = ''active'') (revoke now reason) (db_certificates db)\<rparr>)"
  by (rule keeps_update_certs) (simp_all add: revoke_ages)

lemma supersede_ages: "crt_Status c = ''active'' \<Longrightarrow> cert_ages c (c\<lparr>crt_Status := ''superseded''\<rparr>)"
  by (simp add: cert_ages_def)

lemma keeps_add_device:
  "CreateDevice env orgID name os version db = Inr (row, db') \<Longrightarrow> keeps db db' \<and> row \<in> set (db_devices db')"
proof -
  assume a: "CreateDevice env orgID name os version db = Inr (row, db')"
  then have d: "db' = db\<lparr>db_devices := db_devices db @ [row]\<rparr>" and new: "dv_ID row \<notin> dv_ID ` set (db_devices db)"
    by (auto simp: CreateDevice_def Let_def split: if_splits)
  have "keeps db (db\<lparr>db_devices := db_devices db @ [row]\<rparr>)"
    by (rule keeps_devices) (use new in \<open>simp_all add: persist_append\<close>)
  then show ?thesis by (simp add: d)
qed

lemma keeps_add_token: "CreateEnrollmentToken env i h expires db = Inr db' \<Longrightarrow> keeps db db'"
proof -
  assume a: "CreateEnrollmentToken env i h expires db = Inr db'"
  define t where "t = \<lparr>et_DeviceID = i, et_TokenHash = h, et_Used = False, et_ExpiresAt = expires, et_CreatedAt = dx_now env\<rparr>"
  from a have d: "db' = db\<lparr>db_tokens := db_tokens db @ [t]\<rparr>" and new: "h \<notin> et_TokenHash ` set (db_tokens db)" "\<exists>d\<in>set (db_devices db). dv_ID d = i"
    by (auto simp: CreateEnrollmentToken_def t_def split: if_splits)
  have "keeps db (db\<lparr>db_tokens := db_tokens db @ [t]\<rparr>)"
    by (rule keeps_tokens) (use new in \<open>auto simp: persist_append tokens_owned_def t_def\<close>)
  then show ?thesis by (simp add: d)
qed

lemma keeps_statements:
  "CreateEnrollmentShortCode env code i o' config expires db = Inr db' \<Longrightarrow> keeps db db'"
  "UpdateOrganizationProvisioning env o' b g db = Inr db' \<Longrightarrow> keeps db db'"
  "UpdateOrganizationStatus env o' status reason actor db = Inr db' \<Longrightarrow> keeps db db'"
  "audit_and_commit env entry db = Inr db' \<Longrightarrow> keeps db db'"
  "keeps db (audit_outside env entry db)"
  by (auto simp: CreateEnrollmentShortCode_def UpdateOrganizationProvisioning_def UpdateOrganizationStatus_def audit_outside_def
      dest!: audit_and_commit_Inr InsertAudit_Inr split: if_splits sum.splits)

lemma keeps_set_status: "SetOrgDevicesStatus env o' status db = Inr (n, db') \<Longrightarrow> keeps db db'"
  by (auto simp: SetOrgDevicesStatus_def intro!: keeps_update_devices)

lemma keeps_revoke_org: "RevokeActiveCertificatesForOrg env o' reason db = Inr (n, db') \<Longrightarrow> keeps db db'"
  using keeps_revoke[of db "\<lambda>c. crt_OrgID c = o'" "dx_now env" reason] by (auto simp: RevokeActiveCertificatesForOrg_def revoke_def[abs_def])

lemma keeps_expire: "ExpireEnrollmentForOrg env o' db = Inr (n, db') \<Longrightarrow> keeps db db'"
proof -
  assume a: "ExpireEnrollmentForOrg env o' db = Inr (n, db')"
  have "keeps db (db\<lparr>db_tokens := update_where (expiring_token env o' db) (\<lambda>t. t\<lparr>et_ExpiresAt := dx_now env\<rparr>) (db_tokens db)\<rparr>)"
    by (rule keeps_update_tokens) (auto simp: token_ages_def expiring_token_def)
  then show ?thesis using a keeps_trans[OF _ keeps_elsewhere(2)] by (auto simp: ExpireEnrollmentForOrg_def Let_def split: if_splits)
qed

subsection \<open>Handlers\<close>

lemma spend_ages: "keeps db (db\<lparr>db_tokens := spend_token env r (db_tokens db)\<rparr>)"
proof (cases "trim_space (sq_renewalToken r) = []")
  case True
  then show ?thesis by (simp add: spend_token_def) (rule keeps_update_tokens; simp add: token_ages_def)
next
  case False
  then show ?thesis by (simp add: spend_token_def)
qed

lemma single_active_issue:
  assumes "single_active cs" "crt_DeviceID cert = i"
  shows "single_active (supersede i cs @ [cert])"
  unfolding single_active_def
proof
  fix j
  have "single_active (supersede i cs)" unfolding supersede_def using assms(1) by (rule single_active_update[rotated]) simp
  then show "length (filter (\<lambda>c. crt_DeviceID c = j \<and> crt_Status c = ''active'') (supersede i cs @ [cert])) \<le> 1"
    using assms(2) supersede_none_active[of i cs] by (cases "j = i") (simp_all add: single_active_def)
qed

lemma keeps_issue:
  assumes "crt_DeviceID cert = i" "crt_SubjectCN cert = i" "d \<in> set (db_devices db)" "dv_ID d = i" "dv_OrgID d = crt_OrgID cert"
    "\<forall>c\<in>set (db_certificates db). crt_Serial c \<noteq> crt_Serial cert"
  shows "keeps db (db\<lparr>db_certificates := supersede i (db_certificates db) @ [cert]\<rparr>)"
proof (rule keeps_certs)
  have serials: "map crt_Serial (supersede i cs) = map crt_Serial cs" for cs
    by (simp add: supersede_def map_update_where)
  then have sset: "crt_Serial ` set (supersede i cs) = crt_Serial ` set cs" for cs by (metis set_map)
  show "distinct (map crt_Serial (db_certificates db)) \<Longrightarrow> distinct (map crt_Serial (supersede i (db_certificates db) @ [cert]))"
    using assms(6) by (simp add: serials sset) (metis imageE)
  have "persist cert_ages (db_certificates db) (supersede i (db_certificates db))"
    unfolding supersede_def by (rule persist_update) (simp_all add: supersede_ages)
  then show "persist cert_ages (db_certificates db) (supersede i (db_certificates db) @ [cert])"
    by (rule persists_trans(3)) (simp add: persist_append)
  have "cert_owned ds (c\<lparr>crt_Status := s\<rparr>) = cert_owned ds c" for ds c s by (simp add: cert_owned_def)
  then have "list_all (cert_owned ds) (supersede i cs) = list_all (cert_owned ds) cs" for ds cs
    by (induction cs) (simp_all add: supersede_def update_where_def)
  then show "list_all (cert_owned (db_devices db)) (db_certificates db) \<Longrightarrow>
      list_all (cert_owned (db_devices db)) (supersede i (db_certificates db) @ [cert])"
    using assms(1-5) by (auto simp: cert_owned_def)
qed (use assms(1) single_active_issue in auto)

lemma keeps_submit: "keeps (bk_db st) (bk_db (snd (handleSubmitCSR lib cfg env r st)))"
proof (cases "admit_csr lib env r st")
  case (Pair res control)
  show ?thesis
  proof (cases res)
    case (Inl a)
    then show ?thesis using Pair by (simp add: handleSubmitCSR_def)
  next
    case (Inr x)
    obtain device org csrPEM csrDER where x: "x = (device, org, csrPEM, csrDER)" by (cases x) auto
    note ok = admit_ok[OF Pair[unfolded Inr x]]
    show ?thesis
    proof (cases "csr_transaction lib cfg env r device org csrPEM csrDER (bk_db st)")
      case (Inl a)
      then show ?thesis using Pair Inr x by (simp add: handleSubmitCSR_def)
    next
      case tx: (Inr y)
      obtain resp db' where y: "y = (resp, db')" by (cases y)
      let ?i = "trim_space (sq_deviceID r)" and ?db = "bk_db st"
      have "keeps ?db db'"
      proof (rule transaction_ok[OF tx[unfolded y]])
        fix result raw h
        let ?cert = "certificate_row lib cfg (rx_db env) device org ?i csrPEM csrDER result"
        assume new: "\<forall>c\<in>set (db_certificates ?db). crt_Serial c \<noteq> sr_Serial result"
          and db': "db' = ?db\<lparr>db_tokens := spend_token (rx_db env) r (db_tokens ?db),
             db_certificates := supersede ?i (db_certificates ?db) @ [?cert],
             db_devices := enrol_device (dx_now (rx_db env)) ?i h (db_devices ?db),
             db_audit := db_audit ?db @ [issue_audit device ?i (trim_space (sq_renewalToken r) \<noteq> []) result]\<rparr>"
        have dev: "device \<in> set (db_devices ?db)" "dv_ID device = ?i" using ok(1) by (auto simp: find_Some_iff)
        have c: "keeps ?db (?db\<lparr>db_certificates := supersede ?i (db_certificates ?db) @ [?cert]\<rparr>)"
          by (rule keeps_issue) (use dev new in \<open>auto simp: certificate_row_def\<close>)
        have t: "keeps db (db\<lparr>db_tokens := spend_token (rx_db env) r (db_tokens db)\<rparr>)"
          and d: "keeps db (db\<lparr>db_devices := enrol_device (dx_now (rx_db env)) ?i h (db_devices db)\<rparr>)" for db
          by (rule spend_ages, unfold enrol_device_def, rule keeps_update_devices) simp_all
        have "db' = ?db\<lparr>db_certificates := supersede ?i (db_certificates ?db) @ [?cert], db_tokens := spend_token (rx_db env) r (db_tokens ?db),
             db_devices := enrol_device (dx_now (rx_db env)) ?i h (db_devices ?db), db_audit := db_audit db'\<rparr>"
          by (cases "?db") (simp add: db')
        with keeps_trans[OF keeps_trans[OF keeps_trans[OF c t] d] keeps_elsewhere(3)[of _ "db_audit db'"]] show ?thesis by simp
      qed
      then show ?thesis using Pair Inr x tx y by (simp add: handleSubmitCSR_def)
    qed
  qed
qed

lemma keeps_handleRevoke: "keeps db (snd (handleRevoke env i body db))"
proof (cases "handleRevoke env i body db")
  case (Pair a db')
  show ?thesis
  proof (cases a)
    case (Refused why)
    then show ?thesis using Pair handleRevoke_cases[where env=env and i=i and body=body and db=db] by simp
  next
    case (Answered status serial)
    then obtain reason entry where db': "db' = db\<lparr>db_certificates := update_where (\<lambda>c. crt_Serial c = serial \<and> crt_Status c = ''active'')
        (revoke (dx_now env) reason) (db_certificates db), db_audit := db_audit db @ [entry]\<rparr>"
      using Pair handleRevoke_cases[where env=env and i=i and body=body and db=db] by auto
    show ?thesis
      using keeps_trans[OF keeps_revoke[of db "\<lambda>c. crt_Serial c = serial" "dx_now env" reason] keeps_elsewhere(3)] Pair by (simp add: db')
  qed
qed

lemma keeps_issue_token: "issueEnrollmentTokenWithTTL env i ttl db = Inr (x, db') \<Longrightarrow> keeps db db'"
  by (auto simp: issueEnrollmentTokenWithTTL_def dest: keeps_add_token split: option.splits prod.splits sum.splits)

lemma keeps_create_rows: "keeps db (snd (create_device_rows env org o' name os v actor who ttl db))"
proof (cases "CreateDevice (rx_db env) o' name os v db")
  case (Inl e)
  then show ?thesis by (simp add: create_device_rows_def)
next
  case (Inr x)
  obtain device db1 where x: "x = (device, db1)" by (cases x)
  have k1: "keeps db db1" using keeps_add_device[OF Inr[unfolded x]] by simp
  show ?thesis
  proof (cases "issueEnrollmentTokenWithTTL env (dv_ID device) ttl db1")
    case (Inl e)
    then show ?thesis using k1 Inr x by (simp add: create_device_rows_def)
  next
    case t: (Inr y)
    obtain raw expires db2 where y: "y = ((raw, expires), db2)" by (metis surj_pair)
    show ?thesis
      using keeps_trans[OF keeps_trans[OF k1 keeps_issue_token[OF t[unfolded y]]] keeps_statements(5)] Inr x t y by (simp add: create_device_rows_def)
  qed
qed

lemma keeps_create: "keeps (bk_db st) (bk_db (snd (createDeviceAndEnrollmentTokenWithTTL env o' name os v actor who ttl st)))"
  using keeps_create_rows by (auto simp: createDeviceAndEnrollmentTokenWithTTL_def Let_def split: if_splits sum.splits option.splits prod.splits; metis snd_conv)

lemma keeps_package: "keeps db (snd (enrollment_package_for cfg env org device raw expires db))"
  using keeps_statements(1) by (auto simp: enrollment_package_for_def storeEnrollmentShortCode_def Let_def split: option.splits sum.splits prod.splits)

lemma keeps_bulk: "keeps (bk_db st) (bk_db (snd (bulk_packages cfg env u ttl n ds st)))"
proof (induction ds arbitrary: n st)
  case (Cons d ds)
  obtain res st' where c: "createDeviceAndEnrollmentTokenWithTTL (env n) (us_OrgID u) (be_DeviceName d) (be_OS d) (be_AgentVersion d) ''admin'' (us_ID u) ttl st = (res, st')"
    by (metis surj_pair)
  have k: "keeps (bk_db st) (bk_db st')" using keeps_create[of st "env n" "us_OrgID u" "be_DeviceName d" "be_OS d" "be_AgentVersion d" "''admin''" "us_ID u" ttl] c by simp
  show ?case
  proof (cases res)
    case (Inl e)
    then show ?thesis using c k Cons.IH[of st' "n + 1"] by (simp add: keeps_trans)
  next
    case (Inr x)
    obtain org device raw expires where x: "x = (org, device, raw, expires)" by (metis surj_pair)
    obtain package db where p: "enrollment_package_for cfg (env n) org device raw expires (bk_db st') = (package, db)" by (metis surj_pair)
    have "keeps (bk_db st') db" using keeps_package[of "bk_db st'" cfg "env n" org device raw expires] p by simp
    from keeps_trans[OF k this] have "keeps (bk_db st) (bk_db (snd (bulk_packages cfg env u ttl (n + 1) ds (st'\<lparr>bk_db := db\<rparr>))))"
      using Cons.IH[of "st'\<lparr>bk_db := db\<rparr>" "n + 1"] keeps_trans by simp
    then show ?thesis using c Inr x p by (simp add: case_prod_beta)
  qed
qed simp

lemma keeps_created:
  "createDeviceAndEnrollmentTokenWithTTL env o' name os v actor who ttl st = (res, st') \<Longrightarrow> keeps (bk_db st) (bk_db st')"
  using keeps_create[of st env o' name os v actor who ttl] by simp

lemma keeps_packaged: "enrollment_package_for cfg env org device raw expires db = (package, db') \<Longrightarrow> keeps db db'"
  using keeps_package[of db cfg env org device raw expires] by simp

lemma keeps_register: "keeps (bk_db st) (bk_db (snd (handleRegisterDevice cfg env body st)))"
  by (auto simp: handleRegisterDevice_def split: option.splits sum.splits prod.splits dest!: keeps_created)

lemma keeps_package_handler: "keeps (bk_db st) (bk_db (snd (handleCreateEnrollmentPackage cfg env user body st)))"
  by (auto simp: handleCreateEnrollmentPackage_def split: option.splits sum.splits prod.splits dest!: keeps_created keeps_packaged intro: keeps_trans)

lemma keeps_bulk_handler: "keeps (bk_db st) (bk_db (snd (handleBulkEnrollmentPackage cfg envs user bulk st)))"
  using keeps_bulk by (auto simp: handleBulkEnrollmentPackage_def split: option.splits prod.splits; metis snd_conv)

lemma keeps_reissue: "keeps (bk_db st) (bk_db (snd (handleReissueEnrollmentToken cfg env user i st)))"
  by (auto simp: handleReissueEnrollmentToken_def split: option.splits sum.splits prod.splits
      dest!: keeps_issue_token keeps_packaged intro: keeps_trans keeps_trans[OF keeps_statements(5)])

lemma keeps_status_effects: "status_effects env o' status rv db = Inr (n, db') \<Longrightarrow> keeps db db'"
  by (auto simp: status_effects_def split: if_splits prod.splits dest!: keeps_expire keeps_revoke_org keeps_set_status intro: keeps_trans)

lemma keeps_update_status: "keeps db (snd (handleOperatorUpdateStatus env actor o' body db))"
  by (auto simp: handleOperatorUpdateStatus_def Let_def split: option.splits sum.splits prod.splits
      dest!: keeps_statements(3,4) keeps_status_effects intro: keeps_trans)

lemma keeps_revoke_org_handler: "keeps db (snd (handleOperatorRevokeOrgCerts env actor o' db))"
  by (auto simp: handleOperatorRevokeOrgCerts_def Let_def split: sum.splits prod.splits
      dest!: keeps_statements(4) keeps_revoke_org intro: keeps_trans)

lemma keeps_provisioning: "keeps db (snd (handleOperatorUpdateProvisioning env actor o' body db))"
  by (auto simp: handleOperatorUpdateProvisioning_def Let_def split: option.splits sum.splits
      dest!: keeps_statements(2) intro: keeps_trans keeps_statements(5))

lemma keeps_deploy_device: "keeps (bk_db st) (bk_db (snd (deploy_device cfg env actor o' name os v ttl st)))"
proof (cases "createDeviceAndEnrollmentTokenWithTTL env o' name os v ''system'' actor ttl st")
  case (Pair res st')
  note k = keeps_created[OF Pair]
  show ?thesis
  proof (cases res)
    case (Inl e)
    then show ?thesis using k Pair by (simp add: deploy_device_def)
  next
    case (Inr x)
    obtain org device raw expires where x: "x = (org, device, raw, expires)" by (metis surj_pair)
    obtain package db where p: "enrollment_package_for cfg env org device raw expires (bk_db st') = (package, db)" by (metis surj_pair)
    note keeps_trans[OF keeps_trans[OF k keeps_packaged[OF p]] keeps_statements(5)]
    then show ?thesis using Pair Inr x p by (simp add: deploy_device_def)
  qed
qed

lemma keeps_deployment: "keeps (bk_db st) (bk_db (snd (handleOperatorCreateDeploymentPackage cfg env stamp actor o' body st)))"
proof -
  have "keeps (bk_db st) (bk_db (snd (deploy_device cfg env actor i name os v ttl (st\<lparr>bk_db := db1\<rparr>))))"
    if "UpdateOrganizationProvisioning (rx_db env) i b g (bk_db st) = Inr db1" for i name os v ttl b g db1
    using keeps_trans[OF keeps_statements(2)[OF that]] keeps_deploy_device[of "st\<lparr>bk_db := db1\<rparr>"] by simp
  then show ?thesis by (simp add: handleOperatorCreateDeploymentPackage_def Let_def split: option.splits sum.splits)
qed

section \<open>Histories\<close>

text \<open>One request to any handler that touches devices, tokens or certificates, in any environment.\<close>

inductive backend_step :: "x509_lib \<Rightarrow> backend_config \<Rightarrow> backend_state \<Rightarrow> backend_state \<Rightarrow> bool" for lib cfg where
  submit: "backend_step lib cfg st (snd (handleSubmitCSR lib cfg env r st))"
| revoke_one: "backend_step lib cfg st (st\<lparr>bk_db := snd (handleRevoke denv i body (bk_db st))\<rparr>)"
| register: "backend_step lib cfg st (snd (handleRegisterDevice cfg env reg st))"
| package: "backend_step lib cfg st (snd (handleCreateEnrollmentPackage cfg env user pkg st))"
| bulk: "backend_step lib cfg st (snd (handleBulkEnrollmentPackage cfg envs user bulk st))"
| reissue: "backend_step lib cfg st (snd (handleReissueEnrollmentToken cfg env user i st))"
| deploy: "backend_step lib cfg st (snd (handleOperatorCreateDeploymentPackage cfg env stamp actor o' dep st))"
| set_status: "backend_step lib cfg st (st\<lparr>bk_db := snd (handleOperatorUpdateStatus denv actor o' status (bk_db st))\<rparr>)"
| revoke_org: "backend_step lib cfg st (st\<lparr>bk_db := snd (handleOperatorRevokeOrgCerts denv actor o' (bk_db st))\<rparr>)"
| provision: "backend_step lib cfg st (st\<lparr>bk_db := snd (handleOperatorUpdateProvisioning denv actor o' prov (bk_db st))\<rparr>)"

text \<open>
A system whose steps keep an invariant and only move forward in a preorder: what a run reaches satisfies the invariant
and lies ahead of where it started.
\<close>

locale advancing =
  fixes step :: "'s \<Rightarrow> 's \<Rightarrow> bool" and inv :: "'s \<Rightarrow> bool" and ahead :: "'s \<Rightarrow> 's \<Rightarrow> bool"
  assumes ahead_refl: "ahead s s"
    and ahead_trans: "ahead s s' \<Longrightarrow> ahead s' s'' \<Longrightarrow> ahead s s''"
    and step_inv: "step s s' \<Longrightarrow> inv s \<Longrightarrow> inv s'"
    and step_ahead: "step s s' \<Longrightarrow> ahead s s'"
begin

lemma run_inv: "step\<^sup>*\<^sup>* s s' \<Longrightarrow> inv s \<Longrightarrow> inv s'"
  by (induction rule: rtranclp_induct) (auto intro: step_inv)

lemma run_ahead: "step\<^sup>*\<^sup>* s s' \<Longrightarrow> ahead s s'"
  by (induction rule: rtranclp_induct) (auto intro: ahead_refl ahead_trans step_ahead)

end

lemma step_keeps: "backend_step lib cfg st st' \<Longrightarrow> keeps (bk_db st) (bk_db st')"
  by (induction rule: backend_step.induct)
    (simp_all add: keeps_submit keeps_handleRevoke keeps_register keeps_package_handler keeps_bulk_handler keeps_reissue keeps_deployment
      keeps_update_status keeps_revoke_org_handler keeps_provisioning)

interpretation backend: advancing "backend_step lib cfg" "\<lambda>st. sound (bk_db st)" "\<lambda>st st'. evolves (bk_db st) (bk_db st')" for lib cfg
proof unfold_locales
  show "evolves (bk_db s) (bk_db s)" for s :: backend_state by (simp add: evolves_def)
  show "evolves (bk_db s) (bk_db s') \<Longrightarrow> evolves (bk_db s') (bk_db s'') \<Longrightarrow> evolves (bk_db s) (bk_db s'')" for s s' s'' :: backend_state
    by (rule evolves_trans)
qed (simp_all add: step_keeps[unfolded keeps_def])

lemma sound_find_cert: "sound db \<Longrightarrow> c \<in> set (db_certificates db) \<Longrightarrow> find (\<lambda>x. crt_Serial x = crt_Serial c) (db_certificates db) = Some c"
proof -
  have "find (\<lambda>x. crt_Serial x = crt_Serial c) cs = Some c" if "distinct (map crt_Serial cs)" "c \<in> set cs" for cs
    using that by (induction cs) (auto simp: image_iff)
  then show "sound db \<Longrightarrow> c \<in> set (db_certificates db) \<Longrightarrow> ?thesis" by (simp add: sound_def)
qed

lemma used_token_useless:
  assumes "distinct (map et_TokenHash ts)" "t \<in> set ts" "et_TokenHash t = h" "et_Used t"
  shows "find (usable_token env h) ts = None"
  using assms by (induction ts) (auto simp: usable_token_def find_None_iff image_iff)

text \<open>A request that is answered was authorised, and leaves the enrolment token it came with used.\<close>

lemma answered_authorised:
  assumes "handleSubmitCSR lib cfg env r st = (Answered status resp, st')"
  shows "token_authorises (rx_db env) r (bk_db st)" "db_tokens (bk_db st') = spend_token (rx_db env) r (db_tokens (bk_db st))"
proof -
  obtain device org csrPEM csrDER control where "admit_csr lib env r st = (Inr (device, org, csrPEM, csrDER), control)"
    and tx: "csr_transaction lib cfg env r device org csrPEM csrDER (bk_db st) = Inr (resp, bk_db st')"
    using assms by (auto simp: handleSubmitCSR_def split: prod.splits sum.splits)
  show "token_authorises (rx_db env) r (bk_db st)" by (rule transaction_ok[OF tx])
  show "db_tokens (bk_db st') = spend_token (rx_db env) r (db_tokens (bk_db st))" by (rule transaction_ok[OF tx]) simp
qed

lemma answered_spends:
  assumes "handleSubmitCSR lib cfg env r st = (Answered status resp, st')" "trim_space (sq_renewalToken r) = []"
  shows "\<exists>t\<in>set (db_tokens (bk_db st')). et_TokenHash t = token_Hash (trim_space (sq_enrollToken r)) \<and> et_Used t"
proof -
  let ?h = "token_Hash (trim_space (sq_enrollToken r))"
  obtain t where "find (usable_token (rx_db env) ?h) (db_tokens (bk_db st)) = Some t"
    using answered_authorised(1)[OF assms(1)] assms(2) by (auto simp: token_authorises_def Let_def)
  then have t: "t \<in> set (db_tokens (bk_db st))" "usable_token (rx_db env) ?h t" by (auto simp: find_Some_iff)
  have "t\<lparr>et_Used := True\<rparr> \<in> set (db_tokens (bk_db st'))"
    using t assms(2) by (auto simp: answered_authorised(2)[OF assms(1)] spend_token_def update_where_def)
  moreover have "et_TokenHash (t\<lparr>et_Used := True\<rparr>) = ?h" using t(2) by (simp add: usable_token_def)
  ultimately show ?thesis by (metis enrollment_token.select_convs(3) enrollment_token.surjective enrollment_token.update_convs(3))
qed

section \<open>Properties of histories\<close>

text \<open>A backend whose tables hold organisations and users only.\<close>

definition new_backend :: "organization list \<Rightarrow> admin_user list \<Rightarrow> control_client option \<Rightarrow> backend_state" where
  "new_backend orgs users control = \<lparr>bk_db = \<lparr>db_organizations = orgs, db_devices = [], db_tokens = [], db_codes = [], db_certificates = [],
     db_audit = [], db_users = users, db_sessions = []\<rparr>, bk_control = control\<rparr>"

text \<open>
C13. However requests to the backend follow each other, the identifiers of devices, the hashes of enrolment tokens and
the serials of certificates stay unique, every token and every certificate belongs to a registered device, a
certificate carries its device's identifier and organisation, and no device ever has two active certificates.
\<close>

theorem one_active_certificate:
  assumes "(backend_step lib cfg)\<^sup>*\<^sup>* (new_backend orgs users control) st"
  shows "sound (bk_db st) \<and> length (active_of i (bk_db st)) \<le> 1"
proof -
  have "sound (bk_db (new_backend orgs users control))"
    by (simp add: new_backend_def sound_def tokens_owned_def single_active_def)
  then have "sound (bk_db st)" by (rule backend.run_inv[OF assms])
  then show ?thesis by (simp add: sound_def single_active_def active_of_def)
qed

text \<open>
C19. Revocation is final: once a certificate is revoked or superseded, no later request changes it, and from then on
the backend reports it with that status whenever the gateway asks and the database answers.
\<close>

theorem revocation_final:
  assumes "sound (bk_db st)" and "c \<in> set (db_certificates (bk_db st))" and "crt_Status c \<noteq> ''active''"
    and "(backend_step lib cfg)\<^sup>*\<^sup>* st st'" and "\<not> dx_fails env ''GetCertStatus''"
  shows "c \<in> set (db_certificates (bk_db st')) \<and> handleCertStatus env (crt_Serial c) (bk_db st') = Answered 200 (cert_status_of c)"
proof -
  obtain c' where "c' \<in> set (db_certificates (bk_db st'))" "cert_ages c c'"
    using backend.run_ahead[OF assms(4)] assms(2) by (auto simp: evolves_def persist_def)
  then have "c \<in> set (db_certificates (bk_db st'))" using assms(3) by (auto simp: cert_ages_def)
  then show ?thesis
    using sound_find_cert[OF backend.run_inv[OF assms(4,1)]] assms(5) by (simp add: handleCertStatus_def GetCertStatus_def run_statement_def)
qed

text \<open>
C20. An enrolment token enrols once: after a request with it was answered, every later request with the same token and
no renewal token is refused, whatever happened in between.
\<close>

theorem enrolment_token_single_use:
  assumes "sound (bk_db st)" and "handleSubmitCSR lib cfg env r st = (Answered status resp, st1)" and "trim_space (sq_renewalToken r) = []"
    and "(backend_step lib cfg)\<^sup>*\<^sup>* st1 st2" and "trim_space (sq_renewalToken r2) = []" and "trim_space (sq_enrollToken r2) = trim_space (sq_enrollToken r)"
  shows "\<exists>why. fst (handleSubmitCSR lib cfg env2 r2 st2) = Refused why"
proof (rule ccontr)
  assume "\<nexists>why. fst (handleSubmitCSR lib cfg env2 r2 st2) = Refused why"
  then obtain s2 resp2 st3 where a: "handleSubmitCSR lib cfg env2 r2 st2 = (Answered s2 resp2, st3)"
    by (metis answer.exhaust prod.collapse)
  let ?h = "token_Hash (trim_space (sq_enrollToken r))"
  have "sound (bk_db st1)" using step_keeps[OF submit[of lib cfg st env r]] assms(1,2) by (simp add: keeps_def)
  then have s2: "sound (bk_db st2)" by (rule backend.run_inv[OF assms(4)])
  obtain t where t: "t \<in> set (db_tokens (bk_db st1))" "et_TokenHash t = ?h" "et_Used t" using answered_spends[OF assms(2,3)] by auto
  obtain t' where t': "t' \<in> set (db_tokens (bk_db st2))" "token_ages t t'"
    using backend.run_ahead[OF assms(4)] t(1) by (auto simp: evolves_def persist_def)
  have "find (usable_token (rx_db env2) ?h) (db_tokens (bk_db st2)) = None"
    by (rule used_token_useless[of _ t']) (use t t' s2 in \<open>simp_all add: sound_def token_ages_def\<close>)
  then show False using answered_authorised(1)[OF a] assms(5,6) by (simp add: token_authorises_def Let_def)
qed

section \<open>Instances\<close>

definition sample_registration :: register_request where
  "sample_registration = \<lparr>rr_OrgID = ''org'', rr_DeviceName = ''laptop'', rr_OS = ''darwin'', rr_AgentVersion = []\<rparr>"

definition sample_registered :: backend_state where
  "sample_registered = snd (handleRegisterDevice sample_config (sample_request_env 0 1) (Some sample_registration) (new_backend [sample_org] [] None))"

lemma one_active_certificate_witness:
  "length (active_of ''id1'' (bk_db (snd (handleSubmitCSR sample_lib sample_config (sample_request_env 1 2) (sample_submit_csr ''AQ=='' []) sample_registered)))) \<le> 1"
proof -
  have "(backend_step sample_lib sample_config)\<^sup>*\<^sup>* (new_backend [sample_org] [] None)
      (snd (handleSubmitCSR sample_lib sample_config (sample_request_env 1 2) (sample_submit_csr ''AQ=='' []) sample_registered))"
    unfolding sample_registered_def by (rule rtranclp.rtrancl_into_rtrancl[OF r_into_rtranclp[of "backend_step sample_lib sample_config", OF register] submit])
  from one_active_certificate[OF this] show ?thesis by blast
qed

lemma sample_sound: "sound (bk_db sample_backend)" "sound (bk_db sample_enrolled)" "sound (bk_db sample_revoked)"
proof -
  show a: "sound (bk_db sample_backend)" by (simp add: sample_evals sound_def tokens_owned_def single_active_def)
  then show b: "sound (bk_db sample_enrolled)" using keeps_submit by (auto simp: sample_enrolled_def keeps_def)
  then show "sound (bk_db sample_revoked)" using keeps_handleRevoke by (auto simp: sample_revoked_def keeps_def)
qed

lemma revocation_final_witness:
  "\<exists>c\<in>set (db_certificates (bk_db sample_revoked)). crt_Status c = ''revoked'' \<and>
     handleCertStatus (rx_db (sample_request_env 4 0)) (crt_Serial c)
       (bk_db (snd (handleSubmitCSR sample_lib sample_config (sample_request_env 3 2) (sample_submit_csr [] ''AQ=='') sample_revoked))) = Answered 200 (cert_status_of c)"
proof -
  obtain c where c: "c \<in> set (db_certificates (bk_db sample_revoked))" "crt_Status c = ''revoked''"
    using sample_revoked_status(2) by (cases "db_certificates (bk_db sample_revoked)") auto
  have "crt_Status c \<noteq> ''active''" using c(2) by simp
  moreover have "\<not> dx_fails (rx_db (sample_request_env 4 0)) ''GetCertStatus''" by (simp add: sample_request_env_def)
  ultimately show ?thesis
    using revocation_final[OF sample_sound(3) c(1) _ r_into_rtranclp[of "backend_step sample_lib sample_config", OF submit]] c by blast
qed

lemma enrolment_token_single_use_witness:
  "\<exists>why. fst (handleSubmitCSR sample_lib sample_config (sample_request_env 2 2) (sample_submit_csr ''tok'' []) sample_enrolled) = Refused why"
proof -
  have "\<exists>resp. handleSubmitCSR sample_lib sample_config (sample_request_env 1 1) (sample_submit_csr ''tok'' []) sample_backend = (Answered 200 resp, sample_enrolled)"
    unfolding sample_enrolled_def by (simp add: sample_steps)
  then obtain resp where a: "handleSubmitCSR sample_lib sample_config (sample_request_env 1 1) (sample_submit_csr ''tok'' []) sample_backend = (Answered 200 resp, sample_enrolled)"
    by blast
  have "trim_space (sq_renewalToken (sample_submit_csr ''tok'' [])) = []" by (simp add: sample_submit_csr_def sample_trims)
  then show ?thesis
    using enrolment_token_single_use[OF sample_sound(1) a _ rtranclp.rtrancl_refl[of "backend_step sample_lib sample_config"], of "sample_submit_csr ''tok'' []"] by blast
qed

text \<open>
Offboarding an organisation does not keep its devices out: the certificate is revoked and the device decommissioned,
but the renewal token still buys a new certificate, and the device is active again.
\<close>

definition sample_offboarding :: status_request where
  "sample_offboarding = \<lparr>st_Status = ''offboarded'', st_Reason = ''contract ended'', st_RevokeCerts = True\<rparr>"

lemmas status_evals = handleOperatorUpdateStatus_def status_effects_def UpdateOrganizationStatus_def RevokeActiveCertificatesForOrg_def SetOrgDevicesStatus_def
  ExpireEnrollmentForOrg_def expiring_token_def status_audit_def

definition sample_offboarded :: backend_state where
  "sample_offboarded = sample_enrolled\<lparr>bk_db := snd (handleOperatorUpdateStatus (rx_db (sample_request_env 2 0)) ''operator'' ''org'' (Some sample_offboarding) (bk_db sample_enrolled))\<rparr>"

lemma sample_org_trims: "trim_space ''org'' = ''org''" "canon ''offboarded'' = ''offboarded''" "trim_space ''contract ended'' = ''contract ended''"
  by code_simp+

lemma offboarded_device_renews:
  "map dv_Status (db_devices (bk_db sample_offboarded)) = [''decommissioned''] \<and>
   map dv_Status (db_devices (bk_db (snd (handleSubmitCSR sample_lib sample_config (sample_request_env 3 2) (sample_submit_csr [] ''AQ=='') sample_offboarded)))) = [''active'']"
  unfolding sample_offboarded_def sample_enrolled_def sample_offboarding_def by (simp add: sample_steps status_evals sample_org_trims Let_def)

section \<open>Suspension, packages and the control plane\<close>

text \<open>Nothing handed out for the organisation can be used at or after the time: no unused token of its devices lives on, and no short code.\<close>

definition enrolment_closed :: "time \<Rightarrow> string \<Rightarrow> database \<Rightarrow> bool" where
  "enrolment_closed now orgID db =
    ((\<forall>t\<in>set (db_tokens db). (\<exists>d\<in>set (db_devices db). dv_ID d = et_DeviceID t \<and> dv_OrgID d = orgID) \<longrightarrow> et_Used t \<or> et_ExpiresAt t \<le> now) \<and>
     (\<forall>c\<in>set (db_codes db). sh_OrgID c = orgID \<longrightarrow> sh_ExpiresAt c \<le> now))"

definition certificates_gone :: "string \<Rightarrow> database \<Rightarrow> bool" where
  "certificates_gone orgID db = (\<forall>c\<in>set (db_certificates db). crt_OrgID c = orgID \<longrightarrow> crt_Status c \<noteq> ''active'')"

definition decommissioned :: "string \<Rightarrow> database \<Rightarrow> bool" where
  "decommissioned orgID db = (\<forall>d\<in>set (db_devices db). dv_OrgID d = orgID \<longrightarrow> dv_Status d = ''decommissioned'')"

lemma ball_update_where: "(\<forall>r\<in>set (update_where P f rows). Q r) = (\<forall>r\<in>set rows. if P r then Q (f r) else Q r)"
  by (induction rows) (simp_all add: update_where_def)

lemma expire_closes: "ExpireEnrollmentForOrg env o' db = Inr (n, db') \<Longrightarrow>
    enrolment_closed (dx_now env) o' db' \<and> db_certificates db' = db_certificates db \<and> db_devices db' = db_devices db"
proof -
  assume a: "ExpireEnrollmentForOrg env o' db = Inr (n, db')"
  then have "db' = db\<lparr>db_tokens := update_where (expiring_token env o' db) (\<lambda>t. t\<lparr>et_ExpiresAt := dx_now env\<rparr>) (db_tokens db),
      db_codes := update_where (\<lambda>c. sh_OrgID c = o' \<and> dx_now env < sh_ExpiresAt c) (\<lambda>c. c\<lparr>sh_ExpiresAt := dx_now env\<rparr>) (db_codes db)\<rparr>"
    by (auto simp: ExpireEnrollmentForOrg_def Let_def split: if_splits)
  then show ?thesis by (simp add: enrolment_closed_def ball_update_where expiring_token_def not_less) blast
qed

lemma revoke_org_clears: "RevokeActiveCertificatesForOrg env o' reason db = Inr (n, db') \<Longrightarrow>
    certificates_gone o' db' \<and> db_tokens db' = db_tokens db \<and> db_codes db' = db_codes db \<and> db_devices db' = db_devices db"
  by (simp add: RevokeActiveCertificatesForOrg_def certificates_gone_def ball_update_where)

lemma set_status_all: "SetOrgDevicesStatus env o' ''decommissioned'' db = Inr (n, db') \<Longrightarrow> decommissioned o' db' \<and> db_certificates db' = db_certificates db"
  by (simp add: SetOrgDevicesStatus_def decommissioned_def ball_update_where)

lemma closed_same: "db_tokens a = db_tokens b \<Longrightarrow> db_codes a = db_codes b \<Longrightarrow> db_devices a = db_devices b \<Longrightarrow> enrolment_closed now o' a = enrolment_closed now o' b"
  by (simp add: enrolment_closed_def)

text \<open>
When the operator suspends or offboards an organisation and the request is answered, no enrolment token of its
devices and no short code of the organisation can be used any more; offboarding, and suspension with revocation, leave
the organisation without an active certificate, and offboarding decommissions all of its devices. A request that is not
answered leaves the database as it was.
\<close>

theorem suspension_closes_enrolment:
  "case handleOperatorUpdateStatus env actor rawOrg (Some req) db of
     (Refused why, db') \<Rightarrow> db' = db
   | (Answered status n, db') \<Rightarrow>
      (canon (st_Status req) \<noteq> ''active'' \<longrightarrow> enrolment_closed (dx_now env) (trim_space rawOrg) db') \<and>
      (st_RevokeCerts req \<or> canon (st_Status req) = ''offboarded'' \<longrightarrow> certificates_gone (trim_space rawOrg) db') \<and>
      (canon (st_Status req) = ''offboarded'' \<longrightarrow> decommissioned (trim_space rawOrg) db')"
proof (cases "handleOperatorUpdateStatus env actor rawOrg (Some req) db")
  case (Pair a db')
  let ?o = "trim_space rawOrg" and ?s = "canon (st_Status req)"
  show ?thesis
  proof (cases a)
    case (Refused why)
    then show ?thesis using Pair by (auto simp: handleOperatorUpdateStatus_def Let_def split: if_splits sum.splits)
  next
    case (Answered status n)
    then obtain db1 db2 where s: "?s \<in> {''active'', ''suspended'', ''offboarded''}" and e: "status_effects env ?o ?s (st_RevokeCerts req) db1 = Inr (n, db2)"
      and c: "audit_and_commit env (status_audit actor ?o ?s (trim_space (st_Reason req)) n) db2 = Inr db'"
      using Pair by (auto simp: handleOperatorUpdateStatus_def Let_def split: if_splits sum.splits)
    have same: "db_tokens db' = db_tokens db2" "db_codes db' = db_codes db2" "db_devices db' = db_devices db2" "db_certificates db' = db_certificates db2"
      using audit_and_commit_Inr[OF c] by simp_all
    have "(?s \<noteq> ''active'' \<longrightarrow> enrolment_closed (dx_now env) ?o db2) \<and> (st_RevokeCerts req \<or> ?s = ''offboarded'' \<longrightarrow> certificates_gone ?o db2) \<and>
        (?s = ''offboarded'' \<longrightarrow> decommissioned ?o db2)"
    proof (cases "?s = ''suspended''")
      case True
      then show ?thesis using e
        by (auto simp: status_effects_def split: if_splits dest!: expire_closes revoke_org_clears dest: closed_same)
    next
      case not_suspended: False
      show ?thesis
      proof (cases "?s = ''offboarded''")
        case True
        then show ?thesis using e
          by (auto simp: status_effects_def certificates_gone_def decommissioned_def dest!: expire_closes revoke_org_clears set_status_all)
      next
        case False
        then have "?s = ''active''" using s not_suspended by simp
        then show ?thesis using e by (auto simp: status_effects_def split: if_splits dest!: revoke_org_clears)
      qed
    qed
    then show ?thesis using Pair Answered closed_same[OF same(1-3)] same by (simp add: certificates_gone_def decommissioned_def)
  qed
qed

lemma suspension_closes_enrolment_witness:
  "enrolment_closed 2 ''org'' (bk_db sample_offboarded) \<and> certificates_gone ''org'' (bk_db sample_offboarded)"
proof -
  have a: "\<exists>n. handleOperatorUpdateStatus (rx_db (sample_request_env 2 0)) ''operator'' ''org'' (Some sample_offboarding) (bk_db sample_enrolled) =
      (Answered 200 n, bk_db sample_offboarded)"
    unfolding sample_offboarded_def sample_enrolled_def sample_offboarding_def by (simp add: sample_steps status_evals sample_org_trims Let_def)
  show ?thesis
    using suspension_closes_enrolment[where env="rx_db (sample_request_env 2 0)" and actor="''operator''" and rawOrg="''org''" and req=sample_offboarding and db="bk_db sample_enrolled"] a
    by (auto simp: sample_offboarding_def sample_org_trims sample_request_env_def)
qed

text \<open>
The control plane's answer for a device that was registered and is not enrolled yet, as this backend gives it, says
pending; the client takes anything but active for a denial, so where such a control plane is configured the first
request for a certificate is refused.
\<close>

lemma pending_device_denied:
  assumes "cp_deviceCache c ''dev'' = None"
    and "handleEnforcementDeviceStatus (rx_db env) ''dev'' sample_db = Answered 200 reply" and "rx_device_reply env = Some (200, Some reply)"
  shows "fst (ensureDeviceAllowed env ''dev'' (Some c)) = Some ErrDenied"
proof -
  have "canon ''pending'' \<noteq> ''active''" "trim_space ''dev'' = ''dev''" by code_simp+
  then show ?thesis using assms
    by (auto simp: ensureDeviceAllowed_def EnforceDeviceActive_def lookupDevice_def fetch_device_def Let_def handleEnforcementDeviceStatus_def
        GetDevice_def GetOrganization_def run_statement_def sample_db_def sample_device_def split: if_splits option.splits)
qed

lemma find_appended: "(\<And>x. x \<in> set xs \<Longrightarrow> \<not> P x) \<Longrightarrow> P y \<Longrightarrow> find P (xs @ [y]) = Some y"
  by (induction xs) auto

text \<open>A device that was created is found with its organisation, and its token is usable until it expires.\<close>

definition ready_to_enrol :: "string \<Rightarrow> organization \<Rightarrow> device_row \<Rightarrow> string \<Rightarrow> time \<Rightarrow> database \<Rightarrow> bool" where
  "ready_to_enrol orgID org device raw expires db =
    (find (\<lambda>d. dv_ID d = dv_ID device) (db_devices db) = Some device \<and> dv_OrgID device = orgID \<and> og_ID org = orgID \<and>
     find (\<lambda>o'. og_ID o' = orgID) (db_organizations db) = Some org \<and>
     (\<forall>env. dx_now env < expires \<longrightarrow> (\<exists>t. find (usable_token env (token_Hash raw)) (db_tokens db) = Some t \<and> et_DeviceID t = dv_ID device)))"

lemma ready_elsewhere: "ready_to_enrol o' org device raw expires db \<Longrightarrow> db_devices db' = db_devices db \<Longrightarrow> db_organizations db' = db_organizations db \<Longrightarrow>
    db_tokens db' = db_tokens db \<Longrightarrow> ready_to_enrol o' org device raw expires db'"
  by (simp add: ready_to_enrol_def)

lemma created_ready:
  assumes "createDeviceAndEnrollmentTokenWithTTL env orgID name osType version actor who ttl st = (Inr (org, device, raw, expires), st')"
  shows "ready_to_enrol orgID org device raw expires (bk_db st')" "dv_ID device = dx_uuid (rx_db env)" "\<exists>b. rx_token env = Some b \<and> raw = url_encode b"
    "db_certificates (bk_db st') = db_certificates (bk_db st)"
proof -
  obtain org' n v where org': "find (\<lambda>o'. og_ID o' = orgID) (db_organizations (bk_db st)) = Some org'"
    and rows: "create_device_rows env org' orgID n osType v actor who ttl (bk_db st) = (Inr (org, device, raw, expires), bk_db st')"
    using assms by (simp add: createDeviceAndEnrollmentTokenWithTTL_def Let_def GetOrganization_def run_statement_def
        split: if_splits option.splits prod.splits) auto
  have "org' = org" using rows by (auto simp: create_device_rows_def split: sum.splits prod.splits)
  note org = org'[unfolded this]
  obtain db1 db2 where d: "CreateDevice (rx_db env) orgID n osType v (bk_db st) = Inr (device, db1)"
    and t: "issueEnrollmentTokenWithTTL env (dv_ID device) ttl db1 = Inr ((raw, expires), db2)"
    and a: "bk_db st' = audit_outside (rx_db env) (register_audit actor who orgID device expires) db2"
    using rows by (auto simp: create_device_rows_def split: sum.splits prod.splits)
  have db1: "db1 = (bk_db st)\<lparr>db_devices := db_devices (bk_db st) @ [device]\<rparr>" "\<And>x. x \<in> set (db_devices (bk_db st)) \<Longrightarrow> dv_ID x \<noteq> dv_ID device"
    "dv_OrgID device = orgID" "dv_ID device = dx_uuid (rx_db env)"
    using d by (auto simp: CreateDevice_def Let_def split: if_splits)
  obtain b where b: "rx_token env = Some b" "raw = url_encode b"
    using t by (auto simp: issueEnrollmentTokenWithTTL_def token_Generate_def split: option.splits sum.splits)
  define row where "row = \<lparr>et_DeviceID = dv_ID device, et_TokenHash = token_Hash raw, et_Used = False, et_ExpiresAt = expires, et_CreatedAt = dx_now (rx_db env)\<rparr>"
  have db2: "db2 = db1\<lparr>db_tokens := db_tokens db1 @ [row]\<rparr>" "\<And>x. x \<in> set (db_tokens db1) \<Longrightarrow> et_TokenHash x \<noteq> token_Hash raw"
    using t b by (auto simp: issueEnrollmentTokenWithTTL_def token_Generate_def CreateEnrollmentToken_def row_def split: sum.splits if_splits)
  have tok: "find (usable_token e (token_Hash raw)) (db_tokens db1 @ [row]) = Some row" if "dx_now e < expires" for e
    by (rule find_appended) (use db2(2) that in \<open>auto simp: usable_token_def row_def\<close>)
  have dev: "find (\<lambda>d. dv_ID d = dv_ID device) (db_devices (bk_db st) @ [device]) = Some device" by (rule find_appended) (use db1(2) in auto)
  have "og_ID org = orgID" using org by (auto simp: find_Some_iff)
  then have "ready_to_enrol orgID org device raw expires db2" using tok dev org by (auto simp: ready_to_enrol_def db2(1) db1(1,3) row_def)
  moreover have "db_devices (bk_db st') = db_devices db2" "db_organizations (bk_db st') = db_organizations db2" "db_tokens (bk_db st') = db_tokens db2"
    "db_certificates (bk_db st') = db_certificates db2"
    unfolding a audit_outside_def by (auto split: sum.splits dest!: InsertAudit_Inr)
  ultimately show "ready_to_enrol orgID org device raw expires (bk_db st')" "db_certificates (bk_db st') = db_certificates (bk_db st)"
    using db2(1) db1(1) by (auto intro: ready_elsewhere)
  show "dv_ID device = dx_uuid (rx_db env)" "\<exists>b. rx_token env = Some b \<and> raw = url_encode b" using db1(4) b by auto
qed

lemma b64_char_not_space: "n < 64 \<Longrightarrow> \<not> is_space (b64_char n)"
  by (auto simp: is_space_def b64_char_def split: if_splits)

lemma token_text: "is_bytes b \<Longrightarrow> b \<noteq> [] \<Longrightarrow> trim_space (url_encode b) = url_encode b \<and> url_encode b \<noteq> []"
proof -
  assume b: "is_bytes b" "b \<noteq> []"
  have "list_all (\<lambda>c. \<not> is_space c) (rawurl_encode b)"
    using b64_digits_bound[OF b(1)] b64_char_not_space by (auto simp: rawurl_encode_def list_all_iff)
  moreover have "\<not> is_space (CHR ''='')" by (simp add: is_space_def)
  ultimately have "list_all (\<lambda>c. \<not> is_space c) (url_encode b)" by (auto simp: url_encode_def list_all_iff)
  then show ?thesis using b(2) by (simp add: trim_space_plain) (simp add: url_encode_def rawurl_encode_Nil)
qed

lemma proper_validates:
  assumes "proper_csr lib i name (Some pem)"
  obtains der csr where "ValidateCSR lib pem i name = Inr der" "xl_parse_csr lib der = Some csr" "cr_SignatureOK csr"
proof -
  from assms obtain der csr c k rest where "xl_pem_decode lib pem = Some (''CERTIFICATE REQUEST'', der)" "xl_parse_csr lib der = Some csr" "cr_SignatureOK csr"
    "cr_CommonName csr = i" "cr_Organization csr = name # rest" "cr_PublicKey csr = ECDSAKey c k" "c \<noteq> OtherCurve"
    by (auto simp: proper_csr_def)
  moreover from this have "ValidateCSR lib pem i name = Inr der" by (cases c) (simp_all add: ValidateCSR_def)
  ultimately show thesis using that by blast
qed

text \<open>Everything outside the request goes well: the database, the random source, and the signature.\<close>

definition all_well :: "x509_lib \<Rightarrow> request_env \<Rightarrow> database \<Rightarrow> bool" where
  "all_well lib env db = ((\<forall>call. \<not> dx_fails (rx_db env) call) \<and> rx_token env \<noteq> None \<and>
     (\<exists>sb. rx_serial env = Some sb \<and> (\<forall>c\<in>set (db_certificates db). crt_Serial c \<noteq> hex_encode sb)) \<and> (\<forall>t k. xl_create lib t k \<noteq> None))"

lemma ready_submits:
  assumes ready: "ready_to_enrol orgID org device raw expires (bk_db st)" "dx_now (rx_db env) < expires" and well: "all_well lib env (bk_db st)"
    and allowed: "control_permits env orgID (dv_ID device) (bk_control st)" and csr: "proper_csr lib (dv_ID device) (og_Name org) (Some pem)"
    and plain: "trim_space (dv_ID device) = dv_ID device" "trim_space raw = raw" "raw \<noteq> []"
  shows "\<exists>resp. fst (handleSubmitCSR lib cfg env \<lparr>sq_deviceID = dv_ID device, sq_enrollToken = raw, sq_renewalToken = [], sq_body = Some pem\<rparr> st) = Answered 200 resp"
proof -
  let ?r = "\<lparr>sq_deviceID = dv_ID device, sq_enrollToken = raw, sq_renewalToken = [], sq_body = Some pem\<rparr>" and ?db = "bk_db st"
  obtain der csr' where v: "ValidateCSR lib pem (dv_ID device) (og_Name org) = Inr der" "xl_parse_csr lib der = Some csr'" "cr_SignatureOK csr'"
    by (rule proper_validates[OF csr])
  obtain sb tb where w: "\<And>call. \<not> dx_fails (rx_db env) call" "rx_serial env = Some sb" "rx_token env = Some tb"
    "\<forall>c\<in>set (db_certificates ?db). crt_Serial c \<noteq> hex_encode sb" "\<And>t k. xl_create lib t k \<noteq> None"
    using well by (auto simp: all_well_def)
  have found: "find (\<lambda>d. dv_ID d = dv_ID device) (db_devices ?db) = Some device" "find (\<lambda>o'. og_ID o' = dv_OrgID device) (db_organizations ?db) = Some org"
    "og_ID org = dv_OrgID device" "dv_OrgID device = orgID" using ready(1) by (auto simp: ready_to_enrol_def)
  have adm: "\<exists>control. admit_csr lib env ?r st = (Inr (device, org, pem, der), control)"
    using found plain v(1) w(1) allowed
    by (auto simp: admit_csr_def Let_def GetDevice_def GetOrganization_def run_statement_def control_permits_def split: prod.splits)
  obtain t where "find (usable_token (rx_db env) (token_Hash raw)) (db_tokens ?db) = Some t" "et_DeviceID t = dv_ID device"
    using ready by (auto simp: ready_to_enrol_def)
  then have auth: "\<exists>db1. authorise_csr (rx_db env) (dv_ID device) raw [] ?db = Inr db1 \<and> db_devices db1 = db_devices ?db \<and>
      db_organizations db1 = db_organizations ?db \<and> map crt_Serial (db_certificates db1) = map crt_Serial (db_certificates ?db)"
    using w(1)
    by (simp add: authorise_csr_def consume_enrollment_def ValidateAndConsumeToken_def SupersedeActiveCerts_def run_statement_def and_then_def or_internal_def
        map_update_where)
  then obtain db1 where db1: "authorise_csr (rx_db env) (dv_ID device) raw [] ?db = Inr db1" "db_devices db1 = db_devices ?db"
      "db_organizations db1 = db_organizations ?db" "map crt_Serial (db_certificates db1) = map crt_Serial (db_certificates ?db)" by blast
  obtain result where sign: "SignCSR lib (dx_now (rx_db env)) (rx_serial env) (bc_signer cfg) der = Some result" "sr_Serial result = hex_encode sb"
  proof -
    have "\<forall>t k. \<exists>d. xl_create lib t k = Some d" using w(5) by auto
    then obtain create where "\<And>t k. xl_create lib t k = Some (create t k)" by metis
    then show thesis using that v(2,3) w(2) by (simp add: SignCSR_def Let_def)
  qed
  have fresh: "\<forall>c\<in>set (db_certificates db1). crt_Serial c \<noteq> hex_encode sb" using w(4) arg_cong[OF db1(4), of set] unfolding set_map by (metis imageE imageI)
  have rows: "\<exists>d\<in>set (db_devices db1). dv_ID d = dv_ID device" "\<exists>o'\<in>set (db_organizations db1). og_ID o' = dv_OrgID device"
    using found db1(2,3) by (auto simp: find_Some_iff)
  have "\<exists>resp db2. issue_csr lib cfg env device org (dv_ID device) False pem der db1 = Inr (resp, db2)"
    using sign fresh rows w(1,3)
    by (auto simp: issue_csr_def CreateCertificate_def certificate_row_def ActivateDevice_def SetRenewalTokenHash_def audit_and_commit_def InsertAudit_def
        issue_audit_def actor_types_def token_Generate_def run_statement_def and_then_def or_internal_def)
  then obtain resp db2 where "csr_transaction lib cfg env ?r device org pem der ?db = Inr (resp, db2)"
    using db1(1) plain w(1) by (auto simp: csr_transaction_def)
  then show ?thesis using adm by (auto simp: handleSubmitCSR_def)
qed

lemma short_code_elsewhere:
  "db_devices (snd (storeEnrollmentShortCode cfg env i o' config expires db)) = db_devices db"
  "db_organizations (snd (storeEnrollmentShortCode cfg env i o' config expires db)) = db_organizations db"
  "db_tokens (snd (storeEnrollmentShortCode cfg env i o' config expires db)) = db_tokens db"
  by (simp_all add: storeEnrollmentShortCode_def CreateEnrollmentShortCode_def split: option.split)

lemma package_fields:
  assumes "enrollment_package_for cfg env org device raw expires db = (pk, db')"
  shows "pk_DeviceID pk = dv_ID device" "pk_TokenExpiresAt pk = expires" "ec_DeviceID (pk_AgentConfig pk) = dv_ID device"
    "ec_EnrollmentToken (pk_AgentConfig pk) = raw" "ec_OrgName (pk_AgentConfig pk) = og_Name org"
    "db_devices db' = db_devices db" "db_organizations db' = db_organizations db" "db_tokens db' = db_tokens db"
  using assms by (auto simp: enrollment_package_for_def case_prod_beta Let_def buildAgentConfig_def short_code_elsewhere)

text \<open>
An enrolment package works: the configuration it hands out names a device and a token with which the backend,
before the token expires and while the control plane (where configured) permits, issues a certificate to a proper
request of that device, provided the database, the random source and the signer do their part.
\<close>

theorem package_enrols:
  assumes package: "handleCreateEnrollmentPackage cfg env (Some u) (Some req) st = (Answered status pk, st')"
    and uuid: "trim_space (dx_uuid (rx_db env)) = dx_uuid (rx_db env)" and random: "rx_token env = Some b" "is_bytes b" "b \<noteq> []"
    and later: "dx_now (rx_db env') < pk_TokenExpiresAt pk" "all_well lib env' (bk_db st')" "control_permits env' (us_OrgID u) (pk_DeviceID pk) (bk_control st')"
    and csr: "proper_csr lib (ec_DeviceID (pk_AgentConfig pk)) (ec_OrgName (pk_AgentConfig pk)) (Some pem)"
  shows "\<exists>resp. fst (handleSubmitCSR lib cfg env' \<lparr>sq_deviceID = ec_DeviceID (pk_AgentConfig pk), sq_enrollToken = ec_EnrollmentToken (pk_AgentConfig pk),
           sq_renewalToken = [], sq_body = Some pem\<rparr> st') = Answered 200 resp"
proof -
  obtain org device raw expires st1 where c: "createDeviceAndEnrollmentTokenWithTTL env (us_OrgID u) (pq_DeviceName req) (pq_OS req) (pq_AgentVersion req) ''admin'' (us_ID u)
      (resolveTokenTTL cfg (pq_TokenTTLHours req)) st = (Inr (org, device, raw, expires), st1)"
    and p: "enrollment_package_for cfg env org device raw expires (bk_db st1) = (pk, bk_db st')"
    using package by (auto simp: handleCreateEnrollmentPackage_def split: prod.splits sum.splits)
  have pk: "pk_DeviceID pk = dv_ID device" "pk_TokenExpiresAt pk = expires" "ec_DeviceID (pk_AgentConfig pk) = dv_ID device"
    "ec_EnrollmentToken (pk_AgentConfig pk) = raw" "ec_OrgName (pk_AgentConfig pk) = og_Name org"
    and same: "db_devices (bk_db st') = db_devices (bk_db st1)" "db_organizations (bk_db st') = db_organizations (bk_db st1)" "db_tokens (bk_db st') = db_tokens (bk_db st1)"
    using package_fields[OF p] by simp_all
  note made = created_ready[OF c]
  have "trim_space raw = raw" "raw \<noteq> []" using token_text[OF random(2,3)] made(3) random(1) by auto
  then show ?thesis
    using ready_submits[OF ready_elsewhere[OF made(1) same], of env' lib pem cfg] later csr pk uuid made(2) by simp
qed

definition sample_admin :: admin_user where
  "sample_admin = \<lparr>us_ID = ''u1'', us_OrgID = ''org'', us_Email = ''a@acme.test'', us_Name = ''A'', us_PasswordHash = ''h'', us_Role = ''admin'',
     us_MustChangePassword = False, us_TermsAcceptedAt = None, us_CreatedAt = 0, us_UpdatedAt = 0\<rparr>"

definition sample_package_request :: package_request where
  "sample_package_request = \<lparr>pq_DeviceName = ''laptop'', pq_OS = ''darwin'', pq_AgentVersion = [], pq_TokenTTLHours = 1\<rparr>"

definition sample_lib1 :: x509_lib where
  "sample_lib1 = sample_lib\<lparr>xl_parse_csr := (\<lambda>s. Some \<lparr>cr_CommonName = ''id1'', cr_Organization = [''Acme''], cr_PublicKey = ECDSAKey P384 ''k'', cr_SignatureOK = True\<rparr>)\<rparr>"

definition sample_packaged :: "enrollment_package answer \<times> backend_state" where
  "sample_packaged = handleCreateEnrollmentPackage sample_config (sample_request_env 0 1) (Some sample_admin) (Some sample_package_request) (new_backend [sample_org] [sample_admin] None)"

lemmas create_evals = handleCreateEnrollmentPackage_def createDeviceAndEnrollmentTokenWithTTL_def create_device_rows_def issueEnrollmentTokenWithTTL_def CreateDevice_def
  CreateEnrollmentToken_def audit_outside_def register_audit_def enrollment_package_for_def urlsForOrg_def buildAgentConfig_def storeEnrollmentShortCode_def
  CreateEnrollmentShortCode_def resolveTokenTTL_def new_backend_def

lemma sample_names: "device_name_ok ''laptop''" "trim_space ''laptop'' = ''laptop''" "nat_str 1 = ''1''" "nat_str (Suc 0) = ''1''" "trim_space ''id1'' = ''id1''"
  by code_simp+

lemma sample_packaged_eq:
  "\<exists>pk. sample_packaged = (Answered 201 pk, snd sample_packaged) \<and> pk_DeviceID pk = ''id1'' \<and> pk_TokenExpiresAt pk = 3600 * second \<and>
     ec_DeviceID (pk_AgentConfig pk) = ''id1'' \<and> ec_OrgName (pk_AgentConfig pk) = ''Acme'' \<and> bk_control (snd sample_packaged) = None \<and>
     db_certificates (bk_db (snd sample_packaged)) = []"
  unfolding sample_packaged_def by (simp add: create_evals sample_steps sample_names sample_admin_def sample_package_request_def Let_def)

lemma package_enrols_witness:
  "\<exists>pk resp. fst sample_packaged = Answered 201 pk \<and>
     fst (handleSubmitCSR sample_lib1 sample_config (sample_request_env 1 2) \<lparr>sq_deviceID = ec_DeviceID (pk_AgentConfig pk),
        sq_enrollToken = ec_EnrollmentToken (pk_AgentConfig pk), sq_renewalToken = [], sq_body = Some ''csr''\<rparr> (snd sample_packaged)) = Answered 200 resp"
proof -
  obtain pk where pk: "sample_packaged = (Answered 201 pk, snd sample_packaged)" "pk_DeviceID pk = ''id1''" "pk_TokenExpiresAt pk = 3600 * second"
     "ec_DeviceID (pk_AgentConfig pk) = ''id1''" "ec_OrgName (pk_AgentConfig pk) = ''Acme''" "bk_control (snd sample_packaged) = None"
     "db_certificates (bk_db (snd sample_packaged)) = []"
    using sample_packaged_eq by blast
  have well: "all_well sample_lib1 (sample_request_env 1 2) (bk_db (snd sample_packaged))"
    by (simp add: all_well_def pk(7) sample_request_env_def sample_lib1_def sample_lib_def)
  have permits: "control_permits (sample_request_env 1 2) (us_OrgID sample_admin) (pk_DeviceID pk) (bk_control (snd sample_packaged))"
    by (simp add: pk(6) control_permits_def ensureOrganizationAllowed_def ensureDeviceAllowed_def)
  have csr: "proper_csr sample_lib1 (ec_DeviceID (pk_AgentConfig pk)) (ec_OrgName (pk_AgentConfig pk)) (Some ''csr'')"
    by (simp add: proper_csr_def pk(4,5) sample_lib1_def sample_lib_def)
  have "\<exists>resp. fst (handleSubmitCSR sample_lib1 sample_config (sample_request_env 1 2) \<lparr>sq_deviceID = ec_DeviceID (pk_AgentConfig pk),
        sq_enrollToken = ec_EnrollmentToken (pk_AgentConfig pk), sq_renewalToken = [], sq_body = Some ''csr''\<rparr> (snd sample_packaged)) = Answered 200 resp"
    by (rule package_enrols[OF pk(1)[unfolded sample_packaged_def] _ _ _ _ _ well[unfolded sample_packaged_def] permits[unfolded sample_packaged_def] csr,
          of "[1]", folded sample_packaged_def])
      (simp_all add: sample_request_env_def sample_names pk(3) second_def)
  then show ?thesis using pk(1) by (metis fst_conv)
qed

end
