(* ===== verification/Backend_Auth.thy ===== *)
theory Backend_Auth
  imports Backend_Devices
begin

text \<open>
The administrators of the backend: their rows and sessions (backend/internal/store/user.go, session.go, dashboard.go),
login, logout and the session and role checks (api/auth.go), the settings handlers (settings_handler.go) and the
creation of organisations (org.go, operator.go).

The password hash of golang.org/x/crypto/bcrypt is a parameter: hashing with the salt the call draws, and comparing.
The row that a query without an order returns among several is a parameter too.
\<close>

section \<open>Requests and cookies\<close>

record api_request =
  aq_Method :: string
  aq_Path :: string
  aq_Cookies :: "(string \<times> string) list"
  aq_Header :: header
  aq_RemoteAddr :: string
  aq_TLS :: bool

record http_cookie =
  ck_Name :: string
  ck_Value :: string
  ck_Path :: string
  ck_HttpOnly :: bool
  ck_SameSiteStrict :: bool
  ck_Secure :: bool
  ck_MaxAge :: int
  ck_Expires :: time

definition isHTTPSRequest :: "api_request \<Rightarrow> bool" where
  "isHTTPSRequest r = (aq_TLS r \<or> equal_fold (header_Get ''X-Forwarded-Proto'' (aq_Header r)) ''https'')"

definition setSessionCookie :: "time \<Rightarrow> api_request \<Rightarrow> string \<Rightarrow> time \<Rightarrow> http_cookie" where
  "setSessionCookie now r token expiresAt =
    \<lparr>ck_Name = ''session'', ck_Value = token, ck_Path = ''/'', ck_HttpOnly = True, ck_SameSiteStrict = True, ck_Secure = isHTTPSRequest r,
     ck_MaxAge = (expiresAt - now) div second, ck_Expires = expiresAt\<rparr>"

definition clearSessionCookie :: "api_request \<Rightarrow> http_cookie" where
  "clearSessionCookie r =
    \<lparr>ck_Name = ''session'', ck_Value = [], ck_Path = ''/'', ck_HttpOnly = True, ck_SameSiteStrict = True, ck_Secure = isHTTPSRequest r,
     ck_MaxAge = - 1, ck_Expires = 0\<rparr>"

definition extractSessionToken :: "api_request \<Rightarrow> string" where
  "extractSessionToken r =
    (let auth = header_Get ''Authorization'' (aq_Header r);
         bearer = (if has_prefix auth ''Bearer '' then trim_prefix auth ''Bearer '' else []) in
     case map_of (aq_Cookies r) ''session'' of Some v \<Rightarrow> if v \<noteq> [] then v else bearer | None \<Rightarrow> bearer)"

definition passwordChangeExempt :: "api_request \<Rightarrow> bool" where
  "passwordChangeExempt r =
    (aq_Method r = ''GET'' \<and> aq_Path r = ''/api/v1/auth/me'' \<or> aq_Method r = ''PUT'' \<and> aq_Path r = ''/api/v1/auth/password''
     \<or> aq_Method r = ''GET'' \<and> aq_Path r = ''/api/v1/settings'')"

section \<open>Users and sessions\<close>

record auth_env =
  ax_request :: request_env
  ax_hash :: "string \<Rightarrow> string option"
  ax_check :: "string \<Rightarrow> string \<Rightarrow> bool"
  ax_row :: "admin_user list \<Rightarrow> admin_user"

abbreviation ax_db :: "auth_env \<Rightarrow> db_env" where
  "ax_db ax \<equiv> rx_db (ax_request ax)"

abbreviation ax_now :: "auth_env \<Rightarrow> time" where
  "ax_now ax \<equiv> dx_now (ax_db ax)"

datatype user_error = HashFailed | Statement db_error

definition stated :: "db_error + 'a \<Rightarrow> user_error + 'a" where
  "stated r = (case r of Inl e \<Rightarrow> Inl (Statement e) | Inr x \<Rightarrow> Inr x)"

definition user_roles :: "string list" where
  "user_roles = [''owner'', ''admin'', ''viewer'']"

definition CreateUser :: "auth_env \<Rightarrow> string \<Rightarrow> string \<Rightarrow> string \<Rightarrow> string \<Rightarrow> string \<Rightarrow> database \<Rightarrow> user_error + admin_user \<times> database" where
  "CreateUser ax orgID email name password role db =
    (case ax_hash ax password of
       None \<Rightarrow> Inl HashFailed
     | Some h \<Rightarrow>
        if dx_fails (ax_db ax) ''CreateUser'' then Inl (Statement DBFailed)
        else if \<exists>u\<in>set (db_users db). us_OrgID u = orgID \<and> us_Email u = email \<or> us_ID u = dx_uuid (ax_db ax) then Inl (Statement DuplicateKey)
        else if \<not> (\<exists>o'\<in>set (db_organizations db). og_ID o' = orgID) \<or> role \<notin> set user_roles then Inl (Statement ConstraintViolated)
        else let row = \<lparr>us_ID = dx_uuid (ax_db ax), us_OrgID = orgID, us_Email = email, us_Name = name, us_PasswordHash = h, us_Role = role,
               us_MustChangePassword = True, us_TermsAcceptedAt = None, us_CreatedAt = ax_now ax, us_UpdatedAt = ax_now ax\<rparr>
             in Inr (row, db\<lparr>db_users := db_users db @ [row]\<rparr>))"

definition GetUserByEmail :: "auth_env \<Rightarrow> string \<Rightarrow> database \<Rightarrow> db_error + admin_user option" where
  "GetUserByEmail ax email db = run_statement (ax_db ax) ''GetUserByEmail''
    (case filter (\<lambda>u. us_Email u = email) (db_users db) of [] \<Rightarrow> None | u # us \<Rightarrow> Some (ax_row ax (u # us)))"

definition GetUserByID :: "db_env \<Rightarrow> string \<Rightarrow> database \<Rightarrow> db_error + admin_user option" where
  "GetUserByID env i db = run_statement env ''GetUserByID'' (find (\<lambda>u. us_ID u = i) (db_users db))"

definition ListUsers :: "db_env \<Rightarrow> string \<Rightarrow> database \<Rightarrow> db_error + admin_user list" where
  "ListUsers env orgID db = run_statement env ''ListUsers'' (sort_key us_CreatedAt (filter (\<lambda>u. us_OrgID u = orgID) (db_users db)))"

text \<open>Deleting a user deletes its sessions (migration 010).\<close>

definition DeleteUser :: "db_env \<Rightarrow> string \<Rightarrow> database \<Rightarrow> db_error + database" where
  "DeleteUser env i db = run_statement env ''DeleteUser''
    (db\<lparr>db_users := filter (\<lambda>u. us_ID u \<noteq> i) (db_users db), db_sessions := filter (\<lambda>s. se_UserID s \<noteq> i) (db_sessions db)\<rparr>)"

definition AcceptUserTerms :: "db_env \<Rightarrow> string \<Rightarrow> database \<Rightarrow> db_error + database" where
  "AcceptUserTerms env i db = run_statement env ''AcceptUserTerms''
    (db\<lparr>db_users := update_where (\<lambda>u. us_ID u = i)
      (\<lambda>u. u\<lparr>us_TermsAcceptedAt := Some (case us_TermsAcceptedAt u of Some t \<Rightarrow> t | None \<Rightarrow> dx_now env), us_UpdatedAt := dx_now env\<rparr>) (db_users db)\<rparr>)"

definition CheckPassword :: "auth_env \<Rightarrow> admin_user \<Rightarrow> string \<Rightarrow> bool" where
  "CheckPassword ax user password = ax_check ax (us_PasswordHash user) password"

definition HashSessionToken :: "string \<Rightarrow> string" where
  "HashSessionToken raw = hex_encode (sha256 raw)"

definition GenerateSessionToken :: "nat list option \<Rightarrow> (string \<times> string) option" where
  "GenerateSessionToken random = (case random of None \<Rightarrow> None | Some b \<Rightarrow> let raw = hex_encode b in Some (raw, HashSessionToken raw))"

definition CreateSession :: "db_env \<Rightarrow> string \<Rightarrow> string \<Rightarrow> time \<Rightarrow> database \<Rightarrow> db_error + database" where
  "CreateSession env userID tokenHash expiresAt db =
    (if dx_fails env ''CreateSession'' then Inl DBFailed
     else if \<exists>s\<in>set (db_sessions db). se_TokenHash s = tokenHash then Inl DuplicateKey
     else if \<not> (\<exists>u\<in>set (db_users db). us_ID u = userID) then Inl ConstraintViolated
     else Inr (db\<lparr>db_sessions := db_sessions db @
       [\<lparr>se_UserID = userID, se_TokenHash = tokenHash, se_ExpiresAt = expiresAt, se_CreatedAt = dx_now env\<rparr>]\<rparr>))"

definition GetSessionByToken :: "db_env \<Rightarrow> string \<Rightarrow> database \<Rightarrow> db_error + session_row option" where
  "GetSessionByToken env tokenHash db = run_statement env ''GetSessionByToken''
    (find (\<lambda>s. se_TokenHash s = tokenHash \<and> se_ExpiresAt s > dx_now env) (db_sessions db))"

definition DeleteSession :: "db_env \<Rightarrow> string \<Rightarrow> database \<Rightarrow> db_error + database" where
  "DeleteSession env tokenHash db = run_statement env ''DeleteSession''
    (db\<lparr>db_sessions := filter (\<lambda>s. se_TokenHash s \<noteq> tokenHash) (db_sessions db)\<rparr>)"

definition CleanExpiredSessions :: "db_env \<Rightarrow> database \<Rightarrow> db_error + nat \<times> database" where
  "CleanExpiredSessions env db = run_statement env ''CleanExpiredSessions''
    (length (filter (\<lambda>s. se_ExpiresAt s \<le> dx_now env) (db_sessions db)),
     db\<lparr>db_sessions := filter (\<lambda>s. \<not> se_ExpiresAt s \<le> dx_now env) (db_sessions db)\<rparr>)"

text \<open>One transaction: the password, the deletion of every session of the user, and a new session.\<close>

definition RotateUserPasswordAndSessions :: "auth_env \<Rightarrow> string \<Rightarrow> string \<Rightarrow> string \<Rightarrow> time \<Rightarrow> database \<Rightarrow> user_error + database" where
  "RotateUserPasswordAndSessions ax i newPassword newTokenHash expiresAt db =
    (case ax_hash ax newPassword of
       None \<Rightarrow> Inl HashFailed
     | Some h \<Rightarrow> stated
        (and_then (run_statement (ax_db ax) ''RotateUserPassword''
            (db\<lparr>db_users := update_where (\<lambda>u. us_ID u = i)
              (\<lambda>u. u\<lparr>us_PasswordHash := h, us_MustChangePassword := False, us_UpdatedAt := ax_now ax\<rparr>) (db_users db)\<rparr>))
         (\<lambda>db1. and_then (run_statement (ax_db ax) ''DeleteUserSessions'' (db1\<lparr>db_sessions := filter (\<lambda>s. se_UserID s \<noteq> i) (db_sessions db1)\<rparr>))
           (\<lambda>db2. and_then (CreateSession (ax_db ax) i newTokenHash expiresAt db2) (run_statement (ax_db ax) ''Commit'')))))"

definition GetOrganizationByID :: "db_env \<Rightarrow> string \<Rightarrow> database \<Rightarrow> db_error + organization option" where
  "GetOrganizationByID env i db = run_statement env ''GetOrganizationByID'' (find (\<lambda>o'. og_ID o' = i) (db_organizations db))"

definition UpdateOrganization :: "db_env \<Rightarrow> string \<Rightarrow> string \<Rightarrow> string \<Rightarrow> database \<Rightarrow> db_error + database" where
  "UpdateOrganization env i name slug db =
    (if dx_fails env ''UpdateOrganization'' then Inl DBFailed
     else if \<exists>o'\<in>set (db_organizations db). og_Slug o' = slug \<and> og_ID o' \<noteq> i then Inl DuplicateKey
     else Inr (db\<lparr>db_organizations := update_where (\<lambda>o'. og_ID o' = i)
       (\<lambda>o'. o'\<lparr>og_Name := name, og_Slug := slug, og_UpdatedAt := dx_now env\<rparr>) (db_organizations db)\<rparr>))"

section \<open>Sessions and roles of a request\<close>

definition withSession :: "db_env \<Rightarrow> api_request \<Rightarrow> database \<Rightarrow> refusal + admin_user" where
  "withSession env r db =
    (let token = extractSessionToken r in
     if token = [] then Inl (401, ''UNAUTHORIZED'')
     else case GetSessionByToken env (HashSessionToken token) db of
         Inl _ \<Rightarrow> Inl internal_error
       | Inr None \<Rightarrow> Inl (401, ''SESSION_EXPIRED'')
       | Inr (Some session) \<Rightarrow>
          (case GetUserByID env (se_UserID session) db of
             Inr (Some user) \<Rightarrow>
              if us_MustChangePassword user \<and> \<not> passwordChangeExempt r then Inl (403, ''PASSWORD_CHANGE_REQUIRED'')
              else Inr user
           | _ \<Rightarrow> Inl (401, ''UNAUTHORIZED'')))"

definition roleLevel :: "string \<Rightarrow> int" where
  "roleLevel role = (if role = ''viewer'' then 1 else if role = ''admin'' then 2 else if role = ''owner'' then 3 else 0)"

definition hasMinimumRole :: "string \<Rightarrow> string \<Rightarrow> bool" where
  "hasMinimumRole userRole minRole = (roleLevel minRole \<le> roleLevel userRole)"

definition withRole :: "string \<Rightarrow> db_env \<Rightarrow> api_request \<Rightarrow> database \<Rightarrow> refusal + admin_user" where
  "withRole minRole env r db = and_then (withSession env r db)
    (\<lambda>user. if hasMinimumRole (us_Role user) minRole then Inr user else Inl (403, ''FORBIDDEN''))"

section \<open>Handlers\<close>

record user_payload =
  up_id :: string
  up_email :: string
  up_name :: string
  up_role :: string
  up_org_id :: string
  up_must_change_password :: bool
  up_terms_accepted_at :: "time option"
  up_org_name :: "string option"

definition dashboardUserPayload :: "admin_user \<Rightarrow> string \<Rightarrow> user_payload" where
  "dashboardUserPayload user orgName =
    \<lparr>up_id = us_ID user, up_email = us_Email user, up_name = us_Name user, up_role = us_Role user, up_org_id = us_OrgID user,
     up_must_change_password = us_MustChangePassword user, up_terms_accepted_at = us_TermsAcceptedAt user,
     up_org_name = (if orgName \<noteq> [] then Some orgName else None)\<rparr>"

record login_request =
  lq_Email :: string
  lq_Password :: string

record login_response =
  lr_token :: string
  lr_expires_at :: time
  lr_user :: user_payload
  lr_cookie :: http_cookie

definition handleLogin :: "backend_config \<Rightarrow> auth_env \<Rightarrow> api_request \<Rightarrow> login_request option \<Rightarrow> database \<Rightarrow> login_response answer \<times> database" where
  "handleLogin cfg ax r body db =
    (case body of
       None \<Rightarrow> (Refused (400, ''INVALID_REQUEST''), db)
     | Some req \<Rightarrow>
        if lq_Email req = [] \<or> lq_Password req = [] then (Refused (400, ''INVALID_REQUEST''), db)
        else case GetUserByEmail ax (lq_Email req) db of
            Inl _ \<Rightarrow> (Refused internal_error, db)
          | Inr None \<Rightarrow> (Refused (401, ''INVALID_CREDENTIALS''), db)
          | Inr (Some user) \<Rightarrow>
             if \<not> CheckPassword ax user (lq_Password req) then (Refused (401, ''INVALID_CREDENTIALS''), db)
             else (case GenerateSessionToken (rx_token (ax_request ax)) of
                 None \<Rightarrow> (Refused internal_error, db)
               | Some (rawToken, tokenHash) \<Rightarrow>
                  (let expiresAt = ax_now ax + bc_tokenTTL cfg in
                   case CreateSession (ax_db ax) (us_ID user) tokenHash expiresAt db of
                     Inl _ \<Rightarrow> (Refused internal_error, db)
                   | Inr db' \<Rightarrow> (Answered 200 \<lparr>lr_token = rawToken, lr_expires_at = expiresAt, lr_user = dashboardUserPayload user [],
                        lr_cookie = setSessionCookie (ax_now ax) r rawToken expiresAt\<rparr>, db'))))"

definition handleLogout :: "db_env \<Rightarrow> api_request \<Rightarrow> database \<Rightarrow> http_cookie answer \<times> database" where
  "handleLogout env r db =
    (let token = extractSessionToken r;
         db' = (if token = [] then db else case DeleteSession env (HashSessionToken token) db of Inl _ \<Rightarrow> db | Inr d \<Rightarrow> d) in
     (Answered 200 (clearSessionCookie r), db'))"

text \<open>The organisation's name of an answer: a failed or empty query leaves it out.\<close>

definition org_name_of :: "db_error + organization option \<Rightarrow> string" where
  "org_name_of q = (case q of Inr (Some o') \<Rightarrow> og_Name o' | _ \<Rightarrow> [])"

definition handleMe :: "db_env \<Rightarrow> admin_user option \<Rightarrow> database \<Rightarrow> user_payload answer" where
  "handleMe env user db =
    (case user of
       None \<Rightarrow> Refused (401, ''UNAUTHORIZED'')
     | Some u \<Rightarrow> Answered 200 (dashboardUserPayload u (org_name_of (GetOrganizationByID env (us_OrgID u) db))))"

definition handleAcceptTerms :: "db_env \<Rightarrow> admin_user option \<Rightarrow> database \<Rightarrow> user_payload answer \<times> database" where
  "handleAcceptTerms env user db =
    (case user of
       None \<Rightarrow> (Refused (401, ''UNAUTHORIZED''), db)
     | Some u \<Rightarrow>
        (case AcceptUserTerms env (us_ID u) db of
           Inl _ \<Rightarrow> (Refused internal_error, db)
         | Inr db' \<Rightarrow>
            (case GetUserByID env (us_ID u) db' of
               Inr (Some updated) \<Rightarrow>
                (Answered 200 (dashboardUserPayload updated (org_name_of (GetOrganizationByID env (us_OrgID updated) db'))), db')
             | _ \<Rightarrow> (Refused internal_error, db'))))"

record safe_user =
  sf_ID :: string
  sf_Email :: string
  sf_Name :: string
  sf_Role :: string

text \<open>
The organisation of the answer is dereferenced without a test: \<open>None\<close> stands for the panic of a missing row, which the
foreign key of migration 009 rules out.
\<close>

definition handleGetSettings :: "db_env \<Rightarrow> admin_user option \<Rightarrow> database \<Rightarrow> (organization option \<times> safe_user list) answer" where
  "handleGetSettings env user db =
    (case user of
       None \<Rightarrow> Refused (401, ''UNAUTHORIZED'')
     | Some u \<Rightarrow>
        (case (GetOrganizationByID env (us_OrgID u) db, ListUsers env (us_OrgID u) db) of
           (Inr org, Inr users) \<Rightarrow> Answered 200 (org,
              map (\<lambda>v. \<lparr>sf_ID = us_ID v, sf_Email = us_Email v, sf_Name = us_Name v, sf_Role = us_Role v\<rparr>) users)
         | _ \<Rightarrow> Refused internal_error))"

record settings_request =
  st_Name :: string
  st_Slug :: string

definition handleUpdateSettings :: "db_env \<Rightarrow> admin_user option \<Rightarrow> settings_request option \<Rightarrow> database \<Rightarrow> unit answer \<times> database" where
  "handleUpdateSettings env user body db =
    (case user of
       None \<Rightarrow> (Refused (401, ''UNAUTHORIZED''), db)
     | Some u \<Rightarrow>
        (case body of
           None \<Rightarrow> (Refused (400, ''INVALID_REQUEST''), db)
         | Some req \<Rightarrow>
            if st_Name req = [] \<or> st_Slug req = [] then (Refused (400, ''INVALID_REQUEST''), db)
            else (case UpdateOrganization env (us_OrgID u) (st_Name req) (st_Slug req) db of
                Inl _ \<Rightarrow> (Refused internal_error, db)
              | Inr db' \<Rightarrow> (Answered 200 (), db'))))"

record create_user_request =
  cu_Email :: string
  cu_Name :: string
  cu_Password :: string
  cu_Role :: string

definition handleCreateUser :: "auth_env \<Rightarrow> admin_user option \<Rightarrow> create_user_request option \<Rightarrow> database \<Rightarrow> safe_user answer \<times> database" where
  "handleCreateUser ax user body db =
    (case user of
       None \<Rightarrow> (Refused (401, ''UNAUTHORIZED''), db)
     | Some u \<Rightarrow>
        (case body of
           None \<Rightarrow> (Refused (400, ''INVALID_REQUEST''), db)
         | Some req \<Rightarrow>
            if cu_Email req = [] \<or> cu_Name req = [] \<or> cu_Password req = [] then (Refused (400, ''INVALID_REQUEST''), db)
            else (let role = (if cu_Role req \<in> set [''viewer'', ''admin'', ''owner''] then cu_Role req else ''viewer'') in
              case CreateUser ax (us_OrgID u) (cu_Email req) (cu_Name req) (cu_Password req) role db of
                Inl _ \<Rightarrow> (Refused internal_error, db)
              | Inr (v, db') \<Rightarrow> (Answered 201 \<lparr>sf_ID = us_ID v, sf_Email = us_Email v, sf_Name = us_Name v, sf_Role = us_Role v\<rparr>, db'))))"

definition handleDeleteUser :: "db_env \<Rightarrow> admin_user option \<Rightarrow> string \<Rightarrow> database \<Rightarrow> unit answer \<times> database" where
  "handleDeleteUser env user targetID db =
    (case user of
       None \<Rightarrow> (Refused (401, ''UNAUTHORIZED''), db)
     | Some u \<Rightarrow>
        if targetID = us_ID u then (Refused (400, ''INVALID_REQUEST''), db)
        else (case GetUserByID env targetID db of
            Inl _ \<Rightarrow> (Refused internal_error, db)
          | Inr None \<Rightarrow> (Refused (404, ''NOT_FOUND''), db)
          | Inr (Some target) \<Rightarrow>
             if us_OrgID target \<noteq> us_OrgID u then (Refused (404, ''NOT_FOUND''), db)
             else (case DeleteUser env targetID db of
                 Inl _ \<Rightarrow> (Refused internal_error, db)
               | Inr db' \<Rightarrow> (Answered 200 (), db'))))"

record password_request =
  pr_CurrentPassword :: string
  pr_NewPassword :: string

record password_response =
  po_token :: string
  po_expires_at :: time
  po_cookie :: http_cookie

definition handleChangePassword :: "backend_config \<Rightarrow> auth_env \<Rightarrow> api_request \<Rightarrow> admin_user option \<Rightarrow> password_request option \<Rightarrow> database \<Rightarrow> password_response answer \<times> database" where
  "handleChangePassword cfg ax r user body db =
    (case user of
       None \<Rightarrow> (Refused (401, ''UNAUTHORIZED''), db)
     | Some u \<Rightarrow>
        (case body of
           None \<Rightarrow> (Refused (400, ''INVALID_REQUEST''), db)
         | Some req \<Rightarrow>
            if pr_CurrentPassword req = [] \<or> pr_NewPassword req = [] then (Refused (400, ''INVALID_REQUEST''), db)
            else if length (pr_NewPassword req) < 8 then (Refused (400, ''INVALID_REQUEST''), db)
            else if \<not> CheckPassword ax u (pr_CurrentPassword req) then (Refused (401, ''INVALID_CREDENTIALS''), db)
            else (case GenerateSessionToken (rx_token (ax_request ax)) of
                None \<Rightarrow> (Refused internal_error, db)
              | Some (rawToken, tokenHash) \<Rightarrow>
                 (let expiresAt = ax_now ax + bc_tokenTTL cfg in
                  case RotateUserPasswordAndSessions ax (us_ID u) (pr_NewPassword req) tokenHash expiresAt db of
                    Inl _ \<Rightarrow> (Refused internal_error, db)
                  | Inr db' \<Rightarrow> (Answered 200 \<lparr>po_token = rawToken, po_expires_at = expiresAt,
                      po_cookie = setSessionCookie (ax_now ax) r rawToken expiresAt\<rparr>, db')))))"

section \<open>Organisations\<close>

definition org_slug_ok :: "string \<Rightarrow> bool" where
  "org_slug_ok s = (let low = (\<lambda>c. is_lower c \<or> is_digit c) in
     3 \<le> length s \<and> length s \<le> 64 \<and> low (hd s) \<and> low (last s) \<and> list_all (\<lambda>c. low c \<or> c = CHR ''-'') s)"

record create_org_request =
  co_Name :: string
  co_Slug :: string

definition create_org_audit :: "organization \<Rightarrow> audit_row" where
  "create_org_audit org =
    \<lparr>au_ActorType = ''system'', au_ActorID = ''api-key'', au_OrgID = Some (og_ID org), au_Action = ''org.created'',
     au_ResourceType = ''organization'', au_ResourceID = og_ID org,
     au_Details = [(''name'', VString (og_Name org)), (''slug'', VString (og_Slug org))], au_IPAddress = None\<rparr>"

definition handleCreateOrg :: "request_env \<Rightarrow> create_org_request option \<Rightarrow> database \<Rightarrow> (string \<times> string \<times> string \<times> string) answer \<times> database" where
  "handleCreateOrg env body db =
    (case body of
       None \<Rightarrow> (Refused (400, ''INVALID_REQUEST''), db)
     | Some req \<Rightarrow>
        (let name = trim_space (co_Name req); slug = to_lower (trim_space (co_Slug req)) in
         if name = [] \<or> slug = [] \<or> \<not> org_slug_ok slug then (Refused (400, ''INVALID_REQUEST''), db)
         else case token_Generate (rx_token env) of
             None \<Rightarrow> (Refused internal_error, db)
           | Some (rawAPIKey, apiKeyHash) \<Rightarrow>
              (case CreateOrganization (rx_db env) name slug apiKeyHash db of
                 Inl DuplicateKey \<Rightarrow> (Refused (409, ''ORG_EXISTS''), db)
               | Inl _ \<Rightarrow> (Refused internal_error, db)
               | Inr (org, db') \<Rightarrow> (Answered 201 (og_ID org, og_Name org, og_Slug org, rawAPIKey), audit_outside (rx_db env) (create_org_audit org) db'))))"

record operator_org_request =
  oo_Name :: string
  oo_Slug :: string
  oo_OwnerEmail :: string
  oo_OwnerName :: string
  oo_OwnerPassword :: string
  oo_PublicBackendURL :: string
  oo_PublicGatewayURL :: string

definition operator_org_audit :: "string \<Rightarrow> string \<Rightarrow> string \<Rightarrow> string \<Rightarrow> string \<Rightarrow> string \<Rightarrow> string \<Rightarrow> audit_row" where
  "operator_org_audit actor orgID name slug email backendURL gatewayURL =
    \<lparr>au_ActorType = ''system'', au_ActorID = actor, au_OrgID = Some orgID, au_Action = ''operator.org.registered'',
     au_ResourceType = ''organization'', au_ResourceID = orgID,
     au_Details = [(''name'', VString name), (''slug'', VString slug), (''owner_email'', VString email),
       (''public_backend_url'', VString backendURL), (''public_gateway_url'', VString gatewayURL)], au_IPAddress = None\<rparr>"

text \<open>The rows are written one after the other, without a transaction: a failure leaves the rows before it.\<close>

definition handleOperatorCreateOrg :: "auth_env \<Rightarrow> string \<Rightarrow> operator_org_request option \<Rightarrow> database \<Rightarrow> (safe_user \<times> string) answer \<times> database" where
  "handleOperatorCreateOrg ax actor body db =
    (case body of
       None \<Rightarrow> (Refused (400, ''INVALID_REQUEST''), db)
     | Some req \<Rightarrow>
        (let name = trim_space (oo_Name req); slug = to_lower (trim_space (oo_Slug req)); email = to_lower (trim_space (oo_OwnerEmail req));
             backendURL = trim_space (oo_PublicBackendURL req); gatewayURL = trim_space (oo_PublicGatewayURL req);
             ownerName = (if trim_space (oo_OwnerName req) = [] then ''Owner'' else trim_space (oo_OwnerName req)) in
         if name = [] \<or> slug = [] \<or> \<not> org_slug_ok slug \<or> email = [] \<or> oo_OwnerPassword req = [] then (Refused (400, ''INVALID_REQUEST''), db)
         else if validatePublicURL backendURL False \<noteq> None then (Refused (400, ''INVALID_BACKEND_URL''), db)
         else if validatePublicURL gatewayURL False \<noteq> None then (Refused (400, ''INVALID_GATEWAY_URL''), db)
         else case token_Generate (rx_token (ax_request ax)) of
             None \<Rightarrow> (Refused internal_error, db)
           | Some (rawAPIKey, apiKeyHash) \<Rightarrow>
              (case CreateOrganization (ax_db ax) name slug apiKeyHash db of
                 Inl DuplicateKey \<Rightarrow> (Refused (409, ''ORG_EXISTS''), db)
               | Inl _ \<Rightarrow> (Refused internal_error, db)
               | Inr (org, db1) \<Rightarrow>
                  (case (if backendURL \<noteq> [] \<or> gatewayURL \<noteq> [] then UpdateOrganizationProvisioning (ax_db ax) (og_ID org) backendURL gatewayURL db1 else Inr db1) of
                     Inl _ \<Rightarrow> (Refused internal_error, db1)
                   | Inr db2 \<Rightarrow>
                      (case CreateUser ax (og_ID org) email ownerName (oo_OwnerPassword req) ''owner'' db2 of
                         Inl _ \<Rightarrow> (Refused internal_error, db2)
                       | Inr (owner, db3) \<Rightarrow>
                          (Answered 201 (\<lparr>sf_ID = us_ID owner, sf_Email = us_Email owner, sf_Name = us_Name owner, sf_Role = us_Role owner\<rparr>, rawAPIKey),
                           audit_outside (ax_db ax) (operator_org_audit actor (og_ID org) name slug email backendURL gatewayURL) db3))))))"

section \<open>Requests in sequence\<close>

text \<open>A handler behind a session or role check.\<close>

definition as_user :: "refusal + admin_user \<Rightarrow> (admin_user \<Rightarrow> 'b answer \<times> database) \<Rightarrow> database \<Rightarrow> 'b answer \<times> database" where
  "as_user guard handler db = (case guard of Inl e \<Rightarrow> (Refused e, db) | Inr u \<Rightarrow> handler u)"

datatype auth_op =
    Login auth_env api_request "login_request option"
  | Logout db_env api_request
  | AcceptTerms db_env api_request
  | UpdateSettings db_env api_request "settings_request option"
  | AddUser auth_env api_request "create_user_request option"
  | RemoveUser db_env api_request string
  | ChangePassword auth_env api_request "password_request option"
  | CreateOrg request_env "create_org_request option"
  | OperatorCreateOrg auth_env string "operator_org_request option"
  | CleanSessions db_env

definition serve_terms :: "db_env \<Rightarrow> api_request \<Rightarrow> database \<Rightarrow> user_payload answer \<times> database" where
  "serve_terms env r db = as_user (withSession env r db) (\<lambda>u. handleAcceptTerms env (Some u) db) db"

definition serve_settings :: "db_env \<Rightarrow> api_request \<Rightarrow> settings_request option \<Rightarrow> database \<Rightarrow> unit answer \<times> database" where
  "serve_settings env r body db = as_user (withRole ''admin'' env r db) (\<lambda>u. handleUpdateSettings env (Some u) body db) db"

definition serve_add_user :: "auth_env \<Rightarrow> api_request \<Rightarrow> create_user_request option \<Rightarrow> database \<Rightarrow> safe_user answer \<times> database" where
  "serve_add_user ax r body db = as_user (withRole ''owner'' (ax_db ax) r db) (\<lambda>u. handleCreateUser ax (Some u) body db) db"

definition serve_remove_user :: "db_env \<Rightarrow> api_request \<Rightarrow> string \<Rightarrow> database \<Rightarrow> unit answer \<times> database" where
  "serve_remove_user env r target db = as_user (withRole ''owner'' env r db) (\<lambda>u. handleDeleteUser env (Some u) target db) db"

definition serve_password :: "backend_config \<Rightarrow> auth_env \<Rightarrow> api_request \<Rightarrow> password_request option \<Rightarrow> database \<Rightarrow> password_response answer \<times> database" where
  "serve_password cfg ax r body db = as_user (withSession (ax_db ax) r db) (\<lambda>u. handleChangePassword cfg ax r (Some u) body db) db"

fun auth_exec :: "backend_config \<Rightarrow> auth_op \<Rightarrow> database \<Rightarrow> database" where
  "auth_exec cfg (Login ax r body) db = snd (handleLogin cfg ax r body db)"
| "auth_exec cfg (Logout env r) db = snd (handleLogout env r db)"
| "auth_exec cfg (AcceptTerms env r) db = snd (serve_terms env r db)"
| "auth_exec cfg (UpdateSettings env r body) db = snd (serve_settings env r body db)"
| "auth_exec cfg (AddUser ax r body) db = snd (serve_add_user ax r body db)"
| "auth_exec cfg (RemoveUser env r target) db = snd (serve_remove_user env r target db)"
| "auth_exec cfg (ChangePassword ax r body) db = snd (serve_password cfg ax r body db)"
| "auth_exec cfg (CreateOrg env body) db = snd (handleCreateOrg env body db)"
| "auth_exec cfg (OperatorCreateOrg ax actor body) db = snd (handleOperatorCreateOrg ax actor body db)"
| "auth_exec cfg (CleanSessions env) db = (case CleanExpiredSessions env db of Inl _ \<Rightarrow> db | Inr (_, db') \<Rightarrow> db')"

definition auth_run :: "backend_config \<Rightarrow> auth_op list \<Rightarrow> database \<Rightarrow> database" where
  "auth_run cfg ops db = fold (auth_exec cfg) ops db"

lemma auth_run_snoc: "auth_run cfg (ops @ [op]) db = auth_exec cfg op (auth_run cfg ops db)"
  by (simp add: auth_run_def)

lemma auth_run_Nil: "auth_run cfg [] db = db"
  by (simp add: auth_run_def)

text \<open>The session an operation hands out, and the sessions it ends.\<close>

fun granted :: "backend_config \<Rightarrow> auth_op \<Rightarrow> database \<Rightarrow> session_row option" where
  "granted cfg (Login ax r body) db =
    (case fst (handleLogin cfg ax r body db) of
       Answered _ resp \<Rightarrow> Some \<lparr>se_UserID = up_id (lr_user resp), se_TokenHash = HashSessionToken (lr_token resp),
         se_ExpiresAt = lr_expires_at resp, se_CreatedAt = ax_now ax\<rparr>
     | Refused _ \<Rightarrow> None)"
| "granted cfg (ChangePassword ax r body) db =
    (case (withSession (ax_db ax) r db, fst (serve_password cfg ax r body db)) of
       (Inr u, Answered _ resp) \<Rightarrow> Some \<lparr>se_UserID = us_ID u, se_TokenHash = HashSessionToken (po_token resp),
         se_ExpiresAt = po_expires_at resp, se_CreatedAt = ax_now ax\<rparr>
     | _ \<Rightarrow> None)"
| "granted cfg _ db = None"

definition answered :: "'b answer \<Rightarrow> bool" where
  "answered a = (case a of Answered _ _ \<Rightarrow> True | Refused _ \<Rightarrow> False)"

fun ended :: "backend_config \<Rightarrow> auth_op \<Rightarrow> database \<Rightarrow> session_row \<Rightarrow> bool" where
  "ended cfg (Logout env r) db s = (extractSessionToken r \<noteq> [] \<and> se_TokenHash s = HashSessionToken (extractSessionToken r) \<and> \<not> dx_fails env ''DeleteSession'')"
| "ended cfg (RemoveUser env r target) db s = (answered (fst (serve_remove_user env r target db)) \<and> se_UserID s = target)"
| "ended cfg (ChangePassword ax r body) db s = (\<exists>s'. granted cfg (ChangePassword ax r body) db = Some s' \<and> se_UserID s = se_UserID s')"
| "ended cfg (CleanSessions env) db s = (\<not> dx_fails env ''CleanExpiredSessions'' \<and> se_ExpiresAt s \<le> dx_now env)"
| "ended cfg _ db s = False"

lemmas auth_outcomes = sum.split answer.split option.split prod.split db_error.split

lemma createSession_ok: "CreateSession env i h t db = Inr db' \<Longrightarrow>
    db' = db\<lparr>db_sessions := db_sessions db @ [\<lparr>se_UserID = i, se_TokenHash = h, se_ExpiresAt = t, se_CreatedAt = dx_now env\<rparr>]\<rparr>"
  by (auto simp: CreateSession_def split: if_splits)

lemma rotate_ok: "RotateUserPasswordAndSessions ax i p h t db = Inr db' \<Longrightarrow>
    \<exists>ph. ax_hash ax p = Some ph \<and> db' = db\<lparr>db_users := update_where (\<lambda>u. us_ID u = i)
              (\<lambda>u. u\<lparr>us_PasswordHash := ph, us_MustChangePassword := False, us_UpdatedAt := ax_now ax\<rparr>) (db_users db),
      db_sessions := filter (\<lambda>s. se_UserID s \<noteq> i) (db_sessions db) @
        [\<lparr>se_UserID = i, se_TokenHash = h, se_ExpiresAt = t, se_CreatedAt = ax_now ax\<rparr>]\<rparr>"
  by (auto simp: RotateUserPasswordAndSessions_def stated_def and_then_def run_statement_def dest!: createSession_ok split: option.splits if_splits sum.splits)

lemma generate_ok: "GenerateSessionToken rnd = Some (raw, h) \<Longrightarrow> h = HashSessionToken raw"
  by (auto simp: GenerateSessionToken_def Let_def split: option.splits)

lemma login_cases:
  obtains (refused) e where "handleLogin cfg ax r body db = (Refused e, db)"
  | (ok) req user raw where "body = Some req" "lq_Password req \<noteq> []" "filter (\<lambda>u. us_Email u = lq_Email req) (db_users db) \<noteq> []"
      "user = ax_row ax (filter (\<lambda>u. us_Email u = lq_Email req) (db_users db))" "ax_check ax (us_PasswordHash user) (lq_Password req)"
      "handleLogin cfg ax r body db = (Answered 200 \<lparr>lr_token = raw, lr_expires_at = ax_now ax + bc_tokenTTL cfg, lr_user = dashboardUserPayload user [],
          lr_cookie = setSessionCookie (ax_now ax) r raw (ax_now ax + bc_tokenTTL cfg)\<rparr>,
        db\<lparr>db_sessions := db_sessions db @ [\<lparr>se_UserID = us_ID user, se_TokenHash = HashSessionToken raw, se_ExpiresAt = ax_now ax + bc_tokenTTL cfg,
          se_CreatedAt = ax_now ax\<rparr>]\<rparr>)"
proof (cases "\<exists>e. handleLogin cfg ax r body db = (Refused e, db)")
  case True
  then show ?thesis using refused by blast
next
  case False
  then obtain req where b: "body = Some req" by (cases body) (auto simp: handleLogin_def internal_error_def)
  have ne: "lq_Email req \<noteq> []" "lq_Password req \<noteq> []" using False b by (auto simp: handleLogin_def internal_error_def)
  from False b ne obtain user where u: "GetUserByEmail ax (lq_Email req) db = Inr (Some user)"
    by (auto simp: handleLogin_def internal_error_def split: sum.splits option.splits)
  from False b ne u have c: "CheckPassword ax user (lq_Password req)" by (auto simp: handleLogin_def split: if_splits)
  from False b ne u c obtain raw where g: "GenerateSessionToken (rx_token (ax_request ax)) = Some (raw, HashSessionToken raw)"
    by (auto simp: handleLogin_def internal_error_def dest: generate_ok split: option.splits)
  from False b ne u c g obtain db' where s: "CreateSession (ax_db ax) (us_ID user) (HashSessionToken raw) (ax_now ax + bc_tokenTTL cfg) db = Inr db'"
    by (auto simp: handleLogin_def internal_error_def Let_def split: sum.splits)
  have "filter (\<lambda>u. us_Email u = lq_Email req) (db_users db) \<noteq> []" "user = ax_row ax (filter (\<lambda>u. us_Email u = lq_Email req) (db_users db))"
    using u by (auto simp: GetUserByEmail_def run_statement_def split: if_splits list.splits)
  then show ?thesis using ok[OF b ne(2)] b ne u c g s createSession_ok[OF s] by (simp add: handleLogin_def Let_def CheckPassword_def)
qed

lemma password_cases:
  obtains (refused) e where "handleChangePassword cfg ax r (Some u) body db = (Refused e, db)"
  | (ok) req raw h where "body = Some req" "ax_check ax (us_PasswordHash u) (pr_CurrentPassword req)" "8 \<le> length (pr_NewPassword req)"
      "GenerateSessionToken (rx_token (ax_request ax)) = Some (raw, HashSessionToken raw)" "ax_hash ax (pr_NewPassword req) = Some h"
      "handleChangePassword cfg ax r (Some u) body db = (Answered 200 \<lparr>po_token = raw, po_expires_at = ax_now ax + bc_tokenTTL cfg,
          po_cookie = setSessionCookie (ax_now ax) r raw (ax_now ax + bc_tokenTTL cfg)\<rparr>,
        db\<lparr>db_users := update_where (\<lambda>v. us_ID v = us_ID u)
              (\<lambda>v. v\<lparr>us_PasswordHash := h, us_MustChangePassword := False, us_UpdatedAt := ax_now ax\<rparr>) (db_users db),
           db_sessions := filter (\<lambda>s. se_UserID s \<noteq> us_ID u) (db_sessions db) @
            [\<lparr>se_UserID = us_ID u, se_TokenHash = HashSessionToken raw, se_ExpiresAt = ax_now ax + bc_tokenTTL cfg, se_CreatedAt = ax_now ax\<rparr>]\<rparr>)"
proof (cases "\<exists>e. handleChangePassword cfg ax r (Some u) body db = (Refused e, db)")
  case True
  then show ?thesis using refused by blast
next
  case False
  then obtain req where b: "body = Some req" by (cases body) (auto simp: handleChangePassword_def)
  have c: "\<not> (pr_CurrentPassword req = [] \<or> pr_NewPassword req = [])" "\<not> length (pr_NewPassword req) < 8" "CheckPassword ax u (pr_CurrentPassword req)"
    using False b by (auto simp: handleChangePassword_def internal_error_def split: if_splits)
  from False b c obtain raw where g: "GenerateSessionToken (rx_token (ax_request ax)) = Some (raw, HashSessionToken raw)"
    by (auto simp: handleChangePassword_def internal_error_def dest: generate_ok split: option.splits)
  from False b c g obtain db' where s: "RotateUserPasswordAndSessions ax (us_ID u) (pr_NewPassword req) (HashSessionToken raw) (ax_now ax + bc_tokenTTL cfg) db = Inr db'"
    by (auto simp: handleChangePassword_def internal_error_def Let_def split: sum.splits)
  from rotate_ok[OF s] obtain h where h: "ax_hash ax (pr_NewPassword req) = Some h" "db' = db\<lparr>db_users := update_where (\<lambda>v. us_ID v = us_ID u)
              (\<lambda>v. v\<lparr>us_PasswordHash := h, us_MustChangePassword := False, us_UpdatedAt := ax_now ax\<rparr>) (db_users db),
      db_sessions := filter (\<lambda>s. se_UserID s \<noteq> us_ID u) (db_sessions db) @
        [\<lparr>se_UserID = us_ID u, se_TokenHash = HashSessionToken raw, se_ExpiresAt = ax_now ax + bc_tokenTTL cfg, se_CreatedAt = ax_now ax\<rparr>]\<rparr>" by blast
  show ?thesis
    by (rule ok[OF b _ _ g h(1)]) (use c h(2) b g s in \<open>simp_all add: handleChangePassword_def Let_def CheckPassword_def\<close>)
qed

text \<open>What every operation does to the sessions.\<close>

lemma insertAudit_parts: "InsertAudit env e db = Inr db' \<Longrightarrow> db' = db\<lparr>db_audit := db_audit db @ [e]\<rparr>"
  by (auto simp: InsertAudit_def split: if_splits)

lemma audit_outside_parts [simp]: "db_sessions (audit_outside env e db) = db_sessions db" "db_users (audit_outside env e db) = db_users db"
  "db_organizations (audit_outside env e db) = db_organizations db"
  by (auto simp: audit_outside_def dest: insertAudit_parts split: sum.split)

lemma createUser_ok: "CreateUser ax i e n p role db = Inr (v, db') \<Longrightarrow>
    db' = db\<lparr>db_users := db_users db @ [v]\<rparr> \<and> us_OrgID v = i \<and> (\<forall>u\<in>set (db_users db). us_ID u \<noteq> us_ID v)"
  by (auto simp: CreateUser_def Let_def split: option.splits if_splits)

lemma createOrganization_ok: "CreateOrganization env n s h db = Inr (org, db') \<Longrightarrow>
    db' = db\<lparr>db_organizations := db_organizations db @ [org]\<rparr> \<and> (\<forall>o'\<in>set (db_organizations db). og_ID o' \<noteq> og_ID org)"
  by (auto simp: CreateOrganization_def Let_def split: if_splits)

lemma createOrg_parts: "db_sessions (snd (handleCreateOrg env body db)) = db_sessions db" "db_users (snd (handleCreateOrg env body db)) = db_users db"
  by (auto simp: handleCreateOrg_def Let_def dest: createOrganization_ok split: option.split sum.split db_error.split)

lemma updateProvisioning_ok: "UpdateOrganizationProvisioning env i b g db = Inr db' \<Longrightarrow> db_users db' = db_users db \<and> db_sessions db' = db_sessions db"
  by (auto simp: UpdateOrganizationProvisioning_def run_statement_def split: if_splits)

lemma operatorCreateOrg_parts: "db_sessions (snd (handleOperatorCreateOrg ax actor body db)) = db_sessions db"
  "\<exists>vs. db_users (snd (handleOperatorCreateOrg ax actor body db)) = db_users db @ vs"
proof -
  have *: "\<exists>vs. db_sessions (snd (handleOperatorCreateOrg ax actor body db)) = db_sessions db
      \<and> db_users (snd (handleOperatorCreateOrg ax actor body db)) = db_users db @ vs"
  proof (cases body)
    case None
    then show ?thesis by (simp add: handleOperatorCreateOrg_def)
  next
    case (Some req)
    then show ?thesis
      by (auto simp: handleOperatorCreateOrg_def Let_def dest!: createOrganization_ok createUser_ok updateProvisioning_ok
          split: option.split sum.split db_error.split prod.split)
  qed
  show "db_sessions (snd (handleOperatorCreateOrg ax actor body db)) = db_sessions db"
    "\<exists>vs. db_users (snd (handleOperatorCreateOrg ax actor body db)) = db_users db @ vs" using * by auto
qed

lemma auth_exec_sessions:
  "db_sessions (auth_exec cfg op db) = filter (\<lambda>s. \<not> ended cfg op db s) (db_sessions db) @ (case granted cfg op db of None \<Rightarrow> [] | Some s \<Rightarrow> [s])"
proof (cases op)
  case (Login ax r body)
  show ?thesis unfolding Login
    by (cases rule: login_cases[of cfg ax r body db]) (simp_all add: dashboardUserPayload_def)
next
  case (Logout env r)
  then show ?thesis by (auto simp: handleLogout_def Let_def DeleteSession_def run_statement_def intro!: filter_cong)
next
  case (AcceptTerms env r)
  then show ?thesis
    by (auto simp: serve_terms_def as_user_def handleAcceptTerms_def AcceptUserTerms_def run_statement_def split: auth_outcomes)
next
  case (UpdateSettings env r body)
  then show ?thesis
    by (auto simp: serve_settings_def as_user_def handleUpdateSettings_def UpdateOrganization_def split: auth_outcomes)
next
  case (AddUser ax r body)
  then show ?thesis
    by (auto simp: serve_add_user_def as_user_def handleCreateUser_def Let_def dest: createUser_ok split: auth_outcomes)
next
  case (RemoveUser env r target)
  then show ?thesis
    by (auto simp: serve_remove_user_def as_user_def handleDeleteUser_def DeleteUser_def run_statement_def answered_def split: auth_outcomes)
next
  case (ChangePassword ax r body)
  show ?thesis
  proof (cases "withSession (ax_db ax) r db")
    case (Inl e)
    then show ?thesis by (simp add: ChangePassword serve_password_def as_user_def)
  next
    case (Inr u)
    then show ?thesis unfolding ChangePassword
      by (cases rule: password_cases[of cfg ax r u body db]) (simp_all add: serve_password_def as_user_def)
  qed
next
  case (CreateOrg env body)
  then show ?thesis by (simp add: createOrg_parts)
next
  case (OperatorCreateOrg ax actor body)
  then show ?thesis by (simp add: operatorCreateOrg_parts(1))
next
  case (CleanSessions env)
  then show ?thesis by (auto simp: CleanExpiredSessions_def run_statement_def)
qed

text \<open>The history of a session: it was handed out by some operation, and no later one ended it.\<close>

fun stays :: "backend_config \<Rightarrow> database \<Rightarrow> auth_op list \<Rightarrow> session_row \<Rightarrow> bool" where
  "stays cfg db [] s = True"
| "stays cfg db (op # ops) s = (\<not> ended cfg op db s \<and> stays cfg (auth_exec cfg op db) ops s)"

lemma stays_snoc: "stays cfg db (ops @ [op]) s = (stays cfg db ops s \<and> \<not> ended cfg op (auth_run cfg ops db) s)"
  by (induction ops arbitrary: db) (auto simp: auth_run_def)

definition handed_out :: "backend_config \<Rightarrow> database \<Rightarrow> auth_op list \<Rightarrow> auth_op list \<Rightarrow> auth_op \<Rightarrow> auth_op list \<Rightarrow> session_row \<Rightarrow> bool" where
  "handed_out cfg db ops before op after s =
    (ops = before @ op # after \<and> granted cfg op (auth_run cfg before db) = Some s \<and> stays cfg (auth_run cfg (before @ [op]) db) after s)"

lemma auth_run_append: "auth_run cfg (a @ b) db = auth_run cfg b (auth_run cfg a db)"
  by (simp add: auth_run_def)

lemma session_history: "db_sessions db = [] \<Longrightarrow>
    s \<in> set (db_sessions (auth_run cfg ops db)) \<longleftrightarrow> (\<exists>before op after. handed_out cfg db ops before op after s)"
proof (induction ops rule: rev_induct)
  case Nil
  then show ?case by (simp add: auth_run_Nil handed_out_def)
next
  case (snoc o' ops)
  have "(\<exists>before op after. handed_out cfg db (ops @ [o']) before op after s) \<longleftrightarrow>
      granted cfg o' (auth_run cfg ops db) = Some s \<or>
      (\<exists>before op after. handed_out cfg db ops before op after s) \<and> \<not> ended cfg o' (auth_run cfg ops db) s"
    (is "?l \<longleftrightarrow> ?g \<or> ?h \<and> ?e")
  proof
    assume ?l
    then obtain before op after where h: "handed_out cfg db (ops @ [o']) before op after s" by blast
    show "?g \<or> ?h \<and> ?e"
    proof (cases after rule: rev_cases)
      case Nil
      then show ?thesis using h by (simp add: handed_out_def)
    next
      case (snoc after' x)
      then show ?thesis using h by (auto simp: handed_out_def stays_snoc simp flip: auth_run_append)
    qed
  next
    assume "?g \<or> ?h \<and> ?e"
    then show ?l
    proof
      assume ?g
      then have "handed_out cfg db (ops @ [o']) ops o' [] s" by (simp add: handed_out_def)
      then show ?l by blast
    next
      assume h: "?h \<and> ?e"
      then obtain before op after where "handed_out cfg db ops before op after s" by blast
      then have "handed_out cfg db (ops @ [o']) before op (after @ [o']) s" using h by (simp add: handed_out_def stays_snoc flip: auth_run_append)
      then show ?l by blast
    qed
  qed
  then show ?case using snoc by (auto simp: auth_run_snoc auth_exec_sessions split: option.split)
qed

end
