(* ===== verification/Backend_Sessions.thy ===== *)
theory Backend_Sessions
  imports Backend_Auth
begin

text \<open>
What the administrators' sessions guarantee: where a session that admits a request comes from, that a changed password
ends every other session of its user, that every organisation keeps an owner, and that the handlers behind a session
leave the other organisations alone.
\<close>

section \<open>The user of a request\<close>

lemma find_in: "find P xs = Some x \<Longrightarrow> x \<in> set xs \<and> P x"
  by (induction xs) (auto split: if_splits)

lemma session_user:
  assumes "withSession env r db = Inr u"
  obtains s where "extractSessionToken r \<noteq> []" "s \<in> set (db_sessions db)" "se_TokenHash s = HashSessionToken (extractSessionToken r)"
    "dx_now env < se_ExpiresAt s" "find (\<lambda>v. us_ID v = se_UserID s) (db_users db) = Some u" "us_ID u = se_UserID s"
    "us_MustChangePassword u \<longrightarrow> passwordChangeExempt r"
proof -
  from assms obtain s where s: "extractSessionToken r \<noteq> []"
      "find (\<lambda>s. se_TokenHash s = HashSessionToken (extractSessionToken r) \<and> se_ExpiresAt s > dx_now env) (db_sessions db) = Some s"
      "find (\<lambda>v. us_ID v = se_UserID s) (db_users db) = Some u" "us_MustChangePassword u \<longrightarrow> passwordChangeExempt r"
    by (auto simp: withSession_def Let_def GetSessionByToken_def GetUserByID_def run_statement_def split: if_splits option.splits)
  show ?thesis using that[of s] s find_in[OF s(2)] find_in[OF s(3)] by blast
qed

lemma role_user: "withRole m env r db = Inr u \<Longrightarrow> withSession env r db = Inr u \<and> hasMinimumRole (us_Role u) m"
  by (auto simp: withRole_def and_then_def split: sum.splits if_splits)

lemma session_user_row: "withSession env r db = Inr u \<Longrightarrow> u \<in> set (db_users db)"
  by (erule session_user) (auto dest: find_in)

lemma session_found: "withSession env r db = Inr u \<Longrightarrow> find (\<lambda>v. us_ID v = us_ID u) (db_users db) = Some u"
  by (erule session_user) simp

lemma owner_level: "hasMinimumRole role ''owner'' \<longleftrightarrow> role = ''owner''"
  by (auto simp: hasMinimumRole_def roleLevel_def)

section \<open>Where sessions come from\<close>

definition row_choice :: "auth_op \<Rightarrow> bool" where
  "row_choice op = (case op of Login ax r body \<Rightarrow> (\<forall>us. us \<noteq> [] \<longrightarrow> ax_row ax us \<in> set us) | _ \<Rightarrow> True)"

text \<open>The operation was given the password of the user, as the user's row stood.\<close>

definition password_shown :: "auth_op \<Rightarrow> string \<Rightarrow> database \<Rightarrow> bool" where
  "password_shown op i db = (case op of
     Login ax r (Some q) \<Rightarrow> lq_Password q \<noteq> [] \<and>
       (\<exists>u\<in>set (db_users db). us_ID u = i \<and> us_Email u = lq_Email q \<and> ax_check ax (us_PasswordHash u) (lq_Password q))
   | ChangePassword ax r (Some q) \<Rightarrow> (\<exists>u\<in>set (db_users db). us_ID u = i \<and> ax_check ax (us_PasswordHash u) (pr_CurrentPassword q))
   | _ \<Rightarrow> False)"

lemma grant_shown:
  assumes "row_choice op" "granted cfg op db = Some s"
  shows "password_shown op (se_UserID s) db \<and> se_ExpiresAt s = se_CreatedAt s + bc_tokenTTL cfg"
proof (cases op)
  case (Login ax r body)
  show ?thesis
  proof (cases rule: login_cases[of cfg ax r body db])
    case (refused e)
    then show ?thesis using assms Login by simp
  next
    case (ok req user raw)
    have "\<forall>us. us \<noteq> [] \<longrightarrow> ax_row ax us \<in> set us" using assms(1) Login by (simp add: row_choice_def)
    then have "user \<in> set (filter (\<lambda>u. us_Email u = lq_Email req) (db_users db))" using ok(3) unfolding ok(4) by blast
    then show ?thesis using assms(2) Login ok by (auto simp: password_shown_def dashboardUserPayload_def)
  qed
next
  case (ChangePassword ax r body)
  show ?thesis
  proof (cases "withSession (ax_db ax) r db")
    case (Inl e)
    then show ?thesis using assms ChangePassword by simp
  next
    case (Inr u)
    show ?thesis
    proof (cases rule: password_cases[of cfg ax r u body db])
      case (refused e)
      then show ?thesis using assms(2) ChangePassword Inr by (simp add: serve_password_def as_user_def)
    next
      case (ok req raw h)
      then show ?thesis using assms(2) ChangePassword Inr session_user_row[OF Inr] by (auto simp: serve_password_def as_user_def password_shown_def)
    qed
  qed
qed (use assms in auto)

text \<open>
C12. A request passes the session check only with a token that an earlier operation handed out, either a login with the
e-mail address and password of that user or a change of the user's password with the current one; less than the
session lifetime ago; and since then no logout with the token, no change of the user's password, no deletion of the
user and no clean-up ended it. It passes as that user, whose row still exists, and with a password that must be changed
only to the exempt paths.
\<close>

theorem session_provenance:
  assumes "db_sessions db = []" and "\<forall>op\<in>set ops. row_choice op" and "withSession env r (auth_run cfg ops db) = Inr u"
  shows "\<exists>before op after s. handed_out cfg db ops before op after s \<and> password_shown op (us_ID u) (auth_run cfg before db)
      \<and> se_UserID s = us_ID u \<and> se_TokenHash s = HashSessionToken (extractSessionToken r)
      \<and> dx_now env < se_CreatedAt s + bc_tokenTTL cfg \<and> u \<in> set (db_users (auth_run cfg ops db))
      \<and> (us_MustChangePassword u \<longrightarrow> passwordChangeExempt r)"
proof (rule session_user[OF assms(3)])
  fix s
  assume s: "s \<in> set (db_sessions (auth_run cfg ops db))" "se_TokenHash s = HashSessionToken (extractSessionToken r)" "dx_now env < se_ExpiresAt s"
    "us_ID u = se_UserID s" "us_MustChangePassword u \<longrightarrow> passwordChangeExempt r"
  from s(1) obtain before op after where h: "handed_out cfg db ops before op after s"
    using session_history[OF assms(1)] by blast
  have "row_choice op" using h assms(2) by (simp add: handed_out_def)
  then have "password_shown op (us_ID u) (auth_run cfg before db) \<and> se_ExpiresAt s = se_CreatedAt s + bc_tokenTTL cfg"
    using h grant_shown[of op cfg "auth_run cfg before db" s] s(4) by (simp add: handed_out_def)
  then show ?thesis using h s session_user_row[OF assms(3)] by metis
qed

section \<open>Changing a password\<close>

lemma change_rotates: "handleChangePassword cfg ax r (Some u) (Some q) db = (Answered n resp, db') \<Longrightarrow>
    RotateUserPasswordAndSessions ax (us_ID u) (pr_NewPassword q) (HashSessionToken (po_token resp)) (po_expires_at resp) db = Inr db'
    \<and> ax_check ax (us_PasswordHash u) (pr_CurrentPassword q) \<and> (\<exists>b. rx_token (ax_request ax) = Some b \<and> po_token resp = hex_encode b) \<and> po_expires_at resp = ax_now ax + bc_tokenTTL cfg"
  by (auto simp: handleChangePassword_def GenerateSessionToken_def CheckPassword_def Let_def split: if_splits option.splits sum.splits)

lemma rotate_fresh: "RotateUserPasswordAndSessions ax i p h t db = Inr db' \<Longrightarrow> se_UserID s \<noteq> i \<Longrightarrow> s \<in> set (db_sessions db) \<Longrightarrow> se_TokenHash s \<noteq> h"
  by (auto simp: RotateUserPasswordAndSessions_def stated_def and_then_def run_statement_def CreateSession_def split: option.splits if_splits sum.splits)

lemma update_where_others: "(\<And>x. P x \<Longrightarrow> P (f x)) \<Longrightarrow> filter (\<lambda>x. \<not> P x) (update_where P f xs) = filter (\<lambda>x. \<not> P x) xs"
  by (induction xs) (auto simp: update_where_def)

lemma find_update_where: "(\<And>x. P x \<Longrightarrow> P (f x)) \<Longrightarrow> find P (update_where P f xs) = map_option f (find P xs)"
  by (induction xs) (auto simp: update_where_def)

lemma find_append_fresh: "\<forall>x\<in>set xs. \<not> P x \<Longrightarrow> P y \<Longrightarrow> find P (xs @ [y]) = Some y"
  by (induction xs) auto

text \<open>
After a successful change of a password, which takes the current one, the user's row carries the hash of the new
password and need not be changed again, every other row and the sessions of other users are as they were, and the
token of the answer is the only one that passes the session check as this user; it does pass, to every path, until the
stated expiry.
\<close>

theorem password_change_ends_sessions:
  assumes "withSession (ax_db ax) r db = Inr u" and "handleChangePassword cfg ax r (Some u) (Some q) db = (Answered n resp, db')"
    and "rx_token (ax_request ax) = Some b" and "length b = 32"
  shows "ax_check ax (us_PasswordHash u) (pr_CurrentPassword q)
    \<and> filter (\<lambda>v. us_ID v \<noteq> us_ID u) (db_users db') = filter (\<lambda>v. us_ID v \<noteq> us_ID u) (db_users db)
    \<and> filter (\<lambda>s. se_UserID s \<noteq> us_ID u) (db_sessions db') = filter (\<lambda>s. se_UserID s \<noteq> us_ID u) (db_sessions db)
    \<and> (\<forall>env r' v. withSession env r' db' = Inr v \<longrightarrow> us_ID v = us_ID u \<longrightarrow>
         HashSessionToken (extractSessionToken r') = HashSessionToken (po_token resp) \<and> Some (us_PasswordHash v) = ax_hash ax (pr_NewPassword q)
         \<and> \<not> us_MustChangePassword v)
    \<and> (\<forall>env r'. extractSessionToken r' = po_token resp \<longrightarrow> dx_now env < po_expires_at resp \<longrightarrow> (\<forall>call. \<not> dx_fails env call) \<longrightarrow>
         (\<exists>v. withSession env r' db' = Inr v \<and> us_ID v = us_ID u))"
proof -
  note rot = change_rotates[OF assms(2)]
  from rot rotate_ok obtain h where h: "ax_hash ax (pr_NewPassword q) = Some h" and db': "db' = db\<lparr>db_users := update_where (\<lambda>u'. us_ID u' = us_ID u)
      (\<lambda>u. u\<lparr>us_PasswordHash := h, us_MustChangePassword := False, us_UpdatedAt := ax_now ax\<rparr>) (db_users db),
      db_sessions := filter (\<lambda>s. se_UserID s \<noteq> us_ID u) (db_sessions db) @
        [\<lparr>se_UserID = us_ID u, se_TokenHash = HashSessionToken (po_token resp), se_ExpiresAt = po_expires_at resp, se_CreatedAt = ax_now ax\<rparr>]\<rparr>"
    by blast
  have f: "find (\<lambda>v. us_ID v = us_ID u) (db_users db') = Some (u\<lparr>us_PasswordHash := h, us_MustChangePassword := False, us_UpdatedAt := ax_now ax\<rparr>)"
    using session_found[OF assms(1)] by (simp add: db' find_update_where)
  have users: "filter (\<lambda>v. us_ID v \<noteq> us_ID u) (db_users db') = filter (\<lambda>v. us_ID v \<noteq> us_ID u) (db_users db)"
    by (simp add: db' update_where_others)
  have only: "HashSessionToken (extractSessionToken r') = HashSessionToken (po_token resp) \<and> Some (us_PasswordHash v) = ax_hash ax (pr_NewPassword q)
         \<and> \<not> us_MustChangePassword v" if "withSession env r' db' = Inr v" "us_ID v = us_ID u" for env r' v
  proof (rule session_user[OF that(1)])
    fix s
    assume s: "s \<in> set (db_sessions db')" "se_TokenHash s = HashSessionToken (extractSessionToken r')" "us_ID v = se_UserID s"
      "find (\<lambda>w. us_ID w = se_UserID s) (db_users db') = Some v"
    have "se_UserID s \<noteq> us_ID u \<or> se_TokenHash s = HashSessionToken (po_token resp)" using s(1) by (auto simp: db')
    moreover have e: "se_UserID s = us_ID u" using s(3) that(2) by simp
    moreover have "v = u\<lparr>us_PasswordHash := h, us_MustChangePassword := False, us_UpdatedAt := ax_now ax\<rparr>"
      using s(4)[unfolded e] f by simp
    ultimately show ?thesis using s(2) h by simp
  qed
  have fresh: "\<forall>s\<in>set (filter (\<lambda>s. se_UserID s \<noteq> us_ID u) (db_sessions db)). se_TokenHash s \<noteq> HashSessionToken (po_token resp)"
    using rotate_fresh rot by auto
  have tok: "po_token resp \<noteq> []"
  proof
    assume "po_token resp = []"
    then show False using rot assms(3,4) length_hex_encode[of b] by (auto simp del: length_hex_encode)
  qed
  have works: "\<exists>v. withSession env r' db' = Inr v \<and> us_ID v = us_ID u"
    if t: "extractSessionToken r' = po_token resp" "dx_now env < po_expires_at resp" "\<forall>call. \<not> dx_fails env call" for env r'
  proof -
    have "find (\<lambda>s. se_TokenHash s = HashSessionToken (po_token resp) \<and> se_ExpiresAt s > dx_now env) (db_sessions db') =
        Some \<lparr>se_UserID = us_ID u, se_TokenHash = HashSessionToken (po_token resp), se_ExpiresAt = po_expires_at resp, se_CreatedAt = ax_now ax\<rparr>"
      unfolding db' using fresh t(2) by (simp add: find_append_fresh)
    then show ?thesis using t(1,3) tok f by (simp add: withSession_def Let_def GetSessionByToken_def GetUserByID_def run_statement_def)
  qed
  show ?thesis using rot users only works by (auto simp: db')
qed

section \<open>Every organisation keeps an owner\<close>

definition has_owner :: "string \<Rightarrow> database \<Rightarrow> bool" where
  "has_owner i db = (\<exists>u\<in>set (db_users db). us_OrgID u = i \<and> us_Role u = ''owner'')"

definition ids_unique :: "database \<Rightarrow> bool" where
  "ids_unique db = distinct (map us_ID (db_users db))"

inductive auth_step :: "backend_config \<Rightarrow> database \<Rightarrow> database \<Rightarrow> bool" for cfg where
  request: "auth_step cfg db (auth_exec cfg op db)"

text \<open>
How the rows of the users change: rows are kept up to the password, the terms and the time of the change, some of them
may be removed, and rows with new identifiers are added.
\<close>

definition same_account :: "admin_user \<Rightarrow> admin_user \<Rightarrow> bool" where
  "same_account u v = (us_ID u = us_ID v \<and> us_OrgID u = us_OrgID v \<and> us_Role u = us_Role v \<and> us_Email u = us_Email v \<and> us_Name u = us_Name v)"

definition users_follow :: "(admin_user \<Rightarrow> bool) \<Rightarrow> admin_user list \<Rightarrow> admin_user list \<Rightarrow> bool" where
  "users_follow keep us us' = (\<exists>ws vs. list_all2 same_account (filter keep us) ws \<and> us' = ws @ vs \<and>
     distinct (map us_ID vs) \<and> (\<forall>v\<in>set vs. \<forall>u\<in>set us. us_ID u \<noteq> us_ID v))"

lemma same_account_refl [simp]: "same_account u u"
  by (simp add: same_account_def)

lemma users_followI: "list_all2 same_account (filter keep us) ws \<Longrightarrow> distinct (map us_ID vs) \<Longrightarrow> (\<And>v u. v \<in> set vs \<Longrightarrow> u \<in> set us \<Longrightarrow> us_ID u \<noteq> us_ID v) \<Longrightarrow>
    users_follow keep us (ws @ vs)"
  unfolding users_follow_def by blast

lemma users_removed: "users_follow keep us (filter keep us)"
  using users_followI[of keep us "filter keep us" "[]"] by (simp add: list.rel_refl)

lemma users_same [simp]: "users_follow (\<lambda>_. True) us us"
  using users_removed[of "\<lambda>_. True" us] by simp

lemma users_added: "distinct (map us_ID vs) \<Longrightarrow> \<forall>v\<in>set vs. \<forall>u\<in>set us. us_ID u \<noteq> us_ID v \<Longrightarrow> users_follow (\<lambda>_. True) us (us @ vs)"
  by (rule users_followI) (simp_all add: list.rel_refl)

lemma users_updated: "(\<And>u. same_account u (f u)) \<Longrightarrow> users_follow (\<lambda>_. True) us (update_where P f us)"
  using users_followI[of "\<lambda>_. True" us "update_where P f us" "[]"] by (simp add: update_where_def list_all2_map2 list.rel_refl)

lemma same_account_ids: "list_all2 same_account us ws \<Longrightarrow> map us_ID us = map us_ID ws"
  by (induction rule: list_all2_induct) (auto simp: same_account_def)

lemma follow_unique: "users_follow keep us us' \<Longrightarrow> distinct (map us_ID us) \<Longrightarrow> distinct (map us_ID us')"
proof -
  assume f: "users_follow keep us us'" and d: "distinct (map us_ID us)"
  then obtain ws vs where w: "list_all2 same_account (filter keep us) ws" "us' = ws @ vs" "distinct (map us_ID vs)"
    "\<forall>v\<in>set vs. \<forall>u\<in>set us. us_ID u \<noteq> us_ID v" by (auto simp: users_follow_def)
  have m: "map us_ID ws = map us_ID (filter keep us)" using same_account_ids[OF w(1)] by simp
  have "distinct (map us_ID ws)" using d by (simp add: m distinct_map_filter)
  moreover have "set (map us_ID ws) \<inter> set (map us_ID vs) = {}" using w(4) by (auto simp: m)
  ultimately show ?thesis using w(2,3) by simp
qed

lemma follow_account: "users_follow keep us us' \<Longrightarrow> u \<in> set us \<Longrightarrow> keep u \<Longrightarrow> \<exists>w\<in>set us'. same_account u w"
proof -
  assume f: "users_follow keep us us'" and u: "u \<in> set us" "keep u"
  then obtain ws vs where w: "list_all2 same_account (filter keep us) ws" "us' = ws @ vs" by (auto simp: users_follow_def)
  have "u \<in> set (filter keep us)" using u by simp
  then obtain w where "w \<in> set ws" "same_account u w" using w(1) by (metis in_set_conv_nth list_all2_conv_all_nth)
  then show ?thesis using w(2) by auto
qed

lemma remove_cases:
  obtains (refused) e where "serve_remove_user env r target db = (Refused e, db)"
  | (removed) u v where "withRole ''owner'' env r db = Inr u" "target \<noteq> us_ID u" "find (\<lambda>u. us_ID u = target) (db_users db) = Some v" "us_OrgID v = us_OrgID u"
    "serve_remove_user env r target db = (Answered 200 (),
       db\<lparr>db_users := filter (\<lambda>u. us_ID u \<noteq> target) (db_users db), db_sessions := filter (\<lambda>s. se_UserID s \<noteq> target) (db_sessions db)\<rparr>)"
proof (cases "\<exists>e. serve_remove_user env r target db = (Refused e, db)")
  case True
  then show ?thesis using refused by blast
next
  case False
  note d = serve_remove_user_def as_user_def handleDeleteUser_def internal_error_def
  from False obtain u where u: "withRole ''owner'' env r db = Inr u" by (cases "withRole ''owner'' env r db") (auto simp: d)
  have t: "target \<noteq> us_ID u" using False u by (auto simp: d)
  from False u t obtain v where v: "GetUserByID env target db = Inr (Some v)" by (auto simp: d split: sum.splits option.splits)
  have o: "us_OrgID v = us_OrgID u" using False u t v by (auto simp: d split: if_splits)
  from False u t v o obtain db' where db': "DeleteUser env target db = Inr db'" by (auto simp: d split: sum.splits)
  show ?thesis
    by (rule removed[OF u t _ o]) (use u t v o db' in \<open>auto simp: d GetUserByID_def DeleteUser_def run_statement_def split: if_splits\<close>)
qed

lemma operatorCreateOrg_users: "users_follow (\<lambda>_. True) (db_users db) (db_users (snd (handleOperatorCreateOrg ax actor body db)))"
proof (cases body)
  case None
  then show ?thesis by (simp add: handleOperatorCreateOrg_def)
next
  case (Some req)
  then show ?thesis
    by (auto simp: handleOperatorCreateOrg_def Let_def dest!: createOrganization_ok createUser_ok updateProvisioning_ok intro!: users_added
        split: option.split sum.split db_error.split prod.split)
qed

text \<open>Who is removed by an operation.\<close>

fun survives :: "backend_config \<Rightarrow> auth_op \<Rightarrow> database \<Rightarrow> admin_user \<Rightarrow> bool" where
  "survives cfg (RemoveUser env r target) db u = (answered (fst (serve_remove_user env r target db)) \<longrightarrow> us_ID u \<noteq> target)"
| "survives cfg _ db u = True"

lemma survives_all: "(\<And>env r target. op \<noteq> RemoveUser env r target) \<Longrightarrow> survives cfg op db = (\<lambda>_. True)"
  by (cases op) auto

lemma survives_remove: "survives cfg (RemoveUser env r target) db = (\<lambda>u. answered (fst (serve_remove_user env r target db)) \<longrightarrow> us_ID u \<noteq> target)"
  by (rule ext) simp

lemma auth_exec_users: "users_follow (survives cfg op db) (db_users db) (db_users (auth_exec cfg op db))"
proof (cases op)
  case (Login ax r body)
  show ?thesis unfolding Login by (cases rule: login_cases[of cfg ax r body db]) (simp_all add: survives_all)
next
  case (Logout env r)
  then show ?thesis by (simp add: survives_all handleLogout_def Let_def DeleteSession_def run_statement_def)
next
  case (AcceptTerms env r)
  have "users_follow (\<lambda>_. True) (db_users db) (db_users (snd (serve_terms env r db)))"
    by (auto simp: serve_terms_def as_user_def handleAcceptTerms_def AcceptUserTerms_def run_statement_def same_account_def intro!: users_updated split: sum.split option.split)
  then show ?thesis by (simp add: AcceptTerms survives_all)
next
  case (UpdateSettings env r body)
  have "db_users (snd (serve_settings env r body db)) = db_users db"
    by (auto simp: serve_settings_def as_user_def handleUpdateSettings_def UpdateOrganization_def split: sum.split option.split)
  then show ?thesis by (simp add: UpdateSettings survives_all)
next
  case (AddUser ax r body)
  have "users_follow (\<lambda>_. True) (db_users db) (db_users (snd (serve_add_user ax r body db)))"
    by (auto simp: serve_add_user_def as_user_def handleCreateUser_def Let_def dest!: createUser_ok intro!: users_added split: sum.split option.split)
  then show ?thesis by (simp add: AddUser survives_all)
next
  case (RemoveUser env r target)
  show ?thesis unfolding RemoveUser
    by (cases rule: remove_cases[of env r target db]) (simp_all add: survives_remove answered_def users_removed del: survives.simps)
next
  case (ChangePassword ax r body)
  have "users_follow (\<lambda>_. True) (db_users db) (db_users (snd (serve_password cfg ax r body db)))"
  proof (cases "withSession (ax_db ax) r db")
    case (Inl e)
    then show ?thesis by (simp add: serve_password_def as_user_def)
  next
    case (Inr u)
    then show ?thesis
      by (cases rule: password_cases[of cfg ax r u body db]) (simp_all add: serve_password_def as_user_def users_updated same_account_def)
  qed
  then show ?thesis by (simp add: ChangePassword survives_all)
next
  case (CreateOrg env body)
  then show ?thesis by (simp add: createOrg_parts survives_all)
next
  case (OperatorCreateOrg ax actor body)
  then show ?thesis by (simp add: survives_all operatorCreateOrg_users)
next
  case (CleanSessions env)
  then show ?thesis by (simp add: survives_all CleanExpiredSessions_def run_statement_def)
qed

lemma auth_keeps_owner:
  assumes "ids_unique db" "has_owner i db"
  shows "has_owner i (auth_exec cfg op db)"
proof -
  have "\<exists>w\<in>set (db_users db). us_OrgID w = i \<and> us_Role w = ''owner'' \<and> survives cfg op db w"
  proof (cases "\<exists>env r target. op = RemoveUser env r target \<and> answered (fst (serve_remove_user env r target db))")
    case False
    then have "survives cfg op db w" for w by (cases op) auto
    then show ?thesis using assms(2) by (auto simp: has_owner_def)
  next
    case True
    then obtain env r target where op: "op = RemoveUser env r target" "answered (fst (serve_remove_user env r target db))" by blast
    show ?thesis
    proof (cases rule: remove_cases[of env r target db])
      case (refused e)
      then show ?thesis using op by (simp add: answered_def)
    next
      case (removed u v)
      have u: "u \<in> set (db_users db)" "us_Role u = ''owner''" using role_user[OF removed(1)] session_user_row owner_level by auto
      show ?thesis
      proof (cases "i = us_OrgID u")
        case True
        then show ?thesis using u removed(2) op by (intro bexI[of _ u]) auto
      next
        case False
        from assms(2) obtain w where w: "w \<in> set (db_users db)" "us_OrgID w = i" "us_Role w = ''owner''" by (auto simp: has_owner_def)
        have "us_ID w \<noteq> target"
          using assms(1) w(1,2) find_in[OF removed(3)] removed(4) False by (auto simp: ids_unique_def distinct_map inj_on_def)
        then show ?thesis using w op by auto
      qed
    qed
  qed
  then show ?thesis using follow_account[OF auth_exec_users] by (fastforce simp: has_owner_def same_account_def)
qed

interpretation owned: invariant_system db "auth_step cfg" "\<lambda>t. ids_unique db \<and> has_owner i db \<longrightarrow> ids_unique t \<and> has_owner i t" for db cfg i
proof
  fix s t
  assume "ids_unique db \<and> has_owner i db \<longrightarrow> ids_unique s \<and> has_owner i s" and "auth_step cfg s t"
  then show "ids_unique db \<and> has_owner i db \<longrightarrow> ids_unique t \<and> has_owner i t"
    using auth_keeps_owner follow_unique[OF auth_exec_users] by (auto simp: auth_step.simps ids_unique_def)
qed simp

text \<open>
C35. Whatever requests the administrators, the operator and the clean-up make, one after the other, an organisation that
has an owner keeps one, and user identifiers stay unique.
\<close>

theorem organisation_keeps_owner:
  assumes "ids_unique db" and "has_owner i db" and "(auth_step cfg)\<^sup>*\<^sup>* db db'"
  shows "has_owner i db' \<and> ids_unique db'"
  using owned.reachable_inv[OF assms(3), of i] assms(1,2) by blast

section \<open>Other organisations\<close>

fun actor :: "auth_op \<Rightarrow> database \<Rightarrow> admin_user option" where
  "actor (AcceptTerms env r) db = (case withSession env r db of Inr u \<Rightarrow> Some u | Inl _ \<Rightarrow> None)"
| "actor (UpdateSettings env r body) db = (case withRole ''admin'' env r db of Inr u \<Rightarrow> Some u | Inl _ \<Rightarrow> None)"
| "actor (AddUser ax r body) db = (case withRole ''owner'' (ax_db ax) r db of Inr u \<Rightarrow> Some u | Inl _ \<Rightarrow> None)"
| "actor (RemoveUser env r target) db = (case withRole ''owner'' env r db of Inr u \<Rightarrow> Some u | Inl _ \<Rightarrow> None)"
| "actor (ChangePassword ax r body) db = (case withSession (ax_db ax) r db of Inr u \<Rightarrow> Some u | Inl _ \<Rightarrow> None)"
| "actor _ db = None"

text \<open>Rows that belong to another organisation than \<open>i\<close>.\<close>

definition foreign_session :: "string \<Rightarrow> database \<Rightarrow> session_row \<Rightarrow> bool" where
  "foreign_session i db s = (\<exists>v\<in>set (db_users db). us_ID v = se_UserID s \<and> us_OrgID v \<noteq> i)"

definition foreign_same :: "string \<Rightarrow> database \<Rightarrow> database \<Rightarrow> bool" where
  "foreign_same i db db' =
    (filter (\<lambda>v. us_OrgID v \<noteq> i) (db_users db') = filter (\<lambda>v. us_OrgID v \<noteq> i) (db_users db) \<and>
     filter (\<lambda>o'. og_ID o' \<noteq> i) (db_organizations db') = filter (\<lambda>o'. og_ID o' \<noteq> i) (db_organizations db) \<and>
     filter (foreign_session i db) (db_sessions db') = filter (foreign_session i db) (db_sessions db) \<and>
     db_devices db' = db_devices db \<and> db_tokens db' = db_tokens db \<and> db_codes db' = db_codes db \<and> db_certificates db' = db_certificates db)"

lemma foreign_refl [simp]: "foreign_same i db db"
  by (simp add: foreign_same_def)

lemma filter_update_rows: "(\<And>x. x \<in> set xs \<Longrightarrow> P x \<Longrightarrow> \<not> Q x \<and> \<not> Q (f x)) \<Longrightarrow> filter Q (update_where P f xs) = filter Q xs"
  by (induction xs) (auto simp: update_where_def)

lemma own_row: "ids_unique db \<Longrightarrow> u \<in> set (db_users db) \<Longrightarrow> v \<in> set (db_users db) \<Longrightarrow> us_ID v = us_ID u \<Longrightarrow> v = u"
  by (auto simp: ids_unique_def distinct_map inj_on_def)

lemma foreign_update:
  assumes "ids_unique db" "u \<in> set (db_users db)" "\<And>v. us_OrgID (f v) = us_OrgID v"
  shows "filter (\<lambda>v. us_OrgID v \<noteq> us_OrgID u) (update_where (\<lambda>v. us_ID v = us_ID u) f (db_users db)) = filter (\<lambda>v. us_OrgID v \<noteq> us_OrgID u) (db_users db)"
  using own_row[OF assms(1,2)] assms(3) by (intro filter_update_rows) auto

lemma foreign_password:
  assumes "ids_unique db" "withSession (ax_db ax) r db = Inr u"
  shows "foreign_same (us_OrgID u) db (snd (handleChangePassword cfg ax r (Some u) body db))"
proof (cases rule: password_cases[of cfg ax r u body db])
  case (refused e)
  then show ?thesis by simp
next
  case (ok req raw h)
  have u: "u \<in> set (db_users db)" by (rule session_user_row[OF assms(2)])
  have f: "foreign_session (us_OrgID u) db s \<Longrightarrow> se_UserID s \<noteq> us_ID u" for s
    unfolding foreign_session_def using own_row[OF assms(1) u] by metis
  then have "filter (foreign_session (us_OrgID u) db) (filter (\<lambda>s. se_UserID s \<noteq> us_ID u) (db_sessions db)) = filter (foreign_session (us_OrgID u) db) (db_sessions db)"
    by (simp add: filter_filter) (rule filter_cong, auto)
  moreover have "\<not> foreign_session (us_OrgID u) db \<lparr>se_UserID = us_ID u, se_TokenHash = t, se_ExpiresAt = e, se_CreatedAt = c\<rparr>" for t e c
    using f by fastforce
  ultimately show ?thesis using ok(6) foreign_update[OF assms(1) u] by (simp add: foreign_same_def)
qed

lemma foreign_remove:
  assumes "ids_unique db" "withRole ''owner'' env r db = Inr u"
  shows "foreign_same (us_OrgID u) db (snd (serve_remove_user env r target db))"
proof (cases rule: remove_cases[of env r target db])
  case (refused e)
  then show ?thesis by simp
next
  case (removed u' v)
  have u': "u' = u" using assms(2) removed(1) by simp
  have v: "v \<in> set (db_users db)" "us_ID v = target" "us_OrgID v = us_OrgID u" using find_in[OF removed(3)] removed(4) u' by auto
  have w: "us_OrgID w \<noteq> us_OrgID u \<Longrightarrow> us_ID w \<noteq> target" if "w \<in> set (db_users db)" for w
    using own_row[OF assms(1) v(1) that] v by auto
  have "filter (\<lambda>w. us_OrgID w \<noteq> us_OrgID u) (filter (\<lambda>w. us_ID w \<noteq> target) (db_users db)) = filter (\<lambda>w. us_OrgID w \<noteq> us_OrgID u) (db_users db)"
    using w by (simp add: filter_filter) (rule filter_cong, auto)
  moreover have "filter (foreign_session (us_OrgID u) db) (filter (\<lambda>s. se_UserID s \<noteq> target) (db_sessions db)) = filter (foreign_session (us_OrgID u) db) (db_sessions db)"
    using w by (simp add: filter_filter) (rule filter_cong, auto simp: foreign_session_def)
  ultimately show ?thesis using removed(5) by (simp add: foreign_same_def)
qed

text \<open>
A request that passes a session or role check and accepts the terms, changes the settings, adds or removes a user
or changes a password leaves the users, the organisation row and the sessions of every other organisation as they are,
and all devices, tokens and certificates.
\<close>

theorem user_administration_isolated:
  assumes "ids_unique db" and "actor op db = Some u"
  shows "foreign_same (us_OrgID u) db (auth_exec cfg op db)"
proof (cases op)
  case (AcceptTerms env r)
  then have g: "withSession env r db = Inr u" using assms(2) by (simp split: sum.splits)
  show ?thesis using foreign_update[OF assms(1) session_user_row[OF g]]
    by (simp add: AcceptTerms serve_terms_def as_user_def g handleAcceptTerms_def AcceptUserTerms_def run_statement_def foreign_same_def split: sum.split option.split)
next
  case (UpdateSettings env r body)
  then have g: "withRole ''admin'' env r db = Inr u" using assms(2) by (simp split: sum.splits)
  show ?thesis
    by (auto simp: UpdateSettings serve_settings_def as_user_def g handleUpdateSettings_def UpdateOrganization_def foreign_same_def
        intro!: filter_update_rows split: sum.split option.split)
next
  case (AddUser ax r body)
  then have g: "withRole ''owner'' (ax_db ax) r db = Inr u" using assms(2) by (simp split: sum.splits)
  show ?thesis
    by (auto simp: AddUser serve_add_user_def as_user_def g handleCreateUser_def Let_def foreign_same_def dest!: createUser_ok split: sum.split option.split)
next
  case (RemoveUser env r target)
  then show ?thesis using foreign_remove[OF assms(1), of env r u target] assms(2) by (simp split: sum.splits)
next
  case (ChangePassword ax r body)
  then show ?thesis using foreign_password[OF assms(1), of ax r u cfg body] assms(2)
    by (simp add: serve_password_def as_user_def split: sum.splits)
qed (use assms(2) in auto)

section \<open>An example\<close>

definition sample_auth :: "time \<Rightarrow> nat \<Rightarrow> auth_env" where
  "sample_auth now n = \<lparr>ax_request = sample_request_env now n, ax_hash = (\<lambda>p. Some (CHR ''#'' # p)), ax_check = (\<lambda>h p. h = CHR ''#'' # p), ax_row = hd\<rparr>"

definition sample_owner :: admin_user where
  "sample_owner = \<lparr>us_ID = ''u1'', us_OrgID = ''org'', us_Email = ''a@b'', us_Name = ''A'', us_PasswordHash = ''#secret12'', us_Role = ''owner'',
     us_MustChangePassword = False, us_TermsAcceptedAt = None, us_CreatedAt = 0, us_UpdatedAt = 0\<rparr>"

definition sample_users :: database where
  "sample_users = sample_db\<lparr>db_users := [sample_owner]\<rparr>"

definition sample_api_request :: "string \<Rightarrow> api_request" where
  "sample_api_request token = \<lparr>aq_Method = ''GET'', aq_Path = ''/api/v1/audit-log'', aq_Cookies = [(''session'', token)], aq_Header = [],
     aq_RemoteAddr = ''10.0.0.1:1'', aq_TLS = True\<rparr>"

definition sample_login :: auth_op where
  "sample_login = Login (sample_auth 1 1) (sample_api_request []) (Some \<lparr>lq_Email = ''a@b'', lq_Password = ''secret12''\<rparr>)"

lemmas sample_auth_evals = sample_auth_def sample_owner_def sample_users_def sample_api_request_def sample_login_def sample_request_env_def sample_config_def
  sample_db_def sample_org_def

lemmas session_evals = handleLogin_def GetUserByEmail_def CheckPassword_def GenerateSessionToken_def CreateSession_def withSession_def extractSessionToken_def
  GetSessionByToken_def GetUserByID_def run_statement_def passwordChangeExempt_def second_def Let_def

definition sample_logged_in :: database where
  "sample_logged_in = auth_run sample_config [sample_login] sample_users"

lemma sample_session: "withSession (ax_db (sample_auth 2 2)) (sample_api_request ''01'') sample_logged_in = Inr sample_owner"
  by (simp add: sample_logged_in_def sample_auth_evals session_evals sample_codes auth_run_def)

theorem session_provenance_witness:
  "\<exists>before op after s. handed_out sample_config sample_users [sample_login] before op after s \<and> password_shown op ''u1'' (auth_run sample_config before sample_users)"
proof -
  have r: "\<forall>op\<in>set [sample_login]. row_choice op" by (simp add: row_choice_def sample_login_def sample_auth_def)
  have n: "db_sessions sample_users = []" by (simp add: sample_users_def sample_db_def)
  have i: "us_ID sample_owner = ''u1''" by (simp add: sample_owner_def)
  show ?thesis using session_provenance[OF n r sample_session[unfolded sample_logged_in_def]] unfolding i by blast
qed

definition sample_change :: password_request where
  "sample_change = \<lparr>pr_CurrentPassword = ''secret12'', pr_NewPassword = ''longer-secret''\<rparr>"

definition sample_auth32 :: auth_env where
  "sample_auth32 = (sample_auth 2 2)\<lparr>ax_request := (sample_request_env 2 2)\<lparr>rx_token := Some (replicate 32 7)\<rparr>\<rparr>"

definition sample_changed :: database where
  "sample_changed = snd (handleChangePassword sample_config sample_auth32 (sample_api_request ''01'') (Some sample_owner) (Some sample_change) sample_logged_in)"

theorem password_change_ends_sessions_witness:
  "\<exists>v. withSession (ax_db (sample_auth 3 3)) (sample_api_request (hex_encode (replicate 32 7))) sample_changed = Inr v \<and> us_ID v = ''u1''"
proof -
  have g: "withSession (ax_db sample_auth32) (sample_api_request ''01'') sample_logged_in = Inr sample_owner"
    using sample_session by (simp add: sample_auth32_def sample_auth_def)
  have x: "extractSessionToken (sample_api_request (hex_encode (replicate 32 7))) = hex_encode (replicate 32 7)"
    by (simp add: extractSessionToken_def sample_api_request_def) (simp add: hex_encode_def)
  have i: "us_ID sample_owner = ''u1''" by (simp add: sample_owner_def)
  have t: "rx_token (ax_request sample_auth32) = Some (replicate 32 7)" by (simp add: sample_auth32_def)
  have "answered (fst (handleChangePassword sample_config sample_auth32 (sample_api_request ''01'') (Some sample_owner) (Some sample_change) sample_logged_in))"
    by (simp add: answered_def handleChangePassword_def RotateUserPasswordAndSessions_def stated_def and_then_def sample_auth32_def sample_change_def update_where_def
        sample_logged_in_def sample_auth_evals session_evals sample_codes auth_run_def)
  then obtain n resp where c: "handleChangePassword sample_config sample_auth32 (sample_api_request ''01'') (Some sample_owner) (Some sample_change) sample_logged_in
      = (Answered n resp, sample_changed)"
    unfolding sample_changed_def answered_def by (auto split: answer.splits simp: prod_eq_iff)
  have p: "po_token resp = hex_encode (replicate 32 7)" "po_expires_at resp = 2 + 86400 * second"
    using change_rotates[OF c] t by (auto simp: sample_auth32_def sample_auth_def sample_request_env_def sample_config_def)
  have e: "dx_now (ax_db (sample_auth 3 3)) < po_expires_at resp" "\<forall>call. \<not> dx_fails (ax_db (sample_auth 3 3)) call"
    by (simp_all add: p sample_auth_def sample_request_env_def second_def)
  have "length (replicate 32 7) = 32" by simp
  from password_change_ends_sessions[OF g c t this] e x show ?thesis unfolding i p(1) by blast
qed

theorem organisation_keeps_owner_witness: "has_owner ''org'' (auth_exec sample_config (RemoveUser (ax_db (sample_auth 2 2)) (sample_api_request ''01'') ''u1'') sample_logged_in)"
proof -
  have l: "db_users sample_logged_in = [sample_owner]" by (simp add: sample_logged_in_def sample_auth_evals session_evals sample_codes auth_run_def)
  have "ids_unique sample_logged_in" "has_owner ''org'' sample_logged_in" by (simp_all add: ids_unique_def has_owner_def l sample_owner_def)
  then show ?thesis using organisation_keeps_owner r_into_rtranclp[where r = "auth_step sample_config", OF auth_step.request] by blast
qed

theorem user_administration_isolated_witness:
  "foreign_same ''org'' sample_logged_in (auth_exec sample_config (RemoveUser (ax_db (sample_auth 2 2)) (sample_api_request ''01'') ''u2'') sample_logged_in)"
proof -
  have l: "db_users sample_logged_in = [sample_owner]" by (simp add: sample_logged_in_def sample_auth_evals session_evals sample_codes auth_run_def)
  have u: "ids_unique sample_logged_in" by (simp add: ids_unique_def l)
  have a: "actor (RemoveUser (ax_db (sample_auth 2 2)) (sample_api_request ''01'') ''u2'') sample_logged_in = Some sample_owner"
    by (simp add: withRole_def and_then_def sample_session) (simp add: sample_owner_def hasMinimumRole_def roleLevel_def)
  show ?thesis using user_administration_isolated[OF u a] by (simp add: sample_owner_def)
qed

section \<open>What goes wrong\<close>

text \<open>
E-mail addresses are unique within an organisation only (migration 019), but a login names no organisation: when two
organisations have a user with the same address, the user whose row the query does not return cannot log in with the
right password.
\<close>

lemma shared_email_locks_out:
  assumes "filter (\<lambda>u. us_Email u = lq_Email q) (db_users db) = [u, v]" and "ax_row ax = hd" and "\<not> ax_check ax (us_PasswordHash u) (lq_Password q)"
    and "ax_check ax (us_PasswordHash v) (lq_Password q)"
  shows "\<exists>e. handleLogin cfg ax r (Some q) db = (Refused e, db)"
  using assms by (auto simp: handleLogin_def GetUserByEmail_def CheckPassword_def run_statement_def internal_error_def)

text \<open>
The check that keeps an owner reads the requester's row before the handler deletes: two owners whose requests to delete
each other have both passed the session check are both deleted, and nobody is left to manage the organisation.
\<close>

lemma owners_delete_each_other:
  assumes "db_users db = [u, v]" and "us_ID u \<noteq> us_ID v" and "us_OrgID u = us_OrgID v" and "\<And>call. \<not> dx_fails env call"
  shows "db_users (snd (handleDeleteUser env (Some v) (us_ID u) (snd (handleDeleteUser env (Some u) (us_ID v) db)))) = []"
  using assms by (simp add: handleDeleteUser_def GetUserByID_def DeleteUser_def run_statement_def)

end
