(* ===== verification/Backend_Router.thy ===== *)
theory Backend_Router
  imports Backend_Sessions Rate_Limiter
begin

unbundle bit_operations_syntax

text \<open>
Who reaches which handler of the backend: operator sessions (backend/internal/api/operator_auth.go), the guards and the
routes of the server, its rate limits and its cross-origin headers (router.go).

A route is chosen as net/http's ServeMux does: the method and every segment of the path must match the pattern, a
pattern for GET also takes HEAD, and among several matching patterns the one with fewer wildcards is the more specific.
Paths are taken without percent escapes; a path the mux would clean by a redirect reaches no handler.
\<close>

section \<open>Operator sessions\<close>

definition hmac_sha256 :: "string \<Rightarrow> string \<Rightarrow> nat list" where
  "hmac_sha256 key msg =
    (let k0 = (if 64 < length key then sha256 key else map of_char key);
         k = k0 @ replicate (64 - length k0) 0;
         inner = sha256 (map (\<lambda>b. char_of (b XOR 54)) k @ msg) in
     sha256 (map (\<lambda>b. char_of (b XOR 92)) k @ map char_of inner))"

definition operatorSessionTTL :: duration where
  "operatorSessionTTL = 1800 * second"

definition operatorSessionCookie :: string where
  "operatorSessionCookie = ''themisto_operator_session''"

definition signOperatorPayload :: "string \<Rightarrow> string \<Rightarrow> string" where
  "signOperatorPayload apiKey payload = rawurl_encode (hmac_sha256 apiKey (''themisto-operator-session'' @ [CHR 0x00] @ payload))"

definition operator_actor :: "nat list \<Rightarrow> string" where
  "operator_actor nonceBytes = ''operator-'' @ rawurl_encode (take 6 (sha256 (map char_of nonceBytes)))"

definition decimal :: "int \<Rightarrow> string" where
  "decimal n = (if n < 0 then CHR ''-'' # nat_str (nat (- n)) else nat_str (nat n))"

text \<open>The token, its expiry and the actor; the drawn nonce is \<open>None\<close> when reading random bytes fails.\<close>

definition issueOperatorSession :: "string \<Rightarrow> time \<Rightarrow> nat list option \<Rightarrow> (string \<times> time \<times> string) option" where
  "issueOperatorSession apiKey now random =
    (case random of
       None \<Rightarrow> None
     | Some nonceBytes \<Rightarrow>
        (let nonce = rawurl_encode nonceBytes;
             expiresAt = now + operatorSessionTTL;
             payload = ''v1.'' @ decimal (expiresAt div second) @ ''.'' @ nonce in
         Some (payload @ ''.'' @ signOperatorPayload apiKey payload, expiresAt, operator_actor nonceBytes)))"

definition verifyOperatorSession :: "string \<Rightarrow> time \<Rightarrow> string \<Rightarrow> (time \<times> string) option" where
  "verifyOperatorSession apiKey now token =
    (let parts = split_on (CHR ''.'') token in
     if length parts \<noteq> 4 \<or> parts ! 0 \<noteq> ''v1'' then None
     else if parts ! 3 \<noteq> signOperatorPayload apiKey (join_with ''.'' (take 3 parts)) then None
     else case atoi (parts ! 1) of
         None \<Rightarrow> None
       | Some expiresUnix \<Rightarrow>
          (let expiresAt = expiresUnix * second in
           if \<not> now < expiresAt \<or> now + (operatorSessionTTL + 60 * second) < expiresAt then None
           else case rawurl_decode (parts ! 2) of
               None \<Rightarrow> None
             | Some nonceBytes \<Rightarrow> if length nonceBytes \<noteq> 24 then None else Some (expiresAt, operator_actor nonceBytes)))"

definition isUnsafeMethod :: "string \<Rightarrow> bool" where
  "isUnsafeMethod m = (m \<noteq> ''GET'' \<and> m \<noteq> ''HEAD'' \<and> m \<noteq> ''OPTIONS'')"

definition withOperatorAuth :: "backend_config \<Rightarrow> time \<Rightarrow> api_request \<Rightarrow> refusal + string" where
  "withOperatorAuth cfg now r =
    (let headless =
       (let auth = header_Get ''Authorization'' (aq_Header r) in
        if trim_space (header_Get ''Origin'' (aq_Header r)) = [] \<and> has_prefix auth ''Bearer '' \<and> trim_space (trim_prefix auth ''Bearer '') = bc_apiKey cfg
        then Inr ''operator-api'' else Inl (401, ''OPERATOR_AUTH_REQUIRED'')) in
     case map_of (aq_Cookies r) operatorSessionCookie of
       None \<Rightarrow> headless
     | Some cookie \<Rightarrow>
        (case verifyOperatorSession (bc_apiKey cfg) now cookie of
           None \<Rightarrow> headless
         | Some (_, actorID) \<Rightarrow>
            if isUnsafeMethod (aq_Method r) \<and> header_Get ''X-Themisto-Operator'' (aq_Header r) \<noteq> ''console'' then Inl (403, ''OPERATOR_REQUEST_REJECTED'')
            else Inr actorID))"

definition getOperatorActorID :: "string \<Rightarrow> string" where
  "getOperatorActorID actorID = (if actorID = [] then ''operator'' else actorID)"

definition operator_auth_audit :: "api_request \<Rightarrow> string \<Rightarrow> string \<Rightarrow> audit_row" where
  "operator_auth_audit r actorID action =
    \<lparr>au_ActorType = ''operator'', au_ActorID = actorID, au_OrgID = None, au_Action = action, au_ResourceType = ''operator_session'', au_ResourceID = actorID,
     au_Details = [(''user_agent'', VString (header_Get ''User-Agent'' (aq_Header r)))], au_IPAddress = Some (extractClientIP (aq_Header r) (aq_RemoteAddr r))\<rparr>"

definition auditOperatorAuth :: "db_env \<Rightarrow> api_request \<Rightarrow> string \<Rightarrow> string \<Rightarrow> database \<Rightarrow> database" where
  "auditOperatorAuth env r actorID action db = audit_outside env (operator_auth_audit r actorID action) db"

definition setOperatorSessionCookie :: "time \<Rightarrow> api_request \<Rightarrow> string \<Rightarrow> time \<Rightarrow> http_cookie" where
  "setOperatorSessionCookie now r token expiresAt =
    \<lparr>ck_Name = operatorSessionCookie, ck_Value = token, ck_Path = ''/api/v1/operator'', ck_HttpOnly = True, ck_SameSiteStrict = True,
     ck_Secure = isHTTPSRequest r, ck_MaxAge = (expiresAt - now) div second, ck_Expires = expiresAt\<rparr>"

definition clearOperatorSessionCookie :: "api_request \<Rightarrow> http_cookie" where
  "clearOperatorSessionCookie r =
    \<lparr>ck_Name = operatorSessionCookie, ck_Value = [], ck_Path = ''/api/v1/operator'', ck_HttpOnly = True, ck_SameSiteStrict = True,
     ck_Secure = isHTTPSRequest r, ck_MaxAge = - 1, ck_Expires = 0\<rparr>"

definition handleOperatorLogin :: "backend_config \<Rightarrow> request_env \<Rightarrow> api_request \<Rightarrow> string option \<Rightarrow> database \<Rightarrow> http_cookie answer \<times> database" where
  "handleOperatorLogin cfg env r body db =
    (case body of
       None \<Rightarrow> (Refused (400, ''INVALID_REQUEST''), db)
     | Some accessKey \<Rightarrow>
        (let key = trim_space accessKey in
         if key = [] \<or> key \<noteq> bc_apiKey cfg then (Refused (401, ''INVALID_OPERATOR_CREDENTIALS''), db)
         else case issueOperatorSession (bc_apiKey cfg) (dx_now (rx_db env)) (rx_token env) of
             None \<Rightarrow> (Refused internal_error, db)
           | Some (token, expiresAt, actorID) \<Rightarrow>
              (Answered 200 (setOperatorSessionCookie (dx_now (rx_db env)) r token expiresAt),
               auditOperatorAuth (rx_db env) r actorID ''operator.auth.login'' db)))"

definition handleOperatorLogout :: "backend_config \<Rightarrow> db_env \<Rightarrow> api_request \<Rightarrow> database \<Rightarrow> http_cookie answer \<times> database" where
  "handleOperatorLogout cfg env r db =
    (Answered 200 (clearOperatorSessionCookie r),
     case map_of (aq_Cookies r) operatorSessionCookie of
       None \<Rightarrow> db
     | Some cookie \<Rightarrow>
        (case verifyOperatorSession (bc_apiKey cfg) (dx_now env) cookie of
           None \<Rightarrow> db
         | Some (_, actorID) \<Rightarrow> auditOperatorAuth env r actorID ''operator.auth.logout'' db))"

section \<open>Routes\<close>

datatype limiter = AuthRL | OperatorAuthRL | EnrollRL

datatype guard = Open | RateLimited limiter | APIKey | InternalToken | Operator | ControlPlaneOperator | Session | Role string

type_synonym route = "string \<times> string \<times> guard \<times> string"

definition routes :: "route list" where
  "routes =
    [(''GET'', ''/healthz'', Open, ''handleHealth''),
     (''GET'', ''/metrics'', InternalToken, ''promhttp''),
     (''POST'', ''/api/v1/orgs'', APIKey, ''handleCreateOrg''),
     (''POST'', ''/api/v1/operator/auth/login'', RateLimited OperatorAuthRL, ''handleOperatorLogin''),
     (''POST'', ''/api/v1/operator/auth/logout'', Open, ''handleOperatorLogout''),
     (''GET'', ''/api/v1/operator/auth/me'', Operator, ''handleOperatorMe''),
     (''GET'', ''/api/v1/operator/orgs'', ControlPlaneOperator, ''handleOperatorListOrgs''),
     (''GET'', ''/api/v1/operator/fleet'', Operator, ''handleOperatorFleet''),
     (''PUT'', ''/api/v1/operator/fleet/emergency-mode'', Operator, ''handleOperatorFleetEmergencyMode''),
     (''POST'', ''/api/v1/operator/orgs'', ControlPlaneOperator, ''handleOperatorCreateOrg''),
     (''PUT'', ''/api/v1/operator/orgs/{orgID}/provisioning'', ControlPlaneOperator, ''handleOperatorUpdateProvisioning''),
     (''POST'', ''/api/v1/operator/orgs/{orgID}/deployment-package'', ControlPlaneOperator, ''handleOperatorCreateDeploymentPackage''),
     (''PUT'', ''/api/v1/operator/orgs/{orgID}/status'', ControlPlaneOperator, ''handleOperatorUpdateStatus''),
     (''POST'', ''/api/v1/operator/orgs/{orgID}/revoke-certs'', ControlPlaneOperator, ''handleOperatorRevokeOrgCerts''),
     (''POST'', ''/api/v1/devices'', APIKey, ''handleRegisterDevice''),
     (''POST'', ''/api/v1/devices/{deviceID}/csr'', RateLimited EnrollRL, ''handleSubmitCSR''),
     (''POST'', ''/api/v1/devices/{deviceID}/revoke'', APIKey, ''handleRevoke''),
     (''GET'', ''/internal/cert-status/{serial}'', InternalToken, ''handleCertStatus''),
     (''GET'', ''/api/v1/enforcement/org-status/{orgID}'', APIKey, ''handleEnforcementOrgStatus''),
     (''GET'', ''/api/v1/enforcement/device-status/{deviceID}'', APIKey, ''handleEnforcementDeviceStatus''),
     (''POST'', ''/api/v1/auth/login'', RateLimited AuthRL, ''handleLogin''),
     (''POST'', ''/api/v1/auth/logout'', Open, ''handleLogout''),
     (''GET'', ''/api/v1/auth/me'', Session, ''handleMe''),
     (''POST'', ''/api/v1/auth/terms/accept'', Session, ''handleAcceptTerms''),
     (''GET'', ''/api/v1/orgs/{orgID}/devices'', Session, ''handleListDevices''),
     (''POST'', ''/api/v1/devices/enrollment-package'', Role ''admin'', ''handleCreateEnrollmentPackage''),
     (''POST'', ''/api/v1/devices/enrollment-package/bulk'', Role ''admin'', ''handleBulkEnrollmentPackage''),
     (''POST'', ''/api/v1/devices/{deviceID}/enrollment-token'', Role ''admin'', ''handleReissueEnrollmentToken''),
     (''GET'', ''/enroll/{code}'', Open, ''handleEnrollLink''),
     (''GET'', ''/api/v1/dashboard/stats'', Session, ''handleDashboardStats''),
     (''GET'', ''/api/v1/audit-log'', Session, ''handleListAudit''),
     (''GET'', ''/api/v1/telemetry/events'', Session, ''handleListTelemetry''),
     (''GET'', ''/api/v1/telemetry/timeseries'', Session, ''handleTelemetryTimeSeries''),
     (''GET'', ''/api/v1/ai-usage'', Session, ''handleAIUsage''),
     (''GET'', ''/api/v1/ai-governance/vendors'', Session, ''handleListAIVendorGovernance''),
     (''GET'', ''/api/v1/ai/governance/vendors'', Session, ''handleListAIVendorGovernance''),
     (''GET'', ''/api/v1/ai/intercept-domains'', Role ''admin'', ''handleListAIInterceptDomains''),
     (''PUT'', ''/api/v1/ai/intercept-domains'', Role ''admin'', ''handleReplaceAIInterceptDomains''),
     (''PUT'', ''/api/v1/ai-governance/vendors/{vendor}'', Role ''admin'', ''handleUpsertAIVendorGovernance''),
     (''POST'', ''/api/v1/ai-governance/vendors/{vendor}'', Role ''admin'', ''handleUpsertAIVendorGovernance''),
     (''PUT'', ''/api/v1/ai/governance/vendors/{vendor}'', Role ''admin'', ''handleUpsertAIVendorGovernance''),
     (''POST'', ''/api/v1/ai/governance/vendors/{vendor}'', Role ''admin'', ''handleUpsertAIVendorGovernance''),
     (''POST'', ''/api/v1/ai-governance/vendors/{vendor}/block'', Role ''admin'', ''handleBlockUnsanctionedVendor''),
     (''POST'', ''/api/v1/ai/governance/vendors/{vendor}/block'', Role ''admin'', ''handleBlockUnsanctionedVendor''),
     (''POST'', ''/api/v1/ai-governance/vendors/{vendor}/unblock'', Role ''admin'', ''handleUnblockVendor''),
     (''POST'', ''/api/v1/ai/governance/vendors/{vendor}/unblock'', Role ''admin'', ''handleUnblockVendor''),
     (''GET'', ''/api/v1/ai-ledger/summary'', Role ''admin'', ''handleAILedgerSummary''),
     (''GET'', ''/api/v1/ai-ledger/products'', Role ''admin'', ''handleAILedgerProducts''),
     (''GET'', ''/api/v1/ai-ledger/people'', Role ''admin'', ''handleAILedgerPeople''),
     (''GET'', ''/api/v1/ai-ledger/findings'', Role ''admin'', ''handleAILedgerFindings''),
     (''GET'', ''/api/v1/ai-ledger/sources'', Role ''admin'', ''handleAILedgerSources''),
     (''GET'', ''/api/v1/ai-ledger/connector-types'', Role ''admin'', ''handleAILedgerConnectorTypes''),
     (''POST'', ''/api/v1/ai-ledger/connectors'', Role ''admin'', ''handleAILedgerCreateConnector''),
     (''GET'', ''/api/v1/ai-ledger/connectors/{connectorID}'', Role ''admin'', ''handleAILedgerConnectorStatus''),
     (''POST'', ''/api/v1/ai-ledger/connectors/{connectorID}/sync'', Role ''admin'', ''handleAILedgerSyncConnector''),
     (''GET'', ''/api/v1/ai-ledger/directory-users'', Role ''admin'', ''handleAILedgerDirectoryUsers''),
     (''POST'', ''/api/v1/ai-ledger/device-user-assignments'', Role ''admin'', ''handleAILedgerAssignDeviceUser''),
     (''POST'', ''/api/v1/ai-ledger/csv/validate'', Role ''admin'', ''handleAILedgerCSVValidate''),
     (''POST'', ''/api/v1/ai-ledger/csv/commit'', Role ''admin'', ''handleAILedgerCSVCommit''),
     (''GET'', ''/api/v1/ai-ledger/export'', Role ''admin'', ''handleAILedgerExport''),
     (''GET'', ''/api/v1/dlp/events'', Session, ''handleListDLPEvents''),
     (''GET'', ''/api/v1/dlp/events/{id}'', Session, ''handleGetDLPEvent''),
     (''PATCH'', ''/api/v1/dlp/events/{id}/review'', Role ''admin'', ''handleUpdateDLPEventReview''),
     (''GET'', ''/api/v1/dlp/events/{id}/body'', Role ''admin'', ''handleGetDLPEventBody''),
     (''GET'', ''/api/v1/dlp/summary'', Session, ''handleDLPSummary''),
     (''GET'', ''/api/v1/alerts'', Role ''admin'', ''handleListAlerts''),
     (''POST'', ''/api/v1/alerts/read'', Role ''admin'', ''handleMarkAlertsRead''),
     (''GET'', ''/api/v1/policies'', Session, ''handleListPolicies''),
     (''GET'', ''/api/v1/policies/enforcement'', Role ''admin'', ''handleGetPolicyEnforcement''),
     (''PUT'', ''/api/v1/policies/enforcement'', Role ''admin'', ''handleUpdatePolicyEnforcement''),
     (''POST'', ''/api/v1/policies'', Role ''admin'', ''handleCreatePolicy''),
     (''PUT'', ''/api/v1/policies/{id}'', Role ''admin'', ''handleUpdatePolicy''),
     (''DELETE'', ''/api/v1/policies/{id}'', Role ''admin'', ''handleDeletePolicy''),
     (''POST'', ''/api/v1/policies/test'', Role ''admin'', ''handleTestPolicy''),
     (''POST'', ''/api/v1/policies/prompt-test'', Role ''admin'', ''handlePromptPolicyTest''),
     (''GET'', ''/api/v1/evidence/policies'', Role ''admin'', ''handleExportPolicySnapshot''),
     (''GET'', ''/api/v1/evidence/dlp.csv'', Role ''admin'', ''handleExportDLPEventsCSV''),
     (''GET'', ''/api/v1/evidence/audit.csv'', Role ''admin'', ''handleExportAuditCSV''),
     (''GET'', ''/api/v1/settings'', Session, ''handleGetSettings''),
     (''PUT'', ''/api/v1/settings'', Role ''admin'', ''handleUpdateSettings''),
     (''POST'', ''/api/v1/users'', Role ''owner'', ''handleCreateUser''),
     (''DELETE'', ''/api/v1/users/{id}'', Role ''owner'', ''handleDeleteUser''),
     (''PUT'', ''/api/v1/auth/password'', Session, ''handleChangePassword'')]"

definition wildcard :: "string \<Rightarrow> bool" where
  "wildcard seg = (seg \<noteq> [] \<and> hd seg = CHR ''{'')"

definition segment_match :: "string \<Rightarrow> string \<Rightarrow> bool" where
  "segment_match pat seg = (if wildcard pat then seg \<noteq> [] else pat = seg)"

definition path_match :: "string \<Rightarrow> string \<Rightarrow> bool" where
  "path_match pattern path = (let segs = split_on (CHR ''/'') path in
     list_all2 segment_match (split_on (CHR ''/'') pattern) segs \<and> ''.'' \<notin> set segs \<and> ''..'' \<notin> set segs)"

definition method_match :: "string \<Rightarrow> string \<Rightarrow> bool" where
  "method_match pm m = (pm = m \<or> pm = ''GET'' \<and> m = ''HEAD'')"

definition wildcards :: "route \<Rightarrow> nat" where
  "wildcards rt = length (filter wildcard (split_on (CHR ''/'') (fst (snd rt))))"

definition find_route :: "api_request \<Rightarrow> (guard \<times> string) option" where
  "find_route r =
    (case sort_key wildcards (filter (\<lambda>(m, p, _, _). method_match m (aq_Method r) \<and> path_match p (aq_Path r)) routes) of
       [] \<Rightarrow> None
     | (_, _, g, h) # _ \<Rightarrow> Some (g, h))"

section \<open>Guards\<close>

definition normalizeOperatorMode :: "string \<Rightarrow> string" where
  "normalizeOperatorMode mode = (if to_lower (trim_space mode) = ''control_plane'' then ''control_plane'' else ''customer_ops'')"

definition requireControlPlaneOperator :: "backend_config \<Rightarrow> refusal option" where
  "requireControlPlaneOperator cfg =
    (if normalizeOperatorMode (bc_operatorMode cfg) \<noteq> ''control_plane'' then Some (403, ''OPERATOR_MODE_RESTRICTED'') else None)"

definition withInternalAuth :: "backend_config \<Rightarrow> api_request \<Rightarrow> refusal option" where
  "withInternalAuth cfg r =
    (let token = header_Get ''X-Internal-Token'' (aq_Header r) in
     if token = [] \<or> token \<noteq> bc_apiKey cfg then Some (401, ''UNAUTHORIZED'') else None)"

definition withAuth :: "backend_config \<Rightarrow> api_request \<Rightarrow> refusal option" where
  "withAuth cfg r =
    (let auth = header_Get ''Authorization'' (aq_Header r) in
     if \<not> has_prefix auth ''Bearer '' then Some (401, ''UNAUTHORIZED'')
     else if trim_prefix auth ''Bearer '' \<noteq> bc_apiKey cfg then Some (401, ''UNAUTHORIZED'')
     else None)"

datatype principal = Anyone | KeyHolder | OperatorActor string | AsUser admin_user

record limiters =
  li_auth :: rateLimiter
  li_operatorAuth :: rateLimiter
  li_enroll :: rateLimiter
  li_general :: rateLimiter

definition new_limiters :: limiters where
  "new_limiters = \<lparr>li_auth = newRateLimiter 5 (60 * second), li_operatorAuth = newRateLimiter 5 (60 * second),
     li_enroll = newRateLimiter 10 (60 * second), li_general = newRateLimiter 60 (60 * second)\<rparr>"

fun limiter_of :: "limiter \<Rightarrow> limiters \<Rightarrow> rateLimiter" where
  "limiter_of AuthRL l = li_auth l"
| "limiter_of OperatorAuthRL l = li_operatorAuth l"
| "limiter_of EnrollRL l = li_enroll l"

fun put_limiter :: "limiter \<Rightarrow> rateLimiter \<Rightarrow> limiters \<Rightarrow> limiters" where
  "put_limiter AuthRL rl l = l\<lparr>li_auth := rl\<rparr>"
| "put_limiter OperatorAuthRL rl l = l\<lparr>li_operatorAuth := rl\<rparr>"
| "put_limiter EnrollRL rl l = l\<lparr>li_enroll := rl\<rparr>"

definition key_guard :: "refusal option \<Rightarrow> refusal + principal" where
  "key_guard g = (case g of None \<Rightarrow> Inr KeyHolder | Some e \<Rightarrow> Inl e)"

fun check_guard :: "backend_config \<Rightarrow> db_env \<Rightarrow> guard \<Rightarrow> api_request \<Rightarrow> database \<Rightarrow> limiters \<Rightarrow> (refusal + principal) \<times> limiters" where
  "check_guard cfg env Open r db l = (Inr Anyone, l)"
| "check_guard cfg env (RateLimited k) r db l =
    (case withRateLimit (dx_now env) (aq_Header r) (aq_RemoteAddr r) (limiter_of k l) of
       (PassedOn, rl) \<Rightarrow> (Inr Anyone, put_limiter k rl l)
     | (TooManyRequests _, rl) \<Rightarrow> (Inl (429, ''RATE_LIMITED''), put_limiter k rl l))"
| "check_guard cfg env APIKey r db l = (key_guard (withAuth cfg r), l)"
| "check_guard cfg env InternalToken r db l = (key_guard (withInternalAuth cfg r), l)"
| "check_guard cfg env Operator r db l = (and_then (withOperatorAuth cfg (dx_now env) r) (\<lambda>a. Inr (OperatorActor a)), l)"
| "check_guard cfg env ControlPlaneOperator r db l =
    (and_then (withOperatorAuth cfg (dx_now env) r)
      (\<lambda>a. case requireControlPlaneOperator cfg of Some e \<Rightarrow> Inl e | None \<Rightarrow> Inr (OperatorActor a)), l)"
| "check_guard cfg env Session r db l = (and_then (withSession env r db) (\<lambda>u. Inr (AsUser u)), l)"
| "check_guard cfg env (Role m) r db l = (and_then (withRole m env r db) (\<lambda>u. Inr (AsUser u)), l)"

section \<open>The server\<close>

text \<open>The cross-origin headers: the configured origins, or any outside production when none is configured.\<close>

definition cors_headers :: "string list \<Rightarrow> string \<Rightarrow> api_request \<Rightarrow> (string \<times> string) list" where
  "cors_headers allowed nodeEnv r =
    (let origin = header_Get ''Origin'' (aq_Header r) in
     if origin \<noteq> [] \<and> (allowed = [] \<and> to_lower (trim_space nodeEnv) \<noteq> ''production'' \<or> origin \<in> set allowed) then
       [(''Vary'', ''Origin''), (''Access-Control-Allow-Origin'', origin), (''Access-Control-Allow-Credentials'', ''true''),
        (''Access-Control-Allow-Methods'', ''GET, POST, PUT, DELETE, OPTIONS''),
        (''Access-Control-Allow-Headers'', ''Content-Type, Authorization, X-Themisto-Operator'')]
     else [])"

datatype dispatch = Preflight | Unrouted | Denied refusal | Reaches string principal

definition server_ServeHTTP :: "backend_config \<Rightarrow> db_env \<Rightarrow> api_request \<Rightarrow> database \<Rightarrow> limiters \<Rightarrow> dispatch \<times> limiters" where
  "server_ServeHTTP cfg env r db l =
    (if aq_Method r = ''OPTIONS'' then (Preflight, l)
     else case allow (dx_now env) (extractClientIP (aq_Header r) (aq_RemoteAddr r)) (li_general l) of
         (False, rl) \<Rightarrow> (Denied (429, ''RATE_LIMITED''), l\<lparr>li_general := rl\<rparr>)
       | (True, rl) \<Rightarrow>
          (case find_route r of
             None \<Rightarrow> (Unrouted, l\<lparr>li_general := rl\<rparr>)
           | Some (g, h) \<Rightarrow>
              (case check_guard cfg env g r db (l\<lparr>li_general := rl\<rparr>) of
                 (Inl e, l') \<Rightarrow> (Denied e, l')
               | (Inr who, l') \<Rightarrow> (Reaches h who, l'))))"

definition metricsPath :: "string \<Rightarrow> string" where
  "metricsPath p =
    (if has_prefix p ''/api/v1/devices/'' \<and> has_suffix p ''/csr'' then ''/api/v1/devices/{id}/csr''
     else if has_prefix p ''/api/v1/devices/'' \<and> has_suffix p ''/revoke'' then ''/api/v1/devices/{id}/revoke''
     else if has_prefix p ''/api/v1/devices/'' \<and> has_suffix p ''/enrollment-token'' then ''/api/v1/devices/{id}/enrollment-token''
     else if has_prefix p ''/enroll/'' then ''/enroll/{code}''
     else if has_prefix p ''/internal/cert-status/'' then ''/internal/cert-status/{serial}''
     else if has_prefix p ''/api/v1/dlp/events/'' \<and> has_suffix p ''/body'' then ''/api/v1/dlp/events/{id}/body''
     else if has_prefix p ''/api/v1/dlp/events/'' then ''/api/v1/dlp/events/{id}''
     else if has_prefix p ''/api/v1/policies/'' then ''/api/v1/policies/{id}''
     else if has_prefix p ''/api/v1/users/'' then ''/api/v1/users/{id}''
     else p)"

section \<open>Operator sessions expire on time\<close>

lemma split_on_dot: "c \<notin> set a \<Longrightarrow> split_on c (a @ c # s) = a # split_on c s"
  by (induction a) auto

lemma be_bytes_bound: "is_bytes (be_bytes n v)"
  by (auto simp: be_bytes_def)

lemma sha256_bytes: "is_bytes (sha256 v)"
  using be_bytes_bound by (auto simp: sha256_def sha_output_def split: prod.split)

lemma signature_no_dot: "CHR ''.'' \<notin> set (signOperatorPayload k p)"
  using rawurl_no_dot[OF sha256_bytes] by (simp add: signOperatorPayload_def hmac_sha256_def Let_def)

lemma atoi_nat_str: "int n < 2 ^ 63 \<Longrightarrow> atoi (nat_str n) = Some (int n)"
proof -
  assume n: "int n < 2 ^ 63"
  obtain c s where cs: "nat_str n = c # s" using nat_str_nonempty by (cases "nat_str n") auto
  have "is_digit c" using digit_chars[of c n] cs by simp
  then have "c \<noteq> CHR ''-''" "c \<noteq> CHR ''+''" by (auto simp: is_digit_def)
  moreover have "list_all is_digit (nat_str n)" using digit_chars by (auto simp: list_all_iff)
  ultimately show ?thesis using n nat_str_value[of n] cs by (simp add: atoi_def Let_def)
qed

lemma decimal_no_dot: "0 \<le> n \<Longrightarrow> CHR ''.'' \<notin> set (decimal n)"
  using digit_chars[of "CHR ''.''" "nat n"] by (auto simp: decimal_def is_digit_def)

lemma session_parts:
  assumes "is_bytes nonce" "0 \<le> e"
  shows "split_on (CHR ''.'') ((''v1.'' @ decimal e @ ''.'' @ rawurl_encode nonce) @ ''.'' @ signOperatorPayload k p) =
    [''v1'', decimal e, rawurl_encode nonce, signOperatorPayload k p]"
proof -
  have "(''v1.'' @ decimal e @ ''.'' @ rawurl_encode nonce) @ ''.'' @ signOperatorPayload k p =
      ''v1'' @ CHR ''.'' # decimal e @ CHR ''.'' # rawurl_encode nonce @ CHR ''.'' # signOperatorPayload k p" by simp
  then show ?thesis
    using split_on_dot[of "CHR ''.''" "''v1''"] split_on_dot[OF decimal_no_dot[OF assms(2)]] split_on_dot[OF rawurl_no_dot[OF assms(1)]]
      split_on_absent[OF signature_no_dot] by simp
qed

text \<open>
An operator session that was issued with a 24-byte nonce is accepted at a later time exactly while the second its
expiry is truncated to lies ahead, within the lifetime and a minute of tolerance, and as the same actor; and every
token that is accepted ends in the signature of what stands before it under the administrative key, and expires within
the lifetime and a minute.
\<close>

theorem operator_session_window:
  assumes "issueOperatorSession key now (Some nonce) = Some (token, expiresAt, actorID)"
    and "is_bytes nonce" and "length nonce = 24" and "0 \<le> now" and "expiresAt div second < 2 ^ 63"
  shows "verifyOperatorSession key later token =
      (let e = expiresAt div second * second in if later < e \<and> e \<le> later + operatorSessionTTL + 60 * second then Some (e, actorID) else None)
    \<and> (\<forall>t e a. verifyOperatorSession key later t = Some (e, a) \<longrightarrow>
        (\<exists>payload. t = payload @ ''.'' @ signOperatorPayload key payload) \<and> later < e \<and> e \<le> later + operatorSessionTTL + 60 * second)"
proof
  define e where "e = expiresAt div second"
  have x: "expiresAt = now + operatorSessionTTL" "actorID = operator_actor nonce"
    "token = (''v1.'' @ decimal e @ ''.'' @ rawurl_encode nonce) @ ''.'' @ signOperatorPayload key (''v1.'' @ decimal e @ ''.'' @ rawurl_encode nonce)"
    using assms(1) by (auto simp: issueOperatorSession_def Let_def e_def)
  have e0: "0 \<le> e" using assms(4) by (simp add: e_def x(1) operatorSessionTTL_def second_def)
  have a: "atoi (decimal e) = Some e" using e0 assms(5) atoi_nat_str[of "nat e"] by (simp add: decimal_def e_def)
  show "verifyOperatorSession key later token =
      (let e = expiresAt div second * second in if later < e \<and> e \<le> later + operatorSessionTTL + 60 * second then Some (e, actorID) else None)"
    unfolding verifyOperatorSession_def x(3) session_parts[OF assms(2) e0] e_def[symmetric]
    using a rawurl_roundtrip[OF assms(2)] assms(3) by (auto simp: Let_def x(2))
  show "\<forall>t e a. verifyOperatorSession key later t = Some (e, a) \<longrightarrow>
        (\<exists>payload. t = payload @ ''.'' @ signOperatorPayload key payload) \<and> later < e \<and> e \<le> later + operatorSessionTTL + 60 * second"
  proof (intro allI impI)
    fix t e a
    assume v: "verifyOperatorSession key later t = Some (e, a)"
    obtain p0 p1 p2 p3 where p: "split_on (CHR ''.'') t = [p0, p1, p2, p3]"
      using v by (auto simp: verifyOperatorSession_def Let_def length_Suc_conv numeral_eq_Suc split: if_splits)
    have "p3 = signOperatorPayload key (join_with ''.'' [p0, p1, p2])" "later < e \<and> e \<le> later + operatorSessionTTL + 60 * second"
      using v p by (auto simp: verifyOperatorSession_def Let_def split: if_splits option.splits)
    moreover have "t = join_with ''.'' [p0, p1, p2] @ ''.'' @ p3" using join_split_on[of "CHR ''.''" t] by (simp add: p)
    ultimately show "(\<exists>payload. t = payload @ ''.'' @ signOperatorPayload key payload) \<and> later < e \<and> e \<le> later + operatorSessionTTL + 60 * second"
      by metis
  qed
qed

text \<open>The login and logout of an operator are never in the audit log: the kind of actor they name is not one its check admits.\<close>

lemma operator_auth_never_audited: "auditOperatorAuth env r actorID action db = db"
  by (simp add: auditOperatorAuth_def audit_outside_def InsertAudit_def operator_auth_audit_def actor_types_def)

section \<open>Who reaches a handler\<close>

definition open_handlers :: "string list" where
  "open_handlers = [''handleHealth'', ''handleOperatorLogin'', ''handleOperatorLogout'', ''handleSubmitCSR'', ''handleLogin'', ''handleLogout'', ''handleEnrollLink'']"

definition control_plane_handlers :: "string list" where
  "control_plane_handlers = [''handleOperatorCreateOrg'', ''handleOperatorUpdateStatus'', ''handleOperatorRevokeOrgCerts'', ''handleOperatorUpdateProvisioning'',
     ''handleOperatorCreateDeploymentPackage'']"

definition account_handlers :: "string list" where
  "account_handlers = [''handleCreateUser'', ''handleDeleteUser'']"

definition self_handlers :: "string list" where
  "self_handlers = [''handleAcceptTerms'', ''handleChangePassword'']"

definition presents_key :: "backend_config \<Rightarrow> api_request \<Rightarrow> bool" where
  "presents_key cfg r = (has_prefix (header_Get ''Authorization'' (aq_Header r)) ''Bearer '' \<and> trim_prefix (header_Get ''Authorization'' (aq_Header r)) ''Bearer '' = bc_apiKey cfg \<or> header_Get ''X-Internal-Token'' (aq_Header r) = bc_apiKey cfg)"

text \<open>What a route asks of whom it lets pass, read off its method and handler alone.\<close>

fun guard_suits :: "string \<Rightarrow> guard \<Rightarrow> string \<Rightarrow> bool" where
  "guard_suits m Open h = (h \<in> set open_handlers)"
| "guard_suits m (RateLimited _) h = (h \<in> set open_handlers)"
| "guard_suits m Session h = ((isUnsafeMethod m \<longrightarrow> h \<in> set self_handlers) \<and> h \<notin> set account_handlers)"
| "guard_suits m (Role level) h = (level \<in> set [''admin'', ''owner''] \<and> (h \<in> set account_handlers \<longrightarrow> level = ''owner''))"
| "guard_suits m Operator h = (h \<notin> set account_handlers \<and> h \<notin> set control_plane_handlers)"
| "guard_suits m _ h = (h \<notin> set account_handlers)"

definition route_sound :: "route \<Rightarrow> bool" where
  "route_sound rt = (case rt of (m, p, g, h) \<Rightarrow> guard_suits m g h)"

lemma routes_sound: "list_all route_sound routes"
  by code_simp

lemma find_route_in: "find_route r = Some (g, h) \<Longrightarrow> \<exists>m p. (m, p, g, h) \<in> set routes \<and> method_match m (aq_Method r)"
proof -
  assume f: "find_route r = Some (g, h)"
  define c where "c = filter (\<lambda>(m, p, _, _). method_match m (aq_Method r) \<and> path_match p (aq_Path r)) routes"
  obtain m p rest where "sort_key wildcards c = (m, p, g, h) # rest"
    using f unfolding find_route_def c_def[symmetric] by (auto split: list.splits)
  then have "(m, p, g, h) \<in> set c" by (metis list.set_intros(1) set_sort)
  then show ?thesis by (auto simp: c_def)
qed

lemma route_of:
  assumes "server_ServeHTTP cfg env r db l = (Reaches h who, l')"
  obtains m p g l1 l2 where "route_sound (m, p, g, h)" "method_match m (aq_Method r)" "check_guard cfg env g r db l1 = (Inr who, l2)"
proof -
  from assms obtain g rl where f: "find_route r = Some (g, h)" "check_guard cfg env g r db (l\<lparr>li_general := rl\<rparr>) = (Inr who, l')"
    by (auto simp: server_ServeHTTP_def split: if_splits prod.splits bool.splits option.splits sum.splits)
  obtain m p where m: "(m, p, g, h) \<in> set routes" "method_match m (aq_Method r)" using find_route_in[OF f(1)] by blast
  show ?thesis using that[OF _ m(2) f(2)] m(1) routes_sound by (auto simp: list_all_iff)
qed

lemma unsafe_pattern: "method_match m m' \<Longrightarrow> isUnsafeMethod m' \<Longrightarrow> isUnsafeMethod m"
  by (auto simp: method_match_def isUnsafeMethod_def)

definition operator_admitted :: "backend_config \<Rightarrow> time \<Rightarrow> api_request \<Rightarrow> string \<Rightarrow> bool" where
  "operator_admitted cfg now r a =
    ((\<exists>cookie e. map_of (aq_Cookies r) operatorSessionCookie = Some cookie \<and> verifyOperatorSession (bc_apiKey cfg) now cookie = Some (e, a) \<and>
        (isUnsafeMethod (aq_Method r) \<longrightarrow> header_Get ''X-Themisto-Operator'' (aq_Header r) = ''console''))
     \<or> a = ''operator-api'' \<and> trim_space (header_Get ''Origin'' (aq_Header r)) = [] \<and>
        has_prefix (header_Get ''Authorization'' (aq_Header r)) ''Bearer '' \<and>
        trim_space (trim_prefix (header_Get ''Authorization'' (aq_Header r)) ''Bearer '') = bc_apiKey cfg)"

lemma operator_auth_ok: "withOperatorAuth cfg now r = Inr a \<Longrightarrow> operator_admitted cfg now r a"
  unfolding withOperatorAuth_def operator_admitted_def Let_def
  by (auto split: option.splits if_splits)

lemma key_ok: "withAuth cfg r = None \<Longrightarrow> presents_key cfg r" "withInternalAuth cfg r = None \<Longrightarrow> presents_key cfg r"
  by (auto simp: withAuth_def withInternalAuth_def presents_key_def Let_def split: if_splits)

lemma role_levels: "hasMinimumRole role level \<Longrightarrow> level \<in> set [''admin'', ''owner''] \<Longrightarrow> role \<in> {''admin'', ''owner''}"
  by (auto simp: hasMinimumRole_def roleLevel_def split: if_splits)

text \<open>What was checked for whom a handler is reached.\<close>

definition entitled :: "backend_config \<Rightarrow> db_env \<Rightarrow> api_request \<Rightarrow> database \<Rightarrow> string \<Rightarrow> principal \<Rightarrow> bool" where
  "entitled cfg env r db h who = (case who of
     Anyone \<Rightarrow> h \<in> set open_handlers
   | KeyHolder \<Rightarrow> presents_key cfg r \<and> h \<notin> set account_handlers
   | OperatorActor a \<Rightarrow> operator_admitted cfg (dx_now env) r a \<and> h \<notin> set account_handlers \<and>
       (h \<in> set control_plane_handlers \<longrightarrow> normalizeOperatorMode (bc_operatorMode cfg) = ''control_plane'')
   | AsUser u \<Rightarrow> withSession env r db = Inr u \<and>
       (isUnsafeMethod (aq_Method r) \<longrightarrow> h \<in> set self_handlers \<or> us_Role u \<in> {''admin'', ''owner''}) \<and>
       (h \<in> set account_handlers \<longrightarrow> us_Role u = ''owner''))"

lemma guard_entitles:
  assumes "route_sound (m, p, g, h)" "method_match m (aq_Method r)" "check_guard cfg env g r db l = (Inr who, l')"
  shows "entitled cfg env r db h who"
proof (cases g)
  case Open
  then show ?thesis using assms by (auto simp: route_sound_def entitled_def)
next
  case (RateLimited k)
  then show ?thesis using assms by (auto simp: route_sound_def entitled_def split: prod.splits limited.splits)
next
  case APIKey
  then show ?thesis using assms key_ok(1)[of cfg r] by (auto simp: route_sound_def entitled_def key_guard_def split: option.splits)
next
  case InternalToken
  then show ?thesis using assms key_ok(2)[of cfg r] by (auto simp: route_sound_def entitled_def key_guard_def split: option.splits)
next
  case Operator
  then show ?thesis using assms operator_auth_ok
    by (auto simp: route_sound_def entitled_def and_then_def split: sum.splits)
next
  case ControlPlaneOperator
  then show ?thesis using assms operator_auth_ok
    by (auto simp: route_sound_def entitled_def and_then_def requireControlPlaneOperator_def split: sum.splits option.splits if_splits)
next
  case Session
  then show ?thesis using assms unsafe_pattern[OF assms(2)] by (auto simp: route_sound_def entitled_def and_then_def split: sum.splits)
next
  case (Role level)
  obtain u where u: "withRole level env r db = Inr u" "who = AsUser u" using assms(3) Role by (auto simp: and_then_def split: sum.splits)
  have lv: "level \<in> set [''admin'', ''owner'']" "h \<in> set account_handlers \<longrightarrow> level = ''owner''"
    using assms(1) Role by (simp_all add: route_sound_def)
  show ?thesis using role_user[OF u(1)] u(2) lv role_levels owner_level by (auto simp: entitled_def)
qed

text \<open>
C6. Whoever reaches a handler of the backend is entitled to it. Without authentication only the seven open handlers are
reached. A request that is not a safe one passes as a dashboard user only with the role admin or owner, apart from
accepting the terms and changing the own password, and accounts are created and deleted by an owner's session only. A
holder of the key presented it. An operator holds a valid session, with the console header unless the method is safe,
or the key in a request without an origin; and the handlers that change organisations answer in control-plane mode
only.
\<close>

theorem handlers_reached_by_entitled:
  assumes "server_ServeHTTP cfg env r db l = (Reaches h who, l')"
  shows "entitled cfg env r db h who"
  by (rule route_of[OF assms]) (rule guard_entitles)

theorem handlers_reached_by_entitled_witness:
  "entitled sample_config (ax_db (sample_auth 2 2)) (sample_api_request ''01'') sample_logged_in ''handleListAudit'' (AsUser sample_owner)"
proof -
  have f: "find_route (sample_api_request ''01'') = Some (Session, ''handleListAudit'')" by code_simp
  have a: "\<exists>rl. allow (dx_now (ax_db (sample_auth 2 2))) (extractClientIP [] ''10.0.0.1:1'') (newRateLimiter 60 (60 * second)) = (True, rl)"
    by (simp add: allow_def newRateLimiter_def)
  then obtain rl where a: "allow (dx_now (ax_db (sample_auth 2 2))) (extractClientIP [] ''10.0.0.1:1'') (newRateLimiter 60 (60 * second)) = (True, rl)" by blast
  have r: "aq_Method (sample_api_request ''01'') = ''GET''" "aq_Header (sample_api_request ''01'') = []" "aq_RemoteAddr (sample_api_request ''01'') = ''10.0.0.1:1''"
    by (simp_all add: sample_api_request_def)
  have "server_ServeHTTP sample_config (ax_db (sample_auth 2 2)) (sample_api_request ''01'') sample_logged_in new_limiters =
      (Reaches ''handleListAudit'' (AsUser sample_owner), new_limiters\<lparr>li_general := rl\<rparr>)"
    using a f sample_session by (simp add: server_ServeHTTP_def r new_limiters_def and_then_def)
  then show ?thesis by (rule handlers_reached_by_entitled)
qed

theorem operator_session_window_witness:
  "\<exists>token e a. issueOperatorSession ''key'' 0 (Some (replicate 24 7)) = Some (token, e, a) \<and> verifyOperatorSession ''key'' 5 token = Some (1800 * second, a)"
proof -
  obtain token a where i: "issueOperatorSession ''key'' 0 (Some (replicate 24 7)) = Some (token, 1800 * second, a)"
    by (auto simp: issueOperatorSession_def Let_def operatorSessionTTL_def)
  have "is_bytes (replicate 24 7)" "length (replicate 24 (7::nat)) = 24" "(0::int) \<le> 0" "1800 * second div second < 2 ^ 63" by (simp_all add: second_def)
  from operator_session_window[OF i this, of 5] show ?thesis
    using i by (auto simp: Let_def second_def operatorSessionTTL_def)
qed

end
