(* ===== verification/Hook_Install.thy ===== *)
theory Hook_Install
  imports Domain_Types Go_Stdlib "HOL-Library.AList"
begin

text \<open>
  Installing the prompt hooks into the editors (\<^verbatim>\<open>src/desktop/cursor.go\<close>, \<^verbatim>\<open>claudecode.go\<close>, \<^verbatim>\<open>windsurf.go\<close>,
  \<^verbatim>\<open>hook_support.go\<close>): editing the editor's JSON configuration, writing the hook script, removing
  and repairing the hook, and detecting the state of an integration.

  A disk is a map from path to contents with a set of directories. A JSON file this code wrote is the document
  it was written from (it is read back by its members, whatever their order; the numbers it holds are not
  looked at); any other file is its text. The operations that fail are a parameter, as are the decoding of
  JSON text, the embedded PowerShell scripts, the search for the installed editor and the
  question whether the agent accepts a hook flag. Texts that a status only displays are left out. A nil map
  is \<open>None\<close>; writing to it panics.
\<close>

section \<open>The machine\<close>

datatype content = Text string | Doc godata

record disk =
  dk_files :: "string \<Rightarrow> content option"
  dk_dirs :: "string set"

record host =
  ho_windows :: bool
  ho_darwin :: bool
  ho_agent :: string
  ho_powershell :: string
  ho_comspec :: string
  ho_script :: "string \<Rightarrow> string"
  ho_supports :: "string \<Rightarrow> bool"
  ho_installed :: bool
  ho_fails :: "string \<Rightarrow> string \<Rightarrow> bool"
  ho_torn :: string
  ho_unmarshal :: "string \<Rightarrow> goval option"

datatype io_error = ReadFailed | ParseFailed | WriteFailed | MkdirFailed | NotAnObject | Unsupported

datatype edit_outcome = Done | Failed io_error | Panicked

definition put_file :: "string \<Rightarrow> content option \<Rightarrow> disk \<Rightarrow> disk" where
  "put_file path data d = d\<lparr>dk_files := (dk_files d)(path := data)\<rparr>"

text \<open>\<^verbatim>\<open>filepath.Dir\<close> of a clean path; on Windows both separators count.\<close>

definition path_dir :: "host \<Rightarrow> string \<Rightarrow> string" where
  "path_dir h p = (case last_index_of (CHR ''/'') (if ho_windows h then replace_char backslash (CHR ''/'') p else p) of None \<Rightarrow> ''.'' | Some 0 \<Rightarrow> ''/'' | Some i \<Rightarrow> take i p)"

definition read_file :: "host \<Rightarrow> string \<Rightarrow> disk \<Rightarrow> io_error + content option" where
  "read_file h path d = (if ho_fails h ''read'' path then Inl ReadFailed else Inr (dk_files d path))"

definition mkdir_all :: "host \<Rightarrow> string \<Rightarrow> disk \<Rightarrow> bool \<times> disk" where
  "mkdir_all h path d = (if ho_fails h ''mkdir'' path then (False, d) else (True, d\<lparr>dk_dirs := insert path (dk_dirs d)\<rparr>))"

text \<open>A write that fails leaves a torn file.\<close>

definition write_file :: "host \<Rightarrow> string \<Rightarrow> content \<Rightarrow> disk \<Rightarrow> bool \<times> disk" where
  "write_file h path data d =
    (if ho_fails h ''write'' path then (False, put_file path (Some (Text (ho_torn h))) d) else (True, put_file path (Some data) d))"

definition writeJSONAtomic :: "host \<Rightarrow> string \<Rightarrow> godata \<Rightarrow> disk \<Rightarrow> edit_outcome \<times> disk" where
  "writeJSONAtomic h path doc d =
    (let tmp = path @ ''.tmp''; data = Doc doc in
     case write_file h tmp data d of
       (False, d1) \<Rightarrow> (Failed WriteFailed, d1)
     | (True, d1) \<Rightarrow>
        if ho_fails h ''rename'' path then (Failed WriteFailed, put_file tmp None d1)
        else (Done, put_file tmp None (put_file path (Some data) d1)))"

section \<open>Documents\<close>

definition map_field :: "string \<Rightarrow> godata \<Rightarrow> godata option" where
  "map_field k m = (case map_of m k of Some (VMap v) \<Rightarrow> Some v | _ \<Rightarrow> None)"

definition list_field :: "string \<Rightarrow> godata \<Rightarrow> goval list option" where
  "list_field k m = (case map_of m k of Some (VList v) \<Rightarrow> Some v | _ \<Rightarrow> None)"

definition string_field :: "string \<Rightarrow> godata \<Rightarrow> string" where
  "string_field k m = (case map_of m k of Some (VString v) \<Rightarrow> v | _ \<Rightarrow> [])"

definition true_field :: "string \<Rightarrow> godata \<Rightarrow> bool" where
  "true_field k m = (map_of m k = Some (VBool True))"

text \<open>Decoding JSON into a map: the members are added to what the map holds, and \<^verbatim>\<open>null\<close> makes it nil.\<close>

definition decode_into :: "host \<Rightarrow> godata \<Rightarrow> content \<Rightarrow> io_error + godata option" where
  "decode_into h base data =
    (case (case data of Doc doc \<Rightarrow> Some (VMap doc) | Text t \<Rightarrow> ho_unmarshal h t) of
       Some (VMap kvs) \<Rightarrow> Inr (Some (fold (\<lambda>(k, v) m. AList.update k v m) kvs base))
     | Some VNil \<Rightarrow> Inr None
     | _ \<Rightarrow> Inl ParseFailed)"

text \<open>The document of a file, the given one where there is no file.\<close>

definition load_doc :: "host \<Rightarrow> godata option \<Rightarrow> string \<Rightarrow> disk \<Rightarrow> io_error + godata option" where
  "load_doc h fresh path d =
    (case read_file h path d of
       Inl e \<Rightarrow> Inl e
     | Inr None \<Rightarrow> Inr fresh
     | Inr (Some data) \<Rightarrow> decode_into h (case fresh of Some m \<Rightarrow> m | None \<Rightarrow> []) data)"

text \<open>The entries of an event, the replacement of our entry among them, and its removal.\<close>

definition event_entries :: "string \<Rightarrow> godata \<Rightarrow> goval list" where
  "event_entries event config = (case map_field ''hooks'' config of None \<Rightarrow> [] | Some hooks \<Rightarrow> (case list_field event hooks of None \<Rightarrow> [] | Some es \<Rightarrow> es))"

definition upsert_entry :: "string \<Rightarrow> (goval \<Rightarrow> bool) \<Rightarrow> goval \<Rightarrow> godata \<Rightarrow> godata" where
  "upsert_entry event ours entry config =
    (let hooks = (case map_field ''hooks'' config of Some m \<Rightarrow> m | None \<Rightarrow> []);
         existing = (case list_field event hooks of Some es \<Rightarrow> es | None \<Rightarrow> []);
         cleaned = filter (\<lambda>e. \<not> ours e) existing @ [entry] in
     AList.update ''hooks'' (VMap (AList.update event (VList cleaned) hooks)) config)"

definition remove_entry :: "string \<Rightarrow> (goval \<Rightarrow> bool) \<Rightarrow> godata \<Rightarrow> bool \<times> godata" where
  "remove_entry event ours config =
    (case map_field ''hooks'' config of
       None \<Rightarrow> (False, config)
     | Some hooks \<Rightarrow>
        (case list_field event hooks of
           None \<Rightarrow> (False, config)
         | Some existing \<Rightarrow>
            (let cleaned = filter (\<lambda>e. \<not> ours e) existing;
                 hooks' = (if cleaned = [] then AList.delete event hooks else AList.update event (VList cleaned) hooks) in
             (True, if hooks' = [] then AList.delete ''hooks'' config else AList.update ''hooks'' (VMap hooks') config))))"

section \<open>Scripts\<close>

definition isPowerShellScriptPath :: "string \<Rightarrow> bool" where
  "isPowerShellScriptPath p = has_suffix (to_lower (trim_space p)) ''.ps1''"

definition posixShellQuote :: "string \<Rightarrow> string" where
  "posixShellQuote v = [CHR 0x27] @ concat (map (\<lambda>c. if c = CHR 0x27 then [CHR 0x27, CHR 0x22, CHR 0x27, CHR 0x22, CHR 0x27] else [c]) v) @ [CHR 0x27]"

text \<open>The environment of the script in the order a range over the map gives.\<close>

definition posixHookScript :: "host \<Rightarrow> string \<Rightarrow> (string \<times> string) list \<Rightarrow> string" where
  "posixHookScript h flag extraEnv =
    ''#!/bin/sh'' @ [CHR 0x0A] @ ''set -eu'' @ [CHR 0x0A] @
    concat (map (\<lambda>(k, v). ''export '' @ k @ ''='' @ posixShellQuote v @ [CHR 0x0A]) extraEnv) @
    ''exec '' @ posixShellQuote (ho_agent h) @ '' '' @ flag @ [CHR 0x0A]"

definition ensure_script :: "host \<Rightarrow> string \<Rightarrow> string \<Rightarrow> disk \<Rightarrow> edit_outcome \<times> disk" where
  "ensure_script h path content d =
    (case mkdir_all h (path_dir h path) d of
       (False, d1) \<Rightarrow> (Failed MkdirFailed, d1)
     | (True, d1) \<Rightarrow> (case write_file h path (Text content) d1 of (False, d2) \<Rightarrow> (Failed WriteFailed, d2) | (True, d2) \<Rightarrow> (Done, d2)))"

definition validate_script :: "host \<Rightarrow> string \<Rightarrow> string \<Rightarrow> bool" where
  "validate_script h flag scriptPath = (isPowerShellScriptPath scriptPath \<or> ho_supports h flag)"

section \<open>Cursor\<close>

definition cursorEntryContainsThemisto :: "goval \<Rightarrow> bool" where
  "cursorEntryContainsThemisto entry = (case entry of
     VMap m \<Rightarrow> contains (string_field ''command'' m) ''cursor-hook.ps1'' \<or> contains (string_field ''command'' m) ''cursor-hook.sh'' | _ \<Rightarrow> False)"

definition cursorHooksContainThemisto :: "godata option \<Rightarrow> bool" where
  "cursorHooksContainThemisto config =
    (case config of None \<Rightarrow> False
     | Some c \<Rightarrow> (case map_field ''hooks'' c of None \<Rightarrow> False
        | Some hooks \<Rightarrow> (case list_field ''beforeSubmitPrompt'' hooks of None \<Rightarrow> False | Some es \<Rightarrow> list_ex cursorEntryContainsThemisto es)))"

definition cursor_entry :: "string \<Rightarrow> goval" where
  "cursor_entry command = VMap [(''type'', VString ''command''), (''command'', VString command), (''timeout'', VInt 30), (''failClosed'', VBool False)]"

definition upsertCursorThemistoHook :: "string \<Rightarrow> godata \<Rightarrow> godata" where
  "upsertCursorThemistoHook command config =
    upsert_entry ''beforeSubmitPrompt'' cursorEntryContainsThemisto (cursor_entry command)
      (if map_of config ''version'' = None then AList.update ''version'' (VInt 1) config else config)"

definition removeCursorThemistoHook :: "godata \<Rightarrow> bool \<times> godata" where
  "removeCursorThemistoHook config = remove_entry ''beforeSubmitPrompt'' cursorEntryContainsThemisto config"

definition buildCursorHookCommand :: "host \<Rightarrow> string \<Rightarrow> string" where
  "buildCursorHookCommand h scriptPath =
    (if ho_windows h then ''cmd /c '' @ ho_powershell h @ '' -ExecutionPolicy Bypass -NoProfile -File '' @ [CHR 0x22] @ scriptPath @ [CHR 0x22] else scriptPath)"

definition ensureCursorHookScript :: "host \<Rightarrow> string \<Rightarrow> disk \<Rightarrow> edit_outcome \<times> disk" where
  "ensureCursorHookScript h scriptPath d = ensure_script h scriptPath
    (if isPowerShellScriptPath scriptPath then ho_script h ''cursor'' else posixHookScript h ''-cursor-hook'' []) d"

text \<open>The common end of an installation: the directory, the document, the edit and the write.\<close>

definition edit_config :: "host \<Rightarrow> godata \<Rightarrow> string \<Rightarrow> (godata \<Rightarrow> godata) \<Rightarrow> disk \<Rightarrow> edit_outcome \<times> disk" where
  "edit_config h fresh path edit d =
    (case mkdir_all h (path_dir h path) d of
       (False, d1) \<Rightarrow> (Failed MkdirFailed, d1)
     | (True, d1) \<Rightarrow>
        (case load_doc h (Some fresh) path d1 of
           Inl e \<Rightarrow> (Failed e, d1)
         | Inr None \<Rightarrow> (Panicked, d1)
         | Inr (Some config) \<Rightarrow> writeJSONAtomic h path (edit config) d1))"

definition installCursorHookAt :: "host \<Rightarrow> string \<Rightarrow> string \<Rightarrow> disk \<Rightarrow> edit_outcome \<times> disk" where
  "installCursorHookAt h userHooksPath scriptPath d =
    (case ensureCursorHookScript h scriptPath d of
       (Done, d1) \<Rightarrow> edit_config h [(''version'', VInt 1), (''hooks'', VMap [])] userHooksPath
          (upsertCursorThemistoHook (buildCursorHookCommand h scriptPath)) d1
     | failed \<Rightarrow> failed)"

text \<open>The common removal: a nil document holds no hook.\<close>

definition strip_config :: "host \<Rightarrow> string \<Rightarrow> (godata \<Rightarrow> bool \<times> godata) \<Rightarrow> disk \<Rightarrow> edit_outcome \<times> disk" where
  "strip_config h path remove d =
    (case read_file h path d of
       Inl e \<Rightarrow> (Failed e, d)
     | Inr None \<Rightarrow> (Done, d)
     | Inr (Some data) \<Rightarrow>
        (case decode_into h [] data of
           Inl e \<Rightarrow> (Failed e, d)
         | Inr None \<Rightarrow> (Done, d)
         | Inr (Some config) \<Rightarrow> (case remove config of (False, _) \<Rightarrow> (Done, d) | (True, config') \<Rightarrow> writeJSONAtomic h path config' d)))"

definition removeCursorHookAt :: "host \<Rightarrow> string \<Rightarrow> disk \<Rightarrow> edit_outcome \<times> disk" where
  "removeCursorHookAt h userHooksPath d = strip_config h userHooksPath removeCursorThemistoHook d"

definition repairCursorHookAt :: "host \<Rightarrow> string \<Rightarrow> string \<Rightarrow> disk \<Rightarrow> edit_outcome \<times> disk" where
  "repairCursorHookAt h userHooksPath scriptPath d =
    (case removeCursorHookAt h userHooksPath d of (Done, d1) \<Rightarrow> installCursorHookAt h userHooksPath scriptPath d1 | failed \<Rightarrow> failed)"

section \<open>Claude Code\<close>

definition claudeCodeHookMarkers :: "string list" where
  "claudeCodeHookMarkers = [''claude-code-hook.ps1'', ''claude-code-hook.sh'']"

definition claude_inner :: "goval \<Rightarrow> bool" where
  "claude_inner h = (case h of VMap m \<Rightarrow> list_ex (contains (string_field ''command'' m)) claudeCodeHookMarkers | _ \<Rightarrow> False)"

definition entryContainsThemistoHook :: "goval \<Rightarrow> bool" where
  "entryContainsThemistoHook entry =
    (case entry of VMap m \<Rightarrow> (case list_field ''hooks'' m of Some inner \<Rightarrow> list_ex claude_inner inner | None \<Rightarrow> False) | _ \<Rightarrow> False)"

definition settingsContainThemistoHook :: "godata \<Rightarrow> bool" where
  "settingsContainThemistoHook settings =
    (case map_field ''hooks'' settings of None \<Rightarrow> False
     | Some hooks \<Rightarrow> (case list_field ''UserPromptSubmit'' hooks of None \<Rightarrow> False
        | Some es \<Rightarrow> list_ex (\<lambda>entry. case entry of VMap m \<Rightarrow> (case list_field ''hooks'' m of None \<Rightarrow> False | Some inner \<Rightarrow> list_ex claude_inner inner) | _ \<Rightarrow> False) es))"

definition claude_entry :: "string \<Rightarrow> goval" where
  "claude_entry command = VMap [(''matcher'', VString []),
     (''hooks'', VList [VMap [(''type'', VString ''command''), (''command'', VString command), (''timeout'', VInt 30)]])]"

definition upsertThemistoHook :: "string \<Rightarrow> godata \<Rightarrow> godata" where
  "upsertThemistoHook command settings = upsert_entry ''UserPromptSubmit'' entryContainsThemistoHook (claude_entry command) settings"

definition removeThemistoHook :: "godata \<Rightarrow> bool \<times> godata" where
  "removeThemistoHook settings = remove_entry ''UserPromptSubmit'' entryContainsThemistoHook settings"

definition buildClaudeCodeHookCommand :: "host \<Rightarrow> string \<Rightarrow> string" where
  "buildClaudeCodeHookCommand h scriptPath =
    (if ho_windows h then ho_powershell h @ '' -ExecutionPolicy Bypass -NoProfile -File '' @ [CHR 0x22] @ scriptPath @ [CHR 0x22] else scriptPath)"

definition ensureHookScript :: "host \<Rightarrow> string \<Rightarrow> disk \<Rightarrow> edit_outcome \<times> disk" where
  "ensureHookScript h scriptPath d = ensure_script h scriptPath
    (if ho_windows h then ho_script h ''claude'' else posixHookScript h ''-claude-code-hook'' []) d"

definition installClaudeCodeHookAt :: "host \<Rightarrow> string \<Rightarrow> string \<Rightarrow> disk \<Rightarrow> edit_outcome \<times> disk" where
  "installClaudeCodeHookAt h settingsPath scriptPath d =
    (case ensureHookScript h scriptPath d of
       (Done, d1) \<Rightarrow> edit_config h [] settingsPath (upsertThemistoHook (buildClaudeCodeHookCommand h scriptPath)) d1
     | failed \<Rightarrow> failed)"

definition removeClaudeCodeHookAt :: "host \<Rightarrow> string \<Rightarrow> disk \<Rightarrow> edit_outcome \<times> disk" where
  "removeClaudeCodeHookAt h settingsPath d = strip_config h settingsPath removeThemistoHook d"

definition removeClaudeCodeHook :: "host \<Rightarrow> string \<Rightarrow> string \<Rightarrow> disk \<Rightarrow> edit_outcome \<times> disk" where
  "removeClaudeCodeHook h settingsPath scriptPath d =
    (case removeClaudeCodeHookAt h settingsPath d of
       (Done, d1) \<Rightarrow> (Done, if ho_darwin h \<and> \<not> ho_fails h ''remove'' scriptPath then put_file scriptPath None d1 else d1)
     | failed \<Rightarrow> failed)"

definition repairClaudeCodeHook :: "host \<Rightarrow> string \<Rightarrow> string \<Rightarrow> disk \<Rightarrow> edit_outcome \<times> disk" where
  "repairClaudeCodeHook h settingsPath scriptPath d =
    (case removeClaudeCodeHookAt h settingsPath d of (Done, d1) \<Rightarrow> installClaudeCodeHookAt h settingsPath scriptPath d1 | failed \<Rightarrow> failed)"

section \<open>Windsurf\<close>

definition windsurfEntryContainsThemisto :: "host \<Rightarrow> goval \<Rightarrow> bool" where
  "windsurfEntryContainsThemisto h entry = (case entry of
     VMap m \<Rightarrow> (let command = to_lower (string_field ''command'' m) in
       contains command ''windsurf-hook.ps1'' \<or> contains command ''windsurf-hook.cmd'' \<or> contains command ''windsurf-hook.sh''
       \<or> contains command (to_lower (ho_agent h)) \<and> contains command ''-windsurf-hook'')
   | _ \<Rightarrow> False)"

definition windsurfHooksContainThemisto :: "host \<Rightarrow> godata option \<Rightarrow> bool" where
  "windsurfHooksContainThemisto h config =
    (case config of None \<Rightarrow> False
     | Some c \<Rightarrow> (case map_field ''hooks'' c of None \<Rightarrow> False
        | Some hooks \<Rightarrow> (case list_field ''pre_user_prompt'' hooks of None \<Rightarrow> False | Some es \<Rightarrow> list_ex (windsurfEntryContainsThemisto h) es)))"

definition windsurf_entry :: "string \<Rightarrow> goval" where
  "windsurf_entry command = VMap [(''command'', VString command)]"

definition upsertWindsurfThemistoHook :: "host \<Rightarrow> string \<Rightarrow> godata \<Rightarrow> godata" where
  "upsertWindsurfThemistoHook h command config = upsert_entry ''pre_user_prompt'' (windsurfEntryContainsThemisto h) (windsurf_entry command) config"

definition removeWindsurfThemistoHook :: "host \<Rightarrow> godata \<Rightarrow> bool \<times> godata" where
  "removeWindsurfThemistoHook h config = remove_entry ''pre_user_prompt'' (windsurfEntryContainsThemisto h) config"

definition buildWindsurfHookCommand :: "host \<Rightarrow> string \<Rightarrow> string" where
  "buildWindsurfHookCommand h scriptPath =
    (if ho_windows h then ho_comspec h @ '' /d /c '' @ [CHR 0x22, CHR 0x22] @ scriptPath @ [CHR 0x22, CHR 0x22] else scriptPath)"

definition ensureWindsurfHookScript :: "host \<Rightarrow> string \<Rightarrow> disk \<Rightarrow> edit_outcome \<times> disk" where
  "ensureWindsurfHookScript h scriptPath d = ensure_script h scriptPath
    (if isPowerShellScriptPath scriptPath then ho_script h ''windsurf'' else posixHookScript h ''-windsurf-hook'' []) d"

definition ensureWindsurfHookLauncher :: "host \<Rightarrow> string \<Rightarrow> disk \<Rightarrow> edit_outcome \<times> disk" where
  "ensureWindsurfHookLauncher h launcherPath d = ensure_script h launcherPath
    (''@echo off'' @ [CHR 0x0D, CHR 0x0A, CHR 0x22] @ ho_agent h @ [CHR 0x22] @ '' -windsurf-hook'' @ [CHR 0x0D, CHR 0x0A] @ ''exit /b %ERRORLEVEL%'' @ [CHR 0x0D, CHR 0x0A]) d"

definition installWindsurfHookAt :: "host \<Rightarrow> string \<Rightarrow> string \<Rightarrow> string \<Rightarrow> disk \<Rightarrow> edit_outcome \<times> disk" where
  "installWindsurfHookAt h userHooksPath scriptPath launcherPath d =
    (case ensureWindsurfHookScript h scriptPath d of
       (Done, d1) \<Rightarrow>
        (let ps = isPowerShellScriptPath scriptPath in
         case (if ps then ensureWindsurfHookLauncher h launcherPath d1 else (Done, d1)) of
           (Done, d2) \<Rightarrow> edit_config h [(''hooks'', VMap [])] userHooksPath
             (upsertWindsurfThemistoHook h (buildWindsurfHookCommand h (if ps then launcherPath else scriptPath))) d2
         | failed \<Rightarrow> failed)
     | failed \<Rightarrow> failed)"

definition removeWindsurfHookAt :: "host \<Rightarrow> string \<Rightarrow> disk \<Rightarrow> edit_outcome \<times> disk" where
  "removeWindsurfHookAt h userHooksPath d = strip_config h userHooksPath (removeWindsurfThemistoHook h) d"

definition repairWindsurfHookAt :: "host \<Rightarrow> string \<Rightarrow> string \<Rightarrow> string \<Rightarrow> disk \<Rightarrow> edit_outcome \<times> disk" where
  "repairWindsurfHookAt h userHooksPath scriptPath launcherPath d =
    (case removeWindsurfHookAt h userHooksPath d of (Done, d1) \<Rightarrow> installWindsurfHookAt h userHooksPath scriptPath launcherPath d1 | failed \<Rightarrow> failed)"

section \<open>Detecting an integration\<close>

record integration_status =
  in_Installed :: bool
  in_HookConfigured :: bool
  in_HookScriptExists :: bool
  in_HookSource :: string
  in_IntegrationState :: string
  in_Confidence :: string
  in_Managed :: bool
  in_WorkspaceManaged :: bool
  in_HooksDisabled :: bool
  in_ManagedOverride :: bool
  in_LastError :: "io_error option"

definition fresh_status :: integration_status where
  "fresh_status = \<lparr>in_Installed = False, in_HookConfigured = False, in_HookScriptExists = False, in_HookSource = [], in_IntegrationState = [],
     in_Confidence = ''high'', in_Managed = False, in_WorkspaceManaged = False, in_HooksDisabled = False, in_ManagedOverride = False, in_LastError = None\<rparr>"

definition read_hooks_config :: "host \<Rightarrow> string \<Rightarrow> disk \<Rightarrow> io_error + godata option \<times> bool" where
  "read_hooks_config h path d =
    (case read_file h path d of
       Inl e \<Rightarrow> Inl e
     | Inr None \<Rightarrow> Inr (None, False)
     | Inr (Some data) \<Rightarrow> (case decode_into h [] data of Inl e \<Rightarrow> Inl e | Inr config \<Rightarrow> Inr (config, True)))"

definition stat_ok :: "string \<Rightarrow> disk \<Rightarrow> bool" where
  "stat_ok path d = (dk_files d path \<noteq> None)"

text \<open>The state where the editor is installed and nothing disables its hooks.\<close>

definition hook_state :: "bool \<Rightarrow> bool \<Rightarrow> string" where
  "hook_state configured script =
    (if configured \<and> script then ''configured'' else if configured then ''missing_script'' else if script then ''partial'' else ''missing_hook'')"

definition check_failed :: "io_error \<Rightarrow> integration_status \<Rightarrow> integration_status" where
  "check_failed e s = s\<lparr>in_IntegrationState := ''check_failed'', in_LastError := Some e\<rparr>"

definition settle_state :: "integration_status \<Rightarrow> string \<Rightarrow> integration_status" where
  "settle_state s state = s\<lparr>in_IntegrationState := state, in_Confidence := (if state = ''missing_hook'' then ''medium'' else in_Confidence s)\<rparr>"

definition installed_here :: "host \<Rightarrow> string \<Rightarrow> disk \<Rightarrow> integration_status \<Rightarrow> integration_status" where
  "installed_here h configPath d s =
    (if \<not> in_Installed s \<and> path_dir h configPath \<in> dk_dirs d then s\<lparr>in_Installed := True, in_Confidence := ''medium''\<rparr> else s)"

definition detectCursorIntegration :: "host \<Rightarrow> string \<Rightarrow> string \<Rightarrow> string \<Rightarrow> disk \<Rightarrow> integration_status" where
  "detectCursorIntegration h userHooksPath enterpriseHooksPath scriptPath d =
    (let s0 = fresh_status\<lparr>in_Installed := ho_installed h\<rparr> in
     case read_hooks_config h userHooksPath d of
       Inl e \<Rightarrow> check_failed e s0
     | Inr (userConfig, _) \<Rightarrow>
        (case read_hooks_config h enterpriseHooksPath d of
           Inl e \<Rightarrow> check_failed e s0
         | Inr (enterpriseConfig, enterpriseExists) \<Rightarrow>
            (let user = cursorHooksContainThemisto userConfig; enterprise = cursorHooksContainThemisto enterpriseConfig;
                 script = (stat_ok scriptPath d \<and> validate_script h ''-cursor-hook'' scriptPath);
                 s1 = s0\<lparr>in_Managed := enterpriseExists, in_HookConfigured := user \<or> enterprise,
                    in_HookSource := (if user \<and> enterprise then ''user_and_enterprise'' else if enterprise then ''enterprise'' else if user then ''user'' else []),
                    in_HookScriptExists := script\<rparr>;
                 s2 = installed_here h userHooksPath d s1 in
             if \<not> in_Installed s2 then s2\<lparr>in_IntegrationState := ''not_installed''\<rparr>
             else settle_state s2 (hook_state (in_HookConfigured s2) script))))"

definition readClaudeCodeHookStatus :: "host \<Rightarrow> string \<Rightarrow> disk \<Rightarrow> io_error + bool" where
  "readClaudeCodeHookStatus h path d =
    (case read_hooks_config h path d of
       Inl e \<Rightarrow> Inl e
     | Inr (None, _) \<Rightarrow> Inr False
     | Inr (Some settings, _) \<Rightarrow> Inr (settingsContainThemistoHook settings))"

text \<open>The members of a settings file that can be read and decoded; a nil map has none.\<close>

definition settings_of :: "host \<Rightarrow> string \<Rightarrow> disk \<Rightarrow> godata" where
  "settings_of h path d = (case read_hooks_config h path d of Inr (Some m, _) \<Rightarrow> m | _ \<Rightarrow> [])"

definition checkHooksDisabledOrOverridden :: "host \<Rightarrow> string \<Rightarrow> string \<Rightarrow> disk \<Rightarrow> bool \<times> bool" where
  "checkHooksDisabledOrOverridden h userSettingsPath managedSettingsPath d =
    (let managed = settings_of h managedSettingsPath d in
     (true_field ''disableAllHooks'' managed \<or> true_field ''disableAllHooks'' (settings_of h userSettingsPath d), true_field ''allowManagedHooksOnly'' managed))"

definition detectClaudeCodeIntegrationAt :: "host \<Rightarrow> string \<Rightarrow> string \<Rightarrow> string \<Rightarrow> disk \<Rightarrow> integration_status" where
  "detectClaudeCodeIntegrationAt h userSettingsPath managedSettingsPath scriptPath d =
    (let s0 = fresh_status\<lparr>in_Installed := ho_installed h\<rparr> in
     if \<not> ho_installed h \<and> path_dir h userSettingsPath \<notin> dk_dirs d then s0\<lparr>in_IntegrationState := ''not_installed''\<rparr>
     else
      (let s1 = (if ho_installed h then s0 else s0\<lparr>in_Confidence := ''medium''\<rparr>) in
       case readClaudeCodeHookStatus h userSettingsPath d of
         Inl e \<Rightarrow> check_failed e s1
       | Inr user \<Rightarrow>
          (case readClaudeCodeHookStatus h managedSettingsPath d of
             Inl e \<Rightarrow> check_failed e s1
           | Inr managed \<Rightarrow>
              (let present = (user \<or> managed);
                   script = (stat_ok scriptPath d \<and> validate_script h ''-claude-code-hook'' scriptPath);
                   (disabled, override) = checkHooksDisabledOrOverridden h userSettingsPath managedSettingsPath d;
                   s2 = s1\<lparr>in_HookSource := (if managed \<and> user then ''user_and_managed'' else if managed then ''managed'' else if user then ''user'' else []),
                     in_HookConfigured := present, in_HookScriptExists := script, in_HooksDisabled := disabled, in_ManagedOverride := override\<rparr> in
               if present \<and> disabled \<or> user \<and> override \<and> \<not> managed then s2\<lparr>in_IntegrationState := ''hook_present_but_disabled''\<rparr>
               else settle_state s2 (hook_state present script)))))"

text \<open>The files of the workspaces that exist and can be decoded.\<close>

definition workspace_configs :: "host \<Rightarrow> string list \<Rightarrow> disk \<Rightarrow> godata option list" where
  "workspace_configs h paths d =
    concat (map (\<lambda>p. if p = [] then [] else case read_hooks_config h p d of Inr (c, True) \<Rightarrow> [c] | _ \<Rightarrow> []) paths)"

definition detectWindsurfIntegrationFull :: "host \<Rightarrow> string \<Rightarrow> string \<Rightarrow> string list \<Rightarrow> string \<Rightarrow> string \<Rightarrow> disk \<Rightarrow> integration_status" where
  "detectWindsurfIntegrationFull h userHooksPath systemHooksPath workspacePaths scriptPath launcherPath d =
    (let s0 = fresh_status\<lparr>in_Installed := ho_installed h\<rparr> in
     case read_hooks_config h userHooksPath d of
       Inl e \<Rightarrow> check_failed e s0
     | Inr (userConfig, _) \<Rightarrow>
        (case read_hooks_config h systemHooksPath d of
           Inl e \<Rightarrow> check_failed e s0
         | Inr (systemConfig, systemExists) \<Rightarrow>
            (let user = windsurfHooksContainThemisto h userConfig; system = windsurfHooksContainThemisto h systemConfig;
                 workspaces = workspace_configs h workspacePaths d;
                 workspace = list_ex (windsurfHooksContainThemisto h) workspaces;
                 present = (isPowerShellScriptPath scriptPath \<longrightarrow> stat_ok launcherPath d);
                 script = (stat_ok scriptPath d \<and> present \<and> validate_script h ''-windsurf-hook'' scriptPath);
                 sources = (if user then [''user''] else []) @ (if system then [''system''] else []) @ (if workspace then [''workspace''] else []);
                 s1 = s0\<lparr>in_Managed := systemExists, in_WorkspaceManaged := workspaces \<noteq> [], in_HookConfigured := user \<or> system \<or> workspace,
                    in_HookSource := join_with ''_and_'' sources, in_HookScriptExists := script\<rparr>;
                 s2 = installed_here h userHooksPath d s1;
                 workspaceOnly = (workspace \<and> \<not> user \<and> \<not> system) in
             if \<not> in_Installed s2 then s2\<lparr>in_IntegrationState := ''not_installed''\<rparr>
             else settle_state s2 (hook_state (in_HookConfigured s2) (script \<or> workspaceOnly)))))"

section \<open>The contract of an edit\<close>

lemma update_key: "map_of (AList.update k v m) k' = (if k' = k then Some v else map_of m k')"
  by (simp add: update_conv')

lemma delete_key: "map_of (AList.delete k m) k' = (if k' = k then None else map_of m k')"
  by (simp add: delete_conv')

lemmas edit_defs = upsert_entry_def remove_entry_def event_entries_def map_field_def list_field_def Let_def update_key delete_key

lemma upsert_entry_event: "event_entries event (upsert_entry event ours e c) = filter (\<lambda>x. \<not> ours x) (event_entries event c) @ [e]"
  by (simp add: edit_defs split: option.split goval.split)

lemma upsert_entry_other: "ev \<noteq> event \<Longrightarrow> event_entries ev (upsert_entry event ours e c) = event_entries ev c"
  by (simp add: edit_defs split: option.split goval.split)

lemma upsert_entry_key: "k \<noteq> ''hooks'' \<Longrightarrow> map_of (upsert_entry event ours e c) k = map_of c k"
  by (simp add: edit_defs)

lemma upsert_entry_distinct: "distinct (map fst c) \<Longrightarrow> distinct (map fst (upsert_entry event ours e c))"
  by (simp add: upsert_entry_def Let_def distinct_update)

lemma delete_empty: "AList.delete k m = [] \<Longrightarrow> k' \<noteq> k \<Longrightarrow> map_of m k' = None"
  using delete_key[of k m k'] by simp

lemma remove_entry_event: "event_entries event (snd (remove_entry event ours c)) = filter (\<lambda>x. \<not> ours x) (event_entries event c)"
  by (auto simp: edit_defs split: option.split goval.split)

lemma remove_entry_other: "ev \<noteq> event \<Longrightarrow> event_entries ev (snd (remove_entry event ours c)) = event_entries ev c"
  by (auto simp: edit_defs dest: delete_empty split: option.split goval.split)

lemma remove_entry_key: "k \<noteq> ''hooks'' \<Longrightarrow> map_of (snd (remove_entry event ours c)) k = map_of c k"
  by (auto simp: edit_defs split: option.split goval.split)

lemma remove_entry_distinct: "distinct (map fst c) \<Longrightarrow> distinct (map fst (snd (remove_entry event ours c)))"
  by (auto simp: remove_entry_def Let_def distinct_update distinct_delete split: option.split)

lemma remove_entry_nothing: "\<not> fst (remove_entry event ours c) \<Longrightarrow> event_entries event c = []"
  by (auto simp: edit_defs split: option.splits goval.splits)

text \<open>All that differs between two documents is our entries (and the version the editor wants named).\<close>

definition only_ours_changed :: "string \<Rightarrow> (goval \<Rightarrow> bool) \<Rightarrow> godata \<Rightarrow> godata \<Rightarrow> bool" where
  "only_ours_changed event ours c c' \<longleftrightarrow> filter (\<lambda>e. \<not> ours e) (event_entries event c') = filter (\<lambda>e. \<not> ours e) (event_entries event c) \<and>
     (\<forall>ev. ev \<noteq> event \<longrightarrow> event_entries ev c' = event_entries ev c) \<and> (\<forall>k. k \<notin> {''hooks'', ''version''} \<longrightarrow> map_of c' k = map_of c k)"

text \<open>
  What the three editors share: an event under which hooks are listed, a test for our entry, the entry made
  from a command, and the edits of the document.
\<close>

locale managed_hook =
  fixes event :: string
    and ours :: "goval \<Rightarrow> bool"
    and entry :: "string \<Rightarrow> goval"
    and carries :: "string \<Rightarrow> bool"
    and holds :: "godata \<Rightarrow> bool"
    and upsert :: "string \<Rightarrow> godata \<Rightarrow> godata"
    and remove :: "godata \<Rightarrow> bool \<times> godata"
  assumes entry_ours: "carries cmd \<Longrightarrow> ours (entry cmd)"
    and holds_iff: "holds c \<longleftrightarrow> (\<exists>e\<in>set (event_entries event c). ours e)"
    and upsert_event: "event_entries event (upsert cmd c) = filter (\<lambda>e. \<not> ours e) (event_entries event c) @ [entry cmd]"
    and upsert_other: "ev \<noteq> event \<Longrightarrow> event_entries ev (upsert cmd c) = event_entries ev c"
    and upsert_key: "k \<notin> {''hooks'', ''version''} \<Longrightarrow> map_of (upsert cmd c) k = map_of c k"
    and upsert_distinct: "distinct (map fst c) \<Longrightarrow> distinct (map fst (upsert cmd c))"
    and remove_event: "event_entries event (snd (remove c)) = filter (\<lambda>e. \<not> ours e) (event_entries event c)"
    and remove_other: "ev \<noteq> event \<Longrightarrow> event_entries ev (snd (remove c)) = event_entries ev c"
    and remove_key: "k \<noteq> ''hooks'' \<Longrightarrow> map_of (snd (remove c)) k = map_of c k"
begin

lemma installed: "carries cmd \<Longrightarrow> holds (upsert cmd c)"
  by (simp add: holds_iff upsert_event entry_ours)

lemma installed_once: "carries cmd \<Longrightarrow> filter ours (event_entries event (upsert cmd c)) = [entry cmd]"
  by (simp add: upsert_event entry_ours)

lemma upsert_foreign: "carries cmd \<Longrightarrow> only_ours_changed event ours c (upsert cmd c)"
  by (simp add: only_ours_changed_def upsert_event upsert_other upsert_key entry_ours)

lemma removed: "\<not> holds (snd (remove c))"
  by (simp add: holds_iff remove_event)

lemma remove_foreign: "only_ours_changed event ours c (snd (remove c))"
  by (simp add: only_ours_changed_def remove_event remove_other remove_key)

lemma repaired: "event_entries event (upsert cmd (snd (remove c))) = event_entries event (upsert cmd c)"
  by (simp add: upsert_event remove_event)

lemma reinstalled: "carries cmd \<Longrightarrow> event_entries event (upsert cmd (upsert cmd' c)) = event_entries event (upsert cmd c)" if "carries cmd'"
  using that by (simp add: upsert_event entry_ours)

end

lemma contains_within: "contains s p \<Longrightarrow> contains (a @ s @ b) p"
  unfolding contains_iff by (metis append.assoc)

lemma entries_some: "(case map_field ''hooks'' c of None \<Rightarrow> False | Some hooks \<Rightarrow> (case list_field ev hooks of None \<Rightarrow> False | Some es \<Rightarrow> list_ex P es))
    \<longleftrightarrow> (\<exists>e\<in>set (event_entries ev c). P e)"
  by (auto simp: event_entries_def list_ex_iff split: option.split)

lemma event_version: "event_entries ev (AList.update ''version'' v c) = event_entries ev c"
  by (simp add: event_entries_def map_field_def update_key)

definition cursor_carries :: "string \<Rightarrow> bool" where
  "cursor_carries cmd = (contains cmd ''cursor-hook.ps1'' \<or> contains cmd ''cursor-hook.sh'')"

interpretation cursor: managed_hook "''beforeSubmitPrompt''" cursorEntryContainsThemisto cursor_entry cursor_carries
    "\<lambda>c. cursorHooksContainThemisto (Some c)" upsertCursorThemistoHook removeCursorThemistoHook
proof
  show "cursor_carries cmd \<Longrightarrow> cursorEntryContainsThemisto (cursor_entry cmd)" for cmd
    by (simp add: cursor_carries_def cursorEntryContainsThemisto_def cursor_entry_def string_field_def)
  show "cursorHooksContainThemisto (Some c) \<longleftrightarrow> (\<exists>e\<in>set (event_entries ''beforeSubmitPrompt'' c). cursorEntryContainsThemisto e)" for c
    unfolding cursorHooksContainThemisto_def option.case by (rule entries_some)
qed (simp_all add: upsertCursorThemistoHook_def removeCursorThemistoHook_def upsert_entry_event upsert_entry_other upsert_entry_key upsert_entry_distinct
    remove_entry_event remove_entry_other remove_entry_key event_version update_key distinct_update)

definition claude_carries :: "string \<Rightarrow> bool" where
  "claude_carries cmd = list_ex (contains cmd) claudeCodeHookMarkers"

interpretation claude: managed_hook "''UserPromptSubmit''" entryContainsThemistoHook claude_entry claude_carries
    settingsContainThemistoHook upsertThemistoHook removeThemistoHook
proof
  show "claude_carries cmd \<Longrightarrow> entryContainsThemistoHook (claude_entry cmd)" for cmd
    by (simp add: claude_carries_def entryContainsThemistoHook_def claude_entry_def claude_inner_def list_field_def string_field_def)
  have e: "(\<lambda>entry. case entry of VMap m \<Rightarrow> (case list_field ''hooks'' m of None \<Rightarrow> False | Some inner \<Rightarrow> list_ex claude_inner inner) | _ \<Rightarrow> False) = entryContainsThemistoHook"
    by (rule ext) (simp add: entryContainsThemistoHook_def split: goval.split option.split)
  show "settingsContainThemistoHook c \<longleftrightarrow> (\<exists>e\<in>set (event_entries ''UserPromptSubmit'' c). entryContainsThemistoHook e)" for c
    unfolding settingsContainThemistoHook_def e by (rule entries_some)
qed (simp_all add: upsertThemistoHook_def removeThemistoHook_def upsert_entry_event upsert_entry_other upsert_entry_key upsert_entry_distinct
    remove_entry_event remove_entry_other remove_entry_key)

definition windsurf_carries :: "string \<Rightarrow> bool" where
  "windsurf_carries cmd = (contains (to_lower cmd) ''windsurf-hook.cmd'' \<or> contains (to_lower cmd) ''windsurf-hook.sh'')"

interpretation windsurf: managed_hook "''pre_user_prompt''" "windsurfEntryContainsThemisto h" windsurf_entry windsurf_carries
    "\<lambda>c. windsurfHooksContainThemisto h (Some c)" "upsertWindsurfThemistoHook h" "removeWindsurfThemistoHook h" for h
proof
  show "windsurf_carries cmd \<Longrightarrow> windsurfEntryContainsThemisto h (windsurf_entry cmd)" for cmd
    by (auto simp: windsurf_carries_def windsurfEntryContainsThemisto_def windsurf_entry_def string_field_def Let_def)
  show "windsurfHooksContainThemisto h (Some c) \<longleftrightarrow> (\<exists>e\<in>set (event_entries ''pre_user_prompt'' c). windsurfEntryContainsThemisto h e)" for c
    unfolding windsurfHooksContainThemisto_def option.case by (rule entries_some)
qed (simp_all add: upsertWindsurfThemistoHook_def removeWindsurfThemistoHook_def upsert_entry_event upsert_entry_other upsert_entry_key upsert_entry_distinct
    remove_entry_event remove_entry_other remove_entry_key)

section \<open>On disk\<close>

lemma fold_update_distinct: "distinct (map fst base) \<Longrightarrow> distinct (map fst (fold (\<lambda>(k, v) m. AList.update k v m) kvs base))"
  by (induction kvs arbitrary: base) (auto simp: distinct_update split: prod.split)

lemma fold_update_self: "distinct (map fst kvs) \<Longrightarrow> map_of (fold (\<lambda>(k, v) m. AList.update k v m) kvs base) k = (case map_of kvs k of Some v \<Rightarrow> Some v | None \<Rightarrow> map_of base k)"
proof (induction kvs arbitrary: base)
  case (Cons kv kvs)
  obtain a b where kv: "kv = (a, b)" by (cases kv)
  have "map_of kvs a = None" using Cons.prems by (simp add: kv map_of_eq_None_iff)
  then show ?case using Cons by (cases "map_of kvs k") (auto simp: kv update_key)
qed simp

lemma decode_distinct: "decode_into h base data = Inr (Some c) \<Longrightarrow> distinct (map fst base) \<Longrightarrow> distinct (map fst c)"
  by (auto simp: decode_into_def fold_update_distinct split: option.splits goval.splits content.splits)

lemma write_atomic_done: "writeJSONAtomic h path doc d = (Done, d') \<Longrightarrow>
    dk_files d' path = Some (Doc doc) \<and> (\<forall>p. p \<noteq> path \<longrightarrow> p \<noteq> path @ ''.tmp'' \<longrightarrow> dk_files d' p = dk_files d p) \<and> dk_dirs d' = dk_dirs d"
  by (auto simp: writeJSONAtomic_def Let_def write_file_def put_file_def split: if_splits)

text \<open>A document that was written is read back with the same members.\<close>

lemma read_back:
  assumes "dk_files d path = Some (Doc doc)" "distinct (map fst doc)" "\<not> ho_fails h ''read'' path"
  shows "\<exists>doc'. read_hooks_config h path d = Inr (Some doc', True) \<and> map_of doc' = map_of doc"
proof -
  have "map_of (fold (\<lambda>(k, v) m. AList.update k v m) doc []) = map_of doc"
    using fold_update_self[OF assms(2)] by (auto simp: fun_eq_iff split: option.split)
  then show ?thesis using assms by (simp add: read_hooks_config_def read_file_def decode_into_def)
qed

lemma same_members: "map_of c = map_of c' \<Longrightarrow> event_entries ev c = event_entries ev c'"
  by (simp add: event_entries_def map_field_def)

text \<open>A successful installation wrote the edited document, which came from the file or started fresh.\<close>

lemma edit_config_done:
  assumes "edit_config h fresh path edit d = (Done, d')" "distinct (map fst fresh)"
  obtains c where "load_doc h (Some fresh) path d = Inr (Some c)" "distinct (map fst c)" "dk_files d' path = Some (Doc (edit c))"
    "\<And>p. p \<noteq> path \<Longrightarrow> p \<noteq> path @ ''.tmp'' \<Longrightarrow> dk_files d' p = dk_files d p" "path_dir h path \<in> dk_dirs d'" "\<not> ho_fails h ''read'' path"
proof -
  define d1 where "d1 = d\<lparr>dk_dirs := insert (path_dir h path) (dk_dirs d)\<rparr>"
  have files: "dk_files d1 = dk_files d" by (simp add: d1_def)
  have ld: "load_doc h f path d1 = load_doc h f path d" for f by (simp add: load_doc_def read_file_def files)
  from assms(1) obtain c where c: "load_doc h (Some fresh) path d = Inr (Some c)" "writeJSONAtomic h path (edit c) d1 = (Done, d')"
    by (auto simp: edit_config_def mkdir_all_def d1_def[symmetric] ld split: if_splits sum.splits option.splits)
  have r: "\<not> ho_fails h ''read'' path" using c(1) by (auto simp: load_doc_def read_file_def)
  have "distinct (map fst c)" using c(1) assms(2) by (auto simp: load_doc_def intro: decode_distinct split: sum.splits option.splits)
  then show ?thesis using that[OF c(1)] write_atomic_done[OF c(2)] r by (simp add: files d1_def)
qed

lemma strip_config_done:
  assumes "strip_config h path remove d = (Done, d')" "dk_files d path = Some (Doc c)" "distinct (map fst c)"
    "\<And>x. distinct (map fst x) \<Longrightarrow> distinct (map fst (snd (remove x)))"
  obtains c1 where "map_of c1 = map_of c" "distinct (map fst c1)" "(\<not> fst (remove c1) \<and> d' = d) \<or> (fst (remove c1) \<and> dk_files d' path = Some (Doc (snd (remove c1))))"
    "\<not> ho_fails h ''read'' path"
proof -
  have r: "\<not> ho_fails h ''read'' path" using assms(1) by (auto simp: strip_config_def read_file_def)
  obtain c1 where c1: "read_hooks_config h path d = Inr (Some c1, True)" "map_of c1 = map_of c" using read_back[OF assms(2,3) r] by blast
  have dec: "decode_into h [] (Doc c) = Inr (Some c1)" using c1(1) assms(2) r by (auto simp: read_hooks_config_def read_file_def split: sum.splits)
  have "distinct (map fst c1)" using decode_distinct[OF dec] by simp
  moreover have "(\<not> fst (remove c1) \<and> d' = d) \<or> (fst (remove c1) \<and> dk_files d' path = Some (Doc (snd (remove c1))))"
    using assms(1,2) r dec write_atomic_done by (auto simp: strip_config_def read_file_def split: prod.splits bool.splits)
  ultimately show ?thesis using that[OF c1(2)] r by blast
qed

section \<open>The three editors\<close>

datatype editor = Cursor | ClaudeCode | Windsurf

fun install_at :: "editor \<Rightarrow> host \<Rightarrow> string \<Rightarrow> string \<Rightarrow> string \<Rightarrow> disk \<Rightarrow> edit_outcome \<times> disk" where
  "install_at Cursor h path script launcher d = installCursorHookAt h path script d"
| "install_at ClaudeCode h path script launcher d = installClaudeCodeHookAt h path script d"
| "install_at Windsurf h path script launcher d = installWindsurfHookAt h path script launcher d"

fun remove_at :: "editor \<Rightarrow> host \<Rightarrow> string \<Rightarrow> disk \<Rightarrow> edit_outcome \<times> disk" where
  "remove_at Cursor h path d = removeCursorHookAt h path d"
| "remove_at ClaudeCode h path d = removeClaudeCodeHookAt h path d"
| "remove_at Windsurf h path d = removeWindsurfHookAt h path d"

fun event_of :: "editor \<Rightarrow> string" where
  "event_of Cursor = ''beforeSubmitPrompt''"
| "event_of ClaudeCode = ''UserPromptSubmit''"
| "event_of Windsurf = ''pre_user_prompt''"

fun ours_of :: "editor \<Rightarrow> host \<Rightarrow> goval \<Rightarrow> bool" where
  "ours_of Cursor h = cursorEntryContainsThemisto"
| "ours_of ClaudeCode h = entryContainsThemistoHook"
| "ours_of Windsurf h = windsurfEntryContainsThemisto h"

fun entry_of :: "editor \<Rightarrow> string \<Rightarrow> goval" where
  "entry_of Cursor cmd = cursor_entry cmd"
| "entry_of ClaudeCode cmd = claude_entry cmd"
| "entry_of Windsurf cmd = windsurf_entry cmd"

fun upsert_of :: "editor \<Rightarrow> host \<Rightarrow> string \<Rightarrow> godata \<Rightarrow> godata" where
  "upsert_of Cursor h = upsertCursorThemistoHook"
| "upsert_of ClaudeCode h = upsertThemistoHook"
| "upsert_of Windsurf h = upsertWindsurfThemistoHook h"

fun command_of :: "editor \<Rightarrow> host \<Rightarrow> string \<Rightarrow> string \<Rightarrow> string" where
  "command_of Cursor h script launcher = buildCursorHookCommand h script"
| "command_of ClaudeCode h script launcher = buildClaudeCodeHookCommand h script"
| "command_of Windsurf h script launcher = buildWindsurfHookCommand h (if isPowerShellScriptPath script then launcher else script)"

fun fresh_of :: "editor \<Rightarrow> godata" where
  "fresh_of Cursor = [(''version'', VInt 1), (''hooks'', VMap [])]"
| "fresh_of ClaudeCode = []"
| "fresh_of Windsurf = [(''hooks'', VMap [])]"

text \<open>The script is named as the paths of the application name it.\<close>

fun script_named :: "editor \<Rightarrow> string \<Rightarrow> string \<Rightarrow> bool" where
  "script_named Cursor script launcher = cursor_carries script"
| "script_named ClaudeCode script launcher = claude_carries script"
| "script_named Windsurf script launcher = windsurf_carries (if isPowerShellScriptPath script then launcher else script)"

lemma ensure_script_done: "ensure_script h p content d = (Done, d') \<Longrightarrow> dk_files d' p \<noteq> None \<and> (\<forall>q. q \<noteq> p \<longrightarrow> dk_files d' q = dk_files d q)"
  by (auto simp: ensure_script_def mkdir_all_def write_file_def put_file_def split: if_splits)

lemma load_doc_cong: "dk_files d path = dk_files d' path \<Longrightarrow> load_doc h f path d = load_doc h f path d'"
  by (simp add: load_doc_def read_file_def)

lemma outcome_chain: "(case r of (Done, d1) \<Rightarrow> f d1 | failed \<Rightarrow> failed) = (Done, d') \<Longrightarrow> \<exists>d1. r = (Done, d1) \<and> f d1 = (Done, d')"
  by (auto split: prod.splits edit_outcome.splits)

text \<open>Every installation first writes the scripts and then edits the configuration.\<close>

lemma install_steps:
  assumes "install_at ed h path script launcher d = (Done, d')" "path \<noteq> script" "path \<noteq> launcher"
  obtains d1 where "edit_config h (fresh_of ed) path (upsert_of ed h (command_of ed h script launcher)) d1 = (Done, d')" "dk_files d1 path = dk_files d path"
    "dk_files d1 script \<noteq> None" "ed = Windsurf \<Longrightarrow> isPowerShellScriptPath script \<Longrightarrow> dk_files d1 launcher \<noteq> None"
proof (cases ed)
  case Cursor
  obtain d1 where "ensureCursorHookScript h script d = (Done, d1)" "edit_config h (fresh_of ed) path (upsert_of ed h (command_of ed h script launcher)) d1 = (Done, d')"
    using outcome_chain[OF assms(1)[unfolded Cursor install_at.simps installCursorHookAt_def]] Cursor by auto
  then show ?thesis using that[of d1] ensure_script_done assms(2) Cursor by (auto simp: ensureCursorHookScript_def)
next
  case ClaudeCode
  obtain d1 where "ensureHookScript h script d = (Done, d1)" "edit_config h (fresh_of ed) path (upsert_of ed h (command_of ed h script launcher)) d1 = (Done, d')"
    using outcome_chain[OF assms(1)[unfolded ClaudeCode install_at.simps installClaudeCodeHookAt_def]] ClaudeCode by auto
  then show ?thesis using that[of d1] ensure_script_done assms(2) ClaudeCode by (auto simp: ensureHookScript_def)
next
  case Windsurf
  obtain d1 where d1: "ensureWindsurfHookScript h script d = (Done, d1)" "(let ps = isPowerShellScriptPath script in
         case (if ps then ensureWindsurfHookLauncher h launcher d1 else (Done, d1)) of
           (Done, d2) \<Rightarrow> edit_config h [(''hooks'', VMap [])] path
             (upsertWindsurfThemistoHook h (buildWindsurfHookCommand h (if ps then launcher else script))) d2
         | failed \<Rightarrow> failed) = (Done, d')"
    using outcome_chain[OF assms(1)[unfolded Windsurf install_at.simps installWindsurfHookAt_def]] by blast
  obtain d2 where d2: "(if isPowerShellScriptPath script then ensureWindsurfHookLauncher h launcher d1 else (Done, d1)) = (Done, d2)"
    "edit_config h (fresh_of ed) path (upsert_of ed h (command_of ed h script launcher)) d2 = (Done, d')"
    using outcome_chain[OF d1(2)[unfolded Let_def]] Windsurf by auto
  note s = ensure_script_done[OF d1(1)[unfolded ensureWindsurfHookScript_def]]
  show ?thesis
  proof (cases "isPowerShellScriptPath script")
    case True
    note l = ensure_script_done[OF d2(1)[simplified True if_True, unfolded ensureWindsurfHookLauncher_def]]
    show ?thesis using that[OF d2(2)] s l assms(2,3) by (cases "script = launcher") auto
  next
    case False
    then show ?thesis using that[OF d2(2)] s d2(1) assms(2) by auto
  qed
qed

lemma contains_right: "contains s p \<Longrightarrow> contains (a @ s) p"
  using contains_within[of s p a "[]"] by simp

lemma contains_left: "contains s p \<Longrightarrow> contains (s @ b) p"
  using contains_within[of s p "[]" b] by simp

lemma cursor_command: "cursor_carries script \<Longrightarrow> cursor_carries (buildCursorHookCommand h script)"
  unfolding cursor_carries_def buildCursorHookCommand_def
  by (cases "ho_windows h") (simp_all only: if_True if_False, blast intro: contains_right contains_left)

lemma claude_command: "claude_carries script \<Longrightarrow> claude_carries (buildClaudeCodeHookCommand h script)"
  unfolding claude_carries_def buildClaudeCodeHookCommand_def list_ex_iff
  by (cases "ho_windows h") (simp_all only: if_True if_False, blast intro: contains_right contains_left)

lemma windsurf_command: "windsurf_carries script \<Longrightarrow> windsurf_carries (buildWindsurfHookCommand h script)"
  unfolding windsurf_carries_def buildWindsurfHookCommand_def
  by (cases "ho_windows h") (simp_all only: if_True if_False to_lower_append, blast intro: contains_right contains_left)

lemma command_carries:
  assumes "script_named ed script launcher"
  shows "filter (ours_of ed h) (event_entries (event_of ed) (upsert_of ed h (command_of ed h script launcher) c)) = [entry_of ed (command_of ed h script launcher)]"
    and "only_ours_changed (event_of ed) (ours_of ed h) c (upsert_of ed h (command_of ed h script launcher) c)"
proof -
  have "filter (ours_of ed h) (event_entries (event_of ed) (upsert_of ed h (command_of ed h script launcher) c)) = [entry_of ed (command_of ed h script launcher)]
    \<and> only_ours_changed (event_of ed) (ours_of ed h) c (upsert_of ed h (command_of ed h script launcher) c)"
  proof (cases ed)
    case Cursor
    then have "cursor_carries (buildCursorHookCommand h script)" using assms cursor_command by simp
    then show ?thesis using cursor.installed_once cursor.upsert_foreign Cursor by simp
  next
    case ClaudeCode
    then have "claude_carries (buildClaudeCodeHookCommand h script)" using assms claude_command by simp
    then show ?thesis using claude.installed_once claude.upsert_foreign ClaudeCode by simp
  next
    case Windsurf
    then have "windsurf_carries (command_of ed h script launcher)" using assms windsurf_command by simp
    then show ?thesis using windsurf.installed_once windsurf.upsert_foreign Windsurf by simp
  qed
  then show "filter (ours_of ed h) (event_entries (event_of ed) (upsert_of ed h (command_of ed h script launcher) c)) = [entry_of ed (command_of ed h script launcher)]"
    "only_ours_changed (event_of ed) (ours_of ed h) c (upsert_of ed h (command_of ed h script launcher) c)" by blast+
qed

fun remove_of :: "editor \<Rightarrow> host \<Rightarrow> godata \<Rightarrow> bool \<times> godata" where
  "remove_of Cursor h = removeCursorThemistoHook"
| "remove_of ClaudeCode h = removeThemistoHook"
| "remove_of Windsurf h = removeWindsurfThemistoHook h"

lemmas remove_defs = removeCursorThemistoHook_def removeThemistoHook_def removeWindsurfThemistoHook_def

lemma remove_of_entry: "remove_of ed h c = remove_entry (event_of ed) (ours_of ed h) c"
  by (cases ed) (simp_all add: remove_defs)

lemma remove_steps: "remove_at ed h path d = strip_config h path (remove_of ed h) d"
  by (cases ed) (simp_all add: removeCursorHookAt_def removeClaudeCodeHookAt_def removeWindsurfHookAt_def)

lemma remove_of_foreign: "only_ours_changed (event_of ed) (ours_of ed h) c (snd (remove_of ed h c))"
  by (cases ed) (simp_all add: cursor.remove_foreign claude.remove_foreign windsurf.remove_foreign)

lemma remove_of_distinct: "distinct (map fst c) \<Longrightarrow> distinct (map fst (snd (remove_of ed h c)))"
  by (simp add: remove_of_entry remove_entry_distinct)

lemma upsert_of_distinct: "distinct (map fst c) \<Longrightarrow> distinct (map fst (upsert_of ed h cmd c))"
  by (cases ed) (simp_all add: cursor.upsert_distinct claude.upsert_distinct windsurf.upsert_distinct)

lemma only_ours_same: "map_of c1 = map_of c \<Longrightarrow> only_ours_changed ev ours c1 c' \<Longrightarrow> only_ours_changed ev ours c c'"
  unfolding only_ours_changed_def using same_members[of c1 c] by presburger

lemma fresh_distinct: "distinct (map fst (fresh_of ed))"
  by (cases ed) simp_all

text \<open>A removal that succeeds leaves none of our entries and everything else.\<close>

lemma remove_exact:
  assumes "remove_at ed h path d = (Done, d')" "dk_files d path = Some (Doc c)" "distinct (map fst c)"
  obtains left where "dk_files d' path = Some (Doc left)" "filter (ours_of ed h) (event_entries (event_of ed) left) = []"
    "only_ours_changed (event_of ed) (ours_of ed h) c left"
proof -
  obtain c1 where c1: "map_of c1 = map_of c"
    "(\<not> fst (remove_of ed h c1) \<and> d' = d) \<or> (fst (remove_of ed h c1) \<and> dk_files d' path = Some (Doc (snd (remove_of ed h c1))))"
    using strip_config_done[OF assms(1)[unfolded remove_steps] assms(2,3) remove_of_distinct] by blast
  from c1(2) show ?thesis
  proof (elim disjE conjE)
    assume "\<not> fst (remove_of ed h c1)" "d' = d"
    moreover from this have "event_entries (event_of ed) c = []"
      using remove_entry_nothing same_members[OF c1(1)] by (metis remove_of_entry)
    ultimately show ?thesis using that[of c] assms(2) by (simp add: only_ours_changed_def)
  next
    assume "fst (remove_of ed h c1)" "dk_files d' path = Some (Doc (snd (remove_of ed h c1)))"
    then show ?thesis using that[of "snd (remove_of ed h c1)"] only_ours_same[OF c1(1) remove_of_foreign]
      by (simp add: remove_of_entry remove_entry_event filter_empty_conv)
  qed
qed

section \<open>Properties\<close>


definition sample_host :: host where
  "sample_host = \<lparr>ho_windows = False, ho_darwin = True, ho_agent = ''/opt/agent'', ho_powershell = [], ho_comspec = [], ho_script = (\<lambda>_. []),
     ho_supports = (\<lambda>_. True), ho_installed = True, ho_fails = (\<lambda>_ _. False), ho_torn = [], ho_unmarshal = (\<lambda>t. if t = ''null'' then Some VNil else None)\<rparr>"

definition sample_disk :: "content \<Rightarrow> disk" where
  "sample_disk c = \<lparr>dk_files = (\<lambda>p. if p = ''/u/hooks.json'' then Some c else None), dk_dirs = {}\<rparr>"

definition foreign_and_stale :: content where
  "foreign_and_stale = Doc [(''hooks'', VMap [(''beforeSubmitPrompt'',
     VList [cursor_entry ''lint'', cursor_entry ''/old/cursor-hook.sh'', cursor_entry ''/older/cursor-hook.ps1''])])]"


section \<open>What the edits do at the edges\<close>

text \<open>A configuration file that holds \<^verbatim>\<open>null\<close> decodes to a nil map, which the installation then writes to.\<close>

lemma null_config_panics:
  assumes "dk_files d path = Some (Text t)" "ho_unmarshal h t = Some VNil" "\<not> ho_fails h ''read'' path" "\<not> ho_fails h ''mkdir'' (path_dir h path)"
  shows "fst (edit_config h fresh path edit d) = Panicked"
  using assms by (simp add: edit_config_def mkdir_all_def load_doc_def read_file_def decode_into_def)

text \<open>
  Claude Code groups the hooks of a matcher in one entry: an entry that holds our command next to the user's is
  dropped whole, by installing as by removing.
\<close>

lemma shared_matcher_entry_lost:
  assumes "entryContainsThemistoHook e" "claude_carries cmd" "e \<noteq> claude_entry cmd"
  shows "e \<notin> set (event_entries ''UserPromptSubmit'' (upsertThemistoHook cmd c))"
    and "e \<notin> set (event_entries ''UserPromptSubmit'' (snd (removeThemistoHook c)))"
  using assms by (auto simp: claude.upsert_event claude.remove_event)

section \<open>Detection after an installation\<close>

lemma install_leaves:
  assumes "install_at ed h path script launcher d = (Done, d1)" "script_named ed script launcher"
    "script \<notin> {path, path @ ''.tmp''}" "launcher \<notin> {path, path @ ''.tmp''}"
  obtains c where "read_hooks_config h path d1 = Inr (Some c, True)"
    "filter (ours_of ed h) (event_entries (event_of ed) c) = [entry_of ed (command_of ed h script launcher)]"
    "stat_ok script d1" "path_dir h path \<in> dk_dirs d1" "ed = Windsurf \<Longrightarrow> isPowerShellScriptPath script \<Longrightarrow> stat_ok launcher d1"
proof -
  let ?up = "upsert_of ed h (command_of ed h script launcher)"
  have n: "path \<noteq> script" "path \<noteq> launcher" using assms(3,4) by auto
  obtain e where e: "edit_config h (fresh_of ed) path ?up e = (Done, d1)" "dk_files e script \<noteq> None"
    "ed = Windsurf \<Longrightarrow> isPowerShellScriptPath script \<Longrightarrow> dk_files e launcher \<noteq> None"
    by (rule install_steps[OF assms(1) n]) (rule that; assumption)
  from edit_config_done[OF e(1) fresh_distinct] obtain b where b: "distinct (map fst b)" "dk_files d1 path = Some (Doc (?up b))"
    "\<And>p. p \<noteq> path \<Longrightarrow> p \<noteq> path @ ''.tmp'' \<Longrightarrow> dk_files d1 p = dk_files e p" "path_dir h path \<in> dk_dirs d1" "\<not> ho_fails h ''read'' path" by metis
  obtain c where c: "read_hooks_config h path d1 = Inr (Some c, True)" "map_of c = map_of (?up b)"
    using read_back[OF b(2) upsert_of_distinct[OF b(1)] b(5)] by blast
  show ?thesis
  proof (rule that[OF c(1)])
    show "filter (ours_of ed h) (event_entries (event_of ed) c) = [entry_of ed (command_of ed h script launcher)]"
      using command_carries(1)[OF assms(2)] same_members[OF c(2)] by metis
  qed (use b(3)[of script] b(3)[of launcher] b(4) e(2,3) assms(3,4) in \<open>auto simp: stat_ok_def\<close>)
qed

fun detect_at :: "editor \<Rightarrow> host \<Rightarrow> string \<Rightarrow> string \<Rightarrow> string \<Rightarrow> string \<Rightarrow> disk \<Rightarrow> integration_status" where
  "detect_at Cursor h path other script launcher d = detectCursorIntegration h path other script d"
| "detect_at ClaudeCode h path other script launcher d = detectClaudeCodeIntegrationAt h path other script d"
| "detect_at Windsurf h path other script launcher d = detectWindsurfIntegrationFull h path other [] script launcher d"

fun flag_of :: "editor \<Rightarrow> string" where
  "flag_of Cursor = ''-cursor-hook''"
| "flag_of ClaudeCode = ''-claude-code-hook''"
| "flag_of Windsurf = ''-windsurf-hook''"

lemma some_of_ours: "filter P xs = [x] \<Longrightarrow> \<exists>e\<in>set xs. P e"
  by (metis filter_eq_Cons_iff in_set_conv_decomp)

lemma installed_here_installed: "path_dir h path \<in> dk_dirs d \<Longrightarrow> in_Installed (installed_here h path d s)"
  by (simp add: installed_here_def)

lemma installed_here_keeps: "in_HookConfigured (installed_here h path d s) = in_HookConfigured s"
  by (simp add: installed_here_def)

lemma settled: "in_IntegrationState (settle_state s state) = state"
  by (simp add: settle_state_def)

lemmas detect_facts = installed_here_installed installed_here_keeps settled hook_state_def Let_def

text \<open>
  An installation that succeeds, with no configuration above the user's, hooks enabled and an agent that knows
  the flag, is detected as configured.
\<close>

theorem installed_is_detected:
  assumes "install_at ed h path script launcher d = (Done, d1)" "script_named ed script launcher"
    "script \<notin> {path, path @ ''.tmp''}" "launcher \<notin> {path, path @ ''.tmp''}"
    "read_hooks_config h other d1 = Inr (None, False)" "validate_script h (flag_of ed) script"
    "\<not> true_field ''disableAllHooks'' (settings_of h path d1)"
  shows "in_IntegrationState (detect_at ed h path other script launcher d1) = ''configured''"
proof -
  obtain c where c: "read_hooks_config h path d1 = Inr (Some c, True)" "\<exists>e\<in>set (event_entries (event_of ed) c). ours_of ed h e"
    "stat_ok script d1" "path_dir h path \<in> dk_dirs d1" "ed = Windsurf \<Longrightarrow> isPowerShellScriptPath script \<Longrightarrow> stat_ok launcher d1"
    using install_leaves[OF assms(1-4)] some_of_ours by metis
  show ?thesis
  proof (cases ed)
    case Cursor
    then have "cursorHooksContainThemisto (Some c)" using c(2) cursor.holds_iff by simp
    then show ?thesis using Cursor c(1,3,4) assms(5,6) by (simp add: detectCursorIntegration_def detect_facts)
  next
    case ClaudeCode
    then have "settingsContainThemistoHook c" using c(2) claude.holds_iff by simp
    moreover have "settings_of h other d1 = []" using assms(5) by (simp add: settings_of_def)
    ultimately show ?thesis using ClaudeCode c(1,3,4) assms(5,6,7)
      by (simp add: detectClaudeCodeIntegrationAt_def readClaudeCodeHookStatus_def checkHooksDisabledOrOverridden_def true_field_def detect_facts)
  next
    case Windsurf
    then have "windsurfHooksContainThemisto h (Some c)" using c(2) windsurf.holds_iff by simp
    then show ?thesis using Windsurf c(1,3,4,5) assms(5,6) by (simp add: detectWindsurfIntegrationFull_def workspace_configs_def detect_facts)
  qed
qed

end
