(* ===== verification/Copilot_Install.thy ===== *)
theory Copilot_Install
  imports Hook_Install
begin

text \<open>
  Registering the GitHub Copilot hooks with VS Code (\<^verbatim>\<open>src/desktop/copilot.go\<close>): the settings file is JSON with comments,
  which are stripped before decoding; the hooks are a directory of ours listed, by a path relative to the home
  directory, in one setting. Paths are those of macOS and Linux, where \<^verbatim>\<open>filepath\<close> has one separator and no volumes; on
  Windows the same functions run over the rules of that system, which are not modelled. The text of a file this
  code wrote is given by \<open>marshal\<close>.
\<close>

section \<open>Paths\<close>

fun clean_comps :: "bool \<Rightarrow> string list \<Rightarrow> string list \<Rightarrow> string list" where
  "clean_comps rooted st [] = rev st"
| "clean_comps rooted st (c # cs) =
    (if c = [] \<or> c = ''.'' then clean_comps rooted st cs
     else if c = ''..'' then
       (case st of
          [] \<Rightarrow> clean_comps rooted (if rooted then [] else [''..'']) cs
        | x # xs \<Rightarrow> clean_comps rooted (if x = ''..'' then ''..'' # st else xs) cs)
     else clean_comps rooted (c # st) cs)"

definition rooted :: "string \<Rightarrow> bool" where
  "rooted p = has_prefix p ''/''"

definition path_comps :: "string \<Rightarrow> string list" where
  "path_comps p = clean_comps (rooted p) [] (split_on (CHR ''/'') p)"

definition filepath_clean :: "string \<Rightarrow> string" where
  "filepath_clean p =
    (if rooted p then CHR ''/'' # join_with ''/'' (path_comps p)
     else if path_comps p = [] then ''.'' else join_with ''/'' (path_comps p))"

definition filepath_join :: "string \<Rightarrow> string \<Rightarrow> string" where
  "filepath_join a b = (if a = [] then (if b = [] then [] else filepath_clean b) else filepath_clean (a @ ''/'' @ b))"

fun strip_common :: "string list \<Rightarrow> string list \<Rightarrow> string list \<times> string list" where
  "strip_common (b # bs) (t # ts) = (if b = t then strip_common bs ts else (b # bs, t # ts))"
| "strip_common bs ts = (bs, ts)"

text \<open>\<^verbatim>\<open>filepath.Rel\<close>: no value where the paths cannot be related.\<close>

definition filepath_rel :: "string \<Rightarrow> string \<Rightarrow> string option" where
  "filepath_rel base targ =
    (if filepath_clean base = filepath_clean targ then Some ''.''
     else if rooted base \<noteq> rooted targ then None
     else case strip_common (path_comps base) (path_comps targ) of (bs, ts) \<Rightarrow>
       if bs \<noteq> [] \<and> hd bs = ''..'' then None else Some (join_with ''/'' (replicate (length bs) ''..'' @ ts)))"

definition normalize :: "string \<Rightarrow> string \<Rightarrow> string" where
  "normalize home v0 =
    (let v = trim_space v0;
         v1 = (if has_prefix v ''~'' \<and> home \<noteq> [] then
                 (if v = ''~'' then home
                  else if has_prefix v ''~/'' \<or> has_prefix v [CHR ''~'', backslash] then
                    filepath_join home (replace_char backslash (CHR ''/'') (trim_prefix (trim_prefix v ''~/'') [CHR ''~'', backslash]))
                  else v)
               else v) in
     filepath_clean v1)"

definition sameNormalizedPath :: "string \<Rightarrow> string \<Rightarrow> string \<Rightarrow> bool" where
  "sameNormalizedPath home a b = (normalize home a = normalize home b)"

definition samePathToken :: "string \<Rightarrow> string \<Rightarrow> string \<Rightarrow> bool" where
  "samePathToken home a b = sameNormalizedPath home a b"

definition gitHubCopilotHookLocationSettingValue :: "string \<Rightarrow> string \<Rightarrow> string" where
  "gitHubCopilotHookLocationSettingValue home0 hooksDir =
    (let home = trim_space home0 in
     if home = [] then hooksDir
     else
      (let cleanHome = filepath_clean home; cleanHooks = filepath_clean hooksDir in
       if sameNormalizedPath home0 cleanHooks cleanHome then ''~''
       else case filepath_rel cleanHome cleanHooks of
          Some rel \<Rightarrow> if rel \<noteq> ''.'' \<and> rel \<noteq> [] \<and> \<not> has_prefix rel ''..'' then ''~/'' @ rel else cleanHooks
        | None \<Rightarrow> cleanHooks))"

section \<open>JSON with comments\<close>

datatype jsonc_mode = Plain | InString | Escaped | LineComment | BlockComment

fun strip_comments :: "jsonc_mode \<Rightarrow> string \<Rightarrow> string" where
  "strip_comments md [] = []"
| "strip_comments LineComment (c # s) = (if c = CHR 0x0A then c # strip_comments Plain s else strip_comments LineComment s)"
| "strip_comments BlockComment (c # s) =
    (if c = CHR ''*'' \<and> has_prefix s ''/'' then strip_comments Plain (drop 1 s) else strip_comments BlockComment s)"
| "strip_comments Escaped (c # s) = c # strip_comments InString s"
| "strip_comments InString (c # s) =
    c # strip_comments (if c = backslash then Escaped else if c = CHR 0x22 then Plain else InString) s"
| "strip_comments Plain (c # s) =
    (if c = CHR 0x22 then c # strip_comments InString s
     else if c = CHR ''/'' \<and> has_prefix s ''/'' then strip_comments LineComment (drop 1 s)
     else if c = CHR ''/'' \<and> has_prefix s ''*'' then strip_comments BlockComment (drop 1 s)
     else c # strip_comments Plain s)"

text \<open>The replacement of \<^verbatim>\<open>,(\s*[}\]])\<close> by its group: a comma goes where only white space is between it and a closing bracket.\<close>

definition re_space :: "char \<Rightarrow> bool" where
  "re_space c = (c \<in> set [CHR 0x09, CHR 0x0A, CHR 0x0C, CHR 0x0D, CHR '' ''])"

definition closes :: "string \<Rightarrow> bool" where
  "closes s = (case dropWhile re_space s of [] \<Rightarrow> False | c # _ \<Rightarrow> c = CHR ''}'' \<or> c = CHR '']'')"

fun drop_commas :: "string \<Rightarrow> string" where
  "drop_commas [] = []"
| "drop_commas (c # s) = (if c = CHR '','' \<and> closes s then drop_commas s else c # drop_commas s)"

definition stripJSONC :: "string \<Rightarrow> string" where
  "stripJSONC data = drop_commas (strip_comments Plain data)"

section \<open>The settings of VS Code\<close>

definition gitHubCopilotHookDirSetting :: string where
  "gitHubCopilotHookDirSetting = ''chat.hookFilesLocations''"

definition content_text :: "(godata \<Rightarrow> string) \<Rightarrow> content \<Rightarrow> string" where
  "content_text marshal c = (case c of Text t \<Rightarrow> t | Doc doc \<Rightarrow> marshal doc)"

definition readVSCodeSettings :: "host \<Rightarrow> (godata \<Rightarrow> string) \<Rightarrow> string \<Rightarrow> disk \<Rightarrow> io_error + godata option \<times> bool" where
  "readVSCodeSettings h marshal path d =
    (case read_file h path d of
       Inl e \<Rightarrow> Inl e
     | Inr None \<Rightarrow> Inr (None, False)
     | Inr (Some data) \<Rightarrow> (case decode_into h [] (Text (stripJSONC (content_text marshal data))) of Inl e \<Rightarrow> Inl e | Inr settings \<Rightarrow> Inr (settings, True)))"

definition settingsContainGitHubCopilotHook :: "string \<Rightarrow> string \<Rightarrow> godata option \<Rightarrow> bool" where
  "settingsContainGitHubCopilotHook home hooksDir settings =
    (case settings of None \<Rightarrow> False
     | Some m \<Rightarrow> (case map_of m gitHubCopilotHookDirSetting of
          Some (VMap locations) \<Rightarrow> list_ex (\<lambda>(key, v). v = VBool True \<and> samePathToken home key hooksDir) locations
        | _ \<Rightarrow> False))"

text \<open>\<open>ord\<close> is the order in which the keys are visited.\<close>

definition upsertGitHubCopilotHookLocation :: "(string list \<Rightarrow> string list) \<Rightarrow> string \<Rightarrow> string \<Rightarrow> godata \<Rightarrow> io_error + godata" where
  "upsertGitHubCopilotHookLocation ord home hooksDir settings =
    (let hookLocation = gitHubCopilotHookLocationSettingValue home hooksDir;
         put = (\<lambda>locations. Inr (AList.update gitHubCopilotHookDirSetting (VMap locations) settings)) in
     case map_of settings gitHubCopilotHookDirSetting of
       None \<Rightarrow> put [(hookLocation, VBool True)]
     | Some VNil \<Rightarrow> put [(hookLocation, VBool True)]
     | Some (VMap locations) \<Rightarrow>
        (case List.find (\<lambda>key. samePathToken home key hooksDir) (ord (map fst locations)) of
           Some key \<Rightarrow> put (AList.update key (VBool True) locations)
         | None \<Rightarrow> put (AList.update hookLocation (VBool True) locations))
     | Some _ \<Rightarrow> Inl NotAnObject)"

definition removeGitHubCopilotHookLocation :: "string \<Rightarrow> string \<Rightarrow> godata \<Rightarrow> bool \<times> godata" where
  "removeGitHubCopilotHookLocation home hooksDir settings =
    (case map_of settings gitHubCopilotHookDirSetting of
       Some (VMap locations) \<Rightarrow>
        (let locations' = filter (\<lambda>(key, _). \<not> samePathToken home key hooksDir) locations in
         (list_ex (\<lambda>(key, _). samePathToken home key hooksDir) locations,
          if locations' = [] then AList.delete gitHubCopilotHookDirSetting settings
          else AList.update gitHubCopilotHookDirSetting (VMap locations') settings))
     | _ \<Rightarrow> (False, settings))"

section \<open>Installing, removing and detecting\<close>

definition gitHubCopilotActionsSupported :: "host \<Rightarrow> bool" where
  "gitHubCopilotActionsSupported h = (ho_windows h \<or> ho_darwin h)"

definition ensureGitHubCopilotHookScript :: "host \<Rightarrow> string \<Rightarrow> disk \<Rightarrow> edit_outcome \<times> disk" where
  "ensureGitHubCopilotHookScript h scriptPath d = ensure_script h scriptPath
    (if ho_windows h then ho_script h ''copilot''
     else posixHookScript h ''-copilot-hook'' [(''THEMISTO_COPILOT_STATE_DIR'', filepath_join (path_dir h scriptPath) ''copilot-state'')]) d"

definition buildGitHubCopilotHookCommand :: "host \<Rightarrow> string \<Rightarrow> string" where
  "buildGitHubCopilotHookCommand h scriptPath =
    (if ho_windows h then ''powershell.exe -ExecutionPolicy Bypass -NoProfile -File '' @ [CHR 0x22] @ scriptPath @ [CHR 0x22] else scriptPath)"

definition copilot_hook :: "host \<Rightarrow> string \<Rightarrow> goval" where
  "copilot_hook h command = VMap ([(''type'', VString ''command''), (''command'', VString command), (''timeout'', VInt 15)]
     @ (if ho_windows h then [(''windows'', VString command)] else []))"

definition ensureGitHubCopilotHookConfig :: "host \<Rightarrow> string \<Rightarrow> string \<Rightarrow> disk \<Rightarrow> edit_outcome \<times> disk" where
  "ensureGitHubCopilotHookConfig h configPath scriptPath d =
    (case mkdir_all h (path_dir h configPath) d of
       (False, d1) \<Rightarrow> (Failed MkdirFailed, d1)
     | (True, d1) \<Rightarrow>
        (let hook = copilot_hook h (buildGitHubCopilotHookCommand h scriptPath) in
         writeJSONAtomic h configPath [(''hooks'', VMap [(''UserPromptSubmit'', VList [hook]), (''PreToolUse'', VList [hook])])] d1))"

definition register_location :: "host \<Rightarrow> (godata \<Rightarrow> string) \<Rightarrow> (string list \<Rightarrow> string list) \<Rightarrow> string \<Rightarrow> string \<Rightarrow> string \<Rightarrow> disk \<Rightarrow> edit_outcome \<times> disk" where
  "register_location h marshal ord home settingsPath hooksDir d =
    (case mkdir_all h (path_dir h settingsPath) d of
       (False, d1) \<Rightarrow> (Failed MkdirFailed, d1)
     | (True, d1) \<Rightarrow>
        (case readVSCodeSettings h marshal settingsPath d1 of
           Inl e \<Rightarrow> (Failed e, d1)
         | Inr (found, _) \<Rightarrow>
            (case upsertGitHubCopilotHookLocation ord home hooksDir (case found of Some m \<Rightarrow> m | None \<Rightarrow> []) of
               Inl e \<Rightarrow> (Failed e, d1)
             | Inr settings \<Rightarrow> writeJSONAtomic h settingsPath settings d1)))"

definition installGitHubCopilotHookAt ::
  "host \<Rightarrow> (godata \<Rightarrow> string) \<Rightarrow> (string list \<Rightarrow> string list) \<Rightarrow> string \<Rightarrow> string \<Rightarrow> string \<Rightarrow> string \<Rightarrow> string \<Rightarrow> disk \<Rightarrow> edit_outcome \<times> disk" where
  "installGitHubCopilotHookAt h marshal ord home settingsPath hooksDir scriptPath hookConfigPath d =
    (case ensureGitHubCopilotHookScript h scriptPath d of
       (Done, d1) \<Rightarrow>
        (case ensureGitHubCopilotHookConfig h hookConfigPath scriptPath d1 of
           (Done, d2) \<Rightarrow> register_location h marshal ord home settingsPath hooksDir d2
         | failed \<Rightarrow> failed)
     | failed \<Rightarrow> failed)"

text \<open>\<^verbatim>\<open>os.Remove\<close> and \<^verbatim>\<open>os.RemoveAll\<close> with their errors ignored; a directory that is not empty is one of the failures.\<close>

definition drop_path :: "host \<Rightarrow> string \<Rightarrow> disk \<Rightarrow> disk" where
  "drop_path h p d = (if ho_fails h ''remove'' p then d else (put_file p None d)\<lparr>dk_dirs := dk_dirs d - {p}\<rparr>)"

definition drop_tree :: "host \<Rightarrow> string \<Rightarrow> disk \<Rightarrow> disk" where
  "drop_tree h p d = (if ho_fails h ''remove'' p then d
     else d\<lparr>dk_files := (\<lambda>q. if q = p \<or> has_prefix q (p @ ''/'') then None else dk_files d q),
            dk_dirs := {q \<in> dk_dirs d. \<not> (q = p \<or> has_prefix q (p @ ''/''))}\<rparr>)"

definition removeGitHubCopilotHookAt ::
  "host \<Rightarrow> (godata \<Rightarrow> string) \<Rightarrow> string \<Rightarrow> string \<Rightarrow> string \<Rightarrow> string \<Rightarrow> string \<Rightarrow> disk \<Rightarrow> edit_outcome \<times> disk" where
  "removeGitHubCopilotHookAt h marshal home settingsPath hooksDir scriptPath hookConfigPath d =
    (case readVSCodeSettings h marshal settingsPath d of
       Inl e \<Rightarrow> (Failed e, d)
     | Inr (found, exists) \<Rightarrow>
        (case (case found of
                 Some settings \<Rightarrow>
                   if exists then
                     (case removeGitHubCopilotHookLocation home hooksDir settings of
                        (True, settings') \<Rightarrow> writeJSONAtomic h settingsPath settings' d
                      | (False, _) \<Rightarrow> (Done, d))
                   else (Done, d)
               | None \<Rightarrow> (Done, d)) of
           (Done, d1) \<Rightarrow> (Done, drop_path h hooksDir (drop_tree h (filepath_join hooksDir ''copilot-state'')
              (drop_path h scriptPath (drop_path h hookConfigPath d1))))
         | failed \<Rightarrow> failed))"

definition repairGitHubCopilotHookAt ::
  "host \<Rightarrow> (godata \<Rightarrow> string) \<Rightarrow> (string list \<Rightarrow> string list) \<Rightarrow> string \<Rightarrow> string \<Rightarrow> string \<Rightarrow> string \<Rightarrow> string \<Rightarrow> disk \<Rightarrow> edit_outcome \<times> disk" where
  "repairGitHubCopilotHookAt h marshal ord home settingsPath hooksDir scriptPath hookConfigPath d =
    (case removeGitHubCopilotHookAt h marshal home settingsPath hooksDir scriptPath hookConfigPath d of
       (Done, d1) \<Rightarrow> installGitHubCopilotHookAt h marshal ord home settingsPath hooksDir scriptPath hookConfigPath d1
     | failed \<Rightarrow> failed)"

text \<open>The actions of the application: installing and repairing are offered on two platforms, removing on all.\<close>

definition installGitHubCopilotHook ::
  "host \<Rightarrow> (godata \<Rightarrow> string) \<Rightarrow> (string list \<Rightarrow> string list) \<Rightarrow> string \<Rightarrow> string \<Rightarrow> string \<Rightarrow> string \<Rightarrow> string \<Rightarrow> disk \<Rightarrow> edit_outcome \<times> disk" where
  "installGitHubCopilotHook h marshal ord home settingsPath hooksDir scriptPath hookConfigPath d =
    (if \<not> gitHubCopilotActionsSupported h then (Failed Unsupported, d)
     else installGitHubCopilotHookAt h marshal ord home settingsPath hooksDir scriptPath hookConfigPath d)"

definition repairGitHubCopilotHook ::
  "host \<Rightarrow> (godata \<Rightarrow> string) \<Rightarrow> (string list \<Rightarrow> string list) \<Rightarrow> string \<Rightarrow> string \<Rightarrow> string \<Rightarrow> string \<Rightarrow> string \<Rightarrow> disk \<Rightarrow> edit_outcome \<times> disk" where
  "repairGitHubCopilotHook h marshal ord home settingsPath hooksDir scriptPath hookConfigPath d =
    (if \<not> gitHubCopilotActionsSupported h then (Failed Unsupported, d)
     else repairGitHubCopilotHookAt h marshal ord home settingsPath hooksDir scriptPath hookConfigPath d)"

definition detectGitHubCopilotIntegration :: "host \<Rightarrow> (godata \<Rightarrow> string) \<Rightarrow> string \<Rightarrow> string \<Rightarrow> string \<Rightarrow> string \<Rightarrow> string \<Rightarrow> disk \<Rightarrow> integration_status" where
  "detectGitHubCopilotIntegration h marshal home settingsPath hooksDir scriptPath hookConfigPath d =
    (let s0 = fresh_status\<lparr>in_Installed := ho_installed h\<rparr> in
     case readVSCodeSettings h marshal settingsPath d of
       Inl e \<Rightarrow> check_failed e s0
     | Inr (settings, _) \<Rightarrow>
        (let configured = settingsContainGitHubCopilotHook home hooksDir settings;
             script = (stat_ok scriptPath d \<and> stat_ok hookConfigPath d \<and> validate_script h ''-copilot-hook'' scriptPath);
             s1 = s0\<lparr>in_HookConfigured := configured, in_HookSource := (if configured then ''vscode_user_settings'' else []), in_HookScriptExists := script\<rparr>;
             s2 = installed_here h settingsPath d s1 in
         if \<not> in_Installed s2 then s2\<lparr>in_IntegrationState := ''not_installed''\<rparr>
         else settle_state s2 (hook_state configured script)))"

section \<open>Lemmas on paths\<close>

text \<open>A component of a clean rooted path.\<close>

definition good_comp :: "string \<Rightarrow> bool" where
  "good_comp c = (c \<noteq> [] \<and> c \<noteq> ''.'' \<and> c \<noteq> ''..'' \<and> CHR ''/'' \<notin> set c)"

lemma split_free: "w \<in> set (split_on x s) \<Longrightarrow> x \<notin> set w \<and> set w \<subseteq> set s"
proof (induction s arbitrary: w)
  case (Cons c s)
  obtain v vs where "split_on x s = v # vs" using split_on_nonempty list.exhaust by blast
  then show ?case using Cons by (fastforce split: if_splits)
qed simp

lemma clean_append: "clean_comps r st (xs @ ys) = clean_comps r (rev (clean_comps r st xs)) ys"
  by (induction r st xs rule: clean_comps.induct) (auto split: list.split)

lemma clean_good: "\<forall>c\<in>set cs. good_comp c \<Longrightarrow> clean_comps r st cs = rev st @ cs"
  by (induction cs arbitrary: st) (auto simp: good_comp_def)

lemma clean_subset: "set (clean_comps r st cs) \<subseteq> set st \<union> set cs \<union> {''..''}"
proof (induction cs arbitrary: st)
  case (Cons c cs)
  show ?case using Cons[of st] Cons[of "c # st"] Cons[of "tl st"] Cons[of "if r then [] else [''..'']"] Cons[of "''..'' # st"]
    by (cases st) (auto split: if_splits)
qed auto

lemma clean_rooted: "\<forall>c\<in>set cs. CHR ''/'' \<notin> set c \<Longrightarrow> \<forall>c\<in>set st. good_comp c \<Longrightarrow> \<forall>c\<in>set (clean_comps True st cs). good_comp c"
proof (induction cs arbitrary: st)
  case (Cons c cs)
  have rest: "\<forall>c\<in>set st'. good_comp c \<Longrightarrow> \<forall>c\<in>set (clean_comps True st' cs). good_comp c" for st' using Cons by simp
  consider "c = [] \<or> c = ''.''" | "c = ''..''" | "good_comp c" using Cons.prems(1) by (auto simp: good_comp_def)
  then show ?case
  proof cases
    case 1
    then have "clean_comps True st (c # cs) = clean_comps True st cs" by simp
    then show ?thesis using rest Cons.prems(2) by metis
  next
    case 2
    have "clean_comps True st (c # cs) = clean_comps True (tl st) cs" using Cons.prems(2) 2 by (cases st) (simp_all add: good_comp_def)
    moreover have "\<forall>c\<in>set (tl st). good_comp c" using Cons.prems(2) by (cases st) simp_all
    ultimately show ?thesis using rest by metis
  next
    case 3
    then have "clean_comps True st (c # cs) = clean_comps True (c # st) cs" by (simp add: good_comp_def)
    then show ?thesis using rest[of "c # st"] Cons.prems(2) 3 by simp
  qed
qed simp

lemma comps_good: "rooted p \<Longrightarrow> c \<in> set (path_comps p) \<Longrightarrow> good_comp c"
  using clean_rooted[of "split_on (CHR ''/'') p" "[]"] split_free[of _ "CHR ''/''" p] by (auto simp: path_comps_def)

lemma good_no_slash: "\<forall>c\<in>set cs. good_comp c \<Longrightarrow> \<forall>c\<in>set cs. CHR ''/'' \<notin> set c"
  by (simp add: good_comp_def)

lemma comps_append:
  assumes "rooted p" "ws \<noteq> []" "\<forall>c\<in>set ws. good_comp c"
  shows "path_comps (p @ ''/'' @ join_with ''/'' ws) = path_comps p @ ws" "rooted (p @ ''/'' @ join_with ''/'' ws)"
proof -
  show r: "rooted (p @ ''/'' @ join_with ''/'' ws)" using assms(1) by (auto simp: rooted_def has_prefix_iff)
  show "path_comps (p @ ''/'' @ join_with ''/'' ws) = path_comps p @ ws"
    using r assms split_join[OF assms(2) good_no_slash[OF assms(3)]]
    by (simp add: path_comps_def split_on_append clean_append clean_good)
qed

lemma comps_rendered:
  assumes "\<forall>c\<in>set ws. good_comp c"
  shows "path_comps (CHR ''/'' # join_with ''/'' ws) = ws" "rooted (CHR ''/'' # join_with ''/'' ws)"
proof -
  show r: "rooted (CHR ''/'' # join_with ''/'' ws)" by (simp add: rooted_def)
  have "path_comps (CHR ''/'' # join_with ''/'' ws) = clean_comps True [] (if ws = [] then [[]] else ws)"
    using r split_join[OF _ good_no_slash[OF assms]] by (auto simp: path_comps_def)
  then show "path_comps (CHR ''/'' # join_with ''/'' ws) = ws" using assms by (auto simp: clean_good)
qed

lemma clean_root: "rooted p \<Longrightarrow> filepath_clean p = CHR ''/'' # join_with ''/'' (path_comps p)"
  by (simp add: filepath_clean_def)

lemma clean_stable:
  assumes "rooted p"
  shows "path_comps (filepath_clean p) = path_comps p" "rooted (filepath_clean p)" "filepath_clean (filepath_clean p) = filepath_clean p"
proof -
  have g: "\<forall>c\<in>set (path_comps p). good_comp c" using comps_good[OF assms] by blast
  show c: "path_comps (filepath_clean p) = path_comps p" "rooted (filepath_clean p)" unfolding clean_root[OF assms] using comps_rendered[OF g] by auto
  then show "filepath_clean (filepath_clean p) = filepath_clean p" using clean_root assms by simp
qed

lemma strip_common_split: "\<exists>cs. a = cs @ fst (strip_common a b) \<and> b = cs @ snd (strip_common a b)"
proof (induction a b rule: strip_common.induct)
  case (1 b bs t ts)
  show ?case
  proof (cases "b = t")
    case True
    then obtain cs where "bs = cs @ fst (strip_common bs ts)" "ts = cs @ snd (strip_common bs ts)" using 1 by blast
    then show ?thesis using True by (intro exI[of _ "b # cs"]) simp
  qed simp
qed simp_all

lemma set_join: "set (join_with ''/'' ws) \<subseteq> (\<Union>w\<in>set ws. set w) \<union> {CHR ''/''}"
  by (induction "''/''" ws rule: join_with.induct) auto

lemma comps_chars:
  assumes "c \<in> set (path_comps p)" "rooted p"
  shows "set c \<subseteq> set p"
proof -
  have "c \<in> set (split_on (CHR ''/'') p)"
    using assms clean_subset[of "rooted p" "[]" "split_on (CHR ''/'') p"] comps_good[OF assms(2,1)] by (auto simp: path_comps_def good_comp_def)
  then show ?thesis using split_free by blast
qed

lemma backslash_slash: "backslash \<noteq> CHR ''/''"
  by (simp add: backslash_def)

lemma join_append: "ws \<noteq> [] \<Longrightarrow> \<exists>a. join_with ''/'' (vs @ ws) = a @ join_with ''/'' ws"
proof (induction vs)
  case (Cons v vs)
  then obtain a where "join_with ''/'' (vs @ ws) = a @ join_with ''/'' ws" by blast
  moreover have "join_with ''/'' ((v # vs) @ ws) = v @ ''/'' @ join_with ''/'' (vs @ ws)" using Cons.prems by (cases "vs @ ws") auto
  ultimately show ?case by (intro exI[of _ "v @ ''/'' @ a"]) simp
qed simp

lemma join_nonempty: "ws \<noteq> [] \<Longrightarrow> hd ws \<noteq> [] \<Longrightarrow> join_with ''/'' ws \<noteq> []"
  by (cases ws rule: join_with.cases[of "(''/'', ws)" for ws, simplified]) auto

lemma join_dots: "bs \<noteq> [] \<Longrightarrow> has_prefix (join_with ''/'' (replicate (length bs) ''..'' @ ts)) ''..''"
proof -
  assume "bs \<noteq> []"
  then obtain n where "length bs = Suc n" by (cases bs) auto
  then show ?thesis by (cases "replicate n ''..'' @ ts") auto
qed

text \<open>A path as the system gives it: absolute, and without white space at its ends.\<close>

definition well_placed :: "string \<Rightarrow> bool" where
  "well_placed p = (rooted p \<and> trim_space p = p \<and> \<not> is_space (last (filepath_clean p)))"

lemma clean_trim: "well_placed p \<Longrightarrow> trim_space (filepath_clean p) = filepath_clean p"
  by (rule trim_edges) (auto simp: well_placed_def clean_root is_space_def)

lemma normalize_rooted: "rooted v \<Longrightarrow> trim_space v = v \<Longrightarrow> normalize home v = filepath_clean v"
  by (auto simp: normalize_def rooted_def has_prefix_iff)

lemma normalize_home:
  assumes "rooted home" "ts \<noteq> []" "\<forall>c\<in>set ts. good_comp c" "\<not> is_space (last (join_with ''/'' ts))" "backslash \<notin> set (join_with ''/'' ts)"
  shows "normalize home (''~/'' @ join_with ''/'' ts) = CHR ''/'' # join_with ''/'' (path_comps home @ ts)"
proof -
  let ?r = "join_with ''/'' ts"
  have ne: "?r \<noteq> []" using assms(2,3) by (intro join_nonempty) (cases ts, auto simp: good_comp_def)
  have t: "trim_space (''~/'' @ ?r) = ''~/'' @ ?r" using assms(4) ne by (intro trim_edges) (auto simp: is_space_def)
  have "\<not> has_prefix ?r [CHR ''~'', backslash]" using assms(5) by (auto simp: has_prefix_iff)
  then have s: "trim_prefix (trim_prefix (''~/'' @ ?r) ''~/'') [CHR ''~'', backslash] = ?r" by (simp add: trim_prefix_def has_prefix_iff)
  have b: "replace_char backslash (CHR ''/'') ?r = ?r" unfolding replace_char_def using assms(5) by (intro map_idI) auto
  have h: "home \<noteq> []" using assms(1) by (auto simp: rooted_def)
  have "normalize home (''~/'' @ ?r) = filepath_clean (filepath_join home ?r)"
    unfolding normalize_def Let_def t s b using h ne by (simp add: has_prefix_iff)
  also have "\<dots> = CHR ''/'' # join_with ''/'' (path_comps home @ ts)"
    using clean_stable(3)[OF comps_append(2)[OF assms(1-3)]] clean_root[OF comps_append(2)[OF assms(1-3)]] comps_append(1)[OF assms(1-3)] h
    by (simp add: filepath_join_def)
  finally show ?thesis .
qed

text \<open>The location the application writes denotes the directory it stands for.\<close>

lemma location_denotes:
  assumes "well_placed home" "well_placed hooksDir" "backslash \<notin> set hooksDir"
  shows "normalize home (gitHubCopilotHookLocationSettingValue home hooksDir) = filepath_clean hooksDir"
proof -
  let ?H = "filepath_clean home" and ?D = "filepath_clean hooksDir"
  note w = assms(1,2)[unfolded well_placed_def]
  have ne: "home \<noteq> []" using w by (auto simp: rooted_def)
  have nD: "normalize home ?D = ?D" and nH: "normalize home ?H = ?H"
    using w clean_trim assms(1,2) clean_stable normalize_rooted by simp_all
  have v: "gitHubCopilotHookLocationSettingValue home hooksDir = (if ?D = ?H then ''~'' else case filepath_rel ?H ?D of
      Some rel \<Rightarrow> if rel \<noteq> ''.'' \<and> rel \<noteq> [] \<and> \<not> has_prefix rel ''..'' then ''~/'' @ rel else ?D | None \<Rightarrow> ?D)"
    using w ne by (simp add: gitHubCopilotHookLocationSettingValue_def sameNormalizedPath_def nD nH Let_def)
  show ?thesis
  proof (cases "?D = ?H")
    case True
    have "trim_space ''~'' = ''~''" by (simp add: trim_space_def trim_left_def trim_right_def is_space_def)
    then have "normalize home ''~'' = ?H" using ne by (simp add: normalize_def)
    then show ?thesis using v True by simp
  next
    case False
    obtain bs ts where st: "strip_common (path_comps home) (path_comps hooksDir) = (bs, ts)" by fastforce
    obtain cs where cs: "path_comps home = cs @ bs" "path_comps hooksDir = cs @ ts" using strip_common_split[of "path_comps home" "path_comps hooksDir"] st by auto
    have rel: "filepath_rel ?H ?D = (if bs \<noteq> [] \<and> hd bs = ''..'' then None else Some (join_with ''/'' (replicate (length bs) ''..'' @ ts)))"
      using False w clean_stable st by (simp add: filepath_rel_def)
    show ?thesis
    proof (cases "bs = [] \<and> ts \<noteq> []")
      case True
      have good: "\<forall>c\<in>set ts. good_comp c" using comps_good[of hooksDir] w cs by auto
      have D: "?D = CHR ''/'' # join_with ''/'' (path_comps home @ ts)" using clean_root w cs True by simp
      obtain a where a: "join_with ''/'' (path_comps home @ ts) = a @ join_with ''/'' ts" using join_append True by blast
      have jn: "join_with ''/'' ts \<noteq> []" using good True by (intro join_nonempty) (cases ts, auto simp: good_comp_def)
      have sp: "\<not> is_space (last (join_with ''/'' ts))" using w D a jn by simp
      have "\<Union> (set ` set ts) \<subseteq> set hooksDir" using comps_chars[of _ hooksDir] w cs by fastforce
      then have bk: "backslash \<notin> set (join_with ''/'' ts)" using set_join[of ts] assms(3)
        by (metis (no_types, lifting) Un_iff backslash_slash singletonD subset_iff)
      have "filepath_rel ?H ?D = Some (join_with ''/'' ts)" using rel True by simp
      then show ?thesis using v False nD normalize_home[OF _ _ good sp bk, of home] w True D by auto
    next
      case F: False
      then have "gitHubCopilotHookLocationSettingValue home hooksDir = ?D"
        using v False rel join_dots[of bs ts] by (cases "bs = []") (simp_all split: option.split)
      then show ?thesis using nD by simp
    qed
  qed
qed

section \<open>Registering and unregistering\<close>

text \<open>The value a settings document gives to a hook location.\<close>

definition location_of :: "godata \<Rightarrow> string \<Rightarrow> goval option" where
  "location_of settings k = (case map_of settings gitHubCopilotHookDirSetting of Some (VMap locations) \<Rightarrow> map_of locations k | _ \<Rightarrow> None)"

definition only_our_location :: "string \<Rightarrow> string \<Rightarrow> godata \<Rightarrow> godata \<Rightarrow> bool" where
  "only_our_location home hooksDir s s' \<longleftrightarrow> (\<forall>k. k \<noteq> gitHubCopilotHookDirSetting \<longrightarrow> map_of s' k = map_of s k) \<and>
     (\<forall>k. \<not> samePathToken home k hooksDir \<longrightarrow> location_of s' k = location_of s k)"

lemma location_update: "location_of (AList.update gitHubCopilotHookDirSetting (VMap ls) s) k = map_of ls k"
  by (simp add: location_of_def update_conv')

lemma listed_iff: "map_of m gitHubCopilotHookDirSetting = Some (VMap ls) \<Longrightarrow> distinct (map fst ls) \<Longrightarrow>
    settingsContainGitHubCopilotHook home hooksDir (Some m) \<longleftrightarrow> (\<exists>k. map_of ls k = Some (VBool True) \<and> samePathToken home k hooksDir)"
  by (auto simp: settingsContainGitHubCopilotHook_def list_ex_iff intro: map_of_SomeD)

lemma map_of_kept: "Q k \<Longrightarrow> map_of (filter (\<lambda>(key, _). Q key) ls) k = map_of ls k"
  by (induction ls) auto

text \<open>The setting, where it is an object, lists each location once.\<close>

definition locations_distinct :: "godata \<Rightarrow> bool" where
  "locations_distinct m = (case map_of m gitHubCopilotHookDirSetting of Some (VMap ls) \<Rightarrow> distinct (map fst ls) | _ \<Rightarrow> True)"

lemma upsert_location_cases:
  assumes "upsertGitHubCopilotHookLocation ord home hooksDir settings = Inr settings'" "locations_distinct settings"
    "samePathToken home (gitHubCopilotHookLocationSettingValue home hooksDir) hooksDir"
  obtains ls k where "settings' = AList.update gitHubCopilotHookDirSetting (VMap (AList.update k (VBool True) ls)) settings"
    "samePathToken home k hooksDir" "distinct (map fst ls)" "\<And>j. location_of settings j = map_of ls j"
proof -
  let ?loc = "gitHubCopilotHookLocationSettingValue home hooksDir"
  consider "settings' = AList.update gitHubCopilotHookDirSetting (VMap [(?loc, VBool True)]) settings" "\<And>j. location_of settings j = None"
    | ls where "map_of settings gitHubCopilotHookDirSetting = Some (VMap ls)"
    using assms(1) by (auto simp: upsertGitHubCopilotHookLocation_def location_of_def Let_def split: option.splits goval.splits)
  then show ?thesis
  proof cases
    case 1
    then show ?thesis using that[of ?loc "[]"] assms(3) by simp
  next
    case (2 ls)
    then show ?thesis using that[of _ ls] assms
      by (auto simp: upsertGitHubCopilotHookLocation_def location_of_def locations_distinct_def Let_def find_Some_iff split: option.splits)
  qed
qed

text \<open>Writing the location and removing it again, on the document.\<close>

lemma registration_exact:
  assumes "well_placed home" "well_placed hooksDir" "backslash \<notin> set hooksDir" "locations_distinct settings"
    "upsertGitHubCopilotHookLocation ord home hooksDir settings = Inr settings'"
  shows "settingsContainGitHubCopilotHook home hooksDir (Some settings') \<and> only_our_location home hooksDir settings settings' \<and>
    (\<exists>left. removeGitHubCopilotHookLocation home hooksDir settings' = (True, left) \<and>
      \<not> settingsContainGitHubCopilotHook home hooksDir (Some left) \<and> only_our_location home hooksDir settings' left)"
proof -
  have same: "samePathToken home (gitHubCopilotHookLocationSettingValue home hooksDir) hooksDir"
    using location_denotes[OF assms(1-3)] normalize_rooted assms(2) by (simp add: samePathToken_def sameNormalizedPath_def well_placed_def)
  obtain ls k where s: "settings' = AList.update gitHubCopilotHookDirSetting (VMap (AList.update k (VBool True) ls)) settings"
    "samePathToken home k hooksDir" "distinct (map fst ls)" "\<And>j. location_of settings j = map_of ls j"
    using upsert_location_cases[OF assms(5,4) same] by metis
  let ?ls = "AList.update k (VBool True) ls"
  have m: "map_of settings' gitHubCopilotHookDirSetting = Some (VMap ?ls)" "distinct (map fst ?ls)" "k \<in> fst ` set ?ls"
    using s(1,3) by (simp_all add: update_conv' distinct_update dom_update)
  let ?rest = "filter (\<lambda>(key, _). \<not> samePathToken home key hooksDir) ?ls"
  obtain left where left: "removeGitHubCopilotHookLocation home hooksDir settings' = (True, left)"
    "left = (if ?rest = [] then AList.delete gitHubCopilotHookDirSetting settings' else AList.update gitHubCopilotHookDirSetting (VMap ?rest) settings')"
    using m(1,3) s(2) by (force simp: removeGitHubCopilotHookLocation_def list_ex_iff Let_def)
  have "settingsContainGitHubCopilotHook home hooksDir (Some settings')"
    using listed_iff[OF m(1,2)] s(2) by (auto simp: update_conv')
  moreover have "only_our_location home hooksDir settings settings'"
    using s(2,4) by (auto simp: only_our_location_def s(1) location_update update_conv')
  moreover have "\<not> settingsContainGitHubCopilotHook home hooksDir (Some left)"
    by (auto simp: left(2) settingsContainGitHubCopilotHook_def update_conv' delete_conv' list_ex_iff)
  moreover have "only_our_location home hooksDir settings' left"
  proof -
    have j: "map_of ?rest j = map_of ?ls j" if "\<not> samePathToken home j hooksDir" for j
      using map_of_kept[of "\<lambda>key. \<not> samePathToken home key hooksDir" j ?ls] that by simp
    show ?thesis
    proof (cases "?rest = []")
      case True
      then have "map_of ?ls j = None" if "\<not> samePathToken home j hooksDir" for j using j[OF that] by simp
      then show ?thesis using True m(1) by (simp add: only_our_location_def left(2) location_of_def delete_conv')
    next
      case False
      then show ?thesis using j m(1) by (simp add: only_our_location_def left(2) location_update) (simp add: location_of_def update_conv')
    qed
  qed
  ultimately show ?thesis using left(1) by blast
qed

section \<open>On disk\<close>

definition found_settings :: "host \<Rightarrow> (godata \<Rightarrow> string) \<Rightarrow> string \<Rightarrow> disk \<Rightarrow> godata" where
  "found_settings h marshal path d = (case readVSCodeSettings h marshal path d of Inr (Some m, _) \<Rightarrow> m | _ \<Rightarrow> [])"

lemma settings_cong: "dk_files d path = dk_files d' path \<Longrightarrow> readVSCodeSettings h marshal path d = readVSCodeSettings h marshal path d'"
  by (simp add: readVSCodeSettings_def read_file_def)

lemma register_location_done:
  assumes "register_location h marshal ord home path hooksDir d = (Done, d')"
  obtains after where "upsertGitHubCopilotHookLocation ord home hooksDir (found_settings h marshal path d) = Inr after" "dk_files d' path = Some (Doc after)"
    "\<And>p. p \<noteq> path \<Longrightarrow> p \<noteq> path @ ''.tmp'' \<Longrightarrow> dk_files d' p = dk_files d p"
proof -
  define d1 where "d1 = d\<lparr>dk_dirs := insert (path_dir h path) (dk_dirs d)\<rparr>"
  have f: "dk_files d1 = dk_files d" by (simp add: d1_def)
  have r: "readVSCodeSettings h marshal path d1 = readVSCodeSettings h marshal path d" by (rule settings_cong) (simp add: f)
  from assms obtain found b after where "readVSCodeSettings h marshal path d = Inr (found, b)"
    "upsertGitHubCopilotHookLocation ord home hooksDir (case found of Some m \<Rightarrow> m | None \<Rightarrow> []) = Inr after" "writeJSONAtomic h path after d1 = (Done, d')"
    by (auto simp: register_location_def mkdir_all_def d1_def[symmetric] r split: if_splits sum.splits prod.splits)
  then show ?thesis using that[of after] write_atomic_done f by (simp add: found_settings_def split: option.splits)
qed

lemma copilot_config_done:
  assumes "ensureGitHubCopilotHookConfig h path script d = (Done, d')"
  shows "dk_files d' path \<noteq> None" "\<And>p. p \<noteq> path \<Longrightarrow> p \<noteq> path @ ''.tmp'' \<Longrightarrow> dk_files d' p = dk_files d p"
proof -
  obtain doc where "writeJSONAtomic h path doc (d\<lparr>dk_dirs := insert (path_dir h path) (dk_dirs d)\<rparr>) = (Done, d')"
    using assms by (auto simp: ensureGitHubCopilotHookConfig_def mkdir_all_def Let_def split: if_splits)
  from write_atomic_done[OF this] show "dk_files d' path \<noteq> None" "\<And>p. p \<noteq> path \<Longrightarrow> p \<noteq> path @ ''.tmp'' \<Longrightarrow> dk_files d' p = dk_files d p"
    by simp_all
qed


definition user_settings :: godata where
  "user_settings = [(''editor.tabSize'', VInt 2), (''chat.hookFilesLocations'', VMap [(''/opt/lint'', VBool True)])]"

definition vscode_host :: host where
  "vscode_host = sample_host\<lparr>ho_unmarshal := (\<lambda>t. if t = ''{}'' then Some (VMap user_settings) else None)\<rparr>"

definition vscode_disk :: disk where
  "vscode_disk = \<lparr>dk_files = (\<lambda>p. if p = ''/s.json'' then Some (Text ''{/* tabs */}'') else None), dk_dirs = {}\<rparr>"


section \<open>JSON with comments\<close>

text \<open>The inside of a string literal: every quotation mark in it is escaped.\<close>

fun literal_body :: "string \<Rightarrow> bool" where
  "literal_body [] = True"
| "literal_body (c # s) = (if c = backslash then (case s of [] \<Rightarrow> False | _ # t \<Rightarrow> literal_body t) else c \<noteq> CHR 0x22 \<and> literal_body s)"

lemma body_kept: "literal_body b \<Longrightarrow> strip_comments InString (b @ CHR 0x22 # r) = b @ CHR 0x22 # strip_comments Plain r"
proof (induction b rule: literal_body.induct)
  case (2 c s)
  then show ?case by (cases s) (auto simp: backslash_def split: if_splits)
qed (simp add: backslash_def)

text \<open>A string literal passes the removal of comments unchanged, whatever looks like a comment inside it.\<close>

lemma literals_pass_comments: "literal_body b \<Longrightarrow> strip_comments Plain (CHR 0x22 # b @ CHR 0x22 # r) = CHR 0x22 # b @ CHR 0x22 # strip_comments Plain r"
  by (simp add: body_kept)

lemma comment_free: "CHR ''/'' \<notin> set s \<Longrightarrow> md \<in> {Plain, InString, Escaped} \<Longrightarrow> strip_comments md s = s"
  by (induction md s rule: strip_comments.induct) auto

text \<open>
  The removal of trailing commas knows nothing of strings: a comma before a closing bracket inside a literal is
  dropped, and the installation writes the altered value back.
\<close>

lemma comma_in_literal_lost:
  "stripJSONC ([CHR 0x22] @ ''a,}'' @ [CHR 0x22]) = [CHR 0x22] @ ''a}'' @ [CHR 0x22]"
  by code_simp

end
