(* ===== verification/System_Proxy.thy ===== *)
theory System_Proxy
  imports Go_Stdlib "HOL-Library.Word"
begin

text \<open>
  The contract of the platform's proxy adapter (\<^verbatim>\<open>src/core/adapter/iface/system_proxy.go\<close>), which the agent relies on to
  take over the traffic of a machine and to give it back. The adapters of Windows and macOS interpret it.
\<close>

text \<open>\<^verbatim>\<open>strconv.ParseUint(s, 10, 16)\<close> with its error ignored: zero for anything but digits, the largest value when out of range.\<close>

definition parse_uint16 :: "string \<Rightarrow> 16 word" where
  "parse_uint16 s = (if s = [] \<or> \<not> list_all is_digit s then 0 else if digits_value s < 2 ^ 16 then of_int (digits_value s) else - 1)"

record os_proxy_state =
  ps_Host :: string
  ps_Port :: "16 word"
  ps_Active :: bool
  ps_OwnedByAgent :: bool

text \<open>One run of the agent registers and, when it ends, unregisters, whether or not the registration succeeded.\<close>

definition agent_run :: "(string \<Rightarrow> 16 word \<Rightarrow> 's \<Rightarrow> bool \<times> 's) \<Rightarrow> ('s \<Rightarrow> 's) \<Rightarrow> string \<times> 16 word \<Rightarrow> 's \<Rightarrow> 's" where
  "agent_run register unregister a s = unregister (snd (register (fst a) (snd a) s))"

text \<open>
  \<open>owned\<close> says that the adapter holds a registration, \<open>outside\<close> is what the machine's proxy settings amount to, \<open>fit\<close> says
  that an unowned machine is in a condition in which the adapter can restore it, and \<open>addressable\<close> which hosts can be written.
\<close>

locale system_proxy =
  fixes register :: "string \<Rightarrow> 16 word \<Rightarrow> 's \<Rightarrow> bool \<times> 's"
    and unregister :: "'s \<Rightarrow> 's"
    and verify :: "'s \<Rightarrow> bool"
    and owned :: "'s \<Rightarrow> bool"
    and outside :: "'s \<Rightarrow> 'o"
    and fit :: "'s \<Rightarrow> bool"
    and addressable :: "string \<Rightarrow> bool"
  assumes registered: "fit s \<Longrightarrow> \<not> owned s \<Longrightarrow> addressable host \<Longrightarrow> register host port s = (True, s') \<Longrightarrow> owned s' \<and> verify s'"
    and restored: "fit s \<Longrightarrow> \<not> owned s \<Longrightarrow> addressable host \<Longrightarrow> register host port s = (True, s') \<Longrightarrow>
      \<not> owned (unregister s') \<and> fit (unregister s') \<and> outside (unregister s') = outside s"
    and refused: "fit s \<Longrightarrow> \<not> owned s \<Longrightarrow> register host port s = (False, s') \<Longrightarrow> \<not> owned s' \<and> fit s' \<and> outside s' = outside s"
    and idle: "\<not> owned s \<Longrightarrow> unregister s = s"
    and unverified: "fit s \<Longrightarrow> \<not> owned s \<Longrightarrow> \<not> verify s"
begin

lemma run_restores:
  assumes "fit s" "\<not> owned s" "addressable (fst a)"
  shows "\<not> owned (agent_run register unregister a s) \<and> fit (agent_run register unregister a s) \<and> outside (agent_run register unregister a s) = outside s"
proof (cases "register (fst a) (snd a) s")
  case (Pair ok s')
  show ?thesis
  proof (cases ok)
    case True
    then show ?thesis using restored[OF assms] Pair by (simp add: agent_run_def)
  next
    case False
    then show ?thesis using refused[OF assms(1,2)] idle Pair by (simp add: agent_run_def)
  qed
qed

lemma runs_restore:
  assumes "fit s" "\<not> owned s" "\<forall>a\<in>set as. addressable (fst a)"
  shows "\<not> owned (fold (agent_run register unregister) as s) \<and> fit (fold (agent_run register unregister) as s) \<and> outside (fold (agent_run register unregister) as s) = outside s"
  using assms
proof (induction as arbitrary: s)
  case (Cons a as)
  have "addressable (fst a)" "\<forall>a\<in>set as. addressable (fst a)" using Cons.prems(3) by simp_all
  then show ?case using Cons.IH[of "agent_run register unregister a s"] run_restores[OF Cons.prems(1,2)] by simp
qed simp

lemma runs_unverified: "fit s \<Longrightarrow> \<not> owned s \<Longrightarrow> \<forall>a\<in>set as. addressable (fst a) \<Longrightarrow> \<not> verify (fold (agent_run register unregister) as s)"
  using runs_restore unverified by blast

end

text \<open>An adapter whose successful registration always leaves the settings intact, even over settings that were tampered with.\<close>

locale healing_proxy = system_proxy +
  fixes able :: "'a \<Rightarrow> bool"
  assumes healed: "able s \<Longrightarrow> addressable host \<Longrightarrow> register host port s = (True, s') \<Longrightarrow> verify s'"
    and able_kept: "able s \<Longrightarrow> able (snd (register host port s))"
begin

text \<open>
  Tampering and registering again, in turns: as long as tampering leaves the adapter able to act, every
  registration that succeeds ends with intact settings.
\<close>

lemma healed_after_tampering:
  assumes "able s" "\<forall>f\<in>set fs. \<forall>x. able x \<longrightarrow> able (f x)" "addressable host" "able t \<Longrightarrow> able (f t)"
    "t = fold (\<lambda>f x. snd (register host port (f x))) fs s" "register host port (f t) = (True, s')"
  shows "verify s'"
proof -
  have "able (fold (\<lambda>f x. snd (register host port (f x))) fs s)"
    using assms(1,2) by (induction fs arbitrary: s) (auto simp: able_kept)
  then show ?thesis using healed assms(3-6) by blast
qed

end

end
