(* ===== verification/Windows_Proxy.thy ===== *)
theory Windows_Proxy
  imports System_Proxy
begin

text \<open>
  The system proxy of Windows (\<^verbatim>\<open>src/adapter/windows/sysproxy.go\<close>): registering the agent as the proxy of WinINET (the
  user's and the machine's registry hive) and of WinHTTP (\<^verbatim>\<open>netsh\<close>), backing up and restoring what was there,
  the owner marker, the integrity check, and the recovery that the installer and the desktop application share.

  The machine is the four registry keys the code touches and the setting of WinHTTP. Which calls are refused,
  and what \<^verbatim>\<open>netsh\<close> prints, is the environment. A call is an atomic step (the adapter holds its mutex). The probe of
  the listener and the notification of other processes change no state; log lines are left out.
\<close>

section \<open>The registry\<close>

datatype reg_value = DWord "32 word" | Str string

datatype reg_key = UserInet | MachineInet | AgentKey | PoliciesKey

record win_machine =
  wm_keys :: "reg_key \<Rightarrow> (string \<Rightarrow> reg_value option) option"
  wm_winhttp :: "string \<times> string"

record win_env =
  we_opens :: "reg_key \<Rightarrow> bool"
  we_writes :: "reg_key \<Rightarrow> bool"
  we_sets :: "reg_key \<Rightarrow> string \<Rightarrow> bool"
  we_netsh :: bool
  we_show :: "string \<times> string \<Rightarrow> string option"

definition open_query :: "win_env \<Rightarrow> reg_key \<Rightarrow> win_machine \<Rightarrow> (string \<Rightarrow> reg_value option) option" where
  "open_query env k m = (if we_opens env k then wm_keys m k else None)"

definition get_int :: "(string \<Rightarrow> reg_value option) \<Rightarrow> string \<Rightarrow> 32 word option" where
  "get_int vals name = (case vals name of Some (DWord w) \<Rightarrow> Some w | _ \<Rightarrow> None)"

definition get_str :: "(string \<Rightarrow> reg_value option) \<Rightarrow> string \<Rightarrow> string option" where
  "get_str vals name = (case vals name of Some (Str s) \<Rightarrow> Some s | _ \<Rightarrow> None)"

definition str_or_empty :: "(string \<Rightarrow> reg_value option) \<Rightarrow> string \<Rightarrow> string" where
  "str_or_empty vals name = (case get_str vals name of Some s \<Rightarrow> s | None \<Rightarrow> [])"

definition create_key :: "win_env \<Rightarrow> reg_key \<Rightarrow> win_machine \<Rightarrow> win_machine option" where
  "create_key env k m =
    (if we_writes env k then Some (m\<lparr>wm_keys := (wm_keys m)(k := Some (case wm_keys m k of Some vals \<Rightarrow> vals | None \<Rightarrow> Map.empty))\<rparr>) else None)"

definition open_set :: "win_env \<Rightarrow> reg_key \<Rightarrow> win_machine \<Rightarrow> bool" where
  "open_set env k m = (we_writes env k \<and> wm_keys m k \<noteq> None)"

text \<open>Writing and deleting a value of an open key.\<close>

definition set_value :: "win_env \<Rightarrow> reg_key \<Rightarrow> string \<Rightarrow> reg_value \<Rightarrow> win_machine \<Rightarrow> bool \<times> win_machine" where
  "set_value env k name v m =
    (if we_sets env k name then (True, m\<lparr>wm_keys := (wm_keys m)(k := map_option (\<lambda>vals. vals(name \<mapsto> v)) (wm_keys m k))\<rparr>) else (False, m))"

definition delete_value :: "win_env \<Rightarrow> reg_key \<Rightarrow> string \<Rightarrow> win_machine \<Rightarrow> win_machine" where
  "delete_value env k name m =
    (if we_sets env k name then m\<lparr>wm_keys := (wm_keys m)(k := map_option (\<lambda>vals. vals(name := None)) (wm_keys m k))\<rparr> else m)"

text \<open>Go on unless a write failed.\<close>

definition and_then :: "bool \<times> 'm \<Rightarrow> ('m \<Rightarrow> bool \<times> 'm) \<Rightarrow> bool \<times> 'm" where
  "and_then r f = (case r of (True, m) \<Rightarrow> f m | (False, m) \<Rightarrow> (False, m))"

section \<open>Reading and writing the proxy settings\<close>

definition readWinINETProxy :: "win_env \<Rightarrow> reg_key \<Rightarrow> win_machine \<Rightarrow> bool \<times> string" where
  "readWinINETProxy env hive m =
    (case open_query env hive m of None \<Rightarrow> (False, []) | Some vals \<Rightarrow> (get_int vals ''ProxyEnable'' = Some 1, str_or_empty vals ''ProxyServer''))"

definition writeWinINETProxy :: "win_env \<Rightarrow> reg_key \<Rightarrow> string \<Rightarrow> win_machine \<Rightarrow> bool \<times> win_machine" where
  "writeWinINETProxy env hive proxyServer m =
    (case create_key env hive m of
       None \<Rightarrow> (False, m)
     | Some m1 \<Rightarrow>
        and_then (set_value env hive ''ProxyEnable'' (DWord 1) m1)
          (\<lambda>m2. and_then (set_value env hive ''ProxyServer'' (Str proxyServer) m2)
            (set_value env hive ''ProxyOverride'' (Str ''<local>''))))"

definition clearWinINETProxy :: "win_env \<Rightarrow> reg_key \<Rightarrow> win_machine \<Rightarrow> win_machine" where
  "clearWinINETProxy env hive m =
    (if \<not> open_set env hive m then m
     else delete_value env hive ''ProxyOverride'' (delete_value env hive ''ProxyServer'' (snd (set_value env hive ''ProxyEnable'' (DWord 0) m))))"

definition proxyOwnerValue :: string where
  "proxyOwnerValue = ''themisto-agent''"

definition writeOwnerMarker :: "win_env \<Rightarrow> string \<Rightarrow> 16 word \<Rightarrow> win_machine \<Rightarrow> win_machine" where
  "writeOwnerMarker env host port m =
    (case create_key env AgentKey m of
       None \<Rightarrow> m
     | Some m1 \<Rightarrow> snd (set_value env AgentKey ''RegisteredPort'' (DWord (ucast port))
         (snd (set_value env AgentKey ''RegisteredHost'' (Str host) (snd (set_value env AgentKey ''ProxyOwner'' (Str proxyOwnerValue) m1))))))"

definition hasOwnerMarker :: "win_env \<Rightarrow> win_machine \<Rightarrow> bool" where
  "hasOwnerMarker env m = (case open_query env AgentKey m of None \<Rightarrow> False | Some vals \<Rightarrow> get_str vals ''ProxyOwner'' = Some proxyOwnerValue)"

definition removeOwnerMarker :: "win_env \<Rightarrow> win_machine \<Rightarrow> win_machine" where
  "removeOwnerMarker env m =
    (if \<not> open_set env AgentKey m then m
     else delete_value env AgentKey ''RegisteredPort'' (delete_value env AgentKey ''RegisteredHost'' (delete_value env AgentKey ''ProxyOwner'' m)))"

definition readRegistered :: "win_env \<Rightarrow> win_machine \<Rightarrow> (string \<times> 16 word) option" where
  "readRegistered env m =
    (case open_query env AgentKey m of
       None \<Rightarrow> None
     | Some vals \<Rightarrow> (case get_str vals ''RegisteredHost'' of None \<Rightarrow> None
        | Some host \<Rightarrow> map_option (\<lambda>port. (host, ucast port)) (get_int vals ''RegisteredPort'')))"

definition gpHasProxy :: "win_env \<Rightarrow> win_machine \<Rightarrow> bool" where
  "gpHasProxy env m = (case open_query env PoliciesKey m of None \<Rightarrow> False | Some vals \<Rightarrow> get_int vals ''ProxyEnable'' = Some 1)"

section \<open>WinHTTP\<close>

definition after_colon :: "string \<Rightarrow> string option" where
  "after_colon line = map_option (\<lambda>i. trim_space (drop (i + 1) line)) (index_of (CHR '':'') line)"

fun winhttp_lines :: "string list \<Rightarrow> string \<times> string \<Rightarrow> string \<times> string" where
  "winhttp_lines [] (server, bypass) = (server, bypass)"
| "winhttp_lines (raw # rest) (server, bypass) =
    (let line = trim_space raw; lower = to_lower line in
     if contains lower ''direct access'' then ([], [])
     else
      (let server' = (if contains lower ''proxy server'' then (case after_colon line of Some s \<Rightarrow> s | None \<Rightarrow> server) else server);
           bypass' = (if contains lower ''bypass list'' then
                        (case after_colon line of Some b \<Rightarrow> if to_lower b = ''(none)'' then [] else b | None \<Rightarrow> bypass) else bypass) in
       winhttp_lines rest (server', bypass')))"

definition ParseWinHTTPOutput :: "string \<Rightarrow> string \<times> string" where
  "ParseWinHTTPOutput output = winhttp_lines (split_on (CHR 0x0A) output) ([], [])"

definition readWinHTTPProxy :: "win_env \<Rightarrow> win_machine \<Rightarrow> (string \<times> string) option" where
  "readWinHTTPProxy env m = map_option ParseWinHTTPOutput (we_show env (wm_winhttp m))"

definition netsh_set :: "win_env \<Rightarrow> string \<Rightarrow> string \<Rightarrow> win_machine \<Rightarrow> bool \<times> win_machine" where
  "netsh_set env server bypass m = (if we_netsh env then (True, m\<lparr>wm_winhttp := (server, bypass)\<rparr>) else (False, m))"

definition netsh_reset :: "win_env \<Rightarrow> win_machine \<Rightarrow> win_machine" where
  "netsh_reset env m = (if we_netsh env then m\<lparr>wm_winhttp := ([], [])\<rparr> else m)"

section \<open>Backup and restore\<close>

text \<open>The part of the backup that one hive takes: its setting, and its exceptions where it has some.\<close>

definition backup_hive :: "win_env \<Rightarrow> reg_key \<Rightarrow> string \<Rightarrow> string \<Rightarrow> string \<Rightarrow> win_machine \<Rightarrow> bool \<times> win_machine" where
  "backup_hive env hive enableName serverName overrideName m =
    (case readWinINETProxy env hive m of (en, sv) \<Rightarrow>
      and_then (set_value env AgentKey enableName (DWord (if en then 1 else 0)) m)
        (\<lambda>m1. and_then (set_value env AgentKey serverName (Str sv) m1)
          (\<lambda>m2. case open_query env hive m2 of
             None \<Rightarrow> (True, m2)
           | Some vals \<Rightarrow> (case get_str vals ''ProxyOverride'' of None \<Rightarrow> (True, m2) | Some ov \<Rightarrow> set_value env AgentKey overrideName (Str ov) m2))))"

definition backupOriginal :: "win_env \<Rightarrow> win_machine \<Rightarrow> bool \<times> win_machine" where
  "backupOriginal env m =
    (case create_key env AgentKey m of
       None \<Rightarrow> (False, m)
     | Some m0 \<Rightarrow>
        and_then (backup_hive env UserInet ''OriginalProxyEnable'' ''OriginalProxyServer'' ''OriginalProxyOverride'' m0)
          (\<lambda>m1. and_then (backup_hive env MachineInet ''OriginalHKLMProxyEnable'' ''OriginalHKLMProxyServer'' ''OriginalHKLMProxyOverride'' m1)
            (\<lambda>m2. case readWinHTTPProxy env m2 of
               None \<Rightarrow> (False, m2)
             | Some (server, bypass) \<Rightarrow>
                and_then (set_value env AgentKey ''OriginalWinHTTPProxyServer'' (Str server) m2)
                  (set_value env AgentKey ''OriginalWinHTTPBypassList'' (Str bypass)))))"

definition restore_hive :: "win_env \<Rightarrow> reg_key \<Rightarrow> string \<Rightarrow> string \<Rightarrow> string \<Rightarrow> win_machine \<Rightarrow> win_machine" where
  "restore_hive env hive enableName serverName overrideName m =
    (case open_query env AgentKey m of
       None \<Rightarrow> clearWinINETProxy env hive m
     | Some vals \<Rightarrow>
        (case get_int vals enableName of
           None \<Rightarrow> clearWinINETProxy env hive m
         | Some en \<Rightarrow>
            if en = 0 then clearWinINETProxy env hive m
            else
             (let sv = str_or_empty vals serverName; ov = str_or_empty vals overrideName in
              case create_key env hive m of
                None \<Rightarrow> m
              | Some m1 \<Rightarrow>
                 (let m2 = snd (set_value env hive ''ProxyEnable'' (DWord en) m1);
                      m3 = (if sv \<noteq> [] then snd (set_value env hive ''ProxyServer'' (Str sv) m2) else m2) in
                  if ov \<noteq> [] then snd (set_value env hive ''ProxyOverride'' (Str ov) m3) else m3))))"

definition restoreHKCU :: "win_env \<Rightarrow> win_machine \<Rightarrow> win_machine" where
  "restoreHKCU env m = restore_hive env UserInet ''OriginalProxyEnable'' ''OriginalProxyServer'' ''OriginalProxyOverride'' m"

definition restoreHKLM :: "win_env \<Rightarrow> win_machine \<Rightarrow> win_machine" where
  "restoreHKLM env m = restore_hive env MachineInet ''OriginalHKLMProxyEnable'' ''OriginalHKLMProxyServer'' ''OriginalHKLMProxyOverride'' m"

definition restoreWinHTTP :: "win_env \<Rightarrow> win_machine \<Rightarrow> win_machine" where
  "restoreWinHTTP env m =
    (case open_query env AgentKey m of
       None \<Rightarrow> netsh_reset env m
     | Some vals \<Rightarrow>
        (let server = str_or_empty vals ''OriginalWinHTTPProxyServer''; bypass = str_or_empty vals ''OriginalWinHTTPBypassList'' in
         if server = [] then netsh_reset env m else snd (netsh_set env server bypass m)))"

definition backupNames :: "string list" where
  "backupNames = [''OriginalProxyEnable'', ''OriginalProxyServer'', ''OriginalProxyOverride'',
     ''OriginalHKLMProxyEnable'', ''OriginalHKLMProxyServer'', ''OriginalHKLMProxyOverride'',
     ''OriginalWinHTTPProxyServer'', ''OriginalWinHTTPBypassList'']"

definition cleanupBackupValues :: "win_env \<Rightarrow> win_machine \<Rightarrow> win_machine" where
  "cleanupBackupValues env m = (if \<not> open_set env AgentKey m then m else fold (delete_value env AgentKey) backupNames m)"

definition restoreOriginal :: "win_env \<Rightarrow> win_machine \<Rightarrow> win_machine" where
  "restoreOriginal env m = cleanupBackupValues env (restoreWinHTTP env (restoreHKLM env (restoreHKCU env m)))"

section \<open>The adapter\<close>

record win_proxy =
  wp_regHost :: string
  wp_regPort :: "16 word"

datatype proxy_error = Conflict | BackupFailed | UserWriteFailed | MachineWriteFailed | NetshFailed | NotOwned

definition newSystemProxy :: "win_env \<Rightarrow> win_machine \<Rightarrow> win_proxy" where
  "newSystemProxy env m =
    (case readRegistered env m of
       Some (h, p) \<Rightarrow> if h \<noteq> [] then \<lparr>wp_regHost = h, wp_regPort = p\<rparr> else \<lparr>wp_regHost = [], wp_regPort = 0\<rparr>
     | None \<Rightarrow> \<lparr>wp_regHost = [], wp_regPort = 0\<rparr>)"

definition address :: "string \<Rightarrow> 16 word \<Rightarrow> string" where
  "address host port = host @ '':'' @ nat_str (unat port)"

definition proxy_server :: "string \<Rightarrow> 16 word \<Rightarrow> string" where
  "proxy_server host port = ''http='' @ address host port @ '';https='' @ address host port"

definition win_Register :: "win_env \<Rightarrow> string \<Rightarrow> 16 word \<Rightarrow> win_proxy \<times> win_machine \<Rightarrow> proxy_error option \<times> win_proxy \<times> win_machine" where
  "win_Register env host port sm = (case sm of (s, m) \<Rightarrow>
    (if gpHasProxy env m then (Some Conflict, s, m)
     else if wp_regHost s = host \<and> wp_regPort s = port \<and> hasOwnerMarker env m then (None, s, m)
     else case readWinINETProxy env UserInet m of (curEnabled, curServer) \<Rightarrow>
       if curEnabled \<and> curServer \<noteq> [] \<and> \<not> hasOwnerMarker env m then (Some Conflict, s, m)
       else case backupOriginal env m of
         (False, m1) \<Rightarrow> (Some BackupFailed, s, m1)
       | (True, m1) \<Rightarrow>
          (case writeWinINETProxy env UserInet (proxy_server host port) m1 of
             (False, m2) \<Rightarrow> (Some UserWriteFailed, s, m2)
           | (True, m2) \<Rightarrow>
              (case writeWinINETProxy env MachineInet (proxy_server host port) m2 of
                 (False, m3) \<Rightarrow> (Some MachineWriteFailed, s, restoreHKCU env m3)
               | (True, m3) \<Rightarrow>
                  (case netsh_set env (address host port) ''<local>'' m3 of
                     (False, m4) \<Rightarrow> (Some NetshFailed, s, restoreHKLM env (restoreHKCU env m4))
                   | (True, m4) \<Rightarrow> (None, \<lparr>wp_regHost = host, wp_regPort = port\<rparr>, writeOwnerMarker env host port m4))))))"

definition win_Unregister :: "win_env \<Rightarrow> win_proxy \<times> win_machine \<Rightarrow> win_proxy \<times> win_machine" where
  "win_Unregister env sm = (case sm of (s, m) \<Rightarrow>
    (if \<not> hasOwnerMarker env m then (s, m)
     else (\<lparr>wp_regHost = [], wp_regPort = 0\<rparr>, removeOwnerMarker env (restoreOriginal env m))))"

fun server_parts :: "string \<Rightarrow> string list \<Rightarrow> string \<times> 16 word" where
  "server_parts whole [] = (whole, 0)"
| "server_parts whole (raw # rest) =
    (let part = trim_space raw;
         part' = (case index_of (CHR ''='') part of Some i \<Rightarrow> drop (i + 1) part | None \<Rightarrow> part) in
     case index_of (CHR '':'') part' of
       Some i \<Rightarrow> (take i part', parse_uint16 (drop (i + 1) part'))
     | None \<Rightarrow> server_parts whole rest)"

definition parseProxyServer :: "string \<Rightarrow> string \<times> 16 word" where
  "parseProxyServer s = (if s = [] then ([], 0) else server_parts s (split_on (CHR '';'') s))"

definition win_State :: "win_env \<Rightarrow> win_proxy \<times> win_machine \<Rightarrow> os_proxy_state" where
  "win_State env sm = (case sm of (s, m) \<Rightarrow>
    (case readWinINETProxy env UserInet m of (enabled, server) \<Rightarrow>
      (case parseProxyServer server of (host, port) \<Rightarrow>
        \<lparr>ps_Host = host, ps_Port = port, ps_Active = enabled,
         ps_OwnedByAgent = (hasOwnerMarker env m \<and> enabled \<and> host = wp_regHost s \<and> port = wp_regPort s)\<rparr>)))"

definition win_VerifyIntegrity :: "win_env \<Rightarrow> win_proxy \<times> win_machine \<Rightarrow> bool" where
  "win_VerifyIntegrity env sm = (case sm of (s, m) \<Rightarrow>
    wp_regHost s \<noteq> [] \<and> hasOwnerMarker env m \<and>
    readWinINETProxy env UserInet m = (True, proxy_server (wp_regHost s) (wp_regPort s)) \<and>
    readWinINETProxy env MachineInet m = (True, proxy_server (wp_regHost s) (wp_regPort s)))"

definition EmergencyRestoreProxy :: "win_env \<Rightarrow> win_machine \<Rightarrow> proxy_error option \<times> win_machine" where
  "EmergencyRestoreProxy env m =
    (if \<not> hasOwnerMarker env m \<and> (case readRegistered env m of None \<Rightarrow> True | Some (host, _) \<Rightarrow> host = []) then (Some NotOwned, m)
     else (None, removeOwnerMarker env (restoreOriginal env m)))"

definition ClearHKCUProxy :: "win_env \<Rightarrow> win_machine \<Rightarrow> proxy_error option \<times> win_machine" where
  "ClearHKCUProxy env m =
    (case readWinINETProxy env UserInet m of (enabled, server) \<Rightarrow>
      if \<not> enabled then (None, m)
      else if fst (parseProxyServer server) \<notin> set [''127.0.0.1'', ''localhost'', ''::1''] then (Some NotOwned, m)
      else (None, clearWinINETProxy env UserInet m))"

section \<open>A machine that lets the agent write\<close>

definition reg :: "win_machine \<Rightarrow> reg_key \<Rightarrow> string \<Rightarrow> reg_value option" where
  "reg m k n = (case wm_keys m k of None \<Rightarrow> None | Some vals \<Rightarrow> vals n)"

text \<open>
  Reading is allowed, and so is writing to the user's hive and to the agent's key; the machine's hive may be closed
  to writing, and \<^verbatim>\<open>netsh\<close> may fail. An open key takes every value.
\<close>

definition obliging :: "win_env \<Rightarrow> bool" where
  "obliging env = ((\<forall>k. we_opens env k) \<and> (\<forall>k n. we_writes env k \<longrightarrow> we_sets env k n) \<and> we_writes env AgentKey \<and> we_writes env UserInet)"

lemma obliging_writes: "obliging env \<Longrightarrow> we_writes env AgentKey" "obliging env \<Longrightarrow> we_writes env UserInet"
  by (simp_all add: obliging_def)

definition str_of :: "reg_value option \<Rightarrow> string" where
  "str_of v = (case v of Some (Str s) \<Rightarrow> s | _ \<Rightarrow> [])"

lemma read_inet: "obliging env \<Longrightarrow> readWinINETProxy env k m = (reg m k ''ProxyEnable'' = Some (DWord 1), str_of (reg m k ''ProxyServer''))"
  by (simp add: readWinINETProxy_def open_query_def obliging_def reg_def get_int_def str_or_empty_def get_str_def str_of_def split: option.split reg_value.split)

lemma owner_marker: "obliging env \<Longrightarrow> hasOwnerMarker env m \<longleftrightarrow> reg m AgentKey ''ProxyOwner'' = Some (Str proxyOwnerValue)"
  by (simp add: hasOwnerMarker_def open_query_def obliging_def reg_def get_str_def split: option.split reg_value.split)

text \<open>Writing a list of values into a key that exists or is created, and deleting some.\<close>

definition put_reg :: "reg_key \<Rightarrow> (string \<times> reg_value option) list \<Rightarrow> win_machine \<Rightarrow> win_machine" where
  "put_reg k nvs m = m\<lparr>wm_keys := (wm_keys m)(k := Some (fold (\<lambda>(n, v) vals. vals(n := v)) nvs (case wm_keys m k of Some vals \<Rightarrow> vals | None \<Rightarrow> Map.empty)))\<rparr>"

lemma fold_upd: "fold (\<lambda>(n, v) vals. vals(n := v)) nvs vals n = (case map_of (rev nvs) n of Some v \<Rightarrow> v | None \<Rightarrow> vals n)"
proof (induction nvs arbitrary: vals)
  case (Cons nv nvs)
  then show ?case by (cases nv) (auto simp: map_add_def split: option.split)
qed simp

lemma reg_put: "reg (put_reg k nvs m) k' n = (if k' = k then (case map_of (rev nvs) n of Some v \<Rightarrow> v | None \<Rightarrow> reg m k n) else reg m k' n)"
  by (simp add: reg_def put_reg_def fold_upd split: option.split)

lemma winhttp_put [simp]: "wm_winhttp (put_reg k nvs m) = wm_winhttp m"
  by (simp add: put_reg_def)

definition has_key :: "win_machine \<Rightarrow> reg_key \<Rightarrow> bool" where
  "has_key m k = (wm_keys m k \<noteq> None)"

lemma has_key_put [simp]: "has_key (put_reg k nvs m) k' \<longleftrightarrow> k' = k \<or> has_key m k'"
  by (simp add: put_reg_def has_key_def)

lemma put_put: "put_reg k nvs (put_reg k nvs' m) = put_reg k (nvs' @ nvs) m"
  by (simp add: put_reg_def)

lemma create_put: "obliging env \<Longrightarrow> we_writes env k \<Longrightarrow> create_key env k m = Some (put_reg k [] m)"
  by (simp add: create_key_def obliging_def put_reg_def)

lemma set_put: "obliging env \<Longrightarrow> we_writes env k \<Longrightarrow> has_key m k \<Longrightarrow> set_value env k n v m = (True, put_reg k [(n, Some v)] m)"
  by (auto simp: set_value_def obliging_def put_reg_def has_key_def)

lemma delete_put: "obliging env \<Longrightarrow> we_writes env k \<Longrightarrow> has_key m k \<Longrightarrow> delete_value env k n m = put_reg k [(n, None)] m"
  by (auto simp: delete_value_def obliging_def put_reg_def has_key_def)

lemma query_reg: "obliging env \<Longrightarrow> open_query env k m = wm_keys m k"
  by (simp add: open_query_def obliging_def)

lemma open_set_iff: "we_writes env k \<Longrightarrow> open_set env k m \<longleftrightarrow> has_key m k"
  by (simp add: open_set_def has_key_def)

lemmas put_facts = obliging_writes create_put set_put delete_put put_put and_then_def open_set_iff

lemma write_inet: "obliging env \<Longrightarrow> we_writes env k \<Longrightarrow> writeWinINETProxy env k sv m =
    (True, put_reg k [(''ProxyEnable'', Some (DWord 1)), (''ProxyServer'', Some (Str sv)), (''ProxyOverride'', Some (Str ''<local>''))] m)"
  by (simp add: writeWinINETProxy_def put_facts)

lemma clear_inet: "obliging env \<Longrightarrow> we_writes env k \<Longrightarrow> clearWinINETProxy env k m =
    (if \<not> has_key m k then m else put_reg k [(''ProxyEnable'', Some (DWord 0)), (''ProxyServer'', None), (''ProxyOverride'', None)] m)"
  by (auto simp: clearWinINETProxy_def put_facts)

lemma write_marker: "obliging env \<Longrightarrow> writeOwnerMarker env h p m =
    put_reg AgentKey [(''ProxyOwner'', Some (Str proxyOwnerValue)), (''RegisteredHost'', Some (Str h)), (''RegisteredPort'', Some (DWord (ucast p)))] m"
  by (simp add: writeOwnerMarker_def put_facts)

lemma remove_marker: "obliging env \<Longrightarrow> removeOwnerMarker env m =
    (if \<not> has_key m AgentKey then m else put_reg AgentKey [(''ProxyOwner'', None), (''RegisteredHost'', None), (''RegisteredPort'', None)] m)"
  by (auto simp: removeOwnerMarker_def put_facts)

lemma cleanup_put: "obliging env \<Longrightarrow> cleanupBackupValues env m =
    (if \<not> has_key m AgentKey then m else put_reg AgentKey (map (\<lambda>n. (n, None)) backupNames) m)"
  by (auto simp: cleanupBackupValues_def put_facts backupNames_def)

lemma reg_no_key: "\<not> has_key m k \<Longrightarrow> reg m k n = None"
  by (simp add: has_key_def reg_def)

text \<open>What the hive had where it had some, under the names of the backup.\<close>

definition saved :: "string \<Rightarrow> string \<Rightarrow> string \<Rightarrow> reg_key \<Rightarrow> win_machine \<Rightarrow> (string \<times> reg_value option) list" where
  "saved en sv ov k m = [(en, Some (DWord (if reg m k ''ProxyEnable'' = Some (DWord 1) then 1 else 0))), (sv, Some (Str (str_of (reg m k ''ProxyServer''))))]
     @ (case reg m k ''ProxyOverride'' of Some (Str s) \<Rightarrow> [(ov, Some (Str s))] | _ \<Rightarrow> [])"

lemma override_reg: "obliging env \<Longrightarrow> (case open_query env k m of None \<Rightarrow> r | Some vals \<Rightarrow> (case get_str vals ''ProxyOverride'' of None \<Rightarrow> r | Some ov \<Rightarrow> f ov))
    = (case reg m k ''ProxyOverride'' of Some (Str ov) \<Rightarrow> f ov | _ \<Rightarrow> r)"
  by (simp add: query_reg reg_def get_str_def split: option.split reg_value.split)

lemma reg_put_other: "k' \<noteq> k \<Longrightarrow> reg (put_reg k nvs m) k' n = reg m k' n"
  by (simp add: reg_put)

lemma backup_put: "obliging env \<Longrightarrow> has_key m AgentKey \<Longrightarrow> k \<noteq> AgentKey \<Longrightarrow> backup_hive env k en sv ov m = (True, put_reg AgentKey (saved en sv ov k m) m)"
  by (simp add: backup_hive_def read_inet put_facts override_reg saved_def reg_put_other split: option.split reg_value.split)

lemma restore_none: "obliging env \<Longrightarrow> has_key m AgentKey \<Longrightarrow> reg m AgentKey en = Some (DWord 0) \<Longrightarrow> restore_hive env k en sv ov m = clearWinINETProxy env k m"
  by (auto simp: restore_hive_def query_reg reg_def has_key_def get_int_def)

lemma restore_some:
  assumes "obliging env" "we_writes env k" "has_key m AgentKey" "reg m AgentKey en = Some (DWord 1)" "reg m AgentKey sv = Some (Str s)" "s \<noteq> []"
    "reg m AgentKey ov = Some (Str b)" "b \<noteq> []"
  shows "restore_hive env k en sv ov m = put_reg k [(''ProxyEnable'', Some (DWord 1)), (''ProxyServer'', Some (Str s)), (''ProxyOverride'', Some (Str b))] m"
proof -
  obtain vals where v: "wm_keys m AgentKey = Some vals" using assms(3) by (auto simp: has_key_def)
  then have "get_int vals en = Some 1" "str_or_empty vals sv = s" "str_or_empty vals ov = b"
    using assms(4,5,7) by (simp_all add: reg_def get_int_def str_or_empty_def get_str_def)
  then show ?thesis using assms(1,2,6,8) by (simp add: restore_hive_def query_reg v put_facts Let_def)
qed

section \<open>Registering and unregistering\<close>

text \<open>What a hive amounts to: nothing where it is not enabled, else the server and its exceptions.\<close>

definition effective :: "reg_key \<Rightarrow> win_machine \<Rightarrow> (string \<times> string) option" where
  "effective k m = (if reg m k ''ProxyEnable'' = Some (DWord 1) then Some (str_of (reg m k ''ProxyServer''), str_of (reg m k ''ProxyOverride'')) else None)"

type_synonym windows = "win_env \<times> win_proxy \<times> win_machine"

definition win_outside :: "windows \<Rightarrow> (string \<times> string) option \<times> (string \<times> string) option \<times> (string \<times> string)" where
  "win_outside w = (case w of (env, s, m) \<Rightarrow> (effective UserInet m, effective MachineInet m, wm_winhttp m))"

text \<open>A hive that is enabled names a server and exceptions, and what \<^verbatim>\<open>netsh\<close> prints is what WinHTTP is set to.\<close>

definition plain_hive :: "(string \<times> string) option \<Rightarrow> bool" where
  "plain_hive e = (case e of None \<Rightarrow> True | Some (sv, ov) \<Rightarrow> sv \<noteq> [] \<and> ov \<noteq> [])"

definition shown :: "win_env \<Rightarrow> string \<times> string \<Rightarrow> bool" where
  "shown env w = ((fst w = [] \<longrightarrow> snd w = []) \<and> (case we_show env w of Some out \<Rightarrow> ParseWinHTTPOutput out = w | None \<Rightarrow> False))"

definition win_fit :: "windows \<Rightarrow> bool" where
  "win_fit w = (case w of (env, s, m) \<Rightarrow> obliging env \<and> plain_hive (effective UserInet m) \<and> plain_hive (effective MachineInet m) \<and> shown env (wm_winhttp m))"

definition win_owned :: "windows \<Rightarrow> bool" where
  "win_owned w = (case w of (env, s, m) \<Rightarrow> hasOwnerMarker env m)"

definition win_register :: "string \<Rightarrow> 16 word \<Rightarrow> windows \<Rightarrow> bool \<times> windows" where
  "win_register host port w = (case w of (env, s, m) \<Rightarrow> (case win_Register env host port (s, m) of (err, sm) \<Rightarrow> (err = None, env, sm)))"

definition win_unregister :: "windows \<Rightarrow> windows" where
  "win_unregister w = (case w of (env, sm) \<Rightarrow> (env, win_Unregister env sm))"

definition win_verify :: "windows \<Rightarrow> bool" where
  "win_verify w = (case w of (env, sm) \<Rightarrow> win_VerifyIntegrity env sm)"

lemma saved_put: "k \<noteq> AgentKey \<Longrightarrow> saved en sv ov k (put_reg AgentKey nvs m) = saved en sv ov k m"
  by (simp add: saved_def reg_put_other)

definition backup_values :: "win_machine \<Rightarrow> (string \<times> reg_value option) list" where
  "backup_values m = saved ''OriginalProxyEnable'' ''OriginalProxyServer'' ''OriginalProxyOverride'' UserInet m
     @ saved ''OriginalHKLMProxyEnable'' ''OriginalHKLMProxyServer'' ''OriginalHKLMProxyOverride'' MachineInet m
     @ [(''OriginalWinHTTPProxyServer'', Some (Str (fst (wm_winhttp m)))), (''OriginalWinHTTPBypassList'', Some (Str (snd (wm_winhttp m))))]"

lemma backup_all:
  assumes "obliging env" "shown env (wm_winhttp m)"
  shows "backupOriginal env m = (True, put_reg AgentKey (backup_values m) m)"
proof -
  have "readWinHTTPProxy env (put_reg AgentKey nvs m) = Some (wm_winhttp m)" for nvs
    using assms(2) by (simp add: readWinHTTPProxy_def shown_def split: option.splits)
  then show ?thesis using assms(1) by (simp add: backupOriginal_def put_facts backup_put saved_put backup_values_def split_beta)
qed

text \<open>The machine after the user's hive, after both hives, and after a registration.\<close>

definition our_hive :: "string \<Rightarrow> 16 word \<Rightarrow> (string \<times> reg_value option) list" where
  "our_hive host port = [(''ProxyEnable'', Some (DWord 1)), (''ProxyServer'', Some (Str (proxy_server host port))), (''ProxyOverride'', Some (Str ''<local>''))]"

definition user_taken :: "string \<Rightarrow> 16 word \<Rightarrow> win_machine \<Rightarrow> win_machine" where
  "user_taken host port m = put_reg UserInet (our_hive host port) (put_reg AgentKey (backup_values m) m)"

definition hives_taken :: "string \<Rightarrow> 16 word \<Rightarrow> win_machine \<Rightarrow> win_machine" where
  "hives_taken host port m = put_reg MachineInet (our_hive host port) (user_taken host port m)"

definition taken_over :: "string \<Rightarrow> 16 word \<Rightarrow> win_machine \<Rightarrow> win_machine" where
  "taken_over host port m =
    put_reg AgentKey [(''ProxyOwner'', Some (Str proxyOwnerValue)), (''RegisteredHost'', Some (Str host)), (''RegisteredPort'', Some (DWord (ucast port)))]
      ((hives_taken host port m)\<lparr>wm_winhttp := (address host port, ''<local>'')\<rparr>)"

lemma register_cases:
  assumes "obliging env" "shown env (wm_winhttp m)" "\<not> hasOwnerMarker env m"
  shows "win_Register env host port (s, m) =
    (if gpHasProxy env m \<or> reg m UserInet ''ProxyEnable'' = Some (DWord 1) \<and> str_of (reg m UserInet ''ProxyServer'') \<noteq> [] then (Some Conflict, s, m)
     else if \<not> we_writes env MachineInet then (Some MachineWriteFailed, s, restoreHKCU env (user_taken host port m))
     else if \<not> we_netsh env then (Some NetshFailed, s, restoreHKLM env (restoreHKCU env (hives_taken host port m)))
     else (None, \<lparr>wp_regHost = host, wp_regPort = port\<rparr>, taken_over host port m))"
proof -
  have closed: "\<not> we_writes env MachineInet \<Longrightarrow> writeWinINETProxy env MachineInet sv m' = (False, m')" for sv m'
    by (simp add: writeWinINETProxy_def create_key_def)
  show ?thesis using assms(3)
    by (simp add: win_Register_def read_inet[OF assms(1)] backup_all[OF assms(1,2)] write_inet[OF assms(1)] closed obliging_writes[OF assms(1)]
        netsh_set_def write_marker[OF assms(1)] taken_over_def hives_taken_def user_taken_def our_hive_def)
qed

lemma reg_winhttp [simp]: "reg (m\<lparr>wm_winhttp := w\<rparr>) = reg m"
  by (simp add: fun_eq_iff reg_def)

lemma has_key_winhttp [simp]: "has_key (m\<lparr>wm_winhttp := w\<rparr>) = has_key m"
  by (simp add: fun_eq_iff has_key_def)

lemma taken_hives:
  assumes "k = UserInet \<or> k = MachineInet"
  shows "reg (taken_over h p m) k ''ProxyEnable'' = Some (DWord 1)" "reg (taken_over h p m) k ''ProxyServer'' = Some (Str (proxy_server h p))"
  using assms by (auto simp: taken_over_def hives_taken_def user_taken_def our_hive_def reg_put)

text \<open>The agent's key holds the backup of a machine.\<close>

definition holds_backup :: "win_machine \<Rightarrow> win_machine \<Rightarrow> bool" where
  "holds_backup m t \<longleftrightarrow> has_key t AgentKey \<and>
     (\<forall>n\<in>set backupNames. reg t AgentKey n = (case map_of (rev (backup_values m)) n of Some v \<Rightarrow> v | None \<Rightarrow> reg m AgentKey n))"

lemma taken_backups: "holds_backup m (user_taken h p m)" "holds_backup m (hives_taken h p m)" "holds_backup m (taken_over h p m)"
  by (auto simp: holds_backup_def taken_over_def hives_taken_def user_taken_def reg_put backupNames_def)

lemma backup_kept: "holds_backup m t \<Longrightarrow> reg t' AgentKey = reg t AgentKey \<Longrightarrow> has_key t' AgentKey \<Longrightarrow> holds_backup m t'"
  by (simp add: holds_backup_def)

lemma held: "holds_backup m t \<Longrightarrow> n \<in> set backupNames \<Longrightarrow>
    reg t AgentKey n = (case map_of (rev (backup_values m)) n of Some v \<Rightarrow> v | None \<Rightarrow> reg m AgentKey n)"
  by (simp add: holds_backup_def)

lemma saved_hive:
  assumes "holds_backup m t" "v = reg t AgentKey"
  shows "v ''OriginalProxyEnable'' = Some (DWord (if effective UserInet m \<noteq> None then 1 else 0))"
    "v ''OriginalHKLMProxyEnable'' = Some (DWord (if effective MachineInet m \<noteq> None then 1 else 0))"
    "v ''OriginalHKLMProxyServer'' = Some (Str (str_of (reg m MachineInet ''ProxyServer'')))"
    "reg m MachineInet ''ProxyOverride'' = Some (Str ov) \<Longrightarrow> v ''OriginalHKLMProxyOverride'' = Some (Str ov)"
    "v ''OriginalWinHTTPProxyServer'' = Some (Str (fst (wm_winhttp m)))" "v ''OriginalWinHTTPBypassList'' = Some (Str (snd (wm_winhttp m)))"
  unfolding assms(2)
  by (simp_all add: held[OF assms(1)] backupNames_def backup_values_def saved_def effective_def split: option.split reg_value.split)

lemma clear_facts:
  assumes "obliging env" "we_writes env k"
  shows "effective k (clearWinINETProxy env k m) = None" "k' \<noteq> k \<Longrightarrow> reg (clearWinINETProxy env k m) k' = reg m k'"
    "k' \<noteq> k \<Longrightarrow> effective k' (clearWinINETProxy env k m) = effective k' m"
    "has_key (clearWinINETProxy env k m) = has_key m" "wm_winhttp (clearWinINETProxy env k m) = wm_winhttp m"
  using assms by (auto simp: clear_inet effective_def reg_put reg_no_key fun_eq_iff)

lemma put_effective: "k \<noteq> k' \<Longrightarrow> effective k' (put_reg k nvs m) = effective k' m"
  by (simp add: effective_def reg_put_other)

text \<open>Restoring the user's hive, the machine's and WinHTTP from a backup.\<close>

lemma restored_user_hive:
  assumes "obliging env" "holds_backup m t" "effective UserInet m = None"
  shows "holds_backup m (restoreHKCU env t)" "effective UserInet (restoreHKCU env t) = None" "effective MachineInet (restoreHKCU env t) = effective MachineInet t"
    "wm_winhttp (restoreHKCU env t) = wm_winhttp t" "reg (restoreHKCU env t) AgentKey = reg t AgentKey"
proof -
  have k: "has_key t AgentKey" using assms(2) by (simp add: holds_backup_def)
  have "restoreHKCU env t = clearWinINETProxy env UserInet t"
    unfolding restoreHKCU_def using restore_none[OF assms(1) k] saved_hive(1)[OF assms(2) refl] assms(3) by simp
  then show "holds_backup m (restoreHKCU env t)" "effective UserInet (restoreHKCU env t) = None" "effective MachineInet (restoreHKCU env t) = effective MachineInet t"
    "wm_winhttp (restoreHKCU env t) = wm_winhttp t" "reg (restoreHKCU env t) AgentKey = reg t AgentKey"
    using clear_facts[OF assms(1) obliging_writes(2)[OF assms(1)]] backup_kept[OF assms(2)] k by simp_all
qed

lemma restored_machine_hive:
  assumes "obliging env" "we_writes env MachineInet" "holds_backup m t" "plain_hive (effective MachineInet m)"
  shows "effective MachineInet (restoreHKLM env t) = effective MachineInet m" "reg (restoreHKLM env t) AgentKey = reg t AgentKey"
    "effective UserInet (restoreHKLM env t) = effective UserInet t" "has_key (restoreHKLM env t) AgentKey" "wm_winhttp (restoreHKLM env t) = wm_winhttp t"
proof -
  have k: "has_key t AgentKey" using assms(3) by (simp add: holds_backup_def)
  note v = saved_hive[OF assms(3) refl]
  have "effective MachineInet (restoreHKLM env t) = effective MachineInet m \<and> reg (restoreHKLM env t) AgentKey = reg t AgentKey \<and>
    effective UserInet (restoreHKLM env t) = effective UserInet t \<and> has_key (restoreHKLM env t) AgentKey \<and> wm_winhttp (restoreHKLM env t) = wm_winhttp t"
  proof (cases "effective MachineInet m")
    case None
    then have "restoreHKLM env t = clearWinINETProxy env MachineInet t" unfolding restoreHKLM_def using restore_none[OF assms(1) k] v(2) by simp
    then show ?thesis using None clear_facts[OF assms(1,2)] k by simp
  next
    case (Some so)
    obtain sv ov where so: "so = (sv, ov)" by (cases so)
    then have "str_of (reg m MachineInet ''ProxyServer'') = sv" "str_of (reg m MachineInet ''ProxyOverride'') = ov" "sv \<noteq> []" "ov \<noteq> []"
      using Some assms(4) by (auto simp: effective_def plain_hive_def split: if_splits)
    moreover from this have "reg m MachineInet ''ProxyOverride'' = Some (Str ov)" by (auto simp: str_of_def split: option.splits reg_value.splits)
    ultimately have "restoreHKLM env t = put_reg MachineInet [(''ProxyEnable'', Some (DWord 1)), (''ProxyServer'', Some (Str sv)), (''ProxyOverride'', Some (Str ov))] t"
      unfolding restoreHKLM_def using restore_some[OF assms(1,2) k] v(2,3,4) Some by simp
    then show ?thesis using Some so k by (simp add: effective_def reg_put fun_eq_iff str_of_def)
  qed
  then show "effective MachineInet (restoreHKLM env t) = effective MachineInet m" "reg (restoreHKLM env t) AgentKey = reg t AgentKey"
    "effective UserInet (restoreHKLM env t) = effective UserInet t" "has_key (restoreHKLM env t) AgentKey" "wm_winhttp (restoreHKLM env t) = wm_winhttp t" by auto
qed

lemma restored_winhttp:
  assumes "obliging env" "we_netsh env" "holds_backup m t" "shown env (wm_winhttp m)"
  shows "restoreWinHTTP env t = t\<lparr>wm_winhttp := wm_winhttp m\<rparr>"
proof -
  note v = saved_hive[OF assms(3) refl]
  obtain vals where k: "wm_keys t AgentKey = Some vals" using assms(3) by (auto simp: has_key_def holds_backup_def)
  then have "reg t AgentKey = vals" by (simp add: fun_eq_iff reg_def)
  then have "str_or_empty vals ''OriginalWinHTTPProxyServer'' = fst (wm_winhttp m)" "str_or_empty vals ''OriginalWinHTTPBypassList'' = snd (wm_winhttp m)"
    using v(5,6) by (simp_all add: str_or_empty_def get_str_def)
  then show ?thesis using assms(1,2,4)
    by (cases "wm_winhttp m") (auto simp: restoreWinHTTP_def query_reg k Let_def netsh_reset_def netsh_set_def shown_def)
qed

text \<open>Unregistering after a takeover that found no user proxy.\<close>

lemma given_back:
  assumes "obliging env" "we_writes env MachineInet" "we_netsh env" "effective UserInet m = None" "plain_hive (effective MachineInet m)" "shown env (wm_winhttp m)"
  shows "\<exists>s' m'. win_Unregister env (s, taken_over h p m) = (s', m') \<and> \<not> hasOwnerMarker env m' \<and> effective UserInet m' = None \<and>
    effective MachineInet m' = effective MachineInet m \<and> wm_winhttp m' = wm_winhttp m"
proof -
  let ?t = "taken_over h p m"
  have own: "hasOwnerMarker env ?t" using assms(1) by (simp add: owner_marker taken_over_def reg_put)
  note u = restored_user_hive[OF assms(1) taken_backups(3) assms(4)]
  note r = restored_machine_hive[OF assms(1,2) u(1) assms(5)]
  let ?t2 = "restoreHKLM env (restoreHKCU env ?t)"
  have b: "holds_backup m ?t2" by (rule backup_kept[OF u(1) r(2,4)])
  let ?t3 = "?t2\<lparr>wm_winhttp := wm_winhttp m\<rparr>"
  have e3: "effective k ?t3 = effective k ?t2" for k by (simp add: effective_def)
  have "removeOwnerMarker env (restoreOriginal env ?t) =
      put_reg AgentKey ([(''ProxyOwner'', None), (''RegisteredHost'', None), (''RegisteredPort'', None)]) (put_reg AgentKey (map (\<lambda>n. (n, None)) backupNames) ?t3)"
    using assms(1) r(4) by (simp add: restoreOriginal_def restored_winhttp[OF assms(1,3) b assms(6)] cleanup_put remove_marker)
  then show ?thesis using own r(1,3) u(2) assms(1)
    by (simp add: win_Unregister_def owner_marker put_effective e3 reg_put)
qed

lemma saved_names: "fst ` set (saved en sv ov k m) \<subseteq> {en, sv, ov}"
  by (auto simp: saved_def split: option.splits reg_value.splits)

lemma backup_owner: "map_of (rev (backup_values m)) ''ProxyOwner'' = None"
proof -
  have "fst ` set (backup_values m) \<subseteq> set backupNames"
    unfolding backup_values_def backupNames_def set_append image_Un by (intro Un_least order_trans[OF saved_names]) simp_all
  moreover have "''ProxyOwner'' \<notin> set backupNames" by code_simp
  ultimately show ?thesis by (auto simp: map_of_eq_None_iff)
qed

text \<open>The two ways in which a registration is rolled back.\<close>

lemma rolled_back:
  assumes "obliging env" "effective UserInet m = None" "\<not> hasOwnerMarker env m"
  shows "effective UserInet (restoreHKCU env (user_taken h p m)) = None" "effective MachineInet (restoreHKCU env (user_taken h p m)) = effective MachineInet m"
    "wm_winhttp (restoreHKCU env (user_taken h p m)) = wm_winhttp m" "\<not> hasOwnerMarker env (restoreHKCU env (user_taken h p m))"
    "we_writes env MachineInet \<Longrightarrow> plain_hive (effective MachineInet m) \<Longrightarrow> t = restoreHKLM env (restoreHKCU env (hives_taken h p m)) \<Longrightarrow>
      effective UserInet t = None \<and> effective MachineInet t = effective MachineInet m \<and> wm_winhttp t = wm_winhttp m \<and> \<not> hasOwnerMarker env t"
proof -
  have own: "reg (user_taken h p m) AgentKey ''ProxyOwner'' = reg m AgentKey ''ProxyOwner''" "reg (hives_taken h p m) AgentKey ''ProxyOwner'' = reg m AgentKey ''ProxyOwner''"
    using backup_owner by (simp_all add: hives_taken_def user_taken_def reg_put)
  note u = restored_user_hive[OF assms(1) taken_backups(1) assms(2)] and v = restored_user_hive[OF assms(1) taken_backups(2) assms(2)]
  show "effective UserInet (restoreHKCU env (user_taken h p m)) = None" by (rule u(2))
  show "effective MachineInet (restoreHKCU env (user_taken h p m)) = effective MachineInet m" using u(3) by (simp add: user_taken_def put_effective)
  show "wm_winhttp (restoreHKCU env (user_taken h p m)) = wm_winhttp m" using u(4) by (simp add: user_taken_def)
  show "\<not> hasOwnerMarker env (restoreHKCU env (user_taken h p m))" using assms(1,3) u(5) own(1) by (simp add: owner_marker)
  show "effective UserInet t = None \<and> effective MachineInet t = effective MachineInet m \<and> wm_winhttp t = wm_winhttp m \<and> \<not> hasOwnerMarker env t"
    if "we_writes env MachineInet" "plain_hive (effective MachineInet m)" "t = restoreHKLM env (restoreHKCU env (hives_taken h p m))"
    using restored_machine_hive[OF assms(1) that(1) v(1) that(2)] v(2,4,5) assms(1,3) own(2) that(3)
    by (simp add: owner_marker) (simp add: hives_taken_def user_taken_def)
qed

interpretation windows_adapter: system_proxy win_register win_unregister win_verify win_owned win_outside win_fit "\<lambda>host. host \<noteq> []"
proof
  fix w w' :: windows and host :: string and port :: "16 word"
  obtain env s m where w: "w = (env, s, m)" by (cases w)
  { assume a: "win_fit w" "\<not> win_owned w" "win_register host port w = (True, w')" "host \<noteq> []"
    then have f: "obliging env" "plain_hive (effective UserInet m)" "plain_hive (effective MachineInet m)" "shown env (wm_winhttp m)" "\<not> hasOwnerMarker env m"
      by (simp_all add: w win_fit_def win_owned_def)
    have r: "w' = (env, \<lparr>wp_regHost = host, wp_regPort = port\<rparr>, taken_over host port m)" "effective UserInet m = None" "we_writes env MachineInet" "we_netsh env"
      using a(3) f(2) by (auto simp: w win_register_def register_cases[OF f(1,4,5)] effective_def plain_hive_def split: if_splits)
    have "hasOwnerMarker env (taken_over host port m)" using f(1) by (simp add: owner_marker taken_over_def reg_put)
    then show "win_owned w' \<and> win_verify w'"
      using f(1) a(4) taken_hives[of UserInet] taken_hives[of MachineInet]
      by (simp add: r(1) win_owned_def win_verify_def win_VerifyIntegrity_def read_inet str_of_def)
    show "\<not> win_owned (win_unregister w') \<and> win_fit (win_unregister w') \<and> win_outside (win_unregister w') = win_outside w"
      using given_back[OF f(1) r(3,4,2) f(3,4), of "\<lparr>wp_regHost = host, wp_regPort = port\<rparr>" host port] f r(2)
      by (auto simp: r(1) w win_unregister_def win_owned_def win_fit_def win_outside_def) }
  { assume a: "win_fit w" "\<not> win_owned w" "win_register host port w = (False, w')"
    then have f: "obliging env" "plain_hive (effective UserInet m)" "plain_hive (effective MachineInet m)" "shown env (wm_winhttp m)" "\<not> hasOwnerMarker env m"
      by (simp_all add: w win_fit_def win_owned_def)
    show "\<not> win_owned w' \<and> win_fit w' \<and> win_outside w' = win_outside w"
    proof (cases "gpHasProxy env m \<or> effective UserInet m \<noteq> None")
      case True
      then have "w' = w" using a(3) f(2) by (auto simp: w win_register_def register_cases[OF f(1,4,5)] effective_def plain_hive_def split: if_splits)
      then show ?thesis using a(1,2) by simp
    next
      case False
      then have n: "effective UserInet m = None" by (cases "effective UserInet m") auto
      note b = rolled_back[OF f(1) n f(5), where h = host and p = port]
      show ?thesis using a(3) False b f
        by (auto simp: w win_register_def register_cases[OF f(1,4,5)] win_owned_def win_fit_def win_outside_def effective_def plain_hive_def split: if_splits)
    qed }
  { assume "\<not> win_owned w"
    then show "win_unregister w = w" "\<not> win_verify w"
      by (simp_all add: w win_owned_def win_unregister_def win_Unregister_def win_verify_def win_VerifyIntegrity_def) }
qed

end
