(* ===== verification/Darwin_Proxy.thy ===== *)
theory Darwin_Proxy
  imports System_Proxy
begin

text \<open>
  The system proxy of macOS (\<^verbatim>\<open>src/adapter/darwin/sysproxy.go\<close>): the web and the secure web proxy of every active network
  service, set and read through \<^verbatim>\<open>networksetup\<close>, with a marker file that records the owner and what was there before.

  The machine is the two settings of every service and the marker file; a file that does not decode is \<open>Some None\<close>.
  What the tools print and which calls fail is the environment; \<^verbatim>\<open>-setwebproxy\<close> sets a server and turns it on,
  \<^verbatim>\<open>-setwebproxystate off\<close> turns it off, as documented. A call is an atomic step; log lines are left out.
\<close>

section \<open>The machine\<close>

record svc_setting =
  sv_host :: string
  sv_port :: "16 word"
  sv_on :: bool

record service_info =
  si_WebHost :: string
  si_WebPort :: "16 word"
  si_WebEnabled :: bool
  si_SecureHost :: string
  si_SecurePort :: "16 word"
  si_SecureEnabled :: bool

record proxy_marker =
  pm_Host :: string
  pm_Port :: "16 word"
  pm_Services :: "string list"
  pm_Previous :: "string \<Rightarrow> service_info option"

datatype channel = Web | Secure

record mac_machine =
  mm_setting :: "channel \<Rightarrow> string \<Rightarrow> svc_setting"
  mm_marker :: "proxy_marker option option"

record mac_env =
  me_skip :: string
  me_services :: "string option"
  me_profiles :: "string option"
  me_show :: "svc_setting \<Rightarrow> string"
  me_query :: "channel \<Rightarrow> string \<Rightarrow> bool"
  me_set :: "channel \<Rightarrow> string \<Rightarrow> bool"
  me_off :: "channel \<Rightarrow> string \<Rightarrow> bool"
  me_write :: bool
  me_remove :: bool

datatype mac_error = MacConflict | NoServices | SetFailed

definition skipSystemProxyRegistration :: "mac_env \<Rightarrow> bool" where
  "skipSystemProxyRegistration env = (let v = to_lower (trim_space (me_skip env)) in v = ''1'' \<or> v = ''true'' \<or> v = ''yes'')"

section \<open>Reading the tools\<close>

definition activeNetworkServices :: "mac_env \<Rightarrow> string list option" where
  "activeNetworkServices env =
    map_option (\<lambda>out. filter (\<lambda>line. line \<noteq> [] \<and> \<not> has_prefix line ''An asterisk'' \<and> \<not> has_prefix line ''*'')
      (map trim_space (split_on (CHR 0x0A) (trim_space out)))) (me_services env)"

definition profileContainsManagedProxy :: "string \<Rightarrow> bool" where
  "profileContainsManagedProxy output =
    list_ex (contains (to_lower output)) [''proxyautoconfigurlstring'', ''proxyserver'', ''com.apple.systemconfiguration'', ''com.apple.proxy.http.global'']"

definition managedProxyConfigurationPresent :: "mac_env \<Rightarrow> bool" where
  "managedProxyConfigurationPresent env = (case me_profiles env of None \<Rightarrow> False | Some out \<Rightarrow> profileContainsManagedProxy out)"

definition proxy_line :: "string \<Rightarrow> svc_setting \<Rightarrow> svc_setting" where
  "proxy_line raw p =
    (let line = trim_space raw; value_of = (\<lambda>key. trim_space (trim_prefix line key)) in
     if has_prefix line ''Enabled:'' then p\<lparr>sv_on := (value_of ''Enabled:'' = ''Yes'')\<rparr>
     else if has_prefix line ''Server:'' then p\<lparr>sv_host := value_of ''Server:''\<rparr>
     else if has_prefix line ''Port:'' then p\<lparr>sv_port := parse_uint16 (value_of ''Port:'')\<rparr>
     else p)"

definition parseProxyOutput :: "string \<Rightarrow> svc_setting" where
  "parseProxyOutput out = fold proxy_line (split_on (CHR 0x0A) out) \<lparr>sv_host = [], sv_port = 0, sv_on = False\<rparr>"

text \<open>\<^verbatim>\<open>getWebProxy\<close> and \<^verbatim>\<open>getSecureWebProxy\<close>; no value where the tool fails.\<close>

definition get_proxy :: "mac_env \<Rightarrow> channel \<Rightarrow> string \<Rightarrow> mac_machine \<Rightarrow> svc_setting option" where
  "get_proxy env ch svc m = (if me_query env ch svc then Some (parseProxyOutput (me_show env (mm_setting m ch svc))) else None)"

definition get_or_zero :: "mac_env \<Rightarrow> channel \<Rightarrow> string \<Rightarrow> mac_machine \<Rightarrow> svc_setting" where
  "get_or_zero env ch svc m = (case get_proxy env ch svc m of Some p \<Rightarrow> p | None \<Rightarrow> \<lparr>sv_host = [], sv_port = 0, sv_on = False\<rparr>)"

section \<open>Changing the settings\<close>

definition put_setting :: "channel \<Rightarrow> string \<Rightarrow> svc_setting \<Rightarrow> mac_machine \<Rightarrow> mac_machine" where
  "put_setting ch svc p m = m\<lparr>mm_setting := (mm_setting m)(ch := (mm_setting m ch)(svc := p))\<rparr>"

definition set_proxy :: "mac_env \<Rightarrow> channel \<Rightarrow> string \<Rightarrow> string \<Rightarrow> 16 word \<Rightarrow> mac_machine \<Rightarrow> bool \<times> mac_machine" where
  "set_proxy env ch svc host port m =
    (if me_set env ch svc then (True, put_setting ch svc \<lparr>sv_host = host, sv_port = port, sv_on = True\<rparr> m) else (False, m))"

definition set_off :: "mac_env \<Rightarrow> channel \<Rightarrow> string \<Rightarrow> mac_machine \<Rightarrow> mac_machine" where
  "set_off env ch svc m = (if me_off env ch svc then put_setting ch svc ((mm_setting m ch svc)\<lparr>sv_on := False\<rparr>) m else m)"

definition disableProxyForService :: "mac_env \<Rightarrow> string \<Rightarrow> mac_machine \<Rightarrow> mac_machine" where
  "disableProxyForService env svc m = set_off env Secure svc (set_off env Web svc m)"

definition restore_channel :: "mac_env \<Rightarrow> channel \<Rightarrow> string \<Rightarrow> bool \<Rightarrow> string \<Rightarrow> 16 word \<Rightarrow> mac_machine \<Rightarrow> mac_machine" where
  "restore_channel env ch svc enabled host port m =
    (if enabled \<and> host \<noteq> [] \<and> port > 0 then snd (set_proxy env ch svc host port m) else set_off env ch svc m)"

definition restoreProxyForService :: "mac_env \<Rightarrow> string \<Rightarrow> service_info \<Rightarrow> mac_machine \<Rightarrow> mac_machine" where
  "restoreProxyForService env svc i m =
    restore_channel env Secure svc (si_SecureEnabled i) (si_SecureHost i) (si_SecurePort i)
      (restore_channel env Web svc (si_WebEnabled i) (si_WebHost i) (si_WebPort i) m)"

section \<open>The marker\<close>

definition writeMarker :: "mac_env \<Rightarrow> proxy_marker \<Rightarrow> mac_machine \<Rightarrow> mac_machine" where
  "writeMarker env pm m = (if me_write env then m\<lparr>mm_marker := Some (Some pm)\<rparr> else m)"

definition readMarker :: "mac_machine \<Rightarrow> proxy_marker option" where
  "readMarker m = (case mm_marker m of Some (Some pm) \<Rightarrow> Some pm | _ \<Rightarrow> None)"

definition removeMarker :: "mac_env \<Rightarrow> mac_machine \<Rightarrow> mac_machine" where
  "removeMarker env m = (if me_remove env then m\<lparr>mm_marker := None\<rparr> else m)"

section \<open>The adapter\<close>

definition newDarwinProxy :: "mac_machine \<Rightarrow> proxy_marker option" where
  "newDarwinProxy m = readMarker m"

definition isOurs :: "mac_machine \<Rightarrow> bool" where
  "isOurs m = (readMarker m \<noteq> None)"

definition points_to :: "string \<Rightarrow> 16 word \<Rightarrow> svc_setting \<Rightarrow> bool" where
  "points_to host port p = (sv_on p \<and> sv_host p = host \<and> sv_port p = port)"

text \<open>The settings of the registered services, in order; no value on the first query that fails before a mismatch.\<close>

fun verify_services :: "mac_env \<Rightarrow> string \<Rightarrow> 16 word \<Rightarrow> string list \<Rightarrow> mac_machine \<Rightarrow> bool option" where
  "verify_services env host port [] m = Some True"
| "verify_services env host port (svc # svcs) m =
    (case get_proxy env Web svc m of
       None \<Rightarrow> None
     | Some p \<Rightarrow>
        if \<not> points_to host port p then Some False
        else (case get_proxy env Secure svc m of
                None \<Rightarrow> None
              | Some q \<Rightarrow> if \<not> points_to host port q then Some False else verify_services env host port svcs m))"

definition verifyRegisteredLocked :: "mac_env \<Rightarrow> proxy_marker option \<Rightarrow> mac_machine \<Rightarrow> bool option" where
  "verifyRegisteredLocked env r m = (case r of None \<Rightarrow> Some False | Some pm \<Rightarrow> verify_services env (pm_Host pm) (pm_Port pm) (pm_Services pm) m)"

definition mac_VerifyIntegrity :: "mac_env \<Rightarrow> proxy_marker option \<times> mac_machine \<Rightarrow> bool option" where
  "mac_VerifyIntegrity env rm = (case rm of (r, m) \<Rightarrow> if skipSystemProxyRegistration env then Some True else verifyRegisteredLocked env r m)"

definition service_info_of :: "mac_env \<Rightarrow> string \<Rightarrow> mac_machine \<Rightarrow> service_info" where
  "service_info_of env svc m =
    (let w = get_or_zero env Web svc m; s = get_or_zero env Secure svc m in
     \<lparr>si_WebHost = sv_host w, si_WebPort = sv_port w, si_WebEnabled = sv_on w, si_SecureHost = sv_host s, si_SecurePort = sv_port s, si_SecureEnabled = sv_on s\<rparr>)"

definition foreign :: "string \<Rightarrow> 16 word \<Rightarrow> service_info \<Rightarrow> bool" where
  "foreign host port i =
    (si_WebEnabled i \<and> (si_WebHost i \<noteq> host \<or> si_WebPort i \<noteq> port) \<or> si_SecureEnabled i \<and> (si_SecureHost i \<noteq> host \<or> si_SecurePort i \<noteq> port))"

text \<open>The state of every service; no value on a proxy that is not ours.\<close>

fun previous_of :: "mac_env \<Rightarrow> string \<Rightarrow> 16 word \<Rightarrow> string list \<Rightarrow> mac_machine \<Rightarrow> (string \<Rightarrow> service_info option) \<Rightarrow> (string \<Rightarrow> service_info option) option" where
  "previous_of env host port [] m prev = Some prev"
| "previous_of env host port (svc # svcs) m prev =
    (let i = service_info_of env svc m in
     if foreign host port i \<and> \<not> isOurs m then None else previous_of env host port svcs m (prev(svc \<mapsto> i)))"

fun set_services :: "mac_env \<Rightarrow> string \<Rightarrow> 16 word \<Rightarrow> string list \<Rightarrow> mac_machine \<Rightarrow> bool \<times> mac_machine" where
  "set_services env host port [] m = (True, m)"
| "set_services env host port (svc # svcs) m =
    (case set_proxy env Web svc host port m of
       (False, m1) \<Rightarrow> (False, m1)
     | (True, m1) \<Rightarrow> (case set_proxy env Secure svc host port m1 of
          (False, m2) \<Rightarrow> (False, m2)
        | (True, m2) \<Rightarrow> set_services env host port svcs m2))"

definition mac_Register ::
  "mac_env \<Rightarrow> string \<Rightarrow> 16 word \<Rightarrow> proxy_marker option \<times> mac_machine \<Rightarrow> mac_error option \<times> proxy_marker option \<times> mac_machine" where
  "mac_Register env host port rm = (case rm of (r, m) \<Rightarrow>
    (if skipSystemProxyRegistration env then
       (None, Some \<lparr>pm_Host = host, pm_Port = port, pm_Services = [], pm_Previous = Map.empty\<rparr>, m)
     else if r = None \<and> managedProxyConfigurationPresent env then (Some MacConflict, r, m)
     else if (case r of None \<Rightarrow> False | Some pm \<Rightarrow> pm_Host pm = host \<and> pm_Port pm = port \<and> verifyRegisteredLocked env r m = Some True) then (None, r, m)
     else case activeNetworkServices env of
       None \<Rightarrow> (Some NoServices, r, m)
     | Some services \<Rightarrow>
        if services = [] then (Some NoServices, r, m)
        else case previous_of env host port services m Map.empty of
          None \<Rightarrow> (Some MacConflict, r, m)
        | Some previous \<Rightarrow>
           (case set_services env host port services m of
              (False, m1) \<Rightarrow> (Some SetFailed, r, m1)
            | (True, m1) \<Rightarrow>
               (let marker = \<lparr>pm_Host = host, pm_Port = port, pm_Services = services, pm_Previous = previous\<rparr> in
                (None, Some marker, writeMarker env marker m1)))))"

definition restore_service :: "mac_env \<Rightarrow> proxy_marker \<Rightarrow> string \<Rightarrow> mac_machine \<Rightarrow> mac_machine" where
  "restore_service env pm svc m = (case pm_Previous pm svc of Some i \<Rightarrow> restoreProxyForService env svc i m | None \<Rightarrow> disableProxyForService env svc m)"

definition mac_Unregister :: "mac_env \<Rightarrow> proxy_marker option \<times> mac_machine \<Rightarrow> proxy_marker option \<times> mac_machine" where
  "mac_Unregister env rm = (case rm of (r, m) \<Rightarrow>
    (if skipSystemProxyRegistration env then (None, m)
     else case r of None \<Rightarrow> (None, m)
        | Some pm \<Rightarrow> (None, removeMarker env (fold (restore_service env pm) (pm_Services pm) m))))"

definition mac_State :: "mac_env \<Rightarrow> proxy_marker option \<times> mac_machine \<Rightarrow> os_proxy_state option" where
  "mac_State env rm = (case rm of (r, m) \<Rightarrow>
    (case activeNetworkServices env of
       None \<Rightarrow> None
     | Some [] \<Rightarrow> Some \<lparr>ps_Host = [], ps_Port = 0, ps_Active = False, ps_OwnedByAgent = False\<rparr>
     | Some (svc # _) \<Rightarrow>
        map_option (\<lambda>p. \<lparr>ps_Host = sv_host p, ps_Port = sv_port p, ps_Active = sv_on p,
          ps_OwnedByAgent = (sv_on p \<and> (case r of None \<Rightarrow> False | Some pm \<Rightarrow> sv_host p = pm_Host pm \<and> sv_port p = pm_Port pm))\<rparr>) (get_proxy env Web svc m)))"

section \<open>What the tools print\<close>

definition networksetup_text :: "svc_setting \<Rightarrow> string" where
  "networksetup_text p = ''Enabled: '' @ (if sv_on p then ''Yes'' else ''No'') @ [CHR 0x0A] @ ''Server: '' @ sv_host p @ [CHR 0x0A] @
     ''Port: '' @ nat_str (unat (sv_port p)) @ [CHR 0x0A] @ ''Authenticated Proxy Enabled: 0'' @ [CHR 0x0A]"

definition clean_host :: "string \<Rightarrow> bool" where
  "clean_host h = (trim_space h = h \<and> CHR 0x0A \<notin> set h)"

lemma trim_pad: "trim_space h = h \<Longrightarrow> trim_space (CHR '' '' # h) = h"
  by (simp add: trim_space_def trim_left_def is_space_def)

lemma trim_labelled:
  assumes "trim_space h = h" "k \<noteq> []" "\<not> is_space (hd k)" "\<not> is_space (last k)"
  shows "trim_space (k @ CHR '' '' # h) = (if h = [] then k else k @ CHR '' '' # h)"
proof (cases "h = []")
  case True
  have "dropWhile is_space (k @ '' '') = k @ '' ''" using assms(2,3) by (cases k) simp_all
  moreover have "dropWhile is_space (rev k) = rev k" using assms(2,4) by (cases k rule: rev_cases) simp_all
  ultimately show ?thesis using True by (simp add: trim_space_def trim_left_def trim_right_def is_space_def)
next
  case False
  then show ?thesis using assms trimmed_edges(2)[OF assms(1) False] by (intro trim_edges[THEN trans]) simp_all
qed

lemma labelled_value:
  assumes "trim_space h = h" "k \<noteq> []" "\<not> is_space (hd k)" "\<not> is_space (last k)"
  shows "has_prefix (trim_space (k @ CHR '' '' # h)) k" "trim_space (trim_prefix (trim_space (k @ CHR '' '' # h)) k) = h"
  using trim_labelled[OF assms] trim_pad[OF assms(1)] by (auto simp: has_prefix_iff trim_prefix_def)

lemma port_text: "parse_uint16 (nat_str (unat p)) = p" "trim_space (nat_str (unat p)) = nat_str (unat p)" "CHR 0x0A \<notin> set (nat_str (unat p))"
proof -
  have d: "list_all is_digit (nat_str (unat p))" using digit_chars by (auto simp: list_all_iff)
  have "uint p < 65536" using uint_bounded[of p] by simp
  then show "parse_uint16 (nat_str (unat p)) = p" using d nat_str_nonempty by (simp add: parse_uint16_def nat_str_value)
  show "trim_space (nat_str (unat p)) = nat_str (unat p)"
    by (rule trim_space_plain) (use d in \<open>auto simp: list_all_iff is_digit_def is_space_def\<close>)
  show "CHR 0x0A \<notin> set (nat_str (unat p))" using digit_chars[of "CHR 0x0A" "unat p"] by (auto simp: is_digit_def)
qed

lemma text_lines:
  assumes "clean_host (sv_host p)"
  shows "split_on (CHR 0x0A) (networksetup_text p) = [''Enabled:'' @ CHR '' '' # (if sv_on p then ''Yes'' else ''No''), ''Server:'' @ CHR '' '' # sv_host p,
    ''Port:'' @ CHR '' '' # nat_str (unat (sv_port p)), ''Authenticated Proxy Enabled: 0'', []]" (is "_ = ?lines")
proof -
  have "networksetup_text p = join_with [CHR 0x0A] ?lines" by (simp add: networksetup_text_def)
  moreover have "\<forall>w\<in>set ?lines. CHR 0x0A \<notin> set w" using assms port_text(3)[of "sv_port p"] by (simp add: clean_host_def)
  ultimately show ?thesis using split_join[of ?lines "CHR 0x0A"] by simp
qed

text \<open>What the tool prints of a setting is read back as that setting.\<close>

lemma text_read:
  assumes "clean_host (sv_host p)"
  shows "parseProxyOutput (networksetup_text p) = p"
proof -
  have h: "trim_space (sv_host p) = sv_host p" using assms by (simp add: clean_host_def)
  have e: "proxy_line (''Enabled:'' @ CHR '' '' # (if sv_on p then ''Yes'' else ''No'')) x = x\<lparr>sv_on := sv_on p\<rparr>" for x
    using labelled_value[of "if sv_on p then ''Yes'' else ''No''" "''Enabled:''"]
    by (simp add: proxy_line_def Let_def is_space_def trim_space_def trim_left_def trim_right_def)
  have s: "proxy_line (''Server:'' @ CHR '' '' # sv_host p) x = x\<lparr>sv_host := sv_host p\<rparr>" for x
  proof -
    note l = labelled_value[OF h, of "''Server:''"]
    have "has_prefix (trim_space (''Server:'' @ CHR '' '' # sv_host p)) ''Server:''" using l(1) by (simp add: is_space_def)
    moreover from this have "\<not> has_prefix (trim_space (''Server:'' @ CHR '' '' # sv_host p)) ''Enabled:''" by (auto simp: has_prefix_iff)
    ultimately show ?thesis using l(2) by (simp add: proxy_line_def Let_def is_space_def)
  qed
  have q: "proxy_line (''Port:'' @ CHR '' '' # nat_str (unat (sv_port p))) x = x\<lparr>sv_port := sv_port p\<rparr>" for x
  proof -
    note l = labelled_value[OF port_text(2), of "''Port:''" "sv_port p"]
    have "has_prefix (trim_space (''Port:'' @ CHR '' '' # nat_str (unat (sv_port p)))) ''Port:''" using l(1) by (simp add: is_space_def)
    moreover from this have "\<not> has_prefix (trim_space (''Port:'' @ CHR '' '' # nat_str (unat (sv_port p)))) ''Enabled:''"
      "\<not> has_prefix (trim_space (''Port:'' @ CHR '' '' # nat_str (unat (sv_port p)))) ''Server:''" by (auto simp: has_prefix_iff)
    ultimately show ?thesis using l(2) by (simp add: proxy_line_def Let_def is_space_def port_text(1))
  qed
  have "proxy_line ''Authenticated Proxy Enabled: 0'' x = x" "proxy_line [] x = x" for x
    by (simp_all add: proxy_line_def Let_def trim_space_def trim_left_def trim_right_def is_space_def)
  then show ?thesis unfolding parseProxyOutput_def text_lines[OF assms] by (simp only: fold_simps e s q comp_apply id_apply) simp
qed

section \<open>A machine on which the tools work\<close>

type_synonym mac = "mac_env \<times> proxy_marker option \<times> mac_machine"

definition working :: "mac_env \<Rightarrow> bool" where
  "working env = (\<not> skipSystemProxyRegistration env \<and> (\<forall>ch svc. me_query env ch svc \<and> me_set env ch svc \<and> me_off env ch svc) \<and> me_write env \<and> me_remove env \<and>
     (\<forall>p. me_show env p = networksetup_text p) \<and> (case activeNetworkServices env of Some services \<Rightarrow> services \<noteq> [] | None \<Rightarrow> False))"

lemma get_read: "working env \<Longrightarrow> clean_host (sv_host (mm_setting m ch svc)) \<Longrightarrow> get_proxy env ch svc m = Some (mm_setting m ch svc)"
  by (simp add: get_proxy_def working_def text_read)

text \<open>What a setting amounts to.\<close>

definition pointed_at :: "svc_setting \<Rightarrow> (string \<times> 16 word) option" where
  "pointed_at p = (if sv_on p then Some (sv_host p, sv_port p) else None)"

definition sound_setting :: "svc_setting \<Rightarrow> bool" where
  "sound_setting p = (clean_host (sv_host p) \<and> (sv_on p \<longrightarrow> sv_host p \<noteq> [] \<and> sv_port p > 0))"

definition mac_outside :: "mac \<Rightarrow> channel \<Rightarrow> string \<Rightarrow> (string \<times> 16 word) option" where
  "mac_outside x ch svc = (case x of (env, r, m) \<Rightarrow> pointed_at (mm_setting m ch svc))"

definition mac_owned :: "mac \<Rightarrow> bool" where
  "mac_owned x = (case x of (env, r, m) \<Rightarrow> r \<noteq> None)"

definition mac_able :: "mac \<Rightarrow> bool" where
  "mac_able x = (case x of (env, r, m) \<Rightarrow> working env)"

definition mac_fit :: "mac \<Rightarrow> bool" where
  "mac_fit x = (case x of (env, r, m) \<Rightarrow> working env \<and> mm_marker m = None \<and>
     (case activeNetworkServices env of Some services \<Rightarrow> list_all (\<lambda>svc. sound_setting (mm_setting m Web svc) \<and> sound_setting (mm_setting m Secure svc)) services | None \<Rightarrow> True))"

definition mac_register :: "string \<Rightarrow> 16 word \<Rightarrow> mac \<Rightarrow> bool \<times> mac" where
  "mac_register host port x = (case x of (env, rm) \<Rightarrow> (case mac_Register env host port rm of (err, rm') \<Rightarrow> (err = None, env, rm')))"

definition mac_unregister :: "mac \<Rightarrow> mac" where
  "mac_unregister x = (case x of (env, rm) \<Rightarrow> (env, mac_Unregister env rm))"

definition mac_verify :: "mac \<Rightarrow> bool" where
  "mac_verify x = (case x of (env, rm) \<Rightarrow> mac_VerifyIntegrity env rm = Some True)"

lemma setting_put: "mm_setting (put_setting ch svc p m) ch' svc' = (if ch' = ch \<and> svc' = svc then p else mm_setting m ch' svc')"
  by (simp add: put_setting_def)

lemma marker_put [simp]: "mm_marker (put_setting ch svc p m) = mm_marker m"
  by (simp add: put_setting_def)

lemma set_services_done:
  assumes "working env"
  shows "\<exists>m'. set_services env host port svcs m = (True, m') \<and> mm_marker m' = mm_marker m \<and>
    (\<forall>ch svc. mm_setting m' ch svc = (if svc \<in> set svcs then \<lparr>sv_host = host, sv_port = port, sv_on = True\<rparr> else mm_setting m ch svc))"
proof (induction svcs arbitrary: m)
  case (Cons svc svcs)
  let ?p = "\<lparr>sv_host = host, sv_port = port, sv_on = True\<rparr>"
  have s: "set_proxy env ch v host port x = (True, put_setting ch v ?p x)" for ch v x using assms by (simp add: set_proxy_def working_def)
  obtain m' where "set_services env host port svcs (put_setting Secure svc ?p (put_setting Web svc ?p m)) = (True, m')" "mm_marker m' = mm_marker m"
    "\<forall>ch v. mm_setting m' ch v = (if v \<in> set svcs then ?p else mm_setting (put_setting Secure svc ?p (put_setting Web svc ?p m)) ch v)"
    using Cons.IH[of "put_setting Secure svc ?p (put_setting Web svc ?p m)"] by auto
  moreover have "mm_setting (put_setting Secure svc ?p (put_setting Web svc ?p m)) ch v = (if v = svc then ?p else mm_setting m ch v)" for ch v
    by (cases ch) (simp_all add: setting_put)
  ultimately show ?case by (simp add: s)
qed simp

lemma verify_true:
  assumes "working env" "clean_host host" "\<forall>svc\<in>set svcs. \<forall>ch. mm_setting m ch svc = \<lparr>sv_host = host, sv_port = port, sv_on = True\<rparr>"
  shows "verify_services env host port svcs m = Some True"
  using assms(3)
proof (induction svcs)
  case (Cons svc svcs)
  have "get_proxy env ch svc m = Some \<lparr>sv_host = host, sv_port = port, sv_on = True\<rparr>" for ch using get_read[OF assms(1)] assms(2) Cons.prems by simp
  then show ?case using Cons by (simp add: points_to_def)
qed simp

lemma previous_all: "previous_of env host port svcs m prev = Some prev' \<Longrightarrow>
    prev' svc = (if svc \<in> set svcs then Some (service_info_of env svc m) else prev svc)"
  by (induction svcs arbitrary: prev) (auto simp: Let_def split: if_splits)

text \<open>A registration that goes through leaves every active service pointing at the agent.\<close>

lemma register_done:
  assumes "working env" "mac_Register env host port (r, m) = (None, r', m')" "r' \<noteq> r \<or> m' \<noteq> m \<or> r = None"
  obtains services prev where "activeNetworkServices env = Some services"
    "r' = Some \<lparr>pm_Host = host, pm_Port = port, pm_Services = services, pm_Previous = prev\<rparr>"
    "\<And>svc. prev svc = (if svc \<in> set services then Some (service_info_of env svc m) else None)"
    "\<And>ch svc. mm_setting m' ch svc = (if svc \<in> set services then \<lparr>sv_host = host, sv_port = port, sv_on = True\<rparr> else mm_setting m ch svc)"
proof -
  obtain services where s: "activeNetworkServices env = Some services" "services \<noteq> []" using assms(1) by (auto simp: working_def split: option.splits)
  obtain m1 where m1: "set_services env host port services m = (True, m1)"
    "\<And>ch svc. mm_setting m1 ch svc = (if svc \<in> set services then \<lparr>sv_host = host, sv_port = port, sv_on = True\<rparr> else mm_setting m ch svc)"
    using set_services_done[OF assms(1)] by blast
  obtain prev where p: "previous_of env host port services m Map.empty = Some prev" "r' = Some \<lparr>pm_Host = host, pm_Port = port, pm_Services = services, pm_Previous = prev\<rparr>"
    "m' = writeMarker env \<lparr>pm_Host = host, pm_Port = port, pm_Services = services, pm_Previous = prev\<rparr> m1"
    using assms s m1(1) by (auto simp: mac_Register_def working_def Let_def split: if_splits option.splits)
  show ?thesis
  proof (rule that[OF s(1) p(2)])
    show "prev svc = (if svc \<in> set services then Some (service_info_of env svc m) else None)" for svc using previous_all[OF p(1)] by simp
    show "mm_setting m' ch svc = (if svc \<in> set services then \<lparr>sv_host = host, sv_port = port, sv_on = True\<rparr> else mm_setting m ch svc)" for ch svc
      using m1(2) by (simp add: p(3) writeMarker_def)
  qed
qed

lemma restored_channel: "working env \<Longrightarrow> (on \<longrightarrow> host \<noteq> [] \<and> port > 0) \<Longrightarrow>
    pointed_at (mm_setting (restore_channel env ch svc on host port m) ch' svc') =
    (if ch' = ch \<and> svc' = svc then (if on then Some (host, port) else None) else pointed_at (mm_setting m ch' svc'))"
  by (auto simp: restore_channel_def working_def set_proxy_def set_off_def setting_put pointed_at_def)

text \<open>The backup of a service stands for its two settings.\<close>

definition backs_up :: "mac_machine \<Rightarrow> string \<Rightarrow> service_info \<Rightarrow> bool" where
  "backs_up m svc i \<longleftrightarrow> (si_WebEnabled i, si_WebHost i, si_WebPort i) = (sv_on (mm_setting m Web svc), sv_host (mm_setting m Web svc), sv_port (mm_setting m Web svc)) \<and>
     (si_SecureEnabled i, si_SecureHost i, si_SecurePort i) = (sv_on (mm_setting m Secure svc), sv_host (mm_setting m Secure svc), sv_port (mm_setting m Secure svc))"

lemma info_backs_up: "working env \<Longrightarrow> sound_setting (mm_setting m Web svc) \<Longrightarrow> sound_setting (mm_setting m Secure svc) \<Longrightarrow> backs_up m svc (service_info_of env svc m)"
  by (simp add: backs_up_def service_info_of_def get_or_zero_def get_read sound_setting_def Let_def)

lemma restored_service:
  assumes "working env" "sound_setting (mm_setting m Web svc)" "sound_setting (mm_setting m Secure svc)" "backs_up m svc i"
  shows "pointed_at (mm_setting (restoreProxyForService env svc i x) ch v) = (if v = svc then pointed_at (mm_setting m ch v) else pointed_at (mm_setting x ch v))"
proof -
  have w: "si_WebEnabled i \<longrightarrow> si_WebHost i \<noteq> [] \<and> si_WebPort i > 0" and s: "si_SecureEnabled i \<longrightarrow> si_SecureHost i \<noteq> [] \<and> si_SecurePort i > 0"
    using assms(2-4) by (simp_all add: backs_up_def sound_setting_def)
  have "pointed_at (mm_setting m Web svc) = (if si_WebEnabled i then Some (si_WebHost i, si_WebPort i) else None)"
    "pointed_at (mm_setting m Secure svc) = (if si_SecureEnabled i then Some (si_SecureHost i, si_SecurePort i) else None)"
    using assms(4) by (simp_all add: backs_up_def pointed_at_def)
  then show ?thesis unfolding restoreProxyForService_def restored_channel[OF assms(1) s] restored_channel[OF assms(1) w] by (cases ch) simp_all
qed

lemma restored_services:
  assumes "working env" "\<forall>svc\<in>set svcs. sound_setting (mm_setting m Web svc) \<and> sound_setting (mm_setting m Secure svc) \<and> (\<exists>i. pm_Previous pm svc = Some i \<and> backs_up m svc i)"
  shows "pointed_at (mm_setting (fold (restore_service env pm) svcs x) ch v) = (if v \<in> set svcs then pointed_at (mm_setting m ch v) else pointed_at (mm_setting x ch v))"
  using assms(2)
proof (induction svcs arbitrary: x)
  case (Cons svc svcs)
  obtain i where "pm_Previous pm svc = Some i" "backs_up m svc i" "sound_setting (mm_setting m Web svc)" "sound_setting (mm_setting m Secure svc)"
    using Cons.prems by auto
  then have "pointed_at (mm_setting (restore_service env pm svc x) ch v) = (if v = svc then pointed_at (mm_setting m ch v) else pointed_at (mm_setting x ch v))"
    using restored_service[OF assms(1)] by (simp add: restore_service_def)
  then show ?case using Cons by (cases "v = svc") simp_all
qed simp

lemma restored_clean:
  assumes "\<forall>svc\<in>set svcs. sound_setting (mm_setting m Web svc) \<and> sound_setting (mm_setting m Secure svc) \<and> (\<exists>i. pm_Previous pm svc = Some i \<and> backs_up m svc i)"
    "clean_host (sv_host (mm_setting x ch v))"
  shows "clean_host (sv_host (mm_setting (fold (restore_service env pm) svcs x) ch v))"
  using assms
proof (induction svcs arbitrary: x)
  case (Cons svc svcs)
  obtain i where "pm_Previous pm svc = Some i" "backs_up m svc i" "sound_setting (mm_setting m Web svc)" "sound_setting (mm_setting m Secure svc)"
    using Cons.prems(1) by auto
  then have "clean_host (sv_host (mm_setting (restore_service env pm svc x) ch v))" using Cons.prems(2)
    by (auto simp: restore_service_def restoreProxyForService_def restore_channel_def set_proxy_def set_off_def setting_put backs_up_def sound_setting_def)
  then show ?case using Cons by simp
qed simp

lemma sound_iff: "sound_setting p \<longleftrightarrow> clean_host (sv_host p) \<and> (case pointed_at p of None \<Rightarrow> True | Some (h, n) \<Rightarrow> h \<noteq> [] \<and> n > 0)"
  by (simp add: sound_setting_def pointed_at_def)

section \<open>The contract\<close>

lemma mac_registered:
  assumes "working env" "clean_host host" "mac_Register env host port (r, m) = (None, r', m')"
  shows "mac_VerifyIntegrity env (r', m') = Some True" "r' \<noteq> None"
proof -
  have s: "\<not> skipSystemProxyRegistration env" using assms(1) by (simp add: working_def)
  have "mac_VerifyIntegrity env (r', m') = Some True \<and> r' \<noteq> None"
  proof (cases "r' \<noteq> r \<or> m' \<noteq> m \<or> r = None")
    case True
    obtain services prev where d: "r' = Some \<lparr>pm_Host = host, pm_Port = port, pm_Services = services, pm_Previous = prev\<rparr>"
      "\<And>ch svc. mm_setting m' ch svc = (if svc \<in> set services then \<lparr>sv_host = host, sv_port = port, sv_on = True\<rparr> else mm_setting m ch svc)"
      using register_done[OF assms(1,3) True] by metis
    then show ?thesis using verify_true[OF assms(1,2)] s by (simp add: mac_VerifyIntegrity_def verifyRegisteredLocked_def)
  next
    case False
    then obtain pm where r: "r = Some pm" "r' = Some pm" "m' = m" by auto
    show ?thesis
    proof (cases "pm_Host pm = host \<and> pm_Port pm = port \<and> verifyRegisteredLocked env r m = Some True")
      case True
      then show ?thesis using s r by (simp add: mac_VerifyIntegrity_def)
    next
      case F: False
      obtain services where sv: "activeNetworkServices env = Some services" "services \<noteq> []" using assms(1) by (auto simp: working_def split: option.splits)
      obtain m1 where m1: "set_services env host port services m = (True, m1)"
        "\<And>ch svc. mm_setting m1 ch svc = (if svc \<in> set services then \<lparr>sv_host = host, sv_port = port, sv_on = True\<rparr> else mm_setting m ch svc)"
        using set_services_done[OF assms(1)] by blast
      obtain prev where "previous_of env host port services m Map.empty = Some prev" "pm = \<lparr>pm_Host = host, pm_Port = port, pm_Services = services, pm_Previous = prev\<rparr>"
        "m = writeMarker env pm m1"
        using assms(3) s F sv m1(1) r by (auto simp: mac_Register_def Let_def split: if_splits option.splits)
      moreover from this have "mm_setting m = mm_setting m1" by (metis (no_types, lifting) mac_machine.select_convs(1) mac_machine.surjective mac_machine.update_convs(2) writeMarker_def)
      ultimately show ?thesis using verify_true[OF assms(1,2)] m1(2) s r by (simp add: mac_VerifyIntegrity_def verifyRegisteredLocked_def)
    qed
  qed
  then show "mac_VerifyIntegrity env (r', m') = Some True" "r' \<noteq> None" by auto
qed

lemma mac_given_back:
  assumes "mac_fit (env, None, m)" "mac_Register env host port (None, m) = (None, r', m')" "clean_host host"
  shows "\<exists>m2. mac_Unregister env (r', m') = (None, m2) \<and> mac_fit (env, None, m2) \<and>
    (\<forall>ch svc. pointed_at (mm_setting m2 ch svc) = pointed_at (mm_setting m ch svc))"
proof -
  have w: "working env" using assms(1) by (simp add: mac_fit_def)
  obtain services prev where d: "activeNetworkServices env = Some services"
    "r' = Some \<lparr>pm_Host = host, pm_Port = port, pm_Services = services, pm_Previous = prev\<rparr>"
    "\<And>svc. prev svc = (if svc \<in> set services then Some (service_info_of env svc m) else None)"
    "\<And>ch svc. mm_setting m' ch svc = (if svc \<in> set services then \<lparr>sv_host = host, sv_port = port, sv_on = True\<rparr> else mm_setting m ch svc)"
    using register_done[OF w assms(2)] by blast
  let ?pm = "\<lparr>pm_Host = host, pm_Port = port, pm_Services = services, pm_Previous = prev\<rparr>"
  let ?f = "fold (restore_service env ?pm) services m'"
  have sound: "sound_setting (mm_setting m ch svc)" if "svc \<in> set services" for ch svc
    using assms(1) that by (cases ch) (auto simp: mac_fit_def d(1) list_all_iff)
  then have kept: "\<forall>svc\<in>set services. sound_setting (mm_setting m Web svc) \<and> sound_setting (mm_setting m Secure svc) \<and>
      (\<exists>i. pm_Previous ?pm svc = Some i \<and> backs_up m svc i)"
    using info_backs_up[OF w] d(3) by simp
  have p: "pointed_at (mm_setting ?f ch v) = pointed_at (mm_setting m ch v)" for ch v
    using restored_services[OF w kept] d(4) by simp
  have c: "clean_host (sv_host (mm_setting ?f ch v))" if "v \<in> set services" for ch v
    using restored_clean[OF kept] d(4) that assms(3) by simp
  have s: "sound_setting (mm_setting ?f ch v)" if "v \<in> set services" for ch v
    using c[OF that] sound[OF that] p by (simp add: sound_iff)
  have "mac_Unregister env (r', m') = (None, ?f\<lparr>mm_marker := None\<rparr>)"
    using w by (simp add: mac_Unregister_def d(2) working_def removeMarker_def)
  moreover have "mac_fit (env, None, ?f\<lparr>mm_marker := None\<rparr>)" using w s d(1) by (simp add: mac_fit_def list_all_iff)
  ultimately show ?thesis using p by simp
qed

lemma mac_refused:
  assumes "mac_fit (env, None, m)" "mac_Register env host port (None, m) = (Some e, r', m')"
  shows "r' = None \<and> m' = m"
proof -
  have w: "working env" using assms(1) by (simp add: mac_fit_def)
  obtain services where s: "activeNetworkServices env = Some services" "services \<noteq> []" using w by (auto simp: working_def split: option.splits)
  obtain m1 where "set_services env host port services m = (True, m1)" using set_services_done[OF w] by blast
  then show ?thesis using assms(2) w s by (auto simp: mac_Register_def working_def Let_def split: if_splits option.splits)
qed

interpretation mac_adapter: healing_proxy mac_register mac_unregister mac_verify mac_owned mac_outside mac_fit "\<lambda>host. host \<noteq> [] \<and> clean_host host" mac_able
proof
  fix x x' :: mac and host :: string and port :: "16 word"
  obtain env r m where x: "x = (env, r, m)" by (cases x)
  { assume a: "mac_fit x" "\<not> mac_owned x" "host \<noteq> [] \<and> clean_host host" "mac_register host port x = (True, x')"
    then have r: "r = None" by (simp add: x mac_owned_def)
    then have f: "mac_fit (env, None, m)" using a(1) x by simp
    obtain r' m' where x': "x' = (env, r', m')" "mac_Register env host port (None, m) = (None, r', m')"
      using a(4) r by (auto simp: x mac_register_def split: prod.splits)
    have w: "working env" using f by (simp add: mac_fit_def)
    show "mac_owned x' \<and> mac_verify x'" using mac_registered[OF w _ x'(2)] a(3) by (simp add: x'(1) mac_owned_def mac_verify_def)
    show "\<not> mac_owned (mac_unregister x') \<and> mac_fit (mac_unregister x') \<and> mac_outside (mac_unregister x') = mac_outside x"
      using mac_given_back[OF f x'(2)] a(3) r by (auto simp: x'(1) x mac_unregister_def mac_owned_def mac_outside_def fun_eq_iff) }
  { assume a: "mac_fit x" "\<not> mac_owned x" "mac_register host port x = (False, x')"
    then have r: "r = None" by (simp add: x mac_owned_def)
    then have f: "mac_fit (env, None, m)" using a(1) x by simp
    obtain e r' m' where x': "x' = (env, r', m')" "mac_Register env host port (None, m) = (Some e, r', m')"
      using a(3) r by (auto simp: x mac_register_def split: prod.splits)
    then have "x' = x" using mac_refused[OF f x'(2)] x r by simp
    then show "\<not> mac_owned x' \<and> mac_fit x' \<and> mac_outside x' = mac_outside x" using a(1,2) by simp }
  { assume "\<not> mac_owned x"
    then show "mac_unregister x = x" by (simp add: x mac_owned_def mac_unregister_def mac_Unregister_def) }
  { assume "mac_fit x" "\<not> mac_owned x"
    then show "\<not> mac_verify x" by (simp add: x mac_owned_def mac_verify_def mac_VerifyIntegrity_def verifyRegisteredLocked_def mac_fit_def working_def) }
  { assume a: "mac_able x" "host \<noteq> [] \<and> clean_host host" "mac_register host port x = (True, x')"
    obtain r' m' where x': "x' = (env, r', m')" "mac_Register env host port (r, m) = (None, r', m')"
      using a(3) by (auto simp: x mac_register_def split: prod.splits)
    show "mac_verify x'" using mac_registered(1)[OF _ _ x'(2)] a(1,2) by (simp add: x x'(1) mac_able_def mac_verify_def) }
  { assume "mac_able x"
    then show "mac_able (snd (mac_register host port x))" by (simp add: x mac_able_def mac_register_def split: prod.split) }
qed

end
