(* ===== verification/Proxy_Adapters.thy ===== *)
theory Proxy_Adapters
  imports Windows_Proxy Darwin_Proxy Agent_Lifecycle
begin

text \<open>
  The two proxy adapters at work under the agent: runs of the agent that end, runs that crash, and the repair of
  tampered settings by the integrity monitor (\<open>Agent_Monitor\<close>), whose calls are made on the adapters here.
\<close>

section \<open>Sample machines\<close>

definition netsh_text :: "string \<times> string \<Rightarrow> string option" where
  "netsh_text w = Some (if fst w = [] then ''Direct access (no proxy server).''
     else ''Proxy Server(s) :  '' @ fst w @ [CHR 0x0A] @ ''Bypass List     :  '' @ (if snd w = [] then ''(none)'' else snd w))"

definition sample_win_env :: win_env where
  "sample_win_env = \<lparr>we_opens = (\<lambda>_. True), we_writes = (\<lambda>_. True), we_sets = (\<lambda>_ _. True), we_netsh = True, we_show = netsh_text\<rparr>"

definition fresh_win_proxy :: win_proxy where
  "fresh_win_proxy = \<lparr>wp_regHost = [], wp_regPort = 0\<rparr>"

definition sample_win :: "(string \<Rightarrow> reg_value option) \<Rightarrow> windows" where
  "sample_win inet = (sample_win_env, fresh_win_proxy,
     \<lparr>wm_keys = (\<lambda>k. if k = UserInet then Some inet else if k = MachineInet then Some Map.empty else None), wm_winhttp = (''proxy.corp:3128'', [])\<rparr>)"

lemma sample_win_fit: "win_fit (sample_win Map.empty)" "\<not> win_owned (sample_win Map.empty)"
proof -
  have "ParseWinHTTPOutput (the (netsh_text (''proxy.corp:3128'', []))) = (''proxy.corp:3128'', [])" by code_simp
  then show "win_fit (sample_win Map.empty)"
    by (simp add: sample_win_def sample_win_env_def win_fit_def obliging_def plain_hive_def effective_def reg_def shown_def netsh_text_def)
  show "\<not> win_owned (sample_win Map.empty)" by (simp add: sample_win_def sample_win_env_def win_owned_def hasOwnerMarker_def open_query_def)
qed

definition sample_mac_env :: mac_env where
  "sample_mac_env = \<lparr>me_skip = [], me_services = Some (''An asterisk (*) denotes that a network service is disabled.'' @ [CHR 0x0A] @ ''Wi-Fi'' @ [CHR 0x0A] @ ''*FireWire'' @ [CHR 0x0A] @ ''Ethernet''),
     me_profiles = None, me_show = networksetup_text, me_query = (\<lambda>_ _. True), me_set = (\<lambda>_ _. True), me_off = (\<lambda>_ _. True), me_write = True, me_remove = True\<rparr>"

definition idle_setting :: svc_setting where
  "idle_setting = \<lparr>sv_host = [], sv_port = 0, sv_on = False\<rparr>"

definition sample_mac :: mac where
  "sample_mac = (sample_mac_env, None, \<lparr>mm_setting = (\<lambda>_ _. idle_setting), mm_marker = None\<rparr>)"

lemma sample_services: "activeNetworkServices sample_mac_env = Some [''Wi-Fi'', ''Ethernet'']"
  by code_simp

lemma sample_working: "working sample_mac_env"
  unfolding working_def sample_services option.case by (simp add: sample_mac_env_def skipSystemProxyRegistration_def trim_space_def trim_left_def trim_right_def to_lower_def)

lemma sample_mac_fit: "mac_fit sample_mac" "\<not> mac_owned sample_mac" "mac_able sample_mac"
  using sample_working by (simp_all add: sample_mac_def mac_fit_def mac_owned_def mac_able_def sample_services sound_setting_def idle_setting_def clean_host_def)

section \<open>Runs that end\<close>





section \<open>Runs that crash\<close>

definition plain_address :: "string \<Rightarrow> bool" where
  "plain_address h = (h \<noteq> [] \<and> list_all (\<lambda>c. c \<notin> {CHR '':'', CHR '';'', CHR ''=''} \<and> \<not> is_space c) h)"

lemma index_append: "x \<notin> set a \<Longrightarrow> index_of x (a @ x # b) = Some (length a)"
  by (induction a) auto

lemma index_none: "x \<notin> set a \<Longrightarrow> index_of x a = None"
  by (induction a) auto

abbreviation plain_char :: "char \<Rightarrow> bool" where
  "plain_char c \<equiv> c \<notin> {CHR '':'', CHR '';'', CHR ''=''} \<and> \<not> is_space c"

lemma digit_plain: "is_digit c \<Longrightarrow> plain_char c"
  by (auto simp: is_digit_def is_space_def)

lemma server_read:
  assumes "plain_address h"
  shows "parseProxyServer (proxy_server h p) = (h, p)"
proof -
  let ?a = "h @ CHR '':'' # nat_str (unat p)"
  have h: "list_all plain_char h" using assms by (simp add: plain_address_def)
  have n: "list_all plain_char (nat_str (unat p))" using digit_chars digit_plain by (fastforce simp: list_all_iff)
  have free: "CHR '';'' \<notin> set (''http='' @ ?a)" "CHR '';'' \<notin> set (''https='' @ ?a)" using h n by (auto simp: list_all_iff)
  have "list_all (\<lambda>c. \<not> is_space c) ?a" using h n by (auto simp: list_all_iff is_space_def)
  then have t: "trim_space (''http='' @ ?a) = ''http='' @ ?a" by (intro trim_space_plain) (simp add: list_all_iff is_space_def)
  have p: "proxy_server h p = (''http='' @ ?a) @ CHR '';'' # ''https='' @ ?a" by (simp add: proxy_server_def address_def)
  have s: "split_on (CHR '';'') (proxy_server h p) = [''http='' @ ?a, ''https='' @ ?a]"
    unfolding p split_on_append split_on_free[OF free(1)] split_on_free[OF free(2)] by simp
  have e: "index_of (CHR ''='') (''http='' @ ?a) = Some 4" by simp
  have c: "index_of (CHR '':'') ?a = Some (length h)" using h by (intro index_append) (auto simp: list_all_iff)
  have d: "drop (4 + 1) (''http='' @ ?a) = ?a" by simp
  have "server_parts (proxy_server h p) [''http='' @ ?a, ''https='' @ ?a] = (h, p)"
    unfolding server_parts.simps t e Let_def option.case d c using port_text(1)[of p] by simp
  then show ?thesis unfolding parseProxyServer_def s by (simp add: p)
qed

lemma registered_read: "obliging env \<Longrightarrow> readRegistered env (taken_over h p m) = Some (h, p)"
proof -
  have "ucast (ucast p :: 32 word) = p" by (simp add: ucast_down_ucast_id is_down)
  then show "obliging env \<Longrightarrow> ?thesis"
    by (simp add: readRegistered_def query_reg get_str_def get_int_def taken_over_def put_reg_def fold_upd)
qed



section \<open>Repair by the integrity monitor\<close>

definition run_call :: "(string \<Rightarrow> 16 word \<Rightarrow> 's \<Rightarrow> bool \<times> 's) \<Rightarrow> ('s \<Rightarrow> 's) \<Rightarrow> os_call \<Rightarrow> 's \<Rightarrow> 's" where
  "run_call register unregister c x = (case c of OsRegister host port \<Rightarrow> snd (register host (of_nat port) x) | OsUnregister \<Rightarrow> unregister x)"

lemma tampered_round:
  assumes "splitListenAddr (cf_ListenAddr cfg) = (host, port)" "rv_integrity env = Some False" "cf_AutoReregister cfg" "probeListenAddr env host port"
  shows "snd (integrity_round env cfg e True) = [OsRegister host port]"
    "(''proxy.remediated'', [(''remediation'', VString ''proxy_reregistered'')]) \<in> set (fst (integrity_round env cfg e True)) \<longleftrightarrow> rv_register env"
  using assms by (auto simp: integrity_round_def Let_def)

text \<open>
  On macOS the monitor's repair repairs. When the tools work, the settings were tampered with, the listener is
  alive and repair is enabled, the monitor registers again; if the adapter reports success, the settings of every
  active service point at the agent and verify as intact, whatever they had been changed to.
\<close>

theorem mac_repair_repairs:
  assumes "mac_able x" "splitListenAddr (cf_ListenAddr cfg) = (host, port)" "host \<noteq> [] \<and> clean_host host" "rv_integrity env = Some False" "cf_AutoReregister cfg"
    "probeListenAddr env host port" "fst (mac_register host (of_nat port) x)"
  shows "mac_verify (fold (run_call mac_register mac_unregister) (snd (integrity_round env cfg e True)) x)"
  using mac_adapter.healed[OF assms(1,3)] assms(7) tampered_round(1)[OF assms(2,4,5,6)] by (cases "mac_register host (of_nat port) x") (simp add: run_call_def)

theorem mac_repair_repairs_witness:
  "mac_verify (fold (run_call mac_register mac_unregister) (snd (integrity_round cleared_machine repairing_config (NewEngine DecisionForward) True)) sample_mac)"
proof -
  have s: "splitListenAddr (cf_ListenAddr repairing_config) = (''127.0.0.1'', 8443)" unfolding repairing_config_def by code_simp
  have h: "''127.0.0.1'' \<noteq> [] \<and> clean_host ''127.0.0.1''" by code_simp
  have c: "rv_integrity cleared_machine = Some False" "cf_AutoReregister repairing_config" "probeListenAddr cleared_machine ''127.0.0.1'' 8443"
    by (simp_all add: cleared_machine_def repairing_config_def probeListenAddr_def)
  have "fst (mac_register ''127.0.0.1'' (of_nat 8443) sample_mac)" by code_simp
  from mac_repair_repairs[OF sample_mac_fit(3) s h c this] show ?thesis .
qed

text \<open>
  On Windows the same repair does nothing: the adapter takes its marker for the settings and returns success
  without looking at them, and the monitor reports \<^verbatim>\<open>proxy.remediated\<close>. The next round finds the tampering again.
\<close>

lemma windows_repair_does_nothing:
  assumes "splitListenAddr (cf_ListenAddr cfg) = (host, port)" "rv_integrity env = Some False" "cf_AutoReregister cfg" "probeListenAddr env host port"
    "w = (wenv, \<lparr>wp_regHost = host, wp_regPort = of_nat port\<rparr>, m)" "hasOwnerMarker wenv m" "\<not> gpHasProxy wenv m" "\<not> win_verify w"
    "rv_register env = fst (win_register host (of_nat port) w)"
  shows "(''proxy.remediated'', [(''remediation'', VString ''proxy_reregistered'')]) \<in> set (fst (integrity_round env cfg e True))"
    "\<not> win_verify (fold (run_call win_register win_unregister) (snd (integrity_round env cfg e True)) w)"
proof -
  have "win_register host (of_nat port) w = (True, w)" using assms(6,7) by (simp add: assms(5) win_register_def win_Register_def)
  then show "(''proxy.remediated'', [(''remediation'', VString ''proxy_reregistered'')]) \<in> set (fst (integrity_round env cfg e True))"
    "\<not> win_verify (fold (run_call win_register win_unregister) (snd (integrity_round env cfg e True)) w)"
    using assms(8,9) tampered_round[OF assms(1-4)] by (simp_all add: run_call_def)
qed

section \<open>Where the contract is broken\<close>

lemma frames:
  assumes "k' \<noteq> k"
  shows "wm_keys (snd (set_value env k n v m)) k' = wm_keys m k'" "wm_keys (delete_value env k n m) k' = wm_keys m k'"
    "create_key env k m = Some m1 \<Longrightarrow> wm_keys m1 k' = wm_keys m k'"
  using assms by (auto simp: set_value_def delete_value_def create_key_def split: if_splits)

lemma restore_frame: "k' \<noteq> k \<Longrightarrow> wm_keys (restore_hive env k en sv ov m) k' = wm_keys m k'"
  by (auto simp: restore_hive_def clearWinINETProxy_def Let_def frames split: option.split)

lemma winhttp_frame: "wm_keys (restoreWinHTTP env m) = wm_keys m"
  by (auto simp: restoreWinHTTP_def netsh_reset_def netsh_set_def Let_def split: option.split)

lemma deletes_frame: "k' \<noteq> k \<Longrightarrow> wm_keys (fold (delete_value env k) ns m) k' = wm_keys m k'"
  by (induction ns arbitrary: m) (auto simp: frames)

text \<open>What unregistering leaves in the user's hive is what restoring it from the backup leaves there.\<close>

lemma unregister_user_hive:
  assumes "hasOwnerMarker env m"
  shows "effective UserInet (snd (win_Unregister env (s, m))) = effective UserInet (restoreHKCU env m)"
proof -
  have "wm_keys (snd (win_Unregister env (s, m))) UserInet = wm_keys (restoreHKCU env m) UserInet"
    using assms by (simp add: win_Unregister_def removeOwnerMarker_def restoreOriginal_def cleanupBackupValues_def frames deletes_frame winhttp_frame
        restoreHKLM_def restore_frame)
  then show ?thesis by (simp add: effective_def reg_def)
qed

lemma taken_marker: "obliging env \<Longrightarrow> hasOwnerMarker env (taken_over h p m)"
  by (simp add: owner_marker taken_over_def reg_put)

text \<open>Registering on another address while registered backs up the agent's own proxy, which unregistering then restores.\<close>

lemma rebinding_backs_up_itself:
  assumes "obliging env" "we_writes env MachineInet" "we_netsh env" "m1 = taken_over h p m" "m2 = taken_over h' p' m1" "shown env (address h p, ''<local>'')"
    "\<not> gpHasProxy env m1" "(h', p') \<noteq> (h, p)"
  shows "win_Register env h' p' (\<lparr>wp_regHost = h, wp_regPort = p\<rparr>, m1) = (None, \<lparr>wp_regHost = h', wp_regPort = p'\<rparr>, m2)"
    "effective UserInet (snd (win_Unregister env (s, m2))) = Some (proxy_server h p, ''<local>'')"
proof -
  have own: "hasOwnerMarker env m1" unfolding assms(4) by (rule taken_marker[OF assms(1)])
  have w: "wm_winhttp m1 = (address h p, ''<local>'')" by (simp add: assms(4) taken_over_def)
  have b: "backupOriginal env m1 = (True, put_reg AgentKey (backup_values m1) m1)" by (rule backup_all[OF assms(1)]) (simp add: w assms(6))
  show "win_Register env h' p' (\<lparr>wp_regHost = h, wp_regPort = p\<rparr>, m1) = (None, \<lparr>wp_regHost = h', wp_regPort = p'\<rparr>, m2)"
    using assms(2,3,7,8) own
    by (simp add: win_Register_def read_inet[OF assms(1)] b write_inet[OF assms(1)] obliging_writes[OF assms(1)] netsh_set_def write_marker[OF assms(1)]
        assms(5) taken_over_def hives_taken_def user_taken_def our_hive_def) auto
  have u: "reg m1 UserInet ''ProxyEnable'' = Some (DWord 1)" "reg m1 UserInet ''ProxyServer'' = Some (Str (proxy_server h p))" "reg m1 UserInet ''ProxyOverride'' = Some (Str ''<local>'')"
    by (simp_all add: assms(4) taken_over_def hives_taken_def user_taken_def our_hive_def reg_put)
  have hb: "holds_backup m1 m2" unfolding assms(5) by (rule taken_backups(3))
  then have k: "has_key m2 AgentKey" by (simp add: holds_backup_def)
  have "reg m2 AgentKey ''OriginalProxyEnable'' = Some (DWord 1)" "reg m2 AgentKey ''OriginalProxyServer'' = Some (Str (proxy_server h p))"
    "reg m2 AgentKey ''OriginalProxyOverride'' = Some (Str ''<local>'')"
    by (subst held[OF hb]; simp add: backupNames_def backup_values_def saved_def u str_of_def split: option.split reg_value.split)+
  moreover have "proxy_server h p \<noteq> []" by (simp add: proxy_server_def)
  ultimately have "restoreHKCU env m2 = put_reg UserInet [(''ProxyEnable'', Some (DWord 1)), (''ProxyServer'', Some (Str (proxy_server h p))), (''ProxyOverride'', Some (Str ''<local>''))] m2"
    unfolding restoreHKCU_def by (intro restore_some[OF assms(1) _ k]) (simp_all add: obliging_writes[OF assms(1)])
  then have "effective UserInet (restoreHKCU env m2) = Some (proxy_server h p, ''<local>'')" by (simp add: effective_def reg_put str_of_def)
  then show "effective UserInet (snd (win_Unregister env (s, m2))) = Some (proxy_server h p, ''<local>'')"
    using taken_marker[OF assms(1)] assms(5) by (simp add: unregister_user_hive)
qed

text \<open>A proxy that is enabled without a server is restored with the agent's address as its server.\<close>

lemma enabled_without_server_stays_ours:
  assumes "obliging env" "reg m UserInet ''ProxyEnable'' = Some (DWord 1)" "str_of (reg m UserInet ''ProxyServer'') = []"
  shows "\<exists>ov. effective UserInet (snd (win_Unregister env (s, taken_over h p m))) = Some (proxy_server h p, ov)"
proof -
  let ?t = "taken_over h p m"
  have b: "holds_backup m ?t" by (rule taken_backups(3))
  then obtain vals where vals: "wm_keys ?t AgentKey = Some vals" by (auto simp: holds_backup_def has_key_def)
  then have r: "reg ?t AgentKey n = vals n" for n by (simp add: reg_def)
  have "vals ''OriginalProxyEnable'' = Some (DWord 1)" "vals ''OriginalProxyServer'' = Some (Str [])"
    unfolding r[symmetric] by (subst held[OF b]; simp add: backupNames_def backup_values_def saved_def assms(2,3) split: option.split reg_value.split)+
  then have v: "get_int vals ''OriginalProxyEnable'' = Some 1" "str_or_empty vals ''OriginalProxyServer'' = []"
    by (simp_all add: get_int_def str_or_empty_def get_str_def)
  define ov where "ov = str_or_empty vals ''OriginalProxyOverride''"
  have "restoreHKCU env ?t = put_reg UserInet ((''ProxyEnable'', Some (DWord 1)) # (if ov \<noteq> [] then [(''ProxyOverride'', Some (Str ov))] else [])) ?t"
    using assms(1) by (simp add: restoreHKCU_def restore_hive_def query_reg vals v put_facts Let_def flip: ov_def)
  then have "effective UserInet (restoreHKCU env ?t) = Some (proxy_server h p, if ov \<noteq> [] then ov else ''<local>'')"
    by (simp add: effective_def reg_put taken_over_def hives_taken_def user_taken_def our_hive_def str_of_def)
  then show ?thesis by (simp add: unregister_user_hive[OF taken_marker[OF assms(1)]])
qed

text \<open>If the owner marker cannot be written the registration succeeds all the same, and unregistering leaves the proxy in place.\<close>

definition owner_value :: "win_machine \<Rightarrow> reg_value option" where
  "owner_value m = reg m AgentKey ''ProxyOwner''"

lemma owner_value_kept:
  assumes "\<not> we_sets env AgentKey ''ProxyOwner''"
  shows "owner_value (snd (set_value env k n v m)) = owner_value m" "create_key env k m = Some m1 \<Longrightarrow> owner_value m1 = owner_value m"
    "owner_value (m\<lparr>wm_winhttp := w\<rparr>) = owner_value m"
  using assms by (auto simp: owner_value_def reg_def set_value_def create_key_def split: if_splits option.splits)

lemma and_then_keeps: "owner_value (snd r) = v \<Longrightarrow> (\<And>m. owner_value m = v \<Longrightarrow> owner_value (snd (f m)) = v) \<Longrightarrow> owner_value (snd (and_then r f)) = v"
  by (auto simp: and_then_def split: prod.split bool.split)

lemma backup_keeps:
  assumes "\<not> we_sets env AgentKey ''ProxyOwner''"
  shows "owner_value (snd (backup_hive env k en sv ov m)) = owner_value m" "owner_value (snd (backupOriginal env m)) = owner_value m"
    "owner_value (snd (writeWinINETProxy env k s m)) = owner_value m"
proof -
  note k = owner_value_kept[OF assms]
  show h: "owner_value (snd (backup_hive env k en sv ov m)) = owner_value m" for k en sv ov m
    unfolding backup_hive_def split_beta by (intro and_then_keeps) (auto simp: k split: option.split)
  show "owner_value (snd (backupOriginal env m)) = owner_value m"
    unfolding backupOriginal_def by (auto simp: k split: option.split intro!: and_then_keeps h[THEN trans])
  show "owner_value (snd (writeWinINETProxy env k s m)) = owner_value m"
    unfolding writeWinINETProxy_def by (auto simp: k split: option.split intro!: and_then_keeps)
qed

lemma lost_marker_strands_proxy:
  assumes "\<not> we_sets env AgentKey ''ProxyOwner''" "\<not> hasOwnerMarker env m" "we_opens env AgentKey" "win_Register env h p (s, m) = (None, s', m')"
  shows "win_Unregister env (s', m') = (s', m')"
proof -
  note k = owner_value_kept[OF assms(1)] backup_keeps[OF assms(1)]
  have own: "hasOwnerMarker env x \<longleftrightarrow> owner_value x = Some (Str proxyOwnerValue)" for x
    using assms(3) by (auto simp: hasOwnerMarker_def owner_value_def reg_def open_query_def get_str_def split: option.splits reg_value.splits)
  have w: "owner_value (writeOwnerMarker env h p x) = owner_value x" for x
    by (auto simp: writeOwnerMarker_def k split: option.split)
  have b: "owner_value m1 = owner_value m" if "backupOriginal env m = (True, m1)" for m1 using k(5)[of m] that by simp
  have i: "owner_value x' = owner_value x" if "writeWinINETProxy env hive sv x = (True, x')" for hive sv x x' using k(6)[of hive sv x] that by simp
  have n: "owner_value x' = owner_value x" if "netsh_set env a b x = (True, x')" for a b x x' using that k(3) by (auto simp: netsh_set_def split: if_splits)
  have "owner_value m' = owner_value m"
    using assms(2,4) by (auto simp: win_Register_def w split: if_splits prod.splits bool.splits dest!: b i n)
  then show ?thesis using assms(2) by (simp add: win_Unregister_def own)
qed

text \<open>A listener on an IPv6 address is not recognised as the agent's own.\<close>

lemma ipv6_not_owned:
  "parseProxyServer (proxy_server ''::1'' 8080) = ([], 0)"
  "readWinINETProxy env UserInet m = (True, proxy_server ''::1'' 8080) \<Longrightarrow> \<not> ps_OwnedByAgent (win_State env (\<lparr>wp_regHost = ''::1'', wp_regPort = 8080\<rparr>, m))"
proof -
  show "parseProxyServer (proxy_server ''::1'' 8080) = ([], 0)" by code_simp
  then show "readWinINETProxy env UserInet m = (True, proxy_server ''::1'' 8080) \<Longrightarrow> \<not> ps_OwnedByAgent (win_State env (\<lparr>wp_regHost = ''::1'', wp_regPort = 8080\<rparr>, m))"
    by (simp add: win_State_def)
qed

text \<open>Re-registering after tampering takes the services that still point at the agent for the previous state, and restores that.\<close>

definition turn_off :: "channel \<Rightarrow> string \<Rightarrow> mac \<Rightarrow> mac" where
  "turn_off ch svc x = (case x of (env, r, m) \<Rightarrow> (env, r, put_setting ch svc idle_setting m))"

lemma repair_loses_previous_state:
  "mac_outside (mac_unregister (snd (mac_register ''127.0.0.1'' 8080 (turn_off Web ''Wi-Fi'' (snd (mac_register ''127.0.0.1'' 8080 sample_mac)))))) Web ''Ethernet'' =
     Some (''127.0.0.1'', 8080)"
  by code_simp

text \<open>A registration that fails part-way leaves the services it had already changed, and nothing owned to undo them.\<close>

definition half_mac :: mac where
  "half_mac = (case sample_mac of (env, rm) \<Rightarrow> (env\<lparr>me_set := (\<lambda>ch svc. svc = ''Wi-Fi'')\<rparr>, rm))"

lemma partial_registration_stays:
  "\<not> fst (mac_register ''127.0.0.1'' 8080 half_mac) \<and>
   mac_outside (mac_unregister (snd (mac_register ''127.0.0.1'' 8080 half_mac))) Web ''Wi-Fi'' = Some (''127.0.0.1'', 8080)"
  by code_simp

end
