(* ===== verification/Policy_Store.thy ===== *)
theory Policy_Store
  imports Gateway_Policy Backend_Enrollment
begin

text \<open>
  Policy rules in the backend's database (\<^verbatim>\<open>src/backend/internal/store/policy_v2.go\<close>, \<^verbatim>\<open>managed_dlp_policy.go\<close>,
  \<^verbatim>\<open>ai_governance.go\<close>) and their reading by the gateway (\<^verbatim>\<open>src/gateway/internal/store/postgres.go\<close>), on the tables of
  migrations 006 and 015 with their constraints.

  A statement fails, violates a constraint or takes effect, as in \<open>Backend_Store\<close>. Which row a query with
  \<^verbatim>\<open>LIMIT 1\<close> and no order returns, and how rows of equal priority are ordered, are parameters, and so are the identifiers
  that the database draws for the rules a request inserts, by organisation and name. Conditions are
  stored as the list itself; \<^verbatim>\<open>jsonb\<close> returns what was put in. Go's \<^verbatim>\<open>int\<close> is \<open>int\<close>, and the column takes 32 bits.
\<close>

section \<open>Rows\<close>

record policy_row =
  pv_ID :: string
  pv_OrgID :: string
  pv_Name :: string
  pv_Priority :: int
  pv_Enabled :: bool
  pv_Action :: string
  pv_Conditions :: "rule_condition list"
  pv_BlockReason :: "string option"
  pv_MatchHost :: "string option"
  pv_MatchPath :: "string option"
  pv_MatchMethod :: "string option"
  pv_Decision :: string
  pv_CreatedAt :: time
  pv_UpdatedAt :: time

record policy_input =
  pn_Name :: string
  pn_Priority :: int
  pn_Enabled :: bool
  pn_Action :: string
  pn_Conditions :: "rule_condition list"
  pn_BlockReason :: "string option"
  pn_MatchHost :: "string option"
  pn_MatchPath :: "string option"
  pn_MatchMethod :: "string option"
  pn_Decision :: string

record vendor_row =
  vg_OrgID :: string
  vg_AIVendor :: string
  vg_Sanctioned :: bool
  vg_RiskTier :: string
  vg_Notes :: "string option"
  vg_UpdatedBy :: "string option"
  vg_CreatedAt :: time
  vg_UpdatedAt :: time

text \<open>The two tables, beside those of \<open>Backend_Store\<close>.\<close>

record policy_tables =
  pt_base :: database
  pt_rules :: "policy_row list"
  pt_vendors :: "vendor_row list"

record policy_env =
  pe_db :: db_env
  pe_pick :: "policy_row list \<Rightarrow> policy_row"
  pe_order :: "policy_row list \<Rightarrow> policy_row list"
  pe_uuid :: "string \<Rightarrow> string \<Rightarrow> string"

datatype rule_error = MissingPart nat | InvalidAction string | VendorRequired | InvalidRiskTier string | Failed db_error

definition failing :: "db_error + 'a \<Rightarrow> rule_error + 'a" where
  "failing r = (case r of Inl e \<Rightarrow> Inl (Failed e) | Inr x \<Rightarrow> Inr x)"

section \<open>Normalisation\<close>

definition normalizePolicyAction :: "string \<Rightarrow> string \<Rightarrow> string" where
  "normalizePolicyAction action dec =
    (let a = canon action; d = canon dec in
     if a = ''allow'' \<or> a = ''alert'' \<or> a = ''block'' then a
     else if d = ''allow'' \<or> d = ''forward'' then ''allow''
     else if d = ''block'' \<or> d = ''deny'' then ''block''
     else ''alert'')"

definition actionToLegacyDecision :: "string \<Rightarrow> string" where
  "actionToLegacyDecision action = (if canon action = ''allow'' then ''allow'' else if canon action = ''block'' then ''block'' else ''log_only'')"

definition legacy_condition :: "string \<Rightarrow> string \<Rightarrow> string option \<Rightarrow> rule_condition list" where
  "legacy_condition field oper x = (case x of None \<Rightarrow> [] | Some s \<Rightarrow> if trim_space s = [] then [] else [condition field oper (trim_space s)])"

definition legacyConditionsFromFields :: "string option \<Rightarrow> string option \<Rightarrow> string option \<Rightarrow> rule_condition list" where
  "legacyConditionsFromFields matchHost matchPath matchMethod =
    legacy_condition ''host'' ''contains'' matchHost @ legacy_condition ''path'' ''contains'' matchPath @ legacy_condition ''method'' ''eq'' matchMethod"

fun legacyFieldsFromConditions ::
    "rule_condition list \<Rightarrow> string option \<times> string option \<times> string option \<Rightarrow> string option \<times> string option \<times> string option" where
  "legacyFieldsFromConditions [] (h, p, m) = (h, p, m)"
| "legacyFieldsFromConditions (c # cs) (h, p, m) =
    (let field = canon (rc_Field c); oper = canon (rc_Operator c); val = trim_space (rc_Value c) in
     if val = [] \<or> rc_Negate c then legacyFieldsFromConditions cs (h, p, m)
     else if field = ''host'' then
       legacyFieldsFromConditions cs (if h = None \<and> (oper = ''contains'' \<or> oper = ''eq'' \<or> oper = ''suffix'') then Some val else h, p, m)
     else if field = ''path'' then
       legacyFieldsFromConditions cs (h, if p = None \<and> (oper = ''contains'' \<or> oper = ''eq'' \<or> oper = ''prefix'') then Some val else p, m)
     else if field = ''method'' then legacyFieldsFromConditions cs (h, p, if m = None \<and> oper = ''eq'' then Some (map upper_char val) else m)
     else legacyFieldsFromConditions cs (h, p, m))"

fun trim_conditions :: "nat \<Rightarrow> rule_condition list \<Rightarrow> rule_error + rule_condition list" where
  "trim_conditions i [] = Inr []"
| "trim_conditions i (c # cs) =
    (if rc_Field (trim_condition c) = [] \<or> rc_Operator (trim_condition c) = [] then Inl (MissingPart i)
     else (case trim_conditions (i + 1) cs of Inl e \<Rightarrow> Inl e | Inr cs' \<Rightarrow> Inr (trim_condition c # cs')))"

definition int_text :: "int \<Rightarrow> string" where
  "int_text n = (if n < 0 then CHR ''-'' # nat_str (nat (- n)) else nat_str (nat n))"

definition default_name :: "int \<Rightarrow> string" where
  "default_name priority = ''Policy rule '' @ int_text priority"

text \<open>An optional text, trimmed; blank is none.\<close>

definition opt_trim :: "string option \<Rightarrow> string option" where
  "opt_trim x = (case x of None \<Rightarrow> None | Some s \<Rightarrow> if trim_space s = [] then None else Some (trim_space s))"

definition normalizePolicyInput :: "policy_input \<Rightarrow> rule_error + policy_input" where
  "normalizePolicyInput inp =
    (let priority = (if pn_Priority inp < 1 then 10 else pn_Priority inp);
         name = (if trim_space (pn_Name inp) = [] then default_name priority else trim_space (pn_Name inp));
         conds = (if pn_Conditions inp = [] then legacyConditionsFromFields (pn_MatchHost inp) (pn_MatchPath inp) (pn_MatchMethod inp) else pn_Conditions inp);
         raw = canon (pn_Action inp) in
     case trim_conditions 0 conds of
       Inl e \<Rightarrow> Inl e
     | Inr conds' \<Rightarrow>
        (let written = (\<lambda>action. Inr (inp\<lparr>pn_Priority := priority, pn_Name := name, pn_Conditions := conds', pn_Action := action, pn_BlockReason := opt_trim (pn_BlockReason inp)\<rparr>)) in
         if raw = [] then written (normalizePolicyAction [] (pn_Decision inp))
         else if raw = ''allow'' \<or> raw = ''alert'' \<or> raw = ''block'' then written raw
         else Inl (InvalidAction (pn_Action inp))))"

section \<open>Statements on rules\<close>

text \<open>The constraints of one row: a known organisation, a 32-bit priority, and the two column checks.\<close>

definition row_ok :: "database \<Rightarrow> policy_row \<Rightarrow> bool" where
  "row_ok db r = ((\<exists>o'\<in>set (db_organizations db). og_ID o' = pv_OrgID r) \<and> - (2 ^ 31) \<le> pv_Priority r \<and> pv_Priority r < 2 ^ 31 \<and>
     pv_Decision r \<in> set [''allow'', ''block'', ''log_only''] \<and> pv_Action r \<in> set [''allow'', ''alert'', ''block''])"

definition rule_key :: "policy_row \<Rightarrow> string \<times> int" where
  "rule_key r = (pv_OrgID r, pv_Priority r)"

definition insert_rule :: "policy_env \<Rightarrow> string \<Rightarrow> policy_row \<Rightarrow> policy_tables \<Rightarrow> db_error + policy_tables" where
  "insert_rule env call r t =
    (if dx_fails (pe_db env) call then Inl DBFailed
     else if \<not> row_ok (pt_base t) r then Inl ConstraintViolated
     else if \<exists>x\<in>set (pt_rules t). pv_ID x = pv_ID r \<or> rule_key x = rule_key r then Inl DuplicateKey
     else Inr (t\<lparr>pt_rules := pt_rules t @ [r]\<rparr>))"

definition update_rules :: "policy_env \<Rightarrow> string \<Rightarrow> (policy_row \<Rightarrow> bool) \<Rightarrow> (policy_row \<Rightarrow> policy_row) \<Rightarrow> policy_tables \<Rightarrow> db_error + policy_tables" where
  "update_rules env call P f t =
    (let rows = update_where P f (pt_rules t) in
     if dx_fails (pe_db env) call then Inl DBFailed
     else if \<exists>r\<in>set (pt_rules t). P r \<and> \<not> row_ok (pt_base t) (f r) then Inl ConstraintViolated
     else if \<not> distinct (map rule_key rows) then Inl DuplicateKey
     else Inr (t\<lparr>pt_rules := rows\<rparr>))"

text \<open>A query with \<^verbatim>\<open>LIMIT 1\<close>.\<close>

definition one_row :: "policy_env \<Rightarrow> (policy_row \<Rightarrow> bool) \<Rightarrow> policy_tables \<Rightarrow> policy_row option" where
  "one_row env P t = (case filter P (pt_rules t) of [] \<Rightarrow> None | rows \<Rightarrow> Some (pe_pick env rows))"

definition coalesced_name :: "policy_row \<Rightarrow> string" where
  "coalesced_name r = (if pv_Name r = [] then default_name (pv_Priority r) else pv_Name r)"

definition coalesced_action :: "policy_row \<Rightarrow> string" where
  "coalesced_action r =
    (if pv_Action r \<noteq> [] then pv_Action r
     else if pv_Decision r = ''allow'' then ''allow'' else if pv_Decision r = ''block'' then ''block'' else ''alert'')"

definition shown_conditions :: "policy_row \<Rightarrow> rule_condition list" where
  "shown_conditions r = (if pv_Conditions r = [] then legacyConditionsFromFields (pv_MatchHost r) (pv_MatchPath r) (pv_MatchMethod r) else pv_Conditions r)"

definition listed_rule :: "policy_row \<Rightarrow> policy_row" where
  "listed_rule r =
    (let action = normalizePolicyAction (coalesced_action r) (pv_Decision r) in
     r\<lparr>pv_Name := coalesced_name r, pv_Action := action, pv_Conditions := shown_conditions r, pv_Decision := actionToLegacyDecision action\<rparr>)"

definition ListPolicyRulesV2 :: "policy_env \<Rightarrow> string \<Rightarrow> policy_tables \<Rightarrow> db_error + policy_row list" where
  "ListPolicyRulesV2 env orgID t =
    run_statement (pe_db env) ''ListPolicyRulesV2'' (map listed_rule (pe_order env (filter (\<lambda>r. pv_OrgID r = orgID) (pt_rules t))))"

text \<open>The columns that a creation and an update write.\<close>

definition write_columns :: "policy_input \<Rightarrow> policy_row \<Rightarrow> policy_row" where
  "write_columns inp' r =
    (case legacyFieldsFromConditions (pn_Conditions inp') (None, None, None) of (h, p, m) \<Rightarrow>
      r\<lparr>pv_Name := pn_Name inp', pv_Priority := pn_Priority inp', pv_Enabled := pn_Enabled inp', pv_Action := pn_Action inp', pv_Conditions := pn_Conditions inp',
        pv_BlockReason := pn_BlockReason inp', pv_MatchHost := (if h = None then pn_MatchHost inp' else h), pv_MatchPath := (if p = None then pn_MatchPath inp' else p),
        pv_MatchMethod := (if m = None then pn_MatchMethod inp' else m), pv_Decision := actionToLegacyDecision (pn_Action inp')\<rparr>)"

definition returned_rule :: "policy_row \<Rightarrow> policy_row" where
  "returned_rule r = r\<lparr>pv_Conditions := shown_conditions r, pv_Decision := actionToLegacyDecision (pv_Action r)\<rparr>"

definition new_row :: "policy_env \<Rightarrow> string \<Rightarrow> string \<Rightarrow> policy_row" where
  "new_row env orgID name =
    \<lparr>pv_ID = pe_uuid env orgID name, pv_OrgID = orgID, pv_Name = name, pv_Priority = 0, pv_Enabled = True, pv_Action = ''alert'', pv_Conditions = [], pv_BlockReason = None,
     pv_MatchHost = None, pv_MatchPath = None, pv_MatchMethod = None, pv_Decision = [], pv_CreatedAt = dx_now (pe_db env), pv_UpdatedAt = dx_now (pe_db env)\<rparr>"

definition CreatePolicyRuleV2 :: "policy_env \<Rightarrow> string \<Rightarrow> policy_input \<Rightarrow> policy_tables \<Rightarrow> rule_error + policy_row \<times> policy_tables" where
  "CreatePolicyRuleV2 env orgID inp t =
    (case normalizePolicyInput inp of
       Inl e \<Rightarrow> Inl e
     | Inr inp' \<Rightarrow>
        (let row = write_columns inp' (new_row env orgID (pn_Name inp')) in
         case insert_rule env ''CreatePolicyRuleV2'' row t of Inl e \<Rightarrow> Inl (Failed e) | Inr t' \<Rightarrow> Inr (returned_rule row, t')))"

text \<open>No row is the missing rule.\<close>

definition UpdatePolicyRuleV2 :: "policy_env \<Rightarrow> string \<Rightarrow> string \<Rightarrow> policy_input \<Rightarrow> policy_tables \<Rightarrow> rule_error + policy_row option \<times> policy_tables" where
  "UpdatePolicyRuleV2 env orgID i inp t =
    (case normalizePolicyInput inp of
       Inl e \<Rightarrow> Inl e
     | Inr inp' \<Rightarrow>
        (let hit = (\<lambda>r. pv_ID r = i \<and> pv_OrgID r = orgID); write = (\<lambda>r. (write_columns inp' r)\<lparr>pv_UpdatedAt := dx_now (pe_db env)\<rparr>) in
         case update_rules env ''UpdatePolicyRuleV2'' hit write t of
           Inl e \<Rightarrow> Inl (Failed e)
         | Inr t' \<Rightarrow> Inr (map_option (\<lambda>r. returned_rule (write r)) (find hit (pt_rules t)), t')))"

text \<open>The flag says whether a row was deleted; \<^verbatim>\<open>sql.ErrNoRows\<close> otherwise.\<close>

definition DeletePolicyRuleV2 :: "policy_env \<Rightarrow> string \<Rightarrow> string \<Rightarrow> policy_tables \<Rightarrow> db_error + bool \<times> policy_tables" where
  "DeletePolicyRuleV2 env orgID i t =
    run_statement (pe_db env) ''DeletePolicyRuleV2''
      (\<exists>r\<in>set (pt_rules t). pv_ID r = i \<and> pv_OrgID r = orgID, t\<lparr>pt_rules := filter (\<lambda>r. \<not> (pv_ID r = i \<and> pv_OrgID r = orgID)) (pt_rules t)\<rparr>)"

section \<open>Managed rules\<close>

record managed_policy =
  mp_Name :: string
  mp_Priority :: int
  mp_Action :: string
  mp_BlockReason :: string
  mp_Conditions :: "rule_condition list"

definition ai_traffic_with :: "string \<Rightarrow> rule_condition list" where
  "ai_traffic_with field = [condition ''service_category'' ''prefix'' ''ai_'', condition field ''eq'' ''true'']"

definition managedAIDLPPolicyDefinitions :: "managed_policy list" where
  "managedAIDLPPolicyDefinitions =
    [\<lparr>mp_Name = ''Managed: AI Credentials Block'', mp_Priority = 8000, mp_Action = ''block'',
      mp_BlockReason = ''Sensitive credentials were detected in AI traffic.'', mp_Conditions = ai_traffic_with ''body_contains_credentials''\<rparr>,
     \<lparr>mp_Name = ''Managed: AI PII Alert'', mp_Priority = 8100, mp_Action = ''alert'',
      mp_BlockReason = ''Potentially sensitive personal data was detected in AI traffic.'', mp_Conditions = ai_traffic_with ''body_contains_pii''\<rparr>,
     \<lparr>mp_Name = ''Managed: AI Source Code Alert'', mp_Priority = 8110, mp_Action = ''alert'',
      mp_BlockReason = ''Potentially sensitive source code was detected in AI traffic.'', mp_Conditions = ai_traffic_with ''body_contains_source_code''\<rparr>,
     \<lparr>mp_Name = ''Managed: AI DLP Match Alert'', mp_Priority = 8120, mp_Action = ''alert'',
      mp_BlockReason = ''Policy keyword or custom DLP rule matched in AI traffic.'', mp_Conditions = ai_traffic_with ''body_has_dlp_match''\<rparr>]"

definition managed_columns :: "managed_policy \<Rightarrow> policy_row \<Rightarrow> policy_row" where
  "managed_columns def r =
    r\<lparr>pv_Priority := mp_Priority def, pv_Enabled := True, pv_Action := mp_Action def, pv_Conditions := mp_Conditions def,
      pv_BlockReason := Some (mp_BlockReason def), pv_Decision := actionToLegacyDecision (mp_Action def)\<rparr>"

definition upsertManagedPolicy :: "policy_env \<Rightarrow> string \<Rightarrow> managed_policy \<Rightarrow> policy_tables \<Rightarrow> db_error + policy_tables" where
  "upsertManagedPolicy env orgID def t =
    (if dx_fails (pe_db env) ''SelectManaged'' then Inl DBFailed
     else (case one_row env (\<lambda>r. pv_OrgID r = orgID \<and> pv_Name r = mp_Name def) t of
       None \<Rightarrow> insert_rule env ''InsertManaged'' (managed_columns def (new_row env orgID (mp_Name def))) t
     | Some x \<Rightarrow> update_rules env ''UpdateManaged'' (\<lambda>r. pv_ID r = pv_ID x)
         (\<lambda>r. (managed_columns def r)\<lparr>pv_UpdatedAt := dx_now (pe_db env)\<rparr>) t))"

text \<open>One definition after the other; what came before a failure stays.\<close>

fun ensure_managed :: "policy_env \<Rightarrow> string \<Rightarrow> managed_policy list \<Rightarrow> policy_tables \<Rightarrow> db_error option \<times> policy_tables" where
  "ensure_managed env orgID [] t = (None, t)"
| "ensure_managed env orgID (def # defs) t =
    (case upsertManagedPolicy env orgID def t of Inl e \<Rightarrow> (Some e, t) | Inr t' \<Rightarrow> ensure_managed env orgID defs t')"

definition EnsureManagedAIDLPPolicies :: "policy_env \<Rightarrow> string \<Rightarrow> policy_tables \<Rightarrow> db_error option \<times> policy_tables" where
  "EnsureManagedAIDLPPolicies env orgID t = ensure_managed env orgID managedAIDLPPolicyDefinitions t"

fun ensure_all :: "policy_env \<Rightarrow> string list \<Rightarrow> policy_tables \<Rightarrow> db_error option \<times> policy_tables" where
  "ensure_all env [] t = (None, t)"
| "ensure_all env (orgID # orgs) t =
    (case EnsureManagedAIDLPPolicies env orgID t of (Some e, t') \<Rightarrow> (Some e, t') | (None, t') \<Rightarrow> ensure_all env orgs t')"

definition EnsureManagedAIDLPPoliciesForAllOrgs :: "policy_env \<Rightarrow> policy_tables \<Rightarrow> db_error option \<times> policy_tables" where
  "EnsureManagedAIDLPPoliciesForAllOrgs env t =
    (if dx_fails (pe_db env) ''GetOrganizationByAPIKeyHash'' then (Some DBFailed, t)
     else ensure_all env (map og_ID (filter (\<lambda>o'. og_Status o' = ''active'') (db_organizations (pt_base t)))) t)"

section \<open>Governance of vendors\<close>

definition find_vendor :: "string \<Rightarrow> string \<Rightarrow> policy_tables \<Rightarrow> vendor_row option" where
  "find_vendor orgID vendor t = find (\<lambda>v. vg_OrgID v = orgID \<and> vg_AIVendor v = vendor) (pt_vendors t)"

definition GetAIVendorGovernance :: "policy_env \<Rightarrow> string \<Rightarrow> string \<Rightarrow> policy_tables \<Rightarrow> rule_error + vendor_row option" where
  "GetAIVendorGovernance env orgID aiVendor t =
    (if canon aiVendor = [] then Inl VendorRequired
     else failing (run_statement (pe_db env) ''GetAIVendorGovernance'' (find_vendor orgID (canon aiVendor) t)))"

text \<open>In the order of the vendors, which are unique in an organisation.\<close>

definition ListAIVendorGovernance :: "policy_env \<Rightarrow> string \<Rightarrow> policy_tables \<Rightarrow> db_error + vendor_row list" where
  "ListAIVendorGovernance env orgID t =
    run_statement (pe_db env) ''ListAIVendorGovernance'' (sort_key vg_AIVendor (filter (\<lambda>v. vg_OrgID v = orgID) (pt_vendors t)))"

definition vendor_columns :: "policy_env \<Rightarrow> string \<Rightarrow> vendor_row \<Rightarrow> vendor_row \<Rightarrow> vendor_row" where
  "vendor_columns env tier inp v =
    v\<lparr>vg_Sanctioned := vg_Sanctioned inp, vg_RiskTier := tier, vg_Notes := opt_trim (vg_Notes inp), vg_UpdatedBy := opt_trim (vg_UpdatedBy inp),
      vg_UpdatedAt := dx_now (pe_db env)\<rparr>"

definition UpsertAIVendorGovernance :: "policy_env \<Rightarrow> string \<Rightarrow> vendor_row \<Rightarrow> policy_tables \<Rightarrow> rule_error + vendor_row \<times> policy_tables" where
  "UpsertAIVendorGovernance env orgID inp t =
    (let vendor = canon (vg_AIVendor inp);
         tier = (if canon (vg_RiskTier inp) = [] then ''medium'' else canon (vg_RiskTier inp)) in
     if vendor = [] then Inl VendorRequired
     else if tier \<notin> set [''low'', ''medium'', ''high'', ''critical''] then Inl (InvalidRiskTier tier)
     else if dx_fails (pe_db env) ''UpsertAIVendorGovernance'' then Inl (Failed DBFailed)
     else if \<not> (\<exists>o'\<in>set (db_organizations (pt_base t)). og_ID o' = orgID) then Inl (Failed ConstraintViolated)
     else (case find_vendor orgID vendor t of
       None \<Rightarrow>
        (let v = vendor_columns env tier inp
               \<lparr>vg_OrgID = orgID, vg_AIVendor = vendor, vg_Sanctioned = False, vg_RiskTier = tier, vg_Notes = None, vg_UpdatedBy = None,
                vg_CreatedAt = dx_now (pe_db env), vg_UpdatedAt = dx_now (pe_db env)\<rparr> in
         Inr (v, t\<lparr>pt_vendors := pt_vendors t @ [v]\<rparr>))
     | Some v \<Rightarrow>
         Inr (vendor_columns env tier inp v,
           t\<lparr>pt_vendors := update_where (\<lambda>v. vg_OrgID v = orgID \<and> vg_AIVendor v = vendor) (vendor_columns env tier inp) (pt_vendors t)\<rparr>)))"

definition unsanctionedBlockRuleName :: "string \<Rightarrow> string" where
  "unsanctionedBlockRuleName vendor = ''Auto: Block unsanctioned AI - '' @ canon vendor"

definition block_columns :: "string \<Rightarrow> policy_row \<Rightarrow> policy_row" where
  "block_columns vendor r =
    r\<lparr>pv_Enabled := True, pv_Action := ''block'', pv_Conditions := [condition ''ai_vendor'' ''eq'' vendor],
      pv_BlockReason := Some (''Unsanctioned AI vendor blocked ('' @ vendor @ '')''), pv_Decision := ''block''\<rparr>"

text \<open>\<^verbatim>\<open>COALESCE(GREATEST(MAX(priority) + 1, 9000), 9000)\<close>; a maximum that overflows its column fails.\<close>

definition last_priority :: "string \<Rightarrow> policy_tables \<Rightarrow> int" where
  "last_priority orgID t =
    (case map pv_Priority (filter (\<lambda>r. pv_OrgID r = orgID) (pt_rules t)) of [] \<Rightarrow> 9000 | p # ps \<Rightarrow> max (fold max ps p + 1) 9000)"

definition EnsureUnsanctionedBlockRule :: "policy_env \<Rightarrow> string \<Rightarrow> string \<Rightarrow> policy_tables \<Rightarrow> rule_error + policy_tables" where
  "EnsureUnsanctionedBlockRule env orgID aiVendor t =
    (let vendor = canon aiVendor; name = unsanctionedBlockRuleName vendor in
     if vendor = [] then Inl VendorRequired
     else if dx_fails (pe_db env) ''SelectBlockRule'' then Inl (Failed DBFailed)
     else failing (case one_row env (\<lambda>r. pv_OrgID r = orgID \<and> pv_Name r = name) t of
       None \<Rightarrow> insert_rule env ''InsertBlockRule'' (block_columns vendor ((new_row env orgID name)\<lparr>pv_Priority := last_priority orgID t\<rparr>)) t
     | Some x \<Rightarrow> update_rules env ''UpdateBlockRule'' (\<lambda>r. pv_ID r = pv_ID x)
         (\<lambda>r. (block_columns vendor r)\<lparr>pv_UpdatedAt := dx_now (pe_db env)\<rparr>) t))"

definition DisableUnsanctionedBlockRule :: "policy_env \<Rightarrow> string \<Rightarrow> string \<Rightarrow> policy_tables \<Rightarrow> rule_error + policy_tables" where
  "DisableUnsanctionedBlockRule env orgID aiVendor t =
    (let vendor = canon aiVendor in
     if vendor = [] then Inl VendorRequired
     else failing (update_rules env ''DisableUnsanctionedBlockRule'' (\<lambda>r. pv_OrgID r = orgID \<and> pv_Name r = unsanctionedBlockRuleName vendor)
        (\<lambda>r. r\<lparr>pv_Enabled := False, pv_UpdatedAt := dx_now (pe_db env)\<rparr>) t))"

section \<open>The gateway's reading\<close>

definition store_rule_of :: "policy_row \<Rightarrow> store_rule" where
  "store_rule_of r =
    \<lparr>sr_ID = pv_ID r, sr_OrgID = pv_OrgID r, sr_Priority = pv_Priority r, sr_Name = coalesced_name r, sr_MatchHost = pv_MatchHost r, sr_MatchPath = pv_MatchPath r,
     sr_MatchMethod = pv_MatchMethod r, sr_Decision = pv_Decision r, sr_Action = coalesced_action r, sr_Conditions = pv_Conditions r, sr_BlockReason = pv_BlockReason r\<rparr>"

definition GetAllPolicyRules :: "policy_env \<Rightarrow> policy_tables \<Rightarrow> store_rule list option" where
  "GetAllPolicyRules env t =
    (if dx_fails (pe_db env) ''GetAllPolicyRules'' then None else Some (map store_rule_of (pe_order env (filter pv_Enabled (pt_rules t)))))"

section \<open>What the statements keep\<close>

text \<open>
  A rule as the application writes it: named, with a positive priority, an action and the matching older decision,
  and complete trimmed conditions; where it has none, its older columns are blank.
\<close>

definition complete_condition :: "rule_condition \<Rightarrow> bool" where
  "complete_condition c \<longleftrightarrow> rc_Field c \<noteq> [] \<and> rc_Operator c \<noteq> [] \<and> trim_condition c = c"

definition rule_sound :: "policy_row \<Rightarrow> bool" where
  "rule_sound r \<longleftrightarrow> pv_Name r \<noteq> [] \<and> 1 \<le> pv_Priority r \<and> pv_Action r \<in> set [''allow'', ''alert'', ''block''] \<and>
     pv_Decision r = actionToLegacyDecision (pv_Action r) \<and> list_all complete_condition (pv_Conditions r) \<and>
     (pv_Conditions r = [] \<longrightarrow> opt_trim (pv_MatchHost r) = None \<and> opt_trim (pv_MatchPath r) = None \<and> opt_trim (pv_MatchMethod r) = None)"

definition tables_sound :: "policy_tables \<Rightarrow> bool" where
  "tables_sound t \<longleftrightarrow> distinct (map pv_ID (pt_rules t)) \<and> distinct (map rule_key (pt_rules t)) \<and>
     list_all (\<lambda>r. row_ok (pt_base t) r \<and> rule_sound r) (pt_rules t)"

text \<open>A change of a row that keeps its identity and its soundness.\<close>

definition keeps_row :: "(policy_row \<Rightarrow> policy_row) \<Rightarrow> bool" where
  "keeps_row f \<longleftrightarrow> (\<forall>r. pv_ID (f r) = pv_ID r \<and> pv_OrgID (f r) = pv_OrgID r \<and> (rule_sound r \<longrightarrow> rule_sound (f r)))"

lemma insert_sound:
  assumes "insert_rule env call r t = Inr t'" "tables_sound t" "rule_sound r"
  shows "tables_sound t'"
proof -
  have t: "t' = t\<lparr>pt_rules := pt_rules t @ [r]\<rparr>" "row_ok (pt_base t) r" "\<forall>x\<in>set (pt_rules t). pv_ID x \<noteq> pv_ID r \<and> rule_key x \<noteq> rule_key r"
    using assms(1) by (auto simp: insert_rule_def split: if_splits)
  then have "pv_ID r \<notin> pv_ID ` set (pt_rules t)" "rule_key r \<notin> rule_key ` set (pt_rules t)" by (metis imageE)+
  then show ?thesis using t(2) assms(2,3) by (simp add: t(1) tables_sound_def)
qed

lemma insert_done: "insert_rule env call r t = Inr t' \<Longrightarrow> t' = t\<lparr>pt_rules := pt_rules t @ [r]\<rparr>"
  by (auto simp: insert_rule_def split: if_splits)

lemma update_done: "update_rules env call P f t = Inr t' \<Longrightarrow> t' = t\<lparr>pt_rules := update_where P f (pt_rules t)\<rparr>"
  by (auto simp: update_rules_def Let_def split: if_splits)

lemma update_sound:
  assumes "update_rules env call P f t = Inr t'" "tables_sound t" "keeps_row f"
  shows "tables_sound t'"
proof -
  have i: "map pv_ID (update_where P f (pt_rules t)) = map pv_ID (pt_rules t)" by (rule map_update_where) (use assms(3) in \<open>simp add: keeps_row_def\<close>)
  have k: "distinct (map rule_key (update_where P f (pt_rules t)))" and ok: "\<forall>r\<in>set (pt_rules t). P r \<longrightarrow> row_ok (pt_base t) (f r)"
    using assms(1) by (auto simp: update_rules_def Let_def split: if_splits)
  have "list_all (\<lambda>r. row_ok (pt_base t) r \<and> rule_sound r) (update_where P f (pt_rules t))"
    using ok assms(2,3) by (auto simp: update_where_def list_all_iff tables_sound_def keeps_row_def)
  then show ?thesis using i k assms(2) by (simp add: update_done[OF assms(1)] tables_sound_def)
qed

lemma one_row_in:
  assumes "one_row env P t = Some x" "\<And>rows. rows \<noteq> [] \<Longrightarrow> pe_pick env rows \<in> set rows"
  shows "x \<in> set (pt_rules t)" "P x"
proof -
  have "filter P (pt_rules t) \<noteq> []" "x = pe_pick env (filter P (pt_rules t))" using assms(1) by (auto simp: one_row_def split: list.splits)
  then have "x \<in> set (filter P (pt_rules t))" using assms(2) by blast
  then show "x \<in> set (pt_rules t)" "P x" by simp_all
qed

lemma one_row_none: "one_row env P t = None \<longleftrightarrow> (\<forall>r\<in>set (pt_rules t). \<not> P r)"
proof -
  have "one_row env P t = None \<longleftrightarrow> filter P (pt_rules t) = []" by (simp add: one_row_def split: list.split)
  then show ?thesis by (simp add: filter_empty_conv)
qed

text \<open>What normalisation gives.\<close>

lemma trim_condition_idem: "trim_condition (trim_condition c) = trim_condition c"
  by (simp add: trim_condition_def)

lemma trim_conditions_ok: "trim_conditions i cs = Inr cs' \<Longrightarrow> cs' = map trim_condition cs \<and> list_all complete_condition cs'"
proof (induction cs arbitrary: i cs')
  case (Cons c cs)
  then show ?case by (auto simp: complete_condition_def trim_condition_idem split: if_splits sum.splits)
qed simp

lemma legacy_blank: "legacyConditionsFromFields h p m = [] \<longleftrightarrow> opt_trim h = None \<and> opt_trim p = None \<and> opt_trim m = None"
  by (auto simp: legacyConditionsFromFields_def legacy_condition_def opt_trim_def split: option.splits)

lemma legacy_fields_empty: "legacyFieldsFromConditions [] acc = acc"
  by (cases acc) simp

lemma default_name_nonempty: "default_name p \<noteq> []"
  by (simp add: default_name_def)

lemma normalized:
  assumes "normalizePolicyInput inp = Inr out"
  shows "pn_Name out \<noteq> []" "1 \<le> pn_Priority out" "pn_Action out \<in> set [''allow'', ''alert'', ''block'']" "list_all complete_condition (pn_Conditions out)"
    "pn_Conditions out = [] \<Longrightarrow> opt_trim (pn_MatchHost out) = None \<and> opt_trim (pn_MatchPath out) = None \<and> opt_trim (pn_MatchMethod out) = None"
    "pn_Enabled out = pn_Enabled inp" "pn_MatchHost out = pn_MatchHost inp" "pn_MatchPath out = pn_MatchPath inp" "pn_MatchMethod out = pn_MatchMethod inp"
    "pn_Conditions out = map trim_condition (if pn_Conditions inp = [] then legacyConditionsFromFields (pn_MatchHost inp) (pn_MatchPath inp) (pn_MatchMethod inp) else pn_Conditions inp)"
proof -
  let ?conds = "if pn_Conditions inp = [] then legacyConditionsFromFields (pn_MatchHost inp) (pn_MatchPath inp) (pn_MatchMethod inp) else pn_Conditions inp"
  obtain cs where cs: "trim_conditions 0 ?conds = Inr cs" using assms by (auto simp: normalizePolicyInput_def Let_def split: sum.splits)
  have action: "normalizePolicyAction [] d \<in> set [''allow'', ''alert'', ''block'']" for d by (simp add: normalizePolicyAction_def Let_def)
  obtain a where out: "out = inp\<lparr>pn_Priority := (if pn_Priority inp < 1 then 10 else pn_Priority inp),
      pn_Name := (if trim_space (pn_Name inp) = [] then default_name (if pn_Priority inp < 1 then 10 else pn_Priority inp) else trim_space (pn_Name inp)),
      pn_Conditions := cs, pn_Action := a, pn_BlockReason := opt_trim (pn_BlockReason inp)\<rparr>" "a \<in> set [''allow'', ''alert'', ''block'']"
    using assms action cs by (auto simp: normalizePolicyInput_def Let_def split: if_splits)
  note c = trim_conditions_ok[OF cs]
  show "pn_Name out \<noteq> []" using default_name_nonempty by (simp add: out(1))
  show "1 \<le> pn_Priority out" by (simp add: out(1))
  show "pn_Action out \<in> set [''allow'', ''alert'', ''block'']" using out(2) by (simp add: out(1))
  show "list_all complete_condition (pn_Conditions out)" using conjunct2[OF c] by (simp add: out(1))
  show "pn_Conditions out = map trim_condition ?conds" using conjunct1[OF c] by (simp add: out(1))
  show "opt_trim (pn_MatchHost out) = None \<and> opt_trim (pn_MatchPath out) = None \<and> opt_trim (pn_MatchMethod out) = None" if "pn_Conditions out = []"
    using that c by (simp add: out(1) legacy_blank split: if_splits)
qed (use assms in \<open>auto simp: normalizePolicyInput_def Let_def split: sum.splits if_splits\<close>)

lemma written_sound:
  assumes "normalizePolicyInput inp = Inr out"
  shows "rule_sound (write_columns out r)" "pv_ID (write_columns out r) = pv_ID r" "pv_OrgID (write_columns out r) = pv_OrgID r"
proof -
  obtain h p m where f: "legacyFieldsFromConditions (pn_Conditions out) (None, None, None) = (h, p, m)" by (metis prod_cases3)
  then have "pn_Conditions out = [] \<Longrightarrow> h = None \<and> p = None \<and> m = None" by auto
  then show "rule_sound (write_columns out r)"
    using normalized(1-5)[OF assms] by (auto simp: rule_sound_def write_columns_def f)
qed (simp_all add: write_columns_def split: prod.split)

lemma managed_sound: "def \<in> set managedAIDLPPolicyDefinitions \<Longrightarrow> pv_Name r \<noteq> [] \<Longrightarrow> rule_sound (managed_columns def r)"
proof -
  have "list_all (\<lambda>def. 1 \<le> mp_Priority def \<and> mp_Action def \<in> set [''allow'', ''alert'', ''block''] \<and> mp_Conditions def \<noteq> [] \<and>
      list_all complete_condition (mp_Conditions def) \<and> mp_Name def \<noteq> []) managedAIDLPPolicyDefinitions" by code_simp
  then show "def \<in> set managedAIDLPPolicyDefinitions \<Longrightarrow> pv_Name r \<noteq> [] \<Longrightarrow> rule_sound (managed_columns def r)"
    by (auto simp: list_all_iff rule_sound_def managed_columns_def)
qed

lemma block_sound: "canon vendor = vendor \<Longrightarrow> pv_Name r \<noteq> [] \<Longrightarrow> 1 \<le> pv_Priority r \<Longrightarrow> rule_sound (block_columns vendor r)"
proof -
  assume a: "canon vendor = vendor" "pv_Name r \<noteq> []" "1 \<le> pv_Priority r"
  have "trim_space vendor = vendor" using a(1) by (metis canon_def to_lower_trim_space trim_space_idem)
  moreover have "trim_space ''ai_vendor'' = ''ai_vendor''" "trim_space ''eq'' = ''eq''" "actionToLegacyDecision ''block'' = ''block''" by code_simp+
  ultimately show ?thesis using a(2,3)
    by (simp add: rule_sound_def block_columns_def complete_condition_def trim_condition_def condition_def)
qed

end
