(* ===== verification/Policy_Admin.thy ===== *)
theory Policy_Admin
  imports Policy_Store Policy_Delivery
begin

text \<open>
  The administration of policy in the dashboard (\<^verbatim>\<open>src/backend/internal/api/policy_handler.go\<close>,
  \<^verbatim>\<open>ai_governance_handler.go\<close>) and what becomes of it: the rules that an administrator writes are read by the gateway,
  delivered to the agents and enforced by both.

  A handler gets the user that the session check found, the decoded body (none where it is not JSON) and the
  tables. A refusal carries its status and code; texts are left out.
\<close>

section \<open>Requests\<close>

record policyRuleRequest =
  qr_Name :: string
  qr_Priority :: int
  qr_Enabled :: "bool option"
  qr_Action :: string
  qr_Conditions :: "rule_condition list"
  qr_BlockReason :: "string option"
  qr_MatchHost :: "string option"
  qr_MatchPath :: "string option"
  qr_MatchMethod :: "string option"
  qr_Decision :: string

definition rule_input :: "policyRuleRequest \<Rightarrow> policy_input" where
  "rule_input req =
    \<lparr>pn_Name = qr_Name req, pn_Priority = qr_Priority req, pn_Enabled = (case qr_Enabled req of None \<Rightarrow> True | Some b \<Rightarrow> b), pn_Action = qr_Action req,
     pn_Conditions = qr_Conditions req, pn_BlockReason = qr_BlockReason req, pn_MatchHost = qr_MatchHost req, pn_MatchPath = qr_MatchPath req,
     pn_MatchMethod = qr_MatchMethod req, pn_Decision = qr_Decision req\<rparr>"

definition unauthorized :: refusal where
  "unauthorized = (401, ''UNAUTHORIZED'')"

definition invalid_request :: refusal where
  "invalid_request = (400, ''INVALID_REQUEST'')"

definition clientIPFromRequest :: "header \<Rightarrow> string \<Rightarrow> string option" where
  "clientIPFromRequest headers remoteAddr =
    (let ip = trim_space (hd (split_on (CHR '','') (trim_space (header_Get ''X-Forwarded-For'' headers)))); remote = trim_space remoteAddr in
     if ip \<noteq> [] then Some ip
     else if remote = [] then None
     else (case split_host_port remote of None \<Rightarrow> Some remote | Some (host, _) \<Rightarrow> if host = [] then None else Some host))"

section \<open>Rules\<close>

definition validPolicyEnforcementOverride :: "string \<Rightarrow> bool" where
  "validPolicyEnforcementOverride mode = (mode \<in> set [[], ''monitor'', ''alert'', ''enforce''])"

definition policyEnforcementOverride :: "policy_env \<Rightarrow> string \<Rightarrow> policy_tables \<Rightarrow> string" where
  "policyEnforcementOverride env orgID t =
    (if dx_fails (pe_db env) ''GetPromptEnforcementOverride'' then []
     else (let mode = canon (case find (\<lambda>o'. og_ID o' = orgID) (db_organizations (pt_base t)) of None \<Rightarrow> [] | Some o' \<Rightarrow> og_PromptOverride o') in
       if validPolicyEnforcementOverride mode then mode else []))"

definition handleListPolicies :: "policy_env \<Rightarrow> admin_user option \<Rightarrow> policy_tables \<Rightarrow> (policy_row list \<times> string) answer \<times> policy_tables" where
  "handleListPolicies env user t =
    (case user of
       None \<Rightarrow> (Refused unauthorized, t)
     | Some u \<Rightarrow>
        (let t1 = snd (EnsureManagedAIDLPPolicies env (us_OrgID u) t) in
         case ListPolicyRulesV2 env (us_OrgID u) t1 of
           Inl _ \<Rightarrow> (Refused internal_error, t1)
         | Inr rules \<Rightarrow> (Answered 200 (rules, policyEnforcementOverride env (us_OrgID u) t1), t1)))"

definition handleGetPolicyEnforcement :: "policy_env \<Rightarrow> admin_user option \<Rightarrow> policy_tables \<Rightarrow> string answer" where
  "handleGetPolicyEnforcement env user t =
    (case user of None \<Rightarrow> Refused unauthorized | Some u \<Rightarrow> Answered 200 (policyEnforcementOverride env (us_OrgID u) t))"

definition handleUpdatePolicyEnforcement :: "unit answer" where
  "handleUpdatePolicyEnforcement = Refused (403, ''OPS_ONLY'')"

definition handleCreatePolicy :: "policy_env \<Rightarrow> admin_user option \<Rightarrow> policyRuleRequest option \<Rightarrow> policy_tables \<Rightarrow> policy_row answer \<times> policy_tables" where
  "handleCreatePolicy env user body t =
    (case user of
       None \<Rightarrow> (Refused unauthorized, t)
     | Some u \<Rightarrow>
        (case body of
           None \<Rightarrow> (Refused invalid_request, t)
         | Some req \<Rightarrow>
            (case CreatePolicyRuleV2 env (us_OrgID u) (rule_input req) t of
               Inl _ \<Rightarrow> (Refused invalid_request, t)
             | Inr (rule, t') \<Rightarrow> (Answered 201 rule, t'))))"

definition handleUpdatePolicy :: "policy_env \<Rightarrow> admin_user option \<Rightarrow> string \<Rightarrow> policyRuleRequest option \<Rightarrow> policy_tables \<Rightarrow> policy_row answer \<times> policy_tables" where
  "handleUpdatePolicy env user policyID body t =
    (case user of
       None \<Rightarrow> (Refused unauthorized, t)
     | Some u \<Rightarrow>
        (case body of
           None \<Rightarrow> (Refused invalid_request, t)
         | Some req \<Rightarrow>
            (case UpdatePolicyRuleV2 env (us_OrgID u) policyID (rule_input req) t of
               Inl _ \<Rightarrow> (Refused invalid_request, t)
             | Inr (None, t') \<Rightarrow> (Refused (404, ''NOT_FOUND''), t')
             | Inr (Some rule, t') \<Rightarrow> (Answered 200 rule, t'))))"

definition handleDeletePolicy :: "policy_env \<Rightarrow> admin_user option \<Rightarrow> string \<Rightarrow> policy_tables \<Rightarrow> unit answer \<times> policy_tables" where
  "handleDeletePolicy env user policyID t =
    (case user of
       None \<Rightarrow> (Refused unauthorized, t)
     | Some u \<Rightarrow>
        (case DeletePolicyRuleV2 env (us_OrgID u) policyID t of
           Inl _ \<Rightarrow> (Refused internal_error, t)
         | Inr (False, t') \<Rightarrow> (Refused internal_error, t')
         | Inr (True, t') \<Rightarrow> (Answered 200 (), t')))"

section \<open>Trying a rule\<close>

record policyTestContext =
  tx_Host :: string
  tx_Path :: string
  tx_Method :: string
  tx_Scheme :: string
  tx_ProcessName :: string
  tx_ProcessPath :: string
  tx_ProcessUser :: string
  tx_ProcessBundle :: string
  tx_ProcessSigner :: string
  tx_ProcessSigned :: bool
  tx_ServiceCategory :: string
  tx_AIVendor :: string
  tx_BodyContainsPII :: bool
  tx_BodyContainsCredentials :: bool
  tx_BodyContainsSourceCode :: bool
  tx_BodyHasDLPMatch :: bool

definition resolvePolicyTestField :: "string \<Rightarrow> policyTestContext \<Rightarrow> string" where
  "resolvePolicyTestField field ctx =
    (let f = canon field in
     if f = ''host'' then tx_Host ctx
     else if f = ''path'' then tx_Path ctx
     else if f = ''method'' then tx_Method ctx
     else if f = ''scheme'' then tx_Scheme ctx
     else if f = ''process_name'' then tx_ProcessName ctx
     else if f = ''process_path'' then tx_ProcessPath ctx
     else if f = ''process_user'' then tx_ProcessUser ctx
     else if f = ''process_bundle'' then tx_ProcessBundle ctx
     else if f = ''process_signer'' then tx_ProcessSigner ctx
     else if f = ''process_signed'' then bool_field (tx_ProcessSigned ctx)
     else if f = ''service_category'' then tx_ServiceCategory ctx
     else if f = ''ai_vendor'' then tx_AIVendor ctx
     else if f = ''body_contains_pii'' then bool_field (tx_BodyContainsPII ctx)
     else if f = ''body_contains_credentials'' then bool_field (tx_BodyContainsCredentials ctx)
     else if f = ''body_contains_source_code'' then bool_field (tx_BodyContainsSourceCode ctx)
     else if f = ''body_has_dlp_match'' then bool_field (tx_BodyHasDLPMatch ctx)
     else [])"

definition evaluatePolicyOperator :: "(string \<Rightarrow> regexp option) \<Rightarrow> string \<Rightarrow> string \<Rightarrow> string \<Rightarrow> bool" where
  "evaluatePolicyOperator rc oper fieldVal expected =
    (let op = canon oper; f = to_lower fieldVal; e = to_lower expected in
     if op = ''eq'' then equal_fold fieldVal expected
     else if op = ''contains'' then contains f e
     else if op = ''prefix'' then has_prefix f e
     else if op = ''suffix'' then has_suffix f e
     else if op = ''glob'' then filepath_match e f
     else if op = ''regex'' then (case rc expected of None \<Rightarrow> False | Some re \<Rightarrow> re fieldVal)
     else False)"

record test_result =
  tr_Condition :: rule_condition
  tr_FieldValue :: string
  tr_Matched :: bool

definition test_condition :: "(string \<Rightarrow> regexp option) \<Rightarrow> policyTestContext \<Rightarrow> rule_condition \<Rightarrow> test_result" where
  "test_condition rc ctx c =
    (let v = resolvePolicyTestField (rc_Field c) ctx; matched = evaluatePolicyOperator rc (rc_Operator c) v (rc_Value c) in
     \<lparr>tr_Condition = c, tr_FieldValue = v, tr_Matched = (if rc_Negate c then \<not> matched else matched)\<rparr>)"

definition api_normalizePolicyAction :: "string \<Rightarrow> string \<Rightarrow> string" where
  "api_normalizePolicyAction action dec =
    (let a = canon action; d = canon dec in
     if a = ''allow'' \<or> a = ''alert'' \<or> a = ''block'' then a
     else if d = ''allow'' \<or> d = ''forward'' then ''allow''
     else if d = ''block'' \<or> d = ''deny'' then ''block'' else ''alert'')"

definition tested_conditions :: "policyRuleRequest \<Rightarrow> rule_condition list" where
  "tested_conditions req =
    (if qr_Conditions req = [] then
       legacy_condition ''host'' ''contains'' (qr_MatchHost req) @ legacy_condition ''path'' ''contains'' (qr_MatchPath req) @
       legacy_condition ''method'' ''eq'' (qr_MatchMethod req)
     else qr_Conditions req)"

definition handleTestPolicy :: "(string \<Rightarrow> regexp option) \<Rightarrow> admin_user option \<Rightarrow> (policyRuleRequest \<times> policyTestContext) option \<Rightarrow>
    (bool \<times> test_result list \<times> string) answer" where
  "handleTestPolicy rc user body =
    (case user of
       None \<Rightarrow> Refused unauthorized
     | Some _ \<Rightarrow>
        (case body of
           None \<Rightarrow> Refused invalid_request
         | Some (req, ctx) \<Rightarrow>
            (let results = map (test_condition rc ctx) (tested_conditions req) in
             Answered 200 (list_all tr_Matched results, results, api_normalizePolicyAction (qr_Action req) (qr_Decision req)))))"

section \<open>Vendors\<close>

record vendor_request =
  vr_Sanctioned :: bool
  vr_RiskTier :: string
  vr_Notes :: "string option"

definition vendor_input :: "string \<Rightarrow> bool \<Rightarrow> string \<Rightarrow> string option \<Rightarrow> string \<Rightarrow> vendor_row" where
  "vendor_input vendor sanctioned tier notes by =
    \<lparr>vg_OrgID = [], vg_AIVendor = vendor, vg_Sanctioned = sanctioned, vg_RiskTier = tier, vg_Notes = notes, vg_UpdatedBy = Some by, vg_CreatedAt = 0, vg_UpdatedAt = 0\<rparr>"

definition governance_audit :: "admin_user \<Rightarrow> string option \<Rightarrow> string \<Rightarrow> string \<Rightarrow> godata \<Rightarrow> audit_row" where
  "governance_audit u ip action vendor details =
    \<lparr>au_ActorType = ''admin_user'', au_ActorID = us_ID u, au_OrgID = Some (us_OrgID u), au_Action = action, au_ResourceType = ''ai_vendor'', au_ResourceID = vendor,
     au_Details = details, au_IPAddress = ip\<rparr>"

definition write_audit :: "policy_env \<Rightarrow> audit_row \<Rightarrow> policy_tables \<Rightarrow> policy_tables" where
  "write_audit env entry t = t\<lparr>pt_base := audit_outside (pe_db env) entry (pt_base t)\<rparr>"

definition handleListAIVendorGovernance :: "policy_env \<Rightarrow> admin_user option \<Rightarrow> policy_tables \<Rightarrow> vendor_row list answer" where
  "handleListAIVendorGovernance env user t =
    (case user of
       None \<Rightarrow> Refused unauthorized
     | Some u \<Rightarrow> (case ListAIVendorGovernance env (us_OrgID u) t of Inl _ \<Rightarrow> Refused internal_error | Inr rows \<Rightarrow> Answered 200 rows))"

definition handleUpsertAIVendorGovernance ::
    "policy_env \<Rightarrow> admin_user option \<Rightarrow> string option \<Rightarrow> string \<Rightarrow> vendor_request option \<Rightarrow> policy_tables \<Rightarrow> vendor_row answer \<times> policy_tables" where
  "handleUpsertAIVendorGovernance env user ip path body t =
    (case user of
       None \<Rightarrow> (Refused unauthorized, t)
     | Some u \<Rightarrow>
        (let vendor = canon path in
         if vendor = [] then (Refused invalid_request, t)
         else (case body of
           None \<Rightarrow> (Refused invalid_request, t)
         | Some req \<Rightarrow>
            (case UpsertAIVendorGovernance env (us_OrgID u) (vendor_input vendor (vr_Sanctioned req) (vr_RiskTier req) (vr_Notes req) (us_Email u)) t of
               Inl _ \<Rightarrow> (Refused invalid_request, t)
             | Inr (row, t1) \<Rightarrow>
                (let audited = write_audit env (governance_audit u ip ''ai.governance.updated'' vendor
                       [(''sanctioned'', VBool (vg_Sanctioned row)), (''risk_tier'', VString (vg_RiskTier row)),
                        (''notes'', case vg_Notes row of None \<Rightarrow> VNil | Some n \<Rightarrow> VString n)]) in
                 if vg_Sanctioned row then
                   (case DisableUnsanctionedBlockRule env (us_OrgID u) vendor t1 of
                      Inl _ \<Rightarrow> (Refused internal_error, t1)
                    | Inr t2 \<Rightarrow> (Answered 200 row, audited t2))
                 else (Answered 200 row, audited t1))))))"

definition handleBlockUnsanctionedVendor :: "policy_env \<Rightarrow> admin_user option \<Rightarrow> string option \<Rightarrow> string \<Rightarrow> policy_tables \<Rightarrow> string answer \<times> policy_tables" where
  "handleBlockUnsanctionedVendor env user ip path t =
    (case user of
       None \<Rightarrow> (Refused unauthorized, t)
     | Some u \<Rightarrow>
        (let vendor = canon path in
         if vendor = [] then (Refused invalid_request, t)
         else (case UpsertAIVendorGovernance env (us_OrgID u) (vendor_input vendor False ''high'' None (us_Email u)) t of
           Inl _ \<Rightarrow> (Refused invalid_request, t)
         | Inr (_, t1) \<Rightarrow>
            (case EnsureUnsanctionedBlockRule env (us_OrgID u) vendor t1 of
               Inl _ \<Rightarrow> (Refused internal_error, t1)
             | Inr t2 \<Rightarrow> (Answered 200 vendor, write_audit env (governance_audit u ip ''ai.governance.block_unsanctioned'' vendor [(''enforcement'', VString ''block'')]) t2)))))"

definition handleUnblockVendor :: "policy_env \<Rightarrow> admin_user option \<Rightarrow> string option \<Rightarrow> string \<Rightarrow> policy_tables \<Rightarrow> vendor_row option answer \<times> policy_tables" where
  "handleUnblockVendor env user ip path t =
    (case user of
       None \<Rightarrow> (Refused unauthorized, t)
     | Some u \<Rightarrow>
        (let vendor = canon path in
         if vendor = [] then (Refused invalid_request, t)
         else (case GetAIVendorGovernance env (us_OrgID u) vendor t of
           Inl _ \<Rightarrow> (Refused internal_error, t)
         | Inr existing \<Rightarrow>
            (case DisableUnsanctionedBlockRule env (us_OrgID u) vendor t of
               Inl _ \<Rightarrow> (Refused internal_error, t)
             | Inr t1 \<Rightarrow> (Answered 200 existing, write_audit env (governance_audit u ip ''ai.governance.unblocked'' vendor
                 [(''sanctioned'', VBool (case existing of None \<Rightarrow> False | Some v \<Rightarrow> vg_Sanctioned v)), (''enforced'', VString ''allow'')]) t1)))))"

section \<open>Histories\<close>

text \<open>
  The statements that change the tables, one at a time, as handlers that run concurrently interleave them: those that
  write a managed rule or a block rule come after a query whose answer may be out of date. The other tables move
  on their own, and organisations are never deleted.
\<close>

inductive policy_step :: "policy_tables \<Rightarrow> policy_tables \<Rightarrow> bool" where
  rule_created: "CreatePolicyRuleV2 env org inp t = Inr (r, t') \<Longrightarrow> policy_step t t'"
| rule_updated: "UpdatePolicyRuleV2 env org i inp t = Inr (found, t') \<Longrightarrow> policy_step t t'"
| rule_deleted: "DeletePolicyRuleV2 env org i t = Inr (found, t') \<Longrightarrow> policy_step t t'"
| managed_inserted: "def \<in> set managedAIDLPPolicyDefinitions \<Longrightarrow>
    insert_rule env ''InsertManaged'' (managed_columns def (new_row env org (mp_Name def))) t = Inr t' \<Longrightarrow> policy_step t t'"
| managed_updated: "def \<in> set managedAIDLPPolicyDefinitions \<Longrightarrow>
    update_rules env ''UpdateManaged'' (\<lambda>r. pv_ID r = i) (\<lambda>r. (managed_columns def r)\<lparr>pv_UpdatedAt := now\<rparr>) t = Inr t' \<Longrightarrow> policy_step t t'"
| vendor_upserted: "UpsertAIVendorGovernance env org inp t = Inr (v, t') \<Longrightarrow> policy_step t t'"
| block_inserted: "canon vendor = vendor \<Longrightarrow>
    insert_rule env ''InsertBlockRule'' (block_columns vendor ((new_row env org (unsanctionedBlockRuleName vendor))\<lparr>pv_Priority := last_priority org t\<rparr>)) t = Inr t' \<Longrightarrow>
    policy_step t t'"
| block_updated: "canon vendor = vendor \<Longrightarrow>
    update_rules env ''UpdateBlockRule'' (\<lambda>r. pv_ID r = i) (\<lambda>r. (block_columns vendor r)\<lparr>pv_UpdatedAt := now\<rparr>) t = Inr t' \<Longrightarrow> policy_step t t'"
| block_disabled: "DisableUnsanctionedBlockRule env org vendor t = Inr t' \<Longrightarrow> policy_step t t'"
| rest_moved: "og_ID ` set (db_organizations (pt_base t)) \<subseteq> og_ID ` set (db_organizations db) \<Longrightarrow> policy_step t (t\<lparr>pt_base := db\<rparr>)"

datatype policy_op =
    OpListPolicies
  | OpCreatePolicy "policyRuleRequest option"
  | OpUpdatePolicy string "policyRuleRequest option"
  | OpDeletePolicy string
  | OpUpsertVendor "string option" string "vendor_request option"
  | OpBlockVendor "string option" string
  | OpUnblockVendor "string option" string
  | OpEnsureAll

fun policy_exec :: "policy_env \<Rightarrow> admin_user option \<Rightarrow> policy_op \<Rightarrow> policy_tables \<Rightarrow> policy_tables" where
  "policy_exec env user OpListPolicies t = snd (handleListPolicies env user t)"
| "policy_exec env user (OpCreatePolicy body) t = snd (handleCreatePolicy env user body t)"
| "policy_exec env user (OpUpdatePolicy i body) t = snd (handleUpdatePolicy env user i body t)"
| "policy_exec env user (OpDeletePolicy i) t = snd (handleDeletePolicy env user i t)"
| "policy_exec env user (OpUpsertVendor ip vendor body) t = snd (handleUpsertAIVendorGovernance env user ip vendor body t)"
| "policy_exec env user (OpBlockVendor ip vendor) t = snd (handleBlockUnsanctionedVendor env user ip vendor t)"
| "policy_exec env user (OpUnblockVendor ip vendor) t = snd (handleUnblockVendor env user ip vendor t)"
| "policy_exec env user OpEnsureAll t = snd (EnsureManagedAIDLPPoliciesForAllOrgs env t)"

section \<open>Lemmas on histories\<close>

lemma sound_same_rules: "tables_sound t \<Longrightarrow> pt_rules t' = pt_rules t \<Longrightarrow> og_ID ` set (db_organizations (pt_base t)) \<subseteq> og_ID ` set (db_organizations (pt_base t')) \<Longrightarrow> tables_sound t'"
  by (fastforce simp: tables_sound_def list_all_iff row_ok_def)

lemma new_row_fields [simp]: "pv_ID (new_row env org n) = pe_uuid env org n" "pv_OrgID (new_row env org n) = org" "pv_Name (new_row env org n) = n"
  by (simp_all add: new_row_def)

lemma columns_fields [simp]:
  "pv_ID (managed_columns def r) = pv_ID r" "pv_OrgID (managed_columns def r) = pv_OrgID r" "pv_Name (managed_columns def r) = pv_Name r"
  "pv_ID (block_columns v r) = pv_ID r" "pv_OrgID (block_columns v r) = pv_OrgID r" "pv_Name (block_columns v r) = pv_Name r" "pv_Priority (block_columns v r) = pv_Priority r"
  by (simp_all add: managed_columns_def block_columns_def)

lemma sound_updated_at [simp]: "rule_sound (r\<lparr>pv_UpdatedAt := now\<rparr>) = rule_sound r" "rule_sound (r\<lparr>pv_Enabled := b\<rparr>) = rule_sound r"
  by (simp_all add: rule_sound_def)

lemma rule_name: "rule_sound r \<Longrightarrow> pv_Name r \<noteq> [] \<and> 1 \<le> pv_Priority r"
  by (simp add: rule_sound_def)

lemma managed_names: "def \<in> set managedAIDLPPolicyDefinitions \<Longrightarrow> mp_Name def \<noteq> []"
  by (auto simp: managedAIDLPPolicyDefinitions_def)

lemma block_name: "unsanctionedBlockRuleName v \<noteq> []"
  by (simp add: unsanctionedBlockRuleName_def)

lemma last_positive: "1 \<le> last_priority org t"
proof -
  have "(1 :: int) \<le> max x 9000" for x by simp
  then show ?thesis by (simp add: last_priority_def del: max.bounded_iff split: list.split)
qed

lemma created_done:
  assumes "CreatePolicyRuleV2 env org inp t = Inr (r, t')"
  obtains out where "normalizePolicyInput inp = Inr out" "insert_rule env ''CreatePolicyRuleV2'' (write_columns out (new_row env org (pn_Name out))) t = Inr t'"
    "r = returned_rule (write_columns out (new_row env org (pn_Name out)))"
  using assms by (auto simp: CreatePolicyRuleV2_def Let_def split: sum.splits)

lemma updated_done:
  assumes "UpdatePolicyRuleV2 env org i inp t = Inr (found, t')"
  obtains out where "normalizePolicyInput inp = Inr out"
    "update_rules env ''UpdatePolicyRuleV2'' (\<lambda>r. pv_ID r = i \<and> pv_OrgID r = org) (\<lambda>r. (write_columns out r)\<lparr>pv_UpdatedAt := dx_now (pe_db env)\<rparr>) t = Inr t'"
  using assms by (auto simp: UpdatePolicyRuleV2_def Let_def split: sum.splits)

lemma deleted_done: "DeletePolicyRuleV2 env org i t = Inr (found, t') \<Longrightarrow> t' = t\<lparr>pt_rules := filter (\<lambda>r. \<not> (pv_ID r = i \<and> pv_OrgID r = org)) (pt_rules t)\<rparr>"
  by (auto simp: DeletePolicyRuleV2_def run_statement_def split: if_splits)

lemma failing_ok: "failing r = Inr x \<longleftrightarrow> r = Inr x"
  by (cases r) (simp_all add: failing_def)

lemma disabled_done:
  assumes "DisableUnsanctionedBlockRule env org vendor t = Inr t'"
  shows "update_rules env ''DisableUnsanctionedBlockRule'' (\<lambda>r. pv_OrgID r = org \<and> pv_Name r = unsanctionedBlockRuleName (canon vendor))
    (\<lambda>r. r\<lparr>pv_Enabled := False, pv_UpdatedAt := dx_now (pe_db env)\<rparr>) t = Inr t'"
  using assms by (simp add: DisableUnsanctionedBlockRule_def Let_def failing_ok split: if_splits)

lemma vendor_done: "UpsertAIVendorGovernance env org inp t = Inr (v, t') \<Longrightarrow> \<exists>vs. t' = t\<lparr>pt_vendors := vs\<rparr>"
  by (auto simp: UpsertAIVendorGovernance_def Let_def split: if_splits option.splits)

lemma step_sound:
  assumes "policy_step t t'" "tables_sound t"
  shows "tables_sound t'"
  using assms(1)
proof cases
  case (rule_created env org inp r)
  from created_done[OF this] show ?thesis using insert_sound[OF _ assms(2)] written_sound(1) by metis
next
  case (rule_updated env org i inp found)
  then obtain out where out: "normalizePolicyInput inp = Inr out"
    "update_rules env ''UpdatePolicyRuleV2'' (\<lambda>r. pv_ID r = i \<and> pv_OrgID r = org) (\<lambda>r. (write_columns out r)\<lparr>pv_UpdatedAt := dx_now (pe_db env)\<rparr>) t = Inr t'"
    by (rule updated_done)
  show ?thesis by (rule update_sound[OF out(2) assms(2)]) (simp add: keeps_row_def written_sound[OF out(1)])
next
  case (rule_deleted env org i found)
  show ?thesis using assms(2) by (auto simp: deleted_done[OF rule_deleted] tables_sound_def list_all_iff distinct_map_filter)
next
  case (managed_inserted def env org)
  show ?thesis by (rule insert_sound[OF managed_inserted(2) assms(2)]) (simp add: managed_sound[OF managed_inserted(1)] managed_names[OF managed_inserted(1)])
next
  case (managed_updated def env i now)
  show ?thesis by (rule update_sound[OF managed_updated(2) assms(2)]) (simp add: keeps_row_def managed_sound[OF managed_updated(1)] rule_name)
next
  case (vendor_upserted env org inp v)
  show ?thesis using vendor_done[OF vendor_upserted] assms(2) by (auto simp: tables_sound_def)
next
  case (block_inserted vendor env org)
  show ?thesis by (rule insert_sound[OF block_inserted(2) assms(2)]) (rule block_sound[OF block_inserted(1)], simp_all add: block_name last_positive)
next
  case (block_updated vendor env i now)
  show ?thesis by (rule update_sound[OF block_updated(2) assms(2)]) (simp add: keeps_row_def block_sound[OF block_updated(1)] rule_name)
next
  case (block_disabled env org vendor)
  show ?thesis by (rule update_sound[OF disabled_done[OF block_disabled] assms(2)]) (simp add: keeps_row_def)
next
  case (rest_moved db)
  then show ?thesis using sound_same_rules[OF assms(2), of t'] by simp
qed

definition no_policies :: "database \<Rightarrow> policy_tables" where
  "no_policies db = \<lparr>pt_base = db, pt_rules = [], pt_vendors = []\<rparr>"

interpretation policy_history: invariant_system "no_policies db" policy_step tables_sound for db
proof
  show "tables_sound (no_policies db)" by (simp add: no_policies_def tables_sound_def)
qed (rule step_sound)

text \<open>Every handler is a sequence of such statements.\<close>

lemma steps_one: "policy_step t t' \<Longrightarrow> policy_step\<^sup>*\<^sup>* t t'"
  by (rule r_into_rtranclp)

lemma upsert_step:
  assumes "upsertManagedPolicy env org def t = Inr t'" "def \<in> set managedAIDLPPolicyDefinitions"
  shows "policy_step t t'"
  using assms managed_inserted managed_updated by (auto simp: upsertManagedPolicy_def split: if_splits option.splits)

lemma ensure_steps: "set defs \<subseteq> set managedAIDLPPolicyDefinitions \<Longrightarrow> policy_step\<^sup>*\<^sup>* t (snd (ensure_managed env org defs t))"
proof (induction defs arbitrary: t)
  case (Cons def defs)
  show ?case
  proof (cases "upsertManagedPolicy env org def t")
    case (Inr t')
    then show ?thesis using Cons.IH[of t'] Cons.prems upsert_step[OF Inr] by (simp add: converse_rtranclp_into_rtranclp)
  qed simp
qed simp

lemma ensure_all_steps: "policy_step\<^sup>*\<^sup>* t (snd (ensure_all env orgs t))"
proof (induction orgs arbitrary: t)
  case (Cons org orgs)
  have "policy_step\<^sup>*\<^sup>* t (snd (EnsureManagedAIDLPPolicies env org t))" unfolding EnsureManagedAIDLPPolicies_def by (rule ensure_steps) simp
  then show ?case using Cons.IH by (cases "EnsureManagedAIDLPPolicies env org t") (auto split: option.split intro: rtranclp_trans)
qed simp

lemma audit_step: "policy_step t (write_audit env entry t)"
proof -
  have "og_ID ` set (db_organizations (pt_base t)) \<subseteq> og_ID ` set (db_organizations (audit_outside (pe_db env) entry (pt_base t)))"
    by (auto simp: audit_outside_def InsertAudit_def)
  from rest_moved[OF this] show ?thesis by (simp add: write_audit_def)
qed

lemma block_step:
  assumes "EnsureUnsanctionedBlockRule env org vendor t = Inr t'"
  shows "policy_step t t'"
  using assms block_inserted[OF canon_idem] block_updated[OF canon_idem]
  by (auto simp: EnsureUnsanctionedBlockRule_def Let_def failing_ok split: if_splits option.splits)

lemma exec_steps: "policy_step\<^sup>*\<^sup>* t (policy_exec env user op t)"
proof (cases user)
  case None
  then show ?thesis
    by (cases op) (simp_all add: handleListPolicies_def handleCreatePolicy_def handleUpdatePolicy_def handleDeletePolicy_def handleUpsertAIVendorGovernance_def
        handleBlockUnsanctionedVendor_def handleUnblockVendor_def EnsureManagedAIDLPPoliciesForAllOrgs_def ensure_all_steps)
next
  case (Some u)
  have ensure: "policy_step\<^sup>*\<^sup>* t (snd (EnsureManagedAIDLPPolicies env org t))" for org unfolding EnsureManagedAIDLPPolicies_def by (rule ensure_steps) simp
  note two = rtranclp.rtrancl_into_rtrancl[OF steps_one]
  show ?thesis
  proof (cases op)
    case OpListPolicies
    then show ?thesis using ensure[of "us_OrgID u"] by (simp add: Some handleListPolicies_def Let_def split: sum.split)
  next
    case (OpCreatePolicy body)
    then show ?thesis by (auto simp: Some handleCreatePolicy_def split: option.split sum.split intro: steps_one rule_created)
  next
    case (OpUpdatePolicy i body)
    then show ?thesis by (auto simp: Some handleUpdatePolicy_def split: option.split sum.split intro: steps_one rule_updated)
  next
    case (OpDeletePolicy i)
    then show ?thesis by (auto simp: Some handleDeletePolicy_def split: bool.split sum.split intro: steps_one rule_deleted)
  next
    case (OpUpsertVendor ip vendor body)
    then show ?thesis
      by (auto simp: Some handleUpsertAIVendorGovernance_def Let_def split: option.split sum.split
          intro: steps_one vendor_upserted two block_disabled audit_step rtranclp.rtrancl_into_rtrancl[OF two])
  next
    case (OpBlockVendor ip vendor)
    then show ?thesis
      by (auto simp: Some handleBlockUnsanctionedVendor_def Let_def split: option.split sum.split
          intro: steps_one vendor_upserted two block_step audit_step rtranclp.rtrancl_into_rtrancl[OF two])
  next
    case (OpUnblockVendor ip vendor)
    then show ?thesis by (auto simp: Some handleUnblockVendor_def Let_def split: option.split sum.split intro: two block_disabled audit_step)
  next
    case OpEnsureAll
    then show ?thesis by (simp add: EnsureManagedAIDLPPoliciesForAllOrgs_def ensure_all_steps)
  qed
qed

end
