(* ===== verification/Policy_Enforced.thy ===== *)
theory Policy_Enforced
  imports Policy_Admin
begin

text \<open>
  From the dashboard to the machine: what the rules that administrators write (\<open>Policy_Admin\<close>) come to mean at the
  gateway and, once delivered, at the agents, and that trying a rule in the dashboard tells the truth.
\<close>

section \<open>What is enforced\<close>

lemma find_map: "find P (map f xs) = map_option f (find (P \<circ> f) xs)"
  by (induction xs) auto

lemma find_filter: "find P (filter Q xs) = find (\<lambda>x. Q x \<and> P x) xs"
  by (induction xs) auto

lemma sorted_filter_unique:
  assumes "slice_sort key sorter" "distinct (map key (filter P xs))"
  shows "filter P (sorter (filter Q xs)) = filter Q (sorter (filter P xs))"
proof -
  let ?a = "filter P (sorter (filter Q xs))" and ?b = "filter Q (sorter (filter P xs))"
  note set = slice_sort.set_sorter[OF assms(1)] and dist = slice_sort.sorter_distinct[OF assms(1)]
  have s: "set ?a = set ?b" by (auto simp: set)
  have inj: "inj_on key (set ?a \<union> set ?b)" using assms(2) by (auto simp: set distinct_map inj_on_def)
  have sorted: "sorted (map key ?a)" "sorted (map key ?b)" using slice_sort.sorter_sorted[OF assms(1)] by (simp_all add: sorted_filter)
  have b: "distinct (map key ?b)" using dist[OF assms(2)] by (simp add: distinct_map_filter)
  have "mset ?a = mset (filter P (filter Q xs))" "mset ?b = mset (filter Q (filter P xs))"
    using slice_sort.sorter_perm[OF assms(1)] by (simp_all only: mset_filter)
  then have "mset ?a = mset ?b" by (simp only: filter_filter conj_commute)
  then have "mset (map key ?a) = mset (map key ?b)" by simp
  then have a: "distinct (map key ?a)" using b mset_eq_imp_distinct_iff by blast
  show ?thesis
  proof (rule map_inj_on[OF _ inj])
    show "map key ?a = map key ?b" using sorted_distinct_set_unique[OF sorted(1) a sorted(2) b] s by simp
  qed
qed

text \<open>An identifier as the database prints it.\<close>

definition plain_id :: "string \<Rightarrow> bool" where
  "plain_id x \<longleftrightarrow> x \<noteq> [] \<and> canon x = x"

lemma plain_parts: "plain_id x \<Longrightarrow> trim_space x = x \<and> to_lower x = x"
proof -
  assume a: "plain_id x"
  then have t: "trim_space x = x" by (metis canon_def plain_id_def to_lower_trim_space trim_space_idem)
  then show ?thesis using a by (simp add: plain_id_def canon_def)
qed

definition ids_plain :: "policy_tables \<Rightarrow> bool" where
  "ids_plain t \<longleftrightarrow> list_all (\<lambda>o'. plain_id (og_ID o')) (db_organizations (pt_base t))"

lemma rule_org_plain: "tables_sound t \<Longrightarrow> ids_plain t \<Longrightarrow> r \<in> set (pt_rules t) \<Longrightarrow> plain_id (pv_OrgID r)"
  by (fastforce simp: tables_sound_def ids_plain_def list_all_iff row_ok_def)

text \<open>No older column that is blank without being empty.\<close>

definition blank :: "string option \<Rightarrow> bool" where
  "blank x = (case x of None \<Rightarrow> False | Some s \<Rightarrow> s \<noteq> [] \<and> trim_space s = [])"

definition no_blanks :: "policy_row \<Rightarrow> bool" where
  "no_blanks r \<longleftrightarrow> \<not> blank (pv_MatchHost r) \<and> \<not> blank (pv_MatchPath r) \<and> \<not> blank (pv_MatchMethod r)"

text \<open>The rules that the gateway applies to an organisation are the enabled ones that the dashboard lists for it, in the same order.\<close>

definition active_rules :: "policy_env \<Rightarrow> string \<Rightarrow> policy_tables \<Rightarrow> policy_row list" where
  "active_rules env org t = filter pv_Enabled (pe_order env (filter (\<lambda>r. pv_OrgID r = org) (pt_rules t)))"

lemma org_priorities: "tables_sound t \<Longrightarrow> distinct (map pv_Priority (filter (\<lambda>r. pv_OrgID r = org) (pt_rules t)))"
  by (auto simp: tables_sound_def distinct_map inj_on_def rule_key_def distinct_map_filter)

lemma loaded_rules:
  assumes "tables_sound t" "ids_plain t" "plain_id org" "slice_sort pv_Priority (pe_order env)" "GetAllPolicyRules env t = Some rows"
  shows "RulesForOrg (gw_Reload (Some rows) e) org = map store_rule_of (active_rules env org t)"
proof -
  have rows: "rows = map store_rule_of (pe_order env (filter pv_Enabled (pt_rules t)))" using assms(5) by (simp add: GetAllPolicyRules_def split: if_splits)
  have same: "same_org org (store_rule_of r) \<longleftrightarrow> pv_OrgID r = org" if "r \<in> set (pt_rules t)" for r
    using plain_parts[OF rule_org_plain[OF assms(1,2) that]] plain_parts[OF assms(3)] by (simp add: same_org_def store_rule_of_def equal_fold_def)
  have set: "set (pe_order env xs) = set xs" for xs by (rule slice_sort.set_sorter[OF assms(4)])
  have "filter (same_org org) rows = map store_rule_of (filter (\<lambda>r. pv_OrgID r = org) (pe_order env (filter pv_Enabled (pt_rules t))))"
    unfolding rows filter_map by (rule arg_cong[where f = "map store_rule_of"], rule filter_cong) (use same set in auto)
  also have "\<dots> = map store_rule_of (active_rules env org t)"
    unfolding active_rules_def using sorted_filter_unique[OF assms(4) org_priorities[OF assms(1)]] by simp
  finally show ?thesis using plain_parts[OF assms(3)] assms(3) by (simp add: RulesForOrg_def gw_Reload_def plain_id_def)
qed

lemma active_in: "slice_sort pv_Priority (pe_order env) \<Longrightarrow> r \<in> set (active_rules env org t) \<Longrightarrow> r \<in> set (pt_rules t) \<and> pv_OrgID r = org \<and> pv_Enabled r"
  by (auto simp: active_rules_def slice_sort.set_sorter)

lemma active_order:
  assumes "tables_sound t" "slice_sort pv_Priority (pe_order env)"
  shows "sorted (map pv_Priority (active_rules env org t))" "distinct (map pv_Priority (active_rules env org t))"
  using slice_sort.sorter_sorted[OF assms(2)] slice_sort.sorter_distinct[OF assms(2) org_priorities[OF assms(1)]]
  by (simp_all add: active_rules_def sorted_filter distinct_map_filter)

lemma sound_rule: "tables_sound t \<Longrightarrow> r \<in> set (pt_rules t) \<Longrightarrow> rule_sound r"
  by (simp add: tables_sound_def list_all_iff)

lemma sound_action:
  assumes "rule_sound r"
  shows "coalesced_action r = pv_Action r" "normalizePolicyAction (pv_Action r) d = pv_Action r" "mapRuleDecision (pv_Action r) d = mapRuleDecision (pv_Action r) []"
proof -
  have c: "canon ''allow'' = ''allow''" "canon ''alert'' = ''alert''" "canon ''block'' = ''block''" by code_simp+
  consider "pv_Action r = ''allow''" | "pv_Action r = ''alert''" | "pv_Action r = ''block''" using assms by (auto simp: rule_sound_def)
  then show "coalesced_action r = pv_Action r" "normalizePolicyAction (pv_Action r) d = pv_Action r" "mapRuleDecision (pv_Action r) d = mapRuleDecision (pv_Action r) []"
    by (cases; simp add: c coalesced_action_def normalizePolicyAction_def mapRuleDecision_def)+
qed

lemma stored_match:
  assumes "rule_sound r" "no_blanks r"
  shows "gw_matchRule rc (store_rule_of r) host path method = match_conditions rc (shown_conditions r) host path method"
proof (cases "pv_Conditions r = []")
  case True
  have none: "x = None \<or> x = Some []" if "opt_trim x = None" "\<not> blank x" for x using that by (auto simp: opt_trim_def blank_def split: option.splits if_splits)
  have o: "opt_trim (pv_MatchHost r) = None" "opt_trim (pv_MatchPath r) = None" "opt_trim (pv_MatchMethod r) = None" using assms(1) True by (simp_all add: rule_sound_def)
  then have "shown_conditions r = []" using True by (simp add: shown_conditions_def legacy_blank)
  then show ?thesis using True none[OF o(1)] none[OF o(2)] none[OF o(3)] assms(2) by (auto simp: gw_matchRule_def store_rule_of_def given_def no_blanks_def)
qed (simp add: gw_matchRule_def store_rule_of_def shown_conditions_def)

lemma find_active:
  assumes "slice_sort pv_Priority (pe_order env)" "\<forall>r\<in>set (pt_rules t). pv_OrgID r = org \<longrightarrow> P r = Q r"
  shows "find P (active_rules env org t) = find (\<lambda>r. pv_Enabled r \<and> Q r) (pe_order env (filter (\<lambda>r. pv_OrgID r = org) (pt_rules t)))"
  unfolding active_rules_def find_filter
  by (rule find_cong[OF refl]) (use assms(2) slice_sort.set_sorter[OF assms(1)] in auto)

text \<open>What the dashboard shows decides: the first listed rule that is enabled and whose shown conditions hold.\<close>

definition listed_decision :: "(string \<Rightarrow> regexp option) \<Rightarrow> policy_row list \<Rightarrow> string \<Rightarrow> string \<Rightarrow> string \<Rightarrow> (gw_decision \<times> string) option" where
  "listed_decision rc listed host path method =
    map_option (\<lambda>r. (mapRuleDecision (pv_Action r) [], pv_ID r)) (find (\<lambda>r. pv_Enabled r \<and> match_conditions rc (pv_Conditions r) host path method) listed)"

lemma loaded_decides:
  assumes "tables_sound t" "slice_sort pv_Priority (pe_order env)" "ListPolicyRulesV2 env org t = Inr listed"
    "list_all no_blanks (filter (\<lambda>r. pv_OrgID r = org) (pt_rules t))"
  shows "map_option (\<lambda>r. (mapRuleDecision (sr_Action r) (sr_Decision r), sr_ID r))
      (find (\<lambda>r. gw_matchRule rc r host path method) (map store_rule_of (active_rules env org t))) = listed_decision rc listed host path method"
proof -
  let ?own = "filter (\<lambda>r. pv_OrgID r = org) (pt_rules t)"
  have listed: "listed = map listed_rule (pe_order env ?own)" using assms(3) by (simp add: ListPolicyRulesV2_def run_statement_def split: if_splits)
  have own: "rule_sound r \<and> no_blanks r" if "r \<in> set (pt_rules t)" "pv_OrgID r = org" for r
    using that sound_rule[OF assms(1)] assms(4) by (simp add: list_all_iff)
  have ex: "(mapRuleDecision (sr_Action (store_rule_of r)) (sr_Decision (store_rule_of r)), sr_ID (store_rule_of r)) = (mapRuleDecision (pv_Action (listed_rule r)) [], pv_ID (listed_rule r))"
    if "rule_sound r" for r
  proof -
    note act = sound_action[OF that]
    have "pv_Action (listed_rule r) = pv_Action r" by (simp add: listed_rule_def Let_def act(1,2))
    then show ?thesis using act(1) act(3)[of "pv_Decision r"] by (simp add: store_rule_of_def listed_rule_def Let_def)
  qed
  have f: "find (\<lambda>r. gw_matchRule rc (store_rule_of r) host path method) (active_rules env org t) =
      find (\<lambda>r. pv_Enabled r \<and> match_conditions rc (shown_conditions r) host path method) (pe_order env ?own)"
    by (rule find_active[OF assms(2)]) (use own stored_match in blast)
  have cs: "pv_Conditions (listed_rule r) = shown_conditions r" "pv_Enabled (listed_rule r) = pv_Enabled r" for r by (simp_all add: listed_rule_def Let_def)
  show ?thesis
  proof (cases "find (\<lambda>r. pv_Enabled r \<and> match_conditions rc (shown_conditions r) host path method) (pe_order env ?own)")
    case None
    then show ?thesis using f by (simp add: listed_decision_def listed find_map o_def cs)
  next
    case (Some r)
    then have "r \<in> set (pe_order env ?own)" using find_Some_split[OF Some] by auto
    then have "rule_sound r" using own slice_sort.set_sorter[OF assms(2)] by auto
    from ex[OF this] show ?thesis using f Some by (simp add: listed_decision_def listed find_map o_def cs)
  qed
qed


section \<open>Trying a rule\<close>

definition test_context :: "request_context \<Rightarrow> policyTestContext" where
  "test_context ctx =
    \<lparr>tx_Host = cx_Host ctx, tx_Path = cx_Path ctx, tx_Method = cx_Method ctx, tx_Scheme = cx_Scheme ctx, tx_ProcessName = ps_Name (cx_Process ctx),
     tx_ProcessPath = ps_Path (cx_Process ctx), tx_ProcessUser = ps_User (cx_Process ctx), tx_ProcessBundle = ps_BundleID (cx_Process ctx),
     tx_ProcessSigner = ps_SignerID (cx_Process ctx), tx_ProcessSigned = ps_Signed (cx_Process ctx), tx_ServiceCategory = cx_ServiceCategory ctx,
     tx_AIVendor = cx_AIVendor ctx, tx_BodyContainsPII = di_ContainsPII (cx_DLP ctx), tx_BodyContainsCredentials = di_ContainsCredentials (cx_DLP ctx),
     tx_BodyContainsSourceCode = di_ContainsSourceCode (cx_DLP ctx), tx_BodyHasDLPMatch = (di_Matches (cx_DLP ctx) \<noteq> [])\<rparr>"

definition testable_fields :: "string list" where
  "testable_fields = [''host'', ''path'', ''method'', ''scheme'', ''process_name'', ''process_path'', ''process_user'', ''process_bundle'', ''process_signer'',
     ''process_signed'', ''service_category'', ''ai_vendor'', ''body_contains_pii'', ''body_contains_credentials'', ''body_contains_source_code'', ''body_has_dlp_match'']"

definition testable :: "rule_condition \<Rightarrow> bool" where
  "testable c \<longleftrightarrow> rc_Field c \<in> set testable_fields \<and> rc_Operator c \<in> set shared_operators \<and> trim_space (rc_Value c) = rc_Value c"

lemma names_canonical: "list_all (\<lambda>x. canon x = x \<and> trim_space x = x) (testable_fields @ shared_operators)"
  by code_simp

lemma testable_canonical:
  assumes "testable c"
  shows "canon (rc_Field c) = rc_Field c" "canon (rc_Operator c) = rc_Operator c" "trim_condition c = c"
  using assms names_canonical by (simp_all only: testable_def list_all_iff set_append ball_Un trim_condition_def) (metis rule_condition.surjective old.unit.exhaust)+

lemma tested_field: "canon f = f \<Longrightarrow> f \<in> set testable_fields \<Longrightarrow> resolvePolicyTestField f (test_context ctx) = resolveField f ctx"
proof -
  assume c: "canon f = f" and "f \<in> set testable_fields"
  then have f: "f \<noteq> ''capture_surface''" by (auto simp: testable_fields_def)
  show ?thesis unfolding resolvePolicyTestField_def resolveField_def Let_def c using f
    by (simp add: test_context_def del: list.inject)
qed

lemma tested_operator: "canon op = op \<Longrightarrow> evaluatePolicyOperator rc op x y = evalOperator op x y (rc y)"
  by (simp add: evaluatePolicyOperator_def evalOperator_def Let_def split: option.split)

lemma tested_condition: "testable c \<Longrightarrow> tr_Matched (test_condition rc (test_context ctx) c) = condition_holds rc ctx c"
  by (simp add: test_condition_def Let_def condition_holds_def testable_canonical tested_field[OF testable_canonical(1)] tested_operator testable_def)

lemma tested_stored: "normalizePolicyInput (rule_input req) = Inr out \<Longrightarrow> pn_Conditions out = map trim_condition (tested_conditions req)"
  using normalized(10)[of "rule_input req" out] by (simp add: tested_conditions_def rule_input_def legacyConditionsFromFields_def)

lemma legacy_testable: "list_all testable (legacyConditionsFromFields h p m)"
proof -
  have one: "list_all testable (legacy_condition f oper x)" if "f \<in> set testable_fields" "oper \<in> set shared_operators" for f oper x
    using that by (simp add: legacy_condition_def testable_def condition_def split: option.split)
  have "''host'' \<in> set testable_fields" "''path'' \<in> set testable_fields" "''method'' \<in> set testable_fields" by (simp_all add: testable_fields_def)
  moreover have "''contains'' \<in> set shared_operators" "''eq'' \<in> set shared_operators" by (simp_all add: shared_operators_def)
  ultimately show ?thesis unfolding legacyConditionsFromFields_def list_all_append by (intro conjI one)
qed

lemma normalized_action:
  assumes "normalizePolicyInput inp = Inr out"
  shows "pn_Action out = api_normalizePolicyAction (pn_Action inp) (pn_Decision inp)"
proof -
  define raw where "raw = canon (pn_Action inp)"
  define known where "known a \<longleftrightarrow> a = ''allow'' \<or> a = ''alert'' \<or> a = ''block''" for a :: string
  have blank: "\<not> known []" by (simp add: known_def)
  have out: "raw = [] \<and> pn_Action out = normalizePolicyAction [] (pn_Decision inp) \<or> raw \<noteq> [] \<and> known raw \<and> pn_Action out = raw"
    using assms unfolding normalizePolicyInput_def Let_def raw_def[symmetric] known_def[symmetric]
    by (cases "raw = []"; cases "known raw") (simp_all split: sum.splits, auto)
  have "api_normalizePolicyAction (pn_Action inp) (pn_Decision inp) = (if known raw then raw else normalizePolicyAction [] (pn_Decision inp))"
    unfolding api_normalizePolicyAction_def normalizePolicyAction_def Let_def raw_def[symmetric] known_def[symmetric] canon_Nil using blank by simp
  then show ?thesis using out blank by auto
qed

lemma delivered_conditions:
  assumes "rule_sound r" "no_blanks r"
  shows "gr_Conditions (convert_rule (store_rule_of r)) = pv_Conditions r"
proof (cases "pv_Conditions r = []")
  case True
  have none: "\<not> given x" if "opt_trim x = None" "\<not> blank x" for x using that by (auto simp: opt_trim_def blank_def given_def split: option.splits if_splits)
  have "opt_trim (pv_MatchHost r) = None" "opt_trim (pv_MatchPath r) = None" "opt_trim (pv_MatchMethod r) = None" using assms(1) True by (simp_all add: rule_sound_def)
  then show ?thesis using True none assms(2)
    by (simp add: convert_rule_def converted_conditions_def store_rule_of_def opt_condition_def no_blanks_def)
next
  case False
  have "map trim_condition (pv_Conditions r) = pv_Conditions r"
    using assms(1) by (intro map_idI) (simp add: rule_sound_def list_all_iff complete_condition_def)
  then show ?thesis using False by (simp add: convert_rule_def converted_conditions_def store_rule_of_def)
qed


section \<open>Tenants\<close>

text \<open>What belongs to the other organisations.\<close>

definition others_kept :: "string \<Rightarrow> policy_tables \<Rightarrow> policy_tables \<Rightarrow> bool" where
  "others_kept org t t' \<longleftrightarrow> filter (\<lambda>r. pv_OrgID r \<noteq> org) (pt_rules t') = filter (\<lambda>r. pv_OrgID r \<noteq> org) (pt_rules t) \<and>
     filter (\<lambda>v. vg_OrgID v \<noteq> org) (pt_vendors t') = filter (\<lambda>v. vg_OrgID v \<noteq> org) (pt_vendors t)"

lemma others_refl [simp]: "others_kept org t t"
  by (simp add: others_kept_def)

lemma others_trans: "others_kept org t t1 \<Longrightarrow> others_kept org t1 t2 \<Longrightarrow> others_kept org t t2"
  by (simp add: others_kept_def)

lemma update_outside: "(\<And>r. r \<in> set rows \<Longrightarrow> P r \<Longrightarrow> \<not> Q r \<and> \<not> Q (f r)) \<Longrightarrow> filter Q (update_where P f rows) = filter Q rows"
  by (induction rows) (auto simp: update_where_def)

lemma others_insert: "insert_rule env call r t = Inr t' \<Longrightarrow> pv_OrgID r = org \<Longrightarrow> others_kept org t t'"
  by (drule insert_done) (simp add: others_kept_def)

lemma others_update:
  assumes "update_rules env call P f t = Inr t'" "\<And>r. r \<in> set (pt_rules t) \<Longrightarrow> P r \<Longrightarrow> pv_OrgID r = org" "\<And>r. pv_OrgID (f r) = pv_OrgID r"
  shows "others_kept org t t'"
  using update_outside[of "pt_rules t" P "\<lambda>r. pv_OrgID r \<noteq> org" f] assms(2,3) by (simp add: others_kept_def update_done[OF assms(1)])

lemma others_audit: "others_kept org t (write_audit env entry t)"
  by (simp add: others_kept_def write_audit_def)

lemma others_vendor:
  assumes "UpsertAIVendorGovernance env org inp t = Inr (v, t')"
  shows "others_kept org t t'"
proof -
  obtain tier where tier: "find_vendor org (canon (vg_AIVendor inp)) t = None \<and> t' = t\<lparr>pt_vendors := pt_vendors t @ [v]\<rparr> \<and> vg_OrgID v = org \<or>
      t' = t\<lparr>pt_vendors := update_where (\<lambda>v. vg_OrgID v = org \<and> vg_AIVendor v = canon (vg_AIVendor inp)) (vendor_columns env tier inp) (pt_vendors t)\<rparr>"
    using assms unfolding UpsertAIVendorGovernance_def Let_def by (auto simp: vendor_columns_def split: if_split_asm option.split_asm)
  show ?thesis
    using tier update_outside[of "pt_vendors t" "\<lambda>v. vg_OrgID v = org \<and> vg_AIVendor v = canon (vg_AIVendor inp)" "\<lambda>v. vg_OrgID v \<noteq> org" "vendor_columns env tier inp"]
    by (auto simp: others_kept_def vendor_columns_def)
qed

lemma others_created: "CreatePolicyRuleV2 env org inp t = Inr (r, t') \<Longrightarrow> others_kept org t t'"
  by (rule created_done, assumption) (erule others_insert, simp add: written_sound)

lemma others_updated: "UpdatePolicyRuleV2 env org i inp t = Inr (found, t') \<Longrightarrow> others_kept org t t'"
  by (rule updated_done, assumption) (erule others_update, simp_all add: written_sound)

lemma others_deleted: "DeletePolicyRuleV2 env org i t = Inr (found, t') \<Longrightarrow> others_kept org t t'"
  by (drule deleted_done, simp add: others_kept_def) (rule filter_cong[OF refl], auto)

lemma others_disabled: "DisableUnsanctionedBlockRule env org vendor t = Inr t' \<Longrightarrow> others_kept org t t'"
  by (drule disabled_done, erule others_update) simp_all

text \<open>A row picked by identifier is the row of the organisation that was found.\<close>

lemma picked_own:
  assumes "tables_sound t" "one_row env P t = Some x" "\<And>rows. rows \<noteq> [] \<Longrightarrow> pe_pick env rows \<in> set rows" "\<And>r. P r \<Longrightarrow> pv_OrgID r = org"
    "r \<in> set (pt_rules t)" "pv_ID r = pv_ID x"
  shows "pv_OrgID r = org" "r = x"
proof -
  note x = one_row_in[OF assms(2,3)]
  show "r = x" using assms(1,5,6) x(1) by (auto simp: tables_sound_def distinct_map inj_on_def)
  then show "pv_OrgID r = org" using x(2) assms(4) by simp
qed

lemma others_block:
  assumes "EnsureUnsanctionedBlockRule env org vendor t = Inr t'" "tables_sound t" "\<And>rows. rows \<noteq> [] \<Longrightarrow> pe_pick env rows \<in> set rows"
  shows "others_kept org t t'"
proof (cases "one_row env (\<lambda>r. pv_OrgID r = org \<and> pv_Name r = unsanctionedBlockRuleName (canon vendor)) t")
  case None
  then show ?thesis using assms(1) by (auto simp: EnsureUnsanctionedBlockRule_def Let_def failing_ok split: if_splits intro: others_insert)
next
  case (Some x)
  then have "update_rules env ''UpdateBlockRule'' (\<lambda>r. pv_ID r = pv_ID x) (\<lambda>r. (block_columns (canon vendor) r)\<lparr>pv_UpdatedAt := dx_now (pe_db env)\<rparr>) t = Inr t'"
    using assms(1) by (simp add: EnsureUnsanctionedBlockRule_def Let_def failing_ok split: if_splits)
  from others_update[OF this] show ?thesis using picked_own(1)[OF assms(2) Some assms(3)] by simp
qed

lemma others_managed:
  assumes "tables_sound t" "\<And>rows. rows \<noteq> [] \<Longrightarrow> pe_pick env rows \<in> set rows" "set defs \<subseteq> set managedAIDLPPolicyDefinitions"
  shows "others_kept org t (snd (ensure_managed env org defs t))"
  using assms(1,3)
proof (induction defs arbitrary: t)
  case (Cons def defs)
  show ?case
  proof (cases "upsertManagedPolicy env org def t")
    case (Inr t1)
    have "others_kept org t t1"
    proof (cases "one_row env (\<lambda>r. pv_OrgID r = org \<and> pv_Name r = mp_Name def) t")
      case None
      then show ?thesis using Inr by (auto simp: upsertManagedPolicy_def split: if_splits intro: others_insert)
    next
      case (Some x)
      then have "update_rules env ''UpdateManaged'' (\<lambda>r. pv_ID r = pv_ID x) (\<lambda>r. (managed_columns def r)\<lparr>pv_UpdatedAt := dx_now (pe_db env)\<rparr>) t = Inr t1"
        using Inr by (simp add: upsertManagedPolicy_def split: if_splits)
      from others_update[OF this] show ?thesis using picked_own(1)[OF Cons.prems(1) Some assms(2)] by simp
    qed
    moreover have "tables_sound t1" using step_sound[OF upsert_step[OF Inr] Cons.prems(1)] Cons.prems(2) by simp
    ultimately show ?thesis using Cons.IH[of t1] Cons.prems(2) Inr by (auto intro: others_trans)
  qed simp
qed simp

text \<open>
  C14. Administration is confined to the tenant. Whatever request on rules or vendors a user sends, from any state that
  requests reach, the rules and the vendor settings of every other organisation are as before, whichever row the
  database picks where a query does not say; and the tables stay well formed: identifiers and the priorities
  of an organisation unique, every rule named, with complete conditions and an action that agrees with the older decision.
\<close>

theorem policy_administration_isolated:
  assumes "policy_step\<^sup>*\<^sup>* (no_policies db) t" "\<forall>rows. rows \<noteq> [] \<longrightarrow> pe_pick env rows \<in> set rows" "op \<noteq> OpEnsureAll"
  shows "others_kept (us_OrgID u) t (policy_exec env (Some u) op t) \<and> tables_sound (policy_exec env (Some u) op t)"
proof
  have sound: "tables_sound t" by (rule policy_history.reachable_inv[OF assms(1)])
  show "tables_sound (policy_exec env (Some u) op t)" by (rule policy_history.inv_steps[OF exec_steps sound])
  have pick: "pe_pick env rows \<in> set rows" if "rows \<noteq> []" for rows using assms(2) that by blast
  have managed: "others_kept org t (snd (EnsureManagedAIDLPPolicies env org t))" for org
    unfolding EnsureManagedAIDLPPolicies_def by (rule others_managed[OF sound pick]) simp_all
  have vs: "tables_sound t1" if "UpsertAIVendorGovernance env org inp t = Inr (v, t1)" for org inp v t1
    using step_sound[OF vendor_upserted[OF that] sound] .
  show "others_kept (us_OrgID u) t (policy_exec env (Some u) op t)"
  proof (cases op)
    case OpListPolicies
    then show ?thesis using managed[of "us_OrgID u"] by (simp add: handleListPolicies_def Let_def split: sum.split)
  next
    case (OpCreatePolicy body)
    then show ?thesis by (auto simp: handleCreatePolicy_def split: option.split sum.split intro: others_created)
  next
    case (OpUpdatePolicy i body)
    then show ?thesis by (auto simp: handleUpdatePolicy_def split: option.split sum.split intro: others_updated)
  next
    case (OpDeletePolicy i)
    then show ?thesis by (auto simp: handleDeletePolicy_def split: bool.split sum.split intro: others_deleted)
  next
    case (OpUpsertVendor ip vendor body)
    then show ?thesis
      by (auto simp: handleUpsertAIVendorGovernance_def Let_def split: option.split sum.split
          intro: others_vendor others_trans[OF others_vendor others_audit] others_trans[OF others_trans[OF others_vendor others_disabled] others_audit])
  next
    case (OpBlockVendor ip vendor)
    then show ?thesis
      by (auto simp: handleBlockUnsanctionedVendor_def Let_def split: option.split sum.split
          intro: others_vendor others_trans[OF others_trans[OF others_vendor others_block[OF _ vs pick]] others_audit])
  next
    case (OpUnblockVendor ip vendor)
    then show ?thesis
      by (auto simp: handleUnblockVendor_def Let_def split: option.split sum.split intro: others_trans[OF others_disabled others_audit])
  qed (use assms(3) in simp)
qed

section \<open>Blocking a vendor\<close>

definition vendor_block :: "string \<Rightarrow> string \<Rightarrow> policy_row \<Rightarrow> bool" where
  "vendor_block org vendor r \<longleftrightarrow> pv_OrgID r = org \<and> pv_Name r = unsanctionedBlockRuleName vendor \<and> pv_Enabled r \<and> pv_Action r = ''block'' \<and>
     pv_Conditions r = [condition ''ai_vendor'' ''eq'' (canon vendor)]"

lemma block_present:
  assumes "EnsureUnsanctionedBlockRule env org vendor t = Inr t'" "\<And>rows. rows \<noteq> [] \<Longrightarrow> pe_pick env rows \<in> set rows"
  shows "\<exists>r\<in>set (pt_rules t'). vendor_block org vendor r"
proof -
  let ?name = "unsanctionedBlockRuleName (canon vendor)"
  have name: "unsanctionedBlockRuleName vendor = ?name" by (simp add: unsanctionedBlockRuleName_def)
  have block: "vendor_block org vendor (block_columns (canon vendor) r)" if "pv_OrgID r = org" "pv_Name r = ?name" for r
    using that by (simp add: vendor_block_def name) (simp add: block_columns_def)
  show ?thesis
  proof (cases "one_row env (\<lambda>r. pv_OrgID r = org \<and> pv_Name r = ?name) t")
    case None
    then have "insert_rule env ''InsertBlockRule'' (block_columns (canon vendor) ((new_row env org ?name)\<lparr>pv_Priority := last_priority org t\<rparr>)) t = Inr t'"
      using assms(1) by (simp add: EnsureUnsanctionedBlockRule_def Let_def failing_ok split: if_splits)
    from insert_done[OF this] block[of "(new_row env org ?name)\<lparr>pv_Priority := last_priority org t\<rparr>"] show ?thesis by simp
  next
    case (Some x)
    then have "update_rules env ''UpdateBlockRule'' (\<lambda>r. pv_ID r = pv_ID x) (\<lambda>r. (block_columns (canon vendor) r)\<lparr>pv_UpdatedAt := dx_now (pe_db env)\<rparr>) t = Inr t'"
      using assms(1) by (simp add: EnsureUnsanctionedBlockRule_def Let_def failing_ok split: if_splits)
    then have upd: "t' = t\<lparr>pt_rules := update_where (\<lambda>r. pv_ID r = pv_ID x) (\<lambda>r. (block_columns (canon vendor) r)\<lparr>pv_UpdatedAt := dx_now (pe_db env)\<rparr>) (pt_rules t)\<rparr>"
      by (rule update_done)
    note x = one_row_in[OF Some assms(2)]
    have "(block_columns (canon vendor) x)\<lparr>pv_UpdatedAt := dx_now (pe_db env)\<rparr> \<in> set (pt_rules t')"
      using x(1) by (force simp: upd update_where_def)
    moreover have "vendor_block org vendor ((block_columns (canon vendor) x)\<lparr>pv_UpdatedAt := dx_now (pe_db env)\<rparr>)"
      using block[of x] x(2) by (simp add: vendor_block_def)
    ultimately show ?thesis by blast
  qed
qed

lemma vendor_condition: "condition_holds rc ctx (condition ''ai_vendor'' ''eq'' v) \<longleftrightarrow> equal_fold (cx_AIVendor ctx) v"
  by (simp add: condition_holds_def condition_def evalOperator_def resolveField_def)

lemma delivered_given:
  assumes "rule_sound r" "pv_Conditions r \<noteq> []"
  shows "gr_Conditions (convert_rule (store_rule_of r)) = pv_Conditions r"
proof -
  have "map trim_condition (pv_Conditions r) = pv_Conditions r"
    using assms(1) by (intro map_idI) (simp add: rule_sound_def list_all_iff complete_condition_def)
  then show ?thesis using assms(2) by (simp add: convert_rule_def converted_conditions_def store_rule_of_def)
qed

text \<open>
  C9. Blocking a vendor blocks it. After the dashboard has answered that a vendor is blocked, and the gateway has reloaded and
  an agent has loaded what it delivers, a request to that vendor from this organisation is blocked by the vendor's
  rule, unless an enabled rule of the organisation with a smaller priority matches it and decides instead.
\<close>

theorem vendor_block_enforced:
  assumes reach: "policy_step\<^sup>*\<^sup>* (no_policies db) t" and pick: "\<forall>rows. rows \<noteq> [] \<longrightarrow> pe_pick env rows \<in> set rows"
    and block: "handleBlockUnsanctionedVendor env (Some u) ip path t = (Answered code vendor, t')"
    and ids: "ids_plain t'" "plain_id (us_OrgID u)"
    and order: "slice_sort pv_Priority (pe_order env')" and rows: "GetAllPolicyRules env' t' = Some rows"
    and agent: "slice_sort pr_Priority sorter" "engine_Update rc sorter (Some (agent_payload (org_payload st (gw_Reload (Some rows) e) (us_OrgID u)))) ag = (None, ag')"
    and vendor: "equal_fold (cx_AIVendor ctx) vendor"
  shows "\<exists>r\<in>set (active_rules env' (us_OrgID u) t'). vendor_block (us_OrgID u) vendor r \<and>
    (engine_Apply ag' ctx = (DecisionBlock, pv_ID r) \<or>
     (\<exists>x\<in>set (active_rules env' (us_OrgID u) t'). pv_Priority x < pv_Priority r \<and> rule_matches rc ctx (agent_rule (convert_rule (store_rule_of x))) \<and>
        engine_Apply ag' ctx = (agent_decision (mapRuleDecision (pv_Action x) (pv_Decision x)), pv_ID x)))"
proof -
  let ?org = "us_OrgID u" and ?A = "\<lambda>r. agent_rule (convert_rule (store_rule_of r))"
  let ?act = "active_rules env' ?org t'"
  have sound0: "tables_sound t" by (rule policy_history.reachable_inv[OF reach])
  have sound: "tables_sound t'" using policy_history.inv_steps[OF exec_steps[of t env "Some u" "OpBlockVendor ip path"] sound0] block by simp
  have v: "canon vendor = vendor" and present: "\<exists>r\<in>set (pt_rules t'). vendor_block ?org vendor r"
    using block pick block_present by (auto simp: handleBlockUnsanctionedVendor_def Let_def write_audit_def split: if_splits sum.splits)
  obtain r where r: "r \<in> set (pt_rules t')" "vendor_block ?org vendor r" using present by blast
  have active: "r \<in> set ?act" using r slice_sort.set_sorter[OF order] by (simp add: active_rules_def vendor_block_def)
  have p: "pp_Rules (agent_payload (org_payload st (gw_Reload (Some rows) e) ?org)) = map ?A ?act"
    by (simp add: agent_payload_def payload_rules loaded_rules[OF sound ids order rows])
  note up = engine_Update_matches[OF agent]
  have rs: "set (en_rules ag') = ?A ` set ?act" using up(1) p by simp
  have prio: "pr_Priority (?A x) = pv_Priority x" "pr_ID (?A x) = pv_ID x" for x by (simp_all add: agent_rule_def convert_rule_def store_rule_of_def)
  have dec: "pr_Decision (?A x) = agent_decision (mapRuleDecision (pv_Action x) (pv_Decision x))" if "x \<in> set ?act" for x
    using delivered_decision[of "store_rule_of x"] sound_action(1)[OF sound_rule[OF sound]] active_in[OF order that] by (simp add: store_rule_of_def)
  have match: "engine_matches ag' ctx (?A r)"
  proof -
    have "rule_matches rc ctx (?A r)"
      using r delivered_given[OF sound_rule[OF sound r(1)]] vendor v by (simp add: rule_matches_def agent_rule_def vendor_block_def vendor_condition)
    then show ?thesis using up(3) p active by simp
  qed
  have blocked: "agent_decision (mapRuleDecision (pv_Action r) (pv_Decision r)) = DecisionBlock"
  proof -
    have "canon ''block'' = ''block''" by code_simp
    then show ?thesis using r(2) by (simp add: vendor_block_def mapRuleDecision_def)
  qed
  show ?thesis
  proof (intro bexI[OF _ active] conjI r(2))
    show "engine_Apply ag' ctx = (DecisionBlock, pv_ID r) \<or> (\<exists>x\<in>set ?act. pv_Priority x < pv_Priority r \<and> rule_matches rc ctx (?A x) \<and>
        engine_Apply ag' ctx = (agent_decision (mapRuleDecision (pv_Action x) (pv_Decision x)), pv_ID x))"
    proof -
      have "?A r \<in> set (en_rules ag')" using rs active by simp
      from core_engine.eval_first[OF up(4) this match] obtain y where rule: "y \<in> set (en_rules ag')" "engine_matches ag' ctx y"
        "engine_Apply ag' ctx = (pr_Decision y, pr_ID y)" "\<forall>x\<in>set (en_rules ag'). engine_matches ag' ctx x \<longrightarrow> pr_Priority y \<le> pr_Priority x" by blast
      then obtain x where x: "x \<in> set ?act" "y = ?A x" using rs by auto
      have le: "pv_Priority x \<le> pv_Priority r" using rule match active rs x(2) by (force simp: prio)
      have m: "rule_matches rc ctx (?A x)" using rule up(3) x(2) by simp
      have res: "engine_Apply ag' ctx = (agent_decision (mapRuleDecision (pv_Action x) (pv_Decision x)), pv_ID x)" using rule x dec by (simp add: prio)
      show ?thesis
      proof (cases "pv_Priority x = pv_Priority r")
        case True
        then have "x = r" using active_order(2)[OF sound order, of ?org] x(1) active by (auto simp: distinct_map inj_on_def)
        then show ?thesis using res blocked by simp
      next
        case False
        then show ?thesis using le m res x(1) by (intro disjI2 bexI[of _ x]) auto
      qed
    qed
  qed
qed

section \<open>Concrete runs\<close>

definition open_env :: policy_env where
  "open_env = \<lparr>pe_db = \<lparr>dx_now = 0, dx_fails = (\<lambda>_. False), dx_uuid = []\<rparr>, pe_pick = hd, pe_order = sort_key pv_Priority, pe_uuid = (\<lambda>_ name. ''id of '' @ name)\<rparr>"

definition policy_admin :: admin_user where
  "policy_admin = \<lparr>us_ID = ''u1'', us_OrgID = ''org'', us_Email = ''a@b'', us_Name = ''A'', us_PasswordHash = [], us_Role = ''owner'',
     us_MustChangePassword = False, us_TermsAcceptedAt = None, us_CreatedAt = 0, us_UpdatedAt = 0\<rparr>"

definition rule_request :: "string \<Rightarrow> int \<Rightarrow> string \<Rightarrow> rule_condition list \<Rightarrow> policyRuleRequest" where
  "rule_request name priority action conds =
    \<lparr>qr_Name = name, qr_Priority = priority, qr_Enabled = None, qr_Action = action, qr_Conditions = conds, qr_BlockReason = None, qr_MatchHost = None,
     qr_MatchPath = None, qr_MatchMethod = None, qr_Decision = []\<rparr>"

definition no_uploads :: policyRuleRequest where
  "no_uploads = rule_request ''no uploads'' 5 ''Block'' [condition ''host'' ''suffix'' ''.openai.com'', condition ''method'' ''eq'' ''post'']"

definition one_tenant :: database where
  "one_tenant = \<lparr>db_organizations = [sample_org], db_devices = [], db_tokens = [], db_codes = [], db_certificates = [], db_audit = [], db_users = [], db_sessions = []\<rparr>"

definition no_rules :: policy_tables where
  "no_rules = no_policies one_tenant"

definition one_rule :: policy_tables where
  "one_rule = policy_exec open_env (Some policy_admin) (OpCreatePolicy (Some no_uploads)) no_rules"

lemma one_rule_reached: "policy_step\<^sup>*\<^sup>* (no_policies one_tenant) one_rule"
  unfolding one_rule_def no_rules_def by (rule exec_steps)

lemma open_order: "slice_sort pv_Priority (pe_order open_env)"
  unfolding open_env_def policy_env.select_convs by (rule insertion.slice_sort_axioms)

lemma open_pick: "\<forall>rows. rows \<noteq> [] \<longrightarrow> pe_pick open_env rows \<in> set rows"
  by (simp add: open_env_def)

text \<open>The row the request leaves.\<close>

definition no_uploads_row :: policy_row where
  "no_uploads_row = \<lparr>pv_ID = ''id of no uploads'', pv_OrgID = ''org'', pv_Name = ''no uploads'', pv_Priority = 5, pv_Enabled = True, pv_Action = ''block'',
     pv_Conditions = [condition ''host'' ''suffix'' ''.openai.com'', condition ''method'' ''eq'' ''post''], pv_BlockReason = None, pv_MatchHost = Some ''.openai.com'',
     pv_MatchPath = None, pv_MatchMethod = Some ''POST'', pv_Decision = ''block'', pv_CreatedAt = 0, pv_UpdatedAt = 0\<rparr>"

lemma one_rule_row: "one_rule = \<lparr>pt_base = one_tenant, pt_rules = [no_uploads_row], pt_vendors = []\<rparr>"
  by code_simp

lemma one_rule_facts: "ids_plain one_rule" "plain_id ''org''" "list_all no_blanks (filter (\<lambda>r. pv_OrgID r = ''org'') (pt_rules one_rule))"
  "ListPolicyRulesV2 open_env ''org'' one_rule = Inr [no_uploads_row]" "GetAllPolicyRules open_env one_rule = Some [store_rule_of no_uploads_row]"
  unfolding one_rule_row by code_simp+


definition sample_try :: "policyRuleRequest \<times> policyTestContext" where
  "sample_try = (no_uploads, test_context (sample_context ''api.openai.com''))"


theorem policy_administration_isolated_witness:
  "others_kept ''org'' one_rule (policy_exec open_env (Some policy_admin) (OpDeletePolicy ''id of no uploads'') one_rule) \<and>
   pt_rules (policy_exec open_env (Some policy_admin) (OpDeletePolicy ''id of no uploads'') one_rule) = []"
proof -
  have "us_OrgID policy_admin = ''org''" by (simp add: policy_admin_def)
  moreover have "OpDeletePolicy ''id of no uploads'' \<noteq> OpEnsureAll" by simp
  moreover have "pt_rules (policy_exec open_env (Some policy_admin) (OpDeletePolicy ''id of no uploads'') one_rule) = []" unfolding one_rule_row by code_simp
  ultimately show ?thesis using policy_administration_isolated[OF one_rule_reached open_pick] by metis
qed

text \<open>A vendor is blocked, and an agent loads the rule.\<close>

definition blocked_openai :: policy_tables where
  "blocked_openai = policy_exec open_env (Some policy_admin) (OpBlockVendor None '' OpenAI'') no_rules"

definition block_row :: policy_row where
  "block_row = \<lparr>pv_ID = ''id of Auto: Block unsanctioned AI - openai'', pv_OrgID = ''org'', pv_Name = ''Auto: Block unsanctioned AI - openai'', pv_Priority = 9000,
     pv_Enabled = True, pv_Action = ''block'', pv_Conditions = [condition ''ai_vendor'' ''eq'' ''openai''], pv_BlockReason = Some ''Unsanctioned AI vendor blocked (openai)'',
     pv_MatchHost = None, pv_MatchPath = None, pv_MatchMethod = None, pv_Decision = ''block'', pv_CreatedAt = 0, pv_UpdatedAt = 0\<rparr>"

lemma blocked_openai_rows: "pt_rules blocked_openai = [block_row]" "map og_ID (db_organizations (pt_base blocked_openai)) = [''org'']"
  by code_simp+

lemma blocked_openai_answer: "handleBlockUnsanctionedVendor open_env (Some policy_admin) None '' OpenAI'' no_rules = (Answered 200 ''openai'', blocked_openai)"
proof -
  have "fst (handleBlockUnsanctionedVendor open_env (Some policy_admin) None '' OpenAI'' no_rules) = Answered 200 ''openai''" by code_simp
  then show ?thesis by (simp add: blocked_openai_def prod_eq_iff)
qed

theorem vendor_block_enforced_witness:
  "\<exists>ag'. engine_Update no_regex (sort_key pr_Priority)
      (Some (agent_payload (org_payload Policy_Delivery.sample_store (gw_Reload (GetAllPolicyRules open_env blocked_openai) \<lparr>ge_rules = []\<rparr>) ''org''))) (NewEngine DecisionForward) = (None, ag') \<and>
    engine_Apply ag' (sample_context ''api.openai.com'') = (DecisionBlock, ''id of Auto: Block unsanctioned AI - openai'')"
proof -
  let ?ctx = "sample_context ''api.openai.com''"
  have admin: "us_OrgID policy_admin = ''org''" by (simp add: policy_admin_def)
  have rows: "GetAllPolicyRules open_env blocked_openai = Some [store_rule_of block_row]"
    by (simp add: GetAllPolicyRules_def open_env_def blocked_openai_rows(1)) (simp add: block_row_def)
  have plain: "plain_id ''org''" by code_simp
  have ids: "ids_plain blocked_openai"
  proof -
    have "list_all plain_id (map og_ID (db_organizations (pt_base blocked_openai)))" using plain by (simp add: blocked_openai_rows(2))
    then show ?thesis by (simp add: ids_plain_def list_all_iff)
  qed
  let ?p = "agent_payload (org_payload Policy_Delivery.sample_store (gw_Reload (Some [store_rule_of block_row]) \<lparr>ge_rules = []\<rparr>) ''org'')"
  have "list_all (\<lambda>r. list_all (\<lambda>c. rc_Operator c \<noteq> ''regex'') (pr_Conditions r)) (pp_Rules ?p)" by code_simp
  then have "regexes_ok no_regex (pp_Rules ?p)" by (simp only: regexes_ok_def list_all_iff simp_thms ball_simps) simp
  then obtain ag' where upd: "engine_Update no_regex (sort_key pr_Priority) (Some ?p) (NewEngine DecisionForward) = (None, ag')"
    using delivered_update[OF insertion.slice_sort_axioms] by blast
  have reach: "policy_step\<^sup>*\<^sup>* (no_policies one_tenant) no_rules" by (simp add: no_rules_def)
  have vendor: "equal_fold (cx_AIVendor ?ctx) ''openai''" by code_simp
  have active: "active_rules open_env ''org'' blocked_openai = [block_row]"
    by (simp add: active_rules_def open_env_def blocked_openai_rows(1)) (simp add: block_row_def)
  have i: "pv_ID block_row = ''id of Auto: Block unsanctioned AI - openai''" by (simp add: block_row_def)
  show ?thesis
    using vendor_block_enforced[OF reach open_pick blocked_openai_answer ids _ open_order rows insertion.slice_sort_axioms _ vendor, unfolded admin, OF plain upd, unfolded active]
      upd rows by (auto simp: i)
qed

section \<open>Managed rules\<close>

definition managed_in :: "string \<Rightarrow> managed_policy \<Rightarrow> policy_row \<Rightarrow> bool" where
  "managed_in org def r \<longleftrightarrow> pv_OrgID r = org \<and> pv_Name r = mp_Name def \<and> pv_Enabled r \<and> pv_Priority r = mp_Priority def \<and> pv_Action r = mp_Action def \<and>
     pv_Conditions r = mp_Conditions def"

lemma managed_in_columns: "pv_OrgID r = org \<Longrightarrow> pv_Name r = mp_Name def \<Longrightarrow> managed_in org def (managed_columns def r)"
  by (simp add: managed_in_def) (simp add: managed_columns_def)

text \<open>Installing one definition puts it in force and leaves the rules of other names alone.\<close>

lemma managed_installed:
  assumes "upsertManagedPolicy env org def t = Inr t'" "tables_sound t" "\<And>rows. rows \<noteq> [] \<Longrightarrow> pe_pick env rows \<in> set rows"
  shows "\<exists>r\<in>set (pt_rules t'). managed_in org def r" "\<And>r. r \<in> set (pt_rules t) \<Longrightarrow> pv_Name r \<noteq> mp_Name def \<Longrightarrow> r \<in> set (pt_rules t')"
proof -
  have "(\<exists>r\<in>set (pt_rules t'). managed_in org def r) \<and> (\<forall>r\<in>set (pt_rules t). pv_Name r \<noteq> mp_Name def \<longrightarrow> r \<in> set (pt_rules t'))"
  proof (cases "one_row env (\<lambda>r. pv_OrgID r = org \<and> pv_Name r = mp_Name def) t")
    case None
    then have "insert_rule env ''InsertManaged'' (managed_columns def (new_row env org (mp_Name def))) t = Inr t'"
      using assms(1) by (simp add: upsertManagedPolicy_def split: if_splits)
    then have "t' = t\<lparr>pt_rules := pt_rules t @ [managed_columns def (new_row env org (mp_Name def))]\<rparr>" by (rule insert_done)
    then show ?thesis using managed_in_columns[of "new_row env org (mp_Name def)" org def] by simp
  next
    case (Some x)
    then have "update_rules env ''UpdateManaged'' (\<lambda>r. pv_ID r = pv_ID x) (\<lambda>r. (managed_columns def r)\<lparr>pv_UpdatedAt := dx_now (pe_db env)\<rparr>) t = Inr t'"
      using assms(1) by (simp add: upsertManagedPolicy_def split: if_splits)
    then have u: "t' = t\<lparr>pt_rules := update_where (\<lambda>r. pv_ID r = pv_ID x) (\<lambda>r. (managed_columns def r)\<lparr>pv_UpdatedAt := dx_now (pe_db env)\<rparr>) (pt_rules t)\<rparr>"
      by (rule update_done)
    note x = one_row_in[OF Some assms(3)]
    have "(managed_columns def x)\<lparr>pv_UpdatedAt := dx_now (pe_db env)\<rparr> \<in> set (pt_rules t')" using x(1) by (force simp: u update_where_def)
    moreover have "managed_in org def ((managed_columns def x)\<lparr>pv_UpdatedAt := dx_now (pe_db env)\<rparr>)" using managed_in_columns[of x org def] x(2) by (simp add: managed_in_def)
    moreover have "r \<in> set (pt_rules t')" if "r \<in> set (pt_rules t)" "pv_Name r \<noteq> mp_Name def" for r
      using picked_own(2)[OF assms(2) Some assms(3), of org r] x(2) that by (force simp: u update_where_def)
    ultimately show ?thesis by blast
  qed
  then show "\<exists>r\<in>set (pt_rules t'). managed_in org def r" "\<And>r. r \<in> set (pt_rules t) \<Longrightarrow> pv_Name r \<noteq> mp_Name def \<Longrightarrow> r \<in> set (pt_rules t')" by blast+
qed

text \<open>An installation without an error leaves every managed rule in force.\<close>

lemma managed_all:
  assumes "ensure_managed env org defs t = (None, t')" "tables_sound t" "\<And>rows. rows \<noteq> [] \<Longrightarrow> pe_pick env rows \<in> set rows"
    "set defs \<subseteq> set managedAIDLPPolicyDefinitions" "distinct (map mp_Name defs)"
  shows "\<forall>def\<in>set defs. \<exists>r\<in>set (pt_rules t'). managed_in org def r"
    "\<And>r. r \<in> set (pt_rules t) \<Longrightarrow> pv_Name r \<notin> mp_Name ` set defs \<Longrightarrow> r \<in> set (pt_rules t')"
proof -
  have "(\<forall>def\<in>set defs. \<exists>r\<in>set (pt_rules t'). managed_in org def r) \<and> (\<forall>r\<in>set (pt_rules t). pv_Name r \<notin> mp_Name ` set defs \<longrightarrow> r \<in> set (pt_rules t'))"
    using assms(1,2,4,5)
  proof (induction defs arbitrary: t)
    case (Cons def defs)
    then obtain t1 where t1: "upsertManagedPolicy env org def t = Inr t1" "ensure_managed env org defs t1 = (None, t')" by (auto split: sum.splits)
    have s1: "tables_sound t1" using step_sound[OF upsert_step[OF t1(1)] Cons.prems(2)] Cons.prems(3) by simp
    have rest: "set defs \<subseteq> set managedAIDLPPolicyDefinitions" "distinct (map mp_Name defs)" "mp_Name def \<notin> mp_Name ` set defs" using Cons.prems(3,4) by auto
    note ih = Cons.IH[OF t1(2) s1 rest(1,2)]
    obtain r where r: "r \<in> set (pt_rules t1)" "managed_in org def r" using managed_installed(1)[OF t1(1) Cons.prems(2) assms(3)] by blast
    then have "r \<in> set (pt_rules t')" using ih rest(3) by (simp add: managed_in_def)
    then show ?case using ih r(2) managed_installed(2)[OF t1(1) Cons.prems(2) assms(3)] by fastforce
  qed simp
  then show "\<forall>def\<in>set defs. \<exists>r\<in>set (pt_rules t'). managed_in org def r"
    "\<And>r. r \<in> set (pt_rules t) \<Longrightarrow> pv_Name r \<notin> mp_Name ` set defs \<Longrightarrow> r \<in> set (pt_rules t')" by blast+
qed

text \<open>The baseline: an installation that reports no error leaves the four managed rules in force, whatever was changed in the dashboard before.\<close>

theorem managed_baseline_installed:
  assumes "policy_step\<^sup>*\<^sup>* (no_policies db) t" "\<forall>rows. rows \<noteq> [] \<longrightarrow> pe_pick env rows \<in> set rows" "EnsureManagedAIDLPPolicies env org t = (None, t')"
  shows "\<forall>def\<in>set managedAIDLPPolicyDefinitions. \<exists>r\<in>set (pt_rules t'). managed_in org def r"
proof -
  have "distinct (map mp_Name managedAIDLPPolicyDefinitions)" by code_simp
  then show ?thesis
    using managed_all(1)[OF assms(3)[unfolded EnsureManagedAIDLPPolicies_def] policy_history.reachable_inv[OF assms(1)]] assms(2) by blast
qed

section \<open>Where the administration falls short\<close>

text \<open>
  A rule of the organisation's own at the priority of the first managed rule keeps all four from being installed; the
  list is answered as if nothing had happened.
\<close>

lemma own_rule_blocks_managed:
  assumes "\<not> dx_fails (pe_db env) ''SelectManaged''" "\<not> dx_fails (pe_db env) ''InsertManaged''" "x \<in> set (pt_rules t)" "rule_key x = (org, 8000)"
    "\<exists>o'\<in>set (db_organizations (pt_base t)). og_ID o' = org" "\<forall>r\<in>set (pt_rules t). pv_OrgID r = org \<longrightarrow> pv_Name r \<noteq> ''Managed: AI Credentials Block''"
  shows "EnsureManagedAIDLPPolicies env org t = (Some DuplicateKey, t)"
proof -
  obtain def defs where d: "managedAIDLPPolicyDefinitions = def # defs" "mp_Name def = ''Managed: AI Credentials Block''" "mp_Priority def = 8000" "mp_Action def = ''block''"
    by (simp add: managedAIDLPPolicyDefinitions_def)
  have none: "one_row env (\<lambda>r. pv_OrgID r = org \<and> pv_Name r = mp_Name def) t = None" using assms(6) d(2) by (auto simp: one_row_none)
  have legacy: "actionToLegacyDecision ''block'' = ''block''" by code_simp
  let ?new = "managed_columns def (new_row env org (mp_Name def))"
  have new: "rule_key ?new = (org, 8000)" "row_ok (pt_base t) ?new"
    using assms(5) d(3,4) legacy by (simp_all add: rule_key_def row_ok_def managed_columns_def)
  then have "insert_rule env ''InsertManaged'' ?new t = Inl DuplicateKey" using assms(2-4) by (auto simp: insert_rule_def)
  then have "upsertManagedPolicy env org def t = Inl DuplicateKey" using assms(1) none by (simp add: upsertManagedPolicy_def)
  then show ?thesis by (simp add: EnsureManagedAIDLPPolicies_def d(1))
qed

text \<open>The rule that blocks a vendor comes after every other rule of the organisation.\<close>

lemma vendor_block_comes_last: "r \<in> set (pt_rules t) \<Longrightarrow> pv_OrgID r = org \<Longrightarrow> pv_Priority r < last_priority org t"
proof -
  assume r: "r \<in> set (pt_rules t)" "pv_OrgID r = org"
  then have "pv_Priority r \<in> set (map pv_Priority (filter (\<lambda>r. pv_OrgID r = org) (pt_rules t)))" by simp
  then obtain p ps where "map pv_Priority (filter (\<lambda>r. pv_OrgID r = org) (pt_rules t)) = p # ps" "pv_Priority r \<in> set (p # ps)"
    by (cases "map pv_Priority (filter (\<lambda>r. pv_OrgID r = org) (pt_rules t))") auto
  then show ?thesis using Max_ge[of "set (p # ps)" "pv_Priority r"] unfolding Max.set_eq_fold by (simp add: last_priority_def)
qed

text \<open>Deleting a rule that does not exist is answered as an internal error.\<close>

lemma missing_rule_deletion_fails:
  "\<forall>r\<in>set (pt_rules t). \<not> (pv_ID r = i \<and> pv_OrgID r = us_OrgID u) \<Longrightarrow> fst (handleDeletePolicy env (Some u) i t) = Refused internal_error"
  by (auto simp: handleDeletePolicy_def DeletePolicyRuleV2_def run_statement_def split: bool.split)

text \<open>No governance decision is ever audited: the column check does not know the actor type.\<close>

lemma governance_never_audited: "write_audit env (governance_audit u ip action vendor details) t = t"
  by (simp add: write_audit_def audit_outside_def InsertAudit_def governance_audit_def actor_types_def)

text \<open>Two rules created without a priority: the second is refused.\<close>

lemma second_default_priority_refused:
  "fst (handleCreatePolicy open_env (Some policy_admin) (Some (rule_request ''b'' 0 ''block'' []))
     (snd (handleCreatePolicy open_env (Some policy_admin) (Some (rule_request ''a'' 0 ''block'' [])) no_rules))) = Refused invalid_request"
  by code_simp

text \<open>An expression that does not compile is accepted, and then the agents refuse the whole policy.\<close>

definition broken_row :: policy_row where
  "broken_row = no_uploads_row\<lparr>pv_ID := ''id of bad'', pv_Name := ''bad'', pv_Conditions := [condition ''host'' ''regex'' ''(''], pv_MatchHost := None, pv_MatchMethod := None\<rparr>"

lemma broken_regex_stops_delivery:
  "pt_rules (policy_exec open_env (Some policy_admin) (OpCreatePolicy (Some (rule_request ''bad'' 5 ''block'' [condition ''host'' ''regex'' ''('']))) no_rules) = [broken_row]"
  "slice_sort pr_Priority sorter \<Longrightarrow> fst (engine_Update literal_regexp sorter (Some (agent_payload (org_payload st \<lparr>ge_rules = [store_rule_of broken_row]\<rparr> ''org''))) ag) \<noteq> None"
proof -
  show "pt_rules (policy_exec open_env (Some policy_admin) (OpCreatePolicy (Some (rule_request ''bad'' 5 ''block'' [condition ''host'' ''regex'' ''('']))) no_rules) = [broken_row]"
    by code_simp
  let ?r = "agent_rule (convert_rule (store_rule_of broken_row))"
  assume sort: "slice_sort pr_Priority sorter"
  have "RulesForOrg \<lparr>ge_rules = [store_rule_of broken_row]\<rparr> ''org'' = [store_rule_of broken_row]" by code_simp
  then have p: "pp_Rules (agent_payload (org_payload st \<lparr>ge_rules = [store_rule_of broken_row]\<rparr> ''org'')) = [?r]" by (simp add: agent_payload_def payload_rules)
  have "pr_Conditions ?r = [condition ''host'' ''regex'' ''('']" by code_simp
  then have "\<not> regexes_ok literal_regexp (sorter [?r])"
    using slice_sort.set_sorter[OF sort, of "[?r]"] by (simp add: regexes_ok_def condition_def literal_regexp_def)
  then show "fst (engine_Update literal_regexp sorter (Some (agent_payload (org_payload st \<lparr>ge_rules = [store_rule_of broken_row]\<rparr> ''org''))) ag) \<noteq> None"
    by (auto simp: engine_Update_def Let_def p split: sum.split dest: compileRules_ok)
qed

text \<open>A field in capitals: accepted, effective at the gateway and in the try-out, ignored by the agent.\<close>

definition capital_row :: policy_row where
  "capital_row = no_uploads_row\<lparr>pv_Conditions := [condition ''Host'' ''eq'' ''api.openai.com'']\<rparr>"

lemma capitals_differ:
  "gw_matchRule no_regex (store_rule_of capital_row) ''api.openai.com'' ''/'' ''GET''"
  "tr_Matched (test_condition no_regex (test_context (sample_context ''api.openai.com'')) (condition ''Host'' ''eq'' ''api.openai.com''))"
  "\<not> rule_matches no_regex (sample_context ''api.openai.com'') (agent_rule (convert_rule (store_rule_of capital_row)))"
proof -
  show "gw_matchRule no_regex (store_rule_of capital_row) ''api.openai.com'' ''/'' ''GET''" by code_simp
  show "tr_Matched (test_condition no_regex (test_context (sample_context ''api.openai.com'')) (condition ''Host'' ''eq'' ''api.openai.com''))" by code_simp
  have "\<not> list_all (condition_holds no_regex (sample_context ''api.openai.com'')) (pr_Conditions (agent_rule (convert_rule (store_rule_of capital_row))))" by code_simp
  then show "\<not> rule_matches no_regex (sample_context ''api.openai.com'') (agent_rule (convert_rule (store_rule_of capital_row)))"
    by (simp add: rule_matches_def list_all_iff)
qed

text \<open>A host of white space only: listed without conditions, that is as matching everything, and applied to nothing.\<close>

definition blank_row :: policy_row where
  "blank_row = no_uploads_row\<lparr>pv_Conditions := [], pv_MatchHost := Some '' '', pv_MatchMethod := None\<rparr>"

lemma blank_host_matches_nothing:
  "pt_rules (policy_exec open_env (Some policy_admin) (OpCreatePolicy (Some ((rule_request ''no uploads'' 5 ''block'' [])\<lparr>qr_MatchHost := Some '' ''\<rparr>))) no_rules) = [blank_row]"
  "pv_Conditions (listed_rule blank_row) = []" "\<not> gw_matchRule no_regex (store_rule_of blank_row) ''api.openai.com'' ''/'' ''GET''"
  by code_simp+

text \<open>The try-out does not know the capture surface, on which agents do match, and does not trim values, which creation does.\<close>

lemma try_out_misses_surface: "resolvePolicyTestField ''capture_surface'' x = []"
proof -
  have "canon ''capture_surface'' = ''capture_surface''" by code_simp
  then show ?thesis by (simp add: resolvePolicyTestField_def)
qed

lemma try_out_does_not_trim:
  "\<not> tr_Matched (test_condition no_regex (test_context (sample_context ''api.openai.com'')) (condition ''host'' ''eq'' '' api.openai.com''))"
  "tr_Matched (test_condition no_regex (test_context (sample_context ''api.openai.com'')) (trim_condition (condition ''host'' ''eq'' '' api.openai.com'')))"
  by code_simp+

end
