(* ===== verification/Spec2Isabelle.thy ===== *)
theory Spec2Isabelle
  imports Prompt_Capture Agent_Config Proxy Policy_Delivery Relay_Path Rate_Limiter Ledger_Findings Agent_Lifecycle Editor_Hooks Backend_Router Copilot_Install Proxy_Adapters Policy_Enforced
begin

text \<open>
  A verification development of Themisto, a system that governs the use of AI services on company
  machines: an endpoint agent, a gateway and a backend, written in Go under \<^verbatim>\<open>src/\<close>.

  \<^bold>\<open>The program.\<close> The agent is a local forward proxy. It attributes each request to a process and
  to an AI product, scans its body for sensitive data, asks its policy engine for a decision (forward,
  bypass, alert, block) and answers, relays to the gateway or connects directly. Browser extensions and
  editor hooks ask its prompt-capture service about prompts before they are sent. It polls the gateway for
  the policy and posts telemetry to it. The gateway authenticates a device by its client certificate
  (asking the backend whether it is revoked), judges relayed requests by the organisation's rules, delivers
  the rules to the agents and stores telemetry in batches. The backend enrols devices, serves
  administrators behind a rate limiter and keeps a ledger of AI usage and spend filled by connectors.

  \<^bold>\<open>Theories of the agent.\<close>
  \<^item> \<open>Prelude\<close>, \<open>Go_Stdlib\<close>, \<open>Sha256\<close>, \<open>Regex\<close>: the parts of the Go library that the code uses (strings,
    URLs, queries, headers, JSON values, \<^verbatim>\<open>sort.Slice\<close> as the locale \<open>slice_sort\<close>, SHA-256 on 32-bit words,
    a matcher for the regular expressions of the DLP patterns) and the locale of invariants of
    transition systems that the components interpret.
  \<^item> \<open>Domain_Types\<close> (\<^verbatim>\<open>core/domain/types.go\<close>): the data, with one record per struct and one datatype per enum.
  \<^item> \<open>AI_Catalog\<close> (\<^verbatim>\<open>core/domain/ai_services.go\<close>, \<^verbatim>\<open>ai_products.json\<close>): normalisation, merge and lookup of
    products; the embedded catalog is transcribed.
  \<^item> \<open>Policy_Engine\<close>, \<open>Policy_Sync\<close> (\<^verbatim>\<open>core/policy\<close>, \<^verbatim>\<open>core/routing\<close>): compiling, sorting and applying rules; an update
    is all or nothing and the engine decides by a matching rule of least priority; fetch rounds and
    their ticker.
  \<^item> \<open>Telemetry_Ring\<close> (\<^verbatim>\<open>core/telemetry\<close>): the ring buffer refines a bounded log; flushing drains before
    it sends.
  \<^item> \<open>Retry_Circuit\<close>, \<open>Gateway_Client\<close> (\<^verbatim>\<open>pkg/retry\<close>, \<^verbatim>\<open>core/transport/gateway.go\<close>): the breaker as a state machine
    on a clock, backoff, and the client over both.
  \<^item> \<open>DLP_Scanner\<close> (\<^verbatim>\<open>core/dlp\<close>): extraction of fields, patterns, keyword and source-code heuristics, redaction.
  \<^item> \<open>Prompt_Capture\<close> (\<^verbatim>\<open>core/promptcapture\<close>, \<^verbatim>\<open>core/promptsemantics\<close>): evaluation of a prompt through policy,
    the credential baseline and the semantic stage; the effective mode; the bounded store of evaluations.
  \<^item> \<open>Agent_Config\<close> (\<^verbatim>\<open>core/config\<close>): defaults, validation, the manager with its watchers.
  \<^item> \<open>AI_Activity\<close> (\<^verbatim>\<open>core/aiactivity\<close>): construction and validation of privacy-safe events.
  \<^item> \<open>Interception\<close>, \<open>Proxy\<close> (\<^verbatim>\<open>core/transport/proxy.go\<close>, \<^verbatim>\<open>protocol.go\<close>): which connections are opened, the wrapper
    headers, and the three request paths (plain, CONNECT, intercepted) with body inspection, telemetry
    and notifications.
  \<^item> \<open>Agent_Identity\<close>, \<open>Agent_Monitor\<close>, \<open>Agent_Lifecycle\<close> (\<^verbatim>\<open>core/identity\<close>, \<^verbatim>\<open>core/agent.go\<close>): credentials and their
    rotation and renewal, the integrity and heartbeat loops with the system-proxy registration, start-up,
    shutdown and reload.
  \<^item> \<open>Editor_Hooks\<close> (\<^verbatim>\<open>cmd/agent/hook_*.go\<close>): the prompt hooks of the editors and the Copilot session files.
  \<^item> \<open>Hook_Install\<close> (\<^verbatim>\<open>desktop/cursor.go\<close>, \<^verbatim>\<open>claudecode.go\<close>, \<^verbatim>\<open>windsurf.go\<close>, \<^verbatim>\<open>hook_support.go\<close>): installing, removing, repairing and
    detecting these hooks in the editors' configuration; the locale \<open>managed_hook\<close> is what the editors share.
  \<^item> \<open>Copilot_Install\<close> (\<^verbatim>\<open>desktop/copilot.go\<close>): the registration of the Copilot hooks in the settings of VS Code, with
    cleaning and comparison of paths and JSON with comments.
  \<^item> \<open>System_Proxy\<close>, \<open>Windows_Proxy\<close>, \<open>Darwin_Proxy\<close> (\<^verbatim>\<open>core/adapter/iface/system_proxy.go\<close>, \<^verbatim>\<open>adapter/windows/sysproxy.go\<close>,
    \<^verbatim>\<open>adapter/darwin/sysproxy.go\<close>): taking over the machine's proxy and giving it back. The contract is the
    locale \<open>system_proxy\<close>, which both adapters interpret; that a successful repair repairs is \<open>healing_proxy\<close>, which only
    the adapter of macOS satisfies.

  \<^bold>\<open>Theories of the gateway and the backend.\<close>
  \<^item> \<open>Cert_Verifier\<close> (\<^verbatim>\<open>gateway/internal/mtls\<close>): revocation and enforcement with a bounded cache.
  \<^item> \<open>Gateway_Policy\<close> (\<^verbatim>\<open>gateway/internal/policy\<close>, \<^verbatim>\<open>handler/policy.go\<close>): tenant-scoped evaluation and delivery.
  \<^item> \<open>Gateway_Buffer\<close> (\<^verbatim>\<open>gateway/internal/telemetry\<close>): four lanes of events, batching, audit entries, shutdown.
  \<^item> \<open>Gateway_Handler\<close> (\<^verbatim>\<open>handler/proxy.go\<close>, \<^verbatim>\<open>ai_activity.go\<close>): relay, enforcement and telemetry intake.
  \<^item> \<open>Rate_Limiter\<close> (\<^verbatim>\<open>backend/internal/api/ratelimit.go\<close>): the windowed counter per address.
  \<^item> \<open>Control_Plane\<close> (\<^verbatim>\<open>backend/internal/controlplane\<close>): who may enrol, cached, failing open or closed.
  \<^item> \<open>Base64\<close>, \<open>Backend_Store\<close> (\<^verbatim>\<open>backend/internal/store\<close>): the tables as lists of rows and each SQL statement that
    changes them as a function that may fail.
  \<^item> \<open>Backend_Enrollment\<close>, \<open>Backend_Devices\<close> (\<^verbatim>\<open>backend/internal/api\<close>, \<^verbatim>\<open>signing\<close>, \<^verbatim>\<open>token\<close>): tokens, validation and signing of
    requests, registration, packages and links, revocation, suspension and offboarding. All handlers are
    steps of one relation; its invariants (one active certificate per device, final revocation, tokens
    used once) come from the locale \<open>advancing\<close>.
  \<^item> \<open>Backend_Auth\<close>, \<open>Backend_Sessions\<close>, \<open>Backend_Router\<close> (\<^verbatim>\<open>auth.go\<close>, \<^verbatim>\<open>settings_handler.go\<close>, \<^verbatim>\<open>operator_auth.go\<close>, \<^verbatim>\<open>router.go\<close>): accounts and
    sessions, the history of a session, operator sessions signed with HMAC, the route table with its guards,
    and who reaches which handler.
  \<^item> \<open>Policy_Store\<close>, \<open>Policy_Admin\<close>, \<open>Policy_Enforced\<close> (\<^verbatim>\<open>policy_v2.go\<close>, \<^verbatim>\<open>managed_dlp_policy.go\<close>, \<^verbatim>\<open>ai_governance.go\<close>,
    \<^verbatim>\<open>policy_handler.go\<close>, \<^verbatim>\<open>ai_governance_handler.go\<close> of the backend, the rule query of \<^verbatim>\<open>gateway/internal/store/postgres.go\<close>): the rules
    that administrators write, the managed rules and vendor blocks, and what they mean at the gateway and at the agents.
  \<^item> \<open>AI_Ledger\<close>, \<open>Ledger_Findings\<close> (\<^verbatim>\<open>backend/internal/ailedger\<close>): provenance, reconciliation, connectors, insights.

  \<^bold>\<open>Composition.\<close> \<open>Policy_Delivery\<close> joins the gateway's endpoint to the agent's sync loop: after a round
  the agent decides as the gateway does. \<open>Relay_Path\<close> joins the agent's relay to the gateway's handler:
  the gateway judges and contacts exactly the URL the application asked for. \<open>Gateway_Handler\<close> contains the
  agent's activity events being accepted, and an unknown certificate passing through verifier and handler.
  \<open>Policy_Enforced\<close> goes from the dashboard's list of rules through the gateway to the agents, by way of \<open>Policy_Delivery\<close>.
  \<open>Proxy_Adapters\<close> runs the proxy adapters under the agent: runs that end, crashes, and the monitor's repairs.

  \<^bold>\<open>How code becomes definitions.\<close> A struct is a record whose fields carry a short prefix; a method is a
  function from the old state to the result and the new state; a mutex makes it atomic, and goroutines
  are interleavings of such operations, as lists of operations or as a relation whose invariants are
  proved by induction. An error return is a value of a sum type or an option. Machine words keep their
  width where wrap-around is visible (the SHA-256 words, the 64-bit poll interval); elsewhere Go's
  \<^verbatim>\<open>int\<close> is \<open>int\<close>. A string is its list of bytes, and case mapping and white space are those of ASCII.
  Ranging over a map is a parameter that permutes the entries, or an order-independent definition.

  \<^bold>\<open>Parameters.\<close> What the code does not itself determine is an argument: the clock, \<^verbatim>\<open>regexp.Compile\<close> of policy
  rules, JSON coding, the outcome of network calls, database calls and platform calls. Assumptions
  on such an argument are hypotheses of the theorem that needs them, and each such theorem has a
  witness on concrete arguments.

  \<^bold>\<open>Loops and fuel.\<close> Loops over data are structural or have a measure; the DLP matcher recurses on
  the expression and on the length of the input. The retry loop and the sync of a connector are
  bounded by their attempt counts. Loops that run until the process ends (polling, flushing, serving) are
  modelled by their rounds, and the statements quantify over all finite sequences of rounds.

  \<^bold>\<open>What the theorems show.\<close> Enforcement: credentials in prompts to AI services are blocked, no later
  stage weakens a decision, and a block holds on every path of the proxy. Policy: first match, atomic
  update, agreement of dashboard, gateway and agent, isolation of tenants. Privacy: excerpts are redacted, central
  telemetry carries no content. Accounting: the ring buffer and the gateway's buffer lose nothing but
  what they count, within their bounds. Availability: the breaker, the verifier's cache and the rate
  limiter. Ledger: evidence levels are never upgraded, matches are unique, findings are exact and do not
  depend on map order. Several theorems state behaviour that the authors did not intend, such as
  \<open>half_open_two_probes_then_stuck\<close>, \<open>unknown_certificate_reaches_upstream\<close> and \<open>shutdown_saves_nothing\<close>.

  \<^bold>\<open>Not modelled.\<close> The other platform adapters (processes, certificate stores, services), installers and the rest of
  the desktop application (external tools and user interface), the path rules of Windows; the X.509 arithmetic and the interception CA; the SQL of reports and the API
  handlers that only translate between JSON and SQL; the agent's local status API; the adapters and the
  credential cipher of the ledger; the web front ends.
\<close>

end
